(* ===== verification/Prelude.thy ===== *)
theory Prelude
  imports Complex_Main
begin

text \<open>
  What every component of the development shares: the error monad (a Python exception is the
  left summand of a sum), Python strings and their truth value, the decimal rounding and the
  double-precision product the code relies on, and the lemma collections.

  A Python \<open>str\<close> is a HOL \<open>string\<close>: the character number \<open>n\<close> stands for the code point \<open>n\<close>,
  so the strings of the model are those over the code points below 256. Every operation the
  modelled code applies to a string (equality, truth value, prefix, strip, the ASCII pattern of a
  checksum, JSON escaping) looks at single code points only. Unicode NFC normalisation is the
  identity on these strings, because no code point below 256 is a combining mark and all of
  them are NFC-stable.
\<close>

named_theorems res_simps \<open>equations of the error monad\<close>
named_theorems inv_intros \<open>introduction rules for the preservation of invariants\<close>

section \<open>Results: an exception or a value\<close>

definition bind_res :: "'e + 'a \<Rightarrow> ('a \<Rightarrow> 'e + 'b) \<Rightarrow> 'e + 'b" where
  "bind_res m f = (case m of Inl e \<Rightarrow> Inl e | Inr x \<Rightarrow> f x)"

lemma bind_res_Inl [simp, res_simps]: "bind_res (Inl e) f = Inl e"
  by (simp add: bind_res_def)

lemma bind_res_Inr [simp, res_simps]: "bind_res (Inr x) f = f x"
  by (simp add: bind_res_def)

lemma bind_res_eq_Inr: "bind_res m f = Inr y \<longleftrightarrow> (\<exists>x. m = Inr x \<and> f x = Inr y)"
  by (cases m) auto

lemma bind_res_InrE:
  assumes "bind_res m f = Inr y"
  obtains x where "m = Inr x" and "f x = Inr y"
  using assms by (auto simp: bind_res_eq_Inr)

definition is_ok :: "'e + 'a \<Rightarrow> bool" where
  "is_ok r = (case r of Inl _ \<Rightarrow> False | Inr _ \<Rightarrow> True)"

lemma is_ok_simps [simp]: "\<not> is_ok (Inl e)" "is_ok (Inr x)"
  by (simp_all add: is_ok_def)

section \<open>Python strings\<close>

text \<open>\<open>str.isspace\<close> on the code points below 256: 9-13, 28-32, 133 and 160.\<close>

definition py_isspace :: "char \<Rightarrow> bool" where
  "py_isspace c = (let n = of_char c :: nat
     in (9 \<le> n \<and> n \<le> 13) \<or> (28 \<le> n \<and> n \<le> 32) \<or> n = 133 \<or> n = 160)"

text \<open>\<open>s and s.strip()\<close> as a condition: some character is not white space.\<close>

definition py_nonblank :: "string \<Rightarrow> bool" where
  "py_nonblank s = list_ex (\<lambda>c. \<not> py_isspace c) s"

definition py_startswith :: "string \<Rightarrow> string \<Rightarrow> bool" where
  "py_startswith s p = (take (length p) s = p)"

text \<open>\<open>p in s\<close>\<close>

fun py_contains :: "string \<Rightarrow> string \<Rightarrow> bool" where
  "py_contains p [] = (p = [])"
| "py_contains p (ch # s) = (py_startswith (ch # s) p \<or> py_contains p s)"

lemma py_nonblank_not_Nil: "py_nonblank s \<Longrightarrow> s \<noteq> []"
  by (auto simp: py_nonblank_def)

text \<open>The truth value of an optional string: neither \<open>None\<close> nor empty.\<close>

definition truthy :: "string option \<Rightarrow> bool" where
  "truthy x = (x \<noteq> None \<and> x \<noteq> Some [])"

text \<open>The decimal digits of a natural number, and \<open>str(n)\<close> for a Python integer.\<close>

definition digit_char :: "nat \<Rightarrow> char" where
  "digit_char d = char_of (48 + d)"

fun nat_decimal :: "nat \<Rightarrow> string" where
  "nat_decimal n =
     (if n < 10 then [digit_char n] else nat_decimal (n div 10) @ [digit_char (n mod 10)])"

declare nat_decimal.simps [simp del]

definition int_decimal :: "int \<Rightarrow> string" where
  "int_decimal i = (if i < 0 then CHR ''-'' # nat_decimal (nat (- i)) else nat_decimal (nat i))"

section \<open>Rounding\<close>

text \<open>
  \<open>round(x, ndigits)\<close> rounds to the nearest multiple, a tie to the even one. Time stamps are
  rationals here, so the argument is exact.
\<close>

definition round_half_even :: "rat \<Rightarrow> int" where
  "round_half_even q =
     (let f = \<lfloor>q\<rfloor>; r = q - of_int f
      in if r < 1 / 2 then f else if 1 / 2 < r then f + 1 else if even f then f else f + 1)"

definition py_round1 :: "rat \<Rightarrow> rat" where
  "py_round1 q = of_int (round_half_even (q * 10)) / 10"

definition py_round0 :: "rat \<Rightarrow> rat" where
  "py_round0 q = of_int (round_half_even q)"

text \<open>
  The double-precision product of a small integer with a constant. \<open>round53 p\<close> rounds a positive
  integer to 53 significant bits, a tie to the even one, which is what the hardware does with
  the exact product of two significands. The constant 0.7 is \<open>seven_tenths / 2^53\<close>, the double
  nearest to 0.7, and \<open>int()\<close> truncates the product.
\<close>

fun bit_length :: "nat \<Rightarrow> nat" where
  "bit_length n = (if n = 0 then 0 else Suc (bit_length (n div 2)))"

declare bit_length.simps [simp del]

definition round53 :: "nat \<Rightarrow> nat" where
  "round53 p =
     (let b = bit_length p; k = b - 53; u = 2 ^ k; f = p div u; r = p mod u
      in if k = 0 then p
         else (if 2 * r < u then f else if u < 2 * r then f + 1
               else if even f then f else f + 1) * u)"

definition seven_tenths :: nat where
  "seven_tenths = 6305039478318694"

definition int_times_0_7 :: "nat \<Rightarrow> nat" where
  "int_times_0_7 c = round53 (c * seven_tenths) div 2 ^ 53"

text \<open>The product with 0.5 is exact for the integers of the code, so \<open>int()\<close> halves.\<close>

definition int_times_0_5 :: "nat \<Rightarrow> nat" where
  "int_times_0_5 c = c div 2"

lemma seven_tenths_nearest:
  "\<bar>of_nat seven_tenths - (7 / 10) * 2 ^ 53\<bar> < (1 / 2 :: rat)" "bit_length seven_tenths = 53"
  by (simp_all add: seven_tenths_def bit_length.simps)

section \<open>Lists and maps\<close>

lemma map_of_filter_neq:
  "map_of (filter (\<lambda>p. fst p \<noteq> k) xs) k' = (if k' = k then None else map_of xs k')"
  by (induction xs) auto

lemma distinct_map_filter_key: "distinct (map f xs) \<Longrightarrow> distinct (map f (filter P xs))"
  by (induction xs) auto

lemma find_Some_in: "find P xs = Some x \<Longrightarrow> x \<in> set xs \<and> P x"
  by (induction xs) (auto split: if_splits)

lemma find_None_all: "find P xs = None \<longleftrightarrow> (\<forall>x \<in> set xs. \<not> P x)"
  by (induction xs) auto

lemma find_unique:
  assumes "x \<in> set xs" and "P x" and "\<And>y. y \<in> set xs \<Longrightarrow> P y \<Longrightarrow> y = x"
  shows "find P xs = Some x"
proof -
  have "find P xs \<noteq> None" using assms(1,2) by (auto simp: find_None_all)
  then obtain y where y: "find P xs = Some y" by blast
  then show ?thesis using assms(3) find_Some_in [OF y] by simp
qed

lemma foldl_append_concat: "foldl (\<lambda>acc x. acc @ f x) a xs = a @ concat (map f xs)"
  by (induction xs arbitrary: a) auto

end
