(* ===== verification/TokenBucket.thy ===== *)
theory TokenBucket
  imports Prelude
begin

text \<open>
  The class \<open>TokenBucket\<close> of \<open>rate_limiter.py\<close>: a counter of the requests of one fixed window.
  \<open>time.monotonic()\<close> is an argument of each operation, a rational number of seconds; an
  operation returns the bucket it leaves behind with its value. \<open>win_ok\<close> is the counting argument
  behind every rate bound: it relates the requests granted since an instant to the counter.
\<close>

record token_bucket =
  tb_capacity :: int
  tb_request_count :: int
  tb_window_seconds :: rat
  tb_window_start :: rat

definition new_bucket :: "int \<Rightarrow> rat \<Rightarrow> rat \<Rightarrow> token_bucket" where
  "new_bucket capacity window_seconds now =
     \<lparr>tb_capacity = capacity, tb_request_count = 0, tb_window_seconds = window_seconds,
      tb_window_start = now\<rparr>"

definition maybe_reset_window :: "rat \<Rightarrow> token_bucket \<Rightarrow> token_bucket" where
  "maybe_reset_window now b =
     (if tb_window_seconds b \<le> now - tb_window_start b
      then b\<lparr>tb_request_count := 0, tb_window_start := now\<rparr> else b)"

definition try_consume :: "rat \<Rightarrow> token_bucket \<Rightarrow> token_bucket \<times> bool \<times> rat" where
  "try_consume now b =
     (let b1 = maybe_reset_window now b
      in if tb_request_count b1 < tb_capacity b1
         then (b1\<lparr>tb_request_count := tb_request_count b1 + 1\<rparr>, True, 0)
         else (let elapsed_in_window = now - tb_window_start b1;
                   retry_after = tb_window_seconds b1 - elapsed_in_window
               in (b1, False, max 0 retry_after)))"

definition usage_fraction :: "rat \<Rightarrow> token_bucket \<Rightarrow> token_bucket \<times> rat" where
  "usage_fraction now b =
     (if tb_capacity b = 0 then (b, 0)
      else (let b1 = maybe_reset_window now b
            in (b1, min 1 (of_int (tb_request_count b1) / of_int (tb_capacity b1)))))"

definition consumed_count :: "rat \<Rightarrow> token_bucket \<Rightarrow> token_bucket \<times> int" where
  "consumed_count now b = (let b1 = maybe_reset_window now b in (b1, tb_request_count b1))"

definition seconds_until_reset :: "rat \<Rightarrow> token_bucket \<Rightarrow> rat" where
  "seconds_until_reset now b =
     (let elapsed_in_window = now - tb_window_start b;
          remaining = tb_window_seconds b - elapsed_in_window
      in max 0 remaining)"

definition rollback :: "token_bucket \<Rightarrow> token_bucket" where
  "rollback b =
     (if 0 < tb_request_count b then b\<lparr>tb_request_count := tb_request_count b - 1\<rparr> else b)"

lemmas bucket_defs = new_bucket_def maybe_reset_window_def try_consume_def consumed_count_def
  rollback_def Let_def

section \<open>The bucket invariant\<close>

definition bucket_ok :: "int \<Rightarrow> rat \<Rightarrow> token_bucket \<Rightarrow> bool" where
  "bucket_ok capacity window b \<longleftrightarrow>
     tb_capacity b = capacity \<and> tb_window_seconds b = window
     \<and> 0 \<le> tb_request_count b \<and> tb_request_count b \<le> capacity"

lemma bucket_ok_new [simp]: "bucket_ok cap w (new_bucket cap w now) \<longleftrightarrow> 0 \<le> cap"
  by (simp add: bucket_ok_def new_bucket_def)

lemma bucket_ok_reset [inv_intros]:
  "bucket_ok cap w b \<Longrightarrow> bucket_ok cap w (maybe_reset_window now b)"
  by (auto simp: bucket_ok_def maybe_reset_window_def)

lemma bucket_ok_consume [inv_intros]:
  "bucket_ok cap w b \<Longrightarrow> bucket_ok cap w (fst (try_consume now b))"
  by (auto simp: bucket_ok_def bucket_defs)

lemma bucket_ok_count [inv_intros]:
  "bucket_ok cap w b \<Longrightarrow> bucket_ok cap w (fst (consumed_count now b))"
  by (auto simp: bucket_ok_def bucket_defs)

lemma bucket_ok_rollback [inv_intros]: "bucket_ok cap w b \<Longrightarrow> bucket_ok cap w (rollback b)"
  by (auto simp: bucket_ok_def rollback_def)

lemma fst_consumed_count: "fst (consumed_count now b) = maybe_reset_window now b"
  by (simp add: consumed_count_def Let_def)

section \<open>Counting the requests granted since an instant\<close>

text \<open>
  \<open>n\<close> requests were granted since the instant \<open>a\<close>: all of them are in the counter while the window
  began before \<open>a\<close>, and after the one reset a shorter interval has, at most a full capacity is not.
\<close>

definition win_ok :: "int \<Rightarrow> rat \<Rightarrow> rat \<Rightarrow> int \<Rightarrow> token_bucket \<Rightarrow> bool" where
  "win_ok capacity window a n b \<longleftrightarrow>
     bucket_ok capacity window b
     \<and> (if tb_window_start b < a then n \<le> tb_request_count b
        else n \<le> capacity + tb_request_count b)"

lemma win_ok_bound: "win_ok cap w a n b \<Longrightarrow> n \<le> 2 * cap"
  by (auto simp: win_ok_def bucket_ok_def split: if_splits)

lemma win_ok_start: "bucket_ok cap w b \<Longrightarrow> win_ok cap w a 0 b"
  by (auto simp: win_ok_def bucket_ok_def)

lemma win_ok_imp_bucket_ok: "win_ok cap w a n b \<Longrightarrow> bucket_ok cap w b"
  by (simp add: win_ok_def)

lemma win_ok_reset [inv_intros]:
  "win_ok cap w a n b \<Longrightarrow> a \<le> now \<Longrightarrow> now < a + w \<Longrightarrow> win_ok cap w a n (maybe_reset_window now b)"
  by (auto simp: win_ok_def bucket_ok_def maybe_reset_window_def split: if_splits)

lemma win_ok_count [inv_intros]:
  "win_ok cap w a n b \<Longrightarrow> a \<le> now \<Longrightarrow> now < a + w \<Longrightarrow> win_ok cap w a n (fst (consumed_count now b))"
  by (simp add: fst_consumed_count win_ok_reset)

lemma win_ok_consume:
  assumes "win_ok cap w a n b" and "a \<le> now" and "now < a + w"
  shows "win_ok cap w a (if fst (snd (try_consume now b)) then n + 1 else n)
           (fst (try_consume now b))"
  using win_ok_reset [OF assms] by (auto simp: win_ok_def bucket_ok_def try_consume_def Let_def)

lemma rollback_consume:
  assumes "try_consume now b = (b1, True, r)" and "bucket_ok cap w b"
  shows "rollback b1 = maybe_reset_window now b"
  using bucket_ok_reset [OF assms(2), of now] assms(1)
  by (auto simp: try_consume_def rollback_def bucket_ok_def Let_def split: if_splits)

section \<open>Runs of one bucket\<close>

text \<open>The requests that a run of \<open>try_consume\<close> at the given instants grants.\<close>

primrec consume_run :: "token_bucket \<Rightarrow> rat list \<Rightarrow> token_bucket \<times> int" where
  "consume_run b [] = (b, 0)"
| "consume_run b (now # ts) =
     (let (b1, ok, r) = try_consume now b; (b2, n) = consume_run b1 ts
      in (b2, if ok then n + 1 else n))"

lemma consume_run_win_ok:
  "win_ok cap w a n b \<Longrightarrow> \<forall>x \<in> set ts. a \<le> x \<and> x < a + w
   \<Longrightarrow> win_ok cap w a (n + snd (consume_run b ts)) (fst (consume_run b ts))"
proof (induction ts arbitrary: n b)
  case (Cons now ts)
  obtain b1 ok r where c: "try_consume now b = (b1, ok, r)" by (metis prod_cases3)
  have "win_ok cap w a (if ok then n + 1 else n) b1"
    using win_ok_consume [of cap w a n b now] Cons.prems c by simp
  from Cons.IH [OF this] Cons.prems(2) c show ?case
    by (cases ok) (auto split: prod.splits simp: algebra_simps)
qed auto

text \<open>Inside the current window no reset happens.\<close>

lemma consume_run_same_window:
  "bucket_ok cap w b \<Longrightarrow> \<forall>x \<in> set ts. a \<le> x \<and> x < a + w \<Longrightarrow> a = tb_window_start b
   \<Longrightarrow> tb_request_count b + snd (consume_run b ts) \<le> cap"
proof (induction ts arbitrary: b)
  case Nil
  then show ?case by (simp add: bucket_ok_def)
next
  case (Cons now ts)
  obtain b1 ok r where c: "try_consume now b = (b1, ok, r)" by (metis prod_cases3)
  have b1: "b1 = (if ok then b\<lparr>tb_request_count := tb_request_count b + 1\<rparr> else b)"
    using c Cons.prems by (auto simp: bucket_defs bucket_ok_def split: if_splits)
  have "bucket_ok cap w b1" using bucket_ok_consume [OF Cons.prems(1), of now] c by simp
  then have "tb_request_count b1 + snd (consume_run b1 ts) \<le> cap"
    using Cons.IH [of b1] Cons.prems b1 by (simp split: if_splits)
  with c b1 show ?case by (cases ok) (auto split: prod.splits)
qed

section \<open>Properties\<close>

text \<open>a bucket grants at most twice its capacity in any interval shorter than its window,
  wherever the interval lies: the fixed window is reset at most once in it. Within one window,
  counted from its start, it grants at most its capacity.\<close>

theorem bucket_rate_bound:
  assumes "bucket_ok cap w b" and "\<forall>t \<in> set ts. a \<le> t \<and> t < a + w"
  shows "snd (consume_run b ts) \<le> 2 * cap
    \<and> (a = tb_window_start b \<longrightarrow> tb_request_count b + snd (consume_run b ts) \<le> cap)"
proof -
  have "snd (consume_run b ts) \<le> 2 * cap"
    using consume_run_win_ok [OF win_ok_start [OF assms(1)] assms(2)]
    by (simp add: win_ok_bound)
  moreover have "tb_request_count b + snd (consume_run b ts) \<le> cap" if "a = tb_window_start b"
    using assms that by (rule consume_run_same_window)
  ultimately show ?thesis by blast
qed

lemma bucket_rate_bound_witness:
  "snd (consume_run (new_bucket 2 60 0) [1, 2, 3]) \<le> 2 * 2"
  using bucket_rate_bound [of 2 60 "new_bucket 2 60 0" "[1, 2, 3]" 0] by simp

text \<open>the wait a denied request is told is exact: before it has passed every request is
  denied, and from then on the next one is granted.\<close>

theorem retry_after_is_exact:
  assumes "try_consume now b = (b1, False, r)" and "bucket_ok cap w b" and "0 < cap"
    and "now \<le> now'"
  shows "fst (snd (try_consume now' b1)) \<longleftrightarrow> now + r \<le> now'"
  using assms by (auto simp: try_consume_def maybe_reset_window_def bucket_ok_def Let_def
      split: if_splits)

lemma retry_after_is_exact_witness:
  "fst (snd (try_consume 60 (new_bucket 1 60 0\<lparr>tb_request_count := 1\<rparr>)))
   \<and> \<not> fst (snd (try_consume 59 (new_bucket 1 60 0\<lparr>tb_request_count := 1\<rparr>)))"
proof -
  let ?b = "new_bucket 1 60 0\<lparr>tb_request_count := 1\<rparr>"
  have d: "try_consume 20 ?b = (?b, False, 40)" by (simp add: bucket_defs)
  have ok: "bucket_ok 1 60 ?b" by (simp add: bucket_ok_def new_bucket_def)
  show ?thesis
    using retry_after_is_exact [OF d ok, of 60] retry_after_is_exact [OF d ok, of 59] by simp
qed

end
