(* ===== verification/PyJson.thy ===== *)
theory PyJson
  imports Prelude "HOL-Library.Char_ord" "HOL-Library.List_Lexorder"
begin

text \<open>
  The JSON-shaped Python values the contract code reads and writes: what \<open>json.loads\<close>
  returns and \<open>json.dumps\<close> accepts, the names \<open>type(value).__name__\<close> prints, dictionary
  access with \<open>dict.get\<close>, and the two forms of \<open>json.dumps\<close> that are hashed.

  A \<open>float\<close> is a finite value, a NaN or an infinity; \<open>json.loads\<close> accepts the literals
  \<open>NaN\<close>, \<open>Infinity\<close> and \<open>-Infinity\<close>, so all four kinds reach the code. A finite float is
  represented by the rational that its shortest round-tripping decimal denotes, the number a
  reader of the JSON sees: distinct floats have distinct such decimals, in the same order, and
  0.0 and 1.0 are themselves. (The two zeros are one value here, as they are for \<open>==\<close>.) The
  modelled code only compares floats and stores them. The text \<open>float.__repr__\<close> prints for a
  finite float is a parameter of the printers.
\<close>

datatype pyfloat = PFin rat | PNaN | PInf | PNegInf

text \<open>Comparison of floats; every comparison with a NaN is false.\<close>

fun pf_less :: "pyfloat \<Rightarrow> pyfloat \<Rightarrow> bool" where
  "pf_less (PFin a) (PFin b) = (a < b)"
| "pf_less PNegInf (PFin _) = True"
| "pf_less PNegInf PInf = True"
| "pf_less (PFin _) PInf = True"
| "pf_less _ _ = False"

lemma pf_less_NaN [simp]: "\<not> pf_less PNaN x" "\<not> pf_less x PNaN"
  by (cases x; simp)+

text \<open>
  Python values: \<open>JList\<close> is a list or a tuple, \<open>JObj\<close> a dict as the list of its items in
  insertion order (the keys of a dict are distinct).
\<close>

datatype json =
    JNull
  | JBool bool
  | JInt int
  | JFloat pyfloat
  | JStr string
  | JList "json list"
  | JObj "(string \<times> json) list"

type_synonym dict = "(string \<times> json) list"

fun type_name :: "json \<Rightarrow> string" where
  "type_name JNull = ''NoneType''"
| "type_name (JBool _) = ''bool''"
| "type_name (JInt _) = ''int''"
| "type_name (JFloat _) = ''float''"
| "type_name (JStr _) = ''str''"
| "type_name (JList _) = ''list''"
| "type_name (JObj _) = ''dict''"

text \<open>\<open>d.get(k, default)\<close> and \<open>d.get(k)\<close>.\<close>

definition dget :: "dict \<Rightarrow> string \<Rightarrow> json \<Rightarrow> json" where
  "dget d k dflt = (case map_of d k of None \<Rightarrow> dflt | Some v \<Rightarrow> v)"

abbreviation dget0 :: "dict \<Rightarrow> string \<Rightarrow> json" where
  "dget0 d k \<equiv> dget d k JNull"

lemma dget_Nil [simp]: "dget [] k v = v"
  by (simp add: dget_def)

lemma dget_Cons [simp]: "dget ((k', x) # d) k v = (if k = k' then x else dget d k v)"
  by (simp add: dget_def)

section \<open>json.dumps\<close>

text \<open>
  String literals with \<open>ensure_ascii=False\<close>: the quote, the backslash and the control
  characters below 32 are escaped, everything else is copied.
\<close>

definition hex_char :: "nat \<Rightarrow> char" where
  "hex_char d = (if d < 10 then char_of (48 + d) else char_of (87 + d))"

definition json_escape_char :: "char \<Rightarrow> string" where
  "json_escape_char c =
     (let n = of_char c :: nat
      in if n = 34 then [CHR 0x5C, CHR 0x22]
         else if n = 92 then [CHR 0x5C, CHR 0x5C]
         else if n = 10 then [CHR 0x5C, CHR ''n'']
         else if n = 13 then [CHR 0x5C, CHR ''r'']
         else if n = 9 then [CHR 0x5C, CHR ''t'']
         else if n = 8 then [CHR 0x5C, CHR ''b'']
         else if n = 12 then [CHR 0x5C, CHR ''f'']
         else if n < 32 then [CHR 0x5C, CHR ''u'', CHR ''0'', CHR ''0'',
                              hex_char (n div 16), hex_char (n mod 16)]
         else [c])"

definition json_quote :: "string \<Rightarrow> string" where
  "json_quote s = [CHR 0x22] @ concat (map json_escape_char s) @ [CHR 0x22]"

fun join_with :: "string \<Rightarrow> string list \<Rightarrow> string" where
  "join_with sep [] = []"
| "join_with sep [x] = x"
| "join_with sep (x # y # zs) = x @ sep @ join_with sep (y # zs)"

definition float_text :: "(rat \<Rightarrow> string) \<Rightarrow> pyfloat \<Rightarrow> string" where
  "float_text frepr f =
     (case f of PFin q \<Rightarrow> frepr q | PNaN \<Rightarrow> ''NaN'' | PInf \<Rightarrow> ''Infinity'' | PNegInf \<Rightarrow> ''-Infinity'')"

text \<open>
  \<open>json.dumps(d, sort_keys=True, separators=(",", ":"), ensure_ascii=False)\<close>. Keys sort by
  code point, at every depth.
\<close>

primrec dumps_sorted :: "(rat \<Rightarrow> string) \<Rightarrow> json \<Rightarrow> string" where
  "dumps_sorted fr JNull = ''null''"
| "dumps_sorted fr (JBool b) = (if b then ''true'' else ''false'')"
| "dumps_sorted fr (JInt i) = int_decimal i"
| "dumps_sorted fr (JFloat f) = float_text fr f"
| "dumps_sorted fr (JStr s) = json_quote s"
| "dumps_sorted fr (JList xs) =
     ''['' @ join_with '','' (map (dumps_sorted fr) xs) @ '']''"
| "dumps_sorted fr (JObj kvs) =
     ''{'' @ join_with '',''
       (map (\<lambda>(k, t). json_quote k @ '':'' @ t)
         (sort_key fst (map (map_prod id (dumps_sorted fr)) kvs))) @ ''}''"

lemma dumps_sorted_example:
  "dumps_sorted (\<lambda>_. ''0.5'')
     (JObj [(''b'', JList [JInt (-12), JNull]), (''a'', JFloat (PFin (1/2)))]) =
   ''{'' @ [CHR 0x22] @ ''a'' @ [CHR 0x22] @ '':0.5,'' @ [CHR 0x22] @ ''b'' @ [CHR 0x22] @ '':[-12,null]}''"
  by (simp add: json_quote_def json_escape_char_def float_text_def int_decimal_def
      nat_decimal.simps digit_char_def char_of_def bit_0 sort_key_def)

end
