(* ===== verification/UserProfiles.thy ===== *)
theory UserProfiles
  imports PyJson
begin

text \<open>
  The rate profiles of \<open>rate_limiter.py\<close> and where a user's profile is kept: the append-only
  JSONL file (\<open>_load_user_profiles\<close>, \<open>_save_user_profile\<close>) or the table of
  \<open>SqliteProfileStorage\<close>. A line of the file is what \<open>json.loads\<close> makes of it, \<open>None\<close> where it
  raises \<open>JSONDecodeError\<close> (or a \<open>ValueError\<close>); blank lines are skipped before that and do not
  occur. The loader catches \<open>ValueError\<close> and \<open>TypeError\<close> only, so the two other exceptions that
  a JSON value can cause are results of the model.
\<close>

record limits =
  per_minute :: int
  per_hour :: int
  per_day :: int

definition profiles :: "(string \<times> limits) list" where
  "profiles =
     [(''light'', \<lparr>per_minute = 17, per_hour = 100, per_day = 400\<rparr>),
      (''normal'', \<lparr>per_minute = 25, per_hour = 350, per_day = 1500\<rparr>),
      (''power'', \<lparr>per_minute = 60, per_hour = 900, per_day = 10000\<rparr>),
      (''unlimited'', \<lparr>per_minute = 0, per_hour = 0, per_day = 0\<rparr>)]"

definition default_profile :: string where
  "default_profile = ''normal''"

definition known_profile :: "string \<Rightarrow> bool" where
  "known_profile p = (map_of profiles p \<noteq> None)"

text \<open>\<open>PROFILES.get(profile, PROFILES[DEFAULT_PROFILE])\<close>.\<close>

definition profile_limits :: "string \<Rightarrow> limits" where
  "profile_limits p =
     (case map_of profiles p of
        Some l \<Rightarrow> l
      | None \<Rightarrow> \<lparr>per_minute = 25, per_hour = 350, per_day = 1500\<rparr>)"

lemma profile_limits_default: "map_of profiles default_profile = Some (profile_limits p)"
  if "\<not> known_profile p"
  using that by (simp add: profile_limits_def known_profile_def profiles_def default_profile_def)

lemma limits_nonneg [simp]:
  "0 \<le> per_minute (profile_limits p)" "0 \<le> per_hour (profile_limits p)"
  "0 \<le> per_day (profile_limits p)"
  by (auto simp: profile_limits_def profiles_def)

section \<open>int(value)\<close>

text \<open>
  \<open>int(s)\<close> of a string: the text between leading and trailing blanks is a sign and digits, single
  underscores allowed between two digits, and at most 4300 digits. The blanks are the code points
  9 to 13, 32, 133 and 160.
\<close>

definition int_blank :: "char \<Rightarrow> bool" where
  "int_blank c = (let n = of_char c :: nat in (9 \<le> n \<and> n \<le> 13) \<or> n = 32 \<or> n = 133 \<or> n = 160)"

definition is_digit :: "char \<Rightarrow> bool" where
  "is_digit c = (let n = of_char c :: nat in 48 \<le> n \<and> n \<le> 57)"

fun scan_digits :: "int \<Rightarrow> nat \<Rightarrow> bool \<Rightarrow> string \<Rightarrow> int option" where
  "scan_digits acc n after_digit [] = (if after_digit \<and> n \<le> 4300 then Some acc else None)"
| "scan_digits acc n after_digit (ch # rest) =
     (if is_digit ch then scan_digits (10 * acc + (of_char ch - 48)) (Suc n) True rest
      else if ch = CHR ''_'' \<and> after_digit then scan_digits acc n False rest
      else None)"

definition py_strip_by :: "(char \<Rightarrow> bool) \<Rightarrow> string \<Rightarrow> string" where
  "py_strip_by p s = rev (dropWhile p (rev (dropWhile p s)))"

definition int_of_str :: "string \<Rightarrow> int option" where
  "int_of_str s =
     (case py_strip_by int_blank s of
        [] \<Rightarrow> None
      | ch # rest \<Rightarrow>
          if ch = CHR ''-'' then map_option uminus (scan_digits 0 0 False rest)
          else if ch = CHR ''+'' then scan_digits 0 0 False rest
          else scan_digits 0 0 False (ch # rest))"

lemma int_of_str_examples:
  "int_of_str '' +1_0 '' = Some 10 \<and> int_of_str ''-007'' = Some (- 7)
   \<and> int_of_str ''1__0'' = None \<and> int_of_str ''_1'' = None \<and> int_of_str ''1_'' = None
   \<and> int_of_str ''+ 5'' = None \<and> int_of_str '''' = None \<and> int_of_str ''12'' = Some 12"
  by code_simp

text \<open>What \<open>int(v)\<close> raises: \<open>NoInt\<close> is a \<open>ValueError\<close> or \<open>TypeError\<close>, caught by the loader.\<close>

datatype int_error = NoInt | IntOverflow

fun py_int :: "json \<Rightarrow> int_error + int" where
  "py_int JNull = Inl NoInt"
| "py_int (JBool b) = Inr (if b then 1 else 0)"
| "py_int (JInt i) = Inr i"
| "py_int (JFloat (PFin q)) = Inr (if 0 \<le> q then \<lfloor>q\<rfloor> else - \<lfloor>- q\<rfloor>)"
| "py_int (JFloat PNaN) = Inl NoInt"
| "py_int (JFloat _) = Inl IntOverflow"
| "py_int (JStr s) = (case int_of_str s of None \<Rightarrow> Inl NoInt | Some i \<Rightarrow> Inr i)"
| "py_int (JList _) = Inl NoInt"
| "py_int (JObj _) = Inl NoInt"

section \<open>The profile file\<close>

datatype load_error = LoadAttributeError | LoadOverflowError

text \<open>
  One round of the loop of \<open>_load_user_profiles\<close>. \<open>profile in PROFILES\<close> is false for a value
  that is not a string and raises the caught \<open>TypeError\<close> for a list or a dict, so the line is
  skipped in both cases.
\<close>

definition load_profile_line ::
    "(int \<Rightarrow> string option) \<Rightarrow> json option \<Rightarrow> load_error + (int \<Rightarrow> string option)" where
  "load_profile_line ps line =
     (case line of
        None \<Rightarrow> Inr ps
      | Some (JObj entry) \<Rightarrow>
          (let uid = dget0 entry ''user_id'';
               profile = dget entry ''profile'' (JStr default_profile)
           in if uid = JNull then Inr ps
              else (case profile of
                      JStr p \<Rightarrow>
                        if known_profile p
                        then (case py_int uid of
                                Inl NoInt \<Rightarrow> Inr ps
                              | Inl IntOverflow \<Rightarrow> Inl LoadOverflowError
                              | Inr i \<Rightarrow> Inr (ps(i \<mapsto> p)))
                        else Inr ps
                    | _ \<Rightarrow> Inr ps))
      | Some _ \<Rightarrow> Inl LoadAttributeError)"

fun load_profile_lines ::
    "(int \<Rightarrow> string option) \<Rightarrow> json option list \<Rightarrow> load_error + (int \<Rightarrow> string option)" where
  "load_profile_lines ps [] = Inr ps"
| "load_profile_lines ps (l # ls) =
     bind_res (load_profile_line ps l) (\<lambda>ps'. load_profile_lines ps' ls)"

definition load_user_profiles :: "json option list \<Rightarrow> load_error + (int \<Rightarrow> string option)" where
  "load_user_profiles ls = load_profile_lines Map.empty ls"

definition profile_entry :: "int \<Rightarrow> int \<Rightarrow> string \<Rightarrow> string \<Rightarrow> json" where
  "profile_entry user_id chat_id profile set_at =
     JObj [(''user_id'', JInt user_id), (''chat_id'', JInt chat_id), (''profile'', JStr profile),
           (''set_at'', JStr set_at)]"

definition save_user_profile ::
    "int \<Rightarrow> int \<Rightarrow> string \<Rightarrow> string \<Rightarrow> json option list \<Rightarrow> json option list" where
  "save_user_profile user_id chat_id profile set_at ls =
     ls @ [Some (profile_entry user_id chat_id profile set_at)]"

section \<open>The two stores of a profile\<close>

text \<open>The rows of \<open>user_profiles\<close> are a map from the user id (its primary key) to the profile.\<close>

datatype profile_store = ProfileTable "int \<Rightarrow> string option" | ProfileFile "json option list"

fun load_profiles :: "profile_store \<Rightarrow> load_error + (int \<Rightarrow> string option)" where
  "load_profiles (ProfileTable rows) = Inr rows"
| "load_profiles (ProfileFile ls) = load_user_profiles ls"

fun store_profile :: "int \<Rightarrow> int \<Rightarrow> string \<Rightarrow> string \<Rightarrow> profile_store \<Rightarrow> profile_store" where
  "store_profile user_id chat_id profile set_at (ProfileTable rows) =
     ProfileTable (rows(user_id \<mapsto> profile))"
| "store_profile user_id chat_id profile set_at (ProfileFile ls) =
     ProfileFile (save_user_profile user_id chat_id profile set_at ls)"

lemma load_profile_lines_append:
  "load_profile_lines ps (ls @ ls') =
     bind_res (load_profile_lines ps ls) (\<lambda>ps'. load_profile_lines ps' ls')"
  by (induction ls arbitrary: ps) (auto simp: bind_res_def split: sum.splits)

lemma load_profile_line_entry:
  "known_profile p \<Longrightarrow> load_profile_line ps (Some (profile_entry u c p w)) = Inr (ps(u \<mapsto> p))"
  by (simp add: load_profile_line_def profile_entry_def)

lemma load_after_store:
  assumes "known_profile p" and "load_profiles st = Inr ps"
  shows "load_profiles (store_profile u c p w st) = Inr (ps(u \<mapsto> p))"
  using assms by (cases st) (auto simp: load_user_profiles_def save_user_profile_def
      load_profile_lines_append load_profile_line_entry)

lemma load_profile_line_known:
  "load_profile_line ps l = Inr ps' \<Longrightarrow> \<forall>k q. ps k = Some q \<longrightarrow> known_profile q \<Longrightarrow> \<forall>k q. ps' k = Some q \<longrightarrow> known_profile q"
  by (auto simp: load_profile_line_def Let_def split: option.splits json.splits if_splits
      sum.splits int_error.splits)

lemma load_profile_lines_known:
  "load_profile_lines ps ls = Inr ps' \<Longrightarrow> \<forall>k q. ps k = Some q \<longrightarrow> known_profile q \<Longrightarrow> \<forall>k q. ps' k = Some q \<longrightarrow> known_profile q"
proof (induction ls arbitrary: ps)
  case (Cons l ls)
  then obtain ps1 where "load_profile_line ps l = Inr ps1" "load_profile_lines ps1 ls = Inr ps'"
    by (auto elim: bind_res_InrE)
  with Cons load_profile_line_known show ?case by blast
qed simp

section \<open>Properties\<close>

text \<open>the profile file is a faithful log. Saving a profile and loading the file gives every
  user the profile saved last: the saved one to its user, all others what they had; and only
  known profiles are ever loaded from the file.\<close>

theorem profile_file_last_wins:
  assumes "known_profile p" and "load_user_profiles ls = Inr ps"
  shows "load_user_profiles (save_user_profile u c p w ls) = Inr (ps(u \<mapsto> p))
    \<and> (\<forall>k q. ps k = Some q \<longrightarrow> known_profile q)"
proof
  show "load_user_profiles (save_user_profile u c p w ls) = Inr (ps(u \<mapsto> p))"
    using load_after_store [OF assms(1), of "ProfileFile ls"] assms(2) by simp
  show "\<forall>k q. ps k = Some q \<longrightarrow> known_profile q"
    using load_profile_lines_known assms(2) by (auto simp: load_user_profiles_def)
qed

lemma profile_file_last_wins_witness:
  "load_user_profiles
     (save_user_profile 7 1 ''power'' ''t'' [None, Some (profile_entry 7 1 ''light'' ''s'')])
   = Inr (Map.empty(7 \<mapsto> ''light'', 7 \<mapsto> ''power''))"
proof -
  have p: "known_profile ''power''" by code_simp
  have l: "load_user_profiles [None, Some (profile_entry 7 1 ''light'' ''s'')]
      = Inr (Map.empty(7 \<mapsto> ''light''))"
  proof -
    have "known_profile ''light''" by code_simp
    then show ?thesis
      by (simp add: load_user_profiles_def load_profile_line_entry)
        (simp add: load_profile_line_def)
  qed
  from profile_file_last_wins [OF p l, of 7 1 "''t''"] show ?thesis by blast
qed

text \<open>One line that is JSON but not an object makes the loader raise \<open>AttributeError\<close>, which its
  handler does not catch, although the handler is there to skip corrupt lines: whatever the file
  holds besides, if no earlier line fails, the rate limiter cannot be created.\<close>

theorem non_object_line_escapes:
  assumes "load_profile_lines Map.empty ls = Inr ps" and "\<forall>d. v \<noteq> JObj d"
  shows "load_user_profiles (ls @ Some v # ls') = Inl LoadAttributeError"
  using assms by (cases v)
    (auto simp: load_user_profiles_def load_profile_lines_append load_profile_line_def)

lemma non_object_line_escapes_witness:
  "load_user_profiles ([None] @ Some (JInt 5) # []) = Inl LoadAttributeError"
  by (rule non_object_line_escapes [of _ Map.empty]) (simp_all add: load_profile_line_def)

end
