(* ===== verification/RateLimiter.thy ===== *)
theory RateLimiter
  imports TokenBucket UserProfiles "HOL-Library.AList"
begin

text \<open>
  The class \<open>RateLimiter\<close> of \<open>rate_limiter.py\<close>. The public operations run under one lock, so
  each is one atomic operation. Every reading of \<open>time.monotonic()\<close> is a separate point of time:
  an operation takes the function \<open>t\<close> from the number of the call site, in the order the code
  reaches them, to the reading there, and the theorems assume that it does not go back.
  \<open>time.time()\<close> is the argument \<open>wall\<close>. The rows of \<open>user_rate_limit_state\<close> are the association
  list of \<open>SqliteRateLimitStorage\<close>: its key is the primary key, \<open>INSERT OR REPLACE\<close> moves the
  replaced row to the end, and the column \<open>updated_at\<close>, never read, is left out.
\<close>

definition eviction_ttl_seconds :: rat where
  "eviction_ttl_seconds = 3600"

definition unlimited_reminder_interval :: int where
  "unlimited_reminder_interval = 100"

record user_buckets =
  ub_profile :: string
  ub_minute :: token_bucket
  ub_hour :: token_bucket
  ub_day :: token_bucket
  ub_last_activity :: rat
  ub_warned_minute :: bool
  ub_warned_hour :: bool
  ub_warned_day :: bool
  ub_unlimited_counter :: int

definition new_user_buckets :: "string \<Rightarrow> (nat \<Rightarrow> rat) \<Rightarrow> user_buckets" where
  "new_user_buckets profile t =
     (let limits = profile_limits profile
      in \<lparr>ub_profile = profile,
          ub_minute = new_bucket (per_minute limits) 60 (t 0),
          ub_hour = new_bucket (per_hour limits) 3600 (t 1),
          ub_day = new_bucket (per_day limits) 86400 (t 2),
          ub_last_activity = t 3,
          ub_warned_minute = False, ub_warned_hour = False, ub_warned_day = False,
          ub_unlimited_counter = 0\<rparr>)"

record rate_limit_result =
  rr_allowed :: bool
  rr_retry_after :: "rat option"
  rr_period :: "string option"
  rr_limit_value :: int
  rr_current_count :: int
  rr_profile :: string
  rr_warning_70 :: bool
  rr_warning_period :: "string option"
  rr_unlimited_reminder :: bool

record usage_info =
  ui_profile :: string
  ui_minute_used :: int
  ui_minute_limit :: int
  ui_minute_reset_seconds :: rat
  ui_hour_used :: int
  ui_hour_limit :: int
  ui_hour_reset_seconds :: rat
  ui_day_used :: int
  ui_day_limit :: int
  ui_day_reset_seconds :: rat

type_synonym rate_row = "(int \<times> string \<times> string) \<times> int \<times> rat"

record rate_limiter =
  rl_users :: "int \<Rightarrow> user_buckets option"
  rl_profiles :: "int \<Rightarrow> string option"
  rl_profile_store :: profile_store
  rl_rate_storage :: "rate_row list option"

section \<open>Persistence of the counters\<close>

definition save_state ::
    "int \<Rightarrow> string \<Rightarrow> string \<Rightarrow> int \<Rightarrow> rat \<Rightarrow> rate_row list \<Rightarrow> rate_row list" where
  "save_state user_id profile period count window_start rows =
     AList.delete (user_id, profile, period) rows
       @ [((user_id, profile, period), count, window_start)]"

definition persist_user_state :: "int \<Rightarrow> rat \<Rightarrow> rat \<Rightarrow> rate_limiter \<Rightarrow> rate_limiter" where
  "persist_user_state user_id now_wall now_mono s =
     (case rl_rate_storage s of
        None \<Rightarrow> s
      | Some rows \<Rightarrow>
          (case rl_users s user_id of
             None \<Rightarrow> s
           | Some buckets \<Rightarrow>
               (let profile = ub_profile buckets;
                    save = (\<lambda>(period, b). save_state user_id profile period (tb_request_count b)
                              (now_wall - (now_mono - tb_window_start b)))
                in s\<lparr>rl_rate_storage :=
                       Some (fold save [(''minute'', ub_minute buckets), (''hour'', ub_hour buckets),
                                        (''day'', ub_day buckets)] rows)\<rparr>)))"

text \<open>
  \<open>user_states[uid]\<close>: the saved count and window start of the key \<open>profile:period\<close>, the last row
  of the user with that key.
\<close>

definition user_periods :: "rate_row list \<Rightarrow> int \<Rightarrow> string \<Rightarrow> (int \<times> rat) option" where
  "user_periods rows user_id =
     map_of (rev (map (\<lambda>((uid, profile, period), v). (profile @ '':'' @ period, v))
                    (filter (\<lambda>((uid, profile, period), v). uid = user_id) rows)))"

definition restore_bucket ::
    "(int \<times> rat) option \<Rightarrow> rat \<Rightarrow> rat \<Rightarrow> token_bucket \<Rightarrow> token_bucket" where
  "restore_bucket saved now_wall now_mono b =
     (case saved of
        None \<Rightarrow> b
      | Some (count, window_start_wall) \<Rightarrow>
          (let elapsed = now_wall - window_start_wall
           in if tb_window_seconds b \<le> elapsed
              then b\<lparr>tb_request_count := 0, tb_window_start := now_mono\<rparr>
              else b\<lparr>tb_request_count := count, tb_window_start := now_mono - elapsed\<rparr>))"

definition restore_user ::
    "rate_row list \<Rightarrow> string \<Rightarrow> rat \<Rightarrow> rat \<Rightarrow> (nat \<Rightarrow> rat) \<Rightarrow> int \<Rightarrow> user_buckets" where
  "restore_user rows profile now_wall now_mono t uid =
     (let buckets = new_user_buckets profile t;
          saved = (\<lambda>period. user_periods rows uid (profile @ '':'' @ period))
      in buckets
           \<lparr>ub_minute := restore_bucket (saved ''minute'') now_wall now_mono (ub_minute buckets),
            ub_hour := restore_bucket (saved ''hour'') now_wall now_mono (ub_hour buckets),
            ub_day := restore_bucket (saved ''day'') now_wall now_mono (ub_day buckets)\<rparr>)"

definition lookup_profile :: "(int \<Rightarrow> string option) \<Rightarrow> int \<Rightarrow> string" where
  "lookup_profile ps user_id = (case ps user_id of None \<Rightarrow> default_profile | Some p \<Rightarrow> p)"

text \<open>The clock readings of a user's new buckets are \<open>t uid\<close>.\<close>

definition restore_from_storage ::
    "rat \<Rightarrow> rat \<Rightarrow> (int \<Rightarrow> nat \<Rightarrow> rat) \<Rightarrow> rate_row list \<Rightarrow> rate_limiter \<Rightarrow> rate_limiter" where
  "restore_from_storage now_wall now_mono t rows s =
     s\<lparr>rl_users := (\<lambda>uid.
         if List.member (map (\<lambda>row. fst (fst row)) rows) uid
         then Some (restore_user rows (lookup_profile (rl_profiles s) uid) now_wall now_mono (t uid) uid)
         else rl_users s uid)\<rparr>"

text \<open>The constructor \<open>RateLimiter(profile_storage, rate_limit_storage)\<close>.\<close>

definition init_rate_limiter ::
    "profile_store \<Rightarrow> rate_row list option \<Rightarrow> rat \<Rightarrow> rat \<Rightarrow> (int \<Rightarrow> nat \<Rightarrow> rat) \<Rightarrow> load_error + rate_limiter"
  where
  "init_rate_limiter profile_storage rate_limit_storage now_wall now_mono t =
     bind_res (load_profiles profile_storage) (\<lambda>ps.
       (let s = \<lparr>rl_users = Map.empty, rl_profiles = ps, rl_profile_store = profile_storage,
                 rl_rate_storage = rate_limit_storage\<rparr>
        in Inr (case rate_limit_storage of
                  None \<Rightarrow> s
                | Some rows \<Rightarrow> restore_from_storage now_wall now_mono t rows s)))"

section \<open>Operations\<close>

definition get_user_profile :: "rate_limiter \<Rightarrow> int \<Rightarrow> string" where
  "get_user_profile s user_id = lookup_profile (rl_profiles s) user_id"

text \<open>New buckets that keep the usage of the old ones, capped at the new capacity.\<close>

definition carry_over :: "user_buckets \<Rightarrow> user_buckets \<Rightarrow> (nat \<Rightarrow> rat) \<Rightarrow> user_buckets" where
  "carry_over old new t =
     (let m = snd (consumed_count (t 0) (ub_minute old));
          h = snd (consumed_count (t 1) (ub_hour old));
          d = snd (consumed_count (t 2) (ub_day old))
      in new\<lparr>ub_minute := (ub_minute new)\<lparr>tb_request_count := min m (tb_capacity (ub_minute new))\<rparr>,
             ub_hour := (ub_hour new)\<lparr>tb_request_count := min h (tb_capacity (ub_hour new))\<rparr>,
             ub_day := (ub_day new)\<lparr>tb_request_count := min d (tb_capacity (ub_day new))\<rparr>\<rparr>)"

text \<open>Call sites of the clock: 0 to 3 the new buckets, 4 to 6 the old counts, 7 the persistence.\<close>

definition set_user_profile ::
    "rate_limiter \<Rightarrow> int \<Rightarrow> int \<Rightarrow> string \<Rightarrow> string \<Rightarrow> rat \<Rightarrow> (nat \<Rightarrow> rat) \<Rightarrow> rate_limiter \<times> bool" where
  "set_user_profile s user_id chat_id profile set_at wall t =
     (if \<not> known_profile profile then (s, False)
      else (let new_buckets = new_user_buckets profile t;
                new_buckets = (case rl_users s user_id of
                                 None \<Rightarrow> new_buckets
                               | Some old \<Rightarrow> carry_over old new_buckets (\<lambda>i. t (i + 4)));
                s1 = s\<lparr>rl_profiles := (rl_profiles s)(user_id \<mapsto> profile),
                       rl_users := (rl_users s)(user_id \<mapsto> new_buckets)\<rparr>;
                s2 = s1\<lparr>rl_profile_store :=
                          store_profile user_id chat_id profile set_at (rl_profile_store s1)\<rparr>
            in (persist_user_state user_id wall (t 7) s2, True)))"

definition evict_stale :: "rat \<Rightarrow> rate_limiter \<Rightarrow> rate_limiter" where
  "evict_stale now s =
     s\<lparr>rl_users := (\<lambda>uid.
         case rl_users s uid of
           None \<Rightarrow> None
         | Some b \<Rightarrow> if eviction_ttl_seconds < now - ub_last_activity b then None else Some b)\<rparr>"

text \<open>The buckets the request is charged to: fresh ones, or the old ones, carried over when the
  profile is another one.\<close>

definition buckets_for_request ::
    "string \<Rightarrow> user_buckets option \<Rightarrow> (nat \<Rightarrow> rat) \<Rightarrow> user_buckets" where
  "buckets_for_request profile existing t =
     (case existing of
        None \<Rightarrow> new_user_buckets profile t
      | Some old \<Rightarrow>
          if ub_profile old \<noteq> profile
          then carry_over old (new_user_buckets profile t) (\<lambda>i. t (i + 4))
          else old)"

text \<open>The three attempts in turn: the period, the wait and the limit where one is refused.\<close>

definition consume_all ::
    "user_buckets \<Rightarrow> (nat \<Rightarrow> rat) \<Rightarrow> user_buckets \<times> (string \<times> rat \<times> int) option" where
  "consume_all b t =
     (let (m, min_ok, min_retry) = try_consume (t 0) (ub_minute b)
      in if \<not> min_ok then (b\<lparr>ub_minute := m\<rparr>, Some (''minute'', min_retry, tb_capacity m))
      else let (h, hour_ok, hour_retry) = try_consume (t 1) (ub_hour b)
      in if \<not> hour_ok
         then (b\<lparr>ub_minute := rollback m, ub_hour := h\<rparr>, Some (''hour'', hour_retry, tb_capacity h))
      else let (d, day_ok, day_retry) = try_consume (t 2) (ub_day b)
      in if \<not> day_ok
         then (b\<lparr>ub_minute := rollback m, ub_hour := rollback h, ub_day := d\<rparr>,
               Some (''day'', day_retry, tb_capacity d))
      else (b\<lparr>ub_minute := m, ub_hour := h, ub_day := d\<rparr>, None))"

definition warning_due :: "bool \<Rightarrow> int \<Rightarrow> int \<Rightarrow> bool" where
  "warning_due already_sent cap consumed =
     (\<not> already_sent \<and> 0 < cap \<and> int (int_times_0_7 (nat cap)) \<le> consumed)"

definition warning_cleared :: "int \<Rightarrow> int \<Rightarrow> bool" where
  "warning_cleared cap consumed = (0 < cap \<and> consumed < int (int_times_0_5 (nat cap)))"

text \<open>The 70% warnings and their reset; the last period that fires is the one reported.\<close>

definition update_warnings ::
    "user_buckets \<Rightarrow> (nat \<Rightarrow> rat) \<Rightarrow> user_buckets \<times> bool \<times> string option" where
  "update_warnings b t =
     (let (m, min_consumed) = consumed_count (t 0) (ub_minute b);
          min_cap = tb_capacity m;
          fire_m = warning_due (ub_warned_minute b) min_cap min_consumed;
          (h, hour_consumed) = consumed_count (t 1) (ub_hour b);
          hour_cap = tb_capacity h;
          fire_h = warning_due (ub_warned_hour b) hour_cap hour_consumed;
          (d, day_consumed) = consumed_count (t 2) (ub_day b);
          day_cap = tb_capacity d;
          fire_d = warning_due (ub_warned_day b) day_cap day_consumed;
          period = (if fire_d then Some ''day'' else if fire_h then Some ''hour''
                    else if fire_m then Some ''minute'' else None)
      in (b\<lparr>ub_minute := m, ub_hour := h, ub_day := d,
            ub_warned_minute :=
              ((ub_warned_minute b \<or> fire_m) \<and> \<not> warning_cleared min_cap min_consumed),
            ub_warned_hour :=
              ((ub_warned_hour b \<or> fire_h) \<and> \<not> warning_cleared hour_cap hour_consumed),
            ub_warned_day :=
              ((ub_warned_day b \<or> fire_d) \<and> \<not> warning_cleared day_cap day_consumed)\<rparr>,
          fire_m \<or> fire_h \<or> fire_d, period))"

definition denied_result :: "string \<Rightarrow> string \<times> rat \<times> int \<Rightarrow> rate_limit_result" where
  "denied_result profile d =
     (case d of (period, retry, cap) \<Rightarrow>
        \<lparr>rr_allowed = False, rr_retry_after = Some (py_round1 retry), rr_period = Some period,
         rr_limit_value = cap, rr_current_count = cap, rr_profile = profile, rr_warning_70 = False,
         rr_warning_period = None, rr_unlimited_reminder = False\<rparr>)"

definition allowed_result :: "string \<Rightarrow> bool \<Rightarrow> string option \<Rightarrow> bool \<Rightarrow> rate_limit_result" where
  "allowed_result profile warning_70 warning_period reminder =
     \<lparr>rr_allowed = True, rr_retry_after = None, rr_period = None, rr_limit_value = 0,
      rr_current_count = 0, rr_profile = profile, rr_warning_70 = warning_70,
      rr_warning_period = warning_period, rr_unlimited_reminder = reminder\<rparr>"

text \<open>
  Call sites of the clock: 0 the eviction, 1 to 4 new buckets, 5 to 7 the old counts, 8 the
  activity, 9 to 11 the attempts, 12 to 14 the counts of the warnings, 15 the persistence.
\<close>

definition check_and_consume ::
    "rate_limiter \<Rightarrow> int \<Rightarrow> rat \<Rightarrow> (nat \<Rightarrow> rat) \<Rightarrow> rate_limiter \<times> rate_limit_result" where
  "check_and_consume s user_id wall t =
     (let s1 = evict_stale (t 0) s;
          profile = lookup_profile (rl_profiles s1) user_id;
          b = (buckets_for_request profile (rl_users s1 user_id) (\<lambda>i. t (i + 1)))
                \<lparr>ub_last_activity := t 8\<rparr>
      in if profile = ''unlimited''
         then (let b1 = b\<lparr>ub_unlimited_counter := ub_unlimited_counter b + 1\<rparr>;
                   show_reminder = (ub_unlimited_counter b1 mod unlimited_reminder_interval = 0);
                   s2 = s1\<lparr>rl_users := (rl_users s1)(user_id \<mapsto> b1)\<rparr>
               in (persist_user_state user_id wall (t 15) s2,
                   allowed_result profile False None show_reminder))
         else (case consume_all b (\<lambda>i. t (i + 9)) of
                 (b1, Some denial) \<Rightarrow>
                   (s1\<lparr>rl_users := (rl_users s1)(user_id \<mapsto> b1)\<rparr>, denied_result profile denial)
               | (b1, None) \<Rightarrow>
                   (let (b2, warning_70, warning_period) = update_warnings b1 (\<lambda>i. t (i + 12));
                        s2 = s1\<lparr>rl_users := (rl_users s1)(user_id \<mapsto> b2)\<rparr>
                    in (persist_user_state user_id wall (t 15) s2,
                        allowed_result profile warning_70 warning_period False))))"

text \<open>Call sites of the clock: 0 to 5, a count and a reset time for each period in turn.\<close>

definition get_usage :: "rate_limiter \<Rightarrow> int \<Rightarrow> (nat \<Rightarrow> rat) \<Rightarrow> rate_limiter \<times> usage_info" where
  "get_usage s user_id t =
     (let profile = lookup_profile (rl_profiles s) user_id; limits = profile_limits profile
      in case rl_users s user_id of
           None \<Rightarrow>
             (s, \<lparr>ui_profile = profile,
                  ui_minute_used = 0, ui_minute_limit = per_minute limits, ui_minute_reset_seconds = 0,
                  ui_hour_used = 0, ui_hour_limit = per_hour limits, ui_hour_reset_seconds = 0,
                  ui_day_used = 0, ui_day_limit = per_day limits, ui_day_reset_seconds = 0\<rparr>)
         | Some b \<Rightarrow>
             (let (m, minute_used) = consumed_count (t 0) (ub_minute b);
                  (h, hour_used) = consumed_count (t 2) (ub_hour b);
                  (d, day_used) = consumed_count (t 4) (ub_day b)
              in (s\<lparr>rl_users := (rl_users s)(user_id \<mapsto> b\<lparr>ub_minute := m, ub_hour := h, ub_day := d\<rparr>)\<rparr>,
                  \<lparr>ui_profile = profile,
                   ui_minute_used = minute_used, ui_minute_limit = tb_capacity m,
                   ui_minute_reset_seconds = py_round0 (seconds_until_reset (t 1) m),
                   ui_hour_used = hour_used, ui_hour_limit = tb_capacity h,
                   ui_hour_reset_seconds = py_round0 (seconds_until_reset (t 3) h),
                   ui_day_used = day_used, ui_day_limit = tb_capacity d,
                   ui_day_reset_seconds = py_round0 (seconds_until_reset (t 5) d)\<rparr>)))"

end
