(* ===== verification/RateBounds.thy ===== *)
theory RateBounds
  imports RateLimiter
begin

text \<open>
  What the rate limiter guarantees. The three buckets of a user are addressed by a \<open>period\<close>, so
  that each lemma is stated once for all of them; \<open>buckets_ok\<close> is the invariant of a user's
  buckets, \<open>limiter_inv\<close> that of the limiter with its two stores, kept by every operation and by
  a restart. The bounds on the requests granted to a user combine the counting argument of
  \<open>TokenBucket\<close> with the fact that a user is not evicted within an hour of a request.
\<close>

datatype period = Minute | Hour | Day

fun period_name :: "period \<Rightarrow> string" where
  "period_name Minute = ''minute''" | "period_name Hour = ''hour''" | "period_name Day = ''day''"

fun window_of :: "period \<Rightarrow> rat" where
  "window_of Minute = 60" | "window_of Hour = 3600" | "window_of Day = 86400"

fun bucket_of :: "period \<Rightarrow> user_buckets \<Rightarrow> token_bucket" where
  "bucket_of Minute b = ub_minute b" | "bucket_of Hour b = ub_hour b" | "bucket_of Day b = ub_day b"

fun limit_of :: "period \<Rightarrow> string \<Rightarrow> int" where
  "limit_of Minute p = per_minute (profile_limits p)"
| "limit_of Hour p = per_hour (profile_limits p)"
| "limit_of Day p = per_day (profile_limits p)"

fun site :: "period \<Rightarrow> nat" where
  "site Minute = 0" | "site Hour = 1" | "site Day = 2"

lemma limit_of_nonneg [simp]: "0 \<le> limit_of p prof"
  by (cases p) simp_all

lemma all_period: "(\<forall>p. P p) \<longleftrightarrow> P Minute \<and> P Hour \<and> P Day"
  by (metis period.exhaust)

definition buckets_ok :: "string \<Rightarrow> user_buckets \<Rightarrow> bool" where
  "buckets_ok prof b \<longleftrightarrow>
     ub_profile b = prof \<and> (\<forall>p. bucket_ok (limit_of p prof) (window_of p) (bucket_of p b))
     \<and> 0 \<le> ub_unlimited_counter b"

lemma buckets_okD:
  "buckets_ok prof b \<Longrightarrow> bucket_ok (limit_of p prof) (window_of p) (bucket_of p b)"
  by (simp add: buckets_ok_def)

lemma buckets_ok_new [simp]: "buckets_ok prof (new_user_buckets prof t)"
  by (simp add: buckets_ok_def all_period new_user_buckets_def Let_def)

lemma bucket_of_activity [simp]:
  "bucket_of p (b\<lparr>ub_last_activity := x\<rparr>) = bucket_of p b"
  "bucket_of p (b\<lparr>ub_unlimited_counter := c\<rparr>) = bucket_of p b"
  by (cases p; simp)+

lemma buckets_ok_activity [simp]:
  "buckets_ok prof (b\<lparr>ub_last_activity := x\<rparr>) \<longleftrightarrow> buckets_ok prof b"
  by (simp add: buckets_ok_def)

section \<open>One request on the buckets of one user\<close>

definition has_room :: "rat \<Rightarrow> token_bucket \<Rightarrow> bool" where
  "has_room now b = (tb_request_count (maybe_reset_window now b) < tb_capacity b)"

definition charge :: "token_bucket \<Rightarrow> token_bucket" where
  "charge b = b\<lparr>tb_request_count := tb_request_count b + 1\<rparr>"

lemma capacity_reset [simp]:
  "tb_capacity (maybe_reset_window now b) = tb_capacity b"
  "tb_window_seconds (maybe_reset_window now b) = tb_window_seconds b"
  by (simp_all add: maybe_reset_window_def)

lemma try_consume_cases:
  "try_consume now b =
     (if has_room now b then (charge (maybe_reset_window now b), True, 0)
      else (maybe_reset_window now b, False, seconds_until_reset now (maybe_reset_window now b)))"
  by (simp add: try_consume_def has_room_def charge_def seconds_until_reset_def Let_def)

lemma rollback_charge: "bucket_ok cap w b \<Longrightarrow> rollback (charge b) = b"
  by (simp add: rollback_def charge_def bucket_ok_def)

text \<open>The request passes exactly when all three buckets have room.\<close>

definition all_room :: "user_buckets \<Rightarrow> (nat \<Rightarrow> rat) \<Rightarrow> bool" where
  "all_room b t = (\<forall>p. has_room (t (site p)) (bucket_of p b))"

lemma consume_all_allowed:
  "consume_all b t = (b', None) \<longleftrightarrow>
     all_room b t \<and>
     b' = b\<lparr>ub_minute := charge (maybe_reset_window (t 0) (ub_minute b)),
            ub_hour := charge (maybe_reset_window (t 1) (ub_hour b)),
            ub_day := charge (maybe_reset_window (t 2) (ub_day b))\<rparr>"
  by (auto simp: consume_all_def try_consume_cases all_room_def all_period)

lemma consume_all_None: "snd (consume_all b t) = None \<longleftrightarrow> all_room b t"
  by (auto simp: consume_all_def try_consume_cases all_room_def all_period)

lemma consume_all_bucket:
  assumes "buckets_ok prof b" and "consume_all b t = (b', r)"
  shows "(r = None \<longrightarrow> bucket_of p b' = charge (maybe_reset_window (t (site p)) (bucket_of p b)))
    \<and> (r \<noteq> None \<longrightarrow> bucket_of p b' = bucket_of p b
        \<or> bucket_of p b' = maybe_reset_window (t (site p)) (bucket_of p b))"
proof -
  have ok: "rollback (charge (maybe_reset_window now (bucket_of q b)))
      = maybe_reset_window now (bucket_of q b)" for q now
    using buckets_okD [OF assms(1), of q] by (rule rollback_charge [OF bucket_ok_reset])
  show ?thesis
    using assms(2) ok [of _ Minute] ok [of _ Hour] ok [of _ Day]
    by (cases p) (auto simp: consume_all_def try_consume_cases split: if_splits)
qed

lemma consume_all_profile:
  "consume_all b t = (b', r) \<Longrightarrow> ub_profile b' = ub_profile b
     \<and> ub_unlimited_counter b' = ub_unlimited_counter b \<and> ub_last_activity b' = ub_last_activity b"
  by (auto simp: consume_all_def split: prod.splits if_splits)

lemma update_warnings_bucket:
  "update_warnings b t = (b', w) \<Longrightarrow>
     bucket_of p b' = maybe_reset_window (t (site p)) (bucket_of p b)"
  by (cases p) (auto simp: update_warnings_def consumed_count_def Let_def)

lemma update_warnings_profile:
  "update_warnings b t = (b', w) \<Longrightarrow> ub_profile b' = ub_profile b
     \<and> ub_unlimited_counter b' = ub_unlimited_counter b \<and> ub_last_activity b' = ub_last_activity b"
  by (auto simp: update_warnings_def Let_def split: prod.splits)

lemma bucket_ok_charge:
  "bucket_ok cap w b \<Longrightarrow> has_room now b \<Longrightarrow> bucket_ok cap w (charge (maybe_reset_window now b))"
  using bucket_ok_reset [of cap w b now] by (auto simp: bucket_ok_def has_room_def charge_def)

lemma consume_all_ok:
  assumes "buckets_ok prof b" and "consume_all b t = (b', r)"
  shows "buckets_ok prof b'"
proof -
  have "bucket_ok (limit_of p prof) (window_of p) (bucket_of p b')" for p
  proof (cases r)
    case None
    with assms(2) have "has_room (t (site p)) (bucket_of p b)"
      using consume_all_None [of b t] by (simp add: all_room_def)
    with None show ?thesis
      using consume_all_bucket [OF assms, of p] buckets_okD [OF assms(1), of p]
      by (auto intro: bucket_ok_charge)
  next
    case (Some x)
    then show ?thesis
      using consume_all_bucket [OF assms, of p] buckets_okD [OF assms(1), of p]
      by (auto intro: bucket_ok_reset)
  qed
  with assms consume_all_profile [OF assms(2)] show ?thesis by (simp add: buckets_ok_def)
qed

lemma update_warnings_ok:
  "buckets_ok prof b \<Longrightarrow> update_warnings b t = (b', w) \<Longrightarrow> buckets_ok prof b'"
  using update_warnings_bucket update_warnings_profile
  by (simp add: buckets_ok_def bucket_ok_reset)

lemma carry_over_ok:
  assumes "\<forall>p. \<exists>cap w. bucket_ok cap w (bucket_of p old)"
  shows "buckets_ok prof (carry_over old (new_user_buckets prof t) t')"
proof -
  have "0 \<le> snd (consumed_count now (bucket_of p old))" for p now
    using assms [rule_format, of p] by (auto simp: bucket_ok_def bucket_defs)
  from this [of _ Minute] this [of _ Hour] this [of _ Day] show ?thesis
    by (simp add: carry_over_def new_user_buckets_def buckets_ok_def all_period bucket_ok_def
        new_bucket_def Let_def)
qed

section \<open>The invariant of the limiter\<close>

definition rows_ok :: "rate_row list \<Rightarrow> bool" where
  "rows_ok rows \<longleftrightarrow>
     (\<forall>((u, prof, per), c, w) \<in> set rows. \<exists>p. per = period_name p \<and> 0 \<le> c \<and> c \<le> limit_of p prof)"

definition users_ok :: "rate_limiter \<Rightarrow> bool" where
  "users_ok s \<longleftrightarrow> (\<forall>u b. rl_users s u = Some b \<longrightarrow> buckets_ok (get_user_profile s u) b)"

definition limiter_inv :: "rate_limiter \<Rightarrow> bool" where
  "limiter_inv s \<longleftrightarrow>
     users_ok s \<and> load_profiles (rl_profile_store s) = Inr (rl_profiles s)
     \<and> (\<forall>rows. rl_rate_storage s = Some rows \<longrightarrow> rows_ok rows)"

lemma persist_fields [simp]:
  "rl_users (persist_user_state u w m s) = rl_users s"
  "rl_profiles (persist_user_state u w m s) = rl_profiles s"
  "rl_profile_store (persist_user_state u w m s) = rl_profile_store s"
  by (simp_all add: persist_user_state_def Let_def split: option.splits)

lemma evict_fields [simp]:
  "rl_profiles (evict_stale now s) = rl_profiles s"
  "rl_profile_store (evict_stale now s) = rl_profile_store s"
  "rl_rate_storage (evict_stale now s) = rl_rate_storage s"
  by (simp_all add: evict_stale_def)

lemma get_user_profile_cong: "rl_profiles s = rl_profiles s' \<Longrightarrow> get_user_profile s = get_user_profile s'"
  by (rule ext) (simp add: get_user_profile_def)

lemma users_ok_cong: "rl_users s = rl_users s' \<Longrightarrow> rl_profiles s = rl_profiles s' \<Longrightarrow> users_ok s = users_ok s'"
  using get_user_profile_cong [of s s'] by (simp add: users_ok_def)

lemma users_ok_upd:
  assumes "users_ok s" and "buckets_ok (get_user_profile s u) b"
  shows "users_ok (s\<lparr>rl_users := (rl_users s)(u \<mapsto> b)\<rparr>)"
  using assms by (simp add: users_ok_def get_user_profile_def)

lemma users_ok_evict [inv_intros]: "users_ok s \<Longrightarrow> users_ok (evict_stale now s)"
  by (auto simp: users_ok_def evict_stale_def get_user_profile_def split: option.splits if_splits)

lemma rows_ok_save [inv_intros]:
  "rows_ok rows \<Longrightarrow> 0 \<le> c \<Longrightarrow> c \<le> limit_of p prof
   \<Longrightarrow> rows_ok (save_state u prof (period_name p) c w rows)"
  using delete_conv' [of _ rows] by (fastforce simp: rows_ok_def save_state_def AList.delete_eq)

lemma limiter_inv_persist [inv_intros]:
  assumes "limiter_inv s"
  shows "limiter_inv (persist_user_state u w m s)"
proof -
  have "rows_ok rows'" if r': "rl_rate_storage (persist_user_state u w m s) = Some rows'" for rows'
  proof (cases "rl_rate_storage s")
    case None
    with r' show ?thesis by (simp add: persist_user_state_def)
  next
    case rows: (Some rows)
    with assms have r: "rows_ok rows" by (simp add: limiter_inv_def)
    show ?thesis
    proof (cases "rl_users s u")
      case None
      with r r' rows show ?thesis by (simp add: persist_user_state_def)
    next
      case (Some b)
      have b: "0 \<le> tb_request_count (bucket_of p b)
          \<and> tb_request_count (bucket_of p b) \<le> limit_of p (ub_profile b)" for p
        using assms Some by (auto simp: limiter_inv_def users_ok_def buckets_ok_def bucket_ok_def)
      note save = rows_ok_save [where p = Minute, simplified]
        rows_ok_save [where p = Hour, simplified] rows_ok_save [where p = Day, simplified]
      show ?thesis
        using r' rows Some r b [of Minute] b [of Hour] b [of Day]
        by (auto simp: persist_user_state_def Let_def intro!: save)
    qed
  qed
  moreover have "users_ok (persist_user_state u w m s)"
    using assms by (simp add: limiter_inv_def users_ok_def get_user_profile_def)
  ultimately show ?thesis using assms by (simp add: limiter_inv_def)
qed

lemma buckets_for_request_ok:
  assumes "users_ok s"
  shows "buckets_ok (get_user_profile s u)
           (buckets_for_request (lookup_profile (rl_profiles s) u) (rl_users s u) t)"
proof (cases "rl_users s u")
  case None
  then show ?thesis by (simp add: buckets_for_request_def get_user_profile_def)
next
  case (Some b)
  with assms have "buckets_ok (get_user_profile s u) b" by (simp add: users_ok_def)
  moreover from this have "ub_profile b = get_user_profile s u" by (simp add: buckets_ok_def)
  ultimately show ?thesis using Some by (simp add: buckets_for_request_def get_user_profile_def)
qed

text \<open>A request on the buckets of its user: the first stage of \<open>check_and_consume\<close>.\<close>

definition charged_buckets :: "rate_limiter \<Rightarrow> int \<Rightarrow> (nat \<Rightarrow> rat) \<Rightarrow> user_buckets" where
  "charged_buckets s u t =
     (buckets_for_request (get_user_profile s u) (rl_users (evict_stale (t 0) s) u)
        (\<lambda>i. t (i + 1)))\<lparr>ub_last_activity := t 8\<rparr>"

lemma charged_buckets_ok [simp]:
  assumes "users_ok s"
  shows "buckets_ok (get_user_profile s u) (charged_buckets s u t)"
  using buckets_for_request_ok [OF users_ok_evict [OF assms], of "t 0" u "\<lambda>i. t (i + 1)"]
  by (simp add: charged_buckets_def get_user_profile_def)

lemma check_profiles [simp]:
  "rl_profiles (fst (check_and_consume s u w t)) = rl_profiles s"
  "rl_profile_store (fst (check_and_consume s u w t)) = rl_profile_store s"
  by (auto simp: check_and_consume_def Let_def split: prod.splits option.splits)

text \<open>What a request does to the buckets of its user and to those of the others.\<close>

definition request_outcome :: "rate_limiter \<Rightarrow> int \<Rightarrow> (nat \<Rightarrow> rat) \<Rightarrow> user_buckets \<times> rate_limit_result" where
  "request_outcome s u t =
     (let prof = get_user_profile s u; b = charged_buckets s u t
      in if prof = ''unlimited''
         then (b\<lparr>ub_unlimited_counter := ub_unlimited_counter b + 1\<rparr>,
               allowed_result prof False None ((ub_unlimited_counter b + 1) mod 100 = 0))
         else (case consume_all b (\<lambda>i. t (i + 9)) of
                 (b1, Some denial) \<Rightarrow> (b1, denied_result prof denial)
               | (b1, None) \<Rightarrow>
                   (let (b2, warning, per) = update_warnings b1 (\<lambda>i. t (i + 12))
                    in (b2, allowed_result prof warning per False))))"

lemma check_outcome:
  "rl_users (fst (check_and_consume s u w t)) =
     (rl_users (evict_stale (t 0) s))(u \<mapsto> fst (request_outcome s u t))"
  "snd (check_and_consume s u w t) = snd (request_outcome s u t)"
  by (auto simp: check_and_consume_def request_outcome_def charged_buckets_def get_user_profile_def
      unlimited_reminder_interval_def Let_def split: prod.splits option.splits)

lemma request_outcome_ok:
  assumes "users_ok s"
  shows "buckets_ok (get_user_profile s u) (fst (request_outcome s u t))"
proof (cases "get_user_profile s u = ''unlimited''")
  case True
  with charged_buckets_ok [OF assms, of u t] show ?thesis
    by (simp add: request_outcome_def buckets_ok_def Let_def)
next
  case False
  with charged_buckets_ok [OF assms, of u t] show ?thesis
    by (auto simp: request_outcome_def Let_def split: prod.splits option.splits
        dest: consume_all_ok update_warnings_ok)
qed

lemma check_users_ok [inv_intros]:
  assumes "users_ok s"
  shows "users_ok (fst (check_and_consume s u w t))"
proof -
  have "users_ok (evict_stale (t 0) s\<lparr>rl_users := (rl_users (evict_stale (t 0) s))
      (u \<mapsto> fst (request_outcome s u t))\<rparr>)"
    using users_ok_upd [OF users_ok_evict [OF assms]] request_outcome_ok [OF assms, of u t]
    by (simp add: get_user_profile_def)
  then show ?thesis
    by (subst users_ok_cong) (auto simp: check_outcome)
qed

lemma check_state:
  "fst (check_and_consume s u w t) =
     (let s2 = evict_stale (t 0) s\<lparr>rl_users :=
                 (rl_users (evict_stale (t 0) s))(u \<mapsto> fst (request_outcome s u t))\<rparr>
      in if rr_allowed (snd (request_outcome s u t)) then persist_user_state u w (t 15) s2 else s2)"
  by (auto simp: check_and_consume_def request_outcome_def charged_buckets_def get_user_profile_def
      denied_result_def allowed_result_def Let_def split: prod.splits option.splits)

lemma limiter_inv_check [inv_intros]:
  assumes "limiter_inv s"
  shows "limiter_inv (fst (check_and_consume s u w t))"
proof -
  have "users_ok s" using assms by (simp add: limiter_inv_def)
  then have "users_ok (evict_stale (t 0) s\<lparr>rl_users := (rl_users (evict_stale (t 0) s))
      (u \<mapsto> fst (request_outcome s u t))\<rparr>)"
    using users_ok_upd [OF users_ok_evict] request_outcome_ok [of s u t]
    by (simp add: get_user_profile_def)
  then have "limiter_inv (evict_stale (t 0) s\<lparr>rl_users := (rl_users (evict_stale (t 0) s))
      (u \<mapsto> fst (request_outcome s u t))\<rparr>)"
    using assms by (simp add: limiter_inv_def)
  then show ?thesis
    using limiter_inv_persist by (simp add: check_state Let_def)
qed

lemma bucket_ok_of_users: "users_ok s \<Longrightarrow> rl_users s u = Some b \<Longrightarrow> \<exists>cap w. bucket_ok cap w (bucket_of p b)"
  unfolding users_ok_def using buckets_okD by blast

lemma limiter_inv_set_profile [inv_intros]:
  assumes "limiter_inv s"
  shows "limiter_inv (fst (set_user_profile s u c prof set_at w t))"
proof (cases "known_profile prof")
  case True
  let ?new = "new_user_buckets prof t"
  let ?b = "case rl_users s u of None \<Rightarrow> ?new | Some old \<Rightarrow> carry_over old ?new (\<lambda>i. t (i + 4))"
  let ?s = "s\<lparr>rl_profiles := (rl_profiles s)(u \<mapsto> prof), rl_users := (rl_users s)(u \<mapsto> ?b),
      rl_profile_store := store_profile u c prof set_at (rl_profile_store s)\<rparr>"
  have inv: "users_ok s" "load_profiles (rl_profile_store s) = Inr (rl_profiles s)"
    using assms by (simp_all add: limiter_inv_def)
  have b: "buckets_ok prof ?b"
    using bucket_ok_of_users [OF inv(1)] by (auto intro: carry_over_ok split: option.splits)
  have "users_ok ?s"
    using inv(1) b by (auto simp: users_ok_def get_user_profile_def lookup_profile_def)
  moreover have "load_profiles (rl_profile_store ?s) = Inr (rl_profiles ?s)"
    using load_after_store [OF True inv(2)] by simp
  ultimately have "limiter_inv ?s" using assms by (simp add: limiter_inv_def)
  from limiter_inv_persist [OF this] True show ?thesis by (simp add: set_user_profile_def Let_def)
qed (use assms in \<open>simp add: set_user_profile_def\<close>)

lemma limiter_inv_usage [inv_intros]:
  assumes "limiter_inv s"
  shows "limiter_inv (fst (get_usage s u t))"
proof (cases "rl_users s u")
  case None
  with assms show ?thesis by (simp add: get_usage_def Let_def)
next
  case (Some b)
  let ?b = "b\<lparr>ub_minute := maybe_reset_window (t 0) (ub_minute b),
      ub_hour := maybe_reset_window (t 2) (ub_hour b), ub_day := maybe_reset_window (t 4) (ub_day b)\<rparr>"
  have s: "users_ok s" "buckets_ok (get_user_profile s u) b"
    using assms Some by (simp_all add: limiter_inv_def users_ok_def)
  then have "buckets_ok (get_user_profile s u) ?b"
    by (simp add: buckets_ok_def all_period bucket_ok_reset)
  from users_ok_upd [OF s(1) this] assms Some show ?thesis
    by (simp add: get_usage_def consumed_count_def limiter_inv_def Let_def)
qed

section \<open>Restart\<close>

lemma period_key_eq:
  "prof @ '':'' @ period_name p = prof' @ '':'' @ period_name p' \<Longrightarrow> prof = prof' \<and> p = p'"
proof -
  assume eq: "prof @ '':'' @ period_name p = prof' @ '':'' @ period_name p'"
  have "last (period_name p) = last (period_name p')"
    using arg_cong [OF eq, of last] by (cases p; cases p'; simp)
  then have "p = p'" by (cases p; cases p'; simp)
  with eq show ?thesis by simp
qed

lemma user_periods_row:
  assumes "user_periods rows u (prof @ '':'' @ period_name p) = Some v" and "rows_ok rows"
  shows "((u, prof, period_name p), v) \<in> set rows"
proof -
  from map_of_SomeD [OF assms(1) [unfolded user_periods_def]]
  obtain prof' per where
    row: "((u, prof', per), v) \<in> set rows" "prof @ '':'' @ period_name p = prof' @ '':'' @ per"
    by auto
  from row(1) assms(2) obtain p' where "per = period_name p'" by (fastforce simp: rows_ok_def)
  with row period_key_eq [of prof p prof' p'] show ?thesis by simp
qed

lemma restore_bucket_ok:
  assumes "bucket_ok cap w b" and "\<And>c start. saved = Some (c, start) \<Longrightarrow> 0 \<le> c \<and> c \<le> cap"
  shows "bucket_ok cap w (restore_bucket saved wall mon b)"
  using assms by (auto simp: restore_bucket_def bucket_ok_def Let_def split: option.splits)

lemma bucket_of_restore:
  "bucket_of p (restore_user rows prof wall mon t u) =
     restore_bucket (user_periods rows u (prof @ '':'' @ period_name p)) wall mon
       (bucket_of p (new_user_buckets prof t))"
  by (cases p) (simp_all add: restore_user_def Let_def)

lemma restore_user_ok:
  assumes "rows_ok rows"
  shows "buckets_ok prof (restore_user rows prof wall mon t u)"
proof -
  have "bucket_ok (limit_of p prof) (window_of p)
      (bucket_of p (restore_user rows prof wall mon t u))" for p
    unfolding bucket_of_restore
  proof (rule restore_bucket_ok [OF buckets_okD [OF buckets_ok_new]])
    fix c start
    assume "user_periods rows u (prof @ '':'' @ period_name p) = Some (c, start)"
    from user_periods_row [OF this assms] assms show "0 \<le> c \<and> c \<le> limit_of p prof"
      by (cases p) (fastforce simp: rows_ok_def all_period elim!: period_name.elims)+
  qed
  moreover have "ub_profile (restore_user rows prof wall mon t u) = prof"
      "ub_unlimited_counter (restore_user rows prof wall mon t u) = 0"
    by (simp_all add: restore_user_def new_user_buckets_def Let_def)
  ultimately show ?thesis by (simp add: buckets_ok_def)
qed

lemma limiter_inv_init:
  assumes "init_rate_limiter st rs wall mon t = Inr s"
    and "\<And>rows. rs = Some rows \<Longrightarrow> rows_ok rows"
  shows "limiter_inv s"
proof -
  obtain ps where ps: "load_profiles st = Inr ps" using assms(1)
    by (auto simp: init_rate_limiter_def elim: bind_res_InrE)
  show ?thesis
  proof (cases rs)
    case None
    with assms(1) ps show ?thesis
      by (auto simp: init_rate_limiter_def limiter_inv_def users_ok_def Let_def)
  next
    case (Some rows)
    with assms ps show ?thesis
      by (auto simp: init_rate_limiter_def restore_from_storage_def limiter_inv_def users_ok_def
          get_user_profile_def restore_user_ok Let_def split: if_splits)
  qed
qed

end
