(* ===== verification/RateGuarantees.thy ===== *)
theory RateGuarantees
  imports RateBounds
begin

text \<open>
  The properties of the rate limiter: the invariant of every reachable limiter, the bound on the
  requests granted in an interval, what a request charges and what it reports, restarts, profile
  changes, and the two ways around the limits that the code leaves open.
\<close>

section \<open>Operations as steps\<close>

datatype operation =
    Request int rat "nat \<Rightarrow> rat"
  | Usage int "nat \<Rightarrow> rat"
  | SetProfile int int string string rat "nat \<Rightarrow> rat"

fun perform :: "operation \<Rightarrow> rate_limiter \<Rightarrow> rate_limiter" where
  "perform (Request u w t) s = fst (check_and_consume s u w t)"
| "perform (Usage u t) s = fst (get_usage s u t)"
| "perform (SetProfile u c prof set_at w t) s = fst (set_user_profile s u c prof set_at w t)"

text \<open>A restart builds a new limiter from the two stores the old one wrote.\<close>

inductive limiter_step :: "rate_limiter \<Rightarrow> rate_limiter \<Rightarrow> bool" where
  operation_step: "limiter_step s (perform f s)"
| restart_step:
    "init_rate_limiter (rl_profile_store s) (rl_rate_storage s) wall mon t = Inr s'
     \<Longrightarrow> limiter_step s s'"

inductive limiter_reachable :: "rate_limiter \<Rightarrow> bool" where
  first_start:
    "init_rate_limiter st rs wall mon t = Inr s \<Longrightarrow> rs = None \<or> rs = Some [] \<Longrightarrow> limiter_reachable s"
| later_step: "limiter_reachable s \<Longrightarrow> limiter_step s s' \<Longrightarrow> limiter_reachable s'"

inductive_cases limiter_stepE: "limiter_step s s'"

lemma limiter_inv_perform [inv_intros]: "limiter_inv s \<Longrightarrow> limiter_inv (perform f s)"
  by (cases f) (simp_all add: inv_intros)

lemma limiter_inv_rows: "limiter_inv s \<Longrightarrow> rl_rate_storage s = Some rows \<Longrightarrow> rows_ok rows"
  by (simp add: limiter_inv_def)

lemma limiter_inv_step: "limiter_inv s \<Longrightarrow> limiter_step s s' \<Longrightarrow> limiter_inv s'"
  by (erule limiter_stepE) (auto intro: limiter_inv_perform limiter_inv_init limiter_inv_rows)

lemma limiter_reachable_inv: "limiter_reachable s \<Longrightarrow> limiter_inv s"
  by (induction rule: limiter_reachable.induct)
    (auto intro: limiter_inv_step limiter_inv_init simp: rows_ok_def)

lemma restart_ok:
  "limiter_inv s \<Longrightarrow> is_ok (init_rate_limiter (rl_profile_store s) rs wall mon t)"
  by (simp add: limiter_inv_def init_rate_limiter_def Let_def)

text \<open>In every reachable limiter, restarts included, each counter of a user lies between 0 and
  the limit of the user's current profile, the buckets belong to that profile (so the branch of
  \<open>check_and_consume\<close> for a profile changed behind the limiter's back is never taken), and the
  stored profiles are exactly those in memory, so that a restart succeeds.\<close>

theorem limiter_invariant:
  assumes "limiter_reachable s"
  shows "(\<forall>u b. rl_users s u = Some b \<longrightarrow>
            ub_profile b = get_user_profile s u
            \<and> (\<forall>p. 0 \<le> tb_request_count (bucket_of p b)
                 \<and> tb_request_count (bucket_of p b) \<le> limit_of p (get_user_profile s u)
                 \<and> tb_window_seconds (bucket_of p b) = window_of p))
    \<and> load_profiles (rl_profile_store s) = Inr (rl_profiles s)
    \<and> is_ok (init_rate_limiter (rl_profile_store s) (rl_rate_storage s) wall mon t)"
  using limiter_reachable_inv [OF assms] restart_ok
  by (auto simp: limiter_inv_def users_ok_def buckets_ok_def bucket_ok_def)

definition empty_limiter :: rate_limiter where
  "empty_limiter = \<lparr>rl_users = Map.empty, rl_profiles = Map.empty,
     rl_profile_store = ProfileTable Map.empty, rl_rate_storage = Some []\<rparr>"

lemma empty_limiter_reachable: "limiter_reachable empty_limiter"
  by (rule first_start [of "ProfileTable Map.empty" "Some []" 0 0 "\<lambda>_ _. 0"])
    (simp_all add: empty_limiter_def init_rate_limiter_def restore_from_storage_def)

lemma empty_limiter_inv [simp]: "limiter_inv empty_limiter"
  by (rule limiter_reachable_inv [OF empty_limiter_reachable])

lemma limiter_invariant_witness:
  "0 \<le> tb_request_count (ub_day (the (rl_users
     (perform (Request 5 0 (\<lambda>_. 1)) empty_limiter) 5)))"
proof -
  let ?s = "perform (Request 5 0 (\<lambda>_. 1)) empty_limiter"
  have "limiter_reachable ?s"
    by (rule later_step [OF empty_limiter_reachable operation_step])
  from limiter_invariant [OF this] have
    "\<forall>b. rl_users ?s 5 = Some b \<longrightarrow> 0 \<le> tb_request_count (bucket_of Day b)" by blast
  moreover have "\<exists>b. rl_users ?s 5 = Some b" by (simp add: check_outcome)
  ultimately show ?thesis by auto
qed

section \<open>The bound on the requests granted\<close>

text \<open>The requests of one user that a run of operations grants.\<close>

definition grants :: "int \<Rightarrow> operation \<Rightarrow> rate_limiter \<Rightarrow> bool" where
  "grants u f s =
     (case f of Request v w t \<Rightarrow> v = u \<and> rr_allowed (snd (check_and_consume s v w t)) | _ \<Rightarrow> False)"

primrec granted :: "int \<Rightarrow> operation list \<Rightarrow> rate_limiter \<Rightarrow> int" where
  "granted u [] s = 0"
| "granted u (f # fs) s = (if grants u f s then 1 else 0) + granted u fs (perform f s)"

fun clock_of :: "operation \<Rightarrow> nat \<Rightarrow> rat" where
  "clock_of (Request u w t) = t" | "clock_of (Usage u t) = t" | "clock_of (SetProfile u c p a w t) = t"

fun sets_profile_of :: "int \<Rightarrow> operation \<Rightarrow> bool" where
  "sets_profile_of u (SetProfile v c p a w t) = (u = v)" | "sets_profile_of u _ = False"

text \<open>What is known of the buckets of \<open>u\<close> after \<open>n\<close> requests granted since the instant \<open>a\<close>.\<close>

definition window_inv :: "int \<Rightarrow> period \<Rightarrow> rat \<Rightarrow> int \<Rightarrow> rate_limiter \<Rightarrow> bool" where
  "window_inv u p a n s \<longleftrightarrow>
     (case rl_users s u of
        None \<Rightarrow> n = 0
      | Some b \<Rightarrow> win_ok (limit_of p (get_user_profile s u)) (window_of p) a n (bucket_of p b)
                  \<and> (0 < n \<longrightarrow> a \<le> ub_last_activity b))"

lemma window_inv_bound: "window_inv u p a n s \<Longrightarrow> n \<le> 2 * limit_of p (get_user_profile s u)"
  by (auto simp: window_inv_def dest: win_ok_bound split: option.splits)

lemma window_inv_start: "users_ok s \<Longrightarrow> window_inv u p a 0 s"
  by (auto simp: window_inv_def users_ok_def intro: win_ok_start buckets_okD split: option.splits)

lemma evict_keeps_window:
  assumes "window_inv u p a n s" and "p \<noteq> Day" and "now < a + window_of p" and "0 \<le> n"
  shows "window_inv u p a n (evict_stale now s)"
proof (cases "rl_users s u")
  case None
  with assms show ?thesis by (simp add: window_inv_def evict_stale_def)
next
  case (Some b)
  have "window_of p \<le> 3600" using assms(2) by (cases p) auto
  then have "n = 0" if "3600 < now - ub_last_activity b"
    using that assms Some by (fastforce simp: window_inv_def)
  with assms(1) Some show ?thesis
    by (auto simp: window_inv_def evict_stale_def eviction_ttl_seconds_def get_user_profile_def)
qed

lemma charged_buckets_window:
  assumes "window_inv u p a n s" and "p \<noteq> Day" and "users_ok s" and "0 \<le> n"
    and "\<forall>i. a \<le> t i \<and> t i < a + window_of p"
  shows "win_ok (limit_of p (get_user_profile s u)) (window_of p) a n
           (bucket_of p (charged_buckets s u t))"
proof -
  let ?s = "evict_stale (t 0) s"
  have w: "window_inv u p a n ?s" using assms by (intro evict_keeps_window) auto
  have ok: "users_ok ?s" using assms(3) by (rule users_ok_evict)
  have prof: "get_user_profile ?s u = get_user_profile s u" by (simp add: get_user_profile_def)
  show ?thesis
  proof (cases "rl_users ?s u")
    case None
    with w show ?thesis
      by (simp add: window_inv_def charged_buckets_def buckets_for_request_def win_ok_start
          buckets_okD)
  next
    case (Some b)
    with ok prof have "ub_profile b = get_user_profile s u" by (auto simp: users_ok_def buckets_ok_def)
    with w Some prof show ?thesis
      by (simp add: window_inv_def charged_buckets_def buckets_for_request_def)
  qed
qed

lemma win_ok_charge:
  "win_ok cap w a n b \<Longrightarrow> a \<le> now \<Longrightarrow> now < a + w \<Longrightarrow> has_room now b
   \<Longrightarrow> win_ok cap w a (n + 1) (charge (maybe_reset_window now b))"
  using win_ok_consume [of cap w a n b now] by (simp add: try_consume_cases)

lemma request_outcome_window:
  assumes "window_inv u p a n s" and "p \<noteq> Day" and "users_ok s" and "0 \<le> n"
    and "\<forall>i. a \<le> t i \<and> t i < a + window_of p" and "get_user_profile s u \<noteq> ''unlimited''"
  shows "win_ok (limit_of p (get_user_profile s u)) (window_of p) a
           (if rr_allowed (snd (request_outcome s u t)) then n + 1 else n)
           (bucket_of p (fst (request_outcome s u t)))
         \<and> ub_last_activity (fst (request_outcome s u t)) = t 8"
proof -
  let ?b = "charged_buckets s u t"
  have ok: "buckets_ok (get_user_profile s u) ?b" using assms(3) by simp
  have w: "win_ok (limit_of p (get_user_profile s u)) (window_of p) a n (bucket_of p ?b)"
    using assms by (intro charged_buckets_window) auto
  have la: "ub_last_activity ?b = t 8" by (simp add: charged_buckets_def)
  obtain b1 r where c: "consume_all ?b (\<lambda>i. t (i + 9)) = (b1, r)" by fastforce
  note eff = consume_all_bucket [OF ok c, of p]
  show ?thesis
  proof (cases r)
    case None
    obtain b2 x where u: "update_warnings b1 (\<lambda>i. t (i + 12)) = (b2, x)" by (metis surj_pair)
    have "has_room (t (site p + 9)) (bucket_of p ?b)"
      using c None consume_all_None [of ?b "\<lambda>i. t (i + 9)"] by (simp add: all_room_def)
    then have "win_ok (limit_of p (get_user_profile s u)) (window_of p) a (n + 1) (bucket_of p b1)"
      using eff None w assms(5) by (auto intro: win_ok_charge)
    then have "win_ok (limit_of p (get_user_profile s u)) (window_of p) a (n + 1) (bucket_of p b2)"
      using update_warnings_bucket [OF u, of p] assms(5) by (auto intro: win_ok_reset)
    with c u None la assms(6) consume_all_profile [OF c] update_warnings_profile [OF u]
    show ?thesis by (auto simp: request_outcome_def allowed_result_def Let_def split: prod.splits)
  next
    case (Some d)
    have "win_ok (limit_of p (get_user_profile s u)) (window_of p) a n (bucket_of p b1)"
      using eff Some w assms(5) win_ok_reset [OF w, of "t (site p + 9)"] by auto
    with c Some la assms(6) consume_all_profile [OF c] show ?thesis
      by (auto simp: request_outcome_def denied_result_def Let_def split: prod.splits)
  qed
qed

lemma perform_other_profile:
  "\<not> sets_profile_of u f \<Longrightarrow> get_user_profile (perform f s) u = get_user_profile s u"
  by (cases f) (auto simp: get_user_profile_def lookup_profile_def get_usage_def set_user_profile_def
      Let_def split: option.splits prod.splits)

lemma window_inv_cong:
  "rl_users s u = rl_users s' u \<Longrightarrow> get_user_profile s u = get_user_profile s' u
   \<Longrightarrow> window_inv u p a n s = window_inv u p a n s'"
  by (simp add: window_inv_def split: option.splits)

definition refreshed :: "(nat \<Rightarrow> rat) \<Rightarrow> user_buckets \<Rightarrow> user_buckets" where
  "refreshed t b =
     b\<lparr>ub_minute := maybe_reset_window (t 0) (ub_minute b),
       ub_hour := maybe_reset_window (t 2) (ub_hour b), ub_day := maybe_reset_window (t 4) (ub_day b)\<rparr>"

lemma refreshed_simps [simp]:
  "bucket_of p (refreshed t b) = maybe_reset_window (t (2 * site p)) (bucket_of p b)"
  "ub_last_activity (refreshed t b) = ub_last_activity b"
  by (cases p; simp add: refreshed_def) (simp add: refreshed_def)

lemma get_usage_users:
  "rl_users (fst (get_usage s v t)) u =
     (if u = v then map_option (refreshed t) (rl_users s u) else rl_users s u)"
  by (auto simp: get_usage_def refreshed_def consumed_count_def Let_def split: option.splits)

lemma usage_keeps_window:
  assumes "window_inv u p a n s" and "\<forall>i. a \<le> t i \<and> t i < a + window_of p"
  shows "window_inv u p a n (fst (get_usage s v t))"
proof -
  have prof: "get_user_profile (fst (get_usage s v t)) u = get_user_profile s u"
    using perform_other_profile [of u "Usage v t" s] by simp
  show ?thesis
  proof (cases "rl_users s u")
    case None
    with assms show ?thesis by (auto simp: window_inv_def get_usage_users)
  next
    case (Some b)
    with assms prof show ?thesis
      using win_ok_reset [of _ "window_of p" a n "bucket_of p b" "t (2 * site p)"]
      by (auto simp: window_inv_def get_usage_users)
  qed
qed

lemma perform_window:
  assumes "window_inv u p a n s" and "p \<noteq> Day" and "users_ok s" and "0 \<le> n"
    and "\<forall>i. a \<le> clock_of f i \<and> clock_of f i < a + window_of p"
    and "get_user_profile s u \<noteq> ''unlimited''" and "\<not> sets_profile_of u f"
  shows "window_inv u p a (if grants u f s then n + 1 else n) (perform f s)"
proof (cases f)
  case (Request v w t)
  have t: "\<forall>i. a \<le> t i \<and> t i < a + window_of p" using assms(5) Request by simp
  have prof: "get_user_profile (perform f s) u = get_user_profile s u"
    using assms(7) by (rule perform_other_profile)
  show ?thesis
  proof (cases "v = u")
    case True
    with Request request_outcome_window [OF assms(1,2,3,4) t assms(6)] t prof show ?thesis
      by (simp add: window_inv_def check_outcome grants_def)
  next
    case False
    have "window_inv u p a n (evict_stale (t 0) s)"
      using assms t by (intro evict_keeps_window) auto
    with False Request prof show ?thesis
      by (subst window_inv_cong [of _ _ "evict_stale (t 0) s"])
        (auto simp: check_outcome grants_def get_user_profile_def)
  qed
next
  case (Usage v t)
  with assms usage_keeps_window show ?thesis by (simp add: grants_def)
next
  case (SetProfile v c prof set_at w t)
  with assms(7) have "rl_users (perform f s) u = rl_users s u"
    by (auto simp: set_user_profile_def Let_def)
  with assms(1) SetProfile perform_other_profile [OF assms(7), of s] show ?thesis
    by (subst window_inv_cong [of _ _ s]) (auto simp: grants_def)
qed

lemma granted_window:
  "window_inv u p a n s \<Longrightarrow> p \<noteq> Day \<Longrightarrow> limiter_inv s \<Longrightarrow> 0 \<le> n
   \<Longrightarrow> \<forall>f \<in> set fs. \<not> sets_profile_of u f \<and> (\<forall>i. a \<le> clock_of f i \<and> clock_of f i < a + window_of p)
   \<Longrightarrow> get_user_profile s u \<noteq> ''unlimited''
   \<Longrightarrow> n + granted u fs s \<le> 2 * limit_of p (get_user_profile s u)"
proof (induction fs arbitrary: n s)
  case Nil
  then show ?case using window_inv_bound by simp
next
  case (Cons f fs)
  let ?n = "if grants u f s then n + 1 else n"
  have ok: "users_ok s" using Cons.prems(3) by (simp add: limiter_inv_def)
  have prof: "get_user_profile (perform f s) u = get_user_profile s u"
    using Cons.prems(5) by (simp add: perform_other_profile)
  have "window_inv u p a ?n (perform f s)"
    using Cons.prems ok by (intro perform_window) auto
  from Cons.IH [OF this Cons.prems(2) limiter_inv_perform [OF Cons.prems(3)]] Cons.prems prof
  show ?case by (auto split: if_splits)
qed

text \<open>C3: the rate bound of a user of a limited profile. Take any reachable limiter and any operations
  of any users in an interval shorter than a minute (an hour), without a restart in between and
  without a change of the profile of user \<open>u\<close>: at most twice the limit per minute (per hour) of the
  profile is granted to \<open>u\<close>, whatever the interleaving, the instants and the evictions. Twice, not
  once, because the windows are fixed. A change of the profile can clear the usage
  (\<open>unlimited_detour_clears_usage\<close>), so the bound does not hold across one.\<close>

theorem rate_bound:
  assumes "limiter_reachable s" and "p \<noteq> Day" and "get_user_profile s u \<noteq> ''unlimited''"
    and "\<forall>f \<in> set fs. \<not> sets_profile_of u f"
    and "\<forall>f \<in> set fs. \<forall>i. a \<le> clock_of f i \<and> clock_of f i < a + window_of p"
  shows "granted u fs s \<le> 2 * limit_of p (get_user_profile s u)"
proof -
  have inv: "limiter_inv s" using assms(1) by (rule limiter_reachable_inv)
  then have "window_inv u p a 0 s" by (intro window_inv_start) (simp add: limiter_inv_def)
  from granted_window [OF this assms(2) inv] assms(3-5) show ?thesis by simp
qed

lemma rate_bound_witness:
  "granted 5 [Request 5 0 (\<lambda>_. 1), Usage 5 (\<lambda>_. 2), Request 5 0 (\<lambda>_. 3)] empty_limiter \<le> 2 * 25"
proof -
  have n: "get_user_profile empty_limiter 5 = ''normal''"
    by (simp add: get_user_profile_def lookup_profile_def empty_limiter_def default_profile_def)
  have l: "limit_of Minute ''normal'' = 25" by (simp add: profile_limits_def profiles_def)
  show ?thesis
    using rate_bound [OF empty_limiter_reachable, of Minute 5 _ 0] by (simp add: n l)
qed

text \<open>
  The day limit has no such bound: \<open>_evict_stale\<close> forgets the buckets of a user idle for an hour,
  the day bucket with them.
\<close>

lemma has_room_new: "0 < cap \<Longrightarrow> 0 < w \<Longrightarrow> has_room now (new_bucket cap w start)"
  by (simp add: has_room_def new_bucket_def maybe_reset_window_def)

text \<open>the daily limit can be evaded. Whatever a user has consumed today, after more than an hour
  without a request the next one is granted and the day counter is back at one (zero if the window
  ends during the call), although the day window of the old bucket has not ended: the eviction
  meant to free memory forgets the daily budget. (The minute and hour windows have ended by then.)\<close>

theorem idle_hour_clears_day_budget:
  assumes "limiter_inv s" and "rl_users s u = Some b" and "3600 < t 0 - ub_last_activity b"
    and "get_user_profile s u \<noteq> ''unlimited''" and "known_profile (get_user_profile s u)"
  shows "rr_allowed (snd (check_and_consume s u w t))
    \<and> (\<exists>b'. rl_users (fst (check_and_consume s u w t)) u = Some b'
          \<and> tb_request_count (ub_day b') \<le> 1)"
proof -
  let ?p = "get_user_profile s u"
  let ?c = "charged_buckets s u t"
  have c: "?c = new_user_buckets ?p (\<lambda>i. t (i + 1))\<lparr>ub_last_activity := t 8\<rparr>"
    using assms(2,3) by (simp add: charged_buckets_def buckets_for_request_def evict_stale_def
        eviction_ttl_seconds_def)
  have pos: "0 < limit_of p ?p" for p
    using assms(4,5) by (cases p) (auto simp: known_profile_def profile_limits_def profiles_def
        split: if_splits)
  have "all_room ?c (\<lambda>i. t (i + 9))"
    using pos [of Minute] pos [of Hour] pos [of Day]
    by (simp add: all_room_def all_period c new_user_buckets_def has_room_new Let_def)
  then obtain b1 where b1: "consume_all ?c (\<lambda>i. t (i + 9)) = (b1, None)"
    using consume_all_None [of ?c "\<lambda>i. t (i + 9)"] by (metis surj_pair snd_conv)
  have ok: "buckets_ok ?p ?c" using assms(1) by (simp add: limiter_inv_def)
  obtain b2 x where b2: "update_warnings b1 (\<lambda>i. t (i + 12)) = (b2, x)" by (metis surj_pair)
  have "tb_request_count (bucket_of Day b1) = 1"
    using consume_all_bucket [OF ok b1, of Day]
    by (simp add: c charge_def new_user_buckets_def new_bucket_def maybe_reset_window_def Let_def)
  then have "tb_request_count (ub_day b2) \<le> 1"
    using update_warnings_bucket [OF b2, of Day] by (simp add: maybe_reset_window_def)
  with b1 b2 assms(4) show ?thesis
    by (cases x) (simp add: check_outcome request_outcome_def allowed_result_def Let_def)
qed

definition day_spent :: user_buckets where
  "day_spent = (new_user_buckets ''normal'' (\<lambda>_. 0))
     \<lparr>ub_day := (new_bucket 1500 86400 0)\<lparr>tb_request_count := 1500\<rparr>, ub_last_activity := 1000\<rparr>"

definition day_spent_limiter :: rate_limiter where
  "day_spent_limiter = empty_limiter\<lparr>rl_users := Map.empty(5 \<mapsto> day_spent)\<rparr>"

lemma normal_limits:
  "profile_limits ''normal'' = \<lparr>per_minute = 25, per_hour = 350, per_day = 1500\<rparr>"
  by (simp add: profile_limits_def profiles_def)

lemma day_spent_profile [simp]: "get_user_profile day_spent_limiter u = ''normal''"
  by (simp add: get_user_profile_def lookup_profile_def day_spent_limiter_def empty_limiter_def
      default_profile_def)

lemma day_spent_inv: "limiter_inv day_spent_limiter"
proof -
  have "buckets_ok ''normal'' day_spent"
    by (simp add: buckets_ok_def all_period day_spent_def new_user_buckets_def bucket_ok_def
        new_bucket_def normal_limits Let_def)
  then show ?thesis
    using empty_limiter_inv
    by (simp add: limiter_inv_def users_ok_def) (simp add: day_spent_limiter_def)
qed

lemma day_spent_user [simp]:
  "rl_users day_spent_limiter 5 = Some day_spent" "ub_last_activity day_spent = 1000"
  by (simp_all add: day_spent_limiter_def day_spent_def)

lemma known_normal [simp]: "known_profile ''normal''"
  by (simp add: known_profile_def profiles_def)

lemma idle_hour_clears_day_budget_witness:
  "tb_request_count (ub_day day_spent) = tb_capacity (ub_day day_spent)
   \<and> rr_allowed (snd (check_and_consume day_spent_limiter 5 0 (\<lambda>_. 4700)))"
proof
  show "rr_allowed (snd (check_and_consume day_spent_limiter 5 0 (\<lambda>_. 4700)))"
    using idle_hour_clears_day_budget [OF day_spent_inv, of 5 day_spent "\<lambda>_. 4700" 0] by simp
  show "tb_request_count (ub_day day_spent) = tb_capacity (ub_day day_spent)"
    by (simp add: day_spent_def new_bucket_def)
qed

section \<open>What a request charges and reports\<close>

text \<open>The first period without room, in the order the code tries them.\<close>

definition refusing_period :: "user_buckets \<Rightarrow> (nat \<Rightarrow> rat) \<Rightarrow> period option" where
  "refusing_period b t =
     (if \<not> has_room (t 0) (ub_minute b) then Some Minute
      else if \<not> has_room (t 1) (ub_hour b) then Some Hour
      else if \<not> has_room (t 2) (ub_day b) then Some Day else None)"

lemma refusing_period_None: "refusing_period b t = None \<longleftrightarrow> all_room b t"
  by (simp add: refusing_period_def all_room_def all_period)

lemma consume_all_refused:
  "refusing_period b t = Some p \<Longrightarrow>
     snd (consume_all b t) =
       Some (period_name p,
             seconds_until_reset (t (site p)) (maybe_reset_window (t (site p)) (bucket_of p b)),
             tb_capacity (bucket_of p b))"
  by (auto simp: refusing_period_def consume_all_def try_consume_cases split: if_splits)

lemma charged_buckets_active:
  assumes "users_ok s" and "rl_users s u = Some b" and "t 0 - ub_last_activity b \<le> 3600"
  shows "charged_buckets s u t = b\<lparr>ub_last_activity := t 8\<rparr>"
  using assms by (auto simp: charged_buckets_def buckets_for_request_def evict_stale_def
      eviction_ttl_seconds_def users_ok_def buckets_ok_def)

lemma refusing_period_activity [simp]:
  "refusing_period (b\<lparr>ub_last_activity := x\<rparr>) t = refusing_period b t"
  by (simp add: refusing_period_def)

text \<open>The buckets that a request is charged to: those of the user, or new ones for a user who has none
  or was idle for more than an hour.\<close>

lemma charged_buckets_inactive:
  "rl_users (evict_stale (t 0) s) u = None \<Longrightarrow>
     bucket_of p (charged_buckets s u t) = new_bucket (limit_of p (get_user_profile s u)) (window_of p) (t (site p + 1))"
  by (cases p) (simp_all add: charged_buckets_def buckets_for_request_def new_user_buckets_def Let_def)

text \<open>C36: every request is decided in one of three ways. A user of the unlimited profile is granted
  it and charged nothing. Any other user is granted it exactly when all three windows have room, and
  it is all or nothing. Granted, it adds one to each counter (the counters are read again for the
  warnings, which can start a new window). Refused, no counter grows: each bucket is as before or
  starts a new window; and the answer names the first exhausted period, its limit, and the
  rounded time to the end of its window. The windows are those of the user, or new ones for a user
  without buckets or idle for more than an hour.\<close>

theorem request_all_or_nothing:
  assumes "limiter_inv s" and "check_and_consume s u w t = (s', r)"
  shows "\<exists>b b'. rl_users s' u = Some b'
    \<and> (\<forall>p. bucket_of p b = (case rl_users (evict_stale (t 0) s) u of
           Some b0 \<Rightarrow> bucket_of p b0
         | None \<Rightarrow> new_bucket (limit_of p (get_user_profile s u)) (window_of p) (t (site p + 1))))
    \<and> (if get_user_profile s u = ''unlimited'' then rr_allowed r \<and> (\<forall>p. bucket_of p b' = bucket_of p b)
    else case refusing_period b (\<lambda>i. t (i + 9)) of
      None \<Rightarrow> rr_allowed r
        \<and> (\<forall>p. bucket_of p b' = maybe_reset_window (t (site p + 12))
                (charge (maybe_reset_window (t (site p + 9)) (bucket_of p b))))
    | Some q \<Rightarrow> \<not> rr_allowed r \<and> rr_period r = Some (period_name q)
        \<and> rr_limit_value r = limit_of q (get_user_profile s u)
        \<and> rr_retry_after r = Some (py_round1 (seconds_until_reset (t (site q + 9))
             (maybe_reset_window (t (site q + 9)) (bucket_of q b))))
        \<and> (\<forall>p. bucket_of p b' = bucket_of p b
              \<or> bucket_of p b' = maybe_reset_window (t (site p + 9)) (bucket_of p b))
        \<and> rl_rate_storage s' = rl_rate_storage s)"
proof (intro exI conjI)
  let ?c = "charged_buckets s u t"
  have ok: "users_ok s" using assms(1) by (simp add: limiter_inv_def)
  have cok: "buckets_ok (get_user_profile s u) ?c" using ok by simp
  have r: "r = snd (request_outcome s u t)" and b': "rl_users s' u = Some (fst (request_outcome s u t))"
    using assms(2) check_outcome [of s u w t] by auto
  show "rl_users s' u = Some (fst (request_outcome s u t))" by (rule b')
  show "\<forall>p. bucket_of p ?c = (case rl_users (evict_stale (t 0) s) u of Some b0 \<Rightarrow> bucket_of p b0
      | None \<Rightarrow> new_bucket (limit_of p (get_user_profile s u)) (window_of p) (t (site p + 1)))"
  proof (cases "rl_users (evict_stale (t 0) s) u")
    case (Some b0)
    have "rl_users s u = Some b0" "t 0 - ub_last_activity b0 \<le> 3600"
      using Some by (auto simp: evict_stale_def eviction_ttl_seconds_def split: option.splits if_splits)
    with Some charged_buckets_active [OF ok] show ?thesis by simp
  qed (simp add: charged_buckets_inactive)
  obtain b1 d where b1: "consume_all ?c (\<lambda>i. t (i + 9)) = (b1, d)" by fastforce
  show "if get_user_profile s u = ''unlimited''
    then rr_allowed r \<and> (\<forall>p. bucket_of p (fst (request_outcome s u t)) = bucket_of p ?c)
    else case refusing_period ?c (\<lambda>i. t (i + 9)) of
      None \<Rightarrow> rr_allowed r
        \<and> (\<forall>p. bucket_of p (fst (request_outcome s u t)) = maybe_reset_window (t (site p + 12))
                (charge (maybe_reset_window (t (site p + 9)) (bucket_of p ?c))))
    | Some q \<Rightarrow> \<not> rr_allowed r \<and> rr_period r = Some (period_name q)
        \<and> rr_limit_value r = limit_of q (get_user_profile s u)
        \<and> rr_retry_after r = Some (py_round1 (seconds_until_reset (t (site q + 9))
             (maybe_reset_window (t (site q + 9)) (bucket_of q ?c))))
        \<and> (\<forall>p. bucket_of p (fst (request_outcome s u t)) = bucket_of p ?c
              \<or> bucket_of p (fst (request_outcome s u t)) = maybe_reset_window (t (site p + 9)) (bucket_of p ?c))
        \<and> rl_rate_storage s' = rl_rate_storage s"
  proof (cases "get_user_profile s u = ''unlimited''")
    case True
    then have "bucket_of p (fst (request_outcome s u t)) = bucket_of p ?c" for p
      by (cases p) (simp_all add: request_outcome_def Let_def)
    with True r show ?thesis by (simp add: request_outcome_def allowed_result_def Let_def)
  next
    case limited: False
    show ?thesis
    proof (cases "refusing_period ?c (\<lambda>i. t (i + 9))")
      case None
      then have d: "d = None"
        using consume_all_None [of ?c "\<lambda>i. t (i + 9)"] refusing_period_None [of ?c] b1 by simp
      obtain b2 x where b2: "update_warnings b1 (\<lambda>i. t (i + 12)) = (b2, x)" by (metis surj_pair)
      have "fst (request_outcome s u t) = b2" "rr_allowed r"
        using r b1 d b2 limited by (auto simp: request_outcome_def allowed_result_def Let_def split: prod.splits)
      with None limited update_warnings_bucket [OF b2] consume_all_bucket [OF cok b1] d show ?thesis by simp
    next
      case (Some q)
      from consume_all_refused [of ?c "\<lambda>i. t (i + 9)" q] Some b1
      have d: "d = Some (period_name q, seconds_until_reset (t (site q + 9))
          (maybe_reset_window (t (site q + 9)) (bucket_of q ?c)), tb_capacity (bucket_of q ?c))" by simp
      have cap: "tb_capacity (bucket_of q ?c) = limit_of q (get_user_profile s u)"
        using buckets_okD [OF cok, of q] by (simp add: bucket_ok_def)
      have res: "fst (request_outcome s u t) = b1" "\<not> rr_allowed r" "r = denied_result (get_user_profile s u) (the d)"
        using r b1 d limited by (auto simp: request_outcome_def denied_result_def Let_def)
      have st: "rl_rate_storage s' = rl_rate_storage s"
        using check_state [of s u w t] assms(2) r res(2) by (simp add: Let_def)
      show ?thesis
        using Some limited res d cap st consume_all_bucket [OF cok b1] by (simp add: denied_result_def)
    qed
  qed
qed

lemma request_all_or_nothing_witness:
  "\<exists>s' r. check_and_consume day_spent_limiter 5 0 (\<lambda>_. 1001) = (s', r)
     \<and> rr_period r = Some ''day'' \<and> rr_retry_after r = Some 85399"
proof -
  obtain s' r where c: "check_and_consume day_spent_limiter 5 0 (\<lambda>_. 1001) = (s', r)" by fastforce
  have e: "rl_users (evict_stale 1001 day_spent_limiter) 5 = Some day_spent"
    by (simp add: evict_stale_def eviction_ttl_seconds_def)
  have p: "refusing_period b (\<lambda>i. 1001) = Some Day" if "\<forall>p. bucket_of p b = bucket_of p day_spent" for b
    using that unfolding refusing_period_def all_period
    by (simp add: day_spent_def new_user_buckets_def has_room_def new_bucket_def
        maybe_reset_window_def normal_limits Let_def)
  have w: "py_round1 (seconds_until_reset 1001 (maybe_reset_window 1001 (ub_day day_spent))) = 85399"
    by (simp add: day_spent_def new_bucket_def maybe_reset_window_def seconds_until_reset_def
        py_round1_def round_half_even_def)
  from request_all_or_nothing [OF day_spent_inv c] obtain b where
    b: "\<forall>p. bucket_of p b = bucket_of p day_spent"
    and r: "case refusing_period b (\<lambda>i. 1001) of None \<Rightarrow> True
      | Some q \<Rightarrow> rr_period r = Some (period_name q) \<and> rr_retry_after r = Some (py_round1 (seconds_until_reset 1001
          (maybe_reset_window 1001 (bucket_of q b))))"
    by (auto simp: e split: option.splits)
  have "ub_day b = ub_day day_spent" using b by (metis bucket_of.simps(3))
  with r p [OF b] w c show ?thesis by auto
qed

text \<open>A user of the unlimited profile is never refused, is reminded on every hundredth request,
  and is charged nothing: the counters stay as they are.\<close>

theorem unlimited_user_is_never_refused:
  assumes "limiter_inv s" and "rl_users s u = Some b" and "t 0 - ub_last_activity b \<le> 3600"
    and "get_user_profile s u = ''unlimited''"
  shows "snd (check_and_consume s u w t) =
      allowed_result ''unlimited'' False None ((ub_unlimited_counter b + 1) mod 100 = 0)
    \<and> rl_users (fst (check_and_consume s u w t)) u =
        Some (b\<lparr>ub_last_activity := t 8, ub_unlimited_counter := ub_unlimited_counter b + 1\<rparr>)"
  using charged_buckets_active [of s u b t] assms
  by (simp add: limiter_inv_def check_outcome request_outcome_def Let_def)

definition unlimited_limiter :: rate_limiter where
  "unlimited_limiter = fst (set_user_profile empty_limiter 5 1 ''unlimited'' ''t'' 0 (\<lambda>_. 0))"

lemma known_unlimited [simp]: "known_profile ''unlimited''"
  by (simp add: known_profile_def profiles_def)

lemma unlimited_limiter_simps [simp]:
  "rl_users unlimited_limiter 5 = Some (new_user_buckets ''unlimited'' (\<lambda>_. 0))"
  "get_user_profile unlimited_limiter 5 = ''unlimited''"
  "limiter_inv unlimited_limiter"
  by (simp_all add: unlimited_limiter_def limiter_inv_set_profile)
    (simp_all add: set_user_profile_def empty_limiter_def get_user_profile_def lookup_profile_def
      Let_def)

lemma unlimited_user_is_never_refused_witness:
  "rr_allowed (snd (check_and_consume unlimited_limiter 5 0 (\<lambda>_. 10)))"
proof -
  have la: "ub_last_activity (new_user_buckets ''unlimited'' (\<lambda>_. 0)) = 0"
    by (simp add: new_user_buckets_def Let_def)
  from unlimited_user_is_never_refused [OF unlimited_limiter_simps(3,1), of "\<lambda>_. 10" 0] la
  show ?thesis by (simp add: allowed_result_def)
qed

section \<open>Profile changes\<close>

lemma carry_over_bucket:
  "bucket_of p (carry_over old new t) =
     (bucket_of p new)\<lparr>tb_request_count :=
        min (snd (consumed_count (t (site p)) (bucket_of p old))) (tb_capacity (bucket_of p new))\<rparr>"
  by (cases p) (simp_all add: carry_over_def Let_def)

lemma bucket_of_new:
  "bucket_of p (new_user_buckets prof t) = new_bucket (limit_of p prof) (window_of p) (t (site p))"
  by (cases p) (simp_all add: new_user_buckets_def Let_def)

lemma set_profile_users:
  assumes "known_profile prof" and "rl_users s u = Some b"
  shows "rl_users (fst (set_user_profile s u c prof set_at w t)) u =
           Some (carry_over b (new_user_buckets prof t) (\<lambda>i. t (i + 4)))"
  using assms by (simp add: set_user_profile_def Let_def)

text \<open>a change of profile keeps the usage: each counter of the new buckets is what the user had
  consumed in the current window, capped at the new limit, and the new windows begin at the
  change.\<close>

theorem profile_change_keeps_usage:
  assumes "known_profile prof" and "rl_users s u = Some b"
  shows "\<exists>b'. rl_users (fst (set_user_profile s u c prof set_at w t)) u = Some b'
    \<and> get_user_profile (fst (set_user_profile s u c prof set_at w t)) u = prof
    \<and> (\<forall>p. bucket_of p b' =
         (new_bucket (limit_of p prof) (window_of p) (t (site p)))
           \<lparr>tb_request_count :=
              min (snd (consumed_count (t (site p + 4)) (bucket_of p b))) (limit_of p prof)\<rparr>)"
  using assms
  by (simp add: set_profile_users carry_over_bucket bucket_of_new)
    (simp add: set_user_profile_def get_user_profile_def lookup_profile_def new_bucket_def Let_def)

lemma profile_change_keeps_usage_witness:
  "tb_request_count (ub_day (the (rl_users
     (fst (set_user_profile day_spent_limiter 5 1 ''light'' ''t'' 0 (\<lambda>_. 1001))) 5))) = 400"
proof -
  have k: "known_profile ''light''" by (simp add: known_profile_def profiles_def)
  have d: "per_day (profile_limits ''light'') = 400" by (simp add: profile_limits_def profiles_def)
  obtain b' where u: "rl_users (fst (set_user_profile day_spent_limiter 5 1 ''light'' ''t'' 0
      (\<lambda>_. 1001))) 5 = Some b'" and "bucket_of Day b' = (new_bucket 400 86400 1001)
      \<lparr>tb_request_count := min (snd (consumed_count 1001 (bucket_of Day day_spent))) 400\<rparr>"
    using profile_change_keeps_usage [OF k day_spent_user(1), of 1 "''t''" 0 "\<lambda>_. 1001"] d
    by (auto simp: all_period)
  then have "ub_day b' = (new_bucket 400 86400 1001)\<lparr>tb_request_count := 400\<rparr>"
    by (simp add: day_spent_def bucket_defs)
  with u show ?thesis by simp
qed

text \<open>\<open>set_user_profile\<close> documents that a switch does not reset the counters to zero. A detour
  over the unlimited profile does: its limits are 0, the usage is capped at 0 there, and the way
  back carries the 0, so that the two switches clear every counter of the user.\<close>

theorem unlimited_detour_clears_usage:
  assumes "known_profile prof" and "rl_users s u = Some b" and "limiter_inv s"
  shows "\<exists>b'. rl_users (perform (SetProfile u c prof at2 w2 t2)
                  (perform (SetProfile u c ''unlimited'' at1 w1 t1) s)) u = Some b'
    \<and> (\<forall>p. tb_request_count (bucket_of p b') = 0)"
proof -
  let ?s1 = "perform (SetProfile u c ''unlimited'' at1 w1 t1) s"
  let ?b1 = "carry_over b (new_user_buckets ''unlimited'' t1) (\<lambda>i. t1 (i + 4))"
  have b1: "rl_users ?s1 u = Some ?b1" using assms(2) by (simp add: set_profile_users)
  have zero: "limit_of p ''unlimited'' = 0" for p
    by (cases p) (simp_all add: profile_limits_def profiles_def)
  have "limiter_inv ?s1" using assms(3) by (rule limiter_inv_perform)
  moreover have "get_user_profile ?s1 u = ''unlimited''"
    by (simp add: set_user_profile_def get_user_profile_def lookup_profile_def Let_def)
  ultimately have "bucket_ok 0 (window_of p) (bucket_of p ?b1)" for p
    using b1 zero by (metis limiter_inv_def users_ok_def buckets_okD)
  from bucket_ok_reset [OF this] have "snd (consumed_count now (bucket_of p ?b1)) = 0" for p now
    by (simp add: consumed_count_def bucket_ok_def Let_def) (metis order_antisym)
  with b1 assms(1) show ?thesis
    by (simp add: set_profile_users carry_over_bucket bucket_of_new new_bucket_def)
qed

lemma unlimited_detour_clears_usage_witness:
  "tb_request_count (ub_day day_spent) = 1500
   \<and> tb_request_count (bucket_of Day (the (rl_users
        (perform (SetProfile 5 1 ''normal'' [] 0 (\<lambda>_. 1002))
          (perform (SetProfile 5 1 ''unlimited'' [] 0 (\<lambda>_. 1001)) day_spent_limiter)) 5))) = 0"
proof
  show "tb_request_count (ub_day day_spent) = 1500" by (simp add: day_spent_def)
  show "tb_request_count (bucket_of Day (the (rl_users
        (perform (SetProfile 5 1 ''normal'' [] 0 (\<lambda>_. 1002))
          (perform (SetProfile 5 1 ''unlimited'' [] 0 (\<lambda>_. 1001)) day_spent_limiter)) 5))) = 0"
    using unlimited_detour_clears_usage [OF known_normal day_spent_user(1) day_spent_inv,
      of 1 "[]" 0 "\<lambda>_. 1002" "[]" 0 "\<lambda>_. 1001"] by (auto simp: all_period)
qed

section \<open>Restarts\<close>

lemma map_of_map_filter_neq:
  "(\<And>x. x \<in> set xs \<Longrightarrow> \<not> P x \<Longrightarrow> fst (f x) \<noteq> k) \<Longrightarrow> map_of (map f (filter P xs)) k = map_of (map f xs) k"
proof (induction xs)
  case (Cons a xs)
  then show ?case by (cases "f a") (force split: if_splits)
qed simp

text \<open>The row saved last is the one found, and the other periods keep theirs.\<close>

lemma user_periods_save_same:
  "user_periods (save_state u prof per c w rows) u (prof @ '':'' @ per) = Some (c, w)"
  by (simp add: user_periods_def save_state_def)

lemma user_periods_save_other:
  assumes "p \<noteq> q"
  shows "user_periods (save_state u prof (period_name p) c w rows) u (prof @ '':'' @ period_name q)
    = user_periods rows u (prof @ '':'' @ period_name q)"
proof -
  have ne: "prof @ '':'' @ period_name q \<noteq> prof @ '':'' @ period_name p"
    using assms period_key_eq by blast
  let ?f = "\<lambda>((uid, profile, period), v). (profile @ '':'' @ period, v)"
  let ?k = "(u, prof, period_name p)"
  have "map_of (map ?f (filter (\<lambda>x. ?k \<noteq> fst x) xs)) (prof @ '':'' @ period_name q)
      = map_of (map ?f xs) (prof @ '':'' @ period_name q)"
    if "\<forall>x \<in> set xs. fst (fst x) = u" for xs :: "rate_row list"
    using ne that by (intro map_of_map_filter_neq) (auto split: prod.splits)
  from this [of "rev (filter (\<lambda>((uid, profile, period), v). uid = u) rows)"] ne show ?thesis
    by (simp add: user_periods_def save_state_def AList.delete_eq rev_filter rev_map filter_filter
        case_prod_beta conj_commute)
qed

lemma persist_lookup:
  assumes "rl_rate_storage s = Some rows" and "rl_users s u = Some b"
  obtains rows' where "rl_rate_storage (persist_user_state u w m s) = Some rows'"
    and "\<And>p. user_periods rows' u (ub_profile b @ '':'' @ period_name p) =
           Some (tb_request_count (bucket_of p b), w - (m - tb_window_start (bucket_of p b)))"
    and "\<exists>v. ((u, ub_profile b, ''day''), v) \<in> set rows'"
proof
  let ?save = "\<lambda>p rows. save_state u (ub_profile b) (period_name p) (tb_request_count (bucket_of p b))
      (w - (m - tb_window_start (bucket_of p b))) rows"
  let ?rows = "?save Day (?save Hour (?save Minute rows))"
  show "rl_rate_storage (persist_user_state u w m s) = Some ?rows"
    using assms by (simp add: persist_user_state_def Let_def)
  show "user_periods ?rows u (ub_profile b @ '':'' @ period_name p) =
      Some (tb_request_count (bucket_of p b), w - (m - tb_window_start (bucket_of p b)))" for p
    by (cases p) (simp_all only: user_periods_save_same user_periods_save_other [of Day]
        user_periods_save_other [of Hour] period.distinct not_False_eq_True)
  show "\<exists>v. ((u, ub_profile b, ''day''), v) \<in> set ?rows" by (auto simp: save_state_def)
qed

lemma init_user:
  assumes "init_rate_limiter (rl_profile_store s) (Some rows) wall mon t = Inr s'"
    and "limiter_inv s" and "((u, x), v) \<in> set rows"
  shows "rl_users s' u = Some (restore_user rows (get_user_profile s u) wall mon (t u) u)"
proof -
  have mem: "u \<in> (\<lambda>row. fst (fst row)) ` set rows" using assms(3) by force
  have "s' = restore_from_storage wall mon t rows
      \<lparr>rl_users = Map.empty, rl_profiles = rl_profiles s, rl_profile_store = rl_profile_store s,
       rl_rate_storage = Some rows\<rparr>"
    using assms(1,2) by (simp add: limiter_inv_def init_rate_limiter_def Let_def)
  with mem show ?thesis by (simp add: restore_from_storage_def get_user_profile_def)
qed

lemma restore_bucket_saved:
  assumes "tb_capacity b = cap" and "tb_window_seconds b = win"
  shows "restore_bucket (Some (tb_request_count b, w - (m - tb_window_start b))) wall mon
      (new_bucket cap win st) =
    (let elapsed = (wall - w) + (m - tb_window_start b)
     in if win \<le> elapsed then b\<lparr>tb_request_count := 0, tb_window_start := mon\<rparr>
        else b\<lparr>tb_window_start := mon - elapsed\<rparr>)"
proof -
  have "wall - (w - (m - tb_window_start b)) = (wall - w) + (m - tb_window_start b)" by simp
  with assms show ?thesis
    unfolding restore_bucket_def new_bucket_def by (cases b) (simp add: Let_def)
qed

text \<open>Usage survives a restart. After a granted request, the limiter that is built anew from the
  stored rows has for that user, in each period, the stored counter with as much of its window
  elapsed as wall-clock time has passed; a window that has ended in the meantime starts fresh.\<close>

theorem restart_preserves_usage:
  assumes "limiter_inv s" and "rl_rate_storage s = Some rows"
    and "check_and_consume s u w t = (s', r)" and "rr_allowed r" and "rl_users s' u = Some b"
    and "init_rate_limiter (rl_profile_store s') (rl_rate_storage s') wall mon t' = Inr s''"
  shows "\<exists>b'. rl_users s'' u = Some b' \<and> (\<forall>p.
      let elapsed = (wall - w) + (t 15 - tb_window_start (bucket_of p b))
      in bucket_of p b' =
           (if window_of p \<le> elapsed
            then (bucket_of p b)\<lparr>tb_request_count := 0, tb_window_start := mon\<rparr>
            else (bucket_of p b)\<lparr>tb_window_start := mon - elapsed\<rparr>))"
proof -
  let ?s2 = "evict_stale (t 0) s\<lparr>rl_users :=
      (rl_users (evict_stale (t 0) s))(u \<mapsto> fst (request_outcome s u t))\<rparr>"
  let ?prof = "get_user_profile s u"
  have s': "s' = persist_user_state u w (t 15) ?s2"
    using check_state [of s u w t] check_outcome(2) [of s u w t] assms(3,4) by (simp add: Let_def)
  have inv': "limiter_inv s'" using limiter_inv_check [OF assms(1), of u w t] assms(3) by simp
  have prof': "get_user_profile s' u = ?prof" using s' by (simp add: get_user_profile_def)
  have b: "buckets_ok ?prof b" using inv' assms(5) prof' unfolding limiter_inv_def users_ok_def by metis
  then have ub: "ub_profile b = ?prof" by (simp add: buckets_ok_def)
  have s2: "rl_rate_storage ?s2 = Some rows" "rl_users ?s2 u = Some b"
    using assms(2,5) s' by simp_all
  obtain rows' where rows':
    "rl_rate_storage s' = Some rows'"
    "\<And>p. user_periods rows' u (?prof @ '':'' @ period_name p) =
       Some (tb_request_count (bucket_of p b), w - (t 15 - tb_window_start (bucket_of p b)))"
    "\<exists>v. ((u, ?prof, ''day''), v) \<in> set rows'"
    using persist_lookup [OF s2, of w "t 15"] s' ub by metis
  from rows'(3) init_user [OF assms(6) [unfolded rows'(1)] inv'] prof'
  have u: "rl_users s'' u = Some (restore_user rows' ?prof wall mon (t' u) u)" by fastforce
  have bk: "tb_capacity (bucket_of p b) = limit_of p ?prof"
    "tb_window_seconds (bucket_of p b) = window_of p" for p
    using buckets_okD [OF b, of p] by (simp_all add: bucket_ok_def)
  have "bucket_of p (restore_user rows' ?prof wall mon (t' u) u) =
      (let elapsed = (wall - w) + (t 15 - tb_window_start (bucket_of p b))
       in if window_of p \<le> elapsed
          then (bucket_of p b)\<lparr>tb_request_count := 0, tb_window_start := mon\<rparr>
          else (bucket_of p b)\<lparr>tb_window_start := mon - elapsed\<rparr>)" for p
    unfolding bucket_of_restore rows'(2) bucket_of_new by (rule restore_bucket_saved [OF bk])
  with u show ?thesis by (simp add: Let_def)
qed

lemma restart_preserves_usage_witness:
  "\<exists>s' r s'' b'. check_and_consume empty_limiter 5 1000 (\<lambda>_. 7) = (s', r)
     \<and> init_rate_limiter (rl_profile_store s') (rl_rate_storage s') 1020 3 (\<lambda>_ _. 3) = Inr s''
     \<and> rl_users s'' 5 = Some b' \<and> tb_request_count (ub_minute b') = 1
     \<and> tb_window_start (ub_minute b') = - 17"
proof -
  let ?t = "\<lambda>_ :: nat. 7 :: rat"
  obtain s' r where c: "check_and_consume empty_limiter 5 1000 ?t = (s', r)" by fastforce
  let ?u = "request_outcome empty_limiter 5 ?t"
  have n: "get_user_profile empty_limiter 5 = ''normal''" "rl_users empty_limiter 5 = None"
    "rl_rate_storage empty_limiter = Some []"
    by (simp_all add: get_user_profile_def lookup_profile_def empty_limiter_def default_profile_def)
  have ch: "charged_buckets empty_limiter 5 ?t = new_user_buckets ''normal'' ?t"
    by (simp add: charged_buckets_def buckets_for_request_def evict_stale_def n)
      (simp add: new_user_buckets_def Let_def)
  have out: "rr_allowed (snd ?u) \<and> ub_minute (fst ?u) = charge (new_bucket 25 60 7)"
    by (simp add: request_outcome_def ch n consume_all_def try_consume_cases update_warnings_def
        consumed_count_def new_user_buckets_def new_bucket_def has_room_def maybe_reset_window_def
        charge_def normal_limits allowed_result_def Let_def)
  have r: "rr_allowed r" and b: "rl_users s' 5 = Some (fst ?u)"
    using out check_outcome [of empty_limiter 5 1000 ?t] c by simp_all
  have "limiter_inv s'" using limiter_inv_check [of empty_limiter 5 1000 ?t] c by simp
  from restart_ok [OF this] obtain s'' where i: "init_rate_limiter (rl_profile_store s')
      (rl_rate_storage s') 1020 3 (\<lambda>_ _. 3) = Inr s''"
    by (metis is_ok_simps(1) sum.exhaust)
  obtain b' where "rl_users s'' 5 = Some b'"
    "bucket_of Minute b' = (ub_minute (fst ?u))\<lparr>tb_window_start := - 17\<rparr>"
    using restart_preserves_usage [OF empty_limiter_inv n(3) c r b i] out
    by (auto simp: all_period Let_def charge_def new_bucket_def)
  then have "rl_users s'' 5 = Some b' \<and> tb_request_count (ub_minute b') = 1
      \<and> tb_window_start (ub_minute b') = - 17"
    using out by (simp add: charge_def new_bucket_def)
  with c i show ?thesis by blast
qed

section \<open>The thresholds of the warnings\<close>

text \<open>the 70% warning of an hour window of the normal profile comes one request early: the
  double nearest to 350 * 0.7 lies below 245, and \<open>int()\<close> truncates it to 244, which is less than
  70% of 350. For every other limit of the four profiles the computed threshold is exact.\<close>

theorem warning_threshold_of_350_is_early:
  "warning_due False (per_hour (profile_limits ''normal'')) 244
   \<and> \<not> warning_due False (per_hour (profile_limits ''normal'')) 243
   \<and> 10 * 244 < 7 * per_hour (profile_limits ''normal'')
   \<and> list_all (\<lambda>cap. \<forall>n. warning_due False cap n = (7 * cap div 10 \<le> n))
       [17, 100, 400, 25, 1500, 60, 900, 10000]"
proof -
  have v: "int_times_0_7 350 = 244" "int_times_0_7 17 = 11" "int_times_0_7 100 = 70"
    "int_times_0_7 400 = 280" "int_times_0_7 25 = 17" "int_times_0_7 1500 = 1050"
    "int_times_0_7 60 = 42" "int_times_0_7 900 = 630" "int_times_0_7 10000 = 7000"
    by (simp_all add: int_times_0_7_def round53_def seven_tenths_def bit_length.simps Let_def)
  then show ?thesis by (simp add: warning_due_def normal_limits)
qed

end
