(* ===== verification/PyText.thy ===== *)
theory PyText
  imports Prelude "HOL-Library.Char_ord" "HOL-Library.List_Lexorder"
begin

text \<open>
  The string methods of Python that the services call: case conversion, \<open>strip\<close>, \<open>capitalize\<close>,
  slices, and the order of strings (by code point, which for these strings is also SQLite's
  binary order). Characters are the code points below 256, as everywhere in the development.
\<close>

section \<open>Case\<close>

definition char_lower :: "char \<Rightarrow> char" where
  "char_lower c = (let n = of_char c :: nat
     in if (65 \<le> n \<and> n \<le> 90) \<or> (192 \<le> n \<and> n \<le> 222 \<and> n \<noteq> 215) then char_of (n + 32) else c)"

definition py_lower :: "string \<Rightarrow> string" where
  "py_lower s = map char_lower s"

text \<open>
  \<open>capitalize\<close>: the title case of the first character and the lower case of the others. The title
  case of the sharp s (223) is two letters; the capitals of 181 and 255 are no code points
  below 256, and stand for themselves here.
\<close>

definition char_title :: "char \<Rightarrow> string" where
  "char_title c = (let n = of_char c :: nat
     in if n = 223 then ''Ss''
        else if (97 \<le> n \<and> n \<le> 122) \<or> (224 \<le> n \<and> n \<le> 254 \<and> n \<noteq> 247) then [char_of (n - 32)]
        else [c])"

definition py_capitalize :: "string \<Rightarrow> string" where
  "py_capitalize s = (case s of [] \<Rightarrow> [] | c # cs \<Rightarrow> char_title c @ py_lower cs)"

section \<open>Strip and slices\<close>

definition py_lstrip_of :: "(char \<Rightarrow> bool) \<Rightarrow> string \<Rightarrow> string" where
  "py_lstrip_of p s = dropWhile p s"

definition py_rstrip_of :: "(char \<Rightarrow> bool) \<Rightarrow> string \<Rightarrow> string" where
  "py_rstrip_of p s = rev (dropWhile p (rev s))"

definition py_strip_of :: "(char \<Rightarrow> bool) \<Rightarrow> string \<Rightarrow> string" where
  "py_strip_of p s = py_rstrip_of p (py_lstrip_of p s)"

abbreviation py_strip :: "string \<Rightarrow> string" where
  "py_strip s \<equiv> py_strip_of py_isspace s"

abbreviation py_rstrip :: "string \<Rightarrow> string" where
  "py_rstrip s \<equiv> py_rstrip_of py_isspace s"

text \<open>\<open>s.split()\<close> on white space, and \<open>s.split(sep)\<close> on one character.\<close>

function py_split :: "string \<Rightarrow> string list" where
  "py_split s =
     (let t = dropWhile py_isspace s
      in if t = [] then []
         else takeWhile (\<lambda>c. \<not> py_isspace c) t # py_split (dropWhile (\<lambda>c. \<not> py_isspace c) t))"
  by pat_completeness auto
termination
proof (relation "measure length")
  fix s t assume t: "t = dropWhile py_isspace s" "t \<noteq> []"
  then obtain c cs where c: "t = c # cs" "\<not> py_isspace c"
    by (metis dropWhile_eq_Cons_conv list.exhaust)
  then have "length (dropWhile (\<lambda>c. \<not> py_isspace c) t) < length t"
    by (simp add: le_imp_less_Suc length_dropWhile_le)
  also have "\<dots> \<le> length s" using t(1) by (simp add: length_dropWhile_le)
  finally show "(dropWhile (\<lambda>c. \<not> py_isspace c) t, s) \<in> measure length" by simp
qed simp

declare py_split.simps [simp del]

fun split_on :: "char \<Rightarrow> string \<Rightarrow> string list" where
  "split_on sep [] = [[]]"
| "split_on sep (c # cs) =
     (if c = sep then [] # split_on sep cs
      else case split_on sep cs of [] \<Rightarrow> [[c]] | w # ws \<Rightarrow> (c # w) # ws)"

lemma split_on_not_Nil [simp]: "split_on sep s \<noteq> []"
  by (induction s) (auto split: list.split)

text \<open>\<open>c.isalnum()\<close>, \<open>c.isdecimal()\<close> and the word characters of \<open>re\<close>.\<close>

definition is_digit :: "char \<Rightarrow> bool" where
  "is_digit c = (let n = of_char c :: nat in 48 \<le> n \<and> n \<le> 57)"

definition is_letter :: "char \<Rightarrow> bool" where
  "is_letter c = (let n = of_char c :: nat
     in (65 \<le> n \<and> n \<le> 90) \<or> (97 \<le> n \<and> n \<le> 122) \<or> n = 170 \<or> n = 181 \<or> n = 186
        \<or> (192 \<le> n \<and> n \<noteq> 215 \<and> n \<noteq> 247))"

definition is_alnum :: "char \<Rightarrow> bool" where
  "is_alnum c = (let n = of_char c :: nat
     in is_letter c \<or> is_digit c \<or> n = 178 \<or> n = 179 \<or> n = 185 \<or> (188 \<le> n \<and> n \<le> 190))"

definition is_word_char :: "char \<Rightarrow> bool" where
  "is_word_char c = (is_alnum c \<or> c = CHR ''_'')"

lemma py_rstrip_last: "py_rstrip_of p s \<noteq> [] \<Longrightarrow> \<not> p (last (py_rstrip_of p s))"
  by (simp add: py_rstrip_of_def last_rev hd_dropWhile)

lemma py_strip_Nil_iff: "py_strip_of p s = [] \<longleftrightarrow> (\<forall>c \<in> set s. p c)"
proof -
  have "py_strip_of p s = [] \<longleftrightarrow> (\<forall>c \<in> set (dropWhile p s). p c)"
    by (simp add: py_strip_of_def py_rstrip_of_def py_lstrip_of_def)
  also have "\<dots> \<longleftrightarrow> (\<forall>c \<in> set s. p c)"
  proof
    assume all: "\<forall>c \<in> set (dropWhile p s). p c"
    show "\<forall>c \<in> set s. p c"
    proof (cases "dropWhile p s")
      case Nil
      then show ?thesis by simp
    next
      case (Cons c cs)
      then have "\<not> p c" by (simp add: dropWhile_eq_Cons_conv)
      with all Cons show ?thesis by simp
    qed
  qed (auto dest: set_dropWhileD)
  finally show ?thesis .
qed

lemma py_strip_nonblank: "py_strip s \<noteq> [] \<longleftrightarrow> py_nonblank s"
  by (auto simp: py_strip_Nil_iff py_nonblank_def list_ex_iff)

lemma set_py_strip: "set (py_strip_of p s) \<subseteq> set s"
  by (auto simp: py_strip_of_def py_rstrip_of_def py_lstrip_of_def dest!: set_dropWhileD)

lemma py_lstrip_first: "py_lstrip_of p s \<noteq> [] \<Longrightarrow> \<not> p (hd (py_lstrip_of p s))"
  by (simp add: py_lstrip_of_def hd_dropWhile)

lemma py_strip_ends:
  assumes "py_strip_of p s \<noteq> []"
  shows "\<not> p (hd (py_strip_of p s))" and "\<not> p (last (py_strip_of p s))"
proof -
  show "\<not> p (last (py_strip_of p s))"
    using assms by (simp add: py_strip_of_def py_rstrip_last)
  let ?l = "py_lstrip_of p s"
  have l: "?l \<noteq> []" using assms by (auto simp: py_strip_of_def py_rstrip_of_def)
  have "py_strip_of p s @ rev (takeWhile p (rev ?l)) = ?l"
    by (simp add: py_strip_of_def py_rstrip_of_def flip: rev_append)
  then have "hd (py_strip_of p s) = hd ?l" using assms by (metis hd_append2)
  then show "\<not> p (hd (py_strip_of p s))" using py_lstrip_first l by metis
qed

lemma py_strip_idem [simp]: "py_strip_of p (py_strip_of p s) = py_strip_of p s"
proof (cases "py_strip_of p s = []")
  case True
  show ?thesis unfolding True by (simp add: py_strip_of_def py_rstrip_of_def py_lstrip_of_def)
next
  case False
  let ?t = "py_strip_of p s"
  have "dropWhile p ?t = ?t" using False py_strip_ends(1) [OF False] by (cases ?t) auto
  moreover have "dropWhile p (rev ?t) = rev ?t"
    using False py_strip_ends(2) [OF False] by (cases ?t rule: rev_cases) auto
  ultimately show ?thesis
    by (simp add: py_strip_of_def [of p ?t] py_rstrip_of_def py_lstrip_of_def)
qed

section \<open>Queries\<close>

text \<open>
  \<open>ORDER BY k DESC\<close>: rows with equal keys keep the order of the table. A negative \<open>LIMIT\<close> is
  none.
\<close>

definition order_desc :: "('a \<Rightarrow> 'k :: linorder) \<Rightarrow> 'a list \<Rightarrow> 'a list" where
  "order_desc k xs = rev (sort_key k (rev xs))"

definition sql_limit :: "int \<Rightarrow> 'a list \<Rightarrow> 'a list" where
  "sql_limit n xs = (if n < 0 then xs else take (nat n) xs)"

lemma set_order_desc [simp]: "set (order_desc k xs) = set xs"
  by (simp add: order_desc_def)

lemma length_order_desc [simp]: "length (order_desc k xs) = length xs"
  by (simp add: order_desc_def)

lemma sorted_order_desc: "sorted_wrt (\<lambda>a b. k b \<le> k a) (order_desc k xs)"
proof -
  have "sorted_wrt (\<lambda>a b. k a \<le> k b) (sort_key k (rev xs))"
    using sorted_sort_key [of k "rev xs"] by (simp add: sorted_map)
  then show ?thesis by (simp add: order_desc_def sorted_wrt_rev)
qed

lemma set_sql_limit: "set (sql_limit n xs) \<subseteq> set xs"
  by (auto simp: sql_limit_def dest: in_set_takeD)

end
