(* ===== verification/PyRegex.thy ===== *)
theory PyRegex
  imports PyText "HOL-Library.Sublist"
begin

text \<open>
  The part of Python's \<open>re\<close> that the modelled patterns use: character classes, concatenation,
  ordered alternation, greedy and lazy repetition of a class or of a pattern, zero-width assertions
  and capturing groups. A pattern is matched by backtracking, so its meaning on a text is the list
  of all its matches in the order in which \<open>re\<close> tries them; \<open>search\<close> takes the first match at the
  leftmost position. A match is the list of captured groups and the rest of the text. A match is
  tried with the character before the text, for assertions like the word boundary.
\<close>

datatype 'c re =
    Eps
  | Cls "'c \<Rightarrow> bool"
  | Seq "'c re" "'c re"
  | Alt "'c re" "'c re"
  | Rep bool nat "'c \<Rightarrow> bool"
  | Iter bool nat "nat option" "'c re"
  | Group nat "'c re"
  | Look "'c option \<Rightarrow> 'c list \<Rightarrow> bool"

type_synonym regex = "char re"

type_synonym 'c captures = "(nat \<times> 'c list) list"

text \<open>How often a repetition that can take up to \<open>hi\<close> characters tries to take them.\<close>

definition rep_counts :: "bool \<Rightarrow> nat \<Rightarrow> nat \<Rightarrow> nat list" where
  "rep_counts greedy lo hi = (if greedy then rev [lo..<Suc hi] else [lo..<Suc hi])"

text \<open>The character before the rest \<open>t\<close> of \<open>s\<close>, and what was consumed.\<close>

definition before :: "'c option \<Rightarrow> 'c list \<Rightarrow> 'c list \<Rightarrow> 'c option" where
  "before p s t = (if length s \<le> length t then p else Some (s ! (length s - length t - 1)))"

definition consumed :: "'c list \<Rightarrow> 'c list \<Rightarrow> 'c list" where
  "consumed s t = take (length s - length t) s"

text \<open>
  The repetition of a pattern, given what the pattern does. After the minimal number of rounds a
  round that consumes nothing ends the repetition, so the length of the text bounds the rounds. The
  last round that captured a group wins.
\<close>

fun iterate ::
    "('c option \<Rightarrow> 'c list \<Rightarrow> ('c captures \<times> 'c list) list) \<Rightarrow> bool \<Rightarrow> nat \<Rightarrow> nat option \<Rightarrow> nat
       \<Rightarrow> 'c option \<Rightarrow> 'c list \<Rightarrow> ('c captures \<times> 'c list) list" where
  "iterate m greedy lo hi 0 p s = (if lo = 0 then [([], s)] else [])"
| "iterate m greedy lo hi (Suc n) p s =
     (let stop = (if lo = 0 then [([], s)] else []);
          more = (if hi = Some 0 then []
                  else concat (map (\<lambda>(g, t).
                         if lo = 0 \<and> length s \<le> length t then []
                         else map (\<lambda>(h, u). (h @ g, u))
                                (iterate m greedy (lo - 1) (map_option (\<lambda>k. k - 1) hi) n (before p s t) t))
                       (m p s)))
      in if greedy then more @ stop else stop @ more)"

primrec matches :: "'c re \<Rightarrow> 'c option \<Rightarrow> 'c list \<Rightarrow> ('c captures \<times> 'c list) list" where
  "matches Eps p s = [([], s)]"
| "matches (Cls f) p s = (case s of [] \<Rightarrow> [] | c # cs \<Rightarrow> if f c then [([], cs)] else [])"
| "matches (Seq a b) p s =
     concat (map (\<lambda>(g, t). map (\<lambda>(h, u). (g @ h, u)) (matches b (before p s t) t)) (matches a p s))"
| "matches (Alt a b) p s = matches a p s @ matches b p s"
| "matches (Rep greedy lo f) p s =
     map (\<lambda>k. ([], drop k s)) (rep_counts greedy lo (length (takeWhile f s)))"
| "matches (Iter greedy lo hi r) p s = iterate (matches r) greedy lo hi (lo + length s + 1) p s"
| "matches (Group n r) p s = map (\<lambda>(g, t). ((n, consumed s t) # g, t)) (matches r p s)"
| "matches (Look f) p s = (if f p s then [([], s)] else [])"

text \<open>\<open>search\<close> from a position; the captures begin with group 0, the match.\<close>

fun search_from :: "'c re \<Rightarrow> 'c option \<Rightarrow> 'c list \<Rightarrow> 'c captures option" where
  "search_from r p s =
     (case matches r p s of
        (g, t) # _ \<Rightarrow> Some ((0, consumed s t) # g)
      | [] \<Rightarrow> (case s of [] \<Rightarrow> None | c # cs \<Rightarrow> search_from r (Some c) cs))"

declare search_from.simps [simp del]

definition regex_search :: "'c re \<Rightarrow> 'c list \<Rightarrow> 'c captures option" where
  "regex_search r s = search_from r None s"

definition regex_group :: "'c captures \<Rightarrow> nat \<Rightarrow> 'c list" where
  "regex_group g n = (case map_of g n of None \<Rightarrow> [] | Some s \<Rightarrow> s)"

definition found :: "'c re \<Rightarrow> 'c list \<Rightarrow> bool" where
  "found r s = (regex_search r s \<noteq> None)"

text \<open>\<open>len(r.findall(s))\<close>: the matches that do not overlap, from left to right.\<close>

function count_from :: "'c re \<Rightarrow> 'c option \<Rightarrow> 'c list \<Rightarrow> nat" where
  "count_from r p s =
     (case matches r p s of
        [] \<Rightarrow> (case s of [] \<Rightarrow> 0 | c # cs \<Rightarrow> count_from r (Some c) cs)
      | (g, t) # _ \<Rightarrow>
          Suc (if length t < length s then count_from r (before p s t) t
               else case s of [] \<Rightarrow> 0 | c # cs \<Rightarrow> count_from r (Some c) cs))"
  by pat_completeness auto
termination by (relation "measure (\<lambda>(r, p, s). length s)") auto

declare count_from.simps [simp del]

definition findall_count :: "'c re \<Rightarrow> 'c list \<Rightarrow> nat" where
  "findall_count r s = count_from r None s"

section \<open>Pattern notation\<close>

text \<open>A literal under \<open>re.IGNORECASE\<close>, and the classes and repetitions of the patterns.\<close>

definition ichar :: "char \<Rightarrow> regex" where
  "ichar c = Cls (\<lambda>x. char_lower x = char_lower c)"

primrec seq_all :: "'c re list \<Rightarrow> 'c re" where
  "seq_all [] = Eps"
| "seq_all (r # rs) = Seq r (seq_all rs)"

fun alt_all :: "'c re list \<Rightarrow> 'c re" where
  "alt_all [] = Cls (\<lambda>_. False)"
| "alt_all [r] = r"
| "alt_all (r # rs) = Alt r (alt_all rs)"

definition iword :: "string \<Rightarrow> regex" where
  "iword s = seq_all (map ichar s)"

definition re_dot :: "char \<Rightarrow> bool" where "re_dot c = (c \<noteq> CHR 0x0A)"
definition space_plus :: regex where "space_plus = Rep True 1 py_isspace"
definition space_star :: regex where "space_star = Rep True 0 py_isspace"

text \<open>\<open>r?\<close> for one class: with the character first, then without.\<close>

definition optional :: "('c \<Rightarrow> bool) \<Rightarrow> 'c re" where
  "optional p = Alt (Cls p) Eps"

text \<open>\<open>\b\<close>, \<open>\d+\<close>, a choice of literals, and a choice of literals followed by anything else.\<close>

definition word_boundary :: regex where
  "word_boundary = Look (\<lambda>p s.
     (case p of None \<Rightarrow> False | Some c \<Rightarrow> is_word_char c) \<noteq>
     (case s of [] \<Rightarrow> False | c # _ \<Rightarrow> is_word_char c))"

definition digits_plus :: regex where "digits_plus = Rep True 1 is_digit"

definition iwords :: "string list \<Rightarrow> regex" where
  "iwords ws = alt_all (map iword ws)"

section \<open>A match is a part of the text\<close>

text \<open>The rest of a match is a suffix, and every capture lies between the text and the rest.\<close>

lemma iterate_suffix:
  assumes "\<And>p s g t. (g, t) \<in> set (m p s) \<Longrightarrow> suffix t s"
  shows "(g, t) \<in> set (iterate m greedy lo hi n p s) \<Longrightarrow> suffix t s"
proof (induction n arbitrary: lo hi p s g t)
  case (Suc n)
  then show ?case
    by (fastforce simp: Let_def split: if_splits dest: assms intro: suffix_order.trans)
qed (simp split: if_splits)

lemma matches_suffix: "(g, t) \<in> set (matches r p s) \<Longrightarrow> suffix t s"
proof (induction r arbitrary: p s g t)
  case (Seq a b)
  then show ?case by (fastforce intro: suffix_order.trans)
next
  case (Rep greedy lo f)
  then show ?case by (auto simp: suffix_drop)
next
  case (Iter greedy lo hi r)
  have "(g, t) \<in> set (iterate (matches r) greedy lo hi (lo + length s + 1) p s)"
    using Iter.prems by simp
  with Iter.IH show ?case by (rule iterate_suffix [where m = "matches r"])
qed (auto split: list.splits if_splits intro: suffix_ConsI)

lemma consumed_sublist: "sublist (consumed s t) s"
  by (simp add: consumed_def prefix_imp_sublist take_is_prefix)

lemma sublist_suffix: "sublist x t \<Longrightarrow> suffix t s \<Longrightarrow> sublist x s"
  using suffix_imp_sublist sublist_order.order.trans by blast

lemma iterate_captures:
  assumes "\<And>p s g t. (g, t) \<in> set (m p s) \<Longrightarrow> suffix t s"
    and "\<And>p s g t. (g, t) \<in> set (m p s) \<Longrightarrow> (n, x) \<in> set g \<Longrightarrow> sublist x s"
  shows "(g, t) \<in> set (iterate m greedy lo hi k p s) \<Longrightarrow> (n, x) \<in> set g \<Longrightarrow> sublist x s"
proof (induction k arbitrary: lo hi p s g t)
  case (Suc k)
  show ?case
  proof (cases "g = []")
    case False
    then obtain g1 t1 g2 lo' hi' where m: "(g1, t1) \<in> set (m p s)"
        and i: "(g2, t) \<in> set (iterate m greedy lo' hi' k (before p s t1) t1)" and g: "g = g2 @ g1"
      using Suc.prems(1) by (fastforce simp: Let_def split: if_splits)
    consider "(n, x) \<in> set g1" | "(n, x) \<in> set g2" using Suc.prems(2) g by auto
    then show ?thesis
    proof cases
      case 1
      then show ?thesis using assms(2) [OF m] by blast
    next
      case 2
      then show ?thesis using Suc.IH [OF i] assms(1) [OF m] sublist_suffix by blast
    qed
  qed (use Suc.prems in simp)
qed (simp split: if_splits)

lemma matches_captures: "(g, t) \<in> set (matches r p s) \<Longrightarrow> (n, x) \<in> set g \<Longrightarrow> sublist x s"
proof (induction r arbitrary: p s g t)
  case (Seq a b)
  from Seq.prems obtain ga sa gb where a: "(ga, sa) \<in> set (matches a p s)"
      and b: "(gb, t) \<in> set (matches b (before p s sa) sa)" and g: "g = ga @ gb" by auto
  consider "(n, x) \<in> set ga" | "(n, x) \<in> set gb" using Seq.prems(2) g by auto
  then show ?case
  proof cases
    case 1
    then show ?thesis using Seq.IH(1) [OF a] by blast
  next
    case 2
    then show ?thesis using Seq.IH(2) [OF b] matches_suffix [OF a] sublist_suffix by blast
  qed
next
  case (Group m r)
  then show ?case by (auto intro: consumed_sublist)
next
  case (Iter greedy lo hi r)
  have "(g, t) \<in> set (iterate (matches r) greedy lo hi (lo + length s + 1) p s)"
    using Iter.prems(1) by simp
  with matches_suffix Iter.IH show ?case
    using Iter.prems(2) by (rule iterate_captures [where m = "matches r"])
qed (auto split: list.splits if_splits)

lemma search_from_captures: "search_from r p s = Some g \<Longrightarrow> (n, x) \<in> set g \<Longrightarrow> sublist x s"
proof (induction r p s rule: search_from.induct)
  case (1 r p s)
  show ?case
  proof (cases "matches r p s")
    case (Cons m ms)
    obtain h t where m: "m = (h, t)" by (cases m)
    have "(0, consumed s t) # h = g" using 1(2) by (simp add: search_from.simps [of r p s] Cons m)
    then show ?thesis
      using matches_captures [of h t r p s n x] 1(3) Cons m consumed_sublist by auto
  next
    case Nil
    then obtain c cs where s: "s = c # cs" and "search_from r (Some c) cs = Some g"
      using 1(2) by (subst (asm) search_from.simps) (auto split: list.splits)
    then have "sublist x cs" using 1(1) [OF Nil s] 1(3) by blast
    then show ?thesis using s by (simp add: sublist_Cons_right)
  qed
qed

lemma regex_search_captures: "regex_search r s = Some g \<Longrightarrow> (n, x) \<in> set g \<Longrightarrow> sublist x s"
  unfolding regex_search_def by (rule search_from_captures)

lemma regex_group_sublist: "regex_search r s = Some g \<Longrightarrow> sublist (regex_group g n) s"
  by (auto simp: regex_group_def split: option.split dest: map_of_SomeD regex_search_captures)

lemma py_strip_sublist: "sublist (py_strip_of p s) s"
proof -
  have "prefix (py_rstrip_of p t) t" for t
    by (metis append_Nil2 py_rstrip_of_def rev_append rev_rev_ident takeWhile_dropWhile_id prefixI)
  moreover have "suffix (py_lstrip_of p s) s"
    by (simp add: py_lstrip_of_def suffix_dropWhile)
  ultimately show ?thesis
    unfolding py_strip_of_def
    by (meson prefix_imp_sublist suffix_imp_sublist sublist_order.order.trans)
qed

end
