(* ===== verification/ContractTypes.thy ===== *)
theory ContractTypes
  imports PyJson
begin

text \<open>
  The data of \<open>skill_contract.py\<close>: one record per frozen dataclass, with the fields in the
  source's order (a prefix keeps the selectors of the records apart), one constant per
  dataclass for its default instance, the minimal-contract factory and the enumeration of the
  text fields the safety gate scans. Tuples are lists; \<open>slots\<close> and \<open>provider_hints\<close> are
  tuples of arbitrary JSON values.
\<close>

record normalization_config =
  nm_case_fold :: bool
  nm_german_ss_equivalence :: bool
  nm_ignore_trailing_punctuation :: bool

record activation_config =
  act_kind :: string
  act_mode :: string
  act_phrases :: "string list"
  act_normalization :: normalization_config
  act_match_scope :: string
  act_conditions :: "string list"
  act_cooldown_seconds :: int

record audit_config =
  aud_capability_broker_enabled :: bool

record confirmation_thresholds =
  th_auto_execute :: pyfloat
  th_ask_confirm :: pyfloat
  th_reject :: pyfloat

record confirmation_config =
  conf_mode :: string
  conf_thresholds :: confirmation_thresholds
  conf_destructive_always_confirm :: bool

record execution_config =
  exec_type :: string
  exec_instruction :: string
  exec_timeout_seconds :: int
  exec_max_tool_calls :: int

record file_access_config =
  fa_enabled :: bool
  fa_scopes :: "string list"

record history_access_config =
  ha_enabled :: bool
  ha_scopes :: "string list"

record intent_config =
  intent_label :: string
  intent_positive_examples :: "string list"
  intent_negative_examples :: "string list"

record lifecycle_config =
  lc_status :: string
  lc_editable :: bool
  lc_decay :: string
  lc_last_schema_migration :: "string option"

record memory_read_config =
  mr_enabled :: bool
  mr_allowed_stores :: "string list"
  mr_blocked_stores :: "string list"
  mr_max_items :: int

record memory_write_config =
  mw_enabled :: bool
  mw_target_store :: "string option"
  mw_ttl_days :: "int option"

record memory_policy_config =
  mp_read :: memory_read_config
  mp_write :: memory_write_config
  mp_conflict_handling :: string

record network_access_config =
  na_enabled :: bool
  na_domains :: "string list"

record observability_config =
  obs_track_success :: bool
  obs_track_declines :: bool
  obs_last_triggered_at :: "string option"
  obs_success_count :: int
  obs_decline_count :: int
  obs_average_confidence :: pyfloat

record permissions_config =
  perm_tools :: "string list"
  perm_memory_read :: "string list"
  perm_memory_write :: "string list"
  perm_network_access :: network_access_config
  perm_file_access :: file_access_config
  perm_history_access :: history_access_config
  perm_secrets_access :: bool

record priority_config =
  prio_rank :: int
  prio_beats :: "string list"
  prio_loses_to :: "string list"

record safety_config =
  saf_requires_secret_scan :: bool
  saf_pii_risk :: string
  saf_allow_tools :: bool
  saf_allowed_tools :: "string list"
  saf_max_tool_calls_per_execution :: int
  saf_instruction_sanitized :: bool

record scope_config =
  scope_user_scope :: string
  scope_workspace :: string
  scope_channels :: "string list"
  scope_providers :: "string list"

record store_meta_config =
  sm_package_type :: string
  sm_license :: string
  sm_store_listing_id :: "string option"
  sm_required_axolent_version :: "string option"
  sm_manifest_version :: "string option"
  sm_permissions_version :: "string option"

record trust_config =
  tr_signature :: "string option"
  tr_signature_algorithm :: "string option"
  tr_checksum :: "string option"
  tr_signed_at :: "string option"
  tr_author_id :: "string option"

record skill_contract =
  c_schema_version :: int
  c_contract_version :: int
  c_id :: string
  c_name :: string
  c_hypothesis_id :: "string option"
  c_created_by :: string
  c_created_at :: string
  c_updated_at :: string
  c_migration_status :: string
  c_activation :: activation_config
  c_intent :: intent_config
  c_slots :: "json list"
  c_execution :: execution_config
  c_provider_hints :: "json list"
  c_memory_policy :: memory_policy_config
  c_confirmation :: confirmation_config
  c_safety :: safety_config
  c_priority :: priority_config
  c_scope :: scope_config
  c_observability :: observability_config
  c_lifecycle :: lifecycle_config
  c_tags :: "string list"
  c_trust :: trust_config
  c_permissions :: permissions_config
  c_review_status :: string
  c_risk_level :: string
  c_store_meta :: store_meta_config
  c_audit :: audit_config
  c_origin :: string

section \<open>Default instances\<close>

definition default_normalization :: normalization_config where
  "default_normalization =
     \<lparr>nm_case_fold = True, nm_german_ss_equivalence = True,
      nm_ignore_trailing_punctuation = True\<rparr>"

definition default_activation :: activation_config where
  "default_activation =
     \<lparr>act_kind = ''shortcut'', act_mode = ''exact_phrase'', act_phrases = [],
      act_normalization = default_normalization, act_match_scope = ''whole_message'',
      act_conditions = [], act_cooldown_seconds = 0\<rparr>"

definition default_audit :: audit_config where
  "default_audit = \<lparr>aud_capability_broker_enabled = True\<rparr>"

definition default_thresholds :: confirmation_thresholds where
  "default_thresholds =
     \<lparr>th_auto_execute = PFin (95 / 100), th_ask_confirm = PFin (75 / 100),
      th_reject = PFin (50 / 100)\<rparr>"

definition default_confirmation :: confirmation_config where
  "default_confirmation =
     \<lparr>conf_mode = ''confidence_gated'', conf_thresholds = default_thresholds,
      conf_destructive_always_confirm = True\<rparr>"

definition default_execution :: execution_config where
  "default_execution =
     \<lparr>exec_type = ''llm_instruction'', exec_instruction = '''', exec_timeout_seconds = 30,
      exec_max_tool_calls = 0\<rparr>"

definition default_intent :: intent_config where
  "default_intent =
     \<lparr>intent_label = '''', intent_positive_examples = [], intent_negative_examples = []\<rparr>"

definition default_lifecycle :: lifecycle_config where
  "default_lifecycle =
     \<lparr>lc_status = ''confirmed'', lc_editable = True, lc_decay = ''immune'',
      lc_last_schema_migration = None\<rparr>"

definition default_memory_read :: memory_read_config where
  "default_memory_read =
     \<lparr>mr_enabled = False, mr_allowed_stores = [],
      mr_blocked_stores = [''secrets'', ''health'', ''raw_finance''], mr_max_items = 10\<rparr>"

definition default_memory_write :: memory_write_config where
  "default_memory_write = \<lparr>mw_enabled = False, mw_target_store = None, mw_ttl_days = None\<rparr>"

definition default_memory_policy :: memory_policy_config where
  "default_memory_policy =
     \<lparr>mp_read = default_memory_read, mp_write = default_memory_write,
      mp_conflict_handling = ''ignore''\<rparr>"

definition default_observability :: observability_config where
  "default_observability =
     \<lparr>obs_track_success = True, obs_track_declines = True, obs_last_triggered_at = None,
      obs_success_count = 0, obs_decline_count = 0, obs_average_confidence = PFin 0\<rparr>"

definition default_permissions :: permissions_config where
  "default_permissions =
     \<lparr>perm_tools = [], perm_memory_read = [], perm_memory_write = [],
      perm_network_access = \<lparr>na_enabled = False, na_domains = []\<rparr>,
      perm_file_access = \<lparr>fa_enabled = False, fa_scopes = []\<rparr>,
      perm_history_access = \<lparr>ha_enabled = False, ha_scopes = []\<rparr>,
      perm_secrets_access = False\<rparr>"

definition default_priority :: priority_config where
  "default_priority =
     \<lparr>prio_rank = 80, prio_beats = [''memory_conflict'', ''style_preference''],
      prio_loses_to = [''safety_policy'', ''explicit_user_command'']\<rparr>"

definition default_safety :: safety_config where
  "default_safety =
     \<lparr>saf_requires_secret_scan = True, saf_pii_risk = ''low'', saf_allow_tools = False,
      saf_allowed_tools = [], saf_max_tool_calls_per_execution = 5,
      saf_instruction_sanitized = True\<rparr>"

definition default_scope :: scope_config where
  "default_scope =
     \<lparr>scope_user_scope = ''single_user'', scope_workspace = ''global'',
      scope_channels = [''telegram''], scope_providers = [''all'']\<rparr>"

definition default_store_meta :: store_meta_config where
  "default_store_meta =
     \<lparr>sm_package_type = ''local_skill'', sm_license = ''personal'', sm_store_listing_id = None,
      sm_required_axolent_version = None, sm_manifest_version = None,
      sm_permissions_version = None\<rparr>"

definition default_trust :: trust_config where
  "default_trust =
     \<lparr>tr_signature = None, tr_signature_algorithm = None, tr_checksum = None,
      tr_signed_at = None, tr_author_id = None\<rparr>"

definition default_contract :: skill_contract where
  "default_contract =
     \<lparr>c_schema_version = 2, c_contract_version = 1, c_id = '''', c_name = '''',
      c_hypothesis_id = None, c_created_by = ''user'', c_created_at = '''', c_updated_at = '''',
      c_migration_status = ''current'',
      c_activation = default_activation, c_intent = default_intent, c_slots = [],
      c_execution = default_execution, c_provider_hints = [],
      c_memory_policy = default_memory_policy, c_confirmation = default_confirmation,
      c_safety = default_safety, c_priority = default_priority, c_scope = default_scope,
      c_observability = default_observability, c_lifecycle = default_lifecycle, c_tags = [],
      c_trust = default_trust, c_permissions = default_permissions,
      c_review_status = ''unreviewed'', c_risk_level = ''unknown'',
      c_store_meta = default_store_meta, c_audit = default_audit, c_origin = ''local_learn''\<rparr>"

lemmas contract_defaults =
  default_normalization_def default_activation_def default_audit_def default_thresholds_def
  default_confirmation_def default_execution_def default_intent_def default_lifecycle_def
  default_memory_read_def default_memory_write_def default_memory_policy_def
  default_observability_def default_permissions_def default_priority_def default_safety_def
  default_scope_def default_store_meta_def default_trust_def default_contract_def

section \<open>Factory helpers\<close>

text \<open>\<open>uuid4().hex\<close> and \<open>datetime.now(...).isoformat()\<close> are arguments.\<close>

definition new_skill_id :: "string \<Rightarrow> string" where
  "new_skill_id hex = ''skill_'' @ hex"

definition create_minimal_contract ::
    "string \<Rightarrow> string \<Rightarrow> string \<Rightarrow> string list \<Rightarrow> string \<Rightarrow> string \<Rightarrow> string option \<Rightarrow> skill_contract"
where
  "create_minimal_contract hex ts name phrases instruction origin hypothesis_id =
     default_contract\<lparr>
       c_id := new_skill_id hex,
       c_name := name,
       c_hypothesis_id := hypothesis_id,
       c_created_at := ts,
       c_updated_at := ts,
       c_activation := default_activation\<lparr>act_phrases := phrases\<rparr>,
       c_execution := default_execution\<lparr>exec_instruction := instruction\<rparr>,
       c_origin := origin\<rparr>"

text \<open>The fields of an indexed family, each with the label \<open>f"{label}[{i}]"\<close>.\<close>

definition indexed_fields :: "string \<Rightarrow> string list \<Rightarrow> (string \<times> string) list" where
  "indexed_fields label xs =
     map (\<lambda>(i, x). (label @ ''['' @ nat_decimal i @ '']'', x))
       (filter (\<lambda>(i, x). x \<noteq> [] \<and> py_nonblank x) (enumerate 0 xs))"

definition single_field :: "string \<Rightarrow> string \<Rightarrow> (string \<times> string) list" where
  "single_field label x = (if x \<noteq> [] \<and> py_nonblank x then [(label, x)] else [])"

definition iter_user_text_fields :: "skill_contract \<Rightarrow> (string \<times> string) list" where
  "iter_user_text_fields c =
     single_field ''name'' (c_name c) @
     indexed_fields ''phrases'' (act_phrases (c_activation c)) @
     single_field ''instruction'' (exec_instruction (c_execution c)) @
     indexed_fields ''tags'' (c_tags c) @
     single_field ''intent.label'' (intent_label (c_intent c)) @
     indexed_fields ''intent.positive_examples'' (intent_positive_examples (c_intent c)) @
     indexed_fields ''intent.negative_examples'' (intent_negative_examples (c_intent c))"

text \<open>The texts of a contract the function is documented to cover.\<close>

definition user_texts :: "skill_contract \<Rightarrow> string set" where
  "user_texts c =
     {c_name c, exec_instruction (c_execution c), intent_label (c_intent c)}
     \<union> set (act_phrases (c_activation c)) \<union> set (c_tags c)
     \<union> set (intent_positive_examples (c_intent c))
     \<union> set (intent_negative_examples (c_intent c))"

lemma single_field_texts: "snd ` set (single_field l x) = {y. y = x \<and> py_nonblank y}"
  by (auto simp: single_field_def dest: py_nonblank_not_Nil)

lemma indexed_fields_texts: "snd ` set (indexed_fields l xs) = {x \<in> set xs. py_nonblank x}"
proof -
  have "snd ` set (indexed_fields l xs)
      = snd ` {p \<in> set (enumerate 0 xs). snd p \<noteq> [] \<and> py_nonblank (snd p)}"
    by (force simp: indexed_fields_def)
  also have "\<dots> = {x \<in> snd ` set (enumerate 0 xs). x \<noteq> [] \<and> py_nonblank x}"
    by force
  also have "snd ` set (enumerate 0 xs) = set xs"
    by (metis list.set_map map_snd_enumerate)
  finally show ?thesis by (auto dest: py_nonblank_not_Nil)
qed

text \<open>\<open>iter_user_text_fields\<close> yields every user-controlled text of a contract that is not blank,
  and nothing else: no phrase, tag, example, label, name or instruction escapes the scanners that
  iterate over it.\<close>

theorem user_text_fields_complete:
  "snd ` set (iter_user_text_fields c) = {x \<in> user_texts c. py_nonblank x}"
  by (auto simp: iter_user_text_fields_def image_Un single_field_texts indexed_fields_texts
      user_texts_def)

end
