(* ===== verification/ContractCodec.thy ===== *)
theory ContractCodec
  imports ContractTypes
begin

text \<open>
  Serialisation of \<open>skill_contract.py\<close>: \<open>to_dict\<close> (the recursive \<open>_dataclass_to_dict\<close>, one
  function per dataclass), the strict validators \<open>_ensure_*\<close>, the section builders \<open>_build_*\<close>
  and \<open>from_dict\<close> (\<open>_dict_to_contract\<close>). A raised \<open>ContractDeserializationError\<close> is an
  \<open>Inl\<close> carrying the field its message names, what was expected and the type found; the
  \<open>OverflowError\<close> of \<open>float(value)\<close> is a value of its own, because nothing catches it. The
  builders evaluate their fields in the order of the source, so the first error is the source's.
\<close>

section \<open>Serialisation\<close>

fun opt_str_to_json :: "string option \<Rightarrow> json" where
  "opt_str_to_json None = JNull"
| "opt_str_to_json (Some s) = JStr s"

fun opt_int_to_json :: "int option \<Rightarrow> json" where
  "opt_int_to_json None = JNull"
| "opt_int_to_json (Some i) = JInt i"

definition strs_to_json :: "string list \<Rightarrow> json" where
  "strs_to_json xs = JList (map JStr xs)"

definition normalization_to_dict :: "normalization_config \<Rightarrow> json" where
  "normalization_to_dict n = JObj
     [(''case_fold'', JBool (nm_case_fold n)),
      (''german_ss_equivalence'', JBool (nm_german_ss_equivalence n)),
      (''ignore_trailing_punctuation'', JBool (nm_ignore_trailing_punctuation n))]"

definition activation_to_dict :: "activation_config \<Rightarrow> json" where
  "activation_to_dict a = JObj
     [(''kind'', JStr (act_kind a)), (''mode'', JStr (act_mode a)),
      (''phrases'', strs_to_json (act_phrases a)),
      (''normalization'', normalization_to_dict (act_normalization a)),
      (''match_scope'', JStr (act_match_scope a)),
      (''conditions'', strs_to_json (act_conditions a)),
      (''cooldown_seconds'', JInt (act_cooldown_seconds a))]"

definition intent_to_dict :: "intent_config \<Rightarrow> json" where
  "intent_to_dict i = JObj
     [(''label'', JStr (intent_label i)),
      (''positive_examples'', strs_to_json (intent_positive_examples i)),
      (''negative_examples'', strs_to_json (intent_negative_examples i))]"

definition execution_to_dict :: "execution_config \<Rightarrow> json" where
  "execution_to_dict e = JObj
     [(''type'', JStr (exec_type e)), (''instruction'', JStr (exec_instruction e)),
      (''timeout_seconds'', JInt (exec_timeout_seconds e)),
      (''max_tool_calls'', JInt (exec_max_tool_calls e))]"

definition memory_read_to_dict :: "memory_read_config \<Rightarrow> json" where
  "memory_read_to_dict r = JObj
     [(''enabled'', JBool (mr_enabled r)),
      (''allowed_stores'', strs_to_json (mr_allowed_stores r)),
      (''blocked_stores'', strs_to_json (mr_blocked_stores r)),
      (''max_items'', JInt (mr_max_items r))]"

definition memory_write_to_dict :: "memory_write_config \<Rightarrow> json" where
  "memory_write_to_dict w = JObj
     [(''enabled'', JBool (mw_enabled w)),
      (''target_store'', opt_str_to_json (mw_target_store w)),
      (''ttl_days'', opt_int_to_json (mw_ttl_days w))]"

definition memory_policy_to_dict :: "memory_policy_config \<Rightarrow> json" where
  "memory_policy_to_dict m = JObj
     [(''read'', memory_read_to_dict (mp_read m)),
      (''write'', memory_write_to_dict (mp_write m)),
      (''conflict_handling'', JStr (mp_conflict_handling m))]"

definition thresholds_to_dict :: "confirmation_thresholds \<Rightarrow> json" where
  "thresholds_to_dict t = JObj
     [(''auto_execute'', JFloat (th_auto_execute t)),
      (''ask_confirm'', JFloat (th_ask_confirm t)), (''reject'', JFloat (th_reject t))]"

definition confirmation_to_dict :: "confirmation_config \<Rightarrow> json" where
  "confirmation_to_dict c = JObj
     [(''mode'', JStr (conf_mode c)), (''thresholds'', thresholds_to_dict (conf_thresholds c)),
      (''destructive_always_confirm'', JBool (conf_destructive_always_confirm c))]"

definition safety_to_dict :: "safety_config \<Rightarrow> json" where
  "safety_to_dict s = JObj
     [(''requires_secret_scan'', JBool (saf_requires_secret_scan s)),
      (''pii_risk'', JStr (saf_pii_risk s)), (''allow_tools'', JBool (saf_allow_tools s)),
      (''allowed_tools'', strs_to_json (saf_allowed_tools s)),
      (''max_tool_calls_per_execution'', JInt (saf_max_tool_calls_per_execution s)),
      (''instruction_sanitized'', JBool (saf_instruction_sanitized s))]"

definition priority_to_dict :: "priority_config \<Rightarrow> json" where
  "priority_to_dict p = JObj
     [(''rank'', JInt (prio_rank p)), (''beats'', strs_to_json (prio_beats p)),
      (''loses_to'', strs_to_json (prio_loses_to p))]"

definition scope_to_dict :: "scope_config \<Rightarrow> json" where
  "scope_to_dict s = JObj
     [(''user_scope'', JStr (scope_user_scope s)), (''workspace'', JStr (scope_workspace s)),
      (''channels'', strs_to_json (scope_channels s)),
      (''providers'', strs_to_json (scope_providers s))]"

definition observability_to_dict :: "observability_config \<Rightarrow> json" where
  "observability_to_dict ob = JObj
     [(''track_success'', JBool (obs_track_success ob)),
      (''track_declines'', JBool (obs_track_declines ob)),
      (''last_triggered_at'', opt_str_to_json (obs_last_triggered_at ob)),
      (''success_count'', JInt (obs_success_count ob)),
      (''decline_count'', JInt (obs_decline_count ob)),
      (''average_confidence'', JFloat (obs_average_confidence ob))]"

definition lifecycle_to_dict :: "lifecycle_config \<Rightarrow> json" where
  "lifecycle_to_dict l = JObj
     [(''status'', JStr (lc_status l)), (''editable'', JBool (lc_editable l)),
      (''decay'', JStr (lc_decay l)),
      (''last_schema_migration'', opt_str_to_json (lc_last_schema_migration l))]"

text \<open>The items of \<open>trust\<close>: the checksum code removes three of them.\<close>

definition trust_items :: "trust_config \<Rightarrow> dict" where
  "trust_items t =
     [(''signature'', opt_str_to_json (tr_signature t)),
      (''signature_algorithm'', opt_str_to_json (tr_signature_algorithm t)),
      (''checksum'', opt_str_to_json (tr_checksum t)),
      (''signed_at'', opt_str_to_json (tr_signed_at t)),
      (''author_id'', opt_str_to_json (tr_author_id t))]"

definition permissions_to_dict :: "permissions_config \<Rightarrow> json" where
  "permissions_to_dict p = JObj
     [(''tools'', strs_to_json (perm_tools p)),
      (''memory_read'', strs_to_json (perm_memory_read p)),
      (''memory_write'', strs_to_json (perm_memory_write p)),
      (''network_access'', JObj
         [(''enabled'', JBool (na_enabled (perm_network_access p))),
          (''domains'', strs_to_json (na_domains (perm_network_access p)))]),
      (''file_access'', JObj
         [(''enabled'', JBool (fa_enabled (perm_file_access p))),
          (''scopes'', strs_to_json (fa_scopes (perm_file_access p)))]),
      (''history_access'', JObj
         [(''enabled'', JBool (ha_enabled (perm_history_access p))),
          (''scopes'', strs_to_json (ha_scopes (perm_history_access p)))]),
      (''secrets_access'', JBool (perm_secrets_access p))]"

definition store_meta_to_dict :: "store_meta_config \<Rightarrow> json" where
  "store_meta_to_dict s = JObj
     [(''package_type'', JStr (sm_package_type s)), (''license'', JStr (sm_license s)),
      (''store_listing_id'', opt_str_to_json (sm_store_listing_id s)),
      (''required_axolent_version'', opt_str_to_json (sm_required_axolent_version s)),
      (''manifest_version'', opt_str_to_json (sm_manifest_version s)),
      (''permissions_version'', opt_str_to_json (sm_permissions_version s))]"

definition audit_to_dict :: "audit_config \<Rightarrow> json" where
  "audit_to_dict a = JObj
     [(''capability_broker_enabled'', JBool (aud_capability_broker_enabled a))]"

text \<open>The items of a contract over the items of its trust section.\<close>

definition contract_items :: "skill_contract \<Rightarrow> dict \<Rightarrow> dict" where
  "contract_items c trust =
     [(''schema_version'', JInt (c_schema_version c)),
      (''contract_version'', JInt (c_contract_version c)),
      (''id'', JStr (c_id c)), (''name'', JStr (c_name c)),
      (''hypothesis_id'', opt_str_to_json (c_hypothesis_id c)),
      (''created_by'', JStr (c_created_by c)), (''created_at'', JStr (c_created_at c)),
      (''updated_at'', JStr (c_updated_at c)),
      (''migration_status'', JStr (c_migration_status c)),
      (''activation'', activation_to_dict (c_activation c)),
      (''intent'', intent_to_dict (c_intent c)), (''slots'', JList (c_slots c)),
      (''execution'', execution_to_dict (c_execution c)),
      (''provider_hints'', JList (c_provider_hints c)),
      (''memory_policy'', memory_policy_to_dict (c_memory_policy c)),
      (''confirmation'', confirmation_to_dict (c_confirmation c)),
      (''safety'', safety_to_dict (c_safety c)),
      (''priority'', priority_to_dict (c_priority c)),
      (''scope'', scope_to_dict (c_scope c)),
      (''observability'', observability_to_dict (c_observability c)),
      (''lifecycle'', lifecycle_to_dict (c_lifecycle c)),
      (''tags'', strs_to_json (c_tags c)), (''trust'', JObj trust),
      (''permissions'', permissions_to_dict (c_permissions c)),
      (''review_status'', JStr (c_review_status c)), (''risk_level'', JStr (c_risk_level c)),
      (''store_meta'', store_meta_to_dict (c_store_meta c)),
      (''audit'', audit_to_dict (c_audit c)), (''origin'', JStr (c_origin c))]"

definition to_dict :: "skill_contract \<Rightarrow> json" where
  "to_dict c = JObj (contract_items c (trust_items (c_trust c)))"

section \<open>Strict validators\<close>

datatype deser_error =
    DeserType string string string
  | DeserMinimum string int int
  | DeserRange string
  | DeserOverflow

fun ensure_bool :: "json \<Rightarrow> string \<Rightarrow> deser_error + bool" where
  "ensure_bool (JBool b) f = Inr b"
| "ensure_bool v f = Inl (DeserType f ''bool'' (type_name v))"

fun ensure_str :: "json \<Rightarrow> string \<Rightarrow> deser_error + string" where
  "ensure_str (JStr s) f = Inr s"
| "ensure_str v f = Inl (DeserType f ''str'' (type_name v))"

fun ensure_optional_str :: "json \<Rightarrow> string \<Rightarrow> deser_error + string option" where
  "ensure_optional_str JNull f = Inr None"
| "ensure_optional_str (JStr s) f = Inr (Some s)"
| "ensure_optional_str v f = Inl (DeserType f ''str or null'' (type_name v))"

fun ensure_list :: "json \<Rightarrow> string \<Rightarrow> deser_error + json list" where
  "ensure_list JNull f = Inr []"
| "ensure_list (JList xs) f = Inr xs"
| "ensure_list v f = Inl (DeserType f ''list'' (type_name v))"

fun ensure_int_min :: "json \<Rightarrow> string \<Rightarrow> int \<Rightarrow> deser_error + int" where
  "ensure_int_min (JInt i) f m = (if i < m then Inl (DeserMinimum f m i) else Inr i)"
| "ensure_int_min v f m = Inl (DeserType f ''int'' (type_name v))"

text \<open>
  \<open>float(i)\<close> raises \<open>OverflowError\<close> from the midpoint above the largest double on. Below that
  the value is rounded to a double, which keeps 0 and 1 exact and every other integer outside
  the interval the callers test.
\<close>

definition py_float_of_int :: "int \<Rightarrow> deser_error + pyfloat" where
  "py_float_of_int i =
     (if 2 ^ 1024 - 2 ^ 970 \<le> \<bar>i\<bar> then Inl DeserOverflow else Inr (PFin (of_int i)))"

definition in_float_range :: "pyfloat \<Rightarrow> pyfloat \<Rightarrow> pyfloat \<Rightarrow> bool" where
  "in_float_range low high x = (\<not> (pf_less x low \<or> pf_less high x))"

fun ensure_float_range ::
    "json \<Rightarrow> string \<Rightarrow> pyfloat \<Rightarrow> pyfloat \<Rightarrow> deser_error + pyfloat" where
  "ensure_float_range (JInt i) f low high =
     bind_res (py_float_of_int i)
       (\<lambda>x. if in_float_range low high x then Inr x else Inl (DeserRange f))"
| "ensure_float_range (JFloat x) f low high =
     (if in_float_range low high x then Inr x else Inl (DeserRange f))"
| "ensure_float_range v f low high = Inl (DeserType f ''number'' (type_name v))"

abbreviation ensure_unit_float :: "json \<Rightarrow> string \<Rightarrow> deser_error + pyfloat" where
  "ensure_unit_float v f \<equiv> ensure_float_range v f (PFin 0) (PFin 1)"

fun check_str_items :: "json list \<Rightarrow> nat \<Rightarrow> string \<Rightarrow> deser_error + string list" where
  "check_str_items [] i f = Inr []"
| "check_str_items (JStr s # vs) i f =
     bind_res (check_str_items vs (Suc i) f) (\<lambda>ss. Inr (s # ss))"
| "check_str_items (v # vs) i f =
     Inl (DeserType (f @ ''['' @ nat_decimal i @ '']'') ''str'' (type_name v))"

definition ensure_str_list :: "json \<Rightarrow> string \<Rightarrow> deser_error + string list" where
  "ensure_str_list v f = bind_res (ensure_list v f) (\<lambda>items. check_str_items items 0 f)"

fun ensure_dict :: "json \<Rightarrow> string \<Rightarrow> deser_error + dict" where
  "ensure_dict JNull f = Inr []"
| "ensure_dict (JObj d) f = Inr d"
| "ensure_dict v f = Inl (DeserType f ''object'' (type_name v))"

section \<open>Section builders\<close>

definition build_activation :: "dict \<Rightarrow> deser_error + activation_config" where
  "build_activation d =
     bind_res (ensure_dict (dget0 d ''normalization'') ''activation.normalization'') (\<lambda>nd.
     bind_res (ensure_bool (dget nd ''case_fold'' (JBool True)) ''normalization.case_fold'') (\<lambda>cf.
     bind_res (ensure_bool (dget nd ''german_ss_equivalence'' (JBool True)) ''normalization.german_ss_equivalence'') (\<lambda>ss.
     bind_res (ensure_bool (dget nd ''ignore_trailing_punctuation'' (JBool True)) ''normalization.ignore_trailing_punctuation'') (\<lambda>tp.
     bind_res (ensure_str_list (dget d ''phrases'' (JList [])) ''activation.phrases'') (\<lambda>phrases.
     bind_res (ensure_str_list (dget d ''conditions'' (JList [])) ''activation.conditions'') (\<lambda>conditions.
     bind_res (ensure_int_min (dget d ''cooldown_seconds'' (JInt 0)) ''activation.cooldown_seconds'' 0) (\<lambda>cooldown.
     bind_res (ensure_str (dget d ''kind'' (JStr ''shortcut'')) ''activation.kind'') (\<lambda>kind.
     bind_res (ensure_str (dget d ''mode'' (JStr ''exact_phrase'')) ''activation.mode'') (\<lambda>mode.
     bind_res (ensure_str (dget d ''match_scope'' (JStr ''whole_message'')) ''activation.match_scope'') (\<lambda>msc.
     Inr \<lparr>act_kind = kind,
         act_mode = mode,
         act_phrases = phrases,
         act_normalization = \<lparr>nm_case_fold = cf, nm_german_ss_equivalence = ss, nm_ignore_trailing_punctuation = tp\<rparr>,
         act_match_scope = msc,
         act_conditions = conditions,
         act_cooldown_seconds = cooldown\<rparr>))))))))))"

definition build_intent :: "dict \<Rightarrow> deser_error + intent_config" where
  "build_intent d =
     bind_res (ensure_str_list (dget d ''positive_examples'' (JList [])) ''intent.positive_examples'') (\<lambda>pos.
     bind_res (ensure_str_list (dget d ''negative_examples'' (JList [])) ''intent.negative_examples'') (\<lambda>neg.
     bind_res (ensure_str (dget d ''label'' (JStr '''')) ''intent.label'') (\<lambda>label.
     Inr \<lparr>intent_label = label,
         intent_positive_examples = pos,
         intent_negative_examples = neg\<rparr>)))"

definition build_execution :: "dict \<Rightarrow> deser_error + execution_config" where
  "build_execution d =
     bind_res (ensure_int_min (dget d ''timeout_seconds'' (JInt 30)) ''execution.timeout_seconds'' 1) (\<lambda>timeout.
     bind_res (ensure_int_min (dget d ''max_tool_calls'' (JInt 0)) ''execution.max_tool_calls'' 0) (\<lambda>max_tools.
     bind_res (ensure_str (dget d ''type'' (JStr ''llm_instruction'')) ''execution.type'') (\<lambda>ty.
     bind_res (ensure_str (dget d ''instruction'' (JStr '''')) ''execution.instruction'') (\<lambda>instr.
     Inr \<lparr>exec_type = ty,
         exec_instruction = instr,
         exec_timeout_seconds = timeout,
         exec_max_tool_calls = max_tools\<rparr>))))"

definition build_ttl_days :: "json \<Rightarrow> deser_error + int option" where
  "build_ttl_days raw =
     (if raw = JNull then Inr None
      else bind_res (ensure_int_min raw ''memory_policy.write.ttl_days'' 0) (\<lambda>i. Inr (Some i)))"

definition build_memory_policy :: "dict \<Rightarrow> deser_error + memory_policy_config" where
  "build_memory_policy d =
     bind_res (ensure_dict (dget0 d ''read'') ''memory_policy.read'') (\<lambda>rd.
     bind_res (ensure_dict (dget0 d ''write'') ''memory_policy.write'') (\<lambda>wd.
     bind_res (ensure_str_list (dget rd ''allowed_stores'' (JList [])) ''memory_policy.read.allowed_stores'') (\<lambda>allowed.
     bind_res (ensure_str_list (dget rd ''blocked_stores'' (JList [JStr ''secrets'', JStr ''health'', JStr ''raw_finance''])) ''memory_policy.read.blocked_stores'') (\<lambda>blocked.
     bind_res (ensure_int_min (dget rd ''max_items'' (JInt 10)) ''memory_policy.read.max_items'' 1) (\<lambda>max_items.
     bind_res (ensure_bool (dget rd ''enabled'' (JBool False)) ''memory_policy.read.enabled'') (\<lambda>ren.
     bind_res (build_ttl_days (dget0 wd ''ttl_days'')) (\<lambda>ttl.
     bind_res (ensure_bool (dget wd ''enabled'' (JBool False)) ''memory_policy.write.enabled'') (\<lambda>wen.
     bind_res (ensure_optional_str (dget0 wd ''target_store'') ''memory_policy.write.target_store'') (\<lambda>target.
     bind_res (ensure_str (dget d ''conflict_handling'' (JStr ''ignore'')) ''memory_policy.conflict_handling'') (\<lambda>conflict.
     Inr \<lparr>mp_read = \<lparr>mr_enabled = ren, mr_allowed_stores = allowed, mr_blocked_stores = blocked,
           mr_max_items = max_items\<rparr>,
         mp_write = \<lparr>mw_enabled = wen, mw_target_store = target, mw_ttl_days = ttl\<rparr>,
         mp_conflict_handling = conflict\<rparr>))))))))))"

definition build_confirmation :: "dict \<Rightarrow> deser_error + confirmation_config" where
  "build_confirmation d =
     bind_res (ensure_dict (dget0 d ''thresholds'') ''confirmation.thresholds'') (\<lambda>td.
     bind_res (ensure_unit_float (dget td ''auto_execute'' (JFloat (PFin (95 / 100)))) ''confirmation.thresholds.auto_execute'') (\<lambda>auto_exec.
     bind_res (ensure_unit_float (dget td ''ask_confirm'' (JFloat (PFin (75 / 100)))) ''confirmation.thresholds.ask_confirm'') (\<lambda>ask_conf.
     bind_res (ensure_unit_float (dget td ''reject'' (JFloat (PFin (50 / 100)))) ''confirmation.thresholds.reject'') (\<lambda>reject_val.
     bind_res (ensure_str (dget d ''mode'' (JStr ''confidence_gated'')) ''confirmation.mode'') (\<lambda>mode.
     bind_res (ensure_bool (dget d ''destructive_always_confirm'' (JBool True)) ''confirmation.destructive_always_confirm'') (\<lambda>destr.
     Inr \<lparr>conf_mode = mode,
         conf_thresholds = \<lparr>th_auto_execute = auto_exec, th_ask_confirm = ask_conf, th_reject = reject_val\<rparr>,
         conf_destructive_always_confirm = destr\<rparr>))))))"

definition build_safety :: "dict \<Rightarrow> deser_error + safety_config" where
  "build_safety d =
     bind_res (ensure_str_list (dget d ''allowed_tools'' (JList [])) ''safety.allowed_tools'') (\<lambda>tools.
     bind_res (ensure_int_min (dget d ''max_tool_calls_per_execution'' (JInt 5)) ''safety.max_tool_calls_per_execution'' 0) (\<lambda>mx.
     bind_res (ensure_bool (dget d ''requires_secret_scan'' (JBool True)) ''safety.requires_secret_scan'') (\<lambda>scan.
     bind_res (ensure_str (dget d ''pii_risk'' (JStr ''low'')) ''safety.pii_risk'') (\<lambda>pii.
     bind_res (ensure_bool (dget d ''allow_tools'' (JBool False)) ''safety.allow_tools'') (\<lambda>allow.
     bind_res (ensure_bool (dget d ''instruction_sanitized'' (JBool True)) ''safety.instruction_sanitized'') (\<lambda>san.
     Inr \<lparr>saf_requires_secret_scan = scan,
         saf_pii_risk = pii,
         saf_allow_tools = allow,
         saf_allowed_tools = tools,
         saf_max_tool_calls_per_execution = mx,
         saf_instruction_sanitized = san\<rparr>))))))"

definition build_priority :: "dict \<Rightarrow> deser_error + priority_config" where
  "build_priority d =
     bind_res (ensure_int_min (dget d ''rank'' (JInt 80)) ''priority.rank'' 0) (\<lambda>rank.
     bind_res (ensure_str_list (dget d ''beats'' (JList [JStr ''memory_conflict'', JStr ''style_preference''])) ''priority.beats'') (\<lambda>beats.
     bind_res (ensure_str_list (dget d ''loses_to'' (JList [JStr ''safety_policy'', JStr ''explicit_user_command''])) ''priority.loses_to'') (\<lambda>loses.
     Inr \<lparr>prio_rank = rank,
         prio_beats = beats,
         prio_loses_to = loses\<rparr>)))"

definition build_scope :: "dict \<Rightarrow> deser_error + scope_config" where
  "build_scope d =
     bind_res (ensure_str_list (dget d ''channels'' (JList [JStr ''telegram''])) ''scope.channels'') (\<lambda>channels.
     bind_res (ensure_str_list (dget d ''providers'' (JList [JStr ''all''])) ''scope.providers'') (\<lambda>providers.
     bind_res (ensure_str (dget d ''user_scope'' (JStr ''single_user'')) ''scope.user_scope'') (\<lambda>us.
     bind_res (ensure_str (dget d ''workspace'' (JStr ''global'')) ''scope.workspace'') (\<lambda>ws.
     Inr \<lparr>scope_user_scope = us,
         scope_workspace = ws,
         scope_channels = channels,
         scope_providers = providers\<rparr>))))"

definition build_observability :: "dict \<Rightarrow> deser_error + observability_config" where
  "build_observability d =
     bind_res (ensure_int_min (dget d ''success_count'' (JInt 0)) ''observability.success_count'' 0) (\<lambda>sc.
     bind_res (ensure_int_min (dget d ''decline_count'' (JInt 0)) ''observability.decline_count'' 0) (\<lambda>dc.
     bind_res (ensure_unit_float (dget d ''average_confidence'' (JFloat (PFin (0)))) ''observability.average_confidence'') (\<lambda>avg.
     bind_res (ensure_bool (dget d ''track_success'' (JBool True)) ''observability.track_success'') (\<lambda>ts.
     bind_res (ensure_bool (dget d ''track_declines'' (JBool True)) ''observability.track_declines'') (\<lambda>td.
     bind_res (ensure_optional_str (dget0 d ''last_triggered_at'') ''observability.last_triggered_at'') (\<lambda>lt.
     Inr \<lparr>obs_track_success = ts,
         obs_track_declines = td,
         obs_last_triggered_at = lt,
         obs_success_count = sc,
         obs_decline_count = dc,
         obs_average_confidence = avg\<rparr>))))))"

definition build_lifecycle :: "dict \<Rightarrow> deser_error + lifecycle_config" where
  "build_lifecycle d =
     bind_res (ensure_str (dget d ''status'' (JStr ''confirmed'')) ''lifecycle.status'') (\<lambda>st.
     bind_res (ensure_bool (dget d ''editable'' (JBool True)) ''lifecycle.editable'') (\<lambda>ed.
     bind_res (ensure_str (dget d ''decay'' (JStr ''immune'')) ''lifecycle.decay'') (\<lambda>dec.
     bind_res (ensure_optional_str (dget0 d ''last_schema_migration'') ''lifecycle.last_schema_migration'') (\<lambda>mig.
     Inr \<lparr>lc_status = st,
         lc_editable = ed,
         lc_decay = dec,
         lc_last_schema_migration = mig\<rparr>))))"

definition build_trust :: "dict \<Rightarrow> deser_error + trust_config" where
  "build_trust d =
     bind_res (ensure_optional_str (dget0 d ''signature'') ''trust.signature'') (\<lambda>sg.
     bind_res (ensure_optional_str (dget0 d ''signature_algorithm'') ''trust.signature_algorithm'') (\<lambda>alg.
     bind_res (ensure_optional_str (dget0 d ''checksum'') ''trust.checksum'') (\<lambda>ck.
     bind_res (ensure_optional_str (dget0 d ''signed_at'') ''trust.signed_at'') (\<lambda>sat.
     bind_res (ensure_optional_str (dget0 d ''author_id'') ''trust.author_id'') (\<lambda>au.
     Inr \<lparr>tr_signature = sg,
         tr_signature_algorithm = alg,
         tr_checksum = ck,
         tr_signed_at = sat,
         tr_author_id = au\<rparr>)))))"

definition build_permissions :: "dict \<Rightarrow> deser_error + permissions_config" where
  "build_permissions d =
     bind_res (ensure_dict (dget0 d ''network_access'') ''permissions.network_access'') (\<lambda>nd.
     bind_res (ensure_dict (dget0 d ''file_access'') ''permissions.file_access'') (\<lambda>fd.
     bind_res (ensure_dict (dget0 d ''history_access'') ''permissions.history_access'') (\<lambda>hd.
     bind_res (ensure_str_list (dget d ''tools'' (JList [])) ''permissions.tools'') (\<lambda>tools.
     bind_res (ensure_str_list (dget d ''memory_read'' (JList [])) ''permissions.memory_read'') (\<lambda>mread.
     bind_res (ensure_str_list (dget d ''memory_write'' (JList [])) ''permissions.memory_write'') (\<lambda>mwrite.
     bind_res (ensure_str_list (dget nd ''domains'' (JList [])) ''permissions.network_access.domains'') (\<lambda>domains.
     bind_res (ensure_str_list (dget fd ''scopes'' (JList [])) ''permissions.file_access.scopes'') (\<lambda>fscopes.
     bind_res (ensure_str_list (dget hd ''scopes'' (JList [])) ''permissions.history_access.scopes'') (\<lambda>hscopes.
     bind_res (ensure_bool (dget nd ''enabled'' (JBool False)) ''permissions.network_access.enabled'') (\<lambda>nen.
     bind_res (ensure_bool (dget fd ''enabled'' (JBool False)) ''permissions.file_access.enabled'') (\<lambda>fen.
     bind_res (ensure_bool (dget hd ''enabled'' (JBool False)) ''permissions.history_access.enabled'') (\<lambda>hen.
     bind_res (ensure_bool (dget d ''secrets_access'' (JBool False)) ''permissions.secrets_access'') (\<lambda>sec.
     Inr \<lparr>perm_tools = tools,
         perm_memory_read = mread,
         perm_memory_write = mwrite,
         perm_network_access = \<lparr>na_enabled = nen, na_domains = domains\<rparr>,
         perm_file_access = \<lparr>fa_enabled = fen, fa_scopes = fscopes\<rparr>,
         perm_history_access = \<lparr>ha_enabled = hen, ha_scopes = hscopes\<rparr>,
         perm_secrets_access = sec\<rparr>)))))))))))))"

definition build_store_meta :: "dict \<Rightarrow> deser_error + store_meta_config" where
  "build_store_meta d =
     bind_res (ensure_str (dget d ''package_type'' (JStr ''local_skill'')) ''store_meta.package_type'') (\<lambda>pt.
     bind_res (ensure_str (dget d ''license'' (JStr ''personal'')) ''store_meta.license'') (\<lambda>lic.
     bind_res (ensure_optional_str (dget0 d ''store_listing_id'') ''store_meta.store_listing_id'') (\<lambda>sl.
     bind_res (ensure_optional_str (dget0 d ''required_axolent_version'') ''store_meta.required_axolent_version'') (\<lambda>rv.
     bind_res (ensure_optional_str (dget0 d ''manifest_version'') ''store_meta.manifest_version'') (\<lambda>mv.
     bind_res (ensure_optional_str (dget0 d ''permissions_version'') ''store_meta.permissions_version'') (\<lambda>pv.
     Inr \<lparr>sm_package_type = pt,
         sm_license = lic,
         sm_store_listing_id = sl,
         sm_required_axolent_version = rv,
         sm_manifest_version = mv,
         sm_permissions_version = pv\<rparr>))))))"

definition build_audit :: "dict \<Rightarrow> deser_error + audit_config" where
  "build_audit d =
     bind_res (ensure_bool (dget d ''capability_broker_enabled'' (JBool True)) ''audit.capability_broker_enabled'') (\<lambda>cb.
     Inr \<lparr>aud_capability_broker_enabled = cb\<rparr>)"

text \<open>One section: \<open>_build_x(_ensure_dict(data.get("x"), "x"))\<close>.\<close>

definition build_section :: "(dict \<Rightarrow> deser_error + 'a) \<Rightarrow> dict \<Rightarrow> string \<Rightarrow> deser_error + 'a" where
  "build_section build data k = bind_res (ensure_dict (dget0 data k) k) build"

definition build_contract :: "dict \<Rightarrow> deser_error + skill_contract" where
  "build_contract data =
     bind_res (build_section build_activation data ''activation'') (\<lambda>v_activation.
     bind_res (build_section build_intent data ''intent'') (\<lambda>v_intent.
     bind_res (build_section build_execution data ''execution'') (\<lambda>v_execution.
     bind_res (build_section build_memory_policy data ''memory_policy'') (\<lambda>v_memory_policy.
     bind_res (build_section build_confirmation data ''confirmation'') (\<lambda>v_confirmation.
     bind_res (build_section build_safety data ''safety'') (\<lambda>v_safety.
     bind_res (build_section build_priority data ''priority'') (\<lambda>v_priority.
     bind_res (build_section build_scope data ''scope'') (\<lambda>v_scope.
     bind_res (build_section build_observability data ''observability'') (\<lambda>v_observability.
     bind_res (build_section build_lifecycle data ''lifecycle'') (\<lambda>v_lifecycle.
     bind_res (build_section build_trust data ''trust'') (\<lambda>v_trust.
     bind_res (build_section build_permissions data ''permissions'') (\<lambda>v_permissions.
     bind_res (build_section build_store_meta data ''store_meta'') (\<lambda>v_store_meta.
     bind_res (build_section build_audit data ''audit'') (\<lambda>v_audit.
     bind_res (ensure_list (dget data ''slots'' (JList [])) ''slots'') (\<lambda>slots.
     bind_res (ensure_list (dget data ''provider_hints'' (JList [])) ''provider_hints'') (\<lambda>hints.
     bind_res (ensure_str_list (dget data ''tags'' (JList [])) ''tags'') (\<lambda>tags.
     bind_res (ensure_int_min (dget data ''schema_version'' (JInt 2)) ''schema_version'' 1) (\<lambda>sv.
     bind_res (ensure_int_min (dget data ''contract_version'' (JInt 1)) ''contract_version'' 1) (\<lambda>cv.
     bind_res (ensure_str (dget data ''id'' (JStr '''')) ''id'') (\<lambda>v_id.
     bind_res (ensure_str (dget data ''name'' (JStr '''')) ''name'') (\<lambda>v_name.
     bind_res (ensure_optional_str (dget0 data ''hypothesis_id'') ''hypothesis_id'') (\<lambda>hyp.
     bind_res (ensure_str (dget data ''created_by'' (JStr ''user'')) ''created_by'') (\<lambda>cby.
     bind_res (ensure_str (dget data ''created_at'' (JStr '''')) ''created_at'') (\<lambda>cat.
     bind_res (ensure_str (dget data ''updated_at'' (JStr '''')) ''updated_at'') (\<lambda>uat.
     bind_res (ensure_str (dget data ''migration_status'' (JStr ''current'')) ''migration_status'') (\<lambda>mig.
     bind_res (ensure_str (dget data ''review_status'' (JStr ''unreviewed'')) ''review_status'') (\<lambda>rev.
     bind_res (ensure_str (dget data ''risk_level'' (JStr ''unknown'')) ''risk_level'') (\<lambda>risk.
     bind_res (ensure_str (dget data ''origin'' (JStr ''local_learn'')) ''origin'') (\<lambda>orig.
     Inr \<lparr>c_schema_version = sv,
         c_contract_version = cv,
         c_id = v_id,
         c_name = v_name,
         c_hypothesis_id = hyp,
         c_created_by = cby,
         c_created_at = cat,
         c_updated_at = uat,
         c_migration_status = mig,
         c_activation = v_activation,
         c_intent = v_intent,
         c_slots = slots,
         c_execution = v_execution,
         c_provider_hints = hints,
         c_memory_policy = v_memory_policy,
         c_confirmation = v_confirmation,
         c_safety = v_safety,
         c_priority = v_priority,
         c_scope = v_scope,
         c_observability = v_observability,
         c_lifecycle = v_lifecycle,
         c_tags = tags,
         c_trust = v_trust,
         c_permissions = v_permissions,
         c_review_status = rev,
         c_risk_level = risk,
         c_store_meta = v_store_meta,
         c_audit = v_audit,
         c_origin = orig\<rparr>)))))))))))))))))))))))))))))"

fun from_dict :: "json \<Rightarrow> deser_error + skill_contract" where
  "from_dict (JObj data) = build_contract data"
| "from_dict v = Inl (DeserType ''SkillContract root'' ''object'' (type_name v))"

end
