(* ===== verification/ContractRoundtrip.thy ===== *)
theory ContractRoundtrip
  imports ContractCodec
begin

text \<open>
  What the codec guarantees: deserialisation inverts serialisation on well-formed contracts,
  accepts only well-formed ones, takes a permission flag from a JSON boolean only, and reads
  nothing but the known keys.
\<close>

section \<open>Well-formed contracts\<close>

text \<open>The numeric bounds the builders enforce; every other field is free.\<close>

definition unit_float :: "pyfloat \<Rightarrow> bool" where
  "unit_float x = in_float_range (PFin 0) (PFin 1) x"

definition wf_activation :: "activation_config \<Rightarrow> bool" where
  "wf_activation a \<longleftrightarrow> 0 \<le> act_cooldown_seconds a"

definition wf_execution :: "execution_config \<Rightarrow> bool" where
  "wf_execution e \<longleftrightarrow> 1 \<le> exec_timeout_seconds e \<and> 0 \<le> exec_max_tool_calls e"

definition wf_memory_policy :: "memory_policy_config \<Rightarrow> bool" where
  "wf_memory_policy m \<longleftrightarrow> 1 \<le> mr_max_items (mp_read m)
     \<and> (case mw_ttl_days (mp_write m) of None \<Rightarrow> True | Some d \<Rightarrow> 0 \<le> d)"

definition wf_confirmation :: "confirmation_config \<Rightarrow> bool" where
  "wf_confirmation c \<longleftrightarrow> unit_float (th_auto_execute (conf_thresholds c))
     \<and> unit_float (th_ask_confirm (conf_thresholds c))
     \<and> unit_float (th_reject (conf_thresholds c))"

definition wf_safety :: "safety_config \<Rightarrow> bool" where
  "wf_safety s \<longleftrightarrow> 0 \<le> saf_max_tool_calls_per_execution s"

definition wf_priority :: "priority_config \<Rightarrow> bool" where
  "wf_priority p \<longleftrightarrow> 0 \<le> prio_rank p"

definition wf_observability :: "observability_config \<Rightarrow> bool" where
  "wf_observability ob \<longleftrightarrow> 0 \<le> obs_success_count ob \<and> 0 \<le> obs_decline_count ob
     \<and> unit_float (obs_average_confidence ob)"

definition wf_contract :: "skill_contract \<Rightarrow> bool" where
  "wf_contract c \<longleftrightarrow> 1 \<le> c_schema_version c \<and> 1 \<le> c_contract_version c
     \<and> wf_activation (c_activation c) \<and> wf_execution (c_execution c)
     \<and> wf_memory_policy (c_memory_policy c) \<and> wf_confirmation (c_confirmation c)
     \<and> wf_safety (c_safety c) \<and> wf_priority (c_priority c)
     \<and> wf_observability (c_observability c)"

lemmas wf_defs = wf_activation_def wf_execution_def wf_memory_policy_def wf_confirmation_def
  wf_safety_def wf_priority_def wf_observability_def unit_float_def

lemma default_wf: "wf_contract default_contract"
  by (simp add: wf_contract_def wf_defs contract_defaults in_float_range_def)

section \<open>Round trip\<close>

lemma check_str_items_strs [simp]: "check_str_items (map JStr xs) i f = Inr xs"
  by (induction xs arbitrary: i) auto

lemma ensure_str_list_strs [simp]: "ensure_str_list (strs_to_json xs) f = Inr xs"
  by (simp add: ensure_str_list_def strs_to_json_def)

lemma ensure_optional_str_json [simp]: "ensure_optional_str (opt_str_to_json x) f = Inr x"
  by (cases x) auto

lemma ensure_unit_float_ok [simp]: "unit_float x \<Longrightarrow> ensure_unit_float (JFloat x) f = Inr x"
  by (simp add: unit_float_def)

lemma build_ttl_days_json [simp]:
  "(case x of None \<Rightarrow> True | Some d \<Rightarrow> 0 \<le> d) \<Longrightarrow> build_ttl_days (opt_int_to_json x) = Inr x"
  by (cases x) (auto simp: build_ttl_days_def)

text \<open>One lemma per section: the builder reads back what the serialiser wrote.\<close>

named_theorems section_roundtrip

lemma activation_roundtrip [section_roundtrip]:
  "dget0 d k = activation_to_dict a \<Longrightarrow> wf_activation a \<Longrightarrow>
     build_section build_activation d k = Inr a"
  by (simp add: build_section_def build_activation_def activation_to_dict_def
      normalization_to_dict_def wf_activation_def)

lemma intent_roundtrip [section_roundtrip]:
  "dget0 d k = intent_to_dict a \<Longrightarrow> build_section build_intent d k = Inr a"
  by (simp add: build_section_def build_intent_def intent_to_dict_def)

lemma execution_roundtrip [section_roundtrip]:
  "dget0 d k = execution_to_dict a \<Longrightarrow> wf_execution a \<Longrightarrow>
     build_section build_execution d k = Inr a"
  by (simp add: build_section_def build_execution_def execution_to_dict_def wf_execution_def)

lemma memory_policy_roundtrip [section_roundtrip]:
  "dget0 d k = memory_policy_to_dict a \<Longrightarrow> wf_memory_policy a \<Longrightarrow>
     build_section build_memory_policy d k = Inr a"
  by (simp add: build_section_def build_memory_policy_def memory_policy_to_dict_def
      memory_read_to_dict_def memory_write_to_dict_def wf_memory_policy_def)

lemma confirmation_roundtrip [section_roundtrip]:
  "dget0 d k = confirmation_to_dict a \<Longrightarrow> wf_confirmation a \<Longrightarrow>
     build_section build_confirmation d k = Inr a"
  by (simp add: build_section_def build_confirmation_def confirmation_to_dict_def
      thresholds_to_dict_def wf_confirmation_def del: ensure_float_range.simps)

lemma safety_roundtrip [section_roundtrip]:
  "dget0 d k = safety_to_dict a \<Longrightarrow> wf_safety a \<Longrightarrow> build_section build_safety d k = Inr a"
  by (simp add: build_section_def build_safety_def safety_to_dict_def wf_safety_def)

lemma priority_roundtrip [section_roundtrip]:
  "dget0 d k = priority_to_dict a \<Longrightarrow> wf_priority a \<Longrightarrow>
     build_section build_priority d k = Inr a"
  by (simp add: build_section_def build_priority_def priority_to_dict_def wf_priority_def)

lemma scope_roundtrip [section_roundtrip]:
  "dget0 d k = scope_to_dict a \<Longrightarrow> build_section build_scope d k = Inr a"
  by (simp add: build_section_def build_scope_def scope_to_dict_def)

lemma observability_roundtrip [section_roundtrip]:
  "dget0 d k = observability_to_dict a \<Longrightarrow> wf_observability a \<Longrightarrow>
     build_section build_observability d k = Inr a"
  by (simp add: build_section_def build_observability_def observability_to_dict_def
      wf_observability_def del: ensure_float_range.simps)

lemma lifecycle_roundtrip [section_roundtrip]:
  "dget0 d k = lifecycle_to_dict a \<Longrightarrow> build_section build_lifecycle d k = Inr a"
  by (simp add: build_section_def build_lifecycle_def lifecycle_to_dict_def)

lemma trust_roundtrip [section_roundtrip]:
  "dget0 d k = JObj (trust_items a) \<Longrightarrow> build_section build_trust d k = Inr a"
  by (simp add: build_section_def build_trust_def trust_items_def)

lemma permissions_roundtrip [section_roundtrip]:
  "dget0 d k = permissions_to_dict a \<Longrightarrow> build_section build_permissions d k = Inr a"
  by (simp add: build_section_def build_permissions_def permissions_to_dict_def)

lemma store_meta_roundtrip [section_roundtrip]:
  "dget0 d k = store_meta_to_dict a \<Longrightarrow> build_section build_store_meta d k = Inr a"
  by (simp add: build_section_def build_store_meta_def store_meta_to_dict_def)

lemma audit_roundtrip [section_roundtrip]:
  "dget0 d k = audit_to_dict a \<Longrightarrow> build_section build_audit d k = Inr a"
  by (simp add: build_section_def build_audit_def audit_to_dict_def)

lemma from_dict_to_dict: "wf_contract c \<Longrightarrow> from_dict (to_dict c) = Inr c"
  by (simp add: to_dict_def build_contract_def contract_items_def section_roundtrip
      wf_contract_def)

text \<open>
  C35: deserialising the serialised form of a well-formed contract gives the contract back, every
  field of every section included.
\<close>

theorem contract_roundtrip:
  assumes "wf_contract c"
  shows "from_dict (to_dict c) = Inr c"
  using assms by (rule from_dict_to_dict)

theorem contract_roundtrip_witness:
  "from_dict (to_dict (default_contract\<lparr>c_id := ''skill_1'', c_tags := [''a'', ''b''],
      c_slots := [JObj [(''x'', JInt 1)]]\<rparr>)) =
   Inr (default_contract\<lparr>c_id := ''skill_1'', c_tags := [''a'', ''b''],
      c_slots := [JObj [(''x'', JInt 1)]]\<rparr>)"
  by (rule contract_roundtrip)
    (simp add: wf_contract_def wf_defs contract_defaults in_float_range_def)

lemmas codec_defs =
  build_contract_def build_section_def build_activation_def build_intent_def
  build_execution_def build_memory_policy_def build_ttl_days_def build_confirmation_def
  build_safety_def build_priority_def build_scope_def build_observability_def
  build_lifecycle_def build_trust_def build_permissions_def build_store_meta_def
  build_audit_def ensure_str_list_def in_float_range_def

section \<open>Soundness\<close>

lemma ensure_int_min_bound: "ensure_int_min v f m = Inr i \<Longrightarrow> m \<le> i"
  by (cases v) (auto split: if_splits)

lemma ensure_unit_float_bound: "ensure_unit_float v f = Inr x \<Longrightarrow> unit_float x"
  by (cases v) (auto simp: unit_float_def bind_res_eq_Inr split: if_splits)

lemma build_ttl_days_bound: "build_ttl_days v = Inr (Some i) \<Longrightarrow> 0 \<le> i"
  by (auto simp: build_ttl_days_def bind_res_eq_Inr dest: ensure_int_min_bound split: if_splits)

lemmas ensure_bounds = ensure_int_min_bound ensure_unit_float_bound build_ttl_days_bound

lemma build_section_InrE:
  assumes "build_section b data k = Inr x"
  obtains d where "ensure_dict (dget0 data k) k = Inr d" and "b d = Inr x"
  using assms by (auto simp: build_section_def bind_res_eq_Inr)

lemma activation_sound: "build_activation d = Inr a \<Longrightarrow> wf_activation a"
  by (auto simp: build_activation_def bind_res_eq_Inr wf_activation_def dest: ensure_bounds)

lemma execution_sound: "build_execution d = Inr a \<Longrightarrow> wf_execution a"
  by (auto simp: build_execution_def bind_res_eq_Inr wf_execution_def dest: ensure_bounds)

lemma memory_policy_sound: "build_memory_policy d = Inr a \<Longrightarrow> wf_memory_policy a"
  by (auto simp: build_memory_policy_def bind_res_eq_Inr wf_memory_policy_def
      dest: ensure_bounds split: option.splits)

lemma confirmation_sound: "build_confirmation d = Inr a \<Longrightarrow> wf_confirmation a"
  by (auto simp: build_confirmation_def bind_res_eq_Inr wf_confirmation_def dest: ensure_bounds)

lemma safety_sound: "build_safety d = Inr a \<Longrightarrow> wf_safety a"
  by (auto simp: build_safety_def bind_res_eq_Inr wf_safety_def dest: ensure_bounds)

lemma priority_sound: "build_priority d = Inr a \<Longrightarrow> wf_priority a"
  by (auto simp: build_priority_def bind_res_eq_Inr wf_priority_def dest: ensure_bounds)

lemma observability_sound: "build_observability d = Inr a \<Longrightarrow> wf_observability a"
  by (auto simp: build_observability_def bind_res_eq_Inr wf_observability_def dest: ensure_bounds)

lemmas sections_sound = activation_sound execution_sound memory_policy_sound confirmation_sound
  safety_sound priority_sound observability_sound

lemma build_contract_wf: "build_contract d = Inr c \<Longrightarrow> wf_contract c"
  by (auto simp: build_contract_def bind_res_eq_Inr wf_contract_def
      dest: ensure_bounds sections_sound elim!: build_section_InrE)

lemma from_dict_wf: "from_dict v = Inr c \<Longrightarrow> wf_contract c"
  by (cases v) (auto dest: build_contract_wf)

text \<open>
  Whatever the strict deserialiser accepts is a well-formed contract, so every numeric bound
  holds of it, and serialising and loading it again changes nothing.
\<close>

theorem from_dict_sound:
  assumes "from_dict v = Inr c"
  shows "wf_contract c \<and> from_dict (to_dict c) = Inr c"
  using from_dict_wf [OF assms] from_dict_to_dict by blast

theorem from_dict_sound_witness:
  "from_dict (JObj [(''unknown'', JNull)]) = Inr default_contract \<and> wf_contract default_contract"
proof -
  have h: "from_dict (JObj [(''unknown'', JNull)]) = Inr default_contract"
    by (simp add: codec_defs contract_defaults)
  from from_dict_sound [OF h] h show ?thesis by blast
qed

section \<open>Permission flags come from JSON booleans\<close>

text \<open>\<open>has_path d ks v\<close>: following the keys through nested objects leads to exactly \<open>v\<close>.\<close>

fun has_path :: "dict \<Rightarrow> string list \<Rightarrow> json \<Rightarrow> bool" where
  "has_path d [] v = False"
| "has_path d [k] v = (map_of d k = Some v)"
| "has_path d (k # ks) v = (case map_of d k of Some (JObj d') \<Rightarrow> has_path d' ks v | _ \<Rightarrow> False)"

lemma ensure_bool_True: "ensure_bool v f = Inr True \<Longrightarrow> v = JBool True"
  by (cases v) auto

lemma ensure_bool_dget_True:
  "ensure_bool (dget d k (JBool False)) f = Inr True \<Longrightarrow> map_of d k = Some (JBool True)"
  by (auto simp: dget_def dest!: ensure_bool_True split: option.splits)

lemma ensure_dict_nonempty:
  "ensure_dict (dget0 d k) f = Inr d' \<Longrightarrow> map_of d' k' = Some v \<Longrightarrow> map_of d k = Some (JObj d')"
  by (cases "dget0 d k") (auto simp: dget_def split: option.splits)

lemma build_permissions_flags:
  assumes "build_permissions d = Inr p"
  shows "perm_secrets_access p \<Longrightarrow> has_path d [''secrets_access''] (JBool True)"
    and "na_enabled (perm_network_access p) \<Longrightarrow>
           has_path d [''network_access'', ''enabled''] (JBool True)"
    and "fa_enabled (perm_file_access p) \<Longrightarrow>
           has_path d [''file_access'', ''enabled''] (JBool True)"
    and "ha_enabled (perm_history_access p) \<Longrightarrow>
           has_path d [''history_access'', ''enabled''] (JBool True)"
  using assms
  by (auto simp: build_permissions_def bind_res_eq_Inr
      dest!: ensure_bool_dget_True dest: ensure_dict_nonempty)

lemma has_path_section:
  "ensure_dict (dget0 d k) f = Inr d' \<Longrightarrow> has_path d' ks v \<Longrightarrow> has_path d (k # ks) v"
  by (cases ks rule: list.exhaust; cases "tl ks")
    (auto dest: ensure_dict_nonempty split: option.splits json.splits)

text \<open>
  A loaded contract has secrets, network, file or history access only if the JSON says
  \<open>true\<close> at exactly that place. A string such as \<open>"false"\<close>, a number or a missing key never
  turns a permission on.
\<close>

theorem permission_flags_are_literal:
  assumes "from_dict (JObj d) = Inr c"
  shows "(perm_secrets_access (c_permissions c) \<longrightarrow>
            has_path d [''permissions'', ''secrets_access''] (JBool True)) \<and>
         (na_enabled (perm_network_access (c_permissions c)) \<longrightarrow>
            has_path d [''permissions'', ''network_access'', ''enabled''] (JBool True)) \<and>
         (fa_enabled (perm_file_access (c_permissions c)) \<longrightarrow>
            has_path d [''permissions'', ''file_access'', ''enabled''] (JBool True)) \<and>
         (ha_enabled (perm_history_access (c_permissions c)) \<longrightarrow>
            has_path d [''permissions'', ''history_access'', ''enabled''] (JBool True))"
proof -
  from assms obtain p where p: "ensure_dict (dget0 d ''permissions'') ''permissions'' = Inr p"
    "build_permissions p = Inr (c_permissions c)"
    by (auto simp: build_contract_def bind_res_eq_Inr elim!: build_section_InrE)
  show ?thesis
    using build_permissions_flags [OF p(2)] has_path_section [OF p(1)] by blast
qed

theorem permission_flags_are_literal_witness:
  "has_path [(''permissions'', JObj [(''secrets_access'', JBool True)])]
     [''permissions'', ''secrets_access''] (JBool True)"
proof -
  have h: "from_dict (JObj [(''permissions'', JObj [(''secrets_access'', JBool True)])]) =
      Inr (default_contract\<lparr>c_permissions := default_permissions\<lparr>perm_secrets_access := True\<rparr>\<rparr>)"
    by (simp add: codec_defs contract_defaults)
  from permission_flags_are_literal [OF h] show ?thesis
    by (simp add: default_permissions_def)
qed

section \<open>Known keys\<close>

definition contract_keys :: "string list" where
  "contract_keys = map fst (contract_items default_contract [])"

lemma dget_filter_keys:
  "k \<in> set ks \<Longrightarrow> dget (filter (\<lambda>kv. fst kv \<in> set ks) d) k v = dget d k v"
  by (induction d) auto

text \<open>
  Unknown top-level keys are ignored: deserialising an object is deserialising its
  restriction to the keys of the schema.
\<close>

theorem from_dict_ignores_unknown_keys:
  "from_dict (JObj (filter (\<lambda>kv. fst kv \<in> set contract_keys) d)) = from_dict (JObj d)"
proof -
  define d' where "d' = filter (\<lambda>kv. fst kv \<in> set contract_keys) d"
  have key: "dget d' k v = dget d k v" if "k \<in> set contract_keys" for k v
    unfolding d'_def using that by (rule dget_filter_keys)
  have "from_dict (JObj d') = from_dict (JObj d)"
    unfolding from_dict.simps build_contract_def build_section_def
    by (simp add: key contract_keys_def contract_items_def)
  then show ?thesis by (simp add: d'_def)
qed

section \<open>Deviations\<close>

text \<open>
  The interval check of the confidence fields lets a NaN through, although the builders
  document a float in the interval from 0 to 1: both comparisons with a NaN are false. The
  \<open>NaN\<close> literal is accepted by \<open>json.loads\<close>.
\<close>

theorem float_range_accepts_nan:
  "from_dict (JObj [(''observability'', JObj [(''average_confidence'', JFloat PNaN)])]) =
     Inr (default_contract\<lparr>c_observability :=
            default_observability\<lparr>obs_average_confidence := PNaN\<rparr>\<rparr>) \<and>
   from_dict (JObj [(''observability'', JObj [(''average_confidence'', JFloat PInf)])]) =
     Inl (DeserRange ''observability.average_confidence'')"
  by (simp add: codec_defs contract_defaults)

text \<open>
  A huge integer in a confidence field is not reported as a deserialisation error of the
  contract: the conversion \<open>float(value)\<close> raises before the interval is checked. The callers
  that handle \<open>ContractDeserializationError\<close> do not see it.
\<close>

theorem float_range_overflow_escapes:
  assumes "2 ^ 1024 \<le> n"
  shows "from_dict (JObj [(''confirmation'', JObj [(''thresholds'', JObj [(''reject'', JInt n)])])]) =
           Inl DeserOverflow"
proof -
  have "py_float_of_int n = Inl DeserOverflow"
    using assms by (simp add: py_float_of_int_def)
  then show ?thesis by (simp add: codec_defs contract_defaults)
qed

theorem float_range_overflow_escapes_witness:
  "from_dict (JObj [(''confirmation'', JObj [(''thresholds'', JObj [(''reject'', JInt (2 ^ 1024))])])]) =
     Inl DeserOverflow"
  by (rule float_range_overflow_escapes) simp

end
