(* ===== verification/ContractRisk.thy ===== *)
theory ContractRisk
  imports ContractTypes
begin

text \<open>
  The permission-derived computations of \<open>skill_contract.py\<close> (\<open>compute_package_type\<close>,
  \<open>compute_risk_level\<close>, \<open>_has_power_scope\<close>), and their specification: every capability a
  permissions object declares has a class of its own, and the level of the object is the maximum
  over the declared capabilities. The two classifications are linear orders of the library.
\<close>

section \<open>The code\<close>

definition power_scopes :: "string list" where
  "power_scopes = [''*'', ''all'', ''all_chats'', ''root'', ''home'']"

definition has_power_scope :: "string list \<Rightarrow> bool" where
  "has_power_scope scopes = list_ex (\<lambda>s. List.member power_scopes s) scopes"

definition compute_package_type :: "permissions_config \<Rightarrow> string" where
  "compute_package_type p =
     (if perm_secrets_access p then ''privileged_plugin''
      else if na_enabled (perm_network_access p) \<or> fa_enabled (perm_file_access p)
        then ''code_plugin''
      else if perm_tools p \<noteq> [] \<and> List.member (perm_tools p) ''*'' then ''code_plugin''
      else if perm_tools p \<noteq> [] then ''tool_workflow''
      else if perm_memory_read p \<noteq> [] \<or> perm_memory_write p \<noteq> []
              \<or> ha_enabled (perm_history_access p)
        then ''declarative_skill''
      else ''local_skill'')"

definition compute_risk_level :: "permissions_config \<Rightarrow> string" where
  "compute_risk_level p =
     (if perm_secrets_access p then ''high''
      else if na_enabled (perm_network_access p) \<or> fa_enabled (perm_file_access p) then ''high''
      else if perm_tools p \<noteq> [] \<and> List.member (perm_tools p) ''*'' then ''high''
      else if ha_enabled (perm_history_access p)
              \<and> has_power_scope (ha_scopes (perm_history_access p))
        then ''high''
      else if perm_tools p \<noteq> [] then ''medium''
      else if perm_memory_write p \<noteq> [] then ''medium''
      else if perm_memory_read p \<noteq> [] \<and> List.member (perm_memory_read p) ''*'' then ''medium''
      else if perm_memory_read p \<noteq> [] then ''low''
      else if ha_enabled (perm_history_access p) then ''low''
      else ''low'')"

section \<open>Risk and package classes as linear orders\<close>

datatype risk_class = RiskLow | RiskMedium | RiskHigh

datatype package_class =
  LocalSkill | DeclarativeSkill | ToolWorkflow | CodePlugin | PrivilegedPlugin

fun risk_rank :: "risk_class \<Rightarrow> nat" where
  "risk_rank RiskLow = 0" | "risk_rank RiskMedium = 1" | "risk_rank RiskHigh = 2"

fun package_rank :: "package_class \<Rightarrow> nat" where
  "package_rank LocalSkill = 0" | "package_rank DeclarativeSkill = 1"
| "package_rank ToolWorkflow = 2" | "package_rank CodePlugin = 3"
| "package_rank PrivilegedPlugin = 4"

lemma risk_rank_inject: "risk_rank a = risk_rank b \<longleftrightarrow> a = b"
  by (cases a; cases b) simp_all

lemma package_rank_inject: "package_rank a = package_rank b \<longleftrightarrow> a = b"
  by (cases a; cases b) simp_all

instantiation risk_class :: linorder
begin

definition less_eq_risk_class :: "risk_class \<Rightarrow> risk_class \<Rightarrow> bool" where
  "less_eq_risk_class a b = (risk_rank a \<le> risk_rank b)"

definition less_risk_class :: "risk_class \<Rightarrow> risk_class \<Rightarrow> bool" where
  "less_risk_class a b = (risk_rank a < risk_rank b)"

instance
  by standard (auto simp: less_eq_risk_class_def less_risk_class_def risk_rank_inject)

end

instantiation package_class :: linorder
begin

definition less_eq_package_class :: "package_class \<Rightarrow> package_class \<Rightarrow> bool" where
  "less_eq_package_class a b = (package_rank a \<le> package_rank b)"

definition less_package_class :: "package_class \<Rightarrow> package_class \<Rightarrow> bool" where
  "less_package_class a b = (package_rank a < package_rank b)"

instance
  by standard (auto simp: less_eq_package_class_def less_package_class_def package_rank_inject)

end

lemmas class_order_defs =
  less_eq_risk_class_def less_risk_class_def less_eq_package_class_def less_package_class_def

fun risk_name :: "risk_class \<Rightarrow> string" where
  "risk_name RiskLow = ''low''" | "risk_name RiskMedium = ''medium''"
| "risk_name RiskHigh = ''high''"

fun package_name :: "package_class \<Rightarrow> string" where
  "package_name LocalSkill = ''local_skill''"
| "package_name DeclarativeSkill = ''declarative_skill''"
| "package_name ToolWorkflow = ''tool_workflow''"
| "package_name CodePlugin = ''code_plugin''"
| "package_name PrivilegedPlugin = ''privileged_plugin''"

section \<open>Declared capabilities\<close>

datatype capability =
    CapSecrets
  | CapNetwork
  | CapFile
  | CapHistory
  | CapHistoryScope string
  | CapTool string
  | CapMemoryRead string
  | CapMemoryWrite string

definition declared_capabilities :: "permissions_config \<Rightarrow> capability list" where
  "declared_capabilities p =
     (if perm_secrets_access p then [CapSecrets] else []) @
     (if na_enabled (perm_network_access p) then [CapNetwork] else []) @
     (if fa_enabled (perm_file_access p) then [CapFile] else []) @
     (if ha_enabled (perm_history_access p)
      then CapHistory # map CapHistoryScope (ha_scopes (perm_history_access p)) else []) @
     map CapTool (perm_tools p) @ map CapMemoryRead (perm_memory_read p) @
     map CapMemoryWrite (perm_memory_write p)"

fun capability_risk :: "capability \<Rightarrow> risk_class" where
  "capability_risk CapSecrets = RiskHigh"
| "capability_risk CapNetwork = RiskHigh"
| "capability_risk CapFile = RiskHigh"
| "capability_risk CapHistory = RiskLow"
| "capability_risk (CapHistoryScope s) = (if s \<in> set power_scopes then RiskHigh else RiskLow)"
| "capability_risk (CapTool t) = (if t = ''*'' then RiskHigh else RiskMedium)"
| "capability_risk (CapMemoryRead s) = (if s = ''*'' then RiskMedium else RiskLow)"
| "capability_risk (CapMemoryWrite s) = RiskMedium"

fun capability_package :: "capability \<Rightarrow> package_class" where
  "capability_package CapSecrets = PrivilegedPlugin"
| "capability_package CapNetwork = CodePlugin"
| "capability_package CapFile = CodePlugin"
| "capability_package CapHistory = DeclarativeSkill"
| "capability_package (CapHistoryScope s) = DeclarativeSkill"
| "capability_package (CapTool t) = (if t = ''*'' then CodePlugin else ToolWorkflow)"
| "capability_package (CapMemoryRead s) = DeclarativeSkill"
| "capability_package (CapMemoryWrite s) = DeclarativeSkill"

text \<open>The least upper bound of the classes of the declared capabilities.\<close>

definition max_class :: "'c \<Rightarrow> ('a \<Rightarrow> 'c::linorder) \<Rightarrow> 'a list \<Rightarrow> 'c" where
  "max_class least f xs = fold (\<lambda>x m. max (f x) m) xs least"

lemma max_class_eq_Max: "max_class least f xs = Max (insert least (f ` set xs))"
proof -
  have "fold (\<lambda>x m. max (f x) m) xs b = Max (insert b (f ` set xs))" for b
  proof (induction xs arbitrary: b)
    case (Cons x xs)
    have "Max (insert (max (f x) b) (f ` set xs)) = max (f x) (Max (insert b (f ` set xs)))"
      by (cases "f ` set xs = {}") (simp_all add: max.assoc)
    also have "\<dots> = Max (insert b (f ` set (x # xs)))"
      by (cases "f ` set xs = {}") (simp_all add: ac_simps)
    finally show ?case by (simp add: Cons.IH)
  qed simp
  then show ?thesis by (simp add: max_class_def)
qed

lemma max_class_le_iff:
  "max_class least f xs \<le> c \<longleftrightarrow> least \<le> c \<and> (\<forall>x \<in> set xs. f x \<le> c)"
  by (auto simp: max_class_eq_Max)

lemma max_class_mono: "set xs \<subseteq> set ys \<Longrightarrow> max_class least f xs \<le> max_class least f ys"
  by (auto simp: max_class_eq_Max intro: Max_mono)

lemma max_class_eqI:
  assumes "\<And>x. x \<in> set xs \<Longrightarrow> f x \<le> c" and "least \<le> c" and "c = least \<or> c \<in> f ` set xs"
  shows "max_class least f xs = c"
  unfolding max_class_eq_Max using assms by (intro Max_eqI) auto

section \<open>The code computes the maximum\<close>

lemma risk_bounds [simp]: "r \<le> RiskHigh" "RiskLow \<le> r"
  by (cases r; simp add: class_order_defs)+

lemma package_bounds [simp]: "k \<le> PrivilegedPlugin" "LocalSkill \<le> k"
  by (cases k; simp add: class_order_defs)+

lemma max_class_risk:
  "max_class RiskLow f xs =
     (if \<exists>x \<in> set xs. f x = RiskHigh then RiskHigh
      else if \<exists>x \<in> set xs. f x = RiskMedium then RiskMedium else RiskLow)"
proof -
  have cases: "f x = RiskHigh \<or> f x = RiskMedium \<or> f x = RiskLow" for x
    by (cases "f x") auto
  consider "\<exists>x \<in> set xs. f x = RiskHigh"
    | "\<not> (\<exists>x \<in> set xs. f x = RiskHigh)" "\<exists>x \<in> set xs. f x = RiskMedium"
    | "\<not> (\<exists>x \<in> set xs. f x = RiskHigh)" "\<not> (\<exists>x \<in> set xs. f x = RiskMedium)"
    by blast
  then show ?thesis
  proof cases
    case 1
    then show ?thesis by (auto intro!: max_class_eqI rev_image_eqI)
  next
    case 2
    have "f x \<le> RiskMedium" if "x \<in> set xs" for x
      using cases [of x] 2(1) that by (auto simp: class_order_defs)
    with 2 show ?thesis by (auto intro!: max_class_eqI rev_image_eqI)
  next
    case 3
    have "f x \<le> RiskLow" if "x \<in> set xs" for x
      using cases [of x] 3 that by (auto simp: class_order_defs)
    with 3 show ?thesis by (auto intro!: max_class_eqI)
  qed
qed

lemma bex_declared_capabilities:
  "(\<exists>c \<in> set (declared_capabilities p). P c) \<longleftrightarrow>
     (perm_secrets_access p \<and> P CapSecrets) \<or>
     (na_enabled (perm_network_access p) \<and> P CapNetwork) \<or>
     (fa_enabled (perm_file_access p) \<and> P CapFile) \<or>
     (ha_enabled (perm_history_access p) \<and>
        (P CapHistory \<or> (\<exists>s \<in> set (ha_scopes (perm_history_access p)). P (CapHistoryScope s)))) \<or>
     (\<exists>t \<in> set (perm_tools p). P (CapTool t)) \<or>
     (\<exists>s \<in> set (perm_memory_read p). P (CapMemoryRead s)) \<or>
     (\<exists>s \<in> set (perm_memory_write p). P (CapMemoryWrite s))"
  unfolding declared_capabilities_def by (simp add: bex_Un) blast

lemma in_declared_capabilities:
  "c \<in> set (declared_capabilities p) \<longleftrightarrow>
     (case c of
        CapSecrets \<Rightarrow> perm_secrets_access p
      | CapNetwork \<Rightarrow> na_enabled (perm_network_access p)
      | CapFile \<Rightarrow> fa_enabled (perm_file_access p)
      | CapHistory \<Rightarrow> ha_enabled (perm_history_access p)
      | CapHistoryScope s \<Rightarrow> ha_enabled (perm_history_access p)
                             \<and> s \<in> set (ha_scopes (perm_history_access p))
      | CapTool t \<Rightarrow> t \<in> set (perm_tools p)
      | CapMemoryRead s \<Rightarrow> s \<in> set (perm_memory_read p)
      | CapMemoryWrite s \<Rightarrow> s \<in> set (perm_memory_write p))"
  using bex_declared_capabilities [of p "\<lambda>x. x = c"] by (cases c) simp_all

lemma has_power_scope_iff: "has_power_scope scopes \<longleftrightarrow> (\<exists>s \<in> set scopes. s \<in> set power_scopes)"
  by (simp add: has_power_scope_def list_ex_iff)

lemma max_class_package:
  "max_class LocalSkill f xs =
     (if \<exists>x \<in> set xs. f x = PrivilegedPlugin then PrivilegedPlugin
      else if \<exists>x \<in> set xs. f x = CodePlugin then CodePlugin
      else if \<exists>x \<in> set xs. f x = ToolWorkflow then ToolWorkflow
      else if \<exists>x \<in> set xs. f x = DeclarativeSkill then DeclarativeSkill else LocalSkill)"
proof -
  let ?has = "\<lambda>k. \<exists>x \<in> set xs. f x = k"
  have eq: "max_class LocalSkill f xs = k"
    if "?has k \<or> k = LocalSkill" and "\<And>j. package_rank k < package_rank j \<Longrightarrow> \<not> ?has j" for k
  proof (rule max_class_eqI)
    show "f x \<le> k" if "x \<in> set xs" for x
    proof (rule ccontr)
      assume "\<not> f x \<le> k"
      then have "package_rank k < package_rank (f x)" by (simp add: class_order_defs)
      with \<open>\<And>j. package_rank k < package_rank j \<Longrightarrow> \<not> ?has j\<close> that show False by blast
    qed
  qed (use that(1) in auto)
  consider (p) "?has PrivilegedPlugin" | (c) "\<not> ?has PrivilegedPlugin" "?has CodePlugin"
    | (t) "\<not> ?has PrivilegedPlugin" "\<not> ?has CodePlugin" "?has ToolWorkflow"
    | (d) "\<not> ?has PrivilegedPlugin" "\<not> ?has CodePlugin" "\<not> ?has ToolWorkflow"
        "?has DeclarativeSkill"
    | (l) "\<not> ?has PrivilegedPlugin" "\<not> ?has CodePlugin" "\<not> ?has ToolWorkflow"
        "\<not> ?has DeclarativeSkill"
    by blast
  then show ?thesis
  proof cases
    case p
    have "max_class LocalSkill f xs = PrivilegedPlugin"
      by (rule eq, use p in blast, case_tac j) simp_all
    with p show ?thesis by simp
  next
    case c
    have "max_class LocalSkill f xs = CodePlugin"
      by (rule eq, use c in blast, case_tac j) (use c in simp_all)
    with c show ?thesis by simp
  next
    case t
    have "max_class LocalSkill f xs = ToolWorkflow"
      by (rule eq, use t in blast, case_tac j) (use t in simp_all)
    with t show ?thesis by simp
  next
    case d
    have "max_class LocalSkill f xs = DeclarativeSkill"
      by (rule eq, use d in blast, case_tac j) (use d in simp_all)
    with d show ?thesis by simp
  next
    case l
    have "max_class LocalSkill f xs = LocalSkill"
      by (rule eq, blast, case_tac j) (use l in simp_all)
    with l show ?thesis by simp
  qed
qed

lemma risk_level_is_max:
  "compute_risk_level p = risk_name (max_class RiskLow capability_risk (declared_capabilities p))"
proof -
  let ?has = "\<lambda>r. \<exists>c \<in> set (declared_capabilities p). capability_risk c = r"
  let ?hist = "ha_enabled (perm_history_access p)
    \<and> has_power_scope (ha_scopes (perm_history_access p))"
  have high: "?has RiskHigh \<longleftrightarrow> perm_secrets_access p
      \<or> (na_enabled (perm_network_access p) \<or> fa_enabled (perm_file_access p))
      \<or> (perm_tools p \<noteq> [] \<and> List.member (perm_tools p) ''*'') \<or> ?hist"
    unfolding bex_declared_capabilities has_power_scope_iff by auto
  have medium: "?has RiskMedium \<longleftrightarrow> (\<exists>t \<in> set (perm_tools p). t \<noteq> ''*'')
      \<or> perm_memory_write p \<noteq> []
      \<or> (perm_memory_read p \<noteq> [] \<and> List.member (perm_memory_read p) ''*'')"
    unfolding bex_declared_capabilities
    by (cases "perm_memory_write p"; cases "perm_memory_read p") auto
  have tools: "perm_tools p \<noteq> [] \<longleftrightarrow> (\<exists>t \<in> set (perm_tools p). t \<noteq> ''*'')"
    if "\<not> (perm_tools p \<noteq> [] \<and> List.member (perm_tools p) ''*'')"
    using that by (cases "perm_tools p") auto
  show ?thesis
  proof (cases "?has RiskHigh")
    case True
    then show ?thesis using high by (auto simp: max_class_risk compute_risk_level_def)
  next
    case False
    with high tools have "compute_risk_level p = (if ?has RiskMedium then ''medium'' else ''low'')"
      unfolding medium by (cases "perm_tools p = []") (auto simp: compute_risk_level_def)
    with False show ?thesis by (simp add: max_class_risk)
  qed
qed

text \<open>
  \<open>compute_risk_level\<close> returns the name of the highest risk class among the capabilities the
  permissions declare: no capability of lower risk masks one of higher risk, and nothing else
  than a declared capability raises the level.
\<close>

theorem compute_risk_level_spec:
  "compute_risk_level p = risk_name (max_class RiskLow capability_risk (declared_capabilities p))"
  by (rule risk_level_is_max)


lemma package_type_is_max:
  "compute_package_type p =
     package_name (max_class LocalSkill capability_package (declared_capabilities p))"
proof -
  let ?has = "\<lambda>k. \<exists>c \<in> set (declared_capabilities p). capability_package c = k"
  have privileged: "?has PrivilegedPlugin \<longleftrightarrow> perm_secrets_access p"
    unfolding bex_declared_capabilities by auto
  have code: "?has CodePlugin \<longleftrightarrow> na_enabled (perm_network_access p)
      \<or> fa_enabled (perm_file_access p) \<or> (perm_tools p \<noteq> [] \<and> List.member (perm_tools p) ''*'')"
    unfolding bex_declared_capabilities by auto
  have workflow: "?has ToolWorkflow \<longleftrightarrow> (\<exists>t \<in> set (perm_tools p). t \<noteq> ''*'')"
    unfolding bex_declared_capabilities by auto
  have declarative: "?has DeclarativeSkill \<longleftrightarrow> perm_memory_read p \<noteq> []
      \<or> perm_memory_write p \<noteq> [] \<or> ha_enabled (perm_history_access p)"
    unfolding bex_declared_capabilities
    by (cases "perm_memory_write p"; cases "perm_memory_read p") auto
  have tools: "perm_tools p \<noteq> [] \<longleftrightarrow> (\<exists>t \<in> set (perm_tools p). t \<noteq> ''*'')"
    if "\<not> (perm_tools p \<noteq> [] \<and> List.member (perm_tools p) ''*'')"
    using that by (cases "perm_tools p") auto
  have "compute_package_type p =
      (if ?has PrivilegedPlugin then ''privileged_plugin'' else if ?has CodePlugin then ''code_plugin''
       else if ?has ToolWorkflow then ''tool_workflow''
       else if ?has DeclarativeSkill then ''declarative_skill'' else ''local_skill'')"
    unfolding privileged code workflow declarative compute_package_type_def
    using tools by (cases "perm_tools p = []") auto
  then show ?thesis by (simp add: max_class_package)
qed

lemma risk_high_iff:
  "compute_risk_level p = ''high'' \<longleftrightarrow>
     (\<exists>cap \<in> set (declared_capabilities p). capability_risk cap = RiskHigh)"
  by (simp add: risk_level_is_max max_class_risk)

text \<open>
  \<open>compute_package_type\<close> returns the name of the highest package class among the declared
  capabilities, as the hierarchy of its documentation says.
\<close>

theorem compute_package_type_spec:
  "compute_package_type p =
     package_name (max_class LocalSkill capability_package (declared_capabilities p))"
  by (rule package_type_is_max)

section \<open>Monotonicity\<close>

text \<open>\<open>q\<close> grants at least what \<open>p\<close> grants.\<close>

definition perms_le :: "permissions_config \<Rightarrow> permissions_config \<Rightarrow> bool" where
  "perms_le p q \<longleftrightarrow>
     set (perm_tools p) \<subseteq> set (perm_tools q) \<and>
     set (perm_memory_read p) \<subseteq> set (perm_memory_read q) \<and>
     set (perm_memory_write p) \<subseteq> set (perm_memory_write q) \<and>
     (na_enabled (perm_network_access p) \<longrightarrow> na_enabled (perm_network_access q)) \<and>
     (fa_enabled (perm_file_access p) \<longrightarrow> fa_enabled (perm_file_access q)) \<and>
     (ha_enabled (perm_history_access p) \<longrightarrow>
        ha_enabled (perm_history_access q) \<and>
        set (ha_scopes (perm_history_access p)) \<subseteq> set (ha_scopes (perm_history_access q))) \<and>
     (perm_secrets_access p \<longrightarrow> perm_secrets_access q)"

lemma perms_le_declared:
  assumes "perms_le p q"
  shows "set (declared_capabilities p) \<subseteq> set (declared_capabilities q)"
proof
  fix c
  assume "c \<in> set (declared_capabilities p)"
  with assms show "c \<in> set (declared_capabilities q)"
    unfolding in_declared_capabilities perms_le_def by (cases c) (simp_all add: subset_iff)
qed

text \<open>The place of a level's name in the order low, medium, high.\<close>

definition risk_order :: "string \<Rightarrow> nat" where
  "risk_order s = (if s = ''high'' then 2 else if s = ''medium'' then 1 else 0)"

definition package_order :: "string \<Rightarrow> nat" where
  "package_order s =
     (if s = ''privileged_plugin'' then 4 else if s = ''code_plugin'' then 3
      else if s = ''tool_workflow'' then 2 else if s = ''declarative_skill'' then 1 else 0)"

lemma risk_order_name [simp]: "risk_order (risk_name r) = risk_rank r"
  by (cases r) (simp_all add: risk_order_def)

lemma package_order_name [simp]: "package_order (package_name k) = package_rank k"
  by (cases k) (simp_all add: package_order_def)

text \<open>
  Adding a permission never lowers the computed risk level or the computed package type, the
  guarantee the documentation of \<open>compute_risk_level\<close> gives.
\<close>

theorem permission_levels_monotonic:
  assumes "perms_le p q"
  shows "risk_order (compute_risk_level p) \<le> risk_order (compute_risk_level q) \<and>
         package_order (compute_package_type p) \<le> package_order (compute_package_type q)"
proof -
  note sub = perms_le_declared [OF assms]
  from max_class_mono [OF sub, of RiskLow capability_risk]
    max_class_mono [OF sub, of LocalSkill capability_package]
  show ?thesis
    by (simp add: risk_level_is_max package_type_is_max class_order_defs)
qed

theorem permission_levels_monotonic_witness:
  "perms_le (default_permissions\<lparr>perm_memory_read := [''facts'']\<rparr>)
      (default_permissions\<lparr>perm_memory_read := [''facts'', ''*''], perm_tools := [''web_search'']\<rparr>) \<and>
   risk_order (compute_risk_level (default_permissions\<lparr>perm_memory_read := [''facts'']\<rparr>)) \<le>
   risk_order (compute_risk_level
     (default_permissions\<lparr>perm_memory_read := [''facts'', ''*''], perm_tools := [''web_search'']\<rparr>))"
proof -
  have le: "perms_le (default_permissions\<lparr>perm_memory_read := [''facts'']\<rparr>)
      (default_permissions\<lparr>perm_memory_read := [''facts'', ''*''], perm_tools := [''web_search'']\<rparr>)"
    by (simp add: perms_le_def default_permissions_def)
  with permission_levels_monotonic [OF le] show ?thesis by blast
qed

end
