(* ===== verification/ContractValidator.thy ===== *)
theory ContractValidator
  imports ContractRisk
begin

text \<open>
  \<open>contract_validator.py\<close>: the rules V1 to V17, each a list of issues in the order the source
  appends them, and \<open>validate\<close>, their concatenation. An issue carries its rule, severity and
  field path; the human-readable message is not modelled. V4 and V8 need the database and are
  part of the store, V11 is the dataclass defaults.
\<close>

section \<open>Result types\<close>

datatype severity = ERROR | WARNING | INFO

record validation_issue =
  vi_rule :: string
  vi_severity :: severity
  vi_field_path :: string

abbreviation issue :: "string \<Rightarrow> severity \<Rightarrow> string \<Rightarrow> validation_issue" where
  "issue r s p \<equiv> \<lparr>vi_rule = r, vi_severity = s, vi_field_path = p\<rparr>"

definition is_valid :: "validation_issue list \<Rightarrow> bool" where
  "is_valid issues = (\<not> list_ex (\<lambda>i. vi_severity i = ERROR) issues)"

definition errors :: "validation_issue list \<Rightarrow> validation_issue list" where
  "errors issues = filter (\<lambda>i. vi_severity i = ERROR) issues"

definition warnings :: "validation_issue list \<Rightarrow> validation_issue list" where
  "warnings issues = filter (\<lambda>i. vi_severity i = WARNING) issues"

lemma is_valid_append [simp]: "is_valid (xs @ ys) \<longleftrightarrow> is_valid xs \<and> is_valid ys"
  by (simp add: is_valid_def)

lemma is_valid_Nil [simp]: "is_valid []"
  by (simp add: is_valid_def)

lemma is_valid_Cons [simp]:
  "is_valid (i # is) \<longleftrightarrow> vi_severity i \<noteq> ERROR \<and> is_valid is"
  by (simp add: is_valid_def)

lemma is_valid_errors: "is_valid xs \<longleftrightarrow> errors xs = []"
  by (simp add: is_valid_def errors_def list_ex_iff filter_empty_conv)

text \<open>\<open>issues.append(...)\<close> under a condition.\<close>

definition when_issue :: "bool \<Rightarrow> string \<Rightarrow> severity \<Rightarrow> string \<Rightarrow> validation_issue list" where
  "when_issue b r s p = (if b then [issue r s p] else [])"

lemma is_valid_when [simp]: "is_valid (when_issue b r s p) \<longleftrightarrow> \<not> (b \<and> s = ERROR)"
  by (simp add: when_issue_def)

section \<open>Known values\<close>

definition known_memory_stores :: "string list" where
  "known_memory_stores =
     [''long_term_facts'', ''history_summaries'', ''project_files'', ''past_outputs'']"

definition known_spdx_licenses :: "string list" where
  "known_spdx_licenses =
     [''MIT'', ''Apache-2.0'', ''GPL-3.0-only'', ''GPL-3.0-or-later'', ''AGPL-3.0-only'',
      ''AGPL-3.0-or-later'', ''BSD-2-Clause'', ''BSD-3-Clause'', ''MPL-2.0'', ''LGPL-3.0-only'',
      ''ISC'', ''Unlicense'', ''CC0-1.0'', ''CC-BY-4.0'', ''CC-BY-SA-4.0'', ''personal'']"

definition valid_origins :: "string list" where
  "valid_origins = [''local_learn'', ''manual_install'', ''store'', ''migrated'']"

definition valid_activation_kinds :: "string list" where
  "valid_activation_kinds =
     [''shortcut'', ''intent'', ''workflow'', ''conditional'', ''conversation_flow'']"

definition valid_activation_modes :: "string list" where
  "valid_activation_modes = [''exact_phrase'', ''intent_match'', ''regex'']"

definition valid_match_scopes :: "string list" where
  "valid_match_scopes = [''whole_message'', ''contains'', ''starts_with'']"

definition valid_lifecycle_statuses :: "string list" where
  "valid_lifecycle_statuses =
     [''confirmed'', ''active'', ''paused'', ''needs_review'', ''draft'', ''needs_input'']"

definition valid_review_statuses :: "string list" where
  "valid_review_statuses = [''unreviewed'', ''reviewed'', ''verified'', ''flagged'', ''blocked'']"

definition valid_risk_levels :: "string list" where
  "valid_risk_levels = [''unknown'', ''low'', ''medium'', ''high'']"

definition valid_execution_types :: "string list" where
  "valid_execution_types = [''llm_instruction'', ''workflow'', ''tool'']"

definition reserved_execution_types :: "string list" where
  "reserved_execution_types = [''workflow'', ''tool'']"

definition draft_statuses :: "string list" where
  "draft_statuses = [''draft'', ''needs_input'']"

lemmas known_values = known_memory_stores_def known_spdx_licenses_def valid_origins_def
  valid_activation_kinds_def valid_activation_modes_def valid_match_scopes_def
  valid_lifecycle_statuses_def valid_review_statuses_def valid_risk_levels_def
  valid_execution_types_def reserved_execution_types_def draft_statuses_def

section \<open>String formats\<close>

text \<open>
  \<open>re.compile(r"^[0-9a-f]{64}$").match(s)\<close>: 64 lower-case hex digits, and the \<open>$\<close> also matches
  before one final newline.
\<close>

definition is_hex_digit :: "char \<Rightarrow> bool" where
  "is_hex_digit c = (let n = of_char c :: nat in (48 \<le> n \<and> n \<le> 57) \<or> (97 \<le> n \<and> n \<le> 102))"

definition hex_pattern_match :: "string \<Rightarrow> bool" where
  "hex_pattern_match s =
     (length (take 64 s) = 64 \<and> list_all is_hex_digit (take 64 s)
      \<and> (drop 64 s = [] \<or> drop 64 s = [CHR 0x0A]))"

text \<open>
  \<open>base64.b64decode(s, validate=True)\<close> returns (Python 3.11, \<open>binascii\<close> in strict mode): the
  position in the quad, the pads seen since the last data character and whether a pad was seen
  are the loop's variables.
\<close>

definition is_b64_char :: "char \<Rightarrow> bool" where
  "is_b64_char c = (let n = of_char c :: nat
     in (65 \<le> n \<and> n \<le> 90) \<or> (97 \<le> n \<and> n \<le> 122) \<or> (48 \<le> n \<and> n \<le> 57) \<or> n = 43 \<or> n = 47)"

fun b64_scan :: "nat \<Rightarrow> nat \<Rightarrow> bool \<Rightarrow> string \<Rightarrow> bool" where
  "b64_scan quad pads started [] = (quad = 0)"
| "b64_scan quad pads started (ch # rest) =
     (if ch = CHR ''='' then
        (if 2 \<le> quad then
           (if 4 \<le> quad + Suc pads then rest = [] else b64_scan quad (Suc pads) True rest)
         else b64_scan quad pads True rest)
      else if \<not> is_b64_char ch then False
      else if started then False
      else b64_scan ((quad + 1) mod 4) 0 started rest)"

definition b64decode_ok :: "string \<Rightarrow> bool" where
  "b64decode_ok s = (\<not> (s \<noteq> [] \<and> hd s = CHR ''='') \<and> b64_scan 0 0 False s)"

lemma b64decode_ok_examples:
  "b64decode_ok '''' \<and> b64decode_ok ''abcd'' \<and> b64decode_ok ''ab=='' \<and> b64decode_ok ''abc=''
   \<and> \<not> b64decode_ok ''ab='' \<and> b64decode_ok ''abcd=='' \<and> \<not> b64decode_ok ''=''
   \<and> \<not> b64decode_ok ''ab=c'' \<and> \<not> b64decode_ok ''ab===''"
  by code_simp

section \<open>The rules\<close>

definition v1_schema_compliance :: "skill_contract \<Rightarrow> validation_issue list" where
  "v1_schema_compliance c =
     (if c_id c = [] then [issue ''V1'' ERROR ''id'']
      else when_issue (\<not> py_startswith (c_id c) ''skill_'') ''V1'' ERROR ''id'') @
     when_issue (c_name c = []) ''V1'' ERROR ''name'' @
     when_issue (c_created_at c = []) ''V1'' ERROR ''created_at'' @
     when_issue (c_updated_at c = []) ''V1'' ERROR ''updated_at'' @
     when_issue (\<not> List.member [''user'', ''system''] (c_created_by c)) ''V1'' ERROR ''created_by'' @
     when_issue (\<not> List.member [''current'', ''needs_migration''] (c_migration_status c))
       ''V1'' ERROR ''migration_status'' @
     when_issue (\<not> List.member valid_origins (c_origin c)) ''V1'' ERROR ''origin'' @
     when_issue (\<not> List.member valid_lifecycle_statuses (lc_status (c_lifecycle c)))
       ''V1'' ERROR ''lifecycle.status'' @
     when_issue (\<not> List.member valid_review_statuses (c_review_status c))
       ''V1'' ERROR ''review_status'' @
     when_issue (\<not> List.member valid_risk_levels (c_risk_level c)) ''V1'' ERROR ''risk_level''"

definition v2_schema_version :: "skill_contract \<Rightarrow> validation_issue list" where
  "v2_schema_version c = when_issue (c_schema_version c \<noteq> 2) ''V2'' ERROR ''schema_version''"

definition v3_contract_version_monotonic ::
    "skill_contract \<Rightarrow> int option \<Rightarrow> validation_issue list" where
  "v3_contract_version_monotonic c old_version =
     (if c_contract_version c < 1 then [issue ''V3'' ERROR ''contract_version'']
      else case old_version of
             None \<Rightarrow> []
           | Some old \<Rightarrow> when_issue (c_contract_version c < old) ''V3'' ERROR ''contract_version'')"

definition v5_activation_validity :: "skill_contract \<Rightarrow> validation_issue list" where
  "v5_activation_validity c =
     (let act = c_activation c in
      when_issue (\<not> List.member valid_activation_kinds (act_kind act)) ''V5'' ERROR ''activation.kind'' @
      when_issue (\<not> List.member valid_activation_modes (act_mode act)) ''V5'' ERROR ''activation.mode'' @
      when_issue (\<not> List.member valid_match_scopes (act_match_scope act))
        ''V5'' ERROR ''activation.match_scope'' @
      when_issue (act_mode act = ''exact_phrase'' \<and> act_phrases act = [])
        ''V5'' ERROR ''activation.phrases'' @
      when_issue (act_kind act = ''intent'' \<and> intent_label (c_intent c) = [])
        ''V5'' ERROR ''intent.label'')"

definition v6_safety_consistency :: "skill_contract \<Rightarrow> validation_issue list" where
  "v6_safety_consistency c =
     when_issue (\<not> saf_allow_tools (c_safety c) \<and> perm_tools (c_permissions c) \<noteq> [])
       ''V6'' ERROR ''safety.allow_tools'' @
     when_issue (\<not> saf_allow_tools (c_safety c) \<and> saf_allowed_tools (c_safety c) \<noteq> [])
       ''V6'' ERROR ''safety.allowed_tools''"

definition v7_memory_policy_consistency :: "skill_contract \<Rightarrow> validation_issue list" where
  "v7_memory_policy_consistency c =
     (let w = mp_write (c_memory_policy c); r = mp_read (c_memory_policy c) in
      (case mw_target_store w of
         None \<Rightarrow> []
       | Some t \<Rightarrow> when_issue (mw_enabled w \<and> t \<noteq> [] \<and> \<not> List.member known_memory_stores t)
                     ''V7'' ERROR ''memory_policy.write.target_store'') @
      when_issue (mr_enabled r \<and> list_ex (List.member (mr_blocked_stores r)) (mr_allowed_stores r))
        ''V7'' WARNING ''memory_policy.read'')"

definition v9_instruction_sanitized :: "skill_contract \<Rightarrow> validation_issue list" where
  "v9_instruction_sanitized c =
     when_issue (exec_instruction (c_execution c) = []
                 \<and> \<not> List.member draft_statuses (lc_status (c_lifecycle c)))
       ''V9'' ERROR ''execution.instruction''"

definition v10_trust_field_types :: "skill_contract \<Rightarrow> validation_issue list" where
  "v10_trust_field_types c =
     (let t = c_trust c in
      (case tr_checksum t of None \<Rightarrow> []
       | Some k \<Rightarrow> when_issue (\<not> hex_pattern_match k) ''V10'' ERROR ''trust.checksum'') @
      (case tr_signature t of None \<Rightarrow> []
       | Some s \<Rightarrow> when_issue (\<not> b64decode_ok s) ''V10'' ERROR ''trust.signature'') @
      (case tr_signature_algorithm t of None \<Rightarrow> []
       | Some a \<Rightarrow> when_issue (a \<noteq> ''ed25519'') ''V10'' ERROR ''trust.signature_algorithm''))"

definition v12_permission_vs_safety :: "skill_contract \<Rightarrow> validation_issue list" where
  "v12_permission_vs_safety c =
     when_issue (perm_tools (c_permissions c) \<noteq> [] \<and> \<not> saf_allow_tools (c_safety c))
       ''V12'' ERROR ''permissions.tools''"

definition v13_license_validity :: "skill_contract \<Rightarrow> validation_issue list" where
  "v13_license_validity c =
     when_issue (sm_license (c_store_meta c) \<noteq> []
                 \<and> \<not> List.member known_spdx_licenses (sm_license (c_store_meta c)))
       ''V13'' WARNING ''store_meta.license''"

definition v14_risk_level_consistency :: "skill_contract \<Rightarrow> validation_issue list" where
  "v14_risk_level_consistency c =
     (if List.member draft_statuses (lc_status (c_lifecycle c)) then []
      else when_issue (c_risk_level c \<noteq> compute_risk_level (c_permissions c))
             ''V14'' ERROR ''risk_level'')"

definition v15_execution_type_feature_flag :: "skill_contract \<Rightarrow> validation_issue list" where
  "v15_execution_type_feature_flag c =
     (if List.member reserved_execution_types (exec_type (c_execution c))
      then [issue ''V15'' ERROR ''execution.type'']
      else when_issue (\<not> List.member valid_execution_types (exec_type (c_execution c)))
             ''V15'' ERROR ''execution.type'')"

definition v16_db_json_invariant ::
    "skill_contract \<Rightarrow> int option \<Rightarrow> int option \<Rightarrow> validation_issue list" where
  "v16_db_json_invariant c db_schema_version db_contract_version =
     (case db_schema_version of None \<Rightarrow> []
      | Some v \<Rightarrow> when_issue (v \<noteq> c_schema_version c) ''V16'' ERROR ''schema_version'') @
     (case db_contract_version of None \<Rightarrow> []
      | Some v \<Rightarrow> when_issue (v \<noteq> c_contract_version c) ''V16'' ERROR ''contract_version'')"

definition v17_origin_signature_consistency :: "skill_contract \<Rightarrow> validation_issue list" where
  "v17_origin_signature_consistency c =
     (if c_origin c = ''store'' \<and> tr_signature (c_trust c) = None
      then [issue ''V17'' ERROR ''trust.signature'']
      else when_issue (c_origin c = ''manual_install'' \<and> tr_signature (c_trust c) = None)
             ''V17'' WARNING ''trust.signature'')"

definition validate ::
    "skill_contract \<Rightarrow> int option \<Rightarrow> int option \<Rightarrow> int option \<Rightarrow> validation_issue list"
where
  "validate c old_version db_schema_version db_contract_version =
     v1_schema_compliance c @ v2_schema_version c @
     v3_contract_version_monotonic c old_version @ v5_activation_validity c @
     v6_safety_consistency c @ v7_memory_policy_consistency c @ v9_instruction_sanitized c @
     v10_trust_field_types c @ v12_permission_vs_safety c @ v13_license_validity c @
     v14_risk_level_consistency c @ v15_execution_type_feature_flag c @
     v16_db_json_invariant c db_schema_version db_contract_version @
     v17_origin_signature_consistency c"

lemmas rule_defs =
  v1_schema_compliance_def v2_schema_version_def v3_contract_version_monotonic_def
  v5_activation_validity_def v6_safety_consistency_def v7_memory_policy_consistency_def
  v9_instruction_sanitized_def v10_trust_field_types_def v12_permission_vs_safety_def
  v13_license_validity_def v14_risk_level_consistency_def v15_execution_type_feature_flag_def
  v16_db_json_invariant_def v17_origin_signature_consistency_def

section \<open>What a valid contract is\<close>

definition identity_ok :: "skill_contract \<Rightarrow> bool" where
  "identity_ok c \<longleftrightarrow>
     py_startswith (c_id c) ''skill_'' \<and> c_name c \<noteq> [] \<and> c_created_at c \<noteq> [] \<and> c_updated_at c \<noteq> []
     \<and> c_created_by c \<in> {''user'', ''system''}
     \<and> c_migration_status c \<in> {''current'', ''needs_migration''}
     \<and> c_origin c \<in> set valid_origins \<and> lc_status (c_lifecycle c) \<in> set valid_lifecycle_statuses
     \<and> c_review_status c \<in> set valid_review_statuses \<and> c_risk_level c \<in> set valid_risk_levels"

definition versions_ok :: "skill_contract \<Rightarrow> int option \<Rightarrow> int option \<Rightarrow> int option \<Rightarrow> bool" where
  "versions_ok c old_version sv cv \<longleftrightarrow>
     c_schema_version c = 2 \<and> 1 \<le> c_contract_version c
     \<and> (\<forall>v. old_version = Some v \<longrightarrow> v \<le> c_contract_version c)
     \<and> (\<forall>v. sv = Some v \<longrightarrow> v = 2) \<and> (\<forall>v. cv = Some v \<longrightarrow> v = c_contract_version c)"

definition activation_ok :: "skill_contract \<Rightarrow> bool" where
  "activation_ok c \<longleftrightarrow>
     act_kind (c_activation c) \<in> set valid_activation_kinds
     \<and> act_mode (c_activation c) \<in> set valid_activation_modes
     \<and> act_match_scope (c_activation c) \<in> set valid_match_scopes
     \<and> (act_mode (c_activation c) = ''exact_phrase'' \<longrightarrow> act_phrases (c_activation c) \<noteq> [])
     \<and> (act_kind (c_activation c) = ''intent'' \<longrightarrow> intent_label (c_intent c) \<noteq> [])"

definition tools_ok :: "skill_contract \<Rightarrow> bool" where
  "tools_ok c \<longleftrightarrow> saf_allow_tools (c_safety c)
     \<or> (perm_tools (c_permissions c) = [] \<and> saf_allowed_tools (c_safety c) = [])"

definition memory_target_ok :: "skill_contract \<Rightarrow> bool" where
  "memory_target_ok c \<longleftrightarrow> (\<forall>t. mw_enabled (mp_write (c_memory_policy c))
       \<and> mw_target_store (mp_write (c_memory_policy c)) = Some t \<and> t \<noteq> []
     \<longrightarrow> t \<in> set known_memory_stores)"

definition trust_ok :: "skill_contract \<Rightarrow> bool" where
  "trust_ok c \<longleftrightarrow>
     (\<forall>k. tr_checksum (c_trust c) = Some k \<longrightarrow> hex_pattern_match k)
     \<and> (\<forall>s. tr_signature (c_trust c) = Some s \<longrightarrow> b64decode_ok s)
     \<and> tr_signature_algorithm (c_trust c) \<in> {None, Some ''ed25519''}
     \<and> (c_origin c = ''store'' \<longrightarrow> tr_signature (c_trust c) \<noteq> None)"

definition is_draft :: "skill_contract \<Rightarrow> bool" where
  "is_draft c \<longleftrightarrow> lc_status (c_lifecycle c) \<in> set draft_statuses"

definition finished_ok :: "skill_contract \<Rightarrow> bool" where
  "finished_ok c \<longleftrightarrow> exec_instruction (c_execution c) \<noteq> []
     \<and> c_risk_level c = compute_risk_level (c_permissions c)"

lemma v1_valid: "is_valid (v1_schema_compliance c) \<longleftrightarrow> identity_ok c"
  by (auto simp: v1_schema_compliance_def identity_ok_def py_startswith_def)

lemma versions_valid:
  "is_valid (v2_schema_version c) \<and> is_valid (v3_contract_version_monotonic c ov)
   \<and> is_valid (v16_db_json_invariant c sv cv) \<longleftrightarrow> versions_ok c ov sv cv"
  by (auto simp: v2_schema_version_def v3_contract_version_monotonic_def
      v16_db_json_invariant_def versions_ok_def split: option.splits)

lemma v5_valid: "is_valid (v5_activation_validity c) \<longleftrightarrow> activation_ok c"
  by (auto simp: v5_activation_validity_def activation_ok_def Let_def)

lemma tools_valid:
  "is_valid (v6_safety_consistency c) \<and> is_valid (v12_permission_vs_safety c) \<longleftrightarrow> tools_ok c"
  by (auto simp: v6_safety_consistency_def v12_permission_vs_safety_def tools_ok_def)

lemma v7_valid: "is_valid (v7_memory_policy_consistency c) \<longleftrightarrow> memory_target_ok c"
  by (auto simp: v7_memory_policy_consistency_def memory_target_ok_def Let_def split: option.splits)

lemma trust_valid:
  "is_valid (v10_trust_field_types c) \<and> is_valid (v17_origin_signature_consistency c)
   \<longleftrightarrow> trust_ok c"
  by (auto simp: v10_trust_field_types_def v17_origin_signature_consistency_def trust_ok_def
      Let_def split: option.splits)

lemma finished_valid:
  "is_valid (v9_instruction_sanitized c) \<and> is_valid (v14_risk_level_consistency c)
   \<longleftrightarrow> is_draft c \<or> finished_ok c"
  by (auto simp: v9_instruction_sanitized_def v14_risk_level_consistency_def is_draft_def
      finished_ok_def)

lemma v13_valid: "is_valid (v13_license_validity c)"
  by (simp add: v13_license_validity_def)

lemma v15_valid:
  "is_valid (v15_execution_type_feature_flag c) \<longleftrightarrow> exec_type (c_execution c) = ''llm_instruction''"
  by (auto simp: v15_execution_type_feature_flag_def valid_execution_types_def
      reserved_execution_types_def)

lemma validate_valid:
  "is_valid (validate c ov sv cv) \<longleftrightarrow>
     identity_ok c \<and> versions_ok c ov sv cv \<and> activation_ok c \<and> tools_ok c \<and> memory_target_ok c
     \<and> trust_ok c \<and> (is_draft c \<or> finished_ok c) \<and> exec_type (c_execution c) = ''llm_instruction''"
  unfolding validate_def is_valid_append v1_valid v5_valid v7_valid v15_valid
    versions_valid [symmetric] tools_valid [symmetric] trust_valid [symmetric]
    finished_valid [symmetric]
  using v13_valid by blast

text \<open>
  C34: \<open>validate\<close> reports no error exactly when the contract is admissible: known enumeration
  values, schema version 2 and a version that does not go back and agrees with the database,
  a trigger that can fire, tools only where \<open>safety.allow_tools\<close> is set, a known write target,
  well-formed trust fields with a signature on store skills, the only implemented execution
  type, and (unless it is a draft) an instruction and the risk level computed from its
  permissions. License, blocked-store overlap and unsigned manual installs never block.
\<close>

theorem validate_characterisation:
  "is_valid (validate c ov sv cv) \<longleftrightarrow>
     identity_ok c \<and> versions_ok c ov sv cv \<and> activation_ok c \<and> tools_ok c \<and> memory_target_ok c
     \<and> trust_ok c \<and> (is_draft c \<or> finished_ok c) \<and> exec_type (c_execution c) = ''llm_instruction''"
  by (rule validate_valid)

text \<open>A contract as the /learn flow creates it, with the risk level the store computes.\<close>

definition sample_contract :: skill_contract where
  "sample_contract =
     create_minimal_contract ''01'' ''2026-01-01'' ''Greeting'' [''hello''] ''Say hi'' ''local_learn'' None
       \<lparr>c_risk_level := ''low''\<rparr>"

lemmas sample_defs = sample_contract_def create_minimal_contract_def new_skill_id_def
  contract_defaults

lemmas admissible_defs = validate_valid identity_ok_def versions_ok_def activation_ok_def
  tools_ok_def memory_target_ok_def trust_ok_def finished_ok_def is_draft_def known_values
  py_startswith_def compute_risk_level_def has_power_scope_def

lemma sample_valid: "is_valid (validate sample_contract None None None)"
  by (simp add: sample_defs admissible_defs)

section \<open>Deviations\<close>

lemma hex_pattern_match_iff:
  "hex_pattern_match s \<longleftrightarrow>
     (\<exists>h. length h = 64 \<and> list_all is_hex_digit h \<and> (s = h \<or> s = h @ [CHR 0x0A]))"
proof
  assume s: "hex_pattern_match s"
  then have "s = take 64 s \<or> s = take 64 s @ [CHR 0x0A]"
    unfolding hex_pattern_match_def by (metis append.right_neutral append_take_drop_id)
  with s show "\<exists>h. length h = 64 \<and> list_all is_hex_digit h \<and> (s = h \<or> s = h @ [CHR 0x0A])"
    unfolding hex_pattern_match_def by blast
next
  assume "\<exists>h. length h = 64 \<and> list_all is_hex_digit h \<and> (s = h \<or> s = h @ [CHR 0x0A])"
  then show "hex_pattern_match s" by (auto simp: hex_pattern_match_def)
qed

text \<open>
  Rule V10 is documented to accept 64 lower-case hex digits or null as checksum. It also
  accepts the 64 digits followed by a newline, because \<open>$\<close> matches before a final newline:
  for every such text a valid contract with it is valid.
\<close>

theorem checksum_format_accepts_newline:
  assumes "length h = 64" and "list_all is_hex_digit h"
  shows "is_valid (validate
           (sample_contract\<lparr>c_trust := (c_trust sample_contract)\<lparr>tr_checksum := Some (h @ [CHR 0x0A])\<rparr>\<rparr>)
           None None None)"
proof -
  have "hex_pattern_match (h @ [CHR 0x0A])"
    unfolding hex_pattern_match_iff using assms by blast
  then show ?thesis by (simp add: sample_defs admissible_defs)
qed

theorem checksum_format_accepts_newline_witness:
  "length (replicate 64 CHR ''a'') = 64 \<and>
   is_valid (validate
     (sample_contract\<lparr>c_trust := (c_trust sample_contract)
        \<lparr>tr_checksum := Some (replicate 64 CHR ''a'' @ [CHR 0x0A])\<rparr>\<rparr>) None None None)"
proof -
  have h: "length (replicate 64 CHR ''a'') = 64" "list_all is_hex_digit (replicate 64 CHR ''a'')"
    by (simp_all add: list_all_iff is_hex_digit_def)
  from checksum_format_accepts_newline [OF h] h(1) show ?thesis by blast
qed

text \<open>
  Rule V17 is documented to reject store skills that are not signed. A store skill whose
  signature is the empty string passes V10 (the empty text is valid base64) and V17 (it is not
  null), and is valid; only the null signature is rejected.
\<close>

theorem empty_signature_passes_as_signed:
  "is_valid (validate
     (sample_contract\<lparr>c_origin := ''store'',
        c_trust := (c_trust sample_contract)\<lparr>tr_signature := Some ''''\<rparr>\<rparr>) None None None) \<and>
   \<not> is_valid (validate (sample_contract\<lparr>c_origin := ''store''\<rparr>) None None None)"
  by (simp add: sample_defs admissible_defs b64decode_ok_def)

end
