(* ===== verification/ContractBuilder.thy ===== *)
theory ContractBuilder
  imports PyRegex ContractRoundtrip ContractValidator
begin

text \<open>
  \<open>contract_builder.py\<close>: from the text of a /learn command to the draft of a contract, and the
  edits of a draft. The random part of an id and the time stamp are arguments.
\<close>

definition trigger_stopwords :: "string list" where
  "trigger_stopwords =
     [''ja'', ''nein'', ''ok'', ''okay'', ''gut'', ''danke'', ''bitte'', ''yes'', ''no'', ''thanks'',
      ''please'', ''hi'', ''hallo'', ''hey'', ''bye'', ''ciao'', ''/learn'', ''/forget'', ''/skills'',
      ''/installskill'', ''/help'', ''/start'', ''/settings'', ''/memory'', ''/remember'', ''/new'',
      ''/reset'', ''/stop'', ''/save'', ''/bookmarks'', ''/debate'', ''/setmodel'', ''/resetmodel'',
      ''/models'', ''/setlimit'', ''/usage'', ''/onboarding'', ''/lang'', ''/explain'', ''/import'',
      ''/skill'']"

definition min_trigger_len :: nat where "min_trigger_len = 2"
definition max_trigger_len :: nat where "max_trigger_len = 100"

record trigger_validation_result =
  tv_valid :: bool
  tv_reason :: string

record build_result =
  br_contract :: skill_contract
  br_status :: string
  br_needs_input_reason :: string

definition trigger_invalid :: "string \<Rightarrow> trigger_validation_result" where
  "trigger_invalid reason = \<lparr>tv_valid = False, tv_reason = reason\<rparr>"

definition validate_trigger :: "string \<Rightarrow> trigger_validation_result" where
  "validate_trigger phrase =
     (let normalized = py_lower (py_strip phrase) in
      if normalized = [] then trigger_invalid ''Trigger is empty.''
      else if length normalized < min_trigger_len
      then trigger_invalid (''Trigger too short (min '' @ int_decimal (int min_trigger_len) @ '' characters).'')
      else if max_trigger_len < length normalized
      then trigger_invalid (''Trigger too long (max '' @ int_decimal (int max_trigger_len) @ '' characters).'')
      else if List.member trigger_stopwords normalized
      then trigger_invalid ([CHR 0x27] @ phrase @ [CHR 0x27]
             @ '' is a reserved word and cannot be used as a trigger.'')
      else if py_startswith normalized ''/''
      then trigger_invalid (''Trigger must not start with '' @ [CHR 0x27] @ ''/'' @ [CHR 0x27]
             @ '' (command conflict).'')
      else \<lparr>tv_valid = True, tv_reason = []\<rparr>)"

section \<open>Extraction\<close>

definition verbs_de :: regex where
  "verbs_de = alt_all (map iword [''sage'', ''schreibe'', ''tippe'', ''eingebe'', ''sende''])"

definition verbs_en :: regex where
  "verbs_en = alt_all (map iword [''say'', ''type'', ''write'', ''send'', ''enter''])"

definition comma_or_dot :: "char \<Rightarrow> bool" where
  "comma_or_dot c = (c = CHR '','' \<or> c = CHR ''.'')"

definition trigger_char :: "char \<Rightarrow> bool" where
  "trigger_char c = (c \<noteq> CHR '','' \<and> c \<noteq> CHR ''.'' \<and> c \<noteq> CHR 0x0A)"

definition group_instruction :: regex where
  "group_instruction = Group 2 (Rep True 1 re_dot)"

definition trigger_before_verb :: "string \<Rightarrow> regex" where
  "trigger_before_verb opening =
     seq_all [iword opening, space_plus, iword ''ich'', space_plus,
       Group 1 (Rep False 1 re_dot), space_plus, verbs_de, space_star, optional comma_or_dot,
       space_star, group_instruction]"

definition trigger_after_verb :: "string \<Rightarrow> string \<Rightarrow> regex \<Rightarrow> regex" where
  "trigger_after_verb opening pronoun verbs =
     seq_all [iword opening, space_plus, iword pronoun, space_plus, verbs, space_plus,
       Group 1 (Rep False 1 trigger_char), space_star, Cls comma_or_dot, space_star,
       group_instruction]"

definition extract_patterns_de :: "regex list" where
  "extract_patterns_de =
     [trigger_before_verb ''wenn'', trigger_after_verb ''wenn'' ''ich'' verbs_de,
      trigger_before_verb ''sobald'']"

definition extract_patterns_en :: "regex list" where
  "extract_patterns_en = [trigger_after_verb ''when'' ''I'' verbs_en]"

definition is_quote :: "char \<Rightarrow> bool" where
  "is_quote c = (c = CHR 0x22 \<or> c = CHR 0x27)"

fun first_extraction :: "regex list \<Rightarrow> string \<Rightarrow> (string \<times> string) option" where
  "first_extraction [] text = None"
| "first_extraction (pattern # patterns) text =
     (case regex_search pattern text of
        None \<Rightarrow> first_extraction patterns text
      | Some match \<Rightarrow>
          let trigger = py_strip (py_strip_of is_quote (py_strip (regex_group match 1)));
              instruction = py_strip (regex_group match 2)
          in if trigger \<noteq> [] \<and> instruction \<noteq> [] then Some (trigger, instruction)
             else first_extraction patterns text)"

definition extract_trigger_and_instruction :: "string \<Rightarrow> (string \<times> string) option" where
  "extract_trigger_and_instruction text =
     first_extraction (extract_patterns_de @ extract_patterns_en) text"

definition derive_name :: "string \<Rightarrow> string \<Rightarrow> string" where
  "derive_name trigger instruction =
     (let instr_part = py_rstrip (take 40 instruction)
      in py_capitalize trigger @ '': '' @
         (if 40 < length instruction then instr_part @ ''...'' else instr_part))"

section \<open>Building and editing\<close>

definition stub_contract :: "string \<Rightarrow> string \<Rightarrow> string \<Rightarrow> skill_contract" where
  "stub_contract hex ts instruction =
     default_contract\<lparr>
       c_id := new_skill_id hex, c_name := [], c_created_at := ts, c_updated_at := ts,
       c_execution := default_execution\<lparr>exec_instruction := instruction\<rparr>,
       c_lifecycle := default_lifecycle\<lparr>lc_status := ''needs_input''\<rparr>,
       c_origin := ''local_learn''\<rparr>"

definition build :: "string \<Rightarrow> string \<Rightarrow> string \<Rightarrow> build_result" where
  "build hex ts text =
     (case extract_trigger_and_instruction text of
        None \<Rightarrow> \<lparr>br_contract = stub_contract hex ts text, br_status = ''needs_input'',
                 br_needs_input_reason = ''trigger_missing''\<rparr>
      | Some (trigger, instruction) \<Rightarrow>
          if \<not> tv_valid (validate_trigger trigger)
          then \<lparr>br_contract = stub_contract hex ts instruction, br_status = ''needs_input'',
                br_needs_input_reason = ''trigger_rejected''\<rparr>
          else \<lparr>br_contract = default_contract\<lparr>
                  c_id := new_skill_id hex, c_name := derive_name trigger instruction,
                  c_created_at := ts, c_updated_at := ts,
                  c_activation := default_activation\<lparr>act_kind := ''shortcut'',
                    act_mode := ''exact_phrase'', act_phrases := [py_lower trigger],
                    act_match_scope := ''whole_message''\<rparr>,
                  c_execution := default_execution\<lparr>exec_type := ''llm_instruction'',
                    exec_instruction := instruction\<rparr>,
                  c_lifecycle := default_lifecycle\<lparr>lc_status := ''draft''\<rparr>,
                  c_origin := ''local_learn''\<rparr>,
                br_status = ''pending'', br_needs_input_reason = []\<rparr>)"

definition apply_trigger_edit ::
    "string \<Rightarrow> skill_contract \<Rightarrow> string \<Rightarrow> skill_contract \<times> string option" where
  "apply_trigger_edit ts contract new_trigger =
     (let check = validate_trigger new_trigger in
      if \<not> tv_valid check then (contract, Some (tv_reason check))
      else
        let act = c_activation contract in
        (contract\<lparr>
           c_activation := \<lparr>act_kind = ''shortcut'', act_mode = ''exact_phrase'',
             act_phrases = [py_lower new_trigger], act_normalization = act_normalization act,
             act_match_scope = act_match_scope act, act_conditions = act_conditions act,
             act_cooldown_seconds = act_cooldown_seconds act\<rparr>,
           c_name := derive_name new_trigger (exec_instruction (c_execution contract)),
           c_updated_at := ts\<rparr>, None))"

definition apply_instruction_edit ::
    "string \<Rightarrow> skill_contract \<Rightarrow> string \<Rightarrow> skill_contract \<times> string option" where
  "apply_instruction_edit ts contract new_instruction =
     (if \<not> py_nonblank new_instruction then (contract, Some ''Instruction must not be empty.'')
      else
        let trigger = (case act_phrases (c_activation contract) of [] \<Rightarrow> [] | p # _ \<Rightarrow> p);
            ex = c_execution contract
        in (contract\<lparr>
              c_execution := \<lparr>exec_type = ''llm_instruction'',
                exec_instruction = py_strip new_instruction,
                exec_timeout_seconds = exec_timeout_seconds ex,
                exec_max_tool_calls = exec_max_tool_calls ex\<rparr>,
              c_name := (if trigger \<noteq> [] then derive_name trigger (py_strip new_instruction)
                         else c_name contract),
              c_updated_at := ts\<rparr>, None))"

section \<open>Triggers\<close>

lemma char_lower_code: "of_char (char_lower c) =
    (let n = of_char c :: nat
     in if (65 \<le> n \<and> n \<le> 90) \<or> (192 \<le> n \<and> n \<le> 222 \<and> n \<noteq> 215) then n + 32 else n)"
  by (auto simp: char_lower_def Let_def)

lemma char_lower_idem [simp]: "char_lower (char_lower c) = char_lower c"
proof -
  have "of_char (char_lower (char_lower c)) = (of_char (char_lower c) :: nat)"
    unfolding char_lower_code [of "char_lower c"] unfolding char_lower_code [of c] Let_def by auto
  then show ?thesis by (simp only: of_char_eq_iff)
qed

lemma char_lower_space [simp]: "py_isspace (char_lower c) = py_isspace c"
  by (auto simp: py_isspace_def char_lower_code Let_def)

lemma py_lower_idem [simp]: "py_lower (py_lower s) = py_lower s"
  by (simp add: py_lower_def comp_def)

lemma py_strip_lower: "py_strip (py_lower s) = py_lower (py_strip s)"
proof -
  have "dropWhile py_isspace (map char_lower t) = map char_lower (dropWhile py_isspace t)" for t
    by (simp add: dropWhile_map comp_def)
  from this [of "rev t" for t] this show ?thesis
    by (simp add: py_strip_of_def py_rstrip_of_def py_lstrip_of_def py_lower_def rev_map)
qed

lemma validate_trigger_lower [simp]: "tv_valid (validate_trigger (py_lower t)) = tv_valid (validate_trigger t)"
  by (simp add: validate_trigger_def py_strip_lower trigger_invalid_def Let_def)

text \<open>What a valid trigger is.\<close>

lemma validate_trigger_iff:
  "tv_valid (validate_trigger t) \<longleftrightarrow>
     2 \<le> length (py_strip t) \<and> length (py_strip t) \<le> 100
     \<and> py_lower (py_strip t) \<notin> set trigger_stopwords \<and> \<not> py_startswith (py_strip t) ''/''"
proof -
  have slash: "py_startswith (py_lower s) ''/'' = py_startswith s ''/''" for s
  proof (cases s)
    case (Cons c cs)
    have "char_lower c = CHR ''/'' \<longleftrightarrow> c = CHR ''/''"
    proof -
      have "of_char (char_lower c) = (47 :: nat) \<longleftrightarrow> of_char c = (47 :: nat)"
        by (auto simp: char_lower_code Let_def)
      moreover have "of_char (CHR ''/'') = (47 :: nat)" by simp
      ultimately show ?thesis by (metis of_char_eq_iff)
    qed
    then show ?thesis by (simp add: py_startswith_def py_lower_def Cons)
  qed (simp add: py_startswith_def py_lower_def)
  show ?thesis
    by (auto simp: validate_trigger_def trigger_invalid_def Let_def slash min_trigger_len_def
        max_trigger_len_def) (auto simp: py_lower_def)
qed

text \<open>The extraction yields parts of the text, stripped and not empty.\<close>

lemma extraction_step:
  assumes "regex_search p s = Some m"
    and "py_strip (py_strip_of is_quote (py_strip (regex_group m 1))) = t"
    and "py_strip (regex_group m 2) = i"
  shows "sublist t s \<and> sublist i s \<and> py_strip t = t \<and> py_strip i = i"
  using assms regex_group_sublist [OF assms(1)] py_strip_sublist sublist_order.order.trans
  by (metis py_strip_idem)

lemma first_extraction_parts:
  "first_extraction ps s = Some (t, i) \<Longrightarrow>
     sublist t s \<and> sublist i s \<and> t \<noteq> [] \<and> i \<noteq> [] \<and> py_strip t = t \<and> py_strip i = i"
proof (induction ps)
  case (Cons p ps)
  show ?case
  proof (cases "regex_search p s")
    case None
    with Cons show ?thesis by simp
  next
    case (Some m)
    with Cons.prems have
      "first_extraction ps s = Some (t, i) \<or>
        (py_strip (py_strip_of is_quote (py_strip (regex_group m 1))) = t
         \<and> py_strip (regex_group m 2) = i \<and> t \<noteq> [] \<and> i \<noteq> [])"
      by (auto simp: Let_def split: if_splits)
    then show ?thesis using Cons.IH extraction_step [OF Some] by blast
  qed
qed simp

section \<open>The shape of a learned contract\<close>

text \<open>
  What the builder fixes and no edit changes: the origin, the permissions, the safety, memory and
  trust sections and the review status of the defaults, an instruction executed by a language
  model, and only valid triggers.
\<close>

definition learned :: "skill_contract \<Rightarrow> bool" where
  "learned c \<longleftrightarrow>
     c_origin c = ''local_learn'' \<and> c_permissions c = default_permissions
     \<and> c_safety c = default_safety \<and> c_memory_policy c = default_memory_policy
     \<and> (c_trust c)\<lparr>tr_checksum := None\<rparr> = default_trust \<and> c_review_status c = c_review_status default_contract
     \<and> exec_type (c_execution c) = ''llm_instruction'' \<and> c_contract_version c = 1
     \<and> list_all (\<lambda>p. tv_valid (validate_trigger p)) (act_phrases (c_activation c))
     \<and> wf_contract c"

lemma learned_wf: "learned c \<Longrightarrow> wf_contract c"
  by (simp add: learned_def)

lemma wf_overrides [simp]:
  "wf_contract (c\<lparr>c_name := n\<rparr>) = wf_contract c"
  "wf_contract (c\<lparr>c_id := i\<rparr>) = wf_contract c"
  "wf_contract (c\<lparr>c_created_at := t\<rparr>) = wf_contract c"
  "wf_contract (c\<lparr>c_updated_at := t\<rparr>) = wf_contract c"
  "wf_contract (c\<lparr>c_origin := og\<rparr>) = wf_contract c"
  "wf_contract (c\<lparr>c_lifecycle := l\<rparr>) = wf_contract c"
  by (simp_all add: wf_contract_def)

lemma learned_stub: "learned (stub_contract hex ts i)"
  using default_wf
  by (simp add: learned_def stub_contract_def wf_contract_def wf_defs contract_defaults)

lemma learned_build: "learned (br_contract (build hex ts text))"
proof (cases "extract_trigger_and_instruction text")
  case None
  then show ?thesis by (simp add: build_def learned_stub)
next
  case (Some ti)
  obtain t i where ti: "ti = (t, i)" by (cases ti)
  show ?thesis
  proof (cases "tv_valid (validate_trigger t)")
    case False
    then show ?thesis by (simp add: build_def Some ti learned_stub)
  next
    case True
    then show ?thesis
      using default_wf
      by (simp add: build_def Some ti learned_def wf_contract_def wf_defs contract_defaults)
  qed
qed

lemma learned_trigger_edit:
  assumes "learned c" and "apply_trigger_edit ts c t = (c', None)"
  shows "learned c'"
  using assms by (auto simp: apply_trigger_edit_def learned_def wf_contract_def wf_defs Let_def split: if_splits)

lemma learned_instruction_edit:
  assumes "learned c" and "apply_instruction_edit ts c i = (c', None)"
  shows "learned c'"
  using assms by (auto simp: apply_instruction_edit_def learned_def wf_contract_def wf_defs Let_def split: if_splits)

lemma learned_lifecycle: "learned c \<Longrightarrow> learned (c\<lparr>c_lifecycle := l\<rparr>)"
  by (simp add: learned_def)

section \<open>Properties\<close>

text \<open>
  The builder does not invent anything. When it returns a contract for the preview, the trigger and the
  instruction are stripped, nonempty parts of the user's text, the trigger is valid (2 to 100
  characters, no reserved word, no leading slash), and the contract holds exactly that
  trigger in lower case and that instruction, with the permissions of a sandboxed skill;
  otherwise it asks for input, and the stored instruction is again a part of the text.
\<close>

theorem builder_only_uses_the_text:
  "(br_status (build hex ts s) = ''pending'' \<and>
      (\<exists>t i. sublist t s \<and> sublist i s \<and> t \<noteq> [] \<and> i \<noteq> [] \<and> py_strip t = t \<and> py_strip i = i
         \<and> tv_valid (validate_trigger t)
         \<and> act_phrases (c_activation (br_contract (build hex ts s))) = [py_lower t]
         \<and> exec_instruction (c_execution (br_contract (build hex ts s))) = i
         \<and> c_name (br_contract (build hex ts s)) = derive_name t i)
    \<or> br_status (build hex ts s) = ''needs_input''
      \<and> sublist (exec_instruction (c_execution (br_contract (build hex ts s)))) s
      \<and> act_phrases (c_activation (br_contract (build hex ts s))) = [])
   \<and> c_origin (br_contract (build hex ts s)) = ''local_learn''
   \<and> c_permissions (br_contract (build hex ts s)) = default_permissions"
proof -
  have l: "c_origin (br_contract (build hex ts s)) = ''local_learn''"
      "c_permissions (br_contract (build hex ts s)) = default_permissions"
    using learned_build [of hex ts s] by (simp_all add: learned_def)
  show ?thesis
  proof (cases "extract_trigger_and_instruction s")
    case None
    then show ?thesis using l by (simp add: build_def stub_contract_def contract_defaults)
  next
    case (Some ti)
    obtain t i where ti: "ti = (t, i)" by (cases ti)
    have parts: "sublist t s \<and> sublist i s \<and> t \<noteq> [] \<and> i \<noteq> [] \<and> py_strip t = t \<and> py_strip i = i"
      using Some ti by (auto simp: extract_trigger_and_instruction_def dest: first_extraction_parts)
    show ?thesis
    proof (cases "tv_valid (validate_trigger t)")
      case True
      have "br_status (build hex ts s) = ''pending''"
        "act_phrases (c_activation (br_contract (build hex ts s))) = [py_lower t]"
        "exec_instruction (c_execution (br_contract (build hex ts s))) = i"
        "c_name (br_contract (build hex ts s)) = derive_name t i"
        using Some ti True by (simp_all add: build_def)
      with parts True l show ?thesis by blast
    next
      case False
      then show ?thesis
        using Some ti parts l by (simp add: build_def stub_contract_def contract_defaults)
    qed
  qed
qed

lemma builder_only_uses_the_text_witness:
  "c_permissions (br_contract (build ''00'' ''now'' ''when I say weather, look out'')) = default_permissions"
  using builder_only_uses_the_text [of "''00''" "''now''" "''when I say weather, look out''"] by blast

text \<open>
  The patterns have no word boundary after the verb and try the order trigger, verb first: of a
  conjugated verb the ending goes to the instruction, and a second verb later in the sentence
  makes the first verb part of the trigger.
\<close>

lemma extraction_examples:
  "extract_trigger_and_instruction ''wenn ich ab sagen will'' = Some (''ab'', ''n will'')
   \<and> extract_trigger_and_instruction ''wenn ich sage ab, sende c'' = Some (''sage ab,'', ''c'')"
  by code_simp

end
