(* ===== verification/ContractDigest.thy ===== *)
theory ContractDigest
  imports ContractCodec
begin

text \<open>
  Canonical JSON, the checksum and the etag of a contract (\<open>skill_contract.py\<close>,
  \<open>draft_store.py\<close>). The platform supplies the two functions that are not the repository's:
  the text of a float and the SHA-256 hex digest of the UTF-8 encoding of a text.
\<close>

record platform =
  pf_float_repr :: "rat \<Rightarrow> string"
  pf_sha256_hex :: "string \<Rightarrow> string"

definition checksum_exclude_keys :: "string list" where
  "checksum_exclude_keys = [''checksum'', ''signature'', ''signed_at'']"

definition canonical_json :: "platform \<Rightarrow> skill_contract \<Rightarrow> string" where
  "canonical_json pf c =
     (let trust = filter (\<lambda>kv. \<not> List.member checksum_exclude_keys (fst kv))
                    (trust_items (c_trust c))
      in dumps_sorted (pf_float_repr pf) (JObj (contract_items c trust)))"

definition compute_checksum :: "platform \<Rightarrow> skill_contract \<Rightarrow> string" where
  "compute_checksum pf c = pf_sha256_hex pf (canonical_json pf c)"

text \<open>\<open>to_json(canonical=True)\<close> keeps the trust section whole, and so does the etag.\<close>

definition to_json_canonical :: "platform \<Rightarrow> skill_contract \<Rightarrow> string" where
  "to_json_canonical pf c = dumps_sorted (pf_float_repr pf) (to_dict c)"

definition compute_etag :: "platform \<Rightarrow> skill_contract \<Rightarrow> string" where
  "compute_etag pf c = pf_sha256_hex pf (to_json_canonical pf c)"

text \<open>The part of the trust section that is hashed.\<close>

lemma hashed_trust_items:
  "filter (\<lambda>kv. \<not> List.member checksum_exclude_keys (fst kv)) (trust_items t) =
     [(''signature_algorithm'', opt_str_to_json (tr_signature_algorithm t)),
      (''author_id'', opt_str_to_json (tr_author_id t))]"
  by (simp add: trust_items_def checksum_exclude_keys_def)

lemma canonical_json_trust_cong:
  assumes "c' = c\<lparr>c_trust := t'\<rparr>"
    and "tr_signature_algorithm t' = tr_signature_algorithm (c_trust c)"
    and "tr_author_id t' = tr_author_id (c_trust c)"
  shows "canonical_json pf c' = canonical_json pf c"
  unfolding canonical_json_def Let_def hashed_trust_items
  by (simp add: assms contract_items_def)

lemma checksum_trust_cong:
  assumes "c' = c\<lparr>c_trust := t'\<rparr>"
    and "tr_signature_algorithm t' = tr_signature_algorithm (c_trust c)"
    and "tr_author_id t' = tr_author_id (c_trust c)"
  shows "compute_checksum pf c' = compute_checksum pf c"
  by (simp add: compute_checksum_def canonical_json_trust_cong [OF assms])

text \<open>
  The checksum does not depend on the fields it is stored in or signed by: setting
  \<open>checksum\<close>, \<open>signature\<close> and \<open>signed_at\<close> to anything leaves it unchanged, so storing
  the checksum in the contract does not invalidate it.
\<close>

theorem checksum_ignores_self_references:
  "compute_checksum pf
     (c\<lparr>c_trust := (c_trust c)\<lparr>tr_checksum := k, tr_signature := s, tr_signed_at := d\<rparr>\<rparr>) =
   compute_checksum pf c"
  by (rule checksum_trust_cong [OF refl]) simp_all

end
