(* ===== verification/OptimisticLock.thy ===== *)
theory OptimisticLock
  imports Prelude
begin

text \<open>
  The interface of an update guarded by a token: the draft store compares an etag, the contract
  store a version number. A commit names the token its caller read; the laws say that it succeeds
  only on the current token, and (for version numbers) that it then advances the token.
\<close>

locale optimistic_lock =
  fixes token :: "'s \<Rightarrow> 'k \<Rightarrow> 'v option"
    and commit :: "'s \<Rightarrow> 'k \<Rightarrow> 'v \<Rightarrow> 'a \<Rightarrow> 's \<times> bool"
  assumes commit_checks: "commit s k v a = (s', True) \<Longrightarrow> token s k = Some v"
begin

lemma stale_refused: "token s k \<noteq> Some v \<Longrightarrow> \<not> snd (commit s k v a)"
  by (cases "commit s k v a") (auto dest: commit_checks)

lemma no_lost_update:
  "commit s k v a = (s1, True) \<Longrightarrow> token s1 k \<noteq> Some v \<Longrightarrow> \<not> snd (commit s1 k v b)"
  by (rule stale_refused)

end

text \<open>Tokens from a linear order that every successful commit advances.\<close>

locale versioned_lock = optimistic_lock token commit
  for token :: "'s \<Rightarrow> 'k \<Rightarrow> 'v::linorder option"
    and commit :: "'s \<Rightarrow> 'k \<Rightarrow> 'v \<Rightarrow> 'a \<Rightarrow> 's \<times> bool" +
  assumes commit_advances: "commit s k v a = (s', True) \<Longrightarrow> \<exists>w > v. token s' k = Some w"
    and commit_refused: "commit s k v a = (s', False) \<Longrightarrow> token s' k = token s k"
begin

text \<open>A run of commits on one key, and which of them succeeded.\<close>

primrec run :: "'s \<Rightarrow> 'k \<Rightarrow> ('v \<times> 'a) list \<Rightarrow> 's \<times> bool list" where
  "run s k [] = (s, [])"
| "run s k (c # cs) =
     (let (s', ok) = commit s k (fst c) (snd c); (s'', oks) = run s' k cs in (s'', ok # oks))"

lemma run_token_mono: "token s k = Some w \<Longrightarrow> \<exists>w' \<ge> w. token (fst (run s k cs)) k = Some w'"
proof (induction cs arbitrary: s w)
  case (Cons c cs)
  obtain s' ok where c: "commit s k (fst c) (snd c) = (s', ok)" by fastforce
  have "\<exists>w1 \<ge> w. token s' k = Some w1"
  proof (cases ok)
    case True
    with c commit_checks commit_advances Cons.prems show ?thesis by fastforce
  next
    case False
    with c commit_refused Cons.prems show ?thesis by fastforce
  qed
  then obtain w1 where w1: "w \<le> w1" "token s' k = Some w1" by blast
  from Cons.IH [OF w1(2)] obtain w2 where "w1 \<le> w2" "token (fst (run s' k cs)) k = Some w2"
    by blast
  with w1(1) c show ?case by (auto split: prod.splits)
qed auto

text \<open>Once a commit on \<open>v\<close> has succeeded, no later commit on \<open>v\<close> does, whatever runs between.\<close>

lemma at_most_one_winner:
  assumes "commit s k v a = (s1, True)"
  shows "\<not> snd (commit (fst (run s1 k cs)) k v b)"
proof -
  obtain w where w: "v < w" "token s1 k = Some w" using commit_advances [OF assms] by blast
  obtain w' where "w \<le> w'" "token (fst (run s1 k cs)) k = Some w'"
    using run_token_mono [OF w(2)] by blast
  with w(1) show ?thesis by (intro stale_refused) auto
qed

end

end
