(* ===== verification/DraftStore.thy ===== *)
theory DraftStore
  imports ContractDigest OptimisticLock "HOL-Library.AList"
begin

text \<open>
  \<open>draft_store.py\<close>: the in-memory store of skill drafts of the /learn flow. Every public method
  runs under one lock, so each is one atomic operation here. The draft table is iterated and
  measured, so it is the association list of the dict; the two index dicts are maps. Times are
  integers, microseconds, the resolution of \<open>datetime\<close>. \<open>uuid4().hex\<close> and the clock are
  arguments. An operation returns the new store and a value or a raised error, because an
  operation on an expired draft removes it and then raises.
\<close>

datatype draft_error = DraftNotFound | DraftExpired | DraftEtagMismatch | DraftOwnership

record skill_draft =
  sd_draft_id :: string
  sd_user_id :: int
  sd_chat_id :: int
  sd_contract :: skill_contract
  sd_etag :: string
  sd_created_at :: int
  sd_expires_at :: int
  sd_status :: string
  sd_edit_count :: int

type_synonym draft_key = "int \<times> int \<times> string"

record draft_store =
  ds_ttl_seconds :: int
  ds_drafts :: "(draft_key \<times> skill_draft) list"
  ds_active :: "int \<times> int \<Rightarrow> string option"
  ds_owners :: "int \<times> string \<Rightarrow> int option"

definition default_ttl_seconds :: int where
  "default_ttl_seconds = 900"

definition new_draft_store :: "int \<Rightarrow> draft_store" where
  "new_draft_store ttl =
     \<lparr>ds_ttl_seconds = ttl, ds_drafts = [], ds_active = Map.empty, ds_owners = Map.empty\<rparr>"

definition draft_at :: "draft_store \<Rightarrow> draft_key \<Rightarrow> skill_draft option" where
  "draft_at s key = map_of (ds_drafts s) key"

definition active_count :: "draft_store \<Rightarrow> nat" where
  "active_count s = length (ds_drafts s)"

section \<open>Operations\<close>

text \<open>One round of the loop of \<open>_cleanup_expired_locked\<close>.\<close>

definition cleanup_one :: "draft_key \<Rightarrow> draft_store \<Rightarrow> draft_store" where
  "cleanup_one key s =
     (case key of (user_id, chat_id, draft_id) \<Rightarrow>
        s\<lparr>ds_drafts := AList.delete key (ds_drafts s),
          ds_active := (if ds_active s (user_id, chat_id) = Some draft_id
                        then (ds_active s)((user_id, chat_id) := None) else ds_active s),
          ds_owners := (ds_owners s)((chat_id, draft_id) := None)\<rparr>)"

definition expired_keys :: "draft_store \<Rightarrow> int \<Rightarrow> draft_key list" where
  "expired_keys s now = map fst (filter (\<lambda>kd. sd_expires_at (snd kd) < now) (ds_drafts s))"

definition cleanup_expired :: "draft_store \<Rightarrow> int \<Rightarrow> draft_store \<times> nat" where
  "cleanup_expired s now =
     (let ks = expired_keys s now in (fold cleanup_one ks s, length ks))"

definition count_active :: "draft_store \<Rightarrow> int \<Rightarrow> draft_store \<times> nat" where
  "count_active s now = (let s' = fst (cleanup_expired s now) in (s', length (ds_drafts s')))"

text \<open>The clock is read twice: \<open>swept\<close> in the cleanup, and \<open>now\<close> for the new draft.\<close>

definition draft_create ::
    "platform \<Rightarrow> draft_store \<Rightarrow> int \<Rightarrow> int \<Rightarrow> skill_contract \<Rightarrow> string \<Rightarrow> int \<Rightarrow> int \<Rightarrow> draft_store \<times> skill_draft"
where
  "draft_create pf s user_id chat_id contract draft_id swept now =
     (let s1 = fst (cleanup_expired s swept);
          s2 = (case ds_active s1 (user_id, chat_id) of
                  None \<Rightarrow> s1
                | Some old \<Rightarrow>
                    s1\<lparr>ds_drafts := AList.delete (user_id, chat_id, old) (ds_drafts s1),
                       ds_owners := (ds_owners s1)((chat_id, old) := None)\<rparr>);
          draft = \<lparr>sd_draft_id = draft_id, sd_user_id = user_id, sd_chat_id = chat_id,
                   sd_contract = contract, sd_etag = compute_etag pf contract,
                   sd_created_at = now, sd_expires_at = now + ds_ttl_seconds s * 1000000,
                   sd_status = ''pending'', sd_edit_count = 0\<rparr>
      in (s2\<lparr>ds_drafts := AList.update (user_id, chat_id, draft_id) draft (ds_drafts s2),
             ds_active := (ds_active s2)((user_id, chat_id) \<mapsto> draft_id),
             ds_owners := (ds_owners s2)((chat_id, draft_id) \<mapsto> user_id)\<rparr>, draft))"

text \<open>The three \<open>pop\<close>s with which \<open>get\<close>, \<open>update\<close>, \<open>delete\<close> and \<open>get_active_for_chat\<close> remove a draft.\<close>

definition remove_draft :: "draft_store \<Rightarrow> draft_key \<Rightarrow> draft_store" where
  "remove_draft s key =
     (case key of (user_id, chat_id, draft_id) \<Rightarrow>
        s\<lparr>ds_drafts := AList.delete key (ds_drafts s),
          ds_active := (ds_active s)((user_id, chat_id) := None),
          ds_owners := (ds_owners s)((chat_id, draft_id) := None)\<rparr>)"

text \<open>The ownership probe on a miss: another user's draft with this chat and id.\<close>

definition foreign_draft :: "draft_store \<Rightarrow> int \<Rightarrow> int \<Rightarrow> string \<Rightarrow> bool" where
  "foreign_draft s user_id chat_id draft_id =
     (case ds_owners s (chat_id, draft_id) of None \<Rightarrow> False | Some owner \<Rightarrow> owner \<noteq> user_id)"

definition draft_get ::
    "draft_store \<Rightarrow> int \<Rightarrow> int \<Rightarrow> string \<Rightarrow> int \<Rightarrow> draft_store \<times> (draft_error + skill_draft option)"
where
  "draft_get s user_id chat_id draft_id now =
     (let key = (user_id, chat_id, draft_id) in
      case draft_at s key of
        None \<Rightarrow> (s, if foreign_draft s user_id chat_id draft_id then Inl DraftOwnership else Inr None)
      | Some draft \<Rightarrow>
          if sd_user_id draft \<noteq> user_id then (s, Inl DraftOwnership)
          else if sd_expires_at draft < now then (remove_draft s key, Inr None)
          else (s, Inr (Some draft)))"

definition draft_update ::
    "platform \<Rightarrow> draft_store \<Rightarrow> int \<Rightarrow> int \<Rightarrow> string \<Rightarrow> skill_contract \<Rightarrow> string \<Rightarrow> string option \<Rightarrow> int
     \<Rightarrow> draft_store \<times> (draft_error + skill_draft)"
where
  "draft_update pf s user_id chat_id draft_id new_contract expected_etag new_status now =
     (let key = (user_id, chat_id, draft_id) in
      case draft_at s key of
        None \<Rightarrow> (s, Inl (if foreign_draft s user_id chat_id draft_id then DraftOwnership
                          else DraftNotFound))
      | Some draft \<Rightarrow>
          if sd_user_id draft \<noteq> user_id then (s, Inl DraftOwnership)
          else if sd_expires_at draft < now then (remove_draft s key, Inl DraftExpired)
          else if sd_etag draft \<noteq> expected_etag then (s, Inl DraftEtagMismatch)
          else (let updated = draft\<lparr>sd_contract := new_contract,
                                    sd_etag := compute_etag pf new_contract,
                                    sd_status := (case new_status of None \<Rightarrow> ''editing''
                                                  | Some st \<Rightarrow> if st = [] then ''editing'' else st),
                                    sd_edit_count := sd_edit_count draft + 1\<rparr>
                in (s\<lparr>ds_drafts := AList.update key updated (ds_drafts s)\<rparr>, Inr updated)))"

definition draft_delete ::
    "draft_store \<Rightarrow> int \<Rightarrow> int \<Rightarrow> string \<Rightarrow> draft_store \<times> (draft_error + bool)"
where
  "draft_delete s user_id chat_id draft_id =
     (let key = (user_id, chat_id, draft_id) in
      case draft_at s key of
        None \<Rightarrow> (s, if foreign_draft s user_id chat_id draft_id then Inl DraftOwnership
                     else Inr False)
      | Some draft \<Rightarrow>
          if sd_user_id draft \<noteq> user_id then (s, Inl DraftOwnership)
          else (remove_draft s key, Inr True))"

definition get_active_for_chat ::
    "draft_store \<Rightarrow> int \<Rightarrow> int \<Rightarrow> int \<Rightarrow> draft_store \<times> skill_draft option"
where
  "get_active_for_chat s user_id chat_id now =
     (case ds_active s (user_id, chat_id) of
        None \<Rightarrow> (s, None)
      | Some draft_id \<Rightarrow>
          (case draft_at s (user_id, chat_id, draft_id) of
             None \<Rightarrow> (s\<lparr>ds_active := (ds_active s)((user_id, chat_id) := None)\<rparr>, None)
           | Some draft \<Rightarrow>
               if sd_expires_at draft < now
               then (remove_draft s (user_id, chat_id, draft_id), None)
               else (s, Some draft)))"

lemmas draft_op_defs = draft_get_def draft_update_def draft_delete_def get_active_for_chat_def

section \<open>The invariant of the three dictionaries\<close>

definition draft_ok :: "platform \<Rightarrow> int \<Rightarrow> draft_key \<Rightarrow> skill_draft \<Rightarrow> bool" where
  "draft_ok pf ttl key dr \<longleftrightarrow> key = (sd_user_id dr, sd_chat_id dr, sd_draft_id dr)
     \<and> sd_etag dr = compute_etag pf (sd_contract dr)
     \<and> sd_expires_at dr = sd_created_at dr + ttl * 1000000"

definition draft_inv :: "platform \<Rightarrow> draft_store \<Rightarrow> bool" where
  "draft_inv pf s \<longleftrightarrow>
     distinct (map fst (ds_drafts s)) \<and>
     (\<forall>key dr. draft_at s key = Some dr \<longrightarrow> draft_ok pf (ds_ttl_seconds s) key dr) \<and>
     (\<forall>u c d. ds_active s (u, c) = Some d \<longleftrightarrow> (\<exists>dr. draft_at s (u, c, d) = Some dr)) \<and>
     (\<forall>u c d. ds_owners s (c, d) = Some u \<longleftrightarrow> (\<exists>dr. draft_at s (u, c, d) = Some dr))"

lemma draft_invD:
  assumes "draft_inv pf s"
  shows "distinct (map fst (ds_drafts s))"
    and "draft_at s key = Some dr \<Longrightarrow> draft_ok pf (ds_ttl_seconds s) key dr"
    and "ds_active s (u, c) = Some d \<longleftrightarrow> (\<exists>dr. draft_at s (u, c, d) = Some dr)"
    and "ds_owners s (c, d) = Some u \<longleftrightarrow> (\<exists>dr. draft_at s (u, c, d) = Some dr)"
  using assms unfolding draft_inv_def by blast+

lemma draft_inv_new: "draft_inv pf (new_draft_store ttl)"
  by (simp add: draft_inv_def new_draft_store_def draft_at_def)

lemma draft_at_remove [simp]: "draft_at (remove_draft s key) k = (if k = key then None else draft_at s k)"
  by (cases key) (simp add: remove_draft_def draft_at_def AList.delete_conv')

lemma draft_at_cleanup_one [simp]:
  "draft_at (cleanup_one key s) k = (if k = key then None else draft_at s k)"
  by (cases key) (simp add: cleanup_one_def draft_at_def AList.delete_conv')

lemma ttl_simps [simp]:
  "ds_ttl_seconds (remove_draft s key) = ds_ttl_seconds s"
  "ds_ttl_seconds (cleanup_one key s) = ds_ttl_seconds s"
  by (cases key, simp add: remove_draft_def) (cases key, simp add: cleanup_one_def)

text \<open>Where the index agrees, the conditional pop of the cleanup removes what the other one does.\<close>

lemma cleanup_one_is_remove:
  assumes "draft_inv pf s" and "draft_at s key = Some dr"
  shows "cleanup_one key s = remove_draft s key"
proof -
  obtain u c d where key: "key = (u, c, d)" by (cases key)
  with assms have "ds_active s (u, c) = Some d" by (simp add: draft_invD(3))
  then show ?thesis by (simp add: key cleanup_one_def remove_draft_def)
qed

lemma remove_draft_inv [inv_intros]:
  assumes inv: "draft_inv pf s" and key: "draft_at s key = Some dr"
  shows "draft_inv pf (remove_draft s key)"
proof -
  obtain u c d where k: "key = (u, c, d)" by (cases key)
  have a: "ds_active s (u, c) = Some d" and o: "ds_owners s (c, d) = Some u"
    using draft_invD(3,4) [OF inv] key k by auto
  have act: "ds_active (remove_draft s key) = (ds_active s)((u, c) := None)"
    and own: "ds_owners (remove_draft s key) = (ds_owners s)((c, d) := None)"
    by (simp_all add: k remove_draft_def)
  have "distinct (map fst (ds_drafts (remove_draft s key)))"
    using draft_invD(1) [OF inv] by (simp add: k remove_draft_def distinct_delete)
  moreover have "ds_active (remove_draft s key) (u', c') = Some d' \<longleftrightarrow>
      (\<exists>dr. draft_at (remove_draft s key) (u', c', d') = Some dr)" for u' c' d'
    unfolding act using draft_invD(3) [OF inv, of u' c' d'] a by (auto simp: k)
  moreover have "ds_owners (remove_draft s key) (c', d') = Some u' \<longleftrightarrow>
      (\<exists>dr. draft_at (remove_draft s key) (u', c', d') = Some dr)" for u' c' d'
    unfolding own using draft_invD(4) [OF inv, of c' d' u'] o by (auto simp: k)
  moreover have "draft_ok pf (ds_ttl_seconds s) j dr'"
    if "draft_at (remove_draft s key) j = Some dr'" for j dr'
    using that draft_invD(2) [OF inv, of j dr'] by (simp split: if_splits)
  ultimately show ?thesis
    unfolding draft_inv_def ttl_simps by blast
qed

lemma fold_cleanup:
  assumes "draft_inv pf s" and "distinct ks" and "\<And>k. k \<in> set ks \<Longrightarrow> \<exists>dr. draft_at s k = Some dr"
  shows "draft_inv pf (fold cleanup_one ks s) \<and>
         ds_ttl_seconds (fold cleanup_one ks s) = ds_ttl_seconds s \<and>
         draft_at (fold cleanup_one ks s) j = (if j \<in> set ks then None else draft_at s j)"
  using assms
proof (induction ks arbitrary: s)
  case (Cons k ks)
  obtain dr where dr: "draft_at s k = Some dr" using Cons.prems(3) [of k] by auto
  have inv: "draft_inv pf (cleanup_one k s)"
    unfolding cleanup_one_is_remove [OF Cons.prems(1) dr]
    by (rule remove_draft_inv [OF Cons.prems(1) dr])
  have "\<exists>dr. draft_at (cleanup_one k s) j = Some dr" if "j \<in> set ks" for j
    using Cons.prems(2) Cons.prems(3) [of j] that by auto
  from Cons.IH [OF inv _ this] Cons.prems(2) show ?case by simp
qed simp

lemma expired_keys_iff:
  assumes "draft_inv pf s"
  shows "k \<in> set (expired_keys s now) \<longleftrightarrow> (\<exists>dr. draft_at s k = Some dr \<and> sd_expires_at dr < now)"
  using draft_invD(1) [OF assms]
  by (force simp: expired_keys_def draft_at_def)

lemma cleanup_expired_spec:
  assumes inv: "draft_inv pf s"
  shows "draft_inv pf (fst (cleanup_expired s now))"
    and "ds_ttl_seconds (fst (cleanup_expired s now)) = ds_ttl_seconds s"
    and "draft_at (fst (cleanup_expired s now)) k =
           (case draft_at s k of None \<Rightarrow> None
            | Some dr \<Rightarrow> if sd_expires_at dr < now then None else Some dr)"
proof -
  have d: "distinct (expired_keys s now)"
    unfolding expired_keys_def by (rule distinct_map_filter_key) (rule draft_invD(1) [OF inv])
  have "\<exists>dr. draft_at s k = Some dr" if "k \<in> set (expired_keys s now)" for k
    using that by (auto simp: expired_keys_iff [OF inv])
  note f = fold_cleanup [OF inv d this]
  show "draft_inv pf (fst (cleanup_expired s now))"
    and "ds_ttl_seconds (fst (cleanup_expired s now)) = ds_ttl_seconds s"
    and "draft_at (fst (cleanup_expired s now)) k =
           (case draft_at s k of None \<Rightarrow> None
            | Some dr \<Rightarrow> if sd_expires_at dr < now then None else Some dr)"
    unfolding cleanup_expired_def Let_def fst_conv
    using f expired_keys_iff [OF inv, of k now] by (auto split: option.splits)
qed

text \<open>Removing the draft a new one replaces.\<close>

definition drop_active :: "draft_store \<Rightarrow> int \<Rightarrow> int \<Rightarrow> draft_store" where
  "drop_active s u c = (case ds_active s (u, c) of None \<Rightarrow> s | Some d \<Rightarrow> remove_draft s (u, c, d))"

lemma drop_active_inv: "draft_inv pf s \<Longrightarrow> draft_inv pf (drop_active s u c)"
  by (auto simp: drop_active_def draft_invD(3) split: option.splits dest!: draft_invD(3) [THEN iffD1, rotated] intro: remove_draft_inv)

lemma drop_active_at:
  assumes "draft_inv pf s"
  shows "draft_at (drop_active s u c) (u', c', d) =
     (if (u', c') = (u, c) then None else draft_at s (u', c', d))"
  using draft_invD(3) [OF assms, of u' c' d]
  by (cases "draft_at s (u', c', d)") (auto simp: drop_active_def split: option.splits)

lemma drop_active_ttl [simp]: "ds_ttl_seconds (drop_active s u c) = ds_ttl_seconds s"
  by (auto simp: drop_active_def split: option.splits)

lemma drop_active_none: "draft_inv pf s \<Longrightarrow> ds_active (drop_active s u c) (u, c) = None"
  by (auto simp: drop_active_def remove_draft_def split: option.splits)

definition put_draft :: "draft_store \<Rightarrow> skill_draft \<Rightarrow> draft_store" where
  "put_draft s dr =
     (let u = sd_user_id dr; c = sd_chat_id dr; d = sd_draft_id dr
      in s\<lparr>ds_drafts := AList.update (u, c, d) dr (ds_drafts s),
           ds_active := (ds_active s)((u, c) \<mapsto> d), ds_owners := (ds_owners s)((c, d) \<mapsto> u)\<rparr>)"

definition new_draft ::
    "platform \<Rightarrow> int \<Rightarrow> int \<Rightarrow> int \<Rightarrow> skill_contract \<Rightarrow> string \<Rightarrow> int \<Rightarrow> skill_draft" where
  "new_draft pf ttl u c contract d now =
     \<lparr>sd_draft_id = d, sd_user_id = u, sd_chat_id = c, sd_contract = contract,
      sd_etag = compute_etag pf contract, sd_created_at = now,
      sd_expires_at = now + ttl * 1000000, sd_status = ''pending'', sd_edit_count = 0\<rparr>"

lemma draft_create_eq:
  "draft_create pf s u c contract d swept now =
     (let dr = new_draft pf (ds_ttl_seconds s) u c contract d now
      in (put_draft (drop_active (fst (cleanup_expired s swept)) u c) dr, dr))"
  by (auto simp: draft_create_def put_draft_def new_draft_def drop_active_def remove_draft_def
      Let_def fun_upd_twist split: option.splits)

lemma draft_at_put [simp]:
  "draft_at (put_draft s dr) k =
     (if k = (sd_user_id dr, sd_chat_id dr, sd_draft_id dr) then Some dr else draft_at s k)"
  by (simp add: put_draft_def draft_at_def AList.update_conv' Let_def)

lemma put_draft_ttl [simp]: "ds_ttl_seconds (put_draft s dr) = ds_ttl_seconds s"
  by (simp add: put_draft_def Let_def)

lemma put_draft_inv:
  assumes inv: "draft_inv pf s" and ok: "draft_ok pf (ds_ttl_seconds s) (u, c, d) dr"
    and slot: "ds_active s (u, c) = None \<and> ds_owners s (c, d) = None
               \<or> ds_active s (u, c) = Some d"
  shows "draft_inv pf (put_draft s dr)"
proof -
  have key: "sd_user_id dr = u" "sd_chat_id dr = c" "sd_draft_id dr = d"
    using ok by (auto simp: draft_ok_def)
  have own: "ds_owners s (c, d) = None \<or> ds_owners s (c, d) = Some u"
    using slot draft_invD(3,4) [OF inv] by auto
  have act: "ds_active s (u, c) = None \<or> ds_active s (u, c) = Some d" using slot by auto
  have "distinct (map fst (ds_drafts (put_draft s dr)))"
    using draft_invD(1) [OF inv] by (simp add: put_draft_def distinct_update Let_def)
  moreover have "ds_active (put_draft s dr) (u', c') = Some d' \<longleftrightarrow>
      (\<exists>x. draft_at (put_draft s dr) (u', c', d') = Some x)" for u' c' d'
    using draft_invD(3) [OF inv, of u' c' d'] act by (auto simp: key put_draft_def Let_def draft_at_def AList.update_conv')
  moreover have "ds_owners (put_draft s dr) (c', d') = Some u' \<longleftrightarrow>
      (\<exists>x. draft_at (put_draft s dr) (u', c', d') = Some x)" for u' c' d'
    using draft_invD(4) [OF inv, of c' d' u'] own by (auto simp: key put_draft_def Let_def draft_at_def AList.update_conv')
  moreover have "draft_ok pf (ds_ttl_seconds s) j x" if "draft_at (put_draft s dr) j = Some x" for j x
    using that ok draft_invD(2) [OF inv, of j x] by (auto simp: key split: if_splits)
  ultimately show ?thesis unfolding draft_inv_def put_draft_ttl by blast
qed

section \<open>Every operation preserves the invariant\<close>

lemma draft_create_inv:
  assumes inv: "draft_inv pf s" and fresh: "ds_owners s (c, d) = None"
  shows "draft_inv pf (fst (draft_create pf s u c contract d swept now))"
proof -
  let ?s1 = "fst (cleanup_expired s swept)"
  let ?s2 = "drop_active ?s1 u c"
  have inv1: "draft_inv pf ?s1" by (rule cleanup_expired_spec(1) [OF inv])
  have inv2: "draft_inv pf ?s2" by (rule drop_active_inv [OF inv1])
  have "draft_at s (v, c, d) = None" for v
    using fresh draft_invD(4) [OF inv, of c d v] by (cases "draft_at s (v, c, d)") auto
  then have "draft_at ?s2 (v, c, d) = None" for v
    by (simp add: drop_active_at [OF inv1] cleanup_expired_spec(3) [OF inv])
  then have "ds_owners ?s2 (c, d) = None"
    using draft_invD(4) [OF inv2, of c d] by (cases "ds_owners ?s2 (c, d)") auto
  moreover have "ds_active ?s2 (u, c) = None" by (rule drop_active_none [OF inv1])
  ultimately show ?thesis
    unfolding draft_create_eq Let_def fst_conv
    by (intro put_draft_inv [OF inv2, of u c d])
      (simp_all add: draft_ok_def new_draft_def cleanup_expired_spec(2) [OF inv])
qed

lemma draft_get_inv: "draft_inv pf s \<Longrightarrow> draft_inv pf (fst (draft_get s u c d now))"
  by (auto simp: draft_get_def Let_def split: option.splits intro: remove_draft_inv)

lemma draft_delete_inv: "draft_inv pf s \<Longrightarrow> draft_inv pf (fst (draft_delete s u c d))"
  by (auto simp: draft_delete_def Let_def split: option.splits intro: remove_draft_inv)

lemma get_active_inv:
  assumes "draft_inv pf s"
  shows "draft_inv pf (fst (get_active_for_chat s u c now))"
proof (cases "ds_active s (u, c)")
  case (Some d)
  then obtain dr where "draft_at s (u, c, d) = Some dr" using draft_invD(3) [OF assms] by blast
  with Some assms show ?thesis by (auto simp: get_active_for_chat_def intro: remove_draft_inv)
qed (use assms in \<open>simp add: get_active_for_chat_def\<close>)

lemma draft_update_inv:
  assumes inv: "draft_inv pf s"
  shows "draft_inv pf (fst (draft_update pf s u c d k e st now))"
proof (cases "draft_at s (u, c, d)")
  case (Some dr)
  let ?up = "dr\<lparr>sd_contract := k, sd_etag := compute_etag pf k,
               sd_status := (case st of None \<Rightarrow> ''editing'' | Some x \<Rightarrow> if x = [] then ''editing'' else x),
               sd_edit_count := sd_edit_count dr + 1\<rparr>"
  have ok: "draft_ok pf (ds_ttl_seconds s) (u, c, d) dr" by (rule draft_invD(2) [OF inv Some])
  have act: "ds_active s (u, c) = Some d" and own: "ds_owners s (c, d) = Some u"
    using Some draft_invD(3,4) [OF inv] by auto
  have "draft_inv pf (put_draft s ?up)"
    by (rule put_draft_inv [OF inv, of u c d]) (use ok act in \<open>simp_all add: draft_ok_def\<close>)
  moreover have "put_draft s ?up = s\<lparr>ds_drafts := AList.update (u, c, d) ?up (ds_drafts s)\<rparr>"
    using ok act own by (simp add: put_draft_def draft_ok_def fun_upd_idem)
  ultimately show ?thesis
    using Some inv by (auto simp: draft_update_def Let_def intro: remove_draft_inv)
qed (use inv in \<open>simp add: draft_update_def\<close>)

text \<open>
  The store over time: one step per public method, in any order, by any user. A new draft id is
  not in use in its chat, which is what \<open>uuid4\<close> is relied on for.
\<close>

inductive draft_step :: "platform \<Rightarrow> draft_store \<Rightarrow> draft_store \<Rightarrow> bool" for pf where
  step_create: "ds_owners s (c, d) = None \<Longrightarrow> draft_step pf s (fst (draft_create pf s u c k d swept now))"
| step_get: "draft_step pf s (fst (draft_get s u c d now))"
| step_update: "draft_step pf s (fst (draft_update pf s u c d k e st now))"
| step_delete: "draft_step pf s (fst (draft_delete s u c d))"
| step_active: "draft_step pf s (fst (get_active_for_chat s u c now))"
| step_cleanup: "draft_step pf s (fst (cleanup_expired s now))"
| step_count: "draft_step pf s (fst (count_active s now))"

inductive draft_reachable :: "platform \<Rightarrow> int \<Rightarrow> draft_store \<Rightarrow> bool" for pf ttl where
  reach_start: "draft_reachable pf ttl (new_draft_store ttl)"
| reach_step: "draft_reachable pf ttl s \<Longrightarrow> draft_step pf s s' \<Longrightarrow> draft_reachable pf ttl s'"

lemma draft_step_inv: "draft_step pf s s' \<Longrightarrow> draft_inv pf s \<Longrightarrow> draft_inv pf s'"
  by (induction rule: draft_step.induct)
    (simp_all add: draft_create_inv draft_get_inv draft_update_inv draft_delete_inv get_active_inv
      cleanup_expired_spec(1) count_active_def Let_def)

lemma draft_reachable_inv: "draft_reachable pf ttl s \<Longrightarrow> draft_inv pf s"
  by (induction rule: draft_reachable.induct) (auto intro: draft_inv_new draft_step_inv)

lemma draft_step_ttl: "draft_step pf s s' \<Longrightarrow> draft_inv pf s \<Longrightarrow> ds_ttl_seconds s' = ds_ttl_seconds s"
  by (induction rule: draft_step.induct)
    (auto simp: draft_create_eq draft_op_defs count_active_def cleanup_expired_spec(2) Let_def
      split: option.splits)

lemma draft_reachable_ttl: "draft_reachable pf ttl s \<Longrightarrow> ds_ttl_seconds s = ttl"
proof (induction rule: draft_reachable.induct)
  case (reach_step s s')
  then show ?case using draft_step_ttl draft_reachable_inv by simp
qed (simp add: new_draft_store_def)

section \<open>Optimistic locking\<close>

definition draft_token :: "draft_store \<Rightarrow> draft_key \<Rightarrow> string option" where
  "draft_token s key = map_option sd_etag (draft_at s key)"

definition draft_commit ::
    "platform \<Rightarrow> draft_store \<Rightarrow> draft_key \<Rightarrow> string \<Rightarrow> skill_contract \<times> string option \<times> int
     \<Rightarrow> draft_store \<times> bool" where
  "draft_commit pf s key e a =
     (case key of (u, c, d) \<Rightarrow> case a of (k, st, now) \<Rightarrow>
        (let (s', r) = draft_update pf s u c d k e st now in (s', is_ok r)))"

lemma draft_commit_checks:
  assumes "draft_commit pf s key v a = (s', True)"
  shows "draft_token s key = Some v"
  using assms
  by (cases key; cases a)
    (auto simp: draft_commit_def draft_token_def draft_update_def Let_def
      split: option.splits if_splits prod.splits)

interpretation draft_lock: optimistic_lock draft_token "draft_commit pf" for pf
  by unfold_locales (rule draft_commit_checks)

lemma draft_update_commit:
  "draft_commit pf s (u, c, d) e (k, st, now) =
     (fst (draft_update pf s u c d k e st now), is_ok (snd (draft_update pf s u c d k e st now)))"
  by (simp add: draft_commit_def split: prod.splits)

lemma draft_update_token:
  assumes "draft_update pf s u c d k e st now = (s', Inr dr)"
  shows "draft_token s' (u, c, d) = Some (compute_etag pf k)"
  using assms
  by (auto simp: draft_update_def draft_token_def draft_at_def AList.update_conv' Let_def
      split: option.splits if_splits)

text \<open>
  No lost update: when an update against an etag has succeeded and changed the etag, a second
  update against the same etag is refused, whoever sends it and whatever it carries.
\<close>

theorem draft_no_lost_update:
  assumes "draft_update pf s u c d k1 e st1 now1 = (s1, Inr dr)" and "compute_etag pf k1 \<noteq> e"
  shows "\<exists>err. snd (draft_update pf s1 u c d k2 e st2 now2) = Inl err"
proof -
  have commit: "draft_commit pf s (u, c, d) e (k1, st1, now1) = (s1, True)"
    using assms(1) by (simp add: draft_update_commit)
  have "draft_token s1 (u, c, d) \<noteq> Some e"
    using draft_update_token [OF assms(1)] assms(2) by simp
  from draft_lock.no_lost_update [OF commit this, of "(k2, st2, now2)"]
  show ?thesis
    by (cases "snd (draft_update pf s1 u c d k2 e st2 now2)") (simp_all add: draft_update_commit)
qed

section \<open>Properties of reachable stores\<close>

text \<open>
  C37: in every reachable store the three dictionaries agree: a draft is stored under its own
  user, chat and id with the etag of its contract and its creation time plus the TTL as expiry;
  it is the active draft of its chat; the ownership index names its user. In particular a user
  has at most one draft per chat.
\<close>

theorem draft_store_consistent:
  assumes "draft_reachable pf ttl s"
  shows "draft_inv pf s \<and> ds_ttl_seconds s = ttl \<and>
         (\<forall>u c d1 d2. draft_at s (u, c, d1) \<noteq> None \<and> draft_at s (u, c, d2) \<noteq> None \<longrightarrow> d1 = d2)"
proof -
  have inv: "draft_inv pf s" by (rule draft_reachable_inv [OF assms])
  have "d1 = d2" if "draft_at s (u, c, d1) = Some x" "draft_at s (u, c, d2) = Some y" for u c d1 d2 x y
    using that draft_invD(3) [OF inv, of u c d1] draft_invD(3) [OF inv, of u c d2] by simp
  with inv draft_reachable_ttl [OF assms] show ?thesis by auto
qed

text \<open>
  Isolation between users: in a reachable store every access to a draft by a user other than
  its owner, to read, update or delete it, is refused with an ownership error and leaves the
  store as it was.
\<close>

theorem draft_ownership_isolation:
  assumes "draft_reachable pf ttl s" and "draft_at s (u, c, d) = Some dr" and "v \<noteq> u"
  shows "draft_get s v c d now = (s, Inl DraftOwnership) \<and>
         draft_update pf s v c d k e st now = (s, Inl DraftOwnership) \<and>
         draft_delete s v c d = (s, Inl DraftOwnership)"
proof -
  have inv: "draft_inv pf s" by (rule draft_reachable_inv [OF assms(1)])
  have own: "ds_owners s (c, d) = Some u" using assms(2) draft_invD(4) [OF inv] by blast
  then have "draft_at s (v, c, d) = None"
    using draft_invD(4) [OF inv, of c d v] assms(3) by (cases "draft_at s (v, c, d)") auto
  then show ?thesis
    using own assms(3) by (simp add: draft_op_defs foreign_draft_def Let_def)
qed

text \<open>
  The TTL is absolute: once a draft's creation time plus the TTL has passed, reading it gives
  nothing and updating it raises the expiry error, no matter how often it was updated before, and
  either removes it from all three dictionaries.
\<close>

theorem draft_ttl_is_absolute:
  assumes "draft_reachable pf ttl s" and "draft_at s (u, c, d) = Some dr"
    and "sd_created_at dr + ttl * 1000000 < now"
  shows "draft_get s u c d now = (remove_draft s (u, c, d), Inr None) \<and>
         draft_update pf s u c d k e st now = (remove_draft s (u, c, d), Inl DraftExpired) \<and>
         get_active_for_chat s u c now = (remove_draft s (u, c, d), None) \<and>
         draft_at (remove_draft s (u, c, d)) (u, c, d) = None"
proof -
  have inv: "draft_inv pf s" by (rule draft_reachable_inv [OF assms(1)])
  have ok: "draft_ok pf ttl (u, c, d) dr"
    using draft_invD(2) [OF inv assms(2)] draft_reachable_ttl [OF assms(1)] by simp
  have "ds_active s (u, c) = Some d" using assms(2) draft_invD(3) [OF inv] by blast
  with ok assms(2,3) show ?thesis by (simp add: draft_op_defs draft_ok_def Let_def)
qed

text \<open>
  A created draft can be read back until its TTL has passed, it is the active draft of its
  chat, and it has replaced every other draft its user had there.
\<close>

theorem draft_create_then_get:
  assumes "draft_reachable pf ttl s" and "ds_owners s (c, d) = None"
    and "draft_create pf s u c k d swept now = (s', dr)" and "t \<le> now + ttl * 1000000"
  shows "draft_get s' u c d t = (s', Inr (Some dr)) \<and> sd_contract dr = k \<and>
         get_active_for_chat s' u c t = (s', Some dr) \<and>
         (\<forall>d'. d' \<noteq> d \<longrightarrow> draft_at s' (u, c, d') = None)"
proof -
  have inv: "draft_inv pf s" and ttl: "ds_ttl_seconds s = ttl"
    by (rule draft_reachable_inv [OF assms(1)], rule draft_reachable_ttl [OF assms(1)])
  have inv': "draft_inv pf s'" using draft_create_inv [OF inv assms(2), of u k swept now] assms(3) by simp
  have at: "draft_at s' (u, c, d) = Some dr" and dr: "dr = new_draft pf ttl u c k d now"
    using assms(3) by (auto simp: draft_create_eq new_draft_def ttl Let_def)
  have act: "ds_active s' (u, c) = Some d" using at draft_invD(3) [OF inv'] by blast
  have "draft_at s' (u, c, d') = None" if "d' \<noteq> d" for d'
    using draft_invD(3) [OF inv', of u c d'] act that by (cases "draft_at s' (u, c, d')") auto
  with at dr act assms(4) show ?thesis by (simp add: draft_op_defs new_draft_def Let_def)
qed

text \<open>
  \<open>count_active\<close> counts exactly the drafts that have not expired, and keeps exactly them.
\<close>

theorem count_active_counts_unexpired:
  assumes "draft_reachable pf ttl s"
  shows "snd (count_active s now) =
           card {key. \<exists>dr. draft_at s key = Some dr \<and> now \<le> sd_expires_at dr} \<and>
         (\<forall>key dr. draft_at (fst (count_active s now)) key = Some dr \<longleftrightarrow>
            draft_at s key = Some dr \<and> now \<le> sd_expires_at dr)"
proof -
  have inv: "draft_inv pf s" by (rule draft_reachable_inv [OF assms])
  let ?s' = "fst (cleanup_expired s now)"
  have at: "draft_at ?s' key = Some dr \<longleftrightarrow> draft_at s key = Some dr \<and> now \<le> sd_expires_at dr" for key dr
    by (auto simp: cleanup_expired_spec(3) [OF inv] split: option.splits)
  have "distinct (map fst (ds_drafts ?s'))"
    by (rule draft_invD(1) [OF cleanup_expired_spec(1) [OF inv]])
  then have "length (ds_drafts ?s') = card (fst ` set (ds_drafts ?s'))"
    by (metis distinct_card length_map list.set_map)
  also have "fst ` set (ds_drafts ?s') = {key. \<exists>dr. draft_at ?s' key = Some dr}"
    by (auto simp: draft_at_def dom_map_of_conv_image_fst [symmetric] dom_def)
  finally show ?thesis by (simp add: count_active_def Let_def at)
qed

section \<open>Witnesses\<close>

text \<open>
  A platform whose digest is the text itself, a store with one draft of user 7 in chat 1, and the
  same contract with another audit flag.
\<close>

definition demo_platform :: platform where
  "demo_platform = \<lparr>pf_float_repr = (\<lambda>_. ''0.5''), pf_sha256_hex = (\<lambda>t. t)\<rparr>"

definition demo_contract :: skill_contract where
  "demo_contract = default_contract\<lparr>c_audit := \<lparr>aud_capability_broker_enabled = False\<rparr>\<rparr>"

abbreviation demo_create :: "draft_store \<times> skill_draft" where
  "demo_create \<equiv> draft_create demo_platform (new_draft_store 900) 7 1 default_contract ''d1'' 0 0"

definition demo_draft :: skill_draft where
  "demo_draft = new_draft demo_platform 900 7 1 default_contract ''d1'' 0"

lemma demo_etags: "compute_etag demo_platform demo_contract \<noteq> compute_etag demo_platform default_contract"
  by (simp add: compute_etag_def to_json_canonical_def demo_platform_def demo_contract_def
      to_dict_def contract_items_def sort_key_def audit_to_dict_def contract_defaults)

lemma demo_fresh: "ds_owners (new_draft_store 900) (1, ''d1'') = None"
  by (simp add: new_draft_store_def)

lemma demo_reachable: "draft_reachable demo_platform 900 (fst demo_create)"
  by (rule draft_reachable.reach_step [OF draft_reachable.reach_start])
    (rule draft_step.step_create, rule demo_fresh)

lemma demo_at: "draft_at (fst demo_create) (7, 1, ''d1'') = Some demo_draft"
  by (simp add: draft_create_eq demo_draft_def new_draft_store_def Let_def) (simp add: new_draft_def)

lemma demo_update:
  "draft_update demo_platform (fst demo_create) 7 1 ''d1'' demo_contract
     (compute_etag demo_platform default_contract) None 5 =
   (fst (draft_update demo_platform (fst demo_create) 7 1 ''d1'' demo_contract
     (compute_etag demo_platform default_contract) None 5),
    Inr (demo_draft\<lparr>sd_contract := demo_contract, sd_etag := compute_etag demo_platform demo_contract,
           sd_status := ''editing'', sd_edit_count := 1\<rparr>))"
  using demo_at
  by (simp add: draft_update_def Let_def) (simp add: demo_draft_def new_draft_def)

theorem draft_no_lost_update_witness:
  "\<exists>err. snd (draft_update demo_platform
     (fst (draft_update demo_platform (fst demo_create) 7 1 ''d1'' demo_contract
        (compute_etag demo_platform default_contract) None 5))
     7 1 ''d1'' default_contract (compute_etag demo_platform default_contract) None 6) = Inl err"
  by (rule draft_no_lost_update [OF demo_update demo_etags])

theorem draft_store_consistent_witness:
  "draft_inv demo_platform (fst demo_create) \<and> ds_ttl_seconds (fst demo_create) = 900"
  using draft_store_consistent [OF demo_reachable] by blast

theorem draft_ownership_isolation_witness:
  "draft_at (fst demo_create) (7, 1, ''d1'') = Some demo_draft \<and>
   draft_get (fst demo_create) 8 1 ''d1'' 5 = (fst demo_create, Inl DraftOwnership)"
proof -
  have "(8::int) \<noteq> 7" by simp
  from draft_ownership_isolation [OF demo_reachable demo_at this] demo_at show ?thesis by blast
qed

theorem draft_ttl_is_absolute_witness:
  "draft_get (fst demo_create) 7 1 ''d1'' 900000001 =
     (remove_draft (fst demo_create) (7, 1, ''d1''), Inr None)"
proof -
  have "sd_created_at demo_draft + 900 * 1000000 < 900000001"
    by (simp add: demo_draft_def new_draft_def)
  from draft_ttl_is_absolute [OF demo_reachable demo_at this] show ?thesis by blast
qed

theorem draft_create_then_get_witness:
  "draft_get (fst demo_create) 7 1 ''d1'' 900000000 = (fst demo_create, Inr (Some (snd demo_create)))"
proof -
  have create: "demo_create = (fst demo_create, snd demo_create)" by simp
  have t: "(900000000::int) \<le> 0 + 900 * 1000000" by simp
  from draft_create_then_get [OF draft_reachable.reach_start demo_fresh create t] show ?thesis
    by blast
qed

theorem count_active_counts_unexpired_witness:
  "snd (count_active (fst demo_create) 900000001) =
     card {key. \<exists>dr. draft_at (fst demo_create) key = Some dr \<and> 900000001 \<le> sd_expires_at dr}"
  using count_active_counts_unexpired [OF demo_reachable] by blast

end
