(* ===== verification/ContractStore.thy ===== *)
theory ContractStore
  imports ContractDigest ContractRoundtrip ContractValidator OptimisticLock
begin

text \<open>
  \<open>contract_store.py\<close>: the table \<open>skill_contracts\<close> and the operations on it. The table is the list
  of its rows in rowid order; its primary key and its two unique indexes are checked by the
  insert and the update, as SQLite does. Which of several violated constraints SQLite names
  in the error is the parameter \<open>db_report\<close>. The text of the column \<open>contract_json\<close> stands for what
  \<open>json.loads\<close> makes of it, and \<open>json.loads\<close> undoes \<open>json.dumps\<close>. \<open>now_iso()\<close> is an argument.

  A write is a read and a check followed by one SQL statement. The two halves are separate
  definitions (\<open>persist_prepare\<close> and \<open>persist_insert\<close>, \<open>update_prepare\<close> and \<open>update_commit\<close>), because
  other connections may write between them; \<open>persist\<close> and \<open>update\<close> run them on one table.
\<close>

datatype stored_json = Malformed | JsonText json

record contract_row =
  row_id :: string
  row_user_id :: int
  row_name :: string
  row_schema_version :: int
  row_contract_version :: int
  row_hypothesis_id :: "string option"
  row_origin :: string
  row_lifecycle_status :: string
  row_review_status :: string
  row_risk_level :: string
  row_package_type :: string
  row_checksum :: string
  row_contract_json :: stored_json
  row_created_at :: string
  row_updated_at :: string

type_synonym contract_table = "contract_row list"

datatype store_error =
    ContractNotFound
  | ContractValidation "validation_issue list"
  | ContractChecksum
  | ContractDuplicateName
  | ContractDuplicateHypothesis
  | ContractInvariant "string list"
  | ContractConcurrentUpdate
  | ContractStoreFailure
  | JsonDecode
  | ContractDeserialization deser_error
  | IntegerOverflow

section \<open>Security metadata\<close>

definition finalize_security_metadata :: "platform \<Rightarrow> skill_contract \<Rightarrow> skill_contract" where
  "finalize_security_metadata pf c =
     (let computed_package_type = compute_package_type (c_permissions c);
          computed_risk_level = compute_risk_level (c_permissions c);
          c1 = c\<lparr>c_store_meta := (c_store_meta c)\<lparr>sm_package_type := computed_package_type\<rparr>,
                 c_risk_level := computed_risk_level\<rparr>;
          checksum = compute_checksum pf c1
      in c1\<lparr>c_trust := (c_trust c1)\<lparr>tr_checksum := Some checksum\<rparr>\<rparr>)"

definition verify_checksum :: "platform \<Rightarrow> skill_contract \<Rightarrow> bool" where
  "verify_checksum pf c =
     (case tr_checksum (c_trust c) of None \<Rightarrow> False | Some k \<Rightarrow> k = compute_checksum pf c)"

section \<open>Constraints of the table\<close>

datatype constraint = PrimaryKey | UniqueUserName | UniqueHypothesis

record database =
  db_report :: "constraint list \<Rightarrow> constraint"

text \<open>The text of the error for a violated constraint.\<close>

fun constraint_message :: "constraint \<Rightarrow> string" where
  "constraint_message PrimaryKey = ''UNIQUE constraint failed: skill_contracts.id''"
| "constraint_message UniqueUserName =
     ''UNIQUE constraint failed: skill_contracts.user_id, skill_contracts.name''"
| "constraint_message UniqueHypothesis =
     ''UNIQUE constraint failed: skill_contracts.hypothesis_id''"

definition ascii_lower :: "string \<Rightarrow> string" where
  "ascii_lower s = map (\<lambda>c. let n = of_char c :: nat
                            in if 65 \<le> n \<and> n \<le> 90 then char_of (n + 32) else c) s"

definition classify_integrity_error :: "string \<Rightarrow> store_error" where
  "classify_integrity_error msg =
     (let err_msg = ascii_lower msg
      in if py_contains ''hypothesis'' err_msg then ContractDuplicateHypothesis
         else if py_contains ''name'' err_msg then ContractDuplicateName
         else ContractStoreFailure)"

text \<open>The unique indexes a row violates against other rows; the partial one skips null and empty.\<close>

definition same_hypothesis :: "string option \<Rightarrow> contract_row \<Rightarrow> bool" where
  "same_hypothesis h r = (h \<noteq> None \<and> h \<noteq> Some [] \<and> row_hypothesis_id r = h)"

definition index_violations :: "contract_row \<Rightarrow> contract_table \<Rightarrow> constraint list" where
  "index_violations new others =
     (if list_ex (\<lambda>r. row_user_id r = row_user_id new \<and> row_name r = row_name new) others
      then [UniqueUserName] else []) @
     (if list_ex (same_hypothesis (row_hypothesis_id new)) others then [UniqueHypothesis] else [])"

definition insert_row ::
    "database \<Rightarrow> contract_row \<Rightarrow> contract_table \<Rightarrow> string + contract_table" where
  "insert_row db new tb =
     (let violated = (if list_ex (\<lambda>r. row_id r = row_id new) tb then [PrimaryKey] else [])
                       @ index_violations new tb
      in if violated = [] then Inr (tb @ [new])
         else Inl (constraint_message (db_report db violated)))"

text \<open>\<open>WHERE id = ?\<close> finds at most one row, the key being primary.\<close>

definition row_by_id :: "contract_table \<Rightarrow> string \<Rightarrow> contract_row option" where
  "row_by_id tb i = find (\<lambda>r. row_id r = i) tb"

definition owned_row :: "contract_table \<Rightarrow> string \<Rightarrow> int \<Rightarrow> contract_row option" where
  "owned_row tb i user_id =
     (case row_by_id tb i of
        None \<Rightarrow> None
      | Some r \<Rightarrow> if row_user_id r = user_id then Some r else None)"

text \<open>An integer column holds 64 bits; a larger Python integer raises \<open>OverflowError\<close> when bound.\<close>

definition fits_int64 :: "int \<Rightarrow> bool" where
  "fits_int64 i = (- (2 ^ 63) \<le> i \<and> i < 2 ^ 63)"

section \<open>Secure load path\<close>

definition contract_from_json :: "stored_json \<Rightarrow> store_error + skill_contract" where
  "contract_from_json text =
     (case text of
        Malformed \<Rightarrow> Inl JsonDecode
      | JsonText v \<Rightarrow> (case from_dict v of Inl e \<Rightarrow> Inl (ContractDeserialization e) | Inr c \<Rightarrow> Inr c))"

definition db_json_mismatches :: "contract_row \<Rightarrow> skill_contract \<Rightarrow> string list" where
  "db_json_mismatches row c =
     (if row_id row \<noteq> c_id c then [''id''] else []) @
     (if row_name row \<noteq> c_name c then [''name''] else []) @
     (if row_schema_version row \<noteq> c_schema_version c then [''schema_version''] else []) @
     (if row_contract_version row \<noteq> c_contract_version c then [''contract_version''] else []) @
     (if row_origin row \<noteq> c_origin c then [''origin''] else []) @
     (if row_lifecycle_status row \<noteq> lc_status (c_lifecycle c) then [''status''] else []) @
     (if row_review_status row \<noteq> c_review_status c then [''review_status''] else []) @
     (if row_risk_level row \<noteq> c_risk_level c then [''risk_level''] else []) @
     (if row_package_type row \<noteq> sm_package_type (c_store_meta c) then [''package_type''] else []) @
     (if Some (row_checksum row) \<noteq> tr_checksum (c_trust c) then [''checksum''] else [])"

definition assert_db_json_invariant :: "contract_row \<Rightarrow> skill_contract \<Rightarrow> store_error + unit" where
  "assert_db_json_invariant row c =
     (let mismatches = db_json_mismatches row c
      in if mismatches \<noteq> [] then Inl (ContractInvariant mismatches) else Inr ())"

definition assert_checksum ::
    "platform \<Rightarrow> contract_row \<Rightarrow> skill_contract \<Rightarrow> store_error + unit" where
  "assert_checksum pf row c =
     (let db_checksum = row_checksum row; json_checksum = tr_checksum (c_trust c)
      in if db_checksum = [] then Inl ContractChecksum
         else if \<not> truthy json_checksum then Inl ContractChecksum
         else if Some db_checksum \<noteq> json_checksum then Inl ContractChecksum
         else if compute_checksum pf c \<noteq> db_checksum then Inl ContractChecksum
         else Inr ())"

definition load_contract_from_row ::
    "platform \<Rightarrow> contract_row \<Rightarrow> bool \<Rightarrow> store_error + skill_contract" where
  "load_contract_from_row pf row verify =
     bind_res (contract_from_json (row_contract_json row)) (\<lambda>c.
     bind_res (assert_db_json_invariant row c) (\<lambda>_.
     bind_res (if verify then assert_checksum pf row c else Inr ()) (\<lambda>_. Inr c)))"

section \<open>Create\<close>

text \<open>The column values of a contract, the text of \<open>to_json()\<close> included.\<close>

definition row_of :: "skill_contract \<Rightarrow> int \<Rightarrow> contract_row" where
  "row_of c user_id =
     \<lparr>row_id = c_id c, row_user_id = user_id, row_name = c_name c,
      row_schema_version = c_schema_version c, row_contract_version = c_contract_version c,
      row_hypothesis_id = c_hypothesis_id c, row_origin = c_origin c,
      row_lifecycle_status = lc_status (c_lifecycle c), row_review_status = c_review_status c,
      row_risk_level = c_risk_level c, row_package_type = sm_package_type (c_store_meta c),
      row_checksum = the (tr_checksum (c_trust c)), row_contract_json = JsonText (to_dict c),
      row_created_at = c_created_at c, row_updated_at = c_updated_at c\<rparr>"

definition exists_by_name :: "contract_table \<Rightarrow> int \<Rightarrow> string \<Rightarrow> bool" where
  "exists_by_name tb user_id name =
     list_ex (\<lambda>r. row_user_id r = user_id \<and> row_name r = name) tb"

definition persist_prepare ::
    "platform \<Rightarrow> contract_table \<Rightarrow> string \<Rightarrow> skill_contract \<Rightarrow> int \<Rightarrow> store_error + skill_contract" where
  "persist_prepare pf tb now_iso c user_id =
     (let c1 = finalize_security_metadata pf (c\<lparr>c_updated_at := now_iso\<rparr>)
      in if exists_by_name tb user_id (c_name c1) then Inl ContractDuplicateName
         else let result = validate c1 None (Some (c_schema_version c1)) (Some (c_contract_version c1))
         in if \<not> is_valid result then Inl (ContractValidation (errors result))
         else Inr c1)"

definition persist_insert ::
    "database \<Rightarrow> contract_table \<Rightarrow> skill_contract \<Rightarrow> int \<Rightarrow> contract_table \<times> (store_error + skill_contract)"
  where
  "persist_insert db tb c user_id =
     (if \<not> fits_int64 (c_contract_version c) then (tb, Inl IntegerOverflow)
      else case insert_row db (row_of c user_id) tb of
             Inl msg \<Rightarrow> (tb, Inl (classify_integrity_error msg))
           | Inr tb' \<Rightarrow> (tb', Inr c))"

definition persist ::
    "platform \<Rightarrow> database \<Rightarrow> contract_table \<Rightarrow> string \<Rightarrow> skill_contract \<Rightarrow> int
     \<Rightarrow> contract_table \<times> (store_error + skill_contract)" where
  "persist pf db tb now_iso c user_id =
     (case persist_prepare pf tb now_iso c user_id of
        Inl e \<Rightarrow> (tb, Inl e)
      | Inr c1 \<Rightarrow> persist_insert db tb c1 user_id)"

section \<open>Read\<close>

definition get_by_id :: "platform \<Rightarrow> contract_table \<Rightarrow> string \<Rightarrow> bool \<Rightarrow> store_error + skill_contract" where
  "get_by_id pf tb contract_id verify =
     (case row_by_id tb contract_id of
        None \<Rightarrow> Inl ContractNotFound
      | Some row \<Rightarrow> load_contract_from_row pf row verify)"

text \<open>The loop over the rows: a checksum or invariant error skips the row, any other one escapes.\<close>

fun load_rows :: "platform \<Rightarrow> contract_row list \<Rightarrow> store_error + skill_contract list" where
  "load_rows pf [] = Inr []"
| "load_rows pf (row # rows) =
     (case load_contract_from_row pf row True of
        Inr c \<Rightarrow> bind_res (load_rows pf rows) (\<lambda>cs. Inr (c # cs))
      | Inl ContractChecksum \<Rightarrow> load_rows pf rows
      | Inl (ContractInvariant m) \<Rightarrow> load_rows pf rows
      | Inl e \<Rightarrow> Inl e)"

definition get_by_user ::
    "platform \<Rightarrow> contract_table \<Rightarrow> int \<Rightarrow> string option \<Rightarrow> store_error + skill_contract list" where
  "get_by_user pf tb user_id status =
     (let rows = (if truthy status
                  then filter (\<lambda>r. row_user_id r = user_id \<and> Some (row_lifecycle_status r) = status) tb
                  else filter (\<lambda>r. row_user_id r = user_id) tb)
      in load_rows pf rows)"

definition get_by_hypothesis_id ::
    "platform \<Rightarrow> contract_table \<Rightarrow> string \<Rightarrow> bool \<Rightarrow> store_error + skill_contract option" where
  "get_by_hypothesis_id pf tb hypothesis_id verify =
     (case find (\<lambda>r. row_hypothesis_id r = Some hypothesis_id) tb of
        None \<Rightarrow> Inr None
      | Some row \<Rightarrow> bind_res (get_by_id pf tb (row_id row) verify) (\<lambda>c. Inr (Some c)))"

definition count_by_user :: "contract_table \<Rightarrow> int \<Rightarrow> nat" where
  "count_by_user tb user_id = length (filter (\<lambda>r. row_user_id r = user_id) tb)"

section \<open>Update and delete\<close>

text \<open>The checks of \<open>update\<close>: the finalised contract and the version the statement locks on.\<close>

definition update_prepare ::
    "platform \<Rightarrow> contract_table \<Rightarrow> string \<Rightarrow> skill_contract \<Rightarrow> int \<Rightarrow> int option
     \<Rightarrow> store_error + skill_contract \<times> int" where
  "update_prepare pf tb now_iso c user_id expected_version =
     (case owned_row tb (c_id c) user_id of
        None \<Rightarrow> Inl ContractNotFound
      | Some row \<Rightarrow>
          (let current_version = row_contract_version row; old_name = row_name row
           in if expected_version \<noteq> None \<and> expected_version \<noteq> Some current_version
              then Inl ContractConcurrentUpdate
              else let lock_version = (case expected_version of None \<Rightarrow> current_version | Some v \<Rightarrow> v);
                       c1 = finalize_security_metadata pf
                              (c\<lparr>c_contract_version := current_version + 1, c_updated_at := now_iso\<rparr>)
              in if c_name c1 \<noteq> old_name
                    \<and> list_ex (\<lambda>r. row_user_id r = user_id \<and> row_name r = c_name c1
                                  \<and> row_id r \<noteq> c_id c1) tb
                 then Inl ContractDuplicateName
              else let result = validate c1 (Some current_version) (Some (c_schema_version c1))
                                  (Some (c_contract_version c1))
              in if \<not> is_valid result then Inl (ContractValidation (errors result))
              else Inr (c1, lock_version)))"

text \<open>The row after the update: the id, the owner and the creation time are not set.\<close>

definition updated_row :: "contract_row \<Rightarrow> skill_contract \<Rightarrow> contract_row" where
  "updated_row row c =
     (row_of c (row_user_id row))\<lparr>row_id := row_id row, row_created_at := row_created_at row\<rparr>"

text \<open>\<open>UPDATE ... WHERE id = ? AND user_id = ? AND contract_version = ?\<close> and its row count.\<close>

definition update_commit ::
    "database \<Rightarrow> contract_table \<Rightarrow> int \<Rightarrow> skill_contract \<times> int
     \<Rightarrow> contract_table \<times> (store_error + skill_contract)" where
  "update_commit db tb user_id p =
     (case p of (c, lock_version) \<Rightarrow>
        if \<not> fits_int64 (c_contract_version c) then (tb, Inl IntegerOverflow)
        else case owned_row tb (c_id c) user_id of
               None \<Rightarrow> (tb, Inl ContractConcurrentUpdate)
             | Some row \<Rightarrow>
                 if row_contract_version row \<noteq> lock_version then (tb, Inl ContractConcurrentUpdate)
                 else (let new = updated_row row c;
                           violated = index_violations new (filter (\<lambda>r. row_id r \<noteq> row_id row) tb)
                       in if violated \<noteq> []
                          then (tb, Inl (classify_integrity_error
                                           (constraint_message (db_report db violated))))
                          else (map (\<lambda>r. if row_id r = row_id row then new else r) tb, Inr c)))"

definition update ::
    "platform \<Rightarrow> database \<Rightarrow> contract_table \<Rightarrow> string \<Rightarrow> skill_contract \<Rightarrow> int \<Rightarrow> int option
     \<Rightarrow> contract_table \<times> (store_error + skill_contract)" where
  "update pf db tb now_iso c user_id expected_version =
     (case update_prepare pf tb now_iso c user_id expected_version of
        Inl e \<Rightarrow> (tb, Inl e)
      | Inr p \<Rightarrow> update_commit db tb user_id p)"

definition delete_contract :: "contract_table \<Rightarrow> string \<Rightarrow> int \<Rightarrow> contract_table \<times> bool" where
  "delete_contract tb contract_id user_id =
     (case owned_row tb contract_id user_id of
        None \<Rightarrow> (tb, False)
      | Some _ \<Rightarrow> (filter (\<lambda>r. \<not> (row_id r = contract_id \<and> row_user_id r = user_id)) tb, True))"

end
