(* ===== verification/StoreGuarantees.thy ===== *)
theory StoreGuarantees
  imports ContractStore
begin

text \<open>
  The properties of the contract store. \<open>consistent\<close> says of a contract what its finalisation and
  validation establish; \<open>store_inv\<close> is the invariant of the table, kept by every write statement
  that the operations prepare, on whatever table they prepared it, so that it holds under every
  interleaving of connections. The compare-and-swap of \<open>update_commit\<close> interprets
  \<open>versioned_lock\<close>.
\<close>

section \<open>Finalised contracts\<close>

definition consistent :: "platform \<Rightarrow> skill_contract \<Rightarrow> bool" where
  "consistent pf c \<longleftrightarrow>
     tr_checksum (c_trust c) = Some (compute_checksum pf c)
     \<and> c_risk_level c = compute_risk_level (c_permissions c)
     \<and> sm_package_type (c_store_meta c) = compute_package_type (c_permissions c)
     \<and> is_valid (validate c None None None)"

lemma finalize_fields [simp]:
  "c_id (finalize_security_metadata pf c) = c_id c"
  "c_name (finalize_security_metadata pf c) = c_name c"
  "c_contract_version (finalize_security_metadata pf c) = c_contract_version c"
  "c_schema_version (finalize_security_metadata pf c) = c_schema_version c"
  "c_permissions (finalize_security_metadata pf c) = c_permissions c"
  "c_hypothesis_id (finalize_security_metadata pf c) = c_hypothesis_id c"
  "c_created_at (finalize_security_metadata pf c) = c_created_at c"
  by (simp_all add: finalize_security_metadata_def Let_def)

lemma finalize_wf [simp]: "wf_contract (finalize_security_metadata pf c) = wf_contract c"
  by (simp add: finalize_security_metadata_def wf_contract_def Let_def)

lemma finalize_checksum:
  "tr_checksum (c_trust (finalize_security_metadata pf c))
     = Some (compute_checksum pf (finalize_security_metadata pf c))"
  unfolding finalize_security_metadata_def Let_def
  by (subst checksum_trust_cong [OF refl]) simp_all

lemma validate_weaken:
  "is_valid (validate c ov sv cv) \<Longrightarrow> is_valid (validate c None None None)"
  by (auto simp: validate_valid versions_ok_def)

lemma finalize_consistent:
  assumes "is_valid (validate (finalize_security_metadata pf c) ov sv cv)"
  shows "consistent pf (finalize_security_metadata pf c)"
proof -
  have "c_risk_level (finalize_security_metadata pf c) = compute_risk_level (c_permissions c)"
    "sm_package_type (c_store_meta (finalize_security_metadata pf c))
       = compute_package_type (c_permissions c)"
    by (simp_all add: finalize_security_metadata_def Let_def)
  with finalize_checksum validate_weaken [OF assms] show ?thesis by (simp add: consistent_def)
qed

lemma consistent_checksum_nonempty: "consistent pf c \<Longrightarrow> compute_checksum pf c \<noteq> []"
  by (auto simp: consistent_def validate_valid trust_ok_def hex_pattern_match_def)

lemma consistent_version: "consistent pf c \<Longrightarrow> 1 \<le> c_contract_version c \<and> c_schema_version c = 2"
  by (auto simp: consistent_def validate_valid versions_ok_def)

lemma persist_prepareD:
  assumes "persist_prepare pf tb ts c u = Inr c1"
  shows "c1 = finalize_security_metadata pf (c\<lparr>c_updated_at := ts\<rparr>) \<and> consistent pf c1
    \<and> \<not> exists_by_name tb u (c_name c)"
  using assms finalize_consistent
  by (auto simp: persist_prepare_def Let_def split: if_splits)

lemma update_prepareD:
  assumes "update_prepare pf tb ts c u ev = Inr (c1, v)"
  obtains row where "owned_row tb (c_id c) u = Some row" and "v = row_contract_version row"
    and "ev = None \<or> ev = Some v"
    and "c1 = finalize_security_metadata pf (c\<lparr>c_contract_version := v + 1, c_updated_at := ts\<rparr>)"
    and "consistent pf c1"
  using assms finalize_consistent
  by (auto simp: update_prepare_def Let_def split: option.splits if_splits)

lemma update_prepare_version: "update_prepare pf tb ts c u ev = Inr (c1, v) \<Longrightarrow> c_contract_version c1 = v + 1"
  by (erule update_prepareD) simp

lemma update_prepare_id: "update_prepare pf tb ts c u ev = Inr (c1, v) \<Longrightarrow> c_id c1 = c_id c"
  by (erule update_prepareD) simp

text \<open>Updating the version leaves a contract well-formed as long as it stays positive.\<close>

lemma wf_update [simp]:
  "wf_contract (c\<lparr>c_updated_at := ts\<rparr>) = wf_contract c"
  "wf_contract c \<Longrightarrow> 1 \<le> v \<Longrightarrow> wf_contract (c\<lparr>c_contract_version := v\<rparr>)"
  by (simp_all add: wf_contract_def)

section \<open>Rows\<close>

text \<open>A row that the store wrote for \<open>c\<close>; the creation time is the one of the first insert.\<close>

definition row_holds :: "contract_row \<Rightarrow> skill_contract \<Rightarrow> bool" where
  "row_holds r c \<longleftrightarrow> row_of c (row_user_id r) = r\<lparr>row_created_at := c_created_at c\<rparr>"

lemma row_holds_of [simp]: "row_holds (row_of c u) c"
  by (simp add: row_holds_def row_of_def)

lemma row_holds_updated: "row_id row = c_id c \<Longrightarrow> row_holds (updated_row row c) c"
  by (simp add: row_holds_def updated_row_def row_of_def)

lemma row_holds_columns:
  assumes "row_holds r c"
  shows "row_id r = c_id c" "row_name r = c_name c" "row_schema_version r = c_schema_version c"
    "row_contract_version r = c_contract_version c" "row_hypothesis_id r = c_hypothesis_id c"
    "row_origin r = c_origin c" "row_lifecycle_status r = lc_status (c_lifecycle c)"
    "row_review_status r = c_review_status c" "row_risk_level r = c_risk_level c"
    "row_package_type r = sm_package_type (c_store_meta c)"
    "row_checksum r = the (tr_checksum (c_trust c))" "row_contract_json r = JsonText (to_dict c)"
proof -
  note col = arg_cong [OF assms [unfolded row_holds_def]]
  show "row_id r = c_id c" using col [of row_id] by (simp add: row_of_def)
  show "row_name r = c_name c" using col [of row_name] by (simp add: row_of_def)
  show "row_schema_version r = c_schema_version c"
    using col [of row_schema_version] by (simp add: row_of_def)
  show "row_contract_version r = c_contract_version c"
    using col [of row_contract_version] by (simp add: row_of_def)
  show "row_hypothesis_id r = c_hypothesis_id c"
    using col [of row_hypothesis_id] by (simp add: row_of_def)
  show "row_origin r = c_origin c" using col [of row_origin] by (simp add: row_of_def)
  show "row_lifecycle_status r = lc_status (c_lifecycle c)"
    using col [of row_lifecycle_status] by (simp add: row_of_def)
  show "row_review_status r = c_review_status c"
    using col [of row_review_status] by (simp add: row_of_def)
  show "row_risk_level r = c_risk_level c" using col [of row_risk_level] by (simp add: row_of_def)
  show "row_package_type r = sm_package_type (c_store_meta c)"
    using col [of row_package_type] by (simp add: row_of_def)
  show "row_checksum r = the (tr_checksum (c_trust c))"
    using col [of row_checksum] by (simp add: row_of_def)
  show "row_contract_json r = JsonText (to_dict c)"
    using col [of row_contract_json] by (simp add: row_of_def)
qed

lemma row_holds_matches:
  "row_holds r c \<Longrightarrow> tr_checksum (c_trust c) = Some k \<Longrightarrow> db_json_mismatches r c = []"
  by (simp add: db_json_mismatches_def row_holds_columns)

lemma load_row_holds:
  assumes "row_holds r c" and "consistent pf c" and "wf_contract c"
  shows "load_contract_from_row pf r verify = Inr c"
proof -
  have k: "tr_checksum (c_trust c) = Some (compute_checksum pf c)"
    using assms(2) by (simp add: consistent_def)
  have "assert_checksum pf r c = Inr ()"
    using k row_holds_columns(11) [OF assms(1)] consistent_checksum_nonempty [OF assms(2)]
    by (simp add: assert_checksum_def truthy_def)
  with row_holds_matches [OF assms(1) k] row_holds_columns(12) [OF assms(1)]
    from_dict_to_dict [OF assms(3)]
  show ?thesis
    by (simp add: load_contract_from_row_def contract_from_json_def assert_db_json_invariant_def)
qed

text \<open>What is known of the contracts that are written besides that the validator accepts them is a
  parameter, \<open>wf_contract\<close> or nothing.\<close>

definition row_ok :: "(skill_contract \<Rightarrow> bool) \<Rightarrow> platform \<Rightarrow> contract_row \<Rightarrow> bool" where
  "row_ok W pf r \<longleftrightarrow> (\<exists>c. row_holds r c \<and> consistent pf c \<and> W c)"

lemma row_okE:
  assumes "row_ok wf_contract pf r"
  obtains c where "row_holds r c" and "consistent pf c" and "wf_contract c"
    and "\<And>verify. load_contract_from_row pf r verify = Inr c"
  using assms load_row_holds unfolding row_ok_def by blast

section \<open>The invariant of the table\<close>

text \<open>Two rows that a unique index would not admit together.\<close>

definition same_key :: "contract_row \<Rightarrow> contract_row \<Rightarrow> bool" where
  "same_key r r' \<longleftrightarrow> row_user_id r' = row_user_id r \<and> row_name r' = row_name r
     \<or> same_hypothesis (row_hypothesis_id r) r'"

lemma same_key_sym: "same_key r r' \<Longrightarrow> same_key r' r"
  by (auto simp: same_key_def same_hypothesis_def)

definition unique_keys :: "contract_table \<Rightarrow> bool" where
  "unique_keys tb \<longleftrightarrow>
     distinct (map row_id tb)
     \<and> (\<forall>r \<in> set tb. \<forall>r' \<in> set tb. same_key r r' \<longrightarrow> row_id r = row_id r')"

definition store_inv :: "(skill_contract \<Rightarrow> bool) \<Rightarrow> platform \<Rightarrow> contract_table \<Rightarrow> bool" where
  "store_inv W pf tb \<longleftrightarrow> unique_keys tb \<and> (\<forall>r \<in> set tb. row_ok W pf r)"

lemma store_inv_Nil [simp]: "store_inv W pf []"
  by (simp add: store_inv_def unique_keys_def)

lemma index_violations_Nil: "index_violations new others = [] \<longleftrightarrow> (\<forall>r \<in> set others. \<not> same_key new r)"
  by (auto simp: index_violations_def list_ex_iff same_key_def)

lemma insert_rowD:
  assumes "insert_row db new tb = Inr tb'"
  shows "tb' = tb @ [new]" and "\<forall>r \<in> set tb. row_id r \<noteq> row_id new"
    and "\<forall>r \<in> set tb. \<not> same_key new r"
  using assms index_violations_Nil [of new tb]
  by (auto simp: insert_row_def Let_def list_ex_iff split: if_splits)

lemma insert_unique_keys:
  assumes "unique_keys tb" and "insert_row db new tb = Inr tb'"
  shows "unique_keys tb'"
  unfolding unique_keys_def insert_rowD(1) [OF assms(2)]
proof (intro conjI ballI impI)
  show "distinct (map row_id (tb @ [new]))"
    using assms(1) insert_rowD(2) [OF assms(2)] by (auto simp: unique_keys_def)
  fix r r'
  assume "r \<in> set (tb @ [new])" and "r' \<in> set (tb @ [new])" and "same_key r r'"
  with insert_rowD(3) [OF assms(2)] same_key_sym [of r r']
  have "r \<in> set tb \<and> r' \<in> set tb \<or> r = r'" by auto
  with assms(1) \<open>same_key r r'\<close> show "row_id r = row_id r'" unfolding unique_keys_def by blast
qed

lemma row_by_id_Some: "row_by_id tb i = Some r \<Longrightarrow> r \<in> set tb \<and> row_id r = i"
  by (auto simp: row_by_id_def dest: find_Some_in)

lemma owned_row_Some:
  "owned_row tb i u = Some r \<longleftrightarrow> row_by_id tb i = Some r \<and> row_user_id r = u"
  by (auto simp: owned_row_def split: option.splits)

lemma row_by_id_unique:
  assumes "unique_keys tb" and "r \<in> set tb"
  shows "row_by_id tb (row_id r) = Some r"
proof -
  have "inj_on row_id (set tb)" using assms(1) by (simp add: unique_keys_def distinct_map)
  with assms(2) show ?thesis unfolding row_by_id_def by (intro find_unique) (auto dest: inj_onD)
qed

section \<open>Every write keeps the invariant\<close>

lemma store_inv_insert [inv_intros]:
  assumes "store_inv W pf tb" and "consistent pf c" and "W c"
  shows "store_inv W pf (fst (persist_insert db tb c u))"
proof (cases "insert_row db (row_of c u) tb")
  case (Inl msg)
  with assms show ?thesis by (simp add: persist_insert_def)
next
  case (Inr tb')
  have "row_ok W pf (row_of c u)" using assms row_holds_of unfolding row_ok_def by blast
  with assms(1) insert_unique_keys [OF _ Inr] have "store_inv W pf tb'"
    by (simp add: store_inv_def insert_rowD(1) [OF Inr])
  with Inr assms(1) show ?thesis by (simp add: persist_insert_def)
qed

text \<open>What a successful compare-and-swap did.\<close>

definition replace_row :: "contract_row \<Rightarrow> contract_table \<Rightarrow> contract_table" where
  "replace_row new tb = map (\<lambda>r. if row_id r = row_id new then new else r) tb"

lemma update_commitD:
  assumes "update_commit db tb u (c, v) = (tb', Inr c')"
  obtains row where "owned_row tb (c_id c) u = Some row" and "row_contract_version row = v"
    and "c' = c" and "tb' = replace_row (updated_row row c) tb"
    and "\<forall>r \<in> set tb. row_id r \<noteq> c_id c \<longrightarrow> \<not> same_key (updated_row row c) r"
proof -
  obtain row where row: "owned_row tb (c_id c) u = Some row" "row_contract_version row = v"
    and nv: "index_violations (updated_row row c) (filter (\<lambda>r. row_id r \<noteq> row_id row) tb) = []"
    and res: "c' = c" "tb' = map (\<lambda>r. if row_id r = row_id row then updated_row row c else r) tb"
    using assms by (auto simp: update_commit_def Let_def split: option.splits if_splits)
  have id: "row_id row = c_id c" using row(1) by (auto simp: owned_row_Some dest: row_by_id_Some)
  have "row_id (updated_row row c) = row_id row" by (simp add: updated_row_def)
  with res have "tb' = replace_row (updated_row row c) tb" by (simp add: replace_row_def)
  with row res(1) nv id that show thesis by (auto simp: index_violations_Nil)
qed

lemma update_commit_failed: "update_commit db tb u p = (tb', Inl e) \<Longrightarrow> tb' = tb"
  by (auto simp: update_commit_def Let_def split: prod.splits option.splits if_splits)

lemma map_row_id_replace [simp]: "map row_id (replace_row new tb) = map row_id tb"
  by (induction tb) (auto simp: replace_row_def)

lemma set_replace_row:
  "set (replace_row new tb) \<subseteq> {r \<in> set tb. row_id r \<noteq> row_id new} \<union> {new}"
  by (auto simp: replace_row_def)

lemma row_by_id_replace:
  "row_by_id (replace_row new tb) i =
     (if i = row_id new then map_option (\<lambda>_. new) (row_by_id tb i) else row_by_id tb i)"
  by (induction tb) (auto simp: replace_row_def row_by_id_def)

lemma replace_unique_keys:
  assumes "unique_keys tb" and "\<forall>r \<in> set tb. row_id r \<noteq> row_id new \<longrightarrow> \<not> same_key new r"
  shows "unique_keys (replace_row new tb)"
  unfolding unique_keys_def map_row_id_replace
proof (intro conjI ballI impI)
  show "distinct (map row_id tb)" using assms(1) by (simp add: unique_keys_def)
  fix r r'
  assume "r \<in> set (replace_row new tb)" "r' \<in> set (replace_row new tb)" and k: "same_key r r'"
  then have r: "r \<in> {r \<in> set tb. row_id r \<noteq> row_id new} \<union> {new}"
    "r' \<in> {r \<in> set tb. row_id r \<noteq> row_id new} \<union> {new}"
    using set_replace_row by blast+
  with assms(2) k same_key_sym [of r r'] have "r \<in> set tb \<and> r' \<in> set tb \<or> r = r'" by auto
  with assms(1) k show "row_id r = row_id r'" unfolding unique_keys_def by blast
qed

lemma updated_row_id [simp]: "row_id (updated_row row c) = row_id row"
  "row_user_id (updated_row row c) = row_user_id row"
  "row_contract_version (updated_row row c) = c_contract_version c"
  by (simp_all add: updated_row_def row_of_def)

lemma owned_row_id: "owned_row tb i u = Some row \<Longrightarrow> row_id row = i \<and> row_user_id row = u \<and> row \<in> set tb"
  by (auto simp: owned_row_Some dest: row_by_id_Some)

lemma store_inv_commit [inv_intros]:
  assumes "store_inv W pf tb" and "consistent pf c" and "W c"
  shows "store_inv W pf (fst (update_commit db tb u (c, v)))"
proof (cases "update_commit db tb u (c, v)")
  case (Pair tb' res)
  show ?thesis
  proof (cases res)
    case (Inl e)
    with Pair assms(1) update_commit_failed show ?thesis by fastforce
  next
    case (Inr c')
    from update_commitD [OF Pair [unfolded Inr]] obtain row where
      row: "owned_row tb (c_id c) u = Some row" "tb' = replace_row (updated_row row c) tb"
      "\<forall>r \<in> set tb. row_id r \<noteq> c_id c \<longrightarrow> \<not> same_key (updated_row row c) r" by metis
    have id: "row_id row = c_id c" using owned_row_id [OF row(1)] by simp
    have "row_ok W pf (updated_row row c)"
      using row_holds_updated [OF id] assms(2,3) unfolding row_ok_def by blast
    moreover have "unique_keys tb'"
      using assms(1) row(3) id unfolding row(2) by (intro replace_unique_keys) (auto simp: store_inv_def)
    ultimately have "store_inv W pf tb'"
      using assms(1) set_replace_row [of "updated_row row c" tb] row(2) by (auto simp: store_inv_def)
    with Pair show ?thesis by simp
  qed
qed

lemma unique_keys_filter: "unique_keys tb \<Longrightarrow> unique_keys (filter P tb)"
  by (auto simp: unique_keys_def distinct_map_filter_key)

lemma store_inv_delete [inv_intros]: "store_inv W pf tb \<Longrightarrow> store_inv W pf (fst (delete_contract tb i u))"
  by (auto simp: delete_contract_def store_inv_def unique_keys_filter split: option.splits)

section \<open>Interleaved operations\<close>

text \<open>
  Any connection may have prepared its statement on any earlier table \<open>tb0\<close>. \<open>W\<close> is what is known of
  the contracts that are given to the store; with \<open>\<lambda>_. True\<close> they are any at all, with \<open>wf_contract\<close>
  those that \<open>from_dict\<close> accepts and \<open>create_minimal_contract\<close> builds.
\<close>

inductive store_step :: "(skill_contract \<Rightarrow> bool) \<Rightarrow> platform \<Rightarrow> database \<Rightarrow> contract_table \<Rightarrow> contract_table \<Rightarrow> bool"
  for W :: "skill_contract \<Rightarrow> bool" and pf :: platform and db :: database where
  step_insert:
    "persist_prepare pf tb0 ts c u = Inr c1 \<Longrightarrow> W c
     \<Longrightarrow> store_step W pf db tb (fst (persist_insert db tb c1 u))"
| step_update:
    "update_prepare pf tb0 ts c u ev = Inr p \<Longrightarrow> W c
     \<Longrightarrow> store_step W pf db tb (fst (update_commit db tb u p))"
| step_delete: "store_step W pf db tb (fst (delete_contract tb i u))"

inductive store_reachable :: "(skill_contract \<Rightarrow> bool) \<Rightarrow> platform \<Rightarrow> database \<Rightarrow> contract_table \<Rightarrow> bool"
  for W :: "skill_contract \<Rightarrow> bool" and pf :: platform and db :: database where
  reach_empty: "store_reachable W pf db []"
| reach_next: "store_reachable W pf db tb \<Longrightarrow> store_step W pf db tb tb' \<Longrightarrow> store_reachable W pf db tb'"

text \<open>What the store itself changes in a contract before it writes it keeps \<open>W\<close>.\<close>

definition kept_by_store :: "(skill_contract \<Rightarrow> bool) \<Rightarrow> platform \<Rightarrow> bool" where
  "kept_by_store W pf \<longleftrightarrow>
     (\<forall>c ts. W c \<longrightarrow> W (finalize_security_metadata pf (c\<lparr>c_updated_at := ts\<rparr>))) \<and>
     (\<forall>c ts v. W c \<longrightarrow> 1 \<le> v \<longrightarrow>
       W (finalize_security_metadata pf (c\<lparr>c_contract_version := v, c_updated_at := ts\<rparr>)))"

lemma kept_by_store [simp]: "kept_by_store wf_contract pf" "kept_by_store (\<lambda>_. True) pf"
  by (simp_all add: kept_by_store_def)

lemma prepared_update_ok:
  assumes "update_prepare pf tb0 ts c u ev = Inr (c1, v)" and "W c" and "kept_by_store W pf"
  shows "consistent pf c1 \<and> W c1"
proof -
  from update_prepareD [OF assms(1)] obtain row where
    c1: "c1 = finalize_security_metadata pf (c\<lparr>c_contract_version := v + 1, c_updated_at := ts\<rparr>)"
    "consistent pf c1" by metis
  have "1 \<le> v + 1" using consistent_version [OF c1(2)] c1(1) by simp
  with c1 assms(2, 3) show ?thesis by (simp add: kept_by_store_def)
qed

lemma store_inv_step:
  "store_step W pf db tb tb' \<Longrightarrow> kept_by_store W pf \<Longrightarrow> store_inv W pf tb \<Longrightarrow> store_inv W pf tb'"
proof (induction rule: store_step.induct)
  case (step_insert tb0 ts c u c1 tb)
  have "consistent pf c1" "W c1"
    using persist_prepareD [OF step_insert.hyps(1)] step_insert.hyps(2) step_insert.prems(1)
    by (auto simp: kept_by_store_def)
  with step_insert.prems(2) show ?case by (rule store_inv_insert)
next
  case (step_update tb0 ts c u ev p tb)
  then show ?case
    by (cases p) (auto dest: prepared_update_ok intro: store_inv_commit)
next
  case (step_delete tb i u)
  then show ?case by (simp add: store_inv_delete)
qed

lemma store_reachable_inv: "store_reachable W pf db tb \<Longrightarrow> kept_by_store W pf \<Longrightarrow> store_inv W pf tb"
  by (induction rule: store_reachable.induct) (auto intro: store_inv_step)

lemma store_step_any: "store_step W pf db tb tb' \<Longrightarrow> store_step (\<lambda>_. True) pf db tb tb'"
  by (induction rule: store_step.induct) (auto intro: store_step.intros)

lemma store_reachable_any: "store_reachable W pf db tb \<Longrightarrow> store_reachable (\<lambda>_. True) pf db tb"
  by (induction rule: store_reachable.induct) (auto intro: store_reachable.intros store_step_any)

lemma reachable_keys: "store_reachable W pf db tb \<Longrightarrow> unique_keys tb"
  using store_reachable_inv [OF store_reachable_any, of W pf db tb] by (simp add: store_inv_def)

lemma load_rows_ok:
  "list_all2 row_holds rows cs \<Longrightarrow> list_all (consistent pf) cs \<Longrightarrow> list_all wf_contract cs
    \<Longrightarrow> load_rows pf rows = Inr cs"
  by (induction rule: list_all2_induct) (auto simp: load_row_holds)

lemma rows_ok_contracts:
  "\<forall>r \<in> set rows. row_ok W pf r \<Longrightarrow>
     \<exists>cs. list_all2 row_holds rows cs \<and> list_all (consistent pf) cs \<and> list_all W cs"
proof (induction rows)
  case (Cons r rows)
  then obtain c cs where "row_holds r c" "consistent pf c" "W c"
    "list_all2 row_holds rows cs" "list_all (consistent pf) cs" "list_all W cs"
    by (auto simp: row_ok_def)
  then have "list_all2 row_holds (r # rows) (c # cs) \<and> list_all (consistent pf) (c # cs) \<and> list_all W (c # cs)"
    by simp
  then show ?case by blast
qed simp

lemma store_inv_rows:
  assumes "store_inv W pf tb"
  obtains cs where "list_all2 row_holds (filter (\<lambda>r. row_user_id r = u) tb) cs"
    "list_all (consistent pf) cs" "list_all W cs"
proof -
  have "\<forall>r \<in> set (filter (\<lambda>r. row_user_id r = u) tb). row_ok W pf r" using assms by (simp add: store_inv_def)
  from rows_ok_contracts [OF this] that show thesis by blast
qed

text \<open>C2: whatever the interleaving of inserts, updates and deletes of any number of connections,
  and whatever contracts they write, no two rows share an id, a name of one user, or a hypothesis,
  and each row holds, in its columns and its JSON, a contract that the validator accepts and that
  carries its own checksum and the risk level and package type computed from its permissions. If
  the written contracts are well-formed, each of these contracts can also be loaded:
  \<open>get_by_user\<close> skips none of them and raises nothing. Without well-formedness it may raise, as
  \<open>zero_timeout_locks_user_out\<close> shows.\<close>

theorem reachable_store_is_loadable:
  assumes "store_reachable (\<lambda>_. True) pf db tb"
  shows "unique_keys tb \<and> (\<exists>cs. list_all2 row_holds (filter (\<lambda>r. row_user_id r = u) tb) cs
    \<and> list_all (consistent pf) cs \<and> length cs = count_by_user tb u
    \<and> (list_all wf_contract cs \<or> store_reachable wf_contract pf db tb \<longrightarrow> get_by_user pf tb u None = Inr cs))"
proof (cases "store_reachable wf_contract pf db tb")
  case True
  from store_inv_rows [OF store_reachable_inv [OF True kept_by_store(1)], of u] obtain cs where
    cs: "list_all2 row_holds (filter (\<lambda>r. row_user_id r = u) tb) cs" "list_all (consistent pf) cs"
      "list_all wf_contract cs" .
  then show ?thesis using load_rows_ok [OF cs] list_all2_lengthD [OF cs(1)] reachable_keys [OF assms]
    by (auto simp: get_by_user_def count_by_user_def truthy_def)
next
  case False
  from store_inv_rows [OF store_reachable_inv [OF assms kept_by_store(2)], of u] obtain cs where
    cs: "list_all2 row_holds (filter (\<lambda>r. row_user_id r = u) tb) cs" "list_all (consistent pf) cs" .
  then show ?thesis using load_rows_ok [OF cs] list_all2_lengthD [OF cs(1)] reachable_keys [OF assms] False
    by (auto simp: get_by_user_def count_by_user_def truthy_def)
qed

section \<open>Optimistic locking\<close>

text \<open>The token of a contract is the version in its row; a commit carries the version it read.\<close>

definition contract_token :: "contract_table \<Rightarrow> string \<times> int \<Rightarrow> int option" where
  "contract_token tb k = map_option row_contract_version (owned_row tb (fst k) (snd k))"

definition cas_commit ::
    "database \<Rightarrow> contract_table \<Rightarrow> string \<times> int \<Rightarrow> int \<Rightarrow> skill_contract \<Rightarrow> contract_table \<times> bool" where
  "cas_commit db tb k v c =
     (let (tb', r) = update_commit db tb (snd k) (c\<lparr>c_id := fst k, c_contract_version := v + 1\<rparr>, v)
      in (tb', is_ok r))"

lemma owned_row_replace:
  "owned_row tb i u = Some row \<Longrightarrow> row_id new = i \<Longrightarrow> row_user_id new = u
   \<Longrightarrow> owned_row (replace_row new tb) i u = Some new"
  by (auto simp: owned_row_Some row_by_id_replace)

lemma is_ok_iff: "is_ok r \<longleftrightarrow> (\<exists>x. r = Inr x)"
  by (cases r) auto

lemma cas_commit_True:
  assumes "cas_commit db tb k v c = (tb', True)"
  shows "contract_token tb k = Some v \<and> contract_token tb' k = Some (v + 1)"
proof -
  let ?c = "c\<lparr>c_id := fst k, c_contract_version := v + 1\<rparr>"
  obtain x where "update_commit db tb (snd k) (?c, v) = (tb', Inr x)"
    using assms by (auto simp: cas_commit_def is_ok_iff split: prod.splits)
  from update_commitD [OF this] obtain row where
    row: "owned_row tb (fst k) (snd k) = Some row" "row_contract_version row = v"
      "tb' = replace_row (updated_row row ?c) tb" by auto
  have "row_id row = fst k \<and> row_user_id row = snd k" using owned_row_id [OF row(1)] by simp
  with row owned_row_replace [OF row(1), of "updated_row row ?c"] show ?thesis
    by (simp add: contract_token_def)
qed

lemma cas_commit_False: "cas_commit db tb k v c = (tb', False) \<Longrightarrow> tb' = tb"
  by (auto simp: cas_commit_def is_ok_def split: prod.splits sum.splits dest: update_commit_failed)

interpretation contract_lock: versioned_lock contract_token "cas_commit db" for db
  by unfold_locales (auto dest: cas_commit_True cas_commit_False)

lemma cas_commit_prepared:
  assumes "update_prepare pf tb0 ts c u ev = Inr (c1, v)"
  shows "cas_commit db tb (c_id c1, u) v c1 =
    (fst (update_commit db tb u (c1, v)), is_ok (snd (update_commit db tb u (c1, v))))"
proof -
  have "c1\<lparr>c_id := c_id c1, c_contract_version := v + 1\<rparr> = c1"
    using update_prepare_version [OF assms] by simp
  then show ?thesis by (simp add: cas_commit_def split: prod.splits)
qed

text \<open>C6: no lost update. When two connections prepared an update of the same contract against the
  same version, each on whatever table it saw, and the first one's statement has succeeded, the
  second one's is refused and changes nothing, whatever further compare-and-swap updates of the
  contract run in between.\<close>

theorem concurrent_update_has_one_winner:
  assumes "update_prepare pf tb0 ts c u ev = Inr (c1, v)"
    and "update_prepare pf tb2 ts' d u ev' = Inr (c2, v)" and "c_id c2 = c_id c1"
    and "update_commit db tb u (c1, v) = (tb1, Inr c')"
  shows "\<exists>err. update_commit db (fst (contract_lock.run db tb1 (c_id c1, u) cs)) u (c2, v)
    = (fst (contract_lock.run db tb1 (c_id c1, u) cs), Inl err)"
proof -
  let ?tb = "fst (contract_lock.run db tb1 (c_id c1, u) cs)"
  have "cas_commit db tb (c_id c1, u) v c1 = (tb1, True)"
    using cas_commit_prepared [OF assms(1)] assms(4) by simp
  from contract_lock.at_most_one_winner [OF this, of cs c2]
  have "\<not> is_ok (snd (update_commit db ?tb u (c2, v)))"
    using cas_commit_prepared [OF assms(2), of db ?tb] assms(3) by simp
  then obtain err tb' where e: "update_commit db ?tb u (c2, v) = (tb', Inl err)"
    by (metis is_ok_simps(2) prod.collapse sum.exhaust_sel)
  with update_commit_failed [OF e] show ?thesis by blast
qed

section \<open>Create, read, update, delete\<close>

lemma insert_okD:
  assumes "persist_insert db tb c u = (tb', Inr c')"
  shows "c' = c \<and> tb' = tb @ [row_of c u] \<and> (\<forall>r \<in> set tb. row_id r \<noteq> c_id c)"
proof -
  obtain tb1 where "insert_row db (row_of c u) tb = Inr tb1" "c' = c" "tb' = tb1"
    using assms by (auto simp: persist_insert_def split: if_splits sum.splits)
  with insert_rowD [of db "row_of c u" tb tb1] show ?thesis by (simp add: row_of_def)
qed

lemma row_by_id_append_new:
  "\<forall>r \<in> set tb. row_id r \<noteq> row_id new \<Longrightarrow>
     row_by_id (tb @ [new]) i = (if i = row_id new then Some new else row_by_id tb i)"
  by (induction tb) (auto simp: row_by_id_def)

lemma persist_okD:
  assumes "persist pf db tb ts c u = (tb', Inr c')"
  shows "c' = finalize_security_metadata pf (c\<lparr>c_updated_at := ts\<rparr>) \<and> consistent pf c'
    \<and> tb' = tb @ [row_of c' u] \<and> (\<forall>r \<in> set tb. row_id r \<noteq> c_id c)"
proof -
  obtain c1 where p: "persist_prepare pf tb ts c u = Inr c1" "persist_insert db tb c1 u = (tb', Inr c')"
    using assms by (auto simp: persist_def split: sum.splits)
  from persist_prepareD [OF p(1)] insert_okD [OF p(2)] show ?thesis by auto
qed

text \<open>a contract that was persisted is read back: \<open>get_by_id\<close> with checksum verification gives the
  finalised contract, with the new time stamp and the computed risk level, package type and
  checksum, and every other id reads as before.\<close>

theorem persist_then_get:
  assumes "persist pf db tb ts c u = (tb', Inr c')" and "wf_contract c"
  shows "get_by_id pf tb' (c_id c) True = Inr c'
    \<and> c' = finalize_security_metadata pf (c\<lparr>c_updated_at := ts\<rparr>)
    \<and> c_risk_level c' = compute_risk_level (c_permissions c)
    \<and> verify_checksum pf c'
    \<and> (i \<noteq> c_id c \<longrightarrow> get_by_id pf tb' i ver = get_by_id pf tb i ver)"
proof -
  note p = persist_okD [OF assms(1)]
  have rid: "row_id (row_of c' u) = c_id c" using p by (simp add: row_of_def)
  have look: "row_by_id tb' j = (if j = c_id c then Some (row_of c' u) else row_by_id tb j)" for j
    using row_by_id_append_new [of tb "row_of c' u" j] p rid by simp
  have "load_contract_from_row pf (row_of c' u) True = Inr c'"
    using p assms(2) by (intro load_row_holds) auto
  moreover have "verify_checksum pf c'" "c_risk_level c' = compute_risk_level (c_permissions c)"
    using p by (auto simp: verify_checksum_def consistent_def)
  ultimately show ?thesis using look p by (simp add: get_by_id_def)
qed

text \<open>an update that succeeds was made by the owner on the version the caller expected. It
  raises the version by exactly one, the new contract is read back, every other id reads as
  before and no row is added or lost.\<close>

theorem update_then_get:
  assumes "update pf db tb ts c u ev = (tb', Inr c')" and "wf_contract c"
  shows "\<exists>row. owned_row tb (c_id c) u = Some row
    \<and> (ev = None \<or> ev = Some (row_contract_version row))
    \<and> c_contract_version c' = row_contract_version row + 1
    \<and> get_by_id pf tb' (c_id c) True = Inr c'
    \<and> map row_id tb' = map row_id tb
    \<and> (i \<noteq> c_id c \<longrightarrow> get_by_id pf tb' i ver = get_by_id pf tb i ver)"
proof -
  obtain c1 v where p: "update_prepare pf tb ts c u ev = Inr (c1, v)"
    "update_commit db tb u (c1, v) = (tb', Inr c')"
    using assms(1) by (auto simp: update_def split: sum.splits)
  from update_prepareD [OF p(1)] obtain row where row: "owned_row tb (c_id c) u = Some row"
    "v = row_contract_version row" "ev = None \<or> ev = Some v" by metis
  have cid: "c_id c1 = c_id c" using p(1) by (rule update_prepare_id)
  from update_commitD [OF p(2)] row have com: "c' = c1"
    "tb' = replace_row (updated_row row c1) tb" using cid by auto
  have id: "row_id row = c_id c" using owned_row_id [OF row(1)] by simp
  have ok: "consistent pf c1" "wf_contract c1" using prepared_update_ok [where W = wf_contract, OF p(1) assms(2) kept_by_store(1)] by auto
  have "row_by_id tb' (c_id c) = Some (updated_row row c1)"
    using row(1) com(2) id by (simp add: row_by_id_replace owned_row_Some)
  moreover have "load_contract_from_row pf (updated_row row c1) True = Inr c1"
    using ok id cid by (intro load_row_holds row_holds_updated) auto
  moreover have "row_by_id tb' i = row_by_id tb i" if "i \<noteq> c_id c"
    using that com(2) id by (simp add: row_by_id_replace)
  ultimately show ?thesis
    using row com update_prepare_version [OF p(1)] by (auto simp: get_by_id_def)
qed

section \<open>Isolation of the users\<close>

definition rows_of_others :: "contract_table \<Rightarrow> int \<Rightarrow> contract_row list" where
  "rows_of_others tb u = filter (\<lambda>r. row_user_id r \<noteq> u) tb"

lemma filter_map_keep:
  "(\<And>x. x \<in> set xs \<Longrightarrow> P (f x) = P x \<and> (P x \<longrightarrow> f x = x)) \<Longrightarrow> filter P (map f xs) = filter P xs"
  by (induction xs) auto

lemma replace_keeps_others:
  assumes "unique_keys tb" and "row \<in> set tb" and "row_user_id row = u"
    and "row_id new = row_id row" and "row_user_id new = u"
  shows "rows_of_others (replace_row new tb) u = rows_of_others tb u"
  unfolding rows_of_others_def replace_row_def
proof (rule filter_map_keep)
  fix r
  assume r: "r \<in> set tb"
  show "(row_user_id (if row_id r = row_id new then new else r) \<noteq> u) = (row_user_id r \<noteq> u)
      \<and> (row_user_id r \<noteq> u \<longrightarrow> (if row_id r = row_id new then new else r) = r)"
  proof (cases "row_id r = row_id new")
    case True
    then have "r = row"
      using row_by_id_unique [OF assms(1) r] row_by_id_unique [OF assms(1,2)] assms(4)
      by (metis option.inject)
    with assms(3,5) True show ?thesis by auto
  qed simp
qed

lemma commit_keeps_others:
  assumes "unique_keys tb"
  shows "rows_of_others (fst (update_commit db tb u p)) u = rows_of_others tb u"
proof -
  obtain c v where p: "p = (c, v)" by (cases p)
  obtain tb' res where com: "update_commit db tb u (c, v) = (tb', res)" by fastforce
  show ?thesis
  proof (cases res)
    case (Inl e)
    with com p update_commit_failed show ?thesis by fastforce
  next
    case (Inr c')
    from update_commitD [OF com [unfolded Inr]] obtain row where
      row: "owned_row tb (c_id c) u = Some row" "tb' = replace_row (updated_row row c) tb" by metis
    from replace_keeps_others [OF assms, of row u "updated_row row c"] owned_row_id [OF row(1)] com p row
    show ?thesis by simp
  qed
qed

text \<open>A user's operations never touch the contracts of another user: creating, updating and
  deleting leave every row of the others as it is, and an update or delete that names a foreign
  contract is answered as if it did not exist.\<close>

theorem writes_are_isolated:
  assumes "store_reachable W pf db tb"
  shows "rows_of_others (fst (persist pf db tb ts c u)) u = rows_of_others tb u
    \<and> rows_of_others (fst (update pf db tb ts c u ev)) u = rows_of_others tb u
    \<and> rows_of_others (fst (delete_contract tb i u)) u = rows_of_others tb u
    \<and> (\<forall>r. row_by_id tb (c_id c) = Some r \<and> row_user_id r \<noteq> u \<longrightarrow>
         update pf db tb ts c u ev = (tb, Inl ContractNotFound)
         \<and> delete_contract tb (c_id c) u = (tb, False))"
proof -
  note uk = reachable_keys [OF assms]
  have "rows_of_others (fst (persist_insert db tb c1 u)) u = rows_of_others tb u" for c1
    by (auto simp: persist_insert_def rows_of_others_def row_of_def dest!: insert_rowD(1)
        split: sum.splits)
  then have "rows_of_others (fst (persist pf db tb ts c u)) u = rows_of_others tb u"
    by (simp add: persist_def split: sum.splits)
  moreover have "rows_of_others (fst (update pf db tb ts c u ev)) u = rows_of_others tb u"
    using commit_keeps_others [OF uk] by (simp add: update_def split: sum.splits)
  moreover have "rows_of_others (fst (delete_contract tb i u)) u = rows_of_others tb u"
    by (auto simp: delete_contract_def rows_of_others_def split: option.splits intro: filter_cong)
  ultimately show ?thesis
    by (auto simp: update_def update_prepare_def delete_contract_def owned_row_def)
qed

section \<open>Tampering\<close>

lemma load_sound:
  assumes "load_contract_from_row pf r True = Inr c"
  shows "db_json_mismatches r c = [] \<and> row_checksum r = compute_checksum pf c \<and> wf_contract c"
  using assms from_dict_wf
  by (auto simp: load_contract_from_row_def contract_from_json_def assert_db_json_invariant_def
      assert_checksum_def bind_res_eq_Inr Let_def split: stored_json.splits sum.splits if_splits)

text \<open>Tampering with the stored JSON is detected. If the JSON of a stored row is replaced by
  anything and the row still loads with verification, then, as long as the digest does not
  collide on the two texts, the loaded contract has the canonical JSON of the original one: only
  the fields outside the checksum (the signature and its date) can differ.\<close>

theorem json_tampering_is_detected:
  assumes "row_holds r c" and "consistent pf c"
    and "load_contract_from_row pf (r\<lparr>row_contract_json := text\<rparr>) True = Inr c'"
    and "pf_sha256_hex pf (canonical_json pf c') = pf_sha256_hex pf (canonical_json pf c)
         \<Longrightarrow> canonical_json pf c' = canonical_json pf c"
  shows "canonical_json pf c' = canonical_json pf c \<and> verify_checksum pf c'
    \<and> c_id c' = c_id c \<and> c_name c' = c_name c \<and> c_contract_version c' = c_contract_version c"
proof -
  note l = load_sound [OF assms(3)]
  have "row_checksum r = compute_checksum pf c"
    using row_holds_columns(11) [OF assms(1)] assms(2) by (simp add: consistent_def)
  with l have "pf_sha256_hex pf (canonical_json pf c') = pf_sha256_hex pf (canonical_json pf c)"
    by (simp add: compute_checksum_def)
  from assms(4) [OF this] have "canonical_json pf c' = canonical_json pf c" .
  moreover have "c_id c' = c_id c \<and> c_name c' = c_name c
      \<and> c_contract_version c' = c_contract_version c \<and> verify_checksum pf c'"
    using l row_holds_columns [OF assms(1)]
    by (cases "tr_checksum (c_trust c')")
      (auto simp: db_json_mismatches_def verify_checksum_def split: if_splits)
  ultimately show ?thesis by blast
qed

section \<open>A contract that is stored and never loaded\<close>

lemma load_rows_append_error:
  "\<forall>r \<in> set rows. row_ok wf_contract pf r \<Longrightarrow> load_contract_from_row pf r' True = Inl (ContractDeserialization e)
   \<Longrightarrow> load_rows pf (rows @ [r']) = Inl (ContractDeserialization e)"
  by (induction rows) (auto elim!: row_okE)

lemma build_contract_execution_error:
  assumes "build_section build_activation d ''activation'' = Inr a"
    and "build_section build_intent d ''intent'' = Inr i"
    and "build_section build_execution d ''execution'' = Inl e"
  shows "build_contract d = Inl e"
  unfolding build_contract_def assms bind_res_Inr bind_res_Inl by (rule refl)

text \<open>The validator does not check the numeric bounds that the strict deserialiser enforces. A
  contract with an execution timeout of 0 that is otherwise fine is persisted, can never be read
  back, and from then on makes \<open>get_by_user\<close> raise for all contracts of its user, because a
  deserialisation error is not among the errors that the loop skips.\<close>

theorem zero_timeout_locks_user_out:
  assumes "store_reachable wf_contract pf db tb" and "wf_contract c0"
    and "c = c0\<lparr>c_execution := (c_execution c0)\<lparr>exec_timeout_seconds := 0\<rparr>\<rparr>"
    and "persist pf db tb ts c u = (tb', Inr c')"
  shows "get_by_id pf tb' (c_id c) ver
      = Inl (ContractDeserialization (DeserMinimum ''execution.timeout_seconds'' 1 0))
    \<and> get_by_user pf tb' u None
      = Inl (ContractDeserialization (DeserMinimum ''execution.timeout_seconds'' 1 0))"
proof -
  let ?e = "ContractDeserialization (DeserMinimum ''execution.timeout_seconds'' 1 0)"
  note p = persist_okD [OF assms(4)]
  have c': "c_activation c' = c_activation c0" "c_intent c' = c_intent c0"
    "exec_timeout_seconds (c_execution c') = 0"
    using p assms(3) by (simp_all add: finalize_security_metadata_def Let_def)
  have "from_dict (to_dict c') = Inl (DeserMinimum ''execution.timeout_seconds'' 1 0)"
    unfolding to_dict_def from_dict.simps
  proof (rule build_contract_execution_error)
    show "build_section build_activation (contract_items c' (trust_items (c_trust c'))) ''activation''
        = Inr (c_activation c')"
      using c'(1) assms(2) by (intro activation_roundtrip) (simp_all add: contract_items_def wf_contract_def)
    show "build_section build_intent (contract_items c' (trust_items (c_trust c'))) ''intent''
        = Inr (c_intent c')"
      by (rule intent_roundtrip) (simp add: contract_items_def)
    show "build_section build_execution (contract_items c' (trust_items (c_trust c'))) ''execution''
        = Inl (DeserMinimum ''execution.timeout_seconds'' 1 0)"
      using c'(3) by (simp add: build_section_def build_execution_def execution_to_dict_def
          contract_items_def)
  qed
  then have l: "load_contract_from_row pf (row_of c' u) v = Inl ?e" for v
    by (simp add: load_contract_from_row_def contract_from_json_def row_of_def)
  have id: "row_id (row_of c' u) = c_id c" using p by (simp add: row_of_def)
  have inv: "store_inv wf_contract pf tb" using assms(1) by (simp add: store_reachable_inv)
  have "filter (\<lambda>r. row_user_id r = u) tb' = filter (\<lambda>r. row_user_id r = u) tb @ [row_of c' u]"
    using p by (simp add: row_of_def)
  moreover have "\<forall>r \<in> set (filter (\<lambda>r. row_user_id r = u) tb). row_ok wf_contract pf r"
    using inv by (simp add: store_inv_def)
  ultimately have "get_by_user pf tb' u None = Inl ?e"
    using load_rows_append_error l by (simp add: get_by_user_def truthy_def)
  moreover have "row_by_id tb' (c_id c) = Some (row_of c' u)"
    using row_by_id_append_new [of tb "row_of c' u" "c_id c"] p id by simp
  ultimately show ?thesis using l by (simp add: get_by_id_def)
qed

section \<open>Witnesses\<close>

text \<open>
  A platform whose digest always has the right form, an engine that names the first violated
  constraint, and the contract \<open>sample_contract\<close> stored for user 7.
\<close>

definition hex_platform :: platform where
  "hex_platform = \<lparr>pf_float_repr = (\<lambda>_. ''0.5''), pf_sha256_hex = (\<lambda>_. replicate 64 CHR ''a'')\<rparr>"

definition hd_engine :: database where
  "hd_engine = \<lparr>db_report = hd\<rparr>"

abbreviation finalized :: "skill_contract \<Rightarrow> skill_contract" where
  "finalized c \<equiv> finalize_security_metadata hex_platform (c\<lparr>c_updated_at := ''t''\<rparr>)"

definition sample_table :: contract_table where
  "sample_table = [row_of (finalized sample_contract) 7]"

lemma hex_checksum [simp]: "compute_checksum hex_platform c = replicate 64 CHR ''a''"
  by (simp add: compute_checksum_def hex_platform_def)

lemma hex_ok: "hex_pattern_match (replicate 64 CHR ''a'')"
  by (simp add: hex_pattern_match_def list_all_iff is_hex_digit_def)

lemma finalize_hex:
  "finalize_security_metadata hex_platform c =
     c\<lparr>c_store_meta := (c_store_meta c)\<lparr>sm_package_type := compute_package_type (c_permissions c)\<rparr>,
       c_risk_level := compute_risk_level (c_permissions c),
       c_trust := (c_trust c)\<lparr>tr_checksum := Some (replicate 64 CHR ''a'')\<rparr>\<rparr>"
  by (simp add: finalize_security_metadata_def Let_def)

text \<open>The sample contract with another timeout and version.\<close>

definition sample_at :: "int \<Rightarrow> int \<Rightarrow> skill_contract" where
  "sample_at t v = sample_contract
     \<lparr>c_execution := (c_execution sample_contract)\<lparr>exec_timeout_seconds := t\<rparr>,
      c_contract_version := v\<rparr>"

lemma sample_at_simps [simp]:
  "sample_at 30 1 = sample_contract"
  "sample_at 30 2 = sample_contract\<lparr>c_contract_version := 2\<rparr>"
  "c_contract_version (sample_at t v) = v" "c_schema_version (sample_at t v) = 2"
  by (simp_all add: sample_at_def sample_defs)

lemma sample_at_valid:
  "1 \<le> v \<Longrightarrow> (\<forall>w. ov = Some w \<longrightarrow> w \<le> v) \<Longrightarrow>
   is_valid (validate (finalized (sample_at t v)) ov (Some 2) (Some v))"
  unfolding finalize_hex sample_at_def using hex_ok
  by (simp add: sample_defs admissible_defs)

lemma persist_into_empty:
  assumes "is_valid (validate (finalized c) None (Some (c_schema_version c)) (Some (c_contract_version c)))"
    and "c_contract_version c = 1"
  shows "persist hex_platform hd_engine [] ''t'' c u = ([row_of (finalized c) u], Inr (finalized c))"
  using assms
  by (simp add: persist_def persist_prepare_def persist_insert_def exists_by_name_def insert_row_def
      index_violations_def fits_int64_def Let_def)

lemma sample_fields [simp]: "c_contract_version sample_contract = 1" "c_schema_version sample_contract = 2"
  by (simp_all add: sample_defs)

lemma sample_persist:
  "persist hex_platform hd_engine [] ''t'' sample_contract 7
     = (sample_table, Inr (finalized sample_contract))"
  unfolding sample_table_def using sample_at_valid [of 1 None 30]
  by (intro persist_into_empty) simp_all

lemma sample_wf [simp]: "wf_contract sample_contract"
  using default_wf by (simp add: sample_contract_def create_minimal_contract_def wf_contract_def
      wf_activation_def wf_execution_def default_contract_def)

lemma sample_reachable: "store_reachable wf_contract hex_platform hd_engine sample_table"
proof -
  obtain c1 where p: "persist_prepare hex_platform [] ''t'' sample_contract 7 = Inr c1"
    "fst (persist_insert hd_engine [] c1 7) = sample_table"
    using sample_persist by (auto simp: persist_def split: sum.splits)
  from store_step.step_insert [where W = wf_contract, OF p(1) sample_wf, where tb = "[]" and db = hd_engine] p(2) show ?thesis
    by (auto intro: store_reachable.intros)
qed

abbreviation "sample_next \<equiv> finalize_security_metadata hex_platform
  (sample_contract\<lparr>c_contract_version := 2, c_updated_at := ''t''\<rparr>)"

lemma sample_owned: "owned_row sample_table (c_id sample_contract) 7 = Some (row_of (finalized sample_contract) 7)"
  by (simp add: sample_table_def owned_row_def row_by_id_def row_of_def)

lemma sample_update_prepare:
  "update_prepare hex_platform sample_table ''t'' sample_contract 7 None = Inr (sample_next, 1)"
  unfolding update_prepare_def sample_owned using sample_at_valid [of 2 "Some 1" 30]
  by (simp add: row_of_def Let_def)

lemma sample_update_commit:
  "update_commit hd_engine sample_table 7 (sample_next, 1)
     = (fst (update_commit hd_engine sample_table 7 (sample_next, 1)), Inr sample_next)"
  by (simp add: update_commit_def sample_owned)
    (simp add: sample_table_def index_violations_def row_of_def updated_row_def fits_int64_def Let_def)

theorem reachable_store_is_loadable_witness:
  "\<exists>cs. get_by_user hex_platform sample_table 7 None = Inr cs \<and> length cs = count_by_user sample_table 7"
  using reachable_store_is_loadable [OF store_reachable_any [OF sample_reachable], of 7] sample_reachable by blast

theorem concurrent_update_has_one_winner_witness:
  "\<exists>err. snd (update_commit hd_engine (fst (update_commit hd_engine sample_table 7 (sample_next, 1)))
     7 (sample_next, 1)) = Inl err"
  using concurrent_update_has_one_winner
    [OF sample_update_prepare sample_update_prepare refl sample_update_commit, of "[]"] by auto

theorem persist_then_get_witness:
  "get_by_id hex_platform sample_table (c_id sample_contract) True = Inr (finalized sample_contract)"
  using persist_then_get [OF sample_persist sample_wf] by blast

theorem update_then_get_witness:
  "\<exists>tb'. update hex_platform hd_engine sample_table ''t'' sample_contract 7 None = (tb', Inr sample_next)
     \<and> get_by_id hex_platform tb' (c_id sample_contract) True = Inr sample_next"
proof -
  have "update hex_platform hd_engine sample_table ''t'' sample_contract 7 None
      = (fst (update_commit hd_engine sample_table 7 (sample_next, 1)), Inr sample_next)"
    unfolding update_def sample_update_prepare using sample_update_commit by simp
  with update_then_get [OF this sample_wf] show ?thesis by blast
qed

theorem writes_are_isolated_witness:
  "update hex_platform hd_engine sample_table ''t'' sample_contract 8 None
     = (sample_table, Inl ContractNotFound)"
  using writes_are_isolated [OF sample_reachable, of "''t''" sample_contract 8 None] sample_owned
  by (auto simp: owned_row_Some row_of_def)

theorem zero_timeout_locks_user_out_witness:
  "\<exists>tb' c'. persist hex_platform hd_engine [] ''t'' (sample_at 0 1) 7 = (tb', Inr c')
     \<and> (\<exists>e. get_by_user hex_platform tb' 7 None = Inl e)"
proof -
  have p: "persist hex_platform hd_engine [] ''t'' (sample_at 0 1) 7
      = ([row_of (finalized (sample_at 0 1)) 7], Inr (finalized (sample_at 0 1)))"
    using sample_at_valid [of 1 None 0] by (intro persist_into_empty) simp_all
  have c: "sample_at 0 1 = sample_contract
      \<lparr>c_execution := (c_execution sample_contract)\<lparr>exec_timeout_seconds := 0\<rparr>\<rparr>"
    by (simp add: sample_at_def sample_defs)
  from zero_timeout_locks_user_out [OF reach_empty sample_wf c p] p show ?thesis by blast
qed

theorem json_tampering_is_detected_witness:
  "\<exists>c'. c' \<noteq> finalized sample_contract
     \<and> load_contract_from_row hex_platform
         ((row_of (finalized sample_contract) 7)\<lparr>row_contract_json := JsonText (to_dict c')\<rparr>) True
       = Inr c'
     \<and> canonical_json hex_platform c' = canonical_json hex_platform (finalized sample_contract)"
proof -
  let ?c = "finalized sample_contract"
  let ?s = "?c\<lparr>c_trust := (c_trust ?c)\<lparr>tr_signature := Some ''YWJj''\<rparr>\<rparr>"
  let ?r = "(row_of ?c 7)\<lparr>row_contract_json := JsonText (to_dict ?s)\<rparr>"
  have ok: "consistent hex_platform ?c" using persist_okD [OF sample_persist] by blast
  have k: "tr_checksum (c_trust ?c) = Some (replicate 64 CHR ''a'')" by (simp add: finalize_hex)
  have wf: "wf_contract ?s" using sample_wf by (simp add: wf_contract_def finalize_hex)
  have m: "db_json_mismatches ?r ?s = []"
    by (simp add: db_json_mismatches_def row_of_def k)
  have l: "load_contract_from_row hex_platform ?r True = Inr ?s"
    using from_dict_to_dict [OF wf] m k
    by (simp add: load_contract_from_row_def contract_from_json_def assert_db_json_invariant_def
        assert_checksum_def truthy_def row_of_def)
  have can: "canonical_json hex_platform ?s = canonical_json hex_platform ?c"
    by (rule canonical_json_trust_cong [OF refl]) simp_all
  have "canonical_json hex_platform ?s = canonical_json hex_platform ?c"
    using json_tampering_is_detected [OF row_holds_of ok l can] by blast
  moreover have "tr_signature (c_trust ?s) \<noteq> tr_signature (c_trust ?c)"
    by (simp add: finalize_hex sample_defs)
  then have "?s \<noteq> ?c" by metis
  ultimately show ?thesis using l by blast
qed

end
