(* ===== verification/HypothesisStorage.thy ===== *)
theory HypothesisStorage
  imports PyText ContractStore
begin

text \<open>
  \<open>hypothesis_storage.py\<close>: the seven tables of learned hypotheses and the operations on them. A
  table is the list of its rows in rowid order. The primary keys, the foreign keys with their
  cascade and the \<open>NOT NULL\<close> of the float columns (SQLite stores a NaN as \<open>NULL\<close>) are checked by
  the inserts. The connection is in autocommit mode, so every SQL statement is a step of its
  own. Integers are not bounded to the 64 bits of a column. Generated ids, \<open>now()\<close> and the text
  of \<open>format(x, '.1f')\<close> are arguments.
\<close>

section \<open>Scope\<close>

text \<open>
  The fields of a scope are what \<open>json.loads\<close> returned, of any type; only strings are written by
  the application.
\<close>

record hypothesis_scope =
  hs_project :: json
  hs_client :: json
  hs_context :: "json list"

definition default_hypothesis_scope :: hypothesis_scope where
  "default_hypothesis_scope = \<lparr>hs_project = JStr [], hs_client = JStr [], hs_context = []\<rparr>"

definition text_scope :: "string \<Rightarrow> string \<Rightarrow> string list \<Rightarrow> hypothesis_scope" where
  "text_scope project client context =
     \<lparr>hs_project = JStr project, hs_client = JStr client, hs_context = map JStr context\<rparr>"

text \<open>\<open>to_json\<close>; the keys are sorted, and nested values of other types are not met.\<close>

definition scope_to_json :: "hypothesis_scope \<Rightarrow> stored_json" where
  "scope_to_json s =
     JsonText (JObj [(''client'', hs_client s), (''context'', JList (hs_context s)),
                     (''project'', hs_project s)])"

datatype hypothesis_error =
    IntegrityError
  | AttributeError
  | HypothesisNotFound string
  | InvalidStatusTransition string string string
  | ContractViolation string

text \<open>\<open>tuple(v)\<close> of a JSON value: \<open>None\<close> stands for the \<open>TypeError\<close> of a value that is no iterable.\<close>

fun py_tuple :: "json \<Rightarrow> json list option" where
  "py_tuple (JList xs) = Some xs"
| "py_tuple (JStr s) = Some (map (\<lambda>c. JStr [c]) s)"
| "py_tuple (JObj d) = Some (map (JStr \<circ> fst) d)"
| "py_tuple _ = None"

text \<open>A text that is not JSON and a context that is no sequence give the default scope.\<close>

definition scope_from_json :: "stored_json \<Rightarrow> hypothesis_error + hypothesis_scope" where
  "scope_from_json raw =
     (case raw of
        Malformed \<Rightarrow> Inr default_hypothesis_scope
      | JsonText (JObj data) \<Rightarrow>
          (case py_tuple (dget data ''context'' (JList [])) of
             None \<Rightarrow> Inr default_hypothesis_scope
           | Some ctx \<Rightarrow> Inr \<lparr>hs_project = dget data ''project'' (JStr []),
                             hs_client = dget data ''client'' (JStr []), hs_context = ctx\<rparr>)
      | JsonText _ \<Rightarrow> Inl AttributeError)"

lemma hypothesis_scope_roundtrip [simp]: "scope_from_json (scope_to_json s) = Inr s"
  by (simp add: scope_from_json_def scope_to_json_def)

section \<open>Records and tables\<close>

record hypothesis =
  h_hypothesis_id :: string
  h_user_id :: int
  h_type :: string
  h_scope :: hypothesis_scope
  h_claim :: string
  h_status :: string
  h_version :: int
  h_elo_rating :: pyfloat
  h_elo_games_played :: int
  h_bayes_confidence :: pyfloat
  h_support_count :: int
  h_contradict_count :: int
  h_last_contradiction_at :: "string option"
  h_fsrs_state_json :: string
  h_source_type :: string
  h_decay_immune :: bool
  h_evidence_ids :: "string list"
  h_created_at :: string
  h_last_applied :: "string option"
  h_last_seen :: string
  h_approval_state :: string
  h_pattern_hash :: "string option"
  h_scope_hash :: "string option"

definition default_hypothesis :: hypothesis where
  "default_hypothesis =
     \<lparr>h_hypothesis_id = [], h_user_id = 0, h_type = ''request'', h_scope = default_hypothesis_scope,
      h_claim = [], h_status = ''candidate'', h_version = 1, h_elo_rating = PFin 1500,
      h_elo_games_played = 0, h_bayes_confidence = PFin (1 / 2), h_support_count = 0,
      h_contradict_count = 0, h_last_contradiction_at = None, h_fsrs_state_json = ''{}'',
      h_source_type = ''live_chat'', h_decay_immune = False, h_evidence_ids = [],
      h_created_at = [], h_last_applied = None, h_last_seen = [],
      h_approval_state = ''pending'', h_pattern_hash = None, h_scope_hash = None\<rparr>"

record hypothesis_row =
  hr_hypothesis_id :: string
  hr_user_id :: int
  hr_type :: string
  hr_scope_json :: stored_json
  hr_claim :: string
  hr_status :: string
  hr_version :: int
  hr_elo_rating :: pyfloat
  hr_elo_games_played :: int
  hr_bayes_confidence :: pyfloat
  hr_support_count :: int
  hr_contradict_count :: int
  hr_last_contradiction_at :: "string option"
  hr_fsrs_state_json :: string
  hr_source_type :: string
  hr_decay_immune :: int
  hr_created_at :: string
  hr_last_applied :: "string option"
  hr_last_seen :: string
  hr_approval_state :: string
  hr_pattern_hash :: "string option"
  hr_scope_hash :: "string option"

record alias_row =
  al_alias_id :: string
  al_hypothesis_id :: string
  al_alias_text :: string
  al_confidence :: pyfloat
  al_evidence_count :: int
  al_first_seen :: string
  al_last_seen :: string

record evidence_row =
  er_evidence_id :: string
  er_hypothesis_id :: string
  er_hypothesis_version :: int
  er_episode_id :: "string option"
  er_request_id :: "string option"
  er_response_id :: "string option"
  er_signal_type :: string
  er_signal_strength :: pyfloat
  er_created_at :: string

record version_row =
  vr_version_id :: string
  vr_hypothesis_id :: string
  vr_version :: int
  vr_claim :: string
  vr_elo_rating_at_save :: pyfloat
  vr_change_reason :: "string option"
  vr_predecessor_context :: "string option"
  vr_created_at :: string
  vr_deprecated_at :: "string option"

record tombstone_row =
  ts_tombstone_id :: string
  ts_hypothesis_id :: string
  ts_fingerprint :: string
  ts_scope_hash :: "string option"
  ts_deleted_at :: string
  ts_expires_at :: "string option"
  ts_permanent :: int

record eval_row =
  el_eval_id :: string
  el_hypothesis_id :: string
  el_example_input :: string
  el_example_output :: string
  el_was_correct :: "int option"
  el_last_evaluated :: "string option"

record difficulty_row =
  df_fingerprint_hash :: string
  df_difficulty_rating :: pyfloat
  df_games_played :: int
  df_last_updated :: string

record hypothesis_db =
  db_hypotheses :: "hypothesis_row list"
  db_aliases :: "alias_row list"
  db_evidence :: "evidence_row list"
  db_versions :: "version_row list"
  db_tombstones :: "tombstone_row list"
  db_eval_set :: "eval_row list"
  db_difficulty :: "difficulty_row list"

text \<open>The seven empty tables.\<close>

definition init_schema :: hypothesis_db where
  "init_schema = \<lparr>db_hypotheses = [], db_aliases = [], db_evidence = [], db_versions = [],
                  db_tombstones = [], db_eval_set = [], db_difficulty = []\<rparr>"

definition hypothesis_to_row :: "hypothesis \<Rightarrow> hypothesis_row" where
  "hypothesis_to_row h =
     \<lparr>hr_hypothesis_id = h_hypothesis_id h, hr_user_id = h_user_id h, hr_type = h_type h,
      hr_scope_json = scope_to_json (h_scope h), hr_claim = h_claim h, hr_status = h_status h,
      hr_version = h_version h, hr_elo_rating = h_elo_rating h,
      hr_elo_games_played = h_elo_games_played h, hr_bayes_confidence = h_bayes_confidence h,
      hr_support_count = h_support_count h, hr_contradict_count = h_contradict_count h,
      hr_last_contradiction_at = h_last_contradiction_at h,
      hr_fsrs_state_json = h_fsrs_state_json h, hr_source_type = h_source_type h,
      hr_decay_immune = (if h_decay_immune h then 1 else 0), hr_created_at = h_created_at h,
      hr_last_applied = h_last_applied h, hr_last_seen = h_last_seen h,
      hr_approval_state = h_approval_state h, hr_pattern_hash = h_pattern_hash h,
      hr_scope_hash = h_scope_hash h\<rparr>"

definition row_to_hypothesis :: "hypothesis_row \<Rightarrow> hypothesis_error + hypothesis" where
  "row_to_hypothesis r =
     bind_res (scope_from_json (hr_scope_json r)) (\<lambda>scope. Inr
     \<lparr>h_hypothesis_id = hr_hypothesis_id r, h_user_id = hr_user_id r, h_type = hr_type r,
      h_scope = scope, h_claim = hr_claim r, h_status = hr_status r,
      h_version = hr_version r, h_elo_rating = hr_elo_rating r,
      h_elo_games_played = hr_elo_games_played r, h_bayes_confidence = hr_bayes_confidence r,
      h_support_count = hr_support_count r, h_contradict_count = hr_contradict_count r,
      h_last_contradiction_at = hr_last_contradiction_at r,
      h_fsrs_state_json = hr_fsrs_state_json r, h_source_type = hr_source_type r,
      h_decay_immune = (hr_decay_immune r \<noteq> 0), h_evidence_ids = [],
      h_created_at = hr_created_at r, h_last_applied = hr_last_applied r,
      h_last_seen = hr_last_seen r, h_approval_state = hr_approval_state r,
      h_pattern_hash = hr_pattern_hash r, h_scope_hash = hr_scope_hash r\<rparr>)"

lemma row_roundtrip [simp]:
  "row_to_hypothesis (hypothesis_to_row h) = Inr (h\<lparr>h_evidence_ids := []\<rparr>)"
  by (simp add: row_to_hypothesis_def hypothesis_to_row_def)

section \<open>Status machine\<close>

definition allowed_transitions :: "(string \<times> string list) list" where
  "allowed_transitions =
     [(''candidate'', [''suggested'', ''archived'', ''retired'']),
      (''suggested'', [''confirmed'', ''archived'', ''needs_review'']),
      (''confirmed'', [''active'', ''paused'', ''needs_review'', ''archived'']),
      (''active'', [''paused'', ''needs_review'']),
      (''needs_review'', [''confirmed'', ''archived'', ''retired'']),
      (''paused'', [''active'', ''archived'', ''retired'']),
      (''archived'', [''retired'']),
      (''retired'', [])]"

definition allowed_targets :: "string \<Rightarrow> string list" where
  "allowed_targets s = (case map_of allowed_transitions s of None \<Rightarrow> [] | Some ts \<Rightarrow> ts)"

definition allowed_statuses :: "string list" where
  "allowed_statuses = map fst allowed_transitions @ concat (map snd allowed_transitions)"

section \<open>Hypotheses\<close>

definition not_nan :: "pyfloat \<Rightarrow> bool" where
  "not_nan x = (x \<noteq> PNaN)"

definition hypothesis_exists :: "hypothesis_db \<Rightarrow> string \<Rightarrow> bool" where
  "hypothesis_exists db i = list_ex (\<lambda>r. hr_hypothesis_id r = i) (db_hypotheses db)"

definition insert_hypothesis ::
    "hypothesis_db \<Rightarrow> hypothesis \<Rightarrow> hypothesis_error + hypothesis_db" where
  "insert_hypothesis db h =
     (if \<not> not_nan (h_elo_rating h) \<or> \<not> not_nan (h_bayes_confidence h)
         \<or> hypothesis_exists db (h_hypothesis_id h)
      then Inl IntegrityError
      else Inr (db\<lparr>db_hypotheses := db_hypotheses db @ [hypothesis_to_row h]\<rparr>))"

definition hypothesis_row_by_id :: "hypothesis_db \<Rightarrow> string \<Rightarrow> hypothesis_row option" where
  "hypothesis_row_by_id db i = find (\<lambda>r. hr_hypothesis_id r = i) (db_hypotheses db)"

definition get_hypothesis ::
    "hypothesis_db \<Rightarrow> string \<Rightarrow> hypothesis_error + hypothesis option" where
  "get_hypothesis db i =
     (case hypothesis_row_by_id db i of
        None \<Rightarrow> Inr None
      | Some r \<Rightarrow> bind_res (row_to_hypothesis r) (\<lambda>h. Inr (Some h)))"

fun rows_to_hypotheses :: "hypothesis_row list \<Rightarrow> hypothesis_error + hypothesis list" where
  "rows_to_hypotheses [] = Inr []"
| "rows_to_hypotheses (r # rs) =
     bind_res (row_to_hypothesis r) (\<lambda>h. bind_res (rows_to_hypotheses rs) (\<lambda>hs. Inr (h # hs)))"

definition get_hypotheses_by_user ::
    "hypothesis_db \<Rightarrow> int \<Rightarrow> string option \<Rightarrow> int \<Rightarrow> hypothesis_error + hypothesis list" where
  "get_hypotheses_by_user db user_id status limit =
     (let rows = (case status of
                    Some s \<Rightarrow> filter (\<lambda>r. hr_user_id r = user_id \<and> hr_status r = s) (db_hypotheses db)
                  | None \<Rightarrow> filter (\<lambda>r. hr_user_id r = user_id) (db_hypotheses db))
      in rows_to_hypotheses (sql_limit limit (order_desc hr_last_seen rows)))"

definition count_active_hypotheses :: "hypothesis_db \<Rightarrow> int \<Rightarrow> int" where
  "count_active_hypotheses db user_id =
     int (length (filter (\<lambda>r. hr_user_id r = user_id \<and> hr_status r = ''active'') (db_hypotheses db)))"

text \<open>\<open>UPDATE hypotheses SET ... WHERE hypothesis_id = ?\<close>\<close>

definition update_rows ::
    "string \<Rightarrow> (hypothesis_row \<Rightarrow> hypothesis_row) \<Rightarrow> hypothesis_db \<Rightarrow> hypothesis_db" where
  "update_rows i f db =
     db\<lparr>db_hypotheses := map (\<lambda>r. if hr_hypothesis_id r = i then f r else r) (db_hypotheses db)\<rparr>"

definition set_status :: "string \<Rightarrow> hypothesis_row \<Rightarrow> hypothesis_row" where
  "set_status s r = r\<lparr>hr_status := s\<rparr>"

definition update_hypothesis_status :: "hypothesis_db \<Rightarrow> string \<Rightarrow> string \<Rightarrow> hypothesis_db" where
  "update_hypothesis_status db i status = update_rows i (set_status status) db"

text \<open>
  The decorators check two preconditions and raise the same exception class for both. When both
  are violated the model reports the status.
\<close>

definition transition_hypothesis_status ::
    "hypothesis_db \<Rightarrow> string \<Rightarrow> string \<Rightarrow> bool \<Rightarrow> hypothesis_error + hypothesis_db" where
  "transition_hypothesis_status db i new_status force =
     (if \<not> List.member allowed_statuses new_status
      then Inl (ContractViolation ''new_status must be a valid status from ALLOWED_STATUSES'')
      else if \<not> py_nonblank i
      then Inl (ContractViolation ''hypothesis_id must not be empty'')
      else if force then Inr (update_rows i (set_status new_status) db)
      else bind_res (get_hypothesis db i) (\<lambda>current.
        case current of
          None \<Rightarrow> Inl (HypothesisNotFound i)
        | Some h \<Rightarrow>
            if \<not> List.member (allowed_targets (h_status h)) new_status
            then Inl (InvalidStatusTransition i (h_status h) new_status)
            else Inr (update_rows i (set_status new_status) db)))"

definition update_hypothesis_elo ::
    "hypothesis_db \<Rightarrow> string \<Rightarrow> pyfloat \<Rightarrow> int \<Rightarrow> hypothesis_error + hypothesis_db" where
  "update_hypothesis_elo db i new_elo_rating increment_games =
     (if \<not> not_nan new_elo_rating \<and> hypothesis_exists db i then Inl IntegrityError
      else Inr (update_rows i (\<lambda>r. r\<lparr>hr_elo_rating := new_elo_rating,
                 hr_elo_games_played := hr_elo_games_played r + increment_games\<rparr>) db))"

text \<open>Each assignment is part of the statement only when its argument is given (counts: not zero).\<close>

definition update_hypothesis_support ::
    "hypothesis_db \<Rightarrow> string \<Rightarrow> int \<Rightarrow> int \<Rightarrow> string option \<Rightarrow> string option \<Rightarrow> hypothesis_db" where
  "update_hypothesis_support db i increment_support increment_contradict last_seen
       last_contradiction_at =
     update_rows i (\<lambda>r.
       r\<lparr>hr_support_count := hr_support_count r + increment_support,
         hr_contradict_count := hr_contradict_count r + increment_contradict,
         hr_last_seen := (case last_seen of None \<Rightarrow> hr_last_seen r | Some t \<Rightarrow> t),
         hr_last_contradiction_at :=
           (case last_contradiction_at of None \<Rightarrow> hr_last_contradiction_at r | Some t \<Rightarrow> Some t)\<rparr>) db"

definition update_hypothesis_last_applied :: "hypothesis_db \<Rightarrow> string \<Rightarrow> string \<Rightarrow> hypothesis_db" where
  "update_hypothesis_last_applied db i last_applied =
     update_rows i (\<lambda>r. r\<lparr>hr_last_applied := Some last_applied\<rparr>) db"

section \<open>Evidence, tombstones, difficulty, evaluation examples, aliases\<close>

text \<open>The foreign key of a child row must exist in \<open>hypotheses\<close>; the pragma is on.\<close>

definition insert_evidence ::
    "hypothesis_db \<Rightarrow> evidence_row \<Rightarrow> hypothesis_error + hypothesis_db" where
  "insert_evidence db e =
     (if \<not> not_nan (er_signal_strength e)
         \<or> list_ex (\<lambda>x. er_evidence_id x = er_evidence_id e) (db_evidence db)
         \<or> \<not> hypothesis_exists db (er_hypothesis_id e)
      then Inl IntegrityError
      else Inr (db\<lparr>db_evidence := db_evidence db @ [e]\<rparr>))"

definition get_evidence_for_hypothesis ::
    "hypothesis_db \<Rightarrow> string \<Rightarrow> int option \<Rightarrow> evidence_row list" where
  "get_evidence_for_hypothesis db i version =
     order_desc er_created_at
       (case version of
          Some v \<Rightarrow> filter (\<lambda>e. er_hypothesis_id e = i \<and> er_hypothesis_version e = v) (db_evidence db)
        | None \<Rightarrow> filter (\<lambda>e. er_hypothesis_id e = i) (db_evidence db))"

definition insert_tombstone ::
    "hypothesis_db \<Rightarrow> string \<Rightarrow> string \<Rightarrow> string \<Rightarrow> string \<Rightarrow> string option \<Rightarrow> string option \<Rightarrow> bool
       \<Rightarrow> hypothesis_error + hypothesis_db" where
  "insert_tombstone db tombstone_id hypothesis_id fingerprint deleted_at scope_hash expires_at
       permanent =
     (if list_ex (\<lambda>x. ts_tombstone_id x = tombstone_id) (db_tombstones db) then Inl IntegrityError
      else Inr (db\<lparr>db_tombstones := db_tombstones db @
        [\<lparr>ts_tombstone_id = tombstone_id, ts_hypothesis_id = hypothesis_id,
          ts_fingerprint = fingerprint, ts_scope_hash = scope_hash, ts_deleted_at = deleted_at,
          ts_expires_at = expires_at, ts_permanent = (if permanent then 1 else 0)\<rparr>]\<rparr>))"

text \<open>
  \<open>datetime('now')\<close> is the text \<open>YYYY-MM-DD HH:MM:SS\<close>, and the comparison is one of texts; a \<open>NULL\<close>
  expiry is never greater.
\<close>

definition check_tombstone :: "hypothesis_db \<Rightarrow> string \<Rightarrow> string \<Rightarrow> bool" where
  "check_tombstone db sql_now fingerprint =
     list_ex (\<lambda>x. ts_fingerprint x = fingerprint
       \<and> (ts_permanent x = 1 \<or> (case ts_expires_at x of None \<Rightarrow> False | Some t \<Rightarrow> sql_now < t)))
       (db_tombstones db)"

text \<open>\<open>INSERT OR REPLACE\<close> deletes the row with the same key and appends the new one.\<close>

definition upsert_pattern_difficulty ::
    "hypothesis_db \<Rightarrow> string \<Rightarrow> pyfloat \<Rightarrow> int \<Rightarrow> string \<Rightarrow> hypothesis_error + hypothesis_db" where
  "upsert_pattern_difficulty db fingerprint_hash difficulty_rating games_played last_updated =
     (let d = (if not_nan difficulty_rating then difficulty_rating else PFin 1500)
      in Inr (db\<lparr>db_difficulty :=
           filter (\<lambda>x. df_fingerprint_hash x \<noteq> fingerprint_hash) (db_difficulty db) @
           [\<lparr>df_fingerprint_hash = fingerprint_hash, df_difficulty_rating = d,
             df_games_played = games_played, df_last_updated = last_updated\<rparr>]\<rparr>))"

definition get_pattern_difficulty :: "hypothesis_db \<Rightarrow> string \<Rightarrow> difficulty_row option" where
  "get_pattern_difficulty db fingerprint_hash =
     find (\<lambda>x. df_fingerprint_hash x = fingerprint_hash) (db_difficulty db)"

definition insert_eval_example ::
    "hypothesis_db \<Rightarrow> string \<Rightarrow> string \<Rightarrow> string \<Rightarrow> string \<Rightarrow> hypothesis_error + hypothesis_db" where
  "insert_eval_example db eval_id hypothesis_id example_input example_output =
     (if list_ex (\<lambda>x. el_eval_id x = eval_id) (db_eval_set db) \<or> \<not> hypothesis_exists db hypothesis_id
      then Inl IntegrityError
      else Inr (db\<lparr>db_eval_set := db_eval_set db @
        [\<lparr>el_eval_id = eval_id, el_hypothesis_id = hypothesis_id, el_example_input = example_input,
          el_example_output = example_output, el_was_correct = None, el_last_evaluated = None\<rparr>]\<rparr>))"

definition insert_alias :: "hypothesis_db \<Rightarrow> alias_row \<Rightarrow> hypothesis_error + hypothesis_db" where
  "insert_alias db a =
     (if \<not> not_nan (al_confidence a) \<or> list_ex (\<lambda>x. al_alias_id x = al_alias_id a) (db_aliases db)
         \<or> \<not> hypothesis_exists db (al_hypothesis_id a)
      then Inl IntegrityError
      else Inr (db\<lparr>db_aliases := db_aliases db @ [a]\<rparr>))"

section \<open>Versions\<close>

definition insert_version :: "hypothesis_db \<Rightarrow> version_row \<Rightarrow> hypothesis_error + hypothesis_db" where
  "insert_version db v =
     (if \<not> not_nan (vr_elo_rating_at_save v)
         \<or> list_ex (\<lambda>x. vr_version_id x = vr_version_id v) (db_versions db)
         \<or> \<not> hypothesis_exists db (vr_hypothesis_id v)
      then Inl IntegrityError
      else Inr (db\<lparr>db_versions := db_versions db @ [v]\<rparr>))"

definition predecessor_text :: "(pyfloat \<Rightarrow> string) \<Rightarrow> hypothesis \<Rightarrow> string" where
  "predecessor_text fmt1 current =
     ''Predecessor v'' @ int_decimal (h_version current) @ '': '' @ h_claim current @ ''. '' @
     ''Elo at archive: '' @ fmt1 (h_elo_rating current) @ '', '' @
     ''support: '' @ int_decimal (h_support_count current) @ '', '' @
     ''contradict: '' @ int_decimal (h_contradict_count current) @ ''.''"

definition mark_deprecated :: "string \<Rightarrow> string \<Rightarrow> hypothesis_db \<Rightarrow> hypothesis_db" where
  "mark_deprecated now_iso version_id db =
     db\<lparr>db_versions := map (\<lambda>v. if vr_version_id v = version_id
          then v\<lparr>vr_deprecated_at := Some now_iso\<rparr> else v) (db_versions db)\<rparr>"

definition new_version_row :: "string \<Rightarrow> int \<Rightarrow> string \<Rightarrow> hypothesis_row \<Rightarrow> hypothesis_row" where
  "new_version_row new_claim new_version now_iso r =
     r\<lparr>hr_claim := new_claim, hr_version := new_version, hr_elo_rating := PFin 1500,
       hr_elo_games_played := 0, hr_bayes_confidence := PFin (1 / 2),
       hr_support_count := 0, hr_contradict_count := 0, hr_last_contradiction_at := None,
       hr_status := ''suggested'', hr_last_seen := now_iso\<rparr>"

text \<open>The read, the insert, the two updates and the second read; an exception stops in between.\<close>

definition create_new_version ::
    "(pyfloat \<Rightarrow> string) \<Rightarrow> string \<Rightarrow> string \<Rightarrow> hypothesis_db \<Rightarrow> string \<Rightarrow> string \<Rightarrow> string
       \<Rightarrow> string option \<Rightarrow> hypothesis_error + (hypothesis_db \<times> hypothesis option)" where
  "create_new_version fmt1 version_id now_iso db hypothesis_id new_claim change_reason
       predecessor_context =
     bind_res (get_hypothesis db hypothesis_id) (\<lambda>found.
       case found of
         None \<Rightarrow> Inr (db, None)
       | Some current \<Rightarrow>
           let effective_predecessor =
                 (case predecessor_context of None \<Rightarrow> predecessor_text fmt1 current | Some p \<Rightarrow> p)
           in bind_res (insert_version db
                \<lparr>vr_version_id = version_id, vr_hypothesis_id = hypothesis_id,
                 vr_version = h_version current, vr_claim = h_claim current,
                 vr_elo_rating_at_save = h_elo_rating current,
                 vr_change_reason = Some change_reason,
                 vr_predecessor_context = Some effective_predecessor,
                 vr_created_at = h_created_at current, vr_deprecated_at = None\<rparr>) (\<lambda>db1.
              let db2 = mark_deprecated now_iso version_id db1;
                  db3 = update_rows hypothesis_id
                          (new_version_row new_claim (h_version current + 1) now_iso) db2
              in bind_res (get_hypothesis db3 hypothesis_id) (\<lambda>h. Inr (db3, h))))"

definition get_version_history :: "hypothesis_db \<Rightarrow> string \<Rightarrow> version_row list" where
  "get_version_history db i =
     order_desc vr_version (filter (\<lambda>v. vr_hypothesis_id v = i) (db_versions db))"

end
