(* ===== verification/LearnFlow.thy ===== *)
theory LearnFlow
  imports ContractBuilder DraftStore StoreGuarantees HypothesisStorage
begin

text \<open>
  \<open>learn_flow_service.py\<close>: the /learn flow with its preview, edits, quick mode and follow-up
  messages, on top of the draft store, the store of pending edits and the contract store. The
  injected privacy pipeline is a function of the hypothesis it is given. The service runs on
  one event loop and no lock is ever held across a suspension, so a call is one step. What a
  call reads from outside (clock, generated ids) is its argument of type \<open>call_inputs\<close>; the clock
  of the stores is read at several sites, numbered in the order of the code.
\<close>

record learn_env =
  le_platform :: platform
  le_database :: database
  le_privacy :: "hypothesis \<Rightarrow> string option"

record call_inputs =
  ci_contract_hex :: string
  ci_draft_id :: string
  ci_hypothesis_id :: string
  ci_iso :: "nat \<Rightarrow> string"
  ci_clock :: "nat \<Rightarrow> int"

section \<open>Pending edits\<close>

definition pending_state_ttl_seconds :: int where
  "pending_state_ttl_seconds = 600"

record pending_state =
  ps_user_id :: int
  ps_chat_id :: int
  ps_draft_id :: string
  ps_etag :: string
  ps_action :: string
  ps_created_at :: int
  ps_expires_at :: int

record pending_store =
  pe_ttl_seconds :: int
  pe_states :: "int \<times> int \<Rightarrow> pending_state option"

definition new_pending_store :: "int \<Rightarrow> pending_store" where
  "new_pending_store ttl = \<lparr>pe_ttl_seconds = ttl, pe_states = (\<lambda>_. None)\<rparr>"

definition pending_cleanup :: "pending_store \<Rightarrow> int \<Rightarrow> pending_store" where
  "pending_cleanup p now =
     p\<lparr>pe_states := (\<lambda>k. case pe_states p k of
          None \<Rightarrow> None | Some st \<Rightarrow> if ps_expires_at st < now then None else Some st)\<rparr>"

text \<open>As in the draft store the cleanup reads the clock, and then the new state does.\<close>

definition set_pending ::
    "pending_store \<Rightarrow> int \<Rightarrow> int \<Rightarrow> string \<Rightarrow> string \<Rightarrow> string \<Rightarrow> int \<Rightarrow> int \<Rightarrow> pending_store \<times> pending_state" where
  "set_pending p user_id chat_id draft_id etag action swept now =
     (let p1 = pending_cleanup p swept;
          st = \<lparr>ps_user_id = user_id, ps_chat_id = chat_id, ps_draft_id = draft_id, ps_etag = etag,
                ps_action = action, ps_created_at = now,
                ps_expires_at = now + pe_ttl_seconds p * 1000000\<rparr>
      in (p1\<lparr>pe_states := (pe_states p1)((user_id, chat_id) \<mapsto> st)\<rparr>, st))"

definition get_pending ::
    "pending_store \<Rightarrow> int \<Rightarrow> int \<Rightarrow> int \<Rightarrow> pending_store \<times> pending_state option" where
  "get_pending p user_id chat_id now =
     (case pe_states p (user_id, chat_id) of
        None \<Rightarrow> (p, None)
      | Some st \<Rightarrow>
          if ps_user_id st \<noteq> user_id then (p, None)
          else if ps_expires_at st < now
          then (p\<lparr>pe_states := (pe_states p)((user_id, chat_id) := None)\<rparr>, None)
          else (p, Some st))"

definition clear_pending :: "pending_store \<Rightarrow> int \<Rightarrow> int \<Rightarrow> pending_store \<times> bool" where
  "clear_pending p user_id chat_id =
     (case pe_states p (user_id, chat_id) of
        None \<Rightarrow> (p, False)
      | Some st \<Rightarrow>
          if ps_user_id st \<noteq> user_id then (p, False)
          else (p\<lparr>pe_states := (pe_states p)((user_id, chat_id) := None)\<rparr>, True))"

section \<open>State and results\<close>

record learn_state =
  lf_drafts :: draft_store
  lf_pending :: pending_store
  lf_contracts :: contract_table

text \<open>
  An error text is a text of the service, the text of a store exception (\<open>str(e)\<close>), or the
  enumeration of the errors of a failed validation.
\<close>

datatype learn_text = LText string | LStoreError store_error | LInvalid "validation_issue list"

record learn_flow_result =
  lr_status :: string
  lr_draft :: "skill_draft option"
  lr_build_result :: "build_result option"
  lr_rejection_reason :: learn_text
  lr_saved_contract_name :: string

record save_result =
  sr_success :: bool
  sr_contract_name :: string
  sr_error :: learn_text
  sr_error_type :: string

record edit_result =
  ed_success :: bool
  ed_draft :: "skill_draft option"
  ed_error :: string
  ed_error_type :: string

text \<open>What is no \<open>ContractStoreError\<close>, and no caught draft error, leaves the service as an exception.\<close>

datatype learn_exception = EscapedStore store_error | EscapedDraft draft_error

definition is_contract_store_error :: "store_error \<Rightarrow> bool" where
  "is_contract_store_error e =
     (case e of JsonDecode \<Rightarrow> False | ContractDeserialization _ \<Rightarrow> False | IntegerOverflow \<Rightarrow> False
      | _ \<Rightarrow> True)"

definition save_failed :: "learn_text \<Rightarrow> string \<Rightarrow> save_result" where
  "save_failed error error_type =
     \<lparr>sr_success = False, sr_contract_name = [], sr_error = error, sr_error_type = error_type\<rparr>"

definition edit_failed :: "string \<Rightarrow> string \<Rightarrow> edit_result" where
  "edit_failed error error_type =
     \<lparr>ed_success = False, ed_draft = None, ed_error = error, ed_error_type = error_type\<rparr>"

section \<open>The safety gate\<close>

definition combined_text :: "skill_contract \<Rightarrow> string" where
  "combined_text contract = join_with '' | '' (map snd (iter_user_text_fields contract))"

definition scan_hypothesis :: "string \<Rightarrow> string \<Rightarrow> string \<Rightarrow> int \<Rightarrow> string \<Rightarrow> hypothesis" where
  "scan_hypothesis source_type hypothesis_id now_str user_id text =
     default_hypothesis\<lparr>
       h_hypothesis_id := hypothesis_id, h_user_id := user_id, h_type := ''preference'',
       h_scope := default_hypothesis_scope, h_claim := text, h_status := ''confirmed'', h_version := 1,
       h_elo_rating := PFin 1500, h_elo_games_played := 0, h_bayes_confidence := PFin (1 / 2),
       h_support_count := 1, h_contradict_count := 0, h_source_type := source_type,
       h_decay_immune := True, h_created_at := now_str, h_last_applied := None,
       h_last_seen := now_str\<rparr>"

definition validate_contract_safety ::
    "learn_env \<Rightarrow> call_inputs \<Rightarrow> skill_contract \<Rightarrow> int \<Rightarrow> string option" where
  "validate_contract_safety env ci contract user_id =
     (if \<not> py_nonblank (combined_text contract)
      then Some ''Contract has no scannable text content.''
      else le_privacy env (scan_hypothesis ''learn_command'' (ci_hypothesis_id ci) (ci_iso ci 1)
             user_id (combined_text contract)))"

section \<open>Persisting\<close>

definition duplicate_name_text :: "string \<Rightarrow> int \<Rightarrow> string" where
  "duplicate_name_text name user_id =
     ''A contract with name '' @ [CHR 0x27] @ name @ [CHR 0x27] @
     '' already exists for user '' @ int_decimal user_id"

definition contract_preflight ::
    "learn_env \<Rightarrow> contract_table \<Rightarrow> skill_contract \<Rightarrow> int \<Rightarrow> learn_text option" where
  "contract_preflight env tb contract user_id =
     (if c_name contract \<noteq> [] \<and> exists_by_name tb user_id (c_name contract)
      then Some (LText (duplicate_name_text (c_name contract) user_id))
      else
        let finalized = finalize_security_metadata (le_platform env) contract;
            result = validate finalized None (Some (c_schema_version finalized))
                       (Some (c_contract_version finalized))
        in if \<not> is_valid result then Some (LInvalid (errors result)) else None)"

text \<open>\<open>replace(contract, lifecycle=LifecycleConfig(status="confirmed", ...))\<close>\<close>

definition confirm_lifecycle :: "skill_contract \<Rightarrow> skill_contract" where
  "confirm_lifecycle contract =
     contract\<lparr>c_lifecycle := (c_lifecycle contract)\<lparr>lc_status := ''confirmed''\<rparr>\<rparr>"

definition persist_contract ::
    "learn_env \<Rightarrow> call_inputs \<Rightarrow> learn_state \<Rightarrow> int \<Rightarrow> skill_contract \<Rightarrow> build_result
       \<Rightarrow> learn_state \<times> (learn_exception + learn_flow_result)" where
  "persist_contract env ci s user_id contract br =
     (let confirmed = confirm_lifecycle contract;
          rejected = (\<lambda>r. \<lparr>lr_status = ''rejected'', lr_draft = None, lr_build_result = Some br,
                            lr_rejection_reason = r, lr_saved_contract_name = []\<rparr>)
      in case contract_preflight env (lf_contracts s) confirmed user_id of
           Some e \<Rightarrow> (s, Inr (rejected e))
         | None \<Rightarrow>
             (case persist (le_platform env) (le_database env) (lf_contracts s) (ci_iso ci 2) confirmed user_id of
                (tb, Inr saved) \<Rightarrow>
                  (s\<lparr>lf_contracts := tb\<rparr>,
                   Inr \<lparr>lr_status = ''saved'', lr_draft = None, lr_build_result = Some br,
                        lr_rejection_reason = LText [], lr_saved_contract_name = c_name saved\<rparr>)
              | (tb, Inl e) \<Rightarrow>
                  (s\<lparr>lf_contracts := tb\<rparr>,
                   if is_contract_store_error e then Inr (rejected (LStoreError e))
                   else Inl (EscapedStore e))))"

definition start_learn ::
    "learn_env \<Rightarrow> call_inputs \<Rightarrow> learn_state \<Rightarrow> int \<Rightarrow> int \<Rightarrow> string \<Rightarrow> bool
       \<Rightarrow> learn_state \<times> (learn_exception + learn_flow_result)" where
  "start_learn env ci s user_id chat_id s_text quick =
     (let br = build (ci_contract_hex ci) (ci_iso ci 0) s_text;
          safety_rejection = validate_contract_safety env ci (br_contract br) user_id;
          rejected = (\<lambda>r. \<lparr>lr_status = ''rejected'', lr_draft = None, lr_build_result = Some br,
                            lr_rejection_reason = LText r, lr_saved_contract_name = []\<rparr>);
          (drafts, draft) = draft_create (le_platform env) (lf_drafts s) user_id chat_id
                              (br_contract br) (ci_draft_id ci) (ci_clock ci 0) (ci_clock ci 1)
      in if br_status br = ''needs_input'' then
           (case safety_rejection of
              Some r \<Rightarrow> (s, Inr (rejected r))
            | None \<Rightarrow>
                let (pending, _) = set_pending (lf_pending s) user_id chat_id (sd_draft_id draft)
                                     (sd_etag draft) ''needs_input'' (ci_clock ci 2) (ci_clock ci 3)
                in (s\<lparr>lf_drafts := drafts, lf_pending := pending\<rparr>,
                    Inr \<lparr>lr_status = ''needs_input'', lr_draft = Some draft,
                         lr_build_result = Some br,
                         lr_rejection_reason = LText (br_needs_input_reason br),
                         lr_saved_contract_name = []\<rparr>))
         else
           (case safety_rejection of
              Some r \<Rightarrow> (s, Inr (rejected r))
            | None \<Rightarrow>
                if quick then persist_contract env ci s user_id (br_contract br) br
                else (s\<lparr>lf_drafts := drafts\<rparr>,
                      Inr \<lparr>lr_status = ''preview'', lr_draft = Some draft,
                           lr_build_result = Some br, lr_rejection_reason = LText [],
                           lr_saved_contract_name = []\<rparr>)))"

definition save_draft ::
    "learn_env \<Rightarrow> call_inputs \<Rightarrow> learn_state \<Rightarrow> int \<Rightarrow> int \<Rightarrow> string \<Rightarrow> string
       \<Rightarrow> learn_state \<times> (learn_exception + save_result)" where
  "save_draft env ci s user_id chat_id draft_id etag =
     (case draft_get (lf_drafts s) user_id chat_id draft_id (ci_clock ci 0) of
        (drafts, Inl DraftOwnership) \<Rightarrow>
          (s\<lparr>lf_drafts := drafts\<rparr>, Inr (save_failed (LText ''ownership'') ''ownership''))
      | (drafts, Inl e) \<Rightarrow> (s\<lparr>lf_drafts := drafts\<rparr>, Inl (EscapedDraft e))
      | (drafts, Inr None) \<Rightarrow>
          (s\<lparr>lf_drafts := drafts\<rparr>, Inr (save_failed (LText ''already_saved'') ''not_found''))
      | (drafts, Inr (Some draft)) \<Rightarrow>
          let s1 = s\<lparr>lf_drafts := drafts\<rparr> in
          if sd_etag draft \<noteq> etag then (s1, Inr (save_failed (LText ''stale'') ''stale''))
          else
          (case validate_contract_safety env ci (sd_contract draft) user_id of
             Some r \<Rightarrow> (s1, Inr (save_failed (LText r) ''rejected''))
           | None \<Rightarrow>
               let contract = confirm_lifecycle (sd_contract draft) in
               (case contract_preflight env (lf_contracts s1) contract user_id of
                  Some e \<Rightarrow> (s1, Inr (save_failed e ''validation''))
                | None \<Rightarrow>
                    (case persist (le_platform env) (le_database env) (lf_contracts s1) (ci_iso ci 2)
                            contract user_id of
                       (tb, Inl e) \<Rightarrow>
                         (s1\<lparr>lf_contracts := tb\<rparr>,
                          if is_contract_store_error e
                          then Inr (save_failed (LStoreError e) ''validation'')
                          else Inl (EscapedStore e))
                     | (tb, Inr saved) \<Rightarrow>
                         let s2 = s1\<lparr>lf_contracts := tb\<rparr>;
                             (drafts2, deleted) = draft_delete (lf_drafts s2) user_id chat_id draft_id
                         in (case deleted of
                               Inl e \<Rightarrow> (s2\<lparr>lf_drafts := drafts2\<rparr>, Inl (EscapedDraft e))
                             | Inr _ \<Rightarrow>
                                 (s2\<lparr>lf_drafts := drafts2,
                                    lf_pending := fst (clear_pending (lf_pending s2) user_id chat_id)\<rparr>,
                                  Inr \<lparr>sr_success = True, sr_contract_name = c_name saved,
                                       sr_error = LText [], sr_error_type = []\<rparr>))))))"

definition cancel_draft ::
    "learn_state \<Rightarrow> int \<Rightarrow> int \<Rightarrow> string \<Rightarrow> learn_state \<times> (learn_exception + bool)" where
  "cancel_draft s user_id chat_id draft_id =
     (case draft_delete (lf_drafts s) user_id chat_id draft_id of
        (drafts, Inl DraftOwnership) \<Rightarrow> (s\<lparr>lf_drafts := drafts\<rparr>, Inr False)
      | (drafts, Inl e) \<Rightarrow> (s\<lparr>lf_drafts := drafts\<rparr>, Inl (EscapedDraft e))
      | (drafts, Inr deleted) \<Rightarrow> (s\<lparr>lf_drafts := drafts\<rparr>, Inr deleted))"

section \<open>Edits\<close>

text \<open>
  The body that \<open>edit_trigger\<close> and \<open>edit_instruction\<close> have in common; they differ in the method of
  the builder.
\<close>

definition edit_draft ::
    "learn_env \<Rightarrow> call_inputs \<Rightarrow> learn_state \<Rightarrow> int \<Rightarrow> int \<Rightarrow> string \<Rightarrow> string
       \<Rightarrow> (skill_contract \<Rightarrow> skill_contract \<times> string option)
       \<Rightarrow> learn_state \<times> (learn_exception + edit_result)" where
  "edit_draft env ci s user_id chat_id draft_id etag edit =
     (case draft_get (lf_drafts s) user_id chat_id draft_id (ci_clock ci 1) of
        (drafts, Inl DraftOwnership) \<Rightarrow>
          (s\<lparr>lf_drafts := drafts\<rparr>, Inr (edit_failed ''ownership'' ''ownership''))
      | (drafts, Inl e) \<Rightarrow> (s\<lparr>lf_drafts := drafts\<rparr>, Inl (EscapedDraft e))
      | (drafts, Inr None) \<Rightarrow>
          (s\<lparr>lf_drafts := drafts\<rparr>, Inr (edit_failed ''not_found'' ''not_found''))
      | (drafts, Inr (Some draft)) \<Rightarrow>
          let s1 = s\<lparr>lf_drafts := drafts\<rparr> in
          (case edit (sd_contract draft) of
             (_, Some err) \<Rightarrow> (s1, Inr (edit_failed err ''rejected''))
           | (updated_contract, None) \<Rightarrow>
               (case validate_contract_safety env ci updated_contract user_id of
                  Some r \<Rightarrow> (s1, Inr (edit_failed r ''rejected''))
                | None \<Rightarrow>
                    let (drafts2, updated) = draft_update (le_platform env) (lf_drafts s1) user_id
                          chat_id draft_id updated_contract etag None (ci_clock ci 2);
                        s2 = s1\<lparr>lf_drafts := drafts2\<rparr>
                    in (s2,
                        case updated of
                          Inr updated_draft \<Rightarrow>
                            Inr \<lparr>ed_success = True, ed_draft = Some updated_draft, ed_error = [],
                                 ed_error_type = []\<rparr>
                        | Inl DraftExpired \<Rightarrow> Inr (edit_failed ''expired'' ''expired'')
                        | Inl DraftEtagMismatch \<Rightarrow> Inr (edit_failed ''stale'' ''stale'')
                        | Inl DraftNotFound \<Rightarrow> Inr (edit_failed ''not_found'' ''not_found'')
                        | Inl DraftOwnership \<Rightarrow> Inl (EscapedDraft DraftOwnership)))))"

definition edit_trigger ::
    "learn_env \<Rightarrow> call_inputs \<Rightarrow> learn_state \<Rightarrow> int \<Rightarrow> int \<Rightarrow> string \<Rightarrow> string \<Rightarrow> string
       \<Rightarrow> learn_state \<times> (learn_exception + edit_result)" where
  "edit_trigger env ci s user_id chat_id draft_id etag new_trigger =
     edit_draft env ci s user_id chat_id draft_id etag
       (\<lambda>c. apply_trigger_edit (ci_iso ci 0) c new_trigger)"

definition edit_instruction ::
    "learn_env \<Rightarrow> call_inputs \<Rightarrow> learn_state \<Rightarrow> int \<Rightarrow> int \<Rightarrow> string \<Rightarrow> string \<Rightarrow> string
       \<Rightarrow> learn_state \<times> (learn_exception + edit_result)" where
  "edit_instruction env ci s user_id chat_id draft_id etag new_instruction =
     edit_draft env ci s user_id chat_id draft_id etag
       (\<lambda>c. apply_instruction_edit (ci_iso ci 0) c new_instruction)"

definition set_pending_edit ::
    "call_inputs \<Rightarrow> learn_state \<Rightarrow> int \<Rightarrow> int \<Rightarrow> string \<Rightarrow> string \<Rightarrow> string \<Rightarrow> learn_state \<times> pending_state" where
  "set_pending_edit ci s user_id chat_id draft_id etag action =
     (let (p, st) = set_pending (lf_pending s) user_id chat_id draft_id etag action (ci_clock ci 0) (ci_clock ci 1)
      in (s\<lparr>lf_pending := p\<rparr>, st))"

definition get_pending_state ::
    "call_inputs \<Rightarrow> learn_state \<Rightarrow> int \<Rightarrow> int \<Rightarrow> learn_state \<times> pending_state option" where
  "get_pending_state ci s user_id chat_id =
     (let (p, st) = get_pending (lf_pending s) user_id chat_id (ci_clock ci 0)
      in (s\<lparr>lf_pending := p\<rparr>, st))"

definition clear_pending_state :: "learn_state \<Rightarrow> int \<Rightarrow> int \<Rightarrow> learn_state \<times> bool" where
  "clear_pending_state s user_id chat_id =
     (let (p, b) = clear_pending (lf_pending s) user_id chat_id in (s\<lparr>lf_pending := p\<rparr>, b))"

section \<open>Follow-up messages\<close>

text \<open>What is done with the pending state once the edit has returned.\<close>

definition after_follow_up ::
    "call_inputs \<Rightarrow> learn_state \<Rightarrow> int \<Rightarrow> int \<Rightarrow> pending_state \<Rightarrow> edit_result \<Rightarrow> learn_state" where
  "after_follow_up ci s user_id chat_id st result =
     (if ed_success result
      then s\<lparr>lf_pending := fst (clear_pending (lf_pending s) user_id chat_id)\<rparr>
      else if List.member [''expired'', ''not_found'', ''ownership''] (ed_error_type result)
      then s\<lparr>lf_pending := fst (clear_pending (lf_pending s) user_id chat_id)\<rparr>
      else
        (case ed_draft result of
           Some draft \<Rightarrow>
             if ed_error_type result = ''stale''
             then s\<lparr>lf_pending := fst (set_pending (lf_pending s) user_id chat_id (ps_draft_id st)
                                       (sd_etag draft) (ps_action st) (ci_clock ci 3) (ci_clock ci 4))\<rparr>
             else s
         | None \<Rightarrow> s))"

definition handle_follow_up ::
    "learn_env \<Rightarrow> call_inputs \<Rightarrow> learn_state \<Rightarrow> int \<Rightarrow> int \<Rightarrow> string
       \<Rightarrow> learn_state \<times> (learn_exception + edit_result option)" where
  "handle_follow_up env ci s user_id chat_id s_text =
     (case get_pending (lf_pending s) user_id chat_id (ci_clock ci 0) of
        (p, None) \<Rightarrow> (s\<lparr>lf_pending := p\<rparr>, Inr None)
      | (p, Some st) \<Rightarrow>
          let s1 = s\<lparr>lf_pending := p\<rparr>;
              dispatch =
                (if ps_action st = ''edit_trigger'' then Some edit_trigger
                 else if ps_action st = ''edit_instruction'' then Some edit_instruction
                 else if ps_action st = ''needs_input'' then Some edit_trigger
                 else None)
          in (case dispatch of
                None \<Rightarrow>
                  (s1\<lparr>lf_pending := fst (clear_pending (lf_pending s1) user_id chat_id)\<rparr>, Inr None)
              | Some edit \<Rightarrow>
                  (case edit env ci s1 user_id chat_id (ps_draft_id st) (ps_etag st) (py_strip s_text) of
                     (s2, Inl e) \<Rightarrow> (s2, Inl e)
                   | (s2, Inr result) \<Rightarrow>
                       (after_follow_up ci s2 user_id chat_id st result, Inr (Some result)))))"

end
