(* ===== verification/PermissionGate.thy ===== *)
theory PermissionGate
  imports ContractValidator
begin

text \<open>
  \<open>permission_gate.py\<close>: the stateless checks before and during the execution of a skill. A
  result carries the decision, the reason and the rule that decided. Log messages are left out.
\<close>

datatype permission_decision = PERM_ALLOW | PERM_DENY

record permission_check_result =
  pcr_decision :: permission_decision
  pcr_reason :: string
  pcr_rule :: string

definition pcr_allowed :: "permission_check_result \<Rightarrow> bool" where
  "pcr_allowed r = (pcr_decision r = PERM_ALLOW)"

definition pcr_denied :: "permission_check_result \<Rightarrow> bool" where
  "pcr_denied r = (pcr_decision r = PERM_DENY)"

abbreviation perm_allow :: "string \<Rightarrow> permission_check_result" where
  "perm_allow rule \<equiv> \<lparr>pcr_decision = PERM_ALLOW, pcr_reason = '''', pcr_rule = rule\<rparr>"

abbreviation perm_deny :: "string \<Rightarrow> string \<Rightarrow> permission_check_result" where
  "perm_deny reason rule \<equiv> \<lparr>pcr_decision = PERM_DENY, pcr_reason = reason, pcr_rule = rule\<rparr>"

definition allowed_execution_types :: "string list" where
  "allowed_execution_types = [''llm_instruction'']"

definition blocked_review_statuses :: "string list" where
  "blocked_review_statuses = [''blocked'', ''flagged'']"

definition check_execution_allowed :: "skill_contract \<Rightarrow> permission_check_result" where
  "check_execution_allowed c =
     (if \<not> List.member allowed_execution_types (exec_type (c_execution c)) then
        perm_deny
          (''Execution type '' @ [CHR 0x27] @ exec_type (c_execution c) @ [CHR 0x27]
           @ '' is not allowed. Only ['' @ [CHR 0x27] @ ''llm_instruction'' @ [CHR 0x27]
           @ ''] are permitted in Phase 1.'')
          ''execution_type_feature_flag''
      else if List.member blocked_review_statuses (c_review_status c) then
        perm_deny ''Skill is blocked and cannot be executed.'' ''review_status_blocked''
      else if compute_risk_level (c_permissions c) = ''high'' then
        perm_deny ''Skill risk level requires approval.'' ''high_risk_denied''
      else perm_allow ''all_clear'')"

definition check_memory_access ::
    "skill_contract \<Rightarrow> string \<Rightarrow> string \<Rightarrow> permission_check_result" where
  "check_memory_access c store operation =
     (let perms = c_permissions c in
      if operation = ''read'' then
        (if List.member (perm_memory_read perms) store then perm_allow ''memory_read_declared''
         else perm_deny ''Memory read access is not declared.'' ''memory_read_not_declared'')
      else if operation = ''write'' then
        (if List.member (perm_memory_write perms) store then perm_allow ''memory_write_declared''
         else perm_deny ''Memory write access is not declared.'' ''memory_write_not_declared'')
      else perm_deny
             (''Unknown memory operation '' @ [CHR 0x27] @ operation @ [CHR 0x27] @ ''.'')
             ''unknown_operation'')"

definition check_tool_access :: "skill_contract \<Rightarrow> string \<Rightarrow> permission_check_result" where
  "check_tool_access c tool_name =
     (if List.member (perm_tools (c_permissions c)) tool_name then perm_allow ''tool_declared''
      else perm_deny ''Tool access is not declared.'' ''tool_not_declared'')"

definition check_network_access :: "skill_contract \<Rightarrow> string option \<Rightarrow> permission_check_result" where
  "check_network_access c domain =
     (let net = perm_network_access (c_permissions c) in
      if \<not> na_enabled net then perm_deny ''Network access is not declared.'' ''network_disabled''
      else if \<not> truthy domain then
        perm_deny ''Network access requires a concrete domain.'' ''network_no_target''
      else if na_domains net = [] then
        perm_deny ''Network access is not declared.'' ''network_empty_allowlist''
      else if List.member (na_domains net) ''*'' then perm_allow ''network_wildcard''
      else if List.member (na_domains net) (the domain) then perm_allow ''network_allowed''
      else perm_deny ''Network access is not declared.'' ''network_domain_not_declared'')"

definition check_file_access :: "skill_contract \<Rightarrow> string option \<Rightarrow> permission_check_result" where
  "check_file_access c scope =
     (let fa = perm_file_access (c_permissions c) in
      if \<not> fa_enabled fa then perm_deny ''File access is not declared.'' ''file_disabled''
      else if \<not> truthy scope then
        perm_deny ''File access requires a concrete scope.'' ''file_no_target''
      else if fa_scopes fa = [] then
        perm_deny ''File access is not declared.'' ''file_empty_allowlist''
      else if List.member (fa_scopes fa) ''*'' then perm_allow ''file_wildcard''
      else if List.member (fa_scopes fa) (the scope) then perm_allow ''file_allowed''
      else perm_deny ''File access is not declared.'' ''file_scope_not_declared'')"

definition check_history_access :: "skill_contract \<Rightarrow> string option \<Rightarrow> permission_check_result" where
  "check_history_access c scope =
     (let ha = perm_history_access (c_permissions c) in
      if \<not> ha_enabled ha then perm_deny ''History access is not declared.'' ''history_disabled''
      else if \<not> truthy scope then
        perm_deny ''History access requires a concrete scope.'' ''history_no_target''
      else if ha_scopes ha = [] then
        perm_deny ''History access is not declared.'' ''history_empty_allowlist''
      else if List.member (ha_scopes ha) ''*'' then perm_allow ''history_wildcard''
      else if List.member (ha_scopes ha) (the scope) then perm_allow ''history_allowed''
      else perm_deny ''History access is not declared.'' ''history_scope_not_declared'')"

definition check_secrets_access :: "skill_contract \<Rightarrow> permission_check_result" where
  "check_secrets_access c =
     (if \<not> perm_secrets_access (c_permissions c)
      then perm_deny ''Secrets access is not declared.'' ''secrets_disabled''
      else perm_allow ''secrets_allowed'')"

lemmas gate_defs = check_execution_allowed_def check_memory_access_def check_tool_access_def
  check_network_access_def check_file_access_def check_history_access_def check_secrets_access_def

section \<open>The execution check\<close>

lemma execution_allowed_iff:
  "pcr_allowed (check_execution_allowed c) \<longleftrightarrow>
     exec_type (c_execution c) = ''llm_instruction'' \<and>
     c_review_status c \<notin> {''blocked'', ''flagged''} \<and>
     compute_risk_level (c_permissions c) \<noteq> ''high''"
  by (auto simp: check_execution_allowed_def pcr_allowed_def allowed_execution_types_def
      blocked_review_statuses_def)

text \<open>
  A skill may execute exactly when its type is the implemented one, its review status is
  neither blocked nor flagged and the risk computed from its permissions is not high. The stored
  risk level plays no part: two contracts that differ only in it get the same answer.
\<close>

theorem gate_execution_characterisation:
  "(pcr_allowed (check_execution_allowed c) \<longleftrightarrow>
      exec_type (c_execution c) = ''llm_instruction'' \<and>
      c_review_status c \<notin> {''blocked'', ''flagged''} \<and>
      \<not> list_ex (\<lambda>cap. capability_risk cap = RiskHigh) (declared_capabilities (c_permissions c))) \<and>
   check_execution_allowed (c\<lparr>c_risk_level := r\<rparr>) = check_execution_allowed c"
  by (simp add: execution_allowed_iff risk_high_iff list_ex_iff) (simp add: check_execution_allowed_def)

text \<open>
  A contract that the validator accepts and that is not a draft passes the gate unless it is
  blocked, flagged or stored with risk level high: for validated contracts the stored level is
  the computed one.
\<close>

theorem gate_on_validated_contracts:
  assumes "is_valid (validate c ov sv cv)" and "\<not> is_draft c"
  shows "pcr_allowed (check_execution_allowed c) \<longleftrightarrow>
           c_review_status c \<in> {''unreviewed'', ''reviewed'', ''verified''} \<and>
           c_risk_level c \<in> {''low'', ''medium''}"
proof -
  from assms have v: "identity_ok c" "finished_ok c" "exec_type (c_execution c) = ''llm_instruction''"
    by (auto simp: validate_valid)
  have risk: "c_risk_level c = compute_risk_level (c_permissions c)"
    using v(2) by (simp add: finished_ok_def)
  have "c_review_status c \<in> {''unreviewed'', ''reviewed'', ''verified'', ''flagged'', ''blocked''}"
    using v(1) by (simp add: identity_ok_def valid_review_statuses_def)
  then have review: "c_review_status c \<notin> {''blocked'', ''flagged''} \<longleftrightarrow>
      c_review_status c \<in> {''unreviewed'', ''reviewed'', ''verified''}"
    by (elim insertE emptyE) simp_all
  have "compute_risk_level (c_permissions c) \<in> {''low'', ''medium'', ''high''}"
    by (simp add: compute_risk_level_def)
  then have "compute_risk_level (c_permissions c) \<noteq> ''high'' \<longleftrightarrow>
      c_risk_level c \<in> {''low'', ''medium''}"
    unfolding risk by (elim insertE emptyE) simp_all
  then show ?thesis
    unfolding execution_allowed_iff review using v(3) by blast
qed

theorem gate_on_validated_contracts_witness:
  "is_valid (validate sample_contract None None None) \<and>
   pcr_allowed (check_execution_allowed sample_contract)"
proof -
  have h: "is_valid (validate sample_contract None None None)" "\<not> is_draft sample_contract"
    using sample_valid by (auto simp: sample_defs is_draft_def draft_statuses_def)
  from gate_on_validated_contracts [OF h] h(1) show ?thesis by (simp add: sample_defs)
qed

text \<open>
  The documented fourth check, that a persisted contract carries a checksum, is not made: the
  answer does not depend on the trust section at all.
\<close>

theorem gate_ignores_checksum:
  "check_execution_allowed (c\<lparr>c_trust := t\<rparr>) = check_execution_allowed c"
  by (simp add: check_execution_allowed_def)

end
