(* ===== verification/CapabilityBroker.thy ===== *)
theory CapabilityBroker
  imports ContractTypes
begin

text \<open>
  \<open>capability_broker.py\<close>: the token that captures a contract's permissions for one execution
  and the access check against it.
\<close>

record capability_token =
  tok_skill_id :: string
  tok_allowed_tools :: "string list"
  tok_memory_read :: "string list"
  tok_memory_write :: "string list"
  tok_network_access :: bool
  tok_allowed_domains :: "string list"
  tok_file_access :: bool
  tok_file_scopes :: "string list"
  tok_history_access :: bool
  tok_history_scopes :: "string list"
  tok_secrets_access :: bool

datatype access_decision = ACCESS_ALLOW | ACCESS_DENY

record access_check_result =
  acr_decision :: access_decision
  acr_reason :: string

definition acr_allowed :: "access_check_result \<Rightarrow> bool" where
  "acr_allowed r = (acr_decision r = ACCESS_ALLOW)"

abbreviation access_allow :: access_check_result where
  "access_allow \<equiv> \<lparr>acr_decision = ACCESS_ALLOW, acr_reason = ''''\<rparr>"

abbreviation access_deny :: "string \<Rightarrow> access_check_result" where
  "access_deny reason \<equiv> \<lparr>acr_decision = ACCESS_DENY, acr_reason = reason\<rparr>"

definition known_resource_types :: "string list" where
  "known_resource_types =
     [''tool'', ''memory_read'', ''memory_write'', ''network'', ''file'', ''history'', ''secrets'']"

definition create_token :: "skill_contract \<Rightarrow> capability_token" where
  "create_token c =
     (let perms = c_permissions c in
      \<lparr>tok_skill_id = c_id c,
       tok_allowed_tools = perm_tools perms,
       tok_memory_read = perm_memory_read perms,
       tok_memory_write = perm_memory_write perms,
       tok_network_access = na_enabled (perm_network_access perms),
       tok_allowed_domains = na_domains (perm_network_access perms),
       tok_file_access = fa_enabled (perm_file_access perms),
       tok_file_scopes = fa_scopes (perm_file_access perms),
       tok_history_access = ha_enabled (perm_history_access perms),
       tok_history_scopes = ha_scopes (perm_history_access perms),
       tok_secrets_access = perm_secrets_access perms\<rparr>)"

text \<open>\<open>resource_name and resource_name in xs\<close>\<close>

definition name_in :: "string option \<Rightarrow> string list \<Rightarrow> bool" where
  "name_in rn xs = (case rn of None \<Rightarrow> False | Some n \<Rightarrow> n \<noteq> [] \<and> List.member xs n)"

definition no_name :: "string option \<Rightarrow> bool" where
  "no_name rn = (case rn of None \<Rightarrow> True | Some n \<Rightarrow> n = [])"

definition check_access ::
    "capability_token \<Rightarrow> string \<Rightarrow> string option \<Rightarrow> access_check_result" where
  "check_access token resource_type resource_name =
     (if \<not> List.member known_resource_types resource_type then
        access_deny (''Unknown resource type '' @ [CHR 0x27] @ resource_type @ [CHR 0x27] @ ''.'')
      else if resource_type = ''tool'' then
        (if name_in resource_name (tok_allowed_tools token) then access_allow
         else access_deny ''Tool access is not declared.'')
      else if resource_type = ''memory_read'' then
        (if name_in resource_name (tok_memory_read token) then access_allow
         else access_deny ''Memory read access is not declared.'')
      else if resource_type = ''memory_write'' then
        (if name_in resource_name (tok_memory_write token) then access_allow
         else access_deny ''Memory write access is not declared.'')
      else if resource_type = ''network'' then
        (if \<not> tok_network_access token then access_deny ''Network access is not declared.''
         else if no_name resource_name then
           access_deny ''Network access requires a concrete domain.''
         else if tok_allowed_domains token = [] then
           access_deny ''Network access is not declared.''
         else if List.member (tok_allowed_domains token) ''*'' then access_allow
         else if List.member (tok_allowed_domains token) (the resource_name) then access_allow
         else access_deny ''Network access is not declared.'')
      else if resource_type = ''file'' then
        (if \<not> tok_file_access token then access_deny ''File access is not declared.''
         else if no_name resource_name then
           access_deny ''File access requires a concrete scope.''
         else if tok_file_scopes token = [] then access_deny ''File access is not declared.''
         else if List.member (tok_file_scopes token) ''*'' then access_allow
         else if List.member (tok_file_scopes token) (the resource_name) then access_allow
         else access_deny ''File access is not declared.'')
      else if resource_type = ''history'' then
        (if \<not> tok_history_access token then access_deny ''History access is not declared.''
         else if no_name resource_name then
           access_deny ''History access requires a concrete scope.''
         else if tok_history_scopes token = [] then
           access_deny ''History access is not declared.''
         else if List.member (tok_history_scopes token) ''*'' then access_allow
         else if List.member (tok_history_scopes token) (the resource_name) then access_allow
         else access_deny ''History access is not declared.'')
      else if resource_type = ''secrets'' then
        (if \<not> tok_secrets_access token then access_deny ''Secrets access is not declared.''
         else access_allow)
      else access_deny
             (''No handler for resource type '' @ [CHR 0x27] @ resource_type @ [CHR 0x27] @ ''.''))"

text \<open>
  The last return of \<open>check_access\<close> is unreachable, as its comment says: every known
  resource type has a handler and every other type is refused first, whatever the token.
\<close>

theorem check_access_fallback_unreachable:
  "acr_reason (check_access token resource_type resource_name) \<noteq>
     ''No handler for resource type '' @ [CHR 0x27] @ resource_type @ [CHR 0x27] @ ''.''"
  by (simp add: check_access_def known_resource_types_def)

end
