(* ===== verification/AccessControl.thy ===== *)
theory AccessControl
  imports PermissionGate CapabilityBroker
begin

text \<open>
  The contract that the permission gate and the capability broker share: a policy over the
  declared permissions, an interface of access checkers that never grant more than the policy
  (and of those that grant all of it), what follows for every such checker, and the two
  components as instances.
\<close>

section \<open>The policy\<close>

datatype resource =
    ResTool string
  | ResMemoryRead string
  | ResMemoryWrite string
  | ResNetwork string
  | ResFile string
  | ResHistory string
  | ResSecrets

text \<open>The name a request carries; \<open>ResSecrets\<close> has none and counts as named.\<close>

fun named_resource :: "resource \<Rightarrow> bool" where
  "named_resource (ResTool n) = (n \<noteq> [])"
| "named_resource (ResMemoryRead n) = (n \<noteq> [])"
| "named_resource (ResMemoryWrite n) = (n \<noteq> [])"
| "named_resource (ResNetwork n) = (n \<noteq> [])"
| "named_resource (ResFile n) = (n \<noteq> [])"
| "named_resource (ResHistory n) = (n \<noteq> [])"
| "named_resource ResSecrets = True"

text \<open>An allowlist entry equal to the target, or the wildcard.\<close>

definition on_allowlist :: "string \<Rightarrow> string list \<Rightarrow> bool" where
  "on_allowlist n xs \<longleftrightarrow> ''*'' \<in> set xs \<or> n \<in> set xs"

fun policy :: "permissions_config \<Rightarrow> resource \<Rightarrow> bool" where
  "policy p (ResTool n) = (n \<in> set (perm_tools p))"
| "policy p (ResMemoryRead n) = (n \<in> set (perm_memory_read p))"
| "policy p (ResMemoryWrite n) = (n \<in> set (perm_memory_write p))"
| "policy p (ResNetwork n) = (na_enabled (perm_network_access p) \<and> n \<noteq> []
     \<and> on_allowlist n (na_domains (perm_network_access p)))"
| "policy p (ResFile n) = (fa_enabled (perm_file_access p) \<and> n \<noteq> []
     \<and> on_allowlist n (fa_scopes (perm_file_access p)))"
| "policy p (ResHistory n) = (ha_enabled (perm_history_access p) \<and> n \<noteq> []
     \<and> on_allowlist n (ha_scopes (perm_history_access p)))"
| "policy p ResSecrets = perm_secrets_access p"

lemma policy_default: "\<not> policy default_permissions r"
  by (cases r) (simp_all add: default_permissions_def)

lemma power_scopes_star: "''*'' \<in> set power_scopes"
  by (simp add: power_scopes_def)

text \<open>What a permissions object of computed risk below high can grant at all.\<close>

lemma policy_below_high:
  assumes "compute_risk_level p \<noteq> ''high''"
  shows "\<not> policy p (ResNetwork n)" and "\<not> policy p (ResFile n)" and "\<not> policy p ResSecrets"
    and "\<not> policy p (ResTool ''*'')"
    and "n \<in> set power_scopes \<Longrightarrow> \<not> policy p (ResHistory n)"
proof -
  have no_high: "capability_risk c \<noteq> RiskHigh" if "c \<in> set (declared_capabilities p)" for c
    using assms that by (auto simp: risk_high_iff)
  show "\<not> policy p (ResNetwork n)" "\<not> policy p (ResFile n)" "\<not> policy p ResSecrets"
    "\<not> policy p (ResTool ''*'')"
    using no_high [of CapNetwork] no_high [of CapFile] no_high [of CapSecrets]
      no_high [of "CapTool ''*''"]
    by (auto simp: in_declared_capabilities)
  show "\<not> policy p (ResHistory n)" if "n \<in> set power_scopes"
    using no_high [of "CapHistoryScope n"] no_high [of "CapHistoryScope ''*''"] that
      power_scopes_star
    by (auto simp: in_declared_capabilities on_allowlist_def)
qed

section \<open>Access checkers\<close>

locale access_checker =
  fixes grants :: "skill_contract \<Rightarrow> resource \<Rightarrow> bool"
  assumes sound: "grants c r \<Longrightarrow> policy (c_permissions c) r"
    and named_complete: "policy (c_permissions c) r \<Longrightarrow> named_resource r \<Longrightarrow> grants c r"
begin

lemma named_exact: "named_resource r \<Longrightarrow> grants c r = policy (c_permissions c) r"
  using sound named_complete by blast

lemma sandbox_denied: "c_permissions c = default_permissions \<Longrightarrow> \<not> grants c r"
  using sound policy_default by metis

lemma below_high_confined:
  assumes "compute_risk_level (c_permissions c) \<noteq> ''high''"
  shows "\<not> grants c (ResNetwork n) \<and> \<not> grants c (ResFile n) \<and> \<not> grants c ResSecrets
    \<and> (n \<in> set power_scopes \<longrightarrow> \<not> grants c (ResHistory n))"
  using policy_below_high [OF assms] sound by blast

lemma tool_wildcard_literal:
  "perm_tools (c_permissions c) = [''*''] \<Longrightarrow> n \<noteq> ''*'' \<Longrightarrow> \<not> grants c (ResTool n)"
  using sound [of c "ResTool n"] by auto

end

locale exact_access_checker = access_checker +
  assumes complete: "policy (c_permissions c) r \<Longrightarrow> grants c r"
begin

lemma exact: "grants c r = policy (c_permissions c) r"
  using sound complete by blast

end

section \<open>The gate and the broker as checkers\<close>

fun gate_grants :: "skill_contract \<Rightarrow> resource \<Rightarrow> bool" where
  "gate_grants c (ResTool n) = pcr_allowed (check_tool_access c n)"
| "gate_grants c (ResMemoryRead n) = pcr_allowed (check_memory_access c n ''read'')"
| "gate_grants c (ResMemoryWrite n) = pcr_allowed (check_memory_access c n ''write'')"
| "gate_grants c (ResNetwork n) = pcr_allowed (check_network_access c (Some n))"
| "gate_grants c (ResFile n) = pcr_allowed (check_file_access c (Some n))"
| "gate_grants c (ResHistory n) = pcr_allowed (check_history_access c (Some n))"
| "gate_grants c ResSecrets = pcr_allowed (check_secrets_access c)"

fun broker_grants :: "skill_contract \<Rightarrow> resource \<Rightarrow> bool" where
  "broker_grants c (ResTool n) = acr_allowed (check_access (create_token c) ''tool'' (Some n))"
| "broker_grants c (ResMemoryRead n) =
     acr_allowed (check_access (create_token c) ''memory_read'' (Some n))"
| "broker_grants c (ResMemoryWrite n) =
     acr_allowed (check_access (create_token c) ''memory_write'' (Some n))"
| "broker_grants c (ResNetwork n) =
     acr_allowed (check_access (create_token c) ''network'' (Some n))"
| "broker_grants c (ResFile n) = acr_allowed (check_access (create_token c) ''file'' (Some n))"
| "broker_grants c (ResHistory n) =
     acr_allowed (check_access (create_token c) ''history'' (Some n))"
| "broker_grants c ResSecrets = acr_allowed (check_access (create_token c) ''secrets'' None)"

lemma gate_grants_policy: "gate_grants c r = policy (c_permissions c) r"
  by (cases r) (auto simp: gate_defs pcr_allowed_def truthy_def on_allowlist_def Let_def)

lemma broker_grants_policy:
  "broker_grants c r = (policy (c_permissions c) r \<and> named_resource r)"
  by (cases r) (auto simp: check_access_def acr_allowed_def create_token_def name_in_def
      no_name_def on_allowlist_def known_resource_types_def Let_def)

interpretation gate: exact_access_checker gate_grants
  by unfold_locales (simp_all add: gate_grants_policy)

interpretation broker: access_checker broker_grants
  by unfold_locales (simp_all add: broker_grants_policy)

section \<open>Properties\<close>

text \<open>
  C7: the permission gate grants a named request exactly when the policy of the declared permissions
  does: declared tools and stores, and network, file and history targets that are enabled and on the
  allowlist, where the wildcard stands for every target (for tools and stores it stands for itself
  only). The capability broker grants the same requests except the empty tool or store name, which
  it refuses even if it is declared.
\<close>

theorem gate_broker_agree:
  "gate_grants c r = policy (c_permissions c) r
   \<and> broker_grants c r = (gate_grants c r \<and> r \<notin> {ResTool [], ResMemoryRead [], ResMemoryWrite []})"
  by (cases r) (auto simp: gate.exact broker_grants_policy)

text \<open>
  A skill that the gate lets execute cannot reach the network, the file system or the
  secrets, nor the history under a power scope, at either checkpoint, whatever it declares.
\<close>

theorem executing_skill_is_confined:
  assumes "pcr_allowed (check_execution_allowed c)"
  shows "\<forall>grants \<in> {gate_grants, broker_grants}.
           \<not> grants c (ResNetwork n) \<and> \<not> grants c (ResFile n) \<and> \<not> grants c ResSecrets \<and>
           (n \<in> set power_scopes \<longrightarrow> \<not> grants c (ResHistory n))"
proof -
  have "compute_risk_level (c_permissions c) \<noteq> ''high''"
    using assms by (simp add: execution_allowed_iff)
  then show ?thesis using gate.below_high_confined broker.below_high_confined by blast
qed

theorem executing_skill_is_confined_witness:
  "pcr_allowed (check_execution_allowed (sample_contract\<lparr>c_permissions :=
      default_permissions\<lparr>perm_history_access := \<lparr>ha_enabled = True, ha_scopes = [''current_chat'']\<rparr>\<rparr>\<rparr>)) \<and>
   \<not> gate_grants (sample_contract\<lparr>c_permissions :=
      default_permissions\<lparr>perm_history_access := \<lparr>ha_enabled = True, ha_scopes = [''current_chat'']\<rparr>\<rparr>\<rparr>)
      (ResHistory ''all_chats'')"
proof -
  have h: "pcr_allowed (check_execution_allowed (sample_contract\<lparr>c_permissions :=
      default_permissions\<lparr>perm_history_access := \<lparr>ha_enabled = True, ha_scopes = [''current_chat'']\<rparr>\<rparr>\<rparr>))"
    by (simp add: execution_allowed_iff sample_defs compute_risk_level_def has_power_scope_def
        power_scopes_def)
  from executing_skill_is_confined [OF h, of "''all_chats''"] h show ?thesis
    by (simp add: power_scopes_def)
qed

text \<open>
  A skill of the /learn flow, whose permissions are the defaults, is a sandbox: both
  checkpoints deny every resource, and the gate still lets it execute its instruction.
\<close>

theorem learned_skill_is_sandboxed:
  "\<not> gate_grants (create_minimal_contract hex ts name phrases instruction origin hyp) r \<and>
   \<not> broker_grants (create_minimal_contract hex ts name phrases instruction origin hyp) r \<and>
   pcr_allowed (check_execution_allowed
     (create_minimal_contract hex ts name phrases instruction origin hyp))"
proof -
  let ?c = "create_minimal_contract hex ts name phrases instruction origin hyp"
  have "c_permissions ?c = default_permissions"
    by (simp add: create_minimal_contract_def default_contract_def)
  moreover have "pcr_allowed (check_execution_allowed ?c)"
    by (simp add: execution_allowed_iff create_minimal_contract_def contract_defaults
        compute_risk_level_def)
  ultimately show ?thesis using gate.sandbox_denied broker.sandbox_denied by blast
qed

text \<open>
  The token's documentation says that a wildcard in an allowlist grants all access. For
  tools neither checkpoint reads it so: with the allowlist holding only the wildcard, every
  other tool is denied (and the skill is still classed as high risk).
\<close>

theorem tool_wildcard_grants_nothing:
  assumes "perm_tools (c_permissions c) = [''*'']" and "n \<noteq> ''*''"
  shows "\<not> gate_grants c (ResTool n) \<and> \<not> broker_grants c (ResTool n) \<and>
         compute_risk_level (c_permissions c) = ''high''"
  using gate.tool_wildcard_literal [OF assms] broker.tool_wildcard_literal [OF assms] assms(1)
  by (simp add: compute_risk_level_def)

theorem tool_wildcard_grants_nothing_witness:
  "\<not> gate_grants (sample_contract\<lparr>c_permissions := default_permissions\<lparr>perm_tools := [''*'']\<rparr>\<rparr>)
      (ResTool ''web_search'')"
proof -
  let ?c = "sample_contract\<lparr>c_permissions := default_permissions\<lparr>perm_tools := [''*'']\<rparr>\<rparr>"
  have h: "perm_tools (c_permissions ?c) = [''*'']" by simp
  have n: "''web_search'' \<noteq> ''*''" by simp
  from tool_wildcard_grants_nothing [OF h n] show ?thesis by blast
qed

text \<open>
  The two checkpoints differ on the empty tool name: the gate grants it when the empty text
  is declared, the broker never does.
\<close>

theorem empty_tool_name_differs:
  "gate_grants c (ResTool '''') = ('''' \<in> set (perm_tools (c_permissions c))) \<and>
   \<not> broker_grants c (ResTool '''')"
  by (simp add: gate_grants_policy broker_grants_policy)

end
