(* ===== verification/LearnGuarantees.thy ===== *)
theory LearnGuarantees
  imports LearnFlow AccessControl
begin

text \<open>
  What the /learn flow guarantees over time: nothing reaches the drafts or the contract table that
  the safety gate did not pass and that is not a sandboxed skill made of the user's words.
\<close>

section \<open>The drafts under the operations\<close>

definition drafts_all :: "(int \<Rightarrow> skill_contract \<Rightarrow> bool) \<Rightarrow> draft_store \<Rightarrow> bool" where
  "drafts_all P s \<longleftrightarrow> (\<forall>u c d dr. draft_at s (u, c, d) = Some dr \<longrightarrow> P u (sd_contract dr))"

lemma drafts_allD: "drafts_all P s \<Longrightarrow> draft_at s (u, c, d) = Some dr \<Longrightarrow> P u (sd_contract dr)"
  unfolding drafts_all_def by blast

lemma drafts_all_sub:
  assumes "drafts_all P s" and "\<And>k dr. draft_at s' k = Some dr \<Longrightarrow> draft_at s k = Some dr"
  shows "drafts_all P s'"
  unfolding drafts_all_def using assms(2) drafts_allD [OF assms(1)] by blast

lemma draft_get_cases:
  assumes "draft_get s u c d now = (s', r)"
  obtains (foreign) "s' = s" "r = Inl DraftOwnership"
  | (missing) "s' = s" "r = Inr None" "draft_at s (u, c, d) = None"
  | (expired) dr where "s' = remove_draft s (u, c, d)" "r = Inr None"
      "draft_at s (u, c, d) = Some dr" "sd_expires_at dr < now"
  | (found) dr where "s' = s" "r = Inr (Some dr)" "draft_at s (u, c, d) = Some dr"
      "now \<le> sd_expires_at dr" "sd_user_id dr = u"
  using assms by (auto simp: draft_get_def Let_def split: option.splits if_splits)

lemma drafts_all_get:
  "drafts_all P s \<Longrightarrow> drafts_all P (fst (draft_get s u c d now))"
  by (erule drafts_all_sub)
    (auto simp: draft_get_def Let_def split: option.splits if_splits)

lemma drafts_all_delete:
  "drafts_all P s \<Longrightarrow> drafts_all P (fst (draft_delete s u c d))"
  by (erule drafts_all_sub)
    (auto simp: draft_delete_def Let_def split: option.splits if_splits)

lemma drafts_all_create:
  assumes "draft_inv pf s" and "drafts_all P s" and "P u k"
  shows "drafts_all P (fst (draft_create pf s u c k d swept now))"
proof -
  let ?s1 = "fst (cleanup_expired s swept)"
  have inv1: "draft_inv pf ?s1" by (rule cleanup_expired_spec(1) [OF assms(1)])
  have "drafts_all P (drop_active ?s1 u c)"
    using assms(2)
    by (rule drafts_all_sub)
      (auto simp: drop_active_at [OF inv1] cleanup_expired_spec(3) [OF assms(1)] split: if_splits option.splits)
  then show ?thesis
    using assms(3)
    by (auto simp: draft_create_eq Let_def drafts_all_def new_draft_def)
qed

lemma drafts_all_update:
  assumes "drafts_all P s" and "P u k"
  shows "drafts_all P (fst (draft_update pf s u c d k e st now))"
proof (cases "draft_at s (u, c, d)")
  case None
  then show ?thesis using assms(1) by (simp add: draft_update_def Let_def)
next
  case (Some dr)
  let ?up = "dr\<lparr>sd_contract := k, sd_etag := compute_etag pf k,
               sd_status := (case st of None \<Rightarrow> ''editing'' | Some x \<Rightarrow> if x = [] then ''editing'' else x),
               sd_edit_count := sd_edit_count dr + 1\<rparr>"
  have "drafts_all P (s\<lparr>ds_drafts := AList.update (u, c, d) ?up (ds_drafts s)\<rparr>)"
    using assms by (auto simp: drafts_all_def draft_at_def AList.update_conv')
  moreover have "drafts_all P (remove_draft s (u, c, d))"
    using assms(1) by (rule drafts_all_sub) (simp split: if_splits)
  ultimately show ?thesis using Some assms(1) by (simp add: draft_update_def Let_def)
qed

section \<open>The gate\<close>

text \<open>Some run of the gate on the texts of the contract, for this user, found nothing to reject.\<close>

definition passes :: "learn_env \<Rightarrow> int \<Rightarrow> skill_contract \<Rightarrow> bool" where
  "passes env u c \<longleftrightarrow> py_nonblank (combined_text c)
     \<and> (\<exists>i t. le_privacy env (scan_hypothesis ''learn_command'' i t u (combined_text c)) = None)"

lemma safety_None: "validate_contract_safety env ci c u = None \<Longrightarrow> passes env u c"
  by (auto simp: validate_contract_safety_def passes_def split: if_splits)

lemma text_fields_irrelevant [simp]:
  "iter_user_text_fields (confirm_lifecycle c) = iter_user_text_fields c"
  "iter_user_text_fields (c\<lparr>c_updated_at := ts\<rparr>) = iter_user_text_fields c"
  "iter_user_text_fields (finalize_security_metadata pf c) = iter_user_text_fields c"
  by (simp_all add: iter_user_text_fields_def confirm_lifecycle_def
      finalize_security_metadata_def Let_def)

lemma combined_text_irrelevant [simp]:
  "combined_text (confirm_lifecycle c) = combined_text c"
  "combined_text (c\<lparr>c_updated_at := ts\<rparr>) = combined_text c"
  "combined_text (finalize_security_metadata pf c) = combined_text c"
  by (simp_all add: combined_text_def)

lemma confirm_lifecycle_id [simp]: "c_id (confirm_lifecycle c) = c_id c" "c_name (confirm_lifecycle c) = c_name c"
  by (simp_all add: confirm_lifecycle_def)

lemma passes_irrelevant [simp]:
  "passes env u (confirm_lifecycle c) = passes env u c"
  "passes env u (c\<lparr>c_updated_at := ts\<rparr>) = passes env u c"
  "passes env u (finalize_security_metadata pf c) = passes env u c"
  by (simp_all add: passes_def)

lemma learned_irrelevant [simp]:
  "learned (confirm_lifecycle c) = learned c"
  "learned (c\<lparr>c_updated_at := ts\<rparr>) = learned c"
  "learned (finalize_security_metadata pf c) = learned c"
  by (simp_all add: learned_def confirm_lifecycle_def finalize_security_metadata_def
      wf_contract_def Let_def)

text \<open>
  What the flow puts into the table: rows that hold a learned, checked, confirmed contract of their
  owner. The parameter \<open>Q\<close> of the invariant admits rows that others have written.
\<close>

definition learned_row :: "learn_env \<Rightarrow> contract_row \<Rightarrow> bool" where
  "learned_row env r \<longleftrightarrow> (\<exists>c. row_holds r c \<and> consistent (le_platform env) c \<and> learned c
     \<and> passes env (row_user_id r) c \<and> lc_status (c_lifecycle c) = ''confirmed'')"

definition learn_inv :: "learn_env \<Rightarrow> (contract_row \<Rightarrow> bool) \<Rightarrow> learn_state \<Rightarrow> bool" where
  "learn_inv env Q s \<longleftrightarrow>
     draft_inv (le_platform env) (lf_drafts s)
     \<and> drafts_all (\<lambda>u c. learned c \<and> passes env u c) (lf_drafts s)
     \<and> store_reachable wf_contract (le_platform env) (le_database env) (lf_contracts s)
     \<and> (\<forall>r \<in> set (lf_contracts s). learned_row env r \<or> Q r)"

text \<open>One lemma for both persist paths.\<close>

lemma persist_cases:
  assumes "persist pf db tb ts c u = (tb', r)"
  obtains e where "tb' = tb" "r = Inl e"
  | c1 where "persist_prepare pf tb ts c u = Inr c1" "insert_row db (row_of c1 u) tb = Inr tb'"
      "r = Inr c1" "tb' = tb @ [row_of c1 u]"
proof (cases "persist_prepare pf tb ts c u")
  case (Inl e)
  then have "tb' = tb" "r = Inl e" using assms by (auto simp: persist_def)
  then show ?thesis by (rule that(1))
next
  case (Inr c1)
  then have ins: "persist_insert db tb c1 u = (tb', r)" using assms by (simp add: persist_def)
  show ?thesis
  proof (cases "fits_int64 (c_contract_version c1)")
    case False
    then show ?thesis using ins that(1) by (auto simp: persist_insert_def)
  next
    case True
    show ?thesis
    proof (cases "insert_row db (row_of c1 u) tb")
      case (Inl msg)
      then show ?thesis using ins True that(1) by (auto simp: persist_insert_def)
    next
      case (Inr tb2)
      then have "tb' = tb2" "r = Inr c1" using ins True by (simp_all add: persist_insert_def)
      then show ?thesis
        using that(2) \<open>persist_prepare pf tb ts c u = Inr c1\<close> Inr insert_rowD(1) [OF Inr] by simp
    qed
  qed
qed

lemma persist_learned:
  assumes "store_reachable wf_contract (le_platform env) (le_database env) tb"
    and "\<forall>r \<in> set tb. learned_row env r \<or> Q r" and "learned c" and "passes env u c"
    and "persist (le_platform env) (le_database env) tb ts (confirm_lifecycle c) u = (tb', res)"
  shows "store_reachable wf_contract (le_platform env) (le_database env) tb'"
    and "\<forall>r \<in> set tb'. learned_row env r \<or> Q r"
proof -
  have wf: "wf_contract (confirm_lifecycle c)" using learned_wf assms(3) by simp
  have "store_reachable wf_contract (le_platform env) (le_database env) tb' \<and> (\<forall>r \<in> set tb'. learned_row env r \<or> Q r)"
    using assms(5)
  proof (cases rule: persist_cases)
    case (1 e)
    then show ?thesis using assms(1,2) by simp
  next
    case (2 c1)
    note c1 = persist_prepareD [OF 2(1)]
    have "persist_insert (le_database env) tb c1 u = (tb', Inr c1)"
      using assms(5) 2(1,3) by (simp add: persist_def)
    then have reach: "store_reachable wf_contract (le_platform env) (le_database env) tb'"
      using reach_next [OF assms(1) step_insert [where W = wf_contract, OF 2(1) wf, where tb = tb]] by simp
    have "lc_status (c_lifecycle c1) = ''confirmed''"
      using c1 by (simp add: finalize_security_metadata_def confirm_lifecycle_def Let_def)
    moreover have "learned c1" "passes env u c1" using c1 assms(3,4) by simp_all
    moreover have "consistent (le_platform env) c1" using c1 by blast
    moreover have "row_user_id (row_of c1 u) = u" by (simp add: row_of_def)
    ultimately have "learned_row env (row_of c1 u)"
      unfolding learned_row_def using row_holds_of by metis
    with reach assms(2) 2(4) show ?thesis by auto
  qed
  then show "store_reachable wf_contract (le_platform env) (le_database env) tb'"
    and "\<forall>r \<in> set tb'. learned_row env r \<or> Q r" by blast+
qed

section \<open>Every call keeps the invariant\<close>

lemma learn_inv_drafts:
  assumes "learn_inv env Q s" and "draft_inv (le_platform env) ds"
    and "drafts_all (\<lambda>u c. learned c \<and> passes env u c) ds"
  shows "learn_inv env Q (s\<lparr>lf_drafts := ds\<rparr>)"
  using assms by (simp add: learn_inv_def)

lemma learn_inv_pending [simp]: "learn_inv env Q (s\<lparr>lf_pending := p\<rparr>) = learn_inv env Q s"
  by (simp add: learn_inv_def)

lemma learn_invD:
  assumes "learn_inv env Q s"
  shows "draft_inv (le_platform env) (lf_drafts s)"
    and "drafts_all (\<lambda>u c. learned c \<and> passes env u c) (lf_drafts s)"
    and "store_reachable wf_contract (le_platform env) (le_database env) (lf_contracts s)"
    and "\<forall>r \<in> set (lf_contracts s). learned_row env r \<or> Q r"
  using assms by (simp_all add: learn_inv_def)

lemma learn_inv_get:
  "learn_inv env Q s \<Longrightarrow> learn_inv env Q (s\<lparr>lf_drafts := fst (draft_get (lf_drafts s) u c d now)\<rparr>)"
  by (intro learn_inv_drafts draft_get_inv drafts_all_get) (simp_all add: learn_invD)

lemma learn_inv_delete:
  "learn_inv env Q s \<Longrightarrow> learn_inv env Q (s\<lparr>lf_drafts := fst (draft_delete (lf_drafts s) u c d)\<rparr>)"
  by (intro learn_inv_drafts draft_delete_inv drafts_all_delete) (simp_all add: learn_invD)

lemma learn_inv_create:
  assumes "learn_inv env Q s" and "learned k" and "passes env u k"
    and "ds_owners (lf_drafts s) (c, d) = None"
  shows "learn_inv env Q (s\<lparr>lf_drafts := fst (draft_create (le_platform env) (lf_drafts s) u c k d swept now)\<rparr>)"
  using assms
  by (intro learn_inv_drafts draft_create_inv drafts_all_create) (simp_all add: learn_invD)

lemma learn_inv_update:
  assumes "learn_inv env Q s" and "learned k" and "passes env u k"
  shows "learn_inv env Q (s\<lparr>lf_drafts := fst (draft_update (le_platform env) (lf_drafts s) u c d k e st now)\<rparr>)"
  using assms
  by (intro learn_inv_drafts draft_update_inv drafts_all_update) (simp_all add: learn_invD)

lemma learn_inv_persist:
  assumes "learn_inv env Q s" and "learned c" and "passes env u c"
    and "persist (le_platform env) (le_database env) (lf_contracts s) ts (confirm_lifecycle c) u = (tb', res)"
  shows "learn_inv env Q (s\<lparr>lf_contracts := tb'\<rparr>)"
  using persist_learned [OF learn_invD(3,4) [OF assms(1)] assms(2,3,4)] assms(1)
  by (simp add: learn_inv_def)

lemma start_learn_inv:
  assumes "learn_inv env Q s" and fresh: "ds_owners (lf_drafts s) (c, ci_draft_id ci) = None"
  shows "learn_inv env Q (fst (start_learn env ci s u c t quick))"
proof -
  let ?b = "build (ci_contract_hex ci) (ci_iso ci 0) t"
  have l: "learned (br_contract ?b)" by (rule learned_build)
  show ?thesis
  proof (cases "validate_contract_safety env ci (br_contract ?b) u")
    case (Some r)
    then show ?thesis using assms(1) by (simp add: start_learn_def Let_def split_beta)
  next
    case None
    note p = safety_None [OF None]
    have create: "learn_inv env Q (s\<lparr>lf_drafts :=
        fst (draft_create (le_platform env) (lf_drafts s) u c (br_contract ?b) (ci_draft_id ci) swept now)\<rparr>)" for swept now
      by (rule learn_inv_create [OF assms(1) l p fresh])
    have "learn_inv env Q (fst (persist_contract env ci s u (br_contract ?b) ?b))"
    proof (cases "contract_preflight env (lf_contracts s) (confirm_lifecycle (br_contract ?b)) u")
      case None
      obtain tb res where per: "persist (le_platform env) (le_database env) (lf_contracts s) (ci_iso ci 2)
          (confirm_lifecycle (br_contract ?b)) u = (tb, res)" by (rule prod.exhaust)
      then show ?thesis
        using learn_inv_persist [OF assms(1) l p per] None
        by (cases res) (simp_all add: persist_contract_def Let_def)
    qed (use assms(1) in \<open>simp add: persist_contract_def Let_def\<close>)
    with create None show ?thesis
      by (simp add: start_learn_def Let_def split_beta)
  qed
qed

lemma save_draft_inv:
  assumes "learn_inv env Q s"
  shows "learn_inv env Q (fst (save_draft env ci s u c d e))"
proof -
  obtain ds r where g: "draft_get (lf_drafts s) u c d (ci_clock ci 0) = (ds, r)" by (rule prod.exhaust)
  have s1: "learn_inv env Q (s\<lparr>lf_drafts := ds\<rparr>)"
    using learn_inv_get [OF assms, of u c d "ci_clock ci 0"] g by simp
  show ?thesis
    using g
  proof (cases rule: draft_get_cases)
    case foreign
    then show ?thesis using s1 g by (simp add: save_draft_def)
  next
    case missing
    then show ?thesis using s1 g by (simp add: save_draft_def)
  next
    case (expired dr)
    then show ?thesis using s1 g by (simp add: save_draft_def)
  next
    case (found dr)
    have ok: "learned (sd_contract dr)"
      using drafts_allD [OF learn_invD(2) [OF assms] found(3)] by simp
    show ?thesis
    proof (cases "sd_etag dr = e \<and> validate_contract_safety env ci (sd_contract dr) u = None
        \<and> contract_preflight env (lf_contracts s) (confirm_lifecycle (sd_contract dr)) u = None")
      case False
      then show ?thesis using s1 g found
        by (auto simp: save_draft_def Let_def split: option.split)
    next
      case True
      note p = safety_None [OF True [THEN conjunct2, THEN conjunct1]]
      obtain tb res where per: "persist (le_platform env) (le_database env) (lf_contracts s) (ci_iso ci 2)
          (confirm_lifecycle (sd_contract dr)) u = (tb, res)" by (rule prod.exhaust)
      have s2: "learn_inv env Q (s\<lparr>lf_contracts := tb\<rparr>)"
        by (rule learn_inv_persist [OF assms ok p per])
      note del = learn_inv_delete [OF s2, of u c d]
      show ?thesis
      proof (cases res)
        case (Inl x)
        then show ?thesis using s2 g found True per by (simp add: save_draft_def Let_def)
      next
        case (Inr x)
        then show ?thesis using del g found True per
          by (auto simp: save_draft_def Let_def split_beta split: sum.split)
      qed
    qed
  qed
qed

lemma cancel_draft_inv:
  assumes "learn_inv env Q s"
  shows "learn_inv env Q (fst (cancel_draft s u c d))"
  using learn_inv_delete [OF assms, of u c d]
  by (auto simp: cancel_draft_def split: prod.split sum.split draft_error.split)

lemma edit_draft_inv:
  assumes "learn_inv env Q s"
    and edit: "\<And>k k'. learned k \<Longrightarrow> edit k = (k', None) \<Longrightarrow> learned k'"
  shows "learn_inv env Q (fst (edit_draft env ci s u c d e edit))"
proof -
  obtain ds r where g: "draft_get (lf_drafts s) u c d (ci_clock ci 1) = (ds, r)" by (rule prod.exhaust)
  have s1: "learn_inv env Q (s\<lparr>lf_drafts := ds\<rparr>)"
    using learn_inv_get [OF assms(1), of u c d "ci_clock ci 1"] g by simp
  show ?thesis
    using g
  proof (cases rule: draft_get_cases)
    case foreign
    then show ?thesis using s1 g by (simp add: edit_draft_def)
  next
    case missing
    then show ?thesis using s1 g by (simp add: edit_draft_def)
  next
    case (expired dr)
    then show ?thesis using s1 g by (simp add: edit_draft_def)
  next
    case (found dr)
    have ok: "learned (sd_contract dr)"
      using drafts_allD [OF learn_invD(2) [OF assms(1)] found(3)] by simp
    obtain k err where k: "edit (sd_contract dr) = (k, err)" by (rule prod.exhaust)
    show ?thesis
    proof (cases "err = None \<and> validate_contract_safety env ci k u = None")
      case False
      then show ?thesis using s1 g found k
        by (auto simp: edit_draft_def Let_def split: option.split)
    next
      case True
      have "learned k" using edit [OF ok] k True by simp
      moreover have "passes env u k" using True safety_None by blast
      ultimately show ?thesis
        using learn_inv_update [OF assms(1), of k u c d e None "ci_clock ci 2"] g found k True
        by (simp add: edit_draft_def Let_def split_beta)
    qed
  qed
qed

lemma edit_trigger_inv:
  "learn_inv env Q s \<Longrightarrow> learn_inv env Q (fst (edit_trigger env ci s u c d e t))"
  unfolding edit_trigger_def by (rule edit_draft_inv) (auto intro: learned_trigger_edit)

lemma edit_instruction_inv:
  "learn_inv env Q s \<Longrightarrow> learn_inv env Q (fst (edit_instruction env ci s u c d e t))"
  unfolding edit_instruction_def by (rule edit_draft_inv) (auto intro: learned_instruction_edit)

lemma after_follow_up_inv [simp]:
  "learn_inv env Q (after_follow_up ci s u c st r) = learn_inv env Q s"
  by (simp add: after_follow_up_def split: option.split)

lemma handle_follow_up_inv:
  assumes "learn_inv env Q s"
  shows "learn_inv env Q (fst (handle_follow_up env ci s u c t))"
proof -
  have tr: "learn_inv env Q s2"
    if "edit_trigger env ci (s\<lparr>lf_pending := p\<rparr>) u c d e x = (s2, r)" for p d e x s2 r
    using edit_trigger_inv [of env Q "s\<lparr>lf_pending := p\<rparr>" ci u c d e x] that assms by simp
  have ins: "learn_inv env Q s2"
    if "edit_instruction env ci (s\<lparr>lf_pending := p\<rparr>) u c d e x = (s2, r)" for p d e x s2 r
    using edit_instruction_inv [of env Q "s\<lparr>lf_pending := p\<rparr>" ci u c d e x] that assms by simp
  show ?thesis
    using assms
    by (auto simp: handle_follow_up_def Let_def split: prod.split option.split sum.split
        dest: tr ins)
qed

section \<open>Reachable states\<close>

text \<open>
  A generated draft id is new in its chat: the only assumption about the random ids. Everything
  else (user, chat, ids named by the caller, texts, clock readings, the answer of the gate) is
  arbitrary.
\<close>

inductive learn_step :: "learn_env \<Rightarrow> learn_state \<Rightarrow> learn_state \<Rightarrow> bool" for env where
  step_start: "ds_owners (lf_drafts s) (c, ci_draft_id ci) = None
     \<Longrightarrow> learn_step env s (fst (start_learn env ci s u c t quick))"
| step_save: "learn_step env s (fst (save_draft env ci s u c d e))"
| step_cancel: "learn_step env s (fst (cancel_draft s u c d))"
| step_edit_trigger: "learn_step env s (fst (edit_trigger env ci s u c d e t))"
| step_edit_instruction: "learn_step env s (fst (edit_instruction env ci s u c d e t))"
| step_set_pending: "learn_step env s (fst (set_pending_edit ci s u c d e a))"
| step_get_pending: "learn_step env s (fst (get_pending_state ci s u c))"
| step_clear_pending: "learn_step env s (fst (clear_pending_state s u c))"
| step_follow_up: "learn_step env s (fst (handle_follow_up env ci s u c t))"

definition learn_init :: "int \<Rightarrow> int \<Rightarrow> learn_state" where
  "learn_init draft_ttl pending_ttl =
     \<lparr>lf_drafts = new_draft_store draft_ttl, lf_pending = new_pending_store pending_ttl,
      lf_contracts = []\<rparr>"

inductive learn_reachable :: "learn_env \<Rightarrow> learn_state \<Rightarrow> bool" for env where
  learn_start: "learn_reachable env (learn_init a b)"
| learn_next: "learn_reachable env s \<Longrightarrow> learn_step env s s' \<Longrightarrow> learn_reachable env s'"

lemma learn_step_inv: "learn_step env s s' \<Longrightarrow> learn_inv env Q s \<Longrightarrow> learn_inv env Q s'"
  by (induction rule: learn_step.induct)
    (auto simp: start_learn_inv save_draft_inv cancel_draft_inv edit_trigger_inv
      edit_instruction_inv handle_follow_up_inv set_pending_edit_def get_pending_state_def
      clear_pending_state_def Let_def split_beta)

lemma learn_reachable_inv: "learn_reachable env s \<Longrightarrow> learn_inv env Q s"
proof (induction rule: learn_reachable.induct)
  case (learn_start a b)
  show ?case
    by (simp add: learn_inv_def learn_init_def draft_inv_new drafts_all_def reach_empty)
      (simp add: new_draft_store_def draft_at_def)
next
  case (learn_next s s')
  then show ?case by (blast intro: learn_step_inv)
qed

section \<open>What the table may hold\<close>

text \<open>
  C4: end to end. Whatever users send, in whatever order, a row that the /learn flow has written
  loads as a confirmed contract of local origin, is the contract that the safety gate passed for the
  owner of the row, has only valid triggers, may be executed, and is granted no tool, store,
  network, file, history or secret by either checkpoint.
\<close>

theorem learned_rows_are_sandboxed:
  assumes "learn_reachable env s" and "r \<in> set (lf_contracts s)"
  shows "\<exists>c. load_contract_from_row (le_platform env) r True = Inr c \<and> c_origin c = ''local_learn''
    \<and> lc_status (c_lifecycle c) = ''confirmed'' \<and> consistent (le_platform env) c
    \<and> passes env (row_user_id r) c
    \<and> list_all (\<lambda>p. tv_valid (validate_trigger p)) (act_phrases (c_activation c))
    \<and> pcr_allowed (check_execution_allowed c)
    \<and> (\<forall>res. \<not> gate_grants c res \<and> \<not> broker_grants c res)"
proof -
  obtain c where c: "row_holds r c" "consistent (le_platform env) c" "learned c"
    "passes env (row_user_id r) c" "lc_status (c_lifecycle c) = ''confirmed''"
    using learn_invD(4) [OF learn_reachable_inv [OF assms(1), of "\<lambda>_. False"]] assms(2) unfolding learned_row_def by blast
  have "load_contract_from_row (le_platform env) r True = Inr c"
    by (rule load_row_holds [OF c(1,2) learned_wf [OF c(3)]])
  moreover have "pcr_allowed (check_execution_allowed c)"
    using c(3) by (simp add: learned_def execution_allowed_iff contract_defaults compute_risk_level_def)
  moreover have "\<not> gate_grants c res \<and> \<not> broker_grants c res" for res
    using c(3) gate.sandbox_denied broker.sandbox_denied by (simp add: learned_def)
  ultimately show ?thesis using c by (auto simp: learned_def)
qed

section \<open>Saving a draft\<close>

text \<open>Errors of \<open>persist\<close> on a learned contract are store errors that the service catches.\<close>

lemma persist_caught:
  assumes "persist pf db tb ts (confirm_lifecycle c) u = (tb', Inl e)" and "learned c"
  shows "is_contract_store_error e" and "tb' = tb"
proof -
  have "is_contract_store_error e \<and> tb' = tb"
  proof (cases "persist_prepare pf tb ts (confirm_lifecycle c) u")
    case (Inl x)
    then show ?thesis
      using assms(1)
      by (auto simp: persist_def persist_prepare_def Let_def is_contract_store_error_def split: if_splits)
  next
    case (Inr c1)
    have "c_contract_version c1 = 1"
      using persist_prepareD [OF Inr] assms(2) by (simp add: learned_def confirm_lifecycle_def)
    then have "fits_int64 (c_contract_version c1)" by (simp add: fits_int64_def)
    then show ?thesis
      using assms(1) Inr
      by (auto simp: persist_def persist_insert_def is_contract_store_error_def
          classify_integrity_error_def Let_def split: sum.splits if_splits)
  qed
  then show "is_contract_store_error e" and "tb' = tb" by blast+
qed

lemma persist_saved:
  assumes "persist pf db tb ts (confirm_lifecycle c) u = (tb', Inr c1)"
  shows "tb' = tb @ [row_of c1 u] \<and> c_id c1 = c_id c \<and> c_name c1 = c_name c
    \<and> iter_user_text_fields c1 = iter_user_text_fields c \<and> consistent pf c1"
  using assms
proof (cases rule: persist_cases)
  case (2 c1')
  then show ?thesis
    using persist_prepareD [OF 2(1)]
    by auto
qed simp

text \<open>
  Saving is exception-free and all or nothing. A save succeeds only for the owner's own, unexpired
  draft under the etag the caller saw; it then appends one row of that user, with the name and the
  texts of exactly that draft, and the draft is gone. A save that fails leaves the contract table
  alone and keeps the draft, unless the draft had expired.
\<close>

theorem saving_a_draft:
  assumes "learn_reachable env s"
    and "save_draft env ci s u c d e = (s', out)"
  shows "case out of Inl ex \<Rightarrow> False | Inr res \<Rightarrow>
    (if sr_success res
     then \<exists>dr k. draft_at (lf_drafts s) (u, c, d) = Some dr \<and> sd_user_id dr = u
       \<and> sd_etag dr = e \<and> ci_clock ci 0 \<le> sd_expires_at dr
       \<and> validate_contract_safety env ci (sd_contract dr) u = None
       \<and> lf_contracts s' = lf_contracts s @ [row_of k u]
       \<and> c_id k = c_id (sd_contract dr) \<and> sr_contract_name res = c_name (sd_contract dr)
       \<and> iter_user_text_fields k = iter_user_text_fields (sd_contract dr)
       \<and> (\<forall>key. draft_at (lf_drafts s') key = (if key = (u, c, d) then None else draft_at (lf_drafts s) key))
     else lf_contracts s' = lf_contracts s
       \<and> (\<forall>key dr. draft_at (lf_drafts s) key = Some dr \<and> draft_at (lf_drafts s') key \<noteq> Some dr
            \<longrightarrow> key = (u, c, d) \<and> sd_expires_at dr < ci_clock ci 0))"
proof -
  note inv = learn_reachable_inv [OF assms(1), of "\<lambda>_. False"]
  obtain ds r where g: "draft_get (lf_drafts s) u c d (ci_clock ci 0) = (ds, r)" by (rule prod.exhaust)
  show ?thesis
    using g
  proof (cases rule: draft_get_cases)
    case (found dr)
    have ok: "learned (sd_contract dr)"
      using drafts_allD [OF learn_invD(2) [OF inv] found(3)] by simp
    show ?thesis
    proof (cases "sd_etag dr = e \<and> validate_contract_safety env ci (sd_contract dr) u = None
        \<and> contract_preflight env (lf_contracts s) (confirm_lifecycle (sd_contract dr)) u = None")
      case False
      then show ?thesis using assms(2) g found
        by (auto simp: save_draft_def save_failed_def Let_def split: option.splits if_splits)
    next
      case True
      obtain tb p where per: "persist (le_platform env) (le_database env) (lf_contracts s) (ci_iso ci 2)
          (confirm_lifecycle (sd_contract dr)) u = (tb, p)" by (rule prod.exhaust)
      show ?thesis
      proof (cases p)
        case (Inl x)
        then show ?thesis using assms(2) g found True per persist_caught [OF per [unfolded Inl] ok]
          by (auto simp: save_draft_def save_failed_def Let_def)
      next
        case (Inr k)
        obtain ds2 del where del: "draft_delete (lf_drafts s) u c d = (ds2, del)" by (rule prod.exhaust)
        have "del = Inr True"
          and "\<forall>key. draft_at ds2 key = (if key = (u, c, d) then None else draft_at (lf_drafts s) key)"
          using del found by (auto simp: draft_delete_def Let_def split: option.splits if_splits)
        then show ?thesis
          using assms(2) g found True per [unfolded Inr] persist_saved [OF per [unfolded Inr]] del
          by (auto simp: save_draft_def Let_def)
      qed
    qed
  qed (use assms(2) g in \<open>auto simp: save_draft_def save_failed_def split: if_splits\<close>)
qed

end
