(* ===== verification/LearnProgress.thy ===== *)
theory LearnProgress
  imports LearnGuarantees
begin

text \<open>
  Progress of the /learn flow: what the preview shows can be saved, and what follow-up messages do
  with the pending state. Witnesses run the flow on a German sentence.
\<close>

section \<open>A previewed contract is valid\<close>

abbreviation previewed :: "string \<Rightarrow> string \<Rightarrow> string \<Rightarrow> string \<Rightarrow> skill_contract" where
  "previewed hex ts t i \<equiv> default_contract\<lparr>
     c_id := new_skill_id hex, c_name := derive_name t i, c_created_at := ts, c_updated_at := ts,
     c_activation := default_activation\<lparr>act_kind := ''shortcut'', act_mode := ''exact_phrase'',
       act_phrases := [py_lower t], act_match_scope := ''whole_message''\<rparr>,
     c_execution := default_execution\<lparr>exec_type := ''llm_instruction'', exec_instruction := i\<rparr>,
     c_lifecycle := default_lifecycle\<lparr>lc_status := ''draft''\<rparr>, c_origin := ''local_learn''\<rparr>"

lemma built_pending:
  assumes "br_status (build hex ts s) = ''pending''"
  shows "\<exists>t i. i \<noteq> [] \<and> br_contract (build hex ts s) = previewed hex ts t i"
proof -
  obtain t i where ti: "extract_trigger_and_instruction s = Some (t, i)" "tv_valid (validate_trigger t)"
    using assms by (auto simp: build_def split: option.splits if_splits)
  then have "br_contract (build hex ts s) = previewed hex ts t i" by (simp add: build_def)
  moreover from ti(1) have "i \<noteq> []"
    by (auto simp: extract_trigger_and_instruction_def dest: first_extraction_parts)
  ultimately show ?thesis by blast
qed

definition hex_digest :: "platform \<Rightarrow> bool" where
  "hex_digest pf \<longleftrightarrow> (\<forall>text. hex_pattern_match (pf_sha256_hex pf text))"

lemma built_valid:
  assumes "br_status (build hex ts s) = ''pending''" and "ts \<noteq> []" and "now \<noteq> []" and "hex_digest pf"
  shows "is_valid (validate (finalize_security_metadata pf
           ((confirm_lifecycle (br_contract (build hex ts s)))\<lparr>c_updated_at := now\<rparr>))
           None (Some 2) (Some 1))"
proof -
  obtain t i where b: "i \<noteq> []" "br_contract (build hex ts s) = previewed hex ts t i"
    using built_pending [OF assms(1)] by blast
  have "derive_name t i \<noteq> []" by (simp add: derive_name_def Let_def)
  moreover have "hex_pattern_match (compute_checksum pf c)" for c
    using assms(4) by (simp add: compute_checksum_def hex_digest_def)
  ultimately show ?thesis
    unfolding b(2) confirm_lifecycle_def finalize_security_metadata_def Let_def
    using b(1) assms(2,3)
    by (simp add: admissible_defs contract_defaults new_skill_id_def)
qed

lemma built_versions [simp]:
  "c_contract_version (br_contract (build hex ts s)) = 1"
  "c_schema_version (br_contract (build hex ts s)) = 2"
  by (auto simp: build_def stub_contract_def contract_defaults split: option.split)

lemma built_hypothesis [simp]: "c_hypothesis_id (br_contract (build hex ts s)) = None"
  by (auto simp: build_def stub_contract_def contract_defaults split: option.split)

section \<open>From preview to row\<close>

lemma preview_result:
  assumes "start_learn env ci s u c t False = (s1, Inr res)" and "lr_status res = ''preview''"
  shows "br_status (build (ci_contract_hex ci) (ci_iso ci 0) t) = ''pending''
    \<and> lr_draft res = Some (snd (draft_create (le_platform env) (lf_drafts s) u c
         (br_contract (build (ci_contract_hex ci) (ci_iso ci 0) t)) (ci_draft_id ci) (ci_clock ci 0) (ci_clock ci 1)))
    \<and> s1 = s\<lparr>lf_drafts := fst (draft_create (le_platform env) (lf_drafts s) u c
         (br_contract (build (ci_contract_hex ci) (ci_iso ci 0) t)) (ci_draft_id ci) (ci_clock ci 0) (ci_clock ci 1))\<rparr>"
proof -
  have "br_status (build (ci_contract_hex ci) (ci_iso ci 0) t) \<in> {''pending'', ''needs_input''}"
    by (auto simp: build_def split: option.split)
  with assms show ?thesis
    by (auto simp: start_learn_def Let_def split_beta split: option.splits if_splits)
qed

lemma persist_fresh:
  assumes "is_valid (validate (finalize_security_metadata pf (c\<lparr>c_updated_at := ts\<rparr>)) None
             (Some (c_schema_version c)) (Some (c_contract_version c)))"
    and "\<not> exists_by_name tb u (c_name c)" and "c_id c \<notin> row_id ` set tb"
    and "c_hypothesis_id c = None" and "c_contract_version c = 1"
  shows "\<exists>tb' k. persist pf db tb ts c u = (tb', Inr k)"
proof -
  let ?c = "finalize_security_metadata pf (c\<lparr>c_updated_at := ts\<rparr>)"
  have "\<not> list_ex (\<lambda>r. row_id r = row_id (row_of ?c u)) tb"
    using assms(3) by (auto simp: list_ex_iff row_of_def) (metis imageI)
  moreover have "index_violations (row_of ?c u) tb = []"
    using assms(2,4)
    by (auto simp: index_violations_Nil same_key_def same_hypothesis_def row_of_def exists_by_name_def list_ex_iff)
  ultimately have "insert_row db (row_of ?c u) tb = Inr (tb @ [row_of ?c u])"
    by (simp add: insert_row_def)
  then show ?thesis using assms
    by (simp add: persist_def persist_prepare_def persist_insert_def Let_def fits_int64_def)
qed

lemma save_of_built_draft:
  assumes "draft_at (lf_drafts s) (u, c, d) = Some dr" and "sd_user_id dr = u"
    and "ci_clock ci 0 \<le> sd_expires_at dr" and "sd_contract dr = br_contract (build hex ts t)"
    and "br_status (build hex ts t) = ''pending''" and "ts \<noteq> []" and "ci_iso ci 2 \<noteq> []"
    and "hex_digest (le_platform env)"
    and "validate_contract_safety env ci (sd_contract dr) u = None"
    and "\<not> exists_by_name (lf_contracts s) u (c_name (sd_contract dr))"
    and "c_id (sd_contract dr) \<notin> row_id ` set (lf_contracts s)"
  shows "\<exists>s2. save_draft env ci s u c d (sd_etag dr)
    = (s2, Inr \<lparr>sr_success = True, sr_contract_name = c_name (sd_contract dr), sr_error = LText [],
               sr_error_type = []\<rparr>)"
proof -
  let ?k = "confirm_lifecycle (br_contract (build hex ts t))"
  have same: "?k\<lparr>c_updated_at := ts\<rparr> = ?k"
    using built_pending [OF assms(5)] by (auto simp: confirm_lifecycle_def)
  note v = built_valid [OF assms(5,6) _ assms(8)]
  have vk: "c_contract_version ?k = 1" "c_schema_version ?k = 2" "c_hypothesis_id ?k = None"
    by (simp_all add: confirm_lifecycle_def)
  have name: "\<not> exists_by_name (lf_contracts s) u (c_name ?k)" and key: "c_id ?k \<notin> row_id ` set (lf_contracts s)"
    using assms(10,11) assms(4) by simp_all
  have pre: "contract_preflight env (lf_contracts s) ?k u = None"
    using name vk v [OF assms(6), unfolded same] by (simp add: contract_preflight_def Let_def)
  obtain tb k where per: "persist (le_platform env) (le_database env) (lf_contracts s) (ci_iso ci 2) ?k u
      = (tb, Inr k)"
    using persist_fresh [OF _ name key vk(3,1), of "le_platform env" "ci_iso ci 2" "le_database env"]
      v [OF assms(7)] vk by auto
  have g: "draft_get (lf_drafts s) u c d (ci_clock ci 0) = (lf_drafts s, Inr (Some dr))"
    using assms(1-3) by (simp add: draft_get_def)
  have "draft_delete (lf_drafts s) u c d = (remove_draft (lf_drafts s) (u, c, d), Inr True)"
    using assms(1,2) by (simp add: draft_delete_def)
  then show ?thesis
    using g assms(4,9) pre per persist_saved [OF per] by (simp add: save_draft_def Let_def)
qed

text \<open>
  Progress. A skill that the preview has shown can be saved: until the draft expires, a save by the
  same user with the etag of the preview succeeds, if the gate still accepts the text, the user
  has no skill of that name and the generated id is new. (Digests are 64 hex digits and ISO
  timestamps are not empty.)
\<close>

theorem previewed_skill_can_be_saved:
  assumes "hex_digest (le_platform env)" and "ci_iso ci 0 \<noteq> []" and "ci_iso ci2 2 \<noteq> []"
    and "start_learn env ci s u c t False = (s1, Inr res)" and "lr_status res = ''preview''"
    and "lr_draft res = Some dr" and "ci_clock ci2 0 \<le> sd_expires_at dr"
    and "validate_contract_safety env ci2 (sd_contract dr) u = None"
    and "\<not> exists_by_name (lf_contracts s) u (c_name (sd_contract dr))"
    and "c_id (sd_contract dr) \<notin> row_id ` set (lf_contracts s)"
  shows "\<exists>s2. save_draft env ci2 s1 u c (sd_draft_id dr) (sd_etag dr)
    = (s2, Inr \<lparr>sr_success = True, sr_contract_name = c_name (sd_contract dr), sr_error = LText [],
               sr_error_type = []\<rparr>)"
proof -
  note p = preview_result [OF assms(4,5)]
  have dr: "sd_user_id dr = u" "sd_contract dr = br_contract (build (ci_contract_hex ci) (ci_iso ci 0) t)"
    "draft_at (lf_drafts s1) (u, c, sd_draft_id dr) = Some dr"
    using p assms(6) by (auto simp: draft_create_eq new_draft_def Let_def)
  have "lf_contracts s1 = lf_contracts s" using p by simp
  with p assms(9,10) show ?thesis
    by (intro save_of_built_draft [OF dr(3,1) assms(7) dr(2) _ assms(2,3,1,8)]) simp_all
qed

section \<open>Follow-up messages\<close>

lemma edit_draft_result:
  assumes "edit_draft env ci s u c d e edit = (s', out)"
  shows "case out of Inl ex \<Rightarrow> False | Inr r \<Rightarrow>
    lf_contracts s' = lf_contracts s \<and> lf_pending s' = lf_pending s \<and>
    (if ed_success r
     then \<exists>old new. draft_at (lf_drafts s) (u, c, d) = Some old \<and> sd_etag old = e
       \<and> draft_at (lf_drafts s') (u, c, d) = Some new \<and> ed_draft r = Some new
       \<and> edit (sd_contract old) = (sd_contract new, None)
       \<and> sd_etag new = compute_etag (le_platform env) (sd_contract new)
       \<and> sd_expires_at new = sd_expires_at old
     else ed_draft r = None)"
proof -
  obtain ds g where g: "draft_get (lf_drafts s) u c d (ci_clock ci 1) = (ds, g)" by (rule prod.exhaust)
  show ?thesis
    using g
  proof (cases rule: draft_get_cases)
    case (found dr)
    obtain k err where k: "edit (sd_contract dr) = (k, err)" by (rule prod.exhaust)
    show ?thesis
    proof (cases "err = None \<and> validate_contract_safety env ci k u = None")
      case False
      then show ?thesis using assms g found k
        by (auto simp: edit_draft_def edit_failed_def Let_def split: option.splits)
    next
      case True
      obtain ds2 up where up: "draft_update (le_platform env) (lf_drafts s) u c d k e None (ci_clock ci 2)
          = (ds2, up)" by (rule prod.exhaust)
      show ?thesis
        using assms g found k True up
        by (auto simp: edit_draft_def edit_failed_def draft_update_def Let_def draft_at_def
            AList.update_conv' split: if_splits)
    qed
  qed (use assms g in \<open>auto simp: edit_draft_def edit_failed_def split: if_splits\<close>)
qed

lemma get_pending_cases:
  assumes "get_pending p u c now = (p', r)"
  obtains (nothing) "r = None"
  | (state) st where "p' = p" "r = Some st" "pe_states p (u, c) = Some st" "ps_user_id st = u"
      "now \<le> ps_expires_at st"
proof (cases r)
  case (Some st)
  then show ?thesis using assms state by (auto simp: get_pending_def split: option.splits if_splits)
qed (rule nothing)

lemma clear_pending_own:
  "pe_states p (u, c) = Some st \<Longrightarrow> ps_user_id st = u \<Longrightarrow>
   pe_states (fst (clear_pending p u c)) (u, c) = None"
  by (simp add: clear_pending_def)

text \<open>What a follow-up message may do, as a relation between the states and the outcome.\<close>

fun follow_up_effect ::
    "learn_state \<Rightarrow> int \<Rightarrow> int \<Rightarrow> int \<Rightarrow> learn_state \<times> (learn_exception + edit_result option) \<Rightarrow> bool" where
  "follow_up_effect s u c now (s', Inl ex) = False"
| "follow_up_effect s u c now (s', Inr None) =
     (lf_contracts s' = lf_contracts s \<and> lf_drafts s' = lf_drafts s)"
| "follow_up_effect s u c now (s', Inr (Some r)) =
     (lf_contracts s' = lf_contracts s \<and>
      (\<exists>st. pe_states (lf_pending s) (u, c) = Some st \<and> now \<le> ps_expires_at st \<and>
         (if ed_success r
          then pe_states (lf_pending s') (u, c) = None
            \<and> (\<exists>old new. draft_at (lf_drafts s) (u, c, ps_draft_id st) = Some old
                 \<and> sd_etag old = ps_etag st \<and> draft_at (lf_drafts s') (u, c, ps_draft_id st) = Some new
                 \<and> sd_expires_at new = sd_expires_at old)
          else if ed_error_type r \<in> {''expired'', ''not_found'', ''ownership''}
          then pe_states (lf_pending s') (u, c) = None
          else lf_pending s' = lf_pending s)))"

lemma edit_then_pending:
  assumes "pe_states (lf_pending s) (u, c) = Some st" and "ps_user_id st = u" and "now \<le> ps_expires_at st"
  shows "follow_up_effect s u c now
    (case edit_draft env ci s u c (ps_draft_id st) (ps_etag st) f of
       (s2, Inl e) \<Rightarrow> (s2, Inl e)
     | (s2, Inr result) \<Rightarrow> (after_follow_up ci s2 u c st result, Inr (Some result)))"
proof -
  obtain s2 out where e: "edit_draft env ci s u c (ps_draft_id st) (ps_etag st) f = (s2, out)"
    by (rule prod.exhaust)
  show ?thesis
    using edit_draft_result [OF e] e assms clear_pending_own [OF assms(1,2)]
    by (auto simp: after_follow_up_def split: sum.splits if_splits)
qed

text \<open>
  A follow-up message never raises, never touches the stored contracts and acts only through
  a pending state of this user and chat that has not expired. An accepted edit replaces the contract
  of the draft the state names, provided the etag of the state is still the draft's, and ends
  the pending state; so do a missing, foreign or expired draft. Every other refusal, the one for
  a stale etag included, keeps the state exactly as it is.
\<close>

theorem follow_up_edits_the_pending_draft:
  "follow_up_effect s u c (ci_clock ci 0) (handle_follow_up env ci s u c t)"
proof -
  obtain p g where g: "get_pending (lf_pending s) u c (ci_clock ci 0) = (p, g)" by (rule prod.exhaust)
  show ?thesis
    using g
  proof (cases rule: get_pending_cases)
    case nothing
    then show ?thesis using g by (simp add: handle_follow_up_def)
  next
    case (state st)
    have keep: "s\<lparr>lf_pending := p\<rparr> = s" using state by simp
    show ?thesis
      using g state edit_then_pending [OF state(3,4,5)]
      by (simp add: handle_follow_up_def keep edit_trigger_def edit_instruction_def Let_def)
  qed
qed

section \<open>A run\<close>

text \<open>User 7 teaches a shortcut in chat 1, sees the preview, and saves it.\<close>

definition demo_env :: learn_env where
  "demo_env = \<lparr>le_platform = hex_platform, le_database = hd_engine, le_privacy = (\<lambda>_. None)\<rparr>"

definition demo_call :: call_inputs where
  "demo_call = \<lparr>ci_contract_hex = ''01'', ci_draft_id = ''d1'', ci_hypothesis_id = ''h'',
     ci_iso = (\<lambda>_. ''t''), ci_clock = (\<lambda>_. 0)\<rparr>"

definition demo_text :: string where
  "demo_text = ''wenn ich ab sage, c''"

lemma demo_extraction: "extract_trigger_and_instruction demo_text = Some (''ab'', ''c'')"
  by code_simp

lemma demo_trigger: "tv_valid (validate_trigger ''ab'')"
  by code_simp

abbreviation demo_built :: skill_contract where
  "demo_built \<equiv> previewed ''01'' ''t'' ''ab'' ''c''"

lemma demo_build: "br_contract (build ''01'' ''t'' demo_text) = demo_built"
  "br_status (build ''01'' ''t'' demo_text) = ''pending''"
  by (simp_all add: build_def demo_extraction demo_trigger)

lemma demo_text_fields: "iter_user_text_fields demo_built \<noteq> []" "c_name demo_built = ''Ab: c''"
  by code_simp+

lemma demo_safe: "validate_contract_safety demo_env demo_call demo_built 7 = None"
  by code_simp

lemma demo_fields [simp]:
  "ci_contract_hex demo_call = ''01''" "ci_draft_id demo_call = ''d1''" "ci_iso demo_call n = ''t''"
  "ci_clock demo_call n = 0" "le_platform demo_env = hex_platform" "le_database demo_env = hd_engine"
  by (simp_all add: demo_call_def demo_env_def)

abbreviation demo_start :: "learn_state \<times> (learn_exception + learn_flow_result)" where
  "demo_start \<equiv> start_learn demo_env demo_call (learn_init 900 600) 7 1 demo_text False"

abbreviation demo_previewed :: skill_draft where
  "demo_previewed \<equiv> new_draft hex_platform 900 7 1 demo_built ''d1'' 0"

lemma demo_created:
  "snd (draft_create hex_platform (lf_drafts (learn_init 900 600)) 7 1 demo_built ''d1'' 0 0) = demo_previewed"
  by (simp add: draft_create_eq learn_init_def new_draft_store_def Let_def)

lemma demo_preview:
  "\<exists>s1 res. demo_start = (s1, Inr res) \<and> lr_status res = ''preview'' \<and> lr_draft res = Some demo_previewed"
  using demo_created
  by (simp add: start_learn_def demo_build demo_safe Let_def split_beta)

lemma demo_hex: "hex_digest hex_platform"
  using hex_ok by (simp add: hex_digest_def hex_platform_def)

lemma demo_fresh_id: "ds_owners (lf_drafts (learn_init 900 600)) (1, ci_draft_id demo_call) = None"
  by (simp add: learn_init_def new_draft_store_def)

theorem previewed_skill_can_be_saved_witness:
  "\<exists>s1 res s2. demo_start = (s1, Inr res) \<and>
     save_draft demo_env demo_call s1 7 1 ''d1'' (compute_etag hex_platform demo_built)
       = (s2, Inr \<lparr>sr_success = True, sr_contract_name = ''Ab: c'', sr_error = LText [],
                  sr_error_type = []\<rparr>)"
proof -
  obtain s1 res where p: "demo_start = (s1, Inr res)" "lr_status res = ''preview''"
    "lr_draft res = Some demo_previewed" using demo_preview by blast
  have h: "hex_digest (le_platform demo_env)" "ci_iso demo_call 0 \<noteq> []" "ci_iso demo_call 2 \<noteq> []"
    "ci_clock demo_call 0 \<le> sd_expires_at demo_previewed"
    using demo_hex by (simp_all add: new_draft_def)
  have safe: "validate_contract_safety demo_env demo_call (sd_contract demo_previewed) 7 = None"
    using demo_safe by (simp add: new_draft_def)
  have "\<exists>s2. save_draft demo_env demo_call s1 7 1 (sd_draft_id demo_previewed) (sd_etag demo_previewed)
      = (s2, Inr \<lparr>sr_success = True, sr_contract_name = c_name (sd_contract demo_previewed),
                 sr_error = LText [], sr_error_type = []\<rparr>)"
    by (rule previewed_skill_can_be_saved [OF h(1-3) p h(4) safe])
      (simp_all add: learn_init_def exists_by_name_def)
  then show ?thesis using p(1) demo_text_fields(2) by (simp add: new_draft_def)
qed

text \<open>The same run as a reachable state with one stored row.\<close>

abbreviation demo_state :: learn_state where "demo_state \<equiv> fst demo_start"

abbreviation demo_save :: "learn_state \<times> (learn_exception + save_result)" where
  "demo_save \<equiv> save_draft demo_env demo_call demo_state 7 1 ''d1'' (compute_etag hex_platform demo_built)"

lemma demo_state_reachable: "learn_reachable demo_env demo_state"
  by (rule learn_next [OF learn_start step_start [OF demo_fresh_id]])

lemma demo_state_parts:
  "lf_contracts demo_state = []" "draft_at (lf_drafts demo_state) (7, 1, ''d1'') = Some demo_previewed"
  by (simp_all add: start_learn_def demo_build demo_safe Let_def split_beta learn_init_def)
    (simp add: draft_create_eq new_draft_def new_draft_store_def Let_def)

lemma demo_save_result:
  "\<exists>s2. demo_save = (s2, Inr \<lparr>sr_success = True, sr_contract_name = ''Ab: c'', sr_error = LText [],
     sr_error_type = []\<rparr>)"
proof -
  have h: "sd_user_id demo_previewed = 7" "ci_clock demo_call 0 \<le> sd_expires_at demo_previewed"
    "sd_contract demo_previewed = br_contract (build ''01'' ''t'' demo_text)" "ci_iso demo_call 2 \<noteq> []"
    "hex_digest (le_platform demo_env)"
    using demo_hex demo_build by (simp_all add: new_draft_def)
  have safe: "validate_contract_safety demo_env demo_call (sd_contract demo_previewed) 7 = None"
    using demo_safe by (simp add: new_draft_def)
  have "\<exists>s2. save_draft demo_env demo_call demo_state 7 1 ''d1'' (sd_etag demo_previewed)
      = (s2, Inr \<lparr>sr_success = True, sr_contract_name = c_name (sd_contract demo_previewed),
                 sr_error = LText [], sr_error_type = []\<rparr>)"
    by (rule save_of_built_draft [OF demo_state_parts(2) h(1-3) demo_build(2) _ h(4,5) safe])
      (simp_all add: demo_state_parts(1) exists_by_name_def)
  then show ?thesis using demo_text_fields(2) by (simp add: new_draft_def)
qed

theorem saving_a_draft_witness:
  "\<exists>s2 row. demo_save = (s2, Inr \<lparr>sr_success = True, sr_contract_name = ''Ab: c'', sr_error = LText [],
     sr_error_type = []\<rparr>) \<and> lf_contracts s2 = [row] \<and> row_user_id row = 7
     \<and> draft_at (lf_drafts s2) (7, 1, ''d1'') = None"
proof -
  obtain s2 where s2: "demo_save = (s2, Inr \<lparr>sr_success = True, sr_contract_name = ''Ab: c'',
    sr_error = LText [], sr_error_type = []\<rparr>)" using demo_save_result by blast
  from saving_a_draft [OF demo_state_reachable s2] s2 show ?thesis
    by (auto simp: demo_state_parts row_of_def)
qed

theorem learned_rows_are_sandboxed_witness:
  "\<exists>r c. r \<in> set (lf_contracts (fst demo_save)) \<and> load_contract_from_row hex_platform r True = Inr c
     \<and> pcr_allowed (check_execution_allowed c) \<and> (\<forall>res. \<not> gate_grants c res)"
proof -
  have reach: "learn_reachable demo_env (fst demo_save)"
    by (rule learn_next [OF demo_state_reachable step_save])
  obtain s2 where s2: "demo_save = (s2, Inr \<lparr>sr_success = True, sr_contract_name = ''Ab: c'',
    sr_error = LText [], sr_error_type = []\<rparr>)" using demo_save_result by blast
  have "draft_get (lf_drafts demo_state) 7 1 ''d1'' 0 = (lf_drafts demo_state, Inr (Some demo_previewed))"
    by (simp add: draft_get_def demo_state_parts new_draft_def)
  with s2 have "lf_contracts s2 \<noteq> []"
    by (auto simp: save_draft_def save_failed_def Let_def new_draft_def dest: persist_saved split: prod.splits option.splits sum.splits if_splits)
  then obtain r where "r \<in> set (lf_contracts (fst demo_save))" using s2 by (cases "lf_contracts s2") auto
  with learned_rows_are_sandboxed [OF reach this] show ?thesis unfolding demo_fields by blast
qed

end
