(* ===== verification/SafeJson.thy ===== *)
theory SafeJson
  imports PyJson
begin

text \<open>
  \<open>infrastructure/safe_json.py\<close>: JSON loading with limits on the size of the text and on the depth
  of the value, the latter checked by a breadth-first loop over a queue. What \<open>json.loads\<close> makes of
  a text is a parameter.
\<close>

datatype loads_result = LoadsValue json | LoadsDecodeError | LoadsRecursionError

datatype safe_json_error = JsonTooLarge nat nat | JsonTooDeep nat nat | JsonDecodeFailure

definition default_max_bytes :: nat where
  "default_max_bytes = 10 * 1024 * 1024"

definition default_max_depth :: nat where
  "default_max_depth = 64"

section \<open>The depth check\<close>

fun is_container :: "json \<Rightarrow> bool" where
  "is_container (JList _) = True"
| "is_container (JObj _) = True"
| "is_container _ = False"

text \<open>What one round of the loop appends to the queue.\<close>

fun nested :: "json \<Rightarrow> json list" where
  "nested (JObj kvs) = filter is_container (map snd kvs)"
| "nested (JList xs) = filter is_container xs"
| "nested _ = []"

primrec json_nodes :: "json \<Rightarrow> nat" where
  "json_nodes JNull = 1"
| "json_nodes (JBool _) = 1"
| "json_nodes (JInt _) = 1"
| "json_nodes (JFloat _) = 1"
| "json_nodes (JStr _) = 1"
| "json_nodes (JList xs) = 1 + sum_list (map json_nodes xs)"
| "json_nodes (JObj kvs) = 1 + sum_list (map snd (map (map_prod id json_nodes) kvs))"

lemma sum_filter_le: "sum_list (map f (filter P xs)) \<le> sum_list (map (f :: 'a \<Rightarrow> nat) xs)"
  by (induction xs) auto

lemma nested_nodes: "sum_list (map json_nodes (nested v)) < json_nodes v"
  by (cases v) (auto simp: comp_def snd_map_prod le_imp_less_Suc sum_filter_le
      intro!: le_less_trans [OF sum_filter_le])

function check_queue :: "nat \<Rightarrow> (json \<times> nat) list \<Rightarrow> safe_json_error + unit" where
  "check_queue max_depth [] = Inr ()"
| "check_queue max_depth ((current, depth) # queue) =
     (if max_depth < depth then Inl (JsonTooDeep depth max_depth)
      else check_queue max_depth (queue @ map (\<lambda>v. (v, depth + 1)) (nested current)))"
  by pat_completeness auto
termination
  by (relation "measure (\<lambda>(m, q). sum_list (map (json_nodes \<circ> fst) q))")
    (auto simp: comp_def nested_nodes)

definition check_depth :: "json \<Rightarrow> nat \<Rightarrow> safe_json_error + unit" where
  "check_depth obj max_depth = check_queue max_depth [(obj, 0)]"

section \<open>Loading\<close>

text \<open>\<open>len(text.encode("utf-8"))\<close> on the code points below 256.\<close>

definition utf8_size :: "string \<Rightarrow> nat" where
  "utf8_size s = sum_list (map (\<lambda>c. if (of_char c :: nat) < 128 then 1 else 2) s)"

definition safe_json_load ::
    "(string \<Rightarrow> loads_result) \<Rightarrow> string \<Rightarrow> nat \<Rightarrow> nat \<Rightarrow> safe_json_error + json" where
  "safe_json_load loads s_text max_bytes max_depth =
     (let size = utf8_size s_text
      in if max_bytes < size then Inl (JsonTooLarge size max_bytes)
         else case loads s_text of
                LoadsRecursionError \<Rightarrow> Inl (JsonTooDeep (max_depth + 1) max_depth)
              | LoadsDecodeError \<Rightarrow> Inl JsonDecodeFailure
              | LoadsValue result \<Rightarrow> bind_res (check_depth result max_depth) (\<lambda>_. Inr result))"

section \<open>What the loop decides\<close>

text \<open>The nesting of containers in a value, by structural recursion.\<close>

fun max_list :: "nat list \<Rightarrow> nat" where
  "max_list [] = 0"
| "max_list (x # xs) = max x (max_list xs)"

primrec nesting :: "json \<Rightarrow> nat" where
  "nesting JNull = 0"
| "nesting (JBool _) = 0"
| "nesting (JInt _) = 0"
| "nesting (JFloat _) = 0"
| "nesting (JStr _) = 0"
| "nesting (JList xs) = 1 + max_list (map nesting xs)"
| "nesting (JObj kvs) = 1 + max_list (map snd (map (map_prod id nesting) kvs))"

lemma max_list_le: "max_list xs \<le> n \<longleftrightarrow> (\<forall>x \<in> set xs. x \<le> n)"
  by (induction xs) auto

lemma nesting_scalar: "\<not> is_container v \<Longrightarrow> nesting v = 0"
  by (cases v) auto

lemma nesting_nested:
  "is_container v \<Longrightarrow> nesting v \<le> Suc n \<longleftrightarrow> (\<forall>w \<in> set (nested v). nesting w \<le> n)"
  by (cases v) (use nesting_scalar in \<open>fastforce simp: max_list_le comp_def snd_map_prod\<close>)+

text \<open>
  The loop accepts a queue exactly when every value in it fits into what is left of the depth;
  when it raises, it names the first depth beyond the limit, because the depths in the queue
  never decrease and grow by at most one.
\<close>

lemma check_queue_spec:
  assumes "\<forall>(v, d) \<in> set q. d \<le> Suc m" and "list_all (\<lambda>(v, d). is_container v) q"
  shows "check_queue m q =
    (if \<forall>(v, d) \<in> set q. d + nesting v \<le> Suc m then Inr () else Inl (JsonTooDeep (Suc m) m))"
  using assms
proof (induction m q rule: check_queue.induct)
  case (1 m)
  then show ?case by simp
next
  case (2 m v d q)
  have cont: "is_container v" using 2(3) by simp
  then have pos: "1 \<le> nesting v" by (cases v) auto
  show ?case
  proof (cases "m < d")
    case True
    then have "d = Suc m" using 2(2) by simp
    then show ?thesis using pos by simp
  next
    case False
    let ?new = "map (\<lambda>w. (w, d + 1)) (nested v)"
    have new: "list_all (\<lambda>(v, d). is_container v) ?new"
      using cont by (cases v) (auto simp: list_all_iff)
    obtain n where n: "m = d + n" using False by (metis le_add_diff_inverse not_less)
    have "d + nesting v \<le> Suc m \<longleftrightarrow> (\<forall>(w, e) \<in> set ?new. e + nesting w \<le> Suc m)"
      using nesting_nested [OF cont, of n] by (auto simp: n)
    then have all: "(\<forall>(w, e) \<in> set (q @ ?new). e + nesting w \<le> Suc m)
        = (\<forall>(w, e) \<in> set ((v, d) # q). e + nesting w \<le> Suc m)"
      by (simp add: ball_Un conj_commute)
    have "check_queue m (q @ ?new) =
        (if \<forall>(w, e) \<in> set (q @ ?new). e + nesting w \<le> Suc m then Inr () else Inl (JsonTooDeep (Suc m) m))"
      using 2(2,3) new False by (intro 2(1)) (auto simp: list_all_iff)
    then show ?thesis using False unfolding all by simp
  qed
qed

lemma check_depth_iff:
  "check_depth v m = (if nesting v \<le> Suc m then Inr () else Inl (JsonTooDeep (Suc m) m))"
proof (cases "is_container v")
  case True
  then show ?thesis unfolding check_depth_def by (subst check_queue_spec) auto
next
  case False
  then have "nested v = []" by (cases v) auto
  then show ?thesis using False by (simp add: check_depth_def nesting_scalar)
qed

text \<open>
  The loop terminates on every value (it is a total function), accepts exactly the values whose
  containers are nested at most one deeper than the limit, and otherwise raises with the first depth
  beyond it, the same that is reported when \<open>json.loads\<close> itself gives up; nothing longer than the
  size limit is parsed.
\<close>

theorem safe_json_load_characterisation:
  "safe_json_load loads t b m =
     (if b < utf8_size t then Inl (JsonTooLarge (utf8_size t) b)
      else case loads t of
             LoadsDecodeError \<Rightarrow> Inl JsonDecodeFailure
           | LoadsRecursionError \<Rightarrow> Inl (JsonTooDeep (m + 1) m)
           | LoadsValue v \<Rightarrow> if nesting v \<le> m + 1 then Inr v else Inl (JsonTooDeep (m + 1) m))"
  by (simp add: safe_json_load_def check_depth_iff Let_def split: loads_result.split)

end
