(* ===== verification/SkillInstaller.thy ===== *)
theory SkillInstaller
  imports LearnProgress SafeJson
begin

text \<open>
  \<open>skill_installer.py\<close>: installing a contract from a file of the skills directory or from an upload,
  and the states of the contract table that the learn flow and the installer reach together. The
  file system (\<open>is_symlink\<close>, \<open>resolve\<close>, \<open>read_text\<close>) and \<open>json.loads\<close> are parameters; a path is the
  list of its parts. Platform, database and privacy pipeline are those of the learn flow.
\<close>

type_synonym path = "string list"

datatype read_result = ReadText string | ReadOSError | ReadUnicodeError

record install_env =
  ie_learn :: learn_env
  ie_is_symlink :: "path \<Rightarrow> bool"
  ie_resolve :: "path \<Rightarrow> path option"
  ie_read_text :: "path \<Rightarrow> read_result"
  ie_loads :: "string \<Rightarrow> loads_result"

datatype install_text =
    IText string
  | IOutside path
  | IInvalidJson safe_json_error
  | ISchema deser_error
  | IStore store_error

record path_validation_result =
  pv_valid :: bool
  pv_reason :: install_text

record install_result =
  ir_success :: bool
  ir_contract_name :: string
  ir_error :: install_text

datatype install_exception = RootNotResolved | UndecodableFile | StoreRaised store_error

definition remote_schemes :: "string list" where
  "remote_schemes = [''http://'', ''https://'', ''file://'', ''ftp://'']"

definition reject_remote_url :: "string \<Rightarrow> string option" where
  "reject_remote_url raw_input =
     (let lowered = py_lower (py_strip raw_input)
      in if list_ex (py_startswith lowered) remote_schemes
         then Some (''Remote URLs are not accepted. '' @
                    ''Please provide a local file in the skills directory.'')
         else None)"

definition is_relative_to :: "path \<Rightarrow> path \<Rightarrow> bool" where
  "is_relative_to p base = (take (length base) p = base)"

definition invalid_path :: "install_text \<Rightarrow> path_validation_result" where
  "invalid_path reason = \<lparr>pv_valid = False, pv_reason = reason\<rparr>"

definition validate_source_path ::
    "install_env \<Rightarrow> path \<Rightarrow> path \<Rightarrow> install_exception + path_validation_result" where
  "validate_source_path env source allowed_root =
     (if ie_is_symlink env source
      then Inr (invalid_path (IText ''Symlinks are not allowed for skill installation.''))
      else if List.member source ''..''
      then Inr (invalid_path (IText ''Path traversal (..) is not allowed.''))
      else case ie_resolve env source of
             None \<Rightarrow> Inr (invalid_path (IText ''Cannot resolve path''))
           | Some resolved \<Rightarrow>
               (case ie_resolve env allowed_root of
                  None \<Rightarrow> Inl RootNotResolved
                | Some resolved_root \<Rightarrow>
                    if \<not> is_relative_to resolved resolved_root
                    then Inr (invalid_path (IOutside resolved_root))
                    else Inr \<lparr>pv_valid = True, pv_reason = IText []\<rparr>))"

definition install_failed :: "install_text \<Rightarrow> install_result" where
  "install_failed e = \<lparr>ir_success = False, ir_contract_name = [], ir_error = e\<rparr>"

definition check_safety ::
    "install_env \<Rightarrow> call_inputs \<Rightarrow> skill_contract \<Rightarrow> int \<Rightarrow> string option" where
  "check_safety env ci contract user_id =
     (if \<not> py_nonblank (combined_text contract)
      then Some ''Contract has no scannable text content.''
      else le_privacy (ie_learn env) (scan_hypothesis ''install_command'' (ci_hypothesis_id ci)
             (ci_iso ci 1) user_id (combined_text contract)))"

definition install_from_json ::
    "install_env \<Rightarrow> call_inputs \<Rightarrow> contract_table \<Rightarrow> string \<Rightarrow> int
       \<Rightarrow> contract_table \<times> (install_exception + install_result)" where
  "install_from_json env ci tb raw_json user_id =
     (case safe_json_load (ie_loads env) raw_json (10 * 1024 * 1024) 64 of
        Inl e \<Rightarrow> (tb, Inr (install_failed (IInvalidJson e)))
      | Inr (JObj d) \<Rightarrow>
          (case from_dict (JObj d) of
             Inl e \<Rightarrow> (tb, Inr (install_failed (ISchema e)))
           | Inr parsed \<Rightarrow>
               let contract = parsed\<lparr>c_origin := ''manual_install'', c_updated_at := ci_iso ci 0\<rparr> in
               if \<not> py_nonblank (exec_instruction (c_execution contract))
               then (tb, Inr (install_failed
                      (IText ''Skill contract must have a non-empty execution.instruction.'')))
               else
                 (case check_safety env ci contract user_id of
                    Some r \<Rightarrow> (tb, Inr (install_failed (IText r)))
                  | None \<Rightarrow>
                      (case persist (le_platform (ie_learn env)) (le_database (ie_learn env)) tb
                              (ci_iso ci 2) contract user_id of
                         (tb', Inl e) \<Rightarrow>
                           (tb', if is_contract_store_error e
                                 then Inr (install_failed (IStore e)) else Inl (StoreRaised e))
                       | (tb', Inr saved) \<Rightarrow>
                           (tb', Inr \<lparr>ir_success = True, ir_contract_name = c_name saved,
                                      ir_error = IText []\<rparr>))))
      | Inr _ \<Rightarrow> (tb, Inr (install_failed (IText ''Skill contract must be a JSON object.''))))"

definition install_from_json_string ::
    "install_env \<Rightarrow> call_inputs \<Rightarrow> contract_table \<Rightarrow> string \<Rightarrow> int
       \<Rightarrow> contract_table \<times> (install_exception + install_result)" where
  "install_from_json_string env ci tb raw_json user_id = install_from_json env ci tb raw_json user_id"

definition install_from_file ::
    "install_env \<Rightarrow> call_inputs \<Rightarrow> contract_table \<Rightarrow> path \<Rightarrow> path \<Rightarrow> int
       \<Rightarrow> contract_table \<times> (install_exception + install_result)" where
  "install_from_file env ci tb file_path allowed_root user_id =
     (case validate_source_path env file_path allowed_root of
        Inl ex \<Rightarrow> (tb, Inl ex)
      | Inr path_result \<Rightarrow>
          if \<not> pv_valid path_result then (tb, Inr (install_failed (pv_reason path_result)))
          else case ie_read_text env file_path of
                 ReadOSError \<Rightarrow> (tb, Inr (install_failed (IText ''Cannot read file'')))
               | ReadUnicodeError \<Rightarrow> (tb, Inl UndecodableFile)
               | ReadText raw_json \<Rightarrow> install_from_json env ci tb raw_json user_id)"

section \<open>What an installation does\<close>

text \<open>The contract of a row is the one of the text, of the user, scanned, and finalised anew.\<close>

definition installed_as ::
    "install_env \<Rightarrow> string \<Rightarrow> int \<Rightarrow> skill_contract \<Rightarrow> bool" where
  "installed_as env raw u k \<longleftrightarrow>
     (\<exists>d parsed. ie_loads env raw = LoadsValue (JObj d) \<and> nesting (JObj d) \<le> 65
        \<and> from_dict (JObj d) = Inr parsed
        \<and> c_id k = c_id parsed \<and> c_name k = c_name parsed \<and> c_permissions k = c_permissions parsed
        \<and> iter_user_text_fields k = iter_user_text_fields parsed
        \<and> c_origin k = ''manual_install'' \<and> wf_contract k
        \<and> consistent (le_platform (ie_learn env)) k
        \<and> (\<exists>i t. le_privacy (ie_learn env)
                   (scan_hypothesis ''install_command'' i t u (combined_text k)) = None))"

lemma origin_irrelevant [simp]:
  "iter_user_text_fields (c\<lparr>c_origin := x\<rparr>) = iter_user_text_fields c"
  "combined_text (c\<lparr>c_origin := x\<rparr>) = combined_text c"
  by (simp_all add: combined_text_def iter_user_text_fields_def)

lemma install_cases:
  assumes "install_from_json env ci tb raw u = (tb', out)"
  obtains (unchanged) "tb' = tb" "case out of Inl _ \<Rightarrow> True | Inr r \<Rightarrow> \<not> ir_success r"
  | (installed) d parsed k where
      "ie_loads env raw = LoadsValue (JObj d)" "nesting (JObj d) \<le> 65" "from_dict (JObj d) = Inr parsed"
      "check_safety env ci (parsed\<lparr>c_origin := ''manual_install'', c_updated_at := ci_iso ci 0\<rparr>) u = None"
      "persist (le_platform (ie_learn env)) (le_database (ie_learn env)) tb (ci_iso ci 2)
         (parsed\<lparr>c_origin := ''manual_install'', c_updated_at := ci_iso ci 0\<rparr>) u = (tb', Inr k)"
      "out = Inr \<lparr>ir_success = True, ir_contract_name = c_name k, ir_error = IText []\<rparr>"
proof (cases "safe_json_load (ie_loads env) raw (10 * 1024 * 1024) 64")
  case (Inl e)
  then show ?thesis using assms by (intro unchanged) (auto simp: install_from_json_def install_failed_def)
next
  case (Inr v)
  then have v: "ie_loads env raw = LoadsValue v" "nesting v \<le> 65"
    by (auto simp: safe_json_load_def check_depth_iff Let_def split: if_splits loads_result.splits)
  show ?thesis
  proof (cases "\<exists>d. v = JObj d")
    case False
    then show ?thesis using assms Inr
      by (intro unchanged; cases v) (auto simp: install_from_json_def install_failed_def)
  next
    case True
    then obtain d where d: "v = JObj d" by blast
    show ?thesis
    proof (cases "from_dict (JObj d)")
      case (Inl e)
      then show ?thesis using assms \<open>safe_json_load _ _ _ _ = Inr v\<close> d
        by (intro unchanged) (auto simp: install_from_json_def install_failed_def)
    next
      case (Inr parsed)
      let ?c = "parsed\<lparr>c_origin := ''manual_install'', c_updated_at := ci_iso ci 0\<rparr>"
      obtain tb2 res where per: "persist (le_platform (ie_learn env)) (le_database (ie_learn env)) tb
          (ci_iso ci 2) ?c u = (tb2, res)" by (rule prod.exhaust)
      have bad: "tb2 = tb" if "res = Inl e" for e
        using per unfolding that by (cases rule: persist_cases) auto
      consider "\<not> py_nonblank (exec_instruction (c_execution ?c))" | r where "check_safety env ci ?c u = Some r"
        | e where "res = Inl e" | k where "py_nonblank (exec_instruction (c_execution ?c))"
          "check_safety env ci ?c u = None" "res = Inr k"
        by (cases "check_safety env ci ?c u"; cases res) auto
      then show ?thesis
      proof cases
        case (4 k)
        then have "out = Inr \<lparr>ir_success = True, ir_contract_name = c_name k, ir_error = IText []\<rparr>" "tb2 = tb'"
          using assms \<open>safe_json_load _ _ _ _ = Inr v\<close> d Inr per
          by (auto simp: install_from_json_def Let_def)
        then show ?thesis using 4 per v d Inr by (intro installed) auto
      qed (use assms \<open>safe_json_load _ _ _ _ = Inr v\<close> d Inr per bad in
          \<open>intro unchanged; auto simp: install_from_json_def install_failed_def Let_def split: option.splits if_splits\<close>)+
    qed
  qed
qed

lemma installed_row_content:
  assumes "ie_loads env raw = LoadsValue (JObj d)" and "nesting (JObj d) \<le> 65"
    and "from_dict (JObj d) = Inr parsed"
    and "check_safety env ci (parsed\<lparr>c_origin := ''manual_install'', c_updated_at := t\<rparr>) u = None"
    and "persist_prepare (le_platform (ie_learn env)) tb ts
           (parsed\<lparr>c_origin := ''manual_install'', c_updated_at := t\<rparr>) u = Inr c1"
  shows "installed_as env raw u c1"
  unfolding installed_as_def
proof (intro exI conjI)
  note c1 = persist_prepareD [OF assms(5)]
  show "c_origin c1 = ''manual_install''" "c_permissions c1 = c_permissions parsed"
    using c1 by (simp_all add: finalize_security_metadata_def Let_def)
  show "wf_contract c1" using c1 from_dict_wf [OF assms(3)] by simp
  show "consistent (le_platform (ie_learn env)) c1" using c1 by blast
  show "le_privacy (ie_learn env) (scan_hypothesis ''install_command'' (ci_hypothesis_id ci)
      (ci_iso ci 1) u (combined_text c1)) = None"
    using assms(4) c1 by (simp add: check_safety_def split: if_splits)
qed (use assms persist_prepareD [OF assms(5)] in simp_all)

text \<open>Nothing outside the allowed directory is ever read into the table.\<close>

lemma install_file_boundary:
  assumes "install_from_file env ci tb file_path allowed_root u = (tb', out)" and "tb' \<noteq> tb"
  shows "\<exists>p q raw. ie_resolve env file_path = Some p \<and> ie_resolve env allowed_root = Some q
    \<and> is_relative_to p q \<and> \<not> ie_is_symlink env file_path \<and> ''..'' \<notin> set file_path
    \<and> ie_read_text env file_path = ReadText raw \<and> install_from_json env ci tb raw u = (tb', out)"
  using assms
  by (auto simp: install_from_file_def validate_source_path_def invalid_path_def
      split: if_splits option.splits sum.splits read_result.splits)

section \<open>Learning and installing together\<close>

inductive skill_step :: "install_env \<Rightarrow> learn_state \<Rightarrow> learn_state \<Rightarrow> bool" for env where
  step_learn: "learn_step (ie_learn env) s s' \<Longrightarrow> skill_step env s s'"
| step_install: "skill_step env s
     (s\<lparr>lf_contracts := fst (install_from_json_string env ci (lf_contracts s) raw u)\<rparr>)"
| step_install_file: "skill_step env s
     (s\<lparr>lf_contracts := fst (install_from_file env ci (lf_contracts s) p base u)\<rparr>)"

inductive skill_reachable :: "install_env \<Rightarrow> learn_state \<Rightarrow> bool" for env where
  skill_start: "skill_reachable env (learn_init a b)"
| skill_next: "skill_reachable env s \<Longrightarrow> skill_step env s s' \<Longrightarrow> skill_reachable env s'"

definition installed_row :: "install_env \<Rightarrow> contract_row \<Rightarrow> bool" where
  "installed_row env r \<longleftrightarrow> (\<exists>raw k. r = row_of k (row_user_id r) \<and> installed_as env raw (row_user_id r) k)"

lemma install_inv:
  assumes "learn_inv (ie_learn env) (installed_row env) s"
    and "install_from_json env ci (lf_contracts s) raw u = (tb', out)"
  shows "learn_inv (ie_learn env) (installed_row env) (s\<lparr>lf_contracts := tb'\<rparr>)"
  using assms(2)
proof (cases rule: install_cases)
  case unchanged
  then show ?thesis using assms(1) by (simp add: learn_inv_def)
next
  case (installed d parsed k)
  let ?c = "parsed\<lparr>c_origin := ''manual_install'', c_updated_at := ci_iso ci 0\<rparr>"
  have wf: "wf_contract ?c" using from_dict_wf [OF installed(3)] by simp
  show ?thesis
    using installed(5)
  proof (cases rule: persist_cases)
    case (2 c1)
    have "persist_insert (le_database (ie_learn env)) (lf_contracts s) c1 u = (tb', Inr c1)"
      using installed(5) 2(1,3) by (simp add: persist_def)
    then have "store_reachable wf_contract (le_platform (ie_learn env)) (le_database (ie_learn env)) tb'"
      using reach_next [OF learn_invD(3) [OF assms(1)] step_insert [where W = wf_contract, OF 2(1) wf, where tb = "lf_contracts s"]]
      by simp
    moreover have "installed_row env (row_of c1 u)"
      using installed_row_content [OF installed(1-4) 2(1)] by (auto simp: installed_row_def row_of_def)
    ultimately show ?thesis using assms(1) 2(4) by (auto simp: learn_inv_def)
  qed simp
qed

text \<open>
  C38: installing is all or nothing. Whatever the text and the outcome, either the table is unchanged
  or exactly one row of this user was added; its contract has the id, name, permissions and texts of
  the file, but the origin \<open>manual_install\<close> whatever the file says, a risk level, package type and
  checksum computed anew, and all its texts passed the privacy pipeline.
\<close>

theorem install_is_all_or_nothing:
  assumes "install_from_json env ci tb raw u = (tb', out)"
  shows "case out of
      Inl ex \<Rightarrow> tb' = tb
    | Inr r \<Rightarrow>
        if ir_success r
        then \<exists>k. tb' = tb @ [row_of k u] \<and> installed_as env raw u k \<and> ir_contract_name r = c_name k
        else tb' = tb"
  using assms
proof (cases rule: install_cases)
  case unchanged
  then show ?thesis by (auto split: sum.splits)
next
  case (installed d parsed k)
  show ?thesis
    using installed(5)
  proof (cases rule: persist_cases)
    case (2 c1)
    then show ?thesis using installed_row_content [OF installed(1-4) 2(1)] installed(6) by auto
  qed simp
qed

lemma install_string_step:
  "learn_inv (ie_learn env) (installed_row env) s \<Longrightarrow>
   learn_inv (ie_learn env) (installed_row env) (s\<lparr>lf_contracts := fst (install_from_json env ci (lf_contracts s) raw u)\<rparr>)"
  using install_inv by (metis prod.collapse)

lemma skill_reachable_inv:
  "skill_reachable env s \<Longrightarrow> learn_inv (ie_learn env) (installed_row env) s"
proof (induction rule: skill_reachable.induct)
  case (skill_start a b)
  show ?case by (rule learn_reachable_inv [OF learn_start])
next
  case (skill_next s s')
  have same: "s\<lparr>lf_contracts := lf_contracts s\<rparr> = s" by simp
  from skill_next(2,3) show ?case
  proof (induction rule: skill_step.induct)
    case (step_learn s s')
    then show ?case by (blast intro: learn_step_inv)
  next
    case (step_install s ci raw u)
    then show ?case unfolding install_from_json_string_def by (rule install_string_step)
  next
    case (step_install_file s ci p base u)
    have same: "s\<lparr>lf_contracts := lf_contracts s\<rparr> = s" by simp
    show ?case
    proof (cases "fst (install_from_file env ci (lf_contracts s) p base u) = lf_contracts s")
      case True
      then show ?thesis using step_install_file same by simp
    next
      case False
      obtain tb' out where f: "install_from_file env ci (lf_contracts s) p base u = (tb', out)"
        by (rule prod.exhaust)
      then obtain raw where "install_from_json env ci (lf_contracts s) raw u = (tb', out)"
        using install_file_boundary [OF f] False by auto
      then show ?thesis using install_inv [OF step_install_file] f by simp
    qed
  qed
qed

text \<open>Both origins went through the same pipeline, under the source type of their entry.\<close>

definition scanned :: "learn_env \<Rightarrow> int \<Rightarrow> skill_contract \<Rightarrow> bool" where
  "scanned env u c \<longleftrightarrow> (\<exists>src i t. src \<in> {''learn_command'', ''install_command''}
     \<and> le_privacy env (scan_hypothesis src i t u (combined_text c)) = None)"

text \<open>
  C1: the skill system as a whole. However users teach, edit, save and install skills, every row of the
  contract table loads without an error, is owned by whoever added it under an origin that is either
  the learn flow's or the installer's, has passed the privacy pipeline with all its texts, and
  carries the risk level computed from its permissions; if the gate lets it execute, it
  reaches no network, file, secret or power history scope, and a learned one reaches nothing.
\<close>

theorem stored_skills_are_scanned_and_confined:
  assumes "skill_reachable env s" and "r \<in> set (lf_contracts s)"
  shows "\<exists>c. load_contract_from_row (le_platform (ie_learn env)) r True = Inr c
    \<and> c_origin c \<in> {''local_learn'', ''manual_install''} \<and> scanned (ie_learn env) (row_user_id r) c
    \<and> c_risk_level c = compute_risk_level (c_permissions c)
    \<and> (c_origin c = ''local_learn'' \<longrightarrow> (\<forall>res. \<not> gate_grants c res \<and> \<not> broker_grants c res))
    \<and> (pcr_allowed (check_execution_allowed c) \<longrightarrow>
         (\<forall>grants \<in> {gate_grants, broker_grants}. \<forall>n.
            \<not> grants c (ResNetwork n) \<and> \<not> grants c (ResFile n) \<and> \<not> grants c ResSecrets
            \<and> (n \<in> set power_scopes \<longrightarrow> \<not> grants c (ResHistory n))))"
proof -
  let ?pf = "le_platform (ie_learn env)"
  have "learned_row (ie_learn env) r \<or> installed_row env r"
    using learn_invD(4) [OF skill_reachable_inv [OF assms(1)]] assms(2) by blast
  then obtain c where c: "row_holds r c" "consistent ?pf c" "wf_contract c"
    "scanned (ie_learn env) (row_user_id r) c" "c_origin c \<in> {''local_learn'', ''manual_install''}"
    "c_origin c = ''local_learn'' \<longrightarrow> c_permissions c = default_permissions"
  proof
    assume "learned_row (ie_learn env) r"
    then show ?thesis using that learned_wf
      by (auto simp: learned_row_def learned_def passes_def scanned_def)
  next
    assume "installed_row env r"
    then obtain raw k where k: "r = row_of k (row_user_id r)" "installed_as env raw (row_user_id r) k"
      unfolding installed_row_def by blast
    then have "row_holds r k" using row_holds_of by metis
    moreover have "scanned (ie_learn env) (row_user_id r) k"
      using k(2) unfolding installed_as_def scanned_def by blast
    ultimately show ?thesis using that [of k] k(2) by (auto simp: installed_as_def)
  qed
  have "load_contract_from_row ?pf r True = Inr c" by (rule load_row_holds [OF c(1-3)])
  moreover have "c_risk_level c = compute_risk_level (c_permissions c)"
    using c(2) by (simp add: consistent_def)
  moreover have "\<forall>n. \<not> grants c (ResNetwork n) \<and> \<not> grants c (ResFile n) \<and> \<not> grants c ResSecrets
      \<and> (n \<in> set power_scopes \<longrightarrow> \<not> grants c (ResHistory n))"
    if "pcr_allowed (check_execution_allowed c)" "grants \<in> {gate_grants, broker_grants}" for grants
    using that gate.below_high_confined broker.below_high_confined by (auto simp: execution_allowed_iff)
  ultimately show ?thesis
    using c gate.sandbox_denied broker.sandbox_denied by (intro exI [of _ c]) blast
qed


section \<open>What escapes\<close>

text \<open>
  Two failures are not reported as a failed installation but raised: a file that is not UTF-8, and a
  contract version beyond 64 bits, which every check accepts and only the SQL statement refuses.
\<close>

lemma undecodable_file_raises:
  assumes "validate_source_path env p base = Inr \<lparr>pv_valid = True, pv_reason = IText []\<rparr>"
    and "ie_read_text env p = ReadUnicodeError"
  shows "install_from_file env ci tb p base u = (tb, Inl UndecodableFile)"
  using assms by (simp add: install_from_file_def)

lemma huge_version_raises:
  assumes "safe_json_load (ie_loads env) raw (10 * 1024 * 1024) 64 = Inr (JObj d)"
    and "from_dict (JObj d) = Inr parsed" and "py_nonblank (exec_instruction (c_execution parsed))"
    and "check_safety env ci (parsed\<lparr>c_origin := ''manual_install'', c_updated_at := ci_iso ci 0\<rparr>) u = None"
    and "persist_prepare (le_platform (ie_learn env)) tb (ci_iso ci 2)
           (parsed\<lparr>c_origin := ''manual_install'', c_updated_at := ci_iso ci 0\<rparr>) u = Inr c1"
    and "2 ^ 63 \<le> c_contract_version parsed"
  shows "install_from_json env ci tb raw u = (tb, Inl (StoreRaised IntegerOverflow))"
proof -
  have "c_contract_version c1 = c_contract_version parsed" using persist_prepareD [OF assms(5)] by simp
  then have "\<not> fits_int64 (c_contract_version c1)" using assms(6) by (simp add: fits_int64_def)
  with assms(1-5) show ?thesis
    by (simp add: install_from_json_def persist_def persist_insert_def is_contract_store_error_def Let_def)
qed

section \<open>An installation\<close>

definition demo_json :: dict where
  "demo_json = [(''id'', JStr ''skill_01''), (''name'', JStr ''Greeting''), (''created_at'', JStr ''t''),
     (''activation'', JObj [(''phrases'', JList [JStr ''hello''])]),
     (''execution'', JObj [(''instruction'', JStr ''Say hi'')])]"

definition demo_parsed :: skill_contract where
  "demo_parsed = default_contract\<lparr>c_id := ''skill_01'', c_name := ''Greeting'', c_created_at := ''t'',
     c_activation := default_activation\<lparr>act_phrases := [''hello'']\<rparr>,
     c_execution := default_execution\<lparr>exec_instruction := ''Say hi''\<rparr>\<rparr>"

lemma demo_from_dict: "from_dict (JObj demo_json) = Inr demo_parsed"
  by (simp add: demo_json_def demo_parsed_def codec_defs contract_defaults)

definition demo_install :: install_env where
  "demo_install = \<lparr>ie_learn = demo_env, ie_is_symlink = (\<lambda>_. False), ie_resolve = Some,
     ie_read_text = (\<lambda>_. ReadUnicodeError), ie_loads = (\<lambda>_. LoadsValue (JObj demo_json))\<rparr>"

lemma demo_load: "safe_json_load (ie_loads demo_install) ''{}'' (10 * 1024 * 1024) 64 = Inr (JObj demo_json)"
  by (simp add: safe_json_load_def check_depth_iff demo_install_def demo_json_def utf8_size_def)

abbreviation demo_contract_in :: skill_contract where
  "demo_contract_in \<equiv> demo_parsed\<lparr>c_origin := ''manual_install'', c_updated_at := ''t''\<rparr>"

lemma demo_scan: "check_safety demo_install demo_call demo_contract_in 7 = None"
  by code_simp

lemma demo_valid: "is_valid (validate (finalized demo_contract_in) None (Some 2) (Some 1))"
  unfolding finalize_hex using hex_ok
  by (simp add: demo_parsed_def contract_defaults admissible_defs)

lemma demo_instruction: "py_nonblank (exec_instruction (c_execution demo_contract_in))"
  by code_simp

lemma demo_persist: "persist hex_platform hd_engine [] ''t'' demo_contract_in 7
    = ([row_of (finalized demo_contract_in) 7], Inr (finalized demo_contract_in))"
  using demo_valid by (intro persist_into_empty) (simp_all add: demo_parsed_def contract_defaults)

lemma demo_install_parts [simp]: "ie_learn demo_install = demo_env"
  by (simp add: demo_install_def)

lemma demo_installed:
  "install_from_json demo_install demo_call [] ''{}'' 7
     = ([row_of (finalized demo_contract_in) 7],
        Inr \<lparr>ir_success = True, ir_contract_name = ''Greeting'', ir_error = IText []\<rparr>)"
  using demo_load demo_from_dict demo_scan demo_instruction demo_persist
  by (simp add: install_from_json_def Let_def) (simp add: demo_parsed_def)

theorem install_is_all_or_nothing_witness:
  "\<exists>k. fst (install_from_json demo_install demo_call [] ''{}'' 7) = [row_of k 7]
     \<and> installed_as demo_install ''{}'' 7 k \<and> c_name k = ''Greeting''"
  using install_is_all_or_nothing [OF demo_installed] demo_installed by auto

theorem stored_skills_are_scanned_and_confined_witness:
  "\<exists>c. load_contract_from_row hex_platform (row_of (finalized demo_contract_in) 7) True = Inr c
     \<and> scanned demo_env 7 c"
proof -
  have "skill_reachable demo_install ((learn_init 900 600)\<lparr>lf_contracts :=
      fst (install_from_json_string demo_install demo_call (lf_contracts (learn_init 900 600)) ''{}'' 7)\<rparr>)"
    by (rule skill_next [OF skill_start step_install])
  moreover have "row_of (finalized demo_contract_in) 7 \<in> set (lf_contracts ((learn_init 900 600)\<lparr>lf_contracts :=
      fst (install_from_json_string demo_install demo_call (lf_contracts (learn_init 900 600)) ''{}'' 7)\<rparr>))"
    by (simp add: install_from_json_string_def learn_init_def demo_installed)
  ultimately show ?thesis
    using stored_skills_are_scanned_and_confined by (fastforce simp: row_of_def)
qed

end
