(* ===== verification/CollisionDetector.thy ===== *)
theory CollisionDetector
  imports HypothesisStorage "HOL-Library.Multiset"
begin

text \<open>
  \<open>collision_detector.py\<close>: which of several matching hypotheses applies. The detector reads only
  the hypothesis of each match, so the list of matches is the list of their hypotheses.
\<close>

fun json_truthy :: "json \<Rightarrow> bool" where
  "json_truthy JNull = False"
| "json_truthy (JBool b) = b"
| "json_truthy (JInt i) = (i \<noteq> 0)"
| "json_truthy (JFloat f) = (f \<noteq> PFin 0)"
| "json_truthy (JStr s) = (s \<noteq> [])"
| "json_truthy (JList xs) = (xs \<noteq> [])"
| "json_truthy (JObj d) = (d \<noteq> [])"

definition compute_specificity :: "hypothesis_scope \<Rightarrow> int" where
  "compute_specificity scope =
     (if json_truthy (hs_client scope) then 2 else 0)
     + (if json_truthy (hs_project scope) then 1 else 0)
     + min 3 (int (length (hs_context scope)))"

record collision_result =
  cr_winner :: "hypothesis option"
  cr_requires_user_decision :: bool
  cr_candidates :: "hypothesis list"
  cr_resolution_reason :: string

abbreviation specificity :: "hypothesis \<Rightarrow> int" where
  "specificity h \<equiv> compute_specificity (h_scope h)"

definition quoted_claim :: "hypothesis \<Rightarrow> string" where
  "quoted_claim h = [CHR 0x27] @ h_claim h @ [CHR 0x27]"

text \<open>The list of pairs of the code is sorted by the specificity, stably, the largest first.\<close>

definition resolve :: "hypothesis list \<Rightarrow> collision_result" where
  "resolve candidates =
     (case candidates of
        [] \<Rightarrow> \<lparr>cr_winner = None, cr_requires_user_decision = False, cr_candidates = [],
               cr_resolution_reason = ''No candidates to resolve.''\<rparr>
      | [hyp] \<Rightarrow> \<lparr>cr_winner = Some hyp, cr_requires_user_decision = False, cr_candidates = [hyp],
                  cr_resolution_reason = ''Single candidate, no collision.''\<rparr>
      | _ \<Rightarrow>
          let specificities = order_desc fst (map (\<lambda>h. (specificity h, h)) candidates);
              highest_spec = fst (hd specificities);
              top_candidates = map snd (filter (\<lambda>p. fst p = highest_spec) specificities);
              others = int_decimal (int (length candidates) - 1)
          in case top_candidates of
               [winner] \<Rightarrow>
                 \<lparr>cr_winner = Some winner, cr_requires_user_decision = False,
                  cr_candidates = candidates,
                  cr_resolution_reason = ''hyp='' @ h_hypothesis_id winner @
                    '' has highest scope specificity ('' @ int_decimal highest_spec @
                    ''), overriding '' @ others @ '' less specific candidate(s).''\<rparr>
             | _ \<Rightarrow>
                 \<lparr>cr_winner = None, cr_requires_user_decision = True,
                  cr_candidates = top_candidates,
                  cr_resolution_reason = int_decimal (int (length top_candidates)) @
                    '' hypotheses have equal scope specificity ('' @ int_decimal highest_spec @
                    ''). User decision required: '' @
                    join_with '', '' (map quoted_claim top_candidates) @ ''.''\<rparr>)"

definition resolve_pair :: "hypothesis \<Rightarrow> hypothesis \<Rightarrow> collision_result" where
  "resolve_pair a b =
     (let spec_a = specificity a; spec_b = specificity b in
      if spec_a = spec_b
      then \<lparr>cr_winner = None, cr_requires_user_decision = True, cr_candidates = [a, b],
            cr_resolution_reason = quoted_claim a @ '' and '' @ quoted_claim b @
              '' have equal scope specificity ('' @ int_decimal spec_a @
              ''). User decision required.''\<rparr>
      else
        let winner = (if spec_b < spec_a then a else b); loser = (if spec_b < spec_a then b else a)
        in \<lparr>cr_winner = Some winner, cr_requires_user_decision = False, cr_candidates = [a, b],
            cr_resolution_reason = quoted_claim winner @ '' (specificity='' @
              int_decimal (specificity winner) @ '') overrides '' @ quoted_claim loser @
              '' (specificity='' @ int_decimal (specificity loser) @ '').''\<rparr>)"

section \<open>The most specific candidates\<close>

definition most_specific :: "hypothesis list \<Rightarrow> hypothesis list" where
  "most_specific hs = filter (\<lambda>h. list_all (\<lambda>g. specificity g \<le> specificity h) hs) hs"

lemma specificity_bounds: "0 \<le> compute_specificity s" "compute_specificity s \<le> 6"
  by (simp_all add: compute_specificity_def min_def)

lemma filter_sort_key_eq:
  "filter (\<lambda>x. k x = c) (sort_key k xs) = filter (\<lambda>x. k x = c) xs"
  by (rule sort_key_stable)

lemma filter_order_desc: "filter (\<lambda>x. k x = c) (order_desc k xs) = filter (\<lambda>x. k x = c) xs"
proof -
  have "filter (\<lambda>x. k x = c) (order_desc k xs) = rev (filter (\<lambda>x. k x = c) (sort_key k (rev xs)))"
    by (simp add: order_desc_def rev_filter)
  also have "\<dots> = rev (filter (\<lambda>x. k x = c) (rev xs))" by (simp only: filter_sort_key_eq)
  finally show ?thesis by (simp add: rev_filter)
qed

lemma hd_order_desc:
  assumes "xs \<noteq> []"
  shows "hd (order_desc k xs) \<in> set xs" and "\<And>x. x \<in> set xs \<Longrightarrow> k x \<le> k (hd (order_desc k xs))"
proof -
  have ne: "order_desc k xs \<noteq> []" using assms by (metis length_0_conv length_order_desc)
  then obtain y ys where y: "order_desc k xs = y # ys" by (cases "order_desc k xs") auto
  have set: "set (y # ys) = set xs" using set_order_desc [of k xs] y by simp
  show "hd (order_desc k xs) \<in> set xs" using set y by auto
  have "\<forall>x \<in> set ys. k x \<le> k y" using sorted_order_desc [of k xs] y by simp
  then show "\<And>x. x \<in> set xs \<Longrightarrow> k x \<le> k (hd (order_desc k xs))" using set y by auto
qed

lemma top_candidates_eq:
  fixes hs :: "hypothesis list"
  defines "sp \<equiv> order_desc fst (map (\<lambda>h. (specificity h, h)) hs)"
  assumes "hs \<noteq> []"
  shows "map snd (filter (\<lambda>p. fst p = fst (hd sp)) sp) = most_specific hs"
proof -
  let ?ps = "map (\<lambda>h. (specificity h, h)) hs" and ?top = "fst (hd sp)"
  have ne: "?ps \<noteq> []" using assms by simp
  obtain m where m: "m \<in> set hs" "?top = specificity m"
    using hd_order_desc(1) [OF ne, of fst] by (auto simp: sp_def)
  have max: "specificity h \<le> ?top" if "h \<in> set hs" for h
    using hd_order_desc(2) [OF ne, of "(specificity h, h)" fst] that by (auto simp: sp_def)
  have "map snd (filter (\<lambda>p. fst p = ?top) sp) = map snd (filter (\<lambda>p. fst p = ?top) ?ps)"
    unfolding sp_def by (simp only: filter_order_desc)
  also have "\<dots> = filter (\<lambda>h. specificity h = ?top) hs"
    by (simp add: filter_map comp_def)
  also have "\<dots> = most_specific hs"
    unfolding most_specific_def
  proof (rule filter_cong [OF refl])
    fix h
    assume h: "h \<in> set hs"
    show "(specificity h = ?top) = list_all (\<lambda>g. specificity g \<le> specificity h) hs"
      using max [OF h] max m by (fastforce simp: list_all_iff)
  qed
  finally show ?thesis .
qed

lemma most_specific_not_Nil: "hs \<noteq> [] \<Longrightarrow> most_specific hs \<noteq> []"
proof -
  assume ne: "hs \<noteq> []"
  let ?m = "Max (specificity ` set hs)"
  have "?m \<in> specificity ` set hs" using ne by (intro Max_in) auto
  then obtain h where "h \<in> set hs" "specificity h = ?m" by auto
  then have "h \<in> set (most_specific hs)"
    by (auto simp: most_specific_def list_all_iff)
  then show ?thesis by auto
qed

lemma resolve_outcome:
  "cr_winner (resolve hs) = (case most_specific hs of [w] \<Rightarrow> Some w | _ \<Rightarrow> None)"
  "cr_requires_user_decision (resolve hs) \<longleftrightarrow> 2 \<le> length (most_specific hs)"
  "cr_requires_user_decision (resolve hs) \<Longrightarrow> cr_candidates (resolve hs) = most_specific hs"
  "\<not> cr_requires_user_decision (resolve hs) \<Longrightarrow> cr_candidates (resolve hs) = hs"
proof -
  have "(cr_winner (resolve hs) = (case most_specific hs of [w] \<Rightarrow> Some w | _ \<Rightarrow> None))
      \<and> (cr_requires_user_decision (resolve hs) \<longleftrightarrow> 2 \<le> length (most_specific hs))
      \<and> (cr_requires_user_decision (resolve hs) \<longrightarrow> cr_candidates (resolve hs) = most_specific hs)
      \<and> (\<not> cr_requires_user_decision (resolve hs) \<longrightarrow> cr_candidates (resolve hs) = hs)"
  proof (cases hs rule: remdups_adj.cases)
    case 1
    then show ?thesis by (simp add: resolve_def most_specific_def)
  next
    case (2 x)
    then show ?thesis by (simp add: resolve_def most_specific_def)
  next
    case (3 x y xs)
    then have ne: "hs \<noteq> []" by simp
    note top = top_candidates_eq [OF ne]
    show ?thesis
      using most_specific_not_Nil [OF ne]
      unfolding resolve_def Let_def top
      by (simp add: 3 split: list.split)
  qed
  then show "cr_winner (resolve hs) = (case most_specific hs of [w] \<Rightarrow> Some w | _ \<Rightarrow> None)"
    "cr_requires_user_decision (resolve hs) \<longleftrightarrow> 2 \<le> length (most_specific hs)"
    "cr_requires_user_decision (resolve hs) \<Longrightarrow> cr_candidates (resolve hs) = most_specific hs"
    "\<not> cr_requires_user_decision (resolve hs) \<Longrightarrow> cr_candidates (resolve hs) = hs"
    by blast+
qed

section \<open>Properties\<close>

text \<open>The most specific candidates of a permutation are a permutation.\<close>

lemma most_specific_mset:
  assumes "mset hs = mset hs'"
  shows "mset (most_specific hs) = mset (most_specific hs')"
proof -
  have "list_all P hs = list_all P hs'" for P
    using mset_eq_setD [OF assms] by (simp add: list_all_iff)
  then have "mset (most_specific hs') = mset (filter (\<lambda>h. list_all (\<lambda>g. specificity g \<le> specificity h) hs) hs')"
    by (simp add: most_specific_def)
  then show ?thesis using assms by (simp add: most_specific_def mset_filter)
qed

lemma most_specific_single:
  "most_specific hs = [w] \<Longrightarrow> mset hs = mset hs' \<Longrightarrow> most_specific hs' = [w]"
  using most_specific_mset [of hs hs'] by simp

text \<open>
  The detector names a winner exactly when one candidate is strictly more specific than all the
  others, asks the user exactly when at least two share the highest specificity and then
  presents precisely those, in their order; and the order in which the matcher delivers the
  candidates changes neither the winner nor whether the user is asked.
\<close>

theorem collision_decision:
  "(cr_winner (resolve hs) = Some w \<longleftrightarrow>
      (\<exists>xs ys. hs = xs @ w # ys \<and> list_all (\<lambda>g. specificity g < specificity w) (xs @ ys)))
   \<and> (cr_requires_user_decision (resolve hs) \<longleftrightarrow> 2 \<le> length (most_specific hs))
   \<and> (cr_requires_user_decision (resolve hs) \<longrightarrow> cr_candidates (resolve hs) = most_specific hs)
   \<and> (mset hs' = mset hs \<longrightarrow> cr_winner (resolve hs') = cr_winner (resolve hs)
        \<and> cr_requires_user_decision (resolve hs') = cr_requires_user_decision (resolve hs))"
proof (intro conjI impI)
  have winner: "cr_winner (resolve hs) = Some w \<longleftrightarrow> most_specific hs = [w]"
    by (simp add: resolve_outcome split: list.split)
  have split: "most_specific hs = [w] \<longleftrightarrow>
      (\<exists>xs ys. hs = xs @ w # ys \<and> list_all (\<lambda>g. specificity g < specificity w) (xs @ ys))"
  proof
    assume ms: "most_specific hs = [w]"
    let ?best = "\<lambda>h. list_all (\<lambda>g. specificity g \<le> specificity h) hs"
    from ms obtain xs ys where d: "hs = xs @ w # ys" "\<forall>x \<in> set xs. \<not> ?best x" "?best w"
        "filter ?best ys = []"
      unfolding most_specific_def filter_eq_Cons_iff by auto
    then have "\<not> ?best g" if "g \<in> set (xs @ ys)" for g
      using that by (auto simp: filter_empty_conv)
    moreover have "?best g" if "specificity w \<le> specificity g" for g
      using d(3) that by (auto simp: list_all_iff)
    ultimately have "list_all (\<lambda>g. specificity g < specificity w) (xs @ ys)"
      by (auto simp: list_all_iff not_less [symmetric])
    with d(1) show "\<exists>xs ys. hs = xs @ w # ys \<and> list_all (\<lambda>g. specificity g < specificity w) (xs @ ys)"
      by blast
  next
    assume "\<exists>xs ys. hs = xs @ w # ys \<and> list_all (\<lambda>g. specificity g < specificity w) (xs @ ys)"
    then obtain xs ys where d: "hs = xs @ w # ys"
        "\<forall>g \<in> set xs \<union> set ys. specificity g < specificity w"
      by (auto simp: list_all_iff)
    let ?best = "\<lambda>h. list_all (\<lambda>g. specificity g \<le> specificity h) hs"
    have "\<forall>g \<in> set hs. specificity g \<le> specificity w" using d(1) less_imp_le [OF bspec [OF d(2)]] by auto
    then have "?best w" by (simp add: list_all_iff)
    moreover have "\<not> ?best g" if "g \<in> set xs \<union> set ys" for g
      using d(1) bspec [OF d(2) that] by (auto simp: list_all_iff not_le)
    then have "filter ?best xs = []" "filter ?best ys = []" by (auto simp: filter_empty_conv)
    ultimately have "filter ?best (xs @ w # ys) = [w]" by simp
    then show "most_specific hs = [w]" by (simp add: most_specific_def d(1))
  qed
  show "cr_winner (resolve hs) = Some w \<longleftrightarrow>
      (\<exists>xs ys. hs = xs @ w # ys \<and> list_all (\<lambda>g. specificity g < specificity w) (xs @ ys))"
    by (simp only: winner split)
  show "cr_requires_user_decision (resolve hs) \<longleftrightarrow> 2 \<le> length (most_specific hs)"
    by (rule resolve_outcome(2))
  show "cr_requires_user_decision (resolve hs) \<Longrightarrow> cr_candidates (resolve hs) = most_specific hs"
    by (rule resolve_outcome(3))
  assume perm: "mset hs' = mset hs"
  have len: "length (most_specific hs') = length (most_specific hs)"
    using most_specific_mset [OF perm] by (rule mset_eq_length)
  then show "cr_requires_user_decision (resolve hs') = cr_requires_user_decision (resolve hs)"
    by (simp add: resolve_outcome(2))
  show "cr_winner (resolve hs') = cr_winner (resolve hs)"
  proof (cases "\<exists>x. most_specific hs = [x]")
    case True
    then show ?thesis
      using most_specific_single [of hs _ hs'] perm by (auto simp: resolve_outcome(1))
  next
    case False
    moreover from this have "\<nexists>x. most_specific hs' = [x]"
      using most_specific_single [of hs' _ hs] perm by metis
    ultimately show ?thesis
      by (simp add: resolve_outcome(1) split: list.split)
  qed
qed

lemma collision_decision_witness:
  "cr_winner (resolve [default_hypothesis, default_hypothesis\<lparr>h_scope := text_scope ''web'' [] []\<rparr>]) =
     Some (default_hypothesis\<lparr>h_scope := text_scope ''web'' [] []\<rparr>)"
proof -
  let ?g = "default_hypothesis" and ?w = "default_hypothesis\<lparr>h_scope := text_scope ''web'' [] []\<rparr>"
  have "specificity ?g < specificity ?w"
    by (simp add: compute_specificity_def text_scope_def default_hypothesis_def default_hypothesis_scope_def)
  then have "\<exists>xs ys. [?g, ?w] = xs @ ?w # ys \<and> list_all (\<lambda>g. specificity g < specificity ?w) (xs @ ys)"
    by (intro exI [of _ "[?g]"] exI [of _ "[]"]) simp
  then show ?thesis using collision_decision [of "[?g, ?w]" ?w] by blast
qed

text \<open>The pairwise check decides as the general one does.\<close>

lemma resolve_pair_agrees:
  "cr_winner (resolve_pair a b) = cr_winner (resolve [a, b])"
  "cr_requires_user_decision (resolve_pair a b) = cr_requires_user_decision (resolve [a, b])"
  "cr_candidates (resolve_pair a b) = cr_candidates (resolve [a, b])"
proof -
  have ms: "most_specific [a, b] = (if specificity a = specificity b then [a, b]
              else if specificity b < specificity a then [a] else [b])"
    by (simp add: most_specific_def)
  show 1: "cr_requires_user_decision (resolve_pair a b) = cr_requires_user_decision (resolve [a, b])"
    by (simp add: resolve_outcome(2) ms resolve_pair_def Let_def)
  show "cr_winner (resolve_pair a b) = cr_winner (resolve [a, b])"
    by (simp add: resolve_outcome(1) ms resolve_pair_def Let_def)
  show "cr_candidates (resolve_pair a b) = cr_candidates (resolve [a, b])"
    using resolve_outcome(2,3,4) [of "[a, b]"]
    by (cases "specificity a = specificity b") (simp_all add: ms resolve_pair_def Let_def)
qed

end
