(* ===== verification/Bkt.thy ===== *)
theory Bkt
  imports PyJson
begin

text \<open>
  \<open>bkt.py\<close>: Bayesian knowledge tracing, the confidence in a hypothesis. The frozen dataclass is a
  record; the probabilities are exact rationals, so the decimal constants of the source are the
  numbers they denote and the rounding of the hardware is not modelled. The weight of an
  observation comes from a caller and may be any float: it is a \<open>pyfloat\<close>, and the comparisons
  of \<open>min\<close> and \<open>max\<close> with a NaN are Python's.
\<close>

definition default_p_init :: rat where
  "default_p_init = 5 / 10"

definition default_p_transition :: rat where
  "default_p_transition = 1 / 10"

definition default_p_slip :: rat where
  "default_p_slip = 1 / 10"

definition default_p_guess :: rat where
  "default_p_guess = 2 / 10"

record bkt_state =
  bk_p_knowledge :: rat
  bk_p_init :: rat
  bk_p_transition :: rat
  bk_p_slip :: rat
  bk_p_guess :: rat
  bk_observations :: int

section \<open>Operations\<close>

definition posterior_given_observation :: "rat \<Rightarrow> rat \<Rightarrow> rat \<Rightarrow> bool \<Rightarrow> rat" where
  "posterior_given_observation p_know p_slip p_guess positive =
     (let numerator = (if positive then p_know * (1 - p_slip) else p_know * p_slip);
          denominator = (if positive then numerator + (1 - p_know) * p_guess
                         else numerator + (1 - p_know) * (1 - p_guess))
      in if denominator \<le> 0 then p_know else numerator / denominator)"

definition apply_transition :: "rat \<Rightarrow> rat \<Rightarrow> rat" where
  "apply_transition p_posterior p_transition = p_posterior + (1 - p_posterior) * p_transition"

definition clamp_knowledge :: "rat \<Rightarrow> rat" where
  "clamp_knowledge p = max (1 / 1000) (min (999 / 1000) p)"

definition update_bkt :: "bkt_state \<Rightarrow> bool \<Rightarrow> bkt_state" where
  "update_bkt state positive_observation =
     (let posterior = posterior_given_observation (bk_p_knowledge state) (bk_p_slip state)
                        (bk_p_guess state) positive_observation;
          new_knowledge = clamp_knowledge (apply_transition posterior (bk_p_transition state))
      in \<lparr>bk_p_knowledge = new_knowledge, bk_p_init = bk_p_init state,
          bk_p_transition = bk_p_transition state, bk_p_slip = bk_p_slip state,
          bk_p_guess = bk_p_guess state, bk_observations = bk_observations state + 1\<rparr>)"

text \<open>
  \<open>min(a, b)\<close> and \<open>max(a, b)\<close> keep the first argument unless the second is strictly smaller
  (larger), so \<open>max(0.0, min(1.0, w))\<close> is 1.0 for a NaN. The result is finite.
\<close>

definition py_min :: "pyfloat \<Rightarrow> pyfloat \<Rightarrow> pyfloat" where
  "py_min a b = (if pf_less b a then b else a)"

definition py_max :: "pyfloat \<Rightarrow> pyfloat \<Rightarrow> pyfloat" where
  "py_max a b = (if pf_less a b then b else a)"

definition clamp_weight :: "pyfloat \<Rightarrow> pyfloat" where
  "clamp_weight w = py_max (PFin 0) (py_min (PFin 1) w)"

fun finite_value :: "pyfloat \<Rightarrow> rat" where
  "finite_value (PFin r) = r"
| "finite_value _ = 0"

definition update_bkt_weighted :: "bkt_state \<Rightarrow> bool \<Rightarrow> pyfloat \<Rightarrow> bkt_state" where
  "update_bkt_weighted state positive_observation weight =
     (let w = finite_value (clamp_weight weight)
      in if w \<le> 0
         then \<lparr>bk_p_knowledge = bk_p_knowledge state, bk_p_init = bk_p_init state,
               bk_p_transition = bk_p_transition state, bk_p_slip = bk_p_slip state,
               bk_p_guess = bk_p_guess state, bk_observations = bk_observations state + 1\<rparr>
         else
           let full_update = update_bkt state positive_observation
           in if 1 \<le> w then full_update
              else
                let blended = bk_p_knowledge state
                                + w * (bk_p_knowledge full_update - bk_p_knowledge state)
                in \<lparr>bk_p_knowledge = clamp_knowledge blended, bk_p_init = bk_p_init state,
                    bk_p_transition = bk_p_transition state, bk_p_slip = bk_p_slip state,
                    bk_p_guess = bk_p_guess state, bk_observations = bk_observations state + 1\<rparr>)"

definition batch_update_bkt :: "bkt_state \<Rightarrow> bool list \<Rightarrow> bkt_state" where
  "batch_update_bkt state observations = foldl update_bkt state observations"

definition create_initial_state :: "rat \<Rightarrow> rat \<Rightarrow> rat \<Rightarrow> rat \<Rightarrow> bkt_state" where
  "create_initial_state p_init p_transition p_slip p_guess =
     \<lparr>bk_p_knowledge = p_init, bk_p_init = p_init, bk_p_transition = p_transition,
      bk_p_slip = p_slip, bk_p_guess = p_guess, bk_observations = 0\<rparr>"

text \<open>\<open>create_initial_state()\<close> with its default arguments.\<close>

definition default_bkt_state :: bkt_state where
  "default_bkt_state = create_initial_state default_p_init default_p_transition
                         default_p_slip default_p_guess"

section \<open>The weight\<close>

lemma clamp_weight_cases:
  "clamp_weight (PFin r) = PFin (max 0 (min 1 r))"
  "clamp_weight PNaN = PFin 1" "clamp_weight PInf = PFin 1" "clamp_weight PNegInf = PFin 0"
  by (simp_all add: clamp_weight_def py_min_def py_max_def)

lemma clamp_weight_unit: "\<exists>r. clamp_weight w = PFin r \<and> 0 \<le> r \<and> r \<le> 1"
  by (cases w) (simp_all add: clamp_weight_cases)

lemma clamp_weight_idem [simp]: "clamp_weight (clamp_weight w) = clamp_weight w"
  by (cases w) (simp_all add: clamp_weight_cases)

lemma update_weighted_clamped [simp]:
  "update_bkt_weighted s b (clamp_weight w) = update_bkt_weighted s b w"
  by (simp add: update_bkt_weighted_def)

section \<open>Parameters and counter\<close>

definition same_parameters :: "bkt_state \<Rightarrow> bkt_state \<Rightarrow> bool" where
  "same_parameters s s' =
     (bk_p_init s = bk_p_init s' \<and> bk_p_transition s = bk_p_transition s'
      \<and> bk_p_slip s = bk_p_slip s' \<and> bk_p_guess s = bk_p_guess s')"

lemma update_bkt_frame:
  "same_parameters s (update_bkt s b)" "bk_observations (update_bkt s b) = bk_observations s + 1"
  by (simp_all add: update_bkt_def same_parameters_def Let_def)

lemma update_weighted_frame:
  "same_parameters s (update_bkt_weighted s b w)"
  "bk_observations (update_bkt_weighted s b w) = bk_observations s + 1"
  by (simp_all add: update_bkt_weighted_def update_bkt_def same_parameters_def Let_def)

section \<open>Bounds\<close>

lemma clamp_knowledge_bounds: "1 / 1000 \<le> clamp_knowledge p" "clamp_knowledge p \<le> 999 / 1000"
  by (simp_all add: clamp_knowledge_def)

lemma clamp_knowledge_id:
  "1 / 1000 \<le> p \<Longrightarrow> p \<le> 999 / 1000 \<Longrightarrow> clamp_knowledge p = p"
  by (simp add: clamp_knowledge_def)

lemma update_bkt_bounds:
  "1 / 1000 \<le> bk_p_knowledge (update_bkt s b)" "bk_p_knowledge (update_bkt s b) \<le> 999 / 1000"
  using clamp_knowledge_bounds by (simp_all add: update_bkt_def Let_def)

text \<open>The blended value is the weighted mean of two values in the range, so its clamp is idle.\<close>

lemma weighted_knowledge:
  assumes "1 / 1000 \<le> bk_p_knowledge s" and "bk_p_knowledge s \<le> 999 / 1000"
    and "clamp_weight w = PFin r" and "0 \<le> r" and "r \<le> 1"
  shows "bk_p_knowledge (update_bkt_weighted s b w) =
           (1 - r) * bk_p_knowledge s + r * bk_p_knowledge (update_bkt s b)"
proof -
  let ?p = "bk_p_knowledge s" and ?q = "bk_p_knowledge (update_bkt s b)"
  have mean: "?p + r * (?q - ?p) = (1 - r) * ?p + r * ?q" by (simp add: algebra_simps)
  have lo: "1 / 1000 \<le> (1 - r) * ?p + r * ?q"
    using convex_bound_le [of "- ?p" "- (1 / 1000)" "- ?q" "1 - r" r] assms update_bkt_bounds(1) [of s b]
    by simp
  have hi: "(1 - r) * ?p + r * ?q \<le> 999 / 1000"
    using convex_bound_le [of ?p "999 / 1000" ?q "1 - r" r] assms update_bkt_bounds(2) [of s b] by simp
  show ?thesis
    using assms lo hi
    by (simp add: update_bkt_weighted_def Let_def mean clamp_knowledge_id)
qed

section \<open>The direction of an observation\<close>

text \<open>
  For informative parameters (slip plus guess at most one) the posterior moves with the
  observation.
\<close>

lemma positive_posterior:
  assumes "0 \<le> p" and "p \<le> 1" and "0 \<le> g" and "s \<le> 1" and "s + g \<le> 1"
  shows "p \<le> posterior_given_observation p s g True"
    and "posterior_given_observation p s g True \<le> 1"
proof -
  let ?n = "p * (1 - s)" and ?d = "p * (1 - s) + (1 - p) * g"
  have gap: "?n - p * ?d = p * (1 - p) * (1 - s - g)" by (simp add: algebra_simps)
  have "0 \<le> p * (1 - p) * (1 - s - g)" using assms by (intro mult_nonneg_nonneg) simp_all
  then have n: "p * ?d \<le> ?n" unfolding gap [symmetric] by (rule diff_ge_0_iff_ge [THEN iffD1])
  have d: "?n \<le> ?d" using assms by simp
  show "p \<le> posterior_given_observation p s g True"
    using n by (simp add: posterior_given_observation_def Let_def pos_le_divide_eq)
  show "posterior_given_observation p s g True \<le> 1"
    using d assms by (simp add: posterior_given_observation_def Let_def pos_divide_le_eq)
qed

lemma negative_posterior:
  assumes "0 \<le> p" and "p \<le> 1" and "0 \<le> s" and "g \<le> 1" and "s + g \<le> 1"
  shows "posterior_given_observation p s g False \<le> p"
    and "0 \<le> posterior_given_observation p s g False"
proof -
  let ?n = "p * s" and ?d = "p * s + (1 - p) * (1 - g)"
  have gap: "p * ?d - ?n = p * (1 - p) * (1 - s - g)" by (simp add: algebra_simps)
  have "0 \<le> p * (1 - p) * (1 - s - g)" using assms by (intro mult_nonneg_nonneg) simp_all
  then have n: "?n \<le> p * ?d" unfolding gap [symmetric] by (rule diff_ge_0_iff_ge [THEN iffD1])
  show "posterior_given_observation p s g False \<le> p"
    using n by (simp add: posterior_given_observation_def Let_def pos_divide_le_eq)
  show "0 \<le> posterior_given_observation p s g False"
    using assms by (simp add: posterior_given_observation_def Let_def)
qed

text \<open>
  With the default parameters the learning transition counteracts a negative observation. The
  two balance at 4/35: below it a negative observation raises the confidence, above it the
  confidence falls and stays above it.
\<close>

definition default_parameters :: "bkt_state \<Rightarrow> bool" where
  "default_parameters s = same_parameters default_bkt_state s"

lemma default_parametersD:
  assumes "default_parameters s"
  shows "bk_p_init s = 1 / 2" "bk_p_transition s = 1 / 10" "bk_p_slip s = 1 / 10"
    "bk_p_guess s = 2 / 10"
  using assms
  by (simp_all add: default_parameters_def same_parameters_def default_bkt_state_def
      create_initial_state_def default_p_init_def default_p_transition_def
      default_p_slip_def default_p_guess_def)

lemma default_parameters_update [simp]:
  "default_parameters (update_bkt s b) = default_parameters s"
  "default_parameters (update_bkt_weighted s b w) = default_parameters s"
  using update_bkt_frame(1) [of s b] update_weighted_frame(1) [of s b w]
  by (auto simp: default_parameters_def same_parameters_def)

lemma update_default:
  assumes "default_parameters s"
  shows "bk_p_knowledge (update_bkt s b) =
           clamp_knowledge (apply_transition
             (posterior_given_observation (bk_p_knowledge s) (1 / 10) (2 / 10) b) (1 / 10))"
  by (simp only: update_bkt_def Let_def bkt_state.simps default_parametersD [OF assms])

definition negative_step :: "rat \<Rightarrow> rat" where
  "negative_step p = p / (8 - 7 * p) * (9 / 10) + 1 / 10"

lemma negative_step_eq:
  assumes "default_parameters s" and "0 \<le> bk_p_knowledge s" and "bk_p_knowledge s \<le> 1"
  shows "bk_p_knowledge (update_bkt s False) = clamp_knowledge (negative_step (bk_p_knowledge s))"
proof -
  let ?p = "bk_p_knowledge s"
  have d: "?p * (1 / 10) + (1 - ?p) * (1 - 2 / 10) = (8 - 7 * ?p) / 10" by (simp add: field_simps)
  have pos: "0 < (8 - 7 * ?p) / 10" using assms(3) by simp
  have "posterior_given_observation ?p (1 / 10) (2 / 10) False = ?p / (8 - 7 * ?p)"
    using pos unfolding posterior_given_observation_def Let_def by (simp only: d if_False) simp
  moreover have "apply_transition q (1 / 10) = q * (9 / 10) + 1 / 10" for q
    by (simp add: apply_transition_def field_simps)
  ultimately show ?thesis
    by (simp only: update_default [OF assms(1)] negative_step_def)
qed

lemma negative_step_gap:
  assumes "p \<le> 1"
  shows "p - negative_step p = (p - 4 / 35) * (1 - p) * 7 / (8 - 7 * p)"
    and "negative_step p - 4 / 35 = (p - 4 / 35) / (8 - 7 * p)"
  using assms by (simp_all add: negative_step_def field_simps)

lemma negative_step_range:
  assumes "4 / 35 \<le> p" and "p \<le> 1"
  shows "4 / 35 \<le> negative_step p" and "negative_step p \<le> p"
proof -
  have "0 \<le> negative_step p - 4 / 35" and "0 \<le> p - negative_step p"
    using assms by (simp_all add: negative_step_gap)
  then show "4 / 35 \<le> negative_step p" and "negative_step p \<le> p" by simp_all
qed

lemma negative_step_below:
  assumes "0 \<le> p" and "p < 4 / 35"
  shows "p < negative_step p"
proof -
  have "(p - 4 / 35) * (1 - p) * 7 / (8 - 7 * p) < 0"
    using assms by (intro divide_neg_pos mult_neg_pos) simp_all
  then show ?thesis using negative_step_gap(1) [of p] assms by simp
qed

section \<open>The range of the confidence\<close>

text \<open>\<open>tracked\<close> holds of the initial state and is kept by every update.\<close>

definition tracked :: "bkt_state \<Rightarrow> bool" where
  "tracked s =
     (default_parameters s \<and> 4 / 35 \<le> bk_p_knowledge s \<and> bk_p_knowledge s \<le> 999 / 1000)"

lemma tracked_initial [simp]: "tracked default_bkt_state"
  by (simp add: tracked_def default_parameters_def same_parameters_def default_bkt_state_def
      create_initial_state_def default_p_init_def)

lemma update_positive_range:
  assumes "tracked s"
  shows "bk_p_knowledge s \<le> bk_p_knowledge (update_bkt s True)"
proof -
  let ?p = "bk_p_knowledge s"
  have p: "0 \<le> ?p" "?p \<le> 1" "?p \<le> 999 / 1000" "1 / 1000 \<le> ?p" "default_parameters s"
    using assms by (simp_all add: tracked_def)
  let ?q = "posterior_given_observation ?p (1 / 10) (2 / 10) True"
  have q: "?p \<le> ?q" "?q \<le> 1" using positive_posterior [of ?p "2 / 10" "1 / 10"] p by simp_all
  have t: "?q \<le> apply_transition ?q (1 / 10)" using q by (simp add: apply_transition_def)
  have "bk_p_knowledge (update_bkt s True) = clamp_knowledge (apply_transition ?q (1 / 10))"
    using p(5) by (rule update_default)
  also have "?p \<le> \<dots>" using q(1) t p unfolding clamp_knowledge_def by linarith
  finally show ?thesis by simp
qed

lemma update_negative_range:
  assumes "tracked s"
  shows "4 / 35 \<le> bk_p_knowledge (update_bkt s False)"
    and "bk_p_knowledge (update_bkt s False) \<le> bk_p_knowledge s"
proof -
  let ?p = "bk_p_knowledge s"
  have p: "4 / 35 \<le> ?p" "?p \<le> 999 / 1000" "default_parameters s"
    using assms by (simp_all add: tracked_def)
  have step: "4 / 35 \<le> negative_step ?p" "negative_step ?p \<le> ?p"
    using negative_step_range p by simp_all
  have "bk_p_knowledge (update_bkt s False) = negative_step ?p"
    using negative_step_eq [of s] p step by (simp add: clamp_knowledge_id)
  with step show "4 / 35 \<le> bk_p_knowledge (update_bkt s False)"
    and "bk_p_knowledge (update_bkt s False) \<le> bk_p_knowledge s" by simp_all
qed

lemma tracked_update [simp]: "tracked s \<Longrightarrow> tracked (update_bkt s b)"
  using update_positive_range [of s] update_negative_range [of s] update_bkt_bounds [of s b]
  by (cases b) (auto simp: tracked_def)

lemma weighted_mean_between:
  assumes "0 \<le> r" and "r \<le> (1 :: rat)"
  shows "p \<le> q \<Longrightarrow> p \<le> (1 - r) * p + r * q" and "p \<le> q \<Longrightarrow> (1 - r) * p + r * q \<le> q"
    and "q \<le> p \<Longrightarrow> (1 - r) * p + r * q \<le> p" and "q \<le> p \<Longrightarrow> q \<le> (1 - r) * p + r * q"
proof -
  have 1: "(1 - r) * p + r * q = p + r * (q - p)" "(1 - r) * p + r * q = q - (1 - r) * (q - p)"
    by (simp_all add: algebra_simps)
  show "p \<le> q \<Longrightarrow> p \<le> (1 - r) * p + r * q" using assms 1(1) by simp
  show "p \<le> q \<Longrightarrow> (1 - r) * p + r * q \<le> q" using assms 1(2) by simp
  show "q \<le> p \<Longrightarrow> (1 - r) * p + r * q \<le> p" using assms 1(1) by (simp add: mult_nonneg_nonpos)
  show "q \<le> p \<Longrightarrow> q \<le> (1 - r) * p + r * q" using assms 1(2) by (simp add: mult_nonneg_nonpos)
qed

lemma weighted_range:
  assumes "tracked s"
  shows "bk_p_knowledge s \<le> bk_p_knowledge (update_bkt_weighted s True w)"
    and "bk_p_knowledge (update_bkt_weighted s False w) \<le> bk_p_knowledge s"
    and "tracked (update_bkt_weighted s b w)"
proof -
  obtain r where r: "clamp_weight w = PFin r" "0 \<le> r" "r \<le> 1" using clamp_weight_unit by blast
  have p: "1 / 1000 \<le> bk_p_knowledge s" "bk_p_knowledge s \<le> 999 / 1000"
    using assms by (simp_all add: tracked_def)
  note eq = weighted_knowledge [OF p r]
  note mean = weighted_mean_between [OF r(2,3)]
  show "bk_p_knowledge s \<le> bk_p_knowledge (update_bkt_weighted s True w)"
    using mean(1) [OF update_positive_range [OF assms]] by (simp add: eq)
  show "bk_p_knowledge (update_bkt_weighted s False w) \<le> bk_p_knowledge s"
    using mean(3) [OF update_negative_range(2) [OF assms]] by (simp add: eq)
  have upd: "tracked (update_bkt s b)" using assms by simp
  show "tracked (update_bkt_weighted s b w)"
  proof (cases b)
    case True
    have "bk_p_knowledge s \<le> bk_p_knowledge (update_bkt_weighted s True w)"
         "bk_p_knowledge (update_bkt_weighted s True w) \<le> bk_p_knowledge (update_bkt s True)"
      using mean(1,2) [OF update_positive_range [OF assms]] by (simp_all add: eq)
    with upd assms True show ?thesis by (auto simp: tracked_def)
  next
    case False
    have "bk_p_knowledge (update_bkt_weighted s False w) \<le> bk_p_knowledge s"
         "bk_p_knowledge (update_bkt s False) \<le> bk_p_knowledge (update_bkt_weighted s False w)"
      using mean(3,4) [OF update_negative_range(2) [OF assms]] by (simp_all add: eq)
    with upd assms False show ?thesis by (auto simp: tracked_def)
  qed
qed

end
