(* ===== verification/EvidenceLedger.thy ===== *)
theory EvidenceLedger
  imports Bkt
begin

text \<open>
  \<open>evidence_ledger.py\<close>: the evidence for and against each hypothesis and the confidence computed
  from it. The two dictionaries of the ledger are maps from hypothesis ids; a record's lists are
  in the order of arrival. The only exception is the \<open>ValueError\<close> of an unknown signal type.
\<close>

definition positive_signals :: "string list" where
  "positive_signals = [''no_correction'', ''bookmark'', ''explicit_confirm'', ''learn_command'']"

definition negative_signals :: "string list" where
  "negative_signals = [''correction'', ''rejection'']"

definition valid_signal_types :: "string list" where
  "valid_signal_types = positive_signals @ negative_signals"

record evidence_record =
  ev_evidence_id :: string
  ev_hypothesis_id :: string
  ev_hypothesis_version :: int
  ev_episode_id :: string
  ev_request_id :: "string option"
  ev_response_id :: "string option"
  ev_signal_type :: string
  ev_signal_strength :: pyfloat
  ev_created_at :: string

record evidence_summary =
  es_positive_count :: int
  es_negative_count :: int
  es_total_count :: int
  es_weighted_score :: rat
  es_bkt_state :: bkt_state
  es_distinct_sessions :: int
  es_last_positive_at :: "string option"
  es_last_negative_at :: "string option"

datatype ledger_error = UnknownSignalType string

definition is_positive_signal :: "string \<Rightarrow> ledger_error + bool" where
  "is_positive_signal signal_type =
     (if List.member positive_signals signal_type then Inr True
      else if List.member negative_signals signal_type then Inr False
      else Inl (UnknownSignalType signal_type))"

record evidence_ledger =
  ld_evidence :: "string \<Rightarrow> evidence_record list option"
  ld_bkt_states :: "string \<Rightarrow> bkt_state option"

definition new_ledger :: evidence_ledger where
  "new_ledger = \<lparr>ld_evidence = (\<lambda>_. None), ld_bkt_states = (\<lambda>_. None)\<rparr>"

section \<open>Operations\<close>

definition get_bkt_state :: "evidence_ledger \<Rightarrow> string \<Rightarrow> bkt_state" where
  "get_bkt_state l hypothesis_id =
     (case ld_bkt_states l hypothesis_id of None \<Rightarrow> default_bkt_state | Some s \<Rightarrow> s)"

definition get_evidence :: "evidence_ledger \<Rightarrow> string \<Rightarrow> evidence_record list" where
  "get_evidence l hypothesis_id =
     (case ld_evidence l hypothesis_id of None \<Rightarrow> [] | Some rs \<Rightarrow> rs)"

text \<open>The record is stored first, then its polarity decides the update of the state.\<close>

definition add_evidence ::
    "evidence_ledger \<Rightarrow> evidence_record \<Rightarrow> ledger_error + evidence_ledger" where
  "add_evidence l record =
     (let h = ev_hypothesis_id record in
      if \<not> List.member valid_signal_types (ev_signal_type record)
      then Inl (UnknownSignalType (ev_signal_type record))
      else
        let l1 = l\<lparr>ld_evidence := (ld_evidence l)(h \<mapsto> get_evidence l h @ [record])\<rparr>
        in bind_res (is_positive_signal (ev_signal_type record)) (\<lambda>positive.
             Inr (l1\<lparr>ld_bkt_states := (ld_bkt_states l1)(h \<mapsto>
               update_bkt_weighted (get_bkt_state l1 h) positive
                 (clamp_weight (ev_signal_strength record)))\<rparr>)))"

text \<open>The loop of \<open>get_summary\<close>: counts, last time stamps and the episodes seen.\<close>

record summary_counters =
  ct_positive :: int
  ct_negative :: int
  ct_last_positive :: "string option"
  ct_last_negative :: "string option"
  ct_sessions :: "string list"

definition count_record ::
    "summary_counters \<Rightarrow> evidence_record \<Rightarrow> ledger_error + summary_counters" where
  "count_record c r =
     bind_res (is_positive_signal (ev_signal_type r)) (\<lambda>positive.
       let c1 = (if positive
                 then c\<lparr>ct_positive := ct_positive c + 1, ct_last_positive := Some (ev_created_at r)\<rparr>
                 else c\<lparr>ct_negative := ct_negative c + 1, ct_last_negative := Some (ev_created_at r)\<rparr>)
       in Inr (if ev_episode_id r \<noteq> []
               then c1\<lparr>ct_sessions := List.insert (ev_episode_id r) (ct_sessions c1)\<rparr> else c1))"

fun count_records ::
    "summary_counters \<Rightarrow> evidence_record list \<Rightarrow> ledger_error + summary_counters" where
  "count_records c [] = Inr c"
| "count_records c (r # rs) = bind_res (count_record c r) (\<lambda>c1. count_records c1 rs)"

definition no_counts :: summary_counters where
  "no_counts = \<lparr>ct_positive = 0, ct_negative = 0, ct_last_positive = None,
                ct_last_negative = None, ct_sessions = []\<rparr>"

definition get_summary :: "evidence_ledger \<Rightarrow> string \<Rightarrow> ledger_error + evidence_summary" where
  "get_summary l hypothesis_id =
     (let records = get_evidence l hypothesis_id;
          bkt = get_bkt_state l hypothesis_id
      in bind_res (count_records no_counts records) (\<lambda>c.
           Inr \<lparr>es_positive_count = ct_positive c, es_negative_count = ct_negative c,
                es_total_count = int (length records), es_weighted_score = bk_p_knowledge bkt,
                es_bkt_state = bkt, es_distinct_sessions = int (length (ct_sessions c)),
                es_last_positive_at = ct_last_positive c,
                es_last_negative_at = ct_last_negative c\<rparr>))"

text \<open>
  \<open>records[-limit:]\<close> for any integer: a slice from the end, from the start when \<open>-limit\<close> is not
  negative.
\<close>

definition slice_last :: "int \<Rightarrow> 'a list \<Rightarrow> 'a list" where
  "slice_last limit xs =
     (if 0 < limit then drop (length xs - nat limit) xs else drop (nat (- limit)) xs)"

definition get_recent_contradictions :: "evidence_ledger \<Rightarrow> string \<Rightarrow> int \<Rightarrow> int" where
  "get_recent_contradictions l hypothesis_id limit =
     (let records = get_evidence l hypothesis_id;
          recent = (if limit < int (length records) then slice_last limit records else records)
      in int (length (filter (\<lambda>r. List.member negative_signals (ev_signal_type r)) recent)))"

definition has_evidence :: "evidence_ledger \<Rightarrow> string \<Rightarrow> bool" where
  "has_evidence l hypothesis_id = (get_evidence l hypothesis_id \<noteq> [])"

definition clear_hypothesis :: "evidence_ledger \<Rightarrow> string \<Rightarrow> evidence_ledger" where
  "clear_hypothesis l hypothesis_id =
     l\<lparr>ld_evidence := (ld_evidence l)(hypothesis_id := None),
       ld_bkt_states := (ld_bkt_states l)(hypothesis_id := None)\<rparr>"

section \<open>Signals\<close>

lemma signals_disjoint: "x \<in> set positive_signals \<Longrightarrow> x \<notin> set negative_signals"
  by (auto simp: positive_signals_def negative_signals_def)

lemma is_positive_signal_eq:
  "is_positive_signal t = Inr b \<longleftrightarrow>
     (if b then t \<in> set positive_signals else t \<in> set negative_signals)"
  using signals_disjoint by (auto simp: is_positive_signal_def)

lemma is_positive_signal_valid:
  "t \<in> set valid_signal_types \<longleftrightarrow> (\<exists>b. is_positive_signal t = Inr b)"
  by (auto simp: is_positive_signal_def valid_signal_types_def)

lemma is_positive_signal_total:
  "t \<in> set valid_signal_types \<Longrightarrow> is_positive_signal t = Inr (t \<in> set positive_signals)"
  by (auto simp: is_positive_signal_def valid_signal_types_def)

section \<open>The confidence is a replay of the evidence\<close>

text \<open>One record's effect on the state, and the state a list of records leads to.\<close>

definition absorb :: "bkt_state \<Rightarrow> evidence_record \<Rightarrow> bkt_state" where
  "absorb s r =
     update_bkt_weighted s (ev_signal_type r \<in> set positive_signals) (ev_signal_strength r)"

definition replay :: "evidence_record list \<Rightarrow> bkt_state" where
  "replay rs = foldl absorb default_bkt_state rs"

lemma replay_simps [simp]:
  "replay [] = default_bkt_state" "replay (rs @ [r]) = absorb (replay rs) r"
  by (simp_all add: replay_def)

inductive ledger_reachable :: "evidence_ledger \<Rightarrow> bool" where
  ledger_new: "ledger_reachable new_ledger"
| ledger_add: "ledger_reachable l \<Longrightarrow> add_evidence l r = Inr l' \<Longrightarrow> ledger_reachable l'"
| ledger_clear: "ledger_reachable l \<Longrightarrow> ledger_reachable (clear_hypothesis l h)"

definition valid_records :: "string \<Rightarrow> evidence_record list \<Rightarrow> bool" where
  "valid_records h rs =
     list_all (\<lambda>r. ev_hypothesis_id r = h \<and> ev_signal_type r \<in> set valid_signal_types) rs"

definition ledger_inv :: "evidence_ledger \<Rightarrow> bool" where
  "ledger_inv l \<longleftrightarrow>
     (\<forall>h. valid_records h (get_evidence l h) \<and> get_bkt_state l h = replay (get_evidence l h))"

lemma add_evidence_InrD:
  assumes "add_evidence l r = Inr l'"
  shows "ev_signal_type r \<in> set valid_signal_types"
    and "get_evidence l' h =
           (if h = ev_hypothesis_id r then get_evidence l h @ [r] else get_evidence l h)"
    and "get_bkt_state l' h =
           (if h = ev_hypothesis_id r then absorb (get_bkt_state l h) r else get_bkt_state l h)"
  using assms
  by (auto simp: add_evidence_def Let_def is_positive_signal_total get_evidence_def
      get_bkt_state_def absorb_def split: if_splits)

lemma clear_hypothesis_reads [simp]:
  "get_evidence (clear_hypothesis l k) h = (if h = k then [] else get_evidence l h)"
  "get_bkt_state (clear_hypothesis l k) h = (if h = k then default_bkt_state else get_bkt_state l h)"
  by (simp_all add: clear_hypothesis_def get_evidence_def get_bkt_state_def)

lemma ledger_inv_new: "ledger_inv new_ledger"
  by (simp add: ledger_inv_def new_ledger_def get_evidence_def get_bkt_state_def valid_records_def)

lemma ledger_inv_add:
  assumes "ledger_inv l" and "add_evidence l r = Inr l'"
  shows "ledger_inv l'"
  using assms(1) add_evidence_InrD [OF assms(2)]
  by (auto simp: ledger_inv_def valid_records_def)

lemma ledger_inv_clear: "ledger_inv l \<Longrightarrow> ledger_inv (clear_hypothesis l k)"
  by (simp add: ledger_inv_def valid_records_def)

lemma ledger_reachable_inv: "ledger_reachable l \<Longrightarrow> ledger_inv l"
  by (induction rule: ledger_reachable.induct)
    (simp_all add: ledger_inv_new ledger_inv_add ledger_inv_clear)

lemma tracked_absorb [simp]: "tracked s \<Longrightarrow> tracked (absorb s r)"
  by (simp add: absorb_def weighted_range(3))

lemma tracked_foldl: "tracked s \<Longrightarrow> tracked (foldl absorb s rs)"
  by (induction rs arbitrary: s) simp_all

lemma tracked_replay [simp]: "tracked (replay rs)"
  by (simp add: replay_def tracked_foldl)

lemma replay_observations: "bk_observations (replay rs) = int (length rs)"
  by (induction rs rule: rev_induct)
    (simp_all add: absorb_def update_weighted_frame default_bkt_state_def create_initial_state_def)
section \<open>Summaries\<close>

definition positive_of :: "evidence_record \<Rightarrow> bool" where
  "positive_of r = (ev_signal_type r \<in> set positive_signals)"

definition negative_of :: "evidence_record \<Rightarrow> bool" where
  "negative_of r = (ev_signal_type r \<notin> set positive_signals)"

lemma negative_of_iff: "negative_of r = (\<not> positive_of r)"
  by (simp add: negative_of_def positive_of_def)

definition last_created :: "evidence_record list \<Rightarrow> string option" where
  "last_created rs = (if rs = [] then None else Some (ev_created_at (last rs)))"

lemma last_created_filter_Cons:
  "last_created (filter P (r # rs)) =
     (case last_created (filter P rs) of
        Some t \<Rightarrow> Some t | None \<Rightarrow> if P r then Some (ev_created_at r) else None)"
  by (auto simp: last_created_def)

text \<open>What the loop computes, starting from any counters.\<close>

lemma count_records_valid:
  assumes "list_all (\<lambda>r. ev_signal_type r \<in> set valid_signal_types) rs" and "distinct (ct_sessions c)"
  shows "\<exists>c'. count_records c rs = Inr c'
      \<and> ct_positive c' = ct_positive c + int (length (filter positive_of rs))
      \<and> ct_negative c' = ct_negative c + int (length (filter negative_of rs))
      \<and> ct_last_positive c' =
          (case last_created (filter positive_of rs) of Some t \<Rightarrow> Some t | None \<Rightarrow> ct_last_positive c)
      \<and> ct_last_negative c' =
          (case last_created (filter negative_of rs) of
             Some t \<Rightarrow> Some t | None \<Rightarrow> ct_last_negative c)
      \<and> set (ct_sessions c') = set (ct_sessions c) \<union> (ev_episode_id ` set rs - {[]})
      \<and> distinct (ct_sessions c')"
  using assms
proof (induction rs arbitrary: c)
  case Nil
  then show ?case by (simp add: last_created_def)
next
  case (Cons r rs)
  define c1 where "c1 = (case count_record c r of Inr x \<Rightarrow> x | Inl _ \<Rightarrow> c)"
  have r: "is_positive_signal (ev_signal_type r) = Inr (positive_of r)"
    using Cons.prems by (simp add: is_positive_signal_total positive_of_def)
  have c1: "count_record c r = Inr c1" "distinct (ct_sessions c1)"
    "ct_positive c1 = ct_positive c + (if positive_of r then 1 else 0)"
    "ct_negative c1 = ct_negative c + (if positive_of r then 0 else 1)"
    "ct_last_positive c1 = (if positive_of r then Some (ev_created_at r) else ct_last_positive c)"
    "ct_last_negative c1 = (if positive_of r then ct_last_negative c else Some (ev_created_at r))"
    "set (ct_sessions c1) = set (ct_sessions c) \<union> ({ev_episode_id r} - {[]})"
    using Cons.prems(2) by (auto simp: c1_def count_record_def r Let_def)
  obtain c' where c': "count_records c1 rs = Inr c'"
      "ct_positive c' = ct_positive c1 + int (length (filter positive_of rs))"
      "ct_negative c' = ct_negative c1 + int (length (filter negative_of rs))"
      "ct_last_positive c' =
         (case last_created (filter positive_of rs) of Some t \<Rightarrow> Some t | None \<Rightarrow> ct_last_positive c1)"
      "ct_last_negative c' =
         (case last_created (filter negative_of rs) of
            Some t \<Rightarrow> Some t | None \<Rightarrow> ct_last_negative c1)"
      "set (ct_sessions c') = set (ct_sessions c1) \<union> (ev_episode_id ` set rs - {[]})"
      "distinct (ct_sessions c')"
    using Cons.IH [of c1] Cons.prems c1(2) by auto
  show ?case
    unfolding last_created_filter_Cons
    by (rule exI [of _ c']) (auto simp: c1 c' negative_of_iff [of r] split: option.split)
qed

lemma get_summary_reachable:
  fixes h :: string
  assumes "ledger_reachable l"
  defines "rs \<equiv> get_evidence l h"
  shows "\<exists>s. get_summary l h = Inr s
      \<and> es_positive_count s = int (length (filter positive_of rs))
      \<and> es_negative_count s = int (length (filter negative_of rs))
      \<and> es_total_count s = int (length rs)
      \<and> es_weighted_score s = bk_p_knowledge (replay rs)
      \<and> es_bkt_state s = replay rs
      \<and> es_distinct_sessions s = int (card (ev_episode_id ` set rs - {[]}))
      \<and> es_last_positive_at s = last_created (filter positive_of rs)
      \<and> es_last_negative_at s = last_created (filter negative_of rs)"
proof -
  have inv: "valid_records h rs" "get_bkt_state l h = replay rs"
    using ledger_reachable_inv [OF assms(1)] by (simp_all add: ledger_inv_def rs_def)
  from inv(1) have "list_all (\<lambda>r. ev_signal_type r \<in> set valid_signal_types) rs"
    by (auto simp: valid_records_def list_all_iff)
  from count_records_valid [OF this, of no_counts] obtain c where
    c: "count_records no_counts rs = Inr c"
      "ct_positive c = int (length (filter positive_of rs))"
      "ct_negative c = int (length (filter negative_of rs))"
      "ct_last_positive c = last_created (filter positive_of rs)"
      "ct_last_negative c = last_created (filter negative_of rs)"
      "set (ct_sessions c) = ev_episode_id ` set rs - {[]}" "distinct (ct_sessions c)"
    by (auto simp: no_counts_def split: option.splits)
  have "length (ct_sessions c) = card (ev_episode_id ` set rs - {[]})"
    using distinct_card [OF c(7)] c(6) by simp
  with c inv show ?thesis
    by (simp add: get_summary_def Let_def rs_def [symmetric])
qed

section \<open>Properties\<close>

lemma length_polarities: "length (filter positive_of rs) + length (filter negative_of rs) = length rs"
  using sum_length_filter_compl [of positive_of rs] by (simp add: negative_of_iff [abs_def])

definition confidence :: "evidence_ledger \<Rightarrow> string \<Rightarrow> rat" where
  "confidence l h = bk_p_knowledge (get_bkt_state l h)"

text \<open>A ledger with one confirmation and one weak rejection, for the witnesses.\<close>

definition sample_record :: "string \<Rightarrow> pyfloat \<Rightarrow> evidence_record" where
  "sample_record signal strength =
     \<lparr>ev_evidence_id = ''ev_1'', ev_hypothesis_id = ''hyp_1'', ev_hypothesis_version = 1,
      ev_episode_id = ''ep_1'', ev_request_id = None, ev_response_id = None,
      ev_signal_type = signal, ev_signal_strength = strength,
      ev_created_at = ''2026-05-26T10:00:00+00:00''\<rparr>"

definition sample_ledger :: evidence_ledger where
  "sample_ledger =
     (case add_evidence new_ledger (sample_record ''explicit_confirm'' (PFin 1)) of
        Inr l \<Rightarrow> l | Inl _ \<Rightarrow> new_ledger)"

lemma sample_ledger_add:
  "add_evidence new_ledger (sample_record ''explicit_confirm'' (PFin 1)) = Inr sample_ledger"
  by (simp add: sample_ledger_def add_evidence_def sample_record_def is_positive_signal_def
      valid_signal_types_def positive_signals_def Let_def)

lemma sample_ledger_reachable: "ledger_reachable sample_ledger"
  using ledger_add [OF ledger_new sample_ledger_add] .

text \<open>
  After any sequence of additions and removals the summary of a hypothesis is computed without an
  error; its state is the replay, in order, of the weighted updates of the evidence that is
  stored for it, every record counts once as positive or negative, and the confidence never
  leaves the interval from 4/35 to 0.999, strictly inside what the clamp of the code allows.
\<close>

theorem ledger_summary_sound:
  assumes "ledger_reachable l"
  shows "\<exists>s. get_summary l h = Inr s
      \<and> es_bkt_state s = replay (get_evidence l h)
      \<and> es_weighted_score s = bk_p_knowledge (es_bkt_state s)
      \<and> bk_observations (es_bkt_state s) = es_total_count s
      \<and> es_positive_count s + es_negative_count s = es_total_count s
      \<and> es_distinct_sessions s \<le> es_total_count s
      \<and> 4 / 35 \<le> es_weighted_score s \<and> es_weighted_score s \<le> 999 / 1000"
proof -
  let ?rs = "get_evidence l h"
  obtain s where s: "get_summary l h = Inr s"
      "es_positive_count s = int (length (filter positive_of ?rs))"
      "es_negative_count s = int (length (filter negative_of ?rs))"
      "es_total_count s = int (length ?rs)"
      "es_weighted_score s = bk_p_knowledge (replay ?rs)" "es_bkt_state s = replay ?rs"
      "es_distinct_sessions s = int (card (ev_episode_id ` set ?rs - {[]}))"
    using get_summary_reachable [OF assms, of h] by auto
  have "card (ev_episode_id ` set ?rs - {[]}) \<le> card (ev_episode_id ` set ?rs)"
    by (intro card_mono) auto
  also have "\<dots> \<le> length ?rs" using card_image_le [of "set ?rs" ev_episode_id] card_length [of ?rs] by simp
  finally have card: "card (ev_episode_id ` set ?rs - {[]}) \<le> length ?rs" .
  have "tracked (replay ?rs)" by simp
  with s card length_polarities [of ?rs] show ?thesis
    by (auto simp: tracked_def replay_observations)
qed

lemma ledger_summary_sound_witness:
  "\<exists>s. get_summary sample_ledger ''hyp_1'' = Inr s
      \<and> es_positive_count s + es_negative_count s = es_total_count s
      \<and> bk_observations (es_bkt_state s) = es_total_count s"
  using ledger_summary_sound [OF sample_ledger_reachable, of "''hyp_1''"] by blast

text \<open>
  In every reachable ledger a positive signal of any strength, also a NaN or a value out of range,
  never lowers the confidence of its hypothesis, a negative one never raises it, and neither
  touches another hypothesis. (Below 4/35 a negative signal would raise the confidence,
  because of the learning transition, but no reachable ledger gets there.)
\<close>

theorem evidence_moves_confidence:
  assumes "ledger_reachable l" and "add_evidence l r = Inr l'"
  shows "(if List.member positive_signals (ev_signal_type r)
          then confidence l (ev_hypothesis_id r) \<le> confidence l' (ev_hypothesis_id r)
          else confidence l' (ev_hypothesis_id r) \<le> confidence l (ev_hypothesis_id r))
    \<and> (if h = ev_hypothesis_id r then get_evidence l' h = get_evidence l h @ [r]
       else confidence l' h = confidence l h \<and> get_evidence l' h = get_evidence l h)"
proof -
  have "get_bkt_state l (ev_hypothesis_id r) = replay (get_evidence l (ev_hypothesis_id r))"
    using ledger_reachable_inv [OF assms(1)] by (simp add: ledger_inv_def)
  then have t: "tracked (get_bkt_state l (ev_hypothesis_id r))" by simp
  show ?thesis
    using weighted_range(1,2) [OF t] add_evidence_InrD(2,3) [OF assms(2)]
    by (simp add: confidence_def absorb_def)
qed

lemma evidence_moves_confidence_witness:
  "confidence new_ledger ''hyp_1'' \<le> confidence sample_ledger ''hyp_1''
   \<and> get_evidence sample_ledger ''hyp_1'' = [sample_record ''explicit_confirm'' (PFin 1)]"
  using evidence_moves_confidence [OF ledger_new sample_ledger_add, of "''hyp_1''"]
  by (simp add: sample_record_def positive_signals_def get_evidence_def new_ledger_def)

text \<open>An unknown signal type is refused before anything is stored, and only that is.\<close>

lemma add_evidence_error:
  "is_ok (add_evidence l r) \<longleftrightarrow> ev_signal_type r \<in> set valid_signal_types"
  "add_evidence l r = Inl e \<Longrightarrow> e = UnknownSignalType (ev_signal_type r)"
  by (auto simp: add_evidence_def Let_def is_positive_signal_total split: if_splits)

text \<open>Full-strength signals replay \<open>batch_update_bkt\<close>.\<close>

lemma replay_full_strength:
  assumes "list_all (\<lambda>r. ev_signal_strength r = PFin 1) rs"
  shows "replay rs = batch_update_bkt default_bkt_state (map positive_of rs)"
proof -
  have "foldl absorb s rs = foldl update_bkt s (map positive_of rs)" for s
    using assms
    by (induction rs arbitrary: s)
      (simp_all add: absorb_def update_bkt_weighted_def clamp_weight_cases positive_of_def)
  then show ?thesis by (simp add: replay_def batch_update_bkt_def)
qed

text \<open>A strength that is not a number counts as full strength.\<close>

lemma nan_strength_is_full: "update_bkt_weighted s b PNaN = update_bkt_weighted s b (PFin 1)"
  by (simp add: update_bkt_weighted_def clamp_weight_cases)

text \<open>The window of \<open>get_recent_contradictions\<close> for a positive limit, and for the limit 0.\<close>

lemma recent_window:
  assumes "0 < limit"
  shows "get_recent_contradictions l h limit =
           int (length (filter (\<lambda>r. ev_signal_type r \<in> set negative_signals)
             (drop (length (get_evidence l h) - nat limit) (get_evidence l h))))"
  using assms by (simp add: get_recent_contradictions_def Let_def slice_last_def)

lemma recent_window_zero:
  "get_recent_contradictions l h 0 =
     int (length (filter (\<lambda>r. ev_signal_type r \<in> set negative_signals) (get_evidence l h)))"
  by (simp add: get_recent_contradictions_def Let_def slice_last_def)

end
