(* ===== verification/Fsrs.thy ===== *)
theory Fsrs
  imports Prelude
begin

text \<open>
  \<open>fsrs_decay.py\<close>: the forgetting curve of a hypothesis. Floats are real numbers here and
  \<open>math.pow\<close>, \<open>math.exp\<close> and \<open>math.sqrt\<close> the real functions, so hardware rounding is not modelled.
  \<open>datetime.fromisoformat\<close> is the argument \<open>prs\<close>: \<open>None\<close> for its \<open>ValueError\<close>, otherwise the seconds
  of the time stamp and whether it carries a time zone (subtracting an aware and a naive time is
  a \<open>TypeError\<close>). The JSON text of a review history stands for the list of time stamps in it,
  \<open>None\<close> for a text that is no JSON; this module writes nothing else into the field.
\<close>

type_synonym iso_parser = "string \<Rightarrow> (bool \<times> real) option"

definition fsrs_decay :: real where "fsrs_decay = - (1 / 2)"
definition fsrs_factor :: real where "fsrs_factor = 19 / 81"
definition desired_retention :: real where "desired_retention = 9 / 10"
definition archive_days :: real where "archive_days = 180"

definition default_weights :: "real list" where
  "default_weights =
     [0.212, 1.2931, 2.3065, 8.2956, 6.4133, 0.8334, 3.0194, 0.001, 1.8722, 0.1666, 0.796,
      1.4835, 0.0614, 0.2629, 1.6483, 0.6014, 1.8729, 0.5425, 0.0912, 0.0658, 0.1542]"

abbreviation w :: "nat \<Rightarrow> real" where "w i \<equiv> default_weights ! i"

definition rating_again :: int where "rating_again = 1"
definition rating_hard :: int where "rating_hard = 2"
definition rating_good :: int where "rating_good = 3"
definition rating_easy :: int where "rating_easy = 4"

definition seasonal_cv_threshold :: real where "seasonal_cv_threshold = 0.35"
definition seasonal_stability_boost :: real where "seasonal_stability_boost = 1.5"
definition min_reviews_for_seasonal :: nat where "min_reviews_for_seasonal = 3"

record fsrs_state =
  fs_stability :: real
  fs_difficulty :: real
  fs_last_reviewed :: string
  fs_reps :: int
  fs_lapses :: int
  fs_review_history :: "string list option"

definition default_fsrs_state :: fsrs_state where
  "default_fsrs_state = \<lparr>fs_stability = 2.3065, fs_difficulty = 5, fs_last_reviewed = [],
     fs_reps = 0, fs_lapses = 0, fs_review_history = Some []\<rparr>"

section \<open>Forgetting curve\<close>

definition estimate_recall :: "fsrs_state \<Rightarrow> real \<Rightarrow> real" where
  "estimate_recall state elapsed_days =
     (if elapsed_days \<le> 0 then 1
      else if fs_stability state \<le> 0 then 0
      else max 0 (min 1
        ((1 + fsrs_factor * elapsed_days / fs_stability state) powr fsrs_decay)))"

definition elapsed_days_since :: "iso_parser \<Rightarrow> string \<Rightarrow> string \<Rightarrow> real" where
  "elapsed_days_since prs last_reviewed current_time =
     (if last_reviewed = [] \<or> current_time = [] then 0
      else case (prs last_reviewed, prs current_time) of
             (Some (z1, t1), Some (z2, t2)) \<Rightarrow>
               if z1 \<noteq> z2 then 0 else max 0 ((t2 - t1) / 86400)
           | _ \<Rightarrow> 0)"

definition is_due :: "iso_parser \<Rightarrow> fsrs_state \<Rightarrow> string \<Rightarrow> bool" where
  "is_due prs state current_time =
     (estimate_recall state (elapsed_days_since prs (fs_last_reviewed state) current_time)
        < desired_retention)"

definition is_archive_candidate :: "iso_parser \<Rightarrow> fsrs_state \<Rightarrow> string \<Rightarrow> bool" where
  "is_archive_candidate prs state current_time =
     (let elapsed = elapsed_days_since prs (fs_last_reviewed state) current_time
      in if elapsed < archive_days then False else estimate_recall state elapsed < 0.2)"

section \<open>Updates\<close>

definition initial_stability :: "int \<Rightarrow> real" where
  "initial_stability rating = w (nat (max 0 (min 3 (rating - 1))))"

definition clamp_difficulty :: "real \<Rightarrow> real" where
  "clamp_difficulty d = max 1 (min 10 d)"

definition initial_difficulty :: "int \<Rightarrow> real" where
  "initial_difficulty rating = clamp_difficulty (w 4 - exp (w 5 * real_of_int (rating - 1)) + 1)"

definition next_difficulty :: "real \<Rightarrow> int \<Rightarrow> real" where
  "next_difficulty difficulty rating =
     (let delta_d = - (w 6) * real_of_int (rating - 3);
          linear_damping = (10 - difficulty) * delta_d / 9;
          d_init_easy = initial_difficulty rating_easy
      in clamp_difficulty (w 7 * d_init_easy + (1 - w 7) * (difficulty + linear_damping)))"

definition stability_after_success :: "real \<Rightarrow> real \<Rightarrow> real \<Rightarrow> int \<Rightarrow> real" where
  "stability_after_success stability difficulty retrievability rating =
     (let bonus = (if rating = rating_hard then w 15 else if rating = rating_easy then w 16 else 1);
          s_inc = exp (w 8) * (11 - difficulty) * stability powr (- (w 9))
                    * (exp (w 10 * (1 - retrievability)) - 1) * bonus
      in stability * max 1 s_inc)"

definition stability_after_failure :: "real \<Rightarrow> real \<Rightarrow> real \<Rightarrow> real" where
  "stability_after_failure stability difficulty retrievability =
     (let new_s = w 11 * difficulty powr (- (w 12)) * ((stability + 1) powr (w 13) - 1)
                    * exp (w 14 * (1 - retrievability))
      in max 0.1 (min new_s stability))"

definition keep_last :: "nat \<Rightarrow> 'a list \<Rightarrow> 'a list" where
  "keep_last n xs = drop (length xs - n) xs"

text \<open>The argument \<open>utc_now\<close> is the current time, read when \<open>current_time\<close> is empty.\<close>

definition update_fsrs :: "iso_parser \<Rightarrow> string \<Rightarrow> fsrs_state \<Rightarrow> int \<Rightarrow> string \<Rightarrow> fsrs_state" where
  "update_fsrs prs utc_now state rating0 current_time0 =
     (let rating = max 1 (min 4 rating0);
          current_time = (if current_time0 = [] then utc_now else current_time0);
          elapsed = elapsed_days_since prs (fs_last_reviewed state) current_time;
          retrievability = estimate_recall state elapsed;
          first_review = (fs_reps state = 0 \<and> fs_lapses state = 0 \<and> fs_last_reviewed state = []);
          again = (rating = rating_again);
          new_stability =
            (if first_review then initial_stability rating
             else if again then stability_after_failure (fs_stability state) (fs_difficulty state) retrievability
             else stability_after_success (fs_stability state) (fs_difficulty state) retrievability rating);
          new_difficulty = (if first_review then initial_difficulty rating
                            else next_difficulty (fs_difficulty state) rating);
          new_reps = (if first_review then (if again then 0 else 1)
                      else if again then 0 else fs_reps state + 1);
          new_lapses = (if first_review then (if again then 1 else 0)
                        else if again then fs_lapses state + 1 else fs_lapses state);
          history = (case fs_review_history state of None \<Rightarrow> [] | Some h \<Rightarrow> h) @ [current_time]
      in \<lparr>fs_stability = new_stability, fs_difficulty = new_difficulty,
          fs_last_reviewed = current_time, fs_reps = new_reps, fs_lapses = new_lapses,
          fs_review_history = Some (keep_last 20 history)\<rparr>)"

section \<open>Seasonal patterns\<close>

fun compute_intervals_days :: "iso_parser \<Rightarrow> string list \<Rightarrow> real list" where
  "compute_intervals_days prs (a # b # ts) =
     (let delta = elapsed_days_since prs a b
      in (if 0 < delta then [delta] else []) @ compute_intervals_days prs (b # ts))"
| "compute_intervals_days prs _ = []"

text \<open>\<open>None\<close> is the result \<open>float('inf')\<close>.\<close>

definition coefficient_of_variation :: "real list \<Rightarrow> real option" where
  "coefficient_of_variation values =
     (if values = [] then None
      else
        let n = real (length values); mean = sum_list values / n
        in if mean \<le> 0 then None
           else Some (sqrt (sum_list (map (\<lambda>x. (x - mean)\<^sup>2) values) / n) / mean))"

definition seasonal_detected :: "iso_parser \<Rightarrow> fsrs_state \<Rightarrow> bool" where
  "seasonal_detected prs state =
     (case fs_review_history state of
        None \<Rightarrow> False
      | Some history \<Rightarrow>
          if length history < min_reviews_for_seasonal then False
          else
            let intervals = compute_intervals_days prs history
            in if length intervals < min_reviews_for_seasonal - 1 then False
               else case coefficient_of_variation intervals of
                      None \<Rightarrow> False
                    | Some cv \<Rightarrow> cv < seasonal_cv_threshold)"

definition apply_seasonal_boost :: "iso_parser \<Rightarrow> fsrs_state \<Rightarrow> fsrs_state" where
  "apply_seasonal_boost prs state =
     (if \<not> seasonal_detected prs state then state
      else state\<lparr>fs_stability := fs_stability state * seasonal_stability_boost\<rparr>)"

definition next_review_interval :: "fsrs_state \<Rightarrow> real" where
  "next_review_interval state =
     (if fs_stability state \<le> 0 then 1
      else
        let target_factor = desired_retention powr (1 / fsrs_decay) - 1
        in max 1 ((fs_stability state / fsrs_factor) * target_factor))"

definition create_initial_fsrs_state :: "string \<Rightarrow> int \<Rightarrow> string \<Rightarrow> fsrs_state" where
  "create_initial_fsrs_state utc_now rating current_time0 =
     (let current_time = (if current_time0 = [] then utc_now else current_time0)
      in \<lparr>fs_stability = initial_stability rating, fs_difficulty = initial_difficulty rating,
          fs_last_reviewed = current_time, fs_reps = 0, fs_lapses = 0,
          fs_review_history = Some [current_time]\<rparr>)"

section \<open>The curve\<close>

lemma powr_minus_half: "0 < x \<Longrightarrow> x powr (- (1 / 2)) = 1 / sqrt x" for x :: real
  by (simp add: powr_minus_divide powr_half_sqrt)

definition recall_base :: "fsrs_state \<Rightarrow> real \<Rightarrow> real" where
  "recall_base s t = 1 + fsrs_factor * t / fs_stability s"

lemma recall_base_ge_1: "0 \<le> t \<Longrightarrow> 0 < fs_stability s \<Longrightarrow> 1 \<le> recall_base s t"
  by (simp add: recall_base_def fsrs_factor_def)

lemma recall_eq:
  assumes "0 < t" and "0 < fs_stability s"
  shows "estimate_recall s t = 1 / sqrt (recall_base s t)"
proof -
  have b: "1 \<le> recall_base s t" using recall_base_ge_1 assms by simp
  then have sq: "1 \<le> sqrt (recall_base s t)" by simp
  have "recall_base s t powr fsrs_decay = 1 / sqrt (recall_base s t)"
    using powr_minus_half [of "recall_base s t"] b by (simp add: fsrs_decay_def)
  moreover have "1 / sqrt (recall_base s t) \<le> 1" "0 \<le> 1 / sqrt (recall_base s t)"
    using sq by simp_all
  ultimately have "max 0 (min 1 (recall_base s t powr fsrs_decay)) = 1 / sqrt (recall_base s t)"
    by linarith
  moreover have "estimate_recall s t = max 0 (min 1 (recall_base s t powr fsrs_decay))"
    using assms by (simp add: estimate_recall_def recall_base_def)
  ultimately show ?thesis by (rule trans [rotated])
qed

lemma recall_bounds: "0 \<le> estimate_recall s t" "estimate_recall s t \<le> 1"
  by (simp_all add: estimate_recall_def)

text \<open>When the recall has fallen below \<open>1 / c\<close>.\<close>

lemma recall_below:
  assumes "0 < fs_stability s" and "1 \<le> c"
  shows "estimate_recall s t < 1 / c \<longleftrightarrow> fs_stability s * (c\<^sup>2 - 1) * 81 / 19 < t"
proof (cases "0 < t")
  case True
  let ?b = "recall_base s t"
  have b: "1 \<le> ?b" using recall_base_ge_1 True assms by simp
  then have sq: "0 < sqrt ?b" by simp
  have c: "0 < c" using assms(2) by simp
  have "estimate_recall s t < 1 / c \<longleftrightarrow> c < sqrt ?b"
    unfolding recall_eq [OF True assms(1)] using sq c
    by (simp add: pos_divide_less_eq pos_less_divide_eq mult.commute)
  also have "\<dots> \<longleftrightarrow> sqrt (c\<^sup>2) < sqrt ?b" using c by simp
  also have "\<dots> \<longleftrightarrow> c\<^sup>2 < ?b" by (rule real_sqrt_less_iff)
  also have "\<dots> \<longleftrightarrow> c\<^sup>2 - 1 < 19 * t / (81 * fs_stability s)"
    by (simp add: recall_base_def fsrs_factor_def) linarith
  also have "\<dots> \<longleftrightarrow> fs_stability s * (c\<^sup>2 - 1) * 81 / 19 < t"
    using assms(1) by (simp add: pos_less_divide_eq mult_ac pos_divide_less_eq)
  finally show ?thesis .
next
  case False
  moreover have "0 \<le> fs_stability s * (c\<^sup>2 - 1) * 81 / 19"
    using assms by (simp add: one_le_power)
  moreover from False have "estimate_recall s t = 1" by (simp add: estimate_recall_def)
  moreover have "1 / c \<le> 1" using assms(2) by simp
  ultimately show ?thesis by linarith
qed

lemma max_min_bounds: "lo \<le> hi \<Longrightarrow> lo \<le> max lo (min hi x)" "lo \<le> hi \<Longrightarrow> max lo (min hi x) \<le> hi"
  for lo hi x :: real
  by simp_all

lemma clamp_difficulty_bounds [simp]: "1 \<le> clamp_difficulty d" "clamp_difficulty d \<le> 10"
  by (simp_all add: clamp_difficulty_def)

lemma difficulty_bounds [simp]:
  "1 \<le> initial_difficulty r" "initial_difficulty r \<le> 10"
  "1 \<le> next_difficulty d r" "next_difficulty d r \<le> 10"
  by (simp_all add: initial_difficulty_def next_difficulty_def Let_def)

lemma initial_stability_cases:
  "initial_stability r = (if r \<le> 1 then 0.212 else if r = 2 then 1.2931 else if r = 3 then 2.3065 else 8.2956)"
proof -
  consider "r \<le> 1" | "r = 2" | "r = 3" | "4 \<le> r" by linarith
  then show ?thesis
    by cases (simp_all add: initial_stability_def default_weights_def min_def max_def eval_nat_numeral)
qed

lemma initial_stability_pos: "1 / 10 \<le> initial_stability r"
  by (simp add: initial_stability_cases)

lemma success_keeps_stability: "0 \<le> s \<Longrightarrow> s \<le> stability_after_success s d r g"
  using mult_left_mono [of 1 "max 1 x" s for x] by (simp add: stability_after_success_def Let_def)

lemma failure_bounds:
  "1 / 10 \<le> stability_after_failure s d r" "stability_after_failure s d r \<le> max (1 / 10) s"
  by (simp_all add: stability_after_failure_def Let_def)

lemma length_keep_last: "length (keep_last n xs) \<le> n"
  by (simp add: keep_last_def)

section \<open>The state over time\<close>

inductive fsrs_reachable :: "iso_parser \<Rightarrow> fsrs_state \<Rightarrow> bool" for prs where
  fsrs_default: "fsrs_reachable prs default_fsrs_state"
| fsrs_initial: "fsrs_reachable prs (create_initial_fsrs_state now r t)"
| fsrs_update: "fsrs_reachable prs s \<Longrightarrow> fsrs_reachable prs (update_fsrs prs now s r t)"
| fsrs_boost: "fsrs_reachable prs s \<Longrightarrow> fsrs_reachable prs (apply_seasonal_boost prs s)"

definition fsrs_inv :: "fsrs_state \<Rightarrow> bool" where
  "fsrs_inv s \<longleftrightarrow> 1 / 10 \<le> fs_stability s \<and> 1 \<le> fs_difficulty s \<and> fs_difficulty s \<le> 10
     \<and> 0 \<le> fs_reps s \<and> 0 \<le> fs_lapses s
     \<and> (\<exists>h. fs_review_history s = Some h \<and> length h \<le> 20)"

lemma update_stability:
  assumes "1 / 10 \<le> fs_stability s"
  shows "1 / 10 \<le> fs_stability (update_fsrs prs now s r t)"
  using assms initial_stability_pos failure_bounds(1) success_keeps_stability [of "fs_stability s"]
    order_trans [OF assms success_keeps_stability]
  by (simp add: update_fsrs_def Let_def)

lemma fsrs_inv_update: "fsrs_inv s \<Longrightarrow> fsrs_inv (update_fsrs prs now s r t)"
  using update_stability [of s prs now r t] length_keep_last
  by (auto simp: fsrs_inv_def update_fsrs_def Let_def)

lemma fsrs_reachable_inv: "fsrs_reachable prs s \<Longrightarrow> fsrs_inv s"
proof (induction rule: fsrs_reachable.induct)
  case fsrs_default
  then show ?case by (simp add: fsrs_inv_def default_fsrs_state_def)
next
  case (fsrs_initial now r t)
  then show ?case
    using initial_stability_pos by (simp add: fsrs_inv_def create_initial_fsrs_state_def Let_def)
next
  case (fsrs_update s now r t)
  then show ?case by (simp add: fsrs_inv_update)
next
  case (fsrs_boost s)
  then show ?case
    by (auto simp: apply_seasonal_boost_def fsrs_inv_def seasonal_stability_boost_def)
qed

section \<open>Properties\<close>

text \<open>
  In every state that creation, reviews and boosts lead to, the stability is at least a tenth of a day, the
  difficulty between 1 and 10, the history holds at most 20 reviews and the recall is a
  probability; a review that is not a failure never lowers the stability, and a failure never
  raises it above the larger of its old value and a tenth of a day.
\<close>

theorem fsrs_state_bounds:
  assumes "fsrs_reachable prs s"
  shows "fsrs_inv s \<and> 0 \<le> estimate_recall s t \<and> estimate_recall s t \<le> 1
    \<and> (fs_last_reviewed s = [] \<or>
       (if 2 \<le> r then fs_stability s \<le> fs_stability (update_fsrs prs now s r cur)
        else fs_stability (update_fsrs prs now s r cur) \<le> max (1 / 10) (fs_stability s)))"
proof -
  have inv: "fsrs_inv s" using assms by (rule fsrs_reachable_inv)
  then have pos: "0 \<le> fs_stability s" by (simp add: fsrs_inv_def)
  have r: "max 1 (min 4 r) = 1 \<longleftrightarrow> \<not> 2 \<le> r" by linarith
  show ?thesis
    using inv recall_bounds success_keeps_stability [OF pos] failure_bounds(2)
    by (auto simp: update_fsrs_def Let_def rating_again_def r)
qed

lemma fsrs_state_bounds_witness:
  "fs_stability (create_initial_fsrs_state ''now'' 3 []) \<le>
     fs_stability (update_fsrs (\<lambda>_. None) ''now'' (create_initial_fsrs_state ''now'' 3 []) 3 [])"
  using fsrs_state_bounds [OF fsrs_initial, where r = 3 and prs = "\<lambda>_. None" and now = "''now''"
      and cur = "[]", of "''now''" 3 "[]"]
  by (auto simp: create_initial_fsrs_state_def Let_def)

lemma archive_condition:
  assumes "0 < fs_stability s"
  shows "is_archive_candidate prs s now \<longleftrightarrow>
    180 \<le> elapsed_days_since prs (fs_last_reviewed s) now
    \<and> 1944 / 19 * fs_stability s < elapsed_days_since prs (fs_last_reviewed s) now"
proof -
  have "estimate_recall s t < 1 / 5 \<longleftrightarrow> 1944 / 19 * fs_stability s < t" for t
    using recall_below [OF assms, of 5 t] by (simp add: power2_eq_square mult.commute)
  then show ?thesis by (auto simp: is_archive_candidate_def archive_days_def Let_def)
qed

text \<open>
  The schedule. A hypothesis is due exactly when more days have passed than its stability, the next
  review is planned after that time (one day at least), and it is a candidate for the archive
  exactly when both 180 days and about 102.3 times its stability have passed.
\<close>

theorem fsrs_schedule:
  fixes prs :: iso_parser and now :: string
  assumes "0 < fs_stability s"
  defines "elapsed \<equiv> elapsed_days_since prs (fs_last_reviewed s) now"
  shows "(is_due prs s now \<longleftrightarrow> fs_stability s < elapsed)
    \<and> next_review_interval s = max 1 (fs_stability s)
    \<and> (is_archive_candidate prs s now \<longleftrightarrow> 180 \<le> elapsed \<and> 1944 / 19 * fs_stability s < elapsed)"
proof (intro conjI)
  have due: "estimate_recall s elapsed < 1 / (10 / 9) \<longleftrightarrow> fs_stability s < elapsed"
    using recall_below [OF assms(1), of "10 / 9" elapsed] by (simp add: power2_eq_square)
  then show "is_due prs s now \<longleftrightarrow> fs_stability s < elapsed"
    by (simp add: is_due_def desired_retention_def elapsed_def)
  show "is_archive_candidate prs s now \<longleftrightarrow> 180 \<le> elapsed \<and> 1944 / 19 * fs_stability s < elapsed"
    unfolding elapsed_def by (rule archive_condition [OF assms(1)])
  have p: "desired_retention powr (1 / fsrs_decay) = 100 / 81"
    by (simp add: desired_retention_def fsrs_decay_def powr_minus_divide powr_numeral power2_eq_square)
  have "fs_stability s / fsrs_factor * (100 / 81 - 1) = fs_stability s"
    by (simp add: fsrs_factor_def)
  then show "next_review_interval s = max 1 (fs_stability s)"
    using assms(1) by (simp only: next_review_interval_def p Let_def) simp
qed

lemma fsrs_schedule_witness:
  "next_review_interval (create_initial_fsrs_state ''now'' 4 []) = 8.2956"
  using fsrs_schedule [of "create_initial_fsrs_state ''now'' 4 []"]
  by (simp add: create_initial_fsrs_state_def Let_def initial_stability_cases)

text \<open>With the stability of a good first rating, 200 days are not enough for the archive.\<close>

lemma archive_needs_more_than_180_days:
  assumes "fs_stability s = 2.3065" and "elapsed_days_since prs (fs_last_reviewed s) now = 200"
  shows "\<not> is_archive_candidate prs s now"
  using archive_condition [of s prs now] assms by simp

end
