(* ===== verification/HypothesisGuarantees.thy ===== *)
theory HypothesisGuarantees
  imports HypothesisStorage
begin

text \<open>
  What the hypothesis tables guarantee: keys and references stay intact and every row can be
  read back, the validated status changes follow the transition table, a new version keeps the
  old one in the history, and what a tombstone blocks.
\<close>

section \<open>Reads after writes\<close>

lemma find_map_key:
  assumes "\<And>r. k (f r) = k r"
  shows "find (\<lambda>r. k r = i) (map (\<lambda>r. if k r = j then f r else r) xs) =
           (if i = j then map_option f (find (\<lambda>r. k r = i) xs) else find (\<lambda>r. k r = i) xs)"
  using assms by (induction xs) auto

lemma find_append: "find P (xs @ ys) = (case find P xs of None \<Rightarrow> find P ys | Some x \<Rightarrow> Some x)"
  by (induction xs) auto

lemma exists_iff_find: "hypothesis_exists db i \<longleftrightarrow> hypothesis_row_by_id db i \<noteq> None"
  by (auto simp: hypothesis_exists_def hypothesis_row_by_id_def list_ex_iff find_None_all)

lemma row_by_id_update:
  assumes "\<And>r. hr_hypothesis_id (f r) = hr_hypothesis_id r"
  shows "hypothesis_row_by_id (update_rows j f db) i =
           (if i = j then map_option f (hypothesis_row_by_id db i) else hypothesis_row_by_id db i)"
  using find_map_key [where k = hr_hypothesis_id and f = f, OF assms]
  by (simp add: hypothesis_row_by_id_def update_rows_def)

lemma set_status_fields [simp]:
  "hr_hypothesis_id (set_status s r) = hr_hypothesis_id r"
  "hr_status (set_status s r) = s"
  "hr_elo_rating (set_status s r) = hr_elo_rating r"
  "hr_bayes_confidence (set_status s r) = hr_bayes_confidence r"
  "hr_version (set_status s r) = hr_version r"
  by (simp_all add: set_status_def)

lemma new_version_row_fields [simp]:
  "hr_hypothesis_id (new_version_row c v t r) = hr_hypothesis_id r"
  "hr_elo_rating (new_version_row c v t r) = PFin 1500"
  "hr_bayes_confidence (new_version_row c v t r) = PFin (1 / 2)"
  "hr_version (new_version_row c v t r) = v"
  "hr_status (new_version_row c v t r) = ''suggested''"
  by (simp_all add: new_version_row_def)

lemma row_by_id_insert:
  assumes "insert_hypothesis db h = Inr db'"
  shows "hypothesis_row_by_id db' i =
           (if i = h_hypothesis_id h then Some (hypothesis_to_row h) else hypothesis_row_by_id db i)"
    and "\<not> hypothesis_exists db (h_hypothesis_id h)"
  using assms exists_iff_find [of db "h_hypothesis_id h"]
  by (auto simp: insert_hypothesis_def hypothesis_row_by_id_def find_append hypothesis_to_row_def
      split: if_splits option.split)

lemma row_to_hypothesis_fields:
  assumes "row_to_hypothesis r = Inr h"
  shows "h_hypothesis_id h = hr_hypothesis_id r" "h_status h = hr_status r"
    "h_version h = hr_version r" "h_claim h = hr_claim r" "h_elo_rating h = hr_elo_rating r"
    "h_user_id h = hr_user_id r" "h_created_at h = hr_created_at r"
  using assms by (auto simp: row_to_hypothesis_def bind_res_eq_Inr)

lemma get_hypothesis_Some:
  "get_hypothesis db i = Inr (Some h) \<longleftrightarrow>
     (\<exists>r. hypothesis_row_by_id db i = Some r \<and> row_to_hypothesis r = Inr h)"
  by (auto simp: get_hypothesis_def bind_res_eq_Inr split: option.split)

lemma get_hypothesis_None:
  "get_hypothesis db i = Inr None \<longleftrightarrow> hypothesis_row_by_id db i = None"
  by (auto simp: get_hypothesis_def bind_res_eq_Inr split: option.split)

text \<open>
  What is inserted is read back, except for the evidence ids, which no column holds.
\<close>

lemma insert_then_get:
  assumes "insert_hypothesis db h = Inr db'"
  shows "get_hypothesis db' (h_hypothesis_id h) = Inr (Some (h\<lparr>h_evidence_ids := []\<rparr>))"
  using row_by_id_insert [OF assms] by (simp add: get_hypothesis_def)

section \<open>The invariant of the tables\<close>

definition readable_row :: "hypothesis_row \<Rightarrow> bool" where
  "readable_row r = is_ok (row_to_hypothesis r)"

definition same_ids :: "hypothesis_db \<Rightarrow> hypothesis_db \<Rightarrow> bool" where
  "same_ids db db' \<longleftrightarrow> map hr_hypothesis_id (db_hypotheses db') = map hr_hypothesis_id (db_hypotheses db)"

definition references :: "hypothesis_db \<Rightarrow> string list" where
  "references db = map al_hypothesis_id (db_aliases db) @ map er_hypothesis_id (db_evidence db)
     @ map vr_hypothesis_id (db_versions db) @ map el_hypothesis_id (db_eval_set db)"

definition hypothesis_inv :: "hypothesis_db \<Rightarrow> bool" where
  "hypothesis_inv db \<longleftrightarrow>
     distinct (map hr_hypothesis_id (db_hypotheses db))
     \<and> distinct (map al_alias_id (db_aliases db)) \<and> distinct (map er_evidence_id (db_evidence db))
     \<and> distinct (map vr_version_id (db_versions db))
     \<and> distinct (map ts_tombstone_id (db_tombstones db))
     \<and> distinct (map el_eval_id (db_eval_set db))
     \<and> distinct (map df_fingerprint_hash (db_difficulty db))
     \<and> set (references db) \<subseteq> set (map hr_hypothesis_id (db_hypotheses db))
     \<and> (\<forall>r \<in> set (db_hypotheses db). readable_row r
          \<and> hr_elo_rating r \<noteq> PNaN \<and> hr_bayes_confidence r \<noteq> PNaN)"

lemma exists_iff_mem:
  "hypothesis_exists db i \<longleftrightarrow> i \<in> set (map hr_hypothesis_id (db_hypotheses db))"
  by (auto simp: hypothesis_exists_def list_ex_iff)

text \<open>Operations that rewrite single rows keep the invariant.\<close>

lemma update_rows_other [simp]:
  "db_aliases (update_rows i f db) = db_aliases db"
  "db_evidence (update_rows i f db) = db_evidence db"
  "db_versions (update_rows i f db) = db_versions db"
  "db_tombstones (update_rows i f db) = db_tombstones db"
  "db_eval_set (update_rows i f db) = db_eval_set db"
  "db_difficulty (update_rows i f db) = db_difficulty db"
  "references (update_rows i f db) = references db"
  by (simp_all add: update_rows_def references_def)

lemma inv_update_rows:
  assumes "hypothesis_inv db" and id: "\<And>r. hr_hypothesis_id (f r) = hr_hypothesis_id r"
    and ok: "\<And>r. r \<in> set (db_hypotheses db) \<Longrightarrow> hr_hypothesis_id r = i \<Longrightarrow>
               readable_row (f r) \<and> hr_elo_rating (f r) \<noteq> PNaN \<and> hr_bayes_confidence (f r) \<noteq> PNaN"
  shows "hypothesis_inv (update_rows i f db)"
proof -
  have ids: "map hr_hypothesis_id (db_hypotheses (update_rows i f db)) =
               map hr_hypothesis_id (db_hypotheses db)"
    by (auto simp: update_rows_def id)
  have rows: "\<forall>r \<in> set (db_hypotheses (update_rows i f db)).
      readable_row r \<and> hr_elo_rating r \<noteq> PNaN \<and> hr_bayes_confidence r \<noteq> PNaN"
    using assms(1) ok by (auto simp: update_rows_def hypothesis_inv_def)
  show ?thesis
    using assms(1) rows unfolding hypothesis_inv_def ids update_rows_other by blast
qed

lemma readable_row_scope:
  "hr_scope_json r' = hr_scope_json r \<Longrightarrow> readable_row r' = readable_row r"
  by (simp add: readable_row_def row_to_hypothesis_def bind_res_def split: sum.split)

lemma inv_row: "hypothesis_inv db \<Longrightarrow> r \<in> set (db_hypotheses db) \<Longrightarrow>
    readable_row r \<and> hr_elo_rating r \<noteq> PNaN \<and> hr_bayes_confidence r \<noteq> PNaN"
  by (simp add: hypothesis_inv_def)

lemma readable_updates [simp]:
  "readable_row (set_status s r) = readable_row r"
  "readable_row (new_version_row c v t r) = readable_row r"
  by (rule readable_row_scope, simp add: set_status_def new_version_row_def)+

lemma inv_set_status:
  assumes "hypothesis_inv db"
  shows "hypothesis_inv (update_rows i (set_status s) db)"
  using inv_row [OF assms] by (intro inv_update_rows [OF assms]) simp_all

lemma inv_transition:
  "hypothesis_inv db \<Longrightarrow> transition_hypothesis_status db i s force = Inr db' \<Longrightarrow> hypothesis_inv db'"
  by (auto simp: transition_hypothesis_status_def bind_res_eq_Inr inv_set_status
      split: if_splits option.splits)

lemma inv_new_version_row:
  assumes "hypothesis_inv db"
  shows "hypothesis_inv (update_rows i (new_version_row c v t) db)"
  using inv_row [OF assms] by (intro inv_update_rows [OF assms]) simp_all

lemma inv_update_elo:
  "hypothesis_inv db \<Longrightarrow> update_hypothesis_elo db i e n = Inr db' \<Longrightarrow> hypothesis_inv db'"
proof -
  assume inv: "hypothesis_inv db" and u: "update_hypothesis_elo db i e n = Inr db'"
  let ?f = "\<lambda>r. r\<lparr>hr_elo_rating := e, hr_elo_games_played := hr_elo_games_played r + n\<rparr>"
  have db': "db' = update_rows i ?f db" and nan: "hypothesis_exists db i \<Longrightarrow> e \<noteq> PNaN"
    using u by (auto simp: update_hypothesis_elo_def not_nan_def split: if_splits)
  show "hypothesis_inv db'"
    unfolding db'
  proof (rule inv_update_rows [OF inv])
    fix r
    assume r: "r \<in> set (db_hypotheses db)" "hr_hypothesis_id r = i"
    then have "e \<noteq> PNaN" using nan by (auto simp: exists_iff_mem)
    then show "readable_row (?f r) \<and> hr_elo_rating (?f r) \<noteq> PNaN \<and> hr_bayes_confidence (?f r) \<noteq> PNaN"
      using inv_row [OF inv r(1)] readable_row_scope [of "?f r" r] by simp
  qed simp
qed

lemma inv_insert_hypothesis:
  assumes "hypothesis_inv db" and "insert_hypothesis db h = Inr db'"
  shows "hypothesis_inv db'"
proof -
  have db': "db' = db\<lparr>db_hypotheses := db_hypotheses db @ [hypothesis_to_row h]\<rparr>"
    and ok: "h_elo_rating h \<noteq> PNaN" "h_bayes_confidence h \<noteq> PNaN"
      "\<not> hypothesis_exists db (h_hypothesis_id h)"
    using assms(2) by (auto simp: insert_hypothesis_def not_nan_def split: if_splits)
  have "readable_row (hypothesis_to_row h)" by (simp add: readable_row_def)
  then show ?thesis
    using assms(1) ok unfolding db'
    by (auto simp: hypothesis_inv_def references_def exists_iff_mem hypothesis_to_row_def)
qed

text \<open>Inserts into the other tables, and the updates of counters and times.\<close>

lemma inv_insert_evidence:
  "hypothesis_inv db \<Longrightarrow> insert_evidence db e = Inr db' \<Longrightarrow> hypothesis_inv db'"
  by (auto simp: hypothesis_inv_def insert_evidence_def references_def exists_iff_mem list_ex_iff
      image_subset_iff split: if_splits; blast)

lemma inv_insert_alias:
  "hypothesis_inv db \<Longrightarrow> insert_alias db a = Inr db' \<Longrightarrow> hypothesis_inv db'"
  by (auto simp: hypothesis_inv_def insert_alias_def references_def exists_iff_mem list_ex_iff
      image_subset_iff split: if_splits; blast)

lemma inv_insert_version:
  "hypothesis_inv db \<Longrightarrow> insert_version db v = Inr db' \<Longrightarrow> hypothesis_inv db'"
  by (auto simp: hypothesis_inv_def insert_version_def references_def exists_iff_mem list_ex_iff
      image_subset_iff split: if_splits; blast)

lemma inv_insert_eval_example:
  "hypothesis_inv db \<Longrightarrow> insert_eval_example db x1 x2 x3 x4 = Inr db' \<Longrightarrow> hypothesis_inv db'"
  by (auto simp: hypothesis_inv_def insert_eval_example_def references_def exists_iff_mem list_ex_iff
      image_subset_iff split: if_splits; blast)

lemma inv_insert_tombstone:
  "hypothesis_inv db \<Longrightarrow> insert_tombstone db t1 t2 t3 t4 t5 t6 t7 = Inr db' \<Longrightarrow> hypothesis_inv db'"
  by (auto simp: hypothesis_inv_def insert_tombstone_def references_def exists_iff_mem list_ex_iff
      image_subset_iff split: if_splits; blast)

lemma references_difficulty [simp]: "references (db\<lparr>db_difficulty := x\<rparr>) = references db"
  by (simp add: references_def)

lemma inv_difficulty:
  assumes "hypothesis_inv db" and "upsert_pattern_difficulty db k d n t = Inr db'"
  shows "hypothesis_inv db'"
proof -
  have "db_difficulty db' = filter (\<lambda>x. df_fingerprint_hash x \<noteq> k) (db_difficulty db) @
      [\<lparr>df_fingerprint_hash = k, df_difficulty_rating = (if not_nan d then d else PFin 1500),
        df_games_played = n, df_last_updated = t\<rparr>]"
    and db': "db' = db\<lparr>db_difficulty := db_difficulty db'\<rparr>"
    using assms(2) by (auto simp: upsert_pattern_difficulty_def Let_def)
  moreover have "distinct (map df_fingerprint_hash (db_difficulty db))"
    using assms(1) by (simp add: hypothesis_inv_def)
  ultimately have "distinct (map df_fingerprint_hash (db_difficulty db'))"
    by (auto simp: distinct_map_filter_key)
  then show ?thesis
    using assms(1) by (subst db') (simp add: hypothesis_inv_def)
qed

lemma readable_counters [simp]:
  "readable_row (r\<lparr>hr_support_count := a, hr_contradict_count := b, hr_last_seen := c,
                 hr_last_contradiction_at := d\<rparr>) = readable_row r"
  "readable_row (r\<lparr>hr_last_applied := e\<rparr>) = readable_row r"
  by (rule readable_row_scope, simp)+

lemma inv_support:
  assumes "hypothesis_inv db"
  shows "hypothesis_inv (update_hypothesis_support db i a b c d)"
  unfolding update_hypothesis_support_def
  using inv_row [OF assms] by (intro inv_update_rows [OF assms]) simp_all

lemma inv_last_applied:
  assumes "hypothesis_inv db"
  shows "hypothesis_inv (update_hypothesis_last_applied db i t)"
  unfolding update_hypothesis_last_applied_def
  using inv_row [OF assms] by (intro inv_update_rows [OF assms]) simp_all

lemma map_where_same:
  "(\<And>v. f (g v) = f v) \<Longrightarrow> map f (map (\<lambda>v. if P v then g v else v) vs) = map f vs"
  by (induction vs) auto

lemma mark_deprecated_tables [simp]:
  "map vr_version_id (db_versions (mark_deprecated t k db)) = map vr_version_id (db_versions db)"
  "map vr_hypothesis_id (db_versions (mark_deprecated t k db)) = map vr_hypothesis_id (db_versions db)"
  "db_hypotheses (mark_deprecated t k db) = db_hypotheses db"
  "db_aliases (mark_deprecated t k db) = db_aliases db"
  "db_evidence (mark_deprecated t k db) = db_evidence db"
  "db_tombstones (mark_deprecated t k db) = db_tombstones db"
  "db_eval_set (mark_deprecated t k db) = db_eval_set db"
  "db_difficulty (mark_deprecated t k db) = db_difficulty db"
  using map_where_same [of vr_version_id] map_where_same [of vr_hypothesis_id]
  by (auto simp: mark_deprecated_def comp_def)

lemma inv_mark_deprecated:
  assumes "hypothesis_inv db"
  shows "hypothesis_inv (mark_deprecated t k db)"
  using assms unfolding hypothesis_inv_def references_def mark_deprecated_tables .

lemma row_after_version:
  assumes "insert_version db v = Inr db1"
  shows "hypothesis_row_by_id (mark_deprecated t k db1) i = hypothesis_row_by_id db i"
  using assms by (auto simp: insert_version_def hypothesis_row_by_id_def split: if_splits)

lemma create_new_version_None:
  assumes "create_new_version fmt1 vid now db i claim reason pc = Inr (db', None)"
  shows "db' = db \<and> hypothesis_row_by_id db i = None"
proof (cases "hypothesis_row_by_id db i")
  case None
  then show ?thesis using assms by (simp add: create_new_version_def get_hypothesis_def)
next
  case (Some r)
  with assms obtain current where "get_hypothesis db i = Inr (Some current)"
    by (auto simp: create_new_version_def get_hypothesis_def bind_res_eq_Inr)
  with assms obtain v db1 n where "insert_version db v = Inr db1"
      "hypothesis_row_by_id (update_rows i (new_version_row claim n now) (mark_deprecated now vid db1)) i = None"
    by (auto simp: create_new_version_def bind_res_eq_Inr Let_def get_hypothesis_None)
  with Some show ?thesis by (simp add: row_by_id_update row_after_version)
qed

text \<open>What a successful \<open>create_new_version\<close> of an existing hypothesis does, in one equation.\<close>

lemma create_new_version_InrD:
  assumes "create_new_version fmt1 vid now db i claim reason pc = Inr (db', Some h)"
  shows "\<exists>r current db1. hypothesis_row_by_id db i = Some r \<and> row_to_hypothesis r = Inr current
    \<and> insert_version db
        \<lparr>vr_version_id = vid, vr_hypothesis_id = i, vr_version = h_version current,
         vr_claim = h_claim current, vr_elo_rating_at_save = h_elo_rating current,
         vr_change_reason = Some reason,
         vr_predecessor_context =
           Some (case pc of None \<Rightarrow> predecessor_text fmt1 current | Some p \<Rightarrow> p),
         vr_created_at = h_created_at current, vr_deprecated_at = None\<rparr> = Inr db1
    \<and> db' = update_rows i (new_version_row claim (hr_version r + 1) now) (mark_deprecated now vid db1)
    \<and> row_to_hypothesis (new_version_row claim (hr_version r + 1) now r) = Inr h"
proof -
  obtain found where f: "get_hypothesis db i = Inr found"
    using assms by (auto simp: create_new_version_def bind_res_eq_Inr)
  with assms obtain current where current: "found = Some current"
    by (cases found) (auto simp: create_new_version_def)
  with f obtain r where r: "hypothesis_row_by_id db i = Some r" "row_to_hypothesis r = Inr current"
    by (auto simp: get_hypothesis_Some)
  let ?v = "\<lparr>vr_version_id = vid, vr_hypothesis_id = i, vr_version = h_version current,
         vr_claim = h_claim current, vr_elo_rating_at_save = h_elo_rating current,
         vr_change_reason = Some reason,
         vr_predecessor_context =
           Some (case pc of None \<Rightarrow> predecessor_text fmt1 current | Some p \<Rightarrow> p),
         vr_created_at = h_created_at current, vr_deprecated_at = None\<rparr>"
  obtain db1 where db1: "insert_version db ?v = Inr db1"
      and db': "db' = update_rows i (new_version_row claim (h_version current + 1) now)
                        (mark_deprecated now vid db1)"
      and h: "get_hypothesis db' i = Inr (Some h)"
    using assms f current by (auto simp: create_new_version_def bind_res_eq_Inr Let_def)
  have v: "h_version current = hr_version r" using row_to_hypothesis_fields(3) [OF r(2)] .
  have "hypothesis_row_by_id (mark_deprecated now vid db1) i = Some r"
    using r(1) row_after_version [OF db1] by simp
  then have "hypothesis_row_by_id db' i = Some (new_version_row claim (hr_version r + 1) now r)"
    unfolding db' v by (simp add: row_by_id_update)
  with h have "row_to_hypothesis (new_version_row claim (hr_version r + 1) now r) = Inr h"
    by (simp add: get_hypothesis_Some)
  with r db1 v show ?thesis
    by (intro exI [of _ r] exI [of _ current] exI [of _ db1]) (simp only: db' v simp_thms)
qed

lemma inv_create_new_version:
  assumes "hypothesis_inv db"
    and "create_new_version fmt1 vid now db i claim reason pc = Inr (db', Some h)"
  shows "hypothesis_inv db'"
  using create_new_version_InrD [OF assms(2)]
  by (auto intro!: inv_new_version_row inv_mark_deprecated dest: inv_insert_version [OF assms(1)])

section \<open>The tables over time\<close>

text \<open>
  One step per public operation that writes. \<open>whole\<close> says that version rows are written by calls of
  \<open>create_new_version\<close> that run to their end without another write in between, which is how the
  program writes them. Without it, \<open>insert_version\<close> is also called directly with any row, and the three
  statements of \<open>create_new_version\<close> are steps of their own, on whatever the tables have become since
  its first read: it may stop after any of them or be interleaved with other writes.
\<close>

inductive hypothesis_step :: "bool \<Rightarrow> hypothesis_db \<Rightarrow> hypothesis_db \<Rightarrow> bool" for whole :: bool where
  step_insert: "insert_hypothesis db h = Inr db' \<Longrightarrow> hypothesis_step whole db db'"
| step_transition:
    "transition_hypothesis_status db i s force = Inr db' \<Longrightarrow> hypothesis_step whole db db'"
| step_status: "hypothesis_step whole db (update_hypothesis_status db i s)"
| step_elo: "update_hypothesis_elo db i e n = Inr db' \<Longrightarrow> hypothesis_step whole db db'"
| step_support: "hypothesis_step whole db (update_hypothesis_support db i a b c d)"
| step_last_applied: "hypothesis_step whole db (update_hypothesis_last_applied db i t)"
| step_evidence: "insert_evidence db e = Inr db' \<Longrightarrow> hypothesis_step whole db db'"
| step_alias: "insert_alias db a = Inr db' \<Longrightarrow> hypothesis_step whole db db'"
| step_eval: "insert_eval_example db x1 x2 x3 x4 = Inr db' \<Longrightarrow> hypothesis_step whole db db'"
| step_tombstone: "insert_tombstone db t1 t2 t3 t4 t5 t6 t7 = Inr db' \<Longrightarrow> hypothesis_step whole db db'"
| step_difficulty: "upsert_pattern_difficulty db k d n t = Inr db' \<Longrightarrow> hypothesis_step whole db db'"
| step_version:
    "create_new_version fmt1 vid now db i claim reason pc = Inr (db', h) \<Longrightarrow> hypothesis_step whole db db'"
| step_insert_version: "\<not> whole \<Longrightarrow> insert_version db v = Inr db' \<Longrightarrow> hypothesis_step whole db db'"
| step_mark_deprecated: "\<not> whole \<Longrightarrow> hypothesis_step whole db (mark_deprecated now vid db)"
| step_new_version_row: "\<not> whole \<Longrightarrow> hypothesis_step whole db (update_rows i (new_version_row claim v now) db)"

definition hypothesis_reachable :: "bool \<Rightarrow> hypothesis_db \<Rightarrow> bool" where
  "hypothesis_reachable whole db = (hypothesis_step whole)\<^sup>*\<^sup>* init_schema db"

lemma hypothesis_inv_init: "hypothesis_inv init_schema"
  by (simp add: hypothesis_inv_def init_schema_def references_def)

lemma hypothesis_inv_step: "hypothesis_step whole db db' \<Longrightarrow> hypothesis_inv db \<Longrightarrow> hypothesis_inv db'"
proof (induction rule: hypothesis_step.induct)
  case (step_version fmt1 vid now db i claim reason pc db' h)
  then show ?case
    using inv_create_new_version create_new_version_None by (cases h) blast+
qed (auto simp: update_hypothesis_status_def
    intro: inv_insert_hypothesis inv_transition inv_set_status inv_update_elo inv_support
      inv_last_applied inv_insert_evidence inv_insert_alias inv_insert_eval_example
      inv_insert_tombstone inv_difficulty inv_insert_version inv_mark_deprecated inv_new_version_row)

lemma hypothesis_reachable_inv: "hypothesis_reachable whole db \<Longrightarrow> hypothesis_inv db"
  unfolding hypothesis_reachable_def
  by (induction rule: rtranclp_induct) (auto intro: hypothesis_inv_init hypothesis_inv_step)

section \<open>Version history\<close>

text \<open>Every archived version is older than the current one, closed, and a number occurs once.\<close>

definition history_inv :: "hypothesis_db \<Rightarrow> bool" where
  "history_inv db \<longleftrightarrow>
     (\<forall>v \<in> set (db_versions db). vr_deprecated_at v \<noteq> None \<and>
        (\<exists>r. hypothesis_row_by_id db (vr_hypothesis_id v) = Some r \<and> vr_version v < hr_version r))
     \<and> distinct (map (\<lambda>v. (vr_hypothesis_id v, vr_version v)) (db_versions db))"

lemma history_inv_keep:
  assumes "history_inv db" and "db_versions db' = db_versions db"
    and keep: "\<And>i r. hypothesis_row_by_id db i = Some r \<Longrightarrow>
           \<exists>r'. hypothesis_row_by_id db' i = Some r' \<and> hr_version r' = hr_version r"
  shows "history_inv db'"
  using assms(1) keep unfolding history_inv_def assms(2) by metis

lemma history_update_rows:
  assumes "history_inv db" and "\<And>r. hr_hypothesis_id (f r) = hr_hypothesis_id r"
    and "\<And>r. hr_version (f r) = hr_version r"
  shows "history_inv (update_rows i f db)"
  using assms(3) by (intro history_inv_keep [OF assms(1)]) (auto simp: row_by_id_update [OF assms(2)])

lemma history_same_hypotheses:
  "history_inv db \<Longrightarrow> db_versions db' = db_versions db \<Longrightarrow> db_hypotheses db' = db_hypotheses db
     \<Longrightarrow> history_inv db'"
  by (rule history_inv_keep) (auto simp: hypothesis_row_by_id_def)

lemma history_insert:
  assumes "history_inv db" and "insert_hypothesis db h = Inr db'"
  shows "history_inv db'"
proof (rule history_inv_keep [OF assms(1)])
  show "db_versions db' = db_versions db"
    using assms(2) by (auto simp: insert_hypothesis_def split: if_splits)
  fix i r
  assume "hypothesis_row_by_id db i = Some r"
  then show "\<exists>r'. hypothesis_row_by_id db' i = Some r' \<and> hr_version r' = hr_version r"
    using row_by_id_insert [OF assms(2)] exists_iff_find [of db "h_hypothesis_id h"] by auto
qed

lemma history_transition:
  assumes "history_inv db" and "transition_hypothesis_status db i s force = Inr db'"
  shows "history_inv db'"
  using assms(2) history_update_rows [OF assms(1), of "set_status s"]
  by (auto simp: transition_hypothesis_status_def bind_res_eq_Inr split: if_splits option.splits)

lemma deprecated_versions:
  assumes "\<forall>v \<in> set vs. vr_version_id v \<noteq> k" and "vr_version_id new = k"
  shows "map (\<lambda>v. if vr_version_id v = k then v\<lparr>vr_deprecated_at := Some t\<rparr> else v) (vs @ [new]) =
           vs @ [new\<lparr>vr_deprecated_at := Some t\<rparr>]"
  using assms by (induction vs) auto

lemma create_new_version_tables:
  assumes "create_new_version fmt1 vid now db i claim reason pc = Inr (db', Some h)"
  shows "\<exists>r v. hypothesis_row_by_id db i = Some r
    \<and> db_versions db' = db_versions db @ [v]
    \<and> vr_hypothesis_id v = i \<and> vr_version v = hr_version r \<and> vr_claim v = hr_claim r
    \<and> vr_elo_rating_at_save v = hr_elo_rating r \<and> vr_deprecated_at v = Some now
    \<and> (\<forall>j. hypothesis_row_by_id db' j =
          (if j = i then Some (new_version_row claim (hr_version r + 1) now r)
           else hypothesis_row_by_id db j))
    \<and> row_to_hypothesis (new_version_row claim (hr_version r + 1) now r) = Inr h"
proof -
  obtain r current db1 where r: "hypothesis_row_by_id db i = Some r" "row_to_hypothesis r = Inr current"
    and db1: "insert_version db
        \<lparr>vr_version_id = vid, vr_hypothesis_id = i, vr_version = h_version current,
         vr_claim = h_claim current, vr_elo_rating_at_save = h_elo_rating current,
         vr_change_reason = Some reason,
         vr_predecessor_context =
           Some (case pc of None \<Rightarrow> predecessor_text fmt1 current | Some p \<Rightarrow> p),
         vr_created_at = h_created_at current, vr_deprecated_at = None\<rparr> = Inr db1" (is "insert_version db ?v = _")
    and db': "db' = update_rows i (new_version_row claim (hr_version r + 1) now)
                (mark_deprecated now vid db1)"
    and h: "row_to_hypothesis (new_version_row claim (hr_version r + 1) now r) = Inr h"
    using create_new_version_InrD [OF assms] by blast
  have versions: "db_versions db1 = db_versions db @ [?v]"
      "\<forall>v \<in> set (db_versions db). vr_version_id v \<noteq> vid"
    using db1 by (auto simp: insert_version_def list_ex_iff split: if_splits)
  have "db_versions db' = db_versions db @ [?v\<lparr>vr_deprecated_at := Some now\<rparr>]"
    unfolding db' update_rows_other mark_deprecated_def versions(1)
    using deprecated_versions [OF versions(2), of ?v now] by simp
  moreover have "hypothesis_row_by_id db' j =
          (if j = i then Some (new_version_row claim (hr_version r + 1) now r)
           else hypothesis_row_by_id db j)" for j
    using r(1) by (simp add: db' row_by_id_update row_after_version [OF db1])
  ultimately show ?thesis
    using r h row_to_hypothesis_fields [OF r(2)]
    by (intro exI [of _ r] exI [of _ "?v\<lparr>vr_deprecated_at := Some now\<rparr>"]) simp
qed

lemma history_new_version:
  assumes "history_inv db"
    and "create_new_version fmt1 vid now db i claim reason pc = Inr (db', Some h)"
  shows "history_inv db'"
proof -
  obtain r v where r: "hypothesis_row_by_id db i = Some r"
    and v: "db_versions db' = db_versions db @ [v]" "vr_hypothesis_id v = i"
      "vr_version v = hr_version r" "vr_deprecated_at v = Some now"
    and rows: "\<And>j. hypothesis_row_by_id db' j =
          (if j = i then Some (new_version_row claim (hr_version r + 1) now r)
           else hypothesis_row_by_id db j)"
    using create_new_version_tables [OF assms(2)] by blast
  have old: "vr_deprecated_at w \<noteq> None"
      "\<exists>q. hypothesis_row_by_id db (vr_hypothesis_id w) = Some q \<and> vr_version w < hr_version q"
    if "w \<in> set (db_versions db)" for w
    using assms(1) that by (auto simp: history_inv_def)
  have fresh: "(i, hr_version r) \<notin> (\<lambda>v. (vr_hypothesis_id v, vr_version v)) ` set (db_versions db)"
    using old(2) r by fastforce
  have "\<exists>q. hypothesis_row_by_id db' (vr_hypothesis_id w) = Some q \<and> vr_version w < hr_version q"
    if "w \<in> set (db_versions db)" for w
    using old(2) [OF that] r by (auto simp: rows)
  with fresh old(1) assms(1) show ?thesis
    unfolding history_inv_def v(1)
    by (auto simp: rows v)
qed

lemma history_inv_step: "hypothesis_step whole db db' \<Longrightarrow> whole \<Longrightarrow> history_inv db \<Longrightarrow> history_inv db'"
proof (induction rule: hypothesis_step.induct)
  case (step_insert db h db')
  then show ?case by (auto intro: history_insert)
next
  case (step_transition db i s force db')
  then show ?case by (auto intro: history_transition)
next
  case (step_status db i s)
  then show ?case
    unfolding update_hypothesis_status_def by (auto intro: history_update_rows)
next
  case (step_elo db i e n db')
  then show ?case
    by (auto simp: update_hypothesis_elo_def split: if_splits intro: history_update_rows)
next
  case (step_support db i a b c d)
  then show ?case
    unfolding update_hypothesis_support_def by (auto intro: history_update_rows)
next
  case (step_last_applied db i t)
  then show ?case
    unfolding update_hypothesis_last_applied_def by (auto intro: history_update_rows)
next
  case (step_version fmt1 vid now db i claim reason pc db' h)
  then show ?case
    using history_new_version create_new_version_None by (cases h) blast+
qed (erule history_same_hypotheses;
    auto simp: insert_evidence_def insert_alias_def insert_eval_example_def insert_tombstone_def
      upsert_pattern_difficulty_def Let_def split: if_splits)+

lemma history_reachable: "hypothesis_reachable True db \<Longrightarrow> history_inv db"
  unfolding hypothesis_reachable_def
proof (induction rule: rtranclp_induct)
  case base
  then show ?case by (simp add: history_inv_def init_schema_def)
qed (auto intro: history_inv_step)

section \<open>Validated status changes\<close>

definition status_of :: "hypothesis_db \<Rightarrow> string \<Rightarrow> string option" where
  "status_of db i = map_option hr_status (hypothesis_row_by_id db i)"

text \<open>A successful change that is not forced is an edge of the table, and touches one row.\<close>

lemma validated_transition:
  assumes "transition_hypothesis_status db i s False = Inr db'"
  shows "\<exists>a. status_of db i = Some a \<and> s \<in> set (allowed_targets a)"
    and "status_of db' j = (if j = i then Some s else status_of db j)"
proof -
  from assms obtain h where h: "get_hypothesis db i = Inr (Some h)"
      "s \<in> set (allowed_targets (h_status h))" and db': "db' = update_rows i (set_status s) db"
    by (auto simp: transition_hypothesis_status_def bind_res_eq_Inr split: if_splits option.splits)
  from h(1) obtain r where r: "hypothesis_row_by_id db i = Some r" "row_to_hypothesis r = Inr h"
    by (auto simp: get_hypothesis_Some)
  then show "\<exists>a. status_of db i = Some a \<and> s \<in> set (allowed_targets a)"
    using h(2) row_to_hypothesis_fields(2) [OF r(2)] by (simp add: status_of_def)
  show "status_of db' j = (if j = i then Some s else status_of db j)"
    using r(1) by (simp add: db' status_of_def row_by_id_update)
qed

lemma reachable_get_ok:
  assumes "hypothesis_reachable whole db" and "hypothesis_row_by_id db i = Some r"
  shows "\<exists>h. get_hypothesis db i = Inr (Some h) \<and> h_status h = hr_status r"
proof -
  have "r \<in> set (db_hypotheses db)"
    using assms(2) find_Some_in by (fastforce simp: hypothesis_row_by_id_def)
  then have "readable_row r" using inv_row hypothesis_reachable_inv [OF assms(1)] by blast
  then obtain h where "row_to_hypothesis r = Inr h"
    by (cases "row_to_hypothesis r") (auto simp: readable_row_def)
  then show ?thesis
    using assms(2) row_to_hypothesis_fields(2) by (auto simp: get_hypothesis_Some)
qed

definition validated_step :: "string set \<Rightarrow> hypothesis_db \<Rightarrow> hypothesis_db \<Rightarrow> bool" where
  "validated_step S db db' \<longleftrightarrow>
     (\<exists>i s. s \<in> S \<and> transition_hypothesis_status db i s False = Inr db')"

lemma validated_run_invariant:
  assumes "(validated_step S)\<^sup>*\<^sup>* db db'" and "status_of db i = Some a" and "a \<in> A"
    and closed: "\<And>a s. a \<in> A \<Longrightarrow> s \<in> S \<Longrightarrow> s \<in> set (allowed_targets a) \<Longrightarrow> s \<in> A"
  shows "\<exists>b. status_of db' i = Some b \<and> b \<in> A"
  using assms(1)
proof (induction rule: rtranclp_induct)
  case base
  with assms(2,3) show ?case by blast
next
  case (step db1 db2)
  then obtain b where b: "status_of db1 i = Some b" "b \<in> A" by blast
  from step(2) obtain j s where js: "s \<in> S" "transition_hypothesis_status db1 j s False = Inr db2"
    by (auto simp: validated_step_def)
  from validated_transition [OF js(2)] b closed js(1) show ?case by auto
qed

definition not_applied :: "string set" where
  "not_applied = {''candidate'', ''suggested'', ''needs_review'', ''archived'', ''retired''}"

lemma not_applied_closed:
  assumes "a \<in> not_applied" and "s \<noteq> ''confirmed''" and "s \<in> set (allowed_targets a)"
  shows "s \<in> not_applied"
  using assms by (auto simp: not_applied_def allowed_targets_def allowed_transitions_def)

section \<open>Sample tables\<close>

definition sample_hypothesis :: hypothesis where
  "sample_hypothesis = default_hypothesis\<lparr>h_hypothesis_id := ''hyp_1'', h_user_id := 7,
     h_claim := ''Short answers'', h_last_seen := ''2026-05-26T10:00:00+00:00''\<rparr>"

definition sample_db :: "string \<Rightarrow> hypothesis_db" where
  "sample_db status =
     init_schema\<lparr>db_hypotheses := [hypothesis_to_row (sample_hypothesis\<lparr>h_status := status\<rparr>)]\<rparr>"

lemma sample_db_insert:
  "insert_hypothesis init_schema (sample_hypothesis\<lparr>h_status := status\<rparr>) = Inr (sample_db status)"
  by (simp add: insert_hypothesis_def sample_db_def init_schema_def sample_hypothesis_def
      default_hypothesis_def not_nan_def hypothesis_exists_def)

lemma sample_db_reachable: "hypothesis_reachable whole (sample_db status)"
  unfolding hypothesis_reachable_def
  using step_insert [OF sample_db_insert] by (rule r_into_rtranclp)

lemma sample_db_row:
  "hypothesis_row_by_id (sample_db s) ''hyp_1'' =
     Some (hypothesis_to_row (sample_hypothesis\<lparr>h_status := s\<rparr>))"
  by (simp add: hypothesis_row_by_id_def sample_db_def hypothesis_to_row_def sample_hypothesis_def)

lemma sample_db_status: "status_of (sample_db s) ''hyp_1'' = Some s"
  by (simp add: status_of_def sample_db_row hypothesis_to_row_def)

section \<open>Properties\<close>

text \<open>
  C5: in every state the public operations can reach, in any order, with \<open>insert_version\<close> called directly
  and \<open>create_new_version\<close> stopped or interrupted between its statements, the ids of all seven tables are
  unique, every alias, evidence, version and evaluation row refers to a stored hypothesis, and
  every hypothesis can be read back without an exception. If version rows are written by
  uninterrupted calls of \<open>create_new_version\<close> only, the archived versions of a hypothesis are
  also closed, older than the current one and numbered without repetition.
\<close>

theorem hypothesis_tables_intact:
  assumes "hypothesis_reachable whole db"
  shows "hypothesis_inv db \<and> is_ok (get_hypothesis db i) \<and> (whole \<longrightarrow> history_inv db)"
proof (intro conjI impI)
  show "hypothesis_inv db" using assms by (rule hypothesis_reachable_inv)
  show "history_inv db" if whole using assms that history_reachable by simp
  show "is_ok (get_hypothesis db i)"
    using reachable_get_ok [OF assms, of i]
    by (cases "hypothesis_row_by_id db i") (auto simp: get_hypothesis_def)
qed

lemma hypothesis_tables_intact_witness:
  "hypothesis_inv (sample_db ''active'') \<and> is_ok (get_hypothesis (sample_db ''active'') ''hyp_1'')
    \<and> history_inv (sample_db ''active'')"
  using hypothesis_tables_intact [OF sample_db_reachable [where whole = True]] by simp

text \<open>A version row that is inserted directly is open: the history needs the whole call.\<close>

lemma inserted_version_is_open:
  assumes "hypothesis_reachable False db" and "insert_version db v = Inr db'" and "vr_deprecated_at v = None"
  shows "hypothesis_reachable False db' \<and> \<not> history_inv db'"
proof
  show "hypothesis_reachable False db'"
    using assms(1) step_insert_version [of False, OF _ assms(2)] unfolding hypothesis_reachable_def
    by (simp add: rtranclp.rtrancl_into_rtrancl)
  show "\<not> history_inv db'" using assms(2, 3) by (auto simp: insert_version_def history_inv_def split: if_splits)
qed

text \<open>
  The validated status change. A chain of changes without \<open>force\<close> never leaves \<open>retired\<close>, and a
  hypothesis that is not confirmed, active or paused does not become one of these unless the
  chain contains a change to \<open>confirmed\<close>: nothing is applied that was not confirmed first.
\<close>

theorem validated_lifecycle:
  assumes "status_of db i = Some a"
  shows "(a = ''retired'' \<and> (validated_step UNIV)\<^sup>*\<^sup>* db db' \<longrightarrow> status_of db' i = Some ''retired'')
    \<and> (a \<in> not_applied \<and> (validated_step (- {''confirmed''}))\<^sup>*\<^sup>* db db'
       \<longrightarrow> (\<exists>b. status_of db' i = Some b \<and> b \<in> not_applied))"
proof (intro conjI impI; elim conjE)
  assume "a = ''retired''" and "(validated_step UNIV)\<^sup>*\<^sup>* db db'"
  then show "status_of db' i = Some ''retired''"
    using validated_run_invariant [OF _ assms, of UNIV db' "{''retired''}"]
    by (auto simp: allowed_targets_def allowed_transitions_def)
next
  assume "a \<in> not_applied" and "(validated_step (- {''confirmed''}))\<^sup>*\<^sup>* db db'"
  then show "\<exists>b. status_of db' i = Some b \<and> b \<in> not_applied"
    using validated_run_invariant [OF _ assms, of "- {''confirmed''}" db' not_applied] not_applied_closed
    by auto
qed

lemma sample_transition:
  "transition_hypothesis_status (sample_db ''candidate'') ''hyp_1'' ''suggested'' False =
     Inr (update_rows ''hyp_1'' (set_status ''suggested'') (sample_db ''candidate''))"
proof -
  obtain h where "get_hypothesis (sample_db ''candidate'') ''hyp_1'' = Inr (Some h)"
      "h_status h = ''candidate''"
    using reachable_get_ok [OF sample_db_reachable sample_db_row, of "''candidate''"]
    by (auto simp: hypothesis_to_row_def)
  then show ?thesis
    by (simp add: transition_hypothesis_status_def allowed_statuses_def allowed_transitions_def
        allowed_targets_def py_nonblank_def py_isspace_def)
qed

lemma sample_run:
  "(validated_step (- {''confirmed''}))\<^sup>*\<^sup>* (sample_db ''candidate'')
     (update_rows ''hyp_1'' (set_status ''suggested'') (sample_db ''candidate''))"
proof (rule r_into_rtranclp)
  show "validated_step (- {''confirmed''}) (sample_db ''candidate'')
          (update_rows ''hyp_1'' (set_status ''suggested'') (sample_db ''candidate''))"
    unfolding validated_step_def
    by (rule exI [of _ "''hyp_1''"], rule exI [of _ "''suggested''"]) (simp add: sample_transition)
qed

lemma validated_lifecycle_witness:
  "\<exists>b. status_of (update_rows ''hyp_1'' (set_status ''suggested'') (sample_db ''candidate'')) ''hyp_1'' = Some b
     \<and> b \<in> not_applied"
  using validated_lifecycle [OF sample_db_status, of "''candidate''"
      "update_rows ''hyp_1'' (set_status ''suggested'') (sample_db ''candidate'')"] sample_run
  by (simp add: not_applied_def)

text \<open>
  A new version archives exactly the old claim and rating under the old number, closed at the time of
  the change; the hypothesis gets the next number, the new claim, a neutral rating without
  games and counts, and the status \<open>suggested\<close>; no other hypothesis changes. The status it had
  does not matter, so also a retired one returns to \<open>suggested\<close>.
\<close>

theorem new_version_archives_old:
  assumes "create_new_version fmt1 vid now db i claim reason pc = Inr (db', Some h)"
  shows "\<exists>r v. hypothesis_row_by_id db i = Some r
    \<and> db_versions db' = db_versions db @ [v] \<and> vr_hypothesis_id v = i
    \<and> vr_version v = hr_version r \<and> vr_claim v = hr_claim r
    \<and> vr_elo_rating_at_save v = hr_elo_rating r \<and> vr_deprecated_at v = Some now
    \<and> h_version h = hr_version r + 1 \<and> h_claim h = claim \<and> h_status h = ''suggested''
    \<and> h_elo_rating h = PFin 1500 \<and> h_support_count h = 0 \<and> h_contradict_count h = 0
    \<and> h_user_id h = hr_user_id r
    \<and> (j \<noteq> i \<longrightarrow> hypothesis_row_by_id db' j = hypothesis_row_by_id db j)"
proof -
  obtain r v where rv: "hypothesis_row_by_id db i = Some r" "db_versions db' = db_versions db @ [v]"
      "vr_hypothesis_id v = i" "vr_version v = hr_version r" "vr_claim v = hr_claim r"
      "vr_elo_rating_at_save v = hr_elo_rating r" "vr_deprecated_at v = Some now"
      "\<And>j. hypothesis_row_by_id db' j =
         (if j = i then Some (new_version_row claim (hr_version r + 1) now r)
          else hypothesis_row_by_id db j)"
      "row_to_hypothesis (new_version_row claim (hr_version r + 1) now r) = Inr h"
    using create_new_version_tables [OF assms] by blast
  have "h_version h = hr_version r + 1 \<and> h_claim h = claim \<and> h_status h = ''suggested''
    \<and> h_elo_rating h = PFin 1500 \<and> h_support_count h = 0 \<and> h_contradict_count h = 0
    \<and> h_user_id h = hr_user_id r"
    using rv(9) by (auto simp: row_to_hypothesis_def bind_res_eq_Inr new_version_row_def)
  with rv show ?thesis by auto
qed

lemma sample_new_version:
  "\<exists>db' h. create_new_version (\<lambda>_. ''1500.0'') ''ver_1'' ''2026-06-01T00:00:00+00:00''
     (sample_db ''retired'') ''hyp_1'' ''Long answers'' ''changed'' None = Inr (db', Some h)"
proof -
  let ?h = "sample_hypothesis\<lparr>h_status := ''retired''\<rparr>"
  have get: "get_hypothesis (sample_db ''retired'') ''hyp_1'' = Inr (Some ?h)"
    by (simp add: get_hypothesis_def sample_db_row) (simp add: sample_hypothesis_def default_hypothesis_def)
  have elo: "h_elo_rating ?h = PFin 1500"
    by (simp add: sample_hypothesis_def default_hypothesis_def)
  have ex: "hypothesis_exists (sample_db ''retired'') ''hyp_1''"
    by (simp add: exists_iff_find sample_db_row)
  have vs: "db_versions (sample_db ''retired'') = []"
    by (simp add: sample_db_def init_schema_def)
  have row: "hypothesis_row_by_id (mark_deprecated t k (sample_db ''retired''\<lparr>db_versions := x\<rparr>)) ''hyp_1'' =
      Some (hypothesis_to_row ?h)" for t k x
    using sample_db_row [of "''retired''"] by (simp add: hypothesis_row_by_id_def)
  show ?thesis
    unfolding create_new_version_def get bind_res_Inr option.case Let_def insert_version_def vs elo
    by (simp add: not_nan_def ex get_hypothesis_def row_by_id_update row)
      (simp add: row_to_hypothesis_def new_version_row_def hypothesis_to_row_def)
qed

lemma new_version_archives_old_witness:
  "\<exists>db' h r. create_new_version (\<lambda>_. ''1500.0'') ''ver_1'' ''2026-06-01T00:00:00+00:00''
     (sample_db ''retired'') ''hyp_1'' ''Long answers'' ''changed'' None = Inr (db', Some h)
   \<and> hypothesis_row_by_id (sample_db ''retired'') ''hyp_1'' = Some r
   \<and> h_version h = hr_version r + 1 \<and> h_status h = ''suggested''"
  using sample_new_version new_version_archives_old by blast

section \<open>Tombstones\<close>

lemma append_less_iff [simp]: "d @ xs < d @ ys \<longleftrightarrow> xs < (ys :: string)"
  by (induction d) simp_all

lemma inserted_tombstone:
  assumes "insert_tombstone db t i fp del sh ex perm = Inr db'"
  shows "check_tombstone db' sql_now fp' \<longleftrightarrow>
     check_tombstone db sql_now fp'
     \<or> (fp = fp' \<and> (perm \<or> (\<exists>e. ex = Some e \<and> sql_now < e)))"
  using assms
  by (auto simp: insert_tombstone_def check_tombstone_def split: if_splits option.splits)

text \<open>
  What a tombstone blocks. A permanent one blocks its fingerprint for ever. One with an ISO expiry
  (date, \<open>T\<close>, time) blocks on every SQL time of an earlier date and of the same date, whatever
  the time of day: the texts differ first at the separator, where a blank precedes \<open>T\<close>, so an
  expired tombstone keeps blocking until the end of its day. From the next date on it does
  not block.
\<close>

theorem tombstone_blocks:
  assumes "insert_tombstone db t i fp del sh (Some (date @ ''T'' @ time)) perm = Inr db'"
    and "length now_date = length date"
    and "\<not> check_tombstone db (now_date @ '' '' @ now_time) fp"
  shows "check_tombstone db' (now_date @ '' '' @ now_time) fp \<longleftrightarrow> perm \<or> now_date \<le> date"
proof -
  have less: "now_date @ '' '' @ now_time < date @ ''T'' @ time \<longleftrightarrow> now_date \<le> date"
    using assms(2)
  proof (induction now_date date rule: list_induct2)
    case Nil
    then show ?case by (simp add: less_char_def)
  next
    case (Cons a as b bs)
    then show ?case by auto
  qed
  show ?thesis using inserted_tombstone [OF assms(1)] assms(3) less by auto
qed

definition sample_tombstone :: hypothesis_db where
  "sample_tombstone =
     (case insert_tombstone init_schema ''tomb_1'' ''hyp_1'' ''fp'' ''2026-05-01T08:00:00'' None
        (Some (''2026-05-31'' @ ''T'' @ ''08:00:00'')) False of Inr db \<Rightarrow> db | Inl _ \<Rightarrow> init_schema)"

lemma tombstone_blocks_witness:
  "check_tombstone sample_tombstone (''2026-05-31'' @ '' '' @ ''23:59:59'') ''fp''"
proof -
  have ins: "insert_tombstone init_schema ''tomb_1'' ''hyp_1'' ''fp'' ''2026-05-01T08:00:00'' None
        (Some (''2026-05-31'' @ ''T'' @ ''08:00:00'')) False = Inr sample_tombstone"
    by (simp add: sample_tombstone_def insert_tombstone_def init_schema_def)
  have len: "length ''2026-05-31'' = length ''2026-05-31''" ..
  have no: "\<not> check_tombstone init_schema (''2026-05-31'' @ '' '' @ ''23:59:59'') ''fp''"
    by (simp add: check_tombstone_def init_schema_def)
  show ?thesis
    using tombstone_blocks [OF ins len no] by (simp only: order_refl simp_thms)
qed

text \<open>The evidence ids of a hypothesis are not stored.\<close>

lemma evidence_ids_are_lost:
  assumes "insert_hypothesis db h = Inr db'" and "get_hypothesis db' (h_hypothesis_id h) = Inr (Some h')"
  shows "h_evidence_ids h' = []"
  using insert_then_get [OF assms(1)] assms(2) by auto

text \<open>Queries by user return hypotheses of that user (and status), newest first, within the limit.\<close>

lemma rows_to_hypotheses_map:
  "rows_to_hypotheses rs = Inr hs \<Longrightarrow>
     map h_user_id hs = map hr_user_id rs \<and> map h_status hs = map hr_status rs
     \<and> length hs = length rs"
  by (induction rs arbitrary: hs)
    (auto simp: bind_res_eq_Inr row_to_hypothesis_fields)

lemma get_by_user_scoped:
  assumes "get_hypotheses_by_user db u st limit = Inr hs"
  shows "list_all (\<lambda>h. h_user_id h = u \<and> (case st of None \<Rightarrow> True | Some s \<Rightarrow> h_status h = s)) hs"
    and "0 \<le> limit \<Longrightarrow> int (length hs) \<le> limit"
proof -
  let ?rows = "case st of
      Some s \<Rightarrow> filter (\<lambda>r. hr_user_id r = u \<and> hr_status r = s) (db_hypotheses db)
    | None \<Rightarrow> filter (\<lambda>r. hr_user_id r = u) (db_hypotheses db)"
  let ?rs = "sql_limit limit (order_desc hr_last_seen ?rows)"
  have hs: "map h_user_id hs = map hr_user_id ?rs" "map h_status hs = map hr_status ?rs"
      "length hs = length ?rs"
    using assms rows_to_hypotheses_map [of ?rs hs] by (simp_all add: get_hypotheses_by_user_def)
  have rows: "hr_user_id r = u \<and> (case st of None \<Rightarrow> True | Some s \<Rightarrow> hr_status r = s)"
    if "r \<in> set ?rs" for r
    using that set_sql_limit [of limit "order_desc hr_last_seen ?rows"] by (auto split: option.splits)
  have "h_user_id h = u \<and> (case st of None \<Rightarrow> True | Some s \<Rightarrow> h_status h = s)" if h: "h \<in> set hs" for h
  proof -
    obtain n where n: "n < length hs" "hs ! n = h" using h by (auto simp: in_set_conv_nth)
    then have "?rs ! n \<in> set ?rs" using hs(3) by simp
    moreover have "h_user_id h = hr_user_id (?rs ! n)" "h_status h = hr_status (?rs ! n)"
      using arg_cong [OF hs(1), of "\<lambda>xs. xs ! n"] arg_cong [OF hs(2), of "\<lambda>xs. xs ! n"] n hs(3)
      by simp_all
    ultimately show ?thesis using rows [of "?rs ! n"] by (auto split: option.splits)
  qed
  then show "list_all (\<lambda>h. h_user_id h = u \<and> (case st of None \<Rightarrow> True | Some s \<Rightarrow> h_status h = s)) hs"
    by (simp add: list_all_iff)
  show "0 \<le> limit \<Longrightarrow> int (length hs) \<le> limit"
    using hs(3) by (simp add: sql_limit_def)
qed

end
