(* ===== verification/PatternJudge.thy ===== *)
theory PatternJudge
  imports CollisionDetector EvidenceLedger Fsrs HypothesisGuarantees
begin

text \<open>
  \<open>pattern_judge.py\<close>: the recommendation for the next status of a hypothesis. The injected privacy
  pipeline is an argument: \<open>None\<close> when the judge has none, otherwise the function that gives the
  reason of a rejection. The text of \<open>format(x, '.Nf')\<close> is the argument \<open>fmt\<close>.
\<close>

record auto_apply_threshold =
  at_min_confirmations :: int
  at_min_elo_rating :: rat
  at_min_sessions :: int
  at_min_bkt_confidence :: rat

definition thresholds :: "(string \<times> auto_apply_threshold) list" where
  "thresholds =
     [(''negative_specific'', \<lparr>at_min_confirmations = 2, at_min_elo_rating = 1650,
        at_min_sessions = 2, at_min_bkt_confidence = 65 / 100\<rparr>),
      (''negative_domain'', \<lparr>at_min_confirmations = 4, at_min_elo_rating = 1700,
        at_min_sessions = 2, at_min_bkt_confidence = 70 / 100\<rparr>),
      (''negative_global'', \<lparr>at_min_confirmations = 6, at_min_elo_rating = 1750,
        at_min_sessions = 3, at_min_bkt_confidence = 75 / 100\<rparr>),
      (''preference'', \<lparr>at_min_confirmations = 5, at_min_elo_rating = 1700,
        at_min_sessions = 2, at_min_bkt_confidence = 70 / 100\<rparr>),
      (''procedural'', \<lparr>at_min_confirmations = 8, at_min_elo_rating = 1800,
        at_min_sessions = 3, at_min_bkt_confidence = 80 / 100\<rparr>),
      (''default'', \<lparr>at_min_confirmations = 5, at_min_elo_rating = 1700,
        at_min_sessions = 2, at_min_bkt_confidence = 70 / 100\<rparr>)]"

definition default_threshold :: auto_apply_threshold where
  "default_threshold = \<lparr>at_min_confirmations = 5, at_min_elo_rating = 1700,
     at_min_sessions = 2, at_min_bkt_confidence = 70 / 100\<rparr>"

text \<open>\<open>THRESHOLDS.get(key, THRESHOLDS["default"])\<close>\<close>

definition threshold_for :: "string \<Rightarrow> auto_apply_threshold" where
  "threshold_for key =
     (case map_of thresholds key of None \<Rightarrow> default_threshold | Some t \<Rightarrow> t)"

definition contradiction_window :: int where "contradiction_window = 5"
definition contradiction_threshold :: int where "contradiction_threshold = 3"
definition suggest_min_evidence :: int where "suggest_min_evidence = 3"
definition suggest_min_sessions :: int where "suggest_min_sessions = 2"

definition scope_specificity :: "hypothesis_scope \<Rightarrow> int" where
  "scope_specificity scope =
     (let score1 = (if json_truthy (hs_client scope) then 2 else 0);
          score2 = (if json_truthy (hs_project scope) then score1 + 1 else score1)
      in score2 + min 3 (int (length (hs_context scope))))"

definition resolve_threshold_key :: "hypothesis \<Rightarrow> string" where
  "resolve_threshold_key h =
     (let h_type = py_lower (h_type h) in
      if h_type = ''negative'' then
        (let specificity = scope_specificity (h_scope h) in
         if 2 \<le> specificity then ''negative_specific''
         else if 1 \<le> specificity then ''negative_domain''
         else ''negative_global'')
      else if h_type = ''preference'' then ''preference''
      else if h_type = ''procedural'' then ''procedural''
      else ''default'')"

record judge_decision =
  jd_hypothesis_id :: string
  jd_current_status :: string
  jd_recommended_status :: string
  jd_should_transition :: bool
  jd_reason :: string
  jd_threshold_key :: string

record judge_collision =
  jc_has_collision :: bool
  jc_winner_id :: "string option"
  jc_loser_id :: "string option"
  jc_needs_user_decision :: bool
  jc_reason :: string

section \<open>Checks\<close>

definition check_archive ::
    "iso_parser \<Rightarrow> hypothesis \<Rightarrow> fsrs_state \<Rightarrow> string \<Rightarrow> judge_decision option" where
  "check_archive prs h fsrs current_time =
     (if h_decay_immune h then None
      else
        let effective_fsrs = (if seasonal_detected prs fsrs then apply_seasonal_boost prs fsrs else fsrs)
        in if is_archive_candidate prs effective_fsrs current_time
           then Some \<lparr>jd_hypothesis_id = h_hypothesis_id h, jd_current_status = h_status h,
                      jd_recommended_status = ''archived'', jd_should_transition = True,
                      jd_reason = ''FSRS decay: hypothesis unused for 180+ days '' @
                        ''with very low retrievability.'', jd_threshold_key = []\<rparr>
           else None)"

definition check_needs_review :: "hypothesis \<Rightarrow> int \<Rightarrow> judge_decision option" where
  "check_needs_review h recent_contradictions =
     (if contradiction_threshold \<le> recent_contradictions
      then Some \<lparr>jd_hypothesis_id = h_hypothesis_id h, jd_current_status = h_status h,
                 jd_recommended_status = ''needs_review'', jd_should_transition = True,
                 jd_reason = int_decimal recent_contradictions @ '' contradictions in last '' @
                   int_decimal contradiction_window @ '' observations. '' @
                   ''Hypothesis needs user review.'', jd_threshold_key = []\<rparr>
      else None)"

definition meets_auto_apply_threshold ::
    "evidence_summary \<Rightarrow> bkt_state \<Rightarrow> pyfloat \<Rightarrow> auto_apply_threshold \<Rightarrow> bool" where
  "meets_auto_apply_threshold evidence bkt elo threshold =
     (if es_positive_count evidence < at_min_confirmations threshold then False
      else if pf_less elo (PFin (at_min_elo_rating threshold)) then False
      else if es_distinct_sessions evidence < at_min_sessions threshold then False
      else if bk_p_knowledge bkt < at_min_bkt_confidence threshold then False
      else True)"

definition check_promotion ::
    "(nat \<Rightarrow> pyfloat \<Rightarrow> string) \<Rightarrow> hypothesis \<Rightarrow> evidence_summary \<Rightarrow> bkt_state \<Rightarrow> pyfloat
       \<Rightarrow> judge_decision option" where
  "check_promotion fmt h evidence bkt elo =
     (let current = h_status h in
      if current = ''candidate'' then
        (if suggest_min_evidence \<le> es_total_count evidence
            \<and> suggest_min_sessions \<le> es_distinct_sessions evidence
         then Some \<lparr>jd_hypothesis_id = h_hypothesis_id h, jd_current_status = current,
                    jd_recommended_status = ''suggested'', jd_should_transition = True,
                    jd_reason = ''Evidence threshold met: '' @ int_decimal (es_total_count evidence) @
                      '' items over '' @ int_decimal (es_distinct_sessions evidence) @
                      '' sessions (need '' @ int_decimal suggest_min_evidence @ ''/'' @
                      int_decimal suggest_min_sessions @ '').'', jd_threshold_key = []\<rparr>
         else None)
      else if current = ''confirmed'' then
        (let threshold_key = resolve_threshold_key h; threshold = threshold_for threshold_key in
         if meets_auto_apply_threshold evidence bkt elo threshold
         then Some \<lparr>jd_hypothesis_id = h_hypothesis_id h, jd_current_status = current,
                    jd_recommended_status = ''active'', jd_should_transition = True,
                    jd_reason = ''Auto-apply threshold met ('' @ threshold_key @ ''): confirmations='' @
                      int_decimal (es_positive_count evidence) @ ''/'' @
                      int_decimal (at_min_confirmations threshold) @ '', elo='' @ fmt 0 elo @ ''/'' @
                      fmt 0 (PFin (at_min_elo_rating threshold)) @ '', bkt='' @
                      fmt 3 (PFin (bk_p_knowledge bkt)) @ ''/'' @
                      fmt 3 (PFin (at_min_bkt_confidence threshold)) @ '', sessions='' @
                      int_decimal (es_distinct_sessions evidence) @ ''/'' @
                      int_decimal (at_min_sessions threshold) @ ''.'',
                    jd_threshold_key = threshold_key\<rparr>
         else None)
      else None)"

section \<open>Evaluation\<close>

definition privacy_rejection :: "hypothesis \<Rightarrow> string \<Rightarrow> judge_decision" where
  "privacy_rejection h reason =
     \<lparr>jd_hypothesis_id = h_hypothesis_id h, jd_current_status = h_status h,
      jd_recommended_status = ''privacy_rejected'', jd_should_transition = True,
      jd_reason = ''Privacy pipeline rejection: '' @ reason, jd_threshold_key = []\<rparr>"

definition no_transition :: "hypothesis \<Rightarrow> judge_decision" where
  "no_transition h =
     \<lparr>jd_hypothesis_id = h_hypothesis_id h, jd_current_status = h_status h,
      jd_recommended_status = h_status h, jd_should_transition = False,
      jd_reason = ''No transition criteria met'', jd_threshold_key = []\<rparr>"

definition judge_evaluate ::
    "(nat \<Rightarrow> pyfloat \<Rightarrow> string) \<Rightarrow> iso_parser \<Rightarrow> (hypothesis \<Rightarrow> string option) option \<Rightarrow> hypothesis
       \<Rightarrow> evidence_summary \<Rightarrow> bkt_state \<Rightarrow> pyfloat \<Rightarrow> fsrs_state \<Rightarrow> string \<Rightarrow> int \<Rightarrow> judge_decision" where
  "judge_evaluate fmt prs privacy h evidence bkt elo fsrs current_time recent_contradictions =
     (let current_status = h_status h;
          archive_decision =
            (if \<not> List.member [''paused'', ''archived'', ''retired''] current_status
             then if \<not> h_decay_immune h \<and> current_time \<noteq> [] then check_archive prs h fsrs current_time
                  else None
             else None);
          review_decision =
            (if List.member [''confirmed'', ''active''] current_status
             then check_needs_review h recent_contradictions else None)
      in case archive_decision of
           Some d \<Rightarrow> d
         | None \<Rightarrow>
        (case review_decision of
           Some d \<Rightarrow> d
         | None \<Rightarrow>
        (case (case privacy of None \<Rightarrow> None | Some check \<Rightarrow> check h) of
           Some reason \<Rightarrow> privacy_rejection h reason
         | None \<Rightarrow>
        (case check_promotion fmt h evidence bkt elo of
           Some d \<Rightarrow> d
         | None \<Rightarrow> no_transition h))))"

definition should_promote ::
    "(nat \<Rightarrow> pyfloat \<Rightarrow> string) \<Rightarrow> hypothesis \<Rightarrow> evidence_summary \<Rightarrow> bkt_state \<Rightarrow> bool" where
  "should_promote fmt h evidence bkt =
     (case check_promotion fmt h evidence bkt (h_elo_rating h) of
        None \<Rightarrow> False | Some d \<Rightarrow> jd_should_transition d)"

definition should_archive :: "iso_parser \<Rightarrow> hypothesis \<Rightarrow> fsrs_state \<Rightarrow> string \<Rightarrow> bool" where
  "should_archive prs h fsrs current_time =
     (if h_decay_immune h then False else check_archive prs h fsrs current_time \<noteq> None)"

definition should_challenge :: "hypothesis \<Rightarrow> int \<Rightarrow> bool" where
  "should_challenge h recent_contradictions =
     (if \<not> List.member [''confirmed'', ''active''] (h_status h) then False
      else contradiction_threshold \<le> recent_contradictions)"

definition detect_collision :: "hypothesis \<Rightarrow> hypothesis \<Rightarrow> judge_collision" where
  "detect_collision a b =
     (let spec_a = scope_specificity (h_scope a); spec_b = scope_specificity (h_scope b) in
      if spec_a = spec_b
      then \<lparr>jc_has_collision = True, jc_winner_id = None, jc_loser_id = None,
            jc_needs_user_decision = True,
            jc_reason = ''Hypotheses '' @ quoted_claim a @ '' and '' @ quoted_claim b @
              '' have equal scope specificity ('' @ int_decimal spec_a @
              ''). User decision required.''\<rparr>
      else
        let winner = (if spec_b < spec_a then a else b); loser = (if spec_b < spec_a then b else a)
        in \<lparr>jc_has_collision = True, jc_winner_id = Some (h_hypothesis_id winner),
            jc_loser_id = Some (h_hypothesis_id loser), jc_needs_user_decision = False,
            jc_reason = quoted_claim winner @ '' (specificity '' @
              int_decimal (scope_specificity (h_scope winner)) @ '') overrides '' @
              quoted_claim loser @ '' (specificity '' @
              int_decimal (scope_specificity (h_scope loser)) @ '').''\<rparr>)"

section \<open>Lemmas\<close>

lemma scope_specificity_eq [simp]: "scope_specificity s = compute_specificity s"
  by (simp add: scope_specificity_def compute_specificity_def Let_def)

text \<open>The judge and the collision detector decide a pair alike.\<close>

lemma collision_agreement:
  "jc_winner_id (detect_collision a b) = map_option h_hypothesis_id (cr_winner (resolve_pair a b))"
  "jc_needs_user_decision (detect_collision a b) = cr_requires_user_decision (resolve_pair a b)"
  by (simp_all add: detect_collision_def resolve_pair_def Let_def)

lemma check_archive_SomeD:
  "check_archive prs h fsrs t = Some d \<Longrightarrow>
     \<not> h_decay_immune h \<and> jd_recommended_status d = ''archived''"
  by (auto simp: check_archive_def Let_def split: if_splits)

lemma check_needs_review_SomeD:
  "check_needs_review h n = Some d \<Longrightarrow>
     contradiction_threshold \<le> n \<and> jd_recommended_status d = ''needs_review''"
  by (auto simp: check_needs_review_def split: if_splits)

lemma check_promotion_SomeD:
  "check_promotion fmt h e b elo = Some d \<Longrightarrow>
     (h_status h = ''candidate'' \<and> jd_recommended_status d = ''suggested''
        \<and> 3 \<le> es_total_count e \<and> 2 \<le> es_distinct_sessions e)
     \<or> (h_status h = ''confirmed'' \<and> jd_recommended_status d = ''active''
        \<and> meets_auto_apply_threshold e b elo (threshold_for (resolve_threshold_key h)))"
  by (auto simp: check_promotion_def Let_def suggest_min_evidence_def suggest_min_sessions_def
      split: if_splits)

definition accepted_by :: "(hypothesis \<Rightarrow> string option) option \<Rightarrow> hypothesis \<Rightarrow> bool" where
  "accepted_by privacy h = (case privacy of None \<Rightarrow> True | Some check \<Rightarrow> check h = None)"

text \<open>The outcomes of an evaluation, in the order in which the rules are tried.\<close>

lemma check_needs_review_None: "check_needs_review h n = None \<Longrightarrow> n < 3"
  by (simp add: check_needs_review_def contradiction_threshold_def split: if_splits)

lemma judge_cases:
  assumes "judge_evaluate fmt prs privacy h e b elo f t n = d"
  obtains
    (archive) "check_archive prs h f t = Some d"
      "h_status h \<notin> {''paused'', ''archived'', ''retired''}" "t \<noteq> []"
  | (review) "check_needs_review h n = Some d" "h_status h \<in> {''confirmed'', ''active''}"
  | (rejected) r where "d = privacy_rejection h r" "\<not> accepted_by privacy h"
  | (promote) "check_promotion fmt h e b elo = Some d" "accepted_by privacy h"
      "h_status h = ''confirmed'' \<Longrightarrow> n < 3"
  | (stay) "d = no_transition h" "accepted_by privacy h"
proof -
  define A where "A = (if \<not> List.member [''paused'', ''archived'', ''retired''] (h_status h)
             then if \<not> h_decay_immune h \<and> t \<noteq> [] then check_archive prs h f t else None else None)"
  define R where "R = (if List.member [''confirmed'', ''active''] (h_status h)
             then check_needs_review h n else None)"
  define P where "P = (case privacy of None \<Rightarrow> None | Some check \<Rightarrow> check h)"
  have d: "d = (case A of Some d \<Rightarrow> d | None \<Rightarrow> case R of Some d \<Rightarrow> d | None \<Rightarrow>
      case P of Some reason \<Rightarrow> privacy_rejection h reason | None \<Rightarrow>
      case check_promotion fmt h e b elo of Some d \<Rightarrow> d | None \<Rightarrow> no_transition h)"
    unfolding A_def R_def P_def using assms by (simp only: judge_evaluate_def Let_def)
  have acc: "accepted_by privacy h \<longleftrightarrow> P = None"
    by (simp add: accepted_by_def P_def split: option.split)
  show ?thesis
  proof (cases A)
    case (Some x)
    then have "check_archive prs h f t = Some d"
        "h_status h \<notin> {''paused'', ''archived'', ''retired''}" "t \<noteq> []"
      using d by (auto simp: A_def split: if_splits)
    then show ?thesis by (rule archive)
  next
    case A: None
    show ?thesis
    proof (cases R)
      case (Some x)
      then have "check_needs_review h n = Some d" "h_status h \<in> {''confirmed'', ''active''}"
        using d A by (auto simp: R_def split: if_splits)
      then show ?thesis by (rule review)
    next
      case R: None
      then have n: "h_status h = ''confirmed'' \<Longrightarrow> n < 3"
        using check_needs_review_None by (auto simp: R_def split: if_splits)
      show ?thesis
      proof (cases P)
        case (Some r)
        then show ?thesis using d A R acc rejected by simp
      next
        case None
        then show ?thesis
          using d A R acc n promote stay by (cases "check_promotion fmt h e b elo") simp_all
      qed
    qed
  qed
qed

section \<open>Properties\<close>

lemma threshold_lower_bounds:
  "2 \<le> at_min_confirmations (threshold_for k)" "1650 \<le> at_min_elo_rating (threshold_for k)"
  "2 \<le> at_min_sessions (threshold_for k)" "65 / 100 \<le> at_min_bkt_confidence (threshold_for k)"
  by (simp_all add: threshold_for_def thresholds_def default_threshold_def)

lemma pf_less_mono: "a \<le> b \<Longrightarrow> \<not> pf_less x (PFin b) \<Longrightarrow> \<not> pf_less x (PFin a)"
  by (cases x) auto

lemma meets_threshold_bounds:
  assumes "meets_auto_apply_threshold e b elo (threshold_for k)"
  shows "2 \<le> es_positive_count e \<and> \<not> pf_less elo (PFin 1650) \<and> 2 \<le> es_distinct_sessions e
    \<and> 65 / 100 \<le> bk_p_knowledge b"
  using assms threshold_lower_bounds [of k] pf_less_mono [OF threshold_lower_bounds(2) [of k], of elo]
  by (auto simp: meets_auto_apply_threshold_def split: if_splits)

lemma privacy_rejection_fields [simp]:
  "jd_recommended_status (privacy_rejection h r) = ''privacy_rejected''"
  "jd_recommended_status (no_transition h) = h_status h"
  "\<not> jd_should_transition (no_transition h)" "jd_should_transition (privacy_rejection h r)"
  by (simp_all add: privacy_rejection_def no_transition_def)

text \<open>
  What the judge may promote. It never recommends \<open>confirmed\<close>, which only the user gives. It
  recommends \<open>suggested\<close> for a candidate with at least three records in two sessions, and
  \<open>active\<close> for a confirmed hypothesis that meets the threshold of its type and scope, at the
  least two confirmations, a rating of 1650, two sessions and a confidence of 0.65, with fewer
  than three recent contradictions; and both only if no privacy filter rejects.
\<close>

theorem judge_promotion_guard:
  assumes "judge_evaluate fmt prs privacy h e b elo f t n = d" and "jd_should_transition d"
  shows "jd_recommended_status d \<noteq> ''confirmed''
    \<and> (jd_recommended_status d = ''suggested'' \<longrightarrow>
         h_status h = ''candidate'' \<and> accepted_by privacy h
         \<and> 3 \<le> es_total_count e \<and> 2 \<le> es_distinct_sessions e)
    \<and> (jd_recommended_status d = ''active'' \<longrightarrow>
         h_status h = ''confirmed'' \<and> accepted_by privacy h \<and> n < 3
         \<and> meets_auto_apply_threshold e b elo (threshold_for (resolve_threshold_key h))
         \<and> 2 \<le> es_positive_count e \<and> \<not> pf_less elo (PFin 1650) \<and> 2 \<le> es_distinct_sessions e
         \<and> 65 / 100 \<le> bk_p_knowledge b)"
  using assms(1)
proof (cases rule: judge_cases)
  case archive
  then show ?thesis using check_archive_SomeD by fastforce
next
  case review
  then show ?thesis using check_needs_review_SomeD by fastforce
next
  case rejected
  then show ?thesis by simp
next
  case promote
  from check_promotion_SomeD [OF promote(1)] promote(2,3) show ?thesis
    using meets_threshold_bounds [of e b elo "resolve_threshold_key h"] by auto
next
  case stay
  with assms(2) show ?thesis by simp
qed

definition sample_evidence :: evidence_summary where
  "sample_evidence =
     \<lparr>es_positive_count = 4, es_negative_count = 0, es_total_count = 4, es_weighted_score = 9 / 10,
      es_bkt_state = default_bkt_state\<lparr>bk_p_knowledge := 9 / 10\<rparr>, es_distinct_sessions = 2,
      es_last_positive_at = None, es_last_negative_at = None\<rparr>"

lemma judge_promotion_guard_witness:
  "h_status sample_hypothesis = ''candidate'' \<and> 3 \<le> es_total_count sample_evidence"
proof -
  let ?d = "judge_evaluate (\<lambda>_ _. []) (\<lambda>_. None) None sample_hypothesis sample_evidence
      default_bkt_state (PFin 1500) default_fsrs_state [] 0"
  have "jd_should_transition ?d" "jd_recommended_status ?d = ''suggested''"
    by (simp_all add: judge_evaluate_def check_promotion_def sample_hypothesis_def
        default_hypothesis_def sample_evidence_def suggest_min_evidence_def suggest_min_sessions_def)
  then show ?thesis using judge_promotion_guard [OF refl, of "\<lambda>_ _. []"] by blast
qed

lemma allowed_targets_simps:
  "allowed_targets ''candidate'' = [''suggested'', ''archived'', ''retired'']"
  "allowed_targets ''suggested'' = [''confirmed'', ''archived'', ''needs_review'']"
  "allowed_targets ''confirmed'' = [''active'', ''paused'', ''needs_review'', ''archived'']"
  "allowed_targets ''active'' = [''paused'', ''needs_review'']"
  "allowed_targets ''needs_review'' = [''confirmed'', ''archived'', ''retired'']"
  "allowed_targets ''paused'' = [''active'', ''archived'', ''retired'']"
  "allowed_targets ''archived'' = [''retired'']"
  "allowed_targets ''retired'' = []"
  by (simp_all add: allowed_targets_def allowed_transitions_def)

lemma allowed_statuses_set:
  "set allowed_statuses = {''candidate'', ''suggested'', ''confirmed'', ''active'',
     ''needs_review'', ''paused'', ''archived'', ''retired''}"
  by (auto simp: allowed_statuses_def allowed_transitions_def)

lemma archive_edge:
  assumes "s \<in> set allowed_statuses" and "s \<notin> {''paused'', ''archived'', ''retired''}"
  shows "''archived'' \<in> set (allowed_targets s) \<longleftrightarrow> s \<noteq> ''active''"
  using assms unfolding allowed_statuses_set
  by (elim insertE emptyE) (simp_all add: allowed_targets_simps)

text \<open>
  The judge and the status machine of the storage. For a hypothesis that is stored with a
  valid status, a recommended transition is accepted by \<open>transition_hypothesis_status\<close> with
  two exceptions: the status \<open>privacy_rejected\<close>, which the storage does not know, and
  the archiving of an active hypothesis, for which the transition table has no edge.
\<close>

theorem judge_follows_status_machine:
  assumes "hypothesis_reachable whole db" and "get_hypothesis db i = Inr (Some h)" and "py_nonblank i"
    and "List.member allowed_statuses (h_status h)"
    and "judge_evaluate fmt prs privacy h e b elo f t n = d" and "jd_should_transition d"
  shows "is_ok (transition_hypothesis_status db i (jd_recommended_status d) False) \<longleftrightarrow>
     jd_recommended_status d \<noteq> ''privacy_rejected''
     \<and> \<not> (h_status h = ''active'' \<and> jd_recommended_status d = ''archived'')"
proof -
  have ok: "is_ok (transition_hypothesis_status db i s False) \<longleftrightarrow>
      s \<in> set allowed_statuses \<and> s \<in> set (allowed_targets (h_status h))" for s
    using assms(2,3) by (simp add: transition_hypothesis_status_def)
  have st: "h_status h \<in> set allowed_statuses" using assms(4) by simp
  show ?thesis
    using assms(5)
  proof (cases rule: judge_cases)
    case archive
    then have "jd_recommended_status d = ''archived''" using check_archive_SomeD by blast
    then show ?thesis
      unfolding ok using archive_edge [OF st archive(2)] by (simp add: allowed_statuses_set)
  next
    case review
    then have "jd_recommended_status d = ''needs_review''" using check_needs_review_SomeD by blast
    then show ?thesis
      unfolding ok using review(2) by (auto simp: allowed_statuses_set allowed_targets_simps)
  next
    case rejected
    then show ?thesis
      unfolding ok by (simp add: allowed_statuses_set)
  next
    case promote
    from check_promotion_SomeD [OF promote(1)] show ?thesis
      unfolding ok by (auto simp: allowed_statuses_set allowed_targets_simps)
  next
    case stay
    with assms(6) show ?thesis by simp
  qed
qed

lemma judge_follows_status_machine_witness:
  "is_ok (transition_hypothesis_status (sample_db ''candidate'') ''hyp_1'' ''suggested'' False)"
proof -
  let ?h = "sample_hypothesis\<lparr>h_status := ''candidate''\<rparr>"
  let ?d = "judge_evaluate (\<lambda>_ _. []) (\<lambda>_. None) None ?h sample_evidence
      default_bkt_state (PFin 1500) default_fsrs_state [] 0"
  have get: "get_hypothesis (sample_db ''candidate'') ''hyp_1'' = Inr (Some ?h)"
    by (simp add: get_hypothesis_def sample_db_row) (simp add: sample_hypothesis_def default_hypothesis_def)
  have d: "jd_should_transition ?d" "jd_recommended_status ?d = ''suggested''"
    by (simp_all add: judge_evaluate_def check_promotion_def sample_hypothesis_def
        default_hypothesis_def sample_evidence_def suggest_min_evidence_def suggest_min_sessions_def)
  have "py_nonblank ''hyp_1''" by (simp add: py_nonblank_def py_isspace_def)
  moreover have "List.member allowed_statuses (h_status ?h)"
    by (simp add: allowed_statuses_def allowed_transitions_def)
  ultimately show ?thesis
    using judge_follows_status_machine [OF sample_db_reachable get _ _ refl d(1)] d(2) by simp
qed

text \<open>More evidence never takes an earned promotion away.\<close>

lemma threshold_monotone:
  assumes "meets_auto_apply_threshold e b elo th"
    and "es_positive_count e \<le> es_positive_count e'"
    and "es_distinct_sessions e \<le> es_distinct_sessions e'"
    and "bk_p_knowledge b \<le> bk_p_knowledge b'"
  shows "meets_auto_apply_threshold e' b' elo th"
  using assms by (auto simp: meets_auto_apply_threshold_def split: if_splits)

text \<open>The refused recommendations.\<close>

lemma active_is_not_archived:
  assumes "get_hypothesis db i = Inr (Some h)" and "py_nonblank i" and "h_status h = ''active''"
  shows "transition_hypothesis_status db i ''archived'' False =
           Inl (InvalidStatusTransition i ''active'' ''archived'')"
  using assms
  by (simp add: transition_hypothesis_status_def allowed_statuses_def allowed_transitions_def
      allowed_targets_def)

lemma privacy_rejected_is_no_status:
  "\<not> is_ok (transition_hypothesis_status db i ''privacy_rejected'' force)"
  by (simp add: transition_hypothesis_status_def allowed_statuses_def allowed_transitions_def)

end
