(* ===== verification/EloRating.thy ===== *)
theory EloRating
  imports PyJson Complex_Main
begin

text \<open>
  \<open>elo_rating.py\<close> over the real numbers: expected outcome with its clamp, the update of a pattern and
  of a request, the confidence level. \<open>math.pow(10.0, x)\<close> is \<open>10 powr x\<close>.
\<close>

definition initial_rating :: real where "initial_rating = 1500"
definition default_k_factor :: real where "default_k_factor = 32"
definition scale_factor :: real where "scale_factor = 400"

datatype outcome = pattern_wins | draw | pattern_loses

fun outcome_score :: "outcome \<Rightarrow> real" where
  "outcome_score pattern_wins = 1"
| "outcome_score draw = 1 / 2"
| "outcome_score pattern_loses = 0"

record elo_update =
  eu_pattern_id :: string
  eu_old_rating :: real
  eu_new_rating :: real
  eu_request_difficulty :: real
  eu_outcome :: outcome
  eu_k_factor :: real

definition expected_outcome :: "real \<Rightarrow> real \<Rightarrow> real" where
  "expected_outcome pattern_rating request_difficulty =
     (let x = (request_difficulty - pattern_rating) / scale_factor;
          x' = max (- 10) (min 10 x)
      in 1 / (1 + 10 powr x'))"

definition update_elo :: "real \<Rightarrow> real \<Rightarrow> outcome \<Rightarrow> real \<Rightarrow> real" where
  "update_elo pattern_rating request_difficulty result k_factor =
     (let expected = expected_outcome pattern_rating request_difficulty;
          actual = outcome_score result
      in pattern_rating + k_factor * (actual - expected))"

definition compute_elo_update :: "string \<Rightarrow> real \<Rightarrow> real \<Rightarrow> outcome \<Rightarrow> real \<Rightarrow> elo_update" where
  "compute_elo_update pattern_id pattern_rating request_difficulty result k_factor =
     \<lparr>eu_pattern_id = pattern_id, eu_old_rating = pattern_rating,
      eu_new_rating = update_elo pattern_rating request_difficulty result k_factor,
      eu_request_difficulty = request_difficulty, eu_outcome = result, eu_k_factor = k_factor\<rparr>"

fun inverse_outcome :: "outcome \<Rightarrow> outcome" where
  "inverse_outcome pattern_wins = pattern_loses"
| "inverse_outcome pattern_loses = pattern_wins"
| "inverse_outcome draw = draw"

definition update_difficulty :: "real \<Rightarrow> real \<Rightarrow> outcome \<Rightarrow> real \<Rightarrow> real" where
  "update_difficulty current_difficulty pattern_rating result k_factor =
     update_elo current_difficulty pattern_rating (inverse_outcome result) k_factor"

definition rating_confidence_level :: "real \<Rightarrow> string" where
  "rating_confidence_level rating =
     (if 1800 \<le> rating then ''high''
      else if 1650 \<le> rating then ''medium''
      else if 1500 \<le> rating then ''neutral''
      else if 1350 \<le> rating then ''low''
      else ''very_low'')"

section \<open>The expected outcome\<close>

lemma expected_bounds: "0 < expected_outcome r d" "expected_outcome r d < 1"
  by (simp_all add: expected_outcome_def Let_def add_pos_pos)

lemma logistic_sum: "1 / (1 + 10 powr x) + 1 / (1 + 10 powr (- x)) = (1 :: real)"
proof -
  have "1 / (1 + p) + 1 / (1 + 1 / p) = 1" if "0 < p" for p :: real
    using that by (simp add: divide_simps) (simp add: algebra_simps)
  from this [of "10 powr x"] show ?thesis by (simp add: powr_minus_divide)
qed

lemma expected_symmetric: "expected_outcome r d + expected_outcome d r = 1"
proof -
  let ?x = "(d - r) / scale_factor"
  have neg: "(r - d) / scale_factor = - ?x" by (simp add: scale_factor_def field_simps)
  have "max (- 10) (min 10 (- ?x)) = - max (- 10) (min 10 ?x)" by (auto simp: max_def min_def)
  then show ?thesis
    using logistic_sum [of "max (- 10) (min 10 ?x)"] unfolding expected_outcome_def Let_def neg by simp
qed

lemma expected_mono: "r \<le> r' \<Longrightarrow> expected_outcome r d \<le> expected_outcome r' d"
  unfolding expected_outcome_def Let_def scale_factor_def
  by (intro divide_left_mono add_left_mono powr_mono mult_pos_pos)
    (auto simp: max_def min_def divide_right_mono add_pos_pos)

lemma score_inverse: "outcome_score (inverse_outcome o') = 1 - outcome_score o'"
  by (cases o') auto

section \<open>Matches\<close>

text \<open>One match updates the pattern and the request from the same two ratings.\<close>

definition play :: "real \<times> real \<Rightarrow> outcome \<times> real \<Rightarrow> real \<times> real" where
  "play s m = (update_elo (fst s) (snd s) (fst m) (snd m), update_difficulty (snd s) (fst s) (fst m) (snd m))"

lemma play_sum: "fst (play s m) + snd (play s m) = fst s + snd s"
proof -
  have "expected_outcome (snd s) (fst s) = 1 - expected_outcome (fst s) (snd s)"
    using expected_symmetric [of "fst s" "snd s"] by simp
  then show ?thesis
    unfolding play_def update_difficulty_def update_elo_def Let_def score_inverse fst_conv snd_conv
    by (simp only:) (simp add: algebra_simps)
qed

lemma play_bound:
  assumes "0 < snd m"
  shows "\<bar>fst (play s m) - fst s\<bar> < snd m"
proof -
  have "\<bar>outcome_score (fst m) - expected_outcome (fst s) (snd s)\<bar> < 1"
    using expected_bounds [of "fst s" "snd s"] by (cases "fst m") auto
  then have "\<bar>snd m\<bar> * \<bar>outcome_score (fst m) - expected_outcome (fst s) (snd s)\<bar> < \<bar>snd m\<bar> * 1"
    using assms by (intro mult_strict_left_mono) auto
  then show ?thesis
    using assms by (simp add: play_def update_elo_def Let_def abs_mult)
qed

text \<open>
  The rating is a zero-sum game. Over any sequence of matches of a pattern against a request, with
  any positive K factors, the sum of both ratings never changes, the pattern gains at most what
  the factors add up to (strictly less once a match was played), a win raises its rating,
  a loss lowers it, and losing against an easier request costs at least as much.
\<close>

theorem elo_is_zero_sum:
  assumes "\<forall>m \<in> set ms. 0 < snd m"
  shows "fst (foldl play s ms) + snd (foldl play s ms) = fst s + snd s
    \<and> \<bar>fst (foldl play s ms) - fst s\<bar> \<le> sum_list (map snd ms)
    \<and> (\<forall>k > 0. update_elo r d pattern_loses k < r \<and> r < update_elo r d pattern_wins k)
    \<and> (\<forall>k > 0. \<forall>d' \<le> d. r - update_elo r d pattern_loses k \<le> r - update_elo r d' pattern_loses k)"
proof (intro conjI)
  show "fst (foldl play s ms) + snd (foldl play s ms) = fst s + snd s"
    by (induction ms arbitrary: s) (simp_all add: play_sum)
  show "\<bar>fst (foldl play s ms) - fst s\<bar> \<le> sum_list (map snd ms)"
    using assms
  proof (induction ms arbitrary: s)
    case (Cons m ms)
    have "\<bar>fst (foldl play (play s m) ms) - fst (play s m)\<bar> \<le> sum_list (map snd ms)"
      using Cons by simp
    moreover have "\<bar>fst (play s m) - fst s\<bar> < snd m" using Cons(2) by (intro play_bound) simp
    ultimately show ?case by simp
  qed simp
  show "\<forall>k > 0. update_elo r d pattern_loses k < r \<and> r < update_elo r d pattern_wins k"
    using expected_bounds [of r d] by (simp add: update_elo_def Let_def)
  have sym: "expected_outcome r e = 1 - expected_outcome e r" for e
    using expected_symmetric [of r e] by simp
  have "expected_outcome r d \<le> expected_outcome r d'" if "d' \<le> d" for d'
    using expected_mono [OF that, of r] sym [of d] sym [of d'] by simp
  then show "\<forall>k > 0. \<forall>d' \<le> d. r - update_elo r d pattern_loses k \<le> r - update_elo r d' pattern_loses k"
    by (simp add: update_elo_def Let_def)
qed

theorem elo_is_zero_sum_witness:
  "fst (foldl play (1500, 1500) [(pattern_wins, 32), (pattern_loses, 32)])
     + snd (foldl play (1500, 1500) [(pattern_wins, 32), (pattern_loses, 32)]) = 3000"
proof -
  have h: "\<forall>m \<in> set [(pattern_wins, 32), (pattern_loses, 32 :: real)]. 0 < snd m" by simp
  from elo_is_zero_sum [OF h, of "(1500, 1500)" 0 0] show ?thesis by simp
qed

text \<open>
  The clamp keeps the expected outcome away from 0 and 1: against a request ten scale factors
  stronger the pattern still loses a little rating with every loss.
\<close>

lemma expected_at_clamp: "4000 \<le> d - r \<Longrightarrow> expected_outcome r d = 1 / (1 + 10 ^ 10)"
  by (simp add: expected_outcome_def Let_def scale_factor_def min_def max_def powr_realpow)

end
