(* ===== verification/EventNormalizer.thy ===== *)
theory EventNormalizer
  imports PyRegex PyJson ContractDigest
begin

text \<open>
  \<open>event_normalizer.py\<close>: the first layer of the learning pipeline, which turns a message into a
  structured event by counting the matches of tables of patterns. Ratios of counts are compared
  exactly; the constants 0.15 and 0.4 are the doubles nearest to 3/20 and 2/5, and a ratio of small
  counts is above the double exactly when it is above the fraction. SHA-256, the new event id and the
  time are arguments.
\<close>

section \<open>Pattern tables\<close>

text \<open>\<open>(?:\<close>umlaut\<open>|ae)\<close> and \<open>(?:\<close>umlaut\<open>|ue)\<close>, and a word with an optional space inside.\<close>

definition umlaut_a :: regex where "umlaut_a = Alt (ichar (CHR 0xE4)) (iword ''ae'')"
definition umlaut_u :: regex where "umlaut_u = Alt (ichar (CHR 0xFC)) (iword ''ue'')"

definition spaced :: "string \<Rightarrow> string \<Rightarrow> regex" where
  "spaced a b = seq_all [iword a, optional py_isspace, iword b]"

definition intent_patterns :: "(string \<times> regex) list" where
  "intent_patterns =
     [(''create_code'', iwords [''schreib'', ''write'', ''code'', ''implement'', ''program'', ''script'',
      ''function'', ''class'', ''bug'', ''fix'', ''debug'', ''refactor'']),
      (''create_text'', iwords [''schreib'', ''write'', ''text'', ''artikel'', ''article'', ''blog'', ''post'',
      ''essay'', ''brief'', ''letter'', ''mail'', ''email'']),
      (''create_video_concept'', iwords [''dreh'', ''video'', ''reel'', ''tiktok'', ''youtube'', ''concept'', ''konzept'',
      ''storyboard'', ''skript'', ''script'']),
      (''create_ad_copy'', alt_all [spaced ''ad'' ''copy'',
         iwords [''anzeige'', ''werbung'', ''headline'', ''hook'', ''cta'', ''retarget'', ''funnel'',
      ''campaign'']]),
      (''analyze'', iwords [''analy'', ''research'', ''recherch'', ''vergleich'', ''compare'', ''evaluat'',
      ''assess'', ''review'', ''audit'']),
      (''explain'', alt_all [seq_all [iword ''erkl'', umlaut_a, iword ''r''], iword ''explain'',
         seq_all [iword ''what'', space_plus, iword ''is''], seq_all [iword ''was'', space_plus, iword ''ist''],
         seq_all [iword ''how'', space_plus, iword ''does''],
         seq_all [iword ''wie'', space_plus, iword ''funktionier''], iword ''warum'', iword ''why'']),
      (''summarize'', alt_all [iword ''zusammenfass'',
         seq_all [iword ''fass'', optional (\<lambda>c. char_lower c = CHR ''e''), word_boundary],
         seq_all [iword ''zusammen'', word_boundary],
         iwords [''summarize'', ''summary'', ''tldr'', ''tl;dr''],
         seq_all [iword ''k'', umlaut_u, iword ''rz''], iword ''shorten'', iword ''condense'']),
      (''translate'', alt_all [seq_all [umlaut_u, iword ''bersetz''], iword ''translate'', iword ''translation'',
         seq_all [iword ''in'', optional (\<lambda>c. char_lower c = CHR ''s''), space_plus,
           iwords [''deutsch'', ''englis'']],
         seq_all [iword ''to'', space_plus, iwords [''german'', ''english'']]]),
      (''plan'', iwords [''plan'', ''strateg'', ''roadmap'', ''timeline'', ''schedule'', ''planung'',
      ''zeitplan'']),
      (''format'', iwords [''format'', ''struktur'', ''structure'', ''tabelle'', ''table'', ''markdown'',
      ''json'', ''csv'', ''html''])]"

definition domain_patterns :: "(string \<times> regex) list" where
  "domain_patterns =
     [(''marketing'', alt_all [iwords [''marketing'', ''ad'', ''campaign'', ''funnel'', ''retarget'', ''ctr'', ''roas'',
      ''conversion''],
         spaced ''landing'' ''page'', iword ''seo'', iword ''sem'']),
      (''development'', iwords [''code'', ''python'', ''javascript'', ''typescript'', ''react'', ''api'',
      ''backend'', ''frontend'', ''database'', ''sql'', ''git'', ''docker'']),
      (''finance'', iwords [''finance'', ''finanz'', ''steuer'', ''tax'', ''buchhalt'', ''accounting'',
      ''bilanz'', ''balance'', ''cashflow'', ''budget'', ''rechnung'', ''invoice'']),
      (''business'', alt_all [iword ''business'', seq_all [iword ''gesch'', umlaut_a, iword ''ft''],
         iwords [''revenue'', ''umsatz'', ''gewinn'', ''profit'', ''client'', ''kunde'', ''vertrag'']]),
      (''design'', iwords [''design'', ''figma'', ''layout'', ''ui'', ''ux'', ''wireframe'', ''mockup'',
      ''brand'', ''logo'', ''visual'', ''farbe'', ''color'']),
      (''content'', alt_all [iwords [''content'', ''blog'', ''artikel'', ''article''],
         spaced ''social'' ''media'', iwords [''post'', ''caption'', ''story'', ''reel'', ''newsletter'']]),
      (''data'', iwords [''data'', ''daten'', ''analytics'', ''tracking'', ''report'', ''dashboard'',
      ''metric'', ''kpi'', ''spreadsheet'']),
      (''legal'', iwords [''legal'', ''recht'', ''gesetz'', ''law'', ''vertrag'', ''contract'', ''gdpr'',
      ''dsgvo'', ''compliance'', ''datenschutz'', ''privacy''])]"

definition format_patterns :: "(string \<times> regex) list" where
  "format_patterns =
     [(''code'', iwords [''code'', ''script'', ''function'', ''class'', ''snippet'',
      [CHR 0x60] @ [CHR 0x60] @ [CHR 0x60]]),
      (''table'', iwords [''tabelle'', ''table'', ''csv'', ''spreadsheet'', ''matrix'']),
      (''list'', iwords [''liste'', ''list'', ''bullet'', ''aufz'' @ [CHR 0xE4] @ ''hlung'', ''punkt'']),
      (''script'', iwords [''skript'', ''script'', ''drehbuch'', ''storyboard'']),
      (''email'', iwords [''mail'', ''email'', ''e-mail'', ''brief'', ''letter'', ''nachricht'']),
      (''report'', iwords [''report'', ''bericht'', ''analyse'', ''analysis'', ''audit'', ''review'']),
      (''json'', iwords [''json'', ''yaml'', ''xml'', ''config'', ''schema'']),
      (''html'', alt_all [iwords [''html'', ''webpage'', ''website''], spaced ''landing'' ''page'']),
      (''markdown'', iwords [''markdown'', ''md'', ''readme'', ''documentation'', ''doku'']),
      (''plain_text'', iwords [''text'', ''plain'', ''einfach'', ''simple''])]"

definition correction_keywords :: regex where
  "correction_keywords =
     seq_all [word_boundary,
       alt_all [iwords [''nein'', ''no'', ''falsch'', ''wrong'', ''anders'', ''different''],
         seq_all [iword ''nicht'', space_plus, iword ''so''],
         seq_all [iword ''not'', space_plus, iword ''like''],
         iwords [''korrigier'', ''correct'', [CHR 0xE4] @ ''nder'', ''change'', ''stattdessen'',
      ''instead'', ''eher'', ''rather'', ''besser'', ''better''],
         seq_all [iword ''doch'', space_plus, iword ''nicht''],
         seq_all [iword ''actually'', space_plus, iword ''not'']],
       word_boundary]"

definition duration_pattern :: regex where
  "duration_pattern =
     seq_all [Group 1 digits_plus, space_star,
       Group 2 (alt_all [iwords [''sekund'', ''second'', ''sec''], seq_all [iword ''s'', word_boundary],
         iword ''minut'', seq_all [iword ''min'', word_boundary], iword ''stund'', iword ''hour'',
         seq_all [iword ''h'', word_boundary]])]"

definition length_pattern :: regex where
  "length_pattern =
     seq_all [Group 1 digits_plus, space_star,
       Group 2 (iwords [''wort'', ''word'', ''zeichen'', ''char'', ''zeile'', ''line'', ''satz'',
      ''sentence'', ''absatz'', ''paragraph'', ''seite'', ''page'', ''token''])]"

definition funnel_pattern :: regex where
  "funnel_pattern =
     alt_all [iwords [''tofu'', ''mofu'', ''bofu''],
       seq_all [iword ''top'', space_star, iword ''of'', space_star, iword ''funnel''],
       seq_all [iword ''middle'', space_star, iword ''of'', space_star, iword ''funnel''],
       seq_all [iword ''bottom'', space_star, iword ''of'', space_star, iword ''funnel''],
       iwords [''awareness'', ''consideration'', ''decision'', ''retarget'', ''conversion'']]"

definition audience_pattern :: regex where
  "audience_pattern =
     alt_all [iword ''zielgruppe'', seq_all [iword ''target'', space_star, iword ''audience''],
       iwords [''persona'', ''segment'', ''alter''], seq_all [iword ''age'', space_star, iword ''group''],
       iwords [''b2b'', ''b2c'', ''enterprise'', ''startup'', ''freelancer'', ''consumer'']]"

definition german_indicators :: regex where
  "german_indicators =
     Alt (Cls (\<lambda>c. char_lower c \<in> {CHR 0xE4, CHR 0xF6, CHR 0xFC, CHR 0xDF}))
       (seq_all [word_boundary, iwords [''und'', ''oder'', ''aber'', ''nicht'', ''ein'', ''eine'', ''der'', ''die'', ''das'',
      ''ist'', ''sind'', ''hat'', ''haben'', ''f'' @ [CHR 0xFC] @ ''r'',
      [CHR 0xFC] @ ''ber'', ''nach'', ''mit'', ''bei'', ''von'', ''zu'', ''auf'', ''wie'',
      ''was'', ''wer'', ''wo'', ''wann'', ''warum'', ''bitte'', ''danke''],
          word_boundary])"

section \<open>Language\<close>

definition detect_language :: "string \<Rightarrow> string" where
  "detect_language s_text =
     (let german_matches = findall_count german_indicators s_text;
          words = length (py_split s_text)
      in if words = 0 then ''en''
         else if 3 * max words 1 < 20 * german_matches then ''de''
         else ''en'')"

section \<open>Events\<close>

record normalized_event =
  ev_event_id :: string
  ev_user_id :: int
  ev_timestamp :: string
  ev_raw_text :: string
  ev_intent :: string
  ev_domain :: string
  ev_format_type :: string
  ev_constraints :: "(string \<times> string) list"
  ev_scope :: dict
  ev_language :: string
  ev_correction_keywords_present :: bool
  ev_is_re_formulation :: bool
  ev_fingerprint_hash :: string

definition constraints_json :: "(string \<times> string) list \<Rightarrow> json" where
  "constraints_json c = JObj (map (map_prod id JStr) c)"

definition event_to_dict :: "normalized_event \<Rightarrow> json" where
  "event_to_dict e = JObj
     [(''event_id'', JStr (ev_event_id e)), (''user_id'', JInt (ev_user_id e)),
      (''timestamp'', JStr (ev_timestamp e)), (''raw_text'', JStr (ev_raw_text e)),
      (''intent'', JStr (ev_intent e)), (''domain'', JStr (ev_domain e)),
      (''format_type'', JStr (ev_format_type e)), (''constraints'', constraints_json (ev_constraints e)),
      (''scope'', JObj (ev_scope e)), (''language'', JStr (ev_language e)),
      (''correction_keywords_present'', JBool (ev_correction_keywords_present e)),
      (''is_re_formulation'', JBool (ev_is_re_formulation e)),
      (''fingerprint_hash'', JStr (ev_fingerprint_hash e))]"

section \<open>Extraction\<close>

fun classify_loop :: "string \<Rightarrow> (string \<times> regex) list \<Rightarrow> string \<Rightarrow> nat \<Rightarrow> string" where
  "classify_loop s_text [] best_label best_count = best_label"
| "classify_loop s_text ((label, pattern) # patterns) best_label best_count =
     (let count = findall_count pattern s_text
      in if best_count < count then classify_loop s_text patterns label count
         else classify_loop s_text patterns best_label best_count)"

definition classify_by_patterns :: "string \<Rightarrow> (string \<times> regex) list \<Rightarrow> string \<Rightarrow> string" where
  "classify_by_patterns s_text patterns dflt = classify_loop s_text patterns dflt 0"

definition starts_with_any :: "string \<Rightarrow> string list \<Rightarrow> bool" where
  "starts_with_any s ps = list_ex (py_startswith s) ps"

definition duration_constraint :: "string \<Rightarrow> (string \<times> string) list" where
  "duration_constraint s_text =
     (case regex_search duration_pattern s_text of
        None \<Rightarrow> []
      | Some m \<Rightarrow>
          let v = regex_group m 1; unit_raw = py_lower (regex_group m 2)
          in if starts_with_any unit_raw [''sekund'', ''second'', ''sec'', ''s''] then [(''duration'', v @ ''s'')]
             else if starts_with_any unit_raw [''minut'', ''min''] then [(''duration'', v @ ''min'')]
             else if starts_with_any unit_raw [''stund'', ''hour'', ''h''] then [(''duration'', v @ ''h'')]
             else [])"

definition unit_map :: "(string \<times> string) list" where
  "unit_map =
     [(''wort'', ''words''), (''word'', ''words''), (''zeichen'', ''chars''), (''char'', ''chars''),
      (''zeile'', ''lines''), (''line'', ''lines''), (''satz'', ''sentences''),
      (''sentence'', ''sentences''), (''absatz'', ''paragraphs''), (''paragraph'', ''paragraphs''),
      (''seite'', ''pages''), (''page'', ''pages''), (''token'', ''tokens'')]"

definition length_constraint :: "string \<Rightarrow> (string \<times> string) list" where
  "length_constraint s_text =
     (case regex_search length_pattern s_text of
        None \<Rightarrow> []
      | Some m \<Rightarrow>
          (case find (\<lambda>(key, _). py_startswith (py_lower (regex_group m 2)) key) unit_map of
             None \<Rightarrow> []
           | Some (_, normalized) \<Rightarrow> [(''length'', regex_group m 1 @ '' '' @ normalized)]))"

definition funnel_map :: "(string \<times> string) list" where
  "funnel_map =
     [(''tofu'', ''awareness''), (''top of funnel'', ''awareness''), (''awareness'', ''awareness''),
      (''mofu'', ''consideration''), (''middle of funnel'', ''consideration''),
      (''consideration'', ''consideration''), (''bofu'', ''decision''),
      (''bottom of funnel'', ''decision''), (''decision'', ''decision''),
      (''retarget'', ''retargeting''), (''conversion'', ''conversion'')]"

definition funnel_constraint :: "string \<Rightarrow> (string \<times> string) list" where
  "funnel_constraint s_text =
     (case regex_search funnel_pattern s_text of
        None \<Rightarrow> []
      | Some m \<Rightarrow>
          (case find (\<lambda>(key, _). py_contains key (py_strip (py_lower (regex_group m 0)))) funnel_map of
             None \<Rightarrow> []
           | Some (_, normalized) \<Rightarrow> [(''funnel'', normalized)]))"

definition audience_constraint :: "string \<Rightarrow> (string \<times> string) list" where
  "audience_constraint s_text =
     (case regex_search audience_pattern s_text of
        None \<Rightarrow> []
      | Some m \<Rightarrow> [(''audience'', py_lower (py_strip (regex_group m 0)))])"

definition extract_constraints :: "string \<Rightarrow> (string \<times> string) list" where
  "extract_constraints s_text =
     duration_constraint s_text @ length_constraint s_text @ funnel_constraint s_text
       @ audience_constraint s_text"

definition compute_fingerprint ::
    "platform \<Rightarrow> string \<Rightarrow> string \<Rightarrow> string \<Rightarrow> (string \<times> string) list \<Rightarrow> dict \<Rightarrow> string \<Rightarrow> string" where
  "compute_fingerprint pf intent domain format_type constraints scope language =
     pf_sha256_hex pf (dumps_sorted (pf_float_repr pf) (JObj
       [(''intent'', JStr intent), (''domain'', JStr domain), (''format_type'', JStr format_type),
        (''constraints'', constraints_json constraints), (''scope'', JObj scope),
        (''language'', JStr language)]))"

definition is_reformulation :: "string \<Rightarrow> string option \<Rightarrow> bool" where
  "is_reformulation s_text previous_text =
     (case previous_text of
        None \<Rightarrow> False
      | Some prev \<Rightarrow>
          if \<not> py_nonblank prev then False
          else let prev_words = set (py_split (py_lower prev)); curr_words = set (py_split (py_lower s_text))
               in prev_words \<noteq> {} \<and> curr_words \<noteq> {}
                  \<and> 0 < card (prev_words \<union> curr_words)
                  \<and> 2 * card (prev_words \<union> curr_words) < 5 * card (prev_words \<inter> curr_words))"

definition normalize_event ::
    "platform \<Rightarrow> string \<Rightarrow> string \<Rightarrow> string \<Rightarrow> int \<Rightarrow> dict option \<Rightarrow> string option \<Rightarrow> string option
       \<Rightarrow> normalized_event" where
  "normalize_event pf hex now s_text user_id scope previous_text timestamp =
     (let sc = (case scope of None \<Rightarrow> [] | Some d \<Rightarrow> d);
          ts = (case timestamp of None \<Rightarrow> now | Some t \<Rightarrow> t);
          intent = classify_by_patterns s_text intent_patterns ''general'';
          domain = classify_by_patterns s_text domain_patterns ''general'';
          format_type = classify_by_patterns s_text format_patterns ''general'';
          constraints = extract_constraints s_text;
          language = detect_language s_text
      in \<lparr>ev_event_id = ''evt_'' @ take 16 hex, ev_user_id = user_id, ev_timestamp = ts,
          ev_raw_text = s_text, ev_intent = intent, ev_domain = domain, ev_format_type = format_type,
          ev_constraints = constraints, ev_scope = sc, ev_language = language,
          ev_correction_keywords_present = found correction_keywords s_text,
          ev_is_re_formulation = is_reformulation s_text previous_text,
          ev_fingerprint_hash = compute_fingerprint pf intent domain format_type constraints sc language\<rparr>)"

section \<open>Properties\<close>

lemma classify_loop_spec:
  "\<exists>i \<le> length ps. classify_loop t ps b n = (case i of 0 \<Rightarrow> b | Suc k \<Rightarrow> fst (ps ! k))
     \<and> (\<forall>j < length ps. findall_count (snd (ps ! j)) t
          \<le> (case i of 0 \<Rightarrow> n | Suc k \<Rightarrow> findall_count (snd (ps ! k)) t))
     \<and> (\<forall>k. i = Suc k \<longrightarrow> n < findall_count (snd (ps ! k)) t
          \<and> (\<forall>j < k. findall_count (snd (ps ! j)) t < findall_count (snd (ps ! k)) t))"
proof (induction ps arbitrary: b n)
  case Nil
  show ?case by simp
next
  case (Cons p ps)
  obtain l r where p: "p = (l, r)" by (cases p)
  let ?c = "findall_count r t"
  show ?case
  proof (cases "n < ?c")
    case True
    obtain i where i: "i \<le> length ps"
      "classify_loop t ps l ?c = (case i of 0 \<Rightarrow> l | Suc k \<Rightarrow> fst (ps ! k))"
      "\<forall>j < length ps. findall_count (snd (ps ! j)) t
          \<le> (case i of 0 \<Rightarrow> ?c | Suc k \<Rightarrow> findall_count (snd (ps ! k)) t)"
      "\<forall>k. i = Suc k \<longrightarrow> ?c < findall_count (snd (ps ! k)) t
          \<and> (\<forall>j < k. findall_count (snd (ps ! j)) t < findall_count (snd (ps ! k)) t)"
      using Cons [of l ?c] by blast
    show ?thesis
      by (rule exI [of _ "Suc i"]) (use i True p in \<open>auto simp: Let_def less_Suc_eq_0_disj split: nat.splits\<close>)
  next
    case False
    obtain i where i: "i \<le> length ps"
      "classify_loop t ps b n = (case i of 0 \<Rightarrow> b | Suc k \<Rightarrow> fst (ps ! k))"
      "\<forall>j < length ps. findall_count (snd (ps ! j)) t
          \<le> (case i of 0 \<Rightarrow> n | Suc k \<Rightarrow> findall_count (snd (ps ! k)) t)"
      "\<forall>k. i = Suc k \<longrightarrow> n < findall_count (snd (ps ! k)) t
          \<and> (\<forall>j < k. findall_count (snd (ps ! j)) t < findall_count (snd (ps ! k)) t)"
      using Cons [of b n] by blast
    show ?thesis
      by (rule exI [of _ "case i of 0 \<Rightarrow> 0 | Suc k \<Rightarrow> Suc (Suc k)"])
        (use i False p in \<open>auto simp: Let_def less_Suc_eq_0_disj split: nat.splits\<close>)
  qed
qed

lemma constraint_keys:
  "set (map fst (extract_constraints t)) \<subseteq> {''duration'', ''length'', ''funnel'', ''audience''}"
  "distinct (map fst (extract_constraints t))"
  by (auto simp: extract_constraints_def duration_constraint_def length_constraint_def
      funnel_constraint_def audience_constraint_def Let_def split: option.split)

text \<open>The label of the first pattern with the most matches, or \<open>general\<close> when nothing matches.\<close>

definition best_label :: "string \<Rightarrow> (string \<times> regex) list \<Rightarrow> string \<Rightarrow> bool" where
  "best_label t ps l \<longleftrightarrow>
     l = ''general'' \<and> (\<forall>p \<in> set ps. findall_count (snd p) t = 0)
     \<or> (\<exists>k < length ps. l = fst (ps ! k) \<and> 0 < findall_count (snd (ps ! k)) t
          \<and> (\<forall>j < length ps. findall_count (snd (ps ! j)) t \<le> findall_count (snd (ps ! k)) t)
          \<and> (\<forall>j < k. findall_count (snd (ps ! j)) t < findall_count (snd (ps ! k)) t))"

lemma classify_best: "best_label t ps (classify_by_patterns t ps ''general'')"
proof -
  obtain i where i: "i \<le> length ps"
    "classify_by_patterns t ps ''general'' = (case i of 0 \<Rightarrow> ''general'' | Suc k \<Rightarrow> fst (ps ! k))"
    "\<forall>j < length ps. findall_count (snd (ps ! j)) t
       \<le> (case i of 0 \<Rightarrow> 0 | Suc k \<Rightarrow> findall_count (snd (ps ! k)) t)"
    "\<forall>k. i = Suc k \<longrightarrow> 0 < findall_count (snd (ps ! k)) t
       \<and> (\<forall>j < k. findall_count (snd (ps ! j)) t < findall_count (snd (ps ! k)) t)"
    using classify_loop_spec [of ps t "''general''" 0] unfolding classify_by_patterns_def by blast
  show ?thesis
  proof (cases i)
    case 0
    then show ?thesis using i by (simp add: best_label_def all_set_conv_all_nth)
  next
    case (Suc k)
    then show ?thesis using i unfolding best_label_def by (intro disjI2 exI [of _ k]) simp
  qed
qed

text \<open>
  Normalisation. Each label of an event is the first one with the most matches in its table, or
  \<open>general\<close> when nothing matches; the constraints have at most one entry each for duration, length,
  funnel stage and audience; and the fingerprint is a function of the text and the scope: user,
  time, the previous message and the random id do not enter it.
\<close>

theorem normalisation_is_deterministic:
  "best_label t intent_patterns (ev_intent (normalize_event pf hex now t u scope prev ts))
   \<and> best_label t domain_patterns (ev_domain (normalize_event pf hex now t u scope prev ts))
   \<and> best_label t format_patterns (ev_format_type (normalize_event pf hex now t u scope prev ts))
   \<and> set (map fst (ev_constraints (normalize_event pf hex now t u scope prev ts)))
       \<subseteq> {''duration'', ''length'', ''funnel'', ''audience''}
   \<and> distinct (map fst (ev_constraints (normalize_event pf hex now t u scope prev ts)))
   \<and> ev_fingerprint_hash (normalize_event pf hex now t u scope prev ts)
       = ev_fingerprint_hash (normalize_event pf hex' now' t u' scope prev' ts')"
  using classify_best constraint_keys [of t] by (simp add: normalize_event_def Let_def)

text \<open>
  German hours are stored as seconds: the unit \<open>stund\<close> begins with \<open>s\<close>, which the test for seconds
  accepts before the test for hours is reached.
\<close>

lemma german_hours_become_seconds:
  "duration_constraint ''2 stund'' = [(''duration'', ''2s'')]
   \<and> duration_constraint ''2 hour'' = [(''duration'', ''2h'')]"
  by code_simp

end
