(* ===== verification/MarkovChain.thy ===== *)
theory MarkovChain
  imports EventNormalizer "HOL-Library.AList" "HOL-Library.Multiset"
begin

text \<open>
  \<open>markov_chain.py\<close>: the incremental transition counts of one user and the predictions made from
  them. A dict of counts is the list of its items in insertion order. Probabilities are exact.
\<close>

record markov_transition =
  mt_from_state :: string
  mt_to_state :: string
  mt_probability :: rat
  mt_observations :: nat

type_synonym counts = "(string \<times> nat) list"

record markov_chain =
  mc_counts :: "(string \<times> counts) list"
  mc_last_state :: "string option"
  mc_total_transitions :: nat

definition new_chain :: markov_chain where
  "new_chain = \<lparr>mc_counts = [], mc_last_state = None, mc_total_transitions = 0\<rparr>"

definition event_key :: "normalized_event \<Rightarrow> string" where
  "event_key event = ev_domain event @ ''.'' @ ev_intent event"

text \<open>\<open>counts[from][to] += 1\<close> on the nested \<open>defaultdict\<close>s.\<close>

definition lookup_counts :: "(string \<times> counts) list \<Rightarrow> string \<Rightarrow> counts" where
  "lookup_counts cs f = (case map_of cs f of None \<Rightarrow> [] | Some m \<Rightarrow> m)"

definition lookup_count :: "counts \<Rightarrow> string \<Rightarrow> nat" where
  "lookup_count m t = (case map_of m t of None \<Rightarrow> 0 | Some n \<Rightarrow> n)"

definition set_count ::
    "(string \<times> counts) list \<Rightarrow> string \<Rightarrow> string \<Rightarrow> nat \<Rightarrow> (string \<times> counts) list" where
  "set_count cs f t n = AList.update f (AList.update t n (lookup_counts cs f)) cs"

definition update_chain :: "markov_chain \<Rightarrow> normalized_event \<Rightarrow> markov_chain" where
  "update_chain chain event =
     (let current_state = event_key event;
          chain1 = (case mc_last_state chain of
             None \<Rightarrow> chain
           | Some last_state \<Rightarrow>
               chain\<lparr>mc_counts := set_count (mc_counts chain) last_state current_state
                        (lookup_count (lookup_counts (mc_counts chain) last_state) current_state + 1),
                     mc_total_transitions := mc_total_transitions chain + 1\<rparr>)
      in chain1\<lparr>mc_last_state := Some current_state\<rparr>)"

definition update_batch :: "markov_chain \<Rightarrow> normalized_event list \<Rightarrow> markov_chain" where
  "update_batch chain events = foldl update_chain chain events"

text \<open>\<open>xs[:k]\<close>\<close>

definition slice_to :: "int \<Rightarrow> 'a list \<Rightarrow> 'a list" where
  "slice_to k xs = (if 0 \<le> k then take (nat k) xs else take (length xs - nat (- k)) xs)"

definition predict_next :: "markov_chain \<Rightarrow> string \<Rightarrow> int \<Rightarrow> markov_transition list" where
  "predict_next chain current_state top_k =
     (case map_of (mc_counts chain) current_state of
        None \<Rightarrow> []
      | Some transitions \<Rightarrow>
          let total = sum_list (map snd transitions)
          in if total = 0 then []
             else slice_to top_k (sort_key (\<lambda>t. - mt_probability t)
               (map (\<lambda>(to_state, count).
                  \<lparr>mt_from_state = current_state, mt_to_state = to_state,
                   mt_probability = of_nat count / of_nat total, mt_observations = count\<rparr>) transitions)))"

definition get_transition_probability :: "markov_chain \<Rightarrow> string \<Rightarrow> string \<Rightarrow> rat" where
  "get_transition_probability chain from_state to_state =
     (case map_of (mc_counts chain) from_state of
        None \<Rightarrow> 0
      | Some transitions \<Rightarrow>
          let total = sum_list (map snd transitions)
          in if total = 0 then 0 else of_nat (lookup_count transitions to_state) / of_nat total)"

definition get_all_states :: "markov_chain \<Rightarrow> string set" where
  "get_all_states chain =
     fold (\<lambda>(f, m) states. states \<union> {f} \<union> set (map fst m)) (mc_counts chain) {}"

definition get_state_counts :: "markov_chain \<Rightarrow> string \<Rightarrow> counts" where
  "get_state_counts chain from_state = lookup_counts (mc_counts chain) from_state"

text \<open>The dict of \<open>to_dict\<close>; an absent key of \<open>from_dict\<close> is \<open>None\<close>.\<close>

record markov_data =
  md_counts :: "(string \<times> counts) list option"
  md_last_state :: "string option"
  md_total_transitions :: "nat option"

definition chain_to_dict :: "markov_chain \<Rightarrow> markov_data" where
  "chain_to_dict chain =
     \<lparr>md_counts = Some (mc_counts chain), md_last_state = mc_last_state chain,
      md_total_transitions = Some (mc_total_transitions chain)\<rparr>"

definition chain_from_dict :: "markov_data \<Rightarrow> markov_chain" where
  "chain_from_dict data =
     \<lparr>mc_counts = foldl (\<lambda>cs (f, m). foldl (\<lambda>cs (t, n). set_count cs f t n) cs m) []
        (case md_counts data of None \<Rightarrow> [] | Some d \<Rightarrow> d),
      mc_last_state = md_last_state data,
      mc_total_transitions = (case md_total_transitions data of None \<Rightarrow> 0 | Some n \<Rightarrow> n)\<rparr>"

definition reset_chain :: "markov_chain \<Rightarrow> markov_chain" where
  "reset_chain chain = new_chain"

section \<open>The counts are the adjacent pairs\<close>

definition pair_count :: "string list \<Rightarrow> string \<Rightarrow> string \<Rightarrow> nat" where
  "pair_count ks f t = length (filter (\<lambda>p. p = (f, t)) (zip ks (tl ks)))"

lemma map_of_update [simp]: "map_of (AList.update k v xs) k' = (if k' = k then Some v else map_of xs k')"
  by (simp add: AList.update_conv')

lemma lookup_set_count:
  "lookup_count (lookup_counts (set_count cs f t n) f') t' =
     (if f' = f \<and> t' = t then n else lookup_count (lookup_counts cs f') t')"
  by (auto simp: set_count_def lookup_counts_def lookup_count_def)

definition proper_counts :: "counts \<Rightarrow> bool" where
  "proper_counts m \<longleftrightarrow> distinct (map fst m) \<and> m \<noteq> [] \<and> (\<forall>q \<in> set m. 0 < snd q)"

definition chain_inv :: "markov_chain \<Rightarrow> bool" where
  "chain_inv c \<longleftrightarrow> distinct (map fst (mc_counts c))
     \<and> (\<forall>p \<in> set (mc_counts c). proper_counts (snd p))
     \<and> mc_total_transitions c = sum_list (map (\<lambda>p. sum_list (map snd (snd p))) (mc_counts c))"

lemma chain_inv_new: "chain_inv new_chain"
  by (simp add: chain_inv_def new_chain_def)

lemma sum_update:
  "distinct (map fst xs) \<Longrightarrow>
   sum_list (map (g \<circ> snd) (AList.update k v xs)) + (case map_of xs k of None \<Rightarrow> 0 | Some w \<Rightarrow> g w)
     = sum_list (map (g \<circ> snd) xs) + (g v :: nat)"
  by (induction xs) (auto split: option.splits simp: map_of_eq_None_iff)

lemma set_update_subset: "set (AList.update k v xs) \<subseteq> insert (k, v) (set xs)"
  by (induction xs) auto

lemma update_not_Nil [simp]: "AList.update k v xs \<noteq> []"
  by (induction xs) auto

lemma update_chain_inv:
  assumes "chain_inv c"
  shows "chain_inv (update_chain c e)"
proof (cases "mc_last_state c")
  case None
  then show ?thesis using assms by (simp add: update_chain_def chain_inv_def)
next
  case (Some l)
  let ?t = "event_key e"
  define m where "m = lookup_counts (mc_counts c) l"
  define m' where "m' = AList.update ?t (lookup_count m ?t + 1) m"
  have m: "distinct (map fst m) \<and> (\<forall>q \<in> set m. 0 < snd q)"
    using assms by (fastforce simp: m_def chain_inv_def proper_counts_def lookup_counts_def split: option.split dest: map_of_SomeD)
  have "sum_list (map snd m') = sum_list (map snd m) + 1"
    using sum_update [of m "\<lambda>x. x" ?t "lookup_count m ?t + 1"] m
    by (auto simp: m'_def comp_def lookup_count_def split: option.splits)
  moreover have "(case map_of (mc_counts c) l of None \<Rightarrow> 0 | Some w \<Rightarrow> sum_list (map snd w))
      = sum_list (map snd m)"
    by (simp add: m_def lookup_counts_def split: option.split)
  ultimately have "sum_list (map ((\<lambda>m. sum_list (map snd m)) \<circ> snd) (AList.update l m' (mc_counts c)))
      = sum_list (map ((\<lambda>m. sum_list (map snd m)) \<circ> snd) (mc_counts c)) + 1"
    using sum_update [of "mc_counts c" "\<lambda>m. sum_list (map snd m)" l m'] assms
    by (simp add: chain_inv_def)
  moreover have "proper_counts m'"
    using m set_update_subset [of ?t "lookup_count m ?t + 1" m]
    by (auto simp: proper_counts_def m'_def distinct_update)
  moreover have "update_chain c e = c\<lparr>mc_counts := AList.update l m' (mc_counts c),
      mc_total_transitions := mc_total_transitions c + 1, mc_last_state := Some ?t\<rparr>"
    using Some by (simp add: update_chain_def set_count_def m'_def m_def Let_def)
  ultimately show ?thesis
    using assms set_update_subset [of l m' "mc_counts c"]
    by (auto simp: chain_inv_def distinct_update comp_def)
qed

lemma update_batch_inv: "chain_inv c \<Longrightarrow> chain_inv (update_batch c es)"
  unfolding update_batch_def by (induction es arbitrary: c) (simp_all add: update_chain_inv)

lemma update_chain_count:
  "lookup_count (lookup_counts (mc_counts (update_chain c e)) f) t =
     lookup_count (lookup_counts (mc_counts c) f) t
       + (if mc_last_state c = Some f \<and> event_key e = t then 1 else 0)"
  by (auto simp: update_chain_def lookup_set_count Let_def split: option.split)

lemma update_batch_snoc: "update_batch c (es @ [e]) = update_chain (update_batch c es) e"
  by (simp add: update_batch_def)

lemma update_batch_last:
  "mc_last_state (update_batch c es) = (if es = [] then mc_last_state c else Some (event_key (last es)))"
  by (cases es rule: rev_cases) (simp_all add: update_batch_snoc update_chain_def Let_def update_batch_def split: option.split)

lemma pair_count_snoc:
  "ks \<noteq> [] \<Longrightarrow> pair_count (ks @ [k]) f t = pair_count ks f t + (if last ks = f \<and> k = t then 1 else 0)"
proof (induction ks)
  case (Cons a ks)
  then show ?case by (cases ks) (auto simp: pair_count_def)
qed simp

lemma batch_counts:
  "lookup_count (lookup_counts (mc_counts (update_batch new_chain es)) f) t = pair_count (map event_key es) f t"
proof (induction es rule: rev_induct)
  case Nil
  then show ?case by (simp add: update_batch_def new_chain_def lookup_counts_def lookup_count_def pair_count_def)
next
  case (snoc e es)
  show ?case
  proof (cases "es = []")
    case True
    then have "update_batch new_chain (es @ [e]) = update_chain new_chain e" by (simp add: update_batch_def)
    then show ?thesis
      using True by (simp add: update_chain_count)
        (simp add: new_chain_def lookup_counts_def lookup_count_def pair_count_def)
  next
    case False
    then show ?thesis
      using snoc by (simp add: update_batch_snoc update_chain_count update_batch_last pair_count_snoc last_map)
  qed
qed


section \<open>Predictions\<close>

lemma take_sorted: "sorted_wrt R xs \<Longrightarrow> sorted_wrt R (slice_to k xs)"
  by (simp add: slice_to_def sorted_wrt_take)

lemma sum_quotients: "sum_list (map (\<lambda>q. of_nat (snd q) / s) (m :: counts)) = of_nat (sum_list (map snd m)) / (s :: rat)"
  by (induction m) (simp_all add: add_divide_distrib)

lemma sum_sort_key: "sum_list (map f (sort_key g xs)) = sum_list (map (f :: _ \<Rightarrow> rat) xs)"
  by (metis mset_map mset_sort sum_mset_sum_list)

lemma state_counts_proper:
  "chain_inv c \<Longrightarrow> map_of (mc_counts c) f = Some m \<Longrightarrow> proper_counts m"
  by (auto simp: chain_inv_def dest!: map_of_SomeD)

lemma proper_total: "proper_counts m \<Longrightarrow> 0 < sum_list (map snd m)"
  by (cases m) (auto simp: proper_counts_def)

lemma predictions_sum_to_one:
  assumes "chain_inv c" and "get_state_counts c f \<noteq> []" and "int (length (get_state_counts c f)) \<le> k"
  shows "sum_list (map mt_probability (predict_next c f k)) = 1"
proof -
  obtain m where m: "map_of (mc_counts c) f = Some m"
    using assms(2) by (auto simp: get_state_counts_def lookup_counts_def split: option.splits)
  have pos: "0 < sum_list (map snd m)" by (rule proper_total [OF state_counts_proper [OF assms(1) m]])
  have len: "int (length m) \<le> k" using assms(3) m by (simp add: get_state_counts_def lookup_counts_def)
  have "slice_to k (sort_key (\<lambda>t. - mt_probability t) xs) = sort_key (\<lambda>t. - mt_probability t) xs"
    if "length xs = length m" for xs :: "markov_transition list"
    using len that by (simp add: slice_to_def)
  then have "sum_list (map mt_probability (predict_next c f k))
      = sum_list (map (\<lambda>q. of_nat (snd q) / of_nat (sum_list (map snd m))) m)"
    using pos m by (simp add: predict_next_def Let_def sum_sort_key comp_def split_beta del: sum_list_eq_0_iff)
  also have "\<dots> = 1"
    unfolding sum_quotients by (rule divide_self) (metis pos of_nat_eq_0_iff less_irrefl)
  finally show ?thesis .
qed

lemma batch_total: "mc_total_transitions (update_batch new_chain es) = length es - 1"
proof (induction es rule: rev_induct)
  case (snoc e es)
  have "mc_last_state (update_batch new_chain es) = (if es = [] then None else Some (event_key (last es)))"
    by (simp add: update_batch_last) (simp add: new_chain_def)
  with snoc show ?case
    by (auto simp only: update_batch_snoc update_chain_def Let_def split: if_splits)
      (auto simp: neq_Nil_conv)
qed (simp add: update_batch_def new_chain_def)

lemma predictions_sorted: "sorted_wrt (\<lambda>a b. mt_probability b \<le> mt_probability a) (predict_next c f k)"
proof -
  have "sorted_wrt (\<lambda>a b. mt_probability b \<le> mt_probability a) (sort_key (\<lambda>t. - mt_probability t) xs)" for xs
    using sorted_sort_key [of "\<lambda>t. - mt_probability t" xs] by (simp add: sorted_map)
  then show ?thesis by (auto simp: predict_next_def Let_def intro: take_sorted split: option.split)
qed

text \<open>
  The chain of a user counts exactly the adjacent pairs of its events, however the events are
  split into batches, and the total is the number of pairs; predictions come in descending
  probability, and the probabilities of all successors of a state that was left before sum up to one.
\<close>

theorem markov_counts_adjacent_pairs:
  "lookup_count (get_state_counts (update_batch (update_batch new_chain es) es') f) t
       = pair_count (map event_key (es @ es')) f t
   \<and> mc_total_transitions (update_batch new_chain es) = length es - 1
   \<and> sorted_wrt (\<lambda>a b. mt_probability b \<le> mt_probability a) (predict_next (update_batch new_chain es) f k)
   \<and> (get_state_counts (update_batch new_chain es) f \<noteq> []
        \<and> int (length (get_state_counts (update_batch new_chain es) f)) \<le> k
      \<longrightarrow> sum_list (map mt_probability (predict_next (update_batch new_chain es) f k)) = 1)"
proof -
  have split: "update_batch (update_batch new_chain es) es' = update_batch new_chain (es @ es')"
    by (simp add: update_batch_def)
  then show ?thesis
    using batch_counts batch_total predictions_sorted
      predictions_sum_to_one [OF update_batch_inv [OF chain_inv_new]]
    by (simp add: get_state_counts_def)
qed

definition sample_event :: "string \<Rightarrow> normalized_event" where
  "sample_event i = \<lparr>ev_event_id = ''evt_1'', ev_user_id = 7, ev_timestamp = ''t'', ev_raw_text = [],
     ev_intent = i, ev_domain = ''data'', ev_format_type = ''table'', ev_constraints = [], ev_scope = [],
     ev_language = ''en'', ev_correction_keywords_present = False, ev_is_re_formulation = False,
     ev_fingerprint_hash = []\<rparr>"

theorem markov_counts_adjacent_pairs_witness:
  "sum_list (map mt_probability (predict_next (update_batch new_chain
     [sample_event ''plan'', sample_event ''format'', sample_event ''plan'', sample_event ''analyze''])
     ''data.plan'' 5)) = 1"
proof -
  let ?es = "[sample_event ''plan'', sample_event ''format'', sample_event ''plan'', sample_event ''analyze'']"
  have "get_state_counts (update_batch new_chain ?es) ''data.plan'' = [(''data.format'', 1), (''data.analyze'', 1)]"
    by code_simp
  with markov_counts_adjacent_pairs [of ?es "[]" "''data.plan''" "[]" 5] show ?thesis by simp
qed

section \<open>Persistence\<close>

lemma update_append: "k \<notin> fst ` set xs \<Longrightarrow> AList.update k v xs = xs @ [(k, v)]"
  by (induction xs) auto

lemma update_last: "k \<notin> fst ` set xs \<Longrightarrow> AList.update k v (xs @ [(k, w)]) = xs @ [(k, v)]"
  by (induction xs) auto

lemma rebuild_row:
  assumes "m \<noteq> []" and "distinct (map fst m)" and "f \<notin> fst ` set cs"
  shows "foldl (\<lambda>cs (t, n). set_count cs f t n) cs m = cs @ [(f, m)]"
  using assms(1,2)
proof (induction m rule: rev_induct)
  case (snoc q m)
  obtain t n where q: "q = (t, n)" by (cases q)
  have none: "map_of cs f = None" using assms(3) by (simp add: map_of_eq_None_iff)
  show ?case
  proof (cases "m = []")
    case True
    then show ?thesis
      using q none by (simp add: set_count_def lookup_counts_def update_append [OF assms(3)])
  next
    case False
    have "t \<notin> fst ` set m" using snoc.prems q by auto
    moreover have "lookup_counts (cs @ [(f, m)]) f = m" using none by (simp add: lookup_counts_def map_add_def)
    ultimately show ?thesis
      using snoc False q by (simp add: set_count_def update_append update_last [OF assms(3)])
  qed
qed simp

lemma rebuild_counts:
  assumes "distinct (map fst cs)" and "\<forall>p \<in> set cs. proper_counts (snd p)"
  shows "foldl (\<lambda>cs (f, m). foldl (\<lambda>cs (t, n). set_count cs f t n) cs m) [] cs = cs"
  using assms
proof (induction cs rule: rev_induct)
  case (snoc p cs)
  then show ?case by (cases p) (auto simp: proper_counts_def rebuild_row)
qed simp

text \<open>
  What is persisted of a chain restores it: every chain built from events is the same after a
  round trip, and goes on counting as if it had never been stored.
\<close>

theorem markov_roundtrip:
  "chain_from_dict (chain_to_dict (update_batch new_chain es)) = update_batch new_chain es
   \<and> update_batch (chain_from_dict (chain_to_dict (update_batch new_chain es))) es'
       = update_batch new_chain (es @ es')"
proof -
  have "chain_inv (update_batch new_chain es)" by (rule update_batch_inv [OF chain_inv_new])
  then have "chain_from_dict (chain_to_dict (update_batch new_chain es)) = update_batch new_chain es"
    using rebuild_counts by (simp add: chain_from_dict_def chain_to_dict_def chain_inv_def)
  then show ?thesis by (simp add: update_batch_def)
qed

end
