(* ===== verification/NGramExtractor.thy ===== *)
theory NGramExtractor
  imports MarkovChain
begin

text \<open>
  \<open>ngram_extractor.py\<close>: recurring windows of a sequence of events. The counter and the dict of time
  stamps are the lists of their items in insertion order. \<open>max()\<close> of an empty sequence raises; that
  is the error value. A set of window sizes is a list without duplicates, whose order Python
  leaves open.
\<close>

definition default_window_sizes :: "nat list" where
  "default_window_sizes = [3, 4, 5]"

definition min_occurrences_default :: nat where
  "min_occurrences_default = 2"

record ngram_pattern =
  np_pattern_hash :: string
  np_n :: nat
  np_events :: "string list"
  np_occurrences :: nat
  np_last_seen :: string

datatype ngram_error = NoTimestamp

text \<open>\<open>json.dumps\<close> of a tuple of strings with the default separators.\<close>

definition dumps_strings :: "string list \<Rightarrow> string" where
  "dumps_strings xs = ''['' @ join_with '', '' (map json_quote xs) @ '']''"

definition compute_pattern_hash :: "platform \<Rightarrow> string list \<Rightarrow> string" where
  "compute_pattern_hash pf events = pf_sha256_hex pf (dumps_strings events)"

text \<open>The windows \<open>events[i : i + n]\<close> for \<open>i\<close> from 0 to \<open>len(events) - n\<close>.\<close>

definition windows :: "nat \<Rightarrow> 'a list \<Rightarrow> 'a list list" where
  "windows n events = map (\<lambda>i. take n (drop i events)) [0..<length events - n + 1]"

definition latest_timestamp :: "normalized_event list \<Rightarrow> ngram_error + string" where
  "latest_timestamp window =
     (let stamps = filter (\<lambda>t. t \<noteq> []) (map ev_timestamp window)
      in if stamps = [] then Inl NoTimestamp else Inr (foldl max (hd stamps) (tl stamps)))"

type_synonym ngram_counter = "(string list \<times> nat) list"

fun count_windows ::
    "normalized_event list list \<Rightarrow> ngram_counter \<Rightarrow> (string list \<times> string) list
       \<Rightarrow> ngram_error + ngram_counter \<times> (string list \<times> string) list" where
  "count_windows [] counter last_seen = Inr (counter, last_seen)"
| "count_windows (window # ws) counter last_seen =
     (let key_tuple = map event_key window;
          counter' = AList.update key_tuple
            ((case map_of counter key_tuple of None \<Rightarrow> 0 | Some n \<Rightarrow> n) + 1) counter
      in bind_res (latest_timestamp window) (\<lambda>latest_ts.
           count_windows ws counter' (AList.update key_tuple latest_ts last_seen)))"

definition sort_patterns :: "ngram_pattern list \<Rightarrow> ngram_pattern list" where
  "sort_patterns ps = sort_key (\<lambda>p. - int (np_occurrences p)) (sort_key (\<lambda>p. - int (np_n p)) ps)"

definition extract_ngrams ::
    "platform \<Rightarrow> normalized_event list \<Rightarrow> nat \<Rightarrow> nat \<Rightarrow> ngram_error + ngram_pattern list" where
  "extract_ngrams pf events n min_occurrences =
     (if n < 2 then Inr []
      else if length events < n then Inr []
      else bind_res (count_windows (windows n events) [] []) (\<lambda>(counter, last_seen).
        Inr (sort_patterns
          (map (\<lambda>(key_tuple, count).
             \<lparr>np_pattern_hash = compute_pattern_hash pf key_tuple, np_n = n, np_events = key_tuple,
              np_occurrences = count,
              np_last_seen = (case map_of last_seen key_tuple of None \<Rightarrow> [] | Some t \<Rightarrow> t)\<rparr>)
             (filter (\<lambda>(_, count). min_occurrences \<le> count) counter)))))"

fun merge_new ::
    "ngram_pattern list \<Rightarrow> string list \<Rightarrow> ngram_pattern list \<Rightarrow> string list \<times> ngram_pattern list" where
  "merge_new [] seen_hashes all_patterns = (seen_hashes, all_patterns)"
| "merge_new (p # ps) seen_hashes all_patterns =
     (if List.member seen_hashes (np_pattern_hash p) then merge_new ps seen_hashes all_patterns
      else merge_new ps (np_pattern_hash p # seen_hashes) (all_patterns @ [p]))"

fun extract_sizes ::
    "platform \<Rightarrow> normalized_event list \<Rightarrow> nat list \<Rightarrow> nat \<Rightarrow> string list \<Rightarrow> ngram_pattern list
       \<Rightarrow> ngram_error + ngram_pattern list" where
  "extract_sizes pf events [] min_occurrences seen_hashes all_patterns = Inr all_patterns"
| "extract_sizes pf events (n # ns) min_occurrences seen_hashes all_patterns =
     bind_res (extract_ngrams pf events n min_occurrences) (\<lambda>patterns.
       let (seen, ps) = merge_new patterns seen_hashes all_patterns
       in extract_sizes pf events ns min_occurrences seen ps)"

definition extract_all_ngrams ::
    "platform \<Rightarrow> normalized_event list \<Rightarrow> nat list \<Rightarrow> nat \<Rightarrow> ngram_error + ngram_pattern list" where
  "extract_all_ngrams pf events window_sizes min_occurrences =
     bind_res (extract_sizes pf events window_sizes min_occurrences [] []) (\<lambda>ps. Inr (sort_patterns ps))"

text \<open>\<open>events[-size:]\<close>; for size 0 this is the whole list.\<close>

definition last_events :: "nat \<Rightarrow> 'a list \<Rightarrow> 'a list" where
  "last_events sz events = (if sz = 0 then events else drop (length events - sz) events)"

definition find_matching_patterns ::
    "platform \<Rightarrow> normalized_event list \<Rightarrow> ngram_pattern list \<Rightarrow> nat option \<Rightarrow> ngram_pattern list" where
  "find_matching_patterns pf events existing_patterns n =
     (if events = [] \<or> existing_patterns = [] then []
      else
        let pattern_by_hash = map_of (rev (map (\<lambda>p. (np_pattern_hash p, p)) existing_patterns));
            sizes_to_check = (case n of Some k \<Rightarrow> [k] | None \<Rightarrow> remdups (map np_n existing_patterns))
        in concat (map (\<lambda>sz.
             if length events < sz then []
             else case pattern_by_hash (compute_pattern_hash pf (map event_key (last_events sz events))) of
                    None \<Rightarrow> [] | Some p \<Rightarrow> [p]) sizes_to_check))"

section \<open>What is counted\<close>

definition occurrences :: "string list list \<Rightarrow> string list \<Rightarrow> nat" where
  "occurrences ws k = length (filter (\<lambda>w. w = k) ws)"

lemma count_windows_spec:
  assumes "count_windows ws c l = Inr (c', l')" and "distinct (map fst c)"
    and "\<forall>q \<in> set c. 0 < snd q"
  shows "distinct (map fst c') \<and> (\<forall>q \<in> set c'. 0 < snd q)
    \<and> (\<forall>k. (case map_of c' k of None \<Rightarrow> 0 | Some n \<Rightarrow> n)
          = (case map_of c k of None \<Rightarrow> 0 | Some n \<Rightarrow> n) + occurrences (map (map event_key) ws) k)"
  using assms
proof (induction ws c l rule: count_windows.induct)
  case (1 c l)
  then show ?case by (simp add: occurrences_def)
next
  case (2 w ws c l)
  let ?k = "map event_key w"
  let ?n = "(case map_of c ?k of None \<Rightarrow> 0 | Some n \<Rightarrow> n) + 1"
  obtain ts where ts: "latest_timestamp w = Inr ts"
    and rest: "count_windows ws (AList.update ?k ?n c) (AList.update ?k ts l) = Inr (c', l')"
    using 2(2) by (auto simp: Let_def bind_res_eq_Inr)
  have "\<forall>q \<in> set (AList.update ?k ?n c). 0 < snd q"
    using 2(4) set_update_subset [of ?k ?n c] by auto
  then have IH: "distinct (map fst c') \<and> (\<forall>q \<in> set c'. 0 < snd q)
    \<and> (\<forall>k. (case map_of c' k of None \<Rightarrow> 0 | Some n \<Rightarrow> n)
          = (case map_of (AList.update ?k ?n c) k of None \<Rightarrow> 0 | Some n \<Rightarrow> n)
            + occurrences (map (map event_key) ws) k)"
    using 2(1) [OF refl refl rest] 2(3) by (simp add: distinct_update)
  then show ?case by (auto simp: occurrences_def)
qed

lemma set_sort_patterns [simp]: "set (sort_patterns ps) = set ps"
  by (simp add: sort_patterns_def)

lemma map_of_eq_iff:
  "distinct (map fst xs) \<Longrightarrow> (\<forall>q \<in> set xs. 0 < snd q) \<Longrightarrow>
   (k, n) \<in> set xs \<longleftrightarrow> 0 < n \<and> (case map_of xs k of None \<Rightarrow> 0 | Some m \<Rightarrow> m) = (n :: nat)"
  by (auto split: option.split dest: map_of_SomeD eq_key_imp_eq_value)

lemma count_windows_total:
  "\<forall>w \<in> set ws. \<exists>e \<in> set w. ev_timestamp e \<noteq> [] \<Longrightarrow> \<exists>r. count_windows ws c l = Inr r"
proof (induction ws c l rule: count_windows.induct)
  case (2 w ws c l)
  have "\<exists>t. latest_timestamp w = Inr t"
    using 2(2) by (auto simp: latest_timestamp_def filter_empty_conv Let_def)
  with 2 show ?case by (auto simp: Let_def)
qed simp

text \<open>Extraction succeeds when every event has a time stamp.\<close>

lemma extract_succeeds:
  assumes "\<forall>e \<in> set events. ev_timestamp e \<noteq> []"
  shows "\<exists>ps. extract_ngrams pf events n m = Inr ps"
proof (cases "2 \<le> n \<and> n \<le> length events")
  case True
  have "\<exists>e \<in> set w. ev_timestamp e \<noteq> []" if w: "w \<in> set (windows n events)" for w
  proof -
    obtain i where i: "i < length events - n + 1" "w = take n (drop i events)"
      using w by (auto simp: windows_def simp del: upt_Suc)
    then have "0 < length w" using True by simp linarith
    then have "w ! 0 \<in> set w" by (rule nth_mem)
    moreover from this have "w ! 0 \<in> set events" using i(2) by (meson in_set_dropD in_set_takeD)
    ultimately show ?thesis using assms by blast
  qed
  then obtain r where "count_windows (windows n events) [] [] = Inr r"
    using count_windows_total [of "windows n events" "[]" "[]"] by blast
  then show ?thesis by (cases r) (simp add: extract_ngrams_def)
qed (auto simp: extract_ngrams_def)

definition hex_platform_stub :: platform where
  "hex_platform_stub = \<lparr>pf_float_repr = (\<lambda>_. []), pf_sha256_hex = (\<lambda>t. t)\<rparr>"

text \<open>
  Mining finds exactly the recurring windows. When the extraction of windows of size \<open>n\<close> succeeds,
  its patterns are the key sequences that occur at least as often as asked among all windows of
  that size, each with its exact number of occurrences and its hash; nothing else is returned.
\<close>

theorem ngrams_are_the_recurring_windows:
  assumes "extract_ngrams pf events n m = Inr ps" and "2 \<le> n" and "n \<le> length events" and "0 < m"
  shows "(\<exists>p. p \<in> set ps \<and> np_events p = k \<and> np_occurrences p = j \<and> np_n p = n
      \<and> np_pattern_hash p = compute_pattern_hash pf k)
    \<longleftrightarrow> m \<le> j \<and> j = occurrences (windows n (map event_key events)) k"
proof -
  obtain c l where cw: "count_windows (windows n events) [] [] = Inr (c, l)"
    and ps: "set ps = (\<lambda>(key_tuple, count).
       \<lparr>np_pattern_hash = compute_pattern_hash pf key_tuple, np_n = n, np_events = key_tuple,
        np_occurrences = count,
        np_last_seen = (case map_of l key_tuple of None \<Rightarrow> [] | Some t \<Rightarrow> t)\<rparr>)
       ` {q \<in> set c. m \<le> snd q}"
    using assms(1-3) by (auto simp: extract_ngrams_def bind_res_eq_Inr split_beta split: if_splits)
  have "windows n (map event_key events) = map (map event_key) (windows n events)"
    by (simp add: windows_def take_map drop_map)
  then have c: "(k, j) \<in> set c \<longleftrightarrow> 0 < j \<and> occurrences (windows n (map event_key events)) k = j"
    using count_windows_spec [OF cw] map_of_eq_iff [of c k j] by simp
  have "(\<exists>p. p \<in> set ps \<and> np_events p = k \<and> np_occurrences p = j \<and> np_n p = n
      \<and> np_pattern_hash p = compute_pattern_hash pf k) \<longleftrightarrow> (k, j) \<in> set c \<and> m \<le> j"
    (is "?ex \<longleftrightarrow> _")
  proof
    assume "(k, j) \<in> set c \<and> m \<le> j"
    then have "(\<lambda>(key_tuple, count).
       \<lparr>np_pattern_hash = compute_pattern_hash pf key_tuple, np_n = n, np_events = key_tuple,
        np_occurrences = count,
        np_last_seen = (case map_of l key_tuple of None \<Rightarrow> [] | Some t \<Rightarrow> t)\<rparr>) (k, j) \<in> set ps"
      unfolding ps by (intro imageI) simp
    then show ?ex by fastforce
  qed (auto simp: ps)
  with c assms(4) show ?thesis by auto
qed

theorem ngrams_are_the_recurring_windows_witness:
  "\<exists>ps p. extract_ngrams hex_platform_stub [sample_event ''a'', sample_event ''b'', sample_event ''a'', sample_event ''b''] 2 2
       = Inr ps \<and> p \<in> set ps \<and> np_events p = [''data.a'', ''data.b''] \<and> np_occurrences p = 2"
proof -
  let ?es = "[sample_event ''a'', sample_event ''b'', sample_event ''a'', sample_event ''b'']"
  have "\<forall>e \<in> set ?es. ev_timestamp e \<noteq> []" by (simp add: sample_event_def)
  then obtain ps where ps: "extract_ngrams hex_platform_stub ?es 2 2 = Inr ps"
    using extract_succeeds by blast
  have "occurrences (windows 2 (map event_key ?es)) [''data.a'', ''data.b''] = 2" by code_simp
  with ngrams_are_the_recurring_windows [OF ps, of "[''data.a'', ''data.b'']" 2] ps show ?thesis by auto
qed

text \<open>
  Extraction raises instead of returning when a window holds no event with a time stamp, although the
  time stamp of an event may be empty.
\<close>

lemma empty_timestamps_raise:
  assumes "2 \<le> n" and "n \<le> length events" and "\<forall>e \<in> set events. ev_timestamp e = []"
  shows "extract_ngrams pf events n m = Inl NoTimestamp"
proof -
  have "windows n events = take n events # map (\<lambda>i. take n (drop i events)) [1..<length events - n + 1]"
    by (simp add: windows_def upt_conv_Cons)
  moreover have "latest_timestamp (take n events) = Inl NoTimestamp"
    using assms(3) by (auto simp: latest_timestamp_def filter_empty_conv Let_def dest: in_set_takeD)
  ultimately show ?thesis using assms(1,2) by (simp add: extract_ngrams_def Let_def)
qed


section \<open>Recognition\<close>

lemma map_of_rev_Some:
  "map_of (rev (map (\<lambda>p. (f p, p)) xs)) h = Some p \<Longrightarrow> p \<in> set xs \<and> f p = h"
  by (auto dest!: map_of_SomeD)

lemma map_of_rev_None:
  "map_of (rev (map (\<lambda>p. (f p, p)) xs)) h = None \<longleftrightarrow> (\<forall>p \<in> set xs. f p \<noteq> h)"
  by (force simp: map_of_eq_None_iff)

text \<open>
  Recognition. Every pattern that is reported was known before and has the hash of the last
  events (of as many as the size of some known pattern), and a known pattern of size \<open>n\<close> whose keys
  are the last \<open>n\<close> events is recognised: some reported pattern has its hash.
\<close>

theorem known_patterns_are_recognised:
  "(\<forall>p \<in> set (find_matching_patterns pf events known None). p \<in> set known
      \<and> (\<exists>q \<in> set known. np_n q \<le> length events
           \<and> np_pattern_hash p = compute_pattern_hash pf (map event_key (last_events (np_n q) events))))
   \<and> (\<forall>q \<in> set known. events \<noteq> [] \<and> np_n q \<le> length events
        \<and> np_pattern_hash q = compute_pattern_hash pf (map event_key (last_events (np_n q) events))
      \<longrightarrow> (\<exists>p \<in> set (find_matching_patterns pf events known None). np_pattern_hash p = np_pattern_hash q))"
proof (intro conjI ballI impI)
  fix p assume "p \<in> set (find_matching_patterns pf events known None)"
  then show "p \<in> set known" and "\<exists>q \<in> set known. np_n q \<le> length events
      \<and> np_pattern_hash p = compute_pattern_hash pf (map event_key (last_events (np_n q) events))"
    by (auto simp: find_matching_patterns_def Let_def split: if_splits option.splits
        dest!: map_of_rev_Some [OF sym]) (metis not_less)
next
  fix q assume q: "q \<in> set known" and h: "events \<noteq> [] \<and> np_n q \<le> length events
    \<and> np_pattern_hash q = compute_pattern_hash pf (map event_key (last_events (np_n q) events))"
  let ?h = "compute_pattern_hash pf (map event_key (last_events (np_n q) events))"
  obtain p where p: "map_of (rev (map (\<lambda>p. (np_pattern_hash p, p)) known)) ?h = Some p"
    using q h map_of_rev_None [of np_pattern_hash known] by (metis not_None_eq)
  have "p \<in> set (find_matching_patterns pf events known None)"
    unfolding find_matching_patterns_def Let_def
    using q h p by (auto intro!: bexI [of _ "np_n q"])
  then show "\<exists>p \<in> set (find_matching_patterns pf events known None). np_pattern_hash p = np_pattern_hash q"
    using map_of_rev_Some [OF p] h by auto
qed

definition sample_pattern :: ngram_pattern where
  "sample_pattern = \<lparr>np_pattern_hash = compute_pattern_hash hex_platform_stub [''data.a'', ''data.b''],
     np_n = 2, np_events = [''data.a'', ''data.b''], np_occurrences = 2, np_last_seen = ''t''\<rparr>"

theorem known_patterns_are_recognised_witness:
  "\<exists>p \<in> set (find_matching_patterns hex_platform_stub [sample_event ''c'', sample_event ''a'', sample_event ''b'']
      [sample_pattern] None). np_pattern_hash p = np_pattern_hash sample_pattern"
proof -
  let ?es = "[sample_event ''c'', sample_event ''a'', sample_event ''b'']"
  have "np_pattern_hash sample_pattern =
      compute_pattern_hash hex_platform_stub (map event_key (last_events (np_n sample_pattern) ?es))"
    by code_simp
  moreover have "np_n sample_pattern \<le> length ?es" by (simp add: sample_pattern_def)
  ultimately show ?thesis
    using known_patterns_are_recognised [of hex_platform_stub ?es "[sample_pattern]"]
    by (metis list.set_intros(1) list.distinct(1))
qed

end
