(* ===== verification/FingerprintMatcher.thy ===== *)
theory FingerprintMatcher
  imports MarkovChain CollisionDetector
begin

text \<open>
  \<open>fingerprint_matcher.py\<close>: the weighted similarity of two events. Scores are exact rationals: at the
  threshold itself the rounding of the sums in the code may decide differently. Scope values are
  compared as values; a dict is the list of its items.
\<close>

definition field_weights :: "(string \<times> rat) list" where
  "field_weights =
     [(''intent'', 30 / 100), (''domain'', 20 / 100), (''constraints'', 20 / 100),
      (''format_type'', 15 / 100), (''scope'', 15 / 100)]"

definition similarity_threshold :: rat where
  "similarity_threshold = 7 / 10"

record fingerprint_match =
  fm_event_a_id :: string
  fm_event_b_id :: string
  fm_similarity_score :: rat
  fm_field_similarities :: "(string \<times> rat) list"
  fm_is_candidate :: bool

definition exact_match :: "string \<Rightarrow> string \<Rightarrow> rat" where
  "exact_match a b = (if a = b then 1 else 0)"

definition prefix_match :: "string \<Rightarrow> string \<Rightarrow> rat" where
  "prefix_match a b =
     (if a = b then 1
      else if a = [] \<or> b = [] then 0
      else
        let parts_a = split_on (CHR ''_'') a; parts_b = split_on (CHR ''_'') b;
            max_parts = max (length parts_a) (length parts_b)
        in if max_parts = 0 then 0
           else of_nat (length (takeWhile (\<lambda>(pa, pb). pa = pb) (zip parts_a parts_b))) / of_nat max_parts)"

text \<open>The sum of the loop over the set of all keys does not depend on its order.\<close>

definition key_score :: "(string \<times> string) list \<Rightarrow> (string \<times> string) list \<Rightarrow> string \<Rightarrow> rat" where
  "key_score a b key =
     (case (map_of a key, map_of b key) of
        (Some x, Some y) \<Rightarrow> if x = y then 1 else 1 / 2
      | _ \<Rightarrow> 0)"

definition dict_overlap :: "(string \<times> string) list \<Rightarrow> (string \<times> string) list \<Rightarrow> rat" where
  "dict_overlap a b =
     (if a = [] \<and> b = [] then 1
      else if a = [] \<or> b = [] then 0
      else
        let all_keys = remdups (map fst a @ map fst b)
        in if all_keys = [] then 1
           else sum_list (map (key_score a b) all_keys) / of_nat (length all_keys))"

definition part_score :: "json \<Rightarrow> json \<Rightarrow> rat" where
  "part_score x y =
     (if json_truthy x \<and> json_truthy y then if x = y then 1 / 2 else 0
      else if \<not> json_truthy x \<and> \<not> json_truthy y then 1 / 2
      else 0)"

definition scope_similarity :: "dict \<Rightarrow> dict \<Rightarrow> rat" where
  "scope_similarity a b =
     (if a = [] \<and> b = [] then 1
      else if a = [] \<or> b = [] then 3 / 10
      else
        let score = part_score (dget a ''project'' (JStr [])) (dget b ''project'' (JStr []))
                  + part_score (dget a ''client'' (JStr [])) (dget b ''client'' (JStr []));
            total = 1 / 2 + 1 / 2
        in if 0 < total then score / total else 1)"

definition field_similarities :: "normalized_event \<Rightarrow> normalized_event \<Rightarrow> (string \<times> rat) list" where
  "field_similarities event_a event_b =
     [(''intent'', prefix_match (ev_intent event_a) (ev_intent event_b)),
      (''domain'', exact_match (ev_domain event_a) (ev_domain event_b)),
      (''format_type'', exact_match (ev_format_type event_a) (ev_format_type event_b)),
      (''constraints'', dict_overlap (ev_constraints event_a) (ev_constraints event_b)),
      (''scope'', scope_similarity (ev_scope event_a) (ev_scope event_b)),
      (''language'', 1)]"

definition compute_similarity ::
    "normalized_event \<Rightarrow> normalized_event \<Rightarrow> (string \<times> rat) list option \<Rightarrow> rat \<Rightarrow> fingerprint_match" where
  "compute_similarity event_a event_b weights threshold =
     (let ws = (case weights of None \<Rightarrow> field_weights | Some w \<Rightarrow> w) in
      if ev_language event_a \<noteq> ev_language event_b
      then \<lparr>fm_event_a_id = ev_event_id event_a, fm_event_b_id = ev_event_id event_b,
            fm_similarity_score = 0,
            fm_field_similarities = [(''intent'', 0), (''domain'', 0), (''format_type'', 0),
              (''constraints'', 0), (''scope'', 0), (''language'', 0)],
            fm_is_candidate = False\<rparr>
      else
        let field_sims = field_similarities event_a event_b;
            total_score = sum_list (map (\<lambda>(field_name, weight).
              (case map_of field_sims field_name of None \<Rightarrow> 0 | Some s \<Rightarrow> s) * weight) ws);
            clamped = max 0 (min 1 total_score)
        in \<lparr>fm_event_a_id = ev_event_id event_a, fm_event_b_id = ev_event_id event_b,
            fm_similarity_score = clamped, fm_field_similarities = field_sims,
            fm_is_candidate = threshold < clamped\<rparr>)"

definition find_matches ::
    "normalized_event \<Rightarrow> normalized_event list \<Rightarrow> rat \<Rightarrow> int \<Rightarrow> fingerprint_match list" where
  "find_matches target candidates threshold max_results =
     slice_to max_results (sort_key (\<lambda>m. - fm_similarity_score m)
       (filter (\<lambda>m. threshold < fm_similarity_score m)
         (map (\<lambda>c. compute_similarity target c None threshold)
           (filter (\<lambda>c. ev_event_id c \<noteq> ev_event_id target) candidates))))"

section \<open>Each field similarity is symmetric, reflexive and between 0 and 1\<close>

lemma takeWhile_zip_swap:
  "length (takeWhile (\<lambda>(a, b). a = b) (zip xs ys)) = length (takeWhile (\<lambda>(a, b). a = b) (zip ys xs))"
proof (induction xs arbitrary: ys)
  case (Cons x xs)
  then show ?case by (cases ys) auto
qed simp

lemma prefix_match_sym: "prefix_match a b = prefix_match b a"
  using takeWhile_zip_swap [of "split_on (CHR ''_'') a" "split_on (CHR ''_'') b"]
  by (auto simp: prefix_match_def Let_def max.commute)

lemma prefix_match_bounds: "0 \<le> prefix_match a b" "prefix_match a b \<le> 1"
proof -
  have "length (takeWhile (\<lambda>(a, b). a = b) (zip xs ys)) \<le> max (length xs) (length ys)"
    for xs ys :: "string list"
    using length_takeWhile_le [of _ "zip xs ys"] by (metis length_zip max.coboundedI1 min.boundedE)
  then show "prefix_match a b \<le> 1"
    by (auto simp: prefix_match_def Let_def divide_le_eq_1 less_max_iff_disj simp flip: of_nat_max)
qed (simp add: prefix_match_def Let_def)

lemma exact_match_bounds: "0 \<le> exact_match a b" "exact_match a b \<le> 1"
  by (simp_all add: exact_match_def)

lemma key_score_bounds: "0 \<le> key_score a b k" "key_score a b k \<le> 1"
  by (simp_all add: key_score_def split: option.split)

lemma key_score_sym: "key_score a b k = key_score b a k"
  by (auto simp: key_score_def split: option.split)

lemma sum_list_le_length:
  "(\<And>x. x \<in> set xs \<Longrightarrow> f x \<le> 1) \<Longrightarrow> sum_list (map f xs) \<le> (of_nat (length xs) :: rat)"
  by (induction xs) (auto intro: add_mono)

lemma dict_overlap_bounds: "0 \<le> dict_overlap a b" "dict_overlap a b \<le> 1"
proof -
  let ?ks = "remdups (map fst a @ map fst b)"
  have "0 \<le> sum_list (map (key_score a b) ?ks)" "sum_list (map (key_score a b) ?ks) \<le> of_nat (length ?ks)"
    using sum_list_le_length [of ?ks "key_score a b"] key_score_bounds by (auto intro!: sum_list_nonneg)
  then show "0 \<le> dict_overlap a b" "dict_overlap a b \<le> 1"
    by (auto simp: dict_overlap_def Let_def divide_le_eq_1 simp del: remdups.simps set_remdups)
qed

lemma sum_remdups_eq:
  "set xs = set ys \<Longrightarrow> sum_list (map f (remdups xs)) = (sum_list (map f (remdups ys)) :: rat)"
  by (simp add: sum_list_distinct_conv_sum_set)

lemma dict_overlap_sym: "dict_overlap a b = dict_overlap b a"
proof -
  have "key_score a b = key_score b a" by (rule ext) (rule key_score_sym)
  then have "sum_list (map (key_score a b) (remdups (map fst a @ map fst b)))
      = sum_list (map (key_score b a) (remdups (map fst b @ map fst a)))"
    using sum_remdups_eq [of "map fst a @ map fst b" "map fst b @ map fst a"]
    by (simp add: Un_commute)
  moreover have "length (remdups (map fst a @ map fst b)) = length (remdups (map fst b @ map fst a))"
    by (simp add: length_remdups_card_conv Un_commute)
  ultimately show ?thesis
    by (auto simp: dict_overlap_def Let_def length_remdups_card_conv)
qed

lemma dict_overlap_refl: "dict_overlap a a = 1"
proof (cases "a = []")
  case False
  have "key_score a a k = 1" if "k \<in> fst ` set a" for k
  proof -
    from that have "map_of a k \<noteq> None" by (simp add: map_of_eq_None_iff)
    then show ?thesis by (auto simp: key_score_def)
  qed
  then have "map (key_score a a) (remdups (map fst a @ map fst a)) = map (\<lambda>_. 1) (remdups (map fst a @ map fst a))"
    by (intro map_cong) auto
  then have "sum_list (map (key_score a a) (remdups (map fst a @ map fst a)))
      = of_nat (length (remdups (map fst a @ map fst a)))"
    by (simp only: sum_list_triv mult_1_right)
  then show ?thesis using False by (simp add: dict_overlap_def Let_def)
qed (simp add: dict_overlap_def)

lemma scope_similarity_bounds: "0 \<le> scope_similarity a b" "scope_similarity a b \<le> 1"
  by (simp_all add: scope_similarity_def part_score_def Let_def)

lemma part_score_sym: "part_score x y = part_score y x"
  by (simp add: part_score_def)

lemma scope_similarity_sym: "scope_similarity a b = scope_similarity b a"
  using part_score_sym by (simp add: scope_similarity_def Let_def)

lemma scope_similarity_refl: "scope_similarity a a = 1"
  by (simp add: scope_similarity_def part_score_def Let_def)


section \<open>The similarity\<close>

lemma prefix_match_refl: "prefix_match a a = 1"
  by (simp add: prefix_match_def)

lemma similarity_value:
  "ev_language a = ev_language b \<Longrightarrow> fm_similarity_score (compute_similarity a b None t) =
     30 / 100 * prefix_match (ev_intent a) (ev_intent b) + 20 / 100 * exact_match (ev_domain a) (ev_domain b)
     + 20 / 100 * dict_overlap (ev_constraints a) (ev_constraints b)
     + 15 / 100 * exact_match (ev_format_type a) (ev_format_type b)
     + 15 / 100 * scope_similarity (ev_scope a) (ev_scope b)"
  using prefix_match_bounds [of "ev_intent a" "ev_intent b"] exact_match_bounds [of "ev_domain a" "ev_domain b"]
    dict_overlap_bounds [of "ev_constraints a" "ev_constraints b"]
    exact_match_bounds [of "ev_format_type a" "ev_format_type b"]
    scope_similarity_bounds [of "ev_scope a" "ev_scope b"]
  by (simp add: compute_similarity_def field_weights_def field_similarities_def Let_def)

lemma exact_match_sym: "exact_match a b = exact_match b a"
  by (simp add: exact_match_def)

text \<open>
  The similarity of two events is symmetric, between 0 and 1, exactly 1 for events with the same
  structured fields and 0 across languages. With the default weights and threshold, events that
  differ in both intent (no common first part) and domain are never candidates.
\<close>

theorem similarity_is_a_similarity:
  "fm_similarity_score (compute_similarity a b None t) = fm_similarity_score (compute_similarity b a None t)
   \<and> 0 \<le> fm_similarity_score (compute_similarity a b None t)
   \<and> fm_similarity_score (compute_similarity a b None t) \<le> 1
   \<and> fm_similarity_score (compute_similarity a a None t) = 1
   \<and> (ev_language a \<noteq> ev_language b \<longrightarrow> fm_similarity_score (compute_similarity a b None t) = 0)
   \<and> (prefix_match (ev_intent a) (ev_intent b) = 0 \<and> ev_domain a \<noteq> ev_domain b
        \<longrightarrow> \<not> fm_is_candidate (compute_similarity a b None similarity_threshold))"
proof (intro conjI impI)
  show "fm_similarity_score (compute_similarity a b None t) = fm_similarity_score (compute_similarity b a None t)"
  proof (cases "ev_language a = ev_language b")
    case True
    then show ?thesis
      using prefix_match_sym exact_match_sym dict_overlap_sym scope_similarity_sym
      by (simp add: similarity_value)
  qed (simp add: compute_similarity_def)
  show "0 \<le> fm_similarity_score (compute_similarity a b None t)"
    "fm_similarity_score (compute_similarity a b None t) \<le> 1"
    by (simp_all add: compute_similarity_def Let_def)
  show "fm_similarity_score (compute_similarity a a None t) = 1"
    by (simp add: similarity_value prefix_match_refl exact_match_def dict_overlap_refl scope_similarity_refl)
  show "fm_similarity_score (compute_similarity a b None t) = 0" if "ev_language a \<noteq> ev_language b"
    using that by (simp add: compute_similarity_def)
  show "\<not> fm_is_candidate (compute_similarity a b None similarity_threshold)"
    if "prefix_match (ev_intent a) (ev_intent b) = 0 \<and> ev_domain a \<noteq> ev_domain b"
    using that dict_overlap_bounds [of "ev_constraints a" "ev_constraints b"]
      exact_match_bounds [of "ev_format_type a" "ev_format_type b"]
      scope_similarity_bounds [of "ev_scope a" "ev_scope b"]
    by (simp add: compute_similarity_def field_weights_def field_similarities_def Let_def
        similarity_threshold_def exact_match_def)
qed

theorem similarity_is_a_similarity_witness:
  "fm_similarity_score (compute_similarity (sample_event ''plan'') ((sample_event ''plan'')\<lparr>ev_language := ''de''\<rparr>) None similarity_threshold) = 0"
proof -
  have "ev_language (sample_event ''plan'') \<noteq> ev_language ((sample_event ''plan'')\<lparr>ev_language := ''de''\<rparr>)"
    by (simp add: sample_event_def)
  with similarity_is_a_similarity [of "sample_event ''plan''" "(sample_event ''plan'')\<lparr>ev_language := ''de''\<rparr>" similarity_threshold]
  show ?thesis by blast
qed

end
