(* ===== verification/StoreTables.thy ===== *)
theory StoreTables
  imports PyText "HOL-Library.Multiset"
begin

text \<open>
  What the two kinds of stores share. A SQLite table is the list of its rows in the order of their row
  ids, with the statements \<open>INSERT OR REPLACE\<close>, \<open>INSERT OR IGNORE\<close> and the selection by a key, and with
  the search by \<open>LIKE\<close>. A JSONL file is a list of lines, each of them blank, no JSON, or an entry.
\<close>

section \<open>Tables with a key\<close>

definition replace_row :: "('r \<Rightarrow> 'k) \<Rightarrow> 'r \<Rightarrow> 'r list \<Rightarrow> 'r list" where
  "replace_row key r tb = filter (\<lambda>x. key x \<noteq> key r) tb @ [r]"

definition row_with :: "('r \<Rightarrow> 'k) \<Rightarrow> 'k \<Rightarrow> 'r list \<Rightarrow> 'r option" where
  "row_with key k tb = find (\<lambda>x. key x = k) tb"

definition insert_or_ignore :: "('r \<Rightarrow> 'k) \<Rightarrow> 'r \<Rightarrow> 'r list \<Rightarrow> 'r list" where
  "insert_or_ignore key r tb = (if row_with key (key r) tb = None then tb @ [r] else tb)"

lemma find_filter: "find P (filter Q xs) = find (\<lambda>x. Q x \<and> P x) xs"
  by (induction xs) auto

lemma find_snoc: "find P (xs @ ys) = (case find P xs of None \<Rightarrow> find P ys | Some x \<Rightarrow> Some x)"
  by (induction xs) auto

lemma row_with_replace:
  "row_with key k (replace_row key r tb) = (if k = key r then Some r else row_with key k tb)"
proof -
  have "find (\<lambda>x. key x \<noteq> key r \<and> key x = k) tb = (if k = key r then None else find (\<lambda>x. key x = k) tb)"
    by (induction tb) auto
  then show ?thesis by (auto simp: row_with_def replace_row_def find_filter find_snoc split: option.split)
qed

lemma row_with_delete:
  "row_with key k (filter (\<lambda>x. key x \<noteq> j) tb) = (if k = j then None else row_with key k tb)"
  by (induction tb) (auto simp: row_with_def)

lemma row_with_SomeD: "row_with key k tb = Some r \<Longrightarrow> r \<in> set tb \<and> key r = k"
  by (auto simp: row_with_def find_Some_iff)

lemma row_with_None_iff: "row_with key k tb = None \<longleftrightarrow> k \<notin> key ` set tb"
  by (auto simp: row_with_def find_None_iff)

lemma distinct_replace_row:
  "distinct (map key tb) \<Longrightarrow> distinct (map key (replace_row key r tb))"
  by (auto simp: replace_row_def distinct_map inj_on_def)

section \<open>Searching with SQL\<close>

definition max_search_query_len :: nat where "max_search_query_len = 200"

definition sanitize_search_query :: "string \<Rightarrow> nat \<Rightarrow> string" where
  "sanitize_search_query query max_len =
     (if query = [] then []
      else py_strip (filter (\<lambda>c. c \<noteq> CHR 0x22) (take max_len (py_strip query))))"

text \<open>\<open>LOWER\<close> and \<open>LIKE\<close> of SQLite fold the ASCII letters only.\<close>

definition sql_lower :: "string \<Rightarrow> string" where
  "sql_lower = map (\<lambda>c. let n = of_char c :: nat in if 65 \<le> n \<and> n \<le> 90 then char_of (n + 32) else c)"

fun like_match :: "string \<Rightarrow> string \<Rightarrow> bool" where
  "like_match [] s = (s = [])"
| "like_match (p # ps) s =
     (if p = CHR ''%''
      then like_match ps s \<or> (case s of [] \<Rightarrow> False | _ # cs \<Rightarrow> like_match (p # ps) cs)
      else case s of
             [] \<Rightarrow> False
           | c # cs \<Rightarrow> (p = CHR ''_'' \<or> sql_lower [p] = sql_lower [c]) \<and> like_match ps cs)"

definition like_search :: "string \<Rightarrow> string \<Rightarrow> bool" where
  "like_search query content =
     like_match (sql_lower (''%'' @ query @ ''%'')) (sql_lower content)"

text \<open>\<open>ORDER BY k DESC, rowid DESC\<close> on rows in the order of their row ids.\<close>

definition newest_first :: "('a \<Rightarrow> 'k :: linorder) \<Rightarrow> 'a list \<Rightarrow> 'a list" where
  "newest_first k rows = rev (sort_key k rows)"

section \<open>JSONL files\<close>

datatype 'e jsonl_line = BlankLine | CorruptLine | EntryLine 'e

text \<open>The lines of a file, \<open>None\<close> when it does not exist.\<close>

type_synonym 'e jsonl_file = "'e jsonl_line list option"

definition lines_of :: "'e jsonl_file \<Rightarrow> 'e jsonl_line list" where
  "lines_of f = (case f of None \<Rightarrow> [] | Some ls \<Rightarrow> ls)"

fun entries_of_lines :: "'e jsonl_line list \<Rightarrow> 'e list" where
  "entries_of_lines [] = []"
| "entries_of_lines (EntryLine e # ls) = e # entries_of_lines ls"
| "entries_of_lines (_ # ls) = entries_of_lines ls"

text \<open>\<open>xs[:limit]\<close>: a negative limit counts from the end.\<close>

definition slice_limit :: "int \<Rightarrow> 'a list \<Rightarrow> 'a list" where
  "slice_limit n xs = (if n < 0 then take (length xs - nat (- n)) xs else take (nat n) xs)"

text \<open>A file rewritten without some entries: blank lines go too, lines that are no JSON stay.\<close>

fun remaining_lines :: "('e \<Rightarrow> bool) \<Rightarrow> 'e jsonl_line list \<Rightarrow> 'e jsonl_line list" where
  "remaining_lines P [] = []"
| "remaining_lines P (BlankLine # ls) = remaining_lines P ls"
| "remaining_lines P (CorruptLine # ls) = CorruptLine # remaining_lines P ls"
| "remaining_lines P (EntryLine e # ls) =
     (if P e then remaining_lines P ls else EntryLine e # remaining_lines P ls)"

section \<open>Facts\<close>

lemma find_map_filter:
  "find P (map f (filter Q xs)) = map_option f (find (\<lambda>x. P (f x) \<and> Q x) xs)"
  by (induction xs) auto

lemma list_ex_map_filter:
  "list_ex P (map f (filter Q xs)) \<longleftrightarrow> list_ex (\<lambda>x. P (f x) \<and> Q x) xs"
  by (induction xs) auto

lemma map_insort_key: "map f (insort_key (\<lambda>x. k (f x)) a xs) = insort_key k (f a) (map f xs)"
  by (induction xs) auto

lemma map_newest_first: "map f (newest_first (\<lambda>x. k (f x)) xs) = newest_first k (map f xs)"
proof -
  have "map f (sort_key (\<lambda>x. k (f x)) xs) = sort_key k (map f xs)"
    by (induction xs) (auto simp: map_insort_key)
  then show ?thesis by (simp add: newest_first_def flip: rev_map)
qed

lemma set_newest_first [simp]: "set (newest_first k xs) = set xs"
  by (simp add: newest_first_def)

lemma newest_first_distinct:
  assumes "distinct (map k xs)"
  shows "order_desc k xs = newest_first k xs"
proof -
  have "sort_key k (rev xs) = sort_key k xs"
    using assms by (intro sort_key_inj_key_eq) (auto simp: distinct_map sorted_sort_key)
  then show ?thesis by (simp add: order_desc_def newest_first_def)
qed

lemma set_slice_limit: "set (slice_limit n xs) \<subseteq> set xs"
  by (auto simp: slice_limit_def dest: in_set_takeD)

lemma lines_of_simps [simp]: "lines_of None = []" "lines_of (Some ls) = ls"
  by (simp_all add: lines_of_def)

lemma entries_append [simp]:
  "entries_of_lines (ls @ [EntryLine e]) = entries_of_lines ls @ [e]"
  by (induction ls rule: entries_of_lines.induct) auto

lemma entries_remaining [simp]:
  "entries_of_lines (remaining_lines P ls) = filter (\<lambda>e. \<not> P e) (entries_of_lines ls)"
  by (induction ls rule: entries_of_lines.induct) auto

section \<open>The search\<close>

text \<open>Without a wildcard in the query \<open>LIKE\<close> is the search for a part, but for the case of ASCII letters only.\<close>

lemma sql_lower_append [simp]: "sql_lower (s @ t) = sql_lower s @ sql_lower t"
  by (simp add: sql_lower_def)

lemma sql_lower_Cons: "sql_lower (c # t) = sql_lower [c] @ sql_lower t"
  by (simp add: sql_lower_def)

lemma like_percent: "like_match (CHR ''%'' # ps) s \<longleftrightarrow> (\<exists>i. like_match ps (drop i s))"
proof (induction s)
  case (Cons c s)
  have "(\<exists>i. like_match ps (drop i (c # s))) \<longleftrightarrow> like_match ps (c # s) \<or> (\<exists>i. like_match ps (drop i s))"
    by (metis drop0 drop_Suc_Cons not0_implies_Suc)
  then show ?case using Cons by simp
qed simp

lemma like_plain:
  assumes "CHR ''%'' \<notin> set q" and "CHR ''_'' \<notin> set q"
  shows "like_match (q @ [CHR ''%'']) s \<longleftrightarrow> py_startswith (sql_lower s) (sql_lower q)"
  using assms
proof (induction q arbitrary: s)
  case Nil
  have "like_match [CHR ''%''] s" by (induction s) auto
  then show ?case by (simp add: py_startswith_def sql_lower_def)
next
  case (Cons a q)
  then show ?case
    by (cases s) (auto simp: py_startswith_def sql_lower_def)
qed

definition sql_lower_char :: "char \<Rightarrow> char" where
  "sql_lower_char c = (let n = of_char c :: nat in if 65 \<le> n \<and> n \<le> 90 then char_of (n + 32) else c)"

lemma sql_lower_map: "sql_lower s = map sql_lower_char s"
  by (simp add: sql_lower_def sql_lower_char_def)

lemma sql_lower_code:
  "(of_char (sql_lower_char c) :: nat) =
     (let n = of_char c in if 65 \<le> n \<and> n \<le> 90 then n + 32 else n)"
  by (simp add: sql_lower_char_def Let_def)

lemma sql_lower_char_idem: "sql_lower_char (sql_lower_char c) = sql_lower_char c"
proof -
  have "of_char (sql_lower_char (sql_lower_char c)) = (of_char (sql_lower_char c) :: nat)"
    unfolding sql_lower_code [of "sql_lower_char c"] unfolding sql_lower_code [of c] Let_def by auto
  then show ?thesis by (simp only: of_char_eq_iff)
qed

lemma sql_lower_char_wildcard: "sql_lower_char c = CHR ''%'' \<longleftrightarrow> c = CHR ''%''"
  "sql_lower_char c = CHR ''_'' \<longleftrightarrow> c = CHR ''_''"
  by (auto simp: sql_lower_char_def Let_def dest: arg_cong [where f = "of_char :: char \<Rightarrow> nat"])

lemma sql_lower_wildcard:
  "CHR ''%'' \<in> set (sql_lower q) \<longleftrightarrow> CHR ''%'' \<in> set q"
  "CHR ''_'' \<in> set (sql_lower q) \<longleftrightarrow> CHR ''_'' \<in> set q"
proof -
  have "(CHR ''%'' = sql_lower_char c) = (CHR ''%'' = c)" "(CHR ''_'' = sql_lower_char c) = (CHR ''_'' = c)" for c
    using sql_lower_char_wildcard [of c] by (simp_all only: eq_commute [of _ "sql_lower_char c"] eq_commute [of _ c])
  then show "CHR ''%'' \<in> set (sql_lower q) \<longleftrightarrow> CHR ''%'' \<in> set q"
    and "CHR ''_'' \<in> set (sql_lower q) \<longleftrightarrow> CHR ''_'' \<in> set q"
    by (simp_all add: sql_lower_map image_iff)
qed

lemma py_contains_drop: "py_contains p s \<longleftrightarrow> (\<exists>i. py_startswith (drop i s) p)"
proof (induction s)
  case (Cons c s)
  have "(\<exists>i. py_startswith (drop i (c # s)) p) \<longleftrightarrow> py_startswith (c # s) p \<or> (\<exists>i. py_startswith (drop i s) p)"
    by (metis drop0 drop_Suc_Cons not0_implies_Suc)
  then show ?case using Cons by simp
qed (auto simp: py_startswith_def)

lemma like_search_plain:
  assumes "CHR ''%'' \<notin> set q" and "CHR ''_'' \<notin> set q"
  shows "like_search q content \<longleftrightarrow> py_contains (sql_lower q) (sql_lower content)"
proof -
  have pat: "sql_lower (''%'' @ q @ ''%'') = CHR ''%'' # (sql_lower q @ ''%'')"
    by (simp add: sql_lower_def)
  have "CHR ''%'' \<notin> set (sql_lower q)" and "CHR ''_'' \<notin> set (sql_lower q)"
    using assms by (simp_all only: sql_lower_wildcard not_False_eq_True)
  from like_plain [OF this] show ?thesis
    unfolding like_search_def pat like_percent py_contains_drop
    by (simp add: sql_lower_map sql_lower_char_idem drop_map comp_def)
qed

text \<open>What a user searches for can be a wildcard, and the case of an umlaut matters.\<close>

lemma like_wildcard_any: "like_search ''%'' content"
proof -
  have "like_match [CHR ''%'', CHR ''%''] s" for s by (induction s) auto
  then have "like_match ''%%%'' (sql_lower content)" by (subst like_percent) blast
  moreover have "sql_lower (''%'' @ ''%'' @ ''%'') = ''%%%''" by (simp add: sql_lower_def)
  ultimately show ?thesis unfolding like_search_def by (simp only:)
qed

lemma like_wildcard_one: "like_search ''5_'' ''55'' \<and> \<not> py_contains ''5_'' ''55''"
  by code_simp

lemma like_umlaut: "\<not> like_search [CHR 0xC4] [CHR 0xE4] \<and> py_contains (py_lower [CHR 0xC4]) (py_lower [CHR 0xE4])"
  by code_simp

end
