(* ===== verification/MemoryStores.thy ===== *)
theory MemoryStores
  imports StoreTables PyJson
begin

text \<open>
  The persistence of the three-layer memory (\<open>infrastructure/sqlite_storage.py\<close>, class
  \<open>SqliteMemoryStorage\<close>, and \<open>infrastructure/memory_storage.py\<close>, class \<open>MemoryStorage\<close>): the entries
  of \<open>domain/memory\<close>, both backends, and the interface they promise, a locale with an
  interpretation for each of them.

  An entry is a dictionary whose base keys hold values of their types; the keys of one layer only
  are the field \<open>me_extra\<close>. A line of a JSONL file is blank, no JSON, or an entry. Other values
  than entries, which no method of the adapters writes, are not represented.
\<close>

section \<open>Entries\<close>

record memory_entry =
  me_id :: string
  me_user_id :: int
  me_content :: string
  me_timestamp :: string
  me_importance :: "int option"
  me_extra :: dict

text \<open>\<open>EpisodicEntry\<close>, \<open>SemanticEntry\<close> and \<open>ProceduralEntry\<close>, and their \<open>to_dict\<close>.\<close>

record layer_entry =
  le_id :: string
  le_user_id :: int
  le_content :: string
  le_context :: dict
  le_timestamp :: string
  le_importance :: int

record semantic_entry = layer_entry +
  le_category :: string

record procedural_entry = layer_entry +
  le_skill_name :: string
  le_usage_count :: int

definition episodic_to_dict :: "layer_entry \<Rightarrow> memory_entry" where
  "episodic_to_dict e =
     \<lparr>me_id = le_id e, me_user_id = le_user_id e, me_content = le_content e,
      me_timestamp = le_timestamp e, me_importance = Some (le_importance e),
      me_extra = [(''context'', JObj (le_context e))]\<rparr>"

definition semantic_to_dict :: "semantic_entry \<Rightarrow> memory_entry" where
  "semantic_to_dict e =
     \<lparr>me_id = le_id e, me_user_id = le_user_id e, me_content = le_content e,
      me_timestamp = le_timestamp e, me_importance = Some (le_importance e),
      me_extra = [(''category'', JStr (le_category e)), (''context'', JObj (le_context e))]\<rparr>"

definition procedural_to_dict :: "procedural_entry \<Rightarrow> memory_entry" where
  "procedural_to_dict e =
     \<lparr>me_id = le_id e, me_user_id = le_user_id e, me_content = le_content e,
      me_timestamp = le_timestamp e, me_importance = Some (le_importance e),
      me_extra = [(''skill_name'', JStr (le_skill_name e)), (''usage_count'', JInt (le_usage_count e)),
                  (''context'', JObj (le_context e))]\<rparr>"

definition valid_layers :: "string list" where
  "valid_layers = [''episodic'', ''semantic'', ''procedural'']"

datatype memory_error = UnknownLayer string | NoEmbeddingSearch

datatype search_mode = substring_mode | embedding_mode

section \<open>The SQLite backend\<close>

text \<open>The text of \<open>metadata_json\<close>, as \<open>json.loads\<close> reads it.\<close>

datatype metadata_text = MetadataText dict | MetadataCorrupt

record memory_row =
  mr_id :: string
  mr_user_id :: int
  mr_type :: string
  mr_content :: string
  mr_importance :: "int option"
  mr_timestamp :: string
  mr_metadata_json :: "metadata_text option"

definition entry_to_row :: "memory_entry \<Rightarrow> string \<Rightarrow> memory_row" where
  "entry_to_row e layer =
     \<lparr>mr_id = me_id e, mr_user_id = me_user_id e, mr_type = layer, mr_content = me_content e,
      mr_importance = me_importance e, mr_timestamp = me_timestamp e,
      mr_metadata_json = (if me_extra e = [] then None else Some (MetadataText (me_extra e)))\<rparr>"

definition row_to_entry :: "memory_row \<Rightarrow> memory_entry" where
  "row_to_entry r =
     \<lparr>me_id = mr_id r, me_user_id = mr_user_id r, me_content = mr_content r,
      me_timestamp = mr_timestamp r, me_importance = mr_importance r,
      me_extra = (case mr_metadata_json r of Some (MetadataText d) \<Rightarrow> d | _ \<Rightarrow> [])\<rparr>"

definition validate_layer :: "string \<Rightarrow> memory_error + unit" where
  "validate_layer layer =
     (if List.member valid_layers layer then Inr () else Inl (UnknownLayer layer))"

text \<open>
  The table \<open>memory_entries\<close> in the order of its row ids. \<open>INSERT OR REPLACE\<close> deletes the row of the
  same primary key, whoever owns it, and inserts the new one with the highest row id.
\<close>

type_synonym memory_table = "memory_row list"

definition sqlite_append :: "memory_table \<Rightarrow> memory_entry \<Rightarrow> string \<Rightarrow> memory_error + memory_table" where
  "sqlite_append tb entry layer =
     bind_res (validate_layer layer) (\<lambda>_.
       Inr (filter (\<lambda>r. mr_id r \<noteq> me_id entry) tb @ [entry_to_row entry layer]))"

text \<open>The queries on the rows of a user in a layer, newest first.\<close>

definition select_rows ::
    "memory_table \<Rightarrow> int \<Rightarrow> string \<Rightarrow> int \<Rightarrow> (memory_row \<Rightarrow> bool) \<Rightarrow> memory_row list" where
  "select_rows tb user_id layer limit matches =
     sql_limit limit (newest_first mr_timestamp
       (filter (\<lambda>r. mr_user_id r = user_id \<and> mr_type r = layer \<and> matches r) tb))"

definition sqlite_list_entries ::
    "memory_table \<Rightarrow> int \<Rightarrow> string \<Rightarrow> int \<Rightarrow> memory_error + memory_entry list" where
  "sqlite_list_entries tb user_id layer limit =
     bind_res (validate_layer layer) (\<lambda>_.
       Inr (map row_to_entry (select_rows tb user_id layer limit (\<lambda>_. True))))"

text \<open>
  The full-text index is a parameter: for a query the rows that match, or none when it fails. Without
  a hit the search falls back to \<open>LIKE\<close>.
\<close>

type_synonym fts_index = "string \<Rightarrow> (memory_row \<Rightarrow> bool) option"

definition sqlite_search ::
    "fts_index \<Rightarrow> memory_table \<Rightarrow> int \<Rightarrow> string \<Rightarrow> string \<Rightarrow> int \<Rightarrow> search_mode
       \<Rightarrow> memory_error + memory_entry list" where
  "sqlite_search fts tb user_id query layer limit mode =
     (if mode = embedding_mode then Inl NoEmbeddingSearch
      else bind_res (validate_layer layer) (\<lambda>_.
        let q = sanitize_search_query query max_search_query_len;
            like = Inr (map row_to_entry
                     (select_rows tb user_id layer limit (\<lambda>r. like_search q (mr_content r))))
        in if q = [] then Inr []
           else case fts q of
                  None \<Rightarrow> like
                | Some hit \<Rightarrow>
                    let rows = select_rows tb user_id layer limit hit
                    in if rows \<noteq> [] then Inr (map row_to_entry rows) else like))"

definition sqlite_delete_by_id ::
    "memory_table \<Rightarrow> string \<Rightarrow> string \<Rightarrow> int \<Rightarrow> memory_error + (memory_table \<times> bool)" where
  "sqlite_delete_by_id tb entry_id layer user_id =
     bind_res (validate_layer layer) (\<lambda>_.
       let hit = (\<lambda>r. mr_id r = entry_id \<and> mr_type r = layer \<and> mr_user_id r = user_id)
       in Inr (filter (\<lambda>r. \<not> hit r) tb, list_ex hit tb))"

definition sqlite_get_by_id ::
    "memory_table \<Rightarrow> string \<Rightarrow> string \<Rightarrow> int \<Rightarrow> memory_error + memory_entry option" where
  "sqlite_get_by_id tb entry_id layer user_id =
     bind_res (validate_layer layer) (\<lambda>_.
       Inr (map_option row_to_entry
              (find (\<lambda>r. mr_id r = entry_id \<and> mr_type r = layer \<and> mr_user_id r = user_id) tb)))"

section \<open>The JSONL backend\<close>

type_synonym memory_line = "memory_entry jsonl_line"

text \<open>One file per layer, \<open>None\<close> when it does not exist.\<close>

type_synonym memory_file = "memory_entry jsonl_file"

record memory_files =
  mf_episodic :: memory_file
  mf_semantic :: memory_file
  mf_procedural :: memory_file

definition no_memory_files :: memory_files where
  "no_memory_files = \<lparr>mf_episodic = None, mf_semantic = None, mf_procedural = None\<rparr>"

definition file_for_layer :: "memory_files \<Rightarrow> string \<Rightarrow> memory_error + memory_file" where
  "file_for_layer fs layer =
     (if layer = ''episodic'' then Inr (mf_episodic fs)
      else if layer = ''semantic'' then Inr (mf_semantic fs)
      else if layer = ''procedural'' then Inr (mf_procedural fs)
      else Inl (UnknownLayer layer))"

definition write_file :: "memory_files \<Rightarrow> string \<Rightarrow> memory_line list \<Rightarrow> memory_files" where
  "write_file fs layer ls =
     (if layer = ''episodic'' then fs\<lparr>mf_episodic := Some ls\<rparr>
      else if layer = ''semantic'' then fs\<lparr>mf_semantic := Some ls\<rparr>
      else fs\<lparr>mf_procedural := Some ls\<rparr>)"

definition jsonl_append :: "memory_files \<Rightarrow> memory_entry \<Rightarrow> string \<Rightarrow> memory_error + memory_files" where
  "jsonl_append fs entry layer =
     bind_res (file_for_layer fs layer) (\<lambda>f. Inr (write_file fs layer (lines_of f @ [EntryLine entry])))"

definition jsonl_list_entries ::
    "memory_files \<Rightarrow> int \<Rightarrow> string \<Rightarrow> int \<Rightarrow> memory_error + memory_entry list" where
  "jsonl_list_entries fs user_id layer limit =
     bind_res (file_for_layer fs layer) (\<lambda>f.
       Inr (slice_limit limit (order_desc me_timestamp
              (filter (\<lambda>e. me_user_id e = user_id) (entries_of_lines (lines_of f))))))"

definition jsonl_search ::
    "memory_files \<Rightarrow> int \<Rightarrow> string \<Rightarrow> string \<Rightarrow> int \<Rightarrow> search_mode \<Rightarrow> memory_error + memory_entry list" where
  "jsonl_search fs user_id query layer limit mode =
     (if mode = embedding_mode then Inl NoEmbeddingSearch
      else bind_res (file_for_layer fs layer) (\<lambda>f.
        Inr (slice_limit limit (order_desc me_timestamp
               (filter (\<lambda>e. me_user_id e = user_id \<and> py_contains (py_lower query) (py_lower (me_content e)))
                 (entries_of_lines (lines_of f)))))))"

text \<open>Deletion rewrites the file without the entry, and leaves it alone when nothing is found.\<close>

definition is_entry :: "string \<Rightarrow> int \<Rightarrow> memory_entry \<Rightarrow> bool" where
  "is_entry entry_id user_id e \<longleftrightarrow> me_id e = entry_id \<and> me_user_id e = user_id"

definition jsonl_delete_by_id ::
    "memory_files \<Rightarrow> string \<Rightarrow> string \<Rightarrow> int \<Rightarrow> memory_error + (memory_files \<times> bool)" where
  "jsonl_delete_by_id fs entry_id layer user_id =
     bind_res (file_for_layer fs layer) (\<lambda>f.
       case f of
         None \<Rightarrow> Inr (fs, False)
       | Some ls \<Rightarrow>
           if list_ex (is_entry entry_id user_id) (entries_of_lines ls)
           then Inr (write_file fs layer (remaining_lines (is_entry entry_id user_id) ls), True)
           else Inr (fs, False))"

definition jsonl_get_by_id ::
    "memory_files \<Rightarrow> string \<Rightarrow> string \<Rightarrow> int \<Rightarrow> memory_error + memory_entry option" where
  "jsonl_get_by_id fs entry_id layer user_id =
     bind_res (file_for_layer fs layer) (\<lambda>f.
       Inr (find (is_entry entry_id user_id) (entries_of_lines (lines_of f))))"

end
