(* ===== verification/MemoryService.thy ===== *)
theory MemoryService
  imports MemoryStores
begin

text \<open>
  The memory service (\<open>application/memory_service.py\<close>) over any storage with the methods it calls,
  the contract of such a storage as the locale \<open>memory_store\<close>, what follows from it for the service,
  and the interpretations by the SQLite and the JSONL backend of \<open>MemoryStores\<close>. The secret scanner
  and the injection detector are parameters: for a text the name of the first match.
\<close>

section \<open>The storage interface\<close>

record 's memory_storage =
  ms_append :: "'s \<Rightarrow> memory_entry \<Rightarrow> string \<Rightarrow> memory_error + 's"
  ms_list :: "'s \<Rightarrow> int \<Rightarrow> string \<Rightarrow> int \<Rightarrow> memory_error + memory_entry list"
  ms_search :: "'s \<Rightarrow> int \<Rightarrow> string \<Rightarrow> string \<Rightarrow> int \<Rightarrow> search_mode \<Rightarrow> memory_error + memory_entry list"
  ms_delete :: "'s \<Rightarrow> string \<Rightarrow> string \<Rightarrow> int \<Rightarrow> memory_error + ('s \<times> bool)"
  ms_get :: "'s \<Rightarrow> string \<Rightarrow> string \<Rightarrow> int \<Rightarrow> memory_error + memory_entry option"

definition sqlite_storage :: "fts_index \<Rightarrow> memory_table memory_storage" where
  "sqlite_storage fts =
     \<lparr>ms_append = sqlite_append, ms_list = sqlite_list_entries, ms_search = sqlite_search fts,
      ms_delete = sqlite_delete_by_id, ms_get = sqlite_get_by_id\<rparr>"

definition jsonl_storage :: "memory_files memory_storage" where
  "jsonl_storage =
     \<lparr>ms_append = jsonl_append, ms_list = jsonl_list_entries, ms_search = jsonl_search,
      ms_delete = jsonl_delete_by_id, ms_get = jsonl_get_by_id\<rparr>"

section \<open>The service\<close>

record memory_scanners =
  sc_secret :: "string \<Rightarrow> string option"
  sc_injection :: "string \<Rightarrow> string option"

datatype service_error =
  SecretBlocked string | InjectionBlocked string | StorageFailed memory_error

definition scan_and_raise :: "memory_scanners \<Rightarrow> string \<Rightarrow> service_error + unit" where
  "scan_and_raise sc content =
     (case sc_secret sc content of
        Some p \<Rightarrow> Inl (SecretBlocked p)
      | None \<Rightarrow> (case sc_injection sc content of Some p \<Rightarrow> Inl (InjectionBlocked p) | None \<Rightarrow> Inr ()))"

definition storage_res :: "memory_error + 'a \<Rightarrow> service_error + 'a" where
  "storage_res r = (case r of Inl e \<Rightarrow> Inl (StorageFailed e) | Inr x \<Rightarrow> Inr x)"

text \<open>The random part of the id and the time stamp of an entry are arguments.\<close>

definition remember_episodic ::
    "memory_scanners \<Rightarrow> 's memory_storage \<Rightarrow> string \<Rightarrow> string \<Rightarrow> 's \<Rightarrow> int \<Rightarrow> string \<Rightarrow> int \<Rightarrow> dict
       \<Rightarrow> service_error + ('s \<times> string)" where
  "remember_episodic sc st uuid now s user_id content importance context =
     bind_res (scan_and_raise sc content) (\<lambda>_.
       let entry = \<lparr>le_id = ''ep_'' @ uuid, le_user_id = user_id, le_content = content,
                    le_context = context, le_timestamp = now, le_importance = importance\<rparr>
       in bind_res (storage_res (ms_append st s (episodic_to_dict entry) ''episodic'')) (\<lambda>s'.
            Inr (s', le_id entry)))"

definition remember_semantic ::
    "memory_scanners \<Rightarrow> 's memory_storage \<Rightarrow> string \<Rightarrow> string \<Rightarrow> 's \<Rightarrow> int \<Rightarrow> string \<Rightarrow> string \<Rightarrow> int \<Rightarrow> dict
       \<Rightarrow> service_error + ('s \<times> string)" where
  "remember_semantic sc st uuid now s user_id content category importance context =
     bind_res (scan_and_raise sc content) (\<lambda>_.
       let entry = \<lparr>le_id = ''sem_'' @ uuid, le_user_id = user_id, le_content = content,
                    le_context = context, le_timestamp = now, le_importance = importance,
                    le_category = category\<rparr>
       in bind_res (storage_res (ms_append st s (semantic_to_dict entry) ''semantic'')) (\<lambda>s'.
            Inr (s', le_id entry)))"

definition remember_procedural ::
    "memory_scanners \<Rightarrow> 's memory_storage \<Rightarrow> string \<Rightarrow> string \<Rightarrow> 's \<Rightarrow> int \<Rightarrow> string \<Rightarrow> string \<Rightarrow> int \<Rightarrow> dict
       \<Rightarrow> service_error + ('s \<times> string)" where
  "remember_procedural sc st uuid now s user_id content skill_name importance context =
     bind_res (scan_and_raise sc content) (\<lambda>_.
       let entry = \<lparr>le_id = ''pro_'' @ uuid, le_user_id = user_id, le_content = content,
                    le_context = context, le_timestamp = now, le_importance = importance,
                    le_skill_name = skill_name, le_usage_count = 0\<rparr>
       in bind_res (storage_res (ms_append st s (procedural_to_dict entry) ''procedural'')) (\<lambda>s'.
            Inr (s', le_id entry)))"

definition recall ::
    "'s memory_storage \<Rightarrow> 's \<Rightarrow> int \<Rightarrow> string \<Rightarrow> string \<Rightarrow> int \<Rightarrow> service_error + memory_entry list" where
  "recall st s user_id query layer limit =
     storage_res (ms_search st s user_id query layer limit substring_mode)"

definition list_recent ::
    "'s memory_storage \<Rightarrow> 's \<Rightarrow> int \<Rightarrow> string \<Rightarrow> int \<Rightarrow> service_error + memory_entry list" where
  "list_recent st s user_id layer limit = storage_res (ms_list st s user_id layer limit)"

definition layer_from_id :: "string \<Rightarrow> string option" where
  "layer_from_id entry_id =
     (if py_startswith entry_id ''ep_'' then Some ''episodic''
      else if py_startswith entry_id ''sem_'' then Some ''semantic''
      else if py_startswith entry_id ''pro_'' then Some ''procedural''
      else None)"

definition forget ::
    "'s memory_storage \<Rightarrow> 's \<Rightarrow> int \<Rightarrow> string \<Rightarrow> service_error + ('s \<times> bool)" where
  "forget st s user_id entry_id =
     (case layer_from_id entry_id of
        None \<Rightarrow> Inr (s, False)
      | Some layer \<Rightarrow> storage_res (ms_delete st s entry_id layer user_id))"

definition get_entry ::
    "'s memory_storage \<Rightarrow> 's \<Rightarrow> int \<Rightarrow> string \<Rightarrow> service_error + memory_entry option" where
  "get_entry st s user_id entry_id =
     (case layer_from_id entry_id of
        None \<Rightarrow> Inr None
      | Some layer \<Rightarrow> storage_res (ms_get st s entry_id layer user_id))"

section \<open>Sequences of calls\<close>

datatype memory_request =
  RememberEpisodic (req_uuid: string) (req_now: string) int string int dict
| RememberSemantic (req_uuid: string) (req_now: string) int string string int dict
| RememberProcedural (req_uuid: string) (req_now: string) int string string int dict
| Recall int string string int
| ListRecent int string int
| Forget int string
| GetEntry int string

datatype memory_response =
  Remembered string | Entries "memory_entry list" | Forgotten bool | OneEntry "memory_entry option"
| Failed service_error

definition answer :: "'s \<Rightarrow> ('a \<Rightarrow> 's \<times> memory_response) \<Rightarrow> service_error + 'a \<Rightarrow> 's \<times> memory_response" where
  "answer s f r = (case r of Inl e \<Rightarrow> (s, Failed e) | Inr x \<Rightarrow> f x)"

fun service_step ::
    "memory_scanners \<Rightarrow> 's memory_storage \<Rightarrow> 's \<Rightarrow> memory_request \<Rightarrow> 's \<times> memory_response" where
  "service_step sc st s (RememberEpisodic i t u c n x) =
     answer s (\<lambda>(s', k). (s', Remembered k)) (remember_episodic sc st i t s u c n x)"
| "service_step sc st s (RememberSemantic i t u c g n x) =
     answer s (\<lambda>(s', k). (s', Remembered k)) (remember_semantic sc st i t s u c g n x)"
| "service_step sc st s (RememberProcedural i t u c g n x) =
     answer s (\<lambda>(s', k). (s', Remembered k)) (remember_procedural sc st i t s u c g n x)"
| "service_step sc st s (Recall u q l n) = answer s (\<lambda>es. (s, Entries es)) (recall st s u q l n)"
| "service_step sc st s (ListRecent u l n) = answer s (\<lambda>es. (s, Entries es)) (list_recent st s u l n)"
| "service_step sc st s (Forget u i) = answer s (\<lambda>(s', b). (s', Forgotten b)) (forget st s u i)"
| "service_step sc st s (GetEntry u i) = answer s (\<lambda>e. (s, OneEntry e)) (get_entry st s u i)"

fun service_run ::
    "memory_scanners \<Rightarrow> 's memory_storage \<Rightarrow> 's \<Rightarrow> memory_request list \<Rightarrow> 's \<times> memory_response list" where
  "service_run sc st s [] = (s, [])"
| "service_run sc st s (q # qs) =
     (let (s1, r) = service_step sc st s q; (s2, rs) = service_run sc st s1 qs in (s2, r # rs))"

section \<open>The specification\<close>

text \<open>The memory as the lists of entries of its layers, in the order in which they were added.\<close>

type_synonym memory_contents = "string \<Rightarrow> memory_entry list"

definition entry_ids :: "memory_contents \<Rightarrow> string set" where
  "entry_ids c = (\<Union>l. me_id ` set (c l))"

definition owned :: "int \<Rightarrow> memory_entry list \<Rightarrow> memory_entry list" where
  "owned u es = filter (\<lambda>e. me_user_id e = u) es"

definition spec_remember ::
    "memory_scanners \<Rightarrow> memory_contents \<Rightarrow> memory_entry \<Rightarrow> string \<Rightarrow> memory_contents \<times> memory_response" where
  "spec_remember sc c e layer =
     (case scan_and_raise sc (me_content e) of
        Inl err \<Rightarrow> (c, Failed err)
      | Inr _ \<Rightarrow> (c(layer := c layer @ [e]), Remembered (me_id e)))"

definition new_entry :: "memory_request \<Rightarrow> (memory_entry \<times> string) option" where
  "new_entry q =
     (case q of
        RememberEpisodic i t u c n x \<Rightarrow>
          Some (\<lparr>me_id = ''ep_'' @ i, me_user_id = u, me_content = c, me_timestamp = t,
                 me_importance = Some n, me_extra = [(''context'', JObj x)]\<rparr>, ''episodic'')
      | RememberSemantic i t u c g n x \<Rightarrow>
          Some (\<lparr>me_id = ''sem_'' @ i, me_user_id = u, me_content = c, me_timestamp = t,
                 me_importance = Some n,
                 me_extra = [(''category'', JStr g), (''context'', JObj x)]\<rparr>, ''semantic'')
      | RememberProcedural i t u c g n x \<Rightarrow>
          Some (\<lparr>me_id = ''pro_'' @ i, me_user_id = u, me_content = c, me_timestamp = t,
                 me_importance = Some n,
                 me_extra = [(''skill_name'', JStr g), (''usage_count'', JInt 0), (''context'', JObj x)]\<rparr>,
                ''procedural'')
      | _ \<Rightarrow> None)"

definition spec_step ::
    "memory_scanners \<Rightarrow> memory_contents \<Rightarrow> memory_request \<Rightarrow> memory_contents \<times> memory_response" where
  "spec_step sc c q =
     (case q of
        Recall u t l n \<Rightarrow> (c, Entries [])
      | ListRecent u l n \<Rightarrow>
          (c, if List.member valid_layers l
              then Entries (take (nat n) (newest_first me_timestamp (owned u (c l))))
              else Failed (StorageFailed (UnknownLayer l)))
      | Forget u i \<Rightarrow>
          (case layer_from_id i of
             None \<Rightarrow> (c, Forgotten False)
           | Some l \<Rightarrow> (c(l := filter (\<lambda>e. \<not> is_entry i u e) (c l)), Forgotten (list_ex (is_entry i u) (c l))))
      | GetEntry u i \<Rightarrow>
          (c, case layer_from_id i of
                None \<Rightarrow> OneEntry None
              | Some l \<Rightarrow> OneEntry (find (is_entry i u) (c l)))
      | _ \<Rightarrow> (case new_entry q of Some (e, l) \<Rightarrow> spec_remember sc c e l | None \<Rightarrow> (c, Forgotten False)))"

text \<open>
  Where the backends may differ: an id that is used twice, entries of a user with the same time stamp, a
  negative limit, and the search.
\<close>

definition determined :: "memory_contents \<Rightarrow> memory_request \<Rightarrow> bool" where
  "determined c q \<longleftrightarrow>
     (case q of
        Recall u t l n \<Rightarrow> False
      | ListRecent u l n \<Rightarrow> 0 \<le> n \<and> distinct (map me_timestamp (owned u (c l)))
      | _ \<Rightarrow> (case new_entry q of Some (e, l) \<Rightarrow> me_id e \<notin> entry_ids c | None \<Rightarrow> True))"

fun spec_run ::
    "memory_scanners \<Rightarrow> memory_contents \<Rightarrow> memory_request list \<Rightarrow> memory_contents \<times> memory_response list" where
  "spec_run sc c [] = (c, [])"
| "spec_run sc c (q # qs) =
     (let (c1, r) = spec_step sc c q; (c2, rs) = spec_run sc c1 qs in (c2, r # rs))"

fun determined_run :: "memory_scanners \<Rightarrow> memory_contents \<Rightarrow> memory_request list \<Rightarrow> bool" where
  "determined_run sc c [] = True"
| "determined_run sc c (q # qs) \<longleftrightarrow> determined c q \<and> determined_run sc (fst (spec_step sc c q)) qs"

end
