(* ===== verification/MemoryGuarantees.thy ===== *)
theory MemoryGuarantees
  imports MemoryService
begin

text \<open>
  The contract of a memory storage as a locale, the service over any storage that keeps it, the
  interpretations by both backends, and the properties of the service: the backends are
  interchangeable, and memory is private and scanned.
\<close>

lemma valid_layers_cases:
  assumes "List.member valid_layers l"
  obtains "l = ''episodic''" | "l = ''semantic''" | "l = ''procedural''"
  using assms by (auto simp: valid_layers_def)

section \<open>The contract of a storage\<close>

text \<open>
  \<open>contents s l\<close> are the entries of layer \<open>l\<close>, oldest first. An entry is appended as the last one if its
  id is new; whatever its id, nothing else is added.
\<close>

locale memory_store =
  fixes st :: "'s memory_storage"
    and contents :: "'s \<Rightarrow> memory_contents"
    and invar :: "'s \<Rightarrow> bool"
  assumes append_new: "invar s \<Longrightarrow> List.member valid_layers l \<Longrightarrow> me_id e \<notin> entry_ids (contents s)
      \<Longrightarrow> \<exists>s'. ms_append st s e l = Inr s' \<and> contents s' = (contents s)(l := contents s l @ [e])"
    and append_ok: "invar s \<Longrightarrow> List.member valid_layers l
      \<Longrightarrow> \<exists>s'. ms_append st s e l = Inr s' \<and> invar s'
            \<and> (\<forall>k. set (contents s' k) \<subseteq> insert e (set (contents s k)))"
    and get_ok: "invar s \<Longrightarrow> List.member valid_layers l
      \<Longrightarrow> ms_get st s i l u = Inr (find (is_entry i u) (contents s l))"
    and delete_ok: "invar s \<Longrightarrow> List.member valid_layers l
      \<Longrightarrow> \<exists>s'. ms_delete st s i l u = Inr (s', list_ex (is_entry i u) (contents s l)) \<and> invar s'
            \<and> contents s' = (contents s)(l := filter (\<lambda>e. \<not> is_entry i u e) (contents s l))"
    and list_ok: "invar s \<Longrightarrow> List.member valid_layers l
      \<Longrightarrow> \<exists>es. ms_list st s u l n = Inr es \<and> set es \<subseteq> set (owned u (contents s l))
            \<and> (0 \<le> n \<longrightarrow> distinct (map me_timestamp (owned u (contents s l)))
                 \<longrightarrow> es = take (nat n) (newest_first me_timestamp (owned u (contents s l))))"
    and list_unknown: "\<not> List.member valid_layers l \<Longrightarrow> ms_list st s u l n = Inl (UnknownLayer l)"
    and search_ok: "invar s \<Longrightarrow> ms_search st s u t l n m = Inr es \<Longrightarrow> set es \<subseteq> set (owned u (contents s l))"
begin

text \<open>Storing an entry, in the terms of the specification.\<close>

definition store_entry :: "memory_scanners \<Rightarrow> 's \<Rightarrow> memory_entry \<Rightarrow> string \<Rightarrow> 's \<times> memory_response" where
  "store_entry sc s e l =
     answer s (\<lambda>s'. (s', Remembered (me_id e)))
       (bind_res (scan_and_raise sc (me_content e)) (\<lambda>_. storage_res (ms_append st s e l)))"

lemma step_store:
  assumes "new_entry q = Some (e, l)"
  shows "service_step sc st s q = store_entry sc s e l \<and> List.member valid_layers l"
  using assms
  by (cases q) (auto simp: new_entry_def store_entry_def remember_episodic_def remember_semantic_def
      remember_procedural_def episodic_to_dict_def semantic_to_dict_def procedural_to_dict_def Let_def
      answer_def bind_res_def storage_res_def valid_layers_def split: sum.splits)

lemma store_entry_spec:
  assumes "invar s" and "List.member valid_layers l" and "me_id e \<notin> entry_ids (contents s)"
  shows "\<exists>s'. store_entry sc s e l = (s', snd (spec_remember sc (contents s) e l)) \<and> invar s'
    \<and> contents s' = fst (spec_remember sc (contents s) e l)"
proof (cases "scan_and_raise sc (me_content e)")
  case (Inl err)
  then show ?thesis using assms(1) by (simp add: store_entry_def answer_def spec_remember_def)
next
  case (Inr x)
  obtain s' where "ms_append st s e l = Inr s'" "contents s' = (contents s)(l := contents s l @ [e])"
    and "invar s'"
    using append_new [OF assms] append_ok [OF assms(1,2), of e] by auto
  then show ?thesis using Inr by (simp add: store_entry_def answer_def spec_remember_def storage_res_def)
qed

lemma layer_from_id_valid: "layer_from_id i = Some l \<Longrightarrow> List.member valid_layers l"
  by (auto simp: layer_from_id_def valid_layers_def split: if_splits)

text \<open>Every determined call does what the specification says.\<close>

lemma step_refines:
  assumes "invar s" and "determined (contents s) q"
  shows "\<exists>s'. service_step sc st s q = (s', snd (spec_step sc (contents s) q)) \<and> invar s'
    \<and> contents s' = fst (spec_step sc (contents s) q)"
proof (cases "new_entry q")
  case (Some p)
  obtain e l where p: "p = (e, l)" by (cases p)
  then have e: "new_entry q = Some (e, l)" using Some by simp
  then have "me_id e \<notin> entry_ids (contents s)"
    and spec: "spec_step sc (contents s) q = spec_remember sc (contents s) e l"
    using assms(2) by (auto simp: determined_def spec_step_def new_entry_def split: memory_request.splits)
  then show ?thesis
    using store_entry_spec [OF assms(1), of l e sc] step_store [OF e, of sc s] by simp
next
  case None
  then show ?thesis
  proof (cases q)
    case (ListRecent u l n)
    then show ?thesis
      using assms list_ok [of s l u n] list_unknown [of l s u n]
      by (cases "List.member valid_layers l")
        (auto simp: determined_def spec_step_def answer_def list_recent_def storage_res_def)
  next
    case (Forget u i)
    show ?thesis
    proof (cases "layer_from_id i")
      case (Some l)
      from delete_ok [OF assms(1) layer_from_id_valid [OF Some], of i u]
      show ?thesis
        using Some Forget by (auto simp: spec_step_def answer_def forget_def storage_res_def)
    qed (use assms Forget in \<open>simp add: spec_step_def answer_def forget_def\<close>)
  next
    case (GetEntry u i)
    show ?thesis
    proof (cases "layer_from_id i")
      case (Some l)
      from get_ok [OF assms(1) layer_from_id_valid [OF Some], of i u]
      show ?thesis
        using assms(1) Some GetEntry by (auto simp: spec_step_def answer_def get_entry_def storage_res_def)
    qed (use assms GetEntry in \<open>simp add: spec_step_def answer_def get_entry_def\<close>)
  qed (use assms(2) in \<open>auto simp: new_entry_def determined_def\<close>)
qed

lemma run_refines:
  assumes "invar s" and "determined_run sc (contents s) qs"
  shows "snd (service_run sc st s qs) = snd (spec_run sc (contents s) qs)"
  using assms
proof (induction qs arbitrary: s)
  case (Cons q qs)
  from Cons.prems(2) have d: "determined (contents s) q"
    and ds: "determined_run sc (fst (spec_step sc (contents s) q)) qs" by simp_all
  obtain s' where s': "service_step sc st s q = (s', snd (spec_step sc (contents s) q))" "invar s'"
    "contents s' = fst (spec_step sc (contents s) q)"
    using step_refines [OF Cons.prems(1) d] by blast
  then show ?case using Cons.IH [of s'] ds by (simp add: case_prod_beta Let_def)
qed simp

text \<open>What is stored was scanned, whatever ids the entries have.\<close>

definition all_scanned :: "memory_scanners \<Rightarrow> 's \<Rightarrow> bool" where
  "all_scanned sc s \<longleftrightarrow> (\<forall>l e. e \<in> set (contents s l) \<longrightarrow> is_ok (scan_and_raise sc (me_content e)))"

lemma store_entry_scanned:
  assumes "invar s" and "all_scanned sc s" and "List.member valid_layers l"
    and "store_entry sc s e l = (s', r)"
  shows "invar s' \<and> all_scanned sc s'"
proof (cases "scan_and_raise sc (me_content e)")
  case (Inl err)
  then show ?thesis using assms by (simp add: store_entry_def answer_def)
next
  case (Inr x)
  obtain s2 where s2: "ms_append st s e l = Inr s2" "invar s2"
    "\<forall>k. set (contents s2 k) \<subseteq> insert e (set (contents s k))"
    using append_ok [OF assms(1,3), of e] by blast
  then have "s' = s2" using assms(4) Inr by (simp add: store_entry_def answer_def storage_res_def)
  moreover have "all_scanned sc s2"
    unfolding all_scanned_def
  proof (intro allI impI)
    fix k f assume "f \<in> set (contents s2 k)"
    then have "f = e \<or> f \<in> set (contents s k)" using s2(3) by auto
    then show "is_ok (scan_and_raise sc (me_content f))" using Inr assms(2) by (auto simp: all_scanned_def)
  qed
  ultimately show ?thesis using s2(2) by simp
qed

lemma step_scanned:
  assumes "invar s" and "all_scanned sc s" and "service_step sc st s q = (s', r)"
  shows "invar s' \<and> all_scanned sc s'"
proof (cases "new_entry q")
  case (Some p)
  then obtain e l where e: "new_entry q = Some (e, l)" by (cases p) auto
  then show ?thesis using store_entry_scanned [OF assms(1,2)] step_store [OF e, of sc s] assms(3) by metis
next
  case None
  then show ?thesis
  proof (cases q)
    case (Forget u i)
    show ?thesis
    proof (cases "layer_from_id i")
      case (Some l)
      from delete_ok [OF assms(1) layer_from_id_valid [OF Some], of i u]
      show ?thesis
        using assms Some Forget
        by (auto simp: answer_def forget_def storage_res_def all_scanned_def split: if_splits)
    qed (use assms Forget in \<open>auto simp: answer_def forget_def\<close>)
  qed (use assms in \<open>auto simp: new_entry_def answer_def split: sum.splits\<close>)
qed

lemma run_scanned:
  assumes "invar s" and "all_scanned sc s"
  shows "invar (fst (service_run sc st s qs)) \<and> all_scanned sc (fst (service_run sc st s qs))"
  using assms
proof (induction qs arbitrary: s)
  case (Cons q qs)
  obtain s' r where "service_step sc st s q = (s', r)" by (cases "service_step sc st s q")
  with step_scanned [OF Cons.prems this] Cons.IH [of s'] show ?case by (simp add: case_prod_beta Let_def)
qed simp

lemma recall_private:
  assumes "invar s" and "all_scanned sc s" and "recall st s u t l n = Inr es" and "e \<in> set es"
  shows "me_user_id e = u \<and> is_ok (scan_and_raise sc (me_content e))"
proof -
  have "set es \<subseteq> set (owned u (contents s l))"
    using assms(1,3) search_ok by (auto simp: recall_def storage_res_def split: sum.splits)
  then show ?thesis using assms(2,4) by (auto simp: all_scanned_def owned_def)
qed

lemma list_private:
  assumes "invar s" and "all_scanned sc s" and "list_recent st s u l n = Inr es" and "e \<in> set es"
  shows "me_user_id e = u \<and> is_ok (scan_and_raise sc (me_content e))"
proof -
  have "List.member valid_layers l"
    using assms(3) list_unknown [of l s u n]
    by (cases "List.member valid_layers l") (auto simp: list_recent_def storage_res_def)
  with list_ok [OF assms(1) this, of u n] assms(3)
  have "set es \<subseteq> set (owned u (contents s l))" by (auto simp: list_recent_def storage_res_def)
  then show ?thesis using assms(2,4) by (auto simp: all_scanned_def owned_def)
qed

lemma get_private:
  assumes "invar s" and "all_scanned sc s" and "get_entry st s u i = Inr (Some e)"
  shows "me_user_id e = u \<and> me_id e = i \<and> is_ok (scan_and_raise sc (me_content e))"
proof -
  obtain l where l: "layer_from_id i = Some l" using assms(3) by (auto simp: get_entry_def split: option.splits)
  then have "find (is_entry i u) (contents s l) = Some e"
    using assms(3) get_ok [OF assms(1) layer_from_id_valid [OF l], of i u]
    by (auto simp: get_entry_def storage_res_def)
  then have "is_entry i u e" "e \<in> set (contents s l)" by (auto simp: find_Some_iff)
  then show ?thesis using assms(2) by (auto simp: is_entry_def all_scanned_def)
qed

end

section \<open>The SQLite backend\<close>

definition table_contents :: "memory_table \<Rightarrow> memory_contents" where
  "table_contents tb l = map row_to_entry (filter (\<lambda>r. mr_type r = l) tb)"

lemma memory_row_roundtrip [simp]: "row_to_entry (entry_to_row e l) = e"
  by (simp add: row_to_entry_def entry_to_row_def)

lemma row_fields [simp]:
  "me_id (row_to_entry r) = mr_id r" "me_user_id (row_to_entry r) = mr_user_id r"
  "me_timestamp (row_to_entry r) = mr_timestamp r" "mr_id (entry_to_row e l) = me_id e"
  "mr_type (entry_to_row e l) = l"
  by (simp_all add: row_to_entry_def entry_to_row_def)

lemma validate_layer_valid [simp]: "List.member valid_layers l \<Longrightarrow> validate_layer l = Inr ()"
  by (simp add: validate_layer_def)

lemma owned_table_contents:
  "owned u (table_contents tb l) = map row_to_entry (filter (\<lambda>r. mr_user_id r = u \<and> mr_type r = l) tb)"
  by (induction tb) (auto simp: owned_def table_contents_def)

lemma table_append:
  assumes "List.member valid_layers l"
  shows "sqlite_append tb e l = Inr (filter (\<lambda>r. mr_id r \<noteq> me_id e) tb @ [entry_to_row e l])"
  using assms by (simp add: sqlite_append_def)

lemma set_selected: "row_to_entry ` set (select_rows tb u l n P) \<subseteq> set (owned u (table_contents tb l))"
proof -
  have "set (select_rows tb u l n P) \<subseteq> {r \<in> set tb. mr_user_id r = u \<and> mr_type r = l}"
    using set_sql_limit [of n "newest_first mr_timestamp (filter (\<lambda>r. mr_user_id r = u \<and> mr_type r = l \<and> P r) tb)"]
    by (auto simp: select_rows_def)
  then show ?thesis by (auto simp: owned_table_contents)
qed

lemma table_list:
  assumes "List.member valid_layers l" and "distinct (map me_timestamp (owned u (table_contents tb l)))" and "0 \<le> n"
  shows "sqlite_list_entries tb u l n
    = Inr (take (nat n) (newest_first me_timestamp (owned u (table_contents tb l))))"
proof -
  have "(\<lambda>r. me_timestamp (row_to_entry r)) = mr_timestamp" by auto
  then have "newest_first me_timestamp (map row_to_entry rs) = map row_to_entry (newest_first mr_timestamp rs)" for rs
    using map_newest_first [of row_to_entry me_timestamp rs] by simp
  then show ?thesis
    using assms by (simp add: sqlite_list_entries_def select_rows_def sql_limit_def owned_table_contents take_map)
qed

lemma search_rows:
  assumes "sqlite_search fts tb u q l n m = Inr es"
  shows "es = [] \<or> (\<exists>P. es = map row_to_entry (select_rows tb u l n P))"
proof (cases "validate_layer l")
  case (Inr x)
  from assms show ?thesis
    unfolding sqlite_search_def Let_def Inr bind_res_Inr
    by (auto split: if_splits option.splits)
qed (use assms in \<open>simp add: sqlite_search_def split: if_splits\<close>)

lemma row_id_in_contents: "r \<in> set tb \<Longrightarrow> mr_id r \<in> entry_ids (table_contents tb)"
  unfolding entry_ids_def table_contents_def
  by (rule UN_I [of "mr_type r"]) (auto intro!: image_eqI [of _ _ "row_to_entry r"])

interpretation sqlite: memory_store "sqlite_storage fts" table_contents "\<lambda>_. True"
proof
  fix s :: memory_table and l i t :: string and e :: memory_entry and u n m es
  show "\<exists>s'. ms_append (sqlite_storage fts) s e l = Inr s'
          \<and> table_contents s' = (table_contents s)(l := table_contents s l @ [e])"
    if "List.member valid_layers l" and "me_id e \<notin> entry_ids (table_contents s)"
  proof -
    have "mr_id r \<noteq> me_id e" if "r \<in> set s" for r
      using \<open>me_id e \<notin> _\<close> row_id_in_contents [OF that] by auto
    then have "filter (\<lambda>r. mr_id r \<noteq> me_id e) s = s" by (simp add: filter_id_conv)
    then have "sqlite_append s e l = Inr (s @ [entry_to_row e l])"
      using \<open>List.member valid_layers l\<close> by (simp only: table_append)
    moreover have "table_contents (s @ [entry_to_row e l]) = (table_contents s)(l := table_contents s l @ [e])"
      by (simp add: table_contents_def fun_eq_iff)
    ultimately show ?thesis by (simp add: sqlite_storage_def)
  qed
  show "\<exists>s'. ms_append (sqlite_storage fts) s e l = Inr s' \<and> True
          \<and> (\<forall>k. set (table_contents s' k) \<subseteq> insert e (set (table_contents s k)))"
    if "List.member valid_layers l"
    using that by (auto simp: sqlite_storage_def table_append table_contents_def)
  show "ms_get (sqlite_storage fts) s i l u = Inr (find (is_entry i u) (table_contents s l))"
    if "List.member valid_layers l"
    using that by (simp add: sqlite_storage_def sqlite_get_by_id_def table_contents_def find_map_filter
        is_entry_def conj_ac)
  show "\<exists>s'. ms_delete (sqlite_storage fts) s i l u = Inr (s', list_ex (is_entry i u) (table_contents s l)) \<and> True
          \<and> table_contents s' = (table_contents s)(l := filter (\<lambda>e. \<not> is_entry i u e) (table_contents s l))"
    if "List.member valid_layers l"
    using that by (auto simp: sqlite_storage_def sqlite_delete_by_id_def table_contents_def list_ex_map_filter
        is_entry_def conj_ac filter_map comp_def fun_eq_iff intro!: arg_cong [of _ _ "map row_to_entry"] filter_cong)
  show "\<exists>es. ms_list (sqlite_storage fts) s u l n = Inr es \<and> set es \<subseteq> set (owned u (table_contents s l))
          \<and> (0 \<le> n \<longrightarrow> distinct (map me_timestamp (owned u (table_contents s l)))
               \<longrightarrow> es = take (nat n) (newest_first me_timestamp (owned u (table_contents s l))))"
    if "List.member valid_layers l"
  proof -
    have "set (map row_to_entry (select_rows s u l n (\<lambda>_. True))) \<subseteq> set (owned u (table_contents s l))"
      using set_selected by simp
    then show ?thesis
      using that table_list [OF that, of u s n] by (auto simp: sqlite_storage_def sqlite_list_entries_def)
  qed
  show "ms_list (sqlite_storage fts) s u l n = Inl (UnknownLayer l)" if "\<not> List.member valid_layers l"
    using that by (simp add: sqlite_storage_def sqlite_list_entries_def validate_layer_def)
  show "set es \<subseteq> set (owned u (table_contents s l))" if "ms_search (sqlite_storage fts) s u t l n m = Inr es"
  proof -
    have "sqlite_search fts s u t l n m = Inr es" using that by (simp add: sqlite_storage_def)
    then consider "es = []" | P where "es = map row_to_entry (select_rows s u l n P)"
      using search_rows by blast
    then show ?thesis
    proof cases
      case 2
      then show ?thesis using set_selected by simp
    qed simp
  qed
qed

section \<open>The JSONL backend\<close>

definition file_contents :: "memory_files \<Rightarrow> memory_contents" where
  "file_contents fs l = (case file_for_layer fs l of Inl _ \<Rightarrow> [] | Inr f \<Rightarrow> entries_of_lines (lines_of f))"

lemma file_for_valid:
  assumes "List.member valid_layers l"
  obtains f where "file_for_layer fs l = Inr f"
  using assms by (cases rule: valid_layers_cases) (auto simp: file_for_layer_def)

lemma contents_write:
  assumes "List.member valid_layers l"
  shows "file_contents (write_file fs l ls) = (file_contents fs)(l := entries_of_lines ls)"
  using assms
  by (cases rule: valid_layers_cases)
    (auto simp: file_contents_def file_for_layer_def write_file_def fun_eq_iff)

lemma file_contents_valid:
  "file_for_layer fs l = Inr f \<Longrightarrow> file_contents fs l = entries_of_lines (lines_of f)"
  by (simp add: file_contents_def)

lemma fun_upd_same_filter: "\<not> list_ex P (c l) \<Longrightarrow> c(l := filter (\<lambda>x. \<not> P x) (c l)) = c"
  by (auto simp: fun_eq_iff list_ex_iff filter_id_conv)

interpretation jsonl: memory_store jsonl_storage file_contents "\<lambda>_. True"
proof
  fix s :: memory_files and l i t :: string and e :: memory_entry and u n m es
  show "\<exists>s'. ms_append jsonl_storage s e l = Inr s'
          \<and> file_contents s' = (file_contents s)(l := file_contents s l @ [e])"
    if v: "List.member valid_layers l" and "me_id e \<notin> entry_ids (file_contents s)"
  proof -
    obtain f where "file_for_layer s l = Inr f" by (rule file_for_valid [OF v])
    then show ?thesis
      by (simp add: jsonl_storage_def jsonl_append_def contents_write [OF v] file_contents_valid)
  qed
  show "\<exists>s'. ms_append jsonl_storage s e l = Inr s' \<and> True
          \<and> (\<forall>k. set (file_contents s' k) \<subseteq> insert e (set (file_contents s k)))"
    if v: "List.member valid_layers l"
  proof -
    obtain f where "file_for_layer s l = Inr f" by (rule file_for_valid [OF v])
    then show ?thesis
      by (auto simp: jsonl_storage_def jsonl_append_def contents_write [OF v] file_contents_valid)
  qed
  show "ms_get jsonl_storage s i l u = Inr (find (is_entry i u) (file_contents s l))"
    if v: "List.member valid_layers l"
    by (rule file_for_valid [OF v, of s]) (simp add: jsonl_storage_def jsonl_get_by_id_def file_contents_def)
  show "\<exists>s'. ms_delete jsonl_storage s i l u = Inr (s', list_ex (is_entry i u) (file_contents s l)) \<and> True
          \<and> file_contents s' = (file_contents s)(l := filter (\<lambda>e. \<not> is_entry i u e) (file_contents s l))"
    if v: "List.member valid_layers l"
  proof -
    obtain f where "file_for_layer s l = Inr f" by (rule file_for_valid [OF v])
    then show ?thesis
      using contents_write [OF v] fun_upd_same_filter [of "is_entry i u" "file_contents s" l]
      by (cases f) (auto simp: jsonl_storage_def jsonl_delete_by_id_def file_contents_valid)
  qed
  show "\<exists>es. ms_list jsonl_storage s u l n = Inr es \<and> set es \<subseteq> set (owned u (file_contents s l))
          \<and> (0 \<le> n \<longrightarrow> distinct (map me_timestamp (owned u (file_contents s l)))
               \<longrightarrow> es = take (nat n) (newest_first me_timestamp (owned u (file_contents s l))))"
    if v: "List.member valid_layers l"
  proof -
    obtain f where f: "file_for_layer s l = Inr f" by (rule file_for_valid [OF v])
    let ?es = "slice_limit n (order_desc me_timestamp (owned u (file_contents s l)))"
    have "set ?es \<subseteq> set (owned u (file_contents s l))"
      using set_slice_limit [of n "order_desc me_timestamp (owned u (file_contents s l))"] by simp
    moreover have "ms_list jsonl_storage s u l n = Inr ?es"
      using f by (simp add: jsonl_storage_def jsonl_list_entries_def file_contents_valid owned_def)
    ultimately show ?thesis by (auto simp: newest_first_distinct slice_limit_def)
  qed
  show "ms_list jsonl_storage s u l n = Inl (UnknownLayer l)" if "\<not> List.member valid_layers l"
    using that by (auto simp: jsonl_storage_def jsonl_list_entries_def file_for_layer_def valid_layers_def)
  show "set es \<subseteq> set (owned u (file_contents s l))" if "ms_search jsonl_storage s u t l n m = Inr es"
    using that set_slice_limit
    by (fastforce simp: jsonl_storage_def jsonl_search_def bind_res_eq_Inr file_contents_valid owned_def
        split: if_splits)
qed

section \<open>Properties\<close>

lemma empty_contents [simp]:
  "table_contents [] = (\<lambda>_. [])" "file_contents no_memory_files = (\<lambda>_. [])"
  by (auto simp: table_contents_def file_contents_def file_for_layer_def no_memory_files_def fun_eq_iff)

text \<open>
  C39: On a sequence of calls of the service without searches, in which every id is new, the listed entries of
  a user have pairwise different time stamps and the limits are not negative, the service answers over
  SQLite and over the JSONL files exactly as the specification on lists does, and so alike: saving, blocking,
  listing newest first, reading and forgetting.
\<close>

theorem memory_backends_agree:
  assumes "determined_run sc (\<lambda>_. []) qs"
  shows "snd (service_run sc (sqlite_storage fts) [] qs) = snd (spec_run sc (\<lambda>_. []) qs)
    \<and> snd (service_run sc jsonl_storage no_memory_files qs) = snd (spec_run sc (\<lambda>_. []) qs)"
  using sqlite.run_refines [where s = "[]" and sc = sc and fts = fts and qs = qs] jsonl.run_refines [where s = no_memory_files and sc = sc and qs = qs] assms by simp

definition demo_scanners :: memory_scanners where
  "demo_scanners = \<lparr>sc_secret = (\<lambda>t. if py_contains ''sk-'' t then Some ''api_key'' else None),
     sc_injection = (\<lambda>_. None)\<rparr>"

definition demo_requests :: "memory_request list" where
  "demo_requests =
     [RememberEpisodic ''1'' ''t1'' 7 ''likes tea'' 5 [], RememberEpisodic ''2'' ''t2'' 7 ''sk-12'' 5 [],
      RememberEpisodic ''3'' ''t3'' 7 ''likes rain'' 5 [], Forget 8 ''ep_1'', Forget 7 ''ep_3'',
      GetEntry 7 ''ep_1'', ListRecent 7 ''episodic'' 10]"

lemma ex_fun_upd: "(\<exists>k. Q ((c(l := x)) k)) \<longleftrightarrow> Q x \<or> (\<exists>k. k \<noteq> l \<and> Q (c k))"
  by auto

lemma entry_ids_iff: "i \<in> entry_ids c \<longleftrightarrow> (\<exists>l. i \<in> me_id ` set (c l))"
  by (auto simp: entry_ids_def)

lemma entry_ids_simps [simp]:
  "entry_ids (\<lambda>_. []) = {}"
  "entry_ids (c(l := c l @ [e])) = insert (me_id e) (entry_ids c)"
proof -
  show "entry_ids (\<lambda>_. []) = {}" by (simp add: entry_ids_def)
  have "(\<exists>k. i \<in> me_id ` set ((c(l := c l @ [e])) k)) \<longleftrightarrow> i = me_id e \<or> (\<exists>k. i \<in> me_id ` set (c k))" for i
    unfolding ex_fun_upd [of "\<lambda>es. i \<in> me_id ` set es"] by (auto dest: sym)
  then show "entry_ids (c(l := c l @ [e])) = insert (me_id e) (entry_ids c)"
    unfolding set_eq_iff entry_ids_iff insert_iff by blast
qed

lemma entry_ids_first [simp]: "entry_ids ((\<lambda>_. [])(l := es)) = me_id ` set es"
  unfolding entry_ids_def by (auto split: if_splits)

theorem memory_backends_agree_witness:
  "snd (service_run demo_scanners jsonl_storage no_memory_files demo_requests)
     = snd (service_run demo_scanners (sqlite_storage (\<lambda>_. None)) [] demo_requests)"
proof -
  have "determined_run demo_scanners (\<lambda>_. []) demo_requests"
    by (simp add: demo_requests_def determined_def spec_step_def new_entry_def spec_remember_def
        scan_and_raise_def demo_scanners_def py_startswith_def layer_from_id_def is_entry_def owned_def)
  from memory_backends_agree [OF this, of "\<lambda>_. None"] show ?thesis by simp
qed

text \<open>
  C40: memory is private and scanned. Whatever was called before, with whatever ids, an entry that a search,
  a listing or a read returns to a user belongs to that user and passed the secret scanner and the
  injection detector when it was stored, over both backends.
\<close>

theorem memory_is_private_and_scanned:
  assumes "s = fst (service_run sc (sqlite_storage fts) [] qs)"
    and "f = fst (service_run sc jsonl_storage no_memory_files qs)"
    and "recall (sqlite_storage fts) s u t l n = Inr es \<or> list_recent (sqlite_storage fts) s u l n = Inr es
       \<or> recall jsonl_storage f u t l n = Inr es \<or> list_recent jsonl_storage f u l n = Inr es
       \<or> (\<exists>x. get_entry (sqlite_storage fts) s u i = Inr (Some x) \<and> es = [x])
       \<or> (\<exists>x. get_entry jsonl_storage f u i = Inr (Some x) \<and> es = [x])"
    and "e \<in> set es"
  shows "me_user_id e = u \<and> sc_secret sc (me_content e) = None \<and> sc_injection sc (me_content e) = None"
proof -
  have s: "sqlite.all_scanned sc s"
    using sqlite.run_scanned [where s = "[]" and sc = sc and fts = fts and qs = qs] assms(1) by (simp add: sqlite.all_scanned_def)
  have f: "jsonl.all_scanned sc f"
    using jsonl.run_scanned [where s = no_memory_files and sc = sc and qs = qs] assms(2) by (simp add: jsonl.all_scanned_def)
  have "me_user_id e = u \<and> is_ok (scan_and_raise sc (me_content e))"
    using assms(3,4) sqlite.recall_private [OF _ s] sqlite.list_private [OF _ s] sqlite.get_private [OF _ s]
      jsonl.recall_private [OF _ f] jsonl.list_private [OF _ f] jsonl.get_private [OF _ f]
    by auto
  then show ?thesis by (auto simp: scan_and_raise_def split: option.splits)
qed

theorem memory_is_private_and_scanned_witness:
  "list_all (\<lambda>e. me_user_id e = 7)
     (case list_recent jsonl_storage (fst (service_run demo_scanners jsonl_storage no_memory_files
        demo_requests)) 7 ''episodic'' 10 of Inl _ \<Rightarrow> [] | Inr es \<Rightarrow> es)"
proof (cases "list_recent jsonl_storage (fst (service_run demo_scanners jsonl_storage no_memory_files
       demo_requests)) 7 ''episodic'' 10")
  case (Inr es)
  then show ?thesis
    using memory_is_private_and_scanned [of _ demo_scanners "\<lambda>_. None" demo_requests, OF refl refl,
        where es = es and u = 7 and l = "''episodic''" and n = 10]
    by (auto simp: list_all_iff)
qed simp

section \<open>Where the backends differ\<close>

text \<open>An id that exists already replaces the entry of its owner in SQLite; in the files both stay.\<close>

lemma same_id_replaces:
  assumes "List.member valid_layers l" and "me_id e = mr_id r" and "mr_user_id r \<noteq> me_user_id e"
  shows "\<exists>tb. sqlite_append [r] e l = Inr tb \<and> r \<notin> set tb"
proof -
  have "r \<noteq> entry_to_row e l" using assms(3) by (auto simp: entry_to_row_def)
  then show ?thesis using assms by (auto simp: table_append)
qed

end
