(* ===== verification/Bookmarks.thy ===== *)
theory Bookmarks
  imports StoreTables
begin

text \<open>
  Bookmarks: \<open>application/bookmark_service.py\<close> over both backends, \<open>SqliteBookmarkStorage\<close> of
  \<open>infrastructure/sqlite_storage.py\<close> and the JSONL functions of \<open>infrastructure/bookmark_storage.py\<close>; the
  contract of a backend as the locale \<open>bookmark_store\<close>, its two interpretations, and what the
  service promises over either.
\<close>

text \<open>
  An entry of either backend. \<open>bm_chat_id\<close> is \<open>None\<close> in old lines without a chat, which
  \<open>migrate_legacy_chat_id\<close> completes.
\<close>

record bookmark =
  bm_user_id :: int
  bm_username :: "string option"
  bm_chat_id :: "int option"
  bm_message_id :: int
  bm_content :: string
  bm_timestamp :: string



section \<open>The SQLite backend\<close>

type_synonym bookmark_table = "bookmark list"


definition select_bookmarks :: "bookmark_table \<Rightarrow> int \<Rightarrow> (bookmark \<Rightarrow> bool) \<Rightarrow> int \<Rightarrow> bookmark list" where
  "select_bookmarks tb user_id matches limit =
     sql_limit limit (newest_first bm_timestamp (filter (\<lambda>b. bm_user_id b = user_id \<and> matches b) tb))"


definition sql_search_bookmarks :: "bookmark_table \<Rightarrow> int \<Rightarrow> string \<Rightarrow> int \<Rightarrow> bookmark list" where
  "sql_search_bookmarks tb user_id query limit =
     (let q = sanitize_search_query query max_search_query_len
      in if q = [] then [] else select_bookmarks tb user_id (\<lambda>b. like_search q (bm_content b)) limit)"




section \<open>The JSONL backend\<close>

type_synonym bookmark_file = "bookmark jsonl_file"


definition read_all_bookmarks :: "bookmark_file \<Rightarrow> int \<Rightarrow> bookmark list" where
  "read_all_bookmarks f user_id = rev (filter (\<lambda>b. bm_user_id b = user_id) (entries_of_lines (lines_of f)))"


text \<open>The limit is tested after a result was appended.\<close>

fun search_loop :: "string \<Rightarrow> int \<Rightarrow> bookmark list \<Rightarrow> bookmark list \<Rightarrow> bookmark list" where
  "search_loop q limit results [] = results"
| "search_loop q limit results (b # bs) =
     (if py_contains q (py_lower (bm_content b))
      then (let found = results @ [b]
            in if limit \<le> int (length found) then found else search_loop q limit found bs)
      else search_loop q limit results bs)"

definition jsonl_search_bookmarks :: "bookmark_file \<Rightarrow> int \<Rightarrow> string \<Rightarrow> int \<Rightarrow> bookmark list" where
  "jsonl_search_bookmarks f user_id query limit =
     search_loop (py_lower query) limit [] (read_all_bookmarks f user_id)"




text \<open>
  Old lines get the user as their chat; when a line changes or is corrupt, the file is rewritten
  without blank and corrupt lines. The result is the number of changed lines.
\<close>

definition with_chat :: "bookmark \<Rightarrow> bookmark" where
  "with_chat b = (if bm_chat_id b = None then b\<lparr>bm_chat_id := Some (bm_user_id b)\<rparr> else b)"

definition migrate_legacy_chat_id :: "bookmark_file \<Rightarrow> bookmark_file \<times> nat" where
  "migrate_legacy_chat_id f =
     (case f of
        None \<Rightarrow> (f, 0)
      | Some ls \<Rightarrow>
          let valid_lines = map with_chat (entries_of_lines ls);
              migrated = length (filter (\<lambda>b. bm_chat_id b = None) (entries_of_lines ls));
              corrupt_count = length (filter (\<lambda>l. l = CorruptLine) ls)
          in (if 0 < migrated \<or> 0 < corrupt_count then Some (map EntryLine valid_lines) else f, migrated))"

section \<open>The service\<close>









section \<open>Sequences of calls, and their specification\<close>










section \<open>The contract of a backend\<close>


section \<open>Both backends keep it\<close>










definition file_bookmarks :: "bookmark_file \<Rightarrow> bookmark list" where
  "file_bookmarks f = entries_of_lines (lines_of f)"

lemma file_bookmarks_simps [simp]:
  "file_bookmarks None = []" "file_bookmarks (Some ls) = entries_of_lines ls"
  by (simp_all add: file_bookmarks_def)






section \<open>Where the backends differ\<close>

text \<open>A limit of 0 gives no result in SQLite and one result in the file.\<close>

lemma search_limit_zero:
  assumes "py_contains (py_lower q) (py_lower (bm_content b))"
  shows "jsonl_search_bookmarks (Some [EntryLine b]) (bm_user_id b) q 0 = [b]"
    and "sql_search_bookmarks tb u q 0 = []"
  using assms
  by (simp_all add: jsonl_search_bookmarks_def read_all_bookmarks_def sql_search_bookmarks_def
      select_bookmarks_def sql_limit_def Let_def)

text \<open>After the migration of old lines every line has a chat, and a second migration changes nothing.\<close>

text \<open>
  Old lines of the JSONL file: after the migration every line has a chat, and a second migration finds
  nothing to do.
\<close>

lemma entries_of_map [simp]: "entries_of_lines (map EntryLine bs) = bs"
  by (induction bs) auto

lemma migration_is_final:
  assumes "migrate_legacy_chat_id f = (f', n)"
  shows "(\<forall>b \<in> set (file_bookmarks f'). bm_chat_id b \<noteq> None) \<and> migrate_legacy_chat_id f' = (f', 0)"
proof (cases f)
  case None
  then show ?thesis using assms by (simp add: migrate_legacy_chat_id_def)
next
  case (Some ls)
  let ?es = "entries_of_lines ls"
  have chat: "bm_chat_id (with_chat b) \<noteq> None" for b by (simp add: with_chat_def)
  obtain vs where vs: "vs = map with_chat ?es" by simp
  have no: "filter (\<lambda>b. bm_chat_id b = None) vs = []" and full: "\<forall>b \<in> set vs. bm_chat_id b \<noteq> None"
    using chat by (auto simp: vs filter_empty_conv)
  have clean: "filter (\<lambda>l. l = CorruptLine) (map EntryLine vs) = []"
    by (simp add: filter_empty_conv)
  show ?thesis
  proof (cases "0 < length (filter (\<lambda>b. bm_chat_id b = None) ?es) \<or> 0 < length (filter (\<lambda>l. l = CorruptLine) ls)")
    case True
    then have "f' = Some (map EntryLine vs)"
      using assms Some by (simp add: migrate_legacy_chat_id_def vs Let_def split: if_splits)
    then show ?thesis using no full clean by (simp add: migrate_legacy_chat_id_def)
  next
    case False
    then have "f' = Some ls" using assms Some by (simp add: migrate_legacy_chat_id_def Let_def)
    then show ?thesis using False by (auto simp: migrate_legacy_chat_id_def Let_def filter_empty_conv)
  qed
qed

end
