(* ===== verification/UserSettings.thy ===== *)
theory UserSettings
  imports StoreTables PyJson
begin

text \<open>
  The settings of a user: the table \<open>user_settings\<close> with \<open>SqliteSettingsStorage\<close>
  (\<open>infrastructure/sqlite_storage.py\<close>) and \<open>application/settings_service.py\<close> on top of it. A write is an
  insert of a row of defaults that is ignored when the user has one, and an update of one column.
\<close>

section \<open>The storage\<close>

record settings_row =
  us_user_id :: int
  us_language :: "string option"
  us_model :: "string option"
  us_debate_providers :: "string option"
  us_rate_limit_profile :: "string option"
  us_personality_p1 :: int
  us_personality_p2 :: int
  us_personality_p3 :: int
  us_personality_p4 :: int
  us_personality_p5 :: int
  us_personality_p6 :: int
  us_timezone :: string
  us_updated_at :: string

text \<open>\<open>s or default\<close> for a text, and for a column that may be \<open>NULL\<close>.\<close>

definition or_text :: "string \<Rightarrow> string \<Rightarrow> string" where
  "or_text s d = (if s = [] then d else s)"

definition text_or :: "string option \<Rightarrow> string \<Rightarrow> string" where
  "text_or x d = (case x of None \<Rightarrow> d | Some s \<Rightarrow> or_text s d)"

type_synonym settings_table = "settings_row list"

definition get_settings_row :: "settings_table \<Rightarrow> int \<Rightarrow> settings_row option" where
  "get_settings_row tb user_id = row_with us_user_id user_id tb"

definition default_settings_row :: "int \<Rightarrow> string \<Rightarrow> settings_row" where
  "default_settings_row user_id ts =
     \<lparr>us_user_id = user_id, us_language = None, us_model = None, us_debate_providers = Some [],
      us_rate_limit_profile = Some ''normal'', us_personality_p1 = 1, us_personality_p2 = 1,
      us_personality_p3 = 1, us_personality_p4 = 0, us_personality_p5 = 1, us_personality_p6 = 1,
      us_timezone = ''UTC'', us_updated_at = ts\<rparr>"

definition upsert_field ::
    "string \<Rightarrow> settings_table \<Rightarrow> int \<Rightarrow> (settings_row \<Rightarrow> settings_row) \<Rightarrow> settings_table" where
  "upsert_field ts tb user_id set_field =
     map (\<lambda>r. if us_user_id r = user_id then (set_field r)\<lparr>us_updated_at := ts\<rparr> else r)
       (insert_or_ignore us_user_id (default_settings_row user_id ts) tb)"

definition store_language :: "string \<Rightarrow> settings_table \<Rightarrow> int \<Rightarrow> string option \<Rightarrow> settings_table" where
  "store_language ts tb user_id lang = upsert_field ts tb user_id (\<lambda>r. r\<lparr>us_language := lang\<rparr>)"

definition store_model :: "string \<Rightarrow> settings_table \<Rightarrow> int \<Rightarrow> string option \<Rightarrow> settings_table" where
  "store_model ts tb user_id model = upsert_field ts tb user_id (\<lambda>r. r\<lparr>us_model := model\<rparr>)"

definition store_debate_providers :: "string \<Rightarrow> settings_table \<Rightarrow> int \<Rightarrow> string list \<Rightarrow> settings_table" where
  "store_debate_providers ts tb user_id providers =
     upsert_field ts tb user_id
       (\<lambda>r. r\<lparr>us_debate_providers := Some (join_with '','' (map py_strip (filter py_nonblank providers)))\<rparr>)"

definition store_toggled_provider ::
    "string \<Rightarrow> settings_table \<Rightarrow> int \<Rightarrow> string \<Rightarrow> settings_table \<times> string list" where
  "store_toggled_provider ts tb user_id provider =
     (let current_raw = (case get_settings_row tb user_id of None \<Rightarrow> [] | Some r \<Rightarrow> text_or (us_debate_providers r) []);
          current = filter py_nonblank (split_on (CHR '','') current_raw);
          updated = (if List.member current provider then remove1 provider current else current @ [provider])
      in (store_debate_providers ts tb user_id updated, updated))"

definition store_rate_limit_profile :: "string \<Rightarrow> settings_table \<Rightarrow> int \<Rightarrow> string \<Rightarrow> settings_table" where
  "store_rate_limit_profile ts tb user_id profile =
     upsert_field ts tb user_id (\<lambda>r. r\<lparr>us_rate_limit_profile := Some profile\<rparr>)"

definition personality_flags :: "string list" where
  "personality_flags =
     [''personality_p1'', ''personality_p2'', ''personality_p3'', ''personality_p4'', ''personality_p5'',
      ''personality_p6'']"

definition set_flag :: "string \<Rightarrow> int \<Rightarrow> settings_row \<Rightarrow> settings_row" where
  "set_flag flag v r =
     (if flag = ''personality_p1'' then r\<lparr>us_personality_p1 := v\<rparr>
      else if flag = ''personality_p2'' then r\<lparr>us_personality_p2 := v\<rparr>
      else if flag = ''personality_p3'' then r\<lparr>us_personality_p3 := v\<rparr>
      else if flag = ''personality_p4'' then r\<lparr>us_personality_p4 := v\<rparr>
      else if flag = ''personality_p5'' then r\<lparr>us_personality_p5 := v\<rparr>
      else r\<lparr>us_personality_p6 := v\<rparr>)"

datatype settings_error =
  UnknownPersonalityFlag string | UnknownDebateProvider string | PlannedDebateProvider string

definition store_personality_flag ::
    "string \<Rightarrow> settings_table \<Rightarrow> int \<Rightarrow> string \<Rightarrow> bool \<Rightarrow> settings_error + settings_table" where
  "store_personality_flag ts tb user_id flag v =
     (if \<not> List.member personality_flags flag then Inl (UnknownPersonalityFlag flag)
      else Inr (upsert_field ts tb user_id (set_flag flag (if v then 1 else 0))))"

definition store_timezone :: "string \<Rightarrow> settings_table \<Rightarrow> int \<Rightarrow> string \<Rightarrow> settings_table" where
  "store_timezone ts tb user_id tz = upsert_field ts tb user_id (\<lambda>r. r\<lparr>us_timezone := tz\<rparr>)"

section \<open>The service\<close>

definition valid_rate_limit_profiles :: "string list" where
  "valid_rate_limit_profiles = [''light'', ''normal'', ''power'', ''unlimited'']"

definition debate_providers :: "(string \<times> bool) list" where
  "debate_providers =
     [(''claude'', True), (''llama'', True), (''gpt4o'', False), (''mistral'', False), (''gemini'', False),
      (''groq_llama'', False)]"

definition default_debate_providers :: "string list" where
  "default_debate_providers = [''claude'']"

record user_settings =
  ss_user_id :: int
  ss_language :: "string option"
  ss_model :: "string option"
  ss_debate_providers :: "string list"
  ss_rate_limit_profile :: string
  ss_p1_proactive :: bool
  ss_p2_less_ai_talk :: bool
  ss_p3_style_adaption :: bool
  ss_p4_confidence_signal :: bool
  ss_p5_time_awareness :: bool
  ss_p6_show_weakness :: bool
  ss_timezone :: string

text \<open>\<open>x or None\<close>\<close>

definition or_none :: "string option \<Rightarrow> string option" where
  "or_none x = (if x = Some [] then None else x)"

definition shown_providers :: "string \<Rightarrow> string list" where
  "shown_providers raw =
     (let providers = map py_strip (filter py_nonblank (split_on (CHR '','') raw))
      in if providers = [] then default_debate_providers else providers)"

definition row_to_settings :: "int \<Rightarrow> settings_row option \<Rightarrow> user_settings" where
  "row_to_settings user_id row =
     (case row of
        None \<Rightarrow>
          \<lparr>ss_user_id = user_id, ss_language = None, ss_model = None,
           ss_debate_providers = default_debate_providers, ss_rate_limit_profile = ''normal'',
           ss_p1_proactive = True, ss_p2_less_ai_talk = True, ss_p3_style_adaption = True,
           ss_p4_confidence_signal = False, ss_p5_time_awareness = True, ss_p6_show_weakness = True,
           ss_timezone = ''UTC''\<rparr>
      | Some r \<Rightarrow>
          let profile = text_or (us_rate_limit_profile r) ''normal'' in
          \<lparr>ss_user_id = user_id, ss_language = or_none (us_language r), ss_model = or_none (us_model r),
           ss_debate_providers = shown_providers (text_or (us_debate_providers r) []),
           ss_rate_limit_profile =
             (if List.member valid_rate_limit_profiles profile then profile else ''normal''),
           ss_p1_proactive = us_personality_p1 r \<noteq> 0, ss_p2_less_ai_talk = us_personality_p2 r \<noteq> 0,
           ss_p3_style_adaption = us_personality_p3 r \<noteq> 0,
           ss_p4_confidence_signal = us_personality_p4 r \<noteq> 0,
           ss_p5_time_awareness = us_personality_p5 r \<noteq> 0,
           ss_p6_show_weakness = us_personality_p6 r \<noteq> 0,
           ss_timezone = or_text (us_timezone r) ''UTC''\<rparr>)"

definition get_settings :: "settings_table \<Rightarrow> int \<Rightarrow> user_settings" where
  "get_settings tb user_id = row_to_settings user_id (get_settings_row tb user_id)"

definition set_language :: "string \<Rightarrow> settings_table \<Rightarrow> int \<Rightarrow> string option \<Rightarrow> settings_table" where
  "set_language ts tb user_id lang = store_language ts tb user_id lang"

definition set_model :: "string \<Rightarrow> settings_table \<Rightarrow> int \<Rightarrow> string option \<Rightarrow> settings_table" where
  "set_model ts tb user_id model = store_model ts tb user_id model"

definition toggle_debate_provider ::
    "string \<Rightarrow> settings_table \<Rightarrow> int \<Rightarrow> string \<Rightarrow> settings_error + (settings_table \<times> string list)" where
  "toggle_debate_provider ts tb user_id provider =
     (case map_of debate_providers provider of
        None \<Rightarrow> Inl (UnknownDebateProvider provider)
      | Some active \<Rightarrow>
          if \<not> active then Inl (PlannedDebateProvider provider)
          else Inr (store_toggled_provider ts tb user_id provider))"

definition set_rate_limit :: "string \<Rightarrow> settings_table \<Rightarrow> int \<Rightarrow> string \<Rightarrow> settings_table \<times> bool" where
  "set_rate_limit ts tb user_id profile =
     (if List.member valid_rate_limit_profiles profile
      then (store_rate_limit_profile ts tb user_id profile, True) else (tb, False))"

definition toggle_personality ::
    "string \<Rightarrow> settings_table \<Rightarrow> int \<Rightarrow> string \<Rightarrow> bool \<Rightarrow> settings_error + settings_table" where
  "toggle_personality ts tb user_id feature v =
     (if List.member personality_flags feature then store_personality_flag ts tb user_id feature v
      else Inl (UnknownPersonalityFlag feature))"

definition set_timezone :: "string \<Rightarrow> settings_table \<Rightarrow> int \<Rightarrow> string \<Rightarrow> settings_table" where
  "set_timezone ts tb user_id tz = store_timezone ts tb user_id tz"

section \<open>Writing and reading\<close>

text \<open>A write of a column changes the row of the user, created from the defaults if there is none.\<close>

lemma find_map_same_key:
  assumes "\<And>r. key (f r) = key r"
  shows "row_with key k (map (\<lambda>r. if key r = u then f r else r) tb) =
    (if k = u then map_option f (row_with key k tb) else row_with key k tb)"
  by (induction tb) (auto simp: row_with_def assms)

lemma row_after_upsert:
  assumes "\<And>r. us_user_id (f r) = us_user_id r"
  shows "get_settings_row (upsert_field ts tb u f) v =
    (if v = u
     then Some ((f (case get_settings_row tb u of None \<Rightarrow> default_settings_row u ts | Some r \<Rightarrow> r))\<lparr>us_updated_at := ts\<rparr>)
     else get_settings_row tb v)"
proof -
  have row: "row_with us_user_id v (insert_or_ignore us_user_id (default_settings_row u ts) tb) =
    (case row_with us_user_id v tb of None \<Rightarrow> if v = u then Some (default_settings_row u ts) else None | Some r \<Rightarrow> Some r)"
    by (auto simp: insert_or_ignore_def row_with_def find_snoc default_settings_row_def split: option.splits)
  show ?thesis
    unfolding upsert_field_def get_settings_row_def
    using find_map_same_key [where key = us_user_id and f = "\<lambda>r. (f r)\<lparr>us_updated_at := ts\<rparr>" and k = v and u = u]
      assms row by (auto split: option.splits)
qed

lemma defaults_are_shown: "row_to_settings u (Some (default_settings_row u ts)) = row_to_settings u None"
  by (simp add: row_to_settings_def default_settings_row_def shown_providers_def or_none_def or_text_def text_or_def
      valid_rate_limit_profiles_def py_nonblank_def Let_def)

lemma shown_default_row:
  "row_to_settings u (Some (case x of None \<Rightarrow> default_settings_row u ts | Some r \<Rightarrow> r)) = row_to_settings u x"
  using defaults_are_shown by (cases x) simp_all

lemma settings_after_upsert:
  assumes "\<And>r. us_user_id (f r) = us_user_id r"
    and "\<And>r ts. row_to_settings u (Some ((f r)\<lparr>us_updated_at := ts\<rparr>)) = g (row_to_settings u (Some r))"
  shows "get_settings (upsert_field ts tb u f) v = (if v = u then g (get_settings tb u) else get_settings tb v)"
  using assms(2) shown_default_row [where u = u and x = "get_settings_row tb u" and ts = ts]
  by (auto simp: get_settings_def row_after_upsert [OF assms(1)])

definition show_flag :: "string \<Rightarrow> bool \<Rightarrow> user_settings \<Rightarrow> user_settings" where
  "show_flag flag v s =
     (if flag = ''personality_p1'' then s\<lparr>ss_p1_proactive := v\<rparr>
      else if flag = ''personality_p2'' then s\<lparr>ss_p2_less_ai_talk := v\<rparr>
      else if flag = ''personality_p3'' then s\<lparr>ss_p3_style_adaption := v\<rparr>
      else if flag = ''personality_p4'' then s\<lparr>ss_p4_confidence_signal := v\<rparr>
      else if flag = ''personality_p5'' then s\<lparr>ss_p5_time_awareness := v\<rparr>
      else s\<lparr>ss_p6_show_weakness := v\<rparr>)"

text \<open>
  Settings are read as they were written. Each of the setters changes exactly its own setting of exactly
  its user, whether the user had a row before or not; an unknown profile or flag is refused
  and nothing is written.
\<close>

theorem settings_write_then_read:
  "get_settings (set_language ts tb u l) v =
     (if v = u then (get_settings tb u)\<lparr>ss_language := or_none l\<rparr> else get_settings tb v)
   \<and> get_settings (set_model ts tb u l) v =
     (if v = u then (get_settings tb u)\<lparr>ss_model := or_none l\<rparr> else get_settings tb v)
   \<and> get_settings (set_timezone ts tb u z) v =
     (if v = u then (get_settings tb u)\<lparr>ss_timezone := or_text z ''UTC''\<rparr> else get_settings tb v)
   \<and> set_rate_limit ts tb u p =
     (if List.member valid_rate_limit_profiles p then (store_rate_limit_profile ts tb u p, True) else (tb, False))
   \<and> get_settings (fst (set_rate_limit ts tb u p)) v =
     (if v = u \<and> List.member valid_rate_limit_profiles p
      then (get_settings tb u)\<lparr>ss_rate_limit_profile := p\<rparr> else get_settings tb v)
   \<and> map_sum id (\<lambda>tb'. get_settings tb' v) (toggle_personality ts tb u f b) =
     (if List.member personality_flags f
      then Inr (if v = u then show_flag f b (get_settings tb u) else get_settings tb v)
      else Inl (UnknownPersonalityFlag f))"
proof (intro conjI)
  show "get_settings (set_language ts tb u l) v =
     (if v = u then (get_settings tb u)\<lparr>ss_language := or_none l\<rparr> else get_settings tb v)"
    unfolding set_language_def store_language_def
    by (rule settings_after_upsert) (simp_all add: row_to_settings_def Let_def)
  show "get_settings (set_model ts tb u l) v =
     (if v = u then (get_settings tb u)\<lparr>ss_model := or_none l\<rparr> else get_settings tb v)"
    unfolding set_model_def store_model_def
    by (rule settings_after_upsert) (simp_all add: row_to_settings_def Let_def)
  show "get_settings (set_timezone ts tb u z) v =
     (if v = u then (get_settings tb u)\<lparr>ss_timezone := or_text z ''UTC''\<rparr> else get_settings tb v)"
    unfolding set_timezone_def store_timezone_def
    by (rule settings_after_upsert) (simp_all add: row_to_settings_def Let_def)
  show "set_rate_limit ts tb u p =
     (if List.member valid_rate_limit_profiles p then (store_rate_limit_profile ts tb u p, True) else (tb, False))"
    by (simp add: set_rate_limit_def)
  show "get_settings (fst (set_rate_limit ts tb u p)) v =
     (if v = u \<and> List.member valid_rate_limit_profiles p
      then (get_settings tb u)\<lparr>ss_rate_limit_profile := p\<rparr> else get_settings tb v)"
  proof (cases "List.member valid_rate_limit_profiles p")
    case True
    then have "text_or (Some p) ''normal'' = p" by (auto simp: or_text_def text_or_def valid_rate_limit_profiles_def)
    then have "get_settings (store_rate_limit_profile ts tb u p) v =
       (if v = u then (get_settings tb u)\<lparr>ss_rate_limit_profile := p\<rparr> else get_settings tb v)"
      unfolding store_rate_limit_profile_def
      using True by (intro settings_after_upsert) (simp_all add: row_to_settings_def Let_def)
    then show ?thesis using True by (simp add: set_rate_limit_def)
  qed (simp add: set_rate_limit_def)
  show "map_sum id (\<lambda>tb'. get_settings tb' v) (toggle_personality ts tb u f b) =
     (if List.member personality_flags f
      then Inr (if v = u then show_flag f b (get_settings tb u) else get_settings tb v)
      else Inl (UnknownPersonalityFlag f))"
  proof (cases "List.member personality_flags f")
    case True
    have "get_settings (upsert_field ts tb u (set_flag f (if b then 1 else 0))) v =
      (if v = u then show_flag f b (get_settings tb u) else get_settings tb v)"
      by (rule settings_after_upsert) (simp_all add: row_to_settings_def set_flag_def show_flag_def Let_def)
    then show ?thesis using True by (simp add: toggle_personality_def store_personality_flag_def)
  qed (simp add: toggle_personality_def)
qed

text \<open>
  C33: whatever rows the table holds, the settings a user is shown have their declared types: the profile
  is one of the four, language and model are missing or not empty, the time zone is not empty,
  there is at least one debate provider and none of them is blank or holds a comma.
\<close>

theorem settings_are_well_typed:
  "List.member valid_rate_limit_profiles (ss_rate_limit_profile (get_settings tb u))
   \<and> ss_language (get_settings tb u) \<noteq> Some [] \<and> ss_model (get_settings tb u) \<noteq> Some []
   \<and> ss_timezone (get_settings tb u) \<noteq> [] \<and> ss_debate_providers (get_settings tb u) \<noteq> []
   \<and> list_all (\<lambda>p. py_nonblank p \<and> CHR '','' \<notin> set p) (ss_debate_providers (get_settings tb u))"
proof -
  have no_comma: "\<forall>w \<in> set (split_on (CHR '','') s). CHR '','' \<notin> set w" for s
    by (induction s) (auto split: list.split)
  have nonblank_strip: "py_nonblank (py_strip p)" if "py_nonblank p" for p
    using that py_strip_nonblank [of p] py_strip_nonblank [of "py_strip p"] by simp
  have claude: "py_nonblank ''claude''" by code_simp
  have "list_all (\<lambda>p. py_nonblank p \<and> CHR '','' \<notin> set p) (shown_providers s)" for s
    using no_comma [of s] set_py_strip [of py_isspace] nonblank_strip
    by (auto simp: shown_providers_def default_debate_providers_def list_all_iff Let_def claude)
  moreover have "shown_providers s \<noteq> []" for s by (simp add: shown_providers_def default_debate_providers_def Let_def)
  ultimately show ?thesis
    by (auto simp: get_settings_def row_to_settings_def valid_rate_limit_profiles_def or_none_def or_text_def text_or_def
        default_debate_providers_def claude Let_def split: option.split)
qed

section \<open>The first toggle\<close>

text \<open>
  A user without stored providers is shown Claude as active. The toggle starts from the stored list, which is
  empty: adding the local model drops Claude, and turning Claude off has no effect.
\<close>

lemma first_toggle_ignores_the_default:
  assumes "get_settings_row tb u = None"
  shows "ss_debate_providers (get_settings tb u) = [''claude'']"
    and "\<exists>tb'. toggle_debate_provider ts tb u ''llama'' = Inr (tb', [''llama''])
           \<and> ss_debate_providers (get_settings tb' u) = [''llama'']"
    and "\<exists>tb'. toggle_debate_provider ts tb u ''claude'' = Inr (tb', [''claude''])
           \<and> ss_debate_providers (get_settings tb' u) = [''claude'']"
proof -
  show "ss_debate_providers (get_settings tb u) = [''claude'']"
    using assms by (simp add: get_settings_def row_to_settings_def default_debate_providers_def)
  have upd: "ss_debate_providers (get_settings (store_debate_providers ts tb u [p]) u) = [p]"
    if "py_nonblank p" and "map py_strip (filter py_nonblank (split_on (CHR '','') (py_strip p))) = [p]" for p
    using that
    by (simp add: store_debate_providers_def get_settings_def row_after_upsert row_to_settings_def
        shown_providers_def text_or_def or_text_def Let_def)
  have llama: "py_nonblank ''llama''" "map py_strip (filter py_nonblank (split_on (CHR '','') (py_strip ''llama''))) = [''llama'']"
    and claude: "py_nonblank ''claude''" "map py_strip (filter py_nonblank (split_on (CHR '','') (py_strip ''claude''))) = [''claude'']"
    by code_simp+
  show "\<exists>tb'. toggle_debate_provider ts tb u ''llama'' = Inr (tb', [''llama''])
           \<and> ss_debate_providers (get_settings tb' u) = [''llama'']"
    using assms upd [OF llama]
    by (simp add: toggle_debate_provider_def debate_providers_def store_toggled_provider_def py_nonblank_def Let_def)
  show "\<exists>tb'. toggle_debate_provider ts tb u ''claude'' = Inr (tb', [''claude''])
           \<and> ss_debate_providers (get_settings tb' u) = [''claude'']"
    using assms upd [OF claude]
    by (simp add: toggle_debate_provider_def debate_providers_def store_toggled_provider_def py_nonblank_def Let_def)
qed

end
