(* ===== verification/ModelSelection.thy ===== *)
theory ModelSelection
  imports StoreTables PyJson "HOL-Library.AList"
begin

text \<open>
  Which model answers: the registry of \<open>application/model_registry.py\<close> (from the parsed entries of its YAML
  file on), the overrides of a user in the table \<open>user_slot_models\<close> (\<open>SqliteModelStorage\<close> of
  \<open>infrastructure/sqlite_storage.py\<close>), and \<open>application/model_service.py\<close>, which validates them.
\<close>

section \<open>The registry\<close>

record model_metadata =
  mm_id :: string
  mm_display_name :: string
  mm_provider :: string
  mm_aliases :: "string list"
  mm_context_window :: int
  mm_pricing_input_per_mtok :: pyfloat
  mm_pricing_output_per_mtok :: pyfloat
  mm_scores :: "(string \<times> pyfloat) list"
  mm_supports_thinking :: bool
  mm_supports_effort :: bool
  mm_is_open_source :: bool

definition get_score :: "model_metadata \<Rightarrow> string \<Rightarrow> pyfloat option" where
  "get_score m dimension = map_of (mm_scores m) dimension"

text \<open>Both dictionaries keep the order of insertion.\<close>

record model_registry =
  reg_models :: "model_metadata list"
  reg_alias_index :: "(string \<times> string) list"

definition reg_key :: "string \<Rightarrow> string" where
  "reg_key s = py_strip (py_lower s)"

definition known_id :: "model_registry \<Rightarrow> string \<Rightarrow> bool" where
  "known_id reg i = list_ex (\<lambda>m. mm_id m = i) (reg_models reg)"

definition add_alias :: "string \<Rightarrow> model_registry \<times> string list \<Rightarrow> string \<Rightarrow> model_registry \<times> string list" where
  "add_alias i s alias =
     (case s of (reg, seen) \<Rightarrow>
        if List.member seen alias then (reg, seen)
        else (reg\<lparr>reg_alias_index := AList.update alias i (reg_alias_index reg)\<rparr>, alias # seen))"

text \<open>
  One entry of the list: \<open>None\<close> for an entry that could not be converted, which is skipped. The aliases
  of a converted entry are in lower case without surrounding blanks.
\<close>

definition load_entry :: "model_registry \<times> string list \<Rightarrow> model_metadata option \<Rightarrow> model_registry \<times> string list" where
  "load_entry s entry =
     (case entry of
        None \<Rightarrow> s
      | Some meta \<Rightarrow>
          if known_id (fst s) (mm_id meta) then s
          else (let s1 = ((fst s)\<lparr>reg_models := reg_models (fst s) @ [meta]\<rparr>, snd s);
                    (reg2, seen) = foldl (add_alias (mm_id meta)) s1 (mm_aliases meta);
                    lower_id = py_lower (mm_id meta)
                in if map_of (reg_alias_index reg2) lower_id = None
                   then (reg2\<lparr>reg_alias_index := reg_alias_index reg2 @ [(lower_id, mm_id meta)]\<rparr>, seen)
                   else (reg2, seen)))"

definition load_registry :: "model_metadata option list \<Rightarrow> model_registry" where
  "load_registry entries = fst (foldl load_entry (\<lparr>reg_models = [], reg_alias_index = []\<rparr>, []) entries)"

definition resolve_id :: "model_registry \<Rightarrow> string \<Rightarrow> string option" where
  "resolve_id reg id_or_alias = map_of (reg_alias_index reg) (reg_key id_or_alias)"

definition model_of_id :: "model_registry \<Rightarrow> string \<Rightarrow> model_metadata option" where
  "model_of_id reg i = find (\<lambda>m. mm_id m = i) (reg_models reg)"

definition registry_get :: "model_registry \<Rightarrow> string \<Rightarrow> model_metadata option" where
  "registry_get reg id_or_alias = Option.bind (resolve_id reg id_or_alias) (model_of_id reg)"

definition all_aliases :: "model_registry \<Rightarrow> (string \<times> string) list" where
  "all_aliases reg =
     foldl (\<lambda>r m. foldl (\<lambda>r a. AList.update a (mm_id m) r) r (mm_aliases m)) [] (reg_models reg)"

definition for_provider :: "model_registry \<Rightarrow> string \<Rightarrow> model_metadata list" where
  "for_provider reg provider = filter (\<lambda>m. mm_provider m = reg_key provider) (reg_models reg)"

definition best_for_dimension ::
    "model_registry \<Rightarrow> string \<Rightarrow> string list \<Rightarrow> model_metadata option" where
  "best_for_dimension reg dimension providers =
     (let candidates = (if providers = [] then reg_models reg
            else filter (\<lambda>m. List.member (map reg_key providers) (mm_provider m)) (reg_models reg))
      in fst (foldl (\<lambda>(best, best_score) m.
            case get_score m dimension of
              None \<Rightarrow> (best, best_score)
            | Some score \<Rightarrow> if pf_less best_score score then (Some m, score) else (best, best_score))
          (None, PFin (-1)) candidates))"

definition get_display_name :: "model_registry \<Rightarrow> string \<Rightarrow> string" where
  "get_display_name reg i = (case model_of_id reg i of Some m \<Rightarrow> mm_display_name m | None \<Rightarrow> i)"

section \<open>The overrides of a user\<close>

record slot_model =
  sm_user_id :: int
  sm_slot :: string
  sm_model_id :: string

type_synonym slot_models = "slot_model list"

definition slot_key :: "slot_model \<Rightarrow> int \<times> string" where
  "slot_key r = (sm_user_id r, sm_slot r)"

definition stored_model :: "slot_models \<Rightarrow> int \<Rightarrow> string \<Rightarrow> string option" where
  "stored_model tb user_id slot = map_option sm_model_id (row_with slot_key (user_id, slot) tb)"

definition store_slot_model :: "slot_models \<Rightarrow> int \<Rightarrow> string \<Rightarrow> string \<Rightarrow> slot_models" where
  "store_slot_model tb user_id model_id slot =
     replace_row slot_key \<lparr>sm_user_id = user_id, sm_slot = slot, sm_model_id = model_id\<rparr> tb"

definition delete_slot_model :: "slot_models \<Rightarrow> int \<Rightarrow> string \<Rightarrow> slot_models \<times> bool" where
  "delete_slot_model tb user_id slot =
     (filter (\<lambda>r. slot_key r \<noteq> (user_id, slot)) tb, list_ex (\<lambda>r. slot_key r = (user_id, slot)) tb)"

definition all_slot_models :: "slot_models \<Rightarrow> int \<Rightarrow> (string \<times> string) list" where
  "all_slot_models tb user_id =
     map (\<lambda>r. (sm_slot r, sm_model_id r)) (filter (\<lambda>r. sm_user_id r = user_id) tb)"

definition delete_all_models :: "slot_models \<Rightarrow> int \<Rightarrow> slot_models \<times> nat" where
  "delete_all_models tb user_id =
     (filter (\<lambda>r. sm_user_id r \<noteq> user_id) tb, length (filter (\<lambda>r. sm_user_id r = user_id) tb))"

section \<open>The model service\<close>

text \<open>What does not change: the registry, the default model of the environment and the slot defaults.\<close>

record model_config =
  mc_registry :: model_registry
  mc_default_model :: string
  mc_slot_defaults :: "(string \<times> string) list"

definition active_provider :: string where "active_provider = ''anthropic''"

definition foreign_provider :: "model_registry \<Rightarrow> string \<Rightarrow> bool" where
  "foreign_provider reg i =
     (case registry_get reg i of None \<Rightarrow> False | Some m \<Rightarrow> mm_provider m \<noteq> active_provider)"

definition get_user_model :: "model_config \<Rightarrow> slot_models \<Rightarrow> int \<Rightarrow> string \<Rightarrow> slot_models \<times> string option" where
  "get_user_model mc tb user_id slot =
     (case stored_model tb user_id slot of
        None \<Rightarrow> (tb, None)
      | Some stored \<Rightarrow>
          if \<not> known_id (mc_registry mc) stored then (fst (delete_slot_model tb user_id slot), None)
          else if foreign_provider (mc_registry mc) stored then (fst (delete_slot_model tb user_id slot), None)
          else (tb, Some stored))"

definition get_effective_model :: "model_config \<Rightarrow> slot_models \<Rightarrow> int \<Rightarrow> slot_models \<times> string" where
  "get_effective_model mc tb user_id =
     (case get_user_model mc tb user_id ''global'' of
        (tb', Some m) \<Rightarrow> (tb', if m = [] then mc_default_model mc else m)
      | (tb', None) \<Rightarrow> (tb', mc_default_model mc))"

definition get_all_slot_overrides :: "slot_models \<Rightarrow> int \<Rightarrow> (string \<times> string) list" where
  "get_all_slot_overrides tb user_id = all_slot_models tb user_id"

definition reset_all_slots :: "slot_models \<Rightarrow> int \<Rightarrow> slot_models \<times> nat" where
  "reset_all_slots tb user_id = delete_all_models tb user_id"

datatype set_model_result =
  UnknownModel string | ForeignModel string | ImplicitReset string | ModelSet string

definition set_user_model ::
    "model_config \<Rightarrow> slot_models \<Rightarrow> int \<Rightarrow> string \<Rightarrow> string \<Rightarrow> slot_models \<times> set_model_result" where
  "set_user_model mc tb user_id alias_or_id slot =
     (case resolve_id (mc_registry mc) alias_or_id of
        None \<Rightarrow> (tb, UnknownModel alias_or_id)
      | Some resolved \<Rightarrow>
          if foreign_provider (mc_registry mc) alias_or_id then (tb, ForeignModel alias_or_id)
          else if slot \<noteq> ''global'' \<and> map_of (mc_slot_defaults mc) slot = Some resolved
                  \<and> stored_model tb user_id ''global'' = None
          then (fst (delete_slot_model tb user_id slot), ImplicitReset resolved)
          else (store_slot_model tb user_id resolved slot, ModelSet resolved))"

definition reset_user_model :: "slot_models \<Rightarrow> int \<Rightarrow> string \<Rightarrow> slot_models \<times> bool" where
  "reset_user_model tb user_id slot = delete_slot_model tb user_id slot"

definition list_available_aliases :: "model_config \<Rightarrow> (string \<times> string) list" where
  "list_available_aliases mc =
     (let active_ids = map mm_id (for_provider (mc_registry mc) active_provider)
      in filter (\<lambda>(alias, i). List.member active_ids i) (all_aliases (mc_registry mc)))"

section \<open>The registry knows what its aliases stand for\<close>

definition aliases_known :: "model_registry \<Rightarrow> bool" where
  "aliases_known reg = list_all (\<lambda>(a, i). known_id reg i) (reg_alias_index reg)"

lemma known_id_models [simp]: "known_id (reg\<lparr>reg_alias_index := x\<rparr>) i = known_id reg i"
  by (simp add: known_id_def)

lemma list_all_alist_update: "list_all P xs \<Longrightarrow> P (k, v) \<Longrightarrow> list_all P (AList.update k v xs)"
  by (induction xs) auto

lemma add_alias_known:
  assumes "aliases_known (fst s)" "known_id (fst s) i"
  shows "aliases_known (fst (add_alias i s a))" "known_id (fst (add_alias i s a)) j = known_id (fst s) j"
proof -
  obtain reg seen where s: "s = (reg, seen)" by (cases s)
  show "aliases_known (fst (add_alias i s a))"
    using assms by (simp add: s add_alias_def aliases_known_def list_all_alist_update)
  show "known_id (fst (add_alias i s a)) j = known_id (fst s) j"
    by (simp add: s add_alias_def)
qed

lemma add_aliases_known:
  assumes "aliases_known (fst s)" "known_id (fst s) i"
  shows "aliases_known (fst (foldl (add_alias i) s as)) \<and> known_id (fst (foldl (add_alias i) s as)) i"
  using assms by (induction as arbitrary: s) (simp_all add: add_alias_known)

lemma load_entry_known:
  assumes "aliases_known (fst s)"
  shows "aliases_known (fst (load_entry s e))"
proof (cases "\<exists>m. e = Some m \<and> \<not> known_id (fst s) (mm_id m)")
  case True
  then obtain m where e: "e = Some m" "\<not> known_id (fst s) (mm_id m)" by auto
  obtain s1 where s1: "s1 = ((fst s)\<lparr>reg_models := reg_models (fst s) @ [m]\<rparr>, snd s)" by simp
  have "aliases_known (fst s1)" "known_id (fst s1) (mm_id m)"
    using assms by (auto simp: s1 aliases_known_def list_all_iff known_id_def)
  then have k: "aliases_known (fst (foldl (add_alias (mm_id m)) s1 (mm_aliases m)))"
      "known_id (fst (foldl (add_alias (mm_id m)) s1 (mm_aliases m))) (mm_id m)"
    using add_aliases_known by blast+
  obtain reg2 seen where f: "foldl (add_alias (mm_id m)) s1 (mm_aliases m) = (reg2, seen)"
    by (cases "foldl (add_alias (mm_id m)) s1 (mm_aliases m)")
  have "aliases_known reg2" "known_id reg2 (mm_id m)" using k by (simp_all add: f)
  then show ?thesis
    using e by (simp add: load_entry_def Let_def f flip: s1) (simp add: aliases_known_def list_all_iff)
qed (use assms in \<open>auto simp: load_entry_def split: option.splits\<close>)

lemma load_registry_known: "aliases_known (load_registry entries)"
proof -
  have "aliases_known (fst s) \<Longrightarrow> aliases_known (fst (foldl load_entry s entries))" for s
    by (induction entries arbitrary: s) (simp_all add: load_entry_known)
  from this [of "(\<lparr>reg_models = [], reg_alias_index = []\<rparr>, [])"] show ?thesis
    by (simp add: load_registry_def aliases_known_def)
qed

lemma resolve_id_known: "aliases_known reg \<Longrightarrow> resolve_id reg a = Some i \<Longrightarrow> known_id reg i"
  by (auto simp: resolve_id_def aliases_known_def list_all_iff dest: map_of_SomeD)

section \<open>What the service stores it also returns\<close>

text \<open>No id of the registry is an alias of another model (the shipped file satisfies it).\<close>

definition self_resolving :: "model_registry \<Rightarrow> bool" where
  "self_resolving reg = list_all (\<lambda>m. resolve_id reg (mm_id m) = Some (mm_id m)) (reg_models reg)"

lemma self_resolvingD: "self_resolving reg \<Longrightarrow> known_id reg i \<Longrightarrow> resolve_id reg i = Some i"
  by (auto simp: self_resolving_def known_id_def list_all_iff list_ex_iff)

lemma foreign_resolved:
  "self_resolving reg \<Longrightarrow> aliases_known reg \<Longrightarrow> resolve_id reg a = Some i \<Longrightarrow>
   foreign_provider reg i = foreign_provider reg a"
  by (simp add: foreign_provider_def registry_get_def resolve_id_known self_resolvingD)

lemma stored_after_store:
  "stored_model (store_slot_model tb u m s) u' s' = (if u' = u \<and> s' = s then Some m else stored_model tb u' s')"
  by (auto simp: stored_model_def store_slot_model_def row_with_replace slot_key_def)

lemma stored_after_delete:
  "stored_model (fst (delete_slot_model tb u s)) u' s' = (if u' = u \<and> s' = s then None else stored_model tb u' s')"
  by (auto simp: stored_model_def delete_slot_model_def row_with_delete)

lemma get_user_model_value:
  "snd (get_user_model mc tb u s) =
     (case stored_model tb u s of
        Some i \<Rightarrow> if known_id (mc_registry mc) i \<and> \<not> foreign_provider (mc_registry mc) i then Some i else None
      | None \<Rightarrow> None)"
  by (simp add: get_user_model_def split: option.split)

lemma get_user_model_stored:
  "stored_model (fst (get_user_model mc tb u s)) u' s' =
     (if u' = u \<and> s' = s then snd (get_user_model mc tb u s) else stored_model tb u' s')"
  by (auto simp: get_user_model_def stored_after_delete split: option.split)

lemma get_user_model_SomeD:
  "snd (get_user_model mc tb u s) = Some i \<Longrightarrow>
   known_id (mc_registry mc) i \<and> \<not> foreign_provider (mc_registry mc) i \<and> stored_model tb u s = Some i"
  by (simp add: get_user_model_value split: option.splits if_splits)

end
