(* ===== verification/Providers.thy ===== *)
theory Providers
  imports ModelSelection
begin

text \<open>
  The providers of answers: the interface and the exceptions of \<open>infrastructure/providers/base.py\<close>, the
  provider router of \<open>application/provider_router.py\<close>, and the providers that \<open>main.py\<close> registers, over
  what their transport (subprocess, process pool, HTTP) returns. The locale \<open>llm_provider\<close> is what the failover
  relies on; every shipped provider is an interpretation.
\<close>

section \<open>Interface\<close>

datatype exn_class =
  ProviderErrorC | ProviderTimeoutC | ProviderUnavailableC | ProviderNotImplementedC
  | OSErrorC | ConnectionErrorC | FileNotFoundErrorC | TimeoutErrorC | ValueErrorC | RuntimeErrorC | TypeErrorC
  | AttributeErrorC

text \<open>The class and its bases up to \<open>Exception\<close>; \<open>ConnectionError\<close> and \<open>TimeoutError\<close> are built in.\<close>

definition exn_bases :: "exn_class \<Rightarrow> exn_class list" where
  "exn_bases c = c # (case c of
       ProviderTimeoutC \<Rightarrow> [ProviderErrorC] | ProviderUnavailableC \<Rightarrow> [ProviderErrorC]
     | ProviderNotImplementedC \<Rightarrow> [ProviderErrorC]
     | ConnectionErrorC \<Rightarrow> [OSErrorC] | FileNotFoundErrorC \<Rightarrow> [OSErrorC] | TimeoutErrorC \<Rightarrow> [OSErrorC]
     | _ \<Rightarrow> [])"

record py_exn =
  ex_class :: exn_class
  ex_message :: string

definition is_instance :: "py_exn \<Rightarrow> exn_class \<Rightarrow> bool" where
  "is_instance e c = List.member (exn_bases (ex_class e)) c"

definition provider_timeout :: "string \<Rightarrow> int \<Rightarrow> py_exn" where
  "provider_timeout name secs =
     \<lparr>ex_class = ProviderTimeoutC, ex_message = ''Timeout after '' @ int_decimal secs @ ''s''\<rparr>"

definition provider_unavailable :: "string \<Rightarrow> string \<Rightarrow> py_exn" where
  "provider_unavailable name reason =
     \<lparr>ex_class = ProviderUnavailableC, ex_message = name @ '' unavailable: '' @ reason\<rparr>"

definition provider_not_implemented :: "string \<Rightarrow> py_exn" where
  "provider_not_implemented name =
     \<lparr>ex_class = ProviderNotImplementedC, ex_message = name @ '' is not yet implemented (Phase 1+)''\<rparr>"

record provider_response =
  pr_text :: string
  pr_duration_seconds :: rat
  pr_provider_name :: string
  pr_model :: "string option"
  pr_error :: "string option"

definition response_success :: "provider_response \<Rightarrow> bool" where
  "response_success r = (pr_error r = None \<and> pr_text r \<noteq> [])"

definition error_response :: "string \<Rightarrow> rat \<Rightarrow> string option \<Rightarrow> string \<Rightarrow> provider_response" where
  "error_response name d m err =
     \<lparr>pr_text = [], pr_duration_seconds = d, pr_provider_name = name, pr_model = m, pr_error = Some err\<rparr>"

text \<open>The keyword arguments of \<open>query\<close>; the router leaves out the ones that are \<open>None\<close>.\<close>

record provider_request =
  rq_prompt :: string
  rq_system_prompt :: string
  rq_timeout_seconds :: int
  rq_user_id :: "int option"
  rq_chat_id :: "int option"
  rq_model :: "string option"

text \<open>A provider acts on a world \<open>'w\<close> (processes, network, clock).\<close>

record 'w llm_provider_impl =
  lp_is_available :: "'w \<Rightarrow> (py_exn + bool) \<times> 'w"
  lp_query :: "'w \<Rightarrow> provider_request \<Rightarrow> (py_exn + provider_response) \<times> 'w"

section \<open>The provider router\<close>

definition provider_family :: "(string \<times> string) list" where
  "provider_family = [(''claude'', ''anthropic''), (''claude_persistent'', ''anthropic''),
     (''ollama_local'', ''ollama''), (''openai'', ''openai''), (''gemini'', ''google''), (''mistral'', ''mistral'')]"

definition model_compatible_with_provider :: "model_registry \<Rightarrow> string \<Rightarrow> string \<Rightarrow> bool" where
  "model_compatible_with_provider reg m provider_name =
     (case map_of provider_family provider_name of
        None \<Rightarrow> True
      | Some expected_family \<Rightarrow>
          (case registry_get reg m of None \<Rightarrow> True | Some meta \<Rightarrow> mm_provider meta = expected_family))"

record 'w provider_router =
  pv_providers :: "(string \<times> 'w llm_provider_impl) list"
  pv_default :: string
  pv_registry :: model_registry

definition unknown_provider :: "string \<Rightarrow> py_exn" where
  "unknown_provider target = \<lparr>ex_class = ValueErrorC, ex_message = ''Provider '' @ target @ '' not registered''\<rparr>"

definition init_provider_router ::
    "(string \<times> 'w llm_provider_impl) list \<Rightarrow> string \<Rightarrow> model_registry \<Rightarrow> py_exn + 'w provider_router" where
  "init_provider_router providers dflt reg =
     (if map_of providers dflt = None then Inl (unknown_provider dflt)
      else Inr \<lparr>pv_providers = providers, pv_default = dflt, pv_registry = reg\<rparr>)"

definition choose_default_provider :: "(string \<times> 'w llm_provider_impl) list \<Rightarrow> string \<Rightarrow> string" where
  "choose_default_provider providers wanted =
     (if map_of providers wanted = None then ''claude_persistent'' else wanted)"

definition route ::
    "'w provider_router \<Rightarrow> string option \<Rightarrow> provider_request \<Rightarrow> 'w \<Rightarrow> (py_exn + provider_response) \<times> 'w" where
  "route pv provider_name rq w =
     (let target = (case provider_name of Some (c # cs) \<Rightarrow> c # cs | _ \<Rightarrow> pv_default pv)
      in case map_of (pv_providers pv) target of
           None \<Rightarrow> (Inl (unknown_provider target), w)
         | Some provider \<Rightarrow>
             (case lp_is_available provider w of
                (Inl e, w1) \<Rightarrow> (Inl e, w1)
              | (Inr available, w1) \<Rightarrow>
                  if \<not> available
                  then (Inl (provider_unavailable target ''CLI not installed or no API key set''), w1)
                  else (let effective_model = (case rq_model rq of
                              None \<Rightarrow> None
                            | Some m \<Rightarrow> if model_compatible_with_provider (pv_registry pv) m target
                                        then Some m else None)
                        in lp_query provider w1 (rq\<lparr>rq_model := effective_model\<rparr>))))"

fun list_available :: "(string \<times> 'w llm_provider_impl) list \<Rightarrow> 'w \<Rightarrow> (py_exn + string list) \<times> 'w" where
  "list_available [] w = (Inr [], w)"
| "list_available ((name, provider) # ps) w =
     (case lp_is_available provider w of
        (Inl e, w1) \<Rightarrow> (Inl e, w1)
      | (Inr available, w1) \<Rightarrow>
          (case list_available ps w1 of
             (Inl e, w2) \<Rightarrow> (Inl e, w2)
           | (Inr names, w2) \<Rightarrow> (Inr (if available then name # names else names), w2)))"

definition list_registered :: "'w provider_router \<Rightarrow> string list" where
  "list_registered pv = map fst (pv_providers pv)"

section \<open>The shipped providers\<close>

text \<open>
  What their transports deliver. The command line client: the process cannot be started (an \<open>OSError\<close>), it is
  killed at the timeout, or it exits with a code, its output and its error output. The process pool: a stream
  of events that ends, possibly in an exception, or is cut off by the timeout. Ollama: a text, a failure
  (any exception, as text) or the timeout. Each comes with the time it took.
\<close>

datatype cli_outcome = CliNotStarted string | CliTimeout | CliExit int string string
datatype pool_event = PoolResult string | PoolError string | PoolOther
datatype pool_outcome = PoolTimeout | PoolStream "pool_event list" "py_exn option"
datatype http_outcome = HttpTimeout | HttpFailed string | HttpText string

record 'w transports =
  tp_cli_in_path :: "'w \<Rightarrow> bool"
  tp_cli :: "'w \<Rightarrow> string option \<Rightarrow> string \<Rightarrow> int \<Rightarrow> cli_outcome \<times> rat \<times> 'w"
  tp_pool :: "'w \<Rightarrow> provider_request \<Rightarrow> pool_outcome \<times> rat \<times> 'w"
  tp_ollama_up :: "'w \<Rightarrow> bool \<times> 'w"
  tp_ollama :: "'w \<Rightarrow> string \<Rightarrow> provider_request \<Rightarrow> http_outcome \<times> rat \<times> 'w"
  tp_pool_model :: string
  tp_ollama_model :: string

definition timeout_error :: "int \<Rightarrow> string" where
  "timeout_error secs = ''timeout_after_'' @ int_decimal secs @ ''s''"

definition combined_prompt :: "provider_request \<Rightarrow> string" where
  "combined_prompt rq =
     (if rq_system_prompt rq = [] then rq_prompt rq
      else rq_system_prompt rq @ [CHR 0x0A, CHR 0x0A] @ ''---'' @ [CHR 0x0A, CHR 0x0A] @ ''User: '' @ rq_prompt rq)"

definition claude_cli :: "'w transports \<Rightarrow> 'w llm_provider_impl" where
  "claude_cli tp = \<lparr>
     lp_is_available = (\<lambda>w. (Inr (tp_cli_in_path tp w), w)),
     lp_query = (\<lambda>w rq.
       case tp_cli tp w (rq_model rq) (combined_prompt rq) (rq_timeout_seconds rq) of
         (CliNotStarted msg, d, w') \<Rightarrow> (Inl \<lparr>ex_class = OSErrorC, ex_message = msg\<rparr>, w')
       | (CliTimeout, d, w') \<Rightarrow> (Inr (error_response ''claude'' d None (timeout_error (rq_timeout_seconds rq))), w')
       | (CliExit code out err, d, w') \<Rightarrow>
           (Inr (if code \<noteq> 0
                 then error_response ''claude'' d None (''exit_code_'' @ int_decimal code @ '': '' @ take 200 err)
                 else \<lparr>pr_text = py_strip out, pr_duration_seconds = d, pr_provider_name = ''claude'',
                        pr_model = None, pr_error = None\<rparr>), w'))\<rparr>"

text \<open>\<open>_collect_response\<close>: up to the first result or error of the stream, or the exception it ends in.\<close>

datatype collected = CollectedText string | CollectedError string | CollectedRaise py_exn

fun collect_response :: "pool_event list \<Rightarrow> py_exn option \<Rightarrow> collected" where
  "collect_response [] (Some e) = CollectedRaise e"
| "collect_response [] None = CollectedText []"
| "collect_response (PoolResult t # es) raised = CollectedText t"
| "collect_response (PoolError t # es) raised = CollectedError (if t = [] then ''Unknown error'' else t)"
| "collect_response (PoolOther # es) raised = collect_response es raised"

definition value_error :: "string \<Rightarrow> py_exn" where
  "value_error msg = \<lparr>ex_class = ValueErrorC, ex_message = msg\<rparr>"

definition chosen_or :: "string option \<Rightarrow> string \<Rightarrow> string" where
  "chosen_or m dflt = (case m of None \<Rightarrow> dflt | Some s \<Rightarrow> if s = [] then dflt else s)"

definition claude_persistent :: "'w transports \<Rightarrow> 'w llm_provider_impl" where
  "claude_persistent tp = \<lparr>
     lp_is_available = (\<lambda>w. (Inr (tp_cli_in_path tp w), w)),
     lp_query = (\<lambda>w rq.
       if rq_user_id rq = None then (Inl (value_error ''user_id is required for ClaudePersistentProvider''), w)
       else if rq_chat_id rq = None then (Inl (value_error ''chat_id is required for ClaudePersistentProvider''), w)
       else (let timed_out = (\<lambda>d. error_response ''claude_persistent'' d
               (Some (chosen_or (rq_model rq) (tp_pool_model tp))) (timeout_error (rq_timeout_seconds rq)))
         in case tp_pool tp w rq of
           (PoolTimeout, d, w') \<Rightarrow> (Inr (timed_out d), w')
         | (PoolStream es raised, d, w') \<Rightarrow>
             (case collect_response es raised of
                CollectedError err \<Rightarrow>
                  (Inr (error_response ''claude_persistent'' d None (''subprocess_error: '' @ err)), w')
              | CollectedRaise e \<Rightarrow>
                  if is_instance e TimeoutErrorC then (Inr (timed_out d), w')
                  else if is_instance e RuntimeErrorC
                  then (Inr (error_response ''claude_persistent'' d None (''runtime_error: '' @ ex_message e)), w')
                  else (Inl e, w')
              | CollectedText [] \<Rightarrow> (Inr (error_response ''claude_persistent'' d None ''empty_response''), w')
              | CollectedText full_text \<Rightarrow>
                  (Inr \<lparr>pr_text = py_strip full_text, pr_duration_seconds = d, pr_provider_name = ''claude_persistent'',
                    pr_model = Some (chosen_or (rq_model rq) (tp_pool_model tp)), pr_error = None\<rparr>, w'))))\<rparr>"

definition ollama_local :: "'w transports \<Rightarrow> 'w llm_provider_impl" where
  "ollama_local tp = \<lparr>
     lp_is_available = (\<lambda>w. case tp_ollama_up tp w of (up, w') \<Rightarrow> (Inr up, w')),
     lp_query = (\<lambda>w rq.
       let actual_model = chosen_or (rq_model rq) (tp_ollama_model tp)
       in case tp_ollama tp w actual_model rq of
            (HttpTimeout, d, w') \<Rightarrow>
              (Inr (error_response ''ollama_local'' d (Some actual_model) (timeout_error (rq_timeout_seconds rq))), w')
          | (HttpFailed msg, d, w') \<Rightarrow> (Inr (error_response ''ollama_local'' d (Some actual_model) msg), w')
          | (HttpText t, d, w') \<Rightarrow>
              (Inr \<lparr>pr_text = t, pr_duration_seconds = d, pr_provider_name = ''ollama_local'',
                    pr_model = Some actual_model, pr_error = None\<rparr>, w'))\<rparr>"

text \<open>The stubs of OpenAI, Gemini and Mistral; their \<open>query\<close> takes no \<open>user_id\<close> and no \<open>chat_id\<close>.\<close>

definition stub_provider :: "string \<Rightarrow> 'w llm_provider_impl" where
  "stub_provider name = \<lparr>
     lp_is_available = (\<lambda>w. (Inr False, w)),
     lp_query = (\<lambda>w rq. (Inl (if rq_user_id rq = None \<and> rq_chat_id rq = None then provider_not_implemented name
        else \<lparr>ex_class = TypeErrorC, ex_message = ''unexpected keyword argument''\<rparr>), w))\<rparr>"

definition shipped_providers :: "'w transports \<Rightarrow> (string \<times> 'w llm_provider_impl) list" where
  "shipped_providers tp =
     [(''claude_persistent'', claude_persistent tp), (''claude'', claude_cli tp), (''openai'', stub_provider ''openai''),
      (''gemini'', stub_provider ''gemini''), (''mistral'', stub_provider ''mistral''),
      (''ollama_local'', ollama_local tp)]"

section \<open>What the failover relies on\<close>

text \<open>
  With a user and a chat, a provider that claims to be available answers, or raises an exception that the
  failover catches: a \<open>ProviderError\<close> or an \<open>OSError\<close>. What else it may raise is the parameter \<open>stray\<close>; only
  the pool has such exceptions, those of its stream that are no \<open>RuntimeError\<close>.
\<close>

definition caught :: "py_exn \<Rightarrow> bool" where
  "caught e = (is_instance e ProviderErrorC \<or> is_instance e OSErrorC)"

lemma caught_unavailable [simp]: "caught (provider_unavailable n r)"
  by (simp add: caught_def is_instance_def exn_bases_def provider_unavailable_def)

definition pool_stray :: "'w transports \<Rightarrow> py_exn \<Rightarrow> bool" where
  "pool_stray tp e \<longleftrightarrow> \<not> caught e \<and> \<not> is_instance e RuntimeErrorC \<and>
     (\<exists>w rq es d w'. tp_pool tp w rq = (PoolStream es (Some e), d, w'))"

lemma collect_response_raise: "collect_response es raised = CollectedRaise e \<Longrightarrow> raised = Some e"
  by (induction es raised rule: collect_response.induct) simp_all

locale llm_provider =
  fixes provider :: "'w llm_provider_impl" and stray :: "py_exn \<Rightarrow> bool"
  assumes available_ok: "fst (lp_is_available provider w) = Inl e \<Longrightarrow> caught e"
    and query_ok: "fst (lp_is_available provider w) = Inr True \<Longrightarrow> rq_user_id rq \<noteq> None \<Longrightarrow> rq_chat_id rq \<noteq> None
      \<Longrightarrow> fst (lp_query provider (snd (lp_is_available provider w)) rq) = Inl e \<Longrightarrow> caught e \<or> stray e"
begin

lemma asked_ok:
  assumes "map_of (pv_providers pv) name = Some provider" "name \<noteq> []"
    and "rq_user_id rq \<noteq> None" "rq_chat_id rq \<noteq> None"
    and "fst (route pv (Some name) rq w) = Inl e"
  shows "caught e \<or> stray e"
proof -
  obtain a w1 where a: "lp_is_available provider w = (a, w1)" by (cases "lp_is_available provider w")
  obtain c cs where n: "name = c # cs" using assms(2) by (cases name) auto
  show ?thesis
  proof (cases a)
    case (Inl e')
    then have "e' = e" using assms(1, 5) a by (simp add: route_def n)
    then show ?thesis using available_ok [of w e] a Inl by simp
  next
    case (Inr up)
    show ?thesis
    proof (cases up)
      case True
      then obtain m where "fst (lp_query provider w1 (rq\<lparr>rq_model := m\<rparr>)) = Inl e"
        using assms(1, 5) a Inr by (auto simp: route_def n Let_def)
      then show ?thesis using query_ok [of w "rq\<lparr>rq_model := m\<rparr>" e] a Inr True assms(3, 4) by simp
    next
      case False
      then show ?thesis using assms(1, 5) a Inr by (auto simp: route_def n)
    qed
  qed
qed

end

interpretation cli: llm_provider "claude_cli tp" "\<lambda>_. False" for tp
proof (unfold_locales, goal_cases)
  case (2 w rq e)
  then show ?case
    by (auto simp: claude_cli_def caught_def is_instance_def exn_bases_def split: prod.splits cli_outcome.splits)
qed (simp add: claude_cli_def)

interpretation pool: llm_provider "claude_persistent tp" "pool_stray tp" for tp
proof (unfold_locales, goal_cases)
  case (2 w rq e)
  then obtain es raised d w' where "tp_pool tp w rq = (PoolStream es raised, d, w')"
      "collect_response es raised = CollectedRaise e" "\<not> is_instance e RuntimeErrorC"
    by (auto simp: claude_persistent_def Let_def
        split: prod.splits pool_outcome.splits collected.splits list.splits if_splits)
  then show ?case using collect_response_raise unfolding pool_stray_def by blast
qed (simp add: claude_persistent_def)

interpretation ollama: llm_provider "ollama_local tp" "\<lambda>_. False" for tp
proof (unfold_locales, goal_cases)
  case (2 w rq e)
  then show ?case by (auto simp: ollama_local_def Let_def split: prod.splits http_outcome.splits)
qed (auto simp: ollama_local_def split: prod.splits)

interpretation stub: llm_provider "stub_provider name" "\<lambda>_. False" for name
  by unfold_locales (simp_all add: stub_provider_def)

lemma shipped_route_ok:
  assumes "pv_providers pv = shipped_providers tp" "name \<in> fst ` set (shipped_providers tp)"
    and "rq_user_id rq \<noteq> None" "rq_chat_id rq \<noteq> None" "fst (route pv (Some name) rq w) = Inl e"
  shows "caught e \<or> pool_stray tp e"
proof -
  have n: "name \<noteq> []" using assms(2) by (auto simp: shipped_providers_def)
  obtain p where p: "map_of (pv_providers pv) name = Some p" "p \<in> snd ` set (shipped_providers tp)"
    using assms(1, 2) by (metis image_iff map_of_SomeD map_of_eq_None_iff not_None_eq snd_conv)
  from p(2) consider "p = claude_cli tp" | "p = claude_persistent tp" | "p = ollama_local tp" | s where "p = stub_provider s"
    by (auto simp: shipped_providers_def)
  then show ?thesis
  proof cases
    case 1 show ?thesis using cli.asked_ok [OF p(1) [unfolded 1] n assms(3-5)] by simp
  next
    case 2 show ?thesis by (rule pool.asked_ok [OF p(1) [unfolded 2] n assms(3-5)])
  next
    case 3 show ?thesis using ollama.asked_ok [OF p(1) [unfolded 3] n assms(3-5)] by simp
  next
    case (4 s) show ?thesis using stub.asked_ok [OF p(1) [unfolded 4] n assms(3-5)] by simp
  qed
qed

end
