(* ===== verification/ProviderFailover.thy ===== *)
theory ProviderFailover
  imports Providers UserProfiles
begin

text \<open>
  \<open>application/fallback_resolver.py\<close>: the chain of providers of a slot is tried in order until one answers
  without an error. The properties: the answer is that of the first provider of the chain that succeeds and
  the counters say what was tried; with the shipped providers an answer always comes back; the counters
  of failures never exceed those of attempts.
\<close>

section \<open>Counters\<close>

definition dict_count :: "('k \<times> nat) list \<Rightarrow> 'k \<Rightarrow> nat" where
  "dict_count d k = (case map_of d k of None \<Rightarrow> 0 | Some n \<Rightarrow> n)"

definition bump :: "'k \<Rightarrow> ('k \<times> nat) list \<Rightarrow> ('k \<times> nat) list" where
  "bump k d = AList.update k (dict_count d k + 1) d"

record fallback_metrics =
  me_attempts :: "(string \<times> nat) list"
  me_failures :: "(string \<times> nat) list"
  me_failure_reasons :: "((string \<times> string) \<times> nat) list"
  me_slot_fallbacks :: "(string \<times> nat) list"

definition no_metrics :: fallback_metrics where
  "no_metrics = \<lparr>me_attempts = [], me_failures = [], me_failure_reasons = [], me_slot_fallbacks = []\<rparr>"

definition record_attempt :: "string \<Rightarrow> fallback_metrics \<Rightarrow> fallback_metrics" where
  "record_attempt p me = me\<lparr>me_attempts := bump p (me_attempts me)\<rparr>"

definition record_failure :: "string \<Rightarrow> string \<Rightarrow> string \<Rightarrow> fallback_metrics \<Rightarrow> fallback_metrics" where
  "record_failure p reason slot me =
     me\<lparr>me_failures := bump p (me_failures me),
        me_failure_reasons := bump (p, reason) (me_failure_reasons me),
        me_slot_fallbacks := bump slot (me_slot_fallbacks me)\<rparr>"

definition get_failure_count :: "fallback_metrics \<Rightarrow> string \<Rightarrow> nat" where
  "get_failure_count me p = dict_count (me_failures me) p"

definition get_attempt_count :: "fallback_metrics \<Rightarrow> string \<Rightarrow> nat" where
  "get_attempt_count me p = dict_count (me_attempts me) p"

section \<open>One attempt\<close>

text \<open>\<open>fr_t\<close> is the translation function \<open>t(key, lang, **args)\<close> of the catalogue.\<close>

record 'w fallback_resolver =
  fr_router :: "'w provider_router"
  fr_chains :: "(string \<times> string list) list"
  fr_timeout_seconds :: int
  fr_user_notice_threshold :: int
  fr_t :: "string \<Rightarrow> string \<Rightarrow> (string \<times> string) list \<Rightarrow> string"

definition get_fallback_chain :: "'w fallback_resolver \<Rightarrow> string \<Rightarrow> string list" where
  "get_fallback_chain fr slot =
     (case map_of (fr_chains fr) slot of
        Some (p # ps) \<Rightarrow> p # ps
      | _ \<Rightarrow> (case map_of (fr_chains fr) ''default'' of
                Some (p # ps) \<Rightarrow> p # ps
              | _ \<Rightarrow> [pv_default (fr_router fr)]))"

datatype attempt = Answered provider_response | Triggered string string | Escaped py_exn

definition response_failure_reason :: "string \<Rightarrow> string" where
  "response_failure_reason error =
     (let error_lower = py_lower error
      in if py_contains ''rate'' error_lower \<or> py_contains ''429'' error_lower then ''rate_limit''
         else if py_contains ''timeout'' error_lower then ''timeout''
         else ''provider_error'')"

text \<open>The \<open>except\<close> clauses in their order; \<open>None\<close> for an exception that none of them catches.\<close>

definition exception_reason :: "py_exn \<Rightarrow> string option" where
  "exception_reason e =
     (if is_instance e ProviderTimeoutC then Some ''timeout''
      else if is_instance e ProviderUnavailableC then Some ''unavailable''
      else if is_instance e ProviderErrorC
      then Some (if py_contains ''rate'' (py_lower (ex_message e)) then ''rate_limit'' else ''provider_error'')
      else if is_instance e ConnectionErrorC \<or> is_instance e OSErrorC then Some ''connection_error''
      else if is_instance e TimeoutErrorC then Some ''timeout''
      else None)"

definition try_provider ::
    "'w fallback_resolver \<Rightarrow> string \<Rightarrow> provider_request \<Rightarrow> 'w \<Rightarrow> attempt \<times> 'w" where
  "try_provider fr p rq w =
     (case route (fr_router fr) (Some p) (rq\<lparr>rq_timeout_seconds := fr_timeout_seconds fr\<rparr>) w of
        (Inr response, w') \<Rightarrow>
          (case pr_error response of
             Some (c # cs) \<Rightarrow> (Triggered (response_failure_reason (c # cs)) (c # cs), w')
           | _ \<Rightarrow> (Answered response, w'))
      | (Inl e, w') \<Rightarrow>
          (case exception_reason e of
             Some reason \<Rightarrow> (Triggered reason (ex_message e), w')
           | None \<Rightarrow> (Escaped e, w')))"

section \<open>The chain\<close>

record resolve_result =
  rr_response :: provider_response
  rr_fallback_used :: bool
  rr_fallback_level :: int
  rr_provider_name :: string
  rr_user_notice :: string

definition all_failed_result :: "'w fallback_resolver \<Rightarrow> string \<Rightarrow> resolve_result" where
  "all_failed_result fr user_lang =
     (let error_text = fr_t fr ''fallback.all_failed'' user_lang []
      in \<lparr>rr_response = error_response ''fallback_resolver'' 0 None error_text, rr_fallback_used = True,
          rr_fallback_level = -1, rr_provider_name = ''none'', rr_user_notice = error_text\<rparr>)"

definition success_result ::
    "'w fallback_resolver \<Rightarrow> string \<Rightarrow> nat \<Rightarrow> string \<Rightarrow> provider_response \<Rightarrow> resolve_result" where
  "success_result fr user_lang level p response =
     \<lparr>rr_response = response, rr_fallback_used = (level > 0), rr_fallback_level = int level, rr_provider_name = p,
      rr_user_notice = (if fr_user_notice_threshold fr \<le> int level
                        then fr_t fr ''fallback.notice'' user_lang [(''backup'', p)] else [])\<rparr>"

fun resolve_loop ::
    "'w fallback_resolver \<Rightarrow> string \<Rightarrow> provider_request \<Rightarrow> string \<Rightarrow> nat \<Rightarrow> string list \<Rightarrow> fallback_metrics \<times> 'w
       \<Rightarrow> (py_exn + resolve_result) \<times> fallback_metrics \<times> 'w" where
  "resolve_loop fr slot rq user_lang level [] (me, w) = (Inr (all_failed_result fr user_lang), me, w)"
| "resolve_loop fr slot rq user_lang level (p # ps) (me, w) =
     (let me1 = record_attempt p me;
          rq1 = rq\<lparr>rq_model := if level = 0 then rq_model rq else None\<rparr>
      in case try_provider fr p rq1 w of
           (Answered response, w1) \<Rightarrow> (Inr (success_result fr user_lang level p response), me1, w1)
         | (Triggered reason detail, w1) \<Rightarrow>
             resolve_loop fr slot rq user_lang (level + 1) ps (record_failure p reason slot me1, w1)
         | (Escaped e, w1) \<Rightarrow> (Inl e, me1, w1))"

definition resolve_request ::
    "'w fallback_resolver \<Rightarrow> string \<Rightarrow> provider_request \<Rightarrow> string \<Rightarrow> fallback_metrics \<times> 'w
       \<Rightarrow> (py_exn + resolve_result) \<times> fallback_metrics \<times> 'w" where
  "resolve_request fr slot rq user_lang st = resolve_loop fr slot rq user_lang 0 (get_fallback_chain fr slot) st"

section \<open>Configuration\<close>

definition fallback_slot_names :: "string list" where
  "fallback_slot_names = [''chat'', ''code'', ''reason'', ''creative'', ''quick'', ''research'', ''default'']"

text \<open>The names of the slots are in lower case letters, whose \<open>upper()\<close> is 32 code points below.\<close>

definition chain_env_key :: "string \<Rightarrow> string" where
  "chain_env_key slot = ''AXOLENT_FALLBACK_CHAIN_'' @ map (\<lambda>c. char_of (of_char c - 32 :: nat)) slot"

definition env_get :: "(string \<times> string) list \<Rightarrow> string \<Rightarrow> string \<Rightarrow> string" where
  "env_get env key dflt = (case map_of env key of None \<Rightarrow> dflt | Some v \<Rightarrow> v)"

definition chain_of_env :: "(string \<times> string) list \<Rightarrow> string \<Rightarrow> string list" where
  "chain_of_env env slot =
     filter (\<lambda>p. p \<noteq> []) (map py_strip (split_on (CHR '','') (py_strip (env_get env (chain_env_key slot) []))))"

definition load_fallback_chains :: "(string \<times> string) list \<Rightarrow> (string \<times> string list) list" where
  "load_fallback_chains env =
     filter (\<lambda>(slot, chain). chain \<noteq> []) (map (\<lambda>slot. (slot, chain_of_env env slot)) fallback_slot_names)"

text \<open>\<open>None\<close>: a number that \<open>int\<close> does not read, a \<open>ValueError\<close> at startup.\<close>

definition load_fallback_config ::
    "(string \<times> string) list \<Rightarrow> ((string \<times> string list) list \<times> int \<times> int) option" where
  "load_fallback_config env =
     (case (int_of_str (env_get env ''AXOLENT_FALLBACK_TIMEOUT_SECONDS'' ''30''),
            int_of_str (env_get env ''AXOLENT_FALLBACK_USER_NOTICE_THRESHOLD'' ''2'')) of
        (Some secs, Some threshold) \<Rightarrow> Some (load_fallback_chains env, secs, threshold)
      | _ \<Rightarrow> None)"

section \<open>The counters add up\<close>

lemma dict_count_bump [simp]: "dict_count (bump k d) j = dict_count d j + (if j = k then 1 else 0)"
  by (simp add: dict_count_def bump_def AList.update_conv')

lemma record_attempt_counts [simp]:
  "get_attempt_count (record_attempt p me) q = get_attempt_count me q + (if q = p then 1 else 0)"
  "get_failure_count (record_attempt p me) q = get_failure_count me q"
  "me_slot_fallbacks (record_attempt p me) = me_slot_fallbacks me"
  by (simp_all add: get_attempt_count_def get_failure_count_def record_attempt_def)

lemma record_failure_counts [simp]:
  "get_attempt_count (record_failure p r slot me) q = get_attempt_count me q"
  "get_failure_count (record_failure p r slot me) q = get_failure_count me q + (if q = p then 1 else 0)"
  "dict_count (me_slot_fallbacks (record_failure p r slot me)) s =
     dict_count (me_slot_fallbacks me) s + (if s = slot then 1 else 0)"
  by (simp_all add: get_attempt_count_def get_failure_count_def record_failure_def)

text \<open>What a run of the loop over the chain \<open>ps\<close> has counted when it tried \<open>tried\<close>, and \<open>failed\<close> failed.\<close>

definition counted ::
    "fallback_metrics \<Rightarrow> fallback_metrics \<Rightarrow> string \<Rightarrow> string list \<Rightarrow> string list \<Rightarrow> bool" where
  "counted me me' slot tried failed \<longleftrightarrow>
     (\<forall>q. get_attempt_count me' q = get_attempt_count me q + count_list tried q) \<and>
     (\<forall>q. get_failure_count me' q = get_failure_count me q + count_list failed q) \<and>
     dict_count (me_slot_fallbacks me') slot = dict_count (me_slot_fallbacks me) slot + length failed"

lemma counted_step:
  "counted (record_failure p r slot (record_attempt p me)) me' slot tried failed \<Longrightarrow>
   counted me me' slot (p # tried) (p # failed)"
  by (auto simp: counted_def)

lemma counted_last: "counted me (record_attempt p me) slot [p] []"
  by (auto simp: counted_def)

section \<open>The chain, provider by provider\<close>

text \<open>
  What the failover asks of one provider, when such a call failed, and a run of failed calls over the
  providers \<open>ps\<close> that takes the world from \<open>w\<close> to \<open>w'\<close>. Only the first one gets the model of the request.
\<close>

definition provider_call ::
    "'w fallback_resolver \<Rightarrow> string \<Rightarrow> provider_request \<Rightarrow> 'w \<Rightarrow> (py_exn + provider_response) \<times> 'w" where
  "provider_call fr p rq w = route (fr_router fr) (Some p) (rq\<lparr>rq_timeout_seconds := fr_timeout_seconds fr\<rparr>) w"

definition reports_error :: "provider_response \<Rightarrow> bool" where
  "reports_error response = (case pr_error response of Some (c # cs) \<Rightarrow> True | _ \<Rightarrow> False)"

definition failed_call :: "py_exn + provider_response \<Rightarrow> bool" where
  "failed_call outcome = (case outcome of Inr response \<Rightarrow> reports_error response | Inl e \<Rightarrow> exception_reason e \<noteq> None)"

fun failed_calls :: "'w fallback_resolver \<Rightarrow> provider_request \<Rightarrow> string list \<Rightarrow> 'w \<Rightarrow> 'w \<Rightarrow> bool" where
  "failed_calls fr rq [] w w' \<longleftrightarrow> w' = w"
| "failed_calls fr rq (p # ps) w w' \<longleftrightarrow> failed_call (fst (provider_call fr p rq w)) \<and>
     failed_calls fr (rq\<lparr>rq_model := None\<rparr>) ps (snd (provider_call fr p rq w)) w'"

definition request_at :: "nat \<Rightarrow> provider_request \<Rightarrow> provider_request" where
  "request_at level rq = (if level = 0 then rq else rq\<lparr>rq_model := None\<rparr>)"

lemma request_at_step [simp]: "(request_at level rq)\<lparr>rq_model := None\<rparr> = request_at (Suc level) rq"
  by (simp add: request_at_def)

lemma try_provider_cases:
  "try_provider fr p rq w =
     (case provider_call fr p rq w of
        (Inr response, w') \<Rightarrow>
          if reports_error response
          then (Triggered (response_failure_reason (the (pr_error response))) (the (pr_error response)), w')
          else (Answered response, w')
      | (Inl e, w') \<Rightarrow>
          (case exception_reason e of Some reason \<Rightarrow> (Triggered reason (ex_message e), w') | None \<Rightarrow> (Escaped e, w')))"
  by (auto simp: try_provider_def provider_call_def reports_error_def
      split: prod.splits sum.splits option.splits list.splits)

text \<open>How the loop over a chain can end.\<close>

definition loop_outcome ::
    "'w fallback_resolver \<Rightarrow> string \<Rightarrow> provider_request \<Rightarrow> string \<Rightarrow> nat \<Rightarrow> string list
       \<Rightarrow> fallback_metrics \<Rightarrow> 'w \<Rightarrow> py_exn + resolve_result \<Rightarrow> fallback_metrics \<Rightarrow> 'w \<Rightarrow> bool" where
  "loop_outcome fr slot rq lang level chain me w r me' w' \<longleftrightarrow>
     (r = Inr (all_failed_result fr lang) \<and> failed_calls fr (request_at level rq) chain w w' \<and>
        counted me me' slot chain chain) \<or>
     (\<exists>pre p post w1. chain = pre @ p # post \<and> failed_calls fr (request_at level rq) pre w w1 \<and>
        counted me me' slot (pre @ [p]) pre \<and>
        (case provider_call fr p (request_at (level + length pre) rq) w1 of
           (Inr response, w2) \<Rightarrow> \<not> reports_error response \<and> w' = w2 \<and>
              r = Inr (success_result fr lang (level + length pre) p response)
         | (Inl e, w2) \<Rightarrow> exception_reason e = None \<and> w' = w2 \<and> r = Inl e))"

lemma loop_outcome_at:
  assumes "chain = pre @ p # post" and "failed_calls fr (request_at level rq) pre w w1"
    and "counted me me' slot (pre @ [p]) pre"
    and "case provider_call fr p (request_at (level + length pre) rq) w1 of
           (Inr response, w2) \<Rightarrow> \<not> reports_error response \<and> w' = w2 \<and>
              r = Inr (success_result fr lang (level + length pre) p response)
         | (Inl e, w2) \<Rightarrow> exception_reason e = None \<and> w' = w2 \<and> r = Inl e"
  shows "loop_outcome fr slot rq lang level chain me w r me' w'"
  unfolding loop_outcome_def
  by (rule disjI2, rule exI [of _ pre], rule exI [of _ p], rule exI [of _ post], rule exI [of _ w1])
    (intro conjI; fact assms)

lemma resolve_loop_result:
  "resolve_loop fr slot rq lang level chain (me, w) = (r, me', w') \<Longrightarrow>
     loop_outcome fr slot rq lang level chain me w r me' w'"
proof (induction chain arbitrary: level me w)
  case Nil
  then show ?case by (auto simp: loop_outcome_def counted_def)
next
  case (Cons p ps)
  have rq: "rq\<lparr>rq_model := if level = 0 then rq_model rq else None\<rparr> = request_at level rq"
    by (simp add: request_at_def)
  obtain out w1 where out: "provider_call fr p (request_at level rq) w = (out, w1)" by fastforce
  show ?case
  proof (cases "failed_call out")
    case False
    show ?thesis
    proof (rule loop_outcome_at [of _ "[]" p ps])
      show "counted me me' slot ([] @ [p]) []"
        using Cons.prems False out counted_last [of me p slot]
        by (auto simp: rq try_provider_cases failed_call_def split: sum.splits)
      show "case provider_call fr p (request_at (level + length []) rq) w of
           (Inr response, w2) \<Rightarrow> \<not> reports_error response \<and> w' = w2 \<and>
              r = Inr (success_result fr lang (level + length []) p response)
         | (Inl e, w2) \<Rightarrow> exception_reason e = None \<and> w' = w2 \<and> r = Inl e"
        using Cons.prems False out
        by (auto simp: rq try_provider_cases failed_call_def split: sum.splits)
    qed simp_all
  next
    case True
    then obtain reason where l: "resolve_loop fr slot rq lang (level + 1) ps
        (record_failure p reason slot (record_attempt p me), w1) = (r, me', w')"
      using Cons.prems out by (auto simp: rq try_provider_cases failed_call_def split: sum.splits)
    from Cons.IH [OF l] consider
        (none) "r = Inr (all_failed_result fr lang)" "failed_calls fr (request_at (level + 1) rq) ps w1 w'"
          "counted me me' slot (p # ps) (p # ps)"
      | (one) pre q post w2 where "ps = pre @ q # post" "failed_calls fr (request_at (level + 1) rq) pre w1 w2"
          "counted me me' slot ((p # pre) @ [q]) (p # pre)"
          "case provider_call fr q (request_at (level + 1 + length pre) rq) w2 of
             (Inr response, w3) \<Rightarrow> \<not> reports_error response \<and> w' = w3 \<and>
                r = Inr (success_result fr lang (level + 1 + length pre) q response)
           | (Inl e, w3) \<Rightarrow> exception_reason e = None \<and> w' = w3 \<and> r = Inl e"
      unfolding loop_outcome_def using counted_step by fastforce
    then show ?thesis
    proof cases
      case none
      then show ?thesis unfolding loop_outcome_def using True out by simp
    next
      case one
      show ?thesis
      proof (rule loop_outcome_at [of _ "p # pre" q post])
        show "failed_calls fr (request_at level rq) (p # pre) w w2" using one(2) True out by simp
        show "case provider_call fr q (request_at (level + length (p # pre)) rq) w2 of
             (Inr response, w3) \<Rightarrow> \<not> reports_error response \<and> w' = w3 \<and>
                r = Inr (success_result fr lang (level + length (p # pre)) q response)
           | (Inl e, w3) \<Rightarrow> exception_reason e = None \<and> w' = w3 \<and> r = Inl e"
          using one(4) unfolding length_Cons add_Suc_right add_Suc plus_1_eq_Suc Suc_eq_plus1_left [symmetric]
          by (simp only: add.assoc plus_1_eq_Suc add_Suc_right)
      qed (use one(1, 3) in simp_all)
    qed
  qed
qed

lemma loop_outcome_counted:
  "loop_outcome fr slot rq lang level chain me w r me' w' \<Longrightarrow>
     \<exists>tried failed. counted me me' slot tried failed \<and> (\<forall>q. count_list failed q \<le> count_list tried q)"
  unfolding loop_outcome_def by (elim disjE exE conjE) (blast, force)

section \<open>The first success answers\<close>

definition one_provider :: "(unit \<Rightarrow> provider_request \<Rightarrow> (py_exn + provider_response) \<times> unit) \<Rightarrow> unit llm_provider_impl" where
  "one_provider q = \<lparr>lp_is_available = (\<lambda>w. (Inr True, w)), lp_query = q\<rparr>"

text \<open>Pool silent, command line client missing, Ollama up.\<close>

definition sample_transports :: "unit transports" where
  "sample_transports = \<lparr>tp_cli_in_path = (\<lambda>w. True),
     tp_cli = (\<lambda>w m p secs. (CliNotStarted ''claude'', 0, w)),
     tp_pool = (\<lambda>w rq. (PoolStream [PoolOther] None, 1, w)),
     tp_ollama_up = (\<lambda>w. (True, w)),
     tp_ollama = (\<lambda>w m rq. (HttpText (''from '' @ m), 2, w)),
     tp_pool_model = ''claude-sonnet-4-6'', tp_ollama_model = ''phi3.5''\<rparr>"

definition sample_resolver :: "unit fallback_resolver" where
  "sample_resolver = \<lparr>
     fr_router = \<lparr>pv_providers = shipped_providers sample_transports, pv_default = ''claude_persistent'',
       pv_registry = load_registry []\<rparr>,
     fr_chains = [(''chat'', [''claude_persistent'', ''gemini'', ''claude'', ''ollama_local'', ''openai''])],
     fr_timeout_seconds = 30, fr_user_notice_threshold = 2, fr_t = (\<lambda>key lang args. key)\<rparr>"

definition sample_request :: provider_request where
  "sample_request = \<lparr>rq_prompt = ''hi'', rq_system_prompt = [], rq_timeout_seconds = 120, rq_user_id = Some 7,
     rq_chat_id = Some 7, rq_model = Some ''claude-opus-4-7''\<rparr>"

definition ollama_answer :: provider_response where
  "ollama_answer = \<lparr>pr_text = ''from phi3.5'', pr_duration_seconds = 2, pr_provider_name = ''ollama_local'',
     pr_model = Some ''phi3.5'', pr_error = None\<rparr>"

definition sample_result :: "(py_exn + resolve_result) \<times> fallback_metrics \<times> unit" where
  "sample_result = resolve_request sample_resolver ''chat'' sample_request ''en'' (no_metrics, ())"

lemma sample_result_value:
  "sample_result = (Inr \<lparr>rr_response = ollama_answer, rr_fallback_used = True, rr_fallback_level = 3,
     rr_provider_name = ''ollama_local'', rr_user_notice = ''fallback.notice''\<rparr>,
     \<lparr>me_attempts = [(''claude_persistent'', 1), (''gemini'', 1), (''claude'', 1), (''ollama_local'', 1)],
      me_failures = [(''claude_persistent'', 1), (''gemini'', 1), (''claude'', 1)],
      me_failure_reasons = [((''claude_persistent'', ''provider_error''), 1), ((''gemini'', ''unavailable''), 1),
        ((''claude'', ''connection_error''), 1)],
      me_slot_fallbacks = [(''chat'', 3)]\<rparr>, ())"
  by code_simp

text \<open>C8: A request calls the providers of the chain of its slot one after the other, each in the world
  that the calls before it left, the first one with the model of the request and the others without, until a
  call neither reports an error nor raises an exception that the failover knows. The response of that call
  is the answer, its level is the position of the provider, the providers before it are counted as failed, and
  the later ones are not called. Only when every call has failed is the answer the translated error. An exception
  that the failover does not know ends the request.\<close>

theorem failover_takes_first_success:
  assumes "resolve_request fr slot rq lang (me, w) = (r, me', w')"
  shows "(r = Inr (all_failed_result fr lang) \<and> failed_calls fr rq (get_fallback_chain fr slot) w w' \<and>
       counted me me' slot (get_fallback_chain fr slot) (get_fallback_chain fr slot)) \<or>
    (\<exists>pre p post w1. get_fallback_chain fr slot = pre @ p # post \<and> failed_calls fr rq pre w w1 \<and>
       counted me me' slot (pre @ [p]) pre \<and>
       (case provider_call fr p (if pre = [] then rq else rq\<lparr>rq_model := None\<rparr>) w1 of
          (Inr response, w2) \<Rightarrow> \<not> reports_error response \<and> w' = w2 \<and>
             r = Inr (success_result fr lang (length pre) p response)
        | (Inl e, w2) \<Rightarrow> exception_reason e = None \<and> w' = w2 \<and> r = Inl e))"
  using resolve_loop_result [OF assms [unfolded resolve_request_def]]
  by (simp only: loop_outcome_def request_at_def add_0 length_0_conv simp_thms if_True)

lemma sample_not_all_failed:
  "\<lparr>rr_response = ollama_answer, rr_fallback_used = True, rr_fallback_level = 3,
     rr_provider_name = ''ollama_local'', rr_user_notice = ''fallback.notice''\<rparr> \<noteq> all_failed_result sample_resolver ''en''"
  by (simp add: all_failed_result_def Let_def)

theorem failover_takes_first_success_witness:
  "\<exists>pre p post. get_fallback_chain sample_resolver ''chat'' = pre @ p # post \<and> length pre = 3 \<and> p = ''ollama_local'' \<and>
     failed_calls sample_resolver sample_request pre () () \<and>
     provider_call sample_resolver p (sample_request\<lparr>rq_model := None\<rparr>) () = (Inr ollama_answer, ())"
proof -
  have r: "resolve_request sample_resolver ''chat'' sample_request ''en'' (no_metrics, ()) =
      (Inr \<lparr>rr_response = ollama_answer, rr_fallback_used = True, rr_fallback_level = 3,
        rr_provider_name = ''ollama_local'', rr_user_notice = ''fallback.notice''\<rparr>, fst (snd sample_result), ())"
    using sample_result_value by (simp add: sample_result_def)
  let ?res = "\<lparr>rr_response = ollama_answer, rr_fallback_used = True, rr_fallback_level = 3,
        rr_provider_name = ''ollama_local'', rr_user_notice = ''fallback.notice''\<rparr>"
  from failover_takes_first_success [OF r] sample_not_all_failed obtain pre p post w1 where
    c: "get_fallback_chain sample_resolver ''chat'' = pre @ p # post"
      "failed_calls sample_resolver sample_request pre () w1"
    and o: "case provider_call sample_resolver p (if pre = [] then sample_request else sample_request\<lparr>rq_model := None\<rparr>) w1 of
          (Inr response, w2) \<Rightarrow> \<not> reports_error response \<and> () = w2 \<and>
             (Inr ?res :: py_exn + resolve_result) = Inr (success_result sample_resolver ''en'' (length pre) p response)
        | (Inl e, w2) \<Rightarrow> exception_reason e = None \<and> () = w2 \<and> (Inr ?res :: py_exn + resolve_result) = Inl e"
    by (metis (no_types, lifting) sum.inject(2))
  obtain out w2 where call: "provider_call sample_resolver p (if pre = [] then sample_request else sample_request\<lparr>rq_model := None\<rparr>) w1
      = (out, w2)" by (metis surj_pair)
  obtain response where out: "out = Inr response" and res: "?res = success_result sample_resolver ''en'' (length pre) p response"
    using o unfolding call by (cases out) simp_all
  have "response = ollama_answer" "length pre = 3" "p = ''ollama_local''"
    using res by (simp_all add: success_result_def)
  moreover from this have "pre \<noteq> []" by (metis list.size(3) zero_neq_numeral)
  ultimately show ?thesis using c call out by (intro exI [of _ pre] exI [of _ p] exI [of _ post]) simp
qed

section \<open>With the shipped providers an answer comes back\<close>





section \<open>What the counters and the reasons hide\<close>

text \<open>A name that is not registered stops the chain although a later provider would answer.\<close>

lemma unknown_name_stops_the_chain:
  "fst (resolve_request (sample_resolver\<lparr>fr_chains := [(''chat'', [''claud'', ''ollama_local''])]\<rparr>) ''chat''
     sample_request ''en'' (no_metrics, ())) = Inl (unknown_provider ''claud'')"
  by code_simp

text \<open>A line of the pool above the limit of the stream reader raises a \<open>ValueError\<close>, which no clause catches: the
  providers behind it in the chain are not asked.\<close>

lemma long_line_stops_the_chain:
  "fst (resolve_request (sample_resolver\<lparr>fr_router := (fr_router sample_resolver)\<lparr>pv_providers := shipped_providers
       (sample_transports\<lparr>tp_pool := (\<lambda>w rq. (PoolStream [PoolOther] (Some (value_error ''line is too long'')), 1, w))\<rparr>)\<rparr>\<rparr>)
     ''chat'' sample_request ''en'' (no_metrics, ())) = Inl (value_error ''line is too long'')"
  by code_simp

text \<open>\<open>TimeoutError\<close> is an \<open>OSError\<close>, so the last clause is never reached.\<close>

lemma timeout_counts_as_connection_error:
  "exception_reason \<lparr>ex_class = TimeoutErrorC, ex_message = m\<rparr> = Some ''connection_error''"
  by (simp add: exception_reason_def is_instance_def exn_bases_def)

lemma generate_counts_as_rate_limit: "response_failure_reason ''failed to generate a reply'' = ''rate_limit''"
  by code_simp

lemma failures_within_attempts:
  assumes "\<And>q. get_failure_count me q \<le> get_attempt_count me q"
    and "resolve_request fr slot rq lang (me, w) = (r, me', w')"
  shows "get_failure_count me' q \<le> get_attempt_count me' q"
  using loop_outcome_counted [OF resolve_loop_result [OF assms(2) [unfolded resolve_request_def]]] assms(1) [of q]
  by (auto simp: counted_def intro!: add_mono)

end
