(* ===== verification/LanguageDetection.thy ===== *)
theory LanguageDetection
  imports PyText Prelude "HOL-Library.AList"
begin

text \<open>
  Which language a text is in: \<open>application/language/registry.py\<close>, \<open>context.py\<close> and \<open>orchestrator.py\<close>. The two
  detector backends are parameters; probabilities are exact rationals, where the code adds floats. A
  decision reason is a constructor instead of an English sentence, and the latencies are left out. The
  property: the decision is the answer of a backend that was asked, never more certain than that backend, and
  its reliability is a number between 0 and 1.
\<close>

section \<open>The registry\<close>

datatype detection_tier = TierHigh | TierMedium | TierLow

definition tier_value :: "detection_tier \<Rightarrow> string" where
  "tier_value t = (case t of TierHigh \<Rightarrow> ''high'' | TierMedium \<Rightarrow> ''medium'' | TierLow \<Rightarrow> ''low'')"

text \<open>Native names, marker words and notes are used nowhere in the program and left out.\<close>

record language_entry =
  le_code :: string
  le_name :: string
  le_tier :: detection_tier
  le_script :: string
  le_langdetect_code :: "string option"
  le_min_chars :: nat

definition lang_entry ::
    "string \<Rightarrow> string \<Rightarrow> detection_tier \<Rightarrow> string \<Rightarrow> string option \<Rightarrow> nat \<Rightarrow> language_entry" where
  "lang_entry code name tier script ld n =
     \<lparr>le_code = code, le_name = name, le_tier = tier, le_script = script, le_langdetect_code = ld, le_min_chars = n\<rparr>"

definition default_language_entries :: "language_entry list" where
  "default_language_entries = [
     lang_entry ''de'' ''German'' TierHigh ''latin'' None 10,
     lang_entry ''ru'' ''Russian'' TierHigh ''cyrillic'' None 5,
     lang_entry ''uk'' ''Ukrainian'' TierHigh ''cyrillic'' None 10,
     lang_entry ''ar'' ''Arabic'' TierHigh ''arabic'' None 5,
     lang_entry ''zh'' ''Chinese'' TierHigh ''cjk'' None 3,
     lang_entry ''ja'' ''Japanese'' TierHigh ''kana'' None 3,
     lang_entry ''ko'' ''Korean'' TierHigh ''hangul'' None 3,
     lang_entry ''hi'' ''Hindi'' TierHigh ''devanagari'' None 5,
     lang_entry ''th'' ''Thai'' TierHigh ''thai'' None 5,
     lang_entry ''en'' ''English'' TierMedium ''latin'' None 15,
     lang_entry ''nl'' ''Dutch'' TierMedium ''latin'' None 20,
     lang_entry ''fr'' ''French'' TierMedium ''latin'' None 15,
     lang_entry ''es'' ''Spanish'' TierMedium ''latin'' None 15,
     lang_entry ''it'' ''Italian'' TierMedium ''latin'' None 15,
     lang_entry ''pt'' ''Portuguese'' TierMedium ''latin'' None 15,
     lang_entry ''pl'' ''Polish'' TierMedium ''latin'' None 10,
     lang_entry ''sv'' ''Swedish'' TierMedium ''latin'' None 20,
     lang_entry ''da'' ''Danish'' TierMedium ''latin'' None 25,
     lang_entry ''nb'' ''Norwegian'' TierMedium ''latin'' (Some ''no'') 25,
     lang_entry ''fi'' ''Finnish'' TierMedium ''latin'' None 15,
     lang_entry ''tr'' ''Turkish'' TierMedium ''latin'' None 10,
     lang_entry ''id'' ''Indonesian'' TierMedium ''latin'' None 20,
     lang_entry ''vi'' ''Vietnamese'' TierMedium ''latin'' None 10]"

record language_registry =
  lg_entries :: "(string \<times> language_entry) list"
  lg_backend_map :: "(string \<times> string) list"

definition backend_code_map :: "(string \<times> string) list" where
  "backend_code_map = [(''no'', ''nb''), (''zh-cn'', ''zh''), (''zh-tw'', ''zh'')]"

definition init_language_registry :: "language_entry list \<Rightarrow> language_registry" where
  "init_language_registry entries =
     \<lparr>lg_entries = foldl (\<lambda>d e. AList.update (le_code e) e d) [] entries,
      lg_backend_map = foldl (\<lambda>d e. case le_langdetect_code e of
          None \<Rightarrow> d | Some ld \<Rightarrow> AList.update ld (le_code e) d) backend_code_map entries\<rparr>"

definition get_or_none :: "language_registry \<Rightarrow> string \<Rightarrow> language_entry option" where
  "get_or_none lg code = map_of (lg_entries lg) (py_lower code)"

definition is_supported :: "language_registry \<Rightarrow> string \<Rightarrow> bool" where
  "is_supported lg code = (get_or_none lg code \<noteq> None)"

definition list_by_tier :: "language_registry \<Rightarrow> detection_tier \<Rightarrow> language_entry list" where
  "list_by_tier lg tier = filter (\<lambda>e. le_tier e = tier) (map snd (lg_entries lg))"

definition list_by_script :: "language_registry \<Rightarrow> string \<Rightarrow> language_entry list" where
  "list_by_script lg script = filter (\<lambda>e. le_script e = py_lower script) (map snd (lg_entries lg))"

definition resolve_backend_code :: "language_registry \<Rightarrow> string \<Rightarrow> string" where
  "resolve_backend_code lg code = (case map_of (lg_backend_map lg) code of None \<Rightarrow> code | Some c \<Rightarrow> c)"

definition default_registry :: language_registry where
  "default_registry = init_language_registry default_language_entries"

section \<open>Candidates\<close>

type_synonym detector = "string \<Rightarrow> string + (string \<times> rat) list"

record detection_candidate =
  dc_backend_name :: string
  dc_distribution :: "(string \<times> rat) list"
  dc_top_lang :: string
  dc_top_confidence :: rat
  dc_error :: "string option"

definition succeeded :: "detection_candidate \<Rightarrow> bool" where
  "succeeded c = (dc_error c = None \<and> dc_top_lang c \<noteq> [])"

datatype decision_reason =
  EmptyInput | HeuristicConfident | PrimaryConfident | NoResult | SingleBackend string | Consensus string | Dissent string

record orchestrated_detection =
  od_code :: string
  od_confidence :: rat
  od_distribution :: "(string \<times> rat) list"
  od_reliability :: rat
  od_candidates :: "detection_candidate list"
  od_reason :: decision_reason
  od_bucket :: string
  od_min_chars_met :: bool
  od_had_dissent :: bool

definition classify_text_length :: "nat \<Rightarrow> string" where
  "classify_text_length n =
     (if n \<le> 10 then ''micro'' else if n \<le> 30 then ''short'' else if n \<le> 100 then ''medium'' else ''long'')"

record orchestrator =
  or_primary :: detector
  or_fallback :: "detector option"
  or_registry :: language_registry
  or_fallback_threshold :: rat

definition failed_candidate :: "string \<Rightarrow> string \<Rightarrow> detection_candidate" where
  "failed_candidate name err =
     \<lparr>dc_backend_name = name, dc_distribution = [], dc_top_lang = [], dc_top_confidence = 0, dc_error = Some err\<rparr>"

definition normalize_distribution :: "language_registry \<Rightarrow> (string \<times> rat) list \<Rightarrow> (string \<times> rat) list" where
  "normalize_distribution lg raw =
     foldl (\<lambda>d (code, prob).
       let canon = resolve_backend_code lg code
       in AList.update canon ((case map_of d canon of None \<Rightarrow> 0 | Some p \<Rightarrow> p) + prob) d) [] raw"

text \<open>\<open>max(d, key=d.get)\<close>: the first of the keys with the largest value.\<close>

fun first_max :: "(string \<times> rat) list \<Rightarrow> string \<times> rat" where
  "first_max [] = ([], 0)"
| "first_max [x] = x"
| "first_max (x # y # ys) = (let m = first_max (y # ys) in if snd m \<le> snd x then x else m)"

definition call_backend ::
    "language_registry \<Rightarrow> detector option \<Rightarrow> string \<Rightarrow> string \<Rightarrow> detection_candidate option" where
  "call_backend lg backend name s =
     (case backend of
        None \<Rightarrow> None
      | Some b \<Rightarrow> Some
          (case b s of
             Inl err \<Rightarrow> failed_candidate name err
           | Inr [] \<Rightarrow> failed_candidate name ''Backend returned empty distribution.''
           | Inr raw \<Rightarrow>
               (let distribution = normalize_distribution lg raw; top = first_max distribution
                in \<lparr>dc_backend_name = name, dc_distribution = distribution, dc_top_lang = fst top,
                    dc_top_confidence = snd top, dc_error = None\<rparr>)))"

section \<open>The result\<close>

definition make_default_result ::
    "string \<Rightarrow> decision_reason \<Rightarrow> detection_candidate list \<Rightarrow> orchestrated_detection" where
  "make_default_result bucket reason candidates =
     \<lparr>od_code = ''de'', od_confidence = 0, od_distribution = [], od_reliability = 0, od_candidates = candidates,
      od_reason = reason, od_bucket = bucket, od_min_chars_met = True, od_had_dissent = False\<rparr>"

definition apply_min_chars_guard :: "language_registry \<Rightarrow> string \<Rightarrow> string \<Rightarrow> rat \<Rightarrow> rat \<times> bool" where
  "apply_min_chars_guard lg s code raw =
     (case get_or_none lg code of
        None \<Rightarrow> (raw, True)
      | Some entry \<Rightarrow>
          if le_min_chars entry \<le> length s then (raw, True)
          else (let ratio = (if 0 < le_min_chars entry
                      then rat_of_nat (length s) / rat_of_nat (le_min_chars entry) else 1)
                in (max 0 (min (raw * ratio) raw), False)))"

definition compute_reliability ::
    "language_registry \<Rightarrow> rat \<Rightarrow> string \<Rightarrow> string \<Rightarrow> bool \<Rightarrow> bool \<Rightarrow> rat" where
  "compute_reliability lg confidence code bucket dissent min_chars_met =
     (let tier_bonus = (case get_or_none lg code of
              None \<Rightarrow> 0
            | Some e \<Rightarrow> (case le_tier e of TierHigh \<Rightarrow> 1 / 20 | TierLow \<Rightarrow> - (1 / 20) | TierMedium \<Rightarrow> 0));
          length_bonus = (if bucket = ''micro'' then - (1 / 20) else if bucket = ''medium'' then 3 / 100
                          else if bucket = ''long'' then 1 / 20 else 0);
          penalty = (if dissent then 1 / 5 else 0) + (if min_chars_met then 0 else 1 / 10)
      in max 0 (min 1 (confidence + tier_bonus + length_bonus - penalty)))"

definition detection_result ::
    "language_registry \<Rightarrow> string \<Rightarrow> string \<Rightarrow> detection_candidate list \<Rightarrow> detection_candidate \<Rightarrow> rat option
       \<Rightarrow> bool \<Rightarrow> decision_reason \<Rightarrow> orchestrated_detection" where
  "detection_result lg s bucket candidates winner override_confidence dissent reason =
     (let code = dc_top_lang winner;
          raw = (case override_confidence of None \<Rightarrow> dc_top_confidence winner | Some c \<Rightarrow> c);
          (confidence, min_chars_met) = apply_min_chars_guard lg s code raw
      in \<lparr>od_code = code, od_confidence = confidence, od_distribution = dc_distribution winner,
          od_reliability = compute_reliability lg confidence code bucket dissent min_chars_met,
          od_candidates = candidates, od_reason = reason, od_bucket = bucket,
          od_min_chars_met = min_chars_met, od_had_dissent = dissent\<rparr>)"

definition aggregate ::
    "language_registry \<Rightarrow> detection_candidate list \<Rightarrow> string \<Rightarrow> string \<Rightarrow> orchestrated_detection" where
  "aggregate lg candidates bucket s =
     (case filter succeeded candidates of
        [] \<Rightarrow> make_default_result bucket NoResult candidates
      | [winner] \<Rightarrow>
          detection_result lg s bucket candidates winner None False (SingleBackend (dc_backend_name winner))
      | first # second # _ \<Rightarrow>
          (let winner = (if dc_top_confidence second \<le> dc_top_confidence first then first else second)
           in if dc_top_lang first = dc_top_lang second
              then detection_result lg s bucket candidates winner
                     (Some (max (dc_top_confidence first) (dc_top_confidence second))) False
                     (Consensus (dc_backend_name winner))
              else detection_result lg s bucket candidates winner None True (Dissent (dc_backend_name winner))))"

definition detect_short_text :: "orchestrator \<Rightarrow> string \<Rightarrow> string \<Rightarrow> orchestrated_detection" where
  "detect_short_text orc s bucket =
     (let lg = or_registry orc;
          heuristic = call_backend lg (or_fallback orc) ''domain_heuristic'' s;
          confident = (case heuristic of None \<Rightarrow> False | Some c \<Rightarrow> succeeded c \<and> 7 / 10 \<le> dc_top_confidence c)
      in if confident
         then detection_result lg s bucket [the heuristic] (the heuristic) None False HeuristicConfident
         else aggregate lg ((case heuristic of None \<Rightarrow> [] | Some c \<Rightarrow> [c]) @
                (case call_backend lg (Some (or_primary orc)) ''langdetect'' s of None \<Rightarrow> [] | Some c \<Rightarrow> [c]))
              bucket s)"

definition detect_long_text :: "orchestrator \<Rightarrow> string \<Rightarrow> string \<Rightarrow> orchestrated_detection" where
  "detect_long_text orc s bucket =
     (let lg = or_registry orc;
          primary = the (call_backend lg (Some (or_primary orc)) ''langdetect'' s)
      in if succeeded primary \<and> or_fallback_threshold orc \<le> dc_top_confidence primary
         then detection_result lg s bucket [primary] primary None False PrimaryConfident
         else aggregate lg (primary #
                (if bucket = ''long'' then []
                 else case call_backend lg (or_fallback orc) ''domain_heuristic'' s of None \<Rightarrow> [] | Some c \<Rightarrow> [c]))
              bucket s)"

definition detect :: "orchestrator \<Rightarrow> string \<Rightarrow> orchestrated_detection" where
  "detect orc s =
     (let stripped = py_strip s;
          bucket = classify_text_length (length (py_split stripped))
      in if stripped = [] then make_default_result bucket EmptyInput []
         else if bucket = ''micro'' \<or> bucket = ''short'' then detect_short_text orc stripped bucket
         else detect_long_text orc stripped bucket)"

section \<open>The decision is the answer of a backend\<close>

definition detector_ok :: "detector \<Rightarrow> bool" where
  "detector_ok b \<longleftrightarrow> (\<forall>s raw. b s = Inr raw \<longrightarrow> list_all (\<lambda>x. 0 \<le> snd x) raw)"

text \<open>The decision \<open>d\<close> follows the candidate \<open>c\<close>.\<close>

definition follows :: "orchestrated_detection \<Rightarrow> detection_candidate \<Rightarrow> bool" where
  "follows d c \<longleftrightarrow> succeeded c \<and> dc_top_lang c = od_code d \<and> 0 \<le> od_confidence d \<and>
     od_confidence d \<le> dc_top_confidence c \<and> (od_min_chars_met d \<longrightarrow> od_confidence d = dc_top_confidence c)"

lemma list_all_update: "list_all P xs \<Longrightarrow> P (k, v) \<Longrightarrow> list_all P (AList.update k v xs)"
  by (induction xs) auto

lemma normalize_nonneg:
  assumes "list_all (\<lambda>x. 0 \<le> snd x) raw"
  shows "list_all (\<lambda>x. 0 \<le> snd x) (normalize_distribution lg raw)"
proof -
  have "list_all (\<lambda>x. 0 \<le> snd x) raw \<Longrightarrow> list_all (\<lambda>x. 0 \<le> snd x) d \<Longrightarrow>
      list_all (\<lambda>x. 0 \<le> snd x) (foldl (\<lambda>d (code, prob).
       let canon = resolve_backend_code lg code
       in AList.update canon ((case map_of d canon of None \<Rightarrow> 0 | Some p \<Rightarrow> p) + prob) d) d raw)"
    for d :: "(string \<times> rat) list"
  proof (induction raw arbitrary: d)
    case (Cons x raw)
    obtain code prob where x: "x = (code, prob)" by (cases x)
    have "0 \<le> (case map_of d k of None \<Rightarrow> 0 | Some p \<Rightarrow> p)" for k
      using Cons.prems(2) by (fastforce simp: list_all_iff split: option.split dest: map_of_SomeD)
    then show ?case using Cons x by (simp add: Let_def list_all_update)
  qed simp
  from this [OF assms, of "[]"] show ?thesis by (simp add: normalize_distribution_def)
qed

lemma first_max_nonneg: "list_all (\<lambda>x. 0 \<le> snd x) xs \<Longrightarrow> 0 \<le> snd (first_max xs)"
  by (induction xs rule: first_max.induct) (auto simp: Let_def)

lemma call_backend_nonneg:
  "call_backend lg (Some b) name s = Some c \<Longrightarrow> detector_ok b \<Longrightarrow> 0 \<le> dc_top_confidence c"
  using first_max_nonneg [OF normalize_nonneg]
  by (auto simp: call_backend_def detector_ok_def Let_def failed_candidate_def split: sum.splits list.splits)
    (metis list_all_iff list.set_intros snd_conv)

lemma reliability_bounds: "0 \<le> compute_reliability lg c code b d m \<and> compute_reliability lg c code b d m \<le> 1"
  by (simp add: compute_reliability_def Let_def)

lemma guard_bounds:
  assumes "0 \<le> raw"
  shows "0 \<le> fst (apply_min_chars_guard lg s code raw)" "fst (apply_min_chars_guard lg s code raw) \<le> raw"
    "snd (apply_min_chars_guard lg s code raw) \<Longrightarrow> fst (apply_min_chars_guard lg s code raw) = raw"
  using assms by (auto simp: apply_min_chars_guard_def Let_def split: option.splits)

lemma build_result_follows:
  assumes "succeeded w" "0 \<le> dc_top_confidence w" "oc = None \<or> oc = Some (dc_top_confidence w)"
  shows "follows (detection_result lg s bucket cs w oc dissent reason) w"
    "od_candidates (detection_result lg s bucket cs w oc dissent reason) = cs"
  using assms guard_bounds [OF assms(2)]
  by (auto simp: detection_result_def follows_def Let_def split_beta)

definition sound_detection :: "orchestrated_detection \<Rightarrow> bool" where
  "sound_detection d \<longleftrightarrow> 0 \<le> od_reliability d \<and> od_reliability d \<le> 1 \<and>
     (if list_ex succeeded (od_candidates d) then list_ex (follows d) (od_candidates d)
      else od_code d = ''de'' \<and> od_confidence d = 0 \<and> od_reliability d = 0)"

lemma sound_build_result:
  assumes "w \<in> set cs" "succeeded w" "0 \<le> dc_top_confidence w" "oc = None \<or> oc = Some (dc_top_confidence w)"
  shows "sound_detection (detection_result lg s bucket cs w oc dissent reason)"
proof -
  obtain d where d: "d = detection_result lg s bucket cs w oc dissent reason" by simp
  have "0 \<le> od_reliability d \<and> od_reliability d \<le> 1"
    by (simp add: d detection_result_def Let_def split_beta reliability_bounds)
  moreover have "follows d w" "od_candidates d = cs" using build_result_follows [OF assms(2-4)] by (simp_all add: d)
  ultimately have "sound_detection d" using assms(1, 2) by (auto simp: sound_detection_def list_ex_iff)
  then show ?thesis by (simp add: d)
qed

lemma sound_default: "list_all (\<lambda>c. \<not> succeeded c) cs \<Longrightarrow> sound_detection (make_default_result bucket reason cs)"
  by (auto simp: sound_detection_def make_default_result_def list_all_iff list_ex_iff)

lemma sound_aggregate:
  assumes "list_all (\<lambda>c. 0 \<le> dc_top_confidence c) cs"
  shows "sound_detection (aggregate lg cs bucket s)"
proof -
  consider (1) "filter succeeded cs = []" | (2) w where "filter succeeded cs = [w]"
    | (3) f g rest where "filter succeeded cs = f # g # rest"
    by (cases "filter succeeded cs"; cases "tl (filter succeeded cs)") auto
  then show ?thesis
  proof cases
  case 1
  then show ?thesis
    by (simp add: aggregate_def filter_empty_conv sound_default list_all_iff)
next
  case (2 w)
  then have "w \<in> set (filter succeeded cs)" by simp
  then have "w \<in> set cs" "succeeded w" by simp_all
  then show ?thesis using assms by (simp add: aggregate_def 2 sound_build_result list_all_iff)
next
  case (3 f g rest)
  then have "f \<in> set (filter succeeded cs)" "g \<in> set (filter succeeded cs)" by simp_all
  then have m: "f \<in> set cs" "succeeded f" "g \<in> set cs" "succeeded g" by simp_all
  obtain w where w: "w = (if dc_top_confidence g \<le> dc_top_confidence f then f else g)" by simp
  then have "w \<in> set cs" "succeeded w" "max (dc_top_confidence f) (dc_top_confidence g) = dc_top_confidence w"
    using m by auto
  then show ?thesis
    using assms by (simp add: aggregate_def 3 Let_def flip: w) (simp add: sound_build_result list_all_iff)
qed
qed

definition detectors :: "orchestrator \<Rightarrow> detector list" where
  "detectors orc = or_primary orc # (case or_fallback orc of None \<Rightarrow> [] | Some b \<Rightarrow> [b])"

lemma call_backend_None: "call_backend lg None name s = None"
  by (simp add: call_backend_def)

lemma candidates_nonneg:
  assumes "list_all detector_ok (detectors orc)"
  shows "call_backend lg (or_fallback orc) name s = Some c \<Longrightarrow> 0 \<le> dc_top_confidence c"
    and "\<exists>p. call_backend lg (Some (or_primary orc)) name s = Some p \<and> 0 \<le> dc_top_confidence p"
proof -
  assume "call_backend lg (or_fallback orc) name s = Some c"
  then show "0 \<le> dc_top_confidence c"
    using assms call_backend_nonneg by (cases "or_fallback orc") (auto simp: call_backend_None detectors_def)
next
  obtain p where "call_backend lg (Some (or_primary orc)) name s = Some p" by (auto simp: call_backend_def)
  then show "\<exists>p. call_backend lg (Some (or_primary orc)) name s = Some p \<and> 0 \<le> dc_top_confidence p"
    using call_backend_nonneg assms by (auto simp: detectors_def)
qed

lemma sound_strategies:
  assumes "list_all detector_ok (detectors orc)"
  shows "sound_detection (detect_short_text orc s bucket)" "sound_detection (detect_long_text orc s bucket)"
proof -
  obtain h where h: "call_backend (or_registry orc) (or_fallback orc) ''domain_heuristic'' s = h" by simp
  obtain p where p: "call_backend (or_registry orc) (Some (or_primary orc)) ''langdetect'' s = Some p"
      "0 \<le> dc_top_confidence p" using candidates_nonneg(2) [OF assms] by blast
  show "sound_detection (detect_short_text orc s bucket)" "sound_detection (detect_long_text orc s bucket)"
    using candidates_nonneg(1) [OF assms, of "or_registry orc" "''domain_heuristic''" s] p(2)
    by (cases h; auto simp: detect_short_text_def detect_long_text_def Let_def h p(1)
        intro!: sound_aggregate sound_build_result)+
qed

text \<open>The language that is decided is the one that a consulted backend named first: never with more
  confidence than that backend, and with exactly its confidence when the text is long enough for the
  language. German with confidence 0 is decided only when no backend answered, and the reliability always lies
  between 0 and 1, whatever the backends return or raise.\<close>

theorem detection_follows_a_backend:
  assumes "list_all detector_ok (detectors orc)"
  shows "sound_detection (detect orc s)"
  using sound_strategies [OF assms] by (simp add: detect_def Let_def sound_default)

text \<open>A heuristic that knows one greeting, and an n-gram detector that takes every text for Slovak.\<close>

definition sample_heuristic :: detector where
  "sample_heuristic s = Inr [if s = ''hallo'' then (''de'', 1) else (''en'', 0)]"

definition sample_orchestrator :: orchestrator where
  "sample_orchestrator = \<lparr>or_primary = (\<lambda>s. if s = ''12345'' then Inl ''no features'' else Inr [(''sk'', 9 / 10)]),
     or_fallback = Some sample_heuristic, or_registry = default_registry, or_fallback_threshold = 3 / 5\<rparr>"

theorem detection_follows_a_backend_witness:
  "sound_detection (detect sample_orchestrator ''hallo'') \<and> od_code (detect sample_orchestrator ''hallo'') = ''de'' \<and>
   od_confidence (detect sample_orchestrator ''hallo'') = 1 / 2 \<and> \<not> od_min_chars_met (detect sample_orchestrator ''hallo'')"
proof -
  have "list_all detector_ok (detectors sample_orchestrator)"
    by (auto simp: detectors_def sample_orchestrator_def detector_ok_def sample_heuristic_def)
  from detection_follows_a_backend [OF this] have "sound_detection (detect sample_orchestrator ''hallo'')" .
  moreover have "od_code (detect sample_orchestrator ''hallo'') = ''de''"
      "od_confidence (detect sample_orchestrator ''hallo'') = 1 / 2"
      "\<not> od_min_chars_met (detect sample_orchestrator ''hallo'')"
    by code_simp+
  ultimately show ?thesis by simp
qed

text \<open>On a conflict the higher confidence wins, and on a tie the heuristic, not the n-gram detector.\<close>

lemma tie_goes_to_the_first:
  assumes "succeeded a" "succeeded b" "dc_top_lang a \<noteq> dc_top_lang b" "dc_top_confidence a = dc_top_confidence b"
  shows "od_code (aggregate lg [a, b] bucket s) = dc_top_lang a"
  using assms by (simp add: aggregate_def detection_result_def Let_def split_beta)

end
