(* ===== verification/PyReplace.thy ===== *)
theory PyReplace
  imports PyRegex
begin

text \<open>
  Replacement in strings: \<open>str.replace\<close> and \<open>Pattern.sub\<close>, and what the matches of the pattern
  combinators are, as sets of splits of the text.
\<close>

section \<open>Replacing\<close>

text \<open>\<open>str.replace\<close> with a non-empty text, and \<open>Pattern.sub\<close> for a pattern that matches no empty text.\<close>

function py_replace :: "string \<Rightarrow> string \<Rightarrow> string \<Rightarrow> string" where
  "py_replace old new s =
     (case s of [] \<Rightarrow> []
      | c # cs \<Rightarrow> if old \<noteq> [] \<and> py_startswith s old then new @ py_replace old new (drop (length old) s)
                  else c # py_replace old new cs)"
  by pat_completeness auto
termination by (relation "measure (\<lambda>(old, new, s). length s)") auto

declare py_replace.simps [simp del]

function regex_sub_from :: "regex \<Rightarrow> (char captures \<Rightarrow> string) \<Rightarrow> char option \<Rightarrow> string \<Rightarrow> string" where
  "regex_sub_from r repl p s =
     (case s of [] \<Rightarrow> []
      | c # cs \<Rightarrow>
          (case matches r p s of
             (g, t) # _ \<Rightarrow> if length t < length s then repl g @ regex_sub_from r repl (before p s t) t
                           else c # regex_sub_from r repl (Some c) cs
           | [] \<Rightarrow> c # regex_sub_from r repl (Some c) cs))"
  by pat_completeness auto
termination by (relation "measure (\<lambda>(r, repl, p, s). length s)") auto

declare regex_sub_from.simps [simp del]

definition regex_sub :: "regex \<Rightarrow> (char captures \<Rightarrow> string) \<Rightarrow> string \<Rightarrow> string" where
  "regex_sub r repl s = regex_sub_from r repl None s"

text \<open>A letter of a literal under \<open>re.IGNORECASE\<close>, as a class that is not unfolded before it is applied.\<close>

definition same_letter :: "char \<Rightarrow> char \<Rightarrow> bool" where
  "same_letter c x = (char_lower x = char_lower c)"

lemma ichar_code [code]: "ichar c = Cls (same_letter c)"
  by (simp add: ichar_def same_letter_def [abs_def])

section \<open>Matches as splits of the text\<close>

lemma seq_match_iff:
  "(g, t) \<in> set (matches (Seq a b) p s) \<longleftrightarrow>
   (\<exists>ga sa gb. (ga, sa) \<in> set (matches a p s) \<and> (gb, t) \<in> set (matches b (before p s sa) sa) \<and> g = ga @ gb)"
  by (auto simp: image_iff) (metis case_prod_conv)+

lemma cls_match_iff: "(g, t) \<in> set (matches (Cls f) p s) \<longleftrightarrow> g = [] \<and> (\<exists>c. f c \<and> s = c # t)"
  by (auto split: list.splits)

lemma set_rep_counts: "set (rep_counts greedy lo hi) = {lo..hi}"
  by (auto simp: rep_counts_def)

lemma rep_match_iff:
  "(g, t) \<in> set (matches (Rep greedy lo f) p s) \<longleftrightarrow> g = [] \<and> (\<exists>w. s = w @ t \<and> list_all f w \<and> lo \<le> length w)"
proof
  assume "(g, t) \<in> set (matches (Rep greedy lo f) p s)"
  then obtain k where k: "g = []" "t = drop k s" "lo \<le> k" "k \<le> length (takeWhile f s)"
    by (auto simp: set_rep_counts)
  have "take k s = take k (takeWhile f s)"
    using k(4) by (metis takeWhile_eq_take min.absorb1 take_take)
  then have "list_all f (take k s)" by (auto simp: list_all_iff dest: in_set_takeD set_takeWhileD)
  moreover have "length (take k s) = k" using k(4) length_takeWhile_le [of f s] by simp
  ultimately show "g = [] \<and> (\<exists>w. s = w @ t \<and> list_all f w \<and> lo \<le> length w)"
    using k by (metis append_take_drop_id)
next
  assume "g = [] \<and> (\<exists>w. s = w @ t \<and> list_all f w \<and> lo \<le> length w)"
  then obtain w where w: "g = []" "s = w @ t" "list_all f w" "lo \<le> length w" by blast
  have "length w \<le> length (takeWhile f s)" using w(2, 3) by (simp add: takeWhile_append2 list_all_iff)
  then show "(g, t) \<in> set (matches (Rep greedy lo f) p s)"
    using w by (auto simp: set_rep_counts image_iff intro!: bexI [of _ "length w"])
qed

lemma alt_all_match_iff:
  "(g, t) \<in> set (matches (alt_all rs) p s) \<longleftrightarrow> (\<exists>r \<in> set rs. (g, t) \<in> set (matches r p s))"
  by (induction rs rule: alt_all.induct) (auto split: list.split)

lemma ichars_match_iff:
  "(g, t) \<in> set (matches (seq_all (map ichar w)) p s) \<longleftrightarrow> g = [] \<and> (\<exists>u. s = u @ t \<and> py_lower u = py_lower w)"
proof (induction w arbitrary: p s g)
  case (Cons c w)
  show ?case
  proof
    assume "(g, t) \<in> set (matches (seq_all (map ichar (c # w))) p s)"
    then obtain x u where "g = []" "s = x # u @ t" "char_lower x = char_lower c" "py_lower u = py_lower w"
      by (auto simp only: list.map seq_all.simps seq_match_iff Cons.IH ichar_def cls_match_iff append_Nil)
    then have "g = []" "s = (x # u) @ t" "py_lower (x # u) = py_lower (c # w)"
      by (simp_all add: py_lower_def)
    then show "g = [] \<and> (\<exists>u. s = u @ t \<and> py_lower u = py_lower (c # w))" by blast
  next
    assume "g = [] \<and> (\<exists>u. s = u @ t \<and> py_lower u = py_lower (c # w))"
    then obtain x u where "g = []" "s = x # u @ t" "char_lower x = char_lower c" "py_lower u = py_lower w"
      by (auto simp: py_lower_def Cons_eq_map_conv)
    then show "(g, t) \<in> set (matches (seq_all (map ichar (c # w))) p s)"
      by (auto simp only: list.map seq_all.simps seq_match_iff Cons.IH ichar_def cls_match_iff append_Nil)
  qed
qed (auto simp: py_lower_def)

lemma iwords_match_iff:
  "(g, t) \<in> set (matches (iwords ws) p s) \<longleftrightarrow>
   g = [] \<and> (\<exists>u. s = u @ t \<and> py_lower u \<in> py_lower ` set ws)"
  unfolding iwords_def iword_def by (auto simp: alt_all_match_iff ichars_match_iff)

lemma consumed_append [simp]: "consumed (u @ t) t = u"
  by (simp add: consumed_def)

lemma group_match_iff:
  "(g, t) \<in> set (matches (Group n r) p s) \<longleftrightarrow> (\<exists>h. (h, t) \<in> set (matches r p s) \<and> g = (n, consumed s t) # h)"
  by auto

section \<open>Where a pattern is found\<close>

text \<open>Some position of the text has a match; the first one with the character \<open>p\<close> before the text.\<close>

fun has_match :: "regex \<Rightarrow> char option \<Rightarrow> string \<Rightarrow> bool" where
  "has_match r p [] = (matches r p [] \<noteq> [])"
| "has_match r p (c # cs) = (matches r p (c # cs) \<noteq> [] \<or> has_match r (Some c) cs)"

lemma has_match_search: "search_from r p s \<noteq> None \<longleftrightarrow> has_match r p s"
proof (induction s arbitrary: p)
  case Nil
  show ?case by (simp add: search_from.simps [of r p "[]"] split: list.split)
next
  case (Cons c cs)
  then show ?case by (simp add: search_from.simps [of r p "c # cs"] split: list.split)
qed

lemma found_iff: "found r s \<longleftrightarrow> has_match r None s"
  using has_match_search [of r None s] by (simp add: found_def regex_search_def)

lemma split_Cons_iff:
  "(\<exists>a b. c # cs = a @ b \<and> P a b) \<longleftrightarrow> P [] (c # cs) \<or> (\<exists>a b. cs = a @ b \<and> P (c # a) b)"
  by (auto simp: Cons_eq_append_conv)

text \<open>Matches in a text of two parts: those that start in the first part, and those of the second.\<close>

lemma has_match_append:
  assumes "x \<noteq> []"
  shows "has_match r p (x @ y) \<longleftrightarrow>
    (\<exists>a b. x = a @ b \<and> b \<noteq> [] \<and> matches r (if a = [] then p else Some (last a)) (b @ y) \<noteq> []) \<or>
    has_match r (Some (last x)) y"
  using assms
proof (induction x arbitrary: p)
  case (Cons c cs)
  show ?case
  proof (cases "cs = []")
    case True
    then show ?thesis by (simp add: split_Cons_iff)
  next
    case False
    have "(\<exists>a b. cs = a @ b \<and> b \<noteq> [] \<and> matches r (Some (last (c # a))) (b @ y) \<noteq> []) \<longleftrightarrow>
        (\<exists>a b. cs = a @ b \<and> b \<noteq> [] \<and> matches r (if a = [] then Some c else Some (last a)) (b @ y) \<noteq> [])"
      by (simp add: if_distrib)
    then show ?thesis
      using Cons.IH [of "Some c"] False by (simp add: split_Cons_iff)
  qed
qed simp

end
