(* ===== verification/Conversation.thy ===== *)
theory Conversation
  imports PromptEscaping StoreTables "HOL-Library.AList"
begin

text \<open>
  The running conversation of a user in a chat: \<open>domain/conversation.py\<close>,
  \<open>infrastructure/conversation_storage.py\<close> and the table behind its languages (\<open>SqliteLanguageStorage\<close>). The
  properties: the history is the last turns since the last reset, whatever other chats do in between, and the
  languages survive a restart.
\<close>

section \<open>Turns and the context block\<close>

record conversation_turn =
  ct_role :: string
  ct_content :: string
  ct_timestamp :: string

definition max_history_turns :: nat where "max_history_turns = 20"

fun join_lines :: "string list \<Rightarrow> string" where
  "join_lines [] = []"
| "join_lines [l] = l"
| "join_lines (l # ls) = l @ newline # join_lines ls"

definition build_context_block :: "conversation_turn list \<Rightarrow> string \<Rightarrow> string" where
  "build_context_block history current_message =
     (if history = [] then escape_user_content_for_prompt current_message
      else join_lines (''[CONVERSATION HISTORY]'' #
        map (\<lambda>t. (if ct_role t = ''user'' then ''User'' else ''Axolent'') @ '': '' @
               escape_user_content_for_prompt (ct_content t)) history @
        [[], ''[CURRENT MESSAGE]'', escape_user_content_for_prompt current_message]))"

section \<open>The language table\<close>

record language_row =
  lr_user_id :: int
  lr_chat_id :: int
  lr_lang :: string
  lr_set_at :: string

definition lang_key :: "language_row \<Rightarrow> int \<times> int" where
  "lang_key r = (lr_user_id r, lr_chat_id r)"

definition sql_get_language :: "language_row list \<Rightarrow> int \<Rightarrow> int \<Rightarrow> string option" where
  "sql_get_language tb u c = map_option lr_lang (row_with lang_key (u, c) tb)"

definition sql_set_language :: "language_row list \<Rightarrow> int \<Rightarrow> int \<Rightarrow> string \<Rightarrow> string \<Rightarrow> language_row list" where
  "sql_set_language tb u c lang ts =
     replace_row lang_key \<lparr>lr_user_id = u, lr_chat_id = c, lr_lang = lang, lr_set_at = ts\<rparr> tb"

definition sql_clear_language :: "language_row list \<Rightarrow> int \<Rightarrow> int \<Rightarrow> language_row list" where
  "sql_clear_language tb u c = filter (\<lambda>r. lang_key r \<noteq> (u, c)) tb"

definition sql_load_all_languages :: "language_row list \<Rightarrow> ((int \<times> int) \<times> string) list" where
  "sql_load_all_languages tb = foldl (\<lambda>d r. AList.update (lang_key r) (lr_lang r) d) [] tb"

section \<open>The store in memory\<close>

text \<open>\<open>cs_table\<close> is the backing table, when \<open>init_language_storage\<close> has been called.\<close>

record conversation_store =
  cs_histories :: "((int \<times> int) \<times> conversation_turn list) list"
  cs_languages :: "((int \<times> int) \<times> string) list"
  cs_table :: "language_row list option"

definition empty_conversations :: conversation_store where
  "empty_conversations = \<lparr>cs_histories = [], cs_languages = [], cs_table = None\<rparr>"

definition init_language_storage :: "conversation_store \<Rightarrow> language_row list \<Rightarrow> conversation_store" where
  "init_language_storage cs tb =
     cs\<lparr>cs_table := Some tb,
        cs_languages := foldl (\<lambda>d (k, lang). AList.update k lang d) (cs_languages cs) (sql_load_all_languages tb)\<rparr>"

definition stored_history :: "conversation_store \<Rightarrow> int \<times> int \<Rightarrow> conversation_turn list" where
  "stored_history cs k = (case map_of (cs_histories cs) k of None \<Rightarrow> [] | Some h \<Rightarrow> h)"

definition last_turns :: "nat \<Rightarrow> 'a list \<Rightarrow> 'a list" where
  "last_turns n xs = drop (length xs - n) xs"

definition save_turn :: "conversation_store \<Rightarrow> int \<Rightarrow> int \<Rightarrow> conversation_turn \<Rightarrow> conversation_store" where
  "save_turn cs u c turn =
     (let h = stored_history cs (u, c) @ [turn];
          kept = (if length h > max_history_turns then last_turns max_history_turns h else h)
      in cs\<lparr>cs_histories := AList.update (u, c) kept (cs_histories cs)\<rparr>)"

definition get_history :: "conversation_store \<Rightarrow> int \<Rightarrow> int \<Rightarrow> conversation_turn list" where
  "get_history cs u c = stored_history cs (u, c)"

definition reset_conversation :: "conversation_store \<Rightarrow> int \<Rightarrow> int \<Rightarrow> conversation_store" where
  "reset_conversation cs u c = cs\<lparr>cs_histories := AList.delete (u, c) (cs_histories cs)\<rparr>"

text \<open>\<open>persists\<close>: the table accepts the write; a failure is only logged.\<close>

definition set_language_of ::
    "conversation_store \<Rightarrow> int \<Rightarrow> int \<Rightarrow> string \<Rightarrow> string \<Rightarrow> bool \<Rightarrow> conversation_store" where
  "set_language_of cs u c lang ts persists =
     cs\<lparr>cs_languages := AList.update (u, c) lang (cs_languages cs),
        cs_table := (case cs_table cs of
            None \<Rightarrow> None
          | Some tb \<Rightarrow> Some (if persists then sql_set_language tb u c lang ts else tb))\<rparr>"

definition get_language_of :: "conversation_store \<Rightarrow> int \<Rightarrow> int \<Rightarrow> string option" where
  "get_language_of cs u c = map_of (cs_languages cs) (u, c)"

section \<open>A history is the end of its conversation\<close>

datatype conv_op =
  SaveTurn int int conversation_turn
| ResetConv int int
| SetLang int int string string bool

definition conv_step :: "conversation_store \<Rightarrow> conv_op \<Rightarrow> conversation_store" where
  "conv_step cs op =
     (case op of SaveTurn u c t \<Rightarrow> save_turn cs u c t | ResetConv u c \<Rightarrow> reset_conversation cs u c
      | SetLang u c lang ts p \<Rightarrow> set_language_of cs u c lang ts p)"

definition run_conv :: "conversation_store \<Rightarrow> conv_op list \<Rightarrow> conversation_store" where
  "run_conv cs ops = foldl conv_step cs ops"

text \<open>The whole conversation of a user in a chat since its last reset.\<close>

fun spoken :: "int \<times> int \<Rightarrow> conversation_turn list \<Rightarrow> conv_op list \<Rightarrow> conversation_turn list" where
  "spoken k acc [] = acc"
| "spoken k acc (SaveTurn u c t # ops) = spoken k (if k = (u, c) then acc @ [t] else acc) ops"
| "spoken k acc (ResetConv u c # ops) = spoken k (if k = (u, c) then [] else acc) ops"
| "spoken k acc (SetLang u c l ts p # ops) = spoken k acc ops"

lemma max_turns_pos: "0 < max_history_turns"
  by (simp add: max_history_turns_def)

lemma last_turns_id: "length xs \<le> n \<Longrightarrow> last_turns n xs = xs"
  by (simp add: last_turns_def)

lemma last_turns_snoc: "0 < n \<Longrightarrow> last_turns n (last_turns n xs @ [x]) = last_turns n (xs @ [x])"
  by (cases "length xs < n") (auto simp: last_turns_def Suc_diff_le)

lemma stored_history_save:
  "stored_history (save_turn cs u c t) k =
     (if k = (u, c) then last_turns max_history_turns (stored_history cs (u, c) @ [t]) else stored_history cs k)"
  by (auto simp: save_turn_def Let_def stored_history_def AList.update_conv' last_turns_id split: option.split)

lemma stored_history_reset:
  "stored_history (reset_conversation cs u c) k = (if k = (u, c) then [] else stored_history cs k)"
  by (auto simp: reset_conversation_def stored_history_def AList.delete_conv' split: option.split)

lemma stored_history_lang [simp]: "stored_history (set_language_of cs u c l ts p) k = stored_history cs k"
  by (simp add: set_language_of_def stored_history_def)

lemma run_conv_history:
  "stored_history cs k = last_turns max_history_turns acc \<Longrightarrow>
   stored_history (run_conv cs ops) k = last_turns max_history_turns (spoken k acc ops)"
proof (induction ops arbitrary: cs acc)
  case (Cons op ops)
  have "stored_history (conv_step cs op) k = last_turns max_history_turns (spoken k acc [op])"
    using Cons.prems
    by (cases op)
      (auto simp: conv_step_def stored_history_save stored_history_reset last_turns_snoc last_turns_id [of "[]"]
        max_turns_pos)
  moreover have "spoken k acc (op # ops) = spoken k (spoken k acc [op]) ops" by (cases op) simp_all
  ultimately show ?case using Cons.IH by (simp add: run_conv_def)
qed (simp add: run_conv_def)

text \<open>Whatever turns, resets and languages of all users have been recorded, in any order: the history
  of a user in a chat is exactly the end, of at most twenty turns, of what was said there since the last reset
  of that chat.\<close>

theorem history_is_end_of_conversation:
  "get_history (run_conv empty_conversations ops) u c = last_turns max_history_turns (spoken (u, c) [] ops)"
  unfolding get_history_def
  by (rule run_conv_history) (simp add: stored_history_def empty_conversations_def last_turns_def)

section \<open>Languages survive a restart\<close>

lemma map_of_foldl_update:
  "map_of (foldl (\<lambda>d x. AList.update (f x) (g x) d) d xs) k =
     (case find (\<lambda>x. f x = k) (rev xs) of Some x \<Rightarrow> Some (g x) | None \<Rightarrow> map_of d k)"
  by (induction xs rule: rev_induct) (auto simp: AList.update_conv')

lemma find_rev_distinct:
  assumes "distinct (map f xs)"
  shows "find (\<lambda>x. f x = k) (rev xs) = find (\<lambda>x. f x = k) xs"
proof (cases "find (\<lambda>x. f x = k) xs")
  case None
  then have "find (\<lambda>x. f x = k) (rev xs) = None" by (auto simp: find_None_iff)
  then show ?thesis using None by simp
next
  case (Some x)
  then have x: "x \<in> set xs" "f x = k" using find_Some_in [OF Some] by simp_all
  have "find (\<lambda>x. f x = k) (rev xs) = Some x"
    using x inj_onD [OF distinct_map [THEN iffD1, OF assms, THEN conjunct2]] by (intro find_unique) auto
  then show ?thesis using Some by simp
qed

lemma load_all_languages:
  "distinct (map lang_key tb) \<Longrightarrow> map_of (sql_load_all_languages tb) (u, c) = sql_get_language tb u c"
  by (auto simp: sql_load_all_languages_def map_of_foldl_update find_rev_distinct sql_get_language_def row_with_def
      split: option.split)

lemma load_all_distinct: "distinct (map fst (sql_load_all_languages tb))"
proof -
  have "distinct (map fst d) \<Longrightarrow> distinct (map fst (foldl (\<lambda>d r. AList.update (lang_key r) (lr_lang r) d) d tb))" for d
    by (induction tb arbitrary: d) (simp_all add: AList.distinct_update)
  then show ?thesis by (simp add: sql_load_all_languages_def)
qed

lemma init_languages:
  assumes "distinct (map lang_key tb)"
  shows "get_language_of (init_language_storage empty_conversations tb) u c = sql_get_language tb u c"
proof -
  have f: "find (\<lambda>x. fst x = k) xs = (case map_of xs k of None \<Rightarrow> None | Some v \<Rightarrow> Some (k, v))"
    for xs :: "((int \<times> int) \<times> string) list" and k
    by (induction xs) auto
  show ?thesis
    unfolding get_language_of_def init_language_storage_def empty_conversations_def
    by (simp add: split_beta' map_of_foldl_update find_rev_distinct [OF load_all_distinct])
      (simp add: f load_all_languages [OF assms] split: option.split)
qed

text \<open>Memory and table agree, and the table has one row per user and chat.\<close>

definition languages_agree :: "conversation_store \<Rightarrow> bool" where
  "languages_agree cs \<longleftrightarrow>
     (\<exists>tb. cs_table cs = Some tb \<and> distinct (map lang_key tb) \<and>
        (\<forall>u c. get_language_of cs u c = sql_get_language tb u c))"

fun op_persists :: "conv_op \<Rightarrow> bool" where
  "op_persists (SetLang u c l ts p) = p"
| "op_persists _ = True"

lemma languages_agree_step:
  assumes "languages_agree cs" "op_persists op"
  shows "languages_agree (conv_step cs op)"
proof -
  obtain tb where tb: "cs_table cs = Some tb" "distinct (map lang_key tb)"
      "\<And>u c. get_language_of cs u c = sql_get_language tb u c"
    using assms(1) by (auto simp: languages_agree_def)
  show ?thesis
  proof (cases op)
    case (SetLang u c l ts p)
    have "distinct (map lang_key (sql_set_language tb u c l ts))"
      unfolding sql_set_language_def by (rule distinct_replace_row) (rule tb(2))
    moreover have "sql_get_language (sql_set_language tb u c l ts) u' c' =
        (if (u', c') = (u, c) then Some l else sql_get_language tb u' c')" for u' c'
      by (auto simp: sql_get_language_def sql_set_language_def row_with_replace lang_key_def)
    ultimately show ?thesis
      using tb SetLang assms(2)
      by (auto simp: languages_agree_def conv_step_def set_language_of_def get_language_of_def AList.update_conv')
  qed (use assms in \<open>simp_all add: languages_agree_def conv_step_def save_turn_def reset_conversation_def
      get_language_of_def Let_def\<close>)
qed

lemma languages_agree_run:
  "languages_agree cs \<Longrightarrow> list_all op_persists ops \<Longrightarrow> languages_agree (run_conv cs ops)"
  by (induction ops arbitrary: cs) (simp_all add: run_conv_def languages_agree_step)

text \<open>The language of a user in a chat survives a restart of the bot: after any operations whose
  writes the database took, a fresh store that is initialised from the table answers \<open>get_language\<close> as the
  old store did, for every user and chat.\<close>

theorem languages_survive_restart:
  assumes "distinct (map lang_key tb)" "list_all op_persists ops"
  shows "\<exists>tb'. cs_table (run_conv (init_language_storage empty_conversations tb) ops) = Some tb' \<and>
    get_language_of (init_language_storage empty_conversations tb') u c =
    get_language_of (run_conv (init_language_storage empty_conversations tb) ops) u c"
proof -
  have "languages_agree (init_language_storage empty_conversations tb)"
    using assms(1) init_languages [OF assms(1)]
    by (auto simp: languages_agree_def init_language_storage_def)
  from languages_agree_run [OF this assms(2)] show ?thesis
    using init_languages by (auto simp: languages_agree_def)
qed

theorem languages_survive_restart_witness:
  "get_language_of (init_language_storage empty_conversations
     (the (cs_table (run_conv (init_language_storage empty_conversations [])
        [SetLang 7 7 ''de'' ''t1'' True, SaveTurn 7 7 \<lparr>ct_role = ''user'', ct_content = ''hi'', ct_timestamp = ''t2''\<rparr>,
         SetLang 7 7 ''sv'' ''t3'' True])))) 7 7 = Some ''sv''"
proof -
  have "get_language_of (run_conv (init_language_storage empty_conversations [])
        [SetLang 7 7 ''de'' ''t1'' True, SaveTurn 7 7 \<lparr>ct_role = ''user'', ct_content = ''hi'', ct_timestamp = ''t2''\<rparr>,
         SetLang 7 7 ''sv'' ''t3'' True]) 7 7 = Some ''sv''"
    by code_simp
  then show ?thesis
    using languages_survive_restart [of "[]" "[SetLang 7 7 ''de'' ''t1'' True,
      SaveTurn 7 7 \<lparr>ct_role = ''user'', ct_content = ''hi'', ct_timestamp = ''t2''\<rparr>, SetLang 7 7 ''sv'' ''t3'' True]" 7 7]
    by auto
qed

text \<open>Without the table a reset leaves the language in place.\<close>

lemma reset_keeps_language: "get_language_of (reset_conversation cs u c) u' c' = get_language_of cs u' c'"
  by (simp add: reset_conversation_def get_language_of_def)

end
