(* ===== verification/LanguageResolver.thy ===== *)
theory LanguageResolver
  imports LanguageDetection Conversation
begin

text \<open>
  The language of a request: \<open>application/language/context.py\<close> and \<open>resolver.py\<close>, over the sticky language of
  the conversation store. The properties: the sticky language changes only on a clear, long enough message
  in a supported language; the read-only resolution agrees with the one that stores; and in which
  one case it does not.
\<close>

section \<open>The context\<close>

datatype language_source = SrcOverride | SrcSticky | SrcDetected | SrcDefault

record language_context =
  lx_code :: string
  lx_source :: language_source
  lx_confidence :: rat
  lx_switched_from :: "string option"
  lx_request_id :: string
  lx_distribution :: "(string \<times> rat) list"
  lx_reliability :: rat
  lx_confidence_history :: "(string \<times> rat) list"
  lx_detection_tier :: "string option"
  lx_bucket :: "string option"
  lx_backends :: "string list"

definition plain_context :: "string \<Rightarrow> language_source \<Rightarrow> rat \<Rightarrow> string \<Rightarrow> language_context" where
  "plain_context code source confidence request_id =
     \<lparr>lx_code = code, lx_source = source, lx_confidence = confidence, lx_switched_from = None,
      lx_request_id = request_id, lx_distribution = [], lx_reliability = 0, lx_confidence_history = [],
      lx_detection_tier = None, lx_bucket = None, lx_backends = []\<rparr>"

definition was_smart_switched :: "language_context \<Rightarrow> bool" where
  "was_smart_switched lx = (lx_switched_from lx \<noteq> None)"

definition has_detection_metadata :: "language_context \<Rightarrow> bool" where
  "has_detection_metadata lx = (lx_distribution lx \<noteq> [])"

text \<open>Sorted by probability, the largest first, and then by code.\<close>

definition top_alternative :: "language_context \<Rightarrow> string option" where
  "top_alternative lx =
     (if length (lx_distribution lx) < 2 then None
      else Some (fst (sort_key (\<lambda>x. - snd x) (sort_key fst (lx_distribution lx)) ! 1)))"

definition with_request_id :: "language_context \<Rightarrow> string \<Rightarrow> language_context" where
  "with_request_id lx i = lx\<lparr>lx_request_id := i\<rparr>"

section \<open>The resolver\<close>

record language_resolver =
  lv_default :: string
  lv_orchestrator :: orchestrator

definition get_detection_tier :: "string \<Rightarrow> string option" where
  "get_detection_tier code = map_option (\<lambda>e. tier_value (le_tier e)) (get_or_none default_registry code)"

definition detection_to_context ::
    "orchestrated_detection \<Rightarrow> string \<Rightarrow> language_source \<Rightarrow> string option \<Rightarrow> language_context" where
  "detection_to_context d request_id source switched_from =
     \<lparr>lx_code = od_code d, lx_source = source, lx_confidence = od_confidence d, lx_switched_from = switched_from,
      lx_request_id = request_id, lx_distribution = od_distribution d, lx_reliability = od_reliability d,
      lx_confidence_history = map (\<lambda>c. (dc_backend_name c, dc_top_confidence c)) (od_candidates d),
      lx_detection_tier = (if od_bucket d \<noteq> [] then get_detection_tier (od_code d) else None),
      lx_bucket = Some (od_bucket d), lx_backends = map dc_backend_name (od_candidates d)\<rparr>"

text \<open>\<open>_SMART_SWITCH_THRESHOLD\<close> and the two gates.\<close>

definition switches :: "orchestrated_detection \<Rightarrow> string \<Rightarrow> bool" where
  "switches d sticky =
     (7 / 10 < od_confidence d \<and> od_code d \<noteq> sticky \<and> od_min_chars_met d \<and>
      is_supported default_registry (od_code d))"

definition resolve_language ::
    "language_resolver \<Rightarrow> conversation_store \<Rightarrow> int \<Rightarrow> int \<Rightarrow> string \<Rightarrow> string option \<Rightarrow> string \<Rightarrow> string \<Rightarrow> bool
       \<Rightarrow> conversation_store \<times> language_context" where
  "resolve_language lv cs u c txt override request_id ts persists =
     (case override of
        Some (o1 # os) \<Rightarrow> (cs, plain_context (o1 # os) SrcOverride 1 request_id)
      | _ \<Rightarrow>
          (let d = detect (lv_orchestrator lv) txt
           in case get_language_of cs u c of
                Some (s1 # ss) \<Rightarrow>
                  if switches d (s1 # ss)
                  then (set_language_of cs u c (od_code d) ts persists,
                        detection_to_context d request_id SrcDetected (Some (s1 # ss)))
                  else (cs, plain_context (s1 # ss) SrcSticky 1 request_id)
              | _ \<Rightarrow>
                  (let (code, source) = (if 0 < od_confidence d then (od_code d, SrcDetected)
                                         else (lv_default lv, SrcDefault))
                   in (set_language_of cs u c code ts persists, detection_to_context d request_id source None))))"

definition resolve_readonly ::
    "language_resolver \<Rightarrow> conversation_store \<Rightarrow> int \<Rightarrow> int \<Rightarrow> string \<Rightarrow> string option \<Rightarrow> string \<Rightarrow> language_context" where
  "resolve_readonly lv cs u c txt override request_id =
     (case override of
        Some (o1 # os) \<Rightarrow> plain_context (o1 # os) SrcOverride 1 request_id
      | _ \<Rightarrow>
          (let d = detect (lv_orchestrator lv) txt
           in case get_language_of cs u c of
                Some (s1 # ss) \<Rightarrow>
                  if switches d (s1 # ss) then detection_to_context d request_id SrcDetected (Some (s1 # ss))
                  else plain_context (s1 # ss) SrcSticky 1 request_id
              | _ \<Rightarrow>
                  if 0 < od_confidence d then detection_to_context d request_id SrcDetected None
                  else plain_context (lv_default lv) SrcDefault (od_confidence d) request_id))"

definition context_from_code :: "string \<Rightarrow> language_source \<Rightarrow> string \<Rightarrow> language_context" where
  "context_from_code code source request_id = plain_context code source 1 request_id"

section \<open>The sticky language\<close>

text \<open>A message of a chat without a sticky language that no detector is sure of.\<close>

definition unsure_first_message :: "language_resolver \<Rightarrow> conversation_store \<Rightarrow> int \<Rightarrow> int \<Rightarrow> string \<Rightarrow> bool" where
  "unsure_first_message lv cs u c txt \<longleftrightarrow>
     (get_language_of cs u c = None \<or> get_language_of cs u c = Some []) \<and>
     \<not> 0 < od_confidence (detect (lv_orchestrator lv) txt)"

lemma get_language_set:
  "get_language_of (set_language_of cs u c l ts p) u' c' =
     (if u' = u \<and> c' = c then Some l else get_language_of cs u' c')"
  by (auto simp: get_language_of_def set_language_of_def AList.update_conv')

lemma context_code_simps [simp]:
  "lx_code (detection_to_context d i s f) = od_code d" "lx_code (plain_context code s c i) = code"
  "lx_source (detection_to_context d i s f) = s" "lx_source (plain_context code s c i) = s"
  "lx_switched_from (detection_to_context d i s f) = f" "lx_switched_from (plain_context code s c i) = None"
  by (simp_all add: detection_to_context_def plain_context_def)

text \<open>C30: One resolution for a chat that already has a language. Without an override it keeps that language
  and answers in it, unless it makes a smart switch: to the detected language, which is supported and
  different, on a message long enough for it, detected with a confidence above 0.7; the context then names
  the old language. With an override it answers in that and stores nothing. The languages of other users
  and chats do not change. (The first message of a chat and an explicit choice of the user set the language
  outside of this operation's switch.)\<close>

theorem sticky_language_switches_only_when_sure:
  assumes "get_language_of cs u c = Some sticky" "sticky \<noteq> []"
    and "resolve_language lv cs u c txt override i ts p = (cs', lx)"
  shows "(if override \<noteq> None \<and> override \<noteq> Some [] then cs' = cs \<and> override = Some (lx_code lx)
     else if get_language_of cs' u c = Some sticky
     then cs' = cs \<and> lx_code lx = sticky \<and> lx_source lx = SrcSticky \<and> lx_switched_from lx = None
     else get_language_of cs' u c = Some (lx_code lx) \<and> lx_switched_from lx = Some sticky \<and>
        lx_code lx = od_code (detect (lv_orchestrator lv) txt) \<and>
        7 / 10 < od_confidence (detect (lv_orchestrator lv) txt) \<and> od_min_chars_met (detect (lv_orchestrator lv) txt) \<and>
        is_supported default_registry (lx_code lx)) \<and>
     (if (u', c') \<noteq> (u, c) then get_language_of cs' u' c' = get_language_of cs u' c' else True)"
proof -
  obtain s1 ss where s: "sticky = s1 # ss" using assms(2) by (cases sticky) auto
  obtain d where d: "d = detect (lv_orchestrator lv) txt" by simp
  show ?thesis
  proof (cases "override = None \<or> override = Some []")
    case True
    then have r: "(cs', lx) = (if switches d sticky
        then (set_language_of cs u c (od_code d) ts p, detection_to_context d i SrcDetected (Some sticky))
        else (cs, plain_context sticky SrcSticky 1 i))"
      using assms(1, 3) s d by (auto simp: resolve_language_def Let_def)
    show ?thesis
      using True r assms(1) d by (cases "switches d sticky") (auto simp: get_language_set switches_def)
  next
    case False
    then obtain o1 os where "override = Some (o1 # os)" by (cases override; cases "the override") auto
    then show ?thesis using assms(3) by (auto simp: resolve_language_def)
  qed
qed

text \<open>Before a request is admitted its language is resolved without storing anything, and that is
  the language it is then answered in, with the same source: the two resolutions agree for every store,
  message and override, except on the first message of a chat when no detector is sure of it.\<close>

theorem readonly_resolution_agrees:
  assumes "\<not> unsure_first_message lv cs u c txt"
  shows "resolve_readonly lv cs u c txt override i = snd (resolve_language lv cs u c txt override i ts p)"
  using assms
  by (auto simp: resolve_readonly_def resolve_language_def unsure_first_message_def Let_def
      split: option.splits list.splits)

text \<open>On such a message the code that is stored is not the code that is returned.\<close>

definition sample_language_resolver :: language_resolver where
  "sample_language_resolver = \<lparr>lv_default = ''de'', lv_orchestrator = sample_orchestrator\<rparr>"

lemma unsure_first_message_is_answered_in_another_language:
  "case resolve_language sample_language_resolver empty_conversations 7 7 ''12345'' None ''r1'' ''t1'' True of
     (cs', lx) \<Rightarrow> get_language_of cs' 7 7 = Some ''de'' \<and> lx_code lx = ''en'' \<and> lx_source lx = SrcDefault"
  "lx_code (resolve_readonly sample_language_resolver empty_conversations 7 7 ''12345'' None ''r1'') = ''de''"
  by code_simp+

text \<open>The gates guard the switch only: the first message makes an unsupported language sticky.\<close>

lemma first_message_sticks_to_unsupported_language:
  "case resolve_language sample_language_resolver empty_conversations 7 7 ''ok'' None ''r1'' ''t1'' True of
     (cs', lx) \<Rightarrow> get_language_of cs' 7 7 = Some ''sk'' \<and> \<not> is_supported default_registry ''sk''"
  by code_simp

section \<open>Witnesses\<close>

definition german_chat :: conversation_store where
  "german_chat = set_language_of empty_conversations 7 7 ''de'' ''t0'' True"

theorem sticky_language_switches_only_when_sure_witness:
  "get_language_of (fst (resolve_language sample_language_resolver german_chat 7 7 ''ok'' None ''r1'' ''t1'' True)) 7 7
     = Some ''de'' \<and>
   lx_source (snd (resolve_language sample_language_resolver german_chat 7 7 ''ok'' None ''r1'' ''t1'' True)) = SrcSticky"
proof -
  have g: "get_language_of german_chat 7 7 = Some ''de''" by code_simp
  have k: "get_language_of (fst (resolve_language sample_language_resolver german_chat 7 7 ''ok'' None ''r1'' ''t1'' True)) 7 7
     = Some ''de''" by code_simp
  obtain cs' lx where r: "resolve_language sample_language_resolver german_chat 7 7 ''ok'' None ''r1'' ''t1'' True = (cs', lx)"
    by fastforce
  from sticky_language_switches_only_when_sure [OF g _ r, of 7 7] k r show ?thesis by simp
qed

theorem readonly_resolution_agrees_witness:
  "resolve_readonly sample_language_resolver german_chat 7 7 ''12345'' None ''r1'' =
   snd (resolve_language sample_language_resolver german_chat 7 7 ''12345'' None ''r1'' ''t1'' True)"
proof -
  have "get_language_of german_chat 7 7 = Some ''de''" by code_simp
  then have "\<not> unsure_first_message sample_language_resolver german_chat 7 7 ''12345''"
    by (simp add: unsure_first_message_def)
  then show ?thesis by (rule readonly_resolution_agrees)
qed

end
