(* ===== verification/TaskRouter.thy ===== *)
theory TaskRouter
  imports ModelSelection PyReplace
begin

text \<open>
  Which task a message is, and which model answers it: \<open>domain/task_slot.py\<close> and
  \<open>application/task_router.py\<close>, from the parsed slot configurations on. The properties: the classification
  picks the candidate of the highest score, the first in priority; and the model a user has set is the model
  the router resolves.
\<close>

section \<open>Slots and their configuration\<close>

datatype task_slot = Chat | Code | Reason | Creative | Quick | Research

definition slot_value :: "task_slot \<Rightarrow> string" where
  "slot_value s = (case s of Chat \<Rightarrow> ''chat'' | Code \<Rightarrow> ''code'' | Reason \<Rightarrow> ''reason''
     | Creative \<Rightarrow> ''creative'' | Quick \<Rightarrow> ''quick'' | Research \<Rightarrow> ''research'')"

definition all_slots :: "task_slot list" where
  "all_slots = [Chat, Code, Reason, Creative, Quick, Research]"

definition slot_from_string :: "string \<Rightarrow> task_slot option" where
  "slot_from_string v = find (\<lambda>s. slot_value s = py_strip (py_lower v)) all_slots"

definition slot_priority :: "task_slot list" where
  "slot_priority = [Code, Reason, Research, Creative, Quick, Chat]"

record slot_config =
  sc_slot :: task_slot
  sc_default_model :: string
  sc_patterns :: "string list"
  sc_keywords :: "string list"
  sc_min_keyword_matches :: int
  sc_min_word_count :: "int option"
  sc_max_word_count :: "int option"
  sc_fallback :: bool

record classification =
  cl_slot :: task_slot
  cl_score :: nat
  cl_patterns :: "string list"
  cl_keywords :: "string list"

definition chat_only :: "slot_config list" where
  "chat_only = [\<lparr>sc_slot = Chat, sc_default_model = ''sonnet'', sc_patterns = [], sc_keywords = [],
     sc_min_keyword_matches = 2, sc_min_word_count = None, sc_max_word_count = None, sc_fallback = True\<rparr>]"

text \<open>The router, with the model service it may have been given.\<close>

record task_router =
  tr_configs :: "slot_config list"
  tr_models :: model_config
  tr_has_service :: bool

text \<open>\<open>self._slots\<close> is a dictionary: of two configurations of a slot the later one counts.\<close>

definition slot_cfg :: "slot_config list \<Rightarrow> task_slot \<Rightarrow> slot_config option" where
  "slot_cfg cfgs s = find (\<lambda>c. sc_slot c = s) (rev cfgs)"

definition fallback_slot :: "slot_config list \<Rightarrow> task_slot" where
  "fallback_slot cfgs = (case find sc_fallback cfgs of Some c \<Rightarrow> sc_slot c | None \<Rightarrow> Chat)"

section \<open>German spelling\<close>

definition umlaut_replacements :: "(string \<times> string) list" where
  "umlaut_replacements = [(''Ae'', [CHR 0xC4]), (''Oe'', [CHR 0xD6]), (''Ue'', [CHR 0xDC]),
     (''ae'', [CHR 0xE4]), (''oe'', [CHR 0xF6]), (''ue'', [CHR 0xFC])]"

text \<open>Each entry: the first letter in either case, what follows it, and what that becomes.\<close>

definition ss_to_eszett_words :: "(char list \<times> string \<times> string) list" where
  "ss_to_eszett_words =
     [(''Ss'', ''trass'', ''tra'' @ [CHR 0xDF]), (''Ss'', ''chliess'', ''chlie'' @ [CHR 0xDF]),
      (''Aa'', ''usserdem'', ''u'' @ [CHR 0xDF] @ ''erdem''),
      (''Aa'', ''usserhalb'', ''u'' @ [CHR 0xDF] @ ''erhalb''),
      (''Gg'', ''emaess'', ''em'' @ [CHR 0xE4, CHR 0xDF]), (''Gg'', ''ross'', ''ro'' @ [CHR 0xDF]),
      (''Ww'', ''eiss'', ''ei'' @ [CHR 0xDF]), (''Hh'', ''eiss'', ''ei'' @ [CHR 0xDF])]"

definition eszett_pattern :: "char list \<Rightarrow> string \<Rightarrow> regex" where
  "eszett_pattern initials stem =
     Seq word_boundary (Seq (Group 1 (Cls (\<lambda>c. List.member initials c)))
       (seq_all (map (\<lambda>c. Cls (\<lambda>x. x = c)) stem)))"

definition normalize_german_input :: "string \<Rightarrow> string" where
  "normalize_german_input s =
     (let s1 = foldl (\<lambda>t (ascii_form, umlaut). py_replace ascii_form umlaut t) s umlaut_replacements
      in foldl (\<lambda>t (initials, stem, repl).
           regex_sub_from (eszett_pattern initials stem) (\<lambda>g. regex_group g 1 @ repl) None t)
         s1 ss_to_eszett_words)"

section \<open>Classification\<close>

text \<open>Stage 1: the first slot, in the order of the enumeration, whose marker starts the text.\<close>

definition has_marker :: "string \<Rightarrow> task_slot \<Rightarrow> bool" where
  "has_marker lower_stripped s =
     (let prefix = CHR ''/'' # slot_value s
      in py_startswith lower_stripped prefix \<and>
         (length lower_stripped = length prefix \<or>
          lower_stripped ! length prefix = CHR '' '' \<or> lower_stripped ! length prefix = CHR 0x0A))"

definition code_block :: string where "code_block = ''```''"

definition pattern_score :: "string \<Rightarrow> nat" where
  "pattern_score p = (if p = code_block then 100 else 3)"

definition matched_patterns :: "slot_config \<Rightarrow> string \<Rightarrow> string list" where
  "matched_patterns cfg s = filter (\<lambda>p. py_contains p s) (sc_patterns cfg)"

definition matched_keywords :: "slot_config \<Rightarrow> string \<Rightarrow> string list" where
  "matched_keywords cfg text_lower = filter (\<lambda>k. py_contains (py_lower k) text_lower) (sc_keywords cfg)"

definition in_word_range :: "slot_config \<Rightarrow> int \<Rightarrow> bool" where
  "in_word_range cfg n =
     ((case sc_min_word_count cfg of Some lo \<Rightarrow> lo \<le> n | None \<Rightarrow> True) \<and>
      (case sc_max_word_count cfg of Some hi \<Rightarrow> n \<le> hi | None \<Rightarrow> True))"

text \<open>One pass of the loop over the slots: what the slot would score, unless it is skipped.\<close>

definition slot_result :: "slot_config list \<Rightarrow> string \<Rightarrow> task_slot \<Rightarrow> classification option" where
  "slot_result cfgs s slot =
     (case slot_cfg cfgs slot of
        None \<Rightarrow> None
      | Some cfg \<Rightarrow>
          if sc_fallback cfg \<or> \<not> in_word_range cfg (int (length (py_split s))) then None
          else (let ps = matched_patterns cfg s; ks = matched_keywords cfg (py_lower s)
                in if int (length ks) < sc_min_keyword_matches cfg \<and> ps = [] then None
                   else Some \<lparr>cl_slot = slot, cl_score = sum_list (map pattern_score ps) + length ks,
                              cl_patterns = ps, cl_keywords = ks\<rparr>))"

definition better_result ::
    "classification option \<Rightarrow> classification option \<Rightarrow> classification option" where
  "better_result best r =
     (case r of None \<Rightarrow> best
      | Some c \<Rightarrow> if (case best of None \<Rightarrow> 0 | Some b \<Rightarrow> cl_score b) < cl_score c then Some c else best)"

definition plain_result :: "task_slot \<Rightarrow> nat \<Rightarrow> classification" where
  "plain_result s n = \<lparr>cl_slot = s, cl_score = n, cl_patterns = [], cl_keywords = []\<rparr>"

definition classify :: "slot_config list \<Rightarrow> string \<Rightarrow> classification" where
  "classify cfgs raw =
     (if \<not> py_nonblank raw then plain_result (fallback_slot cfgs) 0
      else (let s = normalize_german_input raw
            in case find (has_marker (py_lower (py_strip s))) all_slots of
                 Some slot \<Rightarrow> plain_result slot 1000
               | None \<Rightarrow>
                   (case foldl better_result None (map (slot_result cfgs s) slot_priority) of
                      Some c \<Rightarrow> c
                    | None \<Rightarrow> plain_result (fallback_slot cfgs) 0)))"

section \<open>The model of a slot\<close>

text \<open>The last step: the default of the slot, resolved when the registry knows it.\<close>

definition config_default :: "task_router \<Rightarrow> task_slot \<Rightarrow> string option" where
  "config_default tr slot =
     (case slot_cfg (tr_configs tr) slot of
        None \<Rightarrow> None
      | Some cfg \<Rightarrow>
          if sc_default_model cfg = [] then None
          else (case resolve_id (mc_registry (tr_models tr)) (sc_default_model cfg) of
                  Some canonical \<Rightarrow> Some canonical
                | None \<Rightarrow> Some (sc_default_model cfg)))"

definition resolve_model ::
    "task_router \<Rightarrow> slot_models \<Rightarrow> int \<Rightarrow> task_slot \<Rightarrow> slot_models \<times> string option" where
  "resolve_model tr tb user_id slot =
     (let (tb1, slot_override) = (if tr_has_service tr
            then get_user_model (tr_models tr) tb user_id (slot_value slot) else (tb, None))
      in if slot_override \<noteq> None then (tb1, slot_override)
         else (let (tb2, global_override) = (if tr_has_service tr
                      then get_user_model (tr_models tr) tb1 user_id ''global'' else (tb1, None))
               in if global_override \<noteq> None then (tb2, global_override)
                  else (tb2, config_default tr slot)))"

definition get_default_for_slot :: "task_router \<Rightarrow> task_slot \<Rightarrow> string" where
  "get_default_for_slot tr slot =
     (case slot_cfg (tr_configs tr) slot of
        None \<Rightarrow> mc_default_model (tr_models tr)
      | Some cfg \<Rightarrow>
          if sc_default_model cfg = [] then mc_default_model (tr_models tr)
          else (case resolve_id (mc_registry (tr_models tr)) (sc_default_model cfg) of
                  Some canonical \<Rightarrow> canonical | None \<Rightarrow> mc_default_model (tr_models tr)))"

definition slots_of :: "slot_config list \<Rightarrow> (task_slot \<times> slot_config) list" where
  "slots_of cfgs = foldl (\<lambda>d c. AList.update (sc_slot c) c d) [] cfgs"

definition get_slot_defaults :: "slot_config list \<Rightarrow> (task_slot \<times> string) list" where
  "get_slot_defaults cfgs =
     map (\<lambda>(s, c). (s, sc_default_model c)) (filter (\<lambda>(s, c). sc_default_model c \<noteq> []) (slots_of cfgs))"

text \<open>The defaults that \<open>main.py\<close> hands to the model service.\<close>

definition service_slot_defaults :: "model_registry \<Rightarrow> slot_config list \<Rightarrow> (string \<times> string) list" where
  "service_slot_defaults reg cfgs =
     foldl (\<lambda>d c. if sc_default_model c = [] then d
        else (case resolve_id reg (sc_default_model c) of
                None \<Rightarrow> d
              | Some resolved \<Rightarrow> if resolved = [] then d else AList.update (slot_value (sc_slot c)) resolved d))
       [] cfgs"

section \<open>The defaults of the service are the defaults of the router\<close>

lemma slot_value_inj [simp]: "slot_value s = slot_value t \<longleftrightarrow> s = t"
  by (cases s; cases t) (simp_all add: slot_value_def)

lemma slot_value_not_global [simp]: "slot_value s \<noteq> ''global''"
  by (cases s) (simp_all add: slot_value_def)

lemma slot_cfg_snoc: "slot_cfg (cfgs @ [c]) s = (if sc_slot c = s then Some c else slot_cfg cfgs s)"
  by (simp add: slot_cfg_def)

lemma slot_cfg_None: "s \<notin> sc_slot ` set cfgs \<Longrightarrow> slot_cfg cfgs s = None"
  by (auto simp: slot_cfg_def find_None_iff)

definition cfg_default :: "model_registry \<Rightarrow> slot_config \<Rightarrow> string option" where
  "cfg_default reg c =
     (if sc_default_model c = [] then None
      else case resolve_id reg (sc_default_model c) of Some r \<Rightarrow> if r = [] then None else Some r | None \<Rightarrow> None)"

lemma service_slot_defaults_snoc:
  "service_slot_defaults reg (cfgs @ [c]) =
     (case cfg_default reg c of
        None \<Rightarrow> service_slot_defaults reg cfgs
      | Some r \<Rightarrow> AList.update (slot_value (sc_slot c)) r (service_slot_defaults reg cfgs))"
  by (simp add: service_slot_defaults_def cfg_default_def split: option.split)

lemma service_slot_defaults_conv:
  "distinct (map sc_slot cfgs) \<Longrightarrow>
   map_of (service_slot_defaults reg cfgs) (slot_value s) = Option.bind (slot_cfg cfgs s) (cfg_default reg)"
proof (induction cfgs rule: rev_induct)
  case Nil
  show ?case by (simp add: service_slot_defaults_def slot_cfg_def)
next
  case (snoc c cfgs)
  have "slot_cfg cfgs (sc_slot c) = None" using snoc.prems by (intro slot_cfg_None) auto
  with snoc show ?case
    by (auto simp: service_slot_defaults_snoc slot_cfg_snoc AList.update_conv' split: option.split)
qed

lemma resolve_model_value:
  assumes "tr_has_service tr"
  shows "snd (resolve_model tr tb u t) =
    (case snd (get_user_model (tr_models tr) tb u (slot_value t)) of
       Some m \<Rightarrow> Some m
     | None \<Rightarrow>
        (case snd (get_user_model (tr_models tr) tb u ''global'') of
           Some m \<Rightarrow> Some m
         | None \<Rightarrow> config_default tr t))"
proof -
  obtain tb1 o1 where g1: "get_user_model (tr_models tr) tb u (slot_value t) = (tb1, o1)" by fastforce
  obtain tb2 o2 where g2: "get_user_model (tr_models tr) tb1 u ''global'' = (tb2, o2)" by fastforce
  have "stored_model tb1 u ''global'' = stored_model tb u ''global''"
    using get_user_model_stored [of "tr_models tr" tb u "slot_value t" u "''global''"] g1 by (simp add: eq_commute)
  then have "snd (get_user_model (tr_models tr) tb u ''global'') = o2"
    using get_user_model_value [of "tr_models tr" tb1 u "''global''"] g2 by (simp add: get_user_model_value)
  then show ?thesis using assms g1 g2 by (simp add: resolve_model_def split: option.split)
qed

lemma resolve_model_default:
  assumes "cfg_default (mc_registry (tr_models tr)) c = Some m" "slot_cfg (tr_configs tr) t = Some c"
  shows "config_default tr t = Some m"
  using assms by (auto simp: config_default_def cfg_default_def split: option.splits if_splits)

lemma set_user_model_ok:
  assumes "set_user_model mc tb u a s = (tb', r)" "r = ModelSet m \<or> r = ImplicitReset m"
  shows "resolve_id (mc_registry mc) a = Some m" "\<not> foreign_provider (mc_registry mc) a"
    "r = ModelSet m \<Longrightarrow> tb' = store_slot_model tb u m s"
    "r = ImplicitReset m \<Longrightarrow> tb' = fst (delete_slot_model tb u s) \<and> s \<noteq> ''global'' \<and>
       map_of (mc_slot_defaults mc) s = Some m \<and> stored_model tb u ''global'' = None"
  using assms by (auto simp: set_user_model_def split: option.splits if_splits)

text \<open>A choice changes what the router resolves for the slot of this user only.\<close>

lemma other_slots_unchanged:
  assumes "tr_has_service tr" "set_user_model (tr_models tr) tb u a (slot_value t) = (tb', r)" "u' \<noteq> u \<or> t' \<noteq> t"
  shows "snd (resolve_model tr tb' u' t') = snd (resolve_model tr tb u' t')"
proof -
  have "stored_model tb' u' s = stored_model tb u' s" if "u' = u \<longrightarrow> s \<noteq> slot_value t" for s
    using assms(2) that
    by (auto simp: set_user_model_def stored_after_store stored_after_delete split: option.splits if_splits)
  then have "snd (get_user_model (tr_models tr) tb' u' s) = snd (get_user_model (tr_models tr) tb u' s)"
    if "s = slot_value t' \<or> s = ''global''" for s
    using that assms(3) by (auto simp: get_user_model_value slot_value_not_global [symmetric])
  then show ?thesis unfolding resolve_model_value [OF assms(1)] by (simp only: simp_thms)
qed

text \<open>C10: The model a user sets for a task slot is the model the router resolves for that slot: after a
  successful \<open>set_user_model\<close> for the slot, \<open>resolve_model\<close> returns exactly the model the given alias stands
  for, also when the choice was the default of the slot and only an override was removed. What it resolves for
  other slots and other users is unchanged. The configuration is the one of \<open>main.py\<close>: a loaded registry
  in which no id is an alias of another model, one configuration for each slot, and slot defaults
  computed from these. The failover passes
  the model to the first provider of its chain only.\<close>

theorem chosen_model_is_resolved:
  assumes "tr_has_service tr" "mc_registry (tr_models tr) = load_registry entries"
    and "self_resolving (load_registry entries)" "distinct (map sc_slot (tr_configs tr))"
    and "mc_slot_defaults (tr_models tr) = service_slot_defaults (load_registry entries) (tr_configs tr)"
    and "set_user_model (tr_models tr) tb u a (slot_value t) = (tb', r)"
    and "r = ModelSet m \<or> r = ImplicitReset m"
  shows "resolve_id (load_registry entries) a = Some m \<and> snd (resolve_model tr tb' u t) = Some m \<and>
    (u' \<noteq> u \<or> t' \<noteq> t \<longrightarrow> snd (resolve_model tr tb' u' t') = snd (resolve_model tr tb u' t'))"
proof -
  note other = other_slots_unchanged [OF assms(1, 6), of u' t']
  note ok = set_user_model_ok [OF assms(6, 7), unfolded assms(2, 5)]
  have f: "known_id (load_registry entries) m" "\<not> foreign_provider (load_registry entries) m"
    using ok(1, 2) assms(3) load_registry_known foreign_resolved resolve_id_known by auto
  show ?thesis
  proof (cases "r = ModelSet m")
    case True
    then show ?thesis
      using ok f other by (simp add: resolve_model_value assms(1, 2) get_user_model_value stored_after_store)
  next
    case False
    then have i: "r = ImplicitReset m" using assms(7) by simp
    obtain c where c: "slot_cfg (tr_configs tr) t = Some c" "cfg_default (load_registry entries) c = Some m"
      using ok(4) [OF i] service_slot_defaults_conv [OF assms(4)] by (auto simp: bind_eq_Some_conv)
    then show ?thesis
      using other ok(1) ok(4) [OF i] resolve_model_default [of tr c m t]
      by (simp add: resolve_model_value assms(1, 2) get_user_model_value stored_after_delete)
  qed
qed

lemma global_model_answers:
  assumes "tr_has_service tr" "mc_registry (tr_models tr) = load_registry entries"
    and "self_resolving (load_registry entries)"
    and "set_user_model (tr_models tr) tb u a ''global'' = (tb', r)" "r = ModelSet m \<or> r = ImplicitReset m"
    and "stored_model tb u (slot_value t) = None"
  shows "snd (resolve_model tr tb' u t) = Some m"
proof -
  note ok = set_user_model_ok [OF assms(4, 5), unfolded assms(2)]
  have f: "known_id (load_registry entries) m" "\<not> foreign_provider (load_registry entries) m"
    using ok(1, 2) assms(3) load_registry_known foreign_resolved resolve_id_known by auto
  have "r = ModelSet m" using ok(4) assms(5) by auto
  then show ?thesis
    using ok f assms(6) by (simp add: resolve_model_value assms(1, 2) get_user_model_value stored_after_store)
qed

section \<open>Examples of the choice\<close>

definition claude_model :: "string \<Rightarrow> string \<Rightarrow> model_metadata" where
  "claude_model i alias = \<lparr>mm_id = i, mm_display_name = alias, mm_provider = ''anthropic'', mm_aliases = [alias],
     mm_context_window = 200000, mm_pricing_input_per_mtok = PFin 3, mm_pricing_output_per_mtok = PFin 15,
     mm_scores = [], mm_supports_thinking = True, mm_supports_effort = False, mm_is_open_source = False\<rparr>"

definition two_models :: "model_metadata option list" where
  "two_models = [Some (claude_model ''claude-opus-4-7'' ''opus''), None,
     Some (claude_model ''claude-sonnet-4-6'' ''sonnet'')]"

definition code_slot :: slot_config where
  "code_slot = \<lparr>sc_slot = Code, sc_default_model = ''opus'', sc_patterns = [''```''],
     sc_keywords = [''debug'', ''ValueError''], sc_min_keyword_matches = 1, sc_min_word_count = None,
     sc_max_word_count = None, sc_fallback = False\<rparr>"

definition small_router :: task_router where
  "small_router = \<lparr>tr_configs = code_slot # chat_only,
     tr_models = \<lparr>mc_registry = load_registry two_models, mc_default_model = ''claude-sonnet-4-6'',
       mc_slot_defaults = service_slot_defaults (load_registry two_models) (code_slot # chat_only)\<rparr>,
     tr_has_service = True\<rparr>"

lemma small_router_set:
  "set_user_model (tr_models small_router) [] 7 ''Opus '' (slot_value Chat) =
     ([\<lparr>sm_user_id = 7, sm_slot = ''chat'', sm_model_id = ''claude-opus-4-7''\<rparr>], ModelSet ''claude-opus-4-7'')"
  "set_user_model (tr_models small_router) [] 7 ''opus'' (slot_value Code) = ([], ImplicitReset ''claude-opus-4-7'')"
  by code_simp+

lemma small_router_wf:
  "tr_has_service small_router" "mc_registry (tr_models small_router) = load_registry two_models"
  "distinct (map sc_slot (tr_configs small_router))"
  "mc_slot_defaults (tr_models small_router) = service_slot_defaults (load_registry two_models) (tr_configs small_router)"
  by (simp_all add: small_router_def code_slot_def chat_only_def)

lemma small_registry_wf: "self_resolving (load_registry two_models)" by code_simp

theorem chosen_model_is_resolved_witness:
  "snd (resolve_model small_router [\<lparr>sm_user_id = 7, sm_slot = ''chat'', sm_model_id = ''claude-opus-4-7''\<rparr>] 7 Chat)
     = Some ''claude-opus-4-7'' \<and>
   snd (resolve_model small_router [] 7 Code) = Some ''claude-opus-4-7''"
  using chosen_model_is_resolved [OF small_router_wf(1, 2) small_registry_wf small_router_wf(3, 4) small_router_set(1)]
    chosen_model_is_resolved [OF small_router_wf(1, 2) small_registry_wf small_router_wf(3, 4) small_router_set(2)]
  by simp

section \<open>The classification picks the best candidate\<close>

definition slot_score :: "slot_config list \<Rightarrow> string \<Rightarrow> task_slot \<Rightarrow> nat" where
  "slot_score cfgs s t = (case slot_result cfgs s t of None \<Rightarrow> 0 | Some c \<Rightarrow> cl_score c)"

lemma slot_result_slot: "slot_result cfgs s t = Some c \<Longrightarrow> cl_slot c = t"
  by (auto simp: slot_result_def Let_def split: option.splits if_splits)

text \<open>The first of the slots \<open>ts\<close> with the highest score, when that is positive.\<close>

definition is_first_best :: "(task_slot \<Rightarrow> nat) \<Rightarrow> task_slot list \<Rightarrow> task_slot \<Rightarrow> bool" where
  "is_first_best score ts t =
     (t \<in> set ts \<and> 0 < score t \<and> list_all (\<lambda>u. score u \<le> score t) ts \<and>
      list_all (\<lambda>u. score u < score t) (takeWhile (\<lambda>u. u \<noteq> t) ts))"

definition best_score :: "classification option \<Rightarrow> nat" where
  "best_score b = (case b of None \<Rightarrow> 0 | Some c \<Rightarrow> cl_score c)"

lemma better_result_slot:
  "better_result b (slot_result cfgs s t) =
     (if best_score b < slot_score cfgs s t then slot_result cfgs s t else b)"
  by (simp add: better_result_def best_score_def slot_score_def split: option.split)

lemma is_first_best_snoc_old:
  "is_first_best score ts u \<Longrightarrow> score t \<le> score u \<Longrightarrow> is_first_best score (ts @ [t]) u"
  by (simp add: is_first_best_def takeWhile_append1 [of u])

lemma is_first_best_snoc_new:
  assumes "t \<notin> set ts" "list_all (\<lambda>u. score u < score t) ts" "0 < score t"
  shows "is_first_best score (ts @ [t]) t"
proof -
  have "takeWhile (\<lambda>u. u \<noteq> t) (ts @ [t]) = ts" using assms(1) by (subst takeWhile_append2) auto
  then show ?thesis using assms(2, 3) by (auto simp: is_first_best_def list_all_iff intro: less_imp_le)
qed

lemma best_of_slots:
  assumes "distinct ts"
  shows "case foldl better_result None (map (slot_result cfgs s) ts) of
      None \<Rightarrow> list_all (\<lambda>t. slot_score cfgs s t = 0) ts
    | Some c \<Rightarrow> slot_result cfgs s (cl_slot c) = Some c \<and> is_first_best (slot_score cfgs s) ts (cl_slot c)"
  using assms
proof (induction ts rule: rev_induct)
  case (snoc t ts)
  obtain b where b: "foldl better_result None (map (slot_result cfgs s) ts) = b" by simp
  have IH: "case b of None \<Rightarrow> list_all (\<lambda>t. slot_score cfgs s t = 0) ts
      | Some c \<Rightarrow> slot_result cfgs s (cl_slot c) = Some c \<and> is_first_best (slot_score cfgs s) ts (cl_slot c)"
    using snoc b by simp
  have bs: "slot_score cfgs s (cl_slot c) = best_score b" if "b = Some c" for c
    using IH that by (simp add: slot_score_def best_score_def)
  show ?case
  proof (cases "best_score b < slot_score cfgs s t")
    case True
    then obtain c where c: "slot_result cfgs s t = Some c" "cl_slot c = t"
      by (auto simp: slot_score_def slot_result_slot split: option.splits)
    have "list_all (\<lambda>u. slot_score cfgs s u < slot_score cfgs s t) ts"
      using IH True bs by (fastforce simp: is_first_best_def list_all_iff best_score_def split: option.splits)
    moreover have "better_result b (slot_result cfgs s t) = Some c" using True c(1) by (subst better_result_slot) simp
    ultimately show ?thesis
      using True c snoc.prems by (simp add: b is_first_best_snoc_new)
  next
    case False
    then show ?thesis
      using IH bs
      by (auto simp: b better_result_slot best_score_def not_less split: option.splits intro: is_first_best_snoc_old)
  qed
qed simp

lemma slot_priority_simps [simp]: "distinct slot_priority" "set slot_priority = UNIV"
  by (auto simp: slot_priority_def intro: task_slot.exhaust)

text \<open>A message without a marker goes to the slot of the highest score, and on a tie to the first in
  the priority Code, Reason, Research, Creative, Quick, Chat; to the fallback slot exactly when no slot
  scores. A slot that its configuration skips (fallback, word count, too few keywords) scores nothing.\<close>

theorem classify_picks_best_slot:
  assumes "py_nonblank raw"
    and "find (has_marker (py_lower (py_strip (normalize_german_input raw)))) all_slots = None"
  shows "(if list_all (\<lambda>t. slot_score cfgs (normalize_german_input raw) t = 0) slot_priority
      then classify cfgs raw = plain_result (fallback_slot cfgs) 0
      else is_first_best (slot_score cfgs (normalize_german_input raw)) slot_priority (cl_slot (classify cfgs raw)) \<and>
           slot_result cfgs (normalize_german_input raw) (cl_slot (classify cfgs raw)) = Some (classify cfgs raw))"
proof (cases "foldl better_result None (map (slot_result cfgs (normalize_german_input raw)) slot_priority)")
  case None
  then show ?thesis
    using best_of_slots [of slot_priority cfgs "normalize_german_input raw"] assms
    by (simp add: classify_def Let_def)
next
  case (Some c)
  then show ?thesis
    using best_of_slots [of slot_priority cfgs "normalize_german_input raw"] assms
    by (auto simp: classify_def Let_def is_first_best_def list_all_iff)
qed

theorem classify_picks_best_slot_witness:
  "is_first_best (slot_score (tr_configs small_router) (normalize_german_input ''debug it: ```x```'')) slot_priority
     (cl_slot (classify (tr_configs small_router) ''debug it: ```x```'')) \<and>
   cl_score (classify (tr_configs small_router) ''debug it: ```x```'') = 101"
proof -
  have "py_nonblank ''debug it: ```x```''"
      "find (has_marker (py_lower (py_strip (normalize_german_input ''debug it: ```x```'')))) all_slots = None"
      "\<not> list_all (\<lambda>t. slot_score (tr_configs small_router) (normalize_german_input ''debug it: ```x```'') t = 0)
        slot_priority"
      "cl_score (classify (tr_configs small_router) ''debug it: ```x```'') = 101"
    by code_simp+
  then show ?thesis using classify_picks_best_slot [of "''debug it: ```x```''" "tr_configs small_router"] by simp
qed

section \<open>Spellings that never match\<close>

text \<open>The text is rewritten before it is compared, the keywords are not: a keyword that contains one of the
  six digraphs, such as \<open>ValueError\<close>, is not found even in a text that consists of it.\<close>

lemma keyword_with_digraph_never_matches:
  "matched_keywords code_slot (py_lower (normalize_german_input ''ValueError'')) = []"
  by code_simp

lemma gemaess_keeps_its_ss: "normalize_german_input ''gemaess'' = ''gem'' @ [CHR 0xE4] @ ''ss''"
  by code_simp

lemma strasse_normalised: "normalize_german_input ''Die Strasse'' = ''Die Stra'' @ [CHR 0xDF] @ ''e''"
  by code_simp

end
