(* ===== verification/PromptBlocks.thy ===== *)
theory PromptBlocks
  imports TaskRouter Conversation
begin

text \<open>
  The blocks of the system prompt: \<open>domain/personality.py\<close> and \<open>application/self_awareness_service.py\<close>. The
  translation function \<open>t(key, lang)\<close> is a parameter. The property: what the prompt tells the model about the
  occupancy of the task slots is what the router resolves.
\<close>

section \<open>Personality and language lock\<close>

record personality_config =
  pc_system_prompt :: string
  pc_user_constitution :: string

definition separator :: string where
  "separator = [newline, newline] @ ''---'' @ [newline, newline]"

definition build_combined_prompt :: "personality_config \<Rightarrow> string" where
  "build_combined_prompt pc =
     (if pc_system_prompt pc = [] then pc_user_constitution pc
      else if pc_user_constitution pc = [] then pc_system_prompt pc
      else pc_system_prompt pc @ separator @ pc_user_constitution pc)"

definition quoted :: "string \<Rightarrow> string" where "quoted s = [CHR 0x27] @ s @ [CHR 0x27]"

definition lang_instruction :: "string \<Rightarrow> string" where
  "lang_instruction language_hint =
     [newline, newline] @ ''IMPORTANT: Respond only in the language '' @ quoted language_hint @
     ''. This overrides any default language behavior. Do not switch languages mid-response.''"

definition diacritic_hints :: "(string \<times> string) list" where
  "diacritic_hints = [
    (''de'',
      [CHR 0x0A, CHR 0x0A] @ ''When responding in German, ALWAYS use real umlauts and eszett: '' @ [CHR 0xE4] @
      '', '' @ [CHR 0xF6] @ '', '' @ [CHR 0xFC] @ '', '' @ [CHR 0xC4] @ '', '' @ [CHR 0xD6] @ '', '' @
      [CHR 0xDC] @ '', '' @ [CHR 0xDF] @ ''. NEVER use ASCII substitutes (ae, oe, ue, ss). Examples: '' @
      [CHR 0x27] @ ''f'' @ [CHR 0xFC] @ ''r'' @ [CHR 0x27] @ '' not '' @ [CHR 0x27] @ ''fuer'' @ [CHR 0x27] @
      '', '' @ [CHR 0x27, CHR 0xFC] @ ''ber'' @ [CHR 0x27] @ '' not '' @ [CHR 0x27] @ ''ueber'' @ [CHR 0x27] @
      '', '' @ [CHR 0x27] @ ''gr'' @ [CHR 0xF6, CHR 0xDF] @ ''er'' @ [CHR 0x27] @ '' not '' @ [CHR 0x27] @
      ''groesser'' @ [CHR 0x27] @ ''.''),
    (''fr'',
      [CHR 0x0A, CHR 0x0A] @ ''When responding in French, ALWAYS use real accents and cedilla: '' @
      [CHR 0xE9] @ '', '' @ [CHR 0xE8] @ '', '' @ [CHR 0xEA] @ '', '' @ [CHR 0xEB] @ '', '' @ [CHR 0xE0] @
      '', '' @ [CHR 0xE2] @ '', '' @ [CHR 0xE7] @ '', '' @ [CHR 0xF4] @ '', '' @ [CHR 0xFB] @ '', '' @
      [CHR 0xEE] @ '', '' @ [CHR 0xEF] @ '', '' @ [CHR 0xF9] @ ''. NEVER omit them. Examples: '' @
      [CHR 0x27, CHR 0xEA] @ ''tre'' @ [CHR 0x27] @ '' not '' @ [CHR 0x27] @ ''etre'' @ [CHR 0x27] @ '', '' @
      [CHR 0x27] @ ''fran'' @ [CHR 0xE7] @ ''ais'' @ [CHR 0x27] @ '' not '' @ [CHR 0x27] @ ''francais'' @
      [CHR 0x27] @ ''.''),
    (''es'',
      [CHR 0x0A, CHR 0x0A] @ ''When responding in Spanish, ALWAYS use '' @ [CHR 0xF1] @
      '' and accent marks: '' @ [CHR 0xE1] @ '', '' @ [CHR 0xE9] @ '', '' @ [CHR 0xED] @ '', '' @ [CHR 0xF3] @
      '', '' @ [CHR 0xFA] @ '', '' @ [CHR 0xF1] @ ''. NEVER substitute with plain ASCII. Examples: '' @
      [CHR 0x27] @ ''espa'' @ [CHR 0xF1] @ ''ol'' @ [CHR 0x27] @ '' not '' @ [CHR 0x27] @ ''espanol'' @
      [CHR 0x27] @ '', '' @ [CHR 0x27] @ ''tambi'' @ [CHR 0xE9] @ ''n'' @ [CHR 0x27] @ '' not '' @ [CHR 0x27] @
      ''tambien'' @ [CHR 0x27] @ ''.''),
    (''it'',
      [CHR 0x0A, CHR 0x0A] @ ''When responding in Italian, ALWAYS use proper accented vowels: '' @ [CHR 0xE0] @
      '', '' @ [CHR 0xE8] @ '', '' @ [CHR 0xE9] @ '', '' @ [CHR 0xEC] @ '', '' @ [CHR 0xF2] @ '', '' @
      [CHR 0xF9] @ ''. Examples: '' @ [CHR 0x27] @ ''citt'' @ [CHR 0xE0, CHR 0x27] @ '' not '' @ [CHR 0x27] @
      ''citta'' @ [CHR 0x27] @ '', '' @ [CHR 0x27] @ ''perch'' @ [CHR 0xE9, CHR 0x27] @ '' not '' @
      [CHR 0x27] @ ''perche'' @ [CHR 0x27] @ ''.''),
    (''pt'',
      [CHR 0x0A, CHR 0x0A] @ ''When responding in Portuguese, ALWAYS use tildes, cedilla, and accents: '' @
      [CHR 0xE3] @ '', '' @ [CHR 0xF5] @ '', '' @ [CHR 0xE7] @ '', '' @ [CHR 0xE1] @ '', '' @ [CHR 0xE9] @
      '', '' @ [CHR 0xED] @ '', '' @ [CHR 0xF3] @ '', '' @ [CHR 0xFA] @ '', '' @ [CHR 0xE2] @ '', '' @
      [CHR 0xEA] @ '', '' @ [CHR 0xF4] @ ''. Examples: '' @ [CHR 0x27] @ ''n'' @ [CHR 0xE3] @ ''o'' @
      [CHR 0x27] @ '' not '' @ [CHR 0x27] @ ''nao'' @ [CHR 0x27] @ '', '' @ [CHR 0x27] @ ''voc'' @
      [CHR 0xEA, CHR 0x27] @ '' not '' @ [CHR 0x27] @ ''voce'' @ [CHR 0x27] @ ''.'')]"

definition build_diacritic_hint :: "string \<Rightarrow> string" where
  "build_diacritic_hint language = (case map_of diacritic_hints language of None \<Rightarrow> [] | Some h \<Rightarrow> h)"

definition build_effective_prompt :: "string \<Rightarrow> string \<Rightarrow> string" where
  "build_effective_prompt base_prompt language_hint =
     base_prompt @ (if language_hint = [] then [] else lang_instruction language_hint) @
     build_diacritic_hint (if language_hint = [] then ''de'' else language_hint)"

section \<open>Self-awareness\<close>

record slot_info =
  si_slot_name :: string
  si_model_display_name :: string
  si_source :: string

definition slot_name_upper :: "string \<Rightarrow> string" where
  "slot_name_upper s = map (\<lambda>c. char_of (of_char c - 32 :: nat)) s"

definition build_self_awareness_block ::
    "(string \<Rightarrow> string \<Rightarrow> string) \<Rightarrow> string \<Rightarrow> string \<Rightarrow> string \<Rightarrow> string \<Rightarrow> slot_info list option \<Rightarrow> string \<Rightarrow> string" where
  "build_self_awareness_block t model_display_name model_id task_slot provider slot_infos lang =
     (let slots = (case slot_infos of None \<Rightarrow> [] | Some sl \<Rightarrow> sl)
      in join_lines (
        [''About your current configuration:'',
         t ''self_awareness.label_model'' lang @ '': '' @ model_display_name @ '' ('' @ model_id @ '')'',
         ''Slot: '' @ task_slot, ''Provider: '' @ provider] @
        (if slots \<noteq> []
         then [[], t ''self_awareness.slot_heading'' lang] @
              map (\<lambda>si. ''- '' @ slot_name_upper (si_slot_name si) @ '': '' @ si_model_display_name si @
                        '' ('' @ si_source si @ '')'') slots @
              [[], t ''self_awareness.text_precise'' lang]
         else []) @
        [t ''self_awareness.text_self_id'' lang] @
        (if slots = [] then [t ''self_awareness.text_no_slots'' lang] else [])))"

text \<open>The service; the model service and the router are those of \<open>tr\<close>, and \<open>None\<close> is a missing router.\<close>

definition display_name_of :: "model_registry \<Rightarrow> string \<Rightarrow> string" where
  "display_name_of reg i = (case registry_get reg i of Some m \<Rightarrow> mm_display_name m | None \<Rightarrow> i)"

definition slot_info_of ::
    "model_registry \<Rightarrow> (string \<times> string) list \<Rightarrow> (task_slot \<Rightarrow> string) \<Rightarrow> task_slot \<Rightarrow> slot_info" where
  "slot_info_of reg overrides default_for slot =
     (let chosen = (\<lambda>k. case map_of overrides k of None \<Rightarrow> [] | Some m \<Rightarrow> m);
          (model_id, source) = (if chosen (slot_value slot) \<noteq> [] then (chosen (slot_value slot), ''user-override'')
            else if chosen ''global'' \<noteq> [] then (chosen ''global'', ''global'')
            else (default_for slot, ''default''))
      in \<lparr>si_slot_name = slot_value slot, si_model_display_name = display_name_of reg model_id, si_source = source\<rparr>)"

definition build_all_slot_infos :: "task_router \<Rightarrow> slot_models \<Rightarrow> int \<Rightarrow> slot_info list" where
  "build_all_slot_infos tr tb user_id =
     map (slot_info_of (mc_registry (tr_models tr))
            (if tr_has_service tr then get_all_slot_overrides tb user_id else []) (get_default_for_slot tr)) all_slots"

definition build_self_awareness ::
    "(string \<Rightarrow> string \<Rightarrow> string) \<Rightarrow> task_router \<Rightarrow> slot_models \<Rightarrow> int option \<Rightarrow> string option \<Rightarrow> string option
       \<Rightarrow> string \<Rightarrow> string" where
  "build_self_awareness t tr tb user_id user_model task_slot_name lang =
     (let model_id = (case user_model of Some (c # cs) \<Rightarrow> c # cs | _ \<Rightarrow> mc_default_model (tr_models tr));
          slot = (case task_slot_name of Some (c # cs) \<Rightarrow> c # cs | _ \<Rightarrow> ''chat'');
          all_slot_infos = map_option (build_all_slot_infos tr tb) user_id
      in case registry_get (mc_registry (tr_models tr)) model_id of
           Some meta \<Rightarrow> build_self_awareness_block t (mm_display_name meta) (mm_id meta) slot (mm_provider meta) all_slot_infos lang
         | None \<Rightarrow> build_self_awareness_block t model_id model_id slot ''unknown'' all_slot_infos lang)"

section \<open>The prompt tells which model answers\<close>

lemma map_of_all_slot_models:
  "distinct (map slot_key tb) \<Longrightarrow> map_of (all_slot_models tb u) s = stored_model tb u s"
proof (induction tb)
  case (Cons r tb)
  have "stored_model tb u (sm_slot r) = None" if "sm_user_id r = u"
    using Cons.prems that by (auto simp: stored_model_def row_with_None_iff slot_key_def)
  with Cons show ?case
    by (auto simp: all_slot_models_def stored_model_def row_with_def slot_key_def)
qed (simp add: all_slot_models_def stored_model_def row_with_def)

text \<open>Every override of the user is a model that the service still accepts.\<close>

definition overrides_valid :: "model_config \<Rightarrow> slot_models \<Rightarrow> int \<Rightarrow> bool" where
  "overrides_valid mc tb u =
     list_all (\<lambda>r. sm_user_id r = u \<longrightarrow> sm_model_id r \<noteq> [] \<and> known_id (mc_registry mc) (sm_model_id r) \<and>
                \<not> foreign_provider (mc_registry mc) (sm_model_id r)) tb"

lemma overrides_validD:
  assumes "overrides_valid mc tb u" "stored_model tb u s = Some m"
  shows "m \<noteq> []" "snd (get_user_model mc tb u s) = Some m"
  using assms row_with_SomeD [of slot_key "(u, s)" tb]
  by (auto simp: overrides_valid_def list_all_iff stored_model_def get_user_model_value slot_key_def)

lemma get_default_for_slot_config:
  "config_default tr t = Some m \<Longrightarrow> resolve_id (mc_registry (tr_models tr)) (sc_default_model (the (slot_cfg (tr_configs tr) t))) \<noteq> None
   \<Longrightarrow> get_default_for_slot tr t = m"
  by (auto simp: config_default_def get_default_for_slot_def split: option.splits if_splits)

text \<open>The slot list in the prompt is truthful: for every task slot it shows the display name of the model
  that \<open>resolve_model\<close> would answer with, or of the system default where it resolves none, provided the
  stored overrides of the user are still valid and the default of the slot is a known model or alias.\<close>

theorem slot_list_tells_the_resolved_model:
  assumes "tr_has_service tr" "distinct (map slot_key tb)" "overrides_valid (tr_models tr) tb u"
    and "\<And>c. slot_cfg (tr_configs tr) slot = Some c \<Longrightarrow> sc_default_model c \<noteq> [] \<Longrightarrow>
          resolve_id (mc_registry (tr_models tr)) (sc_default_model c) \<noteq> None"
  shows "\<exists>si \<in> set (build_all_slot_infos tr tb u). si_slot_name si = slot_value slot \<and>
     si_model_display_name si = display_name_of (mc_registry (tr_models tr))
       (case snd (resolve_model tr tb u slot) of Some m \<Rightarrow> m | None \<Rightarrow> mc_default_model (tr_models tr))"
proof -
  obtain si where si: "si = slot_info_of (mc_registry (tr_models tr)) (get_all_slot_overrides tb u)
      (get_default_for_slot tr) slot" by simp
  have "slot \<in> set all_slots" by (cases slot) (simp_all add: all_slots_def)
  then have mem: "si \<in> set (build_all_slot_infos tr tb u)"
    using assms(1) by (auto simp: si build_all_slot_infos_def)
  have ov: "map_of (get_all_slot_overrides tb u) k = stored_model tb u k" for k
    by (simp add: get_all_slot_overrides_def map_of_all_slot_models [OF assms(2)])
  have dflt: "get_default_for_slot tr slot =
      (case config_default tr slot of Some m \<Rightarrow> m | None \<Rightarrow> mc_default_model (tr_models tr))"
    using assms(4) by (auto simp: config_default_def get_default_for_slot_def split: option.splits)
  note valid = overrides_validD [OF assms(3)]
  have none: "snd (get_user_model (tr_models tr) tb u k) = None" if "stored_model tb u k = None" for k
    using that by (simp add: get_user_model_value)
  have "si_model_display_name si = display_name_of (mc_registry (tr_models tr))
       (case snd (resolve_model tr tb u slot) of Some m \<Rightarrow> m | None \<Rightarrow> mc_default_model (tr_models tr))"
    using valid none dflt
    by (cases "stored_model tb u (slot_value slot)"; cases "stored_model tb u ''global''")
      (auto simp: si slot_info_of_def ov Let_def resolve_model_value [OF assms(1)] split: option.split)
  moreover have "si_slot_name si = slot_value slot" by (simp add: si slot_info_of_def Let_def split_beta)
  ultimately show ?thesis using mem by blast
qed

text \<open>A stale override is shown although the router no longer uses it.\<close>

lemma stale_override_is_shown:
  "si_model_display_name (build_all_slot_infos small_router [\<lparr>sm_user_id = 7, sm_slot = ''code'', sm_model_id = ''claude-2''\<rparr>] 7 ! 1)
     = ''claude-2'' \<and>
   snd (resolve_model small_router [\<lparr>sm_user_id = 7, sm_slot = ''code'', sm_model_id = ''claude-2''\<rparr>] 7 Code)
     = Some ''claude-opus-4-7''"
  by code_simp

theorem slot_list_tells_the_resolved_model_witness:
  "\<exists>si \<in> set (build_all_slot_infos small_router [\<lparr>sm_user_id = 7, sm_slot = ''global'', sm_model_id = ''claude-opus-4-7''\<rparr>] 7).
     si_slot_name si = ''chat'' \<and> si_model_display_name si = ''opus''"
proof -
  let ?tb = "[\<lparr>sm_user_id = 7, sm_slot = ''global'', sm_model_id = ''claude-opus-4-7''\<rparr>]"
  have v: "overrides_valid (tr_models small_router) ?tb 7" by code_simp
  have "slot_cfg (tr_configs small_router) Chat = Some (hd chat_only)"
      "resolve_id (mc_registry (tr_models small_router)) ''sonnet'' \<noteq> None"
      "sc_default_model (hd chat_only) = ''sonnet''" by code_simp+
  then have d: "resolve_id (mc_registry (tr_models small_router)) (sc_default_model c) \<noteq> None"
    if "slot_cfg (tr_configs small_router) Chat = Some c" for c using that by simp
  have "display_name_of (mc_registry (tr_models small_router))
       (case snd (resolve_model small_router ?tb 7 Chat) of Some m \<Rightarrow> m | None \<Rightarrow> mc_default_model (tr_models small_router))
     = ''opus''" "slot_value Chat = ''chat''" by code_simp+
  then show ?thesis
    using slot_list_tells_the_resolved_model [OF small_router_wf(1) _ v, of Chat] d by simp
qed

end
