(* ===== verification/ProactiveTriggers.thy ===== *)
theory ProactiveTriggers
  imports PyReplace "HOL-Library.AList" "HOL-Library.List_Lexorder" "HOL-Library.Char_ord"
begin

text \<open>
  \<open>application/proactive_trigger_service.py\<close>: when the assistant speaks up unasked. The moment of a call is
  a record of what the code reads off a \<open>datetime\<close>; time stamps are exact rationals. The sentence that explains
  a trigger is left out. The properties: at most one proactive push per user and day, none in the quiet
  hours of the user, and reactive nudges of a chat two hours apart.
\<close>

section \<open>Moments\<close>

record moment =
  mo_ts :: rat
  mo_date :: string
  mo_hour :: int
  mo_weekday :: int
  mo_clock :: string

text \<open>\<open>datetime.fromtimestamp(ts, utc)\<close> rounds to microseconds; day 0 was a Thursday.\<close>

definition utc_seconds :: "rat \<Rightarrow> int" where
  "utc_seconds ts = round_half_even (ts * 1000000) div 1000000"

definition utc_hour :: "rat \<Rightarrow> int" where "utc_hour ts = (utc_seconds ts div 3600) mod 24"
definition utc_weekday :: "rat \<Rightarrow> int" where "utc_weekday ts = (utc_seconds ts div 86400 + 3) mod 7"

section \<open>State\<close>

record activity_record =
  ar_timestamps :: "rat list"
  ar_last_proactive_ts :: rat
  ar_last_reactive :: "(int \<times> rat) list"
  ar_pushes_today :: nat
  ar_push_date :: string

definition new_activity :: activity_record where
  "new_activity = \<lparr>ar_timestamps = [], ar_last_proactive_ts = 0, ar_last_reactive = [], ar_pushes_today = 0,
     ar_push_date = []\<rparr>"

type_synonym activity_map = "(int \<times> activity_record) list"

record trigger_result =
  tg_fire :: bool
  tg_nudge :: string
  tg_type :: string

definition no_trigger :: trigger_result where
  "no_trigger = \<lparr>tg_fire = False, tg_nudge = [], tg_type = []\<rparr>"

definition fire :: "string \<Rightarrow> string \<Rightarrow> trigger_result" where
  "fire nudge kind = \<lparr>tg_fire = True, tg_nudge = nudge, tg_type = kind\<rparr>"

definition max_timestamps :: nat where "max_timestamps = 200"
definition max_proactive_per_day :: nat where "max_proactive_per_day = 1"

definition activity_of :: "activity_map \<Rightarrow> int \<Rightarrow> activity_record" where
  "activity_of am u = (case map_of am u of None \<Rightarrow> new_activity | Some r \<Rightarrow> r)"

text \<open>\<open>timestamp or time.time()\<close>: a time stamp of 0 is the current time.\<close>

definition record_activity :: "activity_map \<Rightarrow> int \<Rightarrow> rat option \<Rightarrow> rat \<Rightarrow> activity_map" where
  "record_activity am u timestamp clock =
     (let ts = (case timestamp of None \<Rightarrow> clock | Some t \<Rightarrow> if t = 0 then clock else t);
          r = activity_of am u;
          all_ts = ar_timestamps r @ [ts]
      in AList.update u (r\<lparr>ar_timestamps := drop (length all_ts - max_timestamps) all_ts\<rparr>) am)"

section \<open>Active and quiet hours\<close>

definition active_hour_list :: "rat list \<Rightarrow> int list" where
  "active_hour_list ts = filter (\<lambda>h. 2 \<le> length (filter (\<lambda>t. utc_hour t = h) ts)) [0..23]"

definition get_active_hours :: "activity_map \<Rightarrow> int \<Rightarrow> int \<times> int" where
  "get_active_hours am u =
     (case map_of am u of
        None \<Rightarrow> (7, 23)
      | Some r \<Rightarrow>
          if length (ar_timestamps r) < 20 then (7, 23)
          else (case active_hour_list (ar_timestamps r) of
                  [] \<Rightarrow> (7, 23)
                | h # hs \<Rightarrow> (h, last (h # hs))))"

definition is_quiet_hours :: "activity_map \<Rightarrow> int \<Rightarrow> moment \<Rightarrow> bool" where
  "is_quiet_hours am u now =
     (case get_active_hours am u of
        (start_h, end_h) \<Rightarrow>
          if start_h < end_h then end_h \<le> mo_hour now \<or> mo_hour now < start_h
          else end_h \<le> mo_hour now \<and> mo_hour now < start_h)"

section \<open>The frequency cap\<close>

text \<open>The check resets the counter on a new day.\<close>

definition can_push_proactive :: "activity_map \<Rightarrow> int \<Rightarrow> moment \<Rightarrow> activity_map \<times> bool" where
  "can_push_proactive am u now =
     (case map_of am u of
        None \<Rightarrow> (am, True)
      | Some r \<Rightarrow>
          (let r1 = (if ar_push_date r \<noteq> mo_date now then r\<lparr>ar_pushes_today := 0, ar_push_date := mo_date now\<rparr> else r)
           in (AList.update u r1 am, ar_pushes_today r1 < max_proactive_per_day)))"

definition mark_proactive_push :: "activity_map \<Rightarrow> int \<Rightarrow> moment \<Rightarrow> activity_map" where
  "mark_proactive_push am u now =
     (let r = (activity_of am u)\<lparr>ar_last_proactive_ts := mo_ts now\<rparr>
      in AList.update u
           (if ar_push_date r \<noteq> mo_date now then r\<lparr>ar_pushes_today := 1, ar_push_date := mo_date now\<rparr>
            else r\<lparr>ar_pushes_today := ar_pushes_today r + 1\<rparr>) am)"

section \<open>Nudges\<close>

definition blank_line :: string where "blank_line = [CHR 0x0A, CHR 0x0A]"

definition build_welcome_back_nudge :: "rat \<Rightarrow> string" where
  "build_welcome_back_nudge gap_days =
     (if 7 \<le> gap_days
      then blank_line @ ''_Sch'' @ [CHR 0xF6] @ ''n dass du wieder da bist. War eine Weile still hier. '' @
           ''Gibt es etwas wobei ich dir helfen kann?_''
      else blank_line @ ''_Hey, ein paar Tage her. Wo waren wir stehen geblieben?_'')"

definition weekday_names_de :: "string list" where
  "weekday_names_de = [''Montag'', ''Dienstag'', ''Mittwoch'', ''Donnerstag'', ''Freitag'', ''Samstag'', ''Sonntag'']"

definition build_morning_nudge :: "moment \<Rightarrow> string" where
  "build_morning_nudge now =
     blank_line @ ''_Guten Morgen. '' @ (weekday_names_de ! nat (mo_weekday now)) @ '' also. Was steht an?_''"

definition late_night_nudge :: string where
  "late_night_nudge = blank_line @ ''_Nebenbei: Es ist ziemlich sp'' @ [CHR 0xE4] @ ''t. Kein Urteil, nur eine Beobachtung._''"

definition sunday_nudge :: string where
  "sunday_nudge = blank_line @ ''_Heute ist Sonntag. Arbeitest du bewusst, oder hat es dich einfach hierher getrieben?_''"

definition build_memory_nudge :: "string \<Rightarrow> string" where
  "build_memory_nudge content =
     blank_line @ ''_Mir f'' @ [CHR 0xE4] @ ''llt gerade ein: Du hattest mal erw'' @ [CHR 0xE4] @ ''hnt: '' @
     [CHR 0x22] @ (if length content > 80 then take 80 content @ ''...'' else content) @ [CHR 0x22] @
     '' Ist das noch relevant?_''"

section \<open>Triggers\<close>

definition session_start_trigger :: "activity_record \<Rightarrow> moment \<Rightarrow> trigger_result" where
  "session_start_trigger r now =
     (let ts = ar_timestamps r in
      if length ts < 2 then no_trigger
      else (let gap_seconds = mo_ts now - ts ! (length ts - 2);
                gap_hours = gap_seconds / 3600; gap_days = gap_hours / 24
            in if gap_seconds < 28800 then no_trigger
               else if 3 \<le> gap_days then fire (build_welcome_back_nudge gap_days) ''long_pause''
               else if 8 \<le> gap_hours \<and> 5 \<le> mo_hour now \<and> mo_hour now \<le> 10
               then fire (build_morning_nudge now) ''morning_start''
               else no_trigger))"

text \<open>The messages before the current one, and the share of them with the property \<open>P\<close>.\<close>

definition rarely :: "(rat \<Rightarrow> bool) \<Rightarrow> rat \<Rightarrow> rat list \<Rightarrow> bool" where
  "rarely P share ts =
     (30 \<le> length ts \<and> 0 < length ts - 1 \<and>
      rat_of_nat (length (filter P (butlast ts))) / rat_of_nat (length ts - 1) < share)"

definition pattern_trigger :: "activity_record \<Rightarrow> moment \<Rightarrow> trigger_result" where
  "pattern_trigger r now =
     (if (23 \<le> mo_hour now \<or> mo_hour now < 5) \<and>
         rarely (\<lambda>t. 23 \<le> utc_hour t \<or> utc_hour t < 5) (1 / 10) (ar_timestamps r)
      then fire late_night_nudge ''late_night''
      else if mo_weekday now = 6 \<and> 9 \<le> mo_hour now \<and> mo_hour now \<le> 18 \<and>
         rarely (\<lambda>t. utc_weekday t = 6) (1 / 20) (ar_timestamps r)
      then fire sunday_nudge ''weekend_work''
      else no_trigger)"

definition check_triggers :: "activity_map \<Rightarrow> int \<Rightarrow> moment \<Rightarrow> activity_map \<times> trigger_result" where
  "check_triggers am u now =
     (case map_of am u of
        None \<Rightarrow> (am, no_trigger)
      | Some r \<Rightarrow>
          if is_quiet_hours am u now then (am, no_trigger)
          else (let (am1, allowed) = can_push_proactive am u now;
                    r1 = session_start_trigger r now; r2 = pattern_trigger r now
                in if \<not> allowed then (am1, no_trigger)
                   else if tg_fire r1 then (mark_proactive_push am1 u now, r1)
                   else if tg_fire r2 then (mark_proactive_push am1 u now, r2)
                   else (am1, no_trigger)))"

section \<open>Reactive nudges\<close>

definition digits_between :: "nat \<Rightarrow> nat \<Rightarrow> regex" where
  "digits_between lo hi = Iter True lo (Some hi) (Cls is_digit)"

definition lit :: "string \<Rightarrow> regex" where
  "lit s = seq_all (map (\<lambda>c. Cls (\<lambda>x. x = c)) s)"

definition lits :: "string list \<Rightarrow> regex" where
  "lits ws = alt_all (map lit ws)"

definition time_patterns :: "regex list" where
  "time_patterns = [
     seq_all [digits_between 1 2, lit ''.'', digits_between 1 2, lit ''.'', digits_between 2 4],
     seq_all [digits_between 4 4, lit ''-'', digits_between 2 2, lit ''-'', digits_between 2 2],
     lits [''montag'', ''dienstag'', ''mittwoch'', ''donnerstag'', ''freitag'', ''samstag'', ''sonntag''],
     lits [''monday'', ''tuesday'', ''wednesday'', ''thursday'', ''friday'', ''saturday'', ''sunday''],
     lits [''morgen'', [CHR 0xFC] @ ''bermorgen'', ''n'' @ [CHR 0xE4] @ ''chste woche'', ''n'' @ [CHR 0xE4] @ ''chsten monat''],
     lits [''tomorrow'', ''next week'', ''next month'', ''deadline''],
     alt_all (map (\<lambda>u. seq_all [lit ''in '', digits_plus, lit u]) ['' tagen'', '' wochen'', '' monaten'']),
     lits [''bis zum'', ''sp'' @ [CHR 0xE4] @ ''testens'', ''f'' @ [CHR 0xE4] @ ''llig'', ''due'']]"

definition has_time_reference :: "string \<Rightarrow> bool" where
  "has_time_reference s = list_ex (\<lambda>p. found p (py_lower s)) time_patterns"

definition check_reactive_trigger ::
    "activity_map \<Rightarrow> int \<Rightarrow> int \<Rightarrow> string list \<Rightarrow> rat \<Rightarrow> activity_map \<times> trigger_result" where
  "check_reactive_trigger am u chat_id contents now_ts =
     (case map_of am u of
        None \<Rightarrow> (am, no_trigger)
      | Some r \<Rightarrow>
          (let last_reactive = (case map_of (ar_last_reactive r) chat_id of None \<Rightarrow> 0 | Some t \<Rightarrow> t)
           in if now_ts - last_reactive < 7200 then (am, no_trigger)
              else (case find has_time_reference contents of
                      None \<Rightarrow> (am, no_trigger)
                    | Some content \<Rightarrow>
                        (AList.update u (r\<lparr>ar_last_reactive := AList.update chat_id now_ts (ar_last_reactive r)\<rparr>) am,
                         fire (build_memory_nudge content) ''reactive_memory''))))"

section \<open>The time block of the prompt\<close>

definition proactive_time_of_day :: "int \<Rightarrow> string" where
  "proactive_time_of_day hour =
     (if 5 \<le> hour \<and> hour \<le> 11 then ''Morning'' else if 12 \<le> hour \<and> hour \<le> 17 then ''Afternoon''
      else if 18 \<le> hour \<and> hour \<le> 21 then ''Evening'' else ''Night'')"

definition weekday_names_en :: "string list" where
  "weekday_names_en = [''Monday'', ''Tuesday'', ''Wednesday'', ''Thursday'', ''Friday'', ''Saturday'', ''Sunday'']"

definition two_digits :: "int \<Rightarrow> string" where
  "two_digits n = (if n < 10 then ''0'' else []) @ int_decimal n"

text \<open>The lines of the block, with the translation function \<open>t(key, lang, **args)\<close>.\<close>

definition time_context_lines ::
    "(string \<Rightarrow> string \<Rightarrow> (string \<times> string) list \<Rightarrow> string) \<Rightarrow> activity_map \<Rightarrow> int \<Rightarrow> moment \<Rightarrow> string \<Rightarrow> string list" where
  "time_context_lines t am u now lang =
     (let l = (if lang = [] then ''de'' else lang); (start_h, end_h) = get_active_hours am u
      in [t ''time_context.header'' l [],
          t ''time_context.current_time'' l [(''time'', mo_date now @ '' '' @ mo_clock now)],
          t ''time_context.time_of_day'' l [(''period'', proactive_time_of_day (mo_hour now))],
          t ''time_context.day'' l [(''weekday'', weekday_names_en ! nat (mo_weekday now))]] @
         (if map_of am u \<noteq> None \<and> 20 \<le> length (ar_timestamps (activity_of am u))
          then t ''time_context.user_active_hours'' l
                 [(''start'', two_digits start_h @ '':00''), (''end'', two_digits end_h @ '':00'')] #
               (if mo_hour now < start_h \<or> end_h < mo_hour now then [t ''time_context.unusual_hours'' l []] else [])
          else []) @
         (if 5 \<le> mo_weekday now then [t ''time_context.weekend'' l []] else []) @
         [t ''time_context.capability'' l []])"

section \<open>One push a day\<close>

datatype trigger_op =
  Activity int "rat option" rat
| CheckProactive int moment
| CheckReactive int int "string list" rat

text \<open>The state after an operation, and the proactive push (user and date) it made, if any.\<close>

definition trigger_step :: "activity_map \<Rightarrow> trigger_op \<Rightarrow> activity_map \<times> (int \<times> string) list" where
  "trigger_step am op =
     (case op of
        Activity u ts clock \<Rightarrow> (record_activity am u ts clock, [])
      | CheckProactive u now \<Rightarrow>
          (case check_triggers am u now of (am', r) \<Rightarrow> (am', if tg_fire r then [(u, mo_date now)] else []))
      | CheckReactive u c contents now_ts \<Rightarrow> (fst (check_reactive_trigger am u c contents now_ts), []))"

fun proactive_pushes :: "activity_map \<Rightarrow> trigger_op list \<Rightarrow> (int \<times> string) list" where
  "proactive_pushes am [] = []"
| "proactive_pushes am (op # ops) = snd (trigger_step am op) @ proactive_pushes (fst (trigger_step am op)) ops"

text \<open>The days on which the user \<open>u\<close> is checked, in the order of the checks.\<close>

fun check_dates :: "int \<Rightarrow> trigger_op list \<Rightarrow> string list" where
  "check_dates u [] = []"
| "check_dates u (CheckProactive u' now # ops) = (if u' = u then mo_date now # check_dates u ops else check_dates u ops)"
| "check_dates u (op # ops) = check_dates u ops"

text \<open>How many pushes the record still allows on the day \<open>d\<close>.\<close>

definition pushes_left :: "activity_record \<Rightarrow> string \<Rightarrow> nat" where
  "pushes_left r d = (if d < ar_push_date r \<or> d = ar_push_date r \<and> 0 < ar_pushes_today r then 0 else 1)"

lemma activity_of_update [simp]:
  "activity_of (AList.update u r am) u' = (if u' = u then r else activity_of am u')"
  by (simp add: activity_of_def AList.update_conv')

lemma activity_of_Some: "map_of am u = Some r \<Longrightarrow> activity_of am u = r"
  by (simp add: activity_of_def)

lemma record_activity_push:
  "ar_push_date (activity_of (record_activity am u ts clock) v) = ar_push_date (activity_of am v)"
  "ar_pushes_today (activity_of (record_activity am u ts clock) v) = ar_pushes_today (activity_of am v)"
  by (auto simp: record_activity_def Let_def)

lemma reactive_push:
  "ar_push_date (activity_of (fst (check_reactive_trigger am u c es now)) v) = ar_push_date (activity_of am v)"
  "ar_pushes_today (activity_of (fst (check_reactive_trigger am u c es now)) v) = ar_pushes_today (activity_of am v)"
  by (auto simp: check_reactive_trigger_def Let_def activity_of_Some split: option.split)

lemma check_other_user:
  "v \<noteq> u \<Longrightarrow> activity_of (fst (check_triggers am u now)) v = activity_of am v"
  by (auto simp: check_triggers_def can_push_proactive_def mark_proactive_push_def Let_def split: option.split)

text \<open>What a check does to the counter of its user.\<close>

lemma check_push:
  assumes "check_triggers am u now = (am', res)" "ar_push_date (activity_of am u) \<le> mo_date now"
  obtains "tg_fire res" "pushes_left (activity_of am u) (mo_date now) = 1"
      "ar_push_date (activity_of am' u) = mo_date now" "0 < ar_pushes_today (activity_of am' u)"
    | "\<not> tg_fire res" "ar_push_date (activity_of am' u) = mo_date now"
      "pushes_left (activity_of am' u) (mo_date now) = pushes_left (activity_of am u) (mo_date now)"
    | "\<not> tg_fire res" "am' = am"
proof (cases "map_of am u = None \<or> is_quiet_hours am u now")
  case True
  then have "\<not> tg_fire res" "am' = am"
    using assms(1) by (auto simp: check_triggers_def no_trigger_def split: option.splits)
  then show ?thesis by (rule that(3))
next
  case False
  then obtain r where r: "map_of am u = Some r" "\<not> is_quiet_hours am u now" by auto
  obtain r1 where r1: "r1 = (if ar_push_date r \<noteq> mo_date now then r\<lparr>ar_pushes_today := 0, ar_push_date := mo_date now\<rparr> else r)"
    by simp
  have cp: "can_push_proactive am u now = (AList.update u r1 am, ar_pushes_today r1 < 1)"
    by (simp add: can_push_proactive_def r r1 max_proactive_per_day_def Let_def)
  have left: "pushes_left (activity_of am u) (mo_date now) = (if ar_pushes_today r1 < 1 then 1 else 0)"
      "ar_push_date r1 = mo_date now"
    using assms(2) r(1) by (auto simp: pushes_left_def r1 activity_of_Some)
  show ?thesis
  proof (cases "tg_fire res")
    case True
    then have "am' = mark_proactive_push (AList.update u r1 am) u now" "ar_pushes_today r1 < 1"
      using assms(1) r cp
      by (auto simp: check_triggers_def Let_def no_trigger_def split: if_splits)
    then show ?thesis
      using that(1) True left by (simp add: mark_proactive_push_def Let_def)
  next
    case False
    then have "am' = AList.update u r1 am"
      using assms(1) r cp
      by (auto simp: check_triggers_def Let_def no_trigger_def split: if_splits)
    then show ?thesis
      using that(2) False left by (simp add: pushes_left_def)
  qed
qed

lemma pushes_left_later:
  assumes "ar_push_date r \<le> D" "ar_push_date r' = D" "pushes_left r' D + n \<le> pushes_left r D"
  shows "pushes_left r' d + (if d = D then n else 0) \<le> pushes_left r d"
proof (cases d D rule: linorder_cases)
  case less
  then show ?thesis using assms(2) by (auto simp: pushes_left_def)
next
  case greater
  then have "ar_push_date r < d" using assms(1) by simp
  then show ?thesis using greater by (auto simp: pushes_left_def)
qed (use assms(3) in simp)

lemma pushes_bounded:
  assumes "sorted (check_dates u ops)" "\<forall>d \<in> set (check_dates u ops). ar_push_date (activity_of am u) \<le> d"
  shows "count_list (proactive_pushes am ops) (u, d) \<le> pushes_left (activity_of am u) d"
  using assms
proof (induction ops arbitrary: am)
  case (Cons op ops)
  obtain am' out where step: "trigger_step am op = (am', out)" by fastforce
  have IH: "(\<forall>d \<in> set (check_dates u ops). ar_push_date (activity_of am' u) \<le> d) \<Longrightarrow>
      count_list (proactive_pushes am' ops) (u, d) \<le> pushes_left (activity_of am' u) d"
    using Cons.IH [of am'] Cons.prems(1) by (cases "(u, op # ops)" rule: check_dates.cases) (auto split: if_splits)
  show ?case
  proof (cases "\<exists>now. op = CheckProactive u now")
    case False
    have same: "ar_push_date (activity_of am' u) = ar_push_date (activity_of am u) \<and>
        ar_pushes_today (activity_of am' u) = ar_pushes_today (activity_of am u) \<and> count_list out (u, d) = 0"
    proof (cases op)
      case (CheckProactive v now)
      then have "v \<noteq> u" using False by blast
      then show ?thesis
        using step check_other_user [of u v am now] CheckProactive
        by (auto simp: trigger_step_def split: prod.splits)
    qed (use step in \<open>auto simp: trigger_step_def record_activity_push reactive_push\<close>)
    have "check_dates u (op # ops) = check_dates u ops" using False by (cases op) auto
    then show ?thesis
      using IH Cons.prems same step by (simp add: pushes_left_def)
  next
    case True
    then obtain now where op: "op = CheckProactive u now" by blast
    obtain res where res: "check_triggers am u now = (am', res)" "out = (if tg_fire res then [(u, mo_date now)] else [])"
      using step op by (auto simp: trigger_step_def split: prod.splits)
    have le: "ar_push_date (activity_of am u) \<le> mo_date now" "\<forall>e \<in> set (check_dates u ops). mo_date now \<le> e"
      using Cons.prems op by auto
    show ?thesis
    proof (rule check_push [OF res(1) le(1)])
      assume a: "tg_fire res" "pushes_left (activity_of am u) (mo_date now) = 1"
        "ar_push_date (activity_of am' u) = mo_date now" "0 < ar_pushes_today (activity_of am' u)"
      have "pushes_left (activity_of am' u) d + (if d = mo_date now then 1 else 0) \<le> pushes_left (activity_of am u) d"
        using a(2-4) by (intro pushes_left_later [OF le(1)]) (simp_all add: pushes_left_def)
      moreover have "count_list (proactive_pushes am' ops) (u, d) \<le> pushes_left (activity_of am' u) d"
        using IH le(2) a(3) by simp
      ultimately show ?thesis using step res(2) a(1) by (auto split: if_splits)
    next
      assume a: "\<not> tg_fire res" "ar_push_date (activity_of am' u) = mo_date now"
        "pushes_left (activity_of am' u) (mo_date now) = pushes_left (activity_of am u) (mo_date now)"
      have "pushes_left (activity_of am' u) d + (if d = mo_date now then 0 else 0) \<le> pushes_left (activity_of am u) d"
        using a(2, 3) by (intro pushes_left_later [OF le(1)]) simp_all
      moreover have "count_list (proactive_pushes am' ops) (u, d) \<le> pushes_left (activity_of am' u) d"
        using IH le(2) a(2) by simp
      ultimately show ?thesis using step res(2) a(1) by simp
    next
      assume "\<not> tg_fire res" "am' = am"
      then show ?thesis using IH Cons.prems op step res(2) by auto
    qed
  qed
qed simp

text \<open>The assistant speaks up unasked at most once a day to a user: over any sequence of messages,
  checks and reactive nudges of all users, with the days of the checks of that user in order, no two proactive
  pushes go to the same user on the same day.\<close>

theorem one_proactive_push_a_day:
  assumes "sorted (check_dates u ops)"
  shows "count_list (proactive_pushes [] ops) (u, d) \<le> 1"
proof -
  have "count_list (proactive_pushes [] ops) (u, d) \<le> pushes_left (activity_of [] u) d"
    using assms by (rule pushes_bounded) (simp add: activity_of_def new_activity_def)
  then show ?thesis by (simp add: pushes_left_def split: if_splits)
qed

definition moment_at :: "rat \<Rightarrow> string \<Rightarrow> int \<Rightarrow> moment" where
  "moment_at ts d h = \<lparr>mo_ts = ts, mo_date = d, mo_hour = h, mo_weekday = 0, mo_clock = ''00:00''\<rparr>"

text \<open>A user comes back after four days, is greeted, and writes again on that day and on the next.\<close>

definition back_after_four_days :: "trigger_op list" where
  "back_after_four_days =
     [Activity 7 (Some 1000) 0, Activity 7 (Some 400000) 0, CheckProactive 7 (moment_at 400000 ''2026-01-05'' 15),
      CheckProactive 7 (moment_at 400060 ''2026-01-05'' 15), CheckProactive 7 (moment_at 480000 ''2026-01-06'' 13)]"

theorem one_proactive_push_a_day_witness:
  "count_list (proactive_pushes [] back_after_four_days) (7, ''2026-01-05'') \<le> 1 \<and>
   proactive_pushes [] back_after_four_days = [(7, ''2026-01-05''), (7, ''2026-01-06'')]"
proof -
  have "check_dates 7 back_after_four_days = [''2026-01-05'', ''2026-01-05'', ''2026-01-06'']"
    by (simp add: back_after_four_days_def moment_at_def)
  moreover have "''2026-01-05'' \<le> (''2026-01-06'' :: string)" by code_simp
  ultimately have "sorted (check_dates 7 back_after_four_days)" by simp
  moreover have "proactive_pushes [] back_after_four_days = [(7, ''2026-01-05''), (7, ''2026-01-06'')]"
    by code_simp
  ultimately show ?thesis using one_proactive_push_a_day by blast
qed

section \<open>Reactive nudges\<close>

text \<open>The times of the reactive nudges of a user in a chat.\<close>

fun reactive_times :: "int \<Rightarrow> int \<Rightarrow> activity_map \<Rightarrow> trigger_op list \<Rightarrow> rat list" where
  "reactive_times u c am [] = []"
| "reactive_times u c am (op # ops) =
     (case op of
        CheckReactive u' c' contents now \<Rightarrow>
          (if u' = u \<and> c' = c \<and> tg_fire (snd (check_reactive_trigger am u' c' contents now)) then [now] else [])
      | _ \<Rightarrow> []) @ reactive_times u c (fst (trigger_step am op)) ops"

definition last_reactive :: "activity_map \<Rightarrow> int \<Rightarrow> int \<Rightarrow> rat" where
  "last_reactive am u c = (case map_of (ar_last_reactive (activity_of am u)) c of None \<Rightarrow> 0 | Some t \<Rightarrow> t)"

lemma last_reactive_others:
  "last_reactive (record_activity am u ts clock) v c = last_reactive am v c"
  "last_reactive (fst (check_triggers am u now)) v c = last_reactive am v c"
  by (auto simp: last_reactive_def record_activity_def check_triggers_def can_push_proactive_def
      mark_proactive_push_def Let_def activity_of_Some split: option.split)

lemma last_reactive_check:
  "last_reactive (fst (check_reactive_trigger am u c es now)) v k =
     (if v = u \<and> k = c \<and> tg_fire (snd (check_reactive_trigger am u c es now)) then now else last_reactive am v k)"
  "tg_fire (snd (check_reactive_trigger am u c es now)) \<Longrightarrow> last_reactive am u c + 7200 \<le> now"
  by (auto simp: last_reactive_def check_reactive_trigger_def no_trigger_def fire_def Let_def activity_of_Some
      AList.update_conv' split: option.splits if_splits)

lemma reactive_times_spaced:
  "sorted_wrt (\<lambda>a b. a + 7200 \<le> b) (reactive_times u c am ops) \<and>
   (\<forall>t \<in> set (reactive_times u c am ops). last_reactive am u c + 7200 \<le> t)"
proof (induction ops arbitrary: am)
  case (Cons op ops)
  show ?case
  proof (cases op)
    case (CheckReactive u' c' es now)
    obtain am' r where k: "check_reactive_trigger am u' c' es now = (am', r)" by fastforce
    note IH = Cons.IH [of am']
    show ?thesis
    proof (cases "u' = u \<and> c' = c \<and> tg_fire r")
      case True
      then have "last_reactive am' u c = now" "last_reactive am u c + 7200 \<le> now"
        using last_reactive_check [of am u' c' es now] k by auto
      then show ?thesis using IH True k CheckReactive by (fastforce simp: trigger_step_def)
    next
      case False
      then have "last_reactive am' u c = last_reactive am u c"
        using last_reactive_check(1) [of am u' c' es now u c] k by auto
      then show ?thesis using IH False k CheckReactive by (auto simp: trigger_step_def)
    qed
  next
    case (Activity u' ts clock)
    then show ?thesis
      using Cons.IH [of "record_activity am u' ts clock"] by (simp add: trigger_step_def last_reactive_others)
  next
    case (CheckProactive u' now)
    then show ?thesis
      using Cons.IH [of "fst (check_triggers am u' now)"]
      by (simp add: trigger_step_def last_reactive_others split_beta)
  qed
qed simp

text \<open>Two reactive nudges in one chat of a user are at least two hours apart, whatever messages, checks
  and memory entries come in between.\<close>

theorem reactive_nudges_two_hours_apart:
  "sorted_wrt (\<lambda>a b. a + 7200 \<le> b) (reactive_times u c [] ops)"
  using reactive_times_spaced by blast

section \<open>Hours that are missed\<close>

text \<open>From 23 o'clock on it is always quiet, so the first half of the late-night condition never fires.\<close>

lemma no_push_after_23:
  assumes "23 \<le> mo_hour now" "fst (get_active_hours am u) < snd (get_active_hours am u)"
    and "snd (get_active_hours am u) \<le> 23"
  shows "\<not> tg_fire (snd (check_triggers am u now))"
  using assms
  by (auto simp: check_triggers_def is_quiet_hours_def no_trigger_def split: option.split prod.splits)

lemma individual_is_a_time_reference: "has_time_reference ''Bitte ganz individuell antworten''"
  by code_simp

text \<open>Without a single active hour apart from one there is no quiet hour at all.\<close>

lemma one_active_hour_is_never_quiet:
  assumes "get_active_hours am u = (h, h)"
  shows "\<not> is_quiet_hours am u now"
  using assms by (simp add: is_quiet_hours_def)

end
