(* ===== verification/ExecutionKernel.thy ===== *)
theory ExecutionKernel
  imports LanguageResolver PromptBlocks ProactiveTriggers
begin

text \<open>
  From a request to the prompt: \<open>application/execution/\<close> (envelope, resolver pipeline, context, plan and
  instruction compiler). The clock, the time zone data and the translations are parameters. The properties: the
  pipeline fills the whole context in one language, and the compiled prompt is locked to that language and
  holds its blocks in the fixed order.
\<close>

section \<open>The envelope\<close>

record request_envelope =
  re_request_id :: string
  re_user_id :: int
  re_chat_id :: int
  re_channel :: string
  re_raw_text :: string
  re_command :: "string option"
  re_args :: "string list"
  re_timestamp_utc :: rat
  re_username :: "string option"
  re_reply_to_text :: "string option"

definition envelope_from_telegram ::
    "string \<Rightarrow> rat \<Rightarrow> int \<Rightarrow> int \<Rightarrow> string \<Rightarrow> string option \<Rightarrow> string option \<Rightarrow> string option \<Rightarrow> string list option
       \<Rightarrow> request_envelope" where
  "envelope_from_telegram i now user_id chat_id txt username reply_to command args =
     \<lparr>re_request_id = i, re_user_id = user_id, re_chat_id = chat_id, re_channel = ''telegram'', re_raw_text = txt,
      re_command = command, re_args = (case args of None \<Rightarrow> [] | Some a \<Rightarrow> a), re_timestamp_utc = now,
      re_username = username, re_reply_to_text = reply_to\<rparr>"

definition envelope_from_debate ::
    "string \<Rightarrow> rat \<Rightarrow> int \<Rightarrow> int \<Rightarrow> string \<Rightarrow> string option \<Rightarrow> request_envelope" where
  "envelope_from_debate i now user_id chat_id question username =
     \<lparr>re_request_id = i, re_user_id = user_id, re_chat_id = chat_id, re_channel = ''telegram'', re_raw_text = question,
      re_command = Some ''debate'', re_args = [question], re_timestamp_utc = now, re_username = username,
      re_reply_to_text = None\<rparr>"

section \<open>The context\<close>

record time_context =
  tc_now_utc :: rat
  tc_now_local :: moment
  tc_weekday :: int
  tc_weekday_name :: string
  tc_time_of_day :: string
  tc_timezone_name :: string

record channel_capabilities =
  cc_streaming :: bool
  cc_max_message_length :: nat
  cc_markdown :: bool
  cc_inline_buttons :: bool

definition default_capabilities :: channel_capabilities where
  "default_capabilities =
     \<lparr>cc_streaming = True, cc_max_message_length = 4096, cc_markdown = True, cc_inline_buttons = True\<rparr>"

record execution_context =
  ec_request_id :: string
  ec_user_id :: int
  ec_chat_id :: int
  ec_channel :: string
  ec_language :: language_context
  ec_time :: time_context
  ec_capabilities :: channel_capabilities
  ec_audit_tags :: "(string \<times> string) list"

definition get_audit_tag :: "execution_context \<Rightarrow> string \<Rightarrow> string option" where
  "get_audit_tag ec key = map_of (ec_audit_tags ec) key"

record partial_context =
  pe_request_id :: string
  pe_user_id :: int
  pe_chat_id :: int
  pe_channel :: string
  pe_language :: "language_context option"
  pe_time :: "time_context option"
  pe_capabilities :: "channel_capabilities option"
  pe_audit_tags :: "(string \<times> string) list"
  pe_raw_text :: string
  pe_override :: "string option"

definition context_from_envelope :: "request_envelope \<Rightarrow> string option \<Rightarrow> partial_context" where
  "context_from_envelope re override =
     \<lparr>pe_request_id = re_request_id re, pe_user_id = re_user_id re, pe_chat_id = re_chat_id re,
      pe_channel = re_channel re, pe_language = None, pe_time = None, pe_capabilities = None, pe_audit_tags = [],
      pe_raw_text = re_raw_text re, pe_override = override\<rparr>"

text \<open>\<open>fallback_time\<close> is what the constructor of \<open>TimeContext\<close> would read off the clock.\<close>

definition freeze :: "time_context \<Rightarrow> partial_context \<Rightarrow> execution_context" where
  "freeze fallback_time pe =
     \<lparr>ec_request_id = pe_request_id pe, ec_user_id = pe_user_id pe, ec_chat_id = pe_chat_id pe,
      ec_channel = pe_channel pe,
      ec_language = (case pe_language pe of Some l \<Rightarrow> l | None \<Rightarrow> plain_context ''de'' SrcDefault 1 (pe_request_id pe)),
      ec_time = (case pe_time pe of Some tc \<Rightarrow> tc | None \<Rightarrow> fallback_time),
      ec_capabilities = (case pe_capabilities pe of Some cc \<Rightarrow> cc | None \<Rightarrow> default_capabilities),
      ec_audit_tags = pe_audit_tags pe\<rparr>"

section \<open>The resolvers\<close>

text \<open>The environment of a request: clock, time zones, ids, and whether the language table takes the write.\<close>

record request_world =
  rw_now_utc :: rat
  rw_env_zone :: "string option"
  rw_system_zone :: "string option"
  rw_zone_known :: "string \<Rightarrow> bool"
  rw_local :: "string \<Rightarrow> rat \<Rightarrow> moment"
  rw_fresh_id :: string
  rw_stamp :: string
  rw_persists :: bool

definition resolve_timezone :: "request_world \<Rightarrow> string" where
  "resolve_timezone rw =
     (case rw_env_zone rw of
        Some (z # zs) \<Rightarrow>
          if rw_zone_known rw (z # zs) then z # zs
          else (case rw_system_zone rw of Some s \<Rightarrow> if rw_zone_known rw s then s else ''Europe/Berlin'' | None \<Rightarrow> ''Europe/Berlin'')
      | _ \<Rightarrow>
          (case rw_system_zone rw of Some s \<Rightarrow> if rw_zone_known rw s then s else ''Europe/Berlin'' | None \<Rightarrow> ''Europe/Berlin''))"

type_synonym resolver = "request_world \<Rightarrow> conversation_store \<times> partial_context \<Rightarrow> conversation_store \<times> partial_context"

definition language_adapter :: "language_resolver \<Rightarrow> resolver" where
  "language_adapter lv rw st =
     (case st of (cs, pe) \<Rightarrow>
        if pe_language pe \<noteq> None then (cs, pe)
        else (let (cs', lx) = resolve_language lv cs (pe_user_id pe) (pe_chat_id pe) (pe_raw_text pe) (pe_override pe)
                    (rw_fresh_id rw) (rw_stamp rw) (rw_persists rw)
              in (cs', pe\<lparr>pe_language := Some (if lx_request_id lx \<noteq> pe_request_id pe
                                               then with_request_id lx (pe_request_id pe) else lx)\<rparr>)))"

definition classify_time_of_day :: "int \<Rightarrow> string" where
  "classify_time_of_day hour =
     (if 5 \<le> hour \<and> hour < 12 then ''morning'' else if 12 \<le> hour \<and> hour < 17 then ''afternoon''
      else if 17 \<le> hour \<and> hour < 21 then ''evening'' else ''night'')"

definition get_weekday_name :: "int \<Rightarrow> string \<Rightarrow> string" where
  "get_weekday_name weekday lang =
     (if lang = ''de'' then weekday_names_de ! nat weekday else weekday_names_en ! nat weekday)"

definition time_resolver :: resolver where
  "time_resolver rw st =
     (case st of (cs, pe) \<Rightarrow>
        let zone = resolve_timezone rw;
            now_local = rw_local rw zone (rw_now_utc rw);
            lang = (case pe_language pe of None \<Rightarrow> ''de'' | Some lx \<Rightarrow> lx_code lx)
        in (cs, pe\<lparr>pe_time := Some \<lparr>tc_now_utc = rw_now_utc rw, tc_now_local = now_local,
              tc_weekday = mo_weekday now_local, tc_weekday_name = get_weekday_name (mo_weekday now_local) lang,
              tc_time_of_day = classify_time_of_day (mo_hour now_local), tc_timezone_name = zone\<rparr>\<rparr>))"

definition channel_profiles :: "(string \<times> channel_capabilities) list" where
  "channel_profiles =
     [(''telegram'', \<lparr>cc_streaming = True, cc_max_message_length = 4096, cc_markdown = True, cc_inline_buttons = True\<rparr>),
      (''desktop'', \<lparr>cc_streaming = True, cc_max_message_length = 100000, cc_markdown = True, cc_inline_buttons = False\<rparr>),
      (''cli'', \<lparr>cc_streaming = True, cc_max_message_length = 1000000, cc_markdown = False, cc_inline_buttons = False\<rparr>)]"

definition channel_resolver :: resolver where
  "channel_resolver rw st =
     (case st of (cs, pe) \<Rightarrow>
        (cs, pe\<lparr>pe_capabilities := Some (case map_of channel_profiles (pe_channel pe) of
                  None \<Rightarrow> default_capabilities | Some cc \<Rightarrow> cc)\<rparr>))"

section \<open>The kernel\<close>

definition default_kernel :: "language_resolver \<Rightarrow> resolver list" where
  "default_kernel lv = [language_adapter lv, time_resolver, channel_resolver]"

definition kernel_build ::
    "resolver list \<Rightarrow> request_world \<Rightarrow> time_context \<Rightarrow> conversation_store \<Rightarrow> request_envelope \<Rightarrow> string option
       \<Rightarrow> conversation_store \<times> execution_context" where
  "kernel_build resolvers rw fallback_time cs re override =
     (let (cs', pe) = foldl (\<lambda>st r. r rw st) (cs, context_from_envelope re override) resolvers
      in (cs', freeze fallback_time pe))"

section \<open>The plan\<close>

record execution_plan =
  pl_request_id :: string
  pl_task_type :: string
  pl_language :: string
  pl_provider_chain :: "string list"
  pl_memory_used :: "string list"
  pl_verifier_profile :: string
  pl_audit_required :: bool

definition policy_evaluate :: "execution_context \<Rightarrow> string" where
  "policy_evaluate ec = ''ALLOW''"

definition planner_chain :: "string list option \<Rightarrow> string list" where
  "planner_chain c = (case c of Some (p # ps) \<Rightarrow> p # ps | _ \<Rightarrow> [''claude_persistent''])"

definition plan_chat :: "string list option \<Rightarrow> execution_context \<Rightarrow> string list option \<Rightarrow> execution_plan" where
  "plan_chat chain ec memory_ids =
     \<lparr>pl_request_id = ec_request_id ec, pl_task_type = ''answer_chat'', pl_language = lx_code (ec_language ec),
      pl_provider_chain = planner_chain chain, pl_memory_used = (case memory_ids of None \<Rightarrow> [] | Some m \<Rightarrow> m),
      pl_verifier_profile = ''standard'', pl_audit_required = True\<rparr>"

definition plan_debate :: "string list option \<Rightarrow> execution_context \<Rightarrow> execution_plan" where
  "plan_debate chain ec =
     \<lparr>pl_request_id = ec_request_id ec, pl_task_type = ''debate'', pl_language = lx_code (ec_language ec),
      pl_provider_chain = planner_chain chain, pl_memory_used = [], pl_verifier_profile = ''standard'',
      pl_audit_required = True\<rparr>"

section \<open>The instruction compiler\<close>

record compiled_prompt =
  cp_system_prompt :: string
  cp_user_prompt :: string
  cp_request_id :: string
  cp_language :: string
  cp_task_type :: string
  cp_role :: "string option"
  cp_blocks :: "string list"

text \<open>The services it may have been given, and the anti-repetition rule of a language.\<close>

record instruction_compiler =
  ic_time :: "(int \<Rightarrow> moment \<Rightarrow> string \<Rightarrow> string) option"
  ic_style :: "(int \<Rightarrow> string \<Rightarrow> string) option"
  ic_awareness :: "(int \<Rightarrow> string option \<Rightarrow> string option \<Rightarrow> string \<Rightarrow> string) option"
  ic_rule :: "string \<Rightarrow> string"

definition add_block :: "string \<Rightarrow> string \<Rightarrow> string \<times> string list \<Rightarrow> string \<times> string list" where
  "add_block name block st =
     (if block = [] then st else (fst st @ [newline, newline] @ block, snd st @ [name]))"

definition compile_chat ::
    "instruction_compiler \<Rightarrow> execution_context \<Rightarrow> execution_plan \<Rightarrow> string \<Rightarrow> string \<Rightarrow> string \<Rightarrow> string option
       \<Rightarrow> string option \<Rightarrow> compiled_prompt" where
  "compile_chat ic ec pl base_prompt memory_block user_prompt user_model task_slot_name =
     (let lang = lx_code (ec_language ec);
          st0 = (build_effective_prompt base_prompt lang, [''language_lock'', ''task_objective'']);
          st1 = (case ic_time ic of None \<Rightarrow> st0
                 | Some f \<Rightarrow> add_block ''time_context'' (f (ec_user_id ec) (tc_now_local (ec_time ec)) lang) st0);
          st2 = add_block ''memory'' memory_block st1;
          st3 = (case ic_style ic of None \<Rightarrow> st2 | Some f \<Rightarrow> add_block ''style'' (f (ec_user_id ec) lang) st2);
          st4 = (case ic_awareness ic of None \<Rightarrow> st3
                 | Some f \<Rightarrow> add_block ''self_awareness'' (f (ec_user_id ec) user_model task_slot_name lang) st3);
          st5 = add_block ''anti_repetition'' (ic_rule ic lang) st4
      in \<lparr>cp_system_prompt = fst st5, cp_user_prompt = user_prompt, cp_request_id = ec_request_id ec,
          cp_language = lang, cp_task_type = pl_task_type pl, cp_role = None, cp_blocks = snd st5\<rparr>)"

definition judge_prompt :: string where
  "judge_prompt = ''You are a neutral arbiter evaluating AI answers. '' @
     ''You do not know the provider names and evaluate purely on quality: '' @
     ''correctness, completeness, clarity, and relevance. '' @
     ''ALWAYS respond with valid JSON, never with prose.''"

definition debate_prompt :: string where
  "debate_prompt = ''Answer concisely and informatively. Keep it to 2-4 sentences if possible.''"

definition compile_debate :: "instruction_compiler \<Rightarrow> execution_context \<Rightarrow> string \<Rightarrow> compiled_prompt" where
  "compile_debate ic ec role =
     (let lang = lx_code (ec_language ec);
          result = build_effective_prompt (if role = ''judge'' then judge_prompt else debate_prompt) lang
      in \<lparr>cp_system_prompt = (if role = ''provider'' then fst (add_block [] (ic_rule ic lang) (result, [])) else result),
          cp_user_prompt = [], cp_request_id = ec_request_id ec, cp_language = lang, cp_task_type = ''debate'',
          cp_role = Some role, cp_blocks = [''language_lock'', ''task_objective'']\<rparr>)"

section \<open>The older composer\<close>

text \<open>\<open>application/prompt_composer.py\<close>: another order, and the rule is appended even when it is empty.\<close>

definition compose_prompt ::
    "instruction_compiler \<Rightarrow> string list \<Rightarrow> string \<Rightarrow> language_context \<Rightarrow> int \<Rightarrow> moment \<Rightarrow> string option \<Rightarrow> string option
       \<Rightarrow> string \<Rightarrow> string" where
  "compose_prompt ic blocks base_prompt lx user_id now user_model task_slot_name memory_block =
     (let lang = lx_code lx;
          r0 = (if List.member blocks ''language'' then build_effective_prompt base_prompt lang else base_prompt, []);
          r1 = (case ic_time ic of Some f \<Rightarrow> if List.member blocks ''time'' then add_block [] (f user_id now lang) r0 else r0
                | None \<Rightarrow> r0);
          r2 = (case ic_style ic of Some f \<Rightarrow> if List.member blocks ''style'' then add_block [] (f user_id lang) r1 else r1
                | None \<Rightarrow> r1);
          r3 = (case ic_awareness ic of
                  Some f \<Rightarrow> if List.member blocks ''self_awareness''
                    then add_block [] (f user_id user_model task_slot_name lang) r2 else r2
                | None \<Rightarrow> r2);
          r4 = (if List.member blocks ''memory'' then add_block [] memory_block r3 else r3)
      in fst r4 @ (if List.member blocks ''anti_repetition'' then [newline, newline] @ ic_rule ic lang else []))"

definition all_prompt_blocks :: "string list" where
  "all_prompt_blocks = [''language'', ''time'', ''style'', ''self_awareness'', ''memory'', ''anti_repetition'']"

section \<open>One language from the request to the prompt\<close>

lemma build_result_code [simp]: "od_code (detection_result lg s bucket cs w oc dissent reason) = dc_top_lang w"
  by (simp add: detection_result_def Let_def split_beta)

lemma default_result_code [simp]: "od_code (make_default_result b r cs) = ''de''"
  by (simp add: make_default_result_def)

lemma aggregate_code_nonempty: "od_code (aggregate lg cs bucket s) \<noteq> []"
proof -
  have m: "dc_top_lang c \<noteq> []" if "c \<in> set (filter succeeded cs)" for c
    using that by (simp add: succeeded_def)
  show ?thesis
    using m by (cases "filter succeeded cs"; cases "tl (filter succeeded cs)") (auto simp: aggregate_def Let_def)
qed

lemma detect_code_nonempty: "od_code (detect orc s) \<noteq> []"
  using aggregate_code_nonempty
  by (auto simp: detect_def detect_short_text_def detect_long_text_def Let_def succeeded_def split: option.splits)

lemma resolve_language_code_nonempty:
  "lx_code (snd (resolve_language lv cs u c txt override i ts p)) \<noteq> []"
  by (auto simp: resolve_language_def Let_def detect_code_nonempty split: option.splits list.splits)

lemma kernel_language:
  assumes "kernel_build (default_kernel lv) rw ft cs re override = (cs', ec)"
  shows "cs' = fst (resolve_language lv cs (re_user_id re) (re_chat_id re) (re_raw_text re) override
      (rw_fresh_id rw) (rw_stamp rw) (rw_persists rw))"
    "lx_code (ec_language ec) = lx_code (snd (resolve_language lv cs (re_user_id re) (re_chat_id re) (re_raw_text re) override
      (rw_fresh_id rw) (rw_stamp rw) (rw_persists rw)))"
    "lx_request_id (ec_language ec) = re_request_id re" "ec_request_id ec = re_request_id re"
    "ec_user_id ec = re_user_id re" "ec_chat_id ec = re_chat_id re"
    "tc_weekday_name (ec_time ec) = get_weekday_name (tc_weekday (ec_time ec)) (lx_code (ec_language ec))"
  using assms
  by (auto simp: kernel_build_def default_kernel_def language_adapter_def time_resolver_def channel_resolver_def
      context_from_envelope_def freeze_def with_request_id_def Let_def split_beta)

text \<open>A prompt that starts with \<open>start\<close> and then has named, non-empty blocks in the order of \<open>names\<close>.\<close>

definition assembled :: "string \<Rightarrow> string list \<Rightarrow> string \<times> string list \<Rightarrow> bool" where
  "assembled start names st \<longleftrightarrow>
     (\<exists>bs. fst st = start @ concat (map (\<lambda>b. [newline, newline] @ snd b) bs) \<and>
        snd st = [''language_lock'', ''task_objective''] @ map fst bs \<and>
        subseq (map fst bs) names \<and> list_all (\<lambda>b. snd b \<noteq> []) bs)"

lemma assembled_start: "assembled start [] (start, [''language_lock'', ''task_objective''])"
  by (auto simp: assembled_def)

lemma assembled_skip: "assembled start names st \<Longrightarrow> assembled start (names @ [n]) st"
  by (auto simp: assembled_def)

lemma assembled_add:
  assumes "assembled start names st"
  shows "assembled start (names @ [n]) (add_block n b st)"
proof (cases "b = []")
  case False
  from assms obtain bs where bs: "fst st = start @ concat (map (\<lambda>b. [newline, newline] @ snd b) bs)"
      "snd st = [''language_lock'', ''task_objective''] @ map fst bs" "subseq (map fst bs) names"
      "list_all (\<lambda>b. snd b \<noteq> []) bs" by (auto simp: assembled_def)
  have "subseq (map fst bs @ [n]) (names @ [n])" using bs(3) by (simp add: list_emb_append_mono)
  then show ?thesis
    unfolding assembled_def using bs False by (intro exI [of _ "bs @ [(n, b)]"]) (simp add: add_block_def)
qed (use assms in \<open>simp add: add_block_def assembled_skip\<close>)

lemma assembled_optional:
  "assembled start names st \<Longrightarrow>
   assembled start (names @ [n]) (case f of None \<Rightarrow> st | Some g \<Rightarrow> add_block n (h g) st)"
  by (cases f) (simp_all add: assembled_skip assembled_add)

definition chat_block_order :: "string list" where
  "chat_block_order = [''time_context'', ''memory'', ''style'', ''self_awareness'', ''anti_repetition'']"

lemma compile_chat_simps:
  "cp_language (compile_chat ic ec pl base mem usr um slot) = lx_code (ec_language ec)"
  "cp_task_type (compile_chat ic ec pl base mem usr um slot) = pl_task_type pl"
  "cp_request_id (compile_chat ic ec pl base mem usr um slot) = ec_request_id ec"
  by (simp_all add: compile_chat_def Let_def)

lemma compile_chat_assembled:
  "assembled (build_effective_prompt base (lx_code (ec_language ec))) chat_block_order
     (cp_system_prompt (compile_chat ic ec pl base mem usr um slot), cp_blocks (compile_chat ic ec pl base mem usr um slot))"
proof -
  have n: "chat_block_order = (((([] @ [''time_context'']) @ [''memory'']) @ [''style'']) @ [''self_awareness'']) @ [''anti_repetition'']"
    by (simp add: chat_block_order_def)
  show ?thesis
    unfolding n compile_chat_def Let_def prod.collapse compiled_prompt.simps
    by (intro assembled_add assembled_optional assembled_start)
qed

text \<open>C29: From the request to the prompt there is one language. The context that the kernel builds has a
  language, that of the resolver, and the ids of the request in both places; the plan and the audit data of the
  prompt name it; and the prompt of the model consists of the base prompt, the instruction to answer only in
  that language, its diacritic hint, and then only whole, non-empty blocks in the order of the compiler. The
  base prompt stands before the language lock, although the list of included blocks, the docstring of the
  compiler and ADR 0003 have the lock first.\<close>

theorem one_language_from_request_to_prompt:
  assumes "kernel_build (default_kernel lv) rw ft cs re override = (cs', ec)"
    and "compile_chat ic ec (plan_chat chain ec mems) base mem usr um slot = cp"
  shows "lx_code (ec_language ec) \<noteq> [] \<and> ec_request_id ec = re_request_id re \<and>
    lx_request_id (ec_language ec) = re_request_id re \<and>
    pl_language (plan_chat chain ec mems) = lx_code (ec_language ec) \<and> cp_language cp = lx_code (ec_language ec) \<and>
    (\<exists>bs. cp_system_prompt cp = base @ lang_instruction (lx_code (ec_language ec)) @
        build_diacritic_hint (lx_code (ec_language ec)) @ concat (map (\<lambda>b. [newline, newline] @ snd b) bs) \<and>
      cp_blocks cp = [''language_lock'', ''task_objective''] @ map fst bs \<and>
      subseq (map fst bs) chat_block_order \<and> list_all (\<lambda>b. snd b \<noteq> []) bs)"
proof -
  note k = kernel_language [OF assms(1)]
  have ne: "lx_code (ec_language ec) \<noteq> []" using k(2) resolve_language_code_nonempty by simp
  have "assembled (build_effective_prompt base (lx_code (ec_language ec))) chat_block_order (cp_system_prompt cp, cp_blocks cp)"
    using compile_chat_assembled unfolding assms(2) [symmetric] .
  then show ?thesis
    using k ne compile_chat_simps(1) [of ic ec "plan_chat chain ec mems" base mem usr um slot] assms(2)
    by (auto simp: assembled_def plan_chat_def build_effective_prompt_def)
qed

text \<open>A message of a chat in German, which the sample detectors take for Slovak, is too short for a switch.\<close>

definition sample_world :: request_world where
  "sample_world = \<lparr>rw_now_utc = 0, rw_env_zone = None, rw_system_zone = Some ''CEST'', rw_zone_known = (\<lambda>z. z = ''Europe/Berlin''),
     rw_local = (\<lambda>z t. moment_at t ''1970-01-01'' 1), rw_fresh_id = ''r1'', rw_stamp = ''t1'', rw_persists = True\<rparr>"

definition sample_envelope :: request_envelope where
  "sample_envelope = envelope_from_telegram ''q7'' 0 7 7 ''ok'' None None None None"

definition sample_compiler :: instruction_compiler where
  "sample_compiler = \<lparr>ic_time = Some (\<lambda>u now lang. ''It is '' @ mo_clock now), ic_style = Some (\<lambda>u lang. []),
     ic_awareness = None, ic_rule = (\<lambda>lang. ''Vary your words.'')\<rparr>"

definition sample_time :: time_context where
  "sample_time = \<lparr>tc_now_utc = 0, tc_now_local = moment_at 0 ''1970-01-01'' 0, tc_weekday = 0,
     tc_weekday_name = ''Monday'', tc_time_of_day = ''morning'', tc_timezone_name = ''UTC''\<rparr>"

definition sample_context :: execution_context where
  "sample_context = snd (kernel_build (default_kernel sample_language_resolver) sample_world sample_time
     german_chat sample_envelope None)"

lemma sample_context_language: "lx_code (ec_language sample_context) = ''de''"
proof -
  obtain cs' ec where b: "kernel_build (default_kernel sample_language_resolver) sample_world sample_time
     german_chat sample_envelope None = (cs', ec)" by fastforce
  have "lx_code (snd (resolve_language sample_language_resolver german_chat 7 7 ''ok'' None ''r1'' ''t1'' True)) = ''de''"
    by code_simp
  then show ?thesis
    using kernel_language(2) [OF b] b
    by (simp add: sample_context_def sample_envelope_def envelope_from_telegram_def sample_world_def)
qed

theorem one_language_from_request_to_prompt_witness:
  "\<exists>bs :: (string \<times> string) list.
     cp_system_prompt (compile_chat sample_compiler sample_context (plan_chat None sample_context None) ''Be kind.'' []
       ''ok'' None None) =
     ''Be kind.'' @ lang_instruction ''de'' @ build_diacritic_hint ''de'' @ concat (map (\<lambda>b. [newline, newline] @ snd b) bs)"
proof -
  obtain cs' ec where b: "kernel_build (default_kernel sample_language_resolver) sample_world sample_time
     german_chat sample_envelope None = (cs', ec)" by fastforce
  then have ec: "ec = sample_context" by (simp add: sample_context_def)
  from one_language_from_request_to_prompt [OF b refl, where ic = sample_compiler and chain = None and mems = None
      and base = "''Be kind.''" and mem = "[]" and usr = "''ok''" and um = None and slot = None,
      unfolded ec sample_context_language]
  show ?thesis by blast
qed

section \<open>Two clocks\<close>

text \<open>The audit context and the prompt classify the hour with different boundaries.\<close>

lemma time_of_day_differs:
  assumes "0 \<le> h" "h < 24"
  shows "proactive_time_of_day h = py_capitalize (classify_time_of_day h) \<longleftrightarrow> h \<noteq> 17 \<and> h \<noteq> 21"
proof -
  have "list_all (\<lambda>h. (proactive_time_of_day h = py_capitalize (classify_time_of_day h)) = (h \<noteq> 17 \<and> h \<noteq> 21)) [0..23]"
    by code_simp
  then show ?thesis using assms by (simp add: list_all_iff)
qed

end
