(* ===== verification/EnvScrubber.thy ===== *)
theory EnvScrubber
  imports PyText Prelude
begin

text \<open>
  The environment of the Claude subprocess: \<open>infrastructure/security/env_scrubber.py\<close>. The property: nothing
  outside the list of allowed names and prefixes reaches the subprocess, so no secret of the bot does.
\<close>

text \<open>\<open>str.upper\<close>: the sharp s becomes two letters; 181 and 255 have no capital below 256.\<close>

definition char_upper :: "char \<Rightarrow> string" where
  "char_upper c = (let n = of_char c :: nat
     in if n = 223 then ''SS''
        else if (97 \<le> n \<and> n \<le> 122) \<or> (224 \<le> n \<and> n \<le> 254 \<and> n \<noteq> 247) then [char_of (n - 32)]
        else [c])"

definition py_upper :: "string \<Rightarrow> string" where
  "py_upper s = concat (map char_upper s)"

definition env_allowlist :: "string list" where
  "env_allowlist = [''PATH'', ''HOME'', ''USERPROFILE'', ''APPDATA'', ''LOCALAPPDATA'', ''TEMP'', ''TMP'',
     ''SYSTEMROOT'', ''WINDIR'', ''COMSPEC'', ''PROGRAMFILES'', ''PROGRAMFILES(X86)'', ''CommonProgramFiles'',
     ''ANTHROPIC_API_KEY'', ''LANG'', ''LC_ALL'', ''LC_CTYPE'', ''LC_MESSAGES'', ''TZ'', ''AXOLENT_TIMEZONE'',
     ''NO_COLOR'', ''FORCE_COLOR'', ''PYTHONUNBUFFERED'', ''NODE_OPTIONS'', ''SSL_CERT_FILE'', ''SSL_CERT_DIR'',
     ''REQUESTS_CA_BUNDLE'', ''NODE_EXTRA_CA_CERTS'', ''CURL_CA_BUNDLE'']"

definition allowed_prefixes :: "string list" where
  "allowed_prefixes = [''CLAUDE_'', ''ANTHROPIC_'']"

definition env_allowed :: "string \<Rightarrow> bool" where
  "env_allowed key =
     (List.member env_allowlist (py_upper key) \<or> List.member env_allowlist key \<or>
      list_ex (\<lambda>p. py_startswith (py_upper key) p) allowed_prefixes)"

type_synonym environment = "(string \<times> string) list"

definition env_default :: "environment \<Rightarrow> environment \<Rightarrow> string \<Rightarrow> string \<Rightarrow> environment" where
  "env_default scrubbed os_env key dflt =
     (if map_of scrubbed key = None
      then scrubbed @ [(key, case map_of os_env key of Some v \<Rightarrow> v | None \<Rightarrow> dflt)] else scrubbed)"

definition backslash :: string where "backslash = [CHR 0x5C]"

definition build_scrubbed_env :: "bool \<Rightarrow> environment \<Rightarrow> environment option \<Rightarrow> environment" where
  "build_scrubbed_env on_windows os_env source_env =
     (let env = (case source_env of Some e \<Rightarrow> e | None \<Rightarrow> os_env);
          scrubbed = filter (\<lambda>kv. env_allowed (fst kv)) env;
          windows = ''C:'' @ backslash @ ''Windows''
      in if on_windows
         then env_default (env_default scrubbed os_env ''SYSTEMROOT'' windows) os_env ''COMSPEC''
                (windows @ backslash @ ''system32'' @ backslash @ ''cmd.exe'')
         else scrubbed)"

lemma secrets_not_allowed:
  "\<not> env_allowed ''TELEGRAM_BOT_TOKEN''" "\<not> env_allowed ''SENTRY_DSN''" "\<not> env_allowed ''AXOLENT_ENCRYPTION_KEY''"
  by code_simp+

lemma windows_names_allowed: "env_allowed ''SYSTEMROOT''" "env_allowed ''COMSPEC''"
  by code_simp+

lemma env_default_allowed:
  "env_allowed key \<Longrightarrow> list_all (\<lambda>kv. env_allowed (fst kv)) env \<Longrightarrow>
   list_all (\<lambda>kv. env_allowed (fst kv)) (env_default env os_env key dflt)"
  by (simp add: env_default_def)

lemma filtered_allowed: "list_all (\<lambda>kv. env_allowed (fst kv)) (filter (\<lambda>kv. env_allowed (fst kv)) env)"
  by (induction env) auto

text \<open>The subprocess of the Claude client sees only variables whose name is on the list or has one of
  the two prefixes, on every platform; on others than Windows it sees exactly those. In particular it never sees
  the bot token and the error reporting address.\<close>

theorem subprocess_sees_only_allowed_variables:
  "list_all (\<lambda>kv. env_allowed (fst kv)) (build_scrubbed_env on_windows os_env source_env) \<and>
   map_of (build_scrubbed_env on_windows os_env source_env) ''TELEGRAM_BOT_TOKEN'' = None \<and>
   map_of (build_scrubbed_env on_windows os_env source_env) ''SENTRY_DSN'' = None \<and>
   map_of (build_scrubbed_env False os_env source_env) k =
     (if env_allowed k then map_of (case source_env of Some e \<Rightarrow> e | None \<Rightarrow> os_env) k else None)"
proof -
  have a: "list_all (\<lambda>kv. env_allowed (fst kv)) (build_scrubbed_env w os_env source_env)" for w
    by (simp add: build_scrubbed_env_def Let_def env_default_allowed windows_names_allowed filtered_allowed)
  have "map_of (build_scrubbed_env w os_env source_env) k = None" if "\<not> env_allowed k" for w k
    using a [of w] that by (auto simp: map_of_eq_None_iff list_all_iff)
  moreover have "map_of (filter (\<lambda>kv. env_allowed (fst kv)) xs) k = (if env_allowed k then map_of xs k else None)"
    for xs :: environment by (induction xs) auto
  ultimately show ?thesis
    using a secrets_not_allowed by (simp add: build_scrubbed_env_def Let_def split: option.split)
qed

text \<open>The one entry of the list in mixed case matches no other spelling of the name.\<close>

lemma upper_case_common_files_are_dropped:
  "env_allowed ''CommonProgramFiles'' \<and> \<not> env_allowed ''COMMONPROGRAMFILES''"
  by code_simp

end
