(* ===== verification/SkillMatcher.thy ===== *)
theory SkillMatcher
  imports FingerprintMatcher HypothesisGuarantees StoreGuarantees PyReplace
begin

text \<open>
  \<open>skill_matcher.py\<close>: which learned skill a message triggers. Contracts are matched by their phrases, then
  hypotheses by their aliases, then by fingerprint. The matcher holds the contract table (with the platform for
  its checksums), the hypothesis tables, and the order in which the two matchable statuses are visited: they are a
  \<open>frozenset\<close> of strings, whose order differs between runs. Confidences are exact rationals. The texts of the
  explanations are left out.
\<close>

section \<open>Data\<close>

datatype match_error = HypothesisFailure hypothesis_error | ContractFailure store_error

definition lift_error :: "('e \<Rightarrow> 'f) \<Rightarrow> 'e + 'a \<Rightarrow> 'f + 'a" where
  "lift_error f r = (case r of Inl e \<Rightarrow> Inl (f e) | Inr x \<Rightarrow> Inr x)"

lemma lift_error_eq_Inr [simp]: "lift_error f r = Inr x \<longleftrightarrow> r = Inr x"
  by (cases r) (auto simp: lift_error_def)

definition match_score_threshold :: rat where "match_score_threshold = 7 / 10"

definition elo_normalizer :: rat where "elo_normalizer = 2000"

record skill_match =
  sx_hypothesis :: hypothesis
  sx_confidence :: rat
  sx_requires_confirmation :: bool
  sx_match_source :: string
  sx_contract :: "skill_contract option"

definition should_ask_user :: "skill_match \<Rightarrow> bool" where
  "should_ask_user m =
     (if h_status (sx_hypothesis m) = ''confirmed'' then True
      else if h_status (sx_hypothesis m) = ''active'' then False
      else True)"

record skill_matcher =
  kx_storage :: hypothesis_db
  kx_contract_store :: "(platform \<times> contract_table) option"
  kx_statuses :: "string list"

section \<open>Float arithmetic on ratings\<close>

fun float_div :: "pyfloat \<Rightarrow> rat \<Rightarrow> pyfloat" where
  "float_div (PFin a) d = PFin (a / d)"
| "float_div x d = x"

fun float_times :: "pyfloat \<Rightarrow> pyfloat \<Rightarrow> pyfloat" where
  "float_times (PFin a) (PFin b) = PFin (a * b)"
| "float_times PNaN y = PNaN"
| "float_times x PNaN = PNaN"
| "float_times (PFin a) y = (if a = 0 then PNaN else if (0 < a) = (y = PInf) then PInf else PNegInf)"
| "float_times x (PFin b) = (if b = 0 then PNaN else if (0 < b) = (x = PInf) then PInf else PNegInf)"
| "float_times x y = (if x = y then PInf else PNegInf)"

definition float_min :: "pyfloat \<Rightarrow> pyfloat \<Rightarrow> pyfloat" where
  "float_min a b = (if pf_less b a then b else a)"

definition elo_quotient :: "hypothesis \<Rightarrow> pyfloat" where
  "elo_quotient h = float_min (float_div (h_elo_rating h) elo_normalizer) (PFin 1)"

text \<open>
  The test against the threshold. The alias score is the minimum of 1.0 and something, the fingerprint score the
  product of a value from 0 to 1 and a quotient of at most 1, so what passes is a finite number.
\<close>

definition above_threshold :: "pyfloat \<Rightarrow> rat option" where
  "above_threshold c = (case c of PFin r \<Rightarrow> if match_score_threshold < r then Some r else None | _ \<Rightarrow> None)"

definition alias_score :: "pyfloat \<Rightarrow> hypothesis \<Rightarrow> pyfloat" where
  "alias_score alias_confidence h =
     float_min (PFin 1) (float_times (float_times alias_confidence (elo_quotient h)) (PFin (12 / 10)))"

section \<open>Contracts\<close>

definition normalize_german :: "string \<Rightarrow> string" where
  "normalize_german text = py_replace [CHR 0xDF] ''ss'' (py_lower (py_strip text))"

definition load_matchable_contracts :: "skill_matcher \<Rightarrow> int \<Rightarrow> match_error + skill_contract list" where
  "load_matchable_contracts mk user_id =
     (case kx_contract_store mk of
        None \<Rightarrow> Inr []
      | Some (pf, tb) \<Rightarrow> lift_error ContractFailure
          (bind_res (get_by_user pf tb user_id (Some ''confirmed'')) (\<lambda>a.
           bind_res (get_by_user pf tb user_id (Some ''active'')) (\<lambda>b. Inr (a @ b)))))"

definition contract_covered_hypothesis_ids :: "skill_matcher \<Rightarrow> int \<Rightarrow> match_error + string list" where
  "contract_covered_hypothesis_ids mk user_id =
     bind_res (load_matchable_contracts mk user_id) (\<lambda>cs.
       Inr (map (the \<circ> c_hypothesis_id) (filter (\<lambda>c. truthy (c_hypothesis_id c)) cs)))"

definition contract_to_hypothesis :: "skill_contract \<Rightarrow> int \<Rightarrow> hypothesis" where
  "contract_to_hypothesis c user_id =
     (let trigger = (case act_phrases (c_activation c) of [] \<Rightarrow> [] | p # _ \<Rightarrow> p);
          instruction = exec_instruction (c_execution c);
          claim = (if trigger \<noteq> [] then ''when I say '' @ trigger @ '', '' @ instruction else instruction);
          status = lc_status (c_lifecycle c)
      in default_hypothesis\<lparr>
           h_hypothesis_id := (case c_hypothesis_id c of Some i \<Rightarrow> if i \<noteq> [] then i else c_id c | None \<Rightarrow> c_id c),
           h_user_id := user_id, h_type := ''preference'', h_scope := default_hypothesis_scope,
           h_claim := claim,
           h_status := (if status \<noteq> ''confirmed'' \<and> status \<noteq> ''active'' then ''confirmed'' else status),
           h_version := c_contract_version c, h_elo_rating := PFin 2000, h_elo_games_played := 0,
           h_bayes_confidence := PFin 1, h_support_count := 1, h_contradict_count := 0,
           h_source_type := ''learn_command'', h_decay_immune := True, h_created_at := c_created_at c,
           h_last_applied := None, h_last_seen := c_updated_at c\<rparr>)"

definition phrase_matches :: "string \<Rightarrow> string \<Rightarrow> bool" where
  "phrase_matches raw_text phrase =
     (let raw_lower = py_lower (py_strip raw_text); phrase_lower = py_lower (py_strip phrase)
      in raw_lower = phrase_lower \<or> normalize_german raw_lower = normalize_german phrase_lower)"

definition triggers_on :: "string \<Rightarrow> skill_contract \<Rightarrow> bool" where
  "triggers_on raw_text c =
     (act_mode (c_activation c) = ''exact_phrase'' \<and> list_ex (phrase_matches raw_text) (act_phrases (c_activation c)))"

definition contract_match :: "int \<Rightarrow> skill_contract \<Rightarrow> skill_match" where
  "contract_match user_id c =
     \<lparr>sx_hypothesis = contract_to_hypothesis c user_id, sx_confidence = 1,
      sx_requires_confirmation = (lc_status (c_lifecycle c) = ''confirmed''),
      sx_match_source = ''contract'', sx_contract = Some c\<rparr>"

definition collect_all_contract_matches ::
    "skill_matcher \<Rightarrow> normalized_event \<Rightarrow> int \<Rightarrow> match_error + skill_match list" where
  "collect_all_contract_matches mk event user_id =
     (if kx_contract_store mk = None \<or> py_lower (py_strip (ev_raw_text event)) = [] then Inr []
      else bind_res (load_matchable_contracts mk user_id) (\<lambda>cs.
        Inr (map (contract_match user_id) (filter (triggers_on (ev_raw_text event)) cs))))"

definition try_contract_match ::
    "skill_matcher \<Rightarrow> normalized_event \<Rightarrow> int \<Rightarrow> match_error + skill_match option" where
  "try_contract_match mk event user_id =
     (if kx_contract_store mk = None \<or> py_lower (py_strip (ev_raw_text event)) = [] then Inr None
      else bind_res (load_matchable_contracts mk user_id) (\<lambda>cs.
        Inr (map_option (contract_match user_id) (find (triggers_on (ev_raw_text event)) cs))))"

section \<open>Aliases\<close>

text \<open>
  The join of aliases with the hypotheses of the user. Of the rows ordered by falling confidence the code takes the
  first; between equal confidences the order of the rows decides. \<open>LOWER\<close> of SQLite folds ASCII letters only.
\<close>

definition matchable_row :: "hypothesis_db \<Rightarrow> int \<Rightarrow> string \<Rightarrow> bool" where
  "matchable_row db user_id i =
     list_ex (\<lambda>r. hr_hypothesis_id r = i \<and> hr_user_id r = user_id \<and>
                  List.member [''confirmed'', ''active''] (hr_status r)) (db_hypotheses db)"

definition alias_rows :: "hypothesis_db \<Rightarrow> int \<Rightarrow> (string \<Rightarrow> string) \<Rightarrow> string \<Rightarrow> alias_row list" where
  "alias_rows db user_id column value_of =
     filter (\<lambda>a. column (al_alias_text a) = value_of \<and> matchable_row db user_id (al_hypothesis_id a)) (db_aliases db)"

definition best_alias :: "alias_row \<Rightarrow> alias_row list \<Rightarrow> alias_row" where
  "best_alias a as = foldl (\<lambda>b r. if pf_less (al_confidence b) (al_confidence r) then r else b) a as"

definition find_alias :: "hypothesis_db \<Rightarrow> int \<Rightarrow> string \<Rightarrow> alias_row option" where
  "find_alias db user_id raw_text =
     (case alias_rows db user_id ascii_lower (py_lower (py_strip raw_text)) of
        a # as \<Rightarrow> Some (best_alias a as)
      | [] \<Rightarrow>
          (case alias_rows db user_id (py_replace [CHR 0xDF] ''ss'' \<circ> ascii_lower) (normalize_german raw_text) of
             a # as \<Rightarrow> Some (best_alias a as)
           | [] \<Rightarrow> None))"

definition try_alias_match ::
    "skill_matcher \<Rightarrow> normalized_event \<Rightarrow> int \<Rightarrow> match_error + skill_match option" where
  "try_alias_match mk event user_id =
     (if py_lower (py_strip (ev_raw_text event)) = [] then Inr None
      else case find_alias (kx_storage mk) user_id (ev_raw_text event) of
             None \<Rightarrow> Inr None
           | Some a \<Rightarrow>
               bind_res (lift_error HypothesisFailure (get_hypothesis (kx_storage mk) (al_hypothesis_id a))) (\<lambda>found.
                 Inr (case found of
                        None \<Rightarrow> None
                      | Some h \<Rightarrow>
                          (case above_threshold (alias_score (al_confidence a) h) of
                             None \<Rightarrow> None
                           | Some c \<Rightarrow> Some \<lparr>sx_hypothesis = h, sx_confidence = c,
                               sx_requires_confirmation = (h_status h = ''confirmed''),
                               sx_match_source = ''alias'', sx_contract = None\<rparr>))))"

section \<open>Fingerprints\<close>

definition scope_compatible :: "hypothesis_scope \<Rightarrow> dict \<Rightarrow> bool" where
  "scope_compatible s hint =
     (let agrees = (\<lambda>own key. \<not> json_truthy own \<or>
              (let given = dget hint key (JStr []) in \<not> json_truthy given \<or> own = given))
      in (\<not> json_truthy (hs_project s) \<and> \<not> json_truthy (hs_client s)) \<or>
         (agrees (hs_project s) ''project'' \<and> agrees (hs_client s) ''client''))"

definition hypothesis_to_event :: "hypothesis \<Rightarrow> normalized_event \<Rightarrow> normalized_event" where
  "hypothesis_to_event h reference =
     \<lparr>ev_event_id = ''synth_'' @ h_hypothesis_id h, ev_user_id = h_user_id h,
      ev_timestamp = ev_timestamp reference, ev_raw_text = h_claim h, ev_intent = ev_intent reference,
      ev_domain = ev_domain reference, ev_format_type = ev_format_type reference,
      ev_constraints = ev_constraints reference,
      ev_scope = [(''project'', hs_project (h_scope h)), (''client'', hs_client (h_scope h))],
      ev_language = ev_language reference, ev_correction_keywords_present = False,
      ev_is_re_formulation = False,
      ev_fingerprint_hash = (case h_pattern_hash h of Some p \<Rightarrow> p | None \<Rightarrow> [])\<rparr>"

fun hypotheses_of_statuses :: "hypothesis_db \<Rightarrow> int \<Rightarrow> string list \<Rightarrow> hypothesis_error + hypothesis list" where
  "hypotheses_of_statuses db user_id [] = Inr []"
| "hypotheses_of_statuses db user_id (s # ss) =
     bind_res (get_hypotheses_by_user db user_id (Some s) 100) (\<lambda>hs.
     bind_res (hypotheses_of_statuses db user_id ss) (\<lambda>hs'. Inr (hs @ hs')))"

definition load_matchable_hypotheses :: "skill_matcher \<Rightarrow> int \<Rightarrow> match_error + hypothesis list" where
  "load_matchable_hypotheses mk user_id =
     lift_error HypothesisFailure (hypotheses_of_statuses (kx_storage mk) user_id (kx_statuses mk))"

definition fingerprint_score :: "normalized_event \<Rightarrow> hypothesis \<Rightarrow> pyfloat" where
  "fingerprint_score event h =
     float_times (PFin (fm_similarity_score (compute_similarity event (hypothesis_to_event h event) None 0)))
       (elo_quotient h)"

definition fingerprint_match_of :: "normalized_event \<Rightarrow> dict \<Rightarrow> hypothesis \<Rightarrow> skill_match option" where
  "fingerprint_match_of event scope_hint h =
     (if scope_hint \<noteq> [] \<and> \<not> scope_compatible (h_scope h) scope_hint then None
      else case above_threshold (fingerprint_score event h) of
             None \<Rightarrow> None
           | Some c \<Rightarrow> Some \<lparr>sx_hypothesis = h, sx_confidence = c,
               sx_requires_confirmation = (h_status h = ''confirmed''),
               sx_match_source = ''fingerprint'', sx_contract = None\<rparr>)"

definition by_confidence :: "skill_match list \<Rightarrow> skill_match list" where
  "by_confidence ms = sort_key (\<lambda>m. - sx_confidence m) ms"

definition try_fingerprint_match ::
    "skill_matcher \<Rightarrow> normalized_event \<Rightarrow> int \<Rightarrow> dict \<Rightarrow> match_error + skill_match list" where
  "try_fingerprint_match mk event user_id scope_hint =
     bind_res (load_matchable_hypotheses mk user_id) (\<lambda>hs.
       Inr (by_confidence (List.map_filter (fingerprint_match_of event scope_hint) hs)))"

definition resolve_collision :: "skill_match list \<Rightarrow> skill_match option" where
  "resolve_collision ms =
     (case ms of
        [] \<Rightarrow> None
      | [m] \<Rightarrow> Some m
      | first # _ \<Rightarrow>
          (let result = resolve (map sx_hypothesis ms);
               tie = (if cr_requires_user_decision result \<and> cr_candidates result \<noteq> []
                      then first\<lparr>sx_requires_confirmation := True, sx_contract := None\<rparr> else first)
           in Some (case cr_winner result of
                      None \<Rightarrow> tie
                    | Some w \<Rightarrow>
                        (case find (\<lambda>m. h_hypothesis_id (sx_hypothesis m) = h_hypothesis_id w) ms of
                           Some m \<Rightarrow> m | None \<Rightarrow> tie))))"

section \<open>The two entry points\<close>

definition covered_by :: "string list \<Rightarrow> skill_match \<Rightarrow> bool" where
  "covered_by ids m = List.member ids (h_hypothesis_id (sx_hypothesis m))"

definition match_skill ::
    "skill_matcher \<Rightarrow> normalized_event \<Rightarrow> dict \<Rightarrow> match_error + skill_match option" where
  "match_skill mk event scope_hint =
     (let user_id = ev_user_id event in
      bind_res (try_contract_match mk event user_id) (\<lambda>by_contract.
      if by_contract \<noteq> None then Inr by_contract
      else
        bind_res (contract_covered_hypothesis_ids mk user_id) (\<lambda>ids.
        bind_res (try_alias_match mk event user_id) (\<lambda>by_alias.
        case filter (\<lambda>m. \<not> covered_by ids m) (case by_alias of Some m \<Rightarrow> [m] | None \<Rightarrow> []) of
          m # _ \<Rightarrow> Inr (Some m)
        | [] \<Rightarrow>
            bind_res (try_fingerprint_match mk event user_id scope_hint) (\<lambda>ms.
            Inr (resolve_collision (filter (\<lambda>m. \<not> covered_by ids m) ms)))))))"

text \<open>The list of all matches; each hypothesis is taken the first time it is seen.\<close>

fun add_unseen :: "string list \<Rightarrow> skill_match list \<Rightarrow> skill_match list \<Rightarrow> skill_match list" where
  "add_unseen ids seen [] = seen"
| "add_unseen ids seen (m # ms) =
     add_unseen ids (if covered_by (map (h_hypothesis_id \<circ> sx_hypothesis) seen) m \<or> covered_by ids m
                     then seen else seen @ [m]) ms"

definition match_all_skills ::
    "skill_matcher \<Rightarrow> normalized_event \<Rightarrow> dict \<Rightarrow> match_error + skill_match list" where
  "match_all_skills mk event scope_hint =
     (let user_id = ev_user_id event in
      bind_res (collect_all_contract_matches mk event user_id) (\<lambda>by_contract.
      bind_res (contract_covered_hypothesis_ids mk user_id) (\<lambda>ids.
      bind_res (try_alias_match mk event user_id) (\<lambda>by_alias.
      bind_res (try_fingerprint_match mk event user_id scope_hint) (\<lambda>ms.
      Inr (by_confidence
        (add_unseen ids
          (add_unseen ids (add_unseen [] [] by_contract) (case by_alias of Some m \<Rightarrow> [m] | None \<Rightarrow> []))
          ms)))))))"

section \<open>What is matched\<close>

lemma load_rows_mem:
  "load_rows pf rows = Inr cs \<Longrightarrow> c \<in> set cs \<Longrightarrow> \<exists>row \<in> set rows. load_contract_from_row pf row True = Inr c"
  by (induction rows arbitrary: cs)
    (auto simp: bind_res_eq_Inr split: sum.splits store_error.splits)

lemma loaded_contract_status:
  assumes "get_by_user pf tb u (Some s) = Inr cs" "c \<in> set cs" "s \<noteq> []"
  shows "lc_status (c_lifecycle c) = s"
proof -
  obtain row where "row_lifecycle_status row = s" "load_contract_from_row pf row True = Inr c"
    using assms load_rows_mem by (fastforce simp: get_by_user_def truthy_def)
  then show ?thesis
    by (auto simp: load_contract_from_row_def bind_res_eq_Inr assert_db_json_invariant_def
        db_json_mismatches_def Let_def split: if_splits)
qed

lemma matchable_contract_status:
  assumes "load_matchable_contracts mk u = Inr cs" "c \<in> set cs"
  shows "lc_status (c_lifecycle c) = ''confirmed'' \<or> lc_status (c_lifecycle c) = ''active''"
  using assms loaded_contract_status
  by (fastforce simp: load_matchable_contracts_def bind_res_eq_Inr split: option.splits)

lemma above_threshold_Some: "above_threshold x = Some c \<longleftrightarrow> x = PFin c \<and> 7 / 10 < c"
  by (auto simp: above_threshold_def match_score_threshold_def split: pyfloat.split)

lemma elo_quotient_le: "elo_quotient h = PFin q \<Longrightarrow> q \<le> 1" "elo_quotient h \<noteq> PInf"
  by (cases "h_elo_rating h"; simp add: elo_quotient_def float_min_def split: if_splits)+

lemma alias_score_le: "alias_score a h = PFin r \<Longrightarrow> r \<le> 1"
  by (cases "float_times (float_times a (elo_quotient h)) (PFin (12 / 10))")
    (auto simp: alias_score_def float_min_def split: if_splits)

lemma fingerprint_score_le:
  assumes "fingerprint_score event h = PFin r"
  shows "r \<le> 1"
proof -
  let ?s = "fm_similarity_score (compute_similarity event (hypothesis_to_event h event) None 0)"
  have s: "0 \<le> ?s" "?s \<le> 1" using similarity_is_a_similarity by blast+
  obtain q where q: "elo_quotient h = PFin q" "r = ?s * q"
    using assms by (cases "elo_quotient h") (auto simp: fingerprint_score_def split: if_splits)
  have "?s * q \<le> ?s * 1" using s(1) elo_quotient_le(1) [OF q(1)] by (intro mult_left_mono) auto
  then show ?thesis using q(2) s(2) by simp
qed

lemma status_hypothesis:
  assumes "get_hypotheses_by_user db u (Some s) n = Inr hs" "h \<in> set hs"
  shows "h_user_id h = u \<and> h_status h = s"
proof -
  have "rows_to_hypotheses rs = Inr hs \<Longrightarrow> h \<in> set hs \<Longrightarrow> \<exists>r \<in> set rs. row_to_hypothesis r = Inr h" for rs hs
    by (induction rs arbitrary: hs) (auto simp: bind_res_eq_Inr)
  with assms obtain r where r: "row_to_hypothesis r = Inr h" "hr_user_id r = u" "hr_status r = s"
    using set_sql_limit by (fastforce simp: get_hypotheses_by_user_def)
  then show ?thesis using row_to_hypothesis_fields [OF r(1)] by simp
qed

lemma hypothesis_of_statuses:
  assumes "hypotheses_of_statuses db u ss = Inr hs" "h \<in> set hs"
  shows "h_user_id h = u \<and> h_status h \<in> set ss"
  using assms
  by (induction ss arbitrary: hs) (auto simp: bind_res_eq_Inr dest: status_hypothesis)

definition applicable :: "int \<Rightarrow> skill_match \<Rightarrow> bool" where
  "applicable u m \<longleftrightarrow>
     h_user_id (sx_hypothesis m) = u \<and> List.member [''confirmed'', ''active''] (h_status (sx_hypothesis m))
     \<and> 7 / 10 < sx_confidence m \<and> sx_confidence m \<le> 1
     \<and> (\<not> sx_requires_confirmation m \<longrightarrow> h_status (sx_hypothesis m) = ''active'')"

lemma contract_match_applicable:
  assumes "load_matchable_contracts mk u = Inr cs" "c \<in> set cs"
  shows "applicable u (contract_match u c)"
  using matchable_contract_status [OF assms]
  by (auto simp: applicable_def contract_match_def contract_to_hypothesis_def Let_def)

lemma set_map_filter: "m \<in> set (List.map_filter f xs) \<longleftrightarrow> (\<exists>x \<in> set xs. f x = Some m)"
  by (force simp: List.map_filter_def)

lemma matchable_row_fields:
  assumes "matchable_row db u i" "get_hypothesis db i = Inr (Some h)" "hypothesis_inv db"
  shows "h_user_id h = u" "h_status h = ''confirmed'' \<or> h_status h = ''active''"
proof -
  obtain r where r: "r \<in> set (db_hypotheses db)" "hr_hypothesis_id r = i" "hr_user_id r = u"
      "hr_status r = ''confirmed'' \<or> hr_status r = ''active''"
    using assms(1) by (auto simp: matchable_row_def list_ex_iff)
  obtain r' where r': "find (\<lambda>r. hr_hypothesis_id r = i) (db_hypotheses db) = Some r'" "row_to_hypothesis r' = Inr h"
    using assms(2) by (auto simp: get_hypothesis_Some hypothesis_row_by_id_def)
  then have "r' \<in> set (db_hypotheses db)" "hr_hypothesis_id r' = i" by (auto simp: find_Some_iff)
  then have "r' = r"
    using r(1,2) assms(3) by (auto simp: hypothesis_inv_def distinct_map dest: inj_onD)
  then show "h_user_id h = u" "h_status h = ''confirmed'' \<or> h_status h = ''active''"
    using r row_to_hypothesis_fields [OF r'(2)] by auto
qed

lemma best_alias_in: "best_alias a as \<in> set (a # as)"
proof (induction as arbitrary: a)
  case (Cons b as)
  from Cons.IH [of "if pf_less (al_confidence a) (al_confidence b) then b else a"]
  show ?case by (auto simp: best_alias_def split: if_splits)
qed (simp add: best_alias_def)

lemma find_alias_matchable: "find_alias db u t = Some a \<Longrightarrow> matchable_row db u (al_hypothesis_id a)"
proof -
  assume "find_alias db u t = Some a"
  then obtain b as column v where "a = best_alias b as" "alias_rows db u column v = b # as"
    by (auto simp: find_alias_def split: list.splits)
  then have "a \<in> set (alias_rows db u column v)" using best_alias_in by metis
  then show ?thesis by (simp add: alias_rows_def)
qed

lemma alias_match_applicable:
  assumes "try_alias_match mk event u = Inr (Some m)" "hypothesis_inv (kx_storage mk)"
  shows "applicable u m" "sx_contract m = None"
proof -
  obtain a h c where a: "find_alias (kx_storage mk) u (ev_raw_text event) = Some a"
      "get_hypothesis (kx_storage mk) (al_hypothesis_id a) = Inr (Some h)"
      "above_threshold (alias_score (al_confidence a) h) = Some c"
      "m = \<lparr>sx_hypothesis = h, sx_confidence = c, sx_requires_confirmation = (h_status h = ''confirmed''),
            sx_match_source = ''alias'', sx_contract = None\<rparr>"
    using assms(1) by (auto simp: try_alias_match_def bind_res_eq_Inr split: if_splits option.splits)
  from matchable_row_fields [OF find_alias_matchable [OF a(1)] a(2) assms(2)] a(3)
  show "applicable u m" "sx_contract m = None"
    by (auto simp: a(4) applicable_def above_threshold_Some dest: alias_score_le)
qed

lemma fingerprint_match_applicable:
  assumes "try_fingerprint_match mk event u hint = Inr ms" "m \<in> set ms"
    and "list_all (List.member [''confirmed'', ''active'']) (kx_statuses mk)"
  shows "applicable u m" "sx_contract m = None"
proof -
  obtain hs where hs: "hypotheses_of_statuses (kx_storage mk) u (kx_statuses mk) = Inr hs"
      "m \<in> set (List.map_filter (fingerprint_match_of event hint) hs)"
    using assms(1,2)
    by (auto simp: try_fingerprint_match_def load_matchable_hypotheses_def bind_res_eq_Inr by_confidence_def)
  then obtain h where h: "h \<in> set hs" "fingerprint_match_of event hint h = Some m"
    by (auto simp: set_map_filter)
  obtain c where "h_user_id h = u" "h_status h \<in> set (kx_statuses mk)" "fingerprint_score event h = PFin c"
      "7 / 10 < c" "m = \<lparr>sx_hypothesis = h, sx_confidence = c, sx_requires_confirmation = (h_status h = ''confirmed''),
            sx_match_source = ''fingerprint'', sx_contract = None\<rparr>"
    using hypothesis_of_statuses [OF hs(1) h(1)] h(2)
    by (auto simp: fingerprint_match_of_def above_threshold_Some split: if_splits option.splits)
  then show "applicable u m" "sx_contract m = None"
    using assms(3) fingerprint_score_le by (auto simp: applicable_def list_all_iff)
qed

lemma resolve_collision_from:
  assumes "resolve_collision ms = Some m"
  obtains m0 where "m0 \<in> set ms" "m = m0 \<or> m = m0\<lparr>sx_requires_confirmation := True, sx_contract := None\<rparr>"
proof -
  consider m0 where "ms = [m0]" | m0 m1 ms' where "ms = m0 # m1 # ms'"
    using assms by (cases ms rule: remdups_adj.cases) (auto simp: resolve_collision_def)
  then show thesis
  proof cases
    case 1
    then show thesis using assms that by (simp add: resolve_collision_def)
  next
    case 2
    then show thesis using assms that [of m0] that [of m]
      by (auto simp: resolve_collision_def Let_def find_Some_iff split: option.splits if_splits)
  qed
qed

lemma resolve_collision_id:
  "resolve_collision ms = Some m \<Longrightarrow>
   h_hypothesis_id (sx_hypothesis m) \<in> set (map (h_hypothesis_id \<circ> sx_hypothesis) ms)"
  by (erule resolve_collision_from) auto

lemma resolve_collision_None [simp]: "resolve_collision ms = None \<longleftrightarrow> ms = []"
  by (auto simp: resolve_collision_def Let_def split: list.split)

text \<open>What \<open>match_skill\<close> returns is a contract, an alias match or a fingerprint match.\<close>

lemma match_skill_cases:
  assumes "match_skill mk event hint = Inr (Some m)"
  obtains (by_contract) cs c where "load_matchable_contracts mk (ev_user_id event) = Inr cs" "c \<in> set cs"
      "triggers_on (ev_raw_text event) c" "m = contract_match (ev_user_id event) c"
    | (by_alias) ids where "contract_covered_hypothesis_ids mk (ev_user_id event) = Inr ids" "\<not> covered_by ids m"
      "try_alias_match mk event (ev_user_id event) = Inr (Some m)"
    | (by_fingerprint) ids ms m0 where "contract_covered_hypothesis_ids mk (ev_user_id event) = Inr ids"
      "try_fingerprint_match mk event (ev_user_id event) hint = Inr ms" "m0 \<in> set ms" "\<not> covered_by ids m0"
      "m = m0 \<or> m = m0\<lparr>sx_requires_confirmation := True, sx_contract := None\<rparr>"
proof -
  let ?u = "ev_user_id event"
  obtain bc where bc: "try_contract_match mk event ?u = Inr bc"
    using assms by (auto simp: match_skill_def Let_def bind_res_eq_Inr)
  show thesis
  proof (cases bc)
    case (Some m')
    then have "m' = m" using assms bc by (simp add: match_skill_def Let_def)
    then show thesis using bc Some by_contract
      by (auto simp: try_contract_match_def bind_res_eq_Inr find_Some_iff split: if_splits) (metis nth_mem)
  next
    case None
    then obtain ids ba where ids: "contract_covered_hypothesis_ids mk ?u = Inr ids" "try_alias_match mk event ?u = Inr ba"
      using assms bc by (auto simp: match_skill_def Let_def bind_res_eq_Inr)
    show thesis
    proof (cases "\<exists>m'. ba = Some m' \<and> \<not> covered_by ids m'")
      case True
      then show thesis using assms bc None ids by_alias by (auto simp: match_skill_def Let_def)
    next
      case False
      then have "filter (\<lambda>m. \<not> covered_by ids m) (case ba of Some m \<Rightarrow> [m] | None \<Rightarrow> []) = []"
        by (auto split: option.split)
      then obtain ms where "try_fingerprint_match mk event ?u hint = Inr ms"
          "resolve_collision (filter (\<lambda>m. \<not> covered_by ids m) ms) = Some m"
        using assms bc None ids by (auto simp: match_skill_def Let_def bind_res_eq_Inr)
      then show thesis using by_fingerprint ids(1) by (auto elim!: resolve_collision_from)
    qed
  qed
qed

lemma match_skill_applicable:
  assumes "hypothesis_inv (kx_storage mk)" and "list_all (List.member [''confirmed'', ''active'']) (kx_statuses mk)"
    and "match_skill mk event hint = Inr (Some m)"
  shows "applicable (ev_user_id event) m \<and>
    (case sx_contract m of
       Some c \<Rightarrow> triggers_on (ev_raw_text event) c
         \<and> (\<exists>cs. load_matchable_contracts mk (ev_user_id event) = Inr cs \<and> c \<in> set cs)
     | None \<Rightarrow> (\<exists>ids. contract_covered_hypothesis_ids mk (ev_user_id event) = Inr ids \<and> \<not> covered_by ids m))"
  using assms(3)
proof (cases rule: match_skill_cases)
  case (by_contract cs c)
  then show ?thesis using contract_match_applicable [OF by_contract(1,2)] by (simp add: contract_match_def)
next
  case (by_alias ids)
  then show ?thesis using alias_match_applicable [OF by_alias(3) assms(1)] by simp
next
  case (by_fingerprint ids ms m0)
  then show ?thesis using fingerprint_match_applicable [OF by_fingerprint(2,3) assms(2)]
    by (auto simp: applicable_def covered_by_def)
qed

text \<open>
  C11: What the matcher returns may be applied: it belongs to the user of the message, is confirmed or active, has a
  confidence above 0.7 and at most 1, and asks for confirmation unless it is active. A contract that it returns is
  one of the user's loadable contracts and one of its phrases is the message; a hypothesis it returns is not one
  that a confirmed or active contract has replaced.
\<close>

theorem matched_skill_is_applicable:
  assumes "hypothesis_inv (kx_storage mk)" and "list_all (List.member [''confirmed'', ''active'']) (kx_statuses mk)"
    and "match_skill mk event hint = Inr (Some m)"
  shows "applicable (ev_user_id event) m \<and>
    (case sx_contract m of
       Some c \<Rightarrow> triggers_on (ev_raw_text event) c
         \<and> (\<exists>cs. load_matchable_contracts mk (ev_user_id event) = Inr cs \<and> c \<in> set cs)
     | None \<Rightarrow> (\<exists>ids. contract_covered_hypothesis_ids mk (ev_user_id event) = Inr ids \<and> \<not> covered_by ids m))"
  by (rule match_skill_applicable [OF assms])

lemma add_unseen_ids:
  "set (map (h_hypothesis_id \<circ> sx_hypothesis) (add_unseen ids seen ms)) =
     set (map (h_hypothesis_id \<circ> sx_hypothesis) seen)
     \<union> set (map (h_hypothesis_id \<circ> sx_hypothesis) (filter (\<lambda>m. \<not> covered_by ids m) ms))"
  by (induction ms arbitrary: seen) (auto simp: covered_by_def)

text \<open>
  The skill that is applied and the list of all matches agree: when neither of the two raises, there is a match
  exactly when the list is not empty, and the match is one of the list.
\<close>

theorem match_agrees_with_match_all:
  assumes "match_skill mk event hint = Inr r" and "match_all_skills mk event hint = Inr ms"
  shows "(r = None \<longleftrightarrow> ms = []) \<and>
    (case r of None \<Rightarrow> True
     | Some m \<Rightarrow> h_hypothesis_id (sx_hypothesis m) \<in> set (map (h_hypothesis_id \<circ> sx_hypothesis) ms))"
proof -
  let ?u = "ev_user_id event" and ?i = "h_hypothesis_id \<circ> sx_hypothesis"
  obtain bc ids ba fs where all: "collect_all_contract_matches mk event ?u = Inr bc"
      "contract_covered_hypothesis_ids mk ?u = Inr ids" "try_alias_match mk event ?u = Inr ba"
      "try_fingerprint_match mk event ?u hint = Inr fs"
      "ms = by_confidence (add_unseen ids (add_unseen ids (add_unseen [] [] bc)
              (case ba of Some m \<Rightarrow> [m] | None \<Rightarrow> [])) fs)"
    using assms(2) by (auto simp: match_all_skills_def Let_def bind_res_eq_Inr)
  have un: "filter (\<lambda>m. \<not> covered_by [] m) xs = xs" for xs by (simp add: covered_by_def)
  have ids_ms: "set (map ?i ms) = set (map ?i bc)
      \<union> set (map ?i (filter (\<lambda>m. \<not> covered_by ids m) (case ba of Some m \<Rightarrow> [m] | None \<Rightarrow> [])))
      \<union> set (map ?i (filter (\<lambda>m. \<not> covered_by ids m) fs))"
    unfolding all(5) by_confidence_def set_map set_sort
    by (simp only: set_map [symmetric] add_unseen_ids un) (simp add: Un_assoc)
  have "\<exists>b. try_contract_match mk event ?u = Inr b \<and> (b = None \<longleftrightarrow> bc = []) \<and> (\<forall>m. b = Some m \<longrightarrow> m \<in> set bc)"
    using all(1) by (auto simp: collect_all_contract_matches_def try_contract_match_def bind_res_eq_Inr
        filter_empty_conv find_None_iff find_Some_iff split: if_splits)
  then obtain b where b: "try_contract_match mk event ?u = Inr b" "b = None \<longleftrightarrow> bc = []"
      "\<And>m. b = Some m \<Longrightarrow> m \<in> set bc" by blast
  let ?uncovered = "filter (\<lambda>m. \<not> covered_by ids m) (case ba of Some m \<Rightarrow> [m] | None \<Rightarrow> [])"
  have r: "r = (if b \<noteq> None then b else case ?uncovered of m # _ \<Rightarrow> Some m
                | [] \<Rightarrow> resolve_collision (filter (\<lambda>m. \<not> covered_by ids m) fs))"
    using assms(1) b(1) all by (auto simp: match_skill_def Let_def split: list.splits)
  have empty: "ms = [] \<longleftrightarrow> set (map ?i ms) = {}" by simp
  show ?thesis
  proof (cases b)
    case (Some m)
    then show ?thesis using b unfolding empty ids_ms by (auto simp: r)
  next
    case None
    show ?thesis
    proof (cases ?uncovered)
      case (Cons m xs)
      then show ?thesis using None b(2) unfolding empty ids_ms by (simp add: r)
    next
      case Nil
      let ?fs = "filter (\<lambda>m. \<not> covered_by ids m) fs"
      have res: "r = resolve_collision ?fs" using None Nil by (simp add: r)
      have ids: "set (map ?i ms) = set (map ?i ?fs)" using None b(2) Nil unfolding ids_ms by simp
      have "r = None \<longleftrightarrow> ?fs = []" unfolding res by (rule resolve_collision_None)
      moreover have "ms = [] \<longleftrightarrow> ?fs = []" unfolding empty ids by (auto simp: filter_empty_conv)
      moreover have "h_hypothesis_id (sx_hypothesis m) \<in> set (map ?i ms)" if "r = Some m" for m
        unfolding ids using that res resolve_collision_id by metis
      ultimately show ?thesis by (auto split: option.split)
    qed
  qed
qed

section \<open>Witnesses\<close>

definition sample_alias :: alias_row where
  "sample_alias = \<lparr>al_alias_id = ''a1'', al_hypothesis_id = ''hyp_1'', al_alias_text = ''Kurz bitte'',
     al_confidence = PFin 1, al_evidence_count = 1, al_first_seen = ''t'', al_last_seen = ''t''\<rparr>"

definition sample_matcher :: skill_matcher where
  "sample_matcher = \<lparr>kx_storage = (sample_db ''active'')\<lparr>db_aliases := [sample_alias]\<rparr>,
     kx_contract_store = None, kx_statuses = [''active'', ''confirmed'']\<rparr>"

definition message_event :: "string \<Rightarrow> normalized_event" where
  "message_event t = \<lparr>ev_event_id = ''evt_1'', ev_user_id = 7, ev_timestamp = ''t'', ev_raw_text = t,
     ev_intent = ''chat'', ev_domain = [], ev_format_type = [], ev_constraints = [], ev_scope = [],
     ev_language = ''de'', ev_correction_keywords_present = False, ev_is_re_formulation = False,
     ev_fingerprint_hash = []\<rparr>"

definition alias_hit :: skill_match where
  "alias_hit = \<lparr>sx_hypothesis = sample_hypothesis\<lparr>h_status := ''active''\<rparr>, sx_confidence = 9 / 10,
     sx_requires_confirmation = False, sx_match_source = ''alias'', sx_contract = None\<rparr>"

lemma sample_matcher_inv: "hypothesis_inv (kx_storage sample_matcher)"
proof -
  have "hypothesis_inv (sample_db ''active'')" by (rule hypothesis_reachable_inv [OF sample_db_reachable])
  moreover have "references (kx_storage sample_matcher) = [''hyp_1'']"
    by (simp add: references_def sample_matcher_def sample_alias_def sample_db_def init_schema_def)
  ultimately show ?thesis
    by (simp add: hypothesis_inv_def sample_matcher_def sample_db_def sample_alias_def init_schema_def
        hypothesis_to_row_def sample_hypothesis_def)
qed

lemma sample_lookup:
  "get_hypothesis (kx_storage sample_matcher) ''hyp_1'' = Inr (Some (sample_hypothesis\<lparr>h_status := ''active''\<rparr>))"
  by (simp add: get_hypothesis_def hypothesis_row_by_id_def sample_matcher_def sample_db_def init_schema_def
      row_to_hypothesis_def hypothesis_to_row_def sample_hypothesis_def default_hypothesis_def
      scope_to_json_def scope_from_json_def default_hypothesis_scope_def py_tuple.simps bind_res_def)


lemma sample_match: "match_skill sample_matcher (message_event ''kurz bitte'') [] = Inr (Some alias_hit)"
  by code_simp

lemma matched_skill_is_applicable_witness: "applicable 7 alias_hit"
proof -
  have "list_all (List.member [''confirmed'', ''active'']) (kx_statuses sample_matcher)"
    by (simp add: sample_matcher_def)
  from matched_skill_is_applicable [OF sample_matcher_inv this sample_match]
  show ?thesis by (simp add: message_event_def)
qed

lemma match_agrees_with_match_all_witness:
  "\<exists>ms. match_all_skills sample_matcher (message_event ''kurz bitte'') [] = Inr ms \<and> ms \<noteq> []"
proof -
  have "is_ok (match_all_skills sample_matcher (message_event ''kurz bitte'') [])" by code_simp
  then obtain ms where ms: "match_all_skills sample_matcher (message_event ''kurz bitte'') [] = Inr ms"
    by (cases "match_all_skills sample_matcher (message_event ''kurz bitte'') []") auto
  from match_agrees_with_match_all [OF sample_match this] ms show ?thesis by auto
qed

section \<open>Where the matcher departs from its purpose\<close>

text \<open>
  The event that stands for a hypothesis takes intent, domain, format and constraints from the message itself, so
  that the score is at least 0.85 whatever the message says: without a scope every hypothesis with a rating from
  1565 on matches every message.
\<close>

lemma fingerprint_ignores_the_message:
  "fm_similarity_score (compute_similarity event (hypothesis_to_event h event) None t) =
     85 / 100 + 15 / 100 * scope_similarity (ev_scope event) (ev_scope (hypothesis_to_event h event))"
proof -
  let ?e = "hypothesis_to_event h event"
  have "prefix_match (ev_intent event) (ev_intent ?e) = 1" "exact_match (ev_domain event) (ev_domain ?e) = 1"
    "exact_match (ev_format_type event) (ev_format_type ?e) = 1"
    "dict_overlap (ev_constraints event) (ev_constraints ?e) = 1" "ev_language event = ev_language ?e"
    by (simp_all add: hypothesis_to_event_def prefix_match_def exact_match_def dict_overlap_refl)
  then show ?thesis
    using scope_similarity_bounds [of "ev_scope event" "ev_scope ?e"]
    by (simp add: compute_similarity_def field_similarities_def field_weights_def Let_def)
qed

lemma well_rated_hypothesis_matches_every_message:
  assumes "h_elo_rating h = PFin e" "1565 \<le> e" "ev_scope event = []"
  shows "fingerprint_match_of event [] h \<noteq> None"
proof -
  have s: "fm_similarity_score (compute_similarity event (hypothesis_to_event h event) None 0) = 895 / 1000"
    using fingerprint_ignores_the_message [of event h 0] assms(3)
    by (simp add: scope_similarity_def hypothesis_to_event_def)
  have q: "elo_quotient h = PFin (min (e / 2000) 1)"
    using assms(1) by (simp add: elo_quotient_def float_min_def elo_normalizer_def min_def)
  have "7 / 10 < 895 / 1000 * min (e / 2000) (1 :: rat)" using assms(2) by (auto simp: min_def)
  then show ?thesis
    by (simp add: fingerprint_match_of_def fingerprint_score_def s q above_threshold_def match_score_threshold_def)
qed

text \<open>An alias that begins with a capital umlaut is not found: \<open>LOWER\<close> of SQLite keeps the letter.\<close>

lemma capital_umlaut_alias_is_not_found:
  "find_alias ((sample_db ''active'')\<lparr>db_aliases := [sample_alias\<lparr>al_alias_text := CHR 0xDC # ''bung''\<rparr>]\<rparr>) 7
     (CHR 0xDC # ''bung'') = None"
  by code_simp

text \<open>A tie between active hypotheses is marked for a decision of the user, which nobody asks for.\<close>

lemma tie_is_not_asked:
  "map_option (\<lambda>m. (sx_requires_confirmation m, should_ask_user m))
     (resolve_collision [alias_hit, alias_hit\<lparr>sx_hypothesis := sample_hypothesis
        \<lparr>h_status := ''active'', h_hypothesis_id := ''hyp_2''\<rparr>\<rparr>]) = Some (True, False)"
  by code_simp

end
