(* ===== verification/LanguageContract.thy ===== *)
theory LanguageContract
  imports LanguageResolver
begin

text \<open>
  How strongly a language is demanded of a model: \<open>application/language/model_profiles.py\<close> and
  \<open>application/language/contract.py\<close>. The descriptions of the profiles are left out. The property: the profile
  of a model is that of the longest known prefix of its name.
\<close>

section \<open>Profiles\<close>

datatype enforcement_level = LevelNormal | LevelStrict | LevelStrictVerify

record adherence_profile =
  ap_model_id :: string
  ap_level :: enforcement_level
  ap_verify :: bool
  ap_repair :: bool
  ap_stream_guard :: bool

definition profile :: "string \<Rightarrow> enforcement_level \<Rightarrow> bool \<Rightarrow> bool \<Rightarrow> bool \<Rightarrow> adherence_profile" where
  "profile i l v r s = \<lparr>ap_model_id = i, ap_level = l, ap_verify = v, ap_repair = r, ap_stream_guard = s\<rparr>"

definition adherence_profiles :: "(string \<times> adherence_profile) list" where
  "adherence_profiles = [
     (''claude-opus-4-7'', profile ''claude-opus-4-7'' LevelNormal False False False),
     (''claude-opus-4-6'', profile ''claude-opus-4-6'' LevelNormal False False False),
     (''claude-sonnet-4-6'', profile ''claude-sonnet-4-6'' LevelNormal False False False),
     (''claude-sonnet-4-5'', profile ''claude-sonnet-4-5'' LevelNormal False False False),
     (''claude-haiku-4-5'', profile ''claude-haiku-4-5'' LevelStrictVerify True True True),
     (''gemini'', profile ''gemini'' LevelStrict True True False),
     (''mistral'', profile ''mistral'' LevelStrict True True False),
     (''codex'', profile ''codex'' LevelStrict True True False),
     (''llama'', profile ''llama'' LevelStrictVerify True True True),
     (''default'', profile ''default'' LevelStrict True True False)]"

definition default_adherence_profile :: adherence_profile where
  "default_adherence_profile = profile ''default'' LevelStrict True True False"

definition longer_match ::
    "string \<Rightarrow> (adherence_profile option \<times> nat) \<Rightarrow> string \<times> adherence_profile \<Rightarrow> adherence_profile option \<times> nat" where
  "longer_match model_id best entry =
     (if fst entry \<noteq> ''default'' \<and> py_startswith model_id (fst entry) \<and> snd best < length (fst entry)
      then (Some (snd entry), length (fst entry)) else best)"

definition get_profile :: "string option \<Rightarrow> adherence_profile" where
  "get_profile model_id =
     (case model_id of
        Some (c # cs) \<Rightarrow>
          (case map_of adherence_profiles (c # cs) of
             Some p \<Rightarrow> p
           | None \<Rightarrow> (case fst (foldl (longer_match (c # cs)) (None, 0) adherence_profiles) of
                       Some p \<Rightarrow> p | None \<Rightarrow> default_adherence_profile))
      | _ \<Rightarrow> default_adherence_profile)"

section \<open>Contracts\<close>

definition get_language_name :: "string \<Rightarrow> string" where
  "get_language_name code = (case get_or_none default_registry code of Some e \<Rightarrow> le_name e | None \<Rightarrow> code)"

definition normal_contract :: "string \<Rightarrow> string \<Rightarrow> string" where
  "normal_contract code name =
     ''Respond only in '' @ name @ '' ('' @ code @ ''). This overrides any default language behavior. '' @
     ''Do not switch languages mid-response.''"

definition strict_contract :: "string \<Rightarrow> string \<Rightarrow> string" where
  "strict_contract code name =
     ''LANGUAGE REQUIREMENT: You MUST respond entirely in '' @ name @ '' ('' @ code @
     ''). This is a hard constraint, not a suggestion. Do not use any other language in your response, not even for '' @
     ''greetings, transitions, or filler words. If the user writes in a different language, still respond in '' @
     name @ ''. The response language is determined by the system, not by the user'' @ [CHR 0x27] @ ''s input language.''"

definition strict_with_verify_contract :: "string \<Rightarrow> string \<Rightarrow> string" where
  "strict_with_verify_contract code name =
     ''MANDATORY LANGUAGE CONTRACT: Your ENTIRE response MUST be in '' @ name @ '' ('' @ code @
     ''). This is non-negotiable. Every single word, sentence, and paragraph must be in '' @ name @
     ''. Do not mix languages. Do not default to English. Do not switch languages even if the topic involves foreign terms. '' @
     ''Technical terms and proper nouns may remain in their original form, but all explanatory text must be in '' @
     name @ ''. Your response will be automatically verified for language compliance.''"

definition build_language_contract :: "language_context \<Rightarrow> string option \<Rightarrow> adherence_profile option \<Rightarrow> string" where
  "build_language_contract lx model_id given =
     (let p = (case given of Some p \<Rightarrow> p | None \<Rightarrow> get_profile model_id);
          name = get_language_name (lx_code lx)
      in case ap_level p of
           LevelNormal \<Rightarrow> normal_contract (lx_code lx) name
         | LevelStrict \<Rightarrow> strict_contract (lx_code lx) name
         | LevelStrictVerify \<Rightarrow> strict_with_verify_contract (lx_code lx) name)"

definition build_repair_contract :: "language_context \<Rightarrow> string option \<Rightarrow> string" where
  "build_repair_contract lx detected =
     (let name = get_language_name (lx_code lx);
          detected_name = (case detected of Some (c # cs) \<Rightarrow> get_language_name (c # cs) | _ \<Rightarrow> ''a different language'')
      in ''CRITICAL LANGUAGE CORRECTION: Your previous response was in '' @ detected_name @ '', but the user expects '' @
         name @ '' ('' @ lx_code lx @ ''). You MUST rewrite your entire response in '' @ name @
         ''. Preserve the meaning, tone, and formatting exactly, but translate everything to '' @ name @
         ''. Do not acknowledge this correction in your response. Simply provide the answer in '' @ name @ ''.'')"

section \<open>The longest prefix wins\<close>

definition prefix_keys :: "string \<Rightarrow> string list" where
  "prefix_keys model_id =
     filter (\<lambda>k. k \<noteq> ''default'' \<and> py_startswith model_id k) (map fst adherence_profiles)"

lemma longest_match:
  assumes "foldl (longer_match m) (None, 0) es = (b, n)"
  shows "(b = None \<longrightarrow> n = 0) \<and>
    (\<forall>p. b = Some p \<longrightarrow> (\<exists>k. (k, p) \<in> set es \<and> n = length k \<and> k \<noteq> ''default'' \<and> py_startswith m k)) \<and>
    (\<forall>e \<in> set es. fst e \<noteq> ''default'' \<and> py_startswith m (fst e) \<longrightarrow> length (fst e) \<le> n)"
  using assms
proof (induction es arbitrary: b n rule: rev_induct)
  case (snoc e es)
  obtain b1 n1 where bn: "foldl (longer_match m) (None, 0) es = (b1, n1)" by fastforce
  note IH = snoc.IH [OF bn]
  have r: "(b, n) = longer_match m (b1, n1) e" using snoc.prems bn by simp
  show ?case
  proof (cases "fst e \<noteq> ''default'' \<and> py_startswith m (fst e) \<and> n1 < length (fst e)")
    case True
    then have "b = Some (snd e)" "n = length (fst e)" using r by (simp_all add: longer_match_def)
    then show ?thesis using IH True by (cases e) fastforce
  next
    case False
    then have "b = b1" "n = n1" using r by (auto simp: longer_match_def)
    then show ?thesis using IH False by fastforce
  qed
qed simp

text \<open>The enforcement profile of a model that is not listed itself is that of the longest listed prefix of
  its name (\<open>default\<close> does not count as a prefix), and the strict default profile exactly when no listed name
  is a prefix.\<close>

theorem profile_of_longest_prefix:
  assumes "m \<noteq> []" "map_of adherence_profiles m = None"
  shows "if prefix_keys m = [] then get_profile (Some m) = default_adherence_profile
    else \<exists>k. k \<in> set (prefix_keys m) \<and> map_of adherence_profiles k = Some (get_profile (Some m)) \<and>
      list_all (\<lambda>j. length j \<le> length k) (prefix_keys m)"
proof -
  obtain b n where bn: "foldl (longer_match m) (None, 0) adherence_profiles = (b, n)" by fastforce
  note lm = longest_match [OF bn]
  have d: "distinct (map fst adherence_profiles)" "list_all (\<lambda>k. k \<noteq> []) (map fst adherence_profiles)"
    by code_simp+
  have g: "get_profile (Some m) = (case b of Some p \<Rightarrow> p | None \<Rightarrow> default_adherence_profile)"
    using assms bn by (cases m) (auto simp: get_profile_def)
  show ?thesis
  proof (cases b)
    case None
    then have "prefix_keys m = []"
      using lm d(2) by (auto simp: prefix_keys_def filter_empty_conv list_all_iff)
    then show ?thesis using g None by simp
  next
    case (Some p)
    then obtain k where k: "(k, p) \<in> set adherence_profiles" "n = length k" "k \<noteq> ''default''" "py_startswith m k"
      using lm by blast
    then have "k \<in> set (prefix_keys m)" by (force simp: prefix_keys_def)
    moreover have "map_of adherence_profiles k = Some p" using k(1) d(1) by simp
    moreover have "list_all (\<lambda>j. length j \<le> length k) (prefix_keys m)"
      using lm k(2) by (auto simp: prefix_keys_def list_all_iff)
    ultimately show ?thesis using g Some by (auto split: if_splits)
  qed
qed

theorem profile_of_longest_prefix_witness:
  "get_profile (Some ''llama-3.1-8b'') = profile ''llama'' LevelStrictVerify True True True"
proof -
  have "map_of adherence_profiles ''llama-3.1-8b'' = None" "prefix_keys ''llama-3.1-8b'' = [''llama'']"
      "map_of adherence_profiles ''llama'' = Some (profile ''llama'' LevelStrictVerify True True True)" by code_simp+
  then show ?thesis using profile_of_longest_prefix [of "''llama-3.1-8b''"] by auto
qed

end
