(* ===== verification/ResponseVerifier.thy ===== *)
theory ResponseVerifier
  imports PyReplace PyJson LanguageContract "HOL-Library.AList"
begin

text \<open>
  Whether an answer is in the language that was asked for: \<open>application/language/backends.py\<close> and
  \<open>application/language/verifier.py\<close>. The detection library is a parameter: a list of languages with their
  probabilities, or an exception. Probabilities are exact rationals. The text of a reason is left out; there is one
  exactly when the status is FAIL.
\<close>

section \<open>The backend\<close>

type_synonym detect_langs = "string \<Rightarrow> (string \<times> rat) list option"

type_synonym language_backend = "string \<Rightarrow> (string \<times> rat) list"

text \<open>The dictionary of the results: a later entry for the same normalised code replaces the value.\<close>

definition langdetect_backend :: "detect_langs \<Rightarrow> language_backend" where
  "langdetect_backend detect_langs t =
     (case detect_langs t of
        None \<Rightarrow> []
      | Some results \<Rightarrow>
          foldl (\<lambda>d (lang, prob). AList.update (resolve_backend_code default_registry lang) prob d) [] results)"

definition domain_language_backend :: "(string \<Rightarrow> string \<times> rat) \<Rightarrow> language_backend" where
  "domain_language_backend detect_language_with_confidence t =
     (let (detected, confidence) = detect_language_with_confidence t
      in if detected \<noteq> [] then [(detected, confidence)] else [])"

section \<open>What is taken out before detection\<close>

definition exact_text :: "string \<Rightarrow> regex" where
  "exact_text s = seq_all (map (\<lambda>c. Cls (\<lambda>x. x = c)) s)"

definition backtick :: char where "backtick = CHR 0x60"

definition code_block_pattern :: regex where
  "code_block_pattern =
     Seq (exact_text [backtick, backtick, backtick])
       (Seq (Rep False 0 (\<lambda>_. True)) (exact_text [backtick, backtick, backtick]))"

definition inline_code_pattern :: regex where
  "inline_code_pattern =
     Seq (Cls (\<lambda>x. x = backtick)) (Seq (Rep True 1 (\<lambda>x. x \<noteq> backtick)) (Cls (\<lambda>x. x = backtick)))"

definition url_pattern :: regex where
  "url_pattern =
     Seq (exact_text ''http'') (Seq (optional (\<lambda>x. x = CHR ''s''))
       (Seq (exact_text ''://'') (Rep True 1 (\<lambda>x. \<not> py_isspace x))))"

definition markdown_link_pattern :: regex where
  "markdown_link_pattern =
     Seq (Cls (\<lambda>x. x = CHR ''['')) (Seq (Group 1 (Rep True 1 (\<lambda>x. x \<noteq> CHR '']'')))
       (Seq (exact_text ''](''  ) (Seq (Rep True 1 (\<lambda>x. x \<noteq> CHR '')'')) (Cls (\<lambda>x. x = CHR '')'')))))"

definition technical_whitelist :: "string list" where
  "technical_whitelist = [
    ''api'', ''http'', ''https'', ''url'', ''json'', ''xml'', ''html'', ''css'', ''javascript'',
    ''typescript'', ''python'', ''rust'', ''golang'', ''docker'', ''kubernetes'', ''git'', ''github'',
    ''gitlab'', ''npm'', ''pip'', ''cargo'', ''webpack'', ''vite'', ''react'', ''vue'', ''angular'', ''node'',
    ''deno'', ''bun'', ''token'', ''tokens'', ''plugin'', ''plugins'', ''framework'', ''backend'',
    ''frontend'', ''middleware'', ''endpoint'', ''database'', ''query'', ''schema'', ''model'', ''prompt'',
    ''embedding'', ''vector'', ''tensor'', ''gradient'', ''batch'', ''epoch'', ''layer'', ''transformer'',
    ''attention'', ''encoder'', ''decoder'', ''fine-tuning'', ''inference'', ''training'', ''benchmark'',
    ''latency'', ''throughput'', ''streaming'', ''async'', ''await'', ''callback'', ''function'', ''class'',
    ''interface'', ''module'', ''package'', ''import'', ''export'', ''config'', ''configuration'', ''deploy'',
    ''deployment'', ''container'', ''pipeline'', ''workflow'', ''ci/cd'', ''cache'', ''caching'', ''server'',
    ''client'', ''request'', ''response'', ''header'', ''payload'', ''webhook'', ''oauth'', ''jwt'', ''ssl'',
    ''tls'', ''dns'', ''cdn'', ''proxy'', ''load balancer'', ''microservice'', ''monolith'', ''saas'',
    ''paas'', ''iaas'', ''sdk'', ''cli'', ''gui'', ''ide'', ''debug'', ''log'', ''logging'', ''monitor'',
    ''monitoring'', ''alert'', ''dashboard'', ''metric'', ''metrics'', ''cloud'', ''aws'', ''azure'', ''gcp'',
    ''vercel'', ''netlify'', ''heroku'', ''supabase'', ''firebase'', ''telegram'', ''bot'', ''chatbot'',
    ''llm'', ''gpt'', ''claude'', ''anthropic'', ''openai'', ''mistral'', ''gemini'', ''ollama'', ''axolent'',
    ''rag'', ''retrieval'', ''augmented'', ''generation'', ''chain-of-thought'', ''few-shot'', ''zero-shot'',
    ''in-context'', ''learning'', ''machine'', ''neural'', ''network'', ''deep'', ''reinforcement'',
    ''supervised'', ''unsupervised'', ''pre-training'', ''quantization'', ''lora'', ''qlora'', ''peft'',
    ''cuda'', ''gpu'', ''cpu'', ''ram'', ''vram'', ''memory'', ''storage'', ''disk'', ''ssd'', ''i/o'',
    ''bandwidth'', ''kernel'', ''thread'', ''process'', ''mutex'', ''semaphore'', ''queue'', ''stack'',
    ''heap'', ''buffer'', ''overflow'', ''underflow'', ''pointer'', ''reference'', ''garbage'', ''collection'',
    ''runtime'', ''compiler'', ''interpreter'', ''jit'', ''aot'', ''wasm'', ''byte'', ''bytes'', ''bit'',
    ''bits'', ''integer'', ''float'', ''string'', ''boolean'', ''array'', ''list'', ''dict'', ''map'', ''set'',
    ''tuple'', ''struct'', ''enum'', ''type'', ''generic'', ''template'', ''pattern'', ''algorithm'',
    ''complexity'', ''o(n)'', ''hash'', ''tree'', ''graph'', ''edge'', ''path'', ''sort'', ''search'',
    ''binary'', ''linear'', ''recursive'', ''iterative'', ''dynamic'', ''programming'', ''design'',
    ''architecture'', ''solid'', ''dry'', ''kiss'', ''yagni'', ''agile'', ''scrum'', ''sprint'', ''backlog'',
    ''standup'', ''retrospective'', ''refactor'', ''refactoring'', ''technical'', ''debt'', ''code'',
    ''review'', ''pull'', ''merge'', ''branch'', ''commit'', ''push'', ''fetch'', ''rebase'', ''cherry-pick'',
    ''tag'', ''release'', ''version'', ''changelog'', ''readme'', ''documentation'', ''docs'', ''wiki'',
    ''tutorial'', ''guide'', ''example'', ''sample'', ''demo'', ''prototype'', ''mvp'', ''poc'', ''todo'',
    ''fixme'', ''hack'', ''workaround'', ''bug'', ''fix'', ''feature'', ''enhancement'', ''issue'', ''ticket'',
    ''story'', ''task'', ''subtask'', ''epic'', ''milestone'', ''roadmap'', ''test'', ''testing'', ''unit'',
    ''integration'', ''e2e'', ''end-to-end'', ''regression'', ''smoke'', ''load'', ''stress'', ''performance'',
    ''coverage'', ''assertion'', ''mock'', ''stub'', ''spy'', ''fixture'', ''factory'', ''builder'',
    ''singleton'', ''observer'', ''strategy'', ''decorator'', ''adapter'', ''facade'', ''composite'',
    ''iterator'', ''visitor'', ''mediator'', ''command'', ''state'', ''chain'', ''responsibility'']"

definition punctuation_marks :: "char list" where
  "punctuation_marks = ''.,;:!?()[]{}'' @ [CHR 0x22, CHR 0x27]"

definition clean_for_detection :: "string list \<Rightarrow> string \<Rightarrow> string" where
  "clean_for_detection whitelist t =
     (let without_code = regex_sub inline_code_pattern (\<lambda>_. []) (regex_sub code_block_pattern (\<lambda>_. []) t);
          cleaned = regex_sub markdown_link_pattern (\<lambda>g. regex_group g 1) (regex_sub url_pattern (\<lambda>_. []) without_code)
      in join_with '' '' (filter (\<lambda>w. \<not> List.member whitelist
           (py_strip_of (List.member punctuation_marks) (py_lower w))) (py_split cleaned)))"

section \<open>The verdict\<close>

datatype verification_status = StatusPass | StatusWarn | StatusFail

record verification_result =
  ve_expected_lang :: string
  ve_detected_lang :: "string option"
  ve_confidence :: rat
  ve_foreign_share :: rat
  ve_target_ratio :: rat
  ve_status :: verification_status
  ve_skipped :: bool

definition verification_passed :: "verification_result \<Rightarrow> bool" where
  "verification_passed r = (ve_status r = StatusPass \<or> ve_status r = StatusWarn)"

text \<open>The largest share of foreign text that the constructor takes is stored and read nowhere.\<close>

record language_verifier =
  vf_backend :: language_backend
  vf_confidence_threshold :: rat
  vf_max_foreign_share :: rat
  vf_min_words :: nat
  vf_whitelist :: "string list"

definition init_verifier :: "language_backend \<Rightarrow> language_verifier" where
  "init_verifier backend =
     \<lparr>vf_backend = backend, vf_confidence_threshold = 7 / 10, vf_max_foreign_share = 2 / 10, vf_min_words = 20,
      vf_whitelist = technical_whitelist\<rparr>"

definition window_size_words :: nat where "window_size_words = 100"

definition determine_status :: "string \<Rightarrow> string \<Rightarrow> rat \<Rightarrow> rat \<Rightarrow> verification_status" where
  "determine_status detected expected confidence target_ratio =
     (if confidence < 1 / 2 then StatusPass
      else if detected = expected
      then (if 8 / 10 < target_ratio then StatusPass
            else if 6 / 10 \<le> target_ratio then StatusWarn else StatusFail)
      else if 8 / 10 < target_ratio then StatusPass
      else if 6 / 10 \<le> target_ratio then StatusWarn
      else StatusFail)"

text \<open>The windows: from every 50th word on, as long as at least the minimum of words is left.\<close>

definition text_windows :: "nat \<Rightarrow> string list \<Rightarrow> string list" where
  "text_windows min_words ws =
     filter (\<lambda>w. min_words \<le> length (py_split w))
       (map (\<lambda>i. join_with '' '' (take window_size_words (drop i ws)))
         (map (\<lambda>k. k * (window_size_words div 2)) [0..<(length ws + 49) div 50]))"

definition window_counts :: "(string \<times> rat) list \<Rightarrow> (string \<times> rat) list" where
  "window_counts results =
     foldl (\<lambda>d (lang, _). AList.update lang (1 + (case map_of d lang of Some n \<Rightarrow> n | None \<Rightarrow> 0)) d) [] results"

definition sliding_window_detect ::
    "language_verifier \<Rightarrow> string list \<Rightarrow> string \<Rightarrow> string \<times> rat \<times> rat" where
  "sliding_window_detect vf ws expected =
     (let results = map (\<lambda>w. first_max (vf_backend vf w)) (text_windows (vf_min_words vf) ws);
          n = rat_of_nat (length results)
      in if results = [] then (expected, 0, 0)
         else (fst (first_max (window_counts results)), sum_list (map snd results) / n,
               rat_of_nat (length (filter (\<lambda>(lang, conf). lang \<noteq> expected \<and> vf_confidence_threshold vf \<le> conf)
                 results)) / n))"

definition verify_language :: "language_verifier \<Rightarrow> string \<Rightarrow> string \<Rightarrow> verification_result" where
  "verify_language vf output expected =
     (let cleaned = clean_for_detection (vf_whitelist vf) output; ws = py_split cleaned
      in if length ws < vf_min_words vf
         then \<lparr>ve_expected_lang = expected, ve_detected_lang = None, ve_confidence = 0, ve_foreign_share = 0,
               ve_target_ratio = 1, ve_status = StatusPass, ve_skipped = True\<rparr>
         else let (detected, confidence, foreign, target) =
                    (if length ws \<le> window_size_words
                     then (let distribution = vf_backend vf cleaned; (top, conf) = first_max distribution;
                               ratio = (case map_of distribution expected of Some p \<Rightarrow> p | None \<Rightarrow> 0)
                           in (top, conf, if top = expected then 0 else 1 - ratio, ratio))
                     else (let (top, conf, share) = sliding_window_detect vf ws expected
                           in (top, conf, share, 1 - share)))
              in \<lparr>ve_expected_lang = expected, ve_detected_lang = Some detected, ve_confidence = confidence,
                  ve_foreign_share = foreign, ve_target_ratio = target,
                  ve_status = determine_status detected expected confidence target, ve_skipped = False\<rparr>)"

section \<open>Code, links and technical words are not judged\<close>

text \<open>The verdict depends only on what is left of the text, so that code blocks do not change it.\<close>

lemma verdict_depends_on_cleaned_text:
  "clean_for_detection (vf_whitelist vf) s = clean_for_detection (vf_whitelist vf) t \<Longrightarrow>
   verify_language vf s lang = verify_language vf t lang"
  by (simp add: verify_language_def)

definition backend_ok :: "language_backend \<Rightarrow> bool" where
  "backend_ok b \<longleftrightarrow> (\<forall>t. list_all (\<lambda>(l, p). 0 \<le> p \<and> p \<le> 1) (b t))"

lemma first_max_in: "xs \<noteq> [] \<Longrightarrow> first_max xs \<in> set xs"
  by (induction xs rule: first_max.induct) (auto simp: Let_def)

lemma first_max_bounds:
  "backend_ok b \<Longrightarrow> 0 \<le> snd (first_max (b t)) \<and> snd (first_max (b t)) \<le> 1"
  using first_max_in [of "b t"] by (cases "b t = []") (fastforce simp: backend_ok_def list_all_iff)+

lemma sum_list_between:
  "(\<And>x. x \<in> set xs \<Longrightarrow> 0 \<le> f x \<and> f x \<le> (1 :: rat)) \<Longrightarrow>
   0 \<le> sum_list (map f xs) \<and> sum_list (map f xs) \<le> of_nat (length xs)"
  by (induction xs) (auto intro: add_mono)

lemma sliding_window_bounds:
  assumes "backend_ok (vf_backend vf)" "sliding_window_detect vf ws expected = (lang, conf, share)"
  shows "0 \<le> conf \<and> conf \<le> 1 \<and> 0 \<le> share \<and> share \<le> 1"
proof -
  let ?r = "map (\<lambda>w. first_max (vf_backend vf w)) (text_windows (vf_min_words vf) ws)"
  have s: "0 \<le> sum_list (map snd ?r) \<and> sum_list (map snd ?r) \<le> of_nat (length ?r)"
    using first_max_bounds [OF assms(1)] by (intro sum_list_between) auto
  have l: "(of_nat (length (filter P ?r)) :: rat) \<le> of_nat (length ?r)" for P
    by (simp only: of_nat_le_iff length_filter_le)
  show ?thesis
  proof (cases "?r = []")
    case True
    then show ?thesis using assms(2) by (auto simp: sliding_window_detect_def)
  next
    case False
    then have "0 < (of_nat (length ?r) :: rat)" by (metis length_greater_0_conv of_nat_0_less_iff)
    then show ?thesis using assms(2) False s l
      by (auto simp: sliding_window_detect_def Let_def divide_le_eq_1 simp del: length_map)
  qed
qed

text \<open>A verdict with shares and confidence between 0 and 1.\<close>

lemma verdict_bounds:
  assumes "backend_ok (vf_backend vf)"
  shows "0 \<le> ve_confidence (verify_language vf t lang) \<and> ve_confidence (verify_language vf t lang) \<le> 1
    \<and> 0 \<le> ve_foreign_share (verify_language vf t lang) \<and> ve_foreign_share (verify_language vf t lang) \<le> 1
    \<and> 0 \<le> ve_target_ratio (verify_language vf t lang) \<and> ve_target_ratio (verify_language vf t lang) \<le> 1"
proof -
  let ?d = "vf_backend vf (clean_for_detection (vf_whitelist vf) t)"
  have r: "0 \<le> (case map_of ?d lang of Some p \<Rightarrow> p | None \<Rightarrow> 0) \<and> (case map_of ?d lang of Some p \<Rightarrow> p | None \<Rightarrow> 0) \<le> 1"
    using assms map_of_SomeD [of ?d lang] by (fastforce simp: backend_ok_def list_all_iff split: option.split)
  obtain a b where ab: "first_max ?d = (a, b)" by fastforce
  then have b: "0 \<le> b \<and> b \<le> 1" using first_max_bounds [OF assms] by (metis snd_conv)
  obtain x y z where xyz: "sliding_window_detect vf (py_split (clean_for_detection (vf_whitelist vf) t)) lang = (x, y, z)"
    by (metis prod_cases3)
  note sw = sliding_window_bounds [OF assms xyz]
  show ?thesis using r b sw by (simp add: verify_language_def Let_def ab xyz)
qed


section \<open>Where the verifier departs from its documentation\<close>

text \<open>\<open>VerificationStatus\<close> documents FAIL for a confidence below 0.5; the code passes it.\<close>

lemma low_confidence_passes: "c < 1 / 2 \<Longrightarrow> determine_status detected expected c ratio = StatusPass"
  by (simp add: determine_status_def)

text \<open>The largest share of foreign text is an argument of the constructor without effect.\<close>

lemma largest_foreign_share_has_no_effect:
  "verify_language (vf\<lparr>vf_max_foreign_share := x\<rparr>) t lang = verify_language vf t lang"
  by (simp add: verify_language_def sliding_window_detect_def Let_def cong: if_cong)

text \<open>
  Two entries of the whitelist can match no word: one holds a blank, and of the other one the closing bracket is
  stripped from the word before it is looked up.
\<close>

lemma whitelisted_terms_that_stay:
  "List.member technical_whitelist ''o(n)''" "List.member technical_whitelist ''load balancer''"
  "clean_for_detection [''o(n)'', ''load balancer''] ''an o(n) load balancer'' = ''an o(n) load balancer''"
  by (simp add: technical_whitelist_def, simp add: technical_whitelist_def, code_simp)

end
