(* ===== verification/LanguageEnforcement.thy ===== *)
theory LanguageEnforcement
  imports ResponseVerifier ProviderFailover
begin

text \<open>
  What happens to an answer in the wrong language: \<open>application/language/repair_service.py\<close> and
  \<open>application/language/enforcement.py\<close>. A repair asks a provider again; the world \<open>'w\<close> is that of the provider
  router, and a predicate on it says whether the time limit of \<open>asyncio.wait_for\<close> cuts the call off. Latencies and
  the audit entries are left out, except for the type of the repair event.
\<close>

section \<open>Repair\<close>

record repair_result =
  rr_original_output :: string
  rr_repaired_output :: string
  rr_was_repaired :: bool
  rr_attempts_used :: nat
  rr_before :: verification_result
  rr_after :: "verification_result option"
  rr_failed :: bool
  rr_skipped_reason :: "string option"

definition max_repair_output_length :: nat where "max_repair_output_length = 5000"

definition repair_timeout_seconds :: int where "repair_timeout_seconds = 15"

record repair_service =
  rs_verifier :: language_verifier
  rs_max_attempts :: int

definition init_repair_service :: "language_verifier \<Rightarrow> int \<Rightarrow> repair_service" where
  "init_repair_service vf max_attempts = \<lparr>rs_verifier = vf, rs_max_attempts = min max_attempts 2\<rparr>"

definition no_repair :: "string \<Rightarrow> verification_result \<Rightarrow> string option \<Rightarrow> repair_result" where
  "no_repair output verdict0 reason =
     \<lparr>rr_original_output = output, rr_repaired_output = output, rr_was_repaired = False, rr_attempts_used = 0,
      rr_before = verdict0, rr_after = None, rr_failed = False, rr_skipped_reason = reason\<rparr>"

record 'w repair_router =
  rt_router :: "'w provider_router"
  rt_cut_off :: "'w \<Rightarrow> bool"

definition requery ::
    "'w repair_router \<Rightarrow> string option \<Rightarrow> provider_request \<Rightarrow> 'w \<Rightarrow> (py_exn + provider_response) \<times> 'w" where
  "requery rt provider_name rq w =
     (case route (rt_router rt) provider_name rq w of
        (r, w1) \<Rightarrow> (if rt_cut_off rt w then Inl \<lparr>ex_class = TimeoutErrorC, ex_message = []\<rparr> else r, w1))"

definition repair_prompt :: "string \<Rightarrow> string \<Rightarrow> string" where
  "repair_prompt code output =
     ''Please rewrite the following text entirely in '' @ code @ ''. Preserve all meaning and formatting:'' @
     [CHR 0x0A, CHR 0x0A] @ output"

definition repair_system_prompt :: "string \<Rightarrow> string \<Rightarrow> string" where
  "repair_system_prompt base contract =
     (if base \<noteq> [] then base @ [CHR 0x0A, CHR 0x0A] @ contract else contract)"

text \<open>The attempts: \<open>used\<close> of them are over and the last verification was \<open>after\<close>. An exception ends the attempt only.\<close>

fun repair_attempts ::
    "repair_service \<Rightarrow> 'w repair_router \<Rightarrow> string option \<Rightarrow> provider_request \<Rightarrow> string \<Rightarrow> string
       \<Rightarrow> verification_result \<Rightarrow> nat \<Rightarrow> nat \<Rightarrow> verification_result option \<Rightarrow> 'w \<Rightarrow> repair_result \<times> 'w" where
  "repair_attempts rs rt name rq code output verdict0 used 0 after w =
     (\<lparr>rr_original_output = output, rr_repaired_output = output, rr_was_repaired = False, rr_attempts_used = used,
       rr_before = verdict0, rr_after = after, rr_failed = True, rr_skipped_reason = None\<rparr>, w)"
| "repair_attempts rs rt name rq code output verdict0 used (Suc n) after w =
     (case requery rt name rq w of
        (Inl e, w1) \<Rightarrow> repair_attempts rs rt name rq code output verdict0 (used + 1) n after w1
      | (Inr response, w1) \<Rightarrow>
          if \<not> response_success response \<or> py_strip (pr_text response) = []
          then repair_attempts rs rt name rq code output verdict0 (used + 1) n after w1
          else (let repaired = py_strip (pr_text response); verdict = verify_language (rs_verifier rs) repaired code
                in if verification_passed verdict
                   then (\<lparr>rr_original_output = output, rr_repaired_output = repaired, rr_was_repaired = True,
                          rr_attempts_used = used + 1, rr_before = verdict0, rr_after = Some verdict,
                          rr_failed = False, rr_skipped_reason = None\<rparr>, w1)
                   else repair_attempts rs rt name rq code output verdict0 (used + 1) n (Some verdict) w1))"

record enforcement_call =
  nc_provider_name :: "string option"
  nc_user_id :: int
  nc_chat_id :: int
  nc_model :: "string option"
  nc_base_prompt :: string

definition repair_output ::
    "repair_service \<Rightarrow> string \<Rightarrow> language_context \<Rightarrow> verification_result \<Rightarrow> 'w repair_router option
       \<Rightarrow> enforcement_call \<Rightarrow> 'w \<Rightarrow> repair_result \<times> 'w" where
  "repair_output rs output lx verdict0 router nc w =
     (case router of
        None \<Rightarrow> (no_repair output verdict0 None, w)
      | Some rt \<Rightarrow>
          if max_repair_output_length < length output then (no_repair output verdict0 (Some ''output_too_long''), w)
          else (let rq = \<lparr>rq_prompt = repair_prompt (lx_code lx) output,
                          rq_system_prompt = repair_system_prompt (nc_base_prompt nc)
                            (build_repair_contract lx (ve_detected_lang verdict0)),
                          rq_timeout_seconds = repair_timeout_seconds, rq_user_id = Some (nc_user_id nc),
                          rq_chat_id = Some (nc_chat_id nc), rq_model = nc_model nc\<rparr>
                in repair_attempts rs rt (nc_provider_name nc) rq (lx_code lx) output verdict0 0
                     (nat (rs_max_attempts rs)) None w))"

definition repair_event_type :: "repair_result \<Rightarrow> string" where
  "repair_event_type r =
     (if rr_skipped_reason r = Some ''output_too_long'' then ''language_repair_skipped_too_long''
      else if rr_was_repaired r then ''language_repair_succeeded''
      else if rr_failed r then ''language_repair_failed''
      else ''language_repair_skipped'')"

section \<open>Enforcement\<close>

record enforcement_result =
  en_final_output :: string
  en_verification :: "verification_result option"
  en_repair :: "repair_result option"
  en_was_enforced :: bool
  en_profile :: adherence_profile

record 'w language_enforcement =
  lf_verifier :: language_verifier
  lf_repair :: repair_service
  lf_router :: "'w repair_router option"

text \<open>The text is kept, as it was verified or not.\<close>

definition kept_output ::
    "string \<Rightarrow> verification_result option \<Rightarrow> adherence_profile \<Rightarrow> enforcement_result" where
  "kept_output output verification p =
     \<lparr>en_final_output = output, en_verification = verification, en_repair = None, en_was_enforced = False,
      en_profile = p\<rparr>"

definition enforce_language ::
    "'w language_enforcement \<Rightarrow> string \<Rightarrow> language_context \<Rightarrow> enforcement_call \<Rightarrow> 'w \<Rightarrow> enforcement_result \<times> 'w" where
  "enforce_language lf output lx nc w =
     (let p = get_profile (nc_model nc) in
      if \<not> ap_verify p then (kept_output output None p, w)
      else let verification = verify_language (lf_verifier lf) output (lx_code lx)
           in if verification_passed verification \<or> \<not> ap_repair p then (kept_output output (Some verification) p, w)
              else case repair_output (lf_repair lf) output lx verification (lf_router lf) nc w of
                     (r, w1) \<Rightarrow> (\<lparr>en_final_output = rr_repaired_output r, en_verification = Some verification,
                                  en_repair = Some r, en_was_enforced = rr_was_repaired r, en_profile = p\<rparr>, w1))"

section \<open>An answer is kept, or replaced by one in the right language\<close>

lemma repair_attempts_result:
  "fst (repair_attempts rs rt name rq code output verdict0 used n after w) = r \<Longrightarrow>
   rr_attempts_used r \<le> used + n \<and>
   (if rr_was_repaired r
    then verification_passed (verify_language (rs_verifier rs) (rr_repaired_output r) code) \<and> rr_repaired_output r \<noteq> []
    else rr_repaired_output r = output \<and> rr_failed r)"
proof (induction n arbitrary: used after w)
  case (Suc n)
  then show ?case by (fastforce simp: Let_def split: prod.splits sum.splits if_splits)
qed auto

definition kept_or_corrected ::
    "'w language_enforcement \<Rightarrow> string \<Rightarrow> language_context \<Rightarrow> string option \<Rightarrow> enforcement_result \<Rightarrow> bool" where
  "kept_or_corrected lf output lx m r =
     (if en_was_enforced r
      then ap_repair (get_profile m) \<and> lf_router lf \<noteq> None \<and> length output \<le> max_repair_output_length
        \<and> \<not> verification_passed (verify_language (lf_verifier lf) output (lx_code lx))
        \<and> verification_passed (verify_language (rs_verifier (lf_repair lf)) (en_final_output r) (lx_code lx))
        \<and> en_final_output r \<noteq> []
      else en_final_output r = output)"

definition repair_calls :: "enforcement_result \<Rightarrow> nat" where
  "repair_calls r = (case en_repair r of None \<Rightarrow> 0 | Some rp \<Rightarrow> rr_attempts_used rp)"

lemma repair_output_result:
  assumes "repair_output rs output lx before_result router nc w = (r, w1)"
  shows "rr_attempts_used r \<le> nat (rs_max_attempts rs)"
    and "if rr_was_repaired r
      then router \<noteq> None \<and> length output \<le> max_repair_output_length \<and> rr_repaired_output r \<noteq> []
        \<and> verification_passed (verify_language (rs_verifier rs) (rr_repaired_output r) (lx_code lx))
      else rr_repaired_output r = output"
proof -
  consider "router = None" | rt where "router = Some rt" "max_repair_output_length < length output"
    | rt rq where "router = Some rt" "length output \<le> max_repair_output_length"
        "repair_attempts rs rt (nc_provider_name nc) rq (lx_code lx) output before_result 0 (nat (rs_max_attempts rs)) None w
          = (r, w1)"
    using assms by (auto simp: repair_output_def Let_def split: option.splits if_splits)
  then have "rr_attempts_used r \<le> nat (rs_max_attempts rs) \<and> (if rr_was_repaired r
      then router \<noteq> None \<and> length output \<le> max_repair_output_length \<and> rr_repaired_output r \<noteq> []
        \<and> verification_passed (verify_language (rs_verifier rs) (rr_repaired_output r) (lx_code lx))
      else rr_repaired_output r = output)"
  proof cases
    case 3
    from repair_attempts_result [OF arg_cong [of _ _ fst, OF 3(3)]] 3(1,2) show ?thesis by (simp split: if_splits)
  qed (use assms in \<open>auto simp: repair_output_def no_repair_def\<close>)
  then show "rr_attempts_used r \<le> nat (rs_max_attempts rs)"
    and "if rr_was_repaired r
      then router \<noteq> None \<and> length output \<le> max_repair_output_length \<and> rr_repaired_output r \<noteq> []
        \<and> verification_passed (verify_language (rs_verifier rs) (rr_repaired_output r) (lx_code lx))
      else rr_repaired_output r = output"
    by auto
qed

text \<open>
  C25: After enforcement the user gets either the answer of the model unchanged, or an answer that passed the
  verification in the language asked for; the latter only for a model whose profile allows repair, when there is a
  router, when the answer had at most 5000 characters and had failed the verification. Nothing that providers,
  detectors or time limits do can raise or prolong this beyond the allowed attempts, which are never more than two,
  and a model that needs no verification causes no call at all.
\<close>

theorem enforced_answer_is_kept_or_corrected:
  "kept_or_corrected lf output lx (nc_model nc) (fst (enforce_language lf output lx nc w))
   \<and> repair_calls (fst (enforce_language lf output lx nc w)) \<le> nat (rs_max_attempts (lf_repair lf))
   \<and> rs_max_attempts (init_repair_service vf k) \<le> 2
   \<and> (if ap_verify (get_profile (nc_model nc)) then True else snd (enforce_language lf output lx nc w) = w)"
proof -
  let ?p = "get_profile (nc_model nc)" and ?v = "verify_language (lf_verifier lf) output (lx_code lx)"
  obtain r w1 where r: "repair_output (lf_repair lf) output lx ?v (lf_router lf) nc w = (r, w1)" by fastforce
  show ?thesis
  proof (cases "\<not> ap_verify ?p \<or> verification_passed ?v \<or> \<not> ap_repair ?p")
    case True
    then show ?thesis
      by (auto simp: enforce_language_def Let_def kept_output_def kept_or_corrected_def repair_calls_def
          init_repair_service_def)
  next
    case False
    then show ?thesis
      using repair_output_result [OF r] by (simp add: enforce_language_def Let_def kept_or_corrected_def repair_calls_def
          init_repair_service_def r)
  qed
qed

text \<open>A repaired answer of less than twenty words passes in whatever language it is.\<close>

lemma short_repair_is_not_verified:
  assumes "length (py_split (clean_for_detection (vf_whitelist vf) t)) < vf_min_words vf"
  shows "verification_passed (verify_language vf t lang)"
  using assms by (simp add: verify_language_def verification_passed_def)

end
