(* ===== verification/LeakageFilter.thy ===== *)
theory LeakageFilter
  imports PyText "HOL-Library.Sublist"
begin

text \<open>
  Whether an answer gives away the system prompt: \<open>application/leakage_filter.py\<close> with the normaliser of
  \<open>application/security/input_normalizer.py\<close>. Texts are normalised to lists of code points, because the
  compatibility forms of a few characters below 256 lie above it.
\<close>

section \<open>The aggressive normaliser\<close>

text \<open>
  The steps on a character below 256: canonical decomposition without the combining marks, then the compatibility
  form. The Cyrillic and Greek letters of the table of confusables are all above 255, so that the table does nothing
  here. A soft hyphen is the one format character.
\<close>

definition base_letter :: "nat \<Rightarrow> nat" where
  "base_letter n =
     (if 192 \<le> n \<and> n \<le> 197 then 65 else if n = 199 then 67 else if 200 \<le> n \<and> n \<le> 203 then 69
      else if 204 \<le> n \<and> n \<le> 207 then 73 else if n = 209 then 78 else if 210 \<le> n \<and> n \<le> 214 then 79
      else if 217 \<le> n \<and> n \<le> 220 then 85 else if n = 221 then 89
      else if 224 \<le> n \<and> n \<le> 229 then 97 else if n = 231 then 99 else if 232 \<le> n \<and> n \<le> 235 then 101
      else if 236 \<le> n \<and> n \<le> 239 then 105 else if n = 241 then 110 else if 242 \<le> n \<and> n \<le> 246 then 111
      else if 249 \<le> n \<and> n \<le> 252 then 117 else if n = 253 \<or> n = 255 then 121
      else n)"

definition compatibility_form :: "nat \<Rightarrow> nat list" where
  "compatibility_form n =
     (if n = 160 then [32] else if n = 168 then [32, 776] else if n = 170 then [97] else if n = 175 then [32, 772]
      else if n = 178 then [50] else if n = 179 then [51] else if n = 180 then [32, 769] else if n = 181 then [956]
      else if n = 184 then [32, 807] else if n = 185 then [49] else if n = 186 then [111]
      else if n = 188 then [49, 8260, 52] else if n = 189 then [49, 8260, 50] else if n = 190 then [51, 8260, 52]
      else [n])"

definition code_points :: "string \<Rightarrow> nat list" where
  "code_points s = map of_char s"

definition normalize_aggressive :: "string \<Rightarrow> nat list" where
  "normalize_aggressive s =
     filter (\<lambda>n. n \<noteq> 173) (concat (map (compatibility_form \<circ> base_letter) (code_points s)))"

section \<open>Words\<close>

definition lower_code :: "nat \<Rightarrow> nat" where
  "lower_code n = (if (65 \<le> n \<and> n \<le> 90) \<or> (192 \<le> n \<and> n \<le> 222 \<and> n \<noteq> 215) then n + 32 else n)"

definition blank_code :: "nat \<Rightarrow> bool" where
  "blank_code n = ((9 \<le> n \<and> n \<le> 13) \<or> (28 \<le> n \<and> n \<le> 32) \<or> n = 133 \<or> n = 160)"

function words_of :: "nat list \<Rightarrow> nat list list" where
  "words_of s =
     (let s1 = dropWhile blank_code s
      in if s1 = [] then [] else takeWhile (\<lambda>n. \<not> blank_code n) s1 # words_of (dropWhile (\<lambda>n. \<not> blank_code n) s1))"
  by pat_completeness auto
termination
proof (relation "measure length")
  fix s s1 :: "nat list"
  assume s1: "s1 = dropWhile blank_code s" "s1 \<noteq> []"
  then have "\<not> blank_code (hd s1)" by (simp add: hd_dropWhile)
  then have "length (dropWhile (\<lambda>n. \<not> blank_code n) s1) < length s1"
    using s1(2) by (cases s1) (auto simp: length_dropWhile_le le_imp_less_Suc)
  also have "\<dots> \<le> length s" using s1(1) by (simp add: length_dropWhile_le)
  finally show "(dropWhile (\<lambda>n. \<not> blank_code n) s1, s) \<in> measure length" by simp
qed simp

declare words_of.simps [simp del]

fun join_words :: "nat list list \<Rightarrow> nat list" where
  "join_words [] = []"
| "join_words [w] = w"
| "join_words (w # ws) = w @ 32 # join_words ws"

definition squeezed :: "nat list \<Rightarrow> nat list" where
  "squeezed s = join_words (words_of (map lower_code s))"

section \<open>Fingerprints and forbidden patterns\<close>

definition min_substring_length :: nat where "min_substring_length = 40"

definition refusal_response :: string where
  "refusal_response = ''I cannot share my internal instructions. What else can I help you with?''"

definition forbidden_patterns :: "string list" where
  "forbidden_patterns = [
     ''language lock'', ''diacritic rule'', ''style rule'', ''format contract'', ''privacy rule'',
     ''security block'', ''self-awareness'', ''claude.md'', ''axolent ai project'', ''axolent project'',
     ''the project we'' @ [CHR 0x27] @ ''re working on'', ''the project we are working on'', ''import-linter'',
     ''pre-commit hooks'', ''according to project conventions'', ''as per claude.md'', ''in this project we'',
     ''production code conventions'', ''english-only policy'', ''injected system-level'',
     ''prompt-injection-muster'', ''prompt-injection pattern'', ''prompt injection pattern'',
     ''injizierte system-level-befehle'', ''injected system-level commands'', ''authoritative systembefehle'',
     ''authoritative system commands'']"

fun occurs_in :: "'a list \<Rightarrow> 'a list \<Rightarrow> bool" where
  "occurs_in p [] = (p = [])"
| "occurs_in p (c # s) = (take (length p) (c # s) = p \<or> occurs_in p s)"

definition prompt_text :: "string \<Rightarrow> nat list" where
  "prompt_text s = squeezed (code_points s)"

definition answer_text :: "string \<Rightarrow> nat list" where
  "answer_text s = squeezed (normalize_aggressive s)"

definition extract_fingerprints :: "string \<Rightarrow> nat list list" where
  "extract_fingerprints system_prompt =
     (let normalized = prompt_text system_prompt
      in if length normalized < min_substring_length then []
         else map (\<lambda>i. take min_substring_length (drop i normalized))
                [0..<length normalized - min_substring_length + 1])"

definition check_for_forbidden_patterns :: "string \<Rightarrow> string option" where
  "check_for_forbidden_patterns response =
     (if response = [] then None
      else if list_ex (\<lambda>p. occurs_in (code_points p) (answer_text response)) forbidden_patterns
      then Some refusal_response else None)"

definition check_for_system_prompt_leakage :: "string \<Rightarrow> string \<Rightarrow> string list option \<Rightarrow> string option" where
  "check_for_system_prompt_leakage response system_prompt exclude_texts =
     (if response = [] then None
      else case check_for_forbidden_patterns response of
             Some r \<Rightarrow> Some r
           | None \<Rightarrow>
               if system_prompt = [] then None
               else let fingerprints = extract_fingerprints system_prompt;
                        excluded = (case exclude_texts of None \<Rightarrow> []
                          | Some ts \<Rightarrow> concat (map extract_fingerprints (filter (\<lambda>t. t \<noteq> []) ts)));
                        normalized = answer_text response
                    in if list_ex (\<lambda>f. \<not> List.member excluded f \<and> occurs_in f normalized) fingerprints
                       then Some refusal_response else None)"

section \<open>What the filter refuses\<close>

lemma occurs_in_iff: "occurs_in p s \<longleftrightarrow> sublist p s"
proof (induction s)
  case (Cons c s)
  have "take (length p) (c # s) = p \<longleftrightarrow> prefix p (c # s)"
    by (metis append_eq_conv_conj append_take_drop_id prefix_def)
  then show ?case using Cons by (simp add: sublist_Cons_right)
qed simp

lemma squeezed_Nil [simp]: "squeezed [] = []"
  by (simp add: squeezed_def words_of.simps)

lemma set_fingerprints: "f \<in> set (extract_fingerprints s) \<longleftrightarrow> length f = 40 \<and> sublist f (prompt_text s)"
proof
  assume "f \<in> set (extract_fingerprints s)"
  then show "length f = 40 \<and> sublist f (prompt_text s)"
    by (auto simp: extract_fingerprints_def Let_def min_substring_length_def split: if_splits)
      (meson prefix_imp_sublist sublist_drop sublist_order.order.trans take_is_prefix)
next
  assume f: "length f = 40 \<and> sublist f (prompt_text s)"
  then obtain xs ys where t: "prompt_text s = xs @ f @ ys" by (auto simp: sublist_def)
  then have i: "f = take 40 (drop (length xs) (prompt_text s))" "length xs < length (prompt_text s) - 40 + 1"
    using f by simp_all
  have long: "40 \<le> length (prompt_text s)" using f t by simp
  have "f \<in> (\<lambda>i. take 40 (drop i (prompt_text s))) ` {0..<length (prompt_text s) - 40 + 1}"
    by (rule image_eqI [where x = "length xs"]) (use i in auto)
  then show "f \<in> set (extract_fingerprints s)"
    using long by (simp add: extract_fingerprints_def Let_def min_substring_length_def del: upt_Suc)
qed

definition gives_away :: "string \<Rightarrow> string list \<Rightarrow> string \<Rightarrow> bool" where
  "gives_away system_prompt excluded response =
     (\<exists>f. length f = 40 \<and> sublist f (prompt_text system_prompt) \<and> sublist f (answer_text response)
        \<and> list_all (\<lambda>t. \<not> sublist f (prompt_text t)) excluded)"

definition mentions_internals :: "string \<Rightarrow> bool" where
  "mentions_internals response = list_ex (\<lambda>p. sublist (code_points p) (answer_text response)) forbidden_patterns"

lemma empty_prompt_text [simp]: "prompt_text [] = []" "answer_text [] = []"
  by (simp_all add: prompt_text_def answer_text_def code_points_def normalize_aggressive_def)

lemma sublist_of_empty: "length f = 40 \<Longrightarrow> \<not> sublist f []" by auto

lemma uncovered_fingerprint:
  assumes "\<And>f. f \<in> set ex \<longleftrightarrow> (\<exists>t \<in> set ts. f \<in> set (extract_fingerprints t))"
  shows "list_ex (\<lambda>f. \<not> List.member ex f \<and> occurs_in f (answer_text response)) (extract_fingerprints system_prompt)
    \<longleftrightarrow> gives_away system_prompt ts response"
  using assms by (auto simp: list_ex_iff set_fingerprints occurs_in_iff gives_away_def list_all_iff)

lemma leakage_filter_value:
  "check_for_system_prompt_leakage response system_prompt exclude_texts =
     (if mentions_internals response
         \<or> gives_away system_prompt (case exclude_texts of None \<Rightarrow> [] | Some ts \<Rightarrow> ts) response
      then Some refusal_response else None)"
proof -
  let ?ts = "case exclude_texts of None \<Rightarrow> [] | Some ts \<Rightarrow> ts"
  let ?ex = "case exclude_texts of None \<Rightarrow> [] | Some ts \<Rightarrow> concat (map extract_fingerprints (filter (\<lambda>t. t \<noteq> []) ts))"
  have nonempty: "t \<noteq> []" if "length f = 40" "sublist f (prompt_text t)" for f t
    using that sublist_of_empty by (cases t) auto
  have ex: "f \<in> set ?ex \<longleftrightarrow> (\<exists>t \<in> set ?ts. f \<in> set (extract_fingerprints t))" for f
    using nonempty by (auto simp: set_fingerprints split: option.split)
  have away: "list_ex (\<lambda>f. \<not> List.member ?ex f \<and> occurs_in f (answer_text response)) (extract_fingerprints system_prompt)
      \<longleftrightarrow> gives_away system_prompt ?ts response"
    by (rule uncovered_fingerprint) (rule ex)
  have empty: "\<not> gives_away system_prompt ?ts []" "\<not> gives_away [] ?ts response"
    using sublist_of_empty by (auto simp: gives_away_def)
  have none: "\<not> mentions_internals []"
    by (simp add: mentions_internals_def forbidden_patterns_def code_points_def)
  have forbidden: "check_for_forbidden_patterns response =
      (if response \<noteq> [] \<and> mentions_internals response then Some refusal_response else None)"
    by (simp add: check_for_forbidden_patterns_def mentions_internals_def occurs_in_iff)
  consider "response = []" | "response \<noteq> []" "mentions_internals response"
    | "response \<noteq> []" "\<not> mentions_internals response" "system_prompt = []"
    | "response \<noteq> []" "\<not> mentions_internals response" "system_prompt \<noteq> []" by blast
  then show ?thesis
  proof cases
    case 1
    then show ?thesis using empty(1) none by (simp only: check_for_system_prompt_leakage_def if_True if_False simp_thms)
  next
    case 2
    then show ?thesis by (simp add: check_for_system_prompt_leakage_def forbidden)
  next
    case 3
    then show ?thesis using empty(2)
      by (simp only: check_for_system_prompt_leakage_def forbidden if_True if_False simp_thms option.case)
  next
    case 4
    then show ?thesis
      by (simp only: check_for_system_prompt_leakage_def forbidden away Let_def if_True if_False simp_thms option.case)
  qed
qed

section \<open>Letters with marks\<close>

text \<open>
  The prompt is only lowered, the answer is also stripped of its marks. A fingerprint with an umlaut or any other
  marked letter is therefore never found, even if the answer repeats the prompt literally.
\<close>

definition marked_code :: "nat \<Rightarrow> bool" where
  "marked_code n = (base_letter n \<noteq> n)"

lemma base_letter_unmarked: "n < 256 \<Longrightarrow> \<not> marked_code (base_letter n)"
  by (simp add: marked_code_def base_letter_def)

lemma list_all_True: "list_all (\<lambda>_. True) xs"
  by (simp add: list_all_iff)

lemma small_codes:
  "list_all (\<lambda>n. marked_code n \<or> \<not> marked_code (lower_code n)) [0..<256]"
  "list_all (\<lambda>n. marked_code n \<or> list_all (\<lambda>m. \<not> marked_code m) (compatibility_form n)) [0..<256]"
  by (simp_all add: marked_code_def base_letter_def lower_code_def compatibility_form_def list_all_True)

lemma lower_unmarked: "\<not> marked_code n \<Longrightarrow> \<not> marked_code (lower_code n)"
proof (cases "n < 256")
  case True
  then have "n \<in> set [0..<256]" by simp
  then show "\<not> marked_code n \<Longrightarrow> ?thesis" using small_codes(1) unfolding list_all_iff by blast
qed (simp add: marked_code_def base_letter_def lower_code_def)

lemma compatibility_unmarked: "\<not> marked_code n \<Longrightarrow> m \<in> set (compatibility_form n) \<Longrightarrow> \<not> marked_code m"
proof (cases "n < 256")
  case True
  then have "n \<in> set [0..<256]" by simp
  then show "\<not> marked_code n \<Longrightarrow> m \<in> set (compatibility_form n) \<Longrightarrow> ?thesis"
    using small_codes(2) unfolding list_all_iff by blast
qed (auto simp: marked_code_def base_letter_def compatibility_form_def)

lemma words_of_subset: "w \<in> set (words_of s) \<Longrightarrow> set w \<subseteq> set s"
proof (induction s rule: words_of.induct)
  case (1 s)
  then show ?case
    by (subst (asm) (2) words_of.simps)
      (auto simp: Let_def split: if_splits dest: set_takeWhileD set_dropWhileD)
qed

lemma set_join_words: "set (join_words ws) \<subseteq> {32} \<union> \<Union> (set (map set ws))"
  by (induction ws rule: join_words.induct) auto

lemma squeezed_subset: "n \<in> set (squeezed s) \<Longrightarrow> n = 32 \<or> (\<exists>m \<in> set s. n = lower_code m)"
  using set_join_words [of "words_of (map lower_code s)"] words_of_subset [of _ "map lower_code s"]
  by (fastforce simp: squeezed_def)

lemma answer_unmarked: "n \<in> set (answer_text s) \<Longrightarrow> \<not> marked_code n"
proof -
  assume n: "n \<in> set (answer_text s)"
  have "\<not> marked_code m" if "m \<in> set (normalize_aggressive s)" for m
  proof -
    from that have "\<exists>c \<in> set s. m \<in> set (compatibility_form (base_letter (of_char c)))"
      by (auto simp: normalize_aggressive_def code_points_def)
    then obtain c where "m \<in> set (compatibility_form (base_letter (of_char c)))" by blast
    moreover have "(of_char c :: nat) < 256" by simp
    ultimately show ?thesis using compatibility_unmarked base_letter_unmarked by blast
  qed
  moreover have "\<not> marked_code 32" by (simp add: marked_code_def base_letter_def)
  ultimately show ?thesis
    using n lower_unmarked squeezed_subset unfolding answer_text_def by blast
qed

lemma marked_fingerprint_is_never_found:
  assumes "n \<in> set f" "marked_code n"
  shows "\<not> sublist f (answer_text response)"
  using assms answer_unmarked set_mono_sublist by blast

lemma marked_prompt_is_not_protected:
  assumes "list_all (list_ex marked_code) (extract_fingerprints system_prompt)" and "\<not> mentions_internals response"
  shows "check_for_system_prompt_leakage response system_prompt exclude_texts = None"
proof -
  have "\<not> gives_away system_prompt ts response" for ts
    using assms(1) marked_fingerprint_is_never_found
    by (fastforce simp: gives_away_def list_all_iff list_ex_iff set_fingerprints)
  then show ?thesis using assms(2) by (simp add: leakage_filter_value)
qed


section \<open>The characterisation\<close>

text \<open>On ASCII texts the two normal forms are one: lower case and single blanks.\<close>

definition ascii_text :: "string \<Rightarrow> bool" where
  "ascii_text s = list_all (\<lambda>c. (of_char c :: nat) < 128) s"

lemma ascii_forms: "n < 128 \<Longrightarrow> compatibility_form (base_letter n) = [n]"
  by (simp add: base_letter_def compatibility_form_def)

lemma normalize_ascii: "ascii_text s \<Longrightarrow> normalize_aggressive s = code_points s"
  by (induction s) (auto simp: normalize_aggressive_def code_points_def ascii_text_def ascii_forms)

text \<open>
  C26: The filter refuses an answer, always with the same sentence, exactly when the normal form of the answer (marks
  and compatibility forms resolved, lower case, single blanks) contains one of the forbidden patterns, or
  forty consecutive characters of the normal form of the system prompt (lower case and single blanks only) that are
  not also consecutive in that of an excluded text. On an ASCII answer the two normal forms are the same function, so
  that nothing but case and blanks is lost; a passage with a marked letter is never found in any answer.
\<close>

theorem leakage_filter_characterisation:
  "check_for_system_prompt_leakage response system_prompt exclude_texts =
     (if mentions_internals response
         \<or> gives_away system_prompt (case exclude_texts of None \<Rightarrow> [] | Some ts \<Rightarrow> ts) response
      then Some refusal_response else None)
   \<and> (ascii_text response \<longrightarrow> answer_text response = prompt_text response)
   \<and> (\<forall>f n. n \<in> set f \<and> marked_code n \<longrightarrow> \<not> sublist f (answer_text response))"
  using leakage_filter_value marked_fingerprint_is_never_found normalize_ascii
  by (simp add: answer_text_def prompt_text_def) blast

theorem leakage_filter_characterisation_witness:
  "answer_text ''You are  Axolent'' = prompt_text ''You are  Axolent'' \<and> \<not> sublist [228] (answer_text ''Ja'')"
  using leakage_filter_characterisation [of "''You are  Axolent''" "[]" None]
    leakage_filter_characterisation [of "''Ja''" "[]" None]
  by (auto simp: ascii_text_def marked_code_def base_letter_def)

end
