(* ===== verification/StyleAdaption.thy ===== *)
theory StyleAdaption
  imports PyText "HOL-Library.AList"
begin

text \<open>
  How a user writes: \<open>application/style_adaption_service.py\<close>. Emojis are code points above 255, which the strings of the
  model do not hold: their number in a text is the argument \<open>emojis\<close>. Averages are exact rationals.
\<close>

section \<open>One message\<close>

record message_meta =
  mm_emoji_count :: nat
  mm_char_count :: nat
  mm_word_count :: nat
  mm_emoji_density :: rat
  mm_formality :: string
  mm_tonality :: string
  mm_code_switching :: bool
  mm_timestamp :: rat

definition english_indicators :: "string list" where
  "english_indicators = [''the'', ''is'', ''are'', ''was'', ''have'', ''just'', ''actually'', ''like'', ''really'',
     ''maybe'', ''sorry'', ''sure'', ''okay'', ''nice'', ''cool'', ''whatever'', ''anyway'', ''btw'', ''lol'']"

definition message_formality :: "string \<Rightarrow> string" where
  "message_formality text_lower =
     (let ws = py_split text_lower;
          formal = \<not> py_startswith text_lower ''sie '' \<and> list_ex (List.member ws) [''sie'', ''ihnen'', ''ihrer'', ''ihrem'']
            \<and> (List.member (take 3 ws) ''sie'' \<or> List.member ws ''ihnen'')
      in if list_ex (List.member ws) [''du'', ''dir'', ''dich'', ''dein''] then ''du''
         else if formal then ''sie'' else ''unknown'')"

definition message_tonality :: "nat \<Rightarrow> nat \<Rightarrow> string" where
  "message_tonality char_count word_count =
     (if char_count < 30 \<and> word_count < 8 then ''terse''
      else if 150 < char_count \<or> 25 < word_count then ''warm'' else ''neutral'')"

definition analyze_message :: "(string \<Rightarrow> nat) \<Rightarrow> rat \<Rightarrow> string \<Rightarrow> message_meta" where
  "analyze_message emojis now txt =
     (let ws = py_split txt;
          words_lower = remdups (map (\<lambda>w. py_strip_of (List.member ''.,!?'') (py_lower w)) ws)
      in \<lparr>mm_emoji_count = emojis txt, mm_char_count = length txt, mm_word_count = length ws,
          mm_emoji_density = of_nat (emojis txt) / of_nat (max (length txt) 1),
          mm_formality = message_formality (py_lower txt),
          mm_tonality = message_tonality (length txt) (length ws),
          mm_code_switching = (2 \<le> length (filter (List.member english_indicators) words_lower)),
          mm_timestamp = now\<rparr>)"

section \<open>The profile\<close>

record style_profile =
  sy_emoji_frequency :: rat
  sy_avg_message_length :: rat
  sy_formality :: string
  sy_uses_code_switching :: bool
  sy_tonality :: string
  sy_device_signal :: string
  sy_observed_messages :: nat
  sy_last_updated :: rat
  sy_custom_words :: "string list"

definition default_style_profile :: style_profile where
  "default_style_profile =
     \<lparr>sy_emoji_frequency = 0, sy_avg_message_length = 0, sy_formality = ''unknown'', sy_uses_code_switching = False,
      sy_tonality = ''neutral'', sy_device_signal = ''unknown'', sy_observed_messages = 0, sy_last_updated = 0,
      sy_custom_words = []\<rparr>"

definition min_messages_for_profile :: nat where "min_messages_for_profile = 5"
definition mobile_emoji_density_threshold :: rat where "mobile_emoji_density_threshold = 5 / 100"
definition mobile_avg_msg_length_threshold :: rat where "mobile_avg_msg_length_threshold = 60"

definition is_mature :: "style_profile \<Rightarrow> bool" where
  "is_mature p = (min_messages_for_profile \<le> sy_observed_messages p)"

definition line_if :: "bool \<Rightarrow> string \<Rightarrow> string list" where
  "line_if b s = (if b then [s] else [])"

fun comma_separated :: "string list \<Rightarrow> string" where
  "comma_separated [] = []"
| "comma_separated [w] = w"
| "comma_separated (w # ws) = w @ '', '' @ comma_separated ws"

fun newline_separated :: "string list \<Rightarrow> string" where
  "newline_separated [] = []"
| "newline_separated [w] = w"
| "newline_separated (w # ws) = w @ CHR 0x0A # newline_separated ws"

definition style_lines :: "style_profile \<Rightarrow> string list" where
  "style_lines p =
     [''[USER STYLE PROFILE]'']
     @ (if 3 / 10 < sy_emoji_frequency p then [''User uses emojis frequently. You may mirror this.'']
        else line_if (sy_emoji_frequency p < 5 / 100) ''User rarely uses emojis. Keep your responses emoji-free.'')
     @ (if sy_formality p = ''du'' then [''User prefers informal address (Du). Mirror this.'']
        else line_if (sy_formality p = ''sie'') ''User prefers formal address (Sie). Mirror this.'')
     @ (if sy_tonality p = ''terse''
        then [''User communicates in terse, direct style. Match this: short sentences, no filler.'']
        else line_if (sy_tonality p = ''warm'')
          ''User communicates warmly and elaborately. You may be warmer and slightly more verbose.'')
     @ line_if (sy_uses_code_switching p)
         ''User mixes languages (code-switching). Accept this naturally, do not ask or correct.''
     @ line_if (sy_device_signal p = ''mobile'')
         ''User appears to be on mobile. Format responses compactly: shorter paragraphs, less nesting.''
     @ line_if (sy_custom_words p \<noteq> [])
         (''User frequently uses: '' @ comma_separated (take 10 (sy_custom_words p)) @ ''. Recognize these.'')"

definition to_prompt_block :: "style_profile \<Rightarrow> string" where
  "to_prompt_block p =
     (if \<not> is_mature p \<or> length (style_lines p) \<le> 1 then [] else newline_separated (style_lines p))"

definition votes :: "(message_meta \<Rightarrow> string) \<Rightarrow> string \<Rightarrow> message_meta list \<Rightarrow> nat" where
  "votes f v ms = length (filter (\<lambda>m. f m = v) ms)"

definition mean_of :: "(message_meta \<Rightarrow> rat) \<Rightarrow> message_meta list \<Rightarrow> rat" where
  "mean_of f ms = sum_list (map f ms) / of_nat (length ms)"

definition voted_formality :: "string \<Rightarrow> message_meta list \<Rightarrow> string" where
  "voted_formality old buffer =
     (let du_count = votes mm_formality ''du'' buffer; sie_count = votes mm_formality ''sie'' buffer
      in if list_all (\<lambda>m. mm_formality m = ''unknown'') buffer then old
         else if sie_count < du_count then ''du'' else if du_count < sie_count then ''sie'' else ''unknown'')"

definition voted_tonality :: "string \<Rightarrow> message_meta list \<Rightarrow> string" where
  "voted_tonality old buffer =
     (let n = rat_of_nat (length buffer);
          terse_count = votes mm_tonality ''terse'' buffer; warm_count = votes mm_tonality ''warm'' buffer
      in if list_all (\<lambda>m. mm_tonality m = ''neutral'') buffer then old
         else if warm_count < terse_count \<and> n * (4 / 10) < of_nat terse_count then ''terse''
         else if terse_count < warm_count \<and> n * (4 / 10) < of_nat warm_count then ''warm'' else ''neutral'')"

definition device_of :: "rat \<Rightarrow> rat \<Rightarrow> string" where
  "device_of avg_length avg_density =
     (if avg_length < mobile_avg_msg_length_threshold \<and> mobile_emoji_density_threshold < avg_density then ''mobile''
      else if 120 < avg_length then ''desktop'' else ''unknown'')"

definition update_profile :: "style_profile \<Rightarrow> message_meta list \<Rightarrow> style_profile" where
  "update_profile p buffer =
     (if buffer = [] then p
      else (let avg_length = mean_of (of_nat \<circ> mm_char_count) buffer
            in p\<lparr>sy_emoji_frequency := mean_of (\<lambda>m. if 0 < mm_emoji_count m then 1 else 0) buffer,
                 sy_avg_message_length := avg_length,
                 sy_formality := voted_formality (sy_formality p) buffer,
                 sy_tonality := voted_tonality (sy_tonality p) buffer,
                 sy_uses_code_switching :=
                   (3 / 10 < mean_of (\<lambda>m. if mm_code_switching m then 1 else 0) buffer),
                 sy_device_signal := device_of avg_length (mean_of mm_emoji_density buffer)\<rparr>))"

section \<open>The service\<close>

record style_service =
  st_profiles :: "(int \<times> style_profile) list"
  st_message_buffer :: "(int \<times> message_meta list) list"

definition init_style_service :: style_service where
  "init_style_service = \<lparr>st_profiles = [], st_message_buffer = []\<rparr>"

definition buffer_max_size :: nat where "buffer_max_size = 50"

definition profile_or_default :: "style_service \<Rightarrow> int \<Rightarrow> style_profile" where
  "profile_or_default sv u = (case map_of (st_profiles sv) u of None \<Rightarrow> default_style_profile | Some p \<Rightarrow> p)"

definition buffer_of :: "style_service \<Rightarrow> int \<Rightarrow> message_meta list" where
  "buffer_of sv u = (case map_of (st_message_buffer sv) u of None \<Rightarrow> [] | Some b \<Rightarrow> b)"

definition last_fifty :: "'a list \<Rightarrow> 'a list" where
  "last_fifty xs = (if buffer_max_size < length xs then drop (length xs - buffer_max_size) xs else xs)"

definition observe_style :: "(string \<Rightarrow> nat) \<Rightarrow> style_service \<Rightarrow> int \<Rightarrow> string \<Rightarrow> rat \<Rightarrow> style_service" where
  "observe_style emojis sv user_id txt now =
     (if \<not> py_nonblank txt then sv
      else (let buffer = last_fifty (buffer_of sv user_id @ [analyze_message emojis now txt]);
                p = update_profile (profile_or_default sv user_id) buffer
            in \<lparr>st_profiles = AList.update user_id (p\<lparr>sy_observed_messages := length buffer, sy_last_updated := now\<rparr>)
                  (st_profiles sv),
                st_message_buffer = AList.update user_id buffer (st_message_buffer sv)\<rparr>))"

definition get_style_profile :: "style_service \<Rightarrow> int \<Rightarrow> style_profile option" where
  "get_style_profile sv user_id = map_of (st_profiles sv) user_id"

definition get_prompt_block :: "style_service \<Rightarrow> int \<Rightarrow> string" where
  "get_prompt_block sv user_id =
     (case get_style_profile sv user_id of None \<Rightarrow> [] | Some p \<Rightarrow> to_prompt_block p)"

text \<open>\<open>s.count(t)\<close> for a non-empty text, and the fillers of an answer.\<close>

function py_count :: "string \<Rightarrow> string \<Rightarrow> nat" where
  "py_count t s =
     (case s of [] \<Rightarrow> 0
      | c # cs \<Rightarrow> if t \<noteq> [] \<and> py_startswith s t then Suc (py_count t (drop (length t) s)) else py_count t cs)"
  by pat_completeness auto
termination by (relation "measure (\<lambda>(t, s). length s)") auto

declare py_count.simps [simp del]

definition repetition_fillers :: "(string \<times> string list) list" where
  "repetition_fillers = [
     (''de'', [''Gerne'', ''Sicher'', ''Nat'' @ [CHR 0xFC] @ ''rlich'', ''Selbstverst'' @ [CHR 0xE4] @ ''ndlich'',
        ''Klar'', ''Absolut'']),
     (''en'', [''Sure'', ''Certainly'', ''Of course'', ''Absolutely'', ''Great question'', ''Happy to help''])]"

definition check_repetition_warning :: "string \<Rightarrow> string \<Rightarrow> string option" where
  "check_repetition_warning response lang =
     (let fillers = the (map_of repetition_fillers (if map_of repetition_fillers lang = None then ''en'' else lang));
          hits = concat (map (\<lambda>f. let n = py_count (py_lower f) (py_lower response)
                     in if 2 \<le> n then [f @ '' (x'' @ nat_decimal n @ '')''] else []) fillers)
      in if hits = [] then None else Some (''Repetition detected: '' @ comma_separated hits))"

section \<open>A profile describes the last fifty messages\<close>

text \<open>The messages of a user that count, among those of all users.\<close>

definition counted_of :: "(string \<Rightarrow> nat) \<Rightarrow> int \<Rightarrow> (int \<times> string \<times> rat) list \<Rightarrow> message_meta list" where
  "counted_of emojis u ms =
     map (\<lambda>(_, txt, now). analyze_message emojis now txt) (filter (\<lambda>(v, txt, _). v = u \<and> py_nonblank txt) ms)"

definition observe_all :: "(string \<Rightarrow> nat) \<Rightarrow> (int \<times> string \<times> rat) list \<Rightarrow> style_service" where
  "observe_all emojis ms = foldl (\<lambda>sv (u, txt, now). observe_style emojis sv u txt now) init_style_service ms"

text \<open>What does not depend on the past of a profile.\<close>

definition describes :: "message_meta list \<Rightarrow> style_profile \<Rightarrow> bool" where
  "describes buffer p =
     (buffer \<noteq> [] \<and> sy_observed_messages p = length buffer
      \<and> sy_emoji_frequency p = mean_of (\<lambda>m. if 0 < mm_emoji_count m then 1 else 0) buffer
      \<and> sy_avg_message_length p = mean_of (of_nat \<circ> mm_char_count) buffer
      \<and> sy_uses_code_switching p = (3 / 10 < mean_of (\<lambda>m. if mm_code_switching m then 1 else 0) buffer)
      \<and> sy_device_signal p = device_of (sy_avg_message_length p) (mean_of mm_emoji_density buffer)
      \<and> sy_last_updated p = mm_timestamp (last buffer)
      \<and> (sy_tonality p = ''terse'' \<or> sy_tonality p = ''warm'' \<or> sy_tonality p = ''neutral'')
      \<and> (sy_formality p = ''du'' \<or> sy_formality p = ''sie'' \<or> sy_formality p = ''unknown''))"

lemma last_fifty_Nil [simp]: "last_fifty xs = [] \<longleftrightarrow> xs = []"
  by (auto simp: last_fifty_def buffer_max_size_def)

lemma last_fifty_snoc: "last_fifty (last_fifty xs @ [x]) = last_fifty (xs @ [x])"
proof -
  have "Suc (length xs - 50) = length xs - 49" if "50 < length xs" using that by arith
  then show ?thesis by (auto simp: last_fifty_def buffer_max_size_def)
qed

lemma last_fifty_last: "last (last_fifty (xs @ [x])) = x"
  by (auto simp: last_fifty_def buffer_max_size_def last_drop)

lemma length_last_fifty: "length (last_fifty xs) = min 50 (length xs)"
  by (auto simp: last_fifty_def buffer_max_size_def)

lemma observed_buffer: "buffer_of (observe_all emojis ms) u = last_fifty (counted_of emojis u ms)"
proof (induction ms rule: rev_induct)
  case Nil
  show ?case
    by (simp add: observe_all_def buffer_of_def init_style_service_def counted_of_def last_fifty_def)
next
  case (snoc m ms)
  obtain v t now where m: "m = (v, t, now)" by (cases m)
  let ?sv = "observe_all emojis ms"
  have step: "observe_all emojis (ms @ [m]) = observe_style emojis ?sv v t now"
    by (simp add: observe_all_def m)
  have other: "buffer_of (observe_style emojis ?sv v t now) u = buffer_of ?sv u" if "v \<noteq> u"
    using that by (simp add: observe_style_def buffer_of_def Let_def update_conv')
  have same: "buffer_of (observe_style emojis ?sv u t now) u =
      (if py_nonblank t then last_fifty (buffer_of ?sv u @ [analyze_message emojis now t]) else buffer_of ?sv u)"
    by (simp add: observe_style_def buffer_of_def Let_def update_conv')
  show ?case
    unfolding step using other same snoc
    by (cases "v = u"; cases "py_nonblank t") (simp_all add: m counted_of_def last_fifty_snoc)
qed


lemma analyzed_timestamp [simp]: "mm_timestamp (analyze_message emojis now s) = now"
  by (simp add: analyze_message_def Let_def)

lemma update_profile_votes:
  assumes "sy_tonality p = ''terse'' \<or> sy_tonality p = ''warm'' \<or> sy_tonality p = ''neutral''"
    and "sy_formality p = ''du'' \<or> sy_formality p = ''sie'' \<or> sy_formality p = ''unknown''"
  shows "sy_tonality (update_profile p b) = ''terse'' \<or> sy_tonality (update_profile p b) = ''warm''
      \<or> sy_tonality (update_profile p b) = ''neutral''"
    and "sy_formality (update_profile p b) = ''du'' \<or> sy_formality (update_profile p b) = ''sie''
      \<or> sy_formality (update_profile p b) = ''unknown''"
  using assms by (auto simp: update_profile_def voted_tonality_def voted_formality_def Let_def)

lemma profile_or_default_cases:
  "profile_or_default sv u = default_style_profile \<or> get_style_profile sv u = Some (profile_or_default sv u)"
  by (simp add: profile_or_default_def get_style_profile_def split: option.split)

lemma observed_profile:
  "case get_style_profile (observe_all emojis ms) u of
     None \<Rightarrow> counted_of emojis u ms = []
   | Some p \<Rightarrow> describes (last_fifty (counted_of emojis u ms)) p"
proof (induction ms rule: rev_induct)
  case Nil
  show ?case by (simp add: observe_all_def init_style_service_def get_style_profile_def counted_of_def)
next
  case (snoc m ms)
  obtain v t now where m: "m = (v, t, now)" by (cases m)
  let ?sv = "observe_all emojis ms" and ?b = "last_fifty (counted_of emojis u (ms @ [m]))"
  have step: "observe_all emojis (ms @ [m]) = observe_style emojis ?sv v t now"
    by (simp add: observe_all_def m)
  show ?case
  proof (cases "v = u \<and> py_nonblank t")
    case False
    then have "get_style_profile (observe_style emojis ?sv v t now) u = get_style_profile ?sv u"
      by (auto simp: observe_style_def get_style_profile_def Let_def update_conv')
    moreover have "counted_of emojis u (ms @ [m]) = counted_of emojis u ms"
      using False by (auto simp: counted_of_def m)
    ultimately show ?thesis using snoc unfolding step by (simp only:)
  next
    case True
    let ?p = "profile_or_default ?sv u"
    have counted: "counted_of emojis u (ms @ [m]) = counted_of emojis u ms @ [analyze_message emojis now t]"
      using True by (simp add: counted_of_def m)
    then have b: "?b = last_fifty (buffer_of ?sv u @ [analyze_message emojis now t])"
      by (simp add: observed_buffer last_fifty_snoc)
    have p: "get_style_profile (observe_style emojis ?sv v t now) u =
        Some ((update_profile ?p ?b)\<lparr>sy_observed_messages := length ?b, sy_last_updated := now\<rparr>)"
      unfolding b using True by (simp add: observe_style_def get_style_profile_def Let_def update_conv')
    have old: "(sy_tonality ?p = ''terse'' \<or> sy_tonality ?p = ''warm'' \<or> sy_tonality ?p = ''neutral'')
        \<and> (sy_formality ?p = ''du'' \<or> sy_formality ?p = ''sie'' \<or> sy_formality ?p = ''unknown'')"
      using snoc profile_or_default_cases [of ?sv u] by (auto simp: describes_def default_style_profile_def)
    have "?b \<noteq> []" "mm_timestamp (last ?b) = now" by (simp_all add: counted last_fifty_last)
    then have "describes ?b ((update_profile ?p ?b)\<lparr>sy_observed_messages := length ?b, sy_last_updated := now\<rparr>)"
      using update_profile_votes [of ?p ?b] old by (auto simp: describes_def update_profile_def Let_def)
    then show ?thesis unfolding step p by simp
  qed
qed

text \<open>
  A user has a profile exactly when one of the user's messages was not blank, and then the counts and averages of
  the profile are those of the user's last fifty messages, whatever other users write in between.
\<close>

theorem style_profile_of_last_fifty:
  "case get_style_profile (observe_all emojis ms) u of
     None \<Rightarrow> counted_of emojis u ms = []
   | Some p \<Rightarrow> describes (last_fifty (counted_of emojis u ms)) p"
  by (rule observed_profile)

text \<open>The form of address is no function of these messages: it stays when no message of the buffer shows it any more.\<close>

lemma formality_outlives_its_messages:
  "buffer \<noteq> [] \<Longrightarrow> list_all (\<lambda>m. mm_formality m = ''unknown'') buffer
     \<Longrightarrow> sy_formality (update_profile p buffer) = sy_formality p"
  by (simp add: update_profile_def voted_formality_def Let_def)

end
