(* ===== verification/ChatService.thy ===== *)
theory ChatService
  imports MemoryContext StyleAdaption ExecutionKernel LeakageFilter LanguageEnforcement SkillMatcher PermissionGate
begin

text \<open>
  One message of a user from its arrival to the answer: \<open>process_user_message\<close> of \<open>application/chat_service.py\<close>, over the
  models of all the services it calls, with \<open>application/skill_compression/skill_formatting.py\<close>. The state holds what
  the services keep; the clock, the fresh identifiers and the outcomes of the transports are arguments. The entries of
  the audit log are kept as far as they tell what happened to the answer. One reading of the clock stands for all of
  one request.
\<close>

section \<open>The service and its state\<close>

record ('w, 's) chat_service =
  chv_router :: "'w provider_router"
  chv_capabilities :: "(string \<times> int) list"
  chv_memory :: "('s memory_storage \<times> 's) option"
  chv_models :: "model_config option"
  chv_tasks :: "task_router option"
  chv_time :: "(activity_map \<Rightarrow> int \<Rightarrow> moment \<Rightarrow> string \<Rightarrow> string) option"
  chv_has_style :: bool
  chv_emojis :: "string \<Rightarrow> nat"
  chv_awareness :: "(int \<Rightarrow> string option \<Rightarrow> string option \<Rightarrow> string \<Rightarrow> string) option"
  chv_rule :: "string \<Rightarrow> string"
  chv_resolver :: "'w fallback_resolver option"
  chv_enforcement :: "'w language_enforcement option"
  chv_language :: language_resolver
  chv_listed :: "string list \<Rightarrow> string list"
  chv_shown :: "json \<Rightarrow> string"

record chat_audit =
  cha_error :: "string option"
  cha_error_id :: "string option"
  cha_fallback :: "(int \<times> string) option"
  cha_leakage_attempt :: bool
  cha_language_enforced :: bool
  cha_skill_applied :: "string option"
  cha_skill_ask_before :: "string option"

definition new_audit :: chat_audit where
  "new_audit = \<lparr>cha_error = None, cha_error_id = None, cha_fallback = None, cha_leakage_attempt = False,
     cha_language_enforced = False, cha_skill_applied = None, cha_skill_ask_before = None\<rparr>"

text \<open>\<open>chs_audit\<close> is the log; \<open>chs_matcher\<close> is absent when the service was built without one.\<close>

record 'w chat_state =
  chs_conversations :: conversation_store
  chs_models :: slot_models
  chs_style :: style_service
  chs_activity :: activity_map
  chs_matcher :: "skill_matcher option"
  chs_metrics :: fallback_metrics
  chs_world :: 'w
  chs_audit :: "chat_audit list"

record chat_request =
  chq_text :: string
  chq_user_id :: "int option"
  chq_chat_id :: "int option"
  chq_system_prompt :: string
  chq_language_override :: "string option"
  chq_provider_name :: "string option"
  chq_reply_to_text :: "string option"
  chq_context :: "execution_context option"
  chq_plan :: "execution_plan option"

text \<open>
  The clock as a text, read for the language that is stored, the event of the matcher, the evidence and the
  two turns of the history.
\<close>

record chat_moment =
  chm_now :: moment
  chm_time :: rat
  chm_stamp :: string
  chm_event_stamp :: string
  chm_evidence_stamp :: string
  chm_turn_stamps :: "string \<times> string"
  chm_event_id :: string
  chm_error_id :: string
  chm_evidence_id :: string
  chm_request_id :: string
  chm_persists :: bool

record chat_result =
  chr_success :: bool
  chr_response :: string
  chr_error_message :: string
  chr_error_id :: string
  chr_duration :: rat
  chr_detected_language :: string
  chr_provider_name :: string

definition default_chat_result :: chat_result where
  "default_chat_result = \<lparr>chr_success = False, chr_response = [], chr_error_message = [], chr_error_id = [],
     chr_duration = 0, chr_detected_language = ''de'', chr_provider_name = ''claude''\<rparr>"

definition or_zero :: "int option \<Rightarrow> int" where
  "or_zero i = (case i of None \<Rightarrow> 0 | Some n \<Rightarrow> n)"

text \<open>A call that may raise, on a state that keeps what happened before; \<open>then\<close> the next one.\<close>

definition and_then ::
    "('e + 'a) \<times> 't \<Rightarrow> ('a \<Rightarrow> 't \<Rightarrow> ('e + 'b) \<times> 't) \<Rightarrow> ('e + 'b) \<times> 't" where
  "and_then r f = (case r of (Inl e, t) \<Rightarrow> (Inl e, t) | (Inr x, t) \<Rightarrow> f x t)"

section \<open>Language and model\<close>

definition request_language ::
    "('w, 's) chat_service \<Rightarrow> chat_request \<Rightarrow> chat_moment \<Rightarrow> 'w chat_state \<Rightarrow> language_context \<times> 'w chat_state" where
  "request_language cv cq ck st =
     (case chq_context cq of
        Some ec \<Rightarrow> (ec_language ec, st)
      | None \<Rightarrow>
          (case resolve_language (chv_language cv) (chs_conversations st) (or_zero (chq_user_id cq))
                  (or_zero (chq_chat_id cq)) (chq_text cq) (chq_language_override cq) (chm_request_id ck)
                  (chm_stamp ck) (chm_persists ck) of
             (cs, lx) \<Rightarrow> (lx, st\<lparr>chs_conversations := cs\<rparr>)))"

definition choose_task ::
    "('w, 's) chat_service \<Rightarrow> int \<Rightarrow> string \<Rightarrow> 'w chat_state \<Rightarrow> (string option \<times> string option) \<times> 'w chat_state" where
  "choose_task cv uid message st =
     (case chv_tasks cv of
        Some tr \<Rightarrow>
          (let slot = cl_slot (classify (tr_configs tr) message);
               (models, m) = resolve_model tr (chs_models st) uid slot
           in ((Some (slot_value slot), m), st\<lparr>chs_models := models\<rparr>))
      | None \<Rightarrow>
          (case chv_models cv of
             Some mc \<Rightarrow> (let (models, m) = get_user_model mc (chs_models st) uid ''global''
                         in ((None, m), st\<lparr>chs_models := models\<rparr>))
           | None \<Rightarrow> ((None, None), st)))"

section \<open>Skills\<close>

definition two_decimals :: "rat \<Rightarrow> string" where
  "two_decimals q = (let n = round_half_even (q * 100) in int_decimal (n div 100) @ ''.'' @ two_digits (n mod 100))"

definition chat_event :: "string \<Rightarrow> string \<Rightarrow> int \<Rightarrow> string \<Rightarrow> string \<Rightarrow> string option \<Rightarrow> normalized_event" where
  "chat_event event_id stamp uid message lang slot =
     \<lparr>ev_event_id = event_id, ev_user_id = uid, ev_timestamp = stamp, ev_raw_text = message,
      ev_intent = (case slot of None \<Rightarrow> [] | Some s \<Rightarrow> s), ev_domain = [], ev_format_type = [], ev_constraints = [],
      ev_scope = [], ev_language = lang, ev_correction_keywords_present = False, ev_is_re_formulation = False,
      ev_fingerprint_hash = []\<rparr>"

definition skill_block_of :: "skill_match \<Rightarrow> string" where
  "skill_block_of m = join_lines [
     ''[USER-DEFINED SKILL (HIGH PRIORITY)]'',
     ''  Instruction: '' @ h_claim (sx_hypothesis m),
     ''  Confidence: '' @ two_decimals (sx_confidence m),
     ''  Source: '' @ h_source_type (sx_hypothesis m),
     ''This skill MUST be applied to the current user message. Execute the skill instruction as the primary response. '' @
     ''Other context like memory conflicts is secondary to this skill.'']"

definition match_skills_for_prompt ::
    "skill_matcher \<Rightarrow> normalized_event \<Rightarrow> match_error + (string \<times> skill_match option)" where
  "match_skills_for_prompt mk event =
     bind_res (match_skill mk event []) (\<lambda>match_result.
       case match_result of
         None \<Rightarrow> Inr ([], None)
       | Some m \<Rightarrow>
           (case sx_contract m of
              Some c \<Rightarrow> if pcr_denied (check_execution_allowed c) then Inr ([], None)
                        else Inr (skill_block_of m, Some m)
            | None \<Rightarrow> Inr (skill_block_of m, Some m)))"

text \<open>An error of the matcher is logged; the message goes on without a skill.\<close>

definition chat_skill ::
    "skill_matcher option \<Rightarrow> normalized_event \<Rightarrow> string \<times> skill_match option" where
  "chat_skill matcher event =
     (case matcher of
        None \<Rightarrow> ([], None)
      | Some mk \<Rightarrow> (case match_skills_for_prompt mk event of Inl e \<Rightarrow> ([], None) | Inr r \<Rightarrow> r))"

definition pre_match_skill :: "skill_matcher option \<Rightarrow> normalized_event \<Rightarrow> skill_match option" where
  "pre_match_skill matcher event = snd (chat_skill matcher event)"

definition write_skill_evidence ::
    "string \<Rightarrow> string \<Rightarrow> skill_match \<Rightarrow> string \<Rightarrow> pyfloat \<Rightarrow> skill_matcher option \<Rightarrow> skill_matcher option" where
  "write_skill_evidence evidence_id now_iso m signal_type signal_strength matcher =
     (case matcher of
        None \<Rightarrow> None
      | Some mk \<Rightarrow>
          (let hyp = sx_hypothesis m;
               e = \<lparr>er_evidence_id = evidence_id, er_hypothesis_id = h_hypothesis_id hyp,
                    er_hypothesis_version = h_version hyp, er_episode_id = None, er_request_id = None,
                    er_response_id = None, er_signal_type = signal_type, er_signal_strength = signal_strength,
                    er_created_at = now_iso\<rparr>
           in case insert_evidence (kx_storage mk) e of
                Inl err \<Rightarrow> Some mk
              | Inr db \<Rightarrow>
                  Some (mk\<lparr>kx_storage :=
                    (if List.member [''no_correction'', ''user_confirmed''] signal_type
                     then update_hypothesis_last_applied db (h_hypothesis_id hyp) now_iso else db)\<rparr>)))"

definition char_index :: "char \<Rightarrow> string \<Rightarrow> nat option" where
  "char_index c s = find (\<lambda>i. s ! i = c) [0..<length s]"

definition last_char_index :: "char \<Rightarrow> string \<Rightarrow> nat option" where
  "last_char_index c s = find (\<lambda>i. s ! i = c) (rev [0..<length s])"

definition derive_skill_name :: "hypothesis \<Rightarrow> string" where
  "derive_skill_name h =
     (let claim = py_strip (h_claim h);
          ends = concat (map (\<lambda>sep. case char_index sep claim of
              None \<Rightarrow> [] | Some i \<Rightarrow> if 0 < i \<and> i \<le> 40 then [i] else []) ''.:;,'')
      in if claim = [] then h_type h @ '' (unnamed)''
         else case ends of
                i # _ \<Rightarrow> take i claim
              | [] \<Rightarrow>
                  if length claim \<le> 40 then claim
                  else (let truncated = take 37 claim
                        in case last_char_index (CHR '' '') truncated of
                             Some i \<Rightarrow> if 15 < i then take i truncated @ ''...'' else truncated @ ''...''
                           | None \<Rightarrow> truncated @ ''...''))"

text \<open>The rule above the indicator is drawn with characters above 255; hyphens stand for them.\<close>

definition format_skill_indicator :: "hypothesis \<Rightarrow> string \<Rightarrow> string" where
  "format_skill_indicator h response_text =
     response_text @ newline # ''-----'' @ newline # ''Skill '' @ quoted (derive_skill_name h @
       (if 1 < h_version h then '' v'' @ int_decimal (h_version h) else [])) @ '' angewendet''"

section \<open>Memory, nudges and the prompt\<close>

definition service_exn :: "service_error \<Rightarrow> py_exn" where
  "service_exn e =
     (case e of
        StorageFailed (UnknownLayer l) \<Rightarrow> \<lparr>ex_class = ValueErrorC, ex_message = l\<rparr>
      | StorageFailed NoEmbeddingSearch \<Rightarrow> \<lparr>ex_class = RuntimeErrorC, ex_message = []\<rparr>
      | SecretBlocked p \<Rightarrow> \<lparr>ex_class = TypeErrorC, ex_message = p\<rparr>
      | InjectionBlocked p \<Rightarrow> \<lparr>ex_class = TypeErrorC, ex_message = p\<rparr>)"

definition chat_memory ::
    "('w, 's) chat_service \<Rightarrow> int \<Rightarrow> string \<Rightarrow> skill_match option \<Rightarrow> py_exn + string" where
  "chat_memory cv uid message matched =
     (case build_memory_context (chv_shown cv) (chv_listed cv)
             (get_memory_budget (chv_capabilities cv) (pv_default (chv_router cv)) None) (chv_memory cv) uid message
             (map_option (\<lambda>m. h_claim (sx_hypothesis m)) matched) of
        Inl e \<Rightarrow> Inl (service_exn e)
      | Inr (block, n) \<Rightarrow> Inr block)"

definition enriched_text :: "string option \<Rightarrow> string \<Rightarrow> string" where
  "enriched_text reply_to_text message =
     (case reply_to_text of
        Some (c # cs) \<Rightarrow>
          join_lines [''[USER REPLIED TO PREVIOUS BOT MESSAGE]'', [CHR 0x22] @ (c # cs) @ [CHR 0x22], [],
            ''[USER'' @ [CHR 0x27] @ ''S CURRENT MESSAGE]'', message]
      | _ \<Rightarrow> message)"

definition observe_message ::
    "('w, 's) chat_service \<Rightarrow> chat_moment \<Rightarrow> int \<Rightarrow> string \<Rightarrow> 'w chat_state \<Rightarrow> 'w chat_state" where
  "observe_message cv ck uid message st =
     (if chv_has_style cv
      then st\<lparr>chs_style := observe_style (chv_emojis cv) (chs_style st) uid message (chm_time ck)\<rparr> else st)"

definition chat_nudge ::
    "('w, 's) chat_service \<Rightarrow> chat_moment \<Rightarrow> int \<Rightarrow> int \<Rightarrow> string \<Rightarrow> 'w chat_state \<Rightarrow> (py_exn + string) \<times> 'w chat_state" where
  "chat_nudge cv ck uid cid memory_context st =
     (if chv_time cv = None then (Inr [], st)
      else (let am0 = record_activity (chs_activity st) uid None (chm_time ck);
                (am1, proactive) = check_triggers am0 uid (chm_now ck);
                st1 = st\<lparr>chs_activity := am1\<rparr>;
                nudge = (if tg_fire proactive then tg_nudge proactive else [])
            in if memory_context = [] then (Inr nudge, st1)
               else case chv_memory cv of
                      None \<Rightarrow> (Inr nudge, st1)
                    | Some (ms, s) \<Rightarrow>
                        (case list_recent ms s uid ''episodic'' 5 of
                           Inl e \<Rightarrow> (Inl (service_exn e), st1)
                         | Inr entries \<Rightarrow>
                             (let (am2, reactive) = check_reactive_trigger am1 uid cid (map me_content entries) (chm_time ck)
                              in (Inr (if tg_fire reactive \<and> nudge = [] then tg_nudge reactive else nudge),
                                  st1\<lparr>chs_activity := am2\<rparr>)))))"

definition compiler_of :: "('w, 's) chat_service \<Rightarrow> 'w chat_state \<Rightarrow> instruction_compiler" where
  "compiler_of cv st =
     \<lparr>ic_time = map_option (\<lambda>f. f (chs_activity st)) (chv_time cv),
      ic_style = (if chv_has_style cv then Some (\<lambda>u lang. get_prompt_block (chs_style st) u) else None),
      ic_awareness = chv_awareness cv, ic_rule = chv_rule cv\<rparr>"

definition effective_prompt ::
    "('w, 's) chat_service \<Rightarrow> chat_request \<Rightarrow> chat_moment \<Rightarrow> language_context \<Rightarrow> string option \<times> string option
       \<Rightarrow> string \<Rightarrow> string \<Rightarrow> string \<Rightarrow> 'w chat_state \<Rightarrow> string" where
  "effective_prompt cv cq ck lx task memory_context context_prompt skill_block st =
     (let ic = compiler_of cv st; (slot, m) = task;
          composed = (case (chq_context cq, chq_plan cq) of
              (Some ec, Some pl) \<Rightarrow>
                cp_system_prompt (compile_chat ic ec pl (chq_system_prompt cq) memory_context context_prompt m slot)
            | _ \<Rightarrow> compose_prompt ic all_prompt_blocks (chq_system_prompt cq) lx (or_zero (chq_user_id cq)) (chm_now ck) m
                     slot memory_context)
      in if skill_block = [] then composed else skill_block @ [newline, newline] @ composed)"

section \<open>The provider\<close>

definition route_timeout_seconds :: int where "route_timeout_seconds = 120"

text \<open>The response, the notice for the user, and the level and name of a fallback.\<close>

definition ask_provider ::
    "('w, 's) chat_service \<Rightarrow> chat_request \<Rightarrow> string \<Rightarrow> string option \<times> string option \<Rightarrow> string \<Rightarrow> string
       \<Rightarrow> 'w chat_state \<Rightarrow> (py_exn + (provider_response \<times> string \<times> (int \<times> string) option)) \<times> 'w chat_state" where
  "ask_provider cv cq lang task context_prompt system_prompt st =
     (let (slot, m) = task;
          rq = \<lparr>rq_prompt = context_prompt, rq_system_prompt = system_prompt, rq_timeout_seconds = route_timeout_seconds,
                rq_user_id = Some (or_zero (chq_user_id cq)), rq_chat_id = Some (or_zero (chq_chat_id cq)), rq_model = m\<rparr>
      in case (chv_resolver cv, slot) of
           (Some fr, Some s) \<Rightarrow>
             (case resolve_request fr s rq lang (chs_metrics st, chs_world st) of
                (r, me, w) \<Rightarrow>
                  (let st1 = st\<lparr>chs_metrics := me, chs_world := w\<rparr>
                   in case r of
                        Inl e \<Rightarrow> (Inl e, st1)
                      | Inr res \<Rightarrow> (Inr (rr_response res, rr_user_notice res,
                          if rr_fallback_used res then Some (rr_fallback_level res, rr_provider_name res) else None), st1)))
         | _ \<Rightarrow>
             (case route (chv_router cv) (chq_provider_name cq) rq (chs_world st) of
                (Inl e, w) \<Rightarrow> (Inl e, st\<lparr>chs_world := w\<rparr>)
              | (Inr response, w) \<Rightarrow> (Inr (response, [], None), st\<lparr>chs_world := w\<rparr>)))"

section \<open>The answer\<close>

definition italic_notice :: "string \<Rightarrow> string" where
  "italic_notice notice = [newline, newline] @ ''_'' @ notice @ ''_''"

text \<open>The answer with nudge and notice, unless the filter for the system prompt replaces it.\<close>

definition guarded_answer ::
    "string \<Rightarrow> string \<Rightarrow> string \<Rightarrow> string \<Rightarrow> string \<Rightarrow> string \<times> bool" where
  "guarded_answer response nudge notice system_prompt memory_context =
     (let with_nudge = response @ nudge;
          with_notice = (if notice = [] then with_nudge else with_nudge @ italic_notice notice)
      in case check_for_system_prompt_leakage with_notice system_prompt
                (if memory_context = [] then None else Some [memory_context]) of
           Some replacement \<Rightarrow> (replacement, True)
         | None \<Rightarrow> (with_notice, False))"

definition enforced_answer ::
    "('w, 's) chat_service \<Rightarrow> chat_request \<Rightarrow> language_context \<Rightarrow> string option \<Rightarrow> string \<Rightarrow> string \<Rightarrow> 'w chat_state
       \<Rightarrow> (string \<times> bool) \<times> 'w chat_state" where
  "enforced_answer cv cq lx m system_prompt response st =
     (case chv_enforcement cv of
        None \<Rightarrow> ((response, False), st)
      | Some lf \<Rightarrow>
          if lx_code lx = ''auto'' then ((response, False), st)
          else (let nc = \<lparr>nc_provider_name = chq_provider_name cq, nc_user_id = or_zero (chq_user_id cq),
                          nc_chat_id = or_zero (chq_chat_id cq), nc_model = m, nc_base_prompt = system_prompt\<rparr>
                in case enforce_language lf response lx nc (chs_world st) of
                     (r, w) \<Rightarrow> ((if en_was_enforced r then en_final_output r else response, en_was_enforced r),
                                st\<lparr>chs_world := w\<rparr>)))"

definition skilled_answer ::
    "chat_moment \<Rightarrow> skill_match option \<Rightarrow> string \<Rightarrow> 'w chat_state \<Rightarrow> string \<times> 'w chat_state" where
  "skilled_answer ck matched response st =
     (case matched of
        None \<Rightarrow> (response, st)
      | Some m \<Rightarrow>
          (if should_ask_user m then response else format_skill_indicator (sx_hypothesis m) response,
           st\<lparr>chs_matcher := write_skill_evidence (chm_evidence_id ck) (chm_evidence_stamp ck) m ''no_correction'' (PFin (3 / 10))
                              (chs_matcher st)\<rparr>))"

text \<open>Each turn reads the clock.\<close>

definition save_turns ::
    "int \<Rightarrow> int \<Rightarrow> string \<times> string \<Rightarrow> string \<Rightarrow> string \<Rightarrow> conversation_store \<Rightarrow> conversation_store" where
  "save_turns uid cid stamps question reply cs =
     save_turn (save_turn cs uid cid \<lparr>ct_role = ''user'', ct_content = question, ct_timestamp = fst stamps\<rparr>) uid cid
       \<lparr>ct_role = ''assistant'', ct_content = reply, ct_timestamp = snd stamps\<rparr>"

text \<open>What \<open>process_user_message\<close> has in hand when the provider has answered.\<close>

record chat_turn =
  cht_language :: language_context
  cht_task :: "string option \<times> string option"
  cht_skill :: "skill_match option"
  cht_memory :: string
  cht_nudge :: string
  cht_prompt :: string

definition deliver ::
    "('w, 's) chat_service \<Rightarrow> chat_request \<Rightarrow> chat_moment \<Rightarrow> chat_turn
       \<Rightarrow> provider_response \<times> string \<times> (int \<times> string) option \<Rightarrow> 'w chat_state
       \<Rightarrow> (chat_result \<times> chat_audit) \<times> 'w chat_state" where
  "deliver cv cq ck tn answered st =
     (let (result, notice, fallback) = answered;
          au = new_audit\<lparr>cha_fallback := fallback\<rparr>;
          failure = default_chat_result\<lparr>chr_duration := pr_duration_seconds result,
            chr_detected_language := lx_code (cht_language tn), chr_provider_name := pr_provider_name result\<rparr>;
          response = py_strip (pr_text result)
      in if truthy (pr_error result)
         then ((failure\<lparr>chr_error_message := ''Request could not be processed. Error ID: '' @ chm_error_id ck,
                        chr_error_id := chm_error_id ck\<rparr>,
                au\<lparr>cha_error := pr_error result, cha_error_id := Some (chm_error_id ck)\<rparr>), st)
         else if response = []
         then ((failure\<lparr>chr_error_message := ''Provider returned no response (empty output).''\<rparr>, au), st)
         else (let (guarded, leaked) = guarded_answer response (cht_nudge tn) notice (cht_prompt tn) (cht_memory tn);
                   ((final, enforced), st1) = enforced_answer cv cq (cht_language tn) (snd (cht_task tn)) (cht_prompt tn)
                      guarded st;
                   (reply, st2) = skilled_answer ck (cht_skill tn) final st1;
                   name = map_option (\<lambda>m. h_hypothesis_id (sx_hypothesis m)) (cht_skill tn);
                   asks = (case cht_skill tn of None \<Rightarrow> False | Some m \<Rightarrow> should_ask_user m)
               in ((failure\<lparr>chr_success := True, chr_response := reply\<rparr>,
                    au\<lparr>cha_leakage_attempt := leaked, cha_language_enforced := enforced,
                       cha_skill_applied := (if asks then None else name),
                       cha_skill_ask_before := (if asks then name else None)\<rparr>),
                   st2\<lparr>chs_conversations := save_turns (or_zero (chq_user_id cq)) (or_zero (chq_chat_id cq)) (chm_turn_stamps ck)
                        (chq_text cq) reply (chs_conversations st2)\<rparr>)))"

section \<open>The whole call\<close>

text \<open>The \<open>except\<close> clauses in their order.\<close>

definition exception_result :: "string \<Rightarrow> py_exn \<Rightarrow> chat_result \<times> chat_audit" where
  "exception_result error_id e =
     (let with_id = (\<lambda>message error. (default_chat_result\<lparr>chr_error_message := message, chr_error_id := error_id\<rparr>,
            new_audit\<lparr>cha_error := Some error, cha_error_id := Some error_id\<rparr>))
      in if is_instance e FileNotFoundErrorC
         then (default_chat_result\<lparr>chr_error_message := join_lines [
                 ''Error: LLM CLI is not installed or not in PATH.'', ''Check whether the CLI works in the terminal.'']\<rparr>,
               new_audit\<lparr>cha_error := Some ''cli_not_found''\<rparr>)
         else if is_instance e TimeoutErrorC
         then (default_chat_result\<lparr>chr_error_message := ''Provider took too long. Try a shorter question.''\<rparr>,
               new_audit\<lparr>cha_error := Some ''timeout''\<rparr>)
         else if is_instance e ProviderErrorC
         then with_id (''The language model provider reports a problem (ref: '' @ error_id @ '').'' @
                (if is_instance e ProviderTimeoutC then '' Try again shortly.'' else []))
                (''provider_error: '' @ ex_message e)
         else if is_instance e ValueErrorC
         then with_id (''Request could not be processed (ref: '' @ error_id @ '').'') (''value_error: '' @ ex_message e)
         else if is_instance e RuntimeErrorC
         then with_id (''Internal error (ref: '' @ error_id @ '').'') (''runtime_error: '' @ ex_message e)
         else with_id (''An internal error occurred. Error ID: '' @ error_id) (ex_message e))"

text \<open>The body of the \<open>try\<close> up to the answer of the provider, and with its delivery.\<close>

definition prepare_turn ::
    "('w, 's) chat_service \<Rightarrow> chat_request \<Rightarrow> chat_moment \<Rightarrow> 'w chat_state
       \<Rightarrow> (py_exn + (chat_turn \<times> string)) \<times> 'w chat_state" where
  "prepare_turn cv cq ck st =
     (let uid = or_zero (chq_user_id cq); cid = or_zero (chq_chat_id cq);
          history = get_history (chs_conversations st) uid cid;
          (lx, st1) = request_language cv cq ck st;
          (task, st2) = choose_task cv uid (chq_text cq) st1;
          (skill_block, matched) = chat_skill (chs_matcher st2)
            (chat_event (chm_event_id ck) (chm_event_stamp ck) uid (chq_text cq) (lx_code lx) (fst task))
      in case chat_memory cv uid (chq_text cq) matched of
           Inl e \<Rightarrow> (Inl e, st2)
         | Inr memory_context \<Rightarrow>
             (let context_prompt = build_context_block history (enriched_text (chq_reply_to_text cq) (chq_text cq));
                  st3 = observe_message cv ck uid (chq_text cq) st2
              in and_then (chat_nudge cv ck uid cid memory_context st3) (\<lambda>nudge st4.
                   (Inr (\<lparr>cht_language = lx, cht_task = task, cht_skill = matched, cht_memory = memory_context,
                          cht_nudge = nudge,
                          cht_prompt = effective_prompt cv cq ck lx task memory_context context_prompt skill_block st4\<rparr>,
                         context_prompt), st4))))"

definition answer_turn ::
    "('w, 's) chat_service \<Rightarrow> chat_request \<Rightarrow> chat_moment \<Rightarrow> 'w chat_state
       \<Rightarrow> (py_exn + (chat_result \<times> chat_audit)) \<times> 'w chat_state" where
  "answer_turn cv cq ck st =
     and_then (prepare_turn cv cq ck st) (\<lambda>(tn, context_prompt) st1.
       and_then (ask_provider cv cq (lx_code (cht_language tn)) (cht_task tn) context_prompt (cht_prompt tn) st1)
         (\<lambda>answered st2. case deliver cv cq ck tn answered st2 of (r, st3) \<Rightarrow> (Inr r, st3)))"

definition process_user_message ::
    "('w, 's) chat_service \<Rightarrow> chat_request \<Rightarrow> chat_moment \<Rightarrow> 'w chat_state \<Rightarrow> chat_result \<times> 'w chat_state" where
  "process_user_message cv cq ck st =
     (let (r, st1) = answer_turn cv cq ck st;
          (result, au) = (case r of Inl e \<Rightarrow> exception_result (chm_error_id ck) e | Inr x \<Rightarrow> x)
      in (result, st1\<lparr>chs_audit := chs_audit st1 @ [au]\<rparr>))"

section \<open>The other operations\<close>

definition reset_chat :: "int \<Rightarrow> int \<Rightarrow> 'w chat_state \<Rightarrow> 'w chat_state" where
  "reset_chat uid cid st = st\<lparr>chs_conversations := reset_conversation (chs_conversations st) uid cid\<rparr>"

definition save_debate_turns :: "int \<Rightarrow> int \<Rightarrow> string \<times> string \<Rightarrow> string \<Rightarrow> string \<Rightarrow> 'w chat_state \<Rightarrow> 'w chat_state" where
  "save_debate_turns uid cid stamps question synthesis st =
     st\<lparr>chs_conversations := save_turns uid cid stamps question
          (''[Debate-Synthese aus /debate]'' @ newline # synthesis) (chs_conversations st)\<rparr>"

definition save_static_response_to_history :: "int \<Rightarrow> int \<Rightarrow> string \<Rightarrow> string \<Rightarrow> 'w chat_state \<Rightarrow> 'w chat_state" where
  "save_static_response_to_history uid cid stamp response_text st =
     st\<lparr>chs_conversations := save_turn (chs_conversations st) uid cid
          \<lparr>ct_role = ''assistant'', ct_content = response_text, ct_timestamp = stamp\<rparr>\<rparr>"

definition get_chat_language :: "int \<Rightarrow> int \<Rightarrow> 'w chat_state \<Rightarrow> string option" where
  "get_chat_language uid cid st = get_language_of (chs_conversations st) uid cid"

definition set_chat_language :: "int \<Rightarrow> int \<Rightarrow> string \<Rightarrow> string \<Rightarrow> bool \<Rightarrow> 'w chat_state \<Rightarrow> 'w chat_state" where
  "set_chat_language uid cid lang stamp persists st =
     st\<lparr>chs_conversations := set_language_of (chs_conversations st) uid cid lang stamp persists\<rparr>"

section \<open>What a call does to the histories\<close>

lemma and_then_cases:
  assumes "and_then r f = (x, t)"
  obtains e where "r = (Inl e, t)" "x = Inl e" | y t1 where "r = (Inr y, t1)" "f y t1 = (x, t)"
  using assms by (cases r; cases "fst r") (auto simp: and_then_def)

lemma resolve_language_histories:
  "cs_histories (fst (resolve_language lv cs u c message override i ts p)) = cs_histories cs"
  by (auto simp: resolve_language_def set_language_of_def Let_def split: option.splits list.splits)

lemma same_history: "cs_histories cs = cs_histories cs' \<Longrightarrow> get_history cs u c = get_history cs' u c"
  by (simp add: get_history_def stored_history_def)

lemma request_language_histories:
  "request_language cv cq ck st = (lx, st1) \<Longrightarrow>
     cs_histories (chs_conversations st1) = cs_histories (chs_conversations st)"
  using resolve_language_histories
  by (auto simp: request_language_def split: option.splits prod.splits) (metis fst_conv)

lemma choose_task_conversations:
  "choose_task cv uid message st = (task, st1) \<Longrightarrow> chs_conversations st1 = chs_conversations st"
  by (auto simp: choose_task_def Let_def split: option.splits prod.splits)

lemma observe_message_conversations [simp]:
  "chs_conversations (observe_message cv ck uid message st) = chs_conversations st"
  by (simp add: observe_message_def)

lemma chat_nudge_conversations:
  "chat_nudge cv ck uid cid mem st = (r, st1) \<Longrightarrow> chs_conversations st1 = chs_conversations st"
  by (auto simp: chat_nudge_def Let_def split: option.splits prod.splits sum.splits if_splits)

lemma prepare_turn_histories:
  assumes "prepare_turn cv cq ck st = (r, st1)"
  shows "cs_histories (chs_conversations st1) = cs_histories (chs_conversations st)"
proof -
  obtain lx s1 where l: "request_language cv cq ck st = (lx, s1)" by (cases "request_language cv cq ck st")
  obtain task s2 where t: "choose_task cv (or_zero (chq_user_id cq)) (chq_text cq) s1 = (task, s2)"
    by (cases "choose_task cv (or_zero (chq_user_id cq)) (chq_text cq) s1")
  have s2: "cs_histories (chs_conversations s2) = cs_histories (chs_conversations st)"
    using request_language_histories [OF l] choose_task_conversations [OF t] by simp
  show ?thesis
    using assms s2
    by (auto simp: prepare_turn_def l t Let_def split_beta split: sum.splits elim!: and_then_cases
        dest!: chat_nudge_conversations)
qed

lemma ask_provider_conversations:
  "ask_provider cv cq lang task p s st = (r, st1) \<Longrightarrow> chs_conversations st1 = chs_conversations st"
  by (auto simp: ask_provider_def Let_def split: option.splits prod.splits sum.splits)

lemma enforced_answer_conversations:
  "enforced_answer cv cq lx m s resp st = (r, st1) \<Longrightarrow> chs_conversations st1 = chs_conversations st"
  by (auto simp: enforced_answer_def Let_def split: option.splits prod.splits if_splits)

lemma skilled_answer_conversations:
  "skilled_answer ck sk resp st = (r, st1) \<Longrightarrow> chs_conversations st1 = chs_conversations st"
  by (auto simp: skilled_answer_def split: option.splits)

lemma deliver_conversations:
  assumes "deliver cv cq ck tn a st = ((r, au), st1)"
  shows "chs_conversations st1 =
    (if chr_success r
     then save_turns (or_zero (chq_user_id cq)) (or_zero (chq_chat_id cq)) (chm_turn_stamps ck) (chq_text cq) (chr_response r)
       (chs_conversations st)
     else chs_conversations st)"
  using assms
  by (auto simp: deliver_def Let_def default_chat_result_def split: prod.splits if_splits
      dest!: enforced_answer_conversations skilled_answer_conversations)

lemma save_turn_history:
  "get_history (save_turn cs u c t) u' c' =
     (if (u', c') = (u, c) then last_turns max_history_turns (get_history cs u c @ [t]) else get_history cs u' c')"
  by (auto simp: save_turn_def get_history_def stored_history_def Let_def update_conv' last_turns_def)

lemma last_turns_twice: "last_turns n (last_turns n xs @ [x]) = last_turns n (xs @ [x])"
proof (cases "length xs < n")
  case False
  then have "length (drop (length xs - n) xs) = n" by simp
  moreover have "Suc (length xs) - n = Suc (length xs - n)" using False by simp
  moreover have "drop (Suc (length xs - n)) xs = drop 1 (drop (length xs - n) xs)" by simp
  ultimately show ?thesis by (simp add: last_turns_def del: drop_drop)
qed (simp add: last_turns_def)

lemma save_turns_history:
  "get_history (save_turns u c stamps q a cs) u' c' =
     (if (u', c') = (u, c)
      then last_turns max_history_turns (get_history cs u c @
        [\<lparr>ct_role = ''user'', ct_content = q, ct_timestamp = fst stamps\<rparr>,
         \<lparr>ct_role = ''assistant'', ct_content = a, ct_timestamp = snd stamps\<rparr>])
      else get_history cs u' c')"
  using last_turns_twice [of _ "get_history cs u c @ [_]"]
  by (simp add: save_turns_def save_turn_history)

text \<open>Nothing but the end of the call writes to the log.\<close>

lemma steps_audit:
  "request_language cv cq ck st = (lx, st1) \<Longrightarrow> chs_audit st1 = chs_audit st"
  "choose_task cv uid message st = (task, st1) \<Longrightarrow> chs_audit st1 = chs_audit st"
  "chat_nudge cv ck uid cid mem st = (n, st1) \<Longrightarrow> chs_audit st1 = chs_audit st"
  "ask_provider cv cq lang task p s st = (a, st1) \<Longrightarrow> chs_audit st1 = chs_audit st"
  "enforced_answer cv cq lx m s resp st = (f, st1) \<Longrightarrow> chs_audit st1 = chs_audit st"
  "skilled_answer ck sk resp st = (reply, st1) \<Longrightarrow> chs_audit st1 = chs_audit st"
  by (auto simp: request_language_def choose_task_def chat_nudge_def ask_provider_def
      enforced_answer_def skilled_answer_def Let_def split: option.splits prod.splits sum.splits if_splits)

lemma observe_message_audit [simp]: "chs_audit (observe_message cv ck uid message st) = chs_audit st"
  by (simp add: observe_message_def)

lemma deliver_audit: "deliver cv cq ck tn a st = (r, st1) \<Longrightarrow> chs_audit st1 = chs_audit st"
  by (auto simp: deliver_def Let_def split: prod.splits if_splits dest!: steps_audit)

lemma prepare_turn_audit: "prepare_turn cv cq ck st = (r, st1) \<Longrightarrow> chs_audit st1 = chs_audit st"
  by (auto simp: prepare_turn_def Let_def split: prod.splits sum.splits elim!: and_then_cases
      dest!: steps_audit)

lemma answer_turn_audit:
  assumes "answer_turn cv cq ck st = (x, st1)"
  shows "chs_audit st1 = chs_audit st"
  using assms unfolding answer_turn_def
proof (cases rule: and_then_cases)
  case (1 e)
  show ?thesis by (rule prepare_turn_audit [OF 1(1)])
next
  case (2 y s1)
  obtain tn cp where y: "y = (tn, cp)" by (cases y)
  from 2(2) [unfolded y split] have "chs_audit st1 = chs_audit s1"
    by (rule and_then_cases) (auto dest!: steps_audit(4) deliver_audit split: prod.splits)
  then show ?thesis using prepare_turn_audit [OF 2(1)] by simp
qed

lemma process_user_message_audit:
  "process_user_message cv cq ck st = (r, st1) \<Longrightarrow> length (chs_audit st1) = Suc (length (chs_audit st))"
  by (auto simp: process_user_message_def Let_def split: prod.splits dest!: answer_turn_audit)

lemma exception_result_failed: "\<not> chr_success (fst (exception_result i e))"
  by (simp add: exception_result_def default_chat_result_def Let_def)

lemma answer_turn_histories:
  assumes "answer_turn cv cq ck st = (x, st1)"
  shows "get_history (chs_conversations st1) u c =
    (case x of
       Inl e \<Rightarrow> get_history (chs_conversations st) u c
     | Inr (r, au) \<Rightarrow>
         if chr_success r
         then get_history (save_turns (or_zero (chq_user_id cq)) (or_zero (chq_chat_id cq)) (chm_turn_stamps ck) (chq_text cq)
                (chr_response r) (chs_conversations st)) u c
         else get_history (chs_conversations st) u c)"
  using assms unfolding answer_turn_def
proof (cases rule: and_then_cases)
  case (1 e)
  show ?thesis by (simp only: 1(2) sum.case same_history [OF prepare_turn_histories [OF 1(1)]])
next
  case (2 y s1)
  obtain tn cp where y: "y = (tn, cp)" by (cases y)
  have s1: "get_history (chs_conversations s1) u' c' = get_history (chs_conversations st) u' c'" for u' c'
    using prepare_turn_histories [OF 2(1)] by (rule same_history)
  from 2(2) [unfolded y split] show ?thesis
  proof (cases rule: and_then_cases)
    case (1 e)
    then show ?thesis using ask_provider_conversations [OF 1(1)] s1 by simp
  next
    case (2 a s2)
    obtain r au s3 where d: "deliver cv cq ck tn a s2 = ((r, au), s3)" by (metis surj_pair)
    then have x: "x = Inr (r, au)" "st1 = s3" using 2(2) by simp_all
    show ?thesis
      using deliver_conversations [OF d] ask_provider_conversations [OF 2(1)] s1
      by (simp add: x save_turns_history)
  qed
qed

lemma process_user_message_history:
  assumes "process_user_message cv cq ck st = (r, st1)"
  shows "get_history (chs_conversations st1) u c =
    (if chr_success r \<and> (u, c) = (or_zero (chq_user_id cq), or_zero (chq_chat_id cq))
     then last_turns 20 (get_history (chs_conversations st) u c @
       [\<lparr>ct_role = ''user'', ct_content = chq_text cq, ct_timestamp = fst (chm_turn_stamps ck)\<rparr>,
        \<lparr>ct_role = ''assistant'', ct_content = chr_response r, ct_timestamp = snd (chm_turn_stamps ck)\<rparr>])
     else get_history (chs_conversations st) u c)"
proof -
  obtain x s where x: "answer_turn cv cq ck st = (x, s)" by (cases "answer_turn cv cq ck st")
  have r: "r = fst (case x of Inl e \<Rightarrow> exception_result (chm_error_id ck) e | Inr y \<Rightarrow> y)"
    "chs_conversations st1 = chs_conversations s"
    using assms by (auto simp: process_user_message_def x split: prod.splits)
  show ?thesis
    unfolding r(2) answer_turn_histories [OF x] using exception_result_failed
    by (auto simp: r(1) save_turns_history max_history_turns_def split: sum.split)
qed

text \<open>
  C12: A call always ends in a result and one entry of the audit log. If it succeeded, the history of the user in that
  chat is continued by the message and exactly the answer that the user gets, within the last twenty turns; if it
  failed in whatever step, no history has changed. Histories of other users and chats never change.
\<close>

theorem history_records_what_was_answered:
  "case process_user_message cv cq ck st of (r, st1) \<Rightarrow>
     length (chs_audit st1) = Suc (length (chs_audit st)) \<and>
     get_history (chs_conversations st1) u c =
       (if chr_success r \<and> (u, c) = (or_zero (chq_user_id cq), or_zero (chq_chat_id cq))
        then last_turns 20 (get_history (chs_conversations st) u c @
          [\<lparr>ct_role = ''user'', ct_content = chq_text cq, ct_timestamp = fst (chm_turn_stamps ck)\<rparr>,
           \<lparr>ct_role = ''assistant'', ct_content = chr_response r, ct_timestamp = snd (chm_turn_stamps ck)\<rparr>])
        else get_history (chs_conversations st) u c)"
  using process_user_message_history [of cv cq ck st] process_user_message_audit [of cv cq ck st]
  by (cases "process_user_message cv cq ck st") (simp only: split conj_absorb simp_thms)

section \<open>What the prompt is given as a skill\<close>

lemma skill_for_prompt_cases:
  assumes "match_skills_for_prompt mk event = Inr (block, matched)"
  obtains "block = []" "matched = None"
    | m where "match_skill mk event [] = Inr (Some m)" "block = skill_block_of m" "matched = Some m"
        "case sx_contract m of None \<Rightarrow> True | Some c \<Rightarrow> \<not> pcr_denied (check_execution_allowed c)"
proof -
  obtain mr where mr: "match_skill mk event [] = Inr mr"
    using assms by (auto simp: match_skills_for_prompt_def bind_res_eq_Inr)
  show thesis
  proof (cases mr)
    case None
    then show thesis using assms mr that(1) by (simp add: match_skills_for_prompt_def)
  next
    case (Some m)
    show thesis
    proof (cases "\<exists>c. sx_contract m = Some c \<and> pcr_denied (check_execution_allowed c)")
      case True
      then have "block = []" "matched = None" using assms mr Some by (auto simp: match_skills_for_prompt_def)
      then show thesis by (rule that(1))
    next
      case False
      then have "block = skill_block_of m" "matched = Some m"
        "case sx_contract m of None \<Rightarrow> True | Some c \<Rightarrow> \<not> pcr_denied (check_execution_allowed c)"
        using assms mr Some by (auto simp: match_skills_for_prompt_def split: option.splits)
      then show thesis by (rule that(2) [OF mr [unfolded Some]])
    qed
  qed
qed

text \<open>
  C13: A message is given a skill only if the matcher found it applicable for the user, and a skill with a contract only
  if that contract asks for the one allowed type of execution, is not blocked, and has no high risk. Whatever the matcher
  raises, the message goes on without a skill.
\<close>

theorem injected_skill_is_allowed:
  assumes "hypothesis_inv (kx_storage mk)" and "list_all (List.member [''confirmed'', ''active'']) (kx_statuses mk)"
  shows "case chat_skill (Some mk) event of
     (block, None) \<Rightarrow> block = []
   | (block, Some m) \<Rightarrow> block = skill_block_of m \<and> applicable (ev_user_id event) m \<and>
       (case sx_contract m of None \<Rightarrow> True
        | Some c \<Rightarrow> List.member allowed_execution_types (exec_type (c_execution c))
            \<and> \<not> List.member blocked_review_statuses (c_review_status c)
            \<and> compute_risk_level (c_permissions c) \<noteq> ''high'' \<and> triggers_on (ev_raw_text event) c)"
proof (cases "match_skills_for_prompt mk event")
  case (Inl e)
  then show ?thesis by (simp add: chat_skill_def)
next
  case (Inr r)
  obtain block matched where r: "r = (block, matched)" by (cases r)
  from Inr [unfolded r] show ?thesis
  proof (cases rule: skill_for_prompt_cases)
    case 1
    then show ?thesis using Inr by (simp add: chat_skill_def r)
  next
    case (2 m)
    have "applicable (ev_user_id event) m" "case sx_contract m of None \<Rightarrow> True | Some c \<Rightarrow> triggers_on (ev_raw_text event) c"
      using match_skill_applicable [OF assms 2(1)] by (auto split: option.splits)
    then show ?thesis using 2(4) Inr
      by (auto simp: chat_skill_def r 2(2,3) check_execution_allowed_def pcr_denied_def
          split: option.splits if_splits)
  qed
qed

theorem injected_skill_is_allowed_witness:
  "case chat_skill (Some sample_matcher) (message_event ''kurz bitte'') of
     (block, None) \<Rightarrow> False
   | (block, Some m) \<Rightarrow> block = skill_block_of alias_hit \<and> m = alias_hit \<and> applicable 7 m"
proof -
  have skill: "chat_skill (Some sample_matcher) (message_event ''kurz bitte'') = (skill_block_of alias_hit, Some alias_hit)"
    using sample_match
    by (simp add: chat_skill_def match_skills_for_prompt_def bind_res_def alias_hit_def)
  have "list_all (List.member [''confirmed'', ''active'']) (kx_statuses sample_matcher)"
    by (simp add: sample_matcher_def)
  moreover have "ev_user_id (message_event ''kurz bitte'') = 7" by (simp add: message_event_def)
  ultimately show ?thesis
    using injected_skill_is_allowed [OF sample_matcher_inv, of "message_event ''kurz bitte''"]
    by (simp add: skill)
qed

section \<open>What the filter for the system prompt sees\<close>

definition unleaked :: "string \<Rightarrow> string \<Rightarrow> string \<Rightarrow> bool" where
  "unleaked system_prompt memory_context s =
     (\<not> mentions_internals s
      \<and> \<not> gives_away system_prompt (if memory_context = [] then [] else [memory_context]) s)"

lemma guarded_answer_cases:
  assumes "guarded_answer response nudge notice system_prompt memory_context = (s, leaked)"
  shows "if leaked then s = refusal_response else unleaked system_prompt memory_context s"
  using assms
  by (auto simp: guarded_answer_def leakage_filter_value unleaked_def Let_def split: if_splits)

lemma enforced_answer_kept:
  "enforced_answer cv cq lx m s resp st = ((f, False), st1) \<Longrightarrow> f = resp"
  by (auto simp: enforced_answer_def Let_def split: option.splits prod.splits if_splits)

text \<open>The answer without the indicator of a skill.\<close>

definition indicated :: "skill_match option \<Rightarrow> string \<Rightarrow> string" where
  "indicated matched s =
     (case matched of None \<Rightarrow> s
      | Some m \<Rightarrow> if should_ask_user m then s else format_skill_indicator (sx_hypothesis m) s)"

lemma skilled_answer_indicated: "fst (skilled_answer ck matched s st) = indicated matched s"
  by (simp add: skilled_answer_def indicated_def split: option.split)

text \<open>
  C14: An answer that is delivered and was not rewritten for its language has passed the leakage filter: under the
  indicator of the skill stands either the fixed refusal or a text whose normal form contains no forbidden pattern and
  no forty consecutive characters of the normal form of the prompt that the provider was given, other than from the
  user's own memory; nudge and notice are part of the text that is checked. The log tells which of the two. The normal
  forms are those of the filter, which strip the marks of letters from the answer but not from the prompt: a passage
  with a marked letter is not recognised.
\<close>

theorem delivered_answer_is_guarded:
  "case deliver cv cq ck tn answered st of ((r, au), st1) \<Rightarrow>
     if chr_success r \<and> \<not> cha_language_enforced au
     then (\<exists>s. chr_response r = indicated (cht_skill tn) s \<and>
       (if cha_leakage_attempt au then s = refusal_response else unleaked (cht_prompt tn) (cht_memory tn) s))
     else True"
proof -
  obtain r au st1 where d: "deliver cv cq ck tn answered st = ((r, au), st1)" by (metis surj_pair)
  obtain result notice fallback where a: "answered = (result, notice, fallback)" by (metis surj_pair)
  obtain g leaked where g: "guarded_answer (py_strip (pr_text result)) (cht_nudge tn) notice (cht_prompt tn)
      (cht_memory tn) = (g, leaked)" by (metis surj_pair)
  obtain f enforced st2 where e: "enforced_answer cv cq (cht_language tn) (snd (cht_task tn)) (cht_prompt tn) g st
      = ((f, enforced), st2)" by (metis surj_pair)
  have "\<exists>s. chr_response r = indicated (cht_skill tn) s \<and>
       (if cha_leakage_attempt au then s = refusal_response else unleaked (cht_prompt tn) (cht_memory tn) s)"
    if "chr_success r" "\<not> cha_language_enforced au"
  proof -
    have "chr_response r = indicated (cht_skill tn) f" "cha_leakage_attempt au = leaked" "\<not> enforced"
      using d that skilled_answer_indicated [of ck "cht_skill tn" f st2]
      by (auto simp: deliver_def a g e Let_def default_chat_result_def split: prod.splits if_splits)
    then show ?thesis using guarded_answer_cases [OF g] e enforced_answer_kept by metis
  qed
  then show ?thesis by (simp add: d)
qed

text \<open>A rewritten answer is taken from the provider as it is: the filter has run before.\<close>

lemma rewritten_answer_is_not_guarded:
  assumes "chv_enforcement cv = Some lf" and "lx_code (cht_language tn) \<noteq> ''auto''" and "cht_skill tn = None"
    and "deliver cv cq ck tn (result, notice, fallback) st = ((r, au), st1)"
    and "chr_success r" and "cha_language_enforced au"
  shows "\<exists>nc s. chr_response r = en_final_output (fst (enforce_language lf s (cht_language tn) nc (chs_world st)))"
  using assms
  by (auto simp: deliver_def enforced_answer_def skilled_answer_def Let_def default_chat_result_def
      split: prod.splits if_splits) (metis fst_conv)

text \<open>Evidence for a skill is written even when the user is still to be asked whether it applies.\<close>

lemma evidence_before_consent:
  "chs_matcher (snd (skilled_answer ck (Some m) response st)) =
     write_skill_evidence (chm_evidence_id ck) (chm_evidence_stamp ck) m ''no_correction'' (PFin (3 / 10)) (chs_matcher st)"
  by (simp add: skilled_answer_def)

section \<open>A call that succeeds and one that does not\<close>

definition one_answer :: "py_exn + provider_response \<Rightarrow> unit provider_router" where
  "one_answer r = \<lparr>pv_providers = [(''local'', \<lparr>lp_is_available = (\<lambda>w. (Inr True, w)), lp_query = (\<lambda>w rq. (r, w))\<rparr>)],
     pv_default = ''local'', pv_registry = load_registry []\<rparr>"

definition plain_chat :: "language_resolver \<Rightarrow> py_exn + provider_response \<Rightarrow> (unit, unit) chat_service" where
  "plain_chat lv r = \<lparr>chv_router = one_answer r, chv_capabilities = [], chv_memory = None, chv_models = None,
     chv_tasks = None, chv_time = None, chv_has_style = False, chv_emojis = (\<lambda>_. 0), chv_awareness = None,
     chv_rule = (\<lambda>_. []), chv_resolver = None, chv_enforcement = None, chv_language = lv, chv_listed = (\<lambda>ws. ws),
     chv_shown = (\<lambda>_. [])\<rparr>"

definition plain_request :: chat_request where
  "plain_request = \<lparr>chq_text = ''Hello'', chq_user_id = Some 7, chq_chat_id = Some 9, chq_system_prompt = ''Be kind.'',
     chq_language_override = None, chq_provider_name = None, chq_reply_to_text = None, chq_context = Some sample_context,
     chq_plan = None\<rparr>"

definition plain_moment :: chat_moment where
  "plain_moment = \<lparr>chm_now = \<lparr>mo_ts = 0, mo_date = ''2026-01-01'', mo_hour = 10, mo_weekday = 3, mo_clock = ''10:00''\<rparr>,
     chm_time = 0, chm_stamp = ''t'', chm_event_stamp = ''t'', chm_evidence_stamp = ''t'', chm_turn_stamps = (''t'', ''t''), chm_event_id = ''evt_1'', chm_error_id = ''abcd'', chm_evidence_id = ''ev_1'',
     chm_request_id = ''r1'', chm_persists = True\<rparr>"

definition plain_state :: "unit chat_state" where
  "plain_state = \<lparr>chs_conversations = empty_conversations, chs_models = [], chs_style = init_style_service,
     chs_activity = [], chs_matcher = None, chs_metrics = no_metrics, chs_world = (), chs_audit = []\<rparr>"

lemma a_call_succeeds:
  "chr_success (fst (process_user_message (plain_chat lv (Inr \<lparr>pr_text = ''Hi'', pr_duration_seconds = 1,
     pr_provider_name = ''local'', pr_model = None, pr_error = None\<rparr>)) plain_request plain_moment plain_state))"
  by (simp add: process_user_message_def answer_turn_def prepare_turn_def plain_chat_def plain_request_def plain_moment_def
      plain_state_def request_language_def choose_task_def chat_skill_def chat_memory_def build_memory_context_def
      chat_nudge_def observe_message_def and_then_def ask_provider_def one_answer_def route_def deliver_def Let_def
      default_chat_result_def truthy_def py_strip_of_def py_lstrip_of_def py_rstrip_of_def py_isspace_def split: prod.split)

lemma a_timeout_is_answered:
  "chr_error_message (fst (process_user_message (plain_chat lv (Inl (provider_timeout ''local'' 120))) plain_request
     plain_moment plain_state)) = ''The language model provider reports a problem (ref: abcd). Try again shortly.''"
  by (simp add: process_user_message_def answer_turn_def prepare_turn_def plain_chat_def plain_request_def plain_moment_def
      plain_state_def request_language_def choose_task_def chat_skill_def chat_memory_def build_memory_context_def
      chat_nudge_def observe_message_def and_then_def ask_provider_def one_answer_def route_def Let_def
      exception_result_def default_chat_result_def is_instance_def exn_bases_def provider_timeout_def)

end
