(* ===== verification/StreamGuard.thy ===== *)
theory StreamGuard
  imports ResponseVerifier
begin

text \<open>
  The guard on a running stream: \<open>application/language/stream_guard.py\<close>. It looks once at the text that has arrived
  and can stop the stream; statistics per chat are to switch it off when it stops too much. The detection library is
  a parameter, probabilities are exact rationals.
\<close>

section \<open>State and statistics\<close>

datatype guard_outcome = NO_CHECK | PASSED_NO_ABORT | CONFIRMED_ABORT | FALSE_POSITIVE_ABORT | UNKNOWN_ABORT

definition min_chars_for_check :: nat where "min_chars_for_check = 200"
definition early_abort_confidence :: rat where "early_abort_confidence = 85 / 100"
definition max_consecutive_fp :: nat where "max_consecutive_fp = 3"
definition fp_rate_disable_threshold :: rat where "fp_rate_disable_threshold = 5 / 100"

text \<open>The text of the reason for disabling is left out; there is one exactly when the guard is disabled.\<close>

record guard_state =
  gs_check_performed :: bool
  gs_aborted :: bool
  gs_detected_lang_at_abort :: "string option"
  gs_abort_confidence :: rat
  gs_partial_text_length :: nat
  gs_outcome :: "guard_outcome option"
  gs_partial_verification_confidence :: rat
  gs_disabled :: bool

definition initial_guard_state :: guard_state where
  "initial_guard_state = \<lparr>gs_check_performed = False, gs_aborted = False, gs_detected_lang_at_abort = None,
     gs_abort_confidence = 0, gs_partial_text_length = 0, gs_outcome = None, gs_partial_verification_confidence = 0,
     gs_disabled = False\<rparr>"

record guard_stats =
  gt_total_checks :: nat
  gt_total_aborts :: nat
  gt_confirmed_aborts :: nat
  gt_false_positives :: nat
  gt_unknown_aborts :: nat
  gt_consecutive_fp :: nat
  gt_disabled_sessions :: nat

definition new_guard_stats :: guard_stats where
  "new_guard_stats = \<lparr>gt_total_checks = 0, gt_total_aborts = 0, gt_confirmed_aborts = 0, gt_false_positives = 0,
     gt_unknown_aborts = 0, gt_consecutive_fp = 0, gt_disabled_sessions = 0\<rparr>"

definition fp_rate :: "guard_stats \<Rightarrow> rat" where
  "fp_rate gt = (if gt_total_aborts gt = 0 then 0 else of_nat (gt_false_positives gt) / of_nat (gt_total_aborts gt))"

definition should_disable :: "guard_stats \<Rightarrow> bool" where
  "should_disable gt =
     (max_consecutive_fp \<le> gt_consecutive_fp gt
      \<or> (5 \<le> gt_total_aborts gt \<and> fp_rate_disable_threshold < fp_rate gt))"

record stream_guard =
  gd_expected_lang :: string
  gd_enabled :: bool
  gd_backend :: language_backend
  gd_state :: guard_state
  gd_check_recorded :: bool

definition init_stream_guard :: "string \<Rightarrow> bool \<Rightarrow> language_backend \<Rightarrow> stream_guard" where
  "init_stream_guard lang enabled backend =
     \<lparr>gd_expected_lang = lang, gd_enabled = enabled, gd_backend = backend, gd_state = initial_guard_state,
      gd_check_recorded = False\<rparr>"

definition guard_is_active :: "stream_guard \<Rightarrow> bool" where
  "guard_is_active gd = (gd_enabled gd \<and> \<not> gs_disabled (gd_state gd))"

section \<open>The check\<close>

definition check_early :: "stream_guard \<Rightarrow> string \<Rightarrow> stream_guard \<times> bool" where
  "check_early gd partial_stream =
     (if \<not> guard_is_active gd then (gd, True)
      else if gs_check_performed (gd_state gd) then (gd, \<not> gs_aborted (gd_state gd))
      else if length partial_stream < min_chars_for_check then (gd, True)
      else (let gs = (gd_state gd)\<lparr>gs_check_performed := True\<rparr>;
                distribution = gd_backend gd partial_stream;
                (detected, confidence) = (if distribution = [] then ([], 0) else first_max distribution)
            in if detected \<noteq> gd_expected_lang gd \<and> early_abort_confidence \<le> confidence
               then (gd\<lparr>gd_state := gs\<lparr>gs_aborted := True, gs_detected_lang_at_abort := Some detected,
                        gs_abort_confidence := confidence, gs_partial_text_length := length partial_stream\<rparr>\<rparr>, False)
               else (gd\<lparr>gd_state := gs\<rparr>, True)))"

section \<open>Outcomes\<close>

text \<open>The counter of checks moves once for a guard.\<close>

definition record_check :: "stream_guard \<Rightarrow> guard_stats option \<Rightarrow> stream_guard \<times> guard_stats option" where
  "record_check gd stats =
     (case stats of
        None \<Rightarrow> (gd, None)
      | Some gt \<Rightarrow>
          if gd_check_recorded gd then (gd, Some gt)
          else (gd\<lparr>gd_check_recorded := True\<rparr>, Some (gt\<lparr>gt_total_checks := gt_total_checks gt + 1\<rparr>)))"

definition auto_disable :: "stream_guard \<Rightarrow> guard_stats \<Rightarrow> stream_guard \<times> guard_stats" where
  "auto_disable gd gt =
     (if should_disable gt \<and> \<not> gs_disabled (gd_state gd)
      then (gd\<lparr>gd_state := (gd_state gd)\<lparr>gs_disabled := True\<rparr>\<rparr>,
            gt\<lparr>gt_disabled_sessions := gt_disabled_sessions gt + 1\<rparr>)
      else (gd, gt))"

definition count_abort :: "guard_outcome \<Rightarrow> guard_stats \<Rightarrow> guard_stats" where
  "count_abort outcome gt =
     (let gt1 = gt\<lparr>gt_total_aborts := gt_total_aborts gt + 1\<rparr>
      in case outcome of
           CONFIRMED_ABORT \<Rightarrow> gt1\<lparr>gt_confirmed_aborts := gt_confirmed_aborts gt + 1, gt_consecutive_fp := 0\<rparr>
         | FALSE_POSITIVE_ABORT \<Rightarrow>
             gt1\<lparr>gt_false_positives := gt_false_positives gt + 1, gt_consecutive_fp := gt_consecutive_fp gt + 1\<rparr>
         | UNKNOWN_ABORT \<Rightarrow> gt1\<lparr>gt_unknown_aborts := gt_unknown_aborts gt + 1\<rparr>
         | _ \<Rightarrow> gt1)"

definition apply_outcome_to_stats ::
    "stream_guard \<Rightarrow> guard_outcome \<Rightarrow> guard_stats option \<Rightarrow> stream_guard \<times> guard_stats option" where
  "apply_outcome_to_stats gd outcome stats =
     (case stats of
        None \<Rightarrow> (gd, None)
      | Some gt \<Rightarrow>
          if \<not> gs_check_performed (gd_state gd) then (gd, Some gt)
          else (case auto_disable gd (count_abort outcome gt) of (gd1, gt1) \<Rightarrow> (gd1, Some gt1)))"

definition probability :: "(string \<times> rat) list \<Rightarrow> string \<Rightarrow> rat" where
  "probability distribution lang = (case map_of distribution lang of None \<Rightarrow> 0 | Some p \<Rightarrow> p)"

definition classified_outcome :: "stream_guard \<Rightarrow> (string \<times> rat) list \<Rightarrow> guard_outcome" where
  "classified_outcome gd distribution =
     (let target_prob = probability distribution (gd_expected_lang gd)
      in if 30 / 100 \<le> target_prob then FALSE_POSITIVE_ABORT
         else case gs_detected_lang_at_abort (gd_state gd) of
                Some lang \<Rightarrow>
                  if target_prob < 10 / 100 \<and> early_abort_confidence \<le> probability distribution lang
                  then CONFIRMED_ABORT else UNKNOWN_ABORT
              | None \<Rightarrow> UNKNOWN_ABORT)"

definition classify_and_report_abort ::
    "stream_guard \<Rightarrow> string \<Rightarrow> guard_stats option \<Rightarrow> (stream_guard \<times> guard_stats option) \<times> guard_outcome" where
  "classify_and_report_abort gd accumulated_text stats =
     (if \<not> gs_aborted (gd_state gd)
      then ((gd\<lparr>gd_state := (gd_state gd)\<lparr>gs_outcome := Some NO_CHECK\<rparr>\<rparr>, stats), NO_CHECK)
      else (let distribution = gd_backend gd accumulated_text;
                outcome = classified_outcome gd distribution;
                gd1 = gd\<lparr>gd_state := (gd_state gd)
                        \<lparr>gs_partial_verification_confidence := probability distribution (gd_expected_lang gd),
                         gs_outcome := Some outcome\<rparr>\<rparr>;
                (gd2, stats1) = record_check gd1 stats
            in (apply_outcome_to_stats gd2 outcome stats1, outcome)))"

definition report_final_outcome ::
    "stream_guard \<Rightarrow> bool \<Rightarrow> guard_stats option \<Rightarrow> stream_guard \<times> guard_stats option" where
  "report_final_outcome gd passed stats =
     (if stats = None \<or> \<not> gs_check_performed (gd_state gd) then (gd, stats)
      else case record_check gd stats of
             (gd1, None) \<Rightarrow> (gd1, None)
           | (gd1, Some gt) \<Rightarrow>
               (let gt1 = (if gs_aborted (gd_state gd1)
                           then count_abort (if passed then FALSE_POSITIVE_ABORT else CONFIRMED_ABORT) gt else gt)
                in case auto_disable gd1 gt1 of (gd2, gt2) \<Rightarrow> (gd2, Some gt2)))"

section \<open>The audit entry\<close>

record guard_audit =
  ga_expected_lang :: string
  ga_check_performed :: bool
  ga_aborted :: bool
  ga_disabled :: bool
  ga_detected_at_abort :: "string option"
  ga_abort_confidence :: "rat option"
  ga_partial_length :: "nat option"
  ga_outcome :: "guard_outcome option"
  ga_partial_verification_confidence :: "rat option"

definition three_places :: "rat \<Rightarrow> rat" where
  "three_places q = of_int (round_half_even (q * 1000)) / 1000"

definition build_audit_entry :: "stream_guard \<Rightarrow> guard_audit" where
  "build_audit_entry gd =
     (let gs = gd_state gd
      in \<lparr>ga_expected_lang = gd_expected_lang gd, ga_check_performed = gs_check_performed gs,
          ga_aborted = gs_aborted gs, ga_disabled = gs_disabled gs,
          ga_detected_at_abort = (if truthy (gs_detected_lang_at_abort gs) then gs_detected_lang_at_abort gs else None),
          ga_abort_confidence = (if 0 < gs_abort_confidence gs then Some (three_places (gs_abort_confidence gs)) else None),
          ga_partial_length = (if 0 < gs_partial_text_length gs then Some (gs_partial_text_length gs) else None),
          ga_outcome = gs_outcome gs,
          ga_partial_verification_confidence =
            (if 0 < gs_partial_verification_confidence gs
             then Some (three_places (gs_partial_verification_confidence gs)) else None)\<rparr>)"

section \<open>The store of statistics\<close>

text \<open>The keys are in the order of their last use, the oldest first. Statistics are changed in place.\<close>

type_synonym stats_store = "((int \<times> int) \<times> guard_stats) list"

definition max_stats_entries :: nat where "max_stats_entries = 10000"

definition stats_get :: "nat \<Rightarrow> stats_store \<Rightarrow> int \<Rightarrow> int \<Rightarrow> stats_store \<times> guard_stats" where
  "stats_get cap store user_id chat_id =
     (let key = (user_id, chat_id)
      in case map_of store key of
           Some gt \<Rightarrow> (AList.delete key store @ [(key, gt)], gt)
         | None \<Rightarrow>
             (let kept = (if cap \<le> length store then tl store else store)
              in (kept @ [(key, new_guard_stats)], new_guard_stats)))"

definition stats_set :: "stats_store \<Rightarrow> int \<Rightarrow> int \<Rightarrow> guard_stats \<Rightarrow> stats_store" where
  "stats_set store user_id chat_id gt =
     map (\<lambda>(k, old). (k, if k = (user_id, chat_id) then gt else old)) store"

definition stats_clear :: "stats_store \<Rightarrow> int \<Rightarrow> int \<Rightarrow> stats_store \<times> bool" where
  "stats_clear store user_id chat_id =
     (AList.delete (user_id, chat_id) store, map_of store (user_id, chat_id) \<noteq> None)"

definition all_stats :: "stats_store \<Rightarrow> ((int \<times> int) \<times> guard_stats) list" where
  "all_stats store = store"

section \<open>When the guard stops a stream\<close>

text \<open>The library's documented result: languages without repetition, probabilities that add up to at most one.\<close>

definition distribution_ok :: "(string \<times> rat) list \<Rightarrow> bool" where
  "distribution_ok d = (distinct (map fst d) \<and> list_all (\<lambda>(_, p). 0 \<le> p) d \<and> sum_list (map snd d) \<le> 1)"

lemma check_early_abort:
  assumes "check_early gd t = (gd1, False)" and "\<not> gs_aborted (gd_state gd)"
  obtains detected confidence where "guard_is_active gd" "min_chars_for_check \<le> length t" "gd_backend gd t \<noteq> []"
    "first_max (gd_backend gd t) = (detected, confidence)" "detected \<noteq> gd_expected_lang gd"
    "early_abort_confidence \<le> confidence" "gs_aborted (gd_state gd1)" "gs_check_performed (gd_state gd1)"
    "gs_detected_lang_at_abort (gd_state gd1) = Some detected" "gd_backend gd1 = gd_backend gd"
    "gd_expected_lang gd1 = gd_expected_lang gd"
proof -
  obtain detected confidence where f:
      "(if gd_backend gd t = [] then ([], 0) else first_max (gd_backend gd t)) = (detected, confidence)"
    by (metis surj_pair)
  have c: "guard_is_active gd" "\<not> length t < min_chars_for_check" "detected \<noteq> gd_expected_lang gd"
      "early_abort_confidence \<le> confidence"
    and g: "gd1 = gd\<lparr>gd_state := (gd_state gd)\<lparr>gs_check_performed := True, gs_aborted := True,
        gs_detected_lang_at_abort := Some detected, gs_abort_confidence := confidence,
        gs_partial_text_length := length t\<rparr>\<rparr>"
    using assms f by (auto simp: check_early_def Let_def split: if_splits)
  have "gd_backend gd t \<noteq> []" using f c(4) by (auto simp: early_abort_confidence_def)
  then show thesis using that c f g by simp
qed

lemma one_le_sum:
  fixes f :: "'a \<Rightarrow> rat"
  shows "(\<And>z. z \<in> set d \<Longrightarrow> 0 \<le> f z) \<Longrightarrow> x \<in> set d \<Longrightarrow> f x \<le> sum_list (map f d)"
proof (induction d)
  case (Cons z d)
  have "0 \<le> sum_list (map f d)" using Cons.prems by (intro sum_list_nonneg) auto
  moreover have "0 \<le> f z" using Cons.prems by simp
  ultimately show ?case using Cons by (cases "x = z") force+
qed simp

lemma two_le_sum:
  fixes f :: "'a \<Rightarrow> rat"
  shows "(\<And>z. z \<in> set d \<Longrightarrow> 0 \<le> f z) \<Longrightarrow> x \<in> set d \<Longrightarrow> y \<in> set d \<Longrightarrow> x \<noteq> y
    \<Longrightarrow> f x + f y \<le> sum_list (map f d)"
proof (induction d)
  case (Cons z d)
  have z: "0 \<le> f z" "\<And>v. v \<in> set d \<Longrightarrow> 0 \<le> f v" using Cons.prems(1) by simp_all
  consider "x = z" "y \<in> set d" | "y = z" "x \<in> set d" | "x \<in> set d" "y \<in> set d" using Cons.prems by auto
  then show ?case
  proof cases
    case 1
    then show ?thesis using one_le_sum [where f = f and d = d and x = y, OF z(2)] by simp
  next
    case 2
    then show ?thesis using one_le_sum [where f = f and d = d and x = x, OF z(2)] by simp
  next
    case 3
    then show ?thesis using Cons.IH [OF z(2)] Cons.prems(4) z(1) by fastforce
  qed
qed simp

lemma two_probabilities:
  assumes "distribution_ok d" "(l, p) \<in> set d" "k \<noteq> l"
  shows "p + probability d k \<le> 1" and "probability d l = p"
proof -
  have nonneg: "0 \<le> snd z" if "z \<in> set d" for z using that assms(1) by (auto simp: distribution_ok_def list_all_iff)
  show "probability d l = p"
    using assms(1,2) by (auto simp: probability_def distribution_ok_def)
  show "p + probability d k \<le> 1"
  proof (cases "map_of d k")
    case None
    then show ?thesis using one_le_sum [where f = snd, OF nonneg assms(2)] assms(1) by (simp add: probability_def distribution_ok_def)
  next
    case (Some q)
    then have "(k, q) \<in> set d" by (rule map_of_SomeD)
    from two_le_sum [where f = snd, OF nonneg assms(2) this] Some assms(1,3) show ?thesis
      by (simp add: probability_def distribution_ok_def)
  qed
qed

text \<open>
  The stopped text is judged again by the same library, so that the probability of the expected language is at most
  0.15: the stop is confirmed or unclear, never a false positive.
\<close>

lemma abort_is_never_a_false_positive:
  assumes "check_early gd t = (gd1, False)" and "\<not> gs_aborted (gd_state gd)" and "distribution_ok (gd_backend gd t)"
  shows "snd (classify_and_report_abort gd1 t stats) =
    (if probability (gd_backend gd t) (gd_expected_lang gd) < 10 / 100 then CONFIRMED_ABORT else UNKNOWN_ABORT)"
proof -
  obtain detected confidence where a: "gd_backend gd t \<noteq> []"
    "first_max (gd_backend gd t) = (detected, confidence)" "detected \<noteq> gd_expected_lang gd"
    "early_abort_confidence \<le> confidence" "gs_aborted (gd_state gd1)"
    "gs_detected_lang_at_abort (gd_state gd1) = Some detected" "gd_backend gd1 = gd_backend gd"
    "gd_expected_lang gd1 = gd_expected_lang gd"
    by (rule check_early_abort [OF assms(1,2)]) blast
  have m: "(detected, confidence) \<in> set (gd_backend gd t)" using first_max_in [OF a(1)] a(2) by simp
  have p: "confidence + probability (gd_backend gd t) (gd_expected_lang gd) \<le> 1"
    "probability (gd_backend gd t) detected = confidence"
    using two_probabilities [OF assms(3) m a(3) [symmetric]] by simp_all
  then have "\<not> 30 / 100 \<le> probability (gd_backend gd t) (gd_expected_lang gd)"
    using a(4) by (simp add: early_abort_confidence_def)
  then show ?thesis
    using a p by (simp add: classify_and_report_abort_def classified_outcome_def Let_def split_beta)
qed

section \<open>Statistics\<close>

definition stats_ok :: "guard_stats \<Rightarrow> bool" where
  "stats_ok gt \<longleftrightarrow>
     gt_total_aborts gt = gt_confirmed_aborts gt + gt_false_positives gt + gt_unknown_aborts gt
     \<and> gt_consecutive_fp gt \<le> gt_false_positives gt"

lemma stats_ok_new [simp]: "stats_ok new_guard_stats"
  by (simp add: stats_ok_def new_guard_stats_def)

lemma stats_ok_count:
  "stats_ok gt \<Longrightarrow> oc \<noteq> NO_CHECK \<Longrightarrow> oc \<noteq> PASSED_NO_ABORT \<Longrightarrow> stats_ok (count_abort oc gt)"
  by (cases oc) (auto simp: stats_ok_def count_abort_def Let_def)

lemma classified_outcomes:
  "classified_outcome gd d \<noteq> NO_CHECK" "classified_outcome gd d \<noteq> PASSED_NO_ABORT"
  by (auto simp: classified_outcome_def Let_def split: option.splits if_splits)

lemma stats_ok_disable: "stats_ok gt \<Longrightarrow> auto_disable gd gt = (gd1, gt1) \<Longrightarrow> stats_ok gt1"
  by (auto simp: auto_disable_def stats_ok_def split: if_splits)

lemma stats_ok_record: "stats_ok gt \<Longrightarrow> record_check gd (Some gt) = (gd1, Some gt1) \<Longrightarrow> stats_ok gt1"
  by (auto simp: record_check_def stats_ok_def split: if_splits)

lemma record_check_Some: "\<exists>gd1 gt1. record_check gd (Some gt) = (gd1, Some gt1)"
  by (simp add: record_check_def)

lemma stats_ok_classify:
  assumes "stats_ok gt" "classify_and_report_abort gd t (Some gt) = ((gd1, Some gt1), oc)"
  shows "stats_ok gt1"
proof (cases "gs_aborted (gd_state gd)")
  case True
  let ?d = "gd_backend gd t"
  let ?g = "gd\<lparr>gd_state := (gd_state gd)\<lparr>gs_partial_verification_confidence := probability ?d (gd_expected_lang gd),
      gs_outcome := Some (classified_outcome gd ?d)\<rparr>\<rparr>"
  obtain gd2 gt2 where r: "record_check ?g (Some gt) = (gd2, Some gt2)" using record_check_Some by metis
  have "stats_ok gt2" by (rule stats_ok_record [OF assms(1) r])
  moreover have "apply_outcome_to_stats gd2 (classified_outcome gd ?d) (Some gt2) = (gd1, Some gt1)"
    using assms(2) True by (auto simp only: classify_and_report_abort_def Let_def r split if_False simp_thms prod.inject)
  ultimately show ?thesis
    using stats_ok_disable [OF stats_ok_count [OF \<open>stats_ok gt2\<close> classified_outcomes]]
    by (auto simp: apply_outcome_to_stats_def split: if_splits prod.splits)
qed (use assms in \<open>simp add: classify_and_report_abort_def\<close>)

lemma stats_ok_report:
  assumes "stats_ok gt" "report_final_outcome gd passed (Some gt) = (gd1, Some gt1)"
  shows "stats_ok gt1"
proof -
  obtain gd2 gt2 where r: "record_check gd (Some gt) = (gd2, Some gt2)" using record_check_Some by metis
  have "stats_ok gt2" by (rule stats_ok_record [OF assms(1) r])
  moreover have "stats_ok (count_abort (if passed then FALSE_POSITIVE_ABORT else CONFIRMED_ABORT) gt2)"
    by (rule stats_ok_count) (use calculation in auto)
  ultimately show ?thesis
    using assms r by (auto simp: report_final_outcome_def Let_def split: if_splits prod.splits dest: stats_ok_disable)
qed

end
