(* ===== verification/ChatStreaming.thy ===== *)
theory ChatStreaming
  imports ChatService StreamGuard
begin

text \<open>
  The streaming variant of a call: \<open>process_user_message_streaming\<close> and \<open>save_streaming_result\<close> of
  \<open>application/chat_service.py\<close> with the guard of \<open>StreamGuard\<close>. The stream of the provider is a list of events; the
  consumer takes them all, unless the guard stops the stream. Status messages, and the counters of the audit
  entry, are left out.
\<close>

section \<open>The stream\<close>

record stream_event =
  vt_event_type :: string
  vt_text :: string
  vt_full_text :: string
  vt_is_final :: bool
  vt_was_cold :: bool
  vt_subprocess_pid :: int

definition is_delta :: "stream_event \<Rightarrow> bool" where
  "is_delta ev = (vt_event_type ev = ''content_delta'')"

text \<open>
  The variables of the generator \<open>_stream\<close> and what it changes outside: the statistics, the log of the guard, the
  text with which a stop is reported, and the event that cancels the stream.
\<close>

record stream_run =
  rn_guard :: "stream_guard option"
  rn_store :: stats_store
  rn_log :: "guard_audit list"
  rn_accumulated :: string
  rn_yielded :: "stream_event list"
  rn_started :: bool
  rn_abort_text :: "string option"
  rn_cancelled :: bool

definition start_run :: "stream_guard option \<Rightarrow> stats_store \<Rightarrow> stream_run" where
  "start_run gd store = \<lparr>rn_guard = gd, rn_store = store, rn_log = [], rn_accumulated = [], rn_yielded = [],
     rn_started = False, rn_abort_text = None, rn_cancelled = False\<rparr>"

definition stop_stream :: "int \<Rightarrow> int \<Rightarrow> bool \<Rightarrow> stream_guard \<Rightarrow> stream_run \<Rightarrow> stream_run" where
  "stop_stream uid cid cancellable gd rn =
     (let (store1, gt) = stats_get max_stats_entries (rn_store rn) uid cid;
          ((gd1, stats1), outcome) = classify_and_report_abort gd (rn_accumulated rn) (Some gt)
      in rn\<lparr>rn_guard := Some gd1,
            rn_store := (case stats1 of None \<Rightarrow> store1 | Some gt1 \<Rightarrow> stats_set store1 uid cid gt1),
            rn_log := rn_log rn @ [build_audit_entry gd1], rn_abort_text := Some (rn_accumulated rn),
            rn_cancelled := cancellable\<rparr>)"

definition yield_event :: "stream_event \<Rightarrow> stream_run \<Rightarrow> stream_run" where
  "yield_event ev rn = rn\<lparr>rn_yielded := rn_yielded rn @ [ev]\<rparr>"

fun run_stream :: "int \<Rightarrow> int \<Rightarrow> bool \<Rightarrow> stream_event list \<Rightarrow> stream_run \<Rightarrow> stream_run" where
  "run_stream uid cid cancellable [] rn = rn"
| "run_stream uid cid cancellable (ev # evs) rn =
     (let rn1 = rn\<lparr>rn_started := (rn_started rn \<or> is_delta ev)\<rparr>
      in case rn_guard rn of
           Some gd \<Rightarrow>
             if is_delta ev \<and> vt_text ev \<noteq> []
             then (let acc = rn_accumulated rn @ vt_text ev;
                       (gd1, continues) = check_early gd acc;
                       rn2 = rn1\<lparr>rn_guard := Some gd1, rn_accumulated := acc\<rparr>
                   in if continues then run_stream uid cid cancellable evs (yield_event ev rn2)
                      else stop_stream uid cid cancellable gd1 rn2)
             else run_stream uid cid cancellable evs (yield_event ev rn1)
         | None \<Rightarrow> run_stream uid cid cancellable evs (yield_event ev rn1))"

section \<open>Opening a stream\<close>

record 'w stream_world =
  sw_chat :: "'w chat_state"
  sw_stats :: stats_store
  sw_guard_log :: "guard_audit list"

definition stream_guard_for ::
    "('w, 's) chat_service \<Rightarrow> language_backend \<Rightarrow> string \<Rightarrow> string option \<Rightarrow> int \<Rightarrow> int \<Rightarrow> stats_store
       \<Rightarrow> stream_guard option \<times> stats_store" where
  "stream_guard_for cv backend lang m uid cid store =
     (if chv_enforcement cv = None \<or> lang = ''auto'' \<or> \<not> ap_stream_guard (get_profile m) then (None, store)
      else (let (store1, gt) = stats_get max_stats_entries store uid cid
            in (Some (init_stream_guard lang (\<not> should_disable gt) backend), store1)))"

text \<open>A nudge goes to the end of the prompt here, not into the answer.\<close>

definition stream_prompt :: "chat_turn \<Rightarrow> string" where
  "stream_prompt tn =
     (if cht_nudge tn = [] then cht_prompt tn
      else cht_prompt tn @ [newline, newline] @ ''[PROACTIVE NUDGE] '' @ cht_nudge tn)"

definition open_stream ::
    "('w, 's) chat_service \<Rightarrow> language_backend \<Rightarrow> chat_request \<Rightarrow> chat_moment \<Rightarrow> 'w stream_world
       \<Rightarrow> (py_exn + (chat_turn \<times> string \<times> stream_guard option)) \<times> 'w stream_world" where
  "open_stream cv backend cq ck sw =
     (case prepare_turn cv cq ck (sw_chat sw) of
        (Inl e, st) \<Rightarrow> (Inl e, sw\<lparr>sw_chat := st\<rparr>)
      | (Inr (tn, context_prompt), st) \<Rightarrow>
          (let (gd, store) = stream_guard_for cv backend (lx_code (cht_language tn)) (snd (cht_task tn))
                 (or_zero (chq_user_id cq)) (or_zero (chq_chat_id cq)) (sw_stats sw)
           in (Inr (tn, context_prompt, gd), sw\<lparr>sw_chat := st, sw_stats := store\<rparr>)))"

text \<open>\<open>source\<close> is \<open>query_streaming\<close> of the process pool: what a prompt makes it deliver.\<close>

definition process_user_message_streaming ::
    "('w, 's) chat_service \<Rightarrow> language_backend
       \<Rightarrow> (string \<Rightarrow> string \<Rightarrow> int \<Rightarrow> int \<Rightarrow> string option \<Rightarrow> 'w \<Rightarrow> stream_event list \<times> 'w) \<Rightarrow> bool
       \<Rightarrow> chat_request \<Rightarrow> chat_moment \<Rightarrow> 'w stream_world \<Rightarrow> (py_exn + (chat_turn \<times> stream_run)) \<times> 'w stream_world" where
  "process_user_message_streaming cv backend source cancellable cq ck sw =
     and_then (open_stream cv backend cq ck sw) (\<lambda>(tn, context_prompt, gd) sw1.
       let uid = or_zero (chq_user_id cq); cid = or_zero (chq_chat_id cq);
           (evs, w) = source context_prompt (stream_prompt tn) uid cid (snd (cht_task tn)) (chs_world (sw_chat sw1));
           rn = run_stream uid cid cancellable evs (start_run gd (sw_stats sw1))
       in (Inr (tn, rn), sw1\<lparr>sw_chat := (sw_chat sw1)\<lparr>chs_world := w\<rparr>, sw_stats := rn_store rn,
             sw_guard_log := sw_guard_log sw1 @ rn_log rn\<rparr>))"

section \<open>Saving what was streamed\<close>

record streamed_result =
  sd_user_id :: int
  sd_chat_id :: int
  sd_user_text :: string
  sd_response_text :: string
  sd_system_prompt :: string
  sd_memory_context :: string
  sd_language_code :: "string option"
  sd_language_ctx :: "language_context option"
  sd_user_model :: "string option"
  sd_provider_name :: "string option"
  sd_guard :: "stream_guard option"
  sd_skill_match :: "skill_match option"

definition leakage_checked :: "streamed_result \<Rightarrow> string \<times> bool" where
  "leakage_checked sd =
     (if sd_system_prompt sd = [] then (sd_response_text sd, False)
      else case check_for_system_prompt_leakage (sd_response_text sd) (sd_system_prompt sd)
                  (if sd_memory_context sd = [] then None else Some [sd_memory_context sd]) of
             Some replacement \<Rightarrow> (replacement, True)
           | None \<Rightarrow> (sd_response_text sd, False))"

definition report_to_guard ::
    "stream_guard option \<Rightarrow> int \<Rightarrow> int \<Rightarrow> bool \<Rightarrow> stats_store \<Rightarrow> stats_store" where
  "report_to_guard guard uid cid passed store =
     (case guard of
        None \<Rightarrow> store
      | Some gd \<Rightarrow>
          (let (store1, gt) = stats_get max_stats_entries store uid cid
           in case report_final_outcome gd passed (Some gt) of
                (_, Some gt1) \<Rightarrow> stats_set store1 uid cid gt1
              | (_, None) \<Rightarrow> store1))"

definition streamed_enforcement ::
    "('w, 's) chat_service \<Rightarrow> streamed_result \<Rightarrow> string \<Rightarrow> 'w stream_world \<Rightarrow> (string \<times> bool) \<times> 'w stream_world" where
  "streamed_enforcement cv sd response sw =
     (case (chv_enforcement cv, sd_language_ctx sd) of
        (Some lf, Some lx) \<Rightarrow>
          if \<not> truthy (sd_language_code sd) \<or> sd_language_code sd = Some ''auto'' then ((response, False), sw)
          else (let nc = \<lparr>nc_provider_name = sd_provider_name sd, nc_user_id = sd_user_id sd, nc_chat_id = sd_chat_id sd,
                          nc_model = sd_user_model sd, nc_base_prompt = sd_system_prompt sd\<rparr>;
                    (r, w) = enforce_language lf response lx nc (chs_world (sw_chat sw));
                    passed = (case en_verification r of None \<Rightarrow> True | Some v \<Rightarrow> verification_passed v)
                in ((if en_was_enforced r then en_final_output r else response, en_was_enforced r),
                    sw\<lparr>sw_chat := (sw_chat sw)\<lparr>chs_world := w\<rparr>,
                       sw_stats := report_to_guard (sd_guard sd) (sd_user_id sd) (sd_chat_id sd) passed (sw_stats sw)\<rparr>))
      | _ \<Rightarrow> ((response, False), sw))"

definition streamed_skill ::
    "chat_moment \<Rightarrow> skill_match option \<Rightarrow> chat_audit \<Rightarrow> 'w chat_state \<Rightarrow> chat_audit \<times> 'w chat_state" where
  "streamed_skill ck matched au st =
     (case matched of
        None \<Rightarrow> (au, st)
      | Some m \<Rightarrow>
          (let name = Some (h_hypothesis_id (sx_hypothesis m))
           in if should_ask_user m then (au\<lparr>cha_skill_ask_before := name\<rparr>, st)
              else (au\<lparr>cha_skill_applied := name\<rparr>,
                    st\<lparr>chs_matcher := write_skill_evidence (chm_evidence_id ck) (chm_evidence_stamp ck) m ''no_correction''
                         (PFin (3 / 10)) (chs_matcher st)\<rparr>)))"

definition save_streaming_result ::
    "('w, 's) chat_service \<Rightarrow> chat_moment \<Rightarrow> streamed_result \<Rightarrow> 'w stream_world \<Rightarrow> string \<times> 'w stream_world" where
  "save_streaming_result cv ck sd sw =
     (let (checked, leaked) = leakage_checked sd;
          ((final, enforced), sw1) = streamed_enforcement cv sd checked sw;
          st1 = (sw_chat sw1)\<lparr>chs_conversations := save_turns (sd_user_id sd) (sd_chat_id sd) (chm_turn_stamps ck)
                   (sd_user_text sd) final (chs_conversations (sw_chat sw1))\<rparr>;
          (au, st2) = streamed_skill ck (sd_skill_match sd)
                   (new_audit\<lparr>cha_leakage_attempt := leaked, cha_language_enforced := enforced\<rparr>) st1
      in (final, sw1\<lparr>sw_chat := st2\<lparr>chs_audit := chs_audit st2 @ [au]\<rparr>\<rparr>))"

section \<open>A stream is passed on or cut\<close>

definition delta_text :: "stream_event list \<Rightarrow> string" where
  "delta_text evs = concat (map vt_text (filter is_delta evs))"

lemma delta_text_simps [simp]:
  "delta_text [] = []"
  "delta_text (ev # evs) = (if is_delta ev then vt_text ev @ delta_text evs else delta_text evs)"
  "delta_text (evs @ evs') = delta_text evs @ delta_text evs'"
  by (simp_all add: delta_text_def)

definition foreign_text :: "stream_guard \<Rightarrow> string \<Rightarrow> bool" where
  "foreign_text gd t =
     (gd_backend gd t \<noteq> [] \<and> fst (first_max (gd_backend gd t)) \<noteq> gd_expected_lang gd
      \<and> early_abort_confidence \<le> snd (first_max (gd_backend gd t)))"

lemma check_early_continues:
  assumes "check_early gd t = (gd1, True)"
  shows "gd_backend gd1 = gd_backend gd" "gd_expected_lang gd1 = gd_expected_lang gd"
    "guard_is_active gd1 = guard_is_active gd" "gs_aborted (gd_state gd1) = gs_aborted (gd_state gd)"
    "guard_is_active gd1 \<Longrightarrow> gs_check_performed (gd_state gd1) \<or> length t < 200"
    "gs_check_performed (gd_state gd) \<Longrightarrow> gs_check_performed (gd_state gd1)"
  using assms
  by (auto simp: check_early_def guard_is_active_def Let_def min_chars_for_check_def split: if_splits prod.splits)

lemma check_early_once:
  "check_early gd t = (gd1, False) \<Longrightarrow> \<not> gs_aborted (gd_state gd) \<Longrightarrow> \<not> gs_check_performed (gd_state gd)"
  by (auto simp: check_early_def split: if_splits)

definition cut_by ::
    "stream_guard \<Rightarrow> string \<Rightarrow> stream_event list \<Rightarrow> stream_event list \<Rightarrow> string \<Rightarrow> bool" where
  "cut_by gd acc evs passed t =
     (\<exists>ev rest. evs = passed @ ev # rest \<and> t = acc @ delta_text (passed @ [ev])
        \<and> length (acc @ delta_text passed) < 200 \<and> 200 \<le> length t \<and> guard_is_active gd \<and> foreign_text gd t)"

lemma run_stream_guarded:
  assumes "rn_guard rn = Some gd" "\<not> gs_aborted (gd_state gd)" "rn_abort_text rn = None"
    and "guard_is_active gd \<Longrightarrow> gs_check_performed (gd_state gd) \<or> length (rn_accumulated rn) < 200"
  shows "case rn_abort_text (run_stream uid cid cb evs rn) of
      None \<Rightarrow> rn_yielded (run_stream uid cid cb evs rn) = rn_yielded rn @ evs
        \<and> rn_log (run_stream uid cid cb evs rn) = rn_log rn
    | Some t \<Rightarrow> \<not> gs_check_performed (gd_state gd) \<and> (\<exists>passed.
        rn_yielded (run_stream uid cid cb evs rn) = rn_yielded rn @ passed
        \<and> cut_by gd (rn_accumulated rn) evs passed t
        \<and> rn_cancelled (run_stream uid cid cb evs rn) = cb)"
  using assms
proof (induction evs arbitrary: rn gd)
  case (Cons ev evs)
  let ?rn1 = "rn\<lparr>rn_started := (rn_started rn \<or> is_delta ev)\<rparr>" and ?acc = "rn_accumulated rn @ vt_text ev"
  show ?case
  proof (cases "is_delta ev \<and> vt_text ev \<noteq> []")
    case False
    then have d: "delta_text [ev] = []" by auto
    have step: "run_stream uid cid cb (ev # evs) rn = run_stream uid cid cb evs (yield_event ev ?rn1)"
      using False Cons.prems(1) by auto
    have next_cut: "cut_by gd (rn_accumulated rn) evs passed t \<Longrightarrow>
        cut_by gd (rn_accumulated rn) (ev # evs) (ev # passed) t" for passed t
      using d by (auto simp: cut_by_def split: if_splits)
    have pre: "rn_guard (yield_event ev ?rn1) = Some gd" "rn_abort_text (yield_event ev ?rn1) = None"
      "rn_accumulated (yield_event ev ?rn1) = rn_accumulated rn" "rn_log (yield_event ev ?rn1) = rn_log rn"
      "rn_yielded (yield_event ev ?rn1) = rn_yielded rn @ [ev]"
      using Cons.prems by (simp_all add: yield_event_def)
    have "case rn_abort_text (run_stream uid cid cb evs (yield_event ev ?rn1)) of
        None \<Rightarrow> rn_yielded (run_stream uid cid cb evs (yield_event ev ?rn1)) = rn_yielded (yield_event ev ?rn1) @ evs
          \<and> rn_log (run_stream uid cid cb evs (yield_event ev ?rn1)) = rn_log (yield_event ev ?rn1)
      | Some t \<Rightarrow> \<not> gs_check_performed (gd_state gd) \<and> (\<exists>passed.
          rn_yielded (run_stream uid cid cb evs (yield_event ev ?rn1)) = rn_yielded (yield_event ev ?rn1) @ passed
          \<and> cut_by gd (rn_accumulated (yield_event ev ?rn1)) evs passed t
          \<and> rn_cancelled (run_stream uid cid cb evs (yield_event ev ?rn1)) = cb)"
      by (rule Cons.IH) (use pre Cons.prems in simp_all)
    then show ?thesis
      unfolding step using next_cut pre by (fastforce split: option.splits)
  next
    case True
    obtain gd1 go where c: "check_early gd ?acc = (gd1, go)" by (cases "check_early gd ?acc")
    let ?rn2 = "?rn1\<lparr>rn_guard := Some gd1, rn_accumulated := ?acc\<rparr>"
    show ?thesis
    proof (cases go)
      case go: True
      have ok: "check_early gd ?acc = (gd1, True)" using c go by simp
      note k = check_early_continues [OF ok]
      have step: "run_stream uid cid cb (ev # evs) rn = run_stream uid cid cb evs (yield_event ev ?rn2)"
        using True Cons.prems(1) c go by (simp add: Let_def)
      have pre: "rn_guard (yield_event ev ?rn2) = Some gd1" "rn_abort_text (yield_event ev ?rn2) = None"
        "rn_accumulated (yield_event ev ?rn2) = ?acc" "rn_log (yield_event ev ?rn2) = rn_log rn"
        "rn_yielded (yield_event ev ?rn2) = rn_yielded rn @ [ev]"
        using Cons.prems by (simp_all add: yield_event_def)
      have foreign: "foreign_text gd1 t = foreign_text gd t" for t using k(1,2) by (simp add: foreign_text_def)
      have next_cut: "cut_by gd1 ?acc evs passed t \<Longrightarrow> cut_by gd (rn_accumulated rn) (ev # evs) (ev # passed) t"
        for passed t
        using True k(3) foreign by (auto simp: cut_by_def)
      have "case rn_abort_text (run_stream uid cid cb evs (yield_event ev ?rn2)) of
          None \<Rightarrow> rn_yielded (run_stream uid cid cb evs (yield_event ev ?rn2)) = rn_yielded (yield_event ev ?rn2) @ evs
            \<and> rn_log (run_stream uid cid cb evs (yield_event ev ?rn2)) = rn_log (yield_event ev ?rn2)
        | Some t \<Rightarrow> \<not> gs_check_performed (gd_state gd1) \<and> (\<exists>passed.
            rn_yielded (run_stream uid cid cb evs (yield_event ev ?rn2)) = rn_yielded (yield_event ev ?rn2) @ passed
            \<and> cut_by gd1 (rn_accumulated (yield_event ev ?rn2)) evs passed t
            \<and> rn_cancelled (run_stream uid cid cb evs (yield_event ev ?rn2)) = cb)"
        by (rule Cons.IH) (use pre Cons.prems k in simp_all)
      then show ?thesis
        unfolding step using next_cut pre k(6) by (fastforce split: option.splits)
    next
      case stop: False
      have abort: "check_early gd ?acc = (gd1, False)" using c stop by simp
      have first: "\<not> gs_check_performed (gd_state gd)" by (rule check_early_once [OF abort Cons.prems(2)])
      have short: "guard_is_active gd" "200 \<le> length ?acc" "foreign_text gd ?acc"
        by (rule check_early_abort [OF abort Cons.prems(2)], simp add: foreign_text_def min_chars_for_check_def)+
      have step: "run_stream uid cid cb (ev # evs) rn = stop_stream uid cid cb gd1 ?rn2"
        using True Cons.prems(1) abort by (simp add: Let_def)
      have "cut_by gd (rn_accumulated rn) (ev # evs) [] ?acc"
        using True short first Cons.prems(4) by (auto simp: cut_by_def)
      then show ?thesis
        unfolding step using first
        by (auto simp: stop_stream_def Let_def split: prod.splits)
    qed
  qed
qed simp

lemma run_stream_unguarded:
  "rn_guard rn = None \<Longrightarrow> rn_abort_text rn = None \<Longrightarrow>
     rn_abort_text (run_stream uid cid cb evs rn) = None
     \<and> rn_yielded (run_stream uid cid cb evs rn) = rn_yielded rn @ evs"
  by (induction evs arbitrary: rn) (simp_all add: yield_event_def)

text \<open>The other direction: at the first text of 200 characters, a foreign one stops the stream.\<close>

lemma run_stream_stops:
  assumes "rn_guard rn = Some gd" "guard_is_active gd" "\<not> gs_check_performed (gd_state gd)"
    and "length (rn_accumulated rn @ delta_text passed) < 200"
    and "200 \<le> length (rn_accumulated rn @ delta_text (passed @ [ev]))"
    and "foreign_text gd (rn_accumulated rn @ delta_text (passed @ [ev]))"
  shows "rn_abort_text (run_stream uid cid cb (passed @ ev # rest) rn) \<noteq> None"
  using assms
proof (induction passed arbitrary: rn)
  case Nil
  let ?t = "rn_accumulated rn @ vt_text ev"
  have ev: "is_delta ev" "vt_text ev \<noteq> []" using Nil.prems(4, 5) by (auto split: if_splits)
  have "\<not> snd (check_early gd ?t)"
    using Nil.prems(2, 3, 5, 6) ev by (simp add: check_early_def foreign_text_def min_chars_for_check_def Let_def split_beta)
  then obtain gd1 where "check_early gd ?t = (gd1, False)" by (cases "check_early gd ?t") auto
  then show ?case using Nil.prems(1) ev by (simp add: stop_stream_def Let_def split: prod.splits)
next
  case (Cons e passed)
  let ?rn1 = "rn\<lparr>rn_started := (rn_started rn \<or> is_delta e)\<rparr>"
  show ?case
  proof (cases "is_delta e \<and> vt_text e \<noteq> []")
    case True
    have "check_early gd (rn_accumulated rn @ vt_text e) = (gd, True)"
      using Cons.prems(2-4) True by (simp add: check_early_def min_chars_for_check_def)
    then have "run_stream uid cid cb ((e # passed) @ ev # rest) rn = run_stream uid cid cb (passed @ ev # rest)
        (yield_event e (?rn1\<lparr>rn_guard := Some gd, rn_accumulated := rn_accumulated rn @ vt_text e\<rparr>))"
      using True Cons.prems(1) by (simp add: Let_def)
    then show ?thesis
      using Cons.IH [of "yield_event e (?rn1\<lparr>rn_guard := Some gd, rn_accumulated := rn_accumulated rn @ vt_text e\<rparr>)"]
        Cons.prems(2-6) True by (simp add: yield_event_def)
  next
    case False
    then have "run_stream uid cid cb ((e # passed) @ ev # rest) rn =
        run_stream uid cid cb (passed @ ev # rest) (yield_event e ?rn1)"
      using Cons.prems(1) by auto
    moreover have "delta_text (e # es) = delta_text es" for es using False by auto
    ultimately show ?thesis using Cons.IH [of "yield_event e ?rn1"] Cons.prems by (simp add: yield_event_def)
  qed
qed

text \<open>The event with which a text reaches a length is unique.\<close>

lemma reaching_event_unique:
  assumes "passed @ ev # rest = passed' @ ev' # rest'"
    and "length (delta_text passed) < n" "n \<le> length (delta_text (passed @ [ev]))"
    and "length (delta_text passed') < n" "n \<le> length (delta_text (passed' @ [ev']))"
  shows "passed' = passed \<and> ev' = ev"
proof -
  have shorter: False if "us @ x # xs = vs @ y # ys" "n \<le> length (delta_text (us @ [x]))" "length (delta_text vs) < n"
      "length us < length vs" for us vs x y xs ys
  proof -
    have "take (length us + 1) (us @ x # xs) = take (length us + 1) (vs @ y # ys)" using that(1) by simp
    then have "us @ [x] = take (length us + 1) vs" using that(4) by simp
    then have "vs = (us @ [x]) @ drop (length us + 1) vs" by (metis append_take_drop_id)
    then have "length (delta_text (us @ [x])) \<le> length (delta_text vs)" by (metis delta_text_simps(3) le_add1 length_append)
    with that(2, 3) show False by simp
  qed
  have "length passed = length passed'"
    using shorter [of passed ev rest passed' ev' rest'] shorter [of passed' ev' rest' passed ev rest] assms
    by (metis linorder_neqE_nat)
  then show ?thesis using assms(1) by simp
qed

definition surely_foreign :: "language_backend \<Rightarrow> string \<Rightarrow> string \<Rightarrow> bool" where
  "surely_foreign b lang t =
     (b t \<noteq> [] \<and> fst (first_max (b t)) \<noteq> lang \<and> early_abort_confidence \<le> snd (first_max (b t)))"

lemma guarded_stream_cases:
  assumes rn_def: "rn = run_stream uid cid cb evs (start_run (Some (init_stream_guard lang enabled b)) store)"
  shows "rn_abort_text rn = None \<Longrightarrow> rn_yielded rn = evs"
    and "rn_abort_text rn = Some t \<Longrightarrow> enabled \<and> surely_foreign b lang t \<and> rn_cancelled rn = cb \<and>
      (\<exists>ev rest. evs = rn_yielded rn @ ev # rest \<and> t = delta_text (rn_yielded rn @ [ev])
        \<and> length (delta_text (rn_yielded rn)) < 200 \<and> 200 \<le> length t)"
  using run_stream_guarded [of "start_run (Some (init_stream_guard lang enabled b)) store" "init_stream_guard lang enabled b"
      uid cid cb evs]
  by (auto simp: rn_def start_run_def init_stream_guard_def initial_guard_state_def cut_by_def guard_is_active_def
      foreign_text_def surely_foreign_def split: option.splits)

text \<open>
  C15: The guard of a stream decides once, on the text of the event with which the stream first reaches 200 characters. If
  the guard is enabled and the detection library finds that text to be in another language with a confidence of at
  least 0.85, the consumer gets exactly the events before it, the text is reported and the stream is cancelled;
  otherwise, and if the stream never gets that long, the consumer gets all events unchanged.
\<close>

theorem stream_is_passed_or_cut:
  assumes rn_def: "rn = run_stream uid cid cancellable evs (start_run (Some (init_stream_guard lang enabled b)) store)"
  shows "(length (delta_text evs) < 200 \<longrightarrow> rn_yielded rn = evs \<and> rn_abort_text rn = None)
   \<and> (\<forall>passed ev rest t. evs = passed @ ev # rest \<and> t = delta_text (passed @ [ev])
        \<and> length (delta_text passed) < 200 \<and> 200 \<le> length t \<longrightarrow>
        (if enabled \<and> surely_foreign b lang t
         then rn_yielded rn = passed \<and> rn_abort_text rn = Some t \<and> rn_cancelled rn = cancellable
         else rn_yielded rn = evs \<and> rn_abort_text rn = None))"
proof (rule conjI)
  note cut = guarded_stream_cases [OF rn_def]
  show "length (delta_text evs) < 200 \<longrightarrow> rn_yielded rn = evs \<and> rn_abort_text rn = None"
  proof
    assume short: "length (delta_text evs) < 200"
    have "rn_abort_text rn \<noteq> Some t" for t
    proof
      assume "rn_abort_text rn = Some t"
      then obtain ev rest where e: "evs = rn_yielded rn @ ev # rest" "200 \<le> length (delta_text (rn_yielded rn @ [ev]))"
        using cut(2) by blast
      have "delta_text evs = delta_text (rn_yielded rn @ [ev]) @ delta_text rest" by (subst e(1)) simp
      then show False using short e(2) by simp
    qed
    then show "rn_yielded rn = evs \<and> rn_abort_text rn = None" using cut(1) by (cases "rn_abort_text rn") blast+
  qed
  have "if enabled \<and> surely_foreign b lang t
      then rn_yielded rn = passed \<and> rn_abort_text rn = Some t \<and> rn_cancelled rn = cancellable
      else rn_yielded rn = evs \<and> rn_abort_text rn = None"
    if at: "evs = passed @ ev # rest" "t = delta_text (passed @ [ev])"
      "length (delta_text passed) < 200" "200 \<le> length t" for passed ev rest t
  proof -
    have same: "rn_yielded rn = passed \<and> t' = t" if some: "rn_abort_text rn = Some t'" for t'
    proof -
      obtain ev' rest' where "evs = rn_yielded rn @ ev' # rest'" "t' = delta_text (rn_yielded rn @ [ev'])"
        "length (delta_text (rn_yielded rn)) < 200" "200 \<le> length t'" using cut(2) [OF some] by blast
      then show ?thesis using at reaching_event_unique [of passed ev rest "rn_yielded rn" ev' rest' 200] by metis
    qed
    show ?thesis
    proof (cases "enabled \<and> surely_foreign b lang t")
      case True
      have "rn_abort_text rn \<noteq> None"
        unfolding rn_def at(1)
        by (rule run_stream_stops [where gd = "init_stream_guard lang enabled b"])
          (use True at in \<open>simp_all add: start_run_def init_stream_guard_def initial_guard_state_def guard_is_active_def
            foreign_text_def surely_foreign_def\<close>)
      then obtain t' where "rn_abort_text rn = Some t'" by blast
      then show ?thesis using True same cut(2) by auto
    next
      case False
      have "rn_abort_text rn = None"
      proof (rule ccontr)
        assume "rn_abort_text rn \<noteq> None"
        then obtain t' where "rn_abort_text rn = Some t'" by blast
        then show False using False same cut(2) by blast
      qed
      then show ?thesis using False cut(1) by simp
    qed
  qed
  then show "\<forall>passed ev rest t. evs = passed @ ev # rest \<and> t = delta_text (passed @ [ev])
        \<and> length (delta_text passed) < 200 \<and> 200 \<le> length t \<longrightarrow>
        (if enabled \<and> surely_foreign b lang t
         then rn_yielded rn = passed \<and> rn_abort_text rn = Some t \<and> rn_cancelled rn = cancellable
         else rn_yielded rn = evs \<and> rn_abort_text rn = None)" by blast
qed

text \<open>A German chat to which Russian is streamed, in pieces of 150 characters.\<close>

definition piece_event :: stream_event where
  "piece_event = \<lparr>vt_event_type = ''content_delta'', vt_text = replicate 150 CHR ''x'', vt_full_text = [],
     vt_is_final = False, vt_was_cold = False, vt_subprocess_pid = 0\<rparr>"

theorem stream_is_passed_or_cut_witness:
  "rn_yielded (run_stream 1 1 True [piece_event, piece_event, piece_event]
     (start_run (Some (init_stream_guard ''de'' True (\<lambda>t. [(''ru'', 1)]))) [])) = [piece_event]"
proof -
  have d: "is_delta piece_event" "length (vt_text piece_event) = 150"
    by (simp_all add: is_delta_def piece_event_def)
  have f: "surely_foreign (\<lambda>t. [(''ru'', 1)]) ''de'' t" for t
    by (simp add: surely_foreign_def early_abort_confidence_def)
  have t: "delta_text ([piece_event] @ [piece_event]) = vt_text piece_event @ vt_text piece_event" using d by simp
  from stream_is_passed_or_cut [OF refl [of "run_stream 1 1 True [piece_event, piece_event, piece_event]
      (start_run (Some (init_stream_guard ''de'' True (\<lambda>t. [(''ru'', 1)]))) [])"], THEN conjunct2, rule_format,
      of "[piece_event]" piece_event "[piece_event]" "delta_text ([piece_event] @ [piece_event])"]
  show ?thesis using d f unfolding t by (simp del: run_stream.simps)
qed

section \<open>The guard is never switched off\<close>

text \<open>
  The life of a guard in the service: it is created with what the statistics say, the stream runs, and either it was
  stopped or the verdict on the whole answer is reported.
\<close>

definition stream_session ::
    "language_backend \<Rightarrow> stats_store \<Rightarrow> int \<times> int \<times> string \<times> stream_event list \<times> bool \<Rightarrow> stats_store" where
  "stream_session b store = (\<lambda>(uid, cid, lang, evs, passed).
     let (store1, gt) = stats_get max_stats_entries store uid cid;
         rn = run_stream uid cid True evs (start_run (Some (init_stream_guard lang (\<not> should_disable gt) b)) store1)
     in case rn_abort_text rn of
          Some t \<Rightarrow> rn_store rn
        | None \<Rightarrow> report_to_guard (rn_guard rn) uid cid passed (rn_store rn))"

definition library_ok :: "language_backend \<Rightarrow> bool" where
  "library_ok b = (\<forall>t. distribution_ok (b t))"

definition calm :: "guard_stats \<Rightarrow> bool" where
  "calm gt = (gt_false_positives gt = 0 \<and> gt_consecutive_fp gt = 0)"

definition calm_store :: "stats_store \<Rightarrow> bool" where
  "calm_store store = list_all (\<lambda>(k, gt). calm gt) store"

lemma calm_not_disabled: "calm gt \<Longrightarrow> \<not> should_disable gt"
  by (simp add: calm_def should_disable_def max_consecutive_fp_def fp_rate_def fp_rate_disable_threshold_def)

lemma calm_get:
  assumes "calm_store store" "stats_get cap store u c = (store1, gt)"
  shows "calm_store store1" "calm gt"
proof -
  have "calm_store store1 \<and> calm gt"
  proof (cases "map_of store (u, c)")
    case None
    then show ?thesis
      using assms by (cases store) (auto simp: stats_get_def calm_store_def calm_def new_guard_stats_def Let_def)
  next
    case (Some g)
    have "calm g" using assms(1) map_of_SomeD [OF Some] by (fastforce simp: calm_store_def list_all_iff)
    moreover have "set (AList.delete (u, c) store) \<subseteq> set store" by (auto simp: AList.delete_eq)
    ultimately show ?thesis
      using assms Some by (auto simp: stats_get_def calm_store_def list_all_iff Let_def)
  qed
  then show "calm_store store1" "calm gt" by simp_all
qed

lemma calm_set: "calm_store store \<Longrightarrow> calm gt \<Longrightarrow> calm_store (stats_set store u c gt)"
  by (auto simp: calm_store_def stats_set_def list_all_iff)

lemma calm_record: "calm gt \<Longrightarrow> record_check gd (Some gt) = (gd1, stats1) \<Longrightarrow> \<exists>gt1. stats1 = Some gt1 \<and> calm gt1"
  by (auto simp: record_check_def calm_def split: if_splits)

lemma calm_disable: "calm gt \<Longrightarrow> auto_disable gd gt = (gd, gt)"
  using calm_not_disabled by (simp add: auto_disable_def)

lemma calm_count: "calm gt \<Longrightarrow> oc \<noteq> FALSE_POSITIVE_ABORT \<Longrightarrow> calm (count_abort oc gt)"
  by (cases oc) (auto simp: calm_def count_abort_def Let_def)

lemma calm_apply:
  "calm gt \<Longrightarrow> oc \<noteq> FALSE_POSITIVE_ABORT \<Longrightarrow> apply_outcome_to_stats gd oc (Some gt) = (gd1, stats1)
     \<Longrightarrow> \<exists>gt1. stats1 = Some gt1 \<and> calm gt1"
  using calm_count calm_disable [OF calm_count] by (auto simp: apply_outcome_to_stats_def split: if_splits prod.splits)

lemma calm_classify:
  assumes "calm gt" "classify_and_report_abort gd t (Some gt) = ((gd1, stats1), oc)" "oc \<noteq> FALSE_POSITIVE_ABORT"
  shows "\<exists>gt1. stats1 = Some gt1 \<and> calm gt1"
proof (cases "gs_aborted (gd_state gd)")
  case True
  then obtain g gd2 stats2 where "record_check g (Some gt) = (gd2, stats2)"
    "apply_outcome_to_stats gd2 oc stats2 = (gd1, stats1)"
    using assms(2) by (auto simp: classify_and_report_abort_def Let_def split: prod.splits)
  then show ?thesis using calm_record [OF assms(1)] calm_apply assms(3) by blast
qed (use assms in \<open>auto simp: classify_and_report_abort_def\<close>)

lemma stopped_stream_calm:
  assumes "calm_store (rn_store rn)" "library_ok (gd_backend gd)" "\<not> gs_aborted (gd_state gd)"
    and "check_early gd (rn_accumulated rn) = (gd1, False)"
  shows "calm_store (rn_store (stop_stream u c cb gd1 rn))"
proof -
  obtain store1 gt where s: "stats_get max_stats_entries (rn_store rn) u c = (store1, gt)" by (metis surj_pair)
  obtain gd2 stats1 oc where k: "classify_and_report_abort gd1 (rn_accumulated rn) (Some gt) = ((gd2, stats1), oc)"
    by (metis surj_pair)
  have "distribution_ok (gd_backend gd (rn_accumulated rn))" using assms(2) by (simp add: library_ok_def)
  then have "oc \<noteq> FALSE_POSITIVE_ABORT"
    using abort_is_never_a_false_positive [OF assms(4,3), of "Some gt"] k by (auto split: if_splits)
  then obtain gt1 where "stats1 = Some gt1" "calm gt1"
    using calm_classify [OF calm_get(2) [OF assms(1) s] k] by blast
  then show ?thesis
    using calm_set [OF calm_get(1) [OF assms(1) s]] by (simp add: stop_stream_def s k Let_def)
qed

lemma run_stream_calm:
  assumes "rn_guard rn = Some gd" "\<not> gs_aborted (gd_state gd)" "library_ok (gd_backend gd)" "calm_store (rn_store rn)"
    and "rn_abort_text rn = None"
  shows "calm_store (rn_store (run_stream u c cb evs rn))
    \<and> (rn_abort_text (run_stream u c cb evs rn) = None \<longrightarrow>
        (\<exists>gd'. rn_guard (run_stream u c cb evs rn) = Some gd' \<and> \<not> gs_aborted (gd_state gd')))"
  using assms
proof (induction evs arbitrary: rn gd)
  case (Cons ev evs)
  let ?rn1 = "rn\<lparr>rn_started := (rn_started rn \<or> is_delta ev)\<rparr>" and ?acc = "rn_accumulated rn @ vt_text ev"
  show ?case
  proof (cases "is_delta ev \<and> vt_text ev \<noteq> []")
    case False
    have "run_stream u c cb (ev # evs) rn = run_stream u c cb evs (yield_event ev ?rn1)"
      using False Cons.prems(1) by auto
    then show ?thesis using Cons.IH [of "yield_event ev ?rn1" gd] Cons.prems by (simp add: yield_event_def)
  next
    case True
    obtain gd1 go where c: "check_early gd ?acc = (gd1, go)" by (cases "check_early gd ?acc")
    let ?rn2 = "?rn1\<lparr>rn_guard := Some gd1, rn_accumulated := ?acc\<rparr>"
    show ?thesis
    proof (cases go)
      case go: True
      have ok: "check_early gd ?acc = (gd1, True)" using c go by simp
      have "run_stream u c cb (ev # evs) rn = run_stream u c cb evs (yield_event ev ?rn2)"
        using True Cons.prems(1) ok by (simp add: Let_def)
      then show ?thesis
        using Cons.IH [of "yield_event ev ?rn2" gd1] Cons.prems check_early_continues(1,4) [OF ok]
        by (simp add: yield_event_def)
    next
      case False
      have abort: "check_early gd ?acc = (gd1, False)" using c False by simp
      have "run_stream u c cb (ev # evs) rn = stop_stream u c cb gd1 ?rn2"
        using True Cons.prems(1) abort by (simp add: Let_def)
      moreover have "calm_store (rn_store (stop_stream u c cb gd1 ?rn2))"
        by (rule stopped_stream_calm [where gd = gd]) (use Cons.prems abort in simp_all)
      moreover have "rn_abort_text (stop_stream u c cb gd1 ?rn2) \<noteq> None"
        by (simp add: stop_stream_def Let_def split_beta)
      ultimately show ?thesis by (auto simp del: run_stream.simps)
    qed
  qed
qed simp

lemma report_calm:
  assumes "\<not> gs_aborted (gd_state gd)" "calm_store store"
  shows "calm_store (report_to_guard (Some gd) u c passed store)"
proof -
  obtain store1 gt where s: "stats_get max_stats_entries store u c = (store1, gt)" by (metis surj_pair)
  have calm: "calm_store store1" "calm gt" using calm_get [OF assms(2) s] by simp_all
  obtain gd1 stats1 where r: "record_check gd (Some gt) = (gd1, stats1)" by (metis surj_pair)
  then obtain gt1 where g: "stats1 = Some gt1" "calm gt1" using calm_record [OF calm(2)] by blast
  have "gs_aborted (gd_state gd1) = gs_aborted (gd_state gd)" using r by (auto simp: record_check_def split: if_splits)
  then have "\<exists>gd2 gt2. report_final_outcome gd passed (Some gt) = (gd2, Some gt2) \<and> calm gt2"
    using assms(1) calm(2) g r by (auto simp: report_final_outcome_def calm_disable Let_def)
  then show ?thesis using calm_set [OF calm(1)] by (auto simp: report_to_guard_def s)
qed

lemma session_calm:
  assumes "library_ok b" "calm_store store"
  shows "calm_store (stream_session b store x)"
proof -
  obtain uid cid lang evs passed where x: "x = (uid, cid, lang, evs, passed)" by (cases x)
  obtain store1 gt where s: "stats_get max_stats_entries store uid cid = (store1, gt)" by (metis surj_pair)
  let ?rn = "start_run (Some (init_stream_guard lang (\<not> should_disable gt) b)) store1"
  have "calm_store (rn_store (run_stream uid cid True evs ?rn))
    \<and> (rn_abort_text (run_stream uid cid True evs ?rn) = None \<longrightarrow>
        (\<exists>gd'. rn_guard (run_stream uid cid True evs ?rn) = Some gd' \<and> \<not> gs_aborted (gd_state gd')))"
    by (rule run_stream_calm [where gd = "init_stream_guard lang (\<not> should_disable gt) b"])
      (use assms calm_get(1) [OF assms(2) s] in \<open>simp_all add: start_run_def init_stream_guard_def initial_guard_state_def\<close>)
  then show ?thesis by (auto simp: stream_session_def x s Let_def report_calm split: option.split)
qed

text \<open>
  C24: Whatever streams run and whatever verdicts come back, no statistics ever ask to switch the guard off, as long as the
  probabilities of the library add up to at most one. The stopped text is judged by the very library that stopped it,
  so that no stop is ever counted as a false positive.
\<close>

theorem guard_is_never_switched_off:
  assumes "library_ok b"
  shows "list_all (\<lambda>(k, gt). \<not> should_disable gt) (foldl (stream_session b) [] sessions)"
proof -
  have "calm_store (foldl (stream_session b) [] sessions)"
    using assms by (induction sessions rule: rev_induct) (auto intro: session_calm simp: calm_store_def [of "[]"])
  then show ?thesis using calm_not_disabled by (auto simp: calm_store_def list_all_iff)
qed

definition english_only :: language_backend where
  "english_only t = [(''en'', 9 / 10), (''de'', 1 / 20)]"

definition long_delta :: stream_event where
  "long_delta = \<lparr>vt_event_type = ''content_delta'', vt_text = replicate 210 (CHR ''a''), vt_full_text = [], vt_is_final = False,
     vt_was_cold = False, vt_subprocess_pid = 0\<rparr>"

theorem guard_is_never_switched_off_witness:
  "list_all (\<lambda>(k, gt). \<not> should_disable gt)
     (foldl (stream_session english_only) [] (replicate 10 (7, 9, ''de'', [long_delta], False)))"
proof (rule guard_is_never_switched_off)
  show "library_ok english_only" by (simp add: library_ok_def english_only_def distribution_ok_def)
qed

section \<open>What is saved of a stream\<close>

lemma streamed_enforcement_conversations:
  "streamed_enforcement cv sd resp sw = (f, sw1) \<Longrightarrow> chs_conversations (sw_chat sw1) = chs_conversations (sw_chat sw)"
  by (auto simp: streamed_enforcement_def Let_def split: option.splits prod.splits if_splits)

lemma streamed_skill_conversations:
  "streamed_skill ck m au st = (au1, st1) \<Longrightarrow> chs_conversations st1 = chs_conversations st"
  by (auto simp: streamed_skill_def Let_def split: option.splits if_splits)

lemma saved_stream_is_the_returned_text:
  assumes "save_streaming_result cv ck sd sw = (final, sw1)"
  shows "chs_conversations (sw_chat sw1) =
    save_turns (sd_user_id sd) (sd_chat_id sd) (chm_turn_stamps ck) (sd_user_text sd) final (chs_conversations (sw_chat sw))"
  using assms
  by (auto simp: save_streaming_result_def Let_def split: prod.splits
      dest!: streamed_enforcement_conversations streamed_skill_conversations)

text \<open>A user who is still to be asked leaves no evidence, unlike in the call without streaming.\<close>

lemma streamed_evidence_waits:
  "should_ask_user m \<Longrightarrow> chs_matcher (snd (streamed_skill ck (Some m) au st)) = chs_matcher st"
  by (simp add: streamed_skill_def Let_def)

section \<open>The answer after a stop\<close>

text \<open>The handler sends the message again without streaming and shows the response of the result, whether it succeeded or not.\<close>

definition answer_after_stop ::
    "('w, 's) chat_service \<Rightarrow> chat_request \<Rightarrow> chat_moment \<Rightarrow> 'w chat_state \<Rightarrow> string \<times> 'w chat_state" where
  "answer_after_stop cv cq ck st =
     (case process_user_message cv (cq\<lparr>chq_provider_name := Some ''claude_persistent''\<rparr>) ck st of
        (r, st1) \<Rightarrow> (chr_response r, st1))"

lemma failed_call_has_no_response:
  assumes "process_user_message cv cq ck st = (r, st1)" "\<not> chr_success r"
  shows "chr_response r = []"
proof -
  have "chr_response r' = []" if "exception_result i e = (r', au)" for i e r' au
    using that by (auto simp: exception_result_def default_chat_result_def Let_def split: if_splits)
  moreover have "chr_response r' = []" if "deliver cv' cq' ck' tn a s = ((r', au), s')" "\<not> chr_success r'"
    for cv' :: "('w, 's) chat_service" and cq' ck' tn a s r' au s'
    using that by (auto simp: deliver_def default_chat_result_def Let_def split: prod.splits if_splits)
  ultimately show ?thesis
    using assms unfolding process_user_message_def answer_turn_def
    by (auto simp: Let_def split: prod.splits sum.splits elim!: and_then_cases)
qed

lemma failed_repair_is_an_empty_answer:
  "process_user_message cv (cq\<lparr>chq_provider_name := Some ''claude_persistent''\<rparr>) ck st = (r, st1) \<Longrightarrow> \<not> chr_success r
     \<Longrightarrow> answer_after_stop cv cq ck st = ([], st1)"
  using failed_call_has_no_response by (fastforce simp: answer_after_stop_def)

end
