(* ===== verification/Markdown.thy ===== *)
theory Markdown
  imports PyReplace MemoryContext
begin

text \<open>
  The renderer for Telegram (\<open>domain/markdown.py\<close>): Markdown to the subset of HTML that Telegram
  accepts, and the removal of Markdown for the plain text that is sent when Telegram refuses the
  HTML. A replacement whose callback collects what it takes out threads its list through the text.
  Parameters: the sentinel, which the code draws at random, and the check of a bracketed host in
  \<open>urllib.parse\<close>, which differs between releases of Python.
\<close>

section \<open>Replacing with a callback that collects\<close>

function regex_sub_acc_from ::
    "regex \<Rightarrow> (char captures \<Rightarrow> 'a list \<Rightarrow> string \<times> 'a list) \<Rightarrow> char option \<Rightarrow> string \<Rightarrow> 'a list \<Rightarrow> string \<times> 'a list" where
  "regex_sub_acc_from r repl p s acc =
     (case s of [] \<Rightarrow> ([], acc)
      | c # cs \<Rightarrow>
          (case matches r p s of
             (g, t) # _ \<Rightarrow>
               if length t < length s
               then let (new, acc') = repl g acc; (u, acc'') = regex_sub_acc_from r repl (before p s t) t acc'
                    in (new @ u, acc'')
               else let (u, acc') = regex_sub_acc_from r repl (Some c) cs acc in (c # u, acc')
           | [] \<Rightarrow> let (u, acc') = regex_sub_acc_from r repl (Some c) cs acc in (c # u, acc')))"
  by pat_completeness auto
termination by (relation "measure (\<lambda>(r, repl, p, s, acc). length s)") auto

declare regex_sub_acc_from.simps [simp del]

definition regex_sub_acc ::
    "regex \<Rightarrow> (char captures \<Rightarrow> 'a list \<Rightarrow> string \<times> 'a list) \<Rightarrow> string \<Rightarrow> string \<times> 'a list" where
  "regex_sub_acc r repl s = regex_sub_acc_from r repl None s []"

section \<open>The scheme of a URL\<close>

text \<open>
  \<open>urlsplit\<close> of \<open>urllib.parse\<close>, as far as the scheme and the errors go: leading control characters
  and blanks are dropped, tabs and line breaks removed; what is before the first colon is the
  scheme if it has only the characters of a scheme. A network location with one kind of bracket only
  is an error, and so is one whose bracketed host is not accepted. The normalisation check of the
  location finds nothing in code points below 256.
\<close>

definition url_cleaned :: "string \<Rightarrow> string" where
  "url_cleaned url = filter (\<lambda>c. c \<notin> {CHR 0x09, CHR 0x0A, CHR 0x0D})
     (py_lstrip_of (\<lambda>c. (of_char c :: nat) \<le> 32) url)"

definition ascii_letter :: "char \<Rightarrow> bool" where
  "ascii_letter c = (let n = of_char c :: nat in (65 \<le> n \<and> n \<le> 90) \<or> (97 \<le> n \<and> n \<le> 122))"

definition scheme_char :: "char \<Rightarrow> bool" where
  "scheme_char c = (ascii_letter c \<or> is_digit c \<or> c \<in> {CHR ''+'', CHR ''-'', CHR ''.''})"

definition split_scheme :: "string \<Rightarrow> string \<times> string" where
  "split_scheme url =
     (let pre = takeWhile (\<lambda>c. c \<noteq> CHR '':'') url
      in if pre \<noteq> [] \<and> length pre < length url \<and> ascii_letter (hd pre) \<and> list_all scheme_char pre
         then (py_lower pre, drop (length pre + 1) url) else ([], url))"

definition url_netloc :: "string \<Rightarrow> string" where
  "url_netloc rest = (if py_startswith rest ''//''
     then takeWhile (\<lambda>c. c \<notin> {CHR ''/'', CHR ''?'', CHR ''#''}) (drop 2 rest) else [])"

definition url_scheme :: "(string \<Rightarrow> bool) \<Rightarrow> string \<Rightarrow> string option" where
  "url_scheme bracketed_ok url =
     (let (scheme, rest) = split_scheme (url_cleaned url); netloc = url_netloc rest;
          opened = CHR ''['' \<in> set netloc; closed = CHR '']'' \<in> set netloc
      in if opened \<noteq> closed then None
         else if opened \<and> \<not> bracketed_ok netloc then None
         else Some scheme)"

definition allowed_url_schemes :: "string list" where
  "allowed_url_schemes = [''http'', ''https'', ''tg'', ''mailto'']"

text \<open>An error of \<open>urlparse\<close> is caught and counts as a scheme that is not allowed.\<close>

definition url_allowed :: "(string \<Rightarrow> bool) \<Rightarrow> string \<Rightarrow> bool" where
  "url_allowed bracketed_ok url = (case url_scheme bracketed_ok url of
     None \<Rightarrow> False | Some scheme \<Rightarrow> py_lower scheme \<in> set allowed_url_schemes)"

section \<open>Patterns\<close>

definition lit :: "char \<Rightarrow> regex" where "lit c = Cls (\<lambda>x. x = c)"
definition lits :: "string \<Rightarrow> regex" where "lits s = seq_all (map lit s)"
definition not_before :: "(char \<Rightarrow> bool) \<Rightarrow> regex" where
  "not_before f = Look (\<lambda>p s. case p of None \<Rightarrow> True | Some c \<Rightarrow> \<not> f c)"
definition not_after :: "(char \<Rightarrow> bool) \<Rightarrow> regex" where
  "not_after f = Look (\<lambda>p s. case s of [] \<Rightarrow> True | c # _ \<Rightarrow> \<not> f c)"
definition line_start :: regex where "line_start = Look (\<lambda>p s. p = None \<or> p = Some (CHR 0x0A))"
definition line_end :: regex where "line_end = Look (\<lambda>p s. s = [] \<or> hd s = CHR 0x0A)"

definition link_pattern :: regex where
  "link_pattern = seq_all [lit (CHR ''[''), Group 1 (Rep True 1 (\<lambda>c. c \<noteq> CHR '']'')), lits ''](''
     , Group 2 (Rep True 1 (\<lambda>c. c \<noteq> CHR '')'')), lit (CHR '')'')]"
definition fence_pattern :: regex where
  "fence_pattern = seq_all [lits ''```'', Rep True 0 ascii_letter, optional (\<lambda>c. c = CHR 0x0A),
     Group 1 (Rep False 0 (\<lambda>_. True)), lits ''```'']"
definition inline_pattern :: regex where
  "inline_pattern = seq_all [lit (CHR ''`''), Group 1 (Rep True 1 (\<lambda>c. c \<noteq> CHR ''`'' \<and> c \<noteq> CHR 0x0A)), lit (CHR ''`'')]"
definition headline_pattern :: regex where
  "headline_pattern = seq_all [line_start, Iter True 1 (Some 6) (lit (CHR ''#'')), space_plus,
     Group 1 (Rep True 1 re_dot), line_end]"
definition bold_pattern :: regex where
  "bold_pattern = seq_all [lits ''**'', Group 1 (Rep False 1 re_dot), lits ''**'']"
definition italic_pattern :: "char \<Rightarrow> (char \<Rightarrow> bool) \<Rightarrow> regex" where
  "italic_pattern m f = seq_all [not_before f, lit m, Group 1 (Rep False 1 (\<lambda>c. c \<noteq> m \<and> c \<noteq> CHR 0x0A)), lit m, not_after f]"

section \<open>Rendering\<close>

text \<open>\<open>html.escape\<close> with quotes; \<open>html_escape\<close> is the variant without.\<close>

definition html_escape_quoted :: "string \<Rightarrow> string" where
  "html_escape_quoted s = py_replace [CHR 0x27] ''&#x27;'' (py_replace [CHR 0x22] ''&quot;'' (html_escape s))"

definition link_mark :: "string \<Rightarrow> nat \<Rightarrow> string" where
  "link_mark sentinel i = [CHR 0x02] @ ''LINK-'' @ sentinel @ ''-'' @ nat_decimal i @ [CHR 0x02]"
definition block_mark :: "nat \<Rightarrow> string" where
  "block_mark i = [CHR 0x00] @ ''CODEBLOCK'' @ nat_decimal i @ [CHR 0x00]"
definition inline_mark :: "nat \<Rightarrow> string" where
  "inline_mark i = [CHR 0x01] @ ''INLINE'' @ nat_decimal i @ [CHR 0x01]"

definition extract_link ::
    "(string \<Rightarrow> bool) \<Rightarrow> string \<Rightarrow> char captures \<Rightarrow> (string \<times> string) list \<Rightarrow> string \<times> (string \<times> string) list" where
  "extract_link bracketed_ok sentinel g links =
     (let text_part = regex_group g 1; url = py_strip (regex_group g 2)
      in if \<not> url_allowed bracketed_ok url then (text_part, links)
         else (link_mark sentinel (length links), links @ [(text_part, url)]))"

definition extract_code_block :: "char captures \<Rightarrow> string list \<Rightarrow> string \<times> string list" where
  "extract_code_block g blocks = (block_mark (length blocks), blocks @ [regex_group g 1])"

definition extract_inline_code :: "char captures \<Rightarrow> string list \<Rightarrow> string \<times> string list" where
  "extract_inline_code g codes = (inline_mark (length codes), codes @ [regex_group g 1])"

definition headline_replace :: "char captures \<Rightarrow> string" where
  "headline_replace g = ''<b>'' @ py_replace ''**'' [] (py_strip (regex_group g 1)) @ ''</b>''"

definition tagged_group :: "string \<Rightarrow> char captures \<Rightarrow> string" where
  "tagged_group name g = ''<'' @ name @ ''>'' @ regex_group g 1 @ ''</'' @ name @ ''>''"

text \<open>Steps 5 to 9, and the insertion of what was taken out, in the order of the lists.\<close>

definition render_marks :: "string \<Rightarrow> string" where
  "render_marks text =
     (let text = regex_sub headline_pattern headline_replace text;
          text = regex_sub bold_pattern (tagged_group ''b'') text;
          text = regex_sub (lits ''**'') (\<lambda>_. []) text;
          text = regex_sub (italic_pattern (CHR ''*'') (\<lambda>c. c = CHR ''*'')) (tagged_group ''i'') text
      in regex_sub (italic_pattern (CHR ''_'') (\<lambda>c. c = CHR ''_'')) (tagged_group ''i'') text)"

primrec reinsert :: "(nat \<Rightarrow> string) \<Rightarrow> ('a \<Rightarrow> string) \<Rightarrow> nat \<Rightarrow> 'a list \<Rightarrow> string \<Rightarrow> string" where
  "reinsert mark shown i [] text = text"
| "reinsert mark shown i (x # xs) text = reinsert mark shown (Suc i) xs (py_replace (mark i) (shown x) text)"

definition shown_block :: "string \<Rightarrow> string" where
  "shown_block block = ''<pre>'' @ html_escape block @ ''</pre>''"
definition shown_code :: "string \<Rightarrow> string" where
  "shown_code code = ''<code>'' @ html_escape code @ ''</code>''"
definition anchor_tag :: "string \<Rightarrow> string" where
  "anchor_tag url = ''<a href='' @ [CHR 0x22] @ html_escape_quoted url @ [CHR 0x22] @ ''>''"
definition shown_link :: "string \<times> string \<Rightarrow> string" where
  "shown_link l = anchor_tag (snd l) @ html_escape_quoted (fst l) @ ''</a>''"

definition markdown_to_telegram_html :: "(string \<Rightarrow> bool) \<Rightarrow> string \<Rightarrow> string \<Rightarrow> string" where
  "markdown_to_telegram_html bracketed_ok sentinel text =
     (let (text, links) = regex_sub_acc link_pattern (extract_link bracketed_ok sentinel) text;
          (text, code_blocks) = regex_sub_acc fence_pattern extract_code_block text;
          (text, inline_codes) = regex_sub_acc inline_pattern extract_inline_code text;
          text = render_marks (html_escape text);
          text = reinsert block_mark shown_block 0 code_blocks text;
          text = reinsert inline_mark shown_code 0 inline_codes text
      in reinsert (link_mark sentinel) shown_link 0 links text)"

text \<open>The plain text of the fallback.\<close>

definition ascii_alnum :: "char \<Rightarrow> bool" where "ascii_alnum c = (ascii_letter c \<or> is_digit c)"

definition strip_markdown :: "string \<Rightarrow> string" where
  "strip_markdown text =
     (let text = regex_sub fence_pattern (\<lambda>g. regex_group g 1) text;
          text = regex_sub headline_pattern (\<lambda>g. regex_group g 1) text;
          text = regex_sub bold_pattern (\<lambda>g. regex_group g 1) text;
          text = regex_sub (lits ''**'') (\<lambda>_. []) text;
          text = regex_sub (italic_pattern (CHR ''*'') (\<lambda>c. c = CHR ''*'')) (\<lambda>g. regex_group g 1) text;
          text = regex_sub (italic_pattern (CHR ''_'') ascii_alnum) (\<lambda>g. regex_group g 1) text;
          text = regex_sub inline_pattern (\<lambda>g. regex_group g 1) text
      in regex_sub link_pattern (\<lambda>g. regex_group g 1 @ '' ('' @ regex_group g 2 @ '')'') text)"

section \<open>What the patterns match\<close>

lemma lit_match_iff: "(g, t) \<in> set (matches (lit c) p s) \<longleftrightarrow> g = [] \<and> s = c # t"
  by (auto simp: lit_def cls_match_iff)

lemma seq_all_Cons_iff:
  "(g, t) \<in> set (matches (seq_all (r # rs)) p s) \<longleftrightarrow>
   (\<exists>ga sa gb. (ga, sa) \<in> set (matches r p s) \<and> (gb, t) \<in> set (matches (seq_all rs) (before p s sa) sa) \<and> g = ga @ gb)"
  by (simp only: seq_all.simps seq_match_iff)

lemma seq_all_Nil_iff: "(g, t) \<in> set (matches (seq_all []) p s) \<longleftrightarrow> g = [] \<and> t = s"
  by auto

lemma lits_match_iff: "(g, t) \<in> set (matches (lits w) p s) \<longleftrightarrow> g = [] \<and> s = w @ t"
  unfolding lits_def
proof (induction w arbitrary: p s g)
  case (Cons c w)
  then show ?case by (auto simp only: list.map seq_all_Cons_iff lit_match_iff append_Nil append_Cons)
qed auto

lemma look_match_iff: "(g, t) \<in> set (matches (Look f) p s) \<longleftrightarrow> g = [] \<and> t = s \<and> f p s"
  by auto

lemma iterate_class:
  assumes "\<And>p s g t. (g, t) \<in> set (m p s) \<Longrightarrow> g = [] \<and> (\<exists>c. f c \<and> s = c # t)"
  shows "(g, t) \<in> set (iterate m greedy lo hi n p s) \<Longrightarrow>
    g = [] \<and> (\<exists>w. s = w @ t \<and> list_all f w \<and> lo \<le> length w)"
proof (induction n arbitrary: lo hi p s g)
  case (Suc n)
  then have "(lo = 0 \<and> t = s \<and> g = []) \<or> (\<exists>h u g' hi'. (h, u) \<in> set (m p s) \<and> g = g' @ h \<and>
      (g', t) \<in> set (iterate m greedy (lo - 1) hi' n (before p s u) u))"
    by (fastforce simp: Let_def split: if_splits)
  then show ?case
  proof (elim disjE exE conjE)
    fix h u g' hi' assume m: "(h, u) \<in> set (m p s)" and g: "g = g' @ h"
      and i: "(g', t) \<in> set (iterate m greedy (lo - 1) hi' n (before p s u) u)"
    from assms [OF m] obtain c where c: "h = []" "f c" "s = c # u" by blast
    from Suc.IH [OF i] obtain w where w: "g' = []" "u = w @ t" "list_all f w" "lo - 1 \<le> length w" by blast
    have "s = (c # w) @ t \<and> list_all f (c # w) \<and> lo \<le> length (c # w)" using c w by auto
    then show ?thesis using c w g by blast
  qed auto
qed (auto split: if_splits)

lemma some_of_match:
  assumes "(g, t) \<in> set (matches (Iter greedy lo hi (lit c)) p s)"
  shows "g = [] \<and> (\<exists>w. s = w @ t \<and> list_all (\<lambda>x. x = c) w \<and> lo \<le> length w)"
proof -
  have "(g, t) \<in> set (iterate (matches (lit c)) greedy lo hi (lo + length s + 1) p s)"
    using assms by simp
  then show ?thesis by (rule iterate_class [rotated]) (simp add: lit_match_iff)
qed

section \<open>Markup\<close>

text \<open>
  What Telegram reads as text: characters other than the three that HTML reserves, and entities. The
  tags without attributes, and the opening tag of a link. A text is markup if it can be read as a
  sequence of these.
\<close>

definition text_entities :: "string list" where
  "text_entities = [''&amp;'', ''&lt;'', ''&gt;'']"
definition quote_entities :: "string list" where
  "quote_entities = [''&quot;'', ''&#x27;'']"
definition plain_tags :: "string list" where
  "plain_tags = [''<b>'', ''</b>'', ''<i>'', ''</i>'', ''<pre>'', ''</pre>'', ''<code>'', ''</code>'', ''</a>'']"

definition text_piece :: "string \<Rightarrow> bool" where
  "text_piece t = ((\<exists>c. t = [c] \<and> c \<notin> {CHR ''<'', CHR ''>'', CHR ''&''}) \<or> t \<in> set text_entities \<union> set plain_tags)"

definition html_piece :: "(string \<Rightarrow> bool) \<Rightarrow> string \<Rightarrow> bool" where
  "html_piece bracketed_ok t = (text_piece t \<or> t \<in> set quote_entities \<or> (\<exists>url. url_allowed bracketed_ok url \<and> t = anchor_tag url))"

definition markup :: "(string \<Rightarrow> bool) \<Rightarrow> string \<Rightarrow> bool" where
  "markup P s = (\<exists>ts. s = concat ts \<and> (\<forall>t \<in> set ts. P t))"

text \<open>A character is separate if it occurs in no longer piece: a text of markup can be cut at it.\<close>

definition separate :: "(string \<Rightarrow> bool) \<Rightarrow> char \<Rightarrow> bool" where
  "separate P c = (P [c] \<and> (\<forall>t. P t \<longrightarrow> c \<in> set t \<longrightarrow> t = [c]))"

lemma markup_Nil [simp]: "markup P []"
  by (auto simp: markup_def intro: exI [of _ "[]"])

lemma markup_append: "markup P a \<Longrightarrow> markup P b \<Longrightarrow> markup P (a @ b)"
  unfolding markup_def by (metis concat_append set_append Un_iff)

lemma markup_piece: "P t \<Longrightarrow> markup P t"
  by (auto simp: markup_def intro: exI [of _ "[t]"])

lemma markup_mono: "markup P s \<Longrightarrow> (\<And>t. P t \<Longrightarrow> Q t) \<Longrightarrow> markup Q s"
  by (auto simp: markup_def)

lemma markup_cut:
  assumes "separate P c" "markup P (a @ c # b)"
  shows "markup P a \<and> markup P b"
proof -
  obtain ts where "a @ c # b = concat ts" "\<forall>t \<in> set ts. P t" using assms(2) by (auto simp: markup_def)
  then show ?thesis
  proof (induction ts arbitrary: a)
    case (Cons t ts)
    from Cons.prems(1) consider us where "a = t @ us" "us @ c # b = concat ts"
      | us where "t = a @ c # us" "b = us @ concat ts"
      by (auto simp: append_eq_append_conv2 Cons_eq_append_conv)
    then show ?case
    proof cases
      case 1
      with Cons.IH [of us] Cons.prems(2) show ?thesis by (auto intro: markup_append markup_piece)
    next
      case 2
      then have "t = [c]" using assms(1) Cons.prems(2) by (auto simp: separate_def)
      with 2 have "a = []" "b = concat ts" by (auto simp: append_eq_Cons_conv Cons_eq_append_conv)
      moreover have "markup P (concat ts)" using Cons.prems(2) by (auto simp: markup_def)
      ultimately show ?thesis by simp
    qed
  qed simp
qed

lemma markup_char: "separate P c \<Longrightarrow> markup P b \<Longrightarrow> markup P (c # b)"
  using markup_append [of P "[c]" b] markup_piece [of P "[c]"] by (simp add: separate_def)

text \<open>Replacing keeps markup if every single replacement does, whatever stands before it.\<close>

lemma regex_sub_markup:
  assumes step: "\<And>pre p s g t. (g, t) \<in> set (matches r p s) \<Longrightarrow> markup P (pre @ s) \<Longrightarrow> markup P (pre @ repl g @ t)"
  shows "markup P (pre @ s) \<Longrightarrow> markup P (pre @ regex_sub_from r repl p s)"
proof (induction s arbitrary: p pre rule: length_induct)
  case (1 s)
  show ?case
  proof (cases s)
    case (Cons c cs)
    have skip: "markup P (pre @ c # regex_sub_from r repl (Some c) cs)"
      using 1 Cons by (metis append.assoc append_Cons append_Nil length_Cons lessI)
    show ?thesis
    proof (cases "matches r p s")
      case Nil
      then show ?thesis using skip Cons by (simp add: regex_sub_from.simps [of r repl p "c # cs"])
    next
      case m: (Cons m ms)
      obtain g t where gt: "m = (g, t)" by fastforce
      have "markup P ((pre @ repl g) @ t)" using step [of g t p s pre] m gt 1(2) by simp
      then have "length t < length s \<Longrightarrow> markup P ((pre @ repl g) @ regex_sub_from r repl (before p s t) t)"
        using 1(1) by blast
      then show ?thesis using skip m gt Cons by (simp add: regex_sub_from.simps [of r repl p "c # cs"])
    qed
  qed (use 1 in \<open>simp add: regex_sub_from.simps [of r repl p "[]"]\<close>)
qed

lemma py_replace_markup:
  assumes step: "\<And>pre t. markup P (pre @ old @ t) \<Longrightarrow> markup P (pre @ new @ t)"
  shows "markup P (pre @ s) \<Longrightarrow> markup P (pre @ py_replace old new s)"
proof (induction s arbitrary: pre rule: length_induct)
  case (1 s)
  show ?case
  proof (cases s)
    case (Cons c cs)
    have skip: "markup P (pre @ c # py_replace old new cs)"
      using 1 Cons by (metis append.assoc append_Cons append_Nil length_Cons lessI)
    show ?thesis
    proof (cases "old \<noteq> [] \<and> py_startswith s old")
      case True
      then have s: "s = old @ drop (length old) s" and less: "length (drop (length old) s) < length s"
        using Cons by (auto simp: py_startswith_def dest!: sym [of _ old]) (metis append_take_drop_id)
      have "markup P ((pre @ new) @ drop (length old) s)" using step [of pre "drop (length old) s"] s 1(2) by simp
      then have "markup P ((pre @ new) @ py_replace old new (drop (length old) s))" using 1(1) less by blast
      then show ?thesis using True Cons by (simp add: py_replace.simps [of old new "c # cs"])
    qed (use skip Cons in \<open>auto simp: py_replace.simps [of old new "c # cs"]\<close>)
  qed (use 1 in \<open>simp add: py_replace.simps [of old new "[]"]\<close>)
qed

section \<open>The separate characters\<close>

lemma text_separate:
  assumes "c \<notin> \<Union> (set ` (set text_entities \<union> set plain_tags))"
  shows "separate text_piece c"
proof -
  have "c \<noteq> CHR ''<''" "c \<noteq> CHR ''>''" "c \<noteq> CHR ''&''"
    using assms by (auto simp: plain_tags_def text_entities_def)
  then show ?thesis using assms by (auto simp: separate_def text_piece_def)
qed

lemma text_separate_simps [simp]:
  "separate text_piece (CHR ''*'')" "separate text_piece (CHR ''_'')"  "separate text_piece (CHR ''#'')"
  "separate text_piece (CHR 0x00)" "separate text_piece (CHR 0x01)" "separate text_piece (CHR 0x0A)"
  by (rule text_separate, simp add: text_entities_def plain_tags_def)+

lemma text_separate_space: "py_isspace c \<Longrightarrow> separate text_piece c"
  by (rule text_separate) (auto simp: text_entities_def plain_tags_def py_isspace_def Let_def)

lemma markup_tags [simp]:
  "markup text_piece ''<b>''" "markup text_piece ''</b>''" "markup text_piece ''<i>''" "markup text_piece ''</i>''"
  "markup text_piece ''<pre>''" "markup text_piece ''</pre>''" "markup text_piece ''<code>''"
  "markup text_piece ''</code>''" "markup text_piece ''</a>''"
  by (rule markup_piece, simp add: text_piece_def plain_tags_def)+

lemma escaped_char: "markup text_piece (if c = CHR ''&'' then ''&amp;'' else if c = CHR ''<'' then ''&lt;''
    else if c = CHR ''>'' then ''&gt;'' else [c])"
  by (rule markup_piece) (simp add: text_piece_def text_entities_def)

lemma markup_concat: "(\<And>x. x \<in> set xs \<Longrightarrow> markup P x) \<Longrightarrow> markup P (concat xs)"
  by (induction xs) (auto intro: markup_append)

lemma markup_escaped: "markup text_piece (html_escape s)"
  unfolding html_escape_chars by (rule markup_concat) (auto simp only: set_map intro: escaped_char)

lemma html_escape_quoted_chars:
  "html_escape_quoted s = concat (map (\<lambda>c. if c = CHR ''&'' then ''&amp;'' else if c = CHR ''<'' then ''&lt;''
     else if c = CHR ''>'' then ''&gt;'' else if c = CHR 0x22 then ''&quot;'' else if c = CHR 0x27 then ''&#x27;'' else [c]) s)"
  by (induction s) (auto simp: html_escape_quoted_def html_escape_chars py_replace_one)

section \<open>The steps\<close>

lemma markup_strip_left: "markup text_piece u \<Longrightarrow> markup text_piece (dropWhile py_isspace u)"
proof (induction u)
  case (Cons c u)
  then show ?case using markup_cut [of text_piece c "[]" u] by (simp add: text_separate_space)
qed simp

lemma markup_strip_right: "markup text_piece u \<Longrightarrow> markup text_piece (py_rstrip u)"
proof (induction u rule: rev_induct)
  case (snoc c u)
  then show ?case using markup_cut [of text_piece c u "[]"] by (simp add: py_rstrip_of_def text_separate_space)
qed (simp add: py_rstrip_of_def)

lemma markup_strip: "markup text_piece u \<Longrightarrow> markup text_piece (py_strip u)"
  unfolding py_strip_of_def py_lstrip_of_def by (intro markup_strip_right markup_strip_left)

lemma markup_cut_twice:
  assumes "separate P c" "markup P (pre @ c # c # t)"
  shows "markup P pre \<and> markup P t"
proof -
  have "markup P (c # t)" "markup P pre" using markup_cut [OF assms(1), of pre "c # t"] assms(2) by auto
  then show ?thesis using markup_cut [OF assms(1), of "[]" t] by simp
qed

lemma group_1: "regex_group ((1, x) # g) 1 = x"
  by (simp add: regex_group_def)

lemma tagged_simps:
  "tagged_group ''b'' g = ''<b>'' @ regex_group g 1 @ ''</b>''"
  "tagged_group ''i'' g = ''<i>'' @ regex_group g 1 @ ''</i>''"
  by (simp_all add: tagged_group_def)

lemma bold_step:
  assumes "(g, t) \<in> set (matches bold_pattern p s)" "markup text_piece (pre @ s)"
  shows "markup text_piece (pre @ tagged_group ''b'' g @ t)"
proof -
  obtain u where s: "s = ''**'' @ u @ ''**'' @ t" and g: "g = [(1, u)]"
    using assms(1) unfolding bold_pattern_def
    by (auto simp only: seq_all_Cons_iff seq_all_Nil_iff lits_match_iff group_match_iff rep_match_iff append_Nil
        append_Nil2 consumed_append append.assoc)
  have "markup text_piece (u @ CHR ''*'' # CHR ''*'' # t)" "markup text_piece pre"
    using markup_cut_twice [of text_piece "CHR ''*''" pre "u @ ''**'' @ t"] assms(2) by (simp_all add: s)
  then have "markup text_piece u" "markup text_piece t" "markup text_piece pre"
    using markup_cut_twice [of text_piece "CHR ''*''" u t] by simp_all
  then show ?thesis unfolding g tagged_simps group_1 append.assoc by (intro markup_append markup_tags)
qed

lemma italic_step:
  assumes "(g, t) \<in> set (matches (italic_pattern m f) p s)" "markup text_piece (pre @ s)" "separate text_piece m"
  shows "markup text_piece (pre @ tagged_group ''i'' g @ t)"
proof -
  obtain u where s: "s = m # u @ m # t" and g: "g = [(1, u)]"
    using assms(1) unfolding italic_pattern_def not_before_def not_after_def
    by (auto simp only: seq_all_Cons_iff seq_all_Nil_iff lit_match_iff look_match_iff group_match_iff rep_match_iff
        append_Nil append_Nil2 consumed_append append.assoc append_Cons)
  have "markup text_piece (u @ m # t)" "markup text_piece pre"
    using markup_cut [OF assms(3), of pre "u @ m # t"] assms(2) by (simp_all add: s)
  then have "markup text_piece u" "markup text_piece t" "markup text_piece pre"
    using markup_cut [OF assms(3), of u t] by simp_all
  then show ?thesis unfolding g tagged_simps group_1 append.assoc by (intro markup_append markup_tags)
qed

lemma orphan_step:
  assumes "markup text_piece (pre @ ''**'' @ t)"
  shows "markup text_piece (pre @ t)"
  using markup_cut_twice [of text_piece "CHR ''*''" pre t] assms by (auto intro: markup_append)

lemma headline_step:
  assumes m: "(g, t) \<in> set (matches headline_pattern p s)" and pre: "markup text_piece (pre @ s)"
  shows "markup text_piece (pre @ headline_replace g @ t)"
proof -
  have "\<exists>p' g2 s2. (g2, s2) \<in> set (matches (Iter True 1 (Some 6) (lit (CHR ''#''))) p' s) \<and>
      (\<exists>w u. s2 = w @ u @ t \<and> list_all py_isspace w \<and> 1 \<le> length w \<and> g = g2 @ [(1, u)]) \<and> (t = [] \<or> hd t = CHR 0x0A)"
    using m [unfolded headline_pattern_def line_start_def line_end_def space_plus_def seq_all_Cons_iff
      seq_all_Nil_iff look_match_iff group_match_iff rep_match_iff append_Nil append_Nil2]
    by (elim exE conjE, hypsubst) (rule exI, rule exI, rule exI, rule conjI, assumption, auto)
  then obtain p' g2 s2 where i: "(g2, s2) \<in> set (matches (Iter True 1 (Some 6) (lit (CHR ''#''))) p' s)"
      and sp: "\<exists>w u. s2 = w @ u @ t \<and> list_all py_isspace w \<and> 1 \<le> length w \<and> g = g2 @ [(1, u)]"
      and t: "t = [] \<or> hd t = CHR 0x0A" by blast
  from some_of_match [OF i] sp obtain marks gap u where s: "s = marks @ gap @ u @ t" and g: "g = [(1, u)]"
      and gap: "list_all py_isspace gap" "1 \<le> length gap"
      and marks: "list_all (\<lambda>x. x = CHR ''#'') marks" "1 \<le> length marks"
    by auto
  obtain marks' where marks': "marks = CHR ''#'' # marks'" using marks by (cases marks) auto
  obtain c gap' where gap': "gap = gap' @ [c]" "py_isspace c" using gap by (cases gap rule: rev_cases) auto
  have "markup text_piece pre" "markup text_piece (marks' @ gap @ u @ t)"
    using markup_cut [of text_piece "CHR ''#''" pre "marks' @ gap @ u @ t"] pre by (simp_all add: s marks')
  moreover then have ut: "markup text_piece (u @ t)"
    using markup_cut [of text_piece c "marks' @ gap'" "u @ t"] gap' by (simp add: text_separate_space)
  have "markup text_piece u \<and> markup text_piece t"
  proof (cases t)
    case (Cons x t')
    then show ?thesis using ut t markup_cut [of text_piece "CHR 0x0A" u t'] by (simp add: markup_char)
  qed (use ut in simp)
  moreover have "markup text_piece (py_replace ''**'' [] (py_strip u))"
    using py_replace_markup [of text_piece "''**''" "[]" "[]" "py_strip u"] orphan_step markup_strip calculation by simp
  ultimately show ?thesis
    unfolding headline_replace_def g group_1 append.assoc by (intro markup_append markup_tags) simp_all
qed

section \<open>Inserting what was taken out\<close>

lemma cut_mark:
  assumes "separate P c" "markup P (pre @ ([c] @ mid @ [c]) @ t)"
  shows "markup P pre \<and> markup P t"
  using markup_cut [OF assms(1), of pre "mid @ c # t"] markup_cut [OF assms(1), of mid t] assms(2) by simp

lemma reinsert_markup:
  assumes "\<And>i x pre t. x \<in> set xs \<Longrightarrow> markup P (pre @ mark i @ t) \<Longrightarrow> markup P (pre @ shown x @ t)"
  shows "markup P str \<Longrightarrow> markup P (reinsert mark shown i xs str)"
  using assms
proof (induction xs arbitrary: i str)
  case (Cons x xs)
  have "markup P ([] @ py_replace (mark i) (shown x) str)"
    by (rule py_replace_markup) (use Cons.prems in auto)
  then show ?case using Cons by simp
qed simp

lemma marks_markup:
  assumes "markup text_piece text"
  shows "markup text_piece (render_marks text)"
proof -
  have sub: "markup text_piece (regex_sub r repl x)"
    if "\<And>pre p s g t. (g, t) \<in> set (matches r p s) \<Longrightarrow> markup text_piece (pre @ s) \<Longrightarrow> markup text_piece (pre @ repl g @ t)"
      "markup text_piece x" for r repl x
    using regex_sub_markup [of r text_piece repl "[]" x None] that unfolding regex_sub_def by simp
  have orphans: "markup text_piece (pre @ [] @ t)" if "(g, t) \<in> set (matches (lits ''**'') p s)" "markup text_piece (pre @ s)"
    for pre p s g t
    using that orphan_step [of pre t] by (simp add: lits_match_iff)
  have italics: "markup text_piece (regex_sub (italic_pattern m f) (tagged_group ''i'') x)"
    if "markup text_piece x" "separate text_piece m" for m f x
    by (rule sub [OF _ that(1)], rule italic_step [where m = m and f = f]) (use that(2) in simp_all)
  show ?thesis unfolding render_marks_def Let_def
    by (intro italics sub [OF orphans] sub [OF bold_step] sub [OF headline_step] assms) simp_all
qed

lemma code_markup:
  assumes "markup text_piece text"
  shows "markup text_piece (reinsert inline_mark shown_code 0 codes (reinsert block_mark shown_block 0 blocks text))"
proof -
  have "markup text_piece (pre @ shown_block x @ t)" if m: "markup text_piece (pre @ block_mark i @ t)" for pre x t i
  proof -
    have "markup text_piece pre \<and> markup text_piece t"
      using m cut_mark [of text_piece "CHR 0x00" pre "''CODEBLOCK'' @ nat_decimal i" t] by (simp add: block_mark_def)
    then show ?thesis unfolding shown_block_def append.assoc by (intro markup_append markup_tags markup_escaped) auto
  qed
  moreover have "markup text_piece (pre @ shown_code x @ t)" if m: "markup text_piece (pre @ inline_mark i @ t)" for pre x t i
  proof -
    have "markup text_piece pre \<and> markup text_piece t"
      using m cut_mark [of text_piece "CHR 0x01" pre "''INLINE'' @ nat_decimal i" t] by (simp add: inline_mark_def)
    then show ?thesis unfolding shown_code_def append.assoc by (intro markup_append markup_tags markup_escaped) auto
  qed
  ultimately show ?thesis using assms by (intro reinsert_markup)
qed

text \<open>The opening tag of a link in whose address the delimiter of the marks does not occur.\<close>

definition linked_piece :: "(string \<Rightarrow> bool) \<Rightarrow> string \<Rightarrow> bool" where
  "linked_piece bracketed_ok t = (text_piece t \<or> t \<in> set quote_entities \<or>
     (\<exists>url. url_allowed bracketed_ok url \<and> CHR 0x02 \<notin> set url \<and> t = anchor_tag url))"

lemma escaped_quoted_delimiter: "CHR 0x02 \<notin> set url \<Longrightarrow> CHR 0x02 \<notin> set (html_escape_quoted url)"
  by (auto simp: html_escape_quoted_chars split: if_splits)

lemma linked_separate: "separate (linked_piece ok) (CHR 0x02)"
  by (auto simp: separate_def linked_piece_def text_piece_def text_entities_def plain_tags_def quote_entities_def
      anchor_tag_def escaped_quoted_delimiter)

lemma markup_escaped_quoted: "markup (linked_piece ok) (html_escape_quoted s)"
  unfolding html_escape_quoted_chars
  by (rule markup_concat) (auto simp: linked_piece_def text_piece_def text_entities_def quote_entities_def intro!: markup_piece)

lemma links_markup:
  assumes "\<And>l. l \<in> set links \<Longrightarrow> url_allowed ok (snd l) \<and> CHR 0x02 \<notin> set (snd l)"
    and base: "markup text_piece text"
  shows "markup (html_piece ok) (reinsert (link_mark sentinel) shown_link 0 links text)"
proof -
  have "markup (linked_piece ok) (pre @ shown_link l @ t)"
    if l: "l \<in> set links" and m: "markup (linked_piece ok) (pre @ link_mark sentinel i @ t)" for l pre t i
  proof -
    have "markup (linked_piece ok) (anchor_tag (snd l))"
      using assms(1) [OF l] by (intro markup_piece) (auto simp: linked_piece_def)
    moreover have "markup (linked_piece ok) ''</a>''"
      by (rule markup_piece) (simp add: linked_piece_def text_piece_def plain_tags_def)
    moreover have "markup (linked_piece ok) pre \<and> markup (linked_piece ok) t"
      using m cut_mark [OF linked_separate, of ok pre "''LINK-'' @ sentinel @ ''-'' @ nat_decimal i" t]
      by (simp add: link_mark_def)
    ultimately show ?thesis unfolding shown_link_def append.assoc
      by (intro markup_append markup_escaped_quoted) auto
  qed
  then have "markup (linked_piece ok) (reinsert (link_mark sentinel) shown_link 0 links text)"
    using base by (intro reinsert_markup) (auto simp: linked_piece_def elim: markup_mono)
  then show ?thesis by (rule markup_mono) (auto simp: linked_piece_def html_piece_def)
qed

lemma regex_sub_acc_keeps:
  assumes step: "\<And>p s g t acc. (g, t) \<in> set (matches r p s) \<Longrightarrow> c \<notin> set s \<Longrightarrow> I acc \<Longrightarrow> I (snd (repl g acc))"
  shows "c \<notin> set s \<Longrightarrow> I acc \<Longrightarrow> I (snd (regex_sub_acc_from r repl p s acc))"
proof (induction s arbitrary: p acc rule: length_induct)
  case (1 s)
  show ?case
  proof (cases s)
    case (Cons x cs)
    have skip: "I (snd (regex_sub_acc_from r repl (Some x) cs acc))" using 1 Cons by simp
    show ?thesis
    proof (cases "matches r p s")
      case m: (Cons m ms)
      obtain g t where gt: "m = (g, t)" by fastforce
      have "I (snd (repl g acc))" using step [of g t p s acc] m gt 1 by simp
      moreover have "c \<notin> set t" using matches_suffix [of g t r p s] m gt 1(2) by (auto dest: set_mono_suffix)
      ultimately have "length t < length s \<Longrightarrow> I (snd (regex_sub_acc_from r repl (before p s t) t (snd (repl g acc))))"
        using 1(1) by blast
      then show ?thesis using skip m gt Cons
        by (simp add: regex_sub_acc_from.simps [of r repl p "x # cs"] split_beta Let_def)
    qed (use skip Cons in \<open>simp add: regex_sub_acc_from.simps [of r repl p "x # cs"] split_beta Let_def\<close>)
  qed (use 1 in \<open>simp add: regex_sub_acc_from.simps [of r repl p "[]"]\<close>)
qed

lemma collected_links:
  assumes "CHR 0x02 \<notin> set text" "l \<in> set (snd (regex_sub_acc link_pattern (extract_link ok sentinel) text))"
  shows "url_allowed ok (snd l) \<and> CHR 0x02 \<notin> set (snd l)"
proof -
  let ?I = "\<lambda>acc. \<forall>l \<in> set acc. url_allowed ok (snd l) \<and> CHR 0x02 \<notin> set (snd l)"
  have "?I (snd (extract_link ok sentinel g acc))"
    if m: "(g, t) \<in> set (matches link_pattern p s)" and s: "CHR 0x02 \<notin> set s" and "?I acc" for g t p s acc
  proof -
    have "set (regex_group g 2) \<subseteq> set s"
    proof (cases "map_of g 2")
      case (Some x)
      then have "sublist x s" using matches_captures [OF m] by (blast dest: map_of_SomeD)
      then show ?thesis using Some set_mono_sublist by (auto simp: regex_group_def)
    qed (simp add: regex_group_def)
    then show ?thesis using that set_py_strip [of _ "regex_group g 2"] by (auto simp: extract_link_def Let_def)
  qed
  then have "?I (snd (regex_sub_acc_from link_pattern (extract_link ok sentinel) None text []))"
    using assms(1) regex_sub_acc_keeps [of link_pattern "CHR 0x02" "?I" "extract_link ok sentinel" "text" "[]" None]
    by (metis empty_iff list.set(1))
  then show ?thesis using assms(2) by (simp add: regex_sub_acc_def)
qed

text \<open>
  C16: What is sent to Telegram as HTML is text with its reserved characters written as entities,
  interspersed with the tags for bold, italic, code and preformatted text and with links, and every
  link goes to an address with one of the four allowed schemes, escaped so that it ends with its
  attribute. Whatever a model answers, no other tag and no other attribute comes out. The text must
  not have the control character that delimits the marks of the links: a text that can guess the
  sentinel could place a link inside an address.
\<close>

theorem rendered_text_is_safe_markup:
  assumes "CHR 0x02 \<notin> set text"
  shows "markup (html_piece bracketed_ok) (markdown_to_telegram_html bracketed_ok sentinel text)"
proof -
  obtain t1 links where l: "regex_sub_acc link_pattern (extract_link bracketed_ok sentinel) text = (t1, links)" by fastforce
  obtain t2 blocks where b: "regex_sub_acc fence_pattern extract_code_block t1 = (t2, blocks)" by fastforce
  obtain t3 codes where c: "regex_sub_acc inline_pattern extract_inline_code t2 = (t3, codes)" by fastforce
  show ?thesis unfolding markdown_to_telegram_html_def l b c Let_def prod.case
    by (intro links_markup code_markup marks_markup markup_escaped) (use collected_links [OF assms, of _ bracketed_ok sentinel] l in auto)
qed

section \<open>Examples\<close>

lemma rendered_text_is_safe_markup_witness:
  "CHR 0x02 \<notin> set ''a<b> [x](tg:y)'' \<and>
   markup (html_piece (\<lambda>_. True)) (markdown_to_telegram_html (\<lambda>_. True) ''5f'' ''a<b> [x](tg:y)'')"
  using rendered_text_is_safe_markup [of "''a<b> [x](tg:y)''" "\<lambda>_. True" "''5f''"] by simp

lemma rendered_link:
  "markdown_to_telegram_html (\<lambda>_. True) ''5f'' ''a<b> [x](tg:y)'' = ''a&lt;b&gt; <a href='' @ [CHR 0x22] @ ''tg:y'' @ [CHR 0x22] @ ''>x</a>''"
  by code_simp

text \<open>Bold and italic that overlap come out as tags that overlap, which Telegram refuses.\<close>

lemma overlapping_marks_overlap:
  "markdown_to_telegram_html (\<lambda>_. True) ''5f'' ''**a *b** c*'' = ''<b>a <i>b</b> c</i>''"
  by code_simp

text \<open>The HTML treats the inside of a name with underscores as italic; the plain text does not.\<close>

lemma snake_case_becomes_italic:
  "markdown_to_telegram_html (\<lambda>_. True) ''5f'' ''my_own_name'' = ''my<i>own</i>name'' \<and>
   strip_markdown ''my_own_name'' = ''my_own_name''"
  by code_simp

text \<open>The plain text loses characters of code and of addresses.\<close>

lemma stripped_code_and_links:
  "strip_markdown ''``` a**b**c```'' = '' abc'' \<and> strip_markdown ''[x](tg:/_y_/)'' = ''x (tg:/y/)''"
  by code_simp

text \<open>The first word of a block on one line is taken for the name of a language and lost.\<close>

lemma block_on_one_line_loses_a_word:
  "markdown_to_telegram_html (\<lambda>_. True) ''5f'' ''```pip x```'' = ''<pre> x</pre>''"
  by code_simp

end
