(* ===== verification/TelegramSplit.thy ===== *)
theory TelegramSplit
  imports Markdown StyleAdaption
begin

text \<open>
  Where a text may be cut for Telegram (\<open>application/streaming_handler.py\<close>): the positions that are
  not inside a Markdown token, the split of a long answer, the boundary of a rollover, and the
  truncation of a text whose HTML is too long. The factor of the estimate is computed with rationals.
\<close>

section \<open>Searching\<close>

text \<open>\<open>s.rfind(sub)\<close>: the last position; \<open>s.find(c, pos) >= 0\<close> and \<open>"(" in s\<close> for a character are memberships.\<close>

definition py_rfind :: "string \<Rightarrow> string \<Rightarrow> nat option" where
  "py_rfind sub s = find (\<lambda>i. py_startswith (drop i s) sub) (rev [0..<Suc (length s)])"

definition py_lstrip_newlines :: "string \<Rightarrow> string" where
  "py_lstrip_newlines s = py_lstrip_of (\<lambda>c. c = CHR 0x0A) s"

text \<open>The ends of \<open>[.!?]\s\<close>, whose matches cannot overlap.\<close>

definition sentence_ends :: "string \<Rightarrow> nat list" where
  "sentence_ends s = map (\<lambda>i. i + 2)
     (filter (\<lambda>i. s ! i \<in> {CHR ''.'', CHR ''!'', CHR ''?''} \<and> py_isspace (s ! (i + 1))) [0..<length s - 1])"

section \<open>Safe positions\<close>

definition backticks :: string where "backticks = replicate 3 (CHR 0x60)"

text \<open>\<open>")" not in after.split("(", 1)[1:]\<close> compares with the elements of a list, here the one text after the bracket.\<close>

definition open_link :: "string \<Rightarrow> nat \<Rightarrow> bool" where
  "open_link s pos =
     (case py_rfind ''['' (take pos s) of
        None \<Rightarrow> False
      | Some i \<Rightarrow>
          (let after = drop i (take pos s)
           in CHR ''('' \<in> set after \<and> tl (dropWhile (\<lambda>c. c \<noteq> CHR ''('') after) \<noteq> '')'' \<and>
              CHR '')'' \<in> set (drop pos s)))"

definition is_safe_markdown_position :: "string \<Rightarrow> nat \<Rightarrow> bool" where
  "is_safe_markdown_position s pos =
     (let pre = take pos s
      in if odd (py_count backticks pre) then False
         else if odd (py_count ''**'' pre) then False
         else if odd (py_count [CHR 0x60] (py_replace backticks [] pre)) then False
         else \<not> open_link s pos)"

definition find_safe_markdown_end :: "string \<Rightarrow> nat" where
  "find_safe_markdown_end s =
     (if s = [] then 0
      else if is_safe_markdown_position s (length s) then length s
      else let search_start = length s - 50
           in case find (is_safe_markdown_position s) (rev [Suc search_start..<Suc (length s)]) of
                None \<Rightarrow> search_start | Some i \<Rightarrow> i)"

section \<open>The split of a long answer\<close>

definition telegram_max_length :: nat where "telegram_max_length = 4096"
definition split_safety_margin :: nat where "split_safety_margin = 30"

text \<open>The break points in the order of their priority, each with the position after it, if it is far enough.\<close>

definition break_after :: "string \<Rightarrow> string \<Rightarrow> nat \<Rightarrow> nat option" where
  "break_after sub s limit = (case py_rfind sub s of
     None \<Rightarrow> None | Some pos \<Rightarrow> if limit < pos then Some (pos + length sub) else None)"

definition sentence_break :: "string \<Rightarrow> nat \<Rightarrow> nat option" where
  "sentence_break s limit = (case filter (\<lambda>e. limit < e) (sentence_ends s) of
     [] \<Rightarrow> None | ends \<Rightarrow> Some (last ends))"

definition break_candidates :: "string \<Rightarrow> nat \<Rightarrow> nat option list" where
  "break_candidates s limit = [break_after [CHR 0x0A, CHR 0x0A] s limit, break_after [CHR 0x0A] s limit,
     sentence_break s limit, break_after '' '' s limit]"

definition first_safe_break :: "string \<Rightarrow> nat option list \<Rightarrow> nat option" where
  "first_safe_break s candidates =
     find (is_safe_markdown_position s) (concat (map (\<lambda>c. case c of None \<Rightarrow> [] | Some i \<Rightarrow> [i]) candidates))"

definition find_split_position :: "string \<Rightarrow> nat \<Rightarrow> nat" where
  "find_split_position s max_pos =
     (case first_safe_break s (break_candidates (take max_pos s) (max_pos div 3)) of
        None \<Rightarrow> max_pos | Some pos \<Rightarrow> pos)"

definition rollover_threshold :: nat where "rollover_threshold = 3900"

definition find_rollover_boundary :: "string \<Rightarrow> nat" where
  "find_rollover_boundary s =
     (if length s < rollover_threshold then 0
      else case first_safe_break s (break_candidates (take rollover_threshold s) (rollover_threshold div 2)) of
             None \<Rightarrow> 0 | Some pos \<Rightarrow> pos)"

text \<open>The loop of the split, which would not end if the maximum were zero.\<close>

partial_function (option) split_loop :: "nat \<Rightarrow> string \<Rightarrow> string list \<Rightarrow> string list option" where
  "split_loop effective_max remaining parts =
     (if remaining = [] then Some parts
      else if length remaining \<le> effective_max then Some (parts @ [remaining])
      else let split_pos = find_split_position remaining effective_max;
               part = py_rstrip (take split_pos remaining);
               remaining' = py_lstrip_newlines (drop split_pos remaining)
           in split_loop effective_max remaining' (if part = [] then parts else parts @ [part]))"

declare split_loop.simps [code]

definition split_text_for_telegram :: "string \<Rightarrow> nat \<Rightarrow> string list option" where
  "split_text_for_telegram s max_length =
     (let effective_max = max_length - split_safety_margin
      in if length s \<le> effective_max then Some [s]
         else map_option (\<lambda>parts. if parts = [] then [take effective_max s] else parts) (split_loop effective_max s []))"

section \<open>Truncation\<close>

text \<open>The lower bound is halved until its HTML fits, then the boundary is searched by bisection.\<close>

fun lower_bound :: "(string \<Rightarrow> string) \<Rightarrow> string \<Rightarrow> int \<Rightarrow> nat \<Rightarrow> nat" where
  "lower_bound render s limit lo =
     (if 0 < lo \<and> limit < int (length (render (take lo s))) then lower_bound render s limit (lo div 2) else lo)"

declare lower_bound.simps [simp del]

function bisect :: "(string \<Rightarrow> string) \<Rightarrow> string \<Rightarrow> int \<Rightarrow> int \<Rightarrow> int \<Rightarrow> nat \<Rightarrow> nat" where
  "bisect render s limit lo hi best =
     (if lo \<le> hi
      then let mid = (lo + hi) div 2;
               safe = find_safe_markdown_end (take (nat mid) s);
               safe_pos = (if safe = 0 then nat mid else safe)
           in if int (length (render (take safe_pos s))) \<le> limit
              then bisect render s limit (mid + 1) hi safe_pos
              else bisect render s limit lo (mid - 1) best
      else best)"
  by pat_completeness auto
termination by (relation "measure (\<lambda>(render, s, limit, lo, hi, best). nat (hi + 1 - lo))") auto

declare bisect.simps [simp del]

definition truncate_markdown_for_html_limit :: "(string \<Rightarrow> string) \<Rightarrow> string \<Rightarrow> nat \<Rightarrow> string" where
  "truncate_markdown_for_html_limit render s max_html_length =
     (let html_length = length (render s)
      in if html_length \<le> max_html_length then s
         else let ratio = of_nat max_html_length / of_nat (max html_length 1) :: rat;
                  estimate = \<lfloor>of_nat (length s) * ratio * (9 / 10)\<rfloor>;
                  hi = min (int (length s)) (estimate + 200);
                  lo = lower_bound render s (int max_html_length - 3) (nat (max 0 (estimate - 200)))
              in take (bisect render s (int max_html_length - 3) (int lo) hi lo) s)"

section \<open>A split loses white space only\<close>

text \<open>The parts occur in the text in their order, and what stands before, between and after them is white space.\<close>

primrec cut_into :: "string \<Rightarrow> string list \<Rightarrow> bool" where
  "cut_into s [] \<longleftrightarrow> list_all py_isspace s"
| "cut_into s (p # ps) \<longleftrightarrow> (\<exists>gap rest. s = gap @ p @ rest \<and> list_all py_isspace gap \<and> cut_into rest ps)"

lemma cut_into_gap: "list_all py_isspace gap \<Longrightarrow> cut_into s ps \<Longrightarrow> cut_into (gap @ s) ps"
proof (cases ps)
  case (Cons p qs)
  assume gap: "list_all py_isspace gap" and "cut_into s ps"
  then obtain g rest where "s = g @ p @ rest" "list_all py_isspace g" "cut_into rest qs" using Cons by auto
  then have "gap @ s = (gap @ g) @ p @ rest \<and> list_all py_isspace (gap @ g) \<and> cut_into rest qs" using gap by simp
  then show ?thesis unfolding Cons cut_into.simps by blast
qed auto

lemma cut_into_part: "cut_into s ps \<Longrightarrow> cut_into (p @ s) (p # ps)"
  unfolding cut_into.simps by (intro exI [of _ "[]"] exI [of _ s]) simp

lemma cut_into_whole: "cut_into s [s]"
  using cut_into_part [of "[]" "[]" s] by simp

lemma rstrip_gap: "\<exists>gap. s = py_rstrip s @ gap \<and> list_all py_isspace gap"
proof -
  have "rev s = takeWhile py_isspace (rev s) @ dropWhile py_isspace (rev s)" by simp
  then have "s = rev (dropWhile py_isspace (rev s)) @ rev (takeWhile py_isspace (rev s))"
    by (metis rev_append rev_rev_ident)
  then show ?thesis unfolding py_rstrip_of_def
    by (intro exI [of _ "rev (takeWhile py_isspace (rev s))"]) (auto simp: list_all_iff dest: set_takeWhileD)
qed

lemma lstrip_newlines_gap: "\<exists>gap. s = gap @ py_lstrip_newlines s \<and> list_all py_isspace gap"
proof -
  have "s = takeWhile (\<lambda>c. c = CHR 0x0A) s @ py_lstrip_newlines s"
    by (simp add: py_lstrip_newlines_def py_lstrip_of_def)
  then show ?thesis
    by (intro exI [of _ "takeWhile (\<lambda>c. c = CHR 0x0A) s"])
      (auto simp: list_all_iff py_isspace_def Let_def dest!: set_takeWhileD)
qed

lemma length_lstrip_newlines: "length (py_lstrip_newlines s) \<le> length s"
  by (simp add: py_lstrip_newlines_def py_lstrip_of_def length_dropWhile_le)

lemma py_rfind_fits: "py_rfind sub s = Some i \<Longrightarrow> sub \<noteq> [] \<Longrightarrow> i + length sub \<le> length s"
proof -
  assume "py_rfind sub s = Some i" "sub \<noteq> []"
  then have "py_startswith (drop i s) sub" "i \<le> length s" by (auto simp: py_rfind_def dest!: find_Some_in simp del: upt_Suc)
  then have "length (take (length sub) (drop i s)) = length sub" by (simp add: py_startswith_def)
  then show "i + length sub \<le> length s" using \<open>i \<le> length s\<close> by simp
qed

lemma break_after_bounds: "break_after sub s limit = Some pos \<Longrightarrow> sub \<noteq> [] \<Longrightarrow> 0 < pos \<and> pos \<le> length s"
  by (auto simp: break_after_def split: option.splits if_splits dest: py_rfind_fits)

lemma sentence_break_bounds: "sentence_break s limit = Some pos \<Longrightarrow> 0 < pos \<and> pos \<le> length s"
proof -
  assume "sentence_break s limit = Some pos"
  then have "pos \<in> set (filter (\<lambda>e. limit < e) (sentence_ends s))"
    unfolding sentence_break_def
    by (cases "filter (\<lambda>e. limit < e) (sentence_ends s)") (simp, simp only: list.case option.inject, blast intro: last_in_set)
  then show ?thesis by (auto simp: sentence_ends_def)
qed

lemma first_safe_break_bounds:
  assumes "first_safe_break s (break_candidates s' limit) = Some pos"
  shows "0 < pos \<and> pos \<le> length s'"
proof -
  have "Some pos \<in> set (break_candidates s' limit)"
    using assms by (auto simp: first_safe_break_def dest!: find_Some_in split: option.splits)
  then show ?thesis
    by (auto simp: break_candidates_def dest!: sym [of "Some pos"] dest: break_after_bounds sentence_break_bounds)
qed

lemma split_position_bounds: "0 < m \<Longrightarrow> m < length s \<Longrightarrow> 0 < find_split_position s m \<and> find_split_position s m \<le> m"
  using first_safe_break_bounds [of s "take m s" "m div 3"] by (auto simp: find_split_position_def split: option.split)

lemma split_loop_parts:
  assumes "0 < m"
  shows "\<exists>qs. split_loop m r parts = Some (parts @ qs) \<and> cut_into r qs \<and> (\<forall>q \<in> set qs. q \<noteq> [] \<and> length q \<le> m)"
proof (induction "length r" arbitrary: r parts rule: less_induct)
  case less
  consider "r = []" | "r \<noteq> []" "length r \<le> m" | "m < length r" by fastforce
  then show ?case
  proof cases
    case 3
    let ?pos = "find_split_position r m"
    let ?part = "py_rstrip (take ?pos r)" and ?rest = "py_lstrip_newlines (drop ?pos r)"
    have pos: "0 < ?pos" "?pos \<le> m" using split_position_bounds [OF assms 3] by auto
    then have "length ?rest < length r" using length_lstrip_newlines [of "drop ?pos r"] 3 by simp
    from less [OF this] obtain qs where qs: "cut_into ?rest qs" "\<forall>q \<in> set qs. q \<noteq> [] \<and> length q \<le> m"
        and loop: "split_loop m ?rest (if ?part = [] then parts else parts @ [?part]) = Some ((if ?part = [] then parts else parts @ [?part]) @ qs)"
      by blast
    obtain gap gap2 where gap: "take ?pos r = ?part @ gap" "list_all py_isspace gap" "drop ?pos r = gap2 @ ?rest" "list_all py_isspace gap2"
      using rstrip_gap lstrip_newlines_gap by metis
    have r: "r = ?part @ gap @ gap2 @ ?rest" using gap(1, 3) by (metis append.assoc append_take_drop_id)
    have rest: "cut_into (gap @ gap2 @ ?rest) qs" using qs(1) gap by (intro cut_into_gap)
    have "length ?part \<le> length (take ?pos r)"
      using arg_cong [OF gap(1), of length] unfolding length_append by linarith
    then have short: "length ?part \<le> m" using pos by simp
    obtain qs' where qs': "qs' = (if ?part = [] then qs else ?part # qs)" by blast
    have "cut_into r qs'"
      using rest cut_into_part [OF rest, of ?part] unfolding qs' by (subst r) simp
    moreover have "split_loop m r parts = split_loop m ?rest (if ?part = [] then parts else parts @ [?part])"
      using 3 by (subst split_loop.simps) (auto simp only: Let_def length_0_conv not_le list.size split: if_splits)
    moreover have "(if ?part = [] then parts else parts @ [?part]) @ qs = parts @ qs'" by (simp add: qs')
    moreover have "\<forall>q \<in> set qs'. q \<noteq> [] \<and> length q \<le> m" using qs(2) short by (simp add: qs')
    ultimately show ?thesis using loop by metis
  next
    case 2
    then show ?thesis using cut_into_whole [of r] by (intro exI [of _ "[r]"]) (simp add: split_loop.simps [of m r parts])
  next
    case 1
    then show ?thesis by (intro exI [of _ "[]"]) (simp add: split_loop.simps [of m "[]" parts])
  qed
qed

text \<open>
  C18: Whatever the text and the limit (above the margin of thirty), the split of a long answer ends,
  every part fits the limit with room for its marker, and the parts are the text in its order: only
  white space between them is lost.
\<close>

theorem split_keeps_the_text:
  assumes "split_safety_margin < max_length"
  shows "\<exists>parts. split_text_for_telegram s max_length = Some parts \<and> cut_into s parts \<and>
    (\<forall>p \<in> set parts. length p + split_safety_margin \<le> max_length)"
proof -
  let ?m = "max_length - split_safety_margin"
  obtain qs where qs: "split_loop ?m s [] = Some qs" "cut_into s qs" "\<forall>q \<in> set qs. length q \<le> ?m"
    using split_loop_parts [of ?m s "[]"] assms by auto
  consider "length s \<le> ?m" | "?m < length s" "qs = []" | "?m < length s" "qs \<noteq> []" by fastforce
  then show ?thesis
  proof cases
    case 1
    then show ?thesis using assms cut_into_whole [of s] by (simp add: split_text_for_telegram_def)
  next
    case 2
    then have "cut_into (take ?m s @ drop ?m s) [take ?m s]"
      using qs(2) by (intro cut_into_part) (auto simp: list_all_iff dest: in_set_dropD)
    then show ?thesis using 2 qs assms by (simp add: split_text_for_telegram_def)
  next
    case 3
    then show ?thesis using qs assms by (auto simp: split_text_for_telegram_def)
  qed
qed

lemma split_keeps_the_text_witness:
  "split_safety_margin < (34::nat) \<and> split_text_for_telegram ''a bc de.  f'' 34 = Some [''a bc'', '' de.'', ''  f''] \<and>
   (\<exists>parts. split_text_for_telegram ''a bc de.  f'' 34 = Some parts \<and> cut_into ''a bc de.  f'' parts \<and>
     (\<forall>p \<in> set parts. length p + split_safety_margin \<le> 34))"
proof -
  have m: "split_safety_margin < (34::nat)" by (simp add: split_safety_margin_def)
  moreover have "split_text_for_telegram ''a bc de.  f'' 34 = Some [''a bc'', '' de.'', ''  f'']" by code_simp
  ultimately show ?thesis using split_keeps_the_text [OF m, of "''a bc de.  f''"] by simp
qed

section \<open>A truncated text fits\<close>

lemma lower_bound_fits:
  "int (length (render [])) \<le> limit \<Longrightarrow> int (length (render (take (lower_bound render s limit lo) s))) \<le> limit"
proof (induction render s limit lo rule: lower_bound.induct)
  case (1 render s limit lo)
  then show ?case by (subst lower_bound.simps) (auto split: if_splits)
qed

lemma bisect_fits:
  "int (length (render (take best s))) \<le> limit \<Longrightarrow> int (length (render (take (bisect render s limit lo hi best) s))) \<le> limit"
proof (induction render s limit lo hi best rule: bisect.induct)
  case (1 render s limit lo hi best)
  show ?case
  proof (cases "lo \<le> hi")
    case True
    show ?thesis unfolding bisect.simps [of render s limit lo hi best] Let_def if_P [OF True]
      by (split if_split, intro conjI impI) (rule 1(1) [OF True refl refl refl], assumption+, rule 1(2) [OF True refl refl refl _ 1(3)])
  qed (use 1(3) in \<open>simp add: bisect.simps [of render s limit lo hi best]\<close>)
qed

lemma truncated_text_fits:
  assumes "render [] = []" "3 \<le> limit"
  shows "length (render (truncate_markdown_for_html_limit render s limit)) \<le> limit"
proof (cases "length (render s) \<le> limit")
  case False
  let ?l = "int limit - 3"
  have fits: "length (render (take (bisect render s ?l lo hi (lower_bound render s ?l n)) s)) \<le> limit" for lo hi n
  proof -
    have "int (length (render (take (bisect render s ?l lo hi (lower_bound render s ?l n)) s))) \<le> ?l"
      using assms
      by (intro bisect_fits [where render = render and s = s] lower_bound_fits [where render = render and s = s]) simp
    then show ?thesis by linarith
  qed
  show ?thesis unfolding truncate_markdown_for_html_limit_def Let_def if_not_P [OF False] by (rule fits)
qed (simp add: truncate_markdown_for_html_limit_def)

section \<open>What the check for open links does\<close>

text \<open>
  The check compares the text after the bracket with a single parenthesis. So a closed link counts as
  open wherever another closing parenthesis follows, and a link that is still being written counts
  as closed.
\<close>

lemma closed_link_counts_as_open:
  "\<not> is_safe_markdown_position ''[a](b) c (d)'' 8 \<and> is_safe_markdown_position ''[a](b) c'' 8"
  by code_simp

lemma link_being_written_counts_as_closed: "find_safe_markdown_end ''see [a](htt'' = length ''see [a](htt''"
  by code_simp

text \<open>Without a safe break the cut is made inside a token.\<close>

lemma hard_cut_inside_a_token: "find_split_position ''**ab cd ef**'' 8 = 8 \<and> \<not> is_safe_markdown_position ''**ab cd ef**'' 8"
  by code_simp

end
