(* ===== verification/TelegramStream.thy ===== *)
theory TelegramStream
  imports TelegramSplit UserProfiles
begin

text \<open>
  A streamed answer as edits of Telegram messages (\<open>application/streaming_handler.py\<close>): the throttle
  curve, the flood control, the intermediate edits, the rollover to a new message while the answer
  grows, and the final edits with their retries. Every request to Telegram is recorded; its answer,
  an exception or none, is given by its number, and so is every reading of the clock. The seconds
  are rational numbers. \<open>_handle_edit_error\<close> only writes to the log and is left out.
\<close>

section \<open>Telegram\<close>

text \<open>What the code reads of an exception: its attribute \<open>retry_after\<close> and its text.\<close>

record tg_error =
  err_retry_after :: "int option"
  err_message :: string

datatype tg_request = EditMessage nat string bool | SendMessage string bool | Wait int

text \<open>
  The environment: the mode, the two parameters of the renderer (the sentinel may differ between
  texts), the answers and the clock. The message that request \<open>n\<close> creates is \<open>n + 1\<close>; message 0 is
  the first placeholder.
\<close>

record telegram =
  streaming_mode :: string
  bracketed_host_ok :: "string \<Rightarrow> bool"
  drawn_sentinel :: "string \<Rightarrow> string"
  tg_answer :: "nat \<Rightarrow> tg_error option"
  tg_clock :: "nat \<Rightarrow> rat"

record streaming_session =
  ss_message :: nat
  ss_accumulated_text :: string
  ss_last_edit_time :: rat
  ss_edit_count :: nat
  ss_started_at :: rat
  ss_is_first_edit :: bool
  ss_last_edit_html :: string
  ss_paused_until :: rat
  ss_current_throttle :: rat
  ss_consecutive_success :: nat
  ss_edits_sent :: nat
  ss_backoff_active :: bool
  ss_cancelled :: bool
  ss_guard_abort :: bool
  ss_part_count :: nat
  ss_previous_parts :: "string list"
  ss_current_part_offset :: nat
  ss_full_text :: string
  ss_requests :: "tg_request list"
  ss_clock_reads :: nat

definition default_throttle :: rat where "default_throttle = 3 / 2"
definition max_throttle :: rat where "max_throttle = 10"
definition throttle_backoff_factor :: rat where "throttle_backoff_factor = 2"
definition throttle_recovery_after :: nat where "throttle_recovery_after = 5"
definition throttle_recovery_factor :: rat where "throttle_recovery_factor = 7 / 10"
definition final_edit_max_retries :: nat where "final_edit_max_retries = 2"
definition burst_throttle :: rat where "burst_throttle = 1 / 5"

definition new_streaming_session :: "rat \<Rightarrow> streaming_session" where
  "new_streaming_session started_at =
     \<lparr>ss_message = 0, ss_accumulated_text = [], ss_last_edit_time = 0, ss_edit_count = 0, ss_started_at = started_at,
      ss_is_first_edit = True, ss_last_edit_html = [], ss_paused_until = 0, ss_current_throttle = default_throttle,
      ss_consecutive_success = 0, ss_edits_sent = 0, ss_backoff_active = False, ss_cancelled = False,
      ss_guard_abort = False, ss_part_count = 1, ss_previous_parts = [], ss_current_part_offset = 0, ss_full_text = [],
      ss_requests = [], ss_clock_reads = 0\<rparr>"

definition cancel_session :: "streaming_session \<Rightarrow> streaming_session" where
  "cancel_session st = st\<lparr>ss_cancelled := True\<rparr>"

definition guard_abort_session :: "streaming_session \<Rightarrow> streaming_session" where
  "guard_abort_session st = st\<lparr>ss_guard_abort := True, ss_cancelled := True\<rparr>"

definition rendered :: "telegram \<Rightarrow> string \<Rightarrow> string" where
  "rendered env s = markdown_to_telegram_html (bracketed_host_ok env) (drawn_sentinel env s) s"

definition ask_telegram :: "telegram \<Rightarrow> tg_request \<Rightarrow> streaming_session \<Rightarrow> tg_error option \<times> streaming_session" where
  "ask_telegram env r st = (tg_answer env (length (ss_requests st)), st\<lparr>ss_requests := ss_requests st @ [r]\<rparr>)"

definition wait_for :: "int \<Rightarrow> streaming_session \<Rightarrow> streaming_session" where
  "wait_for seconds st = st\<lparr>ss_requests := ss_requests st @ [Wait seconds]\<rparr>"

definition read_clock :: "telegram \<Rightarrow> streaming_session \<Rightarrow> rat \<times> streaming_session" where
  "read_clock env st = (tg_clock env (ss_clock_reads st), st\<lparr>ss_clock_reads := ss_clock_reads st + 1\<rparr>)"

section \<open>Throttle and flood control\<close>

definition compute_base_throttle :: "telegram \<Rightarrow> nat \<Rightarrow> rat" where
  "compute_base_throttle env edits_sent =
     (let next_edit = edits_sent + 1
      in if streaming_mode env = ''local'' then 0
         else if next_edit \<le> 5 then burst_throttle
         else if next_edit \<le> 10 then 2 / 5 + (of_nat next_edit - 6) / (10 - 6) * (1 - 2 / 5)
         else if next_edit \<le> 20 then 1 + (of_nat next_edit - 11) / (20 - 11) * (3 / 2 - 1)
         else 3 / 2)"

definition get_effective_throttle :: "telegram \<Rightarrow> streaming_session \<Rightarrow> rat" where
  "get_effective_throttle env st =
     (let base = compute_base_throttle env (ss_edits_sent st)
      in if streaming_mode env = ''local'' then 0
         else if ss_backoff_active st \<and> base < ss_current_throttle st then ss_current_throttle st else base)"

definition retry_pattern :: regex where
  "retry_pattern = seq_all [lits ''retry in '', Group 1 digits_plus]"

definition is_retry_after :: "tg_error \<Rightarrow> int option" where
  "is_retry_after e =
     (case err_retry_after e of
        Some seconds \<Rightarrow> Some seconds
      | None \<Rightarrow>
          (let msg = py_lower (err_message e)
           in if py_contains ''flood control'' msg \<or> py_contains ''429'' msg
              then (case regex_search retry_pattern msg of
                      Some g \<Rightarrow> int_of_str (regex_group g 1) | None \<Rightarrow> Some 30)
              else None))"

definition apply_flood_backoff :: "telegram \<Rightarrow> int \<Rightarrow> streaming_session \<Rightarrow> streaming_session" where
  "apply_flood_backoff env retry_after st =
     (let (now, st) = read_clock env st;
          current_base = compute_base_throttle env (ss_edits_sent st);
          effective = max current_base (ss_current_throttle st)
      in st\<lparr>ss_paused_until := now + of_int retry_after,
            ss_current_throttle := min (effective * throttle_backoff_factor) max_throttle,
            ss_backoff_active := True, ss_consecutive_success := 0\<rparr>)"

definition record_edit_success :: "telegram \<Rightarrow> streaming_session \<Rightarrow> streaming_session" where
  "record_edit_success env st =
     (let st = st\<lparr>ss_edits_sent := ss_edits_sent st + 1, ss_consecutive_success := ss_consecutive_success st + 1\<rparr>
      in if ss_backoff_active st \<and> throttle_recovery_after \<le> ss_consecutive_success st
         then let base = compute_base_throttle env (ss_edits_sent st);
                  throttle = max (ss_current_throttle st * throttle_recovery_factor) base
              in st\<lparr>ss_current_throttle := throttle, ss_consecutive_success := 0,
                    ss_backoff_active := (if throttle \<le> base then False else ss_backoff_active st)\<rparr>
         else st)"

definition not_modified :: "tg_error \<Rightarrow> bool" where
  "not_modified e = py_contains ''message is not modified'' (py_lower (err_message e))"

definition bad_request :: "tg_error \<Rightarrow> bool" where
  "bad_request e = (py_contains (''can'' @ [CHR 0x27] @ ''t parse entities'') (py_lower (err_message e)) \<or>
     py_contains ''bad request'' (py_lower (err_message e)))"

section \<open>Intermediate edits\<close>

text \<open>\<open>last_edit_time = monotonic(); edit_count += 1; _record_edit_success\<close>.\<close>

definition edit_done :: "telegram \<Rightarrow> streaming_session \<Rightarrow> streaming_session" where
  "edit_done env st =
     (let (now, st) = read_clock env st
      in record_edit_success env (st\<lparr>ss_last_edit_time := now, ss_edit_count := ss_edit_count st + 1\<rparr>))"

definition cut_to_limit :: "string \<Rightarrow> string" where
  "cut_to_limit s = (if telegram_max_length < length s then take (telegram_max_length - 3) s @ ''...'' else s)"

definition intermediate_html :: "telegram \<Rightarrow> string \<Rightarrow> string" where
  "intermediate_html env safe_text =
     (let html_text = rendered env safe_text
      in if telegram_max_length < length html_text
         then let safe_text = truncate_markdown_for_html_limit (rendered env) safe_text telegram_max_length;
                  html_text = rendered env safe_text
              in if telegram_max_length < length html_text then cut_to_limit (strip_markdown safe_text) else html_text
         else html_text)"

definition do_plain_edit :: "telegram \<Rightarrow> string \<Rightarrow> streaming_session \<Rightarrow> streaming_session" where
  "do_plain_edit env raw st =
     (let shown = cut_to_limit raw
      in if shown = ss_last_edit_html st then st
         else let (answer, st) = ask_telegram env (EditMessage (ss_message st) shown False) st
              in case answer of
                   None \<Rightarrow> edit_done env (st\<lparr>ss_last_edit_html := shown\<rparr>)
                 | Some e \<Rightarrow> (case is_retry_after e of Some n \<Rightarrow> apply_flood_backoff env n st | None \<Rightarrow> st))"

definition do_edit :: "telegram \<Rightarrow> streaming_session \<Rightarrow> streaming_session" where
  "do_edit env st =
     (let raw = (if py_nonblank (ss_accumulated_text st) then ss_accumulated_text st else ''...'');
          safe_end = find_safe_markdown_end raw
      in if 0 < safe_end \<and> length raw div 2 \<le> safe_end
         then let html_text = intermediate_html env (take safe_end raw)
              in if html_text = ss_last_edit_html st then st
                 else let (answer, st) = ask_telegram env (EditMessage (ss_message st) html_text True) st
                      in case answer of
                           None \<Rightarrow> edit_done env (st\<lparr>ss_last_edit_html := html_text\<rparr>)
                         | Some e \<Rightarrow>
                             (case is_retry_after e of
                                Some n \<Rightarrow> apply_flood_backoff env n st
                              | None \<Rightarrow>
                                  if not_modified e
                                  then let (now, st) = read_clock env st
                                       in st\<lparr>ss_last_edit_html := html_text, ss_last_edit_time := now\<rparr>
                                  else if bad_request e then do_plain_edit env raw st
                                  else st)
         else do_plain_edit env raw st)"

text \<open>An edit with HTML that falls back to plain text; flood control is raised to the caller.\<close>

definition send_html_with_fallback ::
    "telegram \<Rightarrow> string \<Rightarrow> string \<Rightarrow> streaming_session \<Rightarrow> tg_error option \<times> streaming_session" where
  "send_html_with_fallback env html_text plain_source st =
     (let (answer, st) = ask_telegram env (EditMessage (ss_message st) html_text True) st
      in case answer of
           None \<Rightarrow> (None, st)
         | Some e \<Rightarrow>
             if is_retry_after e \<noteq> None then (Some e, st)
             else if not_modified e then (None, st)
             else if bad_request e
             then (None, snd (ask_telegram env (EditMessage (ss_message st) (strip_markdown plain_source) False) st))
             else (None, st))"

section \<open>Rollover\<close>

text \<open>The last edit of a part, the switch to the next one, and the rollover at a position.\<close>

definition finish_part :: "telegram \<Rightarrow> string \<Rightarrow> streaming_session \<Rightarrow> streaming_session" where
  "finish_part env part_text st =
     (let part_html = rendered env part_text;
          (raised, st) = send_html_with_fallback env part_html part_text st
      in case raised of
           None \<Rightarrow> let (now, st) = read_clock env st
                   in record_edit_success env (st\<lparr>ss_last_edit_html := part_html, ss_last_edit_time := now\<rparr>)
         | Some e \<Rightarrow> (case is_retry_after e of Some n \<Rightarrow> apply_flood_backoff env n st | None \<Rightarrow> st))"

definition next_part :: "telegram \<Rightarrow> nat \<Rightarrow> nat \<Rightarrow> streaming_session \<Rightarrow> streaming_session" where
  "next_part env new_message split_pos st =
     (let (now, st) = read_clock env st; current_text = ss_accumulated_text st
      in st\<lparr>ss_previous_parts := ss_previous_parts st @ [take split_pos current_text],
            ss_part_count := ss_part_count st + 1, ss_message := new_message,
            ss_accumulated_text := drop split_pos current_text,
            ss_current_part_offset := ss_current_part_offset st + split_pos, ss_last_edit_html := [],
            ss_is_first_edit := False, ss_last_edit_time := now\<rparr>)"

definition roll_over :: "telegram \<Rightarrow> nat \<Rightarrow> streaming_session \<Rightarrow> streaming_session" where
  "roll_over env split_pos st =
     (let new_message = length (ss_requests st) + 1;
          (answer, st) = ask_telegram env (SendMessage ''...'' False) st
      in case answer of
           Some _ \<Rightarrow> st
         | None \<Rightarrow> next_part env new_message split_pos
                     (finish_part env (take split_pos (ss_accumulated_text st)) st))"

definition check_live_rollover :: "telegram \<Rightarrow> streaming_session \<Rightarrow> streaming_session" where
  "check_live_rollover env st =
     (let current_text = ss_accumulated_text st; safe_end = find_safe_markdown_end current_text
      in if length current_text < rollover_threshold then st
         else if safe_end \<le> 0 then st
         else if length (rendered env (take safe_end current_text)) < rollover_threshold then st
         else if find_rollover_boundary current_text = 0 then st
         else roll_over env (find_rollover_boundary current_text) st)"

text \<open>One piece of the answer.\<close>

definition process_streaming_edit :: "telegram \<Rightarrow> string \<Rightarrow> streaming_session \<Rightarrow> streaming_session" where
  "process_streaming_edit env new_text st =
     (let st = st\<lparr>ss_accumulated_text := ss_accumulated_text st @ new_text, ss_full_text := ss_full_text st @ new_text\<rparr>;
          (now, st) = read_clock env st
      in if streaming_mode env = ''local''
         then check_live_rollover env (do_edit env (st\<lparr>ss_is_first_edit := False\<rparr>))
         else if ss_is_first_edit st \<and> now - ss_started_at st < burst_throttle then st
         else let st = (if ss_is_first_edit st then st\<lparr>ss_is_first_edit := False\<rparr> else st)
              in if ss_paused_until st \<noteq> 0 \<and> now < ss_paused_until st then st
                 else if now - ss_last_edit_time st < get_effective_throttle env st then st
                 else check_live_rollover env (do_edit env st))"

section \<open>The final edits\<close>

definition final_fallback :: "telegram \<Rightarrow> string \<Rightarrow> streaming_session \<Rightarrow> streaming_session" where
  "final_fallback env source st = snd (ask_telegram env (SendMessage (strip_markdown source) False) st)"

primrec do_edit_html_attempts :: "telegram \<Rightarrow> string \<Rightarrow> string \<Rightarrow> nat \<Rightarrow> streaming_session \<Rightarrow> streaming_session" where
  "do_edit_html_attempts env raw html 0 st = st"
| "do_edit_html_attempts env raw html (Suc retries) st =
     (let (answer, st) = ask_telegram env (EditMessage (ss_message st) html True) st
      in case answer of
           None \<Rightarrow> edit_done env st
         | Some e \<Rightarrow>
             (case is_retry_after e of
                Some n \<Rightarrow>
                  (let st = apply_flood_backoff env n st
                   in if 0 < retries then do_edit_html_attempts env raw html retries (wait_for n st)
                      else final_fallback env raw st)
              | None \<Rightarrow>
                  if not_modified e then st
                  else if bad_request e
                  then (case ask_telegram env (EditMessage (ss_message st) (strip_markdown raw) False) st of
                          (None, st) \<Rightarrow> edit_done env st | (Some _, st) \<Rightarrow> st)
                  else st))"

definition do_edit_html :: "telegram \<Rightarrow> streaming_session \<Rightarrow> streaming_session" where
  "do_edit_html env st =
     (let raw = (if py_nonblank (ss_accumulated_text st) then ss_accumulated_text st else ''...'')
      in do_edit_html_attempts env raw (rendered env raw) (1 + final_edit_max_retries) st)"

primrec send_final_edit_with_retry ::
    "telegram \<Rightarrow> string \<Rightarrow> string \<Rightarrow> nat \<Rightarrow> streaming_session \<Rightarrow> streaming_session" where
  "send_final_edit_with_retry env html source 0 st = st"
| "send_final_edit_with_retry env html source (Suc retries) st =
     (let (raised, st) = send_html_with_fallback env html source st
      in case raised of
           None \<Rightarrow> edit_done env st
         | Some e \<Rightarrow>
             (case is_retry_after e of
                Some n \<Rightarrow>
                  if 0 < retries
                  then send_final_edit_with_retry env html source retries (wait_for n (apply_flood_backoff env n st))
                  else final_fallback env source st
              | None \<Rightarrow> st))"

primrec send_final_message_with_retry ::
    "telegram \<Rightarrow> string \<Rightarrow> string \<Rightarrow> nat \<Rightarrow> streaming_session \<Rightarrow> streaming_session" where
  "send_final_message_with_retry env html source 0 st = st"
| "send_final_message_with_retry env html source (Suc retries) st =
     (let (answer, st) = ask_telegram env (SendMessage html True) st
      in case answer of
           None \<Rightarrow> record_edit_success env st
         | Some e \<Rightarrow>
             (case is_retry_after e of
                Some n \<Rightarrow>
                  if 0 < retries
                  then send_final_message_with_retry env html source retries (wait_for n (apply_flood_backoff env n st))
                  else if bad_request e then final_fallback env source st else st
              | None \<Rightarrow> if bad_request e then final_fallback env source st else st))"

definition part_marker :: "nat \<Rightarrow> nat \<Rightarrow> string" where
  "part_marker i n = (if 1 < n
     then [CHR 0x0A, CHR 0x0A] @ ''('' @ nat_decimal (i + 1) @ ''/'' @ nat_decimal n @ '')'' else [])"

text \<open>The split of the limit of Telegram always ends, see \<open>split_keeps_the_text\<close>.\<close>

definition finalize_multi_message :: "telegram \<Rightarrow> string \<Rightarrow> streaming_session \<Rightarrow> streaming_session" where
  "finalize_multi_message env full_text st =
     (case split_text_for_telegram full_text telegram_max_length of
        None \<Rightarrow> st
      | Some parts \<Rightarrow>
          foldl (\<lambda>st (i, part).
              let source = part @ part_marker i (length parts); html = rendered env source
              in if i = 0 then send_final_edit_with_retry env html source (1 + final_edit_max_retries) st
                 else send_final_message_with_retry env html source (1 + final_edit_max_retries) st)
            st (enumerate 0 parts))"

definition current_part_of :: "streaming_session \<Rightarrow> string \<Rightarrow> string" where
  "current_part_of st final_text =
     (let prev_len = sum_list (map length (ss_previous_parts st))
      in if prev_len < length final_text then drop prev_len final_text
         else if ss_accumulated_text st \<noteq> [] then ss_accumulated_text st else final_text)"

definition finalize_streaming :: "telegram \<Rightarrow> string \<Rightarrow> streaming_session \<Rightarrow> string \<times> streaming_session" where
  "finalize_streaming env final_text st =
     (let shown = (if 1 < ss_part_count st then current_part_of st final_text else final_text);
          st = st\<lparr>ss_accumulated_text := shown\<rparr>
      in (final_text, if length (rendered env shown) \<le> telegram_max_length then do_edit_html env st
                      else finalize_multi_message env shown st))"

definition abort_streaming :: "telegram \<Rightarrow> string \<Rightarrow> streaming_session \<Rightarrow> streaming_session" where
  "abort_streaming env error_text st = do_edit env (st\<lparr>ss_accumulated_text := error_text\<rparr>)"

section \<open>What an edit does not touch\<close>

text \<open>The texts of a session, and everything that only the requests and their answers change.\<close>

definition session_texts :: "streaming_session \<Rightarrow> string list \<times> string \<times> nat \<times> nat \<times> string" where
  "session_texts st = (ss_previous_parts st, ss_accumulated_text st, ss_current_part_offset st, ss_part_count st, ss_full_text st)"

lemma texts_request [simp]:
  "session_texts (snd (ask_telegram env r st)) = session_texts st"
  "session_texts (snd (read_clock env st)) = session_texts st"
  "session_texts (wait_for n st) = session_texts st"
  "session_texts (apply_flood_backoff env n st) = session_texts st"
  "session_texts (record_edit_success env st) = session_texts st"
  by (simp_all add: session_texts_def ask_telegram_def read_clock_def wait_for_def apply_flood_backoff_def
      record_edit_success_def Let_def)

lemma texts_update [simp]:
  "session_texts (st\<lparr>ss_last_edit_html := h\<rparr>) = session_texts st"
  "session_texts (st\<lparr>ss_last_edit_time := t\<rparr>) = session_texts st"
  "session_texts (st\<lparr>ss_edit_count := n\<rparr>) = session_texts st"
  "session_texts (st\<lparr>ss_is_first_edit := b\<rparr>) = session_texts st"
  by (simp_all add: session_texts_def)

lemma texts_edit_done [simp]: "session_texts (edit_done env st) = session_texts st"
  by (simp add: edit_done_def split_beta Let_def)

lemma texts_plain_edit [simp]: "session_texts (do_plain_edit env raw st) = session_texts st"
  by (simp add: do_plain_edit_def split_beta Let_def split: option.split)

lemma texts_edit [simp]: "session_texts (do_edit env st) = session_texts st"
  by (simp add: do_edit_def split_beta Let_def split: option.split)

lemma texts_send_html [simp]: "session_texts (snd (send_html_with_fallback env h s st)) = session_texts st"
  by (simp add: send_html_with_fallback_def split_beta Let_def split: option.split)

lemma texts_attempts [simp]: "session_texts (do_edit_html_attempts env raw html n st) = session_texts st"
proof (induction n arbitrary: st)
  case (Suc n)
  then show ?case by (simp add: final_fallback_def split_beta Let_def split: option.split)
qed simp

lemma texts_final_edit [simp]: "session_texts (send_final_edit_with_retry env html s n st) = session_texts st"
  by (induction n arbitrary: st) (simp_all add: final_fallback_def split_beta Let_def split: option.split)

lemma texts_final_message [simp]: "session_texts (send_final_message_with_retry env html s n st) = session_texts st"
  by (induction n arbitrary: st) (simp_all add: final_fallback_def split_beta Let_def split: option.split)

declare do_edit_html_attempts.simps [simp del] send_final_edit_with_retry.simps [simp del]
  send_final_message_with_retry.simps [simp del]

lemma texts_edit_html [simp]: "session_texts (do_edit_html env st) = session_texts st"
  by (simp add: do_edit_html_def Let_def)

lemma texts_foldl: "(\<And>st x. session_texts (f st x) = session_texts st) \<Longrightarrow> session_texts (foldl f st xs) = session_texts st"
  by (induction xs arbitrary: st) simp_all

lemma texts_multi_message [simp]: "session_texts (finalize_multi_message env s st) = session_texts st"
  unfolding finalize_multi_message_def by (auto simp: Let_def
      split: option.split intro!: texts_foldl)

lemma texts_finish_part [simp]: "session_texts (finish_part env x st) = session_texts st"
  by (simp add: finish_part_def split_beta Let_def split: option.split)

section \<open>The parts are the answer\<close>

text \<open>The finished parts and the current one are what was received; the offset and the number count the parts.\<close>

definition parts_inv :: "streaming_session \<Rightarrow> bool" where
  "parts_inv st \<longleftrightarrow> ss_full_text st = concat (ss_previous_parts st) @ ss_accumulated_text st \<and>
     ss_current_part_offset st = length (concat (ss_previous_parts st)) \<and>
     ss_part_count st = Suc (length (ss_previous_parts st))"

lemma parts_inv_texts: "session_texts st' = session_texts st \<Longrightarrow> parts_inv st' = parts_inv st"
  by (simp add: session_texts_def parts_inv_def)

lemma parts_inv_next: "parts_inv st \<Longrightarrow> pos \<le> length (ss_accumulated_text st) \<Longrightarrow> parts_inv (next_part env m pos st)"
  by (simp add: next_part_def parts_inv_def read_clock_def Let_def)

lemma same_texts: "session_texts st' = session_texts st \<Longrightarrow>
    ss_accumulated_text st' = ss_accumulated_text st \<and> ss_full_text st' = ss_full_text st \<and>
    ss_previous_parts st' = ss_previous_parts st \<and> ss_part_count st' = ss_part_count st"
  by (simp add: session_texts_def)

lemma parts_inv_roll_over:
  assumes "parts_inv st" "pos \<le> length (ss_accumulated_text st)"
  shows "parts_inv (roll_over env pos st) \<and> ss_full_text (roll_over env pos st) = ss_full_text st"
proof -
  let ?st = "snd (ask_telegram env (SendMessage ''...'' False) st)"
  have texts: "session_texts ?st = session_texts st" by simp
  have "parts_inv (next_part env m pos (finish_part env x ?st)) \<and>
      ss_full_text (next_part env m pos (finish_part env x ?st)) = ss_full_text st" for m x
  proof -
    have f: "session_texts (finish_part env x ?st) = session_texts st" by simp
    then have "parts_inv (finish_part env x ?st)" using assms(1) parts_inv_texts by blast
    then have "parts_inv (next_part env m pos (finish_part env x ?st))"
      using assms(2) same_texts [OF f] by (simp add: parts_inv_next)
    then show ?thesis using same_texts [OF f] by (simp add: next_part_def read_clock_def Let_def)
  qed
  then show ?thesis using assms(1) parts_inv_texts [OF texts] same_texts [OF texts]
    by (simp add: roll_over_def Let_def split_beta split: option.split)
qed

lemma rollover_boundary_bounds: "find_rollover_boundary s \<le> length s"
proof -
  have "pos \<le> length s" if "first_safe_break s (break_candidates (take n s) k) = Some pos" for pos n k
    using first_safe_break_bounds [OF that] by simp
  then show ?thesis by (auto simp: find_rollover_boundary_def split: option.split)
qed

lemma parts_inv_check:
  "parts_inv st \<Longrightarrow> parts_inv (check_live_rollover env st) \<and> ss_full_text (check_live_rollover env st) = ss_full_text st"
  using parts_inv_roll_over [of st] rollover_boundary_bounds by (simp add: check_live_rollover_def Let_def)

lemma parts_inv_edit:
  assumes "parts_inv st"
  shows "parts_inv (check_live_rollover env (do_edit env st)) \<and>
    ss_full_text (check_live_rollover env (do_edit env st)) = ss_full_text st"
  using parts_inv_check [of "do_edit env st"] parts_inv_texts [OF texts_edit] same_texts [OF texts_edit] assms by metis

lemma parts_inv_process:
  assumes "parts_inv st"
  shows "parts_inv (process_streaming_edit env x st) \<and>
    ss_full_text (process_streaming_edit env x st) = ss_full_text st @ x"
proof -
  let ?st = "st\<lparr>ss_accumulated_text := ss_accumulated_text st @ x, ss_full_text := ss_full_text st @ x\<rparr>"
  have inv: "parts_inv ?st" using assms by (simp add: parts_inv_def)
  have step: "parts_inv s \<and> ss_full_text s = ss_full_text st @ x" if "session_texts s = session_texts ?st" for s
    using parts_inv_texts [OF that] same_texts [OF that] inv by simp
  have edit: "parts_inv (check_live_rollover env (do_edit env s)) \<and>
      ss_full_text (check_live_rollover env (do_edit env s)) = ss_full_text st @ x"
    if "session_texts s = session_texts ?st" for s
    using parts_inv_edit [of s env] step [OF that] by simp
  show ?thesis unfolding process_streaming_edit_def
    by (simp add: split_beta Let_def step edit)
qed

text \<open>The pieces of an answer, in the order in which they arrive.\<close>

definition process_pieces :: "telegram \<Rightarrow> streaming_session \<Rightarrow> string list \<Rightarrow> streaming_session" where
  "process_pieces env st pieces = foldl (\<lambda>st x. process_streaming_edit env x st) st pieces"

lemma parts_inv_pieces:
  "parts_inv st \<Longrightarrow> parts_inv (process_pieces env st pieces) \<and>
    ss_full_text (process_pieces env st pieces) = ss_full_text st @ concat pieces"
  by (induction pieces arbitrary: st) (simp_all add: process_pieces_def parts_inv_process)

lemma finalize_texts:
  "ss_previous_parts (snd (finalize_streaming env s st)) = ss_previous_parts st \<and>
   ss_accumulated_text (snd (finalize_streaming env s st)) = (if 1 < ss_part_count st then current_part_of st s else s)"
proof -
  let ?shown = "if 1 < ss_part_count st then current_part_of st s else s"
  let ?st = "st\<lparr>ss_accumulated_text := ?shown\<rparr>"
  have "session_texts (snd (finalize_streaming env s st)) = session_texts ?st"
    by (simp add: finalize_streaming_def Let_def)
  from same_texts [OF this] show ?thesis by simp
qed

lemma current_part_of_full:
  assumes "parts_inv st" "ss_accumulated_text st \<noteq> []"
  shows "concat (ss_previous_parts st) @ current_part_of st (ss_full_text st) = ss_full_text st"
  using assms by (simp add: parts_inv_def current_part_of_def length_concat [symmetric] Let_def)

lemma no_rollover: "parts_inv st \<Longrightarrow> \<not> 1 < ss_part_count st \<Longrightarrow> ss_previous_parts st = []"
  by (simp add: parts_inv_def)

text \<open>
  C17: However the pieces of an answer arrive and whatever Telegram and the clock do, the finished
  messages and the current one hold exactly the text received so far, at the recorded offset. A final
  edit that is given this text, or a longer one that begins with it, completes the messages to the final
  text without a gap or a repetition if no rollover took place, if the current message holds some text,
  or if the final text is the longer one; in the case that is left, a rollover exactly at the end of the
  answer, it puts the whole answer once more into the current message.
\<close>

theorem streamed_parts_are_the_answer:
  assumes "st = process_pieces env (new_streaming_session t) pieces"
    and "final = concat pieces @ remainder" "st' = snd (finalize_streaming env final st)"
  shows "concat (ss_previous_parts st) @ ss_accumulated_text st = concat pieces \<and>
    ss_current_part_offset st = length (concat (ss_previous_parts st)) \<and>
    ss_part_count st = Suc (length (ss_previous_parts st)) \<and>
    ss_previous_parts st' = ss_previous_parts st \<and>
    (if ss_previous_parts st = [] \<or> ss_accumulated_text st \<noteq> [] \<or> remainder \<noteq> []
     then concat (ss_previous_parts st') @ ss_accumulated_text st' = final
     else ss_accumulated_text st' = final)"
proof -
  have "parts_inv (new_streaming_session t)" "ss_full_text (new_streaming_session t) = []"
    by (simp_all add: parts_inv_def new_streaming_session_def)
  then have inv: "parts_inv st" "ss_full_text st = concat pieces"
    using parts_inv_pieces [of "new_streaming_session t" env pieces] assms(1) by auto
  then have parts: "concat (ss_previous_parts st) @ ss_accumulated_text st = concat pieces"
    "ss_current_part_offset st = length (concat (ss_previous_parts st))"
    "ss_part_count st = Suc (length (ss_previous_parts st))"
    by (auto simp: parts_inv_def)
  have "current_part_of st final = (if ss_accumulated_text st \<noteq> [] \<or> remainder \<noteq> []
      then ss_accumulated_text st @ remainder else final)"
    using parts(1) [symmetric] assms(2) by (simp add: current_part_of_def length_concat [symmetric] Let_def)
  then show ?thesis using parts finalize_texts [of env final st] assms(2, 3) by auto
qed

definition sample_telegram :: telegram where
  "sample_telegram = \<lparr>streaming_mode = ''telegram'', bracketed_host_ok = (\<lambda>_. True), drawn_sentinel = (\<lambda>_. ''5f''),
     tg_answer = (\<lambda>_. None), tg_clock = (\<lambda>n. of_nat n)\<rparr>"

lemma streamed_parts_are_the_answer_witness:
  "(let st = process_pieces sample_telegram (new_streaming_session 0) [''Good '', ''day''];
        st' = snd (finalize_streaming sample_telegram ''Good day'' st)
    in concat (ss_previous_parts st) @ ss_accumulated_text st = ''Good day'' \<and> ss_accumulated_text st \<noteq> [] \<and>
       concat (ss_previous_parts st') @ ss_accumulated_text st' = ''Good day'')"
proof -
  let ?st = "process_pieces sample_telegram (new_streaming_session 0) [''Good '', ''day'']"
  let ?st' = "snd (finalize_streaming sample_telegram ''Good day'' ?st)"
  have shown: "ss_accumulated_text ?st \<noteq> []" by code_simp
  have pieces: "concat [''Good '', ''day''] @ [] = ''Good day''" by simp
  note t = streamed_parts_are_the_answer [OF refl pieces [symmetric] refl, where env = sample_telegram and t = 0]
  have "concat (ss_previous_parts ?st) @ ss_accumulated_text ?st = ''Good day''" using conjunct1 [OF t] by simp
  moreover have "concat (ss_previous_parts ?st') @ ss_accumulated_text ?st' = ''Good day''"
    using conjunct2 [OF conjunct2 [OF conjunct2 [OF conjunct2 [OF t]]]] shown by (simp only: simp_thms if_True)
  ultimately show ?thesis using shown by (simp only: Let_def simp_thms)
qed

text \<open>A rollover exactly at the end of the answer: the final edit shows the whole answer once more.\<close>

lemma empty_last_part_repeats_the_answer:
  assumes "parts_inv st" "1 < ss_part_count st" "ss_accumulated_text st = []"
  shows "ss_accumulated_text (snd (finalize_streaming env (ss_full_text st) st)) = concat (ss_previous_parts st)"
  using assms finalize_texts [of env "ss_full_text st" st]
  by (simp add: parts_inv_def current_part_of_def length_concat [symmetric] Let_def)

text \<open>A final text that was shortened in a finished part: characters after it are shown nowhere.\<close>

lemma shortened_text_loses_characters:
  "ss_previous_parts st = [''fuer ''] \<Longrightarrow> current_part_of st (''f'' @ [CHR 0xFC] @ ''r dich'') = ''ich''"
  by (simp add: current_part_of_def)

section \<open>The throttle\<close>

lemma base_throttle_bounds:
  assumes "streaming_mode env \<noteq> ''local''"
  shows "1 / 5 \<le> compute_base_throttle env n \<and> compute_base_throttle env n \<le> 3 / 2"
proof -
  have "(of_nat n :: rat) \<le> 9" if "n \<le> 9" using of_nat_mono [OF that, where 'a = rat] by simp
  moreover have "(5 :: rat) \<le> of_nat n" if "\<not> n + 1 \<le> 5" using of_nat_mono [of 5 n, where 'a = rat] that by simp
  moreover have "(10 :: rat) \<le> of_nat n" if "\<not> n + 1 \<le> 10" using of_nat_mono [of 10 n, where 'a = rat] that by simp
  moreover have "(of_nat n :: rat) \<le> 19" if "n \<le> 19" using of_nat_mono [OF that, where 'a = rat] by simp
  ultimately show ?thesis using assms
    by (auto simp: compute_base_throttle_def burst_throttle_def Let_def field_simps)
qed

definition throttle_ok :: "streaming_session \<Rightarrow> bool" where
  "throttle_ok st \<longleftrightarrow> 1 / 5 \<le> ss_current_throttle st \<and> ss_current_throttle st \<le> max_throttle"

lemma throttle_kept [simp]:
  "throttle_ok (snd (ask_telegram env r st)) = throttle_ok st"
  "throttle_ok (snd (read_clock env st)) = throttle_ok st"
  "throttle_ok (wait_for n st) = throttle_ok st"
  "throttle_ok (st\<lparr>ss_last_edit_html := h\<rparr>) = throttle_ok st"
  "throttle_ok (st\<lparr>ss_last_edit_time := t\<rparr>) = throttle_ok st"
  "throttle_ok (st\<lparr>ss_edit_count := k\<rparr>) = throttle_ok st"
  "throttle_ok (st\<lparr>ss_is_first_edit := b\<rparr>) = throttle_ok st"
  "throttle_ok (st\<lparr>ss_accumulated_text := h\<rparr>) = throttle_ok st"
  "throttle_ok (st\<lparr>ss_full_text := h\<rparr>) = throttle_ok st"
  "throttle_ok (next_part env m pos st) = throttle_ok st"
  by (simp_all add: throttle_ok_def ask_telegram_def read_clock_def wait_for_def next_part_def Let_def)

lemma throttle_backoff:
  "throttle_ok st \<Longrightarrow> throttle_ok (apply_flood_backoff env n st)"
  by (auto simp: throttle_ok_def apply_flood_backoff_def read_clock_def Let_def throttle_backoff_factor_def
      max_throttle_def)

lemma throttle_success:
  "streaming_mode env \<noteq> ''local'' \<Longrightarrow> throttle_ok st \<Longrightarrow> throttle_ok (record_edit_success env st)"
  using base_throttle_bounds [of env "ss_edits_sent st + 1"]
  by (auto simp: throttle_ok_def record_edit_success_def Let_def throttle_recovery_factor_def max_throttle_def)

text \<open>Every operation keeps the bounds.\<close>

lemma throttle_edit_done: "streaming_mode env \<noteq> ''local'' \<Longrightarrow> throttle_ok st \<Longrightarrow> throttle_ok (edit_done env st)"
  by (simp add: edit_done_def split_beta Let_def throttle_success)

lemmas throttle_intros = throttle_edit_done throttle_backoff throttle_success

lemma throttle_plain_edit:
  "streaming_mode env \<noteq> ''local'' \<Longrightarrow> throttle_ok st \<Longrightarrow> throttle_ok (do_plain_edit env raw st)"
  by (auto simp: do_plain_edit_def split_beta Let_def split: option.split intro!: throttle_intros)

lemma throttle_edit: "streaming_mode env \<noteq> ''local'' \<Longrightarrow> throttle_ok st \<Longrightarrow> throttle_ok (do_edit env st)"
  by (simp add: do_edit_def split_beta Let_def throttle_intros throttle_plain_edit split: option.split)

lemma throttle_send_html [simp]: "throttle_ok (snd (send_html_with_fallback env h s st)) = throttle_ok st"
  by (simp add: send_html_with_fallback_def split_beta Let_def split: option.split)

lemma throttle_finish_part:
  "streaming_mode env \<noteq> ''local'' \<Longrightarrow> throttle_ok st \<Longrightarrow> throttle_ok (finish_part env x st)"
  by (simp add: finish_part_def split_beta Let_def throttle_intros split: option.split)

lemma throttle_rollover:
  "streaming_mode env \<noteq> ''local'' \<Longrightarrow> throttle_ok st \<Longrightarrow> throttle_ok (check_live_rollover env st)"
  by (simp add: check_live_rollover_def roll_over_def split_beta Let_def throttle_finish_part split: option.split)

lemma throttle_process:
  "streaming_mode env \<noteq> ''local'' \<Longrightarrow> throttle_ok st \<Longrightarrow> throttle_ok (process_streaming_edit env x st)"
  by (simp add: process_streaming_edit_def split_beta Let_def throttle_rollover throttle_edit)

lemma throttle_fallback [simp]: "throttle_ok (final_fallback env s st) = throttle_ok st"
  by (simp add: final_fallback_def)

lemma throttle_attempts:
  "streaming_mode env \<noteq> ''local'' \<Longrightarrow> throttle_ok st \<Longrightarrow> throttle_ok (do_edit_html_attempts env raw html n st)"
  by (induction n arbitrary: st)
    (simp_all add: do_edit_html_attempts.simps split_beta Let_def throttle_intros split: option.split)

lemma throttle_final_edit:
  "streaming_mode env \<noteq> ''local'' \<Longrightarrow> throttle_ok st \<Longrightarrow> throttle_ok (send_final_edit_with_retry env html s n st)"
  by (induction n arbitrary: st)
    (simp_all add: send_final_edit_with_retry.simps split_beta Let_def throttle_intros split: option.split)

lemma throttle_final_message:
  "streaming_mode env \<noteq> ''local'' \<Longrightarrow> throttle_ok st \<Longrightarrow> throttle_ok (send_final_message_with_retry env html s n st)"
  by (induction n arbitrary: st)
    (simp_all add: send_final_message_with_retry.simps split_beta Let_def throttle_intros split: option.split)

lemma throttle_foldl:
  "(\<And>st x. throttle_ok st \<Longrightarrow> throttle_ok (f st x)) \<Longrightarrow> throttle_ok st \<Longrightarrow> throttle_ok (foldl f st xs)"
  by (induction xs arbitrary: st) simp_all

lemma throttle_multi:
  "streaming_mode env \<noteq> ''local'' \<Longrightarrow> throttle_ok st \<Longrightarrow> throttle_ok (finalize_multi_message env s st)"
  unfolding finalize_multi_message_def
  by (auto simp: Let_def throttle_final_edit throttle_final_message split: option.split intro!: throttle_foldl)

lemma throttle_finalize:
  "streaming_mode env \<noteq> ''local'' \<Longrightarrow> throttle_ok st \<Longrightarrow> throttle_ok (snd (finalize_streaming env s st))"
  by (simp add: finalize_streaming_def do_edit_html_def Let_def throttle_attempts throttle_multi)

text \<open>What happens to a session.\<close>

datatype stream_op = Piece string | Finish string | Abort string | Cancel | GuardAbort

primrec perform_stream :: "telegram \<Rightarrow> streaming_session \<Rightarrow> stream_op \<Rightarrow> streaming_session" where
  "perform_stream env st (Piece x) = process_streaming_edit env x st"
| "perform_stream env st (Finish x) = snd (finalize_streaming env x st)"
| "perform_stream env st (Abort x) = abort_streaming env x st"
| "perform_stream env st Cancel = cancel_session st"
| "perform_stream env st GuardAbort = guard_abort_session st"

lemma throttle_perform: "streaming_mode env \<noteq> ''local'' \<Longrightarrow> throttle_ok st \<Longrightarrow> throttle_ok (perform_stream env st q)"
  by (cases q) (simp_all add: throttle_process throttle_finalize abort_streaming_def throttle_edit,
    simp_all add: cancel_session_def guard_abort_session_def throttle_ok_def)

text \<open>
  Whatever happens to a session, whatever Telegram answers and whatever the clock shows, the time
  between two intermediate edits stays between a fifth of a second and ten seconds and is never less
  than the curve demands; without a flood answer in force it is the curve, at most one and a half
  seconds.
\<close>

theorem throttle_stays_bounded:
  assumes "streaming_mode env \<noteq> ''local''"
    and "st = foldl (perform_stream env) (new_streaming_session t) ops"
  shows "1 / 5 \<le> get_effective_throttle env st \<and> get_effective_throttle env st \<le> 10 \<and>
    compute_base_throttle env (ss_edits_sent st) \<le> get_effective_throttle env st \<and>
    (\<not> ss_backoff_active st \<longrightarrow> get_effective_throttle env st \<le> 3 / 2)"
proof -
  have "throttle_ok (new_streaming_session t)"
    by (simp add: throttle_ok_def new_streaming_session_def default_throttle_def max_throttle_def)
  then have "throttle_ok st" unfolding assms(2)
    by (rule throttle_foldl [rotated]) (rule throttle_perform [OF assms(1)])
  then show ?thesis using base_throttle_bounds [OF assms(1), of "ss_edits_sent st"] assms(1)
    by (auto simp: throttle_ok_def get_effective_throttle_def Let_def max_throttle_def)
qed

lemma throttle_stays_bounded_witness:
  "1 / 5 \<le> get_effective_throttle sample_telegram (foldl (perform_stream sample_telegram) (new_streaming_session 0) [Piece ''a''])"
  using throttle_stays_bounded [OF _ refl, of sample_telegram 0 "[Piece ''a'']"] by (simp add: sample_telegram_def)

section \<open>The final edit\<close>

definition flood_edits :: "nat \<Rightarrow> string \<Rightarrow> int list \<Rightarrow> tg_request list" where
  "flood_edits m html floods = concat (map (\<lambda>seconds. [EditMessage m html True, Wait seconds]) floods)"

definition flood_answer :: "telegram \<Rightarrow> nat \<Rightarrow> int \<Rightarrow> bool" where
  "flood_answer env i seconds = (case tg_answer env i of None \<Rightarrow> False | Some e \<Rightarrow> is_retry_after e = Some seconds)"

lemma record_success_requests [simp]:
  "ss_requests (record_edit_success env st) = ss_requests st" "ss_message (record_edit_success env st) = ss_message st"
  "ss_edit_count (record_edit_success env st) = ss_edit_count st"
  by (simp_all add: record_edit_success_def Let_def)

lemma edit_done_requests [simp]:
  "ss_requests (edit_done env st) = ss_requests st" "ss_edit_count (edit_done env st) = ss_edit_count st + 1"
  by (simp_all add: edit_done_def read_clock_def Let_def)

lemma backoff_requests [simp]:
  "ss_requests (apply_flood_backoff env n st) = ss_requests st" "ss_message (apply_flood_backoff env n st) = ss_message st"
  "ss_edit_count (apply_flood_backoff env n st) = ss_edit_count st"
  by (simp_all add: apply_flood_backoff_def read_clock_def Let_def)

lemma attempts_delivered:
  assumes "\<forall>j < length floods. flood_answer env (length (ss_requests st) + 2 * j) (floods ! j)"
    and "tg_answer env (length (ss_requests st) + 2 * length floods) = None" "length floods < n"
  shows "ss_requests (do_edit_html_attempts env raw html n st) =
      ss_requests st @ flood_edits (ss_message st) html floods @ [EditMessage (ss_message st) html True] \<and>
    ss_edit_count (do_edit_html_attempts env raw html n st) = ss_edit_count st + 1"
  using assms
proof (induction floods arbitrary: st n)
  case Nil
  then show ?case
    by (cases n) (simp_all add: do_edit_html_attempts.simps ask_telegram_def flood_edits_def Let_def)
next
  case (Cons f fs)
  obtain k where n: "n = Suc k" "0 < k" using Cons.prems(3) by (cases n) auto
  obtain e where e: "tg_answer env (length (ss_requests st)) = Some e" "is_retry_after e = Some f"
    using Cons.prems(1) by (auto simp: flood_answer_def dest!: spec [of _ 0] split: option.splits)
  let ?st = "wait_for f (apply_flood_backoff env f (st\<lparr>ss_requests := ss_requests st @ [EditMessage (ss_message st) html True]\<rparr>))"
  have len: "length (ss_requests ?st) = length (ss_requests st) + 2" by (simp add: wait_for_def)
  have "\<forall>j < length fs. flood_answer env (length (ss_requests ?st) + 2 * j) (fs ! j)"
    using Cons.prems(1) by (auto simp: len dest: spec [of _ "Suc _"])
  moreover have "tg_answer env (length (ss_requests ?st) + 2 * length fs) = None"
    using Cons.prems(2) by (simp add: len)
  ultimately have "ss_requests (do_edit_html_attempts env raw html k ?st) =
        ss_requests ?st @ flood_edits (ss_message ?st) html fs @ [EditMessage (ss_message ?st) html True] \<and>
      ss_edit_count (do_edit_html_attempts env raw html k ?st) = ss_edit_count ?st + 1"
    using Cons.prems(3) n by (intro Cons.IH) auto
  moreover have "do_edit_html_attempts env raw html n st = do_edit_html_attempts env raw html k ?st"
    using e n by (simp add: do_edit_html_attempts.simps ask_telegram_def Let_def)
  ultimately show ?case by (simp add: wait_for_def flood_edits_def)
qed

lemma attempts_given_up:
  assumes "\<forall>j < length floods. flood_answer env (length (ss_requests st) + 2 * j) (floods ! j)" "floods \<noteq> []"
  shows "ss_requests (do_edit_html_attempts env raw html (length floods) st) =
      ss_requests st @ flood_edits (ss_message st) html (butlast floods) @
        [EditMessage (ss_message st) html True, SendMessage (strip_markdown raw) False]"
  using assms
proof (induction floods arbitrary: st)
  case (Cons f fs)
  obtain e where e: "tg_answer env (length (ss_requests st)) = Some e" "is_retry_after e = Some f"
    using Cons.prems(1) by (auto simp: flood_answer_def dest!: spec [of _ 0] split: option.splits)
  let ?fl = "apply_flood_backoff env f (st\<lparr>ss_requests := ss_requests st @ [EditMessage (ss_message st) html True]\<rparr>)"
  show ?case
  proof (cases "fs = []")
    case True
    then show ?thesis using e
      by (simp add: do_edit_html_attempts.simps final_fallback_def ask_telegram_def flood_edits_def Let_def)
  next
    case False
    let ?st = "wait_for f ?fl"
    have len: "length (ss_requests ?st) = length (ss_requests st) + 2" by (simp add: wait_for_def)
    have "\<forall>j < length fs. flood_answer env (length (ss_requests ?st) + 2 * j) (fs ! j)"
      using Cons.prems(1) by (auto simp: len dest: spec [of _ "Suc _"])
    then have "ss_requests (do_edit_html_attempts env raw html (length fs) ?st) =
        ss_requests ?st @ flood_edits (ss_message ?st) html (butlast fs) @
          [EditMessage (ss_message ?st) html True, SendMessage (strip_markdown raw) False]"
      using False by (rule Cons.IH)
    moreover have "do_edit_html_attempts env raw html (length (f # fs)) st = do_edit_html_attempts env raw html (length fs) ?st"
      using e False by (simp add: do_edit_html_attempts.simps ask_telegram_def Let_def)
    ultimately show ?thesis using False by (simp add: wait_for_def flood_edits_def)
  qed
qed simp

text \<open>
  C19: The final edit is repeated with the same HTML after every flood answer, each time after the
  seconds that Telegram demands, and ends as soon as it is accepted; after a third flood answer the
  whole text is sent as a new plain message, so that the answer is not lost with its edit.
\<close>

theorem final_answer_is_shown:
  assumes "py_nonblank (ss_accumulated_text st)"
    and "\<forall>j < length floods. flood_answer env (length (ss_requests st) + 2 * j) (floods ! j)"
  shows "(length floods \<le> final_edit_max_retries \<and> tg_answer env (length (ss_requests st) + 2 * length floods) = None
      \<longrightarrow> ss_requests (do_edit_html env st) = ss_requests st
            @ flood_edits (ss_message st) (rendered env (ss_accumulated_text st)) floods
            @ [EditMessage (ss_message st) (rendered env (ss_accumulated_text st)) True]) \<and>
    (length floods = 1 + final_edit_max_retries
      \<longrightarrow> ss_requests (do_edit_html env st) = ss_requests st
            @ flood_edits (ss_message st) (rendered env (ss_accumulated_text st)) (butlast floods)
            @ [EditMessage (ss_message st) (rendered env (ss_accumulated_text st)) True,
               SendMessage (strip_markdown (ss_accumulated_text st)) False])"
proof -
  let ?raw = "ss_accumulated_text st"
  have start: "do_edit_html env st = do_edit_html_attempts env ?raw (rendered env ?raw) (1 + final_edit_max_retries) st"
    using assms(1) by (simp add: do_edit_html_def Let_def)
  show ?thesis unfolding start
    using attempts_delivered [OF assms(2), of "1 + final_edit_max_retries" ?raw "rendered env ?raw"]
      attempts_given_up [OF assms(2), of ?raw "rendered env ?raw"] by (cases "floods = []") auto
qed

definition flooded_once :: telegram where
  "flooded_once = sample_telegram\<lparr>tg_answer := (\<lambda>i. if i = 0
     then Some \<lparr>err_retry_after = None, err_message = ''Flood control: retry in 7 s''\<rparr> else None)\<rparr>"

lemma flood_is_recognised: "is_retry_after \<lparr>err_retry_after = None, err_message = ''Flood control: retry in 7 s''\<rparr> = Some 7"
  by code_simp

lemma final_answer_is_shown_witness:
  "ss_requests (do_edit_html flooded_once ((new_streaming_session 0)\<lparr>ss_accumulated_text := ''*hi*''\<rparr>)) =
   [EditMessage 0 (rendered flooded_once ''*hi*'') True, Wait 7, EditMessage 0 (rendered flooded_once ''*hi*'') True]"
proof -
  let ?st = "(new_streaming_session 0)\<lparr>ss_accumulated_text := ''*hi*''\<rparr>"
  have "flood_answer flooded_once (length (ss_requests ?st) + 2 * j) ([7] ! j)" if "j < length [7 :: int]" for j
    using that flood_is_recognised by (simp add: flood_answer_def flooded_once_def new_streaming_session_def)
  moreover have "py_nonblank (ss_accumulated_text ?st)" by (simp add: py_nonblank_def py_isspace_def)
  ultimately show ?thesis using final_answer_is_shown [of ?st "[7]" flooded_once]
    by (simp add: flood_edits_def new_streaming_session_def final_edit_max_retries_def flooded_once_def)
qed

section \<open>Intermediate edits fit\<close>

definition request_fits :: "tg_request \<Rightarrow> bool" where
  "request_fits r = (case r of EditMessage m s _ \<Rightarrow> length s \<le> telegram_max_length
     | SendMessage s _ \<Rightarrow> length s \<le> telegram_max_length | Wait _ \<Rightarrow> True)"

lemma rendered_Nil: "rendered env [] = []"
  by (simp add: rendered_def markdown_to_telegram_html_def render_marks_def regex_sub_def regex_sub_from.simps
      regex_sub_acc_def regex_sub_acc_from.simps html_escape_def py_replace.simps Let_def)

lemma cut_to_limit_fits: "length (cut_to_limit s) \<le> telegram_max_length"
  by (simp add: cut_to_limit_def telegram_max_length_def)

lemma intermediate_html_value:
  "intermediate_html env s = rendered env (truncate_markdown_for_html_limit (rendered env) s telegram_max_length) \<and>
   length (intermediate_html env s) \<le> telegram_max_length"
proof -
  have "3 \<le> telegram_max_length" by (simp add: telegram_max_length_def)
  then have fits: "length (rendered env (truncate_markdown_for_html_limit (rendered env) s telegram_max_length)) \<le> telegram_max_length"
    by (rule truncated_text_fits [where render = "rendered env", OF rendered_Nil])
  moreover have "intermediate_html env s = rendered env (truncate_markdown_for_html_limit (rendered env) s telegram_max_length)"
    using fits by (auto simp: intermediate_html_def truncate_markdown_for_html_limit_def Let_def)
  ultimately show ?thesis by simp
qed

lemma plain_edit_requests:
  "ss_requests (do_plain_edit env raw st) = ss_requests st \<or>
   ss_requests (do_plain_edit env raw st) = ss_requests st @ [EditMessage (ss_message st) (cut_to_limit raw) False]"
  by (simp add: do_plain_edit_def ask_telegram_def Let_def split: option.split)

lemma edit_requests:
  "\<exists>m t raw. ss_requests (do_edit env st) \<in> {ss_requests st @ rs | rs.
     rs \<in> {[], [EditMessage m (intermediate_html env t) True], [EditMessage m (cut_to_limit raw) False],
       [EditMessage m (intermediate_html env t) True, EditMessage m (cut_to_limit raw) False]}}"
proof -
  let ?raw = "if py_nonblank (ss_accumulated_text st) then ss_accumulated_text st else ''...''"
  let ?t = "take (find_safe_markdown_end ?raw) ?raw"
  let ?st = "st\<lparr>ss_requests := ss_requests st @ [EditMessage (ss_message st) (intermediate_html env ?t) True]\<rparr>"
  have "ss_requests (do_edit env st) \<in> {ss_requests st, ss_requests ?st, ss_requests (do_plain_edit env ?raw st),
      ss_requests (do_plain_edit env ?raw ?st)}"
    by (simp add: do_edit_def ask_telegram_def read_clock_def Let_def split: option.split)
  then show ?thesis
    using plain_edit_requests [of env ?raw st] plain_edit_requests [of env ?raw ?st]
    by (intro exI [of _ "ss_message st"] exI [of _ ?t] exI [of _ ?raw]) auto
qed

text \<open>
  C20: An intermediate edit asks Telegram at most twice, and never with more characters than Telegram
  allows, however long the text is and however much the HTML adds to it: the HTML is that of a text
  cut to fit, never cut HTML.
\<close>

theorem intermediate_edits_fit:
  "\<exists>rs. ss_requests (do_edit env st) = ss_requests st @ rs \<and> length rs \<le> 2 \<and> list_all request_fits rs \<and>
    (\<forall>m s. EditMessage m s True \<in> set rs \<longrightarrow>
       (\<exists>t. s = rendered env (truncate_markdown_for_html_limit (rendered env) t telegram_max_length)))"
proof -
  obtain m t raw rs where rs: "ss_requests (do_edit env st) = ss_requests st @ rs"
      "rs \<in> {[], [EditMessage m (intermediate_html env t) True], [EditMessage m (cut_to_limit raw) False],
        [EditMessage m (intermediate_html env t) True, EditMessage m (cut_to_limit raw) False]}"
    using edit_requests [of env st] by blast
  have "list_all request_fits rs" "length rs \<le> 2"
    using rs(2) intermediate_html_value [of env t] cut_to_limit_fits [of raw] by (auto simp: request_fits_def)
  moreover have "s = intermediate_html env t" if "EditMessage k s True \<in> set rs" for k s
    using that rs(2) by auto
  ultimately show ?thesis using rs(1) intermediate_html_value [of env t] by blast
qed

lemma intermediate_edits_fit_witness:
  "(\<exists>rs. ss_requests (do_edit sample_telegram ((new_streaming_session 0)\<lparr>ss_accumulated_text := ''*hi*''\<rparr>)) = [] @ rs \<and>
     length rs \<le> 2 \<and> list_all request_fits rs)"
  using intermediate_edits_fit [of sample_telegram "(new_streaming_session 0)\<lparr>ss_accumulated_text := ''*hi*''\<rparr>"]
  by (auto simp: new_streaming_session_def)

end
