(* ===== verification/DebateOrchestrator.thy ===== *)
theory DebateOrchestrator
  imports LanguageEnforcement ExecutionKernel SafeJson
begin

text \<open>
  The debate (\<open>application/debate_orchestrator.py\<close>): the same question to several providers at once,
  the check of the language of their answers, the comparison of their words, and the review by a
  judge that does not know who answered. The calls of a debate act on the world \<open>'w\<close> of the provider
  router, each at one point of time, in an order that is a parameter. Further parameters are the
  translations, \<open>json.loads\<close>, \<open>str\<close> of a value that is no text, and the end of the subprocess of a
  session. The log is left out; durations are arguments.
\<close>

section \<open>Configuration\<close>

definition debate_timeout_seconds :: int where "debate_timeout_seconds = 60"
definition judge_chat_id_offset :: int where "judge_chat_id_offset = 900000000"
definition debate_provider_chat_id_offset :: int where "debate_provider_chat_id_offset = 800000000"

definition provider_groups :: "(string \<times> string list) list" where
  "provider_groups = [(''claude'', [''claude_persistent'', ''claude''])]"

definition provider_to_group :: "string \<Rightarrow> string option" where
  "provider_to_group p = map_of (concat (map (\<lambda>(g, ms). map (\<lambda>m. (m, g)) ms) provider_groups)) p"

definition get_configured_providers :: "string \<Rightarrow> string list option" where
  "get_configured_providers raw = (if py_strip raw = [] then None
     else Some (filter (\<lambda>p. p \<noteq> []) (map py_strip (split_on (CHR '','') raw))))"

definition deduplicate_step :: "string list \<times> string list \<Rightarrow> string \<Rightarrow> string list \<times> string list" where
  "deduplicate_step st p = (case st of (selected, used_groups) \<Rightarrow>
     (case provider_to_group p of
        Some g \<Rightarrow> if g \<in> set used_groups then st else (selected @ [p], g # used_groups)
      | None \<Rightarrow> (selected @ [p], used_groups)))"

definition deduplicate_providers :: "string list \<Rightarrow> string list" where
  "deduplicate_providers available = fst (foldl deduplicate_step ([], []) available)"

section \<open>Results\<close>

record provider_evaluation =
  pe_provider :: json
  pe_pros :: "json list"
  pe_cons :: "json list"

record final_verdict =
  fv_winner :: string
  fv_recommendation :: string
  fv_synthesis :: string
  fv_evaluations :: "provider_evaluation list"
  fv_reasoning :: string
  fv_judge_provider :: string
  fv_judge_quality_warning :: "string option"

record debate_result =
  db_question :: string
  db_responses :: "(string \<times> string) list"
  db_errors :: "(string \<times> string) list"
  db_consensus_analysis :: "string option"
  db_final_verdict :: "final_verdict option"
  db_duration_seconds :: rat
  db_providers_queried :: "string list"
  db_provider_models :: "(string \<times> string) list"

text \<open>The orchestrator; the composer has no services, so only its rule for the language matters.\<close>

record 'w debate_orchestrator =
  do_router :: "'w repair_router"
  do_timeout :: int
  do_composer :: instruction_compiler
  do_compiler :: "instruction_compiler option"
  do_enforcement :: "'w language_enforcement option"
  do_configured :: string
  do_t :: "string \<Rightarrow> string \<Rightarrow> (string \<times> string) list \<Rightarrow> string"
  do_loads :: "string \<Rightarrow> loads_result"
  do_str :: "json \<Rightarrow> string"
  do_terminate :: "string \<Rightarrow> (int \<Rightarrow> int \<Rightarrow> 'w \<Rightarrow> 'w) option"

section \<open>The providers\<close>

definition select_providers :: "'w debate_orchestrator \<Rightarrow> 'w \<Rightarrow> (py_exn + string list) \<times> 'w" where
  "select_providers dv w =
     (case list_available (pv_providers (rt_router (do_router dv))) w of
        (Inl e, w1) \<Rightarrow> (Inl e, w1)
      | (Inr available, w1) \<Rightarrow>
          (Inr (deduplicate_providers (case get_configured_providers (do_configured dv) of
                  Some configured \<Rightarrow> filter (\<lambda>p. p \<in> set available) configured
                | None \<Rightarrow> available)), w1))"

record debate_call =
  dq_question :: string
  dq_user_id :: int
  dq_chat_id :: int
  dq_lang :: string
  dq_override :: "string option"
  dq_model :: "string option"

definition compose_debate_provider :: "instruction_compiler \<Rightarrow> string \<Rightarrow> moment \<Rightarrow> string" where
  "compose_debate_provider ic code now =
     compose_prompt ic [''language'', ''anti_repetition''] debate_prompt (context_from_code code SrcOverride []) 0 now None None []"

definition compose_debate_judge :: "instruction_compiler \<Rightarrow> string \<Rightarrow> moment \<Rightarrow> string" where
  "compose_debate_judge ic code now =
     compose_prompt ic [''language''] judge_prompt (context_from_code code SrcOverride []) 0 now None None []"

text \<open>
  The answer with the model that gave it, or the error; or the exception that the call ends with. The
  last is never the case: what the router raises is caught, and the composer of a debate has no service
  that could raise.
\<close>

type_synonym query_outcome = "py_exn + string + string \<times> string option"

definition query_provider ::
    "'w debate_orchestrator \<Rightarrow> moment \<Rightarrow> debate_call \<Rightarrow> string \<Rightarrow> 'w \<Rightarrow> query_outcome \<times> 'w" where
  "query_provider dv now dq name w =
     (let rq = \<lparr>rq_prompt = dq_question dq,
            rq_system_prompt = (case dq_override dq of Some p \<Rightarrow> p
              | None \<Rightarrow> compose_debate_provider (do_composer dv) (dq_lang dq) now),
            rq_timeout_seconds = do_timeout dv, rq_user_id = Some (dq_user_id dq),
            rq_chat_id = Some (dq_chat_id dq + debate_provider_chat_id_offset), rq_model = dq_model dq\<rparr>
      in case requery (do_router dv) (Some name) rq w of
           (Inl e, w1) \<Rightarrow>
             (Inr (Inl (if is_instance e TimeoutErrorC then ''Timeout after '' @ int_decimal (do_timeout dv) @ ''s''
                        else ex_message e)), w1)
         | (Inr response, w1) \<Rightarrow>
             (Inr (if response_success response then Inr (pr_text response, pr_model response)
                   else Inl (case pr_error response of Some (c # cs) \<Rightarrow> c # cs | _ \<Rightarrow> ''Unknown error'')), w1))"

text \<open>\<open>asyncio.gather\<close>: the calls end in some order, the results are in the order of the providers.\<close>

definition gather_queries ::
    "'w debate_orchestrator \<Rightarrow> moment \<Rightarrow> debate_call \<Rightarrow> string list \<Rightarrow> nat list \<Rightarrow> 'w
       \<Rightarrow> (nat \<times> query_outcome) list \<times> 'w" where
  "gather_queries dv now dq providers order w =
     foldl (\<lambda>(results, w) i. case query_provider dv now dq (providers ! i) w of
         (r, w1) \<Rightarrow> ((i, r) # results, w1)) ([], w) order"

text \<open>
  What the results put into the three dictionaries; an exception stands under a key of its own.
\<close>

type_synonym debate_answers = "(string \<times> string) list \<times> (string \<times> string) list \<times> (string \<times> string) list"

definition record_result :: "debate_answers \<Rightarrow> string \<times> query_outcome \<Rightarrow> debate_answers" where
  "record_result st result =
     (case st of (responses, errors, models) \<Rightarrow>
        (case result of
           (name, Inl e) \<Rightarrow> (responses, AList.update (''provider_'' @ name @ ''_error'') (ex_message e) errors, models)
         | (name, Inr (Inr (txt, m))) \<Rightarrow> (AList.update name txt responses, errors,
              case m of Some (c # cs) \<Rightarrow> AList.update name (c # cs) models | _ \<Rightarrow> models)
         | (name, Inr (Inl err)) \<Rightarrow> (responses, AList.update name err errors, models)))"

definition collect_answers :: "string list \<Rightarrow> (nat \<times> query_outcome) list \<Rightarrow> debate_answers" where
  "collect_answers providers results =
     foldl record_result ([], [], [])
       (concat (map (\<lambda>(i, p). case map_of results i of None \<Rightarrow> [] | Some r \<Rightarrow> [(p, r)]) (enumerate 0 providers)))"

section \<open>The language of the answers\<close>

definition lang_excluded_message :: "string \<Rightarrow> string" where
  "lang_excluded_message code = ''Excluded: language verification failed (expected '' @ code @ '')''"

text \<open>The loop over the answers: who is excluded so far, and the audit entries.\<close>

record lang_exclusion =
  le_provider :: string
  le_expected :: string
  le_detected :: "string option"

primrec check_languages ::
    "'w language_enforcement \<Rightarrow> language_context \<Rightarrow> string option \<Rightarrow> int \<Rightarrow> int \<Rightarrow> nat \<Rightarrow> (string \<times> string) list
       \<Rightarrow> string list \<Rightarrow> lang_exclusion list \<Rightarrow> 'w \<Rightarrow> (string list \<times> lang_exclusion list) \<times> 'w" where
  "check_languages lf lx m uid cid n [] excluded audit w = ((excluded, audit), w)"
| "check_languages lf lx m uid cid n (a # rest) excluded audit w =
     (let nc = \<lparr>nc_provider_name = Some (fst a), nc_user_id = uid, nc_chat_id = cid, nc_model = m, nc_base_prompt = []\<rparr>;
          (r, w1) = enforce_language lf (snd a) lx nc w
      in case en_verification r of
           None \<Rightarrow> check_languages lf lx m uid cid n rest excluded audit w1
         | Some v \<Rightarrow>
             if \<not> verification_passed v \<and> 1 \<le> int n - int (length excluded) - 1
             then check_languages lf lx m uid cid n rest (excluded @ [fst a])
                    (audit @ [\<lparr>le_provider = fst a, le_expected = lx_code lx, le_detected = ve_detected_lang v\<rparr>]) w1
             else check_languages lf lx m uid cid n rest excluded audit w1)"

definition exclude_answers ::
    "string \<Rightarrow> string list \<Rightarrow> debate_answers \<Rightarrow> debate_answers" where
  "exclude_answers code excluded st =
     foldl (\<lambda>(responses, errors, models) name.
         (filter (\<lambda>(k, _). k \<noteq> name) responses, AList.update name (lang_excluded_message code) errors, models)) st excluded"

definition verified_answers ::
    "'w debate_orchestrator \<Rightarrow> execution_context option \<Rightarrow> string \<Rightarrow> string option \<Rightarrow> int \<Rightarrow> int \<Rightarrow> debate_answers
       \<Rightarrow> 'w \<Rightarrow> (debate_answers \<times> lang_exclusion list) \<times> 'w" where
  "verified_answers dv context effective_lang m uid cid st w =
     (case (do_enforcement dv, context) of
        (Some lf, Some ec) \<Rightarrow>
          if effective_lang = ''auto'' then ((st, []), w)
          else (case check_languages lf (ec_language ec) m uid cid (length (fst st)) (fst st) [] [] w of
                  ((excluded, audit), w1) \<Rightarrow> ((exclude_answers effective_lang excluded st, audit), w1))
      | _ \<Rightarrow> ((st, []), w))"

section \<open>The comparison\<close>

definition significant_words :: "string \<Rightarrow> string list" where
  "significant_words s = filter (\<lambda>w. 3 < length w) (remdups (py_split (py_lower s)))"

definition jaccard :: "string list \<Rightarrow> string list \<Rightarrow> rat" where
  "jaccard a b =
     (let union = remdups (a @ b); common = filter (\<lambda>w. w \<in> set b) (remdups a)
      in if union = [] then 0 else of_nat (length common) / of_nat (length union))"

fun pairwise_overlaps :: "string list list \<Rightarrow> rat list" where
  "pairwise_overlaps [] = []"
| "pairwise_overlaps (a # rest) = map (jaccard a) rest @ pairwise_overlaps rest"

definition percent :: "rat \<Rightarrow> string" where
  "percent q = int_decimal (round_half_even (q * 100)) @ ''%''"

definition analyze_consensus :: "'w debate_orchestrator \<Rightarrow> (string \<times> string) list \<Rightarrow> string \<Rightarrow> string" where
  "analyze_consensus dv responses lang =
     (if length responses < 2 then do_t dv ''debate.only_one_provider'' lang []
      else let overlaps = pairwise_overlaps (map (significant_words \<circ> snd) responses);
               avg = (if overlaps = [] then 0 else sum_list overlaps / of_nat (length overlaps));
               level = (if 7 / 20 < avg then ''debate.consensus_high''
                        else if 1 / 5 < avg then ''debate.consensus_partial'' else ''debate.consensus_low'')
           in do_t dv level lang [(''overlap'', percent avg)])"

section \<open>The judge\<close>

definition judge_label :: "nat \<Rightarrow> string" where
  "judge_label i = (if i < 26 then [char_of (65 + i)] else CHR ''Z'' # nat_decimal i)"

definition label_to_provider :: "(string \<times> string) list \<Rightarrow> (string \<times> string) list" where
  "label_to_provider responses = map (\<lambda>(i, p, _). (judge_label i, p)) (enumerate 0 responses)"

definition quoted :: "string \<Rightarrow> string" where "quoted s = [CHR 0x22] @ s @ [CHR 0x22]"

definition answer_block :: "nat \<Rightarrow> string \<Rightarrow> string" where
  "answer_block i txt = ''--- Answer '' @ judge_label i @ '' ---'' @ [newline] @ py_strip txt @ [newline]"

definition build_judge_prompt :: "string \<Rightarrow> (string \<times> string) list \<Rightarrow> string \<Rightarrow> string" where
  "build_judge_prompt question responses lang =
     (let answers = join_lines (map (\<lambda>(i, _, txt). answer_block i txt) (enumerate 0 responses))
      in concat [''User question:'', [newline], question, [newline, newline],
        ''The following answers were generated by different AI models.'', [newline],
        ''Evaluate them neutrally and objectively.'', [newline, newline], answers, [newline],
        ''Your task:'', [newline],
        ''1. Identify the strengths and weaknesses of each answer'', [newline],
        ''2. Create a SYNTHESIS combining the best of all answers'', [newline],
        ''3. The synthesis must be a standalone, complete answer (not just '', [CHR 0x27], ''A is better'', [CHR 0x27], '')'', [newline],
        ''4. The key takeaway (key_takeaway) must cover ALL aspects of the question. '',
        ''For multi-part questions (e.g. '', [CHR 0x27], ''What is X and should I do Y?'', [CHR 0x27], ''), structure '',
        ''the key takeaway so each sub-aspect is addressed.'', [newline],
        [newline], ''IMPORTANT: Write the synthesis and recommendation in the user'', [CHR 0x27], ''s language: '', lang,
        ''. JSON keys must remain in English.'', [newline], [newline],
        ''IMPORTANT: Your ENTIRE response must be ONE SINGLE JSON object.'', [newline],
        ''No text before, no text after, no markdown, no explanation.'', [newline],
        ''Start directly with { and end with }.'', [newline, newline],
        ''JSON schema (follow exactly):'', [newline],
        ''{'', quoted ''winner'', '': '', quoted ''<letter of best answer or tie>'', '', '',
        quoted ''synthesis'', '': '', quoted ''<Complete synthesized answer combining the best, 2-5 sentences, NEVER leave empty>'', '', '',
        quoted ''recommendation'', '': '', quoted ''<Complete key takeaway covering all question aspects, 2-4 sentences>'', '', '',
        quoted ''evaluations'', '': [{'', quoted ''label'', '': '', quoted ''<letter>'', '', '', quoted ''pros'', '': ['', quoted ''...'',
        ''], '', quoted ''cons'', '': ['', quoted ''...'', '']}, ...], '',
        quoted ''reasoning'', '': '', quoted ''<1-2 sentences why this winner>'', ''}''])"

text \<open>The object in an answer. \<open>Inl\<close> is an exception other than that for invalid JSON.\<close>

definition json_block_pattern :: regex where
  "json_block_pattern = (let ch = (\<lambda>c. Cls (\<lambda>x. x = c)); ticks = seq_all (replicate 3 (ch (CHR 0x60)))
     in seq_all [ticks, Alt (seq_all (map ch ''json'')) Eps, Rep True 0 py_isspace, ch newline,
          Group 1 (Rep False 0 (\<lambda>_. True)), ch newline, Rep True 0 py_isspace, ticks])"

text \<open>The scan for the brace that closes the first one: how many characters it takes.\<close>

fun closing_brace :: "int \<Rightarrow> bool \<Rightarrow> bool \<Rightarrow> string \<Rightarrow> nat option" where
  "closing_brace depth in_string escape_next [] = None"
| "closing_brace depth in_string escape_next (c # cs) =
     map_option Suc
       (if escape_next then closing_brace depth in_string False cs
        else if c = CHR 0x5C then closing_brace depth in_string in_string cs
        else if c = CHR 0x22 then closing_brace depth (\<not> in_string) False cs
        else if in_string then closing_brace depth in_string False cs
        else if c = CHR ''{'' then closing_brace (depth + 1) in_string False cs
        else if c = CHR ''}'' then (if depth - 1 = 0 then Some 0 else closing_brace (depth - 1) in_string False cs)
        else closing_brace depth in_string False cs)"

definition brace_candidate :: "string \<Rightarrow> string option" where
  "brace_candidate s =
     (let rest = dropWhile (\<lambda>c. c \<noteq> CHR ''{'') s
      in if rest = [] then None else map_option (\<lambda>n. take n rest) (closing_brace 0 False False rest))"

definition extract_json_object :: "(string \<Rightarrow> loads_result) \<Rightarrow> string \<Rightarrow> unit + string option" where
  "extract_json_object loads raw_text =
     (let s = py_strip raw_text;
          braces = (case brace_candidate s of
              None \<Rightarrow> Inr None
            | Some candidate \<Rightarrow> (case loads candidate of LoadsValue _ \<Rightarrow> Inr (Some candidate)
                | LoadsDecodeError \<Rightarrow> Inr None | LoadsRecursionError \<Rightarrow> Inl ()));
          block = (case regex_search json_block_pattern s of
              None \<Rightarrow> braces
            | Some g \<Rightarrow> (let candidate = py_strip (regex_group g 1)
                         in case loads candidate of LoadsValue _ \<Rightarrow> Inr (Some candidate)
                              | LoadsDecodeError \<Rightarrow> braces | LoadsRecursionError \<Rightarrow> Inl ()))
      in if py_startswith s ''{''
         then (case loads s of LoadsValue _ \<Rightarrow> Inr (Some s) | LoadsDecodeError \<Rightarrow> block | LoadsRecursionError \<Rightarrow> Inl ())
         else block)"

text \<open>\<open>str(value)\<close>, and a value as a list.\<close>

definition py_str_of :: "(json \<Rightarrow> string) \<Rightarrow> json \<Rightarrow> string" where
  "py_str_of str_of v = (case v of JStr s \<Rightarrow> s | _ \<Rightarrow> str_of v)"

definition as_list :: "(json \<Rightarrow> string) \<Rightarrow> json \<Rightarrow> json list" where
  "as_list str_of v = (case v of JList xs \<Rightarrow> xs | _ \<Rightarrow> [JStr (py_str_of str_of v)])"

text \<open>A label that is a list or a dict cannot be looked up.\<close>

definition evaluation_of ::
    "(json \<Rightarrow> string) \<Rightarrow> (string \<times> string) list \<Rightarrow> dict \<Rightarrow> unit + provider_evaluation" where
  "evaluation_of str_of labels d =
     (let label = dget d ''label'' (JStr []);
          provider = (case label of
              JStr s \<Rightarrow> Inr (JStr (case map_of labels s of None \<Rightarrow> s | Some p \<Rightarrow> p))
            | JList _ \<Rightarrow> Inl () | JObj _ \<Rightarrow> Inl () | _ \<Rightarrow> Inr label)
      in case provider of
           Inl u \<Rightarrow> Inl u
         | Inr p \<Rightarrow> Inr \<lparr>pe_provider = p, pe_pros = as_list str_of (dget d ''pros'' (JList [])),
                         pe_cons = as_list str_of (dget d ''cons'' (JList []))\<rparr>)"

fun evaluations_of ::
    "(json \<Rightarrow> string) \<Rightarrow> (string \<times> string) list \<Rightarrow> json list \<Rightarrow> unit + provider_evaluation list" where
  "evaluations_of str_of labels [] = Inr []"
| "evaluations_of str_of labels (JObj d # items) =
     (case evaluation_of str_of labels d of
        Inl u \<Rightarrow> Inl u
      | Inr e \<Rightarrow> (case evaluations_of str_of labels items of Inl u \<Rightarrow> Inl u | Inr es \<Rightarrow> Inr (e # es)))"
| "evaluations_of str_of labels (_ # items) = evaluations_of str_of labels items"

text \<open>The elements of a value in a \<open>for\<close> loop; those of a text and the keys of a dict are no dicts.\<close>

definition items_of :: "json \<Rightarrow> unit + json list" where
  "items_of v = (case v of JList xs \<Rightarrow> Inr xs | JStr _ \<Rightarrow> Inr [] | JObj _ \<Rightarrow> Inr [] | _ \<Rightarrow> Inl ())"

definition verdict_of ::
    "(json \<Rightarrow> string) \<Rightarrow> (string \<times> string) list \<Rightarrow> dict \<Rightarrow> unit + final_verdict" where
  "verdict_of str_of labels d =
     (case dget d ''winner'' (JStr []) of
        JStr winner \<Rightarrow>
          (case items_of (dget d ''evaluations'' (JList [])) of
             Inl u \<Rightarrow> Inl u
           | Inr items \<Rightarrow>
               (case evaluations_of str_of labels items of
                  Inl u \<Rightarrow> Inl u
                | Inr es \<Rightarrow> Inr
                    \<lparr>fv_winner = (if py_lower winner = ''tie'' then ''tie''
                       else case map_of labels winner of None \<Rightarrow> winner | Some p \<Rightarrow> p),
                     fv_recommendation = py_str_of str_of (dget d ''recommendation'' (JStr [])),
                     fv_synthesis = py_str_of str_of (dget d ''synthesis'' (JStr [])), fv_evaluations = es,
                     fv_reasoning = py_str_of str_of (dget d ''reasoning'' (JStr [])),
                     fv_judge_provider = [], fv_judge_quality_warning = None\<rparr>))
      | _ \<Rightarrow> Inl ())"

definition parse_judge_response ::
    "(string \<Rightarrow> loads_result) \<Rightarrow> (json \<Rightarrow> string) \<Rightarrow> string \<Rightarrow> (string \<times> string) list \<Rightarrow> unit + final_verdict option" where
  "parse_judge_response loads str_of raw_text labels =
     (case extract_json_object loads raw_text of
        Inl u \<Rightarrow> Inl u
      | Inr None \<Rightarrow> Inr None
      | Inr (Some s) \<Rightarrow>
          (case loads s of
             LoadsDecodeError \<Rightarrow> Inr None
           | LoadsRecursionError \<Rightarrow> Inl ()
           | LoadsValue (JObj d) \<Rightarrow> map_sum id Some (verdict_of str_of labels d)
           | LoadsValue _ \<Rightarrow> Inr None))"

definition judge_candidates :: "string list" where
  "judge_candidates = [''claude_persistent'', ''claude'', ''ollama_local'']"

definition final_review ::
    "'w debate_orchestrator \<Rightarrow> moment \<Rightarrow> string \<Rightarrow> (string \<times> string) list \<Rightarrow> int \<Rightarrow> int \<Rightarrow> string
       \<Rightarrow> execution_context option \<Rightarrow> execution_plan option \<Rightarrow> 'w \<Rightarrow> (py_exn + final_verdict option) \<times> 'w" where
  "final_review dv now question responses uid cid lang context plan w =
     (if length responses < 2 then (Inr None, w)
      else let system_prompt = (case (context, plan, do_compiler dv) of
                 (Some ec, Some _, Some ic) \<Rightarrow> cp_system_prompt (compile_debate ic ec ''judge'')
               | _ \<Rightarrow> compose_debate_judge (do_composer dv) lang now)
           in case list_available (pv_providers (rt_router (do_router dv))) w of
                (Inl e, w1) \<Rightarrow> (Inl e, w1)
              | (Inr available, w1) \<Rightarrow>
                  (case find (\<lambda>c. c \<in> set available) judge_candidates of
                     None \<Rightarrow> (Inr None, w1)
                   | Some judge \<Rightarrow>
                       (let rq = \<lparr>rq_prompt = build_judge_prompt question responses lang, rq_system_prompt = system_prompt,
                              rq_timeout_seconds = do_timeout dv, rq_user_id = Some uid,
                              rq_chat_id = Some (cid + judge_chat_id_offset), rq_model = None\<rparr>
                        in case requery (do_router dv) (Some judge) rq w1 of
                             (Inl e, w2) \<Rightarrow> (Inr None, w2)
                           | (Inr response, w2) \<Rightarrow>
                               (Inr (if \<not> response_success response then None
                                     else case parse_judge_response (do_loads dv) (do_str dv) (pr_text response)
                                            (label_to_provider responses) of
                                            Inl _ \<Rightarrow> None
                                          | Inr None \<Rightarrow> None
                                          | Inr (Some v) \<Rightarrow> Some (v\<lparr>fv_judge_provider := judge,
                                              fv_judge_quality_warning := (if judge = ''ollama_local''
                                                then Some ''Local judge (Ollama), evaluation quality reduced'' else None)\<rparr>)), w2))))"

section \<open>The whole debate\<close>

definition cleanup_subprocesses :: "'w debate_orchestrator \<Rightarrow> int \<Rightarrow> int \<Rightarrow> string list \<Rightarrow> 'w \<Rightarrow> 'w" where
  "cleanup_subprocesses dv uid cid providers w =
     foldl (\<lambda>w name. case map_of (pv_providers (rt_router (do_router dv))) name of
         None \<Rightarrow> w
       | Some _ \<Rightarrow> (case do_terminate dv name of None \<Rightarrow> w
           | Some terminate \<Rightarrow> terminate uid (cid + debate_provider_chat_id_offset) w)) w providers"

record debate_request =
  dr_question :: string
  dr_user_id :: int
  dr_chat_id :: int
  dr_user_lang :: string
  dr_context :: "execution_context option"
  dr_plan :: "execution_plan option"
  dr_model :: "string option"

definition effective_language :: "debate_request \<Rightarrow> string" where
  "effective_language dr = (case dr_context dr of None \<Rightarrow> dr_user_lang dr | Some ec \<Rightarrow> lx_code (ec_language ec))"

definition provider_prompt :: "'w debate_orchestrator \<Rightarrow> debate_request \<Rightarrow> string option" where
  "provider_prompt dv dr = (case (dr_context dr, dr_plan dr, do_compiler dv) of
     (Some ec, Some _, Some ic) \<Rightarrow> Some (cp_system_prompt (compile_debate ic ec ''provider'')) | _ \<Rightarrow> None)"

definition run_debate ::
    "'w debate_orchestrator \<Rightarrow> moment \<Rightarrow> rat \<Rightarrow> (nat \<Rightarrow> nat list) \<Rightarrow> debate_request \<Rightarrow> 'w
       \<Rightarrow> (py_exn + debate_result \<times> lang_exclusion list) \<times> 'w" where
  "run_debate dv now duration order dr w =
     (let lang = effective_language dr in
      case select_providers dv w of
        (Inl e, w1) \<Rightarrow> (Inl e, w1)
      | (Inr [], w1) \<Rightarrow>
          (Inr (\<lparr>db_question = dr_question dr, db_responses = [], db_errors = [(''system'', ''No providers available'')],
             db_consensus_analysis = None, db_final_verdict = None, db_duration_seconds = duration,
             db_providers_queried = [], db_provider_models = []\<rparr>, []), w1)
      | (Inr providers, w1) \<Rightarrow>
          (let dq = \<lparr>dq_question = dr_question dr, dq_user_id = dr_user_id dr, dq_chat_id = dr_chat_id dr, dq_lang = lang,
                 dq_override = provider_prompt dv dr, dq_model = dr_model dr\<rparr>;
               (results, w2) = gather_queries dv now dq providers (order (length providers)) w1;
               (((responses, errors, models), audit), w3) =
                 verified_answers dv (dr_context dr) lang (dr_model dr) (dr_user_id dr) (dr_chat_id dr)
                   (collect_answers providers results) w2;
               consensus = (if responses = [] then None else Some (analyze_consensus dv responses lang));
               (reviewed, w4) = (if 2 \<le> length responses
                 then final_review dv now (dr_question dr) responses (dr_user_id dr) (dr_chat_id dr) lang
                        (dr_context dr) (dr_plan dr) w3
                 else (Inr None, w3))
           in case reviewed of
                Inl e \<Rightarrow> (Inl e, w4)
              | Inr verdict \<Rightarrow>
                  (Inr (\<lparr>db_question = dr_question dr, db_responses = responses, db_errors = errors,
                     db_consensus_analysis = consensus, db_final_verdict = verdict, db_duration_seconds = duration,
                     db_providers_queried = providers, db_provider_models = models\<rparr>, audit),
                   cleanup_subprocesses dv (dr_user_id dr) (dr_chat_id dr) providers w4)))"

section \<open>One provider of each group\<close>

lemma used_groups_of_selected:
  "foldl deduplicate_step ([], []) xs = (selected, used) \<Longrightarrow>
   set used = {g. \<exists>p \<in> set selected. provider_to_group p = Some g}"
proof (induction xs arbitrary: selected used rule: rev_induct)
  case (snoc x xs)
  obtain s u where su: "foldl deduplicate_step ([], []) xs = (s, u)" by fastforce
  have "deduplicate_step (s, u) x = (selected, used)" using snoc.prems su by simp
  then show ?case using snoc.IH [OF su] by (auto simp: deduplicate_step_def split: option.splits if_splits)
qed simp

text \<open>
  Of the providers that share a backend exactly the first available one takes part in a debate, all
  the others take part as they are, and the order is kept.
\<close>

theorem one_provider_of_each_group:
  "subseq (deduplicate_providers available) available \<and>
   filter (\<lambda>p. provider_to_group p = None) (deduplicate_providers available)
     = filter (\<lambda>p. provider_to_group p = None) available \<and>
   filter (\<lambda>p. provider_to_group p = Some g) (deduplicate_providers available)
     = take 1 (filter (\<lambda>p. provider_to_group p = Some g) available)"
proof (induction available rule: rev_induct)
  case (snoc x xs)
  obtain s u where su: "foldl deduplicate_step ([], []) xs = (s, u)" by fastforce
  have used: "h \<in> set u \<longleftrightarrow> filter (\<lambda>p. provider_to_group p = Some h) s \<noteq> []" for h
    by (simp add: used_groups_of_selected [OF su] filter_empty_conv)
  have s: "deduplicate_providers xs = s" using su by (simp add: deduplicate_providers_def)
  have added: "deduplicate_providers (xs @ [x]) = fst (deduplicate_step (s, u) x)"
    using su by (simp add: deduplicate_providers_def)
  have sub: "subseq s (xs @ [x])" "subseq (s @ [x]) (xs @ [x])"
    using snoc.IH s by (auto intro: subseq_order.trans [of s xs] list_emb_append2)
  show ?case
  proof (cases "provider_to_group x")
    case None
    then show ?thesis using snoc.IH sub s unfolding added by (simp add: deduplicate_step_def)
  next
    case (Some h)
    then show ?thesis using snoc.IH sub s used [of h] unfolding added
      by (cases "h = g"; cases "filter (\<lambda>p. provider_to_group p = Some g) xs")
        (auto simp: deduplicate_step_def)
  qed
qed (simp add: deduplicate_providers_def)

text \<open>A provider without a group that is configured twice is asked twice.\<close>

lemma configured_twice_is_asked_twice:
  "deduplicate_providers [''ollama_local'', ''ollama_local''] = [''ollama_local'', ''ollama_local'']"
  by code_simp

section \<open>What becomes of the providers\<close>

text \<open>The keys of the answers and of the errors.\<close>

definition answered :: "debate_answers \<Rightarrow> string set" where "answered st = fst ` set (fst st)"
definition failed :: "debate_answers \<Rightarrow> string set" where "failed st = fst ` set (fst (snd st))"

definition accounts_ok :: "bool \<Rightarrow> string set \<Rightarrow> debate_answers \<Rightarrow> bool" where
  "accounts_ok once ps st \<longleftrightarrow> answered st \<union> failed st = ps \<and> (once \<longrightarrow> answered st \<inter> failed st = {}) \<and> distinct (map fst (fst st))"

lemma keys_update: "fst ` set (AList.update k v xs) = insert k (fst ` set xs)"
  using dom_update [of k v xs] by (simp add: dom_map_of_conv_image_fst [symmetric] update_conv')

lemma accounts_record:
  "accounts_ok once ps st \<Longrightarrow> (once \<longrightarrow> p \<notin> ps) \<Longrightarrow> accounts_ok once (insert p ps) (record_result st (p, Inr r))"
  by (auto simp: accounts_ok_def record_result_def answered_def failed_def keys_update distinct_update
      split: prod.splits sum.splits) (metis disjoint_iff fst_conv image_eqI)+

lemma accounts_foldl:
  "accounts_ok once ps st \<Longrightarrow> (once \<longrightarrow> distinct (map fst rs) \<and> ps \<inter> fst ` set rs = {}) \<Longrightarrow>
   (\<forall>r \<in> set rs. \<not> isl (snd r)) \<Longrightarrow> accounts_ok once (ps \<union> fst ` set rs) (foldl record_result st rs)"
proof (induction rs arbitrary: ps st)
  case (Cons r rs)
  obtain p x where r: "r = (p, Inr x)" using Cons.prems(3) by (cases r; cases "snd r") auto
  have "accounts_ok once (insert p ps) (record_result st r)"
    unfolding r using Cons.prems(1, 2) r by (intro accounts_record) auto
  from Cons.IH [OF this] show ?case using Cons.prems r by auto
qed simp

lemma collected_list:
  assumes "\<And>i. i < length ps \<Longrightarrow> map_of results (k + i) \<noteq> None"
  shows "map fst (concat (map (\<lambda>(i, p). case map_of results i of None \<Rightarrow> [] | Some r \<Rightarrow> [(p, r)]) (enumerate k ps))) = ps"
  using assms
proof (induction ps arbitrary: k)
  case (Cons p ps)
  have "map_of results (Suc k + i) \<noteq> None" if "i < length ps" for i using Cons.prems [of "Suc i"] that by simp
  then show ?case using Cons.IH [of "Suc k"] Cons.prems [of 0] by auto
qed simp

lemma collected_results:
  "set (concat (map (\<lambda>(i, p). case map_of results i of None \<Rightarrow> [] | Some r \<Rightarrow> [(p, r)]) (enumerate k ps)))
    \<subseteq> UNIV \<times> snd ` set results"
proof -
  have "r \<in> snd ` set results" if "map_of results i = Some r" for i r using map_of_SomeD [OF that] by force
  then show ?thesis by (fastforce split: option.splits)
qed

lemma accounts_collected:
  assumes "once \<longrightarrow> distinct ps" "\<And>i. i < length ps \<Longrightarrow> map_of results i \<noteq> None" "\<forall>r \<in> set results. \<not> isl (snd r)"
  shows "accounts_ok once (set ps) (collect_answers ps results)"
proof -
  let ?rs = "concat (map (\<lambda>(i, p). case map_of results i of None \<Rightarrow> [] | Some r \<Rightarrow> [(p, r)]) (enumerate 0 ps))"
  have keys: "map fst ?rs = ps" using collected_list [of ps results 0] assms(2) by simp
  have "accounts_ok once {} ([], [], [])" by (simp add: accounts_ok_def answered_def failed_def)
  moreover have "\<forall>r \<in> set ?rs. \<not> isl (snd r)" using collected_results [of results 0 ps] assms(3) by fastforce
  ultimately have "accounts_ok once ({} \<union> fst ` set ?rs) (foldl record_result ([], [], []) ?rs)"
    using keys assms(1) by (intro accounts_foldl) auto
  moreover have "fst ` set ?rs = set ps" using arg_cong [OF keys, of set] by simp
  ultimately show ?thesis unfolding collect_answers_def by (simp del: set_concat)
qed

lemma gathered_indices:
  "fst ` set (fst (gather_queries dv now dq ps order w)) = set order"
proof -
  have "fst ` set (fst (foldl (\<lambda>(results, w) i. case query_provider dv now dq (ps ! i) w of
      (r, w1) \<Rightarrow> ((i, r) # results, w1)) st order)) = fst ` set (fst st) \<union> set order" for st
    by (induction order arbitrary: st) (auto split: prod.splits)
  then show ?thesis by (simp add: gather_queries_def)
qed

lemma query_provider_raises_nothing: "\<not> isl (fst (query_provider dv now dq name w))"
  by (simp add: query_provider_def Let_def split: prod.splits sum.splits)

lemma gathered_raise_nothing: "\<forall>r \<in> set (fst (gather_queries dv now dq ps order w)). \<not> isl (snd r)"
proof -
  have "\<forall>r \<in> set (fst (foldl (\<lambda>(results, w) i. case query_provider dv now dq (ps ! i) w of
      (r, w1) \<Rightarrow> ((i, r) # results, w1)) st order)). \<not> isl (snd r)" if "\<forall>r \<in> set (fst st). \<not> isl (snd r)" for st
    using that
  proof (induction order arbitrary: st)
    case (Cons i order)
    obtain q w1 where q: "query_provider dv now dq (ps ! i) (snd st) = (q, w1)" by fastforce
    then have "\<not> isl q" using query_provider_raises_nothing [of dv now dq "ps ! i" "snd st"] by simp
    then show ?case using Cons.IH [of "((i, q) # fst st, w1)"] Cons.prems q by (simp add: split_beta)
  qed simp
  from this [of "([], w)"] show ?thesis by (simp add: gather_queries_def)
qed

lemma check_languages_excluded:
  "check_languages lf lx m uid cid n as excluded audit w = ((ex, au), w1) \<Longrightarrow> distinct (map fst as) \<Longrightarrow>
   set excluded \<inter> fst ` set as = {} \<Longrightarrow> distinct excluded \<Longrightarrow> length excluded < n \<or> excluded = [] \<Longrightarrow>
   length audit = length excluded \<Longrightarrow>
   distinct ex \<and> set excluded \<subseteq> set ex \<and> set ex \<subseteq> set excluded \<union> fst ` set as \<and> (length ex < n \<or> ex = []) \<and> length au = length ex"
proof (induction as arbitrary: excluded audit w)
  case (Cons a as)
  obtain r w' where r: "enforce_language lf (snd a) lx \<lparr>nc_provider_name = Some (fst a), nc_user_id = uid, nc_chat_id = cid,
      nc_model = m, nc_base_prompt = []\<rparr> w = (r, w')" by fastforce
  consider (go) "check_languages lf lx m uid cid n as excluded audit w' = ((ex, au), w1)"
    | (out) v :: verification_result where "1 \<le> int n - int (length excluded) - 1"
        "check_languages lf lx m uid cid n as (excluded @ [fst a])
          (audit @ [\<lparr>le_provider = fst a, le_expected = lx_code lx, le_detected = ve_detected_lang v\<rparr>]) w' = ((ex, au), w1)"
    using Cons.prems(1) r by (auto simp: Let_def split: option.splits if_splits)
  then show ?case
  proof cases
    case go
    from Cons.IH [OF this] show ?thesis using Cons.prems by auto
  next
    case (out v)
    from Cons.IH [OF out(2)] show ?thesis using Cons.prems out(1) by auto
  qed
qed auto

lemma accounts_exclude_one:
  assumes "accounts_ok once ps (rs, es, ms)" "x \<in> fst ` set rs"
  shows "accounts_ok once ps (filter (\<lambda>(k, _). k \<noteq> x) rs, AList.update x e es, ms)"
proof -
  have "fst ` set (filter (\<lambda>(k, _). k \<noteq> x) rs) = fst ` set rs - {x}" by force
  moreover have "distinct (map fst (filter (\<lambda>(k, _). k \<noteq> x) rs))"
    using assms(1) by (auto simp: accounts_ok_def intro: distinct_map_filter)
  ultimately show ?thesis using assms by (auto simp: accounts_ok_def answered_def failed_def keys_update)
qed

lemma accounts_excluded:
  "accounts_ok once ps st \<Longrightarrow> distinct ex \<Longrightarrow> set ex \<subseteq> answered st \<Longrightarrow>
   accounts_ok once ps (exclude_answers code ex st) \<and> answered (exclude_answers code ex st) = answered st - set ex"
proof (induction ex arbitrary: st)
  case (Cons x ex)
  obtain rs es ms where st: "st = (rs, es, ms)" by (cases st)
  let ?st = "(filter (\<lambda>(k, _). k \<noteq> x) rs, AList.update x (lang_excluded_message code) es, ms)"
  have ok: "accounts_ok once ps ?st" using Cons.prems st by (intro accounts_exclude_one) (auto simp: answered_def)
  have a: "answered ?st = answered st - {x}" by (force simp: answered_def st)
  have "exclude_answers code (x # ex) st = exclude_answers code ex ?st" by (simp add: exclude_answers_def st)
  moreover from Cons.IH [OF ok] have "accounts_ok once ps (exclude_answers code ex ?st) \<and>
      answered (exclude_answers code ex ?st) = answered ?st - set ex"
    using Cons.prems a by auto
  ultimately show ?case using a by auto
qed (simp add: exclude_answers_def)

lemma accounts_verified:
  assumes "accounts_ok once ps st" "verified_answers dv context lang m uid cid st w = ((st', au), w1)"
  shows "accounts_ok once ps st' \<and> (au \<noteq> [] \<longrightarrow> fst st' \<noteq> []) \<and> (fst st \<noteq> [] \<longrightarrow> fst st' \<noteq> [])"
proof (cases "\<exists>lf ec. do_enforcement dv = Some lf \<and> context = Some ec \<and> lang \<noteq> ''auto''")
  case True
  then obtain lf ec where e: "do_enforcement dv = Some lf" "context = Some ec" "lang \<noteq> ''auto''" by blast
  obtain ex w' where c: "check_languages lf (ec_language ec) m uid cid (length (fst st)) (fst st) [] [] w = ((ex, au), w')"
      and st': "st' = exclude_answers lang ex st"
    using assms(2) e by (auto simp: verified_answers_def split: prod.splits)
  have "distinct (map fst (fst st))" using assms(1) by (simp add: accounts_ok_def)
  then have ex: "distinct ex" "set ex \<subseteq> answered st" "length ex < length (fst st) \<or> ex = []" "length au = length ex"
    using check_languages_excluded [OF c] by (auto simp: answered_def)
  have st'_ok: "accounts_ok once ps st'" "answered st' = answered st - set ex"
    using accounts_excluded [OF assms(1) ex(1, 2)] st' by auto
  have "card (answered st) = length (fst st)"
    using assms(1) distinct_card [of "map fst (fst st)"] by (simp add: accounts_ok_def answered_def)
  then have "ex \<noteq> [] \<longrightarrow> answered st' \<noteq> {}" "ex = [] \<longrightarrow> answered st' = answered st"
    using ex(1, 3) st'_ok(2) distinct_card [OF ex(1)] card_mono [of "set ex" "answered st"] by auto
  then show ?thesis using st'_ok(1) ex(4) by (auto simp: answered_def)
next
  case False
  then have "st' = st" "au = []" using assms(2) by (auto simp: verified_answers_def split: option.splits if_splits)
  then show ?thesis using assms(1) by simp
qed

text \<open>
  C21: A debate accounts for every provider it asked: each has an answer or an error, whatever order the
  calls end in and whatever is excluded for its language; none has both, unless a provider was asked
  twice; and the language check never excludes the last answer.
\<close>

theorem debate_accounts_for_every_provider:
  assumes "fst (run_debate dv now duration order dr w) = Inr (r, audit)" "\<And>n. set (order n) = {..<n}"
  shows "(db_providers_queried r \<noteq> [] \<longrightarrow>
      fst ` set (db_responses r) \<union> fst ` set (db_errors r) = set (db_providers_queried r)) \<and>
    (distinct (db_providers_queried r) \<longrightarrow> fst ` set (db_responses r) \<inter> fst ` set (db_errors r) = {}) \<and>
    (audit \<noteq> [] \<longrightarrow> db_responses r \<noteq> [])"
proof -
  obtain ps w1 where sel: "select_providers dv w = (Inr ps, w1)"
    using assms(1) by (auto simp: run_debate_def Let_def split: prod.splits sum.splits)
  show ?thesis
  proof (cases ps)
    case Nil
    then show ?thesis using assms(1) sel by (auto simp: run_debate_def Let_def)
  next
    case (Cons p qs)
    let ?dq = "\<lparr>dq_question = dr_question dr, dq_user_id = dr_user_id dr, dq_chat_id = dr_chat_id dr,
      dq_lang = effective_language dr, dq_override = provider_prompt dv dr, dq_model = dr_model dr\<rparr>"
    obtain results w2 where g: "gather_queries dv now ?dq ps (order (length ps)) w1 = (results, w2)" by fastforce
    obtain rs es ms au w3 where v: "verified_answers dv (dr_context dr) (effective_language dr) (dr_model dr)
        (dr_user_id dr) (dr_chat_id dr) (collect_answers ps results) w2 = (((rs, es, ms), au), w3)"
      by (metis prod.exhaust)
    have r: "db_responses r = rs" "db_errors r = es" "audit = au" "db_providers_queried r = ps"
      using assms(1) g v unfolding Cons
      by (auto simp: run_debate_def Let_def sel [unfolded Cons] split: prod.splits sum.splits if_splits)
    have "map_of results i \<noteq> None" if "i < length ps" for i
      using gathered_indices [of dv now ?dq ps "order (length ps)" w1] g assms(2) [of "length ps"] that
      by (simp add: map_of_eq_None_iff)
    then have "accounts_ok (distinct ps) (set ps) (collect_answers ps results)"
      using gathered_raise_nothing [of dv now ?dq ps "order (length ps)" w1] g by (intro accounts_collected) auto
    from accounts_verified [OF this v] show ?thesis using r
      by (auto simp: accounts_ok_def answered_def failed_def)
  qed
qed

section \<open>The judge is blind\<close>

lemma digit_char_inj: "d < 10 \<Longrightarrow> e < 10 \<Longrightarrow> digit_char d = digit_char e \<Longrightarrow> d = e"
  by (auto simp: digit_char_def dest!: arg_cong [of "char_of _" _ "of_char :: char \<Rightarrow> nat"])

lemma nat_decimal_not_Nil: "nat_decimal n \<noteq> []"
  by (subst nat_decimal.simps) simp

lemma Nil_not_nat_decimal: "[] \<noteq> nat_decimal n"
  using nat_decimal_not_Nil [of n] by simp

lemma nat_decimal_inj: "nat_decimal a = nat_decimal b \<Longrightarrow> a = b"
proof (induction a arbitrary: b rule: less_induct)
  case (less a)
  have unfold: "nat_decimal n = (if n < 10 then [digit_char n] else nat_decimal (n div 10) @ [digit_char (n mod 10)])" for n
    by (rule nat_decimal.simps)
  consider "a < 10" "b < 10" | "a \<ge> 10" "b \<ge> 10" | "a < 10" "b \<ge> 10" | "a \<ge> 10" "b < 10" by linarith
  then show ?case
  proof cases
    case 1
    then show ?thesis using less.prems unfold [of a] unfold [of b] by (auto intro: digit_char_inj)
  next
    case 2
    then have "nat_decimal (a div 10) = nat_decimal (b div 10)" "digit_char (a mod 10) = digit_char (b mod 10)"
      using less.prems unfold [of a] unfold [of b] by auto
    then have "a div 10 = b div 10" "a mod 10 = b mod 10" using less.IH [of "a div 10"] 2 by (auto intro: digit_char_inj)
    then show ?thesis by (metis div_mult_mod_eq)
  qed (use less.prems unfold [of a] unfold [of b] nat_decimal_not_Nil Nil_not_nat_decimal in auto)
qed

lemma judge_label_inj: "judge_label i = judge_label j \<Longrightarrow> i = j"
proof -
  assume eq: "judge_label i = judge_label j"
  have "i = j" if "i < 26" "j < 26"
    using eq that by (auto simp: judge_label_def dest!: arg_cong [of "char_of _" _ "of_char :: char \<Rightarrow> nat"])
  moreover have False if "(i < 26) \<noteq> (j < 26)"
    using eq that nat_decimal_not_Nil Nil_not_nat_decimal by (auto simp: judge_label_def split: if_splits)
  moreover have "i = j" if "\<not> i < 26" "\<not> j < 26" using eq that by (auto simp: judge_label_def dest: nat_decimal_inj)
  ultimately show "i = j" by blast
qed

lemma label_lookup:
  "map_of (map (\<lambda>(i, p, _). (judge_label i, p)) (enumerate k rs)) (judge_label (k + i)) =
   (if i < length rs then Some (fst (rs ! i)) else None)"
proof (induction rs arbitrary: k i)
  case (Cons r rs)
  show ?case
  proof (cases i)
    case (Suc j)
    then have "judge_label k \<noteq> judge_label (k + i)" using judge_label_inj by fastforce
    then show ?thesis using Cons.IH [of "Suc k" j] Suc by (auto split: prod.splits)
  qed (auto split: prod.splits)
qed simp

text \<open>
  C22: What the judge reads depends on the question, the language and the answers in their order, not on
  who gave them; and a verdict for the label of an answer, however many there are, names the provider
  that gave it, a draw nobody, any other label itself.
\<close>

theorem blind_verdict_names_the_right_provider:
  "(map snd responses = map snd responses' \<longrightarrow>
      build_judge_prompt question responses lang = build_judge_prompt question responses' lang) \<and>
   (\<forall>v. verdict_of str_of (label_to_provider responses) d = Inr v \<longrightarrow>
      (\<exists>winner. dget d ''winner'' (JStr []) = JStr winner \<and>
        fv_winner v = (if py_lower winner = ''tie'' then ''tie''
          else case map_of (label_to_provider responses) winner of None \<Rightarrow> winner | Some p \<Rightarrow> p))) \<and>
   (\<forall>i. map_of (label_to_provider responses) (judge_label i)
      = (if i < length responses then Some (fst (responses ! i)) else None))"
proof (intro conjI impI allI)
  assume same: "map snd responses = map snd responses'"
  have "map (\<lambda>(i, _, txt). answer_block i txt) (enumerate k rs) = map (\<lambda>(i, txt). answer_block i txt) (enumerate k (map snd rs))"
    for k and rs :: "(string \<times> string) list"
    by (induction rs arbitrary: k) auto
  then show "build_judge_prompt question responses lang = build_judge_prompt question responses' lang"
    using same by (simp only: build_judge_prompt_def)
next
  fix v assume "verdict_of str_of (label_to_provider responses) d = Inr v"
  then show "\<exists>winner. dget d ''winner'' (JStr []) = JStr winner \<and>
      fv_winner v = (if py_lower winner = ''tie'' then ''tie''
        else case map_of (label_to_provider responses) winner of None \<Rightarrow> winner | Some p \<Rightarrow> p)"
    by (auto simp: verdict_of_def split: json.splits sum.splits)
next
  fix i show "map_of (label_to_provider responses) (judge_label i)
      = (if i < length responses then Some (fst (responses ! i)) else None)"
    using label_lookup [of 0 responses i] by (simp add: label_to_provider_def)
qed

section \<open>The object in an answer\<close>

lemma closing_brace_bound: "closing_brace depth in_string escape s = Some n \<Longrightarrow> n \<le> length s"
  by (induction depth in_string escape s arbitrary: n rule: closing_brace.induct) (auto split: if_splits)

lemma brace_candidate_part: "brace_candidate s = Some c \<Longrightarrow> sublist c s"
proof -
  assume "brace_candidate s = Some c"
  then obtain n where "c = take n (dropWhile (\<lambda>c. c \<noteq> CHR ''{'') s)"
    by (auto simp: brace_candidate_def Let_def split: if_splits)
  then show ?thesis using sublist_suffix [of c "dropWhile (\<lambda>c. c \<noteq> CHR ''{'') s" s]
    by (simp add: prefix_imp_sublist take_is_prefix suffix_dropWhile)
qed

text \<open>
  C23: What the extraction returns is a part of the judge's answer, and it is valid JSON, so that the
  second parse of the same text never fails.
\<close>

theorem extracted_object_is_valid_json:
  assumes "extract_json_object loads raw_text = Inr (Some s)"
  shows "sublist s raw_text \<and> (\<exists>v. loads s = LoadsValue v) \<and>
    (\<forall>d. loads s = LoadsValue (JObj d) \<longrightarrow>
       parse_judge_response loads str_of raw_text labels = map_sum id Some (verdict_of str_of labels d))"
proof -
  let ?t = "py_strip raw_text"
  have strip: "sublist ?t raw_text" by (rule py_strip_sublist)
  have "sublist s ?t \<and> (\<exists>v. loads s = LoadsValue v)"
  proof -
    have "sublist (py_strip (regex_group g 1)) ?t" if "regex_search json_block_pattern ?t = Some g" for g
      using regex_group_sublist [OF that] py_strip_sublist sublist_order.order.trans by blast
    moreover have "sublist c ?t" if "brace_candidate ?t = Some c" for c by (rule brace_candidate_part [OF that])
    ultimately show ?thesis using assms
      by (auto simp: extract_json_object_def Let_def split: if_splits option.splits loads_result.splits)
  qed
  then show ?thesis using strip assms sublist_order.order.trans [of s ?t raw_text]
    by (auto simp: parse_judge_response_def)
qed

lemma extracted_object_is_valid_json_witness:
  "extract_json_object (\<lambda>s. if s = ''{1}'' then LoadsValue JNull else LoadsDecodeError) ''ok {1}.'' = Inr (Some ''{1}'') \<and>
   sublist ''{1}'' ''ok {1}.''"
proof -
  let ?l = "\<lambda>s. if s = ''{1}'' then LoadsValue JNull else LoadsDecodeError"
  have "extract_json_object ?l ''ok {1}.'' = Inr (Some ''{1}'')" by code_simp
  then show ?thesis using extracted_object_is_valid_json [of ?l "''ok {1}.''" "''{1}''"] by simp
qed

text \<open>Only the first brace is tried: braces in the prose before the object hide it.\<close>

lemma braces_in_prose_hide_the_object:
  "loads ''{x}'' = LoadsDecodeError \<Longrightarrow> extract_json_object loads ''Of {x}: {}'' = Inr None"
proof -
  assume l: "loads ''{x}'' = LoadsDecodeError"
  have "py_strip ''Of {x}: {}'' = ''Of {x}: {}''" "brace_candidate ''Of {x}: {}'' = Some ''{x}''"
    "regex_search json_block_pattern ''Of {x}: {}'' = None" by code_simp+
  then show ?thesis using l by (simp add: extract_json_object_def py_startswith_def)
qed

section \<open>A repair is not used\<close>

lemma excluded_part: "set (fst (exclude_answers code ex st)) \<subseteq> set (fst st)"
proof (induction ex arbitrary: st)
  case (Cons x ex)
  obtain rs es ms where "st = (rs, es, ms)" by (cases st)
  then show ?case using Cons.IH [of "(filter (\<lambda>(k, _). k \<noteq> x) rs, AList.update x (lang_excluded_message code) es, ms)"]
    by (auto simp: exclude_answers_def)
qed (simp add: exclude_answers_def)

text \<open>
  The check repairs an answer in the wrong language and then excludes it, or keeps it as it was: every
  answer of the result is one that a provider gave, never a repaired one.
\<close>

lemma repaired_answers_are_not_used:
  assumes "verified_answers dv context lang m uid cid st w = ((st', au), w1)"
  shows "set (fst st') \<subseteq> set (fst st)"
  using assms excluded_part [of lang _ st]
  by (auto simp: verified_answers_def split: option.splits if_splits prod.splits)

section \<open>A debate\<close>

definition answering :: "string \<Rightarrow> string option \<Rightarrow> unit llm_provider_impl" where
  "answering txt err = \<lparr>lp_is_available = (\<lambda>w. (Inr True, w)),
     lp_query = (\<lambda>w rq. (Inr \<lparr>pr_text = txt, pr_duration_seconds = 1, pr_provider_name = [], pr_model = None, pr_error = err\<rparr>, w))\<rparr>"

definition sample_composer :: instruction_compiler where
  "sample_composer = \<lparr>ic_time = None, ic_style = None, ic_awareness = None, ic_rule = (\<lambda>_. [])\<rparr>"

definition sample_debate :: "unit debate_orchestrator" where
  "sample_debate = \<lparr>do_router = \<lparr>rt_router = \<lparr>pv_providers = [(''claude_persistent'', answering ''yes indeed'' None),
       (''claude'', answering ''yes'' None), (''ollama_local'', answering [] (Some ''down''))],
       pv_default = ''claude'', pv_registry = \<lparr>reg_models = [], reg_alias_index = []\<rparr>\<rparr>, rt_cut_off = (\<lambda>_. False)\<rparr>,
     do_timeout = 60, do_composer = sample_composer, do_compiler = None, do_enforcement = None, do_configured = [],
     do_t = (\<lambda>k _ _. k), do_loads = (\<lambda>_. LoadsDecodeError), do_str = (\<lambda>_. []), do_terminate = (\<lambda>_. None)\<rparr>"

definition sample_request :: debate_request where
  "sample_request = \<lparr>dr_question = ''why'', dr_user_id = 1, dr_chat_id = 1, dr_user_lang = ''en'', dr_context = None,
     dr_plan = None, dr_model = None\<rparr>"

definition noon :: moment where
  "noon = \<lparr>mo_ts = 0, mo_date = [], mo_hour = 12, mo_weekday = 0, mo_clock = []\<rparr>"

definition sample_result :: debate_result where
  "sample_result = \<lparr>db_question = ''why'', db_responses = [(''claude_persistent'', ''yes indeed'')],
     db_errors = [(''ollama_local'', ''down'')], db_consensus_analysis = Some ''debate.only_one_provider'',
     db_final_verdict = None, db_duration_seconds = 3, db_providers_queried = [''claude_persistent'', ''ollama_local''],
     db_provider_models = []\<rparr>"

lemma sample_debate_result:
  "fst (run_debate sample_debate noon 3 (\<lambda>n. rev [0..<n]) sample_request ()) = Inr (sample_result, [])"
  by code_simp

lemma debate_accounts_for_every_provider_witness:
  "fst (run_debate sample_debate noon 3 (\<lambda>n. rev [0..<n]) sample_request ()) = Inr (sample_result, []) \<and>
   fst ` set (db_responses sample_result) \<inter> fst ` set (db_errors sample_result) = {}"
  using debate_accounts_for_every_provider [OF sample_debate_result] sample_debate_result
  by (simp add: sample_result_def atLeast0LessThan)

lemma blind_verdict_names_the_right_provider_witness:
  "map_of (label_to_provider [(''x'', ''no''), (''y'', ''yes'')]) ''B'' = Some ''y'' \<and>
   build_judge_prompt ''why'' [(''x'', ''no''), (''y'', ''yes'')] ''en'' = build_judge_prompt ''why'' [(''y'', ''no''), (''x'', ''yes'')] ''en''"
proof -
  have "judge_label 1 = ''B''" by code_simp
  moreover note t = blind_verdict_names_the_right_provider
    [of "[(''x'', ''no''), (''y'', ''yes'')]" "[(''y'', ''no''), (''x'', ''yes'')]" "''why''" "''en''" "\<lambda>_. []" "[]"]
  have "map_of (label_to_provider [(''x'', ''no''), (''y'', ''yes'')]) (judge_label 1) = Some ''y''"
    using spec [OF conjunct2 [OF conjunct2 [OF t]], of 1] by simp
  moreover have "build_judge_prompt ''why'' [(''x'', ''no''), (''y'', ''yes'')] ''en''
      = build_judge_prompt ''why'' [(''y'', ''no''), (''x'', ''yes'')] ''en''"
    using conjunct1 [OF t] by simp
  ultimately show ?thesis by simp
qed

end
