(* ===== verification/Spec2Isabelle.thy ===== *)
theory Spec2Isabelle
  imports RateGuarantees SkillInstaller PatternJudge EloRating NGramExtractor FingerprintMatcher MemoryGuarantees
    Bookmarks UserSettings ProviderFailover ExecutionKernel EnvScrubber SkillMatcher LanguageEnforcement LeakageFilter MemoryContext ChatService ChatStreaming TelegramStream DebateOrchestrator
begin

text \<open>
  Verification library of the Axolent bridge (\<open>bridge/\<close>): how users teach it skills and what a skill
  may do, what the bridge learns from its users, what it remembers of them, how much they may
  ask for, and how a request finds its language, its model and its prompt.

  \<^bold>\<open>The program.\<close> Axolent is a Telegram assistant. A user teaches it skills (/learn) or installs them
  from JSON; a skill is a \<^emph>\<open>contract\<close>, an immutable dataclass of 29 fields and 21 nested sections.
  The learn flow builds a contract from the text of the user, shows a draft of it, lets it be edited
  by follow-up messages, and on confirmation validates it, gives it its risk level, package
  type and checksum, and has the contract store write it to SQLite; the installer does the same
  for a contract that comes as JSON. At execution the permission gate and the capability broker read
  the permissions of the contract again. Beside this explicit way there is a statistical one: messages are
  normalised to events, n-grams and a Markov chain find recurring ones, hypotheses about them
  are stored with their evidence, and the judge decides on their status from Bayesian knowledge
  tracing, Elo ratings and FSRS decay. What a user asks to be remembered goes through two
  scanners into a memory of three layers. Every message passes the rate limiter first. The state is
  in \<open>DraftStore\<close>, the pending edits of the learn flow, the tables of SQLite (contracts, the seven
  hypothesis tables, memory entries, rate limits, profiles), the JSONL files, and the buckets of
  the rate limiter. All other modelled code is pure.

  \<^bold>\<open>The theories\<close>, in the order of their imports:

  \<^item> \<open>Prelude\<close>, \<open>PyJson\<close>, \<open>PyText\<close>, \<open>PyRegex\<close>: the error monad (a raised exception is \<open>Inl\<close>), Python
    strings, \<open>round\<close>, the double-precision product with 0.7; JSON values and \<open>json.dumps\<close>; string
    methods and SQL ordering; a backtracking matcher of regular expressions with captures.
  \<^item> \<open>ContractTypes\<close>, \<open>ContractRisk\<close>, \<open>ContractCodec\<close>, \<open>ContractRoundtrip\<close>, \<open>ContractDigest\<close>,
    \<open>ContractValidator\<close>: \<open>skill_contract.py\<close> and \<open>contract_validator.py\<close>: the dataclasses, risk level
    and package type as a maximum over a linear order, the strict \<open>from_dict\<close> with its round
    trip, canonical JSON and checksum, the rules V1 to V17.
  \<^item> \<open>PermissionGate\<close>, \<open>CapabilityBroker\<close>, \<open>AccessControl\<close>: both checkpoints, the abstract policy of
    a contract, the locale \<open>access_checker\<close> with its two interpretations, and their agreement.
  \<^item> \<open>OptimisticLock\<close>, \<open>DraftStore\<close>, \<open>ContractStore\<close>, \<open>StoreGuarantees\<close>: the locales of an update
    guarded by a token; \<open>draft_store.py\<close> and \<open>contract_store.py\<close> with their invariants under every
    order of operations, each SQL write split at its statement.
  \<^item> \<open>ContractBuilder\<close>, \<open>LearnFlow\<close>, \<open>LearnGuarantees\<close>, \<open>LearnProgress\<close>: \<open>contract_builder.py\<close> and
    \<open>learn_flow_service.py\<close> over the two stores, what every written row satisfies, and when a save
    succeeds.
  \<^item> \<open>SafeJson\<close>, \<open>SkillInstaller\<close>: \<open>safe_json.py\<close> and \<open>skill_installer.py\<close>, and the guarantee on all
    rows however they were written.
  \<^item> \<open>HypothesisStorage\<close>, \<open>HypothesisGuarantees\<close>: \<open>hypothesis_storage.py\<close>, the constraints of its seven
    tables and the life cycle of a hypothesis.
  \<^item> \<open>Bkt\<close>, \<open>EvidenceLedger\<close>, \<open>Fsrs\<close>, \<open>EloRating\<close>, \<open>CollisionDetector\<close>, \<open>PatternJudge\<close>: the statistics
    (\<open>bkt.py\<close>, \<open>evidence_ledger.py\<close>, \<open>fsrs_decay.py\<close>, \<open>elo_rating.py\<close>), collisions
    (\<open>collision_detector.py\<close>) and the judge (\<open>pattern_judge.py\<close>) that recommends status changes.
  \<^item> \<open>EventNormalizer\<close>, \<open>MarkovChain\<close>, \<open>NGramExtractor\<close>, \<open>FingerprintMatcher\<close>: events and the recognition
    of recurring ones (the modules of these names).
  \<^item> \<open>MemoryStores\<close>, \<open>MemoryService\<close>, \<open>MemoryGuarantees\<close>: \<open>memory_service.py\<close> over the SQLite and the
    JSONL backend, with the contract of a backend as the locale \<open>memory_store\<close>.
  \<^item> \<open>TokenBucket\<close>, \<open>UserProfiles\<close>, \<open>RateLimiter\<close>, \<open>RateBounds\<close>, \<open>RateGuarantees\<close>:
    \<open>rate_limiter.py\<close> with its persistence, the invariant over all operations and restarts, and
    the rate bounds.
  \<^item> \<open>StoreTables\<close>, \<open>Bookmarks\<close>, \<open>UserSettings\<close>: rows kept by key; \<open>bookmark_service.py\<close> over its two storages,
    \<open>settings_service.py\<close> over its table.
  \<^item> \<open>ModelSelection\<close>, \<open>PyReplace\<close>, \<open>TaskRouter\<close>: \<open>model_registry.py\<close> and \<open>model_service.py\<close>; \<open>str.replace\<close> and
    \<open>re.sub\<close>; \<open>task_router.py\<close>, which sorts a message into one of six slots and picks its model.
  \<^item> \<open>Providers\<close>, \<open>ProviderFailover\<close>: \<open>provider_router.py\<close> and the six providers as implementations of the
    locale \<open>llm_provider\<close>; \<open>fallback_resolver.py\<close>, the chain of providers.
  \<^item> \<open>PromptEscaping\<close>, \<open>Conversation\<close>, \<open>PromptBlocks\<close>: \<open>prompt_escaping.py\<close>; the history and the language of a
    chat (\<open>conversation_storage.py\<close>); the fixed parts of a prompt (\<open>personality.py\<close>, \<open>self_awareness_service.py\<close>).
  \<^item> \<open>LanguageDetection\<close>, \<open>LanguageResolver\<close>, \<open>LanguageContract\<close>: the language registry, the orchestrator of the
    detectors, the sticky language of a chat with its smart switch, and the contracts by model.
  \<^item> \<open>ProactiveTriggers\<close>, \<open>ExecutionKernel\<close>, \<open>EnvScrubber\<close>: \<open>proactive_trigger_service.py\<close>; the way from a request
    to its context, plan and prompt (\<open>execution/\<close>, \<open>prompt_composer.py\<close>); \<open>env_scrubber.py\<close>.
  \<^item> \<open>SkillMatcher\<close>: \<open>skill_matcher.py\<close>, which learned skill a message triggers.
  \<^item> \<open>ResponseVerifier\<close>, \<open>LanguageEnforcement\<close>: \<open>verifier.py\<close>, \<open>repair_service.py\<close> and \<open>enforcement.py\<close>, the
    check of an answer's language and its repair.
  \<^item> \<open>LeakageFilter\<close>: \<open>leakage_filter.py\<close>, whether an answer gives away the system prompt.
  \<^item> \<open>MemoryContext\<close>: what of the memory goes into a prompt (\<open>_build_memory_context\<close> of \<open>chat_service.py\<close>), with
    \<open>memory_conflict_detector.py\<close> and \<open>prompt_delimiters.py\<close>.
  \<^item> \<open>StyleAdaption\<close>, \<open>ChatService\<close>: \<open>style_adaption_service.py\<close>; \<open>process_user_message\<close> of \<open>chat_service.py\<close> with
    \<open>skill_formatting.py\<close>, the one call that all the services above serve.
  \<^item> \<open>StreamGuard\<close>, \<open>ChatStreaming\<close>: \<open>stream_guard.py\<close>; \<open>process_user_message_streaming\<close> and
    \<open>save_streaming_result\<close> of \<open>chat_service.py\<close>.
  \<^item> \<open>Markdown\<close>, \<open>TelegramSplit\<close>, \<open>TelegramStream\<close>: \<open>domain/markdown.py\<close>; \<open>streaming_handler.py\<close>: where a text may
    be cut, and a streamed answer as edits of Telegram messages.
  \<^item> \<open>DebateOrchestrator\<close>: \<open>debate_orchestrator.py\<close>, the same question to several providers and the review by a judge.

  \<^bold>\<open>What the properties show.\<close> Every stored skill, taught or installed, was scanned, loads, and if it
  may execute it is confined; a learned one reaches nothing. Risk and package type are the
  maximum of what is declared; the codec loses nothing; the validator accepts exactly the
  admissible contracts; gate and broker grant the declared policy and agree, except on an empty name. Saves are all or
  nothing, belong to their user, expire, and lose no update; a previewed skill can be saved. The
  contract and hypothesis tables stay consistent under every order of operations. The judge
  promotes only above its thresholds and follows the status machine, with two exceptions that are
  stated. The statistics stay in their bounds and react in the right direction, the miners find
  exactly what recurs. Memory is private, scanned, and, apart from the search, the same over both backends.
  A user of a limited profile that does not change is granted at most twice the limit in any interval shorter
  than a window, a request is charged all or nothing, usage survives restarts. The model a user sets for a slot is the one the router resolves for it, the failover asks
  the providers in order, and with the shipped ones it answers unless the stream of the pool raises an unforeseen
  exception. One language goes from a request to its prompt, and one resolution switches the language of a chat
  only on a sure detection. Both bookmark storages refine one specification (for plain search terms), settings
  are well typed and read as written, the history is the end of the conversation. A user's text without delimiters starts no turn,
  the subprocess sees no secret, and the assistant speaks up unasked at most once a day. The history of a chat
  records what was answered, an injected skill has passed the gate, a delivered answer has passed the filter for
  leaks, the memory in a prompt keeps its delimiters if identifiers and categories hold none, and a stream is passed on or cut. What Telegram gets as
  HTML is safe markup, and the parts of a streamed answer are the answer, except for a rollover exactly at its
  end. A debate accounts for every provider it asked, and
  its judge does not know them. Where the code departs from its documentation a lemma states
  it.

  \<^bold>\<open>Representation.\<close> Python integers are \<open>int\<close>; the 64-bit limit of SQLite is checked where a version
  is bound. Strings are over the code points below 256. Time stamps of the rate limiter are exact
  rationals, the statistics are over reals or rationals, not doubles; NaN and the infinities are
  values where the code lets them in. The clock is an argument; where an operation
  reads it more than once and the readings can be told apart in what it leaves, they are separate arguments. The one
  double-precision computation whose rounding matters (0.7 times a limit) is modelled bit by bit.
  Messages of log lines are left out; the kind of an error and the fields it names are kept.
  Operations that hold the lock of their object are atomic. A table is the list of its rows in the
  order of their row ids.

  \<^bold>\<open>Parameters.\<close> What is not the repository's code is an argument: SHA-256 and the text of a float
  (record \<open>platform\<close>), which of several violated constraints SQLite reports, the full-text index,
  the JSON parser, path resolution and the file system, clock readings, new UUIDs and time
  stamps. The scanners and privacy filters are arguments of the components that call them. No property
  assumes anything of them, except that \<open>json_tampering_is_detected\<close> assumes no collision of the digest
  on the two texts it compares and \<open>previewed_skill_can_be_saved\<close> names what it needs of digest and clock.
  All loops are structural recursions or have a termination proof; no fuel is used, except that a
  group of a regular expression is iterated at most its least count plus the length of the text plus
  one times, which is enough because an empty iteration beyond the least count ends the loop.

  \<^bold>\<open>Not modelled\<close>: The Telegram handlers (they unpack updates and call the services above), 
  the scanners' own pattern tables (large tables over Unicode), and the translation tables. The language models, their transports and
  the language detectors are parameters.
\<close>

end
